(* ===== verification/Prelude.thy ===== *)
theory Prelude
  imports Main "HOL-Library.Word" "HOL-Library.Char_ord" "HOL-Library.List_Lexorder"
begin

text \<open>
  Shared vocabulary of the development: the machine types of the Rust sources, the result type
  of fallible functions, bit lists of machine words, and the generic lemmas the components use.

  \<^item> \<open>u8\<close>, \<open>u16\<close>, \<open>u64\<close> are words of that width; arithmetic on them wraps, as it does in the
    release profile of \<^verbatim>\<open>src/Cargo.toml\<close>, which does not switch overflow checks on. \<open>usize\<close> values
    (lengths and indices) are \<open>nat\<close>.
  \<^item> A Rust \<open>&str\<close> or \<open>String\<close> is a \<open>string\<close>: the list of its UTF-8 bytes, so that \<open>length\<close> is
    \<open>str::len\<close> and byte slices are \<open>take\<close> and \<open>drop\<close>.
  \<^item> \<open>anyhow::Result\<close> with its panics is \<open>'a rres\<close>: \<open>Ok\<close>, \<open>Err\<close> with a message for every \<open>bail!\<close> and
    \<open>?\<close>, \<open>Panic\<close> for \<open>unwrap\<close>, \<open>expect\<close>, \<open>assert!\<close> and out-of-range indexing.
\<close>

unbundle bit_operations_syntax

named_theorems rust_simps \<open>equations of the result type and of the standard library model\<close>
named_theorems bits_simps \<open>equations of most-significant-first bit lists\<close>

type_synonym u8 = "8 word"
type_synonym u16 = "16 word"
type_synonym u64 = "64 word"
type_synonym u128 = "128 word"
type_synonym bytes = "u8 list"

text \<open>The vendor's \<open>AccountAddress\<close> and \<open>AuthenticationKey\<close>: arrays of 32 bytes.\<close>

type_synonym account_address = bytes
type_synonym auth_key = bytes

section \<open>Results\<close>

datatype 'a rres = Ok (the_ok: 'a) | Err string | Panic string

fun rbind :: "'a rres \<Rightarrow> ('a \<Rightarrow> 'b rres) \<Rightarrow> 'b rres" where
  "rbind (Ok x) f = f x"
| "rbind (Err e) f = Err e"
| "rbind (Panic p) f = Panic p"

fun is_ok :: "'a rres \<Rightarrow> bool" where
  "is_ok (Ok x) = True"
| "is_ok (Err e) = False"
| "is_ok (Panic p) = False"

fun is_err :: "'a rres \<Rightarrow> bool" where
  "is_err (Ok x) = False"
| "is_err (Err e) = True"
| "is_err (Panic p) = False"

fun is_panic :: "'a rres \<Rightarrow> bool" where
  "is_panic (Ok x) = False"
| "is_panic (Err e) = False"
| "is_panic (Panic p) = True"

text \<open>\<open>Option::context\<close>, \<open>Option::expect\<close>, and \<open>Result::unwrap\<close>/\<open>expect\<close>.\<close>

fun or_err :: "string \<Rightarrow> 'a option \<Rightarrow> 'a rres" where
  "or_err m None = Err m"
| "or_err m (Some x) = Ok x"

fun or_panic :: "string \<Rightarrow> 'a option \<Rightarrow> 'a rres" where
  "or_panic m None = Panic m"
| "or_panic m (Some x) = Ok x"

fun unwrap :: "string \<Rightarrow> 'a rres \<Rightarrow> 'a rres" where
  "unwrap m (Ok x) = Ok x"
| "unwrap m (Err e) = Panic m"
| "unwrap m (Panic p) = Panic p"

text \<open>\<open>slice[i]\<close> on a \<open>Vec\<close> or slice: out of range it panics.\<close>

definition index :: "'a list \<Rightarrow> nat \<Rightarrow> 'a rres" where
  "index xs i = (if i < length xs then Ok (xs ! i) else Panic ''index out of bounds'')"

text \<open>\<open>iter().map(f).collect::<Result<Vec<_>,_>>()\<close>: stops at the first error.\<close>

fun rmapM :: "('a \<Rightarrow> 'b rres) \<Rightarrow> 'a list \<Rightarrow> 'b list rres" where
  "rmapM f [] = Ok []"
| "rmapM f (x # xs) = rbind (f x) (\<lambda>y. rbind (rmapM f xs) (\<lambda>ys. Ok (y # ys)))"

lemma rbind_eq_Ok [rust_simps]: "rbind r f = Ok y \<longleftrightarrow> (\<exists>x. r = Ok x \<and> f x = Ok y)"
  by (cases r) auto

lemma rbind_OkE:
  assumes "rbind r f = Ok y"
  obtains x where "r = Ok x" and "f x = Ok y"
  using assms by (cases r) auto

lemma rbind_eq_Err [rust_simps]: "rbind r f = Err e \<longleftrightarrow> r = Err e \<or> (\<exists>x. r = Ok x \<and> f x = Err e)"
  by (cases r) auto

lemma or_err_eq_Ok [rust_simps]: "or_err m x = Ok y \<longleftrightarrow> x = Some y"
  by (cases x) auto

lemma or_panic_eq_Ok [rust_simps]: "or_panic m x = Ok y \<longleftrightarrow> x = Some y"
  by (cases x) auto

lemma unwrap_eq_Ok [rust_simps]: "unwrap m r = Ok y \<longleftrightarrow> r = Ok y"
  by (cases r) auto

lemma index_eq_Ok [rust_simps]: "index xs i = Ok y \<longleftrightarrow> i < length xs \<and> xs ! i = y"
  by (auto simp: index_def)

lemma rmapM_Ok: "(\<And>x. x \<in> set xs \<Longrightarrow> f x = Ok (g x)) \<Longrightarrow> rmapM f xs = Ok (map g xs)"
  by (induction xs) auto

lemma rmapM_eq_Ok:
  "rmapM f xs = Ok ys \<longleftrightarrow> length ys = length xs \<and> (\<forall>i < length xs. f (xs ! i) = Ok (ys ! i))"
proof (induction xs arbitrary: ys)
  case Nil
  then show ?case by auto
next
  case (Cons x xs)
  show ?case
    by (cases ys) (auto simp: rust_simps Cons.IH nth_Cons split: nat.splits)
qed

section \<open>Bits of machine words\<close>

text \<open>The low \<open>n\<close> bits of a word, most significant first.\<close>

definition bits_msb :: "nat \<Rightarrow> 'a::len word \<Rightarrow> bool list" where
  "bits_msb n w = map (bit w) (rev [0..<n])"

lemma length_bits_msb [simp]: "length (bits_msb n w) = n"
  by (simp add: bits_msb_def)

lemma bits_msb_0 [simp]: "bits_msb 0 w = []"
  by (simp add: bits_msb_def)

lemma bits_msb_Suc: "bits_msb (Suc n) w = bit w n # bits_msb n w"
  by (simp add: bits_msb_def)

lemma nth_bits_msb: "i < n \<Longrightarrow> bits_msb n w ! i = bit w (n - 1 - i)"
  by (simp add: bits_msb_def rev_nth)

lemma bits_msb_eq_iff:
  "bits_msb n v = bits_msb n w \<longleftrightarrow> (\<forall>i < n. bit v i = bit w i)"
  by (auto simp: bits_msb_def)

lemma bits_msb_inj:
  fixes v w :: "'a::len word"
  assumes "bits_msb n v = bits_msb n w" and "unat v < 2 ^ n" and "unat w < 2 ^ n"
  shows "v = w"
proof (rule bit_word_eqI)
  fix i assume "i < LENGTH('a)"
  have high: "\<not> bit u i" if "unat u < 2 ^ n" "n \<le> i" for u :: "'a word"
  proof -
    have "take_bit n (unat u) = unat u"
      using that(1) by (simp add: take_bit_nat_eq_self)
    then have "bit (unat u) i = (i < n \<and> bit (unat u) i)"
      by (metis bit_take_bit_iff)
    then show ?thesis
      using that(2) by (simp add: bit_unsigned_iff)
  qed
  show "bit v i = bit w i"
  proof (cases "i < n")
    case True
    then show ?thesis using assms(1) by (simp add: bits_msb_eq_iff)
  next
    case False
    then show ?thesis using high[of v] high[of w] assms(2,3) by simp
  qed
qed

lemma bits_msb_append [bits_simps]:
  "bits_msb m (drop_bit n w) @ bits_msb n w = bits_msb (m + n) w"
  by (rule nth_equalityI) (auto simp: nth_append nth_bits_msb bit_simps intro!: arg_cong[where f = "bit w"])

lemma bits_msb_combine [bits_simps]:
  fixes a b :: "'a::len word"
  assumes "m + n \<le> LENGTH('a)"
  shows "bits_msb (m + n) (push_bit n a OR (b AND mask n)) = bits_msb m a @ bits_msb n b"
proof (rule nth_equalityI)
  fix i assume "i < length (bits_msb (m + n) (push_bit n a OR (b AND mask n)))"
  then have i: "i < m + n" by simp
  then have small: "m + n - 1 - i < LENGTH('a)" using assms by simp
  show "bits_msb (m + n) (push_bit n a OR (b AND mask n)) ! i = (bits_msb m a @ bits_msb n b) ! i"
  proof (cases "i < m")
    case True
    then have "m + n - 1 - i - n = m - 1 - i" "n \<le> m + n - 1 - i" by auto
    with True i small show ?thesis
      by (simp add: nth_append nth_bits_msb bit_simps)
  next
    case False
    then have "m + n - 1 - i = n - 1 - (i - m)" "m + n - 1 - i < n" using i by auto
    with False i small show ?thesis
      by (simp add: nth_append nth_bits_msb bit_simps)
  qed
qed simp

lemma bits_msb_ucast [bits_simps]:
  "n \<le> LENGTH('b::len) \<Longrightarrow> n \<le> LENGTH('a::len) \<Longrightarrow>
     bits_msb n (ucast (w :: 'a word) :: 'b word) = bits_msb n w"
  by (auto simp: bits_msb_def bit_simps)

text \<open>A word read from a bit list, most significant bit first.\<close>

definition of_bits :: "bool list \<Rightarrow> 'a::len word" where
  "of_bits bs = foldl (\<lambda>v b. push_bit 1 v OR of_bool b) 0 bs"

lemma of_bits_Nil [simp]: "of_bits [] = 0"
  by (simp add: of_bits_def)

lemma of_bits_snoc: "of_bits (bs @ [b]) = push_bit 1 (of_bits bs) OR of_bool b"
  by (simp add: of_bits_def)

lemma bit_shift_or:
  fixes v :: "'a::len word"
  shows "bit (push_bit 1 v OR of_bool b) (Suc j) \<longleftrightarrow> bit v j \<and> Suc j < LENGTH('a)"
proof -
  have "\<not> bit (of_bool b :: 'a word) (Suc j)"
    by (cases b) (simp_all add: bit_1_iff)
  moreover have "bit (push_bit 1 v) (Suc j) \<longleftrightarrow> bit v j \<and> Suc j < LENGTH('a)"
    using bit_push_bit_iff[of 1 v "Suc j"] by auto
  ultimately show ?thesis by (simp only: bit_or_iff) blast
qed

lemma bit_of_bits:
  assumes "length bs \<le> LENGTH('a)"
  shows "bit (of_bits bs :: 'a::len word) i \<longleftrightarrow> i < length bs \<and> bs ! (length bs - 1 - i)"
  using assms
proof (induction bs arbitrary: i rule: rev_induct)
  case Nil
  then show ?case by simp
next
  case (snoc b bs)
  show ?case
  proof (cases i)
    case 0
    then show ?thesis by (simp add: of_bits_snoc nth_append bit_0 even_or_iff)
  next
    case (Suc j)
    have "bit (of_bits (bs @ [b]) :: 'a word) (Suc j) \<longleftrightarrow> bit (of_bits bs :: 'a word) j \<and> Suc j < LENGTH('a)"
      by (cases b) (simp_all only: of_bits_snoc bit_shift_or)
    also have "bit (of_bits bs :: 'a word) j \<longleftrightarrow> j < length bs \<and> bs ! (length bs - 1 - j)"
      using snoc.IH[of j] snoc.prems by simp
    finally show ?thesis
      using Suc snoc.prems by (auto simp add: nth_append)
  qed
qed

lemma bits_msb_of_bits [bits_simps]:
  assumes "length bs = n" and "n \<le> LENGTH('a)"
  shows "bits_msb n (of_bits bs :: 'a::len word) = bs"
proof (rule nth_equalityI)
  fix i assume "i < length (bits_msb n (of_bits bs :: 'a word))"
  with assms show "bits_msb n (of_bits bs :: 'a word) ! i = bs ! i"
    by (simp add: nth_bits_msb bit_of_bits)
qed (use assms in simp)

lemma of_bits_bound:
  assumes "length bs < LENGTH('a)"
  shows "unat (of_bits bs :: 'a::len word) < 2 ^ length bs"
proof -
  have "take_bit (length bs) (of_bits bs :: 'a word) = of_bits bs"
    using assms by (intro bit_word_eqI) (auto simp: bit_simps bit_of_bits)
  then have "unat (of_bits bs :: 'a word) = take_bit (length bs) (unat (of_bits bs :: 'a word))"
    by (metis unsigned_take_bit_eq)
  then show ?thesis
    by (metis take_bit_nat_less_exp)
qed

text \<open>The bits of a byte string.\<close>

definition byte_bits :: "bytes \<Rightarrow> bool list" where
  "byte_bits bs = concat (map (bits_msb 8) bs)"

lemma byte_bits_Nil [simp]: "byte_bits [] = []"
  by (simp add: byte_bits_def)

lemma byte_bits_Cons [simp]: "byte_bits (b # bs) = bits_msb 8 b @ byte_bits bs"
  by (simp add: byte_bits_def)

lemma byte_bits_append [simp]: "byte_bits (xs @ ys) = byte_bits xs @ byte_bits ys"
  by (simp add: byte_bits_def)

lemma length_byte_bits [simp]: "length (byte_bits bs) = 8 * length bs"
  by (induction bs) auto

lemma nth_byte_bits:
  "i < 8 * length bs \<Longrightarrow> byte_bits bs ! i = bit (bs ! (i div 8)) (7 - i mod 8)"
proof (induction bs arbitrary: i)
  case Nil
  then show ?case by simp
next
  case (Cons b bs)
  show ?case
  proof (cases "i < 8")
    case True
    then show ?thesis by (simp add: nth_append nth_bits_msb)
  next
    case False
    then have "i div 8 = Suc ((i - 8) div 8)" and "i mod 8 = (i - 8) mod 8"
      by (simp_all add: le_div_geq le_mod_geq)
    with False Cons show ?thesis by (simp add: nth_append)
  qed
qed

lemma byte_eqI: "bits_msb 8 v = bits_msb 8 w \<Longrightarrow> v = (w :: u8)"
  by (rule bit_word_eqI) (simp add: bits_msb_eq_iff)

lemma byte_bits_inj: "byte_bits xs = byte_bits ys \<Longrightarrow> xs = ys"
proof (induction xs arbitrary: ys)
  case Nil
  then show ?case by (cases ys) (auto dest: arg_cong[where f = length])
next
  case (Cons x xs)
  then obtain y zs where ys: "ys = y # zs"
    by (cases ys) (auto dest: arg_cong[where f = length])
  with Cons show ?case by (auto dest: byte_eqI)
qed

section \<open>Lists\<close>

text \<open>\<open>iter().position\<close>, \<open>find\<close> and \<open>find_map\<close> on slices.\<close>

lemma unat_plus_one:
  assumes "x < (y :: 'a::len word)"
  shows "unat (x + 1) = unat x + 1"
proof -
  have "unat y < 2 ^ LENGTH('a)" by (rule unsigned_less)
  with assms have "unat x + 1 < 2 ^ LENGTH('a)" unfolding word_less_nat_alt by linarith
  then show ?thesis by (simp add: unat_word_ariths)
qed

lemma foldl_plus: "foldl (+) z xs = z + sum_list (xs :: 'a::monoid_add list)"
  by (induction xs arbitrary: z) (simp_all add: add.assoc)

fun find_index :: "('a \<Rightarrow> bool) \<Rightarrow> 'a list \<Rightarrow> nat option" where
  "find_index P [] = None"
| "find_index P (x # xs) = (if P x then Some 0 else map_option Suc (find_index P xs))"

lemma find_index_Some:
  "find_index P xs = Some i \<longleftrightarrow> i < length xs \<and> P (xs ! i) \<and> (\<forall>j < i. \<not> P (xs ! j))"
proof (induction xs arbitrary: i)
  case Nil
  then show ?case by simp
next
  case (Cons x xs)
  show ?case
    by (cases i) (auto simp: Cons.IH All_less_Suc2)
qed

lemma find_index_None: "find_index P xs = None \<longleftrightarrow> (\<forall>x \<in> set xs. \<not> P x)"
  by (induction xs) auto

text \<open>\<open>Vec::remove(i)\<close>, for \<open>i\<close> in range.\<close>

definition remove_at :: "nat \<Rightarrow> 'a list \<Rightarrow> 'a list" where
  "remove_at i xs = take i xs @ drop (Suc i) xs"

lemma length_remove_at: "i < length xs \<Longrightarrow> length (remove_at i xs) = length xs - 1"
  by (simp add: remove_at_def)

section \<open>Steps on a state\<close>

text \<open>A method on \<open>&mut self\<close>, or a function with an effect: its result and the state after it.\<close>

type_synonym 's step = "'s \<Rightarrow> unit rres \<times> 's"

text \<open>Statement sequence: an error or a panic ends the function.\<close>

fun seq :: "unit rres \<times> 's \<Rightarrow> 's step \<Rightarrow> unit rres \<times> 's" where
  "seq (Ok _, s) k = k s"
| "seq (Err e, s) k = (Err e, s)"
| "seq (Panic p, s) k = (Panic p, s)"

fun for_each :: "('a \<Rightarrow> 's step) \<Rightarrow> 'a list \<Rightarrow> 's step" where
  "for_each f [] s = (Ok (), s)"
| "for_each f (x # xs) s = seq (f x s) (for_each f xs)"

text \<open>A fallible computation that does not touch the state, followed by a step.\<close>

fun with_val :: "'a rres \<Rightarrow> ('a \<Rightarrow> 's step) \<Rightarrow> 's step" where
  "with_val (Ok x) k s = k x s"
| "with_val (Err e) k s = (Err e, s)"
| "with_val (Panic p) k s = (Panic p, s)"

lemma seq_skip [simp]: "seq p (\<lambda>s. (Ok (), s)) = p"
  by (cases p; cases "fst p") auto

lemma seq_assoc: "seq (seq p f) g = seq p (\<lambda>s. seq (f s) g)"
  by (cases p; cases "fst p") auto

lemma for_each_eqs: "for_each f [] = (\<lambda>s. (Ok (), s))"
  "for_each f (x # xs) = (\<lambda>s. seq (f x s) (for_each f xs))"
  by (simp_all add: fun_eq_iff)

lemma for_each_append: "for_each f (xs @ ys) = (\<lambda>s. seq (for_each f xs s) (for_each f ys))"
  by (induction xs) (simp_all add: for_each_eqs seq_assoc)

lemma for_each_map: "for_each f (map g xs) = for_each (\<lambda>x. f (g x)) xs"
  by (induction xs) (simp_all add: for_each_eqs)

lemma for_each_cong: "(\<And>x s. x \<in> set xs \<Longrightarrow> f x s = g x s) \<Longrightarrow> for_each f xs = for_each g xs"
  by (induction xs) (simp_all add: for_each_eqs)

lemma seq_eq_Ok [rust_simps]: "seq p k = (Ok u, s') \<longleftrightarrow> (\<exists>s. p = (Ok (), s) \<and> k s = (Ok u, s'))"
  by (cases p; cases "fst p") auto

lemma with_val_eq_Ok [rust_simps]: "with_val r k s = (Ok u, s') \<longleftrightarrow> (\<exists>x. r = Ok x \<and> k x s = (Ok u, s'))"
  by (cases r) auto

text \<open>What every step keeps, a sequence keeps, also one that fails half way.\<close>

lemma seq_keeps: "(\<And>s. f (snd (k s)) = f s) \<Longrightarrow> f (snd (seq p k)) = f (snd p)"
  by (cases p; cases "fst p") auto

lemma with_val_keeps: "(\<And>x. f (snd (k x s)) = f s) \<Longrightarrow> f (snd (with_val r k s)) = f s"
  by (cases r) auto

lemma for_each_keeps: "(\<And>x s. f (snd (g x s)) = f s) \<Longrightarrow> f (snd (for_each g xs s)) = f s"
  by (induction xs arbitrary: s) (simp_all add: seq_keeps[where f = f])

section \<open>Effects with a result\<close>

text \<open>
  A function that acts on a state and returns a result, such as an \<open>async fn\<close> on a network client: \<open>io_bind\<close> is
  \<open>?\<close> followed by the rest of the function, \<open>io_match\<close> a \<open>match\<close> on the result, \<open>io_of\<close> a result that does not touch the
  state. A panic ends the function in every case.
\<close>

type_synonym ('a, 's) io = "'s \<Rightarrow> 'a rres \<times> 's"

definition io_of :: "'a rres \<Rightarrow> ('a, 's) io" where
  "io_of r = (\<lambda>s. (r, s))"

definition io_match :: "('a, 's) io \<Rightarrow> ('a \<Rightarrow> ('b, 's) io) \<Rightarrow> (string \<Rightarrow> ('b, 's) io) \<Rightarrow> ('b, 's) io" where
  "io_match m ok err = (\<lambda>s. case m s of
     (Ok x, t) \<Rightarrow> ok x t
   | (Err e, t) \<Rightarrow> err e t
   | (Panic p, t) \<Rightarrow> (Panic p, t))"

definition io_bind :: "('a, 's) io \<Rightarrow> ('a \<Rightarrow> ('b, 's) io) \<Rightarrow> ('b, 's) io" where
  "io_bind m k = io_match m k (\<lambda>e. io_of (Err e))"

lemma io_of_app [simp]: "io_of r s = (r, s)"
  by (simp add: io_of_def)

lemma io_match_app [simp]:
  "m s = (Ok x, t) \<Longrightarrow> io_match m ok err s = ok x t"
  "m s = (Err e, t) \<Longrightarrow> io_match m ok err s = err e t"
  "m s = (Panic p, t) \<Longrightarrow> io_match m ok err s = (Panic p, t)"
  by (simp_all add: io_match_def)

lemma io_bind_app [simp]:
  "m s = (Ok x, t) \<Longrightarrow> io_bind m k s = k x t"
  "m s = (Err e, t) \<Longrightarrow> io_bind m k s = (Err e, t)"
  "m s = (Panic p, t) \<Longrightarrow> io_bind m k s = (Panic p, t)"
  by (simp_all add: io_bind_def)

lemma io_bind_of [simp]:
  "io_bind (io_of (Ok x)) k = k x" "io_bind (io_of (Err e)) k = io_of (Err e)" "io_bind (io_of (Panic p)) k = io_of (Panic p)"
  by (simp_all add: io_bind_def io_match_def io_of_def)

lemma io_match_of [simp]:
  "io_match (io_of (Ok x)) ok err = ok x" "io_match (io_of (Err e)) ok err = err e"
  "io_match (io_of (Panic p)) ok err = io_of (Panic p)"
  by (simp_all add: io_match_def io_of_def)

lemma io_bind_assoc: "io_bind (io_bind m k) l = io_bind m (\<lambda>x. io_bind (k x) l)"
  by (auto simp: io_bind_def io_match_def fun_eq_iff split: prod.splits rres.splits)

lemma io_bind_eq_Ok [rust_simps]: "io_bind m k s = (Ok y, u) \<longleftrightarrow> (\<exists>x t. m s = (Ok x, t) \<and> k x t = (Ok y, u))"
  by (auto simp: io_bind_def io_match_def split: prod.splits rres.splits)

lemma io_of_eq [rust_simps]: "io_of r s = (q, t) \<longleftrightarrow> r = q \<and> s = t"
  by (simp add: io_of_def)

text \<open>Which part of the state an effect leaves alone.\<close>

definition io_keeps :: "('s \<Rightarrow> 'v) \<Rightarrow> ('a, 's) io \<Rightarrow> bool" where
  "io_keeps f m \<longleftrightarrow> (\<forall>s. f (snd (m s)) = f s)"

named_theorems io_keeps_intros \<open>effects that leave a part of the state alone\<close>

lemma io_keepsD: "io_keeps f m \<Longrightarrow> f (snd (m s)) = f s"
  by (simp add: io_keeps_def)

lemma io_keepsD2: "io_keeps f m \<Longrightarrow> m s = (r, t) \<Longrightarrow> f t = f s"
  by (metis io_keepsD snd_conv)

lemma io_keeps_of [io_keeps_intros]: "io_keeps f (io_of r)"
  by (simp add: io_keeps_def)

lemma io_keeps_match [io_keeps_intros]:
  "io_keeps f m \<Longrightarrow> (\<And>x. io_keeps f (ok x)) \<Longrightarrow> (\<And>e. io_keeps f (err e)) \<Longrightarrow> io_keeps f (io_match m ok err)"
proof -
  assume m: "io_keeps f m" and k: "\<And>x. io_keeps f (ok x)" "\<And>e. io_keeps f (err e)"
  have "f (snd (io_match m ok err s)) = f s" for s
  proof (cases "m s")
    case (Pair r t)
    with io_keepsD2[OF m Pair] k[THEN io_keepsD] show ?thesis by (cases r) simp_all
  qed
  then show ?thesis by (simp add: io_keeps_def)
qed

lemma io_keeps_bind [io_keeps_intros]: "io_keeps f m \<Longrightarrow> (\<And>x. io_keeps f (k x)) \<Longrightarrow> io_keeps f (io_bind m k)"
  unfolding io_bind_def by (intro io_keeps_intros)

text \<open>Which properties of the state an effect preserves, whatever it returns.\<close>

definition io_preserves :: "('s \<Rightarrow> bool) \<Rightarrow> ('a, 's) io \<Rightarrow> bool" where
  "io_preserves I m \<longleftrightarrow> (\<forall>s. I s \<longrightarrow> I (snd (m s)))"

named_theorems io_preserves_intros \<open>effects that preserve an invariant\<close>

lemma io_preservesD: "io_preserves I m \<Longrightarrow> I s \<Longrightarrow> m s = (r, t) \<Longrightarrow> I t"
  by (metis io_preserves_def snd_conv)

lemma io_preserves_of [io_preserves_intros]: "io_preserves I (io_of r)"
  by (simp add: io_preserves_def)

lemma io_preserves_match [io_preserves_intros]:
  assumes "io_preserves I m" and "\<And>x. io_preserves I (ok x)" and "\<And>e. io_preserves I (err e)"
  shows "io_preserves I (io_match m ok err)"
proof -
  have "I (snd (io_match m ok err s))" if "I s" for s
  proof (cases "m s")
    case (Pair r t)
    with io_preservesD[OF assms(1) that Pair] assms(2,3)[unfolded io_preserves_def] show ?thesis
      by (cases r) simp_all
  qed
  then show ?thesis by (simp add: io_preserves_def)
qed

lemma io_preserves_bind [io_preserves_intros]:
  "io_preserves I m \<Longrightarrow> (\<And>x. io_preserves I (k x)) \<Longrightarrow> io_preserves I (io_bind m k)"
  unfolding io_bind_def by (intro io_preserves_intros)

lemma io_preserves_if [io_preserves_intros]:
  "(b \<Longrightarrow> io_preserves I m) \<Longrightarrow> (\<not> b \<Longrightarrow> io_preserves I n) \<Longrightarrow> io_preserves I (if b then m else n)"
  by simp

lemma io_preserves_option [io_preserves_intros]:
  "(\<And>x. y = Some x \<Longrightarrow> io_preserves I (f x)) \<Longrightarrow> (y = None \<Longrightarrow> io_preserves I n) \<Longrightarrow>
   io_preserves I (case y of Some x \<Rightarrow> f x | None \<Rightarrow> n)"
  by (simp split: option.split)

end
