(* ===== verification/F64.thy ===== *)
theory F64
  imports Complex_Main Prelude
begin

text \<open>
  The part of IEEE 754 double precision the sources use: non-negative \<open>f64\<close> values far from the
  subnormal and overflow ranges, as the reals they denote. Every operation is the exact result
  rounded to 53 significant bits, ties to even (\<open>rnd\<close>); \<open>as f64\<close> rounds an integer, \<open>as u64\<close> truncates and
  saturates. The lemmas give what the components rely on: rounding is monotone and exact on
  integers up to \<open>2 ^ 53\<close>.
\<close>

type_synonym f64 = real

definition round_even :: "real \<Rightarrow> int" where
  "round_even y =
     (let f = \<lfloor>y\<rfloor>; d = y - of_int f
      in if d < 1 / 2 then f else if 1 / 2 < d then f + 1 else if even f then f else f + 1)"

definition f64_exp :: "real \<Rightarrow> int" where
  "f64_exp x = \<lfloor>log 2 x\<rfloor> - 52"

definition rnd :: "real \<Rightarrow> f64" where
  "rnd x =
     (if x \<le> 0 then 0
      else of_int (round_even (x / 2 powr of_int (f64_exp x))) * 2 powr of_int (f64_exp x))"

definition f64_of_nat :: "nat \<Rightarrow> f64" where
  "f64_of_nat n = rnd (real n)"

definition f64_of_u64 :: "u64 \<Rightarrow> f64" where
  "f64_of_u64 w = f64_of_nat (unat w)"

definition fadd :: "f64 \<Rightarrow> f64 \<Rightarrow> f64" where
  "fadd x y = rnd (x + y)"

text \<open>Subtraction, used where the result is not negative.\<close>

definition fsub :: "f64 \<Rightarrow> f64 \<Rightarrow> f64" where
  "fsub x y = rnd (x - y)"

definition fmul :: "f64 \<Rightarrow> f64 \<Rightarrow> f64" where
  "fmul x y = rnd (x * y)"

definition fdiv :: "f64 \<Rightarrow> f64 \<Rightarrow> f64" where
  "fdiv x y = rnd (x / y)"

definition fsqrt :: "f64 \<Rightarrow> f64" where
  "fsqrt x = rnd (sqrt x)"

definition f64_to_u64 :: "f64 \<Rightarrow> u64" where
  "f64_to_u64 x = (if x \<le> 0 then 0 else if 2 ^ 64 - 1 \<le> x then - 1 else of_nat (nat \<lfloor>x\<rfloor>))"

section \<open>Rounding to integers\<close>

lemma round_even_bounds: "\<lfloor>y\<rfloor> \<le> round_even y" "round_even y \<le> \<lfloor>y\<rfloor> + 1"
  by (simp_all add: round_even_def Let_def)

lemma round_even_of_int [simp]: "round_even (of_int k) = k"
  by (simp add: round_even_def Let_def)

lemma round_even_mono: "y \<le> z \<Longrightarrow> round_even y \<le> round_even z"
proof (cases "\<lfloor>y\<rfloor> = \<lfloor>z\<rfloor>")
  case True
  assume "y \<le> z"
  then have "y - of_int \<lfloor>y\<rfloor> \<le> z - of_int \<lfloor>z\<rfloor>" using True by simp
  then show ?thesis using True unfolding round_even_def Let_def
    by (auto split: if_splits)
next
  case False
  assume "y \<le> z"
  with False have "\<lfloor>y\<rfloor> + 1 \<le> \<lfloor>z\<rfloor>" using floor_mono[of y z] by linarith
  with round_even_bounds(2)[of y] round_even_bounds(1)[of z] show ?thesis by linarith
qed

lemma round_even_le: "y \<le> of_int k \<Longrightarrow> round_even y \<le> k"
  using round_even_mono[of y "of_int k"] by simp

lemma round_even_ge: "of_int k \<le> y \<Longrightarrow> k \<le> round_even y"
  using round_even_mono[of "of_int k" y] by simp

section \<open>Rounding to 53 bits\<close>

lemma rnd_0 [simp]: "rnd 0 = 0"
  by (simp add: rnd_def)

lemma significand_bounds:
  assumes "0 < x"
  shows "2 ^ 52 \<le> x / 2 powr of_int (f64_exp x)" "x / 2 powr of_int (f64_exp x) < 2 ^ 53"
proof -
  let ?l = "\<lfloor>log 2 x\<rfloor>"
  have pow: "2 powr of_int (f64_exp x) * 2 ^ k = 2 powr (of_int ?l + (real k - 52))" for k
    by (simp add: f64_exp_def powr_add powr_diff powr_realpow flip: powr_realpow)
  have lo: "2 powr of_int ?l \<le> x" and hi: "x < 2 powr (of_int ?l + 1)"
    using assms by (simp_all add: powr_le_iff less_powr_iff le_log_iff flip: log_less_iff)
  show "2 ^ 52 \<le> x / 2 powr of_int (f64_exp x)"
    using lo pow[of 52] by (simp add: pos_le_divide_eq mult.commute)
  show "x / 2 powr of_int (f64_exp x) < 2 ^ 53"
    using hi pow[of 53] by (simp add: pos_divide_less_eq mult.commute)
qed

lemma f64_exp_mono: "0 < x \<Longrightarrow> x \<le> y \<Longrightarrow> f64_exp x \<le> f64_exp y"
  by (simp add: f64_exp_def floor_mono)

lemma rnd_nonneg [simp]: "0 \<le> rnd x"
proof (cases "x \<le> 0")
  case False
  then have "0 \<le> round_even (x / 2 powr of_int (f64_exp x))"
    using round_even_mono[of 0 "x / 2 powr of_int (f64_exp x)"] round_even_of_int[of 0] by simp
  then show ?thesis by (simp add: rnd_def)
qed (simp add: rnd_def)

lemma rnd_mono: "x \<le> y \<Longrightarrow> rnd x \<le> rnd y"
proof (cases "x \<le> 0")
  case True
  then show ?thesis by (simp add: rnd_def[of x])
next
  case False
  assume xy: "x \<le> y"
  let ?m = "\<lambda>z. round_even (z / 2 powr of_int (f64_exp z))"
  from False xy have pos: "0 < x" "0 < y" by simp_all
  then have rnds: "rnd x = of_int (?m x) * 2 powr of_int (f64_exp x)"
    "rnd y = of_int (?m y) * 2 powr of_int (f64_exp y)" by (simp_all add: rnd_def)
  consider "f64_exp x = f64_exp y" | "f64_exp x + 1 \<le> f64_exp y"
    using f64_exp_mono[OF pos(1) xy] by linarith
  then show ?thesis
  proof cases
    case 1
    then have "?m x \<le> ?m y" using xy by (intro round_even_mono) (simp add: divide_right_mono)
    with 1 show ?thesis by (simp add: rnds)
  next
    case 2
    have "?m x \<le> 2 ^ 53"
      using significand_bounds(2)[OF pos(1)] by (intro round_even_le) simp
    then have "real_of_int (?m x) \<le> 2 ^ 53" by simp
    then have "rnd x \<le> 2 ^ 53 * 2 powr of_int (f64_exp x)"
      unfolding rnds by (rule mult_right_mono) simp
    also have "\<dots> = 2 powr (53 + of_int (f64_exp x))" by (simp add: powr_add)
    also have "\<dots> \<le> 2 powr (52 + of_int (f64_exp y))" using 2 by simp
    also have "\<dots> = 2 ^ 52 * 2 powr of_int (f64_exp y)" by (simp add: powr_add)
    also have "2 ^ 52 \<le> ?m y"
      using significand_bounds(1)[OF pos(2)] by (intro round_even_ge) simp
    then have "2 ^ 52 \<le> real_of_int (?m y)" by simp
    then have "2 ^ 52 * 2 powr of_int (f64_exp y) \<le> rnd y"
      unfolding rnds by (rule mult_right_mono) simp
    finally show ?thesis .
  qed
qed

lemma rnd_exact:
  assumes "0 < x" and "x = of_int k * 2 powr of_int (f64_exp x)"
  shows "rnd x = x"
proof -
  have "x / 2 powr of_int (f64_exp x) = of_int k"
    using assms(2) by (simp add: divide_eq_eq)
  with assms show ?thesis by (simp add: rnd_def)
qed

lemma rnd_nat:
  assumes "n \<le> 2 ^ 53"
  shows "rnd (real n) = real n"
proof (cases "n = 0")
  case False
  then have n: "0 < real n" by simp
  show ?thesis
  proof (cases "n = 2 ^ 53")
    case True
    then have "log 2 (real n) = 53" by (simp only: of_nat_power of_nat_numeral log_pow_cancel)
    then have "f64_exp (real n) = 1" by (simp add: f64_exp_def)
    with n True show ?thesis by (intro rnd_exact[where k = "2 ^ 52"]) simp_all
  next
    case less: False
    with assms have "n < 2 ^ 53" by simp
    then have "real n < 2 ^ 53" by (metis of_nat_less_iff of_nat_numeral of_nat_power)
    then have "real n < 2 powr 53" by (simp add: powr_numeral)
    with n have "log 2 (real n) < 53" by (simp add: log_less_iff)
    then have "f64_exp (real n) \<le> 0" by (simp add: f64_exp_def floor_le_iff)
    then obtain m where m: "f64_exp (real n) = - int m" by (metis nonpos_int_cases)
    have "real n = of_int (int n * 2 ^ m) * 2 powr of_int (f64_exp (real n))"
      by (simp add: m powr_minus powr_realpow)
    with n show ?thesis by (intro rnd_exact)
  qed
qed simp

lemma f64_of_nat_exact: "n \<le> 2 ^ 53 \<Longrightarrow> f64_of_nat n = real n"
  by (simp add: f64_of_nat_def rnd_nat)

lemma fadd_nat: "m + n \<le> 2 ^ 53 \<Longrightarrow> fadd (real m) (real n) = real (m + n)"
  using rnd_nat[of "m + n"] by (simp add: fadd_def)

lemma fsub_nat: "n \<le> m \<Longrightarrow> m \<le> 2 ^ 53 \<Longrightarrow> fsub (real m) (real n) = real (m - n)"
  using rnd_nat[of "m - n"] by (simp add: fsub_def of_nat_diff)

text \<open>Comparing an exact integer with a rounded one decides the order of the integers.\<close>

lemma f64_of_nat_less: "m \<le> 2 ^ 53 \<Longrightarrow> f64_of_nat n < real m \<longleftrightarrow> n < m"
proof (cases "n < m")
  case True
  assume "m \<le> 2 ^ 53"
  with True show ?thesis by (simp add: f64_of_nat_exact)
next
  case False
  assume "m \<le> 2 ^ 53"
  then have "real m \<le> f64_of_nat n"
    using False rnd_mono[of "real m" "real n"] rnd_nat[of m] by (simp add: f64_of_nat_def)
  with False show ?thesis by simp
qed

lemma fmul_nat: "m * n \<le> 2 ^ 53 \<Longrightarrow> fmul (real m) (real n) = real (m * n)"
  using rnd_nat[of "m * n"] by (simp add: fmul_def)

lemma f64_to_u64_nat: "n < 2 ^ 53 \<Longrightarrow> f64_to_u64 (real n) = of_nat n"
proof -
  assume "n < 2 ^ 53"
  then have "real n < 2 ^ 53" by (metis of_nat_less_iff of_nat_numeral of_nat_power)
  then show ?thesis by (simp add: f64_to_u64_def)
qed

text \<open>\<open>iter().sum::<f64>()\<close> of integers that stay small is exact.\<close>

lemma fadd_sum_exact:
  assumes "a + sum_list ns \<le> 2 ^ 53"
  shows "foldl fadd (real a) (map real ns) = real (a + sum_list ns)"
  using assms
proof (induction ns arbitrary: a)
  case (Cons n ns)
  then have "a + n \<le> 2 ^ 53" by simp
  from fadd_nat[OF this] Cons.IH[of "a + n"] Cons.prems show ?case by (simp add: add.assoc)
qed simp

text \<open>A root mean square of integers is at most the largest of them.\<close>

lemma rms_le_max:
  assumes "s \<le> n * m\<^sup>2" and "n * m\<^sup>2 \<le> 2 ^ 53" and "0 < n" and "n \<le> 2 ^ 53"
  shows "fsqrt (fdiv (f64_of_nat s) (f64_of_nat n)) \<le> f64_of_nat m"
proof -
  have m2: "m\<^sup>2 \<le> 2 ^ 53" using assms(2,3) by (metis le_trans nat_mult_1 mult_le_mono1 Suc_leI One_nat_def)
  have "real s \<le> real (m\<^sup>2) * real n" using assms(1) by (metis of_nat_le_iff of_nat_mult mult.commute)
  then have "real s / real n \<le> real (m\<^sup>2)" using assms(3) by (simp add: pos_divide_le_eq)
  then have "rnd (real s / real n) \<le> real (m\<^sup>2)" using rnd_mono rnd_nat[OF m2] by metis
  then have "sqrt (rnd (real s / real n)) \<le> real m" by (simp add: real_le_lsqrt)
  then have "rnd (sqrt (rnd (real s / real n))) \<le> rnd (real m)" by (rule rnd_mono)
  moreover have "f64_of_nat s = real s" "f64_of_nat n = real n"
    using assms by (simp_all add: f64_of_nat_exact)
  ultimately show ?thesis by (simp add: fsqrt_def fdiv_def f64_of_nat_def[of m])
qed

section \<open>Rounding errors\<close>

lemma round_even_error: "\<bar>of_int (round_even y) - y\<bar> \<le> 1 / 2"
proof -
  have "of_int \<lfloor>y\<rfloor> \<le> y" "y < of_int \<lfloor>y\<rfloor> + 1" by linarith+
  then show ?thesis unfolding round_even_def Let_def by (auto simp: abs_le_iff)
qed

lemma round_even_near: "\<bar>y - of_int k\<bar> < 1 / 2 \<Longrightarrow> round_even y = k"
  using round_even_error[of y] by linarith

text \<open>The relative error of a rounding is at most \<open>2 ^ -53\<close>.\<close>

lemma rnd_error:
  assumes "0 \<le> x"
  shows "\<bar>rnd x - x\<bar> \<le> x / 2 ^ 53"
proof (cases "x = 0")
  case False
  with assms have pos: "0 < x" by simp
  let ?u = "2 powr of_int (f64_exp x)"
  let ?y = "x / ?u"
  have "rnd x = of_int (round_even ?y) * ?u" using pos by (simp add: rnd_def)
  then have "rnd x - x = (of_int (round_even ?y) - ?y) * ?u" by (simp add: left_diff_distrib)
  then have "\<bar>rnd x - x\<bar> = \<bar>of_int (round_even ?y) - ?y\<bar> * ?u" by (simp add: abs_mult)
  also have "\<dots> \<le> 1 / 2 * ?u" by (intro mult_right_mono round_even_error) simp
  also have "\<dots> \<le> ?y * ?u / 2 ^ 53"
    using mult_right_mono[OF significand_bounds(1)[OF pos], of "?u / 2 ^ 53"] by simp
  finally show ?thesis by simp
qed simp

lemma rnd_eval:
  assumes "2 ^ 52 \<le> x * 2 ^ k" and "x * 2 ^ k < 2 ^ 53" and "\<bar>x * 2 ^ k - of_int m\<bar> < 1 / 2"
  shows "rnd x = of_int m / 2 ^ k"
proof -
  have pos: "0 < x" using assms(1) by (metis less_le_trans zero_less_mult_pos2 zero_less_numeral zero_less_power)
  have "2 powr (52 - real k) \<le> x" "x < 2 powr (53 - real k)"
    using assms(1,2) by (simp_all add: powr_diff powr_realpow pos_divide_le_eq pos_less_divide_eq)
  then have "\<lfloor>log 2 x\<rfloor> = 52 - int k"
    using pos by (simp add: floor_eq_iff le_log_iff log_less_iff)
  then have e: "f64_exp x = - int k" by (simp add: f64_exp_def)
  have "x / 2 powr of_int (f64_exp x) = x * 2 ^ k" by (simp add: e powr_minus powr_realpow divide_inverse)
  with pos round_even_near[OF assms(3)] show ?thesis
    by (simp add: rnd_def) (simp add: e powr_minus powr_realpow divide_inverse)
qed

end
