(* ===== verification/Rust_Std.thy ===== *)
theory Rust_Std
  imports Prelude
begin

text \<open>
  The parts of Rust's standard library the sources use: \<open>str\<close> searching, splitting, joining and
  trimming, decimal and hexadecimal formatting, \<open>u64::from_str\<close>, little-endian integers and
  slice binary search. The \<open>hex\<close> crate is third-party code: its documented contract is the locale
  \<open>hex_crate\<close>, and the reference codec at the end of the theory satisfies it.
\<close>

section \<open>Searching and splitting\<close>

definition starts_with :: "string \<Rightarrow> string \<Rightarrow> bool" where
  "starts_with s p \<longleftrightarrow> take (length p) s = p"

definition strip_prefix :: "string \<Rightarrow> string \<Rightarrow> string option" where
  "strip_prefix p s = (if starts_with s p then Some (drop (length p) s) else None)"

definition ends_with :: "string \<Rightarrow> string \<Rightarrow> bool" where
  "ends_with s p \<longleftrightarrow> length p \<le> length s \<and> drop (length s - length p) s = p"

definition strip_suffix :: "string \<Rightarrow> string \<Rightarrow> string option" where
  "strip_suffix p s = (if ends_with s p then Some (take (length s - length p) s) else None)"

text \<open>\<open>str::contains\<close> with a string pattern.\<close>

fun str_contains :: "string \<Rightarrow> string \<Rightarrow> bool" where
  "str_contains [] n \<longleftrightarrow> n = []"
| "str_contains (c # cs) n \<longleftrightarrow> starts_with (c # cs) n \<or> str_contains cs n"

lemma starts_with_iff: "starts_with s p \<longleftrightarrow> (\<exists>r. s = p @ r)"
  by (auto simp: starts_with_def intro: append_take_drop_id[symmetric])
    (metis append_take_drop_id)

lemma starts_with_append [simp]: "starts_with (p @ r) p"
  by (simp add: starts_with_def)

lemma strip_prefix_append [simp]: "strip_prefix p (p @ r) = Some r"
  by (simp add: strip_prefix_def)

lemma strip_prefix_eq_Some: "strip_prefix p s = Some r \<longleftrightarrow> s = p @ r"
  by (auto simp: strip_prefix_def starts_with_iff)

lemma str_contains_iff: "str_contains s n \<longleftrightarrow> (\<exists>a b. s = a @ n @ b)"
proof (induction s)
  case Nil
  then show ?case by simp
next
  case (Cons c cs)
  have "(\<exists>a b. c # cs = a @ n @ b) \<longleftrightarrow> starts_with (c # cs) n \<or> (\<exists>a b. cs = a @ n @ b)"
    (is "?L \<longleftrightarrow> ?R")
  proof
    assume ?L
    then obtain a b where ab: "c # cs = a @ n @ b" by blast
    show ?R
    proof (cases a)
      case Nil
      with ab show ?thesis by (auto simp: starts_with_iff)
    next
      case (Cons a1 a2)
      with ab show ?thesis by auto
    qed
  next
    assume ?R
    then show ?L
    proof
      assume "starts_with (c # cs) n"
      then obtain r where "c # cs = [] @ n @ r" by (auto simp: starts_with_iff)
      then show ?L by blast
    next
      assume "\<exists>a b. cs = a @ n @ b"
      then obtain a b where "c # cs = (c # a) @ n @ b" by auto
      then show ?L by blast
    qed
  qed
  with Cons show ?case by simp
qed

lemma str_contains_refl [simp]: "str_contains s s"
  by (auto simp: str_contains_iff intro: exI[of _ "[]"])

lemma str_contains_length: "str_contains s n \<Longrightarrow> length n \<le> length s"
  by (auto simp: str_contains_iff)

text \<open>\<open>str::split\<close> with a character predicate: never empty.\<close>

fun split_by :: "(char \<Rightarrow> bool) \<Rightarrow> string \<Rightarrow> string list" where
  "split_by P [] = [[]]"
| "split_by P (c # cs) =
     (if P c then [] # split_by P cs
      else (case split_by P cs of [] \<Rightarrow> [[c]] | w # ws \<Rightarrow> (c # w) # ws))"

text \<open>\<open>[&str]::join\<close>.\<close>

fun join :: "string \<Rightarrow> string list \<Rightarrow> string" where
  "join sep [] = []"
| "join sep [w] = w"
| "join sep (w # v # ws) = w @ sep @ join sep (v # ws)"

lemma split_by_not_Nil [simp]: "split_by P s \<noteq> []"
  by (induction s) (auto split: list.splits)

lemma split_by_none: "list_all (\<lambda>c. \<not> P c) s \<Longrightarrow> split_by P s = [s]"
  by (induction s) auto

lemma split_by_append:
  "list_all (\<lambda>c. \<not> P c) w \<Longrightarrow> P c \<Longrightarrow> split_by P (w @ c # r) = w # split_by P r"
  by (induction w) auto

lemma split_by_join:
  assumes "ws \<noteq> []" and "list_all (list_all (\<lambda>c. c \<noteq> d)) ws"
  shows "split_by (\<lambda>c. c = d) (join [d] ws) = ws"
  using assms
proof (induction "[d]" ws rule: join.induct)
  case (3 w v ws)
  then show ?case by (simp add: split_by_append list_all_iff)
qed (auto simp: split_by_none)

lemma join_split_by: "join [d] (split_by (\<lambda>c. c = d) s) = s"
proof (induction s)
  case Nil
  then show ?case by simp
next
  case (Cons c cs)
  obtain w ws where ws: "split_by (\<lambda>c. c = d) cs = w # ws"
    by (cases "split_by (\<lambda>c. c = d) cs") auto
  show ?case
  proof (cases ws)
    case Nil
    with Cons ws show ?thesis by auto
  next
    case (Cons v vs)
    with Cons.IH ws show ?thesis by auto
  qed
qed

lemma split_by_pieces: "w \<in> set (split_by P s) \<Longrightarrow> list_all (\<lambda>c. \<not> P c) w"
  by (induction s arbitrary: w) (auto split: list.splits if_splits)

text \<open>\<open>str::split\<close> with a string pattern: pieces between the matches that do not overlap, left to right.\<close>

function split_str :: "string \<Rightarrow> string \<Rightarrow> string \<Rightarrow> string list" where
  "split_str sep piece [] = [piece]"
| "split_str sep piece (c # cs) =
     (if sep \<noteq> [] \<and> starts_with (c # cs) sep then piece # split_str sep [] (drop (length sep) (c # cs))
      else split_str sep (piece @ [c]) cs)"
  by pat_completeness auto
termination
proof (relation "measure (\<lambda>(sep, piece, s). length s)")
  fix sep :: string and c cs
  assume "sep \<noteq> [] \<and> starts_with (c # cs) sep"
  then show "((sep, [], drop (length sep) (c # cs)), sep, piece, c # cs) \<in> measure (\<lambda>(sep, piece, s). length s)"
    for piece by (cases sep) auto
qed auto

lemma split_str_skip:
  "hd sep \<notin> set w \<Longrightarrow> sep \<noteq> [] \<Longrightarrow> split_str sep piece (w @ s) = split_str sep (piece @ w) s"
proof (induction w arbitrary: piece)
  case (Cons c w)
  then have "\<not> starts_with (c # w @ s) sep" by (cases sep) (auto simp: starts_with_def)
  with Cons show ?case by simp
qed simp

lemma split_str_end: "hd sep \<notin> set w \<Longrightarrow> sep \<noteq> [] \<Longrightarrow> split_str sep piece w = [piece @ w]"
  using split_str_skip[of sep w piece "[]"] by simp

text \<open>\<open>str::trim\<close> on ASCII white space.\<close>

definition is_ws :: "char \<Rightarrow> bool" where
  "is_ws c \<longleftrightarrow> c \<in> {CHR '' '', CHR 0x09, CHR 0x0A, CHR 0x0B, CHR 0x0C, CHR 0x0D}"

definition trim :: "string \<Rightarrow> string" where
  "trim s = rev (dropWhile is_ws (rev (dropWhile is_ws s)))"

lemma trim_id: "s \<noteq> [] \<Longrightarrow> \<not> is_ws (hd s) \<Longrightarrow> \<not> is_ws (last s) \<Longrightarrow> trim s = s"
proof -
  assume s: "s \<noteq> []" "\<not> is_ws (hd s)" "\<not> is_ws (last s)"
  then have "dropWhile is_ws s = s" "dropWhile is_ws (rev s) = rev s"
    by (simp_all add: dropWhile_eq_self_iff hd_rev)
  then show "trim s = s" by (simp add: trim_def)
qed

text \<open>\<open>str::to_ascii_lowercase\<close> and \<open>to_uppercase\<close> on ASCII.\<close>

definition ascii_lower :: "char \<Rightarrow> char" where
  "ascii_lower c =
     (if CHR ''A'' \<le> c \<and> c \<le> CHR ''Z'' then char_of (of_char c + 32 :: nat) else c)"

definition to_ascii_lowercase :: "string \<Rightarrow> string" where
  "to_ascii_lowercase s = map ascii_lower s"

section \<open>Decimal numbers\<close>

definition digit_char :: "nat \<Rightarrow> char" where
  "digit_char d = char_of (48 + d)"

definition is_digit :: "char \<Rightarrow> bool" where
  "is_digit c \<longleftrightarrow> 48 \<le> (of_char c :: nat) \<and> (of_char c :: nat) \<le> 57"

text \<open>\<open>u64::to_string\<close>.\<close>

fun dec_str :: "nat \<Rightarrow> string" where
  "dec_str n = (if n < 10 then [digit_char n] else dec_str (n div 10) @ [digit_char (n mod 10)])"

declare dec_str.simps [simp del]

definition digits_val :: "string \<Rightarrow> nat" where
  "digits_val s = foldl (\<lambda>a c. 10 * a + (of_char c - 48)) 0 s"

text \<open>\<open>u64::from_str\<close>: an optional plus sign, at least one digit, nothing else, no overflow.\<close>

definition parse_u64 :: "string \<Rightarrow> u64 option" where
  "parse_u64 s =
     (let t = (case s of c # cs \<Rightarrow> if c = CHR ''+'' then cs else s | [] \<Rightarrow> s)
      in if t \<noteq> [] \<and> list_all is_digit t \<and> digits_val t < 2 ^ 64
         then Some (of_nat (digits_val t)) else None)"

lemma of_char_digit: "d < 10 \<Longrightarrow> (of_char (digit_char d) :: nat) = 48 + d"
  by (simp add: digit_char_def)

lemma is_digit_digit_char [simp]: "d < 10 \<Longrightarrow> is_digit (digit_char d)"
  by (simp add: is_digit_def of_char_digit)

lemma digits_val_snoc [simp]: "digits_val (s @ [c]) = 10 * digits_val s + (of_char c - 48)"
  by (simp add: digits_val_def)

lemma dec_str_not_Nil [simp]: "dec_str n \<noteq> []"
  by (subst dec_str.simps) simp

lemma dec_str_digits: "list_all is_digit (dec_str n)"
proof (induction n rule: dec_str.induct)
  case (1 n)
  then show ?case
    by (subst dec_str.simps) auto
qed

lemma digits_val_dec_str [simp]: "digits_val (dec_str n) = n"
proof (induction n rule: dec_str.induct)
  case (1 n)
  show ?case
  proof (cases "n < 10")
    case True
    then show ?thesis by (subst dec_str.simps) (simp add: digits_val_def of_char_digit)
  next
    case False
    with "1" show ?thesis by (subst dec_str.simps) (simp add: of_char_digit)
  qed
qed

lemma is_digit_not_plus: "is_digit c \<Longrightarrow> c \<noteq> CHR ''+''"
  by (auto simp: is_digit_def)

lemma parse_u64_dec_str [simp]: "n < 2 ^ 64 \<Longrightarrow> parse_u64 (dec_str n) = Some (of_nat n)"
proof -
  assume n: "n < 2 ^ 64"
  obtain c cs where s: "dec_str n = c # cs"
    using dec_str_not_Nil[of n] by (cases "dec_str n") auto
  with dec_str_digits[of n] have "c \<noteq> CHR ''+''" by (auto dest: is_digit_not_plus)
  with s have "(case dec_str n of c # cs \<Rightarrow> if c = CHR ''+'' then cs else dec_str n | [] \<Rightarrow> dec_str n) = dec_str n"
    by simp
  then show ?thesis
    using n dec_str_digits[of n] by (simp add: parse_u64_def Let_def)
qed

section \<open>Hexadecimal formatting\<close>

definition hex_digit :: "nat \<Rightarrow> char" where
  "hex_digit d = (if d < 10 then char_of (48 + d) else char_of (87 + d))"

definition hex_digit_upper :: "nat \<Rightarrow> char" where
  "hex_digit_upper d = (if d < 10 then char_of (48 + d) else char_of (55 + d))"

text \<open>The format strings \<open>{:02x}\<close> and \<open>{:02X}\<close> of a byte, and their concatenation over a slice.\<close>

definition hex_byte :: "u8 \<Rightarrow> string" where
  "hex_byte b = [hex_digit (unat b div 16), hex_digit (unat b mod 16)]"

definition hex_byte_upper :: "u8 \<Rightarrow> string" where
  "hex_byte_upper b = [hex_digit_upper (unat b div 16), hex_digit_upper (unat b mod 16)]"

definition lower_hex :: "bytes \<Rightarrow> string" where
  "lower_hex bs = concat (map hex_byte bs)"

definition upper_hex :: "bytes \<Rightarrow> string" where
  "upper_hex bs = concat (map hex_byte_upper bs)"

lemma lower_hex_Nil [simp]: "lower_hex [] = []"
  by (simp add: lower_hex_def)

lemma lower_hex_Cons [simp]: "lower_hex (b # bs) = hex_byte b @ lower_hex bs"
  by (simp add: lower_hex_def)

lemma lower_hex_append [simp]: "lower_hex (xs @ ys) = lower_hex xs @ lower_hex ys"
  by (simp add: lower_hex_def)

lemma upper_hex_Nil [simp]: "upper_hex [] = []"
  by (simp add: upper_hex_def)

lemma upper_hex_Cons [simp]: "upper_hex (b # bs) = hex_byte_upper b @ upper_hex bs"
  by (simp add: upper_hex_def)

lemma length_hex_byte [simp]: "length (hex_byte b) = 2" "length (hex_byte_upper b) = 2"
  by (simp_all add: hex_byte_def hex_byte_upper_def)

lemma length_lower_hex [simp]: "length (lower_hex bs) = 2 * length bs"
  by (induction bs) auto

lemma length_upper_hex [simp]: "length (upper_hex bs) = 2 * length bs"
  by (induction bs) auto

section \<open>The hex crate\<close>

lemma hex_digit_chars: "d < 16 \<Longrightarrow> hex_digit d \<in> set ''0123456789abcdef''"
proof -
  have "list_all (\<lambda>d. hex_digit d \<in> set ''0123456789abcdef'') [0..<16]" by code_simp
  then show "d < 16 \<Longrightarrow> hex_digit d \<in> set ''0123456789abcdef''" unfolding list_all_iff set_upt by (meson atLeastLessThan_iff zero_le)
qed

lemma lower_hex_chars: "c \<in> set (lower_hex bs) \<Longrightarrow> c \<in> set ''0123456789abcdef''"
proof (induction bs)
  case (Cons b bs)
  have "unat b div 16 < 16" "unat b mod 16 < 16" using unsigned_less[of b, where ?'a = nat] by simp_all
  note d = this[THEN hex_digit_chars]
  from Cons.prems consider "c = hex_digit (unat b div 16)" | "c = hex_digit (unat b mod 16)" | "c \<in> set (lower_hex bs)"
    by (auto simp: hex_byte_def)
  then show ?case using d Cons.IH by cases (simp_all only:)
qed simp

text \<open>
  \<open>hex::encode\<close> and \<open>hex::decode\<close>/\<open>FromHex\<close>: lower-case output, two digits per byte; decoding
  accepts both cases and fails on an odd number of digits. \<open>FromHex for [u8; N]\<close> also fails when
  the number of bytes is not \<open>N\<close>; that length check is part of the definitions that use it.
\<close>

locale hex_crate =
  fixes hex_encode :: "bytes \<Rightarrow> string" and hex_decode :: "string \<Rightarrow> bytes option"
  assumes encode_lower: "hex_encode bs = lower_hex bs"
    and decode_lower: "hex_decode (lower_hex bs) = Some bs"
    and decode_upper: "hex_decode (upper_hex bs) = Some bs"
    and decode_length: "hex_decode s = Some bs \<Longrightarrow> length s = 2 * length bs"
begin

lemma decode_encode: "hex_decode (hex_encode bs) = Some bs"
  by (simp add: encode_lower decode_lower)

lemma encode_length: "length (hex_encode bs) = 2 * length bs"
  by (simp add: encode_lower)

lemma encode_inj: "hex_encode xs = hex_encode ys \<Longrightarrow> xs = ys"
  using decode_encode[of xs] decode_encode[of ys] by (metis option.inject)

lemma decode_empty: "hex_decode [] = Some []"
  using decode_lower[of "[]"] by simp

lemma decode_odd: "odd (length s) \<Longrightarrow> hex_decode s = None"
  using decode_length[of s] by (cases "hex_decode s") auto

end

text \<open>A reference codec with the documented behaviour.\<close>

definition hex_val :: "char \<Rightarrow> nat option" where
  "hex_val c =
     (let n = of_char c in
      if 48 \<le> n \<and> n \<le> 57 then Some (n - 48)
      else if 97 \<le> n \<and> n \<le> 102 then Some (n - 87)
      else if 65 \<le> n \<and> n \<le> 70 then Some (n - 55)
      else None)"

fun hex_decode_ref :: "string \<Rightarrow> bytes option" where
  "hex_decode_ref [] = Some []"
| "hex_decode_ref [c] = None"
| "hex_decode_ref (c # d # cs) =
     (case (hex_val c, hex_val d, hex_decode_ref cs) of
        (Some h, Some l, Some bs) \<Rightarrow> Some (of_nat (16 * h + l) # bs)
      | _ \<Rightarrow> None)"

lemma hex_val_digit [simp]: "d < 16 \<Longrightarrow> hex_val (hex_digit d) = Some d"
  by (auto simp: hex_val_def hex_digit_def Let_def)

lemma hex_val_digit_upper [simp]: "d < 16 \<Longrightarrow> hex_val (hex_digit_upper d) = Some d"
  by (auto simp: hex_val_def hex_digit_upper_def Let_def)

lemma nibble_bound: "unat (b :: u8) div 16 < 16"
proof -
  have "unat b < 2 ^ LENGTH(8)" by (rule unsigned_less)
  then show ?thesis by simp
qed

lemma hex_decode_ref_byte:
  "hex_decode_ref (hex_byte b @ cs) = map_option ((#) b) (hex_decode_ref cs)"
  "hex_decode_ref (hex_byte_upper b @ cs) = map_option ((#) b) (hex_decode_ref cs)"
  by (simp_all add: hex_byte_def hex_byte_upper_def nibble_bound split: option.splits)

lemma hex_decode_ref_length: "hex_decode_ref s = Some bs \<Longrightarrow> length s = 2 * length bs"
  by (induction s arbitrary: bs rule: hex_decode_ref.induct) (auto split: option.splits)

interpretation ref_hex: hex_crate lower_hex hex_decode_ref
proof unfold_locales
  show "hex_decode_ref (lower_hex bs) = Some bs" for bs
    by (induction bs) (simp_all add: hex_decode_ref_byte)
  show "hex_decode_ref (upper_hex bs) = Some bs" for bs
    by (induction bs) (simp_all add: hex_decode_ref_byte)
qed (simp_all add: hex_decode_ref_length)

lemma lower_hex_inj: "lower_hex xs = lower_hex ys \<Longrightarrow> xs = ys"
  by (rule ref_hex.encode_inj)

section \<open>Little-endian integers\<close>

text \<open>\<open>u64::to_le_bytes\<close> and \<open>u64::from_le_bytes\<close>.\<close>

definition to_le_bytes :: "u64 \<Rightarrow> bytes" where
  "to_le_bytes w = map (\<lambda>i. ucast (drop_bit (8 * i) w)) [0..<8]"

definition from_le_bytes :: "bytes \<Rightarrow> u64" where
  "from_le_bytes bs = foldr (\<lambda>b acc. push_bit 8 acc OR ucast b) bs 0"

lemma length_to_le_bytes [simp]: "length (to_le_bytes w) = 8"
  by (simp add: to_le_bytes_def)

lemma from_le_bytes_Cons: "from_le_bytes (b # bs) = push_bit 8 (from_le_bytes bs) OR ucast b"
  by (simp add: from_le_bytes_def)

lemma bit_from_le_bytes:
  "length bs \<le> 8 \<Longrightarrow>
     bit (from_le_bytes bs) i \<longleftrightarrow> i < 8 * length bs \<and> bit (bs ! (i div 8)) (i mod 8)"
proof (induction bs arbitrary: i)
  case Nil
  then show ?case by (simp add: from_le_bytes_def)
next
  case (Cons b bs)
  show ?case
  proof (cases "i < 8")
    case True
    then show ?thesis by (simp add: from_le_bytes_Cons bit_or_iff bit_push_bit_iff bit_unsigned_iff)
  next
    case False
    then have "i div 8 = Suc ((i - 8) div 8)" and "i mod 8 = (i - 8) mod 8"
      by (simp_all add: le_div_geq le_mod_geq)
    moreover have "\<not> bit b i" using False by (intro impossible_bit) simp
    then have "bit (from_le_bytes (b # bs)) i \<longleftrightarrow> bit (from_le_bytes bs) (i - 8) \<and> i < 64"
      using False by (simp add: from_le_bytes_Cons bit_or_iff bit_push_bit_iff bit_unsigned_iff conj_commute)
    moreover have "bit (from_le_bytes bs) (i - 8) \<longleftrightarrow>
        i - 8 < 8 * length bs \<and> bit (bs ! ((i - 8) div 8)) ((i - 8) mod 8)"
      using Cons.prems by (intro Cons.IH) simp
    ultimately show ?thesis using False Cons.prems by auto
  qed
qed

lemma from_to_le_bytes [simp]: "from_le_bytes (to_le_bytes w) = w"
proof (rule bit_word_eqI)
  fix i assume "i < LENGTH(64)"
  then have i: "i < 64" by simp
  then have "i div 8 < 8" by auto
  then have "to_le_bytes w ! (i div 8) = ucast (drop_bit (8 * (i div 8)) w)"
    by (simp add: to_le_bytes_def)
  with i show "bit (from_le_bytes (to_le_bytes w)) i = bit w i"
    by (simp add: bit_from_le_bytes bit_unsigned_iff bit_drop_bit_eq)
qed

section \<open>Binary search\<close>

text \<open>\<open><[T]>::binary_search\<close>: the loop over \<open>left\<close> and \<open>right\<close>.\<close>

function binary_search_loop :: "'a::linorder list \<Rightarrow> 'a \<Rightarrow> nat \<Rightarrow> nat \<Rightarrow> nat option" where
  "binary_search_loop xs x left right =
     (if left < right then
        let mid = left + (right - left) div 2 in
        if xs ! mid < x then binary_search_loop xs x (Suc mid) right
        else if x < xs ! mid then binary_search_loop xs x left mid
        else Some mid
      else None)"
  by pat_completeness auto
termination
  by (relation "measure (\<lambda>(xs, x, left, right). right - left)") auto

declare binary_search_loop.simps [simp del]

definition binary_search :: "'a::linorder list \<Rightarrow> 'a \<Rightarrow> nat option" where
  "binary_search xs x = binary_search_loop xs x 0 (length xs)"

lemma binary_search_loop_Some:
  "right \<le> length xs \<Longrightarrow> binary_search_loop xs x left right = Some i \<Longrightarrow> i < length xs \<and> xs ! i = x"
proof (induction xs x left right rule: binary_search_loop.induct)
  case (1 xs x left right)
  show ?case
  proof (cases "left < right")
    case True
    with "1" show ?thesis
      by (subst (asm) (3) binary_search_loop.simps) (auto simp: Let_def split: if_splits)
  next
    case False
    with "1.prems" show ?thesis by (subst (asm) binary_search_loop.simps) simp
  qed
qed

lemma binary_search_loop_finds:
  assumes "sorted_wrt (<) xs" "right \<le> length xs" "left \<le> i" "i < right"
  shows "binary_search_loop xs (xs ! i) left right = Some i"
  using assms
proof (induction xs "xs ! i" left right rule: binary_search_loop.induct)
  case (1 xs left right)
  let ?mid = "left + (right - left) div 2"
  have mid: "left \<le> ?mid" "?mid < right" using "1.prems" by auto
  have mono: "a < b \<Longrightarrow> b < length xs \<Longrightarrow> xs ! a < xs ! b" for a b
    using "1.prems"(1) by (simp add: sorted_wrt_nth_less)
  consider "?mid < i" | "i < ?mid" | "i = ?mid" by linarith
  then show ?case
  proof cases
    case 1
    with mono[of ?mid i] "1.prems" "1.hyps"(1)[of ?mid] show ?thesis
      by (subst binary_search_loop.simps) (simp add: Let_def)
  next
    case 2
    with mono[of i ?mid] "1.prems" mid have lt: "xs ! i < xs ! ?mid" by simp
    then have "\<not> xs ! ?mid < xs ! i" by simp
    with 2 lt "1.prems" "1.hyps"(2)[of ?mid] mid show ?thesis
      by (subst binary_search_loop.simps) (simp add: Let_def)
  next
    case 3
    with mid show ?thesis
      by (subst binary_search_loop.simps) (simp add: Let_def)
  qed
qed

lemma binary_search_Some: "binary_search xs x = Some i \<Longrightarrow> i < length xs \<and> xs ! i = x"
  unfolding binary_search_def by (rule binary_search_loop_Some) simp_all

lemma binary_search_nth:
  "sorted_wrt (<) xs \<Longrightarrow> i < length xs \<Longrightarrow> binary_search xs (xs ! i) = Some i"
  unfolding binary_search_def by (rule binary_search_loop_finds) simp_all

end
