(* ===== verification/Account_Address.thy ===== *)
theory Account_Address
  imports Rust_Std
begin

text \<open>
  The contract of the vendor's \<open>AccountAddress\<close> as the sources use it. Its printer and its parsers are
  parameters of the definitions that call them. \<open>address_display\<close> says how an address prints,
  \<open>address_text\<close> adds that the printed form behind \<open>0x\<close> parses back, \<open>address_literal\<close> describes the short literal. The
  reference printers and parser at the end satisfy them.
\<close>

text \<open>An account address prints as 64 lower-case hexadecimal digits.\<close>

locale address_display =
  fixes to_str :: "account_address \<Rightarrow> string"
  assumes to_str_hex: "length a = 32 \<Longrightarrow> to_str a = lower_hex a"
begin

lemma to_str_length: "length a = 32 \<Longrightarrow> length (to_str a) = 64"
  by (simp add: to_str_hex)

text \<open>A full address is only contained in a printed address when they are equal.\<close>

lemma to_str_contains:
  assumes "length a = 32" "length b = 32"
  shows "str_contains (to_str a) (to_str b) \<longleftrightarrow> a = b"
proof
  assume "str_contains (to_str a) (to_str b)"
  then obtain u v where uv: "to_str a = u @ to_str b @ v" by (auto simp: str_contains_iff)
  from arg_cong[OF uv, of length] have "length u + length v = 0"
    using assms by (simp add: to_str_length)
  then have "u = []" "v = []" by simp_all
  with uv assms show "a = b" by (simp add: to_str_hex lower_hex_inj)
qed simp

end

locale address_text = address_display to_str
  for to_str :: "account_address \<Rightarrow> string" +
  fixes from_hex_literal :: "string \<Rightarrow> account_address rres"
  assumes literal_full: "length a = 32 \<Longrightarrow> from_hex_literal (''0x'' @ lower_hex a) = Ok a"
begin

text \<open>The conversion \<open>from_hex_literal(format!("0x{}", a))\<close> of the migration is the identity.\<close>

lemma convert_id: "length a = 32 \<Longrightarrow> from_hex_literal (''0x'' @ to_str a) = Ok a"
  by (simp add: to_str_hex literal_full[simplified])

lemma convert_list: "list_all (\<lambda>a. length a = 32) xs \<Longrightarrow>
  rmapM (\<lambda>a. unwrap msg (from_hex_literal (''0x'' @ to_str a))) xs = Ok xs"
  by (induction xs) (simp_all add: convert_id[simplified])

end

interpretation hex_display: address_display lower_hex
  by unfold_locales simp

definition from_hex_literal_ref :: "string \<Rightarrow> account_address rres" where
  "from_hex_literal_ref s =
     (case strip_prefix ''0x'' s of
        None \<Rightarrow> Err ''AccountAddressParseError''
      | Some h \<Rightarrow>
          (case hex_decode_ref (replicate (64 - length h) CHR ''0'' @ h) of
             Some bs \<Rightarrow> if length bs = 32 then Ok bs else Err ''AccountAddressParseError''
           | None \<Rightarrow> Err ''AccountAddressParseError''))"

interpretation hex_text: address_text lower_hex from_hex_literal_ref
proof unfold_locales
  fix a :: account_address
  assume "length a = 32"
  moreover have "strip_prefix ''0x'' (''0x'' @ lower_hex a) = Some (lower_hex a)"
    by (rule strip_prefix_append)
  moreover have "hex_decode_ref (lower_hex a) = Some a"
    by (rule ref_hex.decode_encode)
  ultimately show "from_hex_literal_ref (''0x'' @ lower_hex a) = Ok a"
    unfolding from_hex_literal_ref_def by simp
qed

text \<open>
  \<open>to_hex_literal\<close> prints \<open>0x\<close> and the digits without leading zeros, at least one. No printed address contains such a literal,
  for the letter \<open>x\<close> is not a hexadecimal digit.
\<close>

definition short_hex :: "account_address \<Rightarrow> string" where
  "short_hex a = (let s = dropWhile ((=) CHR ''0'') (lower_hex a) in if s = [] then ''0'' else s)"

lemma dropWhile_eq_same_length:
  assumes "dropWhile ((=) z) s = dropWhile ((=) z) t" and "length s = length t"
  shows "s = t"
proof -
  have zeros: "takeWhile ((=) z) u = replicate (length (takeWhile ((=) z) u)) z" for u
    by (rule replicate_length_same[symmetric]) (auto dest: set_takeWhileD)
  have split: "length u = length (takeWhile ((=) z) u) + length (dropWhile ((=) z) u)" for u
    by (metis length_append takeWhile_dropWhile_id)
  from split[of s] split[of t] assms
  have "length (takeWhile ((=) z) s) = length (takeWhile ((=) z) t)" by simp
  then have "takeWhile ((=) z) s = takeWhile ((=) z) t" using zeros[of s] zeros[of t] by simp
  with assms(1) show ?thesis by (metis takeWhile_dropWhile_id)
qed

lemma short_hex_inj: "length a = length b \<Longrightarrow> short_hex a = short_hex b \<longleftrightarrow> a = b"
proof
  assume len: "length a = length b" and eq: "short_hex a = short_hex b"
  have "dropWhile ((=) CHR ''0'') s \<noteq> ''0''" for s
    by (metis hd_dropWhile list.distinct(1) list.sel(1))
  with eq have "dropWhile ((=) CHR ''0'') (lower_hex a) = dropWhile ((=) CHR ''0'') (lower_hex b)"
    unfolding short_hex_def Let_def by (metis (no_types, lifting))
  from dropWhile_eq_same_length[OF this] len show "a = b" by (simp add: lower_hex_inj)
qed simp

locale address_literal = address_display to_str
  for to_str :: "account_address \<Rightarrow> string" +
  fixes to_lit :: "account_address \<Rightarrow> string"
  assumes to_lit_short: "length a = 32 \<Longrightarrow> to_lit a = ''0x'' @ short_hex a"
begin

lemma to_lit_inj: "length a = 32 \<Longrightarrow> length b = 32 \<Longrightarrow> to_lit a = to_lit b \<longleftrightarrow> a = b"
  by (simp add: to_lit_short short_hex_inj)

lemma to_str_no_literal:
  assumes "length a = 32" and "length b = 32"
  shows "\<not> str_contains (to_str a) (to_lit b)"
proof
  assume "str_contains (to_str a) (to_lit b)"
  then have "CHR ''x'' \<in> set (lower_hex a)"
    using assms by (auto simp: str_contains_iff to_str_hex to_lit_short)
  moreover have "CHR ''x'' \<notin> set ''0123456789abcdef''" by simp
  ultimately show False using lower_hex_chars by blast
qed

lemma to_str_not_literal: "length a = 32 \<Longrightarrow> length b = 32 \<Longrightarrow> to_str a \<noteq> to_lit b"
  using to_str_no_literal[of a b] by auto

end

definition to_hex_literal_ref :: "account_address \<Rightarrow> string" where
  "to_hex_literal_ref a = ''0x'' @ short_hex a"

interpretation hex_literal: address_literal lower_hex to_hex_literal_ref
  by unfold_locales (simp add: to_hex_literal_ref_def)

definition core_code_address :: account_address where
  "core_code_address = replicate 31 0 @ [1]"

definition zero_address :: account_address where
  "zero_address = replicate 32 0"

end
