(* ===== verification/Recovery.thy ===== *)
theory Recovery
  imports F64 Account_Address
begin

text \<open>
  The recovery records a migration starts from: the version six resources
  (\<^verbatim>\<open>src/types/src/move_resource\<close>), the record \<open>LegacyRecoveryV6\<close> with its reader and the
  system address filter (\<^verbatim>\<open>src/compatibility/src/legacy_recovery_v6.rs\<close>) and the fixes applied to a parsed
  recovery file (\<^verbatim>\<open>src/tools/genesis/src/parse_json.rs\<close>).

  The vendor's types \<open>ValidatorConfig\<close>, \<open>ValidatorOperatorConfigResource\<close> and \<open>EventHandle\<close> are the type
  variables \<open>'vc\<close>, \<open>'vo\<close> and \<open>'ev\<close>. The vendor's \<open>AccountState\<close> is the record \<open>account_view\<close> of what its getters
  return; the JSON codec and the address printer are parameters.
\<close>

section \<open>Resources\<close>

record CommunityWalletsResource =
  cwr_list :: "account_address list"

record SlowWalletResource =
  sw_unlocked :: u64
  sw_transferred :: u64

record 'ev SlowWalletListResource =
  swl_list :: "account_address list"
  swl_drip_events :: 'ev

record ReceiptsResourceV6 =
  rc_destination :: "account_address list"
  rc_cumulative :: "u64 list"
  rc_last_payment_timestamp :: "u64 list"
  rc_last_payment_value :: "u64 list"

record LegacyBalanceResourceV6 =
  bal_coin :: u64

record CumulativeDepositResourceV6 =
  cd_value :: u64
  cd_index :: u64
  cd_depositors :: "account_address list"

record AncestryResourceV6 =
  an_tree :: "account_address list"

record MyVouchesResource =
  mv_my_buddies :: "account_address list"
  mv_epoch_vouched :: "u64 list"

record UserBurnPreferenceResource =
  ub_send_community :: bool

record BurnCounterResource =
  bc_lifetime_burned :: u64
  bc_lifetime_recycled :: u64

record BurnTrackerResource =
  bt_prev_supply :: u64
  bt_prev_balance :: u64
  bt_burn_at_last_calc :: u64
  bt_cumu_burn :: u64

record RegistryResource =
  rg_list :: "account_address list"
  rg_liquidation_queue :: "account_address list"

record IDResource =
  id_creation_num :: u64
  id_addr :: account_address

record PaymentResource =
  pay_payee :: account_address
  pay_value :: u64
  pay_description :: bytes

record TimedTransferResource =
  tt_uid :: IDResource
  tt_deadline :: u64
  tt_tx :: PaymentResource
  tt_epoch_latest_veto_received :: u64

record GUIDCapabilityResource =
  guid_addr :: account_address

record TxScheduleResource =
  ts_scheduled :: "TimedTransferResource list"
  ts_veto :: "TimedTransferResource list"
  ts_paid :: "TimedTransferResource list"
  ts_guid_capability :: GUIDCapabilityResource

record FeeMakerResource =
  fm_epoch :: u64
  fm_lifetime :: u64

record EpochFeeMakerRegistryResource =
  ef_fee_makers :: "account_address list"
  ef_epoch_fees_made :: u64

record JailResource =
  jl_is_jailed :: bool
  jl_lifetime_jailed :: u64
  jl_lifetime_vouchees_jailed :: u64
  jl_consecutive_failure_to_rejoin :: u64

record MatchIndexResource =
  mi_addr :: "account_address list"
  mi_index :: "u64 list"
  mi_ratio :: "f64 list"

record ValidatorUniverseResource =
  vu_validators :: "account_address list"

record ConsensusRewardResource =
  cr_nominal_reward :: u64
  cr_net_reward :: u64
  cr_entry_fee :: u64
  cr_clearing_bid :: u64
  cr_median_win_bid :: u64
  cr_median_history :: "u64 list"

record PledgeAccountResource =
  pa_address_of_beneficiary :: account_address
  pa_amount :: u64
  pa_pledge :: u64
  pa_epoch_of_last_deposit :: u64
  pa_lifetime_pledged :: u64
  pa_lifetime_withdrawn :: u64

record MyPledgesResource =
  mp_list :: "PledgeAccountResource list"

record CurrencyInfoResource =
  ci_total_value :: u128
  ci_preburn_value :: u64
  ci_to_xdx_exchange_rate :: u64
  ci_is_synthetic :: bool
  ci_scaling_factor :: u64
  ci_fractional_part :: u64
  ci_currency_code :: string
  ci_can_mint :: bool

section \<open>Recovery records\<close>

datatype AccountRole = System | Validator | Operator | EndUser | Drop

record ('vc, 'vo, 'ev) LegacyRecoveryV6 =
  r_account :: "account_address option"
  r_auth_key :: "auth_key option"
  r_role :: AccountRole
  r_balance :: "LegacyBalanceResourceV6 option"
  r_val_cfg :: "'vc option"
  r_val_operator_cfg :: "'vo option"
  r_comm_wallet :: "CommunityWalletsResource option"
  r_currency_info :: "CurrencyInfoResource option"
  r_ancestry :: "AncestryResourceV6 option"
  r_receipts :: "ReceiptsResourceV6 option"
  r_cumulative_deposits :: "CumulativeDepositResourceV6 option"
  r_slow_wallet :: "SlowWalletResource option"
  r_slow_wallet_list :: "'ev SlowWalletListResource option"
  r_user_burn_preference :: "UserBurnPreferenceResource option"
  r_burn_tracker :: "BurnTrackerResource option"
  r_my_vouches :: "MyVouchesResource option"
  r_tx_schedule :: "TxScheduleResource option"
  r_fee_maker :: "FeeMakerResource option"
  r_jail :: "JailResource option"
  r_my_pledge :: "MyPledgesResource option"
  r_burn_counter :: "BurnCounterResource option"
  r_donor_voice_registry :: "RegistryResource option"
  r_epoch_fee_maker_registry :: "EpochFeeMakerRegistryResource option"
  r_match_index :: "MatchIndexResource option"
  r_validator_universe :: "ValidatorUniverseResource option"
  r_consensus_reward :: "ConsensusRewardResource option"

definition AccountRole_default :: AccountRole where
  "AccountRole_default = EndUser"

definition LegacyRecoveryV6_default :: "('vc, 'vo, 'ev) LegacyRecoveryV6" where
  "LegacyRecoveryV6_default =
     \<lparr>r_account = None, r_auth_key = None, r_role = AccountRole_default, r_balance = None,
      r_val_cfg = None, r_val_operator_cfg = None, r_comm_wallet = None, r_currency_info = None,
      r_ancestry = None, r_receipts = None, r_cumulative_deposits = None, r_slow_wallet = None,
      r_slow_wallet_list = None, r_user_burn_preference = None, r_burn_tracker = None,
      r_my_vouches = None, r_tx_schedule = None, r_fee_maker = None, r_jail = None,
      r_my_pledge = None, r_burn_counter = None, r_donor_voice_registry = None,
      r_epoch_fee_maker_registry = None, r_match_index = None, r_validator_universe = None,
      r_consensus_reward = None\<rparr>"

definition system_zeros :: string where
  "system_zeros = replicate 63 CHR ''0''"

text \<open>\<open>retain\<close> with an \<open>unwrap\<close> in its predicate: the first record without an account panics.\<close>

fun strip_system_address ::
  "(account_address \<Rightarrow> string) \<Rightarrow> ('vc, 'vo, 'ev) LegacyRecoveryV6 list \<Rightarrow>
   ('vc, 'vo, 'ev) LegacyRecoveryV6 list rres" where
  "strip_system_address to_str [] = Ok []"
| "strip_system_address to_str (e # list) =
     rbind (or_panic ''called Option::unwrap() on a None value'' (r_account e)) (\<lambda>a.
     rbind (strip_system_address to_str list) (\<lambda>rest.
     Ok (if str_contains (to_str a) system_zeros then rest else e # rest)))"

definition read_from_recovery_file ::
  "(string \<Rightarrow> ('vc, 'vo, 'ev) LegacyRecoveryV6 list option) \<Rightarrow> (string \<rightharpoonup> string) \<Rightarrow> string \<Rightarrow>
   ('vc, 'vo, 'ev) LegacyRecoveryV6 list rres" where
  "read_from_recovery_file from_json fs path =
     rbind (or_panic ''Unable to read file'' (fs path)) (\<lambda>data.
     or_panic ''Unable to parse'' (from_json data))"

text \<open>What the getters of the vendor's account state return for one account.\<close>

record ('vc, 'vo, 'ev) account_view =
  av_address :: "account_address option rres"
  av_authentication_key :: "bytes option rres"
  av_coin_store :: "u64 option rres"
  av_validator_config :: "'vc option rres"
  av_operator_config :: "'vo option rres"
  av_comm_wallet :: "CommunityWalletsResource option rres"
  av_ancestry :: "AncestryResourceV6 option rres"
  av_receipts :: "ReceiptsResourceV6 option rres"
  av_cumulative_deposits :: "CumulativeDepositResourceV6 option rres"
  av_slow_wallet :: "SlowWalletResource option rres"
  av_slow_wallet_list :: "'ev SlowWalletListResource option rres"
  av_user_burn_preference :: "UserBurnPreferenceResource option rres"
  av_burn_tracker :: "BurnTrackerResource option rres"
  av_my_vouches :: "MyVouchesResource option rres"
  av_tx_schedule :: "TxScheduleResource option rres"
  av_fee_maker :: "FeeMakerResource option rres"
  av_jail :: "JailResource option rres"
  av_my_pledge :: "MyPledgesResource option rres"
  av_burn_counter :: "BurnCounterResource option rres"
  av_donor_voice_registry :: "RegistryResource option rres"
  av_epoch_fee_maker_registry :: "EpochFeeMakerRegistryResource option rres"
  av_match_index :: "MatchIndexResource option rres"
  av_validator_universe :: "ValidatorUniverseResource option rres"
  av_consensus_reward :: "ConsensusRewardResource option rres"

definition get_legacy_recovery ::
  "(string \<Rightarrow> account_address rres) \<Rightarrow> ('vc, 'vo, 'ev) account_view \<Rightarrow>
   ('vc, 'vo, 'ev) LegacyRecoveryV6 rres" where
  "get_legacy_recovery from_str st =
     rbind (av_address st) (\<lambda>addr.
     let r = LegacyRecoveryV6_default\<lparr>r_account := addr, r_role := EndUser\<rparr> in
     rbind (av_authentication_key st) (\<lambda>account_resource.
     case account_resource of
       None \<Rightarrow> Ok r
     | Some key \<Rightarrow>
         rbind (if length key = 32 then Ok key else Err ''error: '') (\<lambda>byte_slice.
         rbind (av_address st) (\<lambda>address.
         rbind (from_str ''0x1'') (\<lambda>one.
         let role = (if address = Some one then System else EndUser) in
         rbind (av_coin_store st) (\<lambda>coin.
         rbind (av_validator_config st) (\<lambda>val_cfg.
         let role = (if val_cfg \<noteq> None then Validator else role) in
         rbind (av_operator_config st) (\<lambda>val_operator_cfg.
         let role = (if val_operator_cfg \<noteq> None then Operator else role) in
         rbind (av_comm_wallet st) (\<lambda>comm_wallet.
         rbind (av_ancestry st) (\<lambda>ancestry.
         rbind (av_receipts st) (\<lambda>receipts.
         rbind (av_cumulative_deposits st) (\<lambda>cumulative_deposits.
         rbind (av_slow_wallet st) (\<lambda>slow_wallet.
         rbind (av_slow_wallet_list st) (\<lambda>slow_wallet_list.
         rbind (av_user_burn_preference st) (\<lambda>user_burn_preference.
         rbind (av_burn_tracker st) (\<lambda>burn_tracker.
         rbind (av_my_vouches st) (\<lambda>my_vouches.
         rbind (av_tx_schedule st) (\<lambda>tx_schedule.
         rbind (av_fee_maker st) (\<lambda>fee_maker.
         rbind (av_jail st) (\<lambda>jail.
         rbind (av_my_pledge st) (\<lambda>my_pledge.
         rbind (av_burn_counter st) (\<lambda>burn_counter.
         rbind (av_donor_voice_registry st) (\<lambda>donor_voice_registry.
         rbind (av_epoch_fee_maker_registry st) (\<lambda>epoch_fee_maker_registry.
         rbind (av_match_index st) (\<lambda>match_index.
         rbind (av_validator_universe st) (\<lambda>validator_universe.
         rbind (av_consensus_reward st) (\<lambda>consensus_reward.
         Ok \<lparr>r_account = addr, r_auth_key = Some byte_slice, r_role = role,
             r_balance = map_option LegacyBalanceResourceV6.make coin,
             r_val_cfg = val_cfg, r_val_operator_cfg = val_operator_cfg,
             r_comm_wallet = comm_wallet, r_currency_info = None,
             r_ancestry = ancestry, r_receipts = receipts,
             r_cumulative_deposits = cumulative_deposits, r_slow_wallet = slow_wallet,
             r_slow_wallet_list = slow_wallet_list, r_user_burn_preference = user_burn_preference,
             r_burn_tracker = burn_tracker, r_my_vouches = my_vouches,
             r_tx_schedule = tx_schedule, r_fee_maker = fee_maker, r_jail = jail,
             r_my_pledge = my_pledge, r_burn_counter = burn_counter,
             r_donor_voice_registry = donor_voice_registry,
             r_epoch_fee_maker_registry = epoch_fee_maker_registry, r_match_index = match_index,
             r_validator_universe = validator_universe,
             r_consensus_reward = consensus_reward\<rparr>)))))))))))))))))))))))))))"

section \<open>Fixes of a parsed recovery file\<close>

definition fix_one_slow_wallet ::
  "('vc, 'vo, 'ev) LegacyRecoveryV6 \<Rightarrow> ('vc, 'vo, 'ev) LegacyRecoveryV6 \<times> account_address list" where
  "fix_one_slow_wallet e =
     (case (r_account e, r_balance e, r_slow_wallet e) of
        (Some a, Some b, Some s) \<Rightarrow>
          (if bal_coin b < sw_unlocked s
           then (e\<lparr>r_slow_wallet := Some (s\<lparr>sw_unlocked := bal_coin b\<rparr>)\<rparr>, [a])
           else (e, []))
      | _ \<Rightarrow> (e, []))"

text \<open>The mutated slice and the returned list of corrected accounts.\<close>

definition fix_slow_wallet ::
  "('vc, 'vo, 'ev) LegacyRecoveryV6 list \<Rightarrow> ('vc, 'vo, 'ev) LegacyRecoveryV6 list \<times> account_address list" where
  "fix_slow_wallet r = (map (fst \<circ> fix_one_slow_wallet) r, concat (map (snd \<circ> fix_one_slow_wallet) r))"

definition recovery_file_parse ::
  "(string \<Rightarrow> ('vc, 'vo, 'ev) LegacyRecoveryV6 list option) \<Rightarrow> (string \<rightharpoonup> string) \<Rightarrow> string \<Rightarrow>
   ('vc, 'vo, 'ev) LegacyRecoveryV6 list rres" where
  "recovery_file_parse from_json fs path =
     rbind (read_from_recovery_file from_json fs path) (\<lambda>r. Ok (fst (fix_slow_wallet r)))"

record DropList =
  dl_account :: account_address

definition tombstone_key :: auth_key where
  "tombstone_key = replicate 32 9"

definition drop_one ::
  "account_address list \<Rightarrow> ('vc, 'vo, 'ev) LegacyRecoveryV6 \<Rightarrow> ('vc, 'vo, 'ev) LegacyRecoveryV6" where
  "drop_one mapped e =
     (case r_account e of
        Some a \<Rightarrow>
          (if a \<in> set mapped
           then LegacyRecoveryV6_default
                  \<lparr>r_account := Some a, r_auth_key := Some tombstone_key, r_role := Drop\<rparr>
           else e)
      | None \<Rightarrow> e)"

text \<open>
  \<open>drop_file\<close> is split into its parent directory and its name. The result carries the mutated
  slice and the file system after the sanitized copy was written.
\<close>

definition drop_accounts ::
  "(string \<Rightarrow> DropList list option) \<Rightarrow> (('vc, 'vo, 'ev) LegacyRecoveryV6 list \<Rightarrow> string rres) \<Rightarrow>
   (string \<Rightarrow> string \<Rightarrow> string) \<Rightarrow> ('vc, 'vo, 'ev) LegacyRecoveryV6 list \<Rightarrow> string \<times> string \<Rightarrow>
   (string \<rightharpoonup> string) \<Rightarrow> (('vc, 'vo, 'ev) LegacyRecoveryV6 list \<times> (string \<rightharpoonup> string)) rres" where
  "drop_accounts list_from_json to_json join_path r drop_file fs =
     rbind (or_panic ''Unable to read file'' (fs (join_path (fst drop_file) (snd drop_file)))) (\<lambda>data.
     rbind (or_panic ''Unable to parse'' (list_from_json data)) (\<lambda>list.
     let r = map (drop_one (map dl_account list)) r in
     rbind (to_json r) (\<lambda>json.
     Ok (r, fs(join_path (fst drop_file) ''migration_sanitized.json'' \<mapsto> json)))))"

section \<open>The reader\<close>

text \<open>The role a record gets: an operator config wins over a validator config, and both over
  the system address.\<close>

definition expected_role :: "'vc option \<Rightarrow> 'vo option \<Rightarrow> bool \<Rightarrow> AccountRole" where
  "expected_role vc vo is_one =
     (if vo \<noteq> None then Operator else if vc \<noteq> None then Validator
      else if is_one then System else EndUser)"

lemma legacy_recovery_reads:
  assumes "get_legacy_recovery from_str st = Ok r" and "av_authentication_key st = Ok (Some key)"
  shows "av_address st = Ok (r_account r)"
    "av_validator_config st = Ok (r_val_cfg r)" "av_operator_config st = Ok (r_val_operator_cfg r)"
    "av_slow_wallet st = Ok (r_slow_wallet r)" "av_receipts st = Ok (r_receipts r)"
    "av_cumulative_deposits st = Ok (r_cumulative_deposits r)"
    "av_comm_wallet st = Ok (r_comm_wallet r)" "av_ancestry st = Ok (r_ancestry r)"
    "av_my_pledge st = Ok (r_my_pledge r)"
  using assms(1)
  by (simp only: get_legacy_recovery_def Let_def assms(2) rbind.simps option.case;
      elim rbind_OkE; simp only: rres.inject; hypsubst; simp)+

lemma legacy_recovery_balance:
  assumes "get_legacy_recovery from_str st = Ok r" and "av_authentication_key st = Ok (Some key)"
  shows "av_coin_store st = Ok (map_option bal_coin (r_balance r))"
  using assms(1)
  by (simp only: get_legacy_recovery_def Let_def assms(2) rbind.simps option.case;
      elim rbind_OkE; simp only: rres.inject; hypsubst; simp add: option.map_comp o_def LegacyBalanceResourceV6.make_def option.map_ident)+

lemma legacy_recovery_auth_key:
  assumes "get_legacy_recovery from_str st = Ok r" and "av_authentication_key st = Ok (Some key)"
  shows "length key = 32 \<and> r_auth_key r = Some key"
  using assms(1)
  by (simp only: get_legacy_recovery_def Let_def assms(2) rbind.simps option.case;
      elim rbind_OkE; simp only: rres.inject; hypsubst; simp split: if_splits)+

lemma legacy_recovery_role:
  assumes "get_legacy_recovery from_str st = Ok r" and "av_authentication_key st = Ok (Some key)"
  shows "\<exists>one. from_str ''0x1'' = Ok one \<and>
       r_role r = expected_role (r_val_cfg r) (r_val_operator_cfg r) (r_account r = Some one)"
  using assms(1)
  by (simp only: get_legacy_recovery_def Let_def assms(2) rbind.simps option.case;
      elim rbind_OkE; simp only: rres.inject; hypsubst; simp add: expected_role_def)+

section \<open>The fixes\<close>

text \<open>An entry is sound when its unlocked amount does not exceed its balance.\<close>

definition slow_ok :: "('vc, 'vo, 'ev) LegacyRecoveryV6 \<Rightarrow> bool" where
  "slow_ok e =
     (case (r_account e, r_balance e, r_slow_wallet e) of
        (Some a, Some b, Some s) \<Rightarrow> sw_unlocked s \<le> bal_coin b
      | _ \<Rightarrow> True)"

lemma fix_one_id: "slow_ok e \<Longrightarrow> fix_one_slow_wallet e = (e, [])"
  by (auto simp: slow_ok_def fix_one_slow_wallet_def split: option.splits)

lemma fix_one_bad:
  assumes "\<not> slow_ok e"
  obtains a b s where "r_account e = Some a" "r_balance e = Some b" "r_slow_wallet e = Some s"
    "fix_one_slow_wallet e = (e\<lparr>r_slow_wallet := Some (s\<lparr>sw_unlocked := bal_coin b\<rparr>)\<rparr>, [a])"
  using assms by (auto simp: slow_ok_def fix_one_slow_wallet_def split: option.splits)

lemma fix_one_ok: "slow_ok (fst (fix_one_slow_wallet e))"
proof (cases "slow_ok e")
  case False
  then show ?thesis by (rule fix_one_bad) (simp add: slow_ok_def)
qed (simp add: fix_one_id)

lemma fix_one_errs: "snd (fix_one_slow_wallet e) = (if slow_ok e then [] else [the (r_account e)])"
proof (cases "slow_ok e")
  case False
  then show ?thesis by (rule fix_one_bad) (simp add: False)
qed (simp add: fix_one_id)

lemma fix_errs: "concat (map (snd \<circ> fix_one_slow_wallet) rs) =
  map (the \<circ> r_account) (filter (\<lambda>e. \<not> slow_ok e) rs)"
  by (induction rs) (simp_all add: fix_one_errs)

lemma fix_all_ok: "list_all slow_ok rs \<Longrightarrow> fix_slow_wallet rs = (rs, [])"
  by (induction rs) (simp_all add: fix_slow_wallet_def fix_one_id)

text \<open>What the fix makes of an unsound entry: all of the balance is unlocked, the transferred amount
  and every other field stay.\<close>

lemma fix_one_exact:
  "fst (fix_one_slow_wallet e) =
     (if slow_ok e then e
      else e\<lparr>r_slow_wallet := Some \<lparr>sw_unlocked = bal_coin (the (r_balance e)),
                                     sw_transferred = sw_transferred (the (r_slow_wallet e))\<rparr>\<rparr>)"
proof (cases "slow_ok e")
  case False
  then show ?thesis by (rule fix_one_bad) (simp add: False)
qed (simp add: fix_one_id)

text \<open>
  C6. \<open>fix_slow_wallet\<close> leaves sound entries alone; in an unsound entry it sets the unlocked amount to
  the balance and keeps the transferred amount and every other field. All entries are sound
  afterwards, exactly the accounts of the unsound entries are reported, in order, and a second run
  finds nothing to fix.
\<close>

theorem fix_slow_wallet_correct:
  assumes "fix_slow_wallet rs = (rs', errs)"
  shows "list_all2 (\<lambda>new old. new =
      (if slow_ok old then old
       else old\<lparr>r_slow_wallet := Some \<lparr>sw_unlocked = bal_coin (the (r_balance old)),
                                        sw_transferred = sw_transferred (the (r_slow_wallet old))\<rparr>\<rparr>))
      rs' rs \<and>
    list_all slow_ok rs' \<and> errs = map (the \<circ> r_account) (filter (\<lambda>e. \<not> slow_ok e) rs) \<and>
    fix_slow_wallet rs' = (rs', [])"
proof (intro conjI)
  have rs': "rs' = map (fst \<circ> fix_one_slow_wallet) rs"
    and errs: "errs = concat (map (snd \<circ> fix_one_slow_wallet) rs)"
    using assms by (simp_all add: fix_slow_wallet_def)
  show "list_all2 (\<lambda>new old. new =
      (if slow_ok old then old
       else old\<lparr>r_slow_wallet := Some \<lparr>sw_unlocked = bal_coin (the (r_balance old)),
                                        sw_transferred = sw_transferred (the (r_slow_wallet old))\<rparr>\<rparr>))
      rs' rs"
    by (simp add: rs' list_all2_conv_all_nth fix_one_exact)
  show ok: "list_all slow_ok rs'" by (simp add: rs' list_all_iff fix_one_ok)
  show "errs = map (the \<circ> r_account) (filter (\<lambda>e. \<not> slow_ok e) rs)" by (simp add: errs fix_errs)
  show "fix_slow_wallet rs' = (rs', [])" by (rule fix_all_ok[OF ok])
qed

definition sample_recovery :: "u8 \<Rightarrow> u64 \<Rightarrow> u64 \<Rightarrow> (unit, unit, unit) LegacyRecoveryV6" where
  "sample_recovery b coin unl =
     LegacyRecoveryV6_default
       \<lparr>r_account := Some (replicate 32 b), r_auth_key := Some (replicate 32 b),
        r_balance := Some \<lparr>bal_coin = coin\<rparr>,
        r_slow_wallet := Some \<lparr>sw_unlocked = unl, sw_transferred = 0\<rparr>\<rparr>"

lemma sample_recovery_simps [simp]:
  "r_account (sample_recovery b coin unl) = Some (replicate 32 b)"
  "r_auth_key (sample_recovery b coin unl) = Some (replicate 32 b)"
  "r_balance (sample_recovery b coin unl) = Some \<lparr>bal_coin = coin\<rparr>"
  "r_slow_wallet (sample_recovery b coin unl) = Some \<lparr>sw_unlocked = unl, sw_transferred = 0\<rparr>"
  "r_role (sample_recovery b coin unl) = EndUser"
  "r_val_cfg (sample_recovery b coin unl) = None"
  "r_cumulative_deposits (sample_recovery b coin unl) = None"
  "r_comm_wallet (sample_recovery b coin unl) = None"
  "r_ancestry (sample_recovery b coin unl) = None"
  "r_receipts (sample_recovery b coin unl) = None"
  "r_my_pledge (sample_recovery b coin unl) = None"
  by (simp_all add: sample_recovery_def LegacyRecoveryV6_default_def AccountRole_default_def)

theorem fix_slow_wallet_correct_witness:
  "fix_slow_wallet [sample_recovery 1 100 200, sample_recovery 2 100 50] =
     ([sample_recovery 1 100 100, sample_recovery 2 100 50], [replicate 32 1])"
proof -
  obtain rs' :: "(unit, unit, unit) LegacyRecoveryV6 list" and errs
    where r: "fix_slow_wallet [sample_recovery 1 100 200, sample_recovery 2 100 50] = (rs', errs)"
    by (metis prod.exhaust)
  have ok: "slow_ok (sample_recovery 1 100 200) = False" "slow_ok (sample_recovery 2 100 50) = True"
    by (simp_all add: slow_ok_def)
  have "(sample_recovery 1 100 200)\<lparr>r_slow_wallet := Some \<lparr>sw_unlocked = 100, sw_transferred = 0\<rparr>\<rparr>
      = sample_recovery 1 100 100"
    by (simp add: sample_recovery_def)
  with fix_slow_wallet_correct[OF r] r show ?thesis
    by (auto simp: ok list_all2_Cons2)
qed

section \<open>Dropped and system accounts\<close>

lemma drop_one_listed:
  "r_account e = Some a \<Longrightarrow> a \<in> set mapped \<Longrightarrow>
   r_account (drop_one mapped e) = Some a \<and> r_auth_key (drop_one mapped e) = Some tombstone_key \<and>
   r_role (drop_one mapped e) = Drop \<and> r_balance (drop_one mapped e) = None \<and>
   r_slow_wallet (drop_one mapped e) = None"
  by (simp add: drop_one_def LegacyRecoveryV6_default_def)

lemma drop_one_kept: "r_account e \<notin> Some ` set mapped \<Longrightarrow> drop_one mapped e = e"
  by (auto simp: drop_one_def split: option.splits)

lemma drop_one_account [simp]: "r_account (drop_one mapped e) = r_account e"
  by (simp add: drop_one_def split: option.splits)

text \<open>63 zeros fit into 64 digits only at the front or at the back.\<close>

lemma contains_system_zeros:
  assumes "length s = 64"
  shows "str_contains s system_zeros \<longleftrightarrow> take 63 s = system_zeros \<or> drop 1 s = system_zeros"
proof
  assume "str_contains s system_zeros"
  then obtain u v where s: "s = u @ system_zeros @ v" by (auto simp: str_contains_iff)
  have z: "length system_zeros = 63" by (simp add: system_zeros_def)
  from arg_cong[OF s, of length] z have "length u + length v = 1" using assms by simp
  then consider "u = []" "length v = 1" | "length u = 1" "v = []"
    by (cases u; cases v) auto
  then show "take 63 s = system_zeros \<or> drop 1 s = system_zeros" by cases (simp_all add: s z)
next
  assume "take 63 s = system_zeros \<or> drop 1 s = system_zeros"
  then have "s = [] @ system_zeros @ drop 63 s \<or> s = take 1 s @ system_zeros @ []"
    by (metis append_Nil append_Nil2 append_take_drop_id)
  then show "str_contains s system_zeros" unfolding str_contains_iff by blast
qed

lemma strip_system_address_Ok:
  "list_all (\<lambda>e. r_account e \<noteq> None) list \<Longrightarrow>
   strip_system_address to_str list =
     Ok (filter (\<lambda>e. \<not> str_contains (to_str (the (r_account e))) system_zeros) list)"
  by (induction list) auto

lemma strip_system_address_panics:
  "\<not> list_all (\<lambda>e. r_account e \<noteq> None) list \<Longrightarrow> is_panic (strip_system_address to_str list)"
proof (induction list)
  case (Cons e list)
  then show ?case by (cases "r_account e"; cases "strip_system_address to_str list") auto
qed simp

end
