(* ===== verification/BTree_Map.thy ===== *)
theory BTree_Map
  imports Prelude
begin

text \<open>
  \<open>std::collections::BTreeMap\<close>: the contract the sources rely on (insertion, lookup, update in place through
  \<open>get_mut\<close>, iteration in key order) as the locale \<open>ordered_map\<close>, and sorted association lists as the model that
  satisfies it.
\<close>

locale ordered_map =
  fixes entries :: "'m \<Rightarrow> ('k::linorder \<times> 'v) list"
    and get :: "'k \<Rightarrow> 'm \<Rightarrow> 'v option"
    and ins :: "'k \<Rightarrow> 'v \<Rightarrow> 'm \<Rightarrow> 'm"
    and modify :: "'k \<Rightarrow> ('v \<Rightarrow> 'v) \<Rightarrow> 'm \<Rightarrow> 'm"
    and empty :: 'm
  assumes entries_empty: "entries empty = []"
    and ins_ordered: "sorted_wrt (<) (map fst (entries m)) \<Longrightarrow> sorted_wrt (<) (map fst (entries (ins k v m)))"
    and modify_keys: "map fst (entries (modify k f m)) = map fst (entries m)"
    and get_entries: "get k m = map_of (entries m) k"
    and get_ins: "get j (ins k v m) = (if j = k then Some v else get j m)"
    and get_modify: "get j (modify k f m) = (if j = k then map_option f (get j m) else get j m)"
begin

lemma ordered_distinct: "sorted_wrt (<) (map fst (entries m)) \<Longrightarrow> distinct (map fst (entries m))"
  by (simp add: strict_sorted_iff)

text \<open>A map filled by inserting the pairs of a list holds the last value of each key, in key order.\<close>

lemma ordered_fold_ins:
  "sorted_wrt (<) (map fst (entries m)) \<Longrightarrow>
   sorted_wrt (<) (map fst (entries (fold (\<lambda>(k, v). ins k v) kvs m)))"
  by (induction kvs arbitrary: m) (auto simp: ins_ordered)

lemma get_fold_ins:
  "get j (fold (\<lambda>(k, v). ins k v) kvs m) =
     (case map_of (rev kvs) j of Some v \<Rightarrow> Some v | None \<Rightarrow> get j m)"
proof (induction kvs rule: rev_induct)
  case (snoc p kvs)
  then show ?case by (cases p) (auto simp: get_ins)
qed simp

lemma keys_get: "set (map fst (entries m)) = {k. get k m \<noteq> None}"
  by (simp add: get_entries map_of_eq_None_iff)

end

fun bt_insert :: "'k::linorder \<Rightarrow> 'v \<Rightarrow> ('k \<times> 'v) list \<Rightarrow> ('k \<times> 'v) list" where
  "bt_insert k v [] = [(k, v)]"
| "bt_insert k v ((j, w) # m) =
     (if k < j then (k, v) # (j, w) # m else if k = j then (k, v) # m else (j, w) # bt_insert k v m)"

definition bt_get :: "'k \<Rightarrow> ('k \<times> 'v) list \<Rightarrow> 'v option" where
  "bt_get k m = map_of m k"

fun bt_modify :: "'k \<Rightarrow> ('v \<Rightarrow> 'v) \<Rightarrow> ('k \<times> 'v) list \<Rightarrow> ('k \<times> 'v) list" where
  "bt_modify k f [] = []"
| "bt_modify k f ((j, w) # m) = (if k = j then (j, f w) # m else (j, w) # bt_modify k f m)"

lemma keys_bt_insert: "set (map fst (bt_insert k v m)) = insert k (set (map fst m))"
  by (induction k v m rule: bt_insert.induct) auto

interpretation bt: ordered_map "\<lambda>m. m" bt_get bt_insert bt_modify "[]"
proof unfold_locales
  fix m :: "('a \<times> 'b) list" and k v
  show "sorted_wrt (<) (map fst (bt_insert k v m))" if "sorted_wrt (<) (map fst m)"
    using that
  proof (induction k v m rule: bt_insert.induct)
    case (2 k v j w m)
    then show ?case using keys_bt_insert[of k v m] by auto
  qed simp
next
  fix m :: "('a \<times> 'b) list" and k f
  show "map fst (bt_modify k f m) = map fst m" by (induction k f m rule: bt_modify.induct) auto
next
  fix m :: "('a \<times> 'b) list" and j k v
  show "bt_get j (bt_insert k v m) = (if j = k then Some v else bt_get j m)"
    by (induction k v m rule: bt_insert.induct) (auto simp: bt_get_def)
next
  fix m :: "('a \<times> 'b) list" and j k f
  show "bt_get j (bt_modify k f m) = (if j = k then map_option f (bt_get j m) else bt_get j m)"
    by (induction k f m rule: bt_modify.induct) (auto simp: bt_get_def)
qed (simp_all add: bt_get_def)

lemmas bt_simps = bt.get_ins bt.get_modify bt.modify_keys

end
