(* ===== verification/Comm_Wallet.thy ===== *)
theory Comm_Wallet
  imports Recovery BTree_Map
begin

text \<open>
  Community wallets and donor receipts rebuilt from a recovery file
  (\<^verbatim>\<open>src/tools/genesis/src/process_comm_wallet.rs\<close>). A \<open>BTreeMap\<close> keyed by addresses is the sorted association list of
  \<open>BTree_Map\<close>; the loop over the destinations of one donor is \<open>donor_loop\<close>, the loop over the donors \<open>donors_loop\<close>.
\<close>

record WalletState =
  ws_cumulative_value :: u64
  ws_cumulative_index :: u64
  ws_depositors :: "account_address list"
  ws_audit_deposits_with_receipts :: u64

record AllCommWallets =
  cw_list :: "(account_address \<times> WalletState) list"
  cw_total_deposits :: u64

record ReceiptsResourceV7 =
  v7_destination :: "account_address list"
  v7_cumulative :: "u64 list"
  v7_last_payment_timestamp :: "u64 list"
  v7_last_payment_value :: "u64 list"
  v7_audit_not_found :: "account_address list"

record DonorReceipts =
  dr_list :: "(account_address \<times> ReceiptsResourceV7) list"
  dr_total_cumu :: u64
  dr_audit_not_cw :: "account_address list"

definition cast_receipts :: "ReceiptsResourceV6 \<Rightarrow> ReceiptsResourceV7" where
  "cast_receipts temp =
     \<lparr>v7_destination = rc_destination temp, v7_cumulative = rc_cumulative temp,
      v7_last_payment_timestamp = rc_last_payment_timestamp temp,
      v7_last_payment_value = rc_last_payment_value temp, v7_audit_not_found = []\<rparr>"

text \<open>The body of both rebuilding loops: unwrap the account, then insert.\<close>

fun insert_all ::
  "(account_address option \<times> 'v) list \<Rightarrow> (account_address \<times> 'v) list \<Rightarrow>
   (account_address \<times> 'v) list rres" where
  "insert_all [] m = Ok m"
| "insert_all ((acc, v) # es) m =
     rbind (or_panic ''called Option::unwrap() on a None value'' acc) (\<lambda>a. insert_all es (bt_insert a v m))"

definition rebuild_donor_receipts :: "('vc, 'vo, 'ev) LegacyRecoveryV6 list \<Rightarrow> DonorReceipts rres" where
  "rebuild_donor_receipts recovery =
     rbind (insert_all (map (\<lambda>e. (r_account e, cast_receipts (the (r_receipts e))))
              (filter (\<lambda>e. r_receipts e \<noteq> None) recovery)) []) (\<lambda>list.
     Ok \<lparr>dr_list = list, dr_total_cumu = 0, dr_audit_not_cw = []\<rparr>)"

definition cast_deposit :: "CumulativeDepositResourceV6 \<Rightarrow> WalletState" where
  "cast_deposit cd =
     \<lparr>ws_cumulative_value = cd_value cd, ws_cumulative_index = cd_index cd, ws_depositors = [],
      ws_audit_deposits_with_receipts = 0\<rparr>"

definition rebuild_cw_cumu_deposits :: "('vc, 'vo, 'ev) LegacyRecoveryV6 list \<Rightarrow> AllCommWallets rres" where
  "rebuild_cw_cumu_deposits recovery =
     (let es = filter (\<lambda>e. r_cumulative_deposits e \<noteq> None) recovery in
      rbind (insert_all (map (\<lambda>e. (r_account e, cast_deposit (the (r_cumulative_deposits e)))) es) []) (\<lambda>list.
      Ok \<lparr>cw_list = list,
          cw_total_deposits = foldl (+) 0 (map (\<lambda>e. cd_value (the (r_cumulative_deposits e))) es)\<rparr>))"

definition credit :: "account_address \<Rightarrow> u64 \<Rightarrow> WalletState \<Rightarrow> WalletState" where
  "credit donor v w =
     w\<lparr>ws_audit_deposits_with_receipts := ws_audit_deposits_with_receipts w + v,
       ws_depositors := (if donor \<in> set (ws_depositors w) then ws_depositors w
                         else ws_depositors w @ [donor])\<rparr>"

text \<open>The closure over the destinations of one donor: updated wallets, updated list of addresses that
  are no community wallet, and the collected \<open>audit_not_found\<close>.\<close>

fun donor_loop ::
  "account_address \<Rightarrow> u64 list \<Rightarrow> nat \<Rightarrow> account_address list \<Rightarrow> (account_address \<times> WalletState) list \<Rightarrow>
   account_address list \<Rightarrow>
   ((account_address \<times> WalletState) list \<times> account_address list \<times> account_address list) rres" where
  "donor_loop donor cumu i [] cw not_cw = Ok (cw, not_cw, [])"
| "donor_loop donor cumu i (d # ds) cw not_cw =
     (case bt_get d cw of
        Some w \<Rightarrow>
          (if i < length cumu
           then donor_loop donor cumu (Suc i) ds (bt_modify d (credit donor (cumu ! i)) cw) not_cw
           else Panic ''cant parse value'')
      | None \<Rightarrow>
          rbind (donor_loop donor cumu (Suc i) ds cw
                   (if d \<in> set not_cw then not_cw else not_cw @ [d])) (\<lambda>(cw, not_cw, nf).
          Ok (cw, not_cw, d # nf)))"

fun donors_loop ::
  "(account_address \<times> ReceiptsResourceV7) list \<Rightarrow> (account_address \<times> WalletState) list \<Rightarrow>
   account_address list \<Rightarrow>
   ((account_address \<times> ReceiptsResourceV7) list \<times> (account_address \<times> WalletState) list \<times>
    account_address list) rres" where
  "donors_loop [] cw not_cw = Ok ([], cw, not_cw)"
| "donors_loop ((donor, r) # rs) cw not_cw =
     rbind (donor_loop donor (v7_cumulative r) 0 (v7_destination r) cw not_cw) (\<lambda>(cw, not_cw, nf).
     rbind (donors_loop rs cw not_cw) (\<lambda>(rs, cw, not_cw).
     Ok ((donor, r\<lparr>v7_audit_not_found := nf\<rparr>) # rs, cw, not_cw)))"

definition update_cw_with_donor :: "AllCommWallets \<Rightarrow> DonorReceipts \<Rightarrow> (AllCommWallets \<times> DonorReceipts) rres" where
  "update_cw_with_donor cw donors =
     rbind (donors_loop (dr_list donors) (cw_list cw) (dr_audit_not_cw donors)) (\<lambda>(rs, ws, not_cw).
     Ok (cw\<lparr>cw_list := ws\<rparr>, donors\<lparr>dr_list := rs, dr_audit_not_cw := not_cw\<rparr>))"

definition prepare_cw_and_receipts ::
  "('vc, 'vo, 'ev) LegacyRecoveryV6 list \<Rightarrow> (DonorReceipts \<times> AllCommWallets) rres" where
  "prepare_cw_and_receipts recovery =
     rbind (rebuild_donor_receipts recovery) (\<lambda>dr.
     rbind (rebuild_cw_cumu_deposits recovery) (\<lambda>cw.
     rbind (update_cw_with_donor cw dr) (\<lambda>(cw, dr).
     Ok (dr, cw))))"

section \<open>Rebuilding\<close>

lemma insert_all_eq:
  "insert_all es m =
     (if list_all (\<lambda>p. fst p \<noteq> None) es
      then Ok (fold (\<lambda>(a, v). bt_insert a v) (map (\<lambda>(a, v). (the a, v)) es) m)
      else Panic ''called Option::unwrap() on a None value'')"
proof (induction es m rule: insert_all.induct)
  case (2 acc v es m)
  then show ?case by (cases acc) auto
qed simp

lemma insert_all_Ok:
  assumes "insert_all es [] = Ok m"
  shows "sorted_wrt (<) (map fst m)"
    and "bt_get a m = map_of (rev es) (Some a)"
proof -
  let ?kvs = "map (\<lambda>(a, v). (the a, v)) es"
  have some: "list_all (\<lambda>p. fst p \<noteq> None) es" and m: "m = fold (\<lambda>(a, v). bt_insert a v) ?kvs []"
    using assms by (simp_all add: insert_all_eq split: if_splits)
  show "sorted_wrt (<) (map fst m)" unfolding m by (rule bt.ordered_fold_ins) simp
  have "map_of (rev ?kvs) a = map_of (rev es) (Some a)"
    using some by (induction es) (auto simp: map_add_def split: option.splits)
  then show "bt_get a m = map_of (rev es) (Some a)"
    unfolding m bt.get_fold_ins by (simp add: bt_get_def split: option.splits)
qed

section \<open>Crediting\<close>

text \<open>The values a donor's receipts give for one wallet, in order.\<close>

definition received :: "account_address \<Rightarrow> account_address list \<Rightarrow> u64 list \<Rightarrow> u64 list" where
  "received w ds vs = map snd (filter (\<lambda>p. fst p = w) (zip ds vs))"

lemma received_Nil [simp]: "received w [] vs = []"
  by (simp add: received_def)

lemma received_Cons: "i < length vs \<Longrightarrow>
  received w (d # ds) (drop i vs) = (if d = w then [vs ! i] else []) @ received w ds (drop (Suc i) vs)"
  by (simp add: received_def Cons_nth_drop_Suc[symmetric])

lemma received_empty_iff: "length ds \<le> length vs \<Longrightarrow> received w ds vs = [] \<longleftrightarrow> w \<notin> set ds"
  by (induction ds vs rule: list_induct2') (auto simp: received_def)

lemma fold_credit:
  "fold (credit donor) vs w =
     (if vs = [] then w
      else w\<lparr>ws_audit_deposits_with_receipts := ws_audit_deposits_with_receipts w + sum_list vs,
             ws_depositors := (if donor \<in> set (ws_depositors w) then ws_depositors w
                               else ws_depositors w @ [donor])\<rparr>)"
  by (induction vs arbitrary: w) (auto simp: credit_def add.assoc)

lemma donor_loop_Ok:
  assumes "i + length ds \<le> length cumu"
  shows "\<exists>cw' not_cw'. donor_loop donor cumu i ds cw not_cw =
      Ok (cw', not_cw', filter (\<lambda>d. bt_get d cw = None) ds) \<and> map fst cw' = map fst cw \<and>
    (\<forall>a. bt_get a cw' = map_option (fold (credit donor) (received a ds (drop i cumu))) (bt_get a cw)) \<and>
    set not_cw' = set not_cw \<union> {d \<in> set ds. bt_get d cw = None} \<and>
    (distinct not_cw \<longrightarrow> distinct not_cw')"
  using assms
proof (induction ds arbitrary: i cw not_cw)
  case Nil
  then show ?case by (simp add: option.map_id0 id_def[symmetric])
next
  case (Cons d ds)
  have i: "i < length cumu" and le: "Suc i + length ds \<le> length cumu" using Cons.prems by simp_all
  show ?case
  proof (cases "bt_get d cw")
    case None
    from Cons.IH[OF le, of cw "if d \<in> set not_cw then not_cw else not_cw @ [d]"] None show ?thesis
      by (auto simp: received_Cons[OF i])
  next
    case (Some w)
    let ?cw = "bt_modify d (credit donor (cumu ! i)) cw"
    have none: "bt_get a ?cw = None \<longleftrightarrow> bt_get a cw = None" for a by (simp add: bt_simps)
    from Cons.IH[OF le, of ?cw not_cw] obtain cw' not_cw' where IH:
      "donor_loop donor cumu (Suc i) ds ?cw not_cw = Ok (cw', not_cw', filter (\<lambda>d. bt_get d ?cw = None) ds)"
      "map fst cw' = map fst ?cw"
      "\<And>a. bt_get a cw' = map_option (fold (credit donor) (received a ds (drop (Suc i) cumu))) (bt_get a ?cw)"
      "set not_cw' = set not_cw \<union> {d \<in> set ds. bt_get d ?cw = None}"
      "distinct not_cw \<longrightarrow> distinct not_cw'" by auto
    have "bt_get a cw' = map_option (fold (credit donor) (received a (d # ds) (drop i cumu))) (bt_get a cw)" for a
      by (simp add: IH(3) bt_simps received_Cons[OF i] option.map_comp comp_def)
    with IH(1,2,4,5)[unfolded none bt.modify_keys] Some i show ?thesis by auto
  qed
qed

section \<open>All donors\<close>

text \<open>Every destination of a receipt comes with a cumulative amount.\<close>

definition receipts_ok :: "ReceiptsResourceV7 \<Rightarrow> bool" where
  "receipts_ok r \<longleftrightarrow> length (v7_destination r) \<le> length (v7_cumulative r)"

definition receipts_v6_ok :: "('vc, 'vo, 'ev) LegacyRecoveryV6 \<Rightarrow> bool" where
  "receipts_v6_ok e \<longleftrightarrow>
     (\<forall>r \<in> set_option (r_receipts e). length (rc_destination r) \<le> length (rc_cumulative r))"

definition donor_values :: "account_address \<Rightarrow> ReceiptsResourceV7 \<Rightarrow> u64 list" where
  "donor_values a r = received a (v7_destination r) (v7_cumulative r)"

definition credit_all :: "account_address \<Rightarrow> (account_address \<times> ReceiptsResourceV7) list \<Rightarrow> WalletState \<Rightarrow> WalletState" where
  "credit_all a = fold (\<lambda>(donor, r). fold (credit donor) (donor_values a r))"

definition mark :: "(account_address \<times> WalletState) list \<Rightarrow> ReceiptsResourceV7 \<Rightarrow> ReceiptsResourceV7" where
  "mark cw r = r\<lparr>v7_audit_not_found := filter (\<lambda>d. bt_get d cw = None) (v7_destination r)\<rparr>"

lemma mark_simps [simp]: "v7_destination (mark cw r) = v7_destination r"
  "donor_values a (mark cw r) = donor_values a r"
  by (simp_all add: mark_def donor_values_def)

lemma map_mark:
  fixes rs :: "(account_address \<times> ReceiptsResourceV7) list" and cw :: "(account_address \<times> WalletState) list"
  defines "ms \<equiv> map (\<lambda>(d, r). (d, mark cw r)) rs"
  shows "map fst ms = map fst rs" "v7_destination ` snd ` set ms = v7_destination ` snd ` set rs"
    "map fst (filter (\<lambda>(d, r). a \<in> set (v7_destination r)) ms) =
      map fst (filter (\<lambda>(d, r). a \<in> set (v7_destination r)) rs)"
    "(\<Sum>(d, r) \<leftarrow> ms. sum_list (donor_values a r)) = (\<Sum>(d, r) \<leftarrow> rs. sum_list (donor_values a r))"
  unfolding ms_def by (induction rs) auto

lemma donors_loop_Ok:
  assumes "list_all (receipts_ok \<circ> snd) rs"
  shows "\<exists>cw' not_cw'. donors_loop rs cw not_cw =
      Ok (map (\<lambda>(d, r). (d, mark cw r)) rs,
          cw', not_cw') \<and> map fst cw' = map fst cw \<and>
    (\<forall>a. bt_get a cw' = map_option (credit_all a rs) (bt_get a cw)) \<and>
    set not_cw' = set not_cw \<union> {d \<in> \<Union> (set ` v7_destination ` snd ` set rs). bt_get d cw = None} \<and>
    (distinct not_cw \<longrightarrow> distinct not_cw')"
  using assms
proof (induction rs cw not_cw rule: donors_loop.induct)
  case (1 cw not_cw)
  then show ?case by (simp add: credit_all_def option.map_id0 id_def[symmetric])
next
  case (2 donor r rs cw not_cw)
  have "0 + length (v7_destination r) \<le> length (v7_cumulative r)" using 2 by (simp add: receipts_ok_def)
  from donor_loop_Ok[OF this, of donor cw not_cw] obtain cw1 nc1 where one:
    "donor_loop donor (v7_cumulative r) 0 (v7_destination r) cw not_cw =
       Ok (cw1, nc1, filter (\<lambda>d. bt_get d cw = None) (v7_destination r))"
    "map fst cw1 = map fst cw"
    "\<And>a. bt_get a cw1 = map_option (fold (credit donor) (donor_values a r)) (bt_get a cw)"
    "set nc1 = set not_cw \<union> {d \<in> set (v7_destination r). bt_get d cw = None}"
    "distinct not_cw \<longrightarrow> distinct nc1" by (auto simp: donor_values_def)
  have none: "bt_get a cw1 = None \<longleftrightarrow> bt_get a cw = None" for a by (simp add: one(3))
  then have mark: "mark cw1 = mark cw" by (simp add: mark_def fun_eq_iff)
  have "list_all (receipts_ok \<circ> snd) rs" using 2(2) by (simp add: comp_def)
  from 2(1)[OF this, of cw1 nc1] obtain cw2 nc2 where two:
    "donors_loop rs cw1 nc1 =
       Ok (map (\<lambda>(d, r). (d, mark cw r)) rs,
           cw2, nc2)"
    "map fst cw2 = map fst cw1"
    "\<And>a. bt_get a cw2 = map_option (credit_all a rs) (bt_get a cw1)"
    "set nc2 = set nc1 \<union> {d \<in> \<Union> (set ` v7_destination ` snd ` set rs). bt_get d cw = None}"
    "distinct nc1 \<longrightarrow> distinct nc2" by (auto simp: none mark)
  have "bt_get a cw2 = map_option (credit_all a ((donor, r) # rs)) (bt_get a cw)" for a
    by (simp add: two(3) one(3) option.map_comp comp_def credit_all_def)
  with one two show ?case by (auto simp: mark_def[of cw r])
qed

text \<open>What a wallet has collected after all donors, who are distinct.\<close>

lemma credit_all_state:
  assumes "list_all (receipts_ok \<circ> snd) rs" and "distinct (map fst rs)"
    and "set (ws_depositors w) \<inter> set (map fst rs) = {}"
  shows "credit_all a rs w =
    w\<lparr>ws_audit_deposits_with_receipts :=
        ws_audit_deposits_with_receipts w + (\<Sum>(d, r) \<leftarrow> rs. sum_list (donor_values a r)),
      ws_depositors := ws_depositors w @ map fst (filter (\<lambda>(d, r). a \<in> set (v7_destination r)) rs)\<rparr>"
  using assms
proof (induction rs arbitrary: w)
  case (Cons p rs)
  obtain d r where p: "p = (d, r)" by force
  let ?w = "fold (credit d) (donor_values a r) w"
  have emp: "donor_values a r = [] \<longleftrightarrow> a \<notin> set (v7_destination r)"
    using Cons.prems(1) by (simp add: p donor_values_def receipts_ok_def received_empty_iff)
  have w: "ws_depositors ?w = ws_depositors w @ (if a \<in> set (v7_destination r) then [d] else [])"
    "ws_audit_deposits_with_receipts ?w = ws_audit_deposits_with_receipts w + sum_list (donor_values a r)"
    "?w\<lparr>ws_audit_deposits_with_receipts := x, ws_depositors := y\<rparr> =
       w\<lparr>ws_audit_deposits_with_receipts := x, ws_depositors := y\<rparr>" for x y
    using Cons.prems(3) emp by (auto simp: p fold_credit)
  have "credit_all a (p # rs) w = credit_all a rs ?w" by (simp add: credit_all_def p)
  also have "\<dots> = ?w\<lparr>ws_audit_deposits_with_receipts :=
        ws_audit_deposits_with_receipts ?w + (\<Sum>(d, r) \<leftarrow> rs. sum_list (donor_values a r)),
      ws_depositors := ws_depositors ?w @ map fst (filter (\<lambda>(d, r). a \<in> set (v7_destination r)) rs)\<rparr>"
    using Cons.prems by (intro Cons.IH) (auto simp: p w)
  finally show ?case unfolding w by (simp add: p add.assoc)
qed (simp add: credit_all_def)

lemma credit_all_cast:
  assumes "list_all (receipts_ok \<circ> snd) rs" and "sorted_wrt (<) (map fst rs)"
  shows "credit_all a rs (cast_deposit cd) = (cast_deposit cd)
      \<lparr>ws_audit_deposits_with_receipts := (\<Sum>(d, r) \<leftarrow> rs. sum_list (donor_values a r)),
       ws_depositors := map fst (filter (\<lambda>(d, r). a \<in> set (v7_destination r)) rs)\<rparr>"
  using credit_all_state[OF assms(1) bt.ordered_distinct[OF assms(2)], of "cast_deposit cd" a]
  by (simp add: cast_deposit_def)

section \<open>The whole workflow\<close>

text \<open>The value of the last record of an account that has one.\<close>

definition last_with ::
  "(('vc, 'vo, 'ev) LegacyRecoveryV6 \<Rightarrow> 'b option) \<Rightarrow> ('vc, 'vo, 'ev) LegacyRecoveryV6 list \<Rightarrow>
   account_address \<Rightarrow> 'b option" where
  "last_with field rs a =
     Option.bind (find (\<lambda>e. r_account e = Some a \<and> field e \<noteq> None) (rev rs)) field"

lemma last_with_map_of:
  "map_of (rev (map (\<lambda>e. (r_account e, f (the (field e)))) (filter (\<lambda>e. field e \<noteq> None) rs))) (Some a) =
     map_option f (last_with field rs a)"
  by (induction rs rule: rev_induct) (auto simp: last_with_def)

lemma last_with_Some:
  assumes "last_with field rs a = Some v"
  obtains e where "e \<in> set rs" "r_account e = Some a" "field e = Some v"
proof -
  have "\<exists>e \<in> set rs. r_account e = Some a \<and> field e = Some v"
    using assms by (induction rs rule: rev_induct) (auto simp: last_with_def split: if_splits)
  then show thesis using that by blast
qed

lemma rebuild_donor_receipts_Ok:
  assumes "list_all (\<lambda>e. r_account e \<noteq> None) rs" and "list_all receipts_v6_ok rs"
  shows "\<exists>dl. rebuild_donor_receipts rs = Ok \<lparr>dr_list = dl, dr_total_cumu = 0, dr_audit_not_cw = []\<rparr> \<and>
    sorted_wrt (<) (map fst dl) \<and> list_all (receipts_ok \<circ> snd) dl \<and>
    (\<forall>a. bt_get a dl = map_option cast_receipts (last_with r_receipts rs a))"
proof -
  let ?es = "map (\<lambda>e. (r_account e, cast_receipts (the (r_receipts e)))) (filter (\<lambda>e. r_receipts e \<noteq> None) rs)"
  have "list_all (\<lambda>p. fst p \<noteq> None) ?es" using assms(1) by (auto simp: list_all_iff)
  then obtain dl where dl: "insert_all ?es [] = Ok dl" by (simp add: insert_all_eq)
  note m = insert_all_Ok[OF dl, unfolded last_with_map_of]
  have ok: "receipts_ok r" if "(d, r) \<in> set dl" for d r
  proof -
    have "bt_get d dl = Some r"
      using that bt.ordered_distinct[OF m(1)] by (simp add: bt_get_def map_of_is_SomeI)
    then obtain rc where "last_with r_receipts rs d = Some rc" "r = cast_receipts rc"
      by (auto simp: m(2))
    then show ?thesis using assms(2)
      by (elim last_with_Some) (auto simp: list_all_iff receipts_v6_ok_def receipts_ok_def cast_receipts_def)
  qed
  have "rebuild_donor_receipts rs = Ok \<lparr>dr_list = dl, dr_total_cumu = 0, dr_audit_not_cw = []\<rparr>"
    unfolding rebuild_donor_receipts_def dl by simp
  with m ok show ?thesis by (intro exI[of _ dl]) (auto simp: list_all_iff)
qed

lemma rebuild_cw_cumu_deposits_Ok:
  assumes "list_all (\<lambda>e. r_account e \<noteq> None) rs"
  shows "\<exists>wl. rebuild_cw_cumu_deposits rs =
      Ok \<lparr>cw_list = wl, cw_total_deposits =
            (\<Sum>e \<leftarrow> filter (\<lambda>e. r_cumulative_deposits e \<noteq> None) rs. cd_value (the (r_cumulative_deposits e)))\<rparr> \<and>
    sorted_wrt (<) (map fst wl) \<and>
    (\<forall>a. bt_get a wl = map_option cast_deposit (last_with r_cumulative_deposits rs a))"
proof -
  let ?fs = "filter (\<lambda>e. r_cumulative_deposits e \<noteq> None) rs"
  let ?es = "map (\<lambda>e. (r_account e, cast_deposit (the (r_cumulative_deposits e)))) ?fs"
  have "list_all (\<lambda>p. fst p \<noteq> None) ?es" using assms by (auto simp: list_all_iff)
  then obtain wl where wl: "insert_all ?es [] = Ok wl" by (simp add: insert_all_eq)
  note m = insert_all_Ok[OF wl, unfolded last_with_map_of]
  have "foldl (+) 0 (map f es) = sum_list (map f es)" for f :: "_ \<Rightarrow> u64" and es
    by (simp add: foldl_plus)
  with m show ?thesis unfolding rebuild_cw_cumu_deposits_def Let_def wl by auto
qed

lemma prepare_cw_Ok:
  assumes "list_all (\<lambda>e. r_account e \<noteq> None) rs" and "list_all receipts_v6_ok rs"
  obtains dr cw where "prepare_cw_and_receipts rs = Ok (dr, cw)"
proof -
  obtain dl where dl: "rebuild_donor_receipts rs = Ok \<lparr>dr_list = dl, dr_total_cumu = 0, dr_audit_not_cw = []\<rparr>"
    "list_all (receipts_ok \<circ> snd) dl"
    using rebuild_donor_receipts_Ok[OF assms] by blast
  obtain cw where cw: "rebuild_cw_cumu_deposits rs = Ok cw"
    using rebuild_cw_cumu_deposits_Ok[OF assms(1)] by blast
  obtain x where "donors_loop dl (cw_list cw) [] = Ok x" using donors_loop_Ok[OF dl(2)] by blast
  with dl(1) cw show thesis
    by (intro that) (simp add: prepare_cw_and_receipts_def update_cw_with_donor_def case_prod_beta)
qed

text \<open>
  C4. When every record has an account and every receipt destination a cumulative amount, preparing
  the community wallets succeeds, and its result is given by the records. Both lists are in address
  order. The receipts of an account are those of its last record that has any, field by field, with
  the destinations that have no deposit resource noted as not found. The wallet of an account keeps
  the value and index of the account's last deposit resource; its depositors are the donors whose
  receipts name it, each once and in address order, and its audited amount is the sum of what their
  receipts say. The total is the sum over all deposit resources. The addresses reported as no
  community wallet are exactly the destinations that have no deposit resource, each once.
\<close>

theorem prepare_cw_correct:
  assumes "list_all (\<lambda>e. r_account e \<noteq> None) rs" and "list_all receipts_v6_ok rs"
  shows "\<exists>dr cw. prepare_cw_and_receipts rs = Ok (dr, cw) \<and>
    sorted_wrt (<) (map fst (dr_list dr)) \<and> sorted_wrt (<) (map fst (cw_list cw)) \<and>
    (\<forall>a. bt_get a (dr_list dr) = map_option (\<lambda>rc.
       \<lparr>v7_destination = rc_destination rc, v7_cumulative = rc_cumulative rc,
        v7_last_payment_timestamp = rc_last_payment_timestamp rc,
        v7_last_payment_value = rc_last_payment_value rc,
        v7_audit_not_found =
          filter (\<lambda>d. last_with r_cumulative_deposits rs d = None) (rc_destination rc)\<rparr>)
       (last_with r_receipts rs a)) \<and>
    (\<forall>a. bt_get a (cw_list cw) = map_option (\<lambda>cd.
       \<lparr>ws_cumulative_value = cd_value cd, ws_cumulative_index = cd_index cd,
        ws_depositors = map fst (filter (\<lambda>(d, r). a \<in> set (v7_destination r)) (dr_list dr)),
        ws_audit_deposits_with_receipts = (\<Sum>(d, r) \<leftarrow> dr_list dr. sum_list (donor_values a r))\<rparr>)
       (last_with r_cumulative_deposits rs a)) \<and>
    cw_total_deposits cw =
      (\<Sum>e \<leftarrow> filter (\<lambda>e. r_cumulative_deposits e \<noteq> None) rs. cd_value (the (r_cumulative_deposits e))) \<and>
    dr_total_cumu dr = 0 \<and> distinct (dr_audit_not_cw dr) \<and>
    set (dr_audit_not_cw dr) =
      {d \<in> \<Union> (set ` v7_destination ` snd ` set (dr_list dr)). last_with r_cumulative_deposits rs d = None}"
proof -
  obtain dl where dl: "rebuild_donor_receipts rs = Ok \<lparr>dr_list = dl, dr_total_cumu = 0, dr_audit_not_cw = []\<rparr>"
    "sorted_wrt (<) (map fst dl)" "list_all (receipts_ok \<circ> snd) dl"
    "\<And>a. bt_get a dl = map_option cast_receipts (last_with r_receipts rs a)"
    using rebuild_donor_receipts_Ok[OF assms] by blast
  let ?tot = "\<Sum>e \<leftarrow> filter (\<lambda>e. r_cumulative_deposits e \<noteq> None) rs. cd_value (the (r_cumulative_deposits e))"
  obtain wl where wl: "rebuild_cw_cumu_deposits rs = Ok \<lparr>cw_list = wl, cw_total_deposits = ?tot\<rparr>"
    "sorted_wrt (<) (map fst wl)"
    "\<And>a. bt_get a wl = map_option cast_deposit (last_with r_cumulative_deposits rs a)"
    using rebuild_cw_cumu_deposits_Ok[OF assms(1)] by blast
  have none: "bt_get d wl = None \<longleftrightarrow> last_with r_cumulative_deposits rs d = None" for d by (simp add: wl(3))
  let ?ms = "map (\<lambda>(d, r). (d, mark wl r)) dl"
  obtain ws nc where loop: "donors_loop dl wl [] = Ok (?ms, ws, nc)" "map fst ws = map fst wl"
    "\<And>a. bt_get a ws = map_option (credit_all a dl) (bt_get a wl)"
    "set nc = {d \<in> \<Union> (set ` v7_destination ` snd ` set dl). bt_get d wl = None}" "distinct nc"
    using donors_loop_Ok[OF dl(3), of wl "[]"] by auto
  let ?dr = "\<lparr>dr_list = ?ms, dr_total_cumu = 0, dr_audit_not_cw = nc\<rparr>"
    and ?cw = "\<lparr>cw_list = ws, cw_total_deposits = ?tot\<rparr>"
  have marks: "bt_get a ?ms = map_option (mark wl) (bt_get a dl)" for a
    unfolding bt_get_def by (induction dl) auto
  have receipts: "bt_get a ?ms = map_option (\<lambda>rc.
       \<lparr>v7_destination = rc_destination rc, v7_cumulative = rc_cumulative rc,
        v7_last_payment_timestamp = rc_last_payment_timestamp rc,
        v7_last_payment_value = rc_last_payment_value rc,
        v7_audit_not_found =
          filter (\<lambda>d. last_with r_cumulative_deposits rs d = None) (rc_destination rc)\<rparr>)
       (last_with r_receipts rs a)" for a
    unfolding marks dl(4)
    by (cases "last_with r_receipts rs a") (simp_all add: mark_def cast_receipts_def none)
  have wallets: "bt_get a ws = map_option (\<lambda>cd.
       \<lparr>ws_cumulative_value = cd_value cd, ws_cumulative_index = cd_index cd,
        ws_depositors = map fst (filter (\<lambda>(d, r). a \<in> set (v7_destination r)) dl),
        ws_audit_deposits_with_receipts = (\<Sum>(d, r) \<leftarrow> dl. sum_list (donor_values a r))\<rparr>)
       (last_with r_cumulative_deposits rs a)" for a
    by (cases "last_with r_cumulative_deposits rs a")
      (simp_all add: loop(3) wl(3) credit_all_cast[OF dl(3,2)], simp add: cast_deposit_def)
  have run: "prepare_cw_and_receipts rs = Ok (?dr, ?cw)"
    by (simp add: prepare_cw_and_receipts_def dl(1) wl(1) update_cw_with_donor_def loop(1))
  have lists: "dr_list ?dr = ?ms" "cw_list ?cw = ws" "dr_audit_not_cw ?dr = nc" "dr_total_cumu ?dr = 0"
    "cw_total_deposits ?cw = ?tot" by simp_all
  show ?thesis
    by (intro exI[of _ ?dr] exI[of _ ?cw] conjI run; unfold lists map_mark loop(2))
      (intro allI dl wl loop refl receipts wallets | simp only: loop(4) none)+
qed

text \<open>A donor who paid the wallet \<open>2\<dots>2\<close> twice and the address \<open>9\<dots>9\<close> once.\<close>

definition sample_donor :: "(unit, unit, unit) LegacyRecoveryV6" where
  "sample_donor = (sample_recovery 1 100 0)\<lparr>r_receipts := Some
     \<lparr>rc_destination = [replicate 32 2, replicate 32 9, replicate 32 2], rc_cumulative = [30, 5, 12],
      rc_last_payment_timestamp = [], rc_last_payment_value = []\<rparr>\<rparr>"

definition sample_wallet :: "(unit, unit, unit) LegacyRecoveryV6" where
  "sample_wallet = (sample_recovery 2 100 0)\<lparr>r_cumulative_deposits := Some
     \<lparr>cd_value = 77, cd_index = 3, cd_depositors = []\<rparr>\<rparr>"

theorem prepare_cw_correct_witness:
  "\<exists>dr cw. prepare_cw_and_receipts [sample_wallet, sample_donor] = Ok (dr, cw) \<and>
     bt_get (replicate 32 1) (dr_list dr) = Some
       \<lparr>v7_destination = [replicate 32 2, replicate 32 9, replicate 32 2], v7_cumulative = [30, 5, 12],
        v7_last_payment_timestamp = [], v7_last_payment_value = [], v7_audit_not_found = [replicate 32 9]\<rparr> \<and>
     map_option ws_cumulative_value (bt_get (replicate 32 2) (cw_list cw)) = Some 77 \<and>
     cw_total_deposits cw = 77"
proof -
  let ?rs = "[sample_wallet, sample_donor]"
  have prems: "list_all (\<lambda>e. r_account e \<noteq> None) ?rs" "list_all receipts_v6_ok ?rs"
    by (simp_all add: sample_wallet_def sample_donor_def receipts_v6_ok_def)
  have neq: "(2::u8) \<noteq> 9" "(1::u8) \<noteq> 2" by simp_all
  have acc: "r_account sample_wallet = Some (replicate 32 2)" "r_account sample_donor = Some (replicate 32 1)"
    "r_receipts sample_wallet = None" "r_cumulative_deposits sample_donor = None"
    "r_cumulative_deposits sample_wallet = Some \<lparr>cd_value = 77, cd_index = 3, cd_depositors = []\<rparr>"
    "r_receipts sample_donor = Some \<lparr>rc_destination = [replicate 32 2, replicate 32 9, replicate 32 2],
       rc_cumulative = [30, 5, 12], rc_last_payment_timestamp = [], rc_last_payment_value = []\<rparr>"
    by (simp_all add: sample_wallet_def sample_donor_def)
  have last: "last_with r_receipts ?rs (replicate 32 1) = r_receipts sample_donor"
    "last_with r_cumulative_deposits ?rs (replicate 32 2) = r_cumulative_deposits sample_wallet"
    "last_with r_cumulative_deposits ?rs (replicate 32 9) = None"
    by (simp_all add: last_with_def acc replicate_eq_replicate)
  show ?thesis
    using prepare_cw_correct[OF prems]
    by (elim exE conjE, intro exI conjI; (simp only: last acc)?) (simp_all add: last acc)
qed

end
