(* ===== verification/Supply.thy ===== *)
theory Supply
  imports Recovery
begin

text \<open>
  The supply statistics of a recovery file (\<^verbatim>\<open>src/tools/genesis/src/supply.rs\<close>), in \<open>f64\<close> arithmetic.
\<close>

record Supply =
  sp_total :: f64
  sp_normal :: f64
  sp_validator :: f64
  sp_slow_total :: f64
  sp_slow_locked :: f64
  sp_slow_validator_locked :: f64
  sp_slow_unlocked :: f64
  sp_donor_voice :: f64
  sp_make_whole :: f64
  sp_split_factor :: f64
  sp_escrow_pct :: f64
  sp_epoch_reward_base_case :: f64
  sp_expected_user_balance :: f64
  sp_expected_user_ratio :: f64
  sp_expected_circulating :: f64
  sp_expected_circulating_ratio :: f64

definition Supply_zero :: Supply where
  "Supply_zero =
     \<lparr>sp_total = 0, sp_normal = 0, sp_validator = 0, sp_slow_total = 0, sp_slow_locked = 0,
      sp_slow_validator_locked = 0, sp_slow_unlocked = 0, sp_donor_voice = 0, sp_make_whole = 0,
      sp_split_factor = 0, sp_escrow_pct = 0, sp_epoch_reward_base_case = 0,
      sp_expected_user_balance = 0, sp_expected_user_ratio = 0, sp_expected_circulating = 0,
      sp_expected_circulating_ratio = 0\<rparr>"

definition inc_supply :: "('vc, 'vo, 'ev) LegacyRecoveryV6 \<Rightarrow> Supply \<Rightarrow> Supply" where
  "inc_supply r self =
     (let user_total = (case r_balance r of Some b \<Rightarrow> f64_of_u64 (bal_coin b) | None \<Rightarrow> 0);
          self = self\<lparr>sp_total := fadd (sp_total self) user_total\<rparr>
      in case r_slow_wallet r of
           Some sl \<Rightarrow>
             (let self = self\<lparr>sp_slow_total := fadd (sp_slow_total self) user_total\<rparr>
              in if 0 < sw_unlocked sl
                 then
                   (if f64_of_u64 (sw_unlocked sl) < user_total
                    then
                      (let self = self\<lparr>sp_slow_unlocked :=
                                         fadd (sp_slow_unlocked self) (f64_of_u64 (sw_unlocked sl))\<rparr>;
                           locked = fsub user_total (f64_of_u64 (sw_unlocked sl));
                           self = self\<lparr>sp_slow_locked := fadd (sp_slow_locked self) locked\<rparr>
                       in if r_val_cfg r \<noteq> None
                          then self\<lparr>sp_validator := fadd (sp_validator self) user_total,
                                    sp_slow_validator_locked :=
                                      fadd (sp_slow_validator_locked self) locked\<rparr>
                          else self)
                    else self\<lparr>sp_slow_unlocked := fadd (sp_slow_unlocked self) user_total\<rparr>)
                 else self)
         | None \<Rightarrow>
             (if r_cumulative_deposits r \<noteq> None
              then self\<lparr>sp_slow_locked := fadd (sp_slow_locked self) user_total,
                        sp_slow_total := fadd (sp_slow_total self) user_total\<rparr>
              else self\<lparr>sp_normal := fadd (sp_normal self) user_total\<rparr>))"

definition populate_supply_stats_from_legacy :: "('vc, 'vo, 'ev) LegacyRecoveryV6 list \<Rightarrow> Supply rres" where
  "populate_supply_stats_from_legacy rs = Ok (fold inc_supply rs Supply_zero)"

section \<open>What the statistics are\<close>

text \<open>The part of a record's balance, in coins, that each counter collects.\<close>

definition coins :: "('vc, 'vo, 'ev) LegacyRecoveryV6 \<Rightarrow> nat" where
  "coins r = (case r_balance r of Some b \<Rightarrow> unat (bal_coin b) | None \<Rightarrow> 0)"

definition is_slow :: "('vc, 'vo, 'ev) LegacyRecoveryV6 \<Rightarrow> bool" where
  "is_slow r \<longleftrightarrow> r_slow_wallet r \<noteq> None \<or> r_cumulative_deposits r \<noteq> None"

definition unlocked_part :: "('vc, 'vo, 'ev) LegacyRecoveryV6 \<Rightarrow> nat" where
  "unlocked_part r = (case r_slow_wallet r of Some w \<Rightarrow> min (unat (sw_unlocked w)) (coins r) | None \<Rightarrow> 0)"

text \<open>Coins of slow wallets whose unlocked amount is zero, which the code adds to no part.\<close>

definition uncounted_part :: "('vc, 'vo, 'ev) LegacyRecoveryV6 \<Rightarrow> nat" where
  "uncounted_part r =
     (case r_slow_wallet r of Some w \<Rightarrow> if sw_unlocked w = 0 then coins r else 0 | None \<Rightarrow> 0)"

definition locked_part :: "('vc, 'vo, 'ev) LegacyRecoveryV6 \<Rightarrow> nat" where
  "locked_part r = (if is_slow r then coins r - unlocked_part r - uncounted_part r else 0)"

text \<open>Validator counters only see wallets that are partly unlocked.\<close>

definition val_part :: "('vc, 'vo, 'ev) LegacyRecoveryV6 \<Rightarrow> nat" where
  "val_part r =
     (case r_slow_wallet r of
        Some w \<Rightarrow> if r_val_cfg r \<noteq> None \<and> 0 < locked_part r then coins r else 0
      | None \<Rightarrow> 0)"

definition val_locked_part :: "('vc, 'vo, 'ev) LegacyRecoveryV6 \<Rightarrow> nat" where
  "val_locked_part r = (if val_part r = 0 then 0 else locked_part r)"

definition slow_coins :: "('vc, 'vo, 'ev) LegacyRecoveryV6 \<Rightarrow> nat" where
  "slow_coins r = (if is_slow r then coins r else 0)"

definition normal_coins :: "('vc, 'vo, 'ev) LegacyRecoveryV6 \<Rightarrow> nat" where
  "normal_coins r = (if is_slow r then 0 else coins r)"

lemmas part_defs = is_slow_def unlocked_part_def uncounted_part_def locked_part_def val_part_def
  val_locked_part_def slow_coins_def normal_coins_def

lemma parts_sum: "normal_coins r + slow_coins r = coins r"
  "slow_coins r = locked_part r + unlocked_part r + uncounted_part r"
  by (auto simp: part_defs min_def unat_gt_0 split: option.splits)

lemma parts_le: "normal_coins r \<le> coins r" "slow_coins r \<le> coins r" "unlocked_part r \<le> coins r"
  "locked_part r \<le> coins r" "val_part r \<le> coins r" "val_locked_part r \<le> coins r"
  using parts_sum[of r] by (auto simp: val_part_def val_locked_part_def split: option.splits)

section \<open>Exactness of the floating point sums\<close>

text \<open>A state of the statistics whose counters hold integers.\<close>

definition supply_nat :: "nat \<Rightarrow> nat \<Rightarrow> nat \<Rightarrow> nat \<Rightarrow> nat \<Rightarrow> nat \<Rightarrow> nat \<Rightarrow> Supply" where
  "supply_nat t n v st sl svl su =
     Supply_zero\<lparr>sp_total := real t, sp_normal := real n, sp_validator := real v, sp_slow_total := real st,
       sp_slow_locked := real sl, sp_slow_validator_locked := real svl, sp_slow_unlocked := real su\<rparr>"

lemma inc_supply_exact:
  assumes "t + coins r \<le> 2 ^ 53" and "n \<le> t" "v \<le> t" "st \<le> t" "sl \<le> t" "svl \<le> t" "su \<le> t"
  shows "inc_supply r (supply_nat t n v st sl svl su) =
    supply_nat (t + coins r) (n + normal_coins r) (v + val_part r) (st + slow_coins r)
      (sl + locked_part r) (svl + val_locked_part r) (su + unlocked_part r)"
proof -
  let ?c = "coins r"
  have c: "?c \<le> 2 ^ 53" using assms(1) by simp
  have tot: "(case r_balance r of Some b \<Rightarrow> f64_of_u64 (bal_coin b) | None \<Rightarrow> 0) = real ?c"
    using c by (auto simp: coins_def f64_of_u64_def f64_of_nat_exact split: option.splits)
  have add: "fadd (real m) (real k) = real (m + k)" if "m \<le> t" "k \<le> ?c" for m k
    using that assms(1) by (intro fadd_nat) simp
  show ?thesis
  proof (cases "r_slow_wallet r")
    case None
    then show ?thesis using assms
      by (simp add: inc_supply_def tot Let_def supply_nat_def Supply_zero_def add part_defs)
  next
    case (Some w)
    define u where "u = unat (sw_unlocked w)"
    have w: "unat (sw_unlocked w) = u" "0 < sw_unlocked w \<longleftrightarrow> 0 < u" "sw_unlocked w = 0 \<longleftrightarrow> u = 0"
      "f64_of_u64 (sw_unlocked w) = f64_of_nat u"
      by (simp_all only: u_def f64_of_u64_def unat_gt_0 unat_eq_zero word_neq_0_conv)
    have less: "f64_of_nat u < real ?c \<longleftrightarrow> u < ?c" by (rule f64_of_nat_less[OF c])
    have ex: "f64_of_nat u = real u" "fsub (real ?c) (real u) = real (?c - u)" if "u < ?c"
      using that c by (simp_all only: f64_of_nat_exact fsub_nat)
    consider "u = 0" | "0 < u" "u < ?c" | "0 < u" "?c \<le> u" by linarith
    then show ?thesis
    proof cases
      case 1
      then show ?thesis using Some assms
        by (simp add: inc_supply_def tot Let_def supply_nat_def Supply_zero_def add part_defs w)
    next
      case 2
      then have "fadd (real sl) (real ?c - real u) = real (sl + (?c - u))"
        "fadd (real svl) (real ?c - real u) = real (svl + (?c - u))"
        using assms add[of sl "?c - u"] add[of svl "?c - u"] by (simp_all add: of_nat_diff)
      with 2 show ?thesis using Some assms ex less
        by (simp add: inc_supply_def tot Let_def supply_nat_def Supply_zero_def add part_defs w of_nat_diff)
    next
      case 3
      then show ?thesis using Some assms less
        by (simp add: inc_supply_def tot Let_def supply_nat_def Supply_zero_def add part_defs w)
    qed
  qed
qed

lemma fold_supply_exact:
  assumes "t + sum_list (map coins rs) \<le> 2 ^ 53" and "n \<le> t" "v \<le> t" "st \<le> t" "sl \<le> t" "svl \<le> t" "su \<le> t"
  shows "fold inc_supply rs (supply_nat t n v st sl svl su) =
    supply_nat (t + sum_list (map coins rs)) (n + sum_list (map normal_coins rs))
      (v + sum_list (map val_part rs)) (st + sum_list (map slow_coins rs))
      (sl + sum_list (map locked_part rs)) (svl + sum_list (map val_locked_part rs))
      (su + sum_list (map unlocked_part rs))"
  using assms
proof (induction rs arbitrary: t n v st sl svl su)
  case (Cons r rs)
  then have "t + coins r \<le> 2 ^ 53" by simp
  from inc_supply_exact[OF this Cons.prems(2-7)] Cons.prems show ?case
    using parts_le[of r] by (simp add: Cons.IH add_mono add.assoc)
qed simp

text \<open>The sums split the way the parts of one record do.\<close>

lemma sums_split:
  "sum_list (map coins rs) = sum_list (map normal_coins rs) + sum_list (map slow_coins rs)"
  "sum_list (map slow_coins rs) =
     sum_list (map locked_part rs) + sum_list (map unlocked_part rs) + sum_list (map uncounted_part rs)"
  by (induction rs) (simp_all add: parts_sum(2) flip: parts_sum(1))

text \<open>
  C5. While the balances of a recovery file add up to at most \<open>2 ^ 53\<close>, the statistics are exact although
  they are computed in floating point. Every counter is given: the total is the sum of all balances;
  the normal coins are those of the records with neither a slow wallet nor cumulative deposits, and
  the slow coins are all others; of a slow wallet's coins, the unlocked amount (at most the balance)
  counts as unlocked and the rest as locked, unless nothing is unlocked, when neither counter sees
  them; the coins of a community wallet are locked; and the validator counters collect the balance and
  the locked part of the validators whose wallet is partly unlocked. All other fields stay zero. So
  the total splits into normal and slow coins, and the slow coins into locked, unlocked and uncounted
  ones.
\<close>

theorem supply_stats_exact:
  assumes "sum_list (map coins rs) \<le> 2 ^ 53"
  shows "populate_supply_stats_from_legacy rs =
      Ok (Supply_zero
        \<lparr>sp_total := real (\<Sum>r\<leftarrow>rs. coins r),
         sp_normal := real (\<Sum>r\<leftarrow>rs. if is_slow r then 0 else coins r),
         sp_validator := real (\<Sum>r\<leftarrow>rs. val_part r),
         sp_slow_total := real (\<Sum>r\<leftarrow>rs. if is_slow r then coins r else 0),
         sp_slow_locked := real (\<Sum>r\<leftarrow>rs. locked_part r),
         sp_slow_validator_locked := real (\<Sum>r\<leftarrow>rs. val_locked_part r),
         sp_slow_unlocked := real (\<Sum>r\<leftarrow>rs. unlocked_part r)\<rparr>) \<and>
    (\<Sum>r\<leftarrow>rs. coins r) =
      (\<Sum>r\<leftarrow>rs. if is_slow r then 0 else coins r) + (\<Sum>r\<leftarrow>rs. if is_slow r then coins r else 0) \<and>
    (\<Sum>r\<leftarrow>rs. if is_slow r then coins r else 0) =
      (\<Sum>r\<leftarrow>rs. locked_part r) + (\<Sum>r\<leftarrow>rs. unlocked_part r) + (\<Sum>r\<leftarrow>rs. uncounted_part r)"
proof -
  let ?S = "\<lambda>f. sum_list (map f rs)"
  have zero: "Supply_zero = supply_nat 0 0 0 0 0 0 0" by (simp add: supply_nat_def Supply_zero_def)
  have eq: "fold inc_supply rs Supply_zero = supply_nat (?S coins) (?S normal_coins) (?S val_part)
      (?S slow_coins) (?S locked_part) (?S val_locked_part) (?S unlocked_part)"
    using fold_supply_exact[of 0 rs 0 0 0 0 0 0] assms unfolding zero by simp
  have fns: "(\<lambda>r. if is_slow r then coins r else 0) = slow_coins"
    "(\<lambda>r. if is_slow r then 0 else coins r) = normal_coins"
    by (simp_all add: fun_eq_iff slow_coins_def normal_coins_def)
  show ?thesis
    unfolding populate_supply_stats_from_legacy_def eq fns sums_split supply_nat_def by simp
qed

text \<open>A normal account, a partly unlocked validator, a wallet with nothing unlocked yet.\<close>

definition sample_supply :: "(unit, unit, unit) LegacyRecoveryV6 list" where
  "sample_supply =
     [(sample_recovery 1 7 0)\<lparr>r_slow_wallet := None\<rparr>,
      (sample_recovery 2 100 30)\<lparr>r_val_cfg := Some ()\<rparr>, sample_recovery 3 50 0]"

theorem supply_stats_exact_witness:
  "populate_supply_stats_from_legacy sample_supply =
     Ok (Supply_zero
       \<lparr>sp_total := 157, sp_normal := 7, sp_validator := 100, sp_slow_total := 150,
        sp_slow_locked := 70, sp_slow_validator_locked := 70, sp_slow_unlocked := 30\<rparr>)"
  using supply_stats_exact[of sample_supply]
  by (simp add: sample_supply_def coins_def part_defs)

end
