(* ===== verification/Playlist.thy ===== *)
theory Playlist
  imports F64 Rust_Std "HOL-Library.Multiset"
begin

text \<open>
  The list of upstream nodes a client may talk to
  (\<^verbatim>\<open>src/types/src/core_types/network_playlist.rs\<close>): building and editing playlists, picking a node, and the
  refresh that polls every node, marks those at or above the root mean square of the reported
  versions as synced and sorts the list.

  Parameters: \<open>client_index\<close> is the ledger version a node reports, if it answers; \<open>arrive\<close> is the
  order in which the polls complete after the shuffle, a permutation; \<open>fetch\<close> downloads and
  parses a playlist. A \<open>Url\<close> is its string. \<open>NamedChain\<close> is a vendor enum, of which the sources use
  three variants by name.
\<close>

datatype NamedChain = MAINNET | TESTNET | TESTING | OtherChain string

type_synonym url = string

record HostProfile =
  hp_url :: url
  hp_note :: string
  hp_version :: u64
  hp_is_api :: bool
  hp_is_sync :: bool

definition HostProfile_default :: HostProfile where
  "HostProfile_default =
     \<lparr>hp_url = ''http://localhost:8080'', hp_note = ''default'', hp_version = 0, hp_is_api = False,
      hp_is_sync = False\<rparr>"

definition HostProfile_new :: "url \<Rightarrow> HostProfile" where
  "HostProfile_new u = HostProfile_default\<lparr>hp_url := u\<rparr>"

definition check_sync :: "(url \<Rightarrow> u64 option) \<Rightarrow> HostProfile \<Rightarrow> HostProfile" where
  "check_sync client_index self =
     (case client_index (hp_url self) of
        Some ledger_version \<Rightarrow> self\<lparr>hp_version := ledger_version, hp_is_api := True\<rparr>
      | None \<Rightarrow> self\<lparr>hp_is_api := False\<rparr>)"

record NetworkPlaylist =
  chain_name :: NamedChain
  nodes :: "HostProfile list"

definition NetworkPlaylist_default :: NetworkPlaylist where
  "NetworkPlaylist_default = \<lparr>chain_name = MAINNET, nodes = [HostProfile_default]\<rparr>"

definition find_default_playlist :: "NamedChain option \<Rightarrow> url" where
  "find_default_playlist chain_id =
     (if chain_id = Some TESTNET
      then ''https://raw.githubusercontent.com/0LNetworkCommunity/seed-peers/main/fullnode_seed_playlist_testnet.json''
      else ''https://raw.githubusercontent.com/0LNetworkCommunity/seed-peers/main/fullnode_seed_playlist.json'')"

definition add_url :: "NetworkPlaylist \<Rightarrow> url \<Rightarrow> NetworkPlaylist" where
  "add_url np u = np\<lparr>nodes := nodes np @ [HostProfile_new u]\<rparr>"

definition replace_all_urls :: "NetworkPlaylist \<Rightarrow> url \<Rightarrow> NetworkPlaylist" where
  "replace_all_urls np u = np\<lparr>nodes := [HostProfile_new u]\<rparr>"

definition NetworkPlaylist_new :: "url option \<Rightarrow> NamedChain option \<Rightarrow> NetworkPlaylist" where
  "NetworkPlaylist_new u cname =
     (let np = NetworkPlaylist_default;
          np = (case u of Some u \<Rightarrow> replace_all_urls np u | None \<Rightarrow> np)
      in case cname of Some n \<Rightarrow> np\<lparr>chain_name := n\<rparr> | None \<Rightarrow> np)"

definition NetworkPlaylist_localhost :: "NamedChain option \<Rightarrow> NetworkPlaylist" where
  "NetworkPlaylist_localhost cname =
     \<lparr>chain_name = (case cname of Some n \<Rightarrow> n | None \<Rightarrow> MAINNET),
      nodes = [\<lparr>hp_url = ''http://localhost:8080'', hp_note = ''localhost'', hp_version = 0,
                hp_is_api = True, hp_is_sync = True\<rparr>]\<rparr>"

definition from_playlist_url ::
  "(url \<Rightarrow> NetworkPlaylist rres) \<Rightarrow> url \<Rightarrow> NamedChain option \<Rightarrow> NetworkPlaylist rres" where
  "from_playlist_url fetch playlist_url chain_id =
     rbind (fetch playlist_url) (\<lambda>play.
       Ok (case chain_id of Some c \<Rightarrow> play\<lparr>chain_name := c\<rparr> | None \<Rightarrow> play))"

definition default_for_network ::
  "(url \<Rightarrow> NetworkPlaylist rres) \<Rightarrow> NamedChain option \<Rightarrow> NetworkPlaylist rres" where
  "default_for_network fetch chain_id =
     (if chain_id = Some TESTING then Ok (NetworkPlaylist_new None (Some TESTING))
      else from_playlist_url fetch (find_default_playlist chain_id) chain_id)"

definition all_urls :: "NetworkPlaylist \<Rightarrow> url list" where
  "all_urls np = map hp_url (nodes np)"

definition the_good_ones :: "NetworkPlaylist \<Rightarrow> url list rres" where
  "the_good_ones np =
     (let list_urls =
            List.map_filter (\<lambda>e. if hp_is_sync e \<and> hp_is_api e then Some (hp_url e) else None) (nodes np)
      in if list_urls = [] then Err ''no verified nodes found'' else Ok list_urls)"

definition the_best_one :: "NetworkPlaylist \<Rightarrow> url rres" where
  "the_best_one np =
     rbind (the_good_ones np) (\<lambda>good.
       case good of u # _ \<Rightarrow> Ok u | [] \<Rightarrow> Err ''Expected an URL for the best one'')"

definition pick_one :: "NetworkPlaylist \<Rightarrow> url rres" where
  "pick_one np =
     (case the_best_one np of
        Ok u \<Rightarrow> Ok u
      | Err _ \<Rightarrow> (case all_urls np of u # _ \<Rightarrow> Ok u | [] \<Rightarrow> Err ''no urls to choose from'')
      | Panic p \<Rightarrow> Panic p)"

text \<open>The refresh. Squares and their sum are \<open>u64\<close> and wrap.\<close>

definition sum_squares :: "HostProfile list \<Rightarrow> u64" where
  "sum_squares hs = sum_list (map (\<lambda>e. hp_version e * hp_version e) hs)"

definition playlist_rms :: "HostProfile list \<Rightarrow> f64" where
  "playlist_rms hs = fsqrt (fdiv (f64_of_u64 (sum_squares hs)) (f64_of_nat (length hs)))"

definition refresh_sync_status ::
  "(HostProfile list \<Rightarrow> HostProfile list) \<Rightarrow> (url \<Rightarrow> u64 option) \<Rightarrow> NetworkPlaylist \<Rightarrow> NetworkPlaylist" where
  "refresh_sync_status arrive client_index np =
     (let sync_list = arrive (map (check_sync client_index) (nodes np));
          rms = playlist_rms sync_list;
          checked = map (\<lambda>p. if f64_of_u64 (hp_version p) \<ge> rms then p\<lparr>hp_is_sync := True\<rparr> else p) sync_list
      in np\<lparr>nodes := sort_key hp_version checked\<rparr>)"

definition check_which_are_alive ::
  "(HostProfile list \<Rightarrow> HostProfile list) \<Rightarrow> (url \<Rightarrow> u64 option) \<Rightarrow> NetworkPlaylist \<Rightarrow> NetworkPlaylist" where
  "check_which_are_alive arrive client_index np =
     np\<lparr>nodes := arrive (map (check_sync client_index) (nodes np))\<rparr>"

section \<open>Lemmas\<close>

text \<open>Shuffling and waiting for the polls only reorder the list.\<close>

locale completion_order =
  fixes arrive :: "'a list \<Rightarrow> 'a list"
  assumes arrive_mset: "mset (arrive xs) = mset xs"
begin

lemma arrive_set: "set (arrive xs) = set xs"
  using arrive_mset[of xs] by (metis set_mset_mset)

lemma arrive_length: "length (arrive xs) = length xs"
  using arrive_mset[of xs] by (metis size_mset)

end

interpretation rev_order: completion_order rev
  by unfold_locales simp

definition good :: "HostProfile \<Rightarrow> bool" where
  "good h \<longleftrightarrow> hp_is_sync h \<and> hp_is_api h"

lemma the_good_ones_eq:
  "the_good_ones np =
     (let us = map hp_url (filter good (nodes np))
      in if us = [] then Err ''no verified nodes found'' else Ok us)"
  by (simp add: the_good_ones_def good_def[abs_def] map_filter_def o_def Let_def)

lemma the_best_one_Ok_iff: "the_best_one np = Ok u \<longleftrightarrow> (\<exists>h hs. filter good (nodes np) = h # hs \<and> u = hp_url h)"
  by (cases "filter good (nodes np)") (auto simp: the_best_one_def the_good_ones_eq Let_def)

lemma the_best_one_no_panic: "the_best_one np \<noteq> Panic p"
  by (cases "filter good (nodes np)") (auto simp: the_best_one_def the_good_ones_eq Let_def)

lemma check_sync_url [simp]: "hp_url (check_sync c h) = hp_url h"
  by (simp add: check_sync_def split: option.splits)

lemma unat_sum_squares:
  assumes "length hs * m\<^sup>2 < 2 ^ 64" and "\<And>h. h \<in> set hs \<Longrightarrow> unat (hp_version h) \<le> m"
  shows "unat (sum_squares hs) \<le> length hs * m\<^sup>2"
  using assms
proof (induction hs)
  case Nil
  then show ?case by (simp add: sum_squares_def)
next
  case (Cons h hs)
  let ?v = "unat (hp_version h)"
  have vm: "?v * ?v \<le> m\<^sup>2" using Cons.prems(2)[of h] by (simp add: power2_eq_square mult_le_mono)
  have IH: "unat (sum_squares hs) \<le> length hs * m\<^sup>2" using Cons by simp
  with vm Cons.prems(1) have lt: "?v * ?v + unat (sum_squares hs) < 2 ^ 64" by simp
  then have "unat (hp_version h * hp_version h) = ?v * ?v" by (simp add: unat_mult_lem[THEN iffD1])
  moreover have "sum_squares (h # hs) = hp_version h * hp_version h + sum_squares hs"
    by (simp add: sum_squares_def)
  ultimately have "unat (sum_squares (h # hs)) = ?v * ?v + unat (sum_squares hs)"
    using lt by (simp add: unat_add_lem[THEN iffD1])
  with IH vm show ?case by simp
qed

definition polled :: "(HostProfile list \<Rightarrow> HostProfile list) \<Rightarrow> (url \<Rightarrow> u64 option) \<Rightarrow> NetworkPlaylist \<Rightarrow> HostProfile list" where
  "polled arrive client_index np = arrive (map (check_sync client_index) (nodes np))"

definition mark_sync :: "f64 \<Rightarrow> HostProfile \<Rightarrow> HostProfile" where
  "mark_sync rms p = (if f64_of_u64 (hp_version p) \<ge> rms then p\<lparr>hp_is_sync := True\<rparr> else p)"

lemma refresh_nodes:
  "nodes (refresh_sync_status arrive c np) =
     sort_key hp_version (map (mark_sync (playlist_rms (polled arrive c np))) (polled arrive c np))"
  by (simp add: refresh_sync_status_def polled_def mark_sync_def[abs_def] Let_def)

lemma mark_sync_simps [simp]:
  "hp_url (mark_sync r p) = hp_url p" "hp_version (mark_sync r p) = hp_version p"
  "hp_is_api (mark_sync r p) = hp_is_api p"
  by (simp_all add: mark_sync_def)

lemma refresh_versions:
  "hp_version ` set (nodes (refresh_sync_status arrive c np)) = hp_version ` set (polled arrive c np)"
  by (simp add: refresh_nodes image_image)

section \<open>Theorems\<close>

text \<open>
  Refreshing polls every node once and forgets none: the same nodes are left, sorted by version;
  a node is an API node exactly when it answered, and then carries the version it reported.
\<close>

theorem refresh_polls_all:
  fixes np :: NetworkPlaylist and client_index :: "url \<Rightarrow> u64 option"
  assumes "completion_order arrive"
  defines "r \<equiv> refresh_sync_status arrive client_index np"
  shows "mset (all_urls r) = mset (all_urls np) \<and> chain_name r = chain_name np \<and>
    sorted (map hp_version (nodes r)) \<and>
    (\<forall>h \<in> set (nodes r). hp_is_api h \<longleftrightarrow> client_index (hp_url h) \<noteq> None) \<and>
    (\<forall>h \<in> set (nodes r). hp_is_api h \<longrightarrow> client_index (hp_url h) = Some (hp_version h))"
proof (intro conjI)
  note perm = completion_order.arrive_mset[OF assms(1)] completion_order.arrive_set[OF assms(1)]
  show "mset (all_urls r) = mset (all_urls np)"
    by (simp add: r_def all_urls_def refresh_nodes polled_def perm o_def flip: mset_map)
       (simp add: perm multiset.map_comp o_def)
  have members: "\<exists>g. hp_url h = hp_url g \<and> hp_is_api h = hp_is_api (check_sync client_index g) \<and>
      hp_version h = hp_version (check_sync client_index g)" if "h \<in> set (nodes r)" for h
    using that by (auto simp: r_def refresh_nodes polled_def perm)
  have api: "(hp_is_api h \<longleftrightarrow> client_index (hp_url h) \<noteq> None) \<and>
      (hp_is_api h \<longrightarrow> client_index (hp_url h) = Some (hp_version h))" if "h \<in> set (nodes r)" for h
  proof -
    obtain g where g: "hp_url h = hp_url g" "hp_is_api h = hp_is_api (check_sync client_index g)"
      "hp_version h = hp_version (check_sync client_index g)" using members[of h] \<open>h \<in> set (nodes r)\<close> by blast
    show ?thesis unfolding g by (cases "client_index (hp_url g)") (simp_all add: check_sync_def)
  qed
  then show "\<forall>h \<in> set (nodes r). hp_is_api h \<longleftrightarrow> client_index (hp_url h) \<noteq> None"
    "\<forall>h \<in> set (nodes r). hp_is_api h \<longrightarrow> client_index (hp_url h) = Some (hp_version h)"
    by blast+
qed (simp_all add: r_def refresh_nodes refresh_sync_status_def Let_def)

definition sample_playlist :: NetworkPlaylist where
  "sample_playlist = \<lparr>chain_name = TESTING, nodes = [HostProfile_new ''a'', HostProfile_new ''b'', HostProfile_new ''c'']\<rparr>"

definition sample_client :: "url \<Rightarrow> u64 option" where
  "sample_client = [''a'' \<mapsto> 300, ''b'' \<mapsto> 400]"

theorem refresh_polls_all_witness:
  "mset (all_urls (refresh_sync_status rev sample_client sample_playlist)) = {#''a'', ''b'', ''c''#}"
proof -
  have "mset (all_urls sample_playlist) = {#''a'', ''b'', ''c''#}"
    by (simp add: all_urls_def sample_playlist_def HostProfile_new_def)
  with refresh_polls_all[OF rev_order.completion_order_axioms, of sample_client sample_playlist]
  show ?thesis by simp
qed

text \<open>
  The refresh keeps the front runner: when the sum of squares is small enough to be exact in
  double precision, every node that reports the highest version of the list is marked as synced, so
  the list never loses its best node to rounding. Marks are only ever added.
\<close>

theorem refresh_marks_highest:
  assumes "completion_order arrive"
    and "h \<in> set (nodes (refresh_sync_status arrive client_index np))"
    and "\<forall>g \<in> set (nodes (refresh_sync_status arrive client_index np)). hp_version g \<le> hp_version h"
    and "length (nodes np) * (unat (hp_version h))\<^sup>2 \<le> 2 ^ 53" and "length (nodes np) \<le> 2 ^ 53"
  shows "hp_is_sync h"
proof -
  let ?p = "polled arrive client_index np" and ?m = "unat (hp_version h)"
  have len: "length ?p = length (nodes np)"
    by (simp add: polled_def completion_order.arrive_length[OF assms(1)])
  obtain q where q: "q \<in> set ?p" "h = mark_sync (playlist_rms ?p) q"
    using assms(2) by (auto simp: refresh_nodes)
  from q(1) have pos: "0 < length ?p" by (cases ?p) auto
  have le: "unat (hp_version g) \<le> ?m" if "g \<in> set ?p" for g
    using assms(3) that by (auto simp: refresh_nodes word_le_nat_alt)
  have "unat (sum_squares ?p) \<le> length ?p * ?m\<^sup>2"
    using assms(4) le by (intro unat_sum_squares) (simp_all add: len)
  from rms_le_max[OF this] assms(4,5) pos have "playlist_rms ?p \<le> f64_of_nat ?m"
    by (simp add: playlist_rms_def f64_of_u64_def len)
  moreover from q(2) have "hp_version h = hp_version q" by simp
  ultimately show ?thesis using q(2) by (simp add: mark_sync_def f64_of_u64_def)
qed

theorem refresh_marks_highest_witness:
  "\<exists>h \<in> set (nodes (refresh_sync_status rev sample_client sample_playlist)). hp_version h = 400 \<and> hp_is_sync h"
proof -
  let ?r = "refresh_sync_status rev sample_client sample_playlist"
  have versions: "hp_version ` set (nodes ?r) = {300, 400, 0}"
    by (simp add: refresh_versions polled_def sample_playlist_def sample_client_def HostProfile_new_def
        HostProfile_default_def check_sync_def insert_commute)
  then have "400 \<in> hp_version ` set (nodes ?r)" by simp
  then obtain h where h: "h \<in> set (nodes ?r)" "hp_version h = 400" by auto
  have "\<forall>g \<in> set (nodes ?r). hp_version g \<le> hp_version h"
  proof
    fix g assume "g \<in> set (nodes ?r)"
    with versions have "hp_version g \<in> {300, 400, 0}" by blast
    with h(2) show "hp_version g \<le> hp_version h" by auto
  qed
  from refresh_marks_highest[OF rev_order.completion_order_axioms h(1) this] h(2)
  have "hp_is_sync h" by (simp add: sample_playlist_def)
  with h show ?thesis by blast
qed

text \<open>
  After a refresh the node that \<open>the_best_one\<close> returns is the synced API node with the lowest
  version of all, because the list is sorted in ascending order and the first good entry is taken.
\<close>

theorem best_one_is_lowest:
  assumes "the_best_one (refresh_sync_status arrive client_index np) = Ok u"
  shows "\<exists>h \<in> set (nodes (refresh_sync_status arrive client_index np)).
    good h \<and> hp_url h = u \<and>
    (\<forall>g \<in> set (nodes (refresh_sync_status arrive client_index np)). good g \<longrightarrow> hp_version h \<le> hp_version g)"
proof -
  let ?ns = "nodes (refresh_sync_status arrive client_index np)"
  obtain h hs where f: "filter good ?ns = h # hs" and u: "u = hp_url h"
    using assms by (auto simp: the_best_one_Ok_iff)
  have "sorted (map hp_version (filter good ?ns))"
    by (rule sorted_filter) (simp add: refresh_nodes)
  with f have "\<forall>g \<in> set (filter good ?ns). hp_version h \<le> hp_version g" by auto
  moreover have "h \<in> set (filter good ?ns)" using f by simp
  ultimately show ?thesis using u by auto
qed

theorem best_one_is_lowest_witness:
  "\<exists>h \<in> set (nodes (refresh_sync_status (\<lambda>xs. xs) (\<lambda>_. Some 7) (NetworkPlaylist_localhost None))).
     good h \<and> hp_url h = ''http://localhost:8080''"
proof -
  let ?r = "refresh_sync_status (\<lambda>xs. xs) (\<lambda>_. Some 7) (NetworkPlaylist_localhost None)"
  have "the_best_one ?r = Ok ''http://localhost:8080''"
    by (simp add: the_best_one_Ok_iff refresh_nodes polled_def NetworkPlaylist_localhost_def
        check_sync_def good_def mark_sync_def)
  from best_one_is_lowest[OF this] show ?thesis by blast
qed

text \<open>
  \<open>pick_one\<close> fails only on an empty playlist. With a synced API node in the list it returns the
  first such node, and otherwise it falls back to the first node of the list.
\<close>

theorem pick_one_total:
  "pick_one np =
     (case filter good (nodes np) of
        h # _ \<Rightarrow> Ok (hp_url h)
      | [] \<Rightarrow> (case nodes np of h # _ \<Rightarrow> Ok (hp_url h) | [] \<Rightarrow> Err ''no urls to choose from''))"
  by (auto simp: pick_one_def the_best_one_def the_good_ones_eq all_urls_def Let_def split: list.splits)

end
