(* ===== verification/Genesis_Migrate.thy ===== *)
theory Genesis_Migrate
  imports Comm_Wallet Supply Playlist
begin

text \<open>
  The migration of recovery records into the genesis session
  (\<^verbatim>\<open>src/tools/genesis/src/genesis_functions.rs\<close>) and the part of \<^verbatim>\<open>src/tools/genesis/src/vm.rs\<close> that drives it.

  A session is any state \<open>'s\<close>. \<open>exec\<close> stands for the vendor's \<open>exec_function\<close> applied to serialized values: it runs
  one Move function on the session, or panics when the Move code aborts (\<open>None\<close>). Operations on
  \<open>&mut SessionExt\<close> take the session and return their result with the new session; log lines are left out.
  The refinement theorem compares the code with the plain list of Move calls it stands for.
\<close>

section \<open>Sessions\<close>

datatype MoveValue = MSigner account_address | MAddress account_address | MU8 u8 | MU64 u64
  | MVector "MoveValue list"

type_synonym call = "string \<times> string \<times> MoveValue list"
type_synonym 's exec = "string \<Rightarrow> string \<Rightarrow> MoveValue list \<Rightarrow> 's \<Rightarrow> 's option"

definition vector_u8 :: "bytes \<Rightarrow> MoveValue" where
  "vector_u8 bs = MVector (map MU8 bs)"

definition vector_address :: "account_address list \<Rightarrow> MoveValue" where
  "vector_address as = MVector (map MAddress as)"

definition exec_function :: "'s exec \<Rightarrow> string \<Rightarrow> string \<Rightarrow> MoveValue list \<Rightarrow> 's step" where
  "exec_function exec m f args s =
     (case exec m f args s of Some s' \<Rightarrow> (Ok (), s') | None \<Rightarrow> (Panic ''Error calling'', s))"

text \<open>\<open>match r { Ok(_) => {}, Err(e) => log }\<close> and \<open>expect\<close>.\<close>

fun log_err :: "unit rres \<times> 's \<Rightarrow> unit rres \<times> 's" where
  "log_err (Err e, s) = (Ok (), s)"
| "log_err (r, s) = (r, s)"

fun expect :: "unit rres \<times> 's \<Rightarrow> unit rres \<times> 's" where
  "expect (Err e, s) = (Panic e, s)"
| "expect (r, s) = (r, s)"

section \<open>The migration functions\<close>

definition set_tombstone :: "'s exec \<Rightarrow> account_address \<Rightarrow> 's step" where
  "set_tombstone exec user =
     exec_function exec ''account'' ''set_tombstone'' [MSigner zero_address, MAddress user]"

definition genesis_migrate_one_user ::
  "(account_address \<Rightarrow> string) \<Rightarrow> (string \<Rightarrow> account_address rres) \<Rightarrow> 's exec \<Rightarrow>
   ('vc, 'vo, 'ev) LegacyRecoveryV6 \<Rightarrow> 's step" where
  "genesis_migrate_one_user to_str from_hex_literal exec r s =
     (case (r_account r, r_auth_key r, r_balance r) of
        (Some account, Some auth_key, Some b) \<Rightarrow>
          with_val (from_hex_literal (''0x'' @ to_str account)) (\<lambda>new_addr.
          exec_function exec ''genesis_migration'' ''migrate_legacy_user''
            [MSigner core_code_address, MSigner new_addr, vector_u8 auth_key, MU64 (bal_coin b)]) s
      | _ \<Rightarrow> (Err ''no user account found'', s))"

definition genesis_migrate_slow_wallet ::
  "(account_address \<Rightarrow> string) \<Rightarrow> (string \<Rightarrow> account_address rres) \<Rightarrow> 's exec \<Rightarrow>
   ('vc, 'vo, 'ev) LegacyRecoveryV6 \<Rightarrow> 's step" where
  "genesis_migrate_slow_wallet to_str from_hex_literal exec r s =
     (case (r_account r, r_auth_key r, r_balance r, r_slow_wallet r) of
        (Some account, Some _, Some _, Some slow) \<Rightarrow>
          with_val (from_hex_literal (''0x'' @ to_str account)) (\<lambda>new_addr.
          exec_function exec ''slow_wallet'' ''set_slow_wallet_state''
            [MSigner core_code_address, MSigner new_addr, MU64 (sw_unlocked slow),
             MU64 (sw_transferred slow)]) s
      | _ \<Rightarrow> (Err ''no user account found'', s))"

definition genesis_migrate_infra_escrow ::
  "'s exec \<Rightarrow> ('vc, 'vo, 'ev) LegacyRecoveryV6 \<Rightarrow> 's step" where
  "genesis_migrate_infra_escrow exec r s =
     (case (r_account r, r_auth_key r, r_my_pledge r) of
        (Some account, Some _, Some pledges) \<Rightarrow>
          for_each (\<lambda>p. exec_function exec ''genesis_migration'' ''fork_escrow_init''
            [MSigner core_code_address, MSigner account, MU64 (pa_pledge p),
             MU64 (pa_lifetime_pledged p), MU64 (pa_lifetime_withdrawn p)]) (mp_list pledges) s
      | _ \<Rightarrow> (Err ''no user pledge found'', s))"

definition genesis_migrate_receipts ::
  "(account_address \<Rightarrow> string) \<Rightarrow> (string \<Rightarrow> account_address rres) \<Rightarrow> 's exec \<Rightarrow>
   ('vc, 'vo, 'ev) LegacyRecoveryV6 \<Rightarrow> 's step" where
  "genesis_migrate_receipts to_str from_hex_literal exec r s =
     (case (r_account r, r_auth_key r, r_balance r) of
        (Some account, Some _, Some _) \<Rightarrow>
          with_val (from_hex_literal (''0x'' @ to_str account)) (\<lambda>new_addr s.
          case r_receipts r of
            Some rc \<Rightarrow>
              with_val (rmapM (\<lambda>a. unwrap ''could not parse account address''
                                (from_hex_literal (''0x'' @ to_str a))) (rc_destination rc)) (\<lambda>dest_map.
              exec_function exec ''receipts'' ''genesis_migrate_user''
                [MSigner zero_address, MSigner new_addr, vector_address dest_map,
                 MVector (map MU64 (rc_cumulative rc)), MVector (map MU64 (rc_last_payment_timestamp rc)),
                 MVector (map MU64 (rc_last_payment_value rc))]) s
          | None \<Rightarrow> (Ok (), s)) s
      | _ \<Rightarrow> (Err ''no user account found'', s))"

definition genesis_migrate_ancestry ::
  "(account_address \<Rightarrow> string) \<Rightarrow> (string \<Rightarrow> account_address rres) \<Rightarrow> 's exec \<Rightarrow>
   ('vc, 'vo, 'ev) LegacyRecoveryV6 \<Rightarrow> 's step" where
  "genesis_migrate_ancestry to_str from_hex_literal exec r s =
     (case (r_account r, r_auth_key r, r_balance r, r_ancestry r) of
        (Some account, Some _, Some _, Some ancestry) \<Rightarrow>
          with_val (from_hex_literal (''0x'' @ to_str account)) (\<lambda>new_addr.
          with_val (rmapM (\<lambda>a. unwrap ''called Result::unwrap() on an Err value''
                            (from_hex_literal (''0x'' @ to_str a))) (an_tree ancestry)) (\<lambda>mapped_addr.
          exec_function exec ''ancestry'' ''fork_migrate''
            [MSigner core_code_address, MSigner new_addr, vector_address mapped_addr])) s
      | _ \<Rightarrow> (Err ''no user account found'', s))"

definition genesis_migrate_community_wallet ::
  "'s exec \<Rightarrow> ('vc, 'vo, 'ev) LegacyRecoveryV6 \<Rightarrow> 's step" where
  "genesis_migrate_community_wallet exec r =
     with_val (or_panic ''called Option::unwrap() on a None value'' (r_account r)) (\<lambda>account.
     exec_function exec ''community_wallet_init'' ''migrate_community_wallet_account''
       [MSigner core_code_address, MSigner account])"

text \<open>The closure of \<open>genesis_migrate_all_users\<close>.\<close>

definition migrate_user ::
  "(account_address \<Rightarrow> string) \<Rightarrow> (string \<Rightarrow> account_address rres) \<Rightarrow> 's exec \<Rightarrow>
   ('vc, 'vo, 'ev) LegacyRecoveryV6 \<Rightarrow> 's step" where
  "migrate_user to_str from_hex_literal exec a s =
     (if r_account a \<noteq> None \<and> r_role a = Drop
      then set_tombstone exec (the (r_account a)) s
      else
        seq (log_err (genesis_migrate_one_user to_str from_hex_literal exec a s)) (\<lambda>s.
        seq (if r_slow_wallet a \<noteq> None
             then log_err (genesis_migrate_slow_wallet to_str from_hex_literal exec a s) else (Ok (), s)) (\<lambda>s.
        seq (if r_comm_wallet a \<noteq> None
             then expect (genesis_migrate_community_wallet exec a s) else (Ok (), s)) (\<lambda>s.
        seq (if r_ancestry a \<noteq> None
             then log_err (genesis_migrate_ancestry to_str from_hex_literal exec a s) else (Ok (), s)) (\<lambda>s.
        seq (if r_receipts a \<noteq> None
             then log_err (genesis_migrate_receipts to_str from_hex_literal exec a s) else (Ok (), s)) (\<lambda>s.
        if r_my_pledge a \<noteq> None
        then log_err (genesis_migrate_infra_escrow exec a s) else (Ok (), s)))))))"

definition genesis_migrate_all_users ::
  "(account_address \<Rightarrow> string) \<Rightarrow> (string \<Rightarrow> account_address rres) \<Rightarrow> 's exec \<Rightarrow>
   ('vc, 'vo, 'ev) LegacyRecoveryV6 list \<Rightarrow> 's step" where
  "genesis_migrate_all_users to_str from_hex_literal exec rs =
     for_each (migrate_user to_str from_hex_literal exec) rs"

definition genesis_migrate_cumu_deposits ::
  "'s exec \<Rightarrow> ('vc, 'vo, 'ev) LegacyRecoveryV6 list \<Rightarrow> 's step" where
  "genesis_migrate_cumu_deposits exec rs =
     with_val (prepare_cw_and_receipts rs) (\<lambda>(_, cw).
     for_each (\<lambda>(addr, wallet).
       exec_function exec ''cumulative_deposits'' ''genesis_migrate_cumulative_deposits''
         [MSigner core_code_address, MSigner addr, MU64 (ws_cumulative_value wallet),
          MU64 (ws_cumulative_index wallet), vector_address (ws_depositors wallet)]) (cw_list cw))"

definition set_final_supply :: "'s exec \<Rightarrow> 's step" where
  "set_final_supply exec =
     exec_function exec ''libra_coin'' ''genesis_set_final_supply''
       [MSigner core_code_address, MU64 (100000000000 * 1000000)]"

definition set_validator_baseline_reward :: "'s exec \<Rightarrow> u64 \<Rightarrow> 's step" where
  "set_validator_baseline_reward exec nominal_reward =
     exec_function exec ''proof_of_fee'' ''genesis_migrate_reward''
       [MSigner core_code_address, MU64 nominal_reward]"

section \<open>The genesis session\<close>

record GenesisConfiguration =
  gc_allow_new_validators :: bool
  gc_epoch_duration_secs :: u64
  gc_is_test :: bool
  gc_max_stake :: u64
  gc_min_stake :: u64
  gc_min_voting_threshold :: u128
  gc_recurring_lockup_duration_secs :: u64
  gc_required_proposer_stake :: u64
  gc_rewards_apy_percentage :: u64
  gc_voting_duration_secs :: u64
  gc_voting_power_increase_limit :: u64
  gc_employee_vesting_start :: u64
  gc_employee_vesting_period_duration :: u64

definition libra_genesis_default :: "NamedChain \<Rightarrow> GenesisConfiguration" where
  "libra_genesis_default chain =
     (let epoch_duration_secs =
        (case chain of MAINNET \<Rightarrow> 24 * 60 * 60 | TESTING \<Rightarrow> 2 * 60 | _ \<Rightarrow> 5 * 60)
      in \<lparr>gc_allow_new_validators = True, gc_epoch_duration_secs = epoch_duration_secs, gc_is_test = False,
          gc_max_stake = 0, gc_min_stake = 0, gc_min_voting_threshold = 0,
          gc_recurring_lockup_duration_secs = epoch_duration_secs + 1, gc_required_proposer_stake = 0,
          gc_rewards_apy_percentage = 1, gc_voting_duration_secs = 1, gc_voting_power_increase_limit = 1,
          gc_employee_vesting_start = 1, gc_employee_vesting_period_duration = 1\<rparr>)"

text \<open>The vendor's initializers, steps of the session that panic by themselves.\<close>

record 's genesis_vendor =
  gv_initialize :: "'s step"
  gv_initialize_features :: "'s step"
  gv_initialize_diem_coin :: "'s step"
  gv_initialize_on_chain_governance :: "'s step"
  gv_create_and_initialize_validators :: "'s step"
  gv_set_genesis_end :: "'s step"
  gv_emit_new_block_and_epoch_event :: "'s step"

text \<open>The migration block of \<open>encode_genesis_change_set\<close>.\<close>

definition migration_block ::
  "(account_address \<Rightarrow> string) \<Rightarrow> (string \<Rightarrow> account_address rres) \<Rightarrow> 's exec \<Rightarrow>
   ('vc, 'vo, 'ev) LegacyRecoveryV6 list \<Rightarrow> 's step" where
  "migration_block to_str from_hex_literal exec recovery s =
     (if recovery = [] then (Ok (), s)
      else
        seq (case find (\<lambda>e. r_account e = Some core_code_address) recovery of
               Some f \<Rightarrow>
                 (case r_consensus_reward f of
                    Some cr \<Rightarrow> set_validator_baseline_reward exec (cr_nominal_reward cr) s
                  | None \<Rightarrow> (Ok (), s))
             | None \<Rightarrow> (Ok (), s)) (\<lambda>s.
        seq (expect (genesis_migrate_all_users to_str from_hex_literal exec recovery s)) (\<lambda>s.
        expect (genesis_migrate_cumu_deposits exec recovery s))))"

text \<open>The first session of \<open>encode_genesis_change_set\<close>, from its first call to the last.\<close>

definition genesis_session ::
  "(account_address \<Rightarrow> string) \<Rightarrow> (string \<Rightarrow> account_address rres) \<Rightarrow> 's exec \<Rightarrow> 's genesis_vendor \<Rightarrow>
   ('vc, 'vo, 'ev) LegacyRecoveryV6 list \<Rightarrow> 's step" where
  "genesis_session to_str from_hex_literal exec v recovery s =
     seq (gv_initialize v s) (\<lambda>s.
     seq (gv_initialize_features v s) (\<lambda>s.
     seq (gv_initialize_diem_coin v s) (\<lambda>s.
     seq (set_final_supply exec s) (\<lambda>s.
     seq (gv_initialize_on_chain_governance v s) (\<lambda>s.
     seq (migration_block to_str from_hex_literal exec recovery s) (\<lambda>s.
     seq (gv_create_and_initialize_validators v s) (\<lambda>s.
     seq (gv_set_genesis_end v s)
     (gv_emit_new_block_and_epoch_event v))))))))"

section \<open>The specification: a list of Move calls\<close>

definition complete :: "('vc, 'vo, 'ev) LegacyRecoveryV6 \<Rightarrow> bool" where
  "complete r \<longleftrightarrow> r_auth_key r \<noteq> None \<and> r_balance r \<noteq> None"

definition pledge_call :: "account_address \<Rightarrow> PledgeAccountResource \<Rightarrow> call" where
  "pledge_call a p = (''genesis_migration'', ''fork_escrow_init'',
     [MSigner core_code_address, MSigner a, MU64 (pa_pledge p), MU64 (pa_lifetime_pledged p),
      MU64 (pa_lifetime_withdrawn p)])"

text \<open>The calls one record with account \<open>a\<close> stands for, by topic.\<close>

definition legacy_user_calls :: "account_address \<Rightarrow> ('vc, 'vo, 'ev) LegacyRecoveryV6 \<Rightarrow> call list" where
  "legacy_user_calls a r =
     (if complete r
      then [(''genesis_migration'', ''migrate_legacy_user'',
             [MSigner core_code_address, MSigner a, vector_u8 (the (r_auth_key r)),
              MU64 (bal_coin (the (r_balance r)))])]
      else [])"

definition slow_wallet_calls :: "account_address \<Rightarrow> ('vc, 'vo, 'ev) LegacyRecoveryV6 \<Rightarrow> call list" where
  "slow_wallet_calls a r =
     (case r_slow_wallet r of
        Some w \<Rightarrow>
          if complete r
          then [(''slow_wallet'', ''set_slow_wallet_state'',
                 [MSigner core_code_address, MSigner a, MU64 (sw_unlocked w), MU64 (sw_transferred w)])]
          else []
      | None \<Rightarrow> [])"

definition comm_wallet_calls :: "account_address \<Rightarrow> ('vc, 'vo, 'ev) LegacyRecoveryV6 \<Rightarrow> call list" where
  "comm_wallet_calls a r =
     (if r_comm_wallet r \<noteq> None
      then [(''community_wallet_init'', ''migrate_community_wallet_account'',
             [MSigner core_code_address, MSigner a])]
      else [])"

definition ancestry_calls :: "account_address \<Rightarrow> ('vc, 'vo, 'ev) LegacyRecoveryV6 \<Rightarrow> call list" where
  "ancestry_calls a r =
     (case r_ancestry r of
        Some an \<Rightarrow>
          if complete r
          then [(''ancestry'', ''fork_migrate'',
                 [MSigner core_code_address, MSigner a, vector_address (an_tree an)])]
          else []
      | None \<Rightarrow> [])"

definition receipts_calls :: "account_address \<Rightarrow> ('vc, 'vo, 'ev) LegacyRecoveryV6 \<Rightarrow> call list" where
  "receipts_calls a r =
     (case r_receipts r of
        Some rc \<Rightarrow>
          if complete r
          then [(''receipts'', ''genesis_migrate_user'',
                 [MSigner zero_address, MSigner a, vector_address (rc_destination rc),
                  MVector (map MU64 (rc_cumulative rc)), MVector (map MU64 (rc_last_payment_timestamp rc)),
                  MVector (map MU64 (rc_last_payment_value rc))])]
          else []
      | None \<Rightarrow> [])"

definition escrow_calls :: "account_address \<Rightarrow> ('vc, 'vo, 'ev) LegacyRecoveryV6 \<Rightarrow> call list" where
  "escrow_calls a r =
     (case r_my_pledge r of
        Some p \<Rightarrow> if r_auth_key r \<noteq> None then map (pledge_call a) (mp_list p) else []
      | None \<Rightarrow> [])"

definition user_calls :: "('vc, 'vo, 'ev) LegacyRecoveryV6 \<Rightarrow> call list" where
  "user_calls r =
     (let a = the (r_account r)
      in if r_role r = Drop then [(''account'', ''set_tombstone'', [MSigner zero_address, MAddress a])]
         else legacy_user_calls a r @ slow_wallet_calls a r @ comm_wallet_calls a r @ ancestry_calls a r @
              receipts_calls a r @ escrow_calls a r)"

definition wallet_call :: "account_address \<times> WalletState \<Rightarrow> call" where
  "wallet_call = (\<lambda>(a, w). (''cumulative_deposits'', ''genesis_migrate_cumulative_deposits'',
     [MSigner core_code_address, MSigner a, MU64 (ws_cumulative_value w), MU64 (ws_cumulative_index w),
      vector_address (ws_depositors w)]))"

definition reward_calls :: "('vc, 'vo, 'ev) LegacyRecoveryV6 list \<Rightarrow> call list" where
  "reward_calls rs =
     (case find (\<lambda>e. r_account e = Some core_code_address) rs of
        Some f \<Rightarrow>
          (case r_consensus_reward f of
             Some cr \<Rightarrow> [(''proof_of_fee'', ''genesis_migrate_reward'',
                         [MSigner core_code_address, MU64 (cr_nominal_reward cr)])]
           | None \<Rightarrow> [])
      | None \<Rightarrow> [])"

definition migration_calls :: "('vc, 'vo, 'ev) LegacyRecoveryV6 list \<Rightarrow> call list" where
  "migration_calls rs =
     (if rs = [] then []
      else reward_calls rs @ concat (map user_calls rs) @
           map wallet_call (cw_list (snd (the_ok (prepare_cw_and_receipts rs)))))"

definition run_calls :: "'s exec \<Rightarrow> call list \<Rightarrow> 's step" where
  "run_calls exec = for_each (\<lambda>(m, f, args). exec_function exec m f args)"

text \<open>A well formed record has an account, and all its addresses have 32 bytes.\<close>

definition record_ok :: "('vc, 'vo, 'ev) LegacyRecoveryV6 \<Rightarrow> bool" where
  "record_ok r \<longleftrightarrow>
     (\<exists>a. r_account r = Some a \<and> length a = 32) \<and>
     (\<forall>an \<in> set_option (r_ancestry r). list_all (\<lambda>a. length a = 32) (an_tree an)) \<and>
     (\<forall>rc \<in> set_option (r_receipts r). list_all (\<lambda>a. length a = 32) (rc_destination rc))"

section \<open>Running calls\<close>

lemma run_calls_simps [simp]:
  "run_calls exec [] s = (Ok (), s)"
  "run_calls exec [(m, f, args)] s = exec_function exec m f args s"
  "run_calls exec (cs @ ds) s = seq (run_calls exec cs s) (run_calls exec ds)"
  by (simp_all add: run_calls_def for_each_append for_each_eqs)

lemma run_calls_eqs: "run_calls exec [] = (\<lambda>s. (Ok (), s))"
  "run_calls exec (cs @ ds) = (\<lambda>s. seq (run_calls exec cs s) (run_calls exec ds))"
  by (simp_all add: fun_eq_iff)

text \<open>A guarded step is a run of calls when the step is and no calls are due without it.\<close>

lemma guarded_calls:
  "(P \<Longrightarrow> x = run_calls exec cs s) \<Longrightarrow> (\<not> P \<Longrightarrow> cs = []) \<Longrightarrow>
   (if P then x else (Ok (), s)) = run_calls exec cs s"
  by simp

lemma run_calls_concat: "for_each (\<lambda>x. run_calls exec (f x)) xs = run_calls exec (concat (map f xs))"
  by (induction xs) (simp_all add: for_each_eqs run_calls_eqs)

text \<open>A run of calls ends or panics; it has no error value.\<close>

lemma exec_function_no_err: "\<not> is_err (fst (exec_function exec m f args s))"
  by (simp add: exec_function_def split: option.splits)

lemma seq_no_err: "\<not> is_err (fst p) \<Longrightarrow> (\<And>s. \<not> is_err (fst (k s))) \<Longrightarrow> \<not> is_err (fst (seq p k))"
  by (cases p; cases "fst p") auto

lemma for_each_no_err: "(\<And>x s. \<not> is_err (fst (f x s))) \<Longrightarrow> \<not> is_err (fst (for_each f xs s))"
  by (induction xs arbitrary: s) (simp_all add: seq_no_err)

lemma log_err_id: "\<not> is_err (fst p) \<Longrightarrow> log_err p = p"
  by (cases p; cases "fst p") auto

lemma expect_id: "\<not> is_err (fst p) \<Longrightarrow> expect p = p"
  by (cases p; cases "fst p") auto

lemma run_calls_no_err: "\<not> is_err (fst (run_calls exec cs s))"
  unfolding run_calls_def by (rule for_each_no_err) (simp add: exec_function_no_err split: prod.splits)

lemmas no_err_simps [simp] = log_err_id[OF exec_function_no_err] expect_id[OF exec_function_no_err]
  log_err_id[OF run_calls_no_err] expect_id[OF run_calls_no_err]

section \<open>The refinement\<close>

context address_text
begin

lemma one_user_calls:
  "record_ok r \<Longrightarrow> r_account r = Some a \<Longrightarrow>
   log_err (genesis_migrate_one_user to_str from_hex_literal exec r s) = run_calls exec (legacy_user_calls a r) s"
  by (auto simp: genesis_migrate_one_user_def legacy_user_calls_def complete_def record_ok_def
      convert_id[simplified] split: option.splits)

lemma slow_calls:
  "record_ok r \<Longrightarrow> r_account r = Some a \<Longrightarrow> r_slow_wallet r \<noteq> None \<Longrightarrow>
   log_err (genesis_migrate_slow_wallet to_str from_hex_literal exec r s) = run_calls exec (slow_wallet_calls a r) s"
  by (auto simp: genesis_migrate_slow_wallet_def slow_wallet_calls_def complete_def record_ok_def
      convert_id[simplified] split: option.splits)

lemma ancestor_calls:
  "record_ok r \<Longrightarrow> r_account r = Some a \<Longrightarrow> r_ancestry r \<noteq> None \<Longrightarrow>
   log_err (genesis_migrate_ancestry to_str from_hex_literal exec r s) = run_calls exec (ancestry_calls a r) s"
  by (auto simp: genesis_migrate_ancestry_def ancestry_calls_def complete_def record_ok_def
      convert_id[simplified] convert_list[simplified] split: option.splits)

lemma receipt_calls:
  "record_ok r \<Longrightarrow> r_account r = Some a \<Longrightarrow> r_receipts r \<noteq> None \<Longrightarrow>
   log_err (genesis_migrate_receipts to_str from_hex_literal exec r s) = run_calls exec (receipts_calls a r) s"
  by (auto simp: genesis_migrate_receipts_def receipts_calls_def complete_def record_ok_def
      convert_id[simplified] convert_list[simplified] split: option.splits)

lemma pledge_calls:
  "r_account r = Some a \<Longrightarrow> r_my_pledge r \<noteq> None \<Longrightarrow>
   log_err (genesis_migrate_infra_escrow exec r s) = run_calls exec (escrow_calls a r) s"
proof (cases "r_auth_key r")
  case (Some k)
  assume r: "r_account r = Some a" "r_my_pledge r \<noteq> None"
  then obtain p where p: "r_my_pledge r = Some p" by blast
  have "genesis_migrate_infra_escrow exec r s = run_calls exec (escrow_calls a r) s"
    by (simp add: genesis_migrate_infra_escrow_def escrow_calls_def r(1) p Some run_calls_def for_each_map
        pledge_call_def)
  then show ?thesis by simp
qed (auto simp: genesis_migrate_infra_escrow_def escrow_calls_def split: option.splits)

lemma no_calls:
  "r_slow_wallet r = None \<Longrightarrow> slow_wallet_calls a r = []"
  "r_comm_wallet r = None \<Longrightarrow> comm_wallet_calls a r = []"
  "r_ancestry r = None \<Longrightarrow> ancestry_calls a r = []"
  "r_receipts r = None \<Longrightarrow> receipts_calls a r = []"
  "r_my_pledge r = None \<Longrightarrow> escrow_calls a r = []"
  by (simp_all add: slow_wallet_calls_def comm_wallet_calls_def ancestry_calls_def receipts_calls_def
      escrow_calls_def)

lemma migrate_user_calls:
  assumes "record_ok r"
  shows "migrate_user to_str from_hex_literal exec r s = run_calls exec (user_calls r) s"
proof -
  obtain a where a: "r_account r = Some a" using assms by (auto simp: record_ok_def)
  have comm: "expect (genesis_migrate_community_wallet exec r s) = run_calls exec (comm_wallet_calls a r) s"
    if "r_comm_wallet r \<noteq> None" for s
    using that by (simp add: genesis_migrate_community_wallet_def comm_wallet_calls_def a)
  have slow_wallet: "(if r_slow_wallet r \<noteq> None then log_err (genesis_migrate_slow_wallet to_str from_hex_literal exec r s) else (Ok (), s)) = run_calls exec (slow_wallet_calls a r) s" for s
    by (rule guarded_calls, erule slow_calls[OF assms a], simp add: no_calls)
  have comm_wallet: "(if r_comm_wallet r \<noteq> None then expect (genesis_migrate_community_wallet exec r s) else (Ok (), s)) = run_calls exec (comm_wallet_calls a r) s" for s
    by (rule guarded_calls, erule comm, simp add: no_calls)
  have ancestry: "(if r_ancestry r \<noteq> None then log_err (genesis_migrate_ancestry to_str from_hex_literal exec r s) else (Ok (), s)) = run_calls exec (ancestry_calls a r) s" for s
    by (rule guarded_calls, erule ancestor_calls[OF assms a], simp add: no_calls)
  have receipts: "(if r_receipts r \<noteq> None then log_err (genesis_migrate_receipts to_str from_hex_literal exec r s) else (Ok (), s)) = run_calls exec (receipts_calls a r) s" for s
    by (rule guarded_calls, erule receipt_calls[OF assms a], simp add: no_calls)
  have escrow: "(if r_my_pledge r \<noteq> None then log_err (genesis_migrate_infra_escrow exec r s) else (Ok (), s)) = run_calls exec (escrow_calls a r) s" for s
    by (rule guarded_calls, erule pledge_calls[OF a], simp add: no_calls)
  show ?thesis
  proof (cases "r_role r = Drop")
    case True
    then show ?thesis by (simp add: migrate_user_def user_calls_def a set_tombstone_def)
  next
    case False
    then show ?thesis
      unfolding migrate_user_def user_calls_def Let_def slow_wallet comm_wallet ancestry receipts escrow one_user_calls[OF assms a] a
      by (simp add: run_calls_eqs seq_assoc)
  qed
qed

lemma all_users_calls:
  "list_all record_ok rs \<Longrightarrow>
   genesis_migrate_all_users to_str from_hex_literal exec rs = run_calls exec (concat (map user_calls rs))"
  unfolding genesis_migrate_all_users_def run_calls_concat[symmetric]
  by (rule for_each_cong) (simp add: migrate_user_calls list_all_iff)

end

lemma cumu_deposits_calls:
  assumes "prepare_cw_and_receipts rs = Ok (dr, cw)"
  shows "genesis_migrate_cumu_deposits exec rs s = run_calls exec (map wallet_call (cw_list cw)) s"
  unfolding genesis_migrate_cumu_deposits_def assms
  by (simp add: run_calls_def for_each_map wallet_call_def case_prod_beta[abs_def])

context address_text
begin

lemma migration_block_calls:
  assumes "list_all record_ok rs" and "list_all receipts_v6_ok rs"
  shows "migration_block to_str from_hex_literal exec rs s = run_calls exec (migration_calls rs) s"
proof -
  have "list_all (\<lambda>e. r_account e \<noteq> None) rs" using assms(1) by (auto simp: list_all_iff record_ok_def)
  then obtain dr cw where cw: "prepare_cw_and_receipts rs = Ok (dr, cw)"
    using prepare_cw_Ok[OF _ assms(2)] by blast
  have "(case find (\<lambda>e. r_account e = Some core_code_address) rs of
      Some f \<Rightarrow> (case r_consensus_reward f of
          Some cr \<Rightarrow> set_validator_baseline_reward exec (cr_nominal_reward cr) s | None \<Rightarrow> (Ok (), s))
    | None \<Rightarrow> (Ok (), s)) = run_calls exec (reward_calls rs) s"
    by (simp add: reward_calls_def set_validator_baseline_reward_def split: option.splits)
  then show ?thesis
    by (simp add: migration_block_def migration_calls_def cumu_deposits_calls[OF cw] cw
        all_users_calls[OF assms(1)] run_calls_eqs)
qed

end

text \<open>
  C2. On well formed records the migration block of the genesis session is exactly a run of the
  specified list of Move calls, in order: the validator reward, per record its tombstone or its
  account, slow wallet, community wallet, ancestry, receipts and escrow calls, then one call per
  community wallet in address order. It stops with a panic at the first call the VM aborts, and never
  reports success after skipping one.
\<close>

theorem migration_refines_calls:
  assumes "address_text to_str from_hex_literal" and "list_all record_ok rs" and "list_all receipts_v6_ok rs"
  shows "migration_block to_str from_hex_literal exec rs s = run_calls exec (migration_calls rs) s"
  by (rule address_text.migration_block_calls[OF assms])

text \<open>A session that records its calls.\<close>

definition trace_exec :: "call list exec" where
  "trace_exec m f args s = Some (s @ [(m, f, args)])"

lemma run_trace: "run_calls trace_exec cs s = (Ok (), s @ cs)"
  by (induction cs arbitrary: s) (auto simp: run_calls_def for_each_eqs exec_function_def trace_exec_def)

theorem migration_refines_calls_witness:
  "migration_block lower_hex from_hex_literal_ref trace_exec [sample_recovery 1 100 30] [] =
     (Ok (), [(''genesis_migration'', ''migrate_legacy_user'',
               [MSigner core_code_address, MSigner (replicate 32 1), vector_u8 (replicate 32 1), MU64 100]),
              (''slow_wallet'', ''set_slow_wallet_state'',
               [MSigner core_code_address, MSigner (replicate 32 1), MU64 30, MU64 0])])"
proof -
  have ok: "list_all record_ok [sample_recovery 1 100 30]" "list_all receipts_v6_ok [sample_recovery 1 100 30]"
    by (simp_all add: record_ok_def receipts_v6_ok_def)
  have ne: "replicate 32 1 \<noteq> core_code_address" by (simp add: core_code_address_def numeral_eq_Suc)
  have calls: "migration_calls [sample_recovery 1 100 30] =
      [(''genesis_migration'', ''migrate_legacy_user'',
         [MSigner core_code_address, MSigner (replicate 32 1), vector_u8 (replicate 32 1), MU64 100]),
       (''slow_wallet'', ''set_slow_wallet_state'',
         [MSigner core_code_address, MSigner (replicate 32 1), MU64 30, MU64 0])]"
    using ne by (simp add: migration_calls_def reward_calls_def user_calls_def legacy_user_calls_def
        slow_wallet_calls_def comm_wallet_calls_def ancestry_calls_def receipts_calls_def escrow_calls_def
        complete_def prepare_cw_and_receipts_def rebuild_donor_receipts_def rebuild_cw_cumu_deposits_def
        update_cw_with_donor_def Let_def)
  from migration_refines_calls[OF hex_text.address_text_axioms ok, of trace_exec "[]"] show ?thesis
    unfolding calls by (simp only: run_trace append_Nil)
qed

section \<open>Coins\<close>

text \<open>
  The part of the Move state that holds coins, and what the functions the migration calls do to it
  (\<^verbatim>\<open>src/framework/libra-framework/sources/ol_sources/genesis_migration.move\<close> and the modules it uses): the
  accounts with their coin stores, the pledge accounts of each user, the beneficiary policy of the
  infrastructure escrow, the tombstones, the validator universe and the monitored supply. A Move
  abort is \<open>None\<close>. All other resources, and the aborts that come from them, are outside of this view.
\<close>

record MovePledge =
  pl_amount :: u64
  pl_lifetime_pledged :: u64
  pl_lifetime_withdrawn :: u64

record BeneficiaryPolicy =
  bp_amount_available :: nat
  bp_lifetime_pledged :: nat
  bp_pledgers :: "account_address list"

record ledger =
  ld_accounts :: "account_address list"
  ld_coin :: "account_address \<Rightarrow> u64 option"
  ld_pledges :: "account_address \<Rightarrow> MovePledge list"
  ld_policy :: "BeneficiaryPolicy option"
  ld_tombstones :: "account_address list"
  ld_universe :: "account_address list"
  ld_supply :: nat

definition reserved_addresses :: "account_address list" where
  "reserved_addresses = [zero_address, core_code_address, replicate 31 0 @ [3]]"

text \<open>\<open>coin::vm_mint\<close>: the supply is an aggregator with limit \<open>MAX_U128\<close>.\<close>

definition vm_mint :: "u64 \<Rightarrow> ledger \<Rightarrow> ledger option" where
  "vm_mint amount L =
     (if ld_supply L + unat amount < 2 ^ 128 then Some (L\<lparr>ld_supply := ld_supply L + unat amount\<rparr>) else None)"

text \<open>\<open>ol_account::vm_create_account_migration\<close>, with the coin store that \<open>coin::register\<close> adds.\<close>

definition vm_create_account_migration :: "account_address \<Rightarrow> MoveValue list \<Rightarrow> ledger \<Rightarrow> ledger option" where
  "vm_create_account_migration a auth_key L =
     (if a \<in> set (ld_tombstones L) \<or> a \<in> set (ld_accounts L) \<or> a \<in> set reserved_addresses \<or> length auth_key \<noteq> 32
      then None
      else Some (L\<lparr>ld_accounts := ld_accounts L @ [a],
                   ld_coin := (if ld_coin L a = None then (ld_coin L)(a \<mapsto> 0) else ld_coin L)\<rparr>))"

text \<open>\<open>ol_account::deposit_coins\<close> of coins that are minted already.\<close>

definition deposit_coins :: "account_address \<Rightarrow> u64 \<Rightarrow> ledger \<Rightarrow> ledger option" where
  "deposit_coins a amount L =
     (if a \<in> set (ld_tombstones L) then None
      else case ld_coin L a of
        None \<Rightarrow> None
      | Some b \<Rightarrow>
          if unat b + unat amount < 2 ^ 64 then Some (L\<lparr>ld_coin := (ld_coin L)(a \<mapsto> b + amount)\<rparr>) else None)"

definition move_migrate_legacy_user ::
  "account_address \<Rightarrow> account_address \<Rightarrow> MoveValue list \<Rightarrow> u64 \<Rightarrow> ledger \<Rightarrow> ledger option" where
  "move_migrate_legacy_user framework_sig user_addr auth_key expected_initial_balance L =
     (if framework_sig \<noteq> core_code_address then None
      else Option.bind
        (if user_addr \<notin> set (ld_universe L) then vm_create_account_migration user_addr auth_key L else Some L) (\<lambda>L.
      if expected_initial_balance = 0 then Some L
      else
        (let genesis_balance = (case ld_coin L user_addr of Some b \<Rightarrow> b | None \<Rightarrow> 0)
         in if expected_initial_balance < genesis_balance then None
            else
              Option.bind (vm_mint (expected_initial_balance - genesis_balance) L) (\<lambda>L.
              Option.bind (deposit_coins user_addr (expected_initial_balance - genesis_balance) L) (\<lambda>L.
              if ld_coin L user_addr = Some expected_initial_balance then Some L else None)))))"

definition move_fork_escrow_init ::
  "account_address \<Rightarrow> account_address \<Rightarrow> u64 \<Rightarrow> u64 \<Rightarrow> u64 \<Rightarrow> ledger \<Rightarrow> ledger option" where
  "move_fork_escrow_init framework_sig user_addr to_escrow lifetime_pledged lifetime_withdrawn L =
     (if framework_sig \<noteq> core_code_address then None
      else Option.bind (vm_mint to_escrow L) (\<lambda>L.
        case ld_policy L of
          None \<Rightarrow> None
        | Some b \<Rightarrow>
            if bp_amount_available b + unat to_escrow < 2 ^ 64 \<and> bp_lifetime_pledged b + unat to_escrow < 2 ^ 64
            then Some (L\<lparr>ld_pledges := (ld_pledges L)(user_addr := ld_pledges L user_addr @
                            [\<lparr>pl_amount = to_escrow, pl_lifetime_pledged = lifetime_pledged,
                              pl_lifetime_withdrawn = lifetime_withdrawn\<rparr>]),
                         ld_policy := Some \<lparr>bp_amount_available = bp_amount_available b + unat to_escrow,
                            bp_lifetime_pledged = bp_lifetime_pledged b + unat to_escrow,
                            bp_pledgers = bp_pledgers b @ [user_addr]\<rparr>\<rparr>)
            else None))"

text \<open>The functions of the migration that touch no coins.\<close>

definition coinless :: "(string \<times> string) list" where
  "coinless =
     [(''slow_wallet'', ''set_slow_wallet_state''),
      (''community_wallet_init'', ''migrate_community_wallet_account''),
      (''ancestry'', ''fork_migrate''), (''receipts'', ''genesis_migrate_user''),
      (''cumulative_deposits'', ''genesis_migrate_cumulative_deposits''),
      (''proof_of_fee'', ''genesis_migrate_reward'')]"

definition ledger_exec :: "ledger exec" where
  "ledger_exec m f args L =
     (if (m, f) = (''genesis_migration'', ''migrate_legacy_user'')
      then case args of
          [MSigner fw, MSigner a, MVector key, MU64 v] \<Rightarrow> move_migrate_legacy_user fw a key v L
        | _ \<Rightarrow> None
      else if (m, f) = (''genesis_migration'', ''fork_escrow_init'')
      then case args of
          [MSigner fw, MSigner a, MU64 e, MU64 p, MU64 w] \<Rightarrow> move_fork_escrow_init fw a e p w L
        | _ \<Rightarrow> None
      else if (m, f) = (''account'', ''set_tombstone'')
      then case args of
          [MSigner sig, MAddress a] \<Rightarrow>
            if sig \<in> {zero_address, core_code_address} then Some (L\<lparr>ld_tombstones := ld_tombstones L @ [a]\<rparr>) else None
        | _ \<Rightarrow> None
      else if (m, f) \<in> set coinless then Some L
      else None)"

subsection \<open>The effect of one record\<close>

text \<open>The records whose account and balance are migrated, and the pledges that are.\<close>

definition migrates :: "('vc, 'vo, 'ev) LegacyRecoveryV6 \<Rightarrow> bool" where
  "migrates r \<longleftrightarrow> r_role r \<noteq> Drop \<and> r_auth_key r \<noteq> None \<and> r_balance r \<noteq> None"

definition migrated_pledges :: "('vc, 'vo, 'ev) LegacyRecoveryV6 \<Rightarrow> PledgeAccountResource list" where
  "migrated_pledges r =
     (if r_role r \<noteq> Drop \<and> r_auth_key r \<noteq> None
      then (case r_my_pledge r of Some p \<Rightarrow> mp_list p | None \<Rightarrow> []) else [])"

definition move_pledge :: "PledgeAccountResource \<Rightarrow> MovePledge" where
  "move_pledge p = \<lparr>pl_amount = pa_pledge p, pl_lifetime_pledged = pa_lifetime_pledged p,
     pl_lifetime_withdrawn = pa_lifetime_withdrawn p\<rparr>"

definition migrated_coins :: "('vc, 'vo, 'ev) LegacyRecoveryV6 \<Rightarrow> nat" where
  "migrated_coins r = (if migrates r then unat (bal_coin (the (r_balance r))) else 0)"

definition pledged_coins :: "('vc, 'vo, 'ev) LegacyRecoveryV6 \<Rightarrow> nat" where
  "pledged_coins r = (\<Sum>p \<leftarrow> migrated_pledges r. unat (pa_pledge p))"

text \<open>The account a record migrates is new on the ledger and its key well formed.\<close>

definition fresh :: "ledger \<Rightarrow> ('vc, 'vo, 'ev) LegacyRecoveryV6 \<Rightarrow> bool" where
  "fresh L r \<longleftrightarrow>
     (\<exists>a. r_account r = Some a \<and>
       (migrates r \<longrightarrow> a \<notin> set (ld_tombstones L) \<and> a \<notin> set (ld_accounts L) \<and> ld_coin L a = None \<and>
          a \<notin> set (ld_universe L) \<and> a \<notin> set reserved_addresses \<and> length (the (r_auth_key r)) = 32))"

definition escrow_effect :: "account_address \<Rightarrow> PledgeAccountResource list \<Rightarrow> ledger \<Rightarrow> ledger" where
  "escrow_effect a ps L =
     L\<lparr>ld_pledges := (ld_pledges L)(a := ld_pledges L a @ map move_pledge ps),
       ld_policy := map_option (\<lambda>b.
         \<lparr>bp_amount_available = bp_amount_available b + (\<Sum>p \<leftarrow> ps. unat (pa_pledge p)),
          bp_lifetime_pledged = bp_lifetime_pledged b + (\<Sum>p \<leftarrow> ps. unat (pa_pledge p)),
          bp_pledgers = bp_pledgers b @ replicate (length ps) a\<rparr>) (ld_policy L),
       ld_supply := ld_supply L + (\<Sum>p \<leftarrow> ps. unat (pa_pledge p))\<rparr>"

definition user_effect :: "('vc, 'vo, 'ev) LegacyRecoveryV6 \<Rightarrow> ledger \<Rightarrow> ledger" where
  "user_effect r L =
     (let a = the (r_account r)
      in if r_role r = Drop then L\<lparr>ld_tombstones := ld_tombstones L @ [a]\<rparr>
         else escrow_effect a (migrated_pledges r)
           (if migrates r
            then L\<lparr>ld_accounts := ld_accounts L @ [a], ld_coin := (ld_coin L)(a \<mapsto> bal_coin (the (r_balance r))),
                   ld_supply := ld_supply L + migrated_coins r\<rparr>
            else L))"

text \<open>Room for the coins to come: no counter reaches its limit.\<close>

definition room :: "ledger \<Rightarrow> nat \<Rightarrow> nat \<Rightarrow> bool" where
  "room L c p \<longleftrightarrow> ld_supply L + c + p < 2 ^ 128 \<and>
     (\<exists>b. ld_policy L = Some b \<and> bp_amount_available b + p < 2 ^ 64 \<and> bp_lifetime_pledged b + p < 2 ^ 64)"

lemma coinless_calls:
  "list_all (\<lambda>(m, f, args). (m, f) \<in> set coinless) cs \<Longrightarrow> run_calls ledger_exec cs L = (Ok (), L)"
proof (induction cs)
  case (Cons c cs)
  obtain m f args where c: "c = (m, f, args)" by (cases c) auto
  have "ledger_exec m f args L = Some L"
    using Cons.prems by (auto simp: c ledger_exec_def coinless_def)
  then show ?case using Cons by (simp add: c run_calls_def for_each_eqs exec_function_def)
qed simp

lemma legacy_user_ledger:
  assumes "fresh L r" and "r_account r = Some a" and "r_role r \<noteq> Drop" and "room L (migrated_coins r) p"
  shows "run_calls ledger_exec (legacy_user_calls a r) L =
    (Ok (), if migrates r
            then L\<lparr>ld_accounts := ld_accounts L @ [a], ld_coin := (ld_coin L)(a \<mapsto> bal_coin (the (r_balance r))),
                   ld_supply := ld_supply L + migrated_coins r\<rparr>
            else L)"
proof (cases "migrates r")
  case True
  then obtain k b where kb: "r_auth_key r = Some k" "r_balance r = Some b" by (auto simp: migrates_def)
  have lt: "ld_supply L + unat (bal_coin b) < 2 ^ 128" "unat (bal_coin b) < 2 ^ 64"
    using assms(4) True unsigned_less[of "bal_coin b"] by (auto simp: room_def migrated_coins_def kb)
  from assms True have fr: "a \<notin> set (ld_tombstones L)" "a \<notin> set (ld_accounts L)" "ld_coin L a = None"
    "a \<notin> set (ld_universe L)" "a \<notin> set reserved_addresses" "length k = 32"
    by (auto simp: fresh_def kb)
  have "ledger_exec ''genesis_migration'' ''migrate_legacy_user''
      [MSigner core_code_address, MSigner a, vector_u8 k, MU64 (bal_coin b)] L =
    Some (L\<lparr>ld_accounts := ld_accounts L @ [a], ld_coin := (ld_coin L)(a \<mapsto> bal_coin b),
            ld_supply := ld_supply L + unat (bal_coin b)\<rparr>)"
    using fr lt by (cases "bal_coin b = 0") (simp_all add: ledger_exec_def vector_u8_def
        move_migrate_legacy_user_def vm_create_account_migration_def vm_mint_def deposit_coins_def Let_def)
  then show ?thesis using True
    by (simp add: legacy_user_calls_def complete_def kb exec_function_def migrated_coins_def)
next
  case False
  then have "\<not> complete r" using assms(3) by (simp add: migrates_def complete_def)
  with False show ?thesis by (simp add: legacy_user_calls_def)
qed

lemma escrow_effect_Nil [simp]: "escrow_effect a [] L = L"
proof -
  have eta: "\<lparr>bp_amount_available = bp_amount_available b, bp_lifetime_pledged = bp_lifetime_pledged b,
      bp_pledgers = bp_pledgers b\<rparr> = b" for b :: BeneficiaryPolicy
    by (rule BeneficiaryPolicy.equality) simp_all
  show ?thesis by (simp add: escrow_effect_def eta option.map_ident)
qed

lemma escrow_ledger:
  assumes "room L 0 (\<Sum>p \<leftarrow> ps. unat (pa_pledge p))"
  shows "run_calls ledger_exec (map (pledge_call a) ps) L = (Ok (), escrow_effect a ps L)"
  using assms
proof (induction ps arbitrary: L)
  case (Cons p ps)
  obtain b where b: "ld_policy L = Some b" using Cons.prems by (auto simp: room_def)
  let ?L = "escrow_effect a [p] L"
  have one: "ledger_exec ''genesis_migration'' ''fork_escrow_init''
      [MSigner core_code_address, MSigner a, MU64 (pa_pledge p), MU64 (pa_lifetime_pledged p),
       MU64 (pa_lifetime_withdrawn p)] L = Some ?L"
    using Cons.prems by (simp add: ledger_exec_def move_fork_escrow_init_def vm_mint_def b room_def
        escrow_effect_def move_pledge_def)
  have "room ?L 0 (\<Sum>p \<leftarrow> ps. unat (pa_pledge p))"
    using Cons.prems by (simp add: room_def escrow_effect_def b)
  from Cons.IH[OF this] have "run_calls ledger_exec (map (pledge_call a) ps) ?L = (Ok (), escrow_effect a ps ?L)" .
  moreover have "escrow_effect a ps ?L = escrow_effect a (p # ps) L"
    by (simp add: escrow_effect_def b add.assoc)
  ultimately show ?case
    by (simp add: run_calls_def for_each_eqs pledge_call_def[of a p] exec_function_def one)
qed simp

lemma user_ledger:
  assumes "fresh L r" and "room L (migrated_coins r) (pledged_coins r)"
  shows "run_calls ledger_exec (user_calls r) L = (Ok (), user_effect r L)"
proof -
  obtain a where a: "r_account r = Some a" using assms(1) by (auto simp: fresh_def)
  show ?thesis
  proof (cases "r_role r = Drop")
    case True
    then show ?thesis
      by (simp add: user_calls_def user_effect_def a exec_function_def ledger_exec_def)
  next
    case False
    define L1 where "L1 = (if migrates r
      then L\<lparr>ld_accounts := ld_accounts L @ [a], ld_coin := (ld_coin L)(a \<mapsto> bal_coin (the (r_balance r))),
             ld_supply := ld_supply L + migrated_coins r\<rparr> else L)"
    have user: "run_calls ledger_exec (legacy_user_calls a r) L = (Ok (), L1)"
      unfolding L1_def by (rule legacy_user_ledger[OF assms(1) a False assms(2)])
    have other: "run_calls ledger_exec (slow_wallet_calls a r) L1 = (Ok (), L1)"
      "run_calls ledger_exec (comm_wallet_calls a r) L1 = (Ok (), L1)"
      "run_calls ledger_exec (ancestry_calls a r) L1 = (Ok (), L1)"
      "run_calls ledger_exec (receipts_calls a r) L1 = (Ok (), L1)"
      by (rule coinless_calls; simp add: coinless_def slow_wallet_calls_def comm_wallet_calls_def
          ancestry_calls_def receipts_calls_def split: option.split)+
    have calls: "escrow_calls a r = map (pledge_call a) (migrated_pledges r)"
      using False by (simp add: escrow_calls_def migrated_pledges_def split: option.split)
    have "room L1 0 (\<Sum>p \<leftarrow> migrated_pledges r. unat (pa_pledge p))"
      using assms(2) by (auto simp: room_def L1_def pledged_coins_def migrated_coins_def)
    from escrow_ledger[OF this, of a]
    have "run_calls ledger_exec (user_calls r) L = (Ok (), escrow_effect a (migrated_pledges r) L1)"
      using False by (simp add: user_calls_def a user other calls)
    then show ?thesis using False by (simp add: user_effect_def a L1_def)
  qed
qed

subsection \<open>All records\<close>

lemma user_effect_simps:
  "ld_coin (user_effect r L) =
     (if migrates r then (ld_coin L)(the (r_account r) \<mapsto> bal_coin (the (r_balance r))) else ld_coin L)"
  "ld_accounts (user_effect r L) = ld_accounts L @ (if migrates r then [the (r_account r)] else [])"
  "ld_tombstones (user_effect r L) = ld_tombstones L @ (if r_role r = Drop then [the (r_account r)] else [])"
  "ld_universe (user_effect r L) = ld_universe L"
  "ld_pledges (user_effect r L) a =
     ld_pledges L a @ (if a = the (r_account r) then map move_pledge (migrated_pledges r) else [])"
  "ld_supply (user_effect r L) = ld_supply L + migrated_coins r + pledged_coins r"
  "map_option bp_amount_available (ld_policy (user_effect r L)) =
     map_option (\<lambda>b. bp_amount_available b + pledged_coins r) (ld_policy L)"
  "map_option bp_lifetime_pledged (ld_policy (user_effect r L)) =
     map_option (\<lambda>b. bp_lifetime_pledged b + pledged_coins r) (ld_policy L)"
proof -
  have drop: "r_role r = Drop \<Longrightarrow> \<not> migrates r \<and> migrated_pledges r = [] \<and> migrated_coins r = 0 \<and> pledged_coins r = 0"
    by (simp add: migrates_def migrated_pledges_def migrated_coins_def pledged_coins_def)
  note defs = user_effect_def Let_def escrow_effect_def
  show "ld_coin (user_effect r L) =
     (if migrates r then (ld_coin L)(the (r_account r) \<mapsto> bal_coin (the (r_balance r))) else ld_coin L)"
    using drop by (simp add: defs)
  show "ld_accounts (user_effect r L) = ld_accounts L @ (if migrates r then [the (r_account r)] else [])"
    using drop by (simp add: defs)
  show "ld_tombstones (user_effect r L) = ld_tombstones L @ (if r_role r = Drop then [the (r_account r)] else [])"
    by (simp add: defs)
  show "ld_universe (user_effect r L) = ld_universe L"
    by (simp add: defs)
  show "ld_pledges (user_effect r L) a =
     ld_pledges L a @ (if a = the (r_account r) then map move_pledge (migrated_pledges r) else [])"
    using drop by (simp add: defs)
  show "ld_supply (user_effect r L) = ld_supply L + migrated_coins r + pledged_coins r"
    using drop by (simp add: defs pledged_coins_def migrated_coins_def)
  show "map_option bp_amount_available (ld_policy (user_effect r L)) =
     map_option (\<lambda>b. bp_amount_available b + pledged_coins r) (ld_policy L)"
    using drop by (cases "ld_policy L") (simp_all add: defs pledged_coins_def)
  show "map_option bp_lifetime_pledged (ld_policy (user_effect r L)) =
     map_option (\<lambda>b. bp_lifetime_pledged b + pledged_coins r) (ld_policy L)"
    using drop by (cases "ld_policy L") (simp_all add: defs pledged_coins_def)
qed

lemma fresh_user_effect:
  assumes "fresh L r'" and "fresh L r" and "r_account r' \<noteq> r_account r"
  shows "fresh (user_effect r L) r'"
proof -
  obtain a a' where a: "r_account r = Some a" "r_account r' = Some a'"
    using assms(1,2) by (auto simp: fresh_def)
  have neq: "a' \<noteq> a" using assms(3) a by simp
  have mem: "a' \<in> set (if P then [a] else []) \<longleftrightarrow> False" for P using neq by simp
  show ?thesis
    using assms(1) neq unfolding fresh_def user_effect_simps a option.sel set_append Un_iff mem by simp
qed

lemma room_user_effect:
  assumes "room L (migrated_coins r + c) (pledged_coins r + p)"
  shows "room (user_effect r L) c p"
proof -
  obtain b where b: "ld_policy L = Some b" using assms by (auto simp: room_def)
  with user_effect_simps(7,8)[of r L] obtain b' where "ld_policy (user_effect r L) = Some b'"
    "bp_amount_available b' = bp_amount_available b + pledged_coins r"
    "bp_lifetime_pledged b' = bp_lifetime_pledged b + pledged_coins r"
    by auto
  with assms b show ?thesis by (simp add: room_def user_effect_simps)
qed

lemma room_less: "room L c p \<Longrightarrow> c' \<le> c \<Longrightarrow> p' \<le> p \<Longrightarrow> room L c' p'"
  by (auto simp: room_def)

lemma users_ledger:
  assumes "list_all (fresh L) rs" and "distinct (map r_account rs)"
    and "room L (\<Sum>r \<leftarrow> rs. migrated_coins r) (\<Sum>r \<leftarrow> rs. pledged_coins r)"
  shows "run_calls ledger_exec (concat (map user_calls rs)) L = (Ok (), fold user_effect rs L)"
  using assms
proof (induction rs arbitrary: L)
  case (Cons r rs)
  have "run_calls ledger_exec (user_calls r) L = (Ok (), user_effect r L)"
    using Cons.prems(1) room_less[OF Cons.prems(3)] by (intro user_ledger) simp_all
  moreover have "r_account x \<noteq> r_account r" if "x \<in> set rs" for x
    using Cons.prems(2) imageI[OF that, of r_account] by (auto simp del: image_eqI)
  then have "list_all (fresh (user_effect r L)) rs"
    using Cons.prems(1) by (auto simp: list_all_iff intro!: fresh_user_effect)
  moreover have "room (user_effect r L) (\<Sum>r \<leftarrow> rs. migrated_coins r) (\<Sum>r \<leftarrow> rs. pledged_coins r)"
    using Cons.prems(3) by (intro room_user_effect) simp
  ultimately show ?case using Cons.IH Cons.prems(2) by simp
qed simp

lemma fold_user_effect:
  "ld_supply (fold user_effect rs L) =
     ld_supply L + (\<Sum>r \<leftarrow> rs. migrated_coins r) + (\<Sum>r \<leftarrow> rs. pledged_coins r)"
  "map_option bp_amount_available (ld_policy (fold user_effect rs L)) =
     map_option (\<lambda>b. bp_amount_available b + (\<Sum>r \<leftarrow> rs. pledged_coins r)) (ld_policy L)"
  "ld_tombstones (fold user_effect rs L) =
     ld_tombstones L @ map (the \<circ> r_account) (filter (\<lambda>r. r_role r = Drop) rs)"
proof (induction rs arbitrary: L)
  case (Cons r rs)
  { case 1 then show ?case by (simp add: Cons.IH user_effect_simps) }
  { case 2 then show ?case using user_effect_simps(7)[of r L]
      by (cases "ld_policy L"; cases "ld_policy (user_effect r L)") (auto simp: Cons.IH add.assoc) }
  { case 3 then show ?case by (simp add: Cons.IH user_effect_simps) }
qed (simp_all add: option.map_comp comp_def)

lemma fold_user_coin_frame:
  "list_all (\<lambda>r. r_account r \<noteq> None) rs \<Longrightarrow> (\<forall>r \<in> set rs. r_account r = Some a \<longrightarrow> \<not> migrates r) \<Longrightarrow>
   ld_coin (fold user_effect rs L) a = ld_coin L a"
  by (induction rs arbitrary: L) (auto simp: user_effect_simps)

lemma fold_user_pledge_frame:
  "list_all (\<lambda>r. r_account r \<noteq> None) rs \<Longrightarrow> Some a \<notin> r_account ` set rs \<Longrightarrow>
   ld_pledges (fold user_effect rs L) a = ld_pledges L a"
  by (induction rs arbitrary: L) (auto simp: user_effect_simps)

lemma fold_user_member:
  assumes "list_all (\<lambda>r. r_account r \<noteq> None) rs" and "distinct (map r_account rs)" and "r \<in> set rs"
  shows "migrates r \<Longrightarrow>
      ld_coin (fold user_effect rs L) (the (r_account r)) = Some (bal_coin (the (r_balance r)))"
    and "ld_pledges (fold user_effect rs L) (the (r_account r)) =
      ld_pledges L (the (r_account r)) @ map move_pledge (migrated_pledges r)"
proof -
  obtain xs ys where rs: "rs = xs @ r # ys" using assms(3) by (auto simp: in_set_conv_decomp)
  obtain a where a: "r_account r = Some a" using assms(1) by (auto simp: rs)
  have xs: "Some a \<notin> r_account ` set xs" "list_all (\<lambda>r. r_account r \<noteq> None) xs"
    and ys: "Some a \<notin> r_account ` set ys" "list_all (\<lambda>r. r_account r \<noteq> None) ys"
    using assms(1,2) by (auto simp: rs a)
  have frame: "\<forall>r \<in> set ys. r_account r = Some a \<longrightarrow> \<not> migrates r" using ys(1) by force
  show "migrates r \<Longrightarrow>
      ld_coin (fold user_effect rs L) (the (r_account r)) = Some (bal_coin (the (r_balance r)))"
    by (simp add: rs a fold_user_coin_frame[OF ys(2) frame] user_effect_simps)
  show "ld_pledges (fold user_effect rs L) (the (r_account r)) =
      ld_pledges L (the (r_account r)) @ map move_pledge (migrated_pledges r)"
    by (simp add: rs a fold_user_pledge_frame[OF ys(2,1)] fold_user_pledge_frame[OF xs(2,1)] user_effect_simps)
qed

lemma migration_ledger:
  assumes "list_all (fresh L) rs" and "distinct (map r_account rs)"
    and "room L (\<Sum>r \<leftarrow> rs. migrated_coins r) (\<Sum>r \<leftarrow> rs. pledged_coins r)"
  shows "run_calls ledger_exec (migration_calls rs) L = (Ok (), fold user_effect rs L)"
proof (cases "rs = []")
  case False
  have "run_calls ledger_exec (reward_calls rs) L = (Ok (), L)"
    by (rule coinless_calls) (simp add: reward_calls_def coinless_def split: option.split)
  moreover have "run_calls ledger_exec (map wallet_call ws) L = (Ok (), L)" for ws L
    by (rule coinless_calls) (auto simp: wallet_call_def coinless_def list_all_iff)
  ultimately show ?thesis using False by (simp add: migration_calls_def users_ledger[OF assms])
qed (simp add: migration_calls_def)

text \<open>
  C3. Run on the coin ledger of the Move code, the migration of distinct new accounts succeeds as long
  as no counter reaches its limit. Afterwards every account that is not dropped and has a key and a
  balance holds exactly its recorded balance and no other coin store changed; every record's
  pledges are appended, amounts and lifetime figures included, to the pledge accounts of its own
  account; the infrastructure escrow has grown by all pledged coins; the dropped accounts are
  the new tombstones; and the supply has grown by the migrated balances plus the pledged coins, so no
  coin is minted twice or lost.
\<close>

theorem migration_conserves_coins:
  assumes "address_text to_str from_hex_literal" and "list_all record_ok rs" and "list_all receipts_v6_ok rs"
    and "list_all (fresh L) rs" and "distinct (map r_account rs)"
    and "room L (\<Sum>r \<leftarrow> rs. migrated_coins r) (\<Sum>r \<leftarrow> rs. pledged_coins r)"
  shows "\<exists>L'. migration_block to_str from_hex_literal ledger_exec rs L = (Ok (), L') \<and>
    (\<forall>r \<in> set rs. migrates r \<longrightarrow>
       ld_coin L' (the (r_account r)) = Some (bal_coin (the (r_balance r)))) \<and>
    (\<forall>a. (\<forall>r \<in> set rs. r_account r = Some a \<longrightarrow> \<not> migrates r) \<longrightarrow> ld_coin L' a = ld_coin L a) \<and>
    (\<forall>r \<in> set rs. ld_pledges L' (the (r_account r)) =
       ld_pledges L (the (r_account r)) @ map move_pledge (migrated_pledges r)) \<and>
    (\<forall>a. Some a \<notin> r_account ` set rs \<longrightarrow> ld_pledges L' a = ld_pledges L a) \<and>
    map_option bp_amount_available (ld_policy L') =
      map_option (\<lambda>b. bp_amount_available b + (\<Sum>r \<leftarrow> rs. pledged_coins r)) (ld_policy L) \<and>
    ld_tombstones L' = ld_tombstones L @ map (the \<circ> r_account) (filter (\<lambda>r. r_role r = Drop) rs) \<and>
    ld_supply L' = ld_supply L + (\<Sum>r \<leftarrow> rs. migrated_coins r) + (\<Sum>r \<leftarrow> rs. pledged_coins r)"
proof (intro exI conjI)
  have acc: "list_all (\<lambda>r. r_account r \<noteq> None) rs" using assms(4) by (auto simp: list_all_iff fresh_def)
  note member = fold_user_member[OF acc assms(5)]
  show "migration_block to_str from_hex_literal ledger_exec rs L = (Ok (), fold user_effect rs L)"
    by (simp only: address_text.migration_block_calls[OF assms(1-3)] migration_ledger[OF assms(4-6)])
  show "\<forall>r \<in> set rs. migrates r \<longrightarrow>
      ld_coin (fold user_effect rs L) (the (r_account r)) = Some (bal_coin (the (r_balance r)))"
    by (simp add: member(1))
  show "\<forall>a. (\<forall>r \<in> set rs. r_account r = Some a \<longrightarrow> \<not> migrates r) \<longrightarrow>
      ld_coin (fold user_effect rs L) a = ld_coin L a"
    by (simp add: fold_user_coin_frame[OF acc])
  show "\<forall>r \<in> set rs. ld_pledges (fold user_effect rs L) (the (r_account r)) =
      ld_pledges L (the (r_account r)) @ map move_pledge (migrated_pledges r)"
    by (simp add: member(2))
  show "\<forall>a. Some a \<notin> r_account ` set rs \<longrightarrow> ld_pledges (fold user_effect rs L) a = ld_pledges L a"
    by (simp add: fold_user_pledge_frame[OF acc])
qed (simp_all add: fold_user_effect)

text \<open>The ledger after the framework is set up, before any user is migrated.\<close>

definition genesis_ledger :: ledger where
  "genesis_ledger =
     \<lparr>ld_accounts = reserved_addresses, ld_coin = Map.empty, ld_pledges = (\<lambda>_. []),
      ld_policy = Some \<lparr>bp_amount_available = 0, bp_lifetime_pledged = 0, bp_pledgers = []\<rparr>,
      ld_tombstones = [], ld_universe = [], ld_supply = 0\<rparr>"

definition sample_pledger :: "(unit, unit, unit) LegacyRecoveryV6" where
  "sample_pledger = (sample_recovery 1 100 30)\<lparr>r_my_pledge := Some \<lparr>mp_list =
     [\<lparr>pa_address_of_beneficiary = core_code_address, pa_amount = 7, pa_pledge = 7,
       pa_epoch_of_last_deposit = 0, pa_lifetime_pledged = 9, pa_lifetime_withdrawn = 2\<rparr>]\<rparr>\<rparr>"

theorem migration_conserves_coins_witness:
  "\<exists>L'. migration_block lower_hex from_hex_literal_ref ledger_exec
       [sample_pledger, drop_one [replicate 32 2] (sample_recovery 2 50 0)] genesis_ledger = (Ok (), L') \<and>
     ld_coin L' (replicate 32 1) = Some 100 \<and>
     ld_pledges L' (replicate 32 1) =
       [\<lparr>pl_amount = 7, pl_lifetime_pledged = 9, pl_lifetime_withdrawn = 2\<rparr>] \<and>
     ld_tombstones L' = [replicate 32 2] \<and> ld_supply L' = 107"
proof -
  let ?d = "drop_one [replicate 32 2] (sample_recovery 2 50 0)"
  let ?rs = "[sample_pledger, ?d]"
  have d: "r_account ?d = Some (replicate 32 2)" "r_role ?d = Drop" "r_ancestry ?d = None" "r_receipts ?d = None"
    by (simp_all add: drop_one_def LegacyRecoveryV6_default_def)
  have p: "r_account sample_pledger = Some (replicate 32 1)" "r_auth_key sample_pledger = Some (replicate 32 1)"
    "r_role sample_pledger = EndUser" "r_balance sample_pledger = Some \<lparr>bal_coin = 100\<rparr>"
    "r_ancestry sample_pledger = None" "r_receipts sample_pledger = None"
    "map_option mp_list (r_my_pledge sample_pledger) = Some
      [\<lparr>pa_address_of_beneficiary = core_code_address, pa_amount = 7, pa_pledge = 7,
       pa_epoch_of_last_deposit = 0, pa_lifetime_pledged = 9, pa_lifetime_withdrawn = 2\<rparr>]"
    by (simp_all add: sample_pledger_def)
  have ps: "migrated_pledges sample_pledger =
      [\<lparr>pa_address_of_beneficiary = core_code_address, pa_amount = 7, pa_pledge = 7,
       pa_epoch_of_last_deposit = 0, pa_lifetime_pledged = 9, pa_lifetime_withdrawn = 2\<rparr>]"
    "migrated_pledges ?d = []"
    by (simp_all add: migrated_pledges_def sample_pledger_def d(2))
  have m: "migrates sample_pledger" "\<not> migrates ?d" by (simp_all add: migrates_def p d)
  have sums: "migrated_coins sample_pledger = 100" "migrated_coins ?d = 0"
    "pledged_coins sample_pledger = 7" "pledged_coins ?d = 0"
    by (simp_all add: migrated_coins_def pledged_coins_def m p ps)
  have res: "replicate 32 1 \<notin> set reserved_addresses"
    by (simp add: reserved_addresses_def zero_address_def core_code_address_def numeral_eq_Suc)
  have ok: "list_all record_ok ?rs" "list_all receipts_v6_ok ?rs"
    by (simp_all add: record_ok_def receipts_v6_ok_def p d)
  have fr: "list_all (fresh genesis_ledger) ?rs"
    using res by (simp add: fresh_def p d m genesis_ledger_def)
  have dis: "distinct (map r_account ?rs)" by (simp add: p d replicate_eq_replicate)
  have rm: "room genesis_ledger (\<Sum>r \<leftarrow> ?rs. migrated_coins r) (\<Sum>r \<leftarrow> ?rs. pledged_coins r)"
    by (simp add: room_def genesis_ledger_def sums)
  have g: "ld_pledges genesis_ledger a = []" "ld_tombstones genesis_ledger = []" "ld_supply genesis_ledger = 0" for a
    by (simp_all add: genesis_ledger_def)
  show ?thesis
    by (rule ex_forward[OF migration_conserves_coins[OF hex_text.address_text_axioms ok fr dis rm]])
      (simp add: p d m ps sums g move_pledge_def)
qed

end
