(* ===== verification/Pledge.thy ===== *)
theory Pledge
  imports Playlist
begin

text \<open>
  User pledges (\<^verbatim>\<open>src/types/src/core_types/pledge.rs\<close>) and the mode variable
  (\<^verbatim>\<open>src/types/src/core_types/mode_ol.rs\<close>). A pledge carries the SHA-3 hash of its text; the digest and the
  parser of chain names are parameters, \<open>prompt_yes\<close> is the user's answer.
\<close>

record Pledge =
  pl_id :: u8
  pl_name :: string
  pl_version :: u8
  pl_hash :: bytes
  pl_question :: string
  pl_preamble :: string
  pl_on_chain :: bool

datatype CanonicalPledges = PledgeGame | PledgeValidator

definition game_preamble :: string where
  "game_preamble =
      ''Code is not law at Open Libra. The law is law. The law comes from history.'' @
      [CHR 0x0A] @
      [CHR 0x0A] @
      ''I understand written and unwritten laws come from social norms. I will refer to the expectations '' @
      ''of this community based on canonical instructions, code documentation, and common sense '' @
      ''to know when I'' @
      [CHR 0x27] @
      ''m cheating at the game, or otherwise unlawfully disadvantaging someone for my benefit.'' @
      [CHR 0x0A] @
      [CHR 0x0A] @
      ''Cheating can include, but is not limited to: gaining an advantage in a way that would '' @
      ''be impossible unless it was covert, dishonest, untrue, or otherwise using an expected '' @
      ''common courtesy others have extended to me which I'' @
      [CHR 0x27] @
      ''m not willing to return.''"

definition validator_preamble :: string where
  "validator_preamble =
      ''When taking this pledge you are also taking the Protect the Game pledge:'' @
      [CHR 0x0A] @
      [CHR 0x27] @
      ''I pledge to not damage the game and never cheat other users'' @
      [CHR 0x27] @
      ''.'' @
      [CHR 0x0A] @
      [CHR 0x0A] @
      ''Additionally you pledge to: obey the blockchain'' @
      [CHR 0x27] @
      ''s policies as intended, some of which may be encoded as smart contracts, not pretend to '' @
      ''be multiple people (sybil), not change the blockchain settings or software without consulting '' @
      ''the community, run the blockchain security software (e.g validator, and fullnode software) '' @
      ''as intended and in its entirety.''"

definition game_question :: string where
  "game_question = ''Do you pledge to not damage the game and never cheat other users?''"

definition validator_question :: string where
  "validator_question = ''Do you pledge to be a validator that acts in good faith to secure the network?''"

text \<open>\<open>str::to_uppercase\<close> on ASCII, and the static \<open>MODE_0L\<close> read from the environment.\<close>

definition ascii_upper :: "char \<Rightarrow> char" where
  "ascii_upper c =
     (if CHR ''a'' \<le> c \<and> c \<le> CHR ''z'' then char_of (of_char c - 32 :: nat) else c)"

definition MODE_0L :: "(string \<Rightarrow> NamedChain option) \<Rightarrow> string option \<Rightarrow> NamedChain" where
  "MODE_0L chain_from_str env_var =
     (let st = (case env_var of Some s \<Rightarrow> s | None \<Rightarrow> ''MAINNET'')
      in case chain_from_str (map ascii_upper st) of Some c \<Rightarrow> c | None \<Rightarrow> MAINNET)"

definition pledge_to_hash :: "(string \<Rightarrow> bytes) \<Rightarrow> Pledge \<Rightarrow> Pledge" where
  "pledge_to_hash sha3 p = p\<lparr>pl_hash := sha3 (pl_question p @ pl_preamble p)\<rparr>"

definition pledge_protect_the_game :: "(string \<Rightarrow> bytes) \<Rightarrow> Pledge" where
  "pledge_protect_the_game sha3 =
     pledge_to_hash sha3
       \<lparr>pl_id = 0, pl_name = ''Protect the Game'', pl_version = 0, pl_hash = [],
        pl_question = game_question, pl_preamble = game_preamble, pl_on_chain = False\<rparr>"

definition pledge_validator :: "(string \<Rightarrow> bytes) \<Rightarrow> Pledge" where
  "pledge_validator sha3 =
     pledge_to_hash sha3
       \<lparr>pl_id = 1, pl_name = ''Operate in Good Faith'', pl_version = 0, pl_hash = [],
        pl_question = validator_question, pl_preamble = validator_preamble, pl_on_chain = False\<rparr>"

definition check_pledge_hash :: "(string \<Rightarrow> bytes) \<Rightarrow> u8 \<Rightarrow> bytes \<Rightarrow> bool rres" where
  "check_pledge_hash sha3 pledge_idx bs =
     (if pledge_idx = 0 then Ok (bs = pl_hash (pledge_protect_the_game sha3))
      else if pledge_idx = 1 then Ok (bs = pl_hash (pledge_validator sha3))
      else if \<not> pledge_idx < 2 then Panic ''pledge index not found''
      else Ok False)"

definition pledge_dialogue :: "NamedChain \<Rightarrow> bool \<Rightarrow> Pledge \<Rightarrow> bool" where
  "pledge_dialogue mode prompt_yes p = (if mode \<noteq> MAINNET then True else prompt_yes)"

lemma check_pledge_hash_own:
  "check_pledge_hash sha3 0 (pl_hash (pledge_protect_the_game sha3)) = Ok True"
  "check_pledge_hash sha3 1 (pl_hash (pledge_validator sha3)) = Ok True"
  by (simp_all add: check_pledge_hash_def)

text \<open>A digest that tells the two pledge texts apart.\<close>

locale pledge_digest =
  fixes sha3 :: "string \<Rightarrow> bytes"
  assumes texts_apart: "sha3 (game_question @ game_preamble) \<noteq> sha3 (validator_question @ validator_preamble)"
begin

lemma pledge_hashes_apart: "pl_hash (pledge_protect_the_game sha3) \<noteq> pl_hash (pledge_validator sha3)"
  using texts_apart by (simp add: pledge_protect_the_game_def pledge_validator_def pledge_to_hash_def)

end

definition text_bytes :: "string \<Rightarrow> bytes" where
  "text_bytes s = map (\<lambda>c. of_nat (of_char c)) s"

interpretation text_digest: pledge_digest text_bytes
  by unfold_locales
    (simp add: text_bytes_def game_question_def game_preamble_def validator_question_def validator_preamble_def)

end
