(* ===== verification/Json.thy ===== *)
theory Json
  imports Complex_Main Rust_Std
begin

text \<open>
  \<open>serde_json::Value\<close> as the sources use it: the constructors, the \<open>as_\<dots>\<close> accessors and the typed reads
  \<open>serde_json::from_value\<close> of strings, booleans and lists of them. An object is the list of its entries.
\<close>

datatype json =
    JNull
  | JBool bool
  | JNumber int
  | JFloat real
  | JString string
  | JArray "json list"
  | JObject "(string \<times> json) list"

fun as_bool :: "json \<Rightarrow> bool option" where
  "as_bool (JBool b) = Some b"
| "as_bool _ = None"

fun as_str :: "json \<Rightarrow> string option" where
  "as_str (JString s) = Some s"
| "as_str _ = None"

fun as_array :: "json \<Rightarrow> json list option" where
  "as_array (JArray xs) = Some xs"
| "as_array _ = None"

fun as_object :: "json \<Rightarrow> (string \<times> json) list option" where
  "as_object (JObject kvs) = Some kvs"
| "as_object _ = None"

text \<open>\<open>value.as_object()\<close> followed by \<open>get(key)\<close>.\<close>

fun obj_get :: "string \<Rightarrow> json \<Rightarrow> json option" where
  "obj_get k (JObject kvs) = map_of kvs k"
| "obj_get k _ = None"

text \<open>\<open>as_u64\<close>: a number without a fraction that fits.\<close>

fun as_u64 :: "json \<Rightarrow> u64 option" where
  "as_u64 (JNumber i) = (if 0 \<le> i \<and> i < 2 ^ 64 then Some (of_int i) else None)"
| "as_u64 _ = None"

text \<open>\<open>from_value::<String>\<close>, \<open>from_value::<bool>\<close> and \<open>from_value::<Vec<T>>\<close>.\<close>

fun json_string :: "json \<Rightarrow> string rres" where
  "json_string (JString s) = Ok s"
| "json_string _ = Err ''invalid type, expected a string''"

fun json_bool :: "json \<Rightarrow> bool rres" where
  "json_bool (JBool b) = Ok b"
| "json_bool _ = Err ''invalid type, expected a boolean''"

fun json_vec :: "(json \<Rightarrow> 'a rres) \<Rightarrow> json \<Rightarrow> 'a list rres" where
  "json_vec f (JArray xs) = rmapM f xs"
| "json_vec f _ = Err ''invalid type, expected a sequence''"

lemma json_string_eq_Ok [rust_simps]: "json_string j = Ok s \<longleftrightarrow> j = JString s"
  by (cases j) auto

lemma json_bool_eq_Ok [rust_simps]: "json_bool j = Ok b \<longleftrightarrow> j = JBool b"
  by (cases j) auto

text \<open>The parse of the number in a string, \<open>s.parse::<u64>()\<close> with \<open>?\<close>.\<close>

definition parse_u64_or_err :: "string \<Rightarrow> u64 rres" where
  "parse_u64_or_err s = or_err ''invalid digit found in string'' (parse_u64 s)"

lemma parse_u64_or_err_dec [simp]: "parse_u64_or_err (dec_str (unat (w :: u64))) = Ok w"
proof -
  have "unat w < 2 ^ 64" using unsigned_less[of w] by simp
  then show ?thesis by (simp add: parse_u64_or_err_def)
qed

end
