(* ===== verification/App_Cfg.thy ===== *)
theory App_Cfg
  imports Pledge Account_Address Json
begin

text \<open>
  The configuration shared by all tools (\<^verbatim>\<open>src/types/src/core_types/app_cfg.rs\<close>): profiles, network
  playlists, transaction costs and the config file, with the balance type of
  \<^verbatim>\<open>src/types/src/move_resource/gas_coin.rs\<close>.

  Methods on \<open>&mut self\<close> return the new configuration; a mutable borrow of a profile or playlist is
  the index it points at. Parameters: \<open>to_str\<close> prints an account address, \<open>home\<close> is the user's home
  directory, \<open>to_yaml\<close> and \<open>from_yaml\<close> are the YAML codec, \<open>sha3\<close> and \<open>mode\<close> as in \<open>Pledge\<close>. The file
  system is a map from paths to contents.
\<close>

section \<open>Balances and costs\<close>

record SlowWalletBalance =
  unlocked :: u64
  total :: u64

definition SlowWalletBalance_default :: SlowWalletBalance where
  "SlowWalletBalance_default = \<lparr>unlocked = 0, total = 0\<rparr>"

definition SlowWalletBalance_from_value :: "json list \<Rightarrow> SlowWalletBalance rres" where
  "SlowWalletBalance_from_value value =
     (if length value \<noteq> 2 then Err ''invalid value length''
      else
        rbind (json_string (value ! 0)) (\<lambda>u.
        rbind (or_err ''invalid digit found in string'' (parse_u64 u)) (\<lambda>unlocked_v.
        rbind (json_string (value ! 1)) (\<lambda>t.
        rbind (or_err ''invalid digit found in string'' (parse_u64 t)) (\<lambda>total_v.
          Ok \<lparr>unlocked = unlocked_v, total = total_v\<rparr>)))))"

definition ONCHAIN_DECIMAL_PRECISION :: nat where
  "ONCHAIN_DECIMAL_PRECISION = 6"

definition cast_coin_to_decimal :: "u64 \<Rightarrow> f64" where
  "cast_coin_to_decimal v = fdiv (f64_of_u64 v) (f64_of_nat (10 ^ ONCHAIN_DECIMAL_PRECISION))"

definition cast_decimal_to_coin :: "f64 \<Rightarrow> u64" where
  "cast_decimal_to_coin d = f64_to_u64 (fmul d (f64_of_nat (10 ^ ONCHAIN_DECIMAL_PRECISION)))"

record LibraBalanceDisplay =
  unlocked_display :: f64
  total_display :: f64

definition SlowWalletBalance_scaled :: "SlowWalletBalance \<Rightarrow> LibraBalanceDisplay" where
  "SlowWalletBalance_scaled b =
     \<lparr>unlocked_display = cast_coin_to_decimal (unlocked b), total_display = cast_coin_to_decimal (total b)\<rparr>"

datatype TxType = Baseline | Critical | Mgmt | Miner | Cheap

record TxCost =
  max_gas_unit_for_tx :: u64
  coin_price_per_unit :: u64
  user_tx_timeout :: u64

text \<open>The vendor's gas constants \<open>GAS_UNIT_PRICE\<close> and \<open>MAX_GAS_AMOUNT\<close>.\<close>

record gas_constants =
  GAS_UNIT_PRICE :: u64
  MAX_GAS_AMOUNT :: u64

definition TxCost_new :: "gas_constants \<Rightarrow> u64 \<Rightarrow> f64 \<Rightarrow> u64 option \<Rightarrow> TxCost" where
  "TxCost_new g units price_multiplier min_gas_price =
     \<lparr>max_gas_unit_for_tx = units,
      coin_price_per_unit =
        f64_to_u64 (fmul (f64_of_u64 (max (GAS_UNIT_PRICE g)
          (case min_gas_price of Some m \<Rightarrow> m | None \<Rightarrow> 1))) price_multiplier),
      user_tx_timeout = 5000\<rparr>"

definition default_baseline_cost :: "gas_constants \<Rightarrow> TxCost" where
  "default_baseline_cost g = TxCost_new g (MAX_GAS_AMOUNT g div 50) 2 None"

definition default_critical_txs_cost :: "gas_constants \<Rightarrow> TxCost" where
  "default_critical_txs_cost g = TxCost_new g (MAX_GAS_AMOUNT g div 6) 5 None"

definition default_management_txs_cost :: "gas_constants \<Rightarrow> TxCost" where
  "default_management_txs_cost g = TxCost_new g (MAX_GAS_AMOUNT g div 12) 4 None"

definition default_miner_txs_cost :: "gas_constants \<Rightarrow> TxCost" where
  "default_miner_txs_cost g = TxCost_new g (MAX_GAS_AMOUNT g div 25) 3 None"

definition default_cheap_txs_cost :: "gas_constants \<Rightarrow> TxCost" where
  "default_cheap_txs_cost g = TxCost_new g (MAX_GAS_AMOUNT g div 100) 1 None"

definition prod_baseline_cost :: "gas_constants \<Rightarrow> TxCost" where
  "prod_baseline_cost g = TxCost_new g (MAX_GAS_AMOUNT g div 50) 2 (Some 100)"

definition framework_upgrade :: "gas_constants \<Rightarrow> TxCost" where
  "framework_upgrade g = TxCost_new g 100000 50 (Some 100)"

record TxConfigs =
  baseline_cost :: TxCost
  critical_txs_cost :: "TxCost option"
  management_txs_cost :: "TxCost option"
  miner_txs_cost :: "TxCost option"
  cheap_txs_cost :: "TxCost option"

definition TxConfigs_default :: "gas_constants \<Rightarrow> TxConfigs" where
  "TxConfigs_default g =
     \<lparr>baseline_cost = default_baseline_cost g,
      critical_txs_cost = Some (default_critical_txs_cost g),
      management_txs_cost = Some (default_management_txs_cost g),
      miner_txs_cost = Some (default_miner_txs_cost g),
      cheap_txs_cost = Some (default_cheap_txs_cost g)\<rparr>"

definition get_cost :: "gas_constants \<Rightarrow> TxConfigs \<Rightarrow> TxType option \<Rightarrow> TxCost" where
  "get_cost g self tx_type =
     (let cost = (case tx_type of
            Some Critical \<Rightarrow> critical_txs_cost self
          | Some Mgmt \<Rightarrow> management_txs_cost self
          | Some Miner \<Rightarrow> miner_txs_cost self
          | Some Cheap \<Rightarrow> cheap_txs_cost self
          | _ \<Rightarrow> Some (baseline_cost self))
      in case cost of Some c \<Rightarrow> c | None \<Rightarrow> default_baseline_cost g)"

section \<open>Profiles\<close>

record Profile =
  account :: account_address
  p_auth_key :: auth_key
  test_private_key :: "bytes option"
  nickname :: string
  on_chain :: bool
  balance :: SlowWalletBalance
  p_locale :: "string option"
  statement :: string
  pledges :: "Pledge list option"

definition Profile_default :: Profile where
  "Profile_default =
     \<lparr>account = replicate 32 0, p_auth_key = replicate 32 0, test_private_key = None,
      nickname = ''default'', on_chain = False, balance = SlowWalletBalance_default,
      p_locale = None, statement = ''Protests rage across the nation'', pledges = None\<rparr>"

text \<open>\<open>get_nickname\<close> compares 31 characters with a string of 32.\<close>

definition get_nickname :: "(account_address \<Rightarrow> string) \<Rightarrow> account_address \<Rightarrow> string" where
  "get_nickname to_str acc =
     (if take 31 (to_str acc) = replicate 32 (CHR ''0'')
      then drop 32 (take 36 (to_str acc))
      else take 4 (to_str acc))"

definition Profile_new :: "(account_address \<Rightarrow> string) \<Rightarrow> auth_key \<Rightarrow> account_address \<Rightarrow> Profile" where
  "Profile_new to_str auth acc =
     Profile_default\<lparr>account := acc, p_auth_key := auth, nickname := get_nickname to_str acc\<rparr>"

definition set_private_key :: "Profile \<Rightarrow> bytes \<Rightarrow> Profile" where
  "set_private_key p key = p\<lparr>test_private_key := Some key\<rparr>"

definition borrow_private_key :: "Profile \<Rightarrow> bytes rres" where
  "borrow_private_key p = or_err ''no private key found'' (test_private_key p)"

definition push_pledge :: "Profile \<Rightarrow> Pledge \<Rightarrow> Profile" where
  "push_pledge p new =
     (case pledges p of
        Some list \<Rightarrow>
          (case List.find (\<lambda>e. pl_id e = pl_id new) list of
             None \<Rightarrow> p\<lparr>pledges := Some (list @ [new])\<rparr>
           | Some _ \<Rightarrow> p)
      | None \<Rightarrow> p\<lparr>pledges := Some [new]\<rparr>)"

text \<open>\<open>iter().any\<close> with a predicate that may panic.\<close>

fun any_pledge :: "(string \<Rightarrow> bytes) \<Rightarrow> u8 \<Rightarrow> Pledge list \<Rightarrow> bool rres" where
  "any_pledge sha3 pledge_id [] = Ok False"
| "any_pledge sha3 pledge_id (e # es) =
     (if pl_id e = 0 then
        rbind (check_pledge_hash sha3 pledge_id (pl_hash e)) (\<lambda>b.
          if b then Ok True else any_pledge sha3 pledge_id es)
      else any_pledge sha3 pledge_id es)"

definition check_has_pledge :: "(string \<Rightarrow> bytes) \<Rightarrow> NamedChain \<Rightarrow> Profile \<Rightarrow> u8 \<Rightarrow> bool rres" where
  "check_has_pledge sha3 mode p pledge_id =
     (if mode \<noteq> MAINNET then Ok True
      else (case pledges p of Some list \<Rightarrow> any_pledge sha3 pledge_id list | None \<Rightarrow> Ok False))"

definition maybe_offer_basic_pledge ::
  "(string \<Rightarrow> bytes) \<Rightarrow> NamedChain \<Rightarrow> bool \<Rightarrow> Profile \<Rightarrow> Profile rres" where
  "maybe_offer_basic_pledge sha3 mode prompt_yes p =
     rbind (check_has_pledge sha3 mode p 0) (\<lambda>has.
       Ok (if \<not> has \<and> pledge_dialogue mode prompt_yes (pledge_protect_the_game sha3)
           then push_pledge p (pledge_protect_the_game sha3) else p))"

definition maybe_offer_validator_pledge ::
  "(string \<Rightarrow> bytes) \<Rightarrow> NamedChain \<Rightarrow> bool \<Rightarrow> Profile \<Rightarrow> Profile rres" where
  "maybe_offer_validator_pledge sha3 mode prompt_yes p =
     rbind (check_has_pledge sha3 mode p 1) (\<lambda>has.
       Ok (if \<not> has \<and> pledge_dialogue mode prompt_yes (pledge_validator sha3)
           then push_pledge p (pledge_validator sha3) else p))"

section \<open>The configuration\<close>

type_synonym fpath = "string list"

record Workspace =
  default_profile :: "string option"
  default_chain_id :: NamedChain
  node_home :: fpath

record AppCfg =
  workspace :: Workspace
  user_profiles :: "Profile list"
  network_playlist :: "NetworkPlaylist list"
  tx_configs :: TxConfigs

definition CONFIG_FILE_NAME :: string where
  "CONFIG_FILE_NAME = ''libra-cli-config.yaml''"

definition global_config_dir :: "fpath \<Rightarrow> fpath" where
  "global_config_dir home = home @ [''.libra'']"

definition default_file_path :: "fpath \<Rightarrow> fpath" where
  "default_file_path home = global_config_dir home @ [CONFIG_FILE_NAME]"

definition Workspace_default :: "fpath \<Rightarrow> Workspace" where
  "Workspace_default home =
     \<lparr>default_profile = None, default_chain_id = MAINNET, node_home = global_config_dir home\<rparr>"

definition Workspace_set_default :: "Workspace \<Rightarrow> string \<Rightarrow> Workspace" where
  "Workspace_set_default w p = w\<lparr>default_profile := Some p\<rparr>"

definition AppCfg_default :: "gas_constants \<Rightarrow> fpath \<Rightarrow> AppCfg" where
  "AppCfg_default g home =
     \<lparr>workspace = Workspace_default home, user_profiles = [], network_playlist = [],
      tx_configs = TxConfigs_default g\<rparr>"

type_synonym file_system = "fpath \<rightharpoonup> string"

definition save_file :: "(AppCfg \<Rightarrow> string rres) \<Rightarrow> AppCfg \<Rightarrow> file_system \<Rightarrow> fpath rres \<times> file_system" where
  "save_file to_yaml self fs =
     (case to_yaml self of
        Ok yaml \<Rightarrow>
          (let toml_path = node_home (workspace self) @ [CONFIG_FILE_NAME]
           in (Ok toml_path, fs(toml_path \<mapsto> yaml)))
      | Err e \<Rightarrow> (Err e, fs)
      | Panic p \<Rightarrow> (Panic p, fs))"

definition load :: "(string \<Rightarrow> AppCfg option) \<Rightarrow> fpath \<Rightarrow> fpath option \<Rightarrow> file_system \<Rightarrow> AppCfg rres" where
  "load from_yaml home file fs =
     (let path = (case file of Some p \<Rightarrow> p | None \<Rightarrow> default_file_path home)
      in case fs path of
           None \<Rightarrow> Err ''libra-cli-config.yaml dir does not exist''
         | Some s \<Rightarrow> or_err ''could not read file into an AppCfg. Is there an issue with the file?'' (from_yaml s))"

definition init_app_configs ::
  "gas_constants \<Rightarrow> (account_address \<Rightarrow> string) \<Rightarrow> (AppCfg \<Rightarrow> string rres) \<Rightarrow> fpath \<Rightarrow>
   auth_key \<Rightarrow> account_address \<Rightarrow> fpath option \<Rightarrow> NamedChain option \<Rightarrow> NetworkPlaylist option \<Rightarrow>
   file_system \<Rightarrow> AppCfg rres \<times> file_system" where
  "init_app_configs g to_str to_yaml home authkey acc config_path chain playlist fs =
     (let cfg = AppCfg_default g home;
          profile = Profile_new to_str authkey acc;
          w = (workspace cfg)\<lparr>default_profile := Some (nickname profile),
                node_home := (case config_path of Some p \<Rightarrow> p | None \<Rightarrow> global_config_dir home)\<rparr>;
          w = (case chain of Some c \<Rightarrow> w\<lparr>default_chain_id := c\<rparr> | None \<Rightarrow> w);
          w = (case playlist of Some np \<Rightarrow> w\<lparr>default_chain_id := chain_name np\<rparr> | None \<Rightarrow> w);
          nps = (case playlist of Some np \<Rightarrow> network_playlist cfg @ [np] | None \<Rightarrow> network_playlist cfg);
          cfg = cfg\<lparr>workspace := w, user_profiles := [profile], network_playlist := nps\<rparr>
      in case save_file to_yaml cfg fs of
           (Ok _, fs') \<Rightarrow> (Ok cfg, fs')
         | (Err e, fs') \<Rightarrow> (Err e, fs')
         | (Panic p, fs') \<Rightarrow> (Panic p, fs'))"

definition get_profile_idx :: "(account_address \<Rightarrow> string) \<Rightarrow> AppCfg \<Rightarrow> string option \<Rightarrow> nat rres" where
  "get_profile_idx to_str self nick =
     (if user_profiles self = [] then Err ''no profiles found''
      else if length (user_profiles self) = 1 then Ok 0
      else
        let nick = (if nick = None then default_profile (workspace self) else nick)
        in case nick of
             Some n \<Rightarrow>
               or_err ''could not find a profile''
                 (find_index (\<lambda>e. str_contains (nickname e) n \<or> str_contains (to_str (account e)) n)
                    (user_profiles self))
           | None \<Rightarrow> Err ''no profiles found'')"

text \<open>\<open>Result::unwrap_or(0)\<close> and \<open>Vec::get\<close>.\<close>

definition profile_slot :: "(account_address \<Rightarrow> string) \<Rightarrow> AppCfg \<Rightarrow> string option \<Rightarrow> nat rres" where
  "profile_slot to_str self nick =
     (let idx = (case get_profile_idx to_str self nick of Ok i \<Rightarrow> i | _ \<Rightarrow> 0)
      in if idx < length (user_profiles self) then Ok idx else Err ''no profile at index'')"

definition get_profile :: "(account_address \<Rightarrow> string) \<Rightarrow> AppCfg \<Rightarrow> string option \<Rightarrow> Profile rres" where
  "get_profile to_str self nick =
     rbind (profile_slot to_str self nick) (\<lambda>idx. Ok (user_profiles self ! idx))"

definition get_profile_mut :: "(account_address \<Rightarrow> string) \<Rightarrow> AppCfg \<Rightarrow> string option \<Rightarrow> nat rres" where
  "get_profile_mut to_str self nick = profile_slot to_str self nick"

definition get_block_dir :: "(account_address \<Rightarrow> string) \<Rightarrow> AppCfg \<Rightarrow> string option \<Rightarrow> fpath rres" where
  "get_block_dir to_str self nick =
     rbind (get_profile to_str self nick) (\<lambda>profile.
       Ok (node_home (workspace self) @ [''vdf_proofs_'' @ to_str (account profile)]))"

definition maybe_add_profile :: "AppCfg \<Rightarrow> Profile \<Rightarrow> AppCfg" where
  "maybe_add_profile self profile =
     (if user_profiles self = [] then self\<lparr>user_profiles := [profile]\<rparr>
      else case find_index (\<lambda>e. account e = account profile) (user_profiles self) of
             Some i \<Rightarrow> self\<lparr>user_profiles := (user_profiles self)[i := profile]\<rparr>
           | None \<Rightarrow> self\<lparr>user_profiles := user_profiles self @ [profile]\<rparr>)"

definition try_remove_profile ::
  "(account_address \<Rightarrow> string) \<Rightarrow> AppCfg \<Rightarrow> string \<Rightarrow> AppCfg rres" where
  "try_remove_profile to_str self nick =
     rbind (get_profile_idx to_str self (Some nick)) (\<lambda>idx.
       Ok (self\<lparr>user_profiles := remove_at idx (user_profiles self)\<rparr>))"

definition set_chain_id :: "AppCfg \<Rightarrow> NamedChain \<Rightarrow> AppCfg" where
  "set_chain_id self chain_id = self\<lparr>workspace := (workspace self)\<lparr>default_chain_id := chain_id\<rparr>\<rparr>"

definition get_network_profile :: "AppCfg \<Rightarrow> NamedChain option \<Rightarrow> NetworkPlaylist rres" where
  "get_network_profile self chain_id =
     (let np = network_playlist self;
          chain_id = (case chain_id of Some c \<Rightarrow> c | None \<Rightarrow> default_chain_id (workspace self))
      in if np = [] then Err ''no network profiles available''
         else or_err ''could not find a network profile'' (List.find (\<lambda>each. chain_name each = chain_id) np))"

definition get_network_profile_mut :: "AppCfg \<Rightarrow> NamedChain option \<Rightarrow> nat rres" where
  "get_network_profile_mut self chain_id =
     (let np = network_playlist self;
          chain_id = (case chain_id of Some c \<Rightarrow> c | None \<Rightarrow> default_chain_id (workspace self))
      in if np = [] then Err ''no network profiles found''
         else or_err ''cannot get network profile'' (find_index (\<lambda>each. chain_name each = chain_id) np))"

definition maybe_add_custom_playlist :: "AppCfg \<Rightarrow> NetworkPlaylist \<Rightarrow> AppCfg" where
  "maybe_add_custom_playlist self new_playlist =
     (let found = list_ex (\<lambda>play. chain_name play = chain_name new_playlist) (network_playlist self);
          nps = map (\<lambda>play. if chain_name play = chain_name new_playlist then new_playlist else play)
                  (network_playlist self)
      in self\<lparr>network_playlist := (if found then nps else nps @ [new_playlist])\<rparr>)"

definition update_network_playlist ::
  "(url \<Rightarrow> NetworkPlaylist rres) \<Rightarrow> AppCfg \<Rightarrow> NamedChain option \<Rightarrow> url option \<Rightarrow>
   NetworkPlaylist rres \<times> AppCfg" where
  "update_network_playlist fetch self chain_id playlist_url =
     (let u = (case playlist_url of Some u \<Rightarrow> u | None \<Rightarrow> find_default_playlist chain_id)
      in case from_playlist_url fetch u chain_id of
           Ok np \<Rightarrow> (Ok np, maybe_add_custom_playlist self np)
         | Err e \<Rightarrow> (Err e, self)
         | Panic p \<Rightarrow> (Panic p, self))"

text \<open>The refreshed playlist is a clone; what is saved is \<open>self\<close>.\<close>

definition refresh_network_profile_and_save ::
  "(AppCfg \<Rightarrow> string rres) \<Rightarrow> (HostProfile list \<Rightarrow> HostProfile list) \<Rightarrow> (url \<Rightarrow> u64 option) \<Rightarrow>
   AppCfg \<Rightarrow> NamedChain option \<Rightarrow> file_system \<Rightarrow> NetworkPlaylist rres \<times> AppCfg \<times> file_system" where
  "refresh_network_profile_and_save to_yaml arrive client_index self chain_id fs =
     (case get_network_profile self chain_id of
        Err e \<Rightarrow> (Err e, self, fs)
      | Panic p \<Rightarrow> (Panic p, self, fs)
      | Ok np \<Rightarrow>
          (let np = refresh_sync_status arrive client_index np
           in case save_file to_yaml self fs of
                (Ok _, fs') \<Rightarrow> (Ok np, self, fs')
              | (Err e, fs') \<Rightarrow> (Err e, self, fs')
              | (Panic p, fs') \<Rightarrow> (Panic p, self, fs')))"

definition pick_url :: "AppCfg \<Rightarrow> NamedChain option \<Rightarrow> url rres" where
  "pick_url self chain_id = rbind (get_network_profile self chain_id) pick_one"

section \<open>Contracts of the vendor code\<close>

text \<open>What is written as YAML is read back.\<close>

definition yaml_inverse :: "(AppCfg \<Rightarrow> string rres) \<Rightarrow> (string \<Rightarrow> AppCfg option) \<Rightarrow> bool" where
  "yaml_inverse to_yaml from_yaml \<longleftrightarrow> (\<forall>c y. to_yaml c = Ok y \<longrightarrow> from_yaml y = Some c)"

lemma load_saved:
  assumes "yaml_inverse to_yaml from_yaml" and "save_file to_yaml c fs = (Ok path, fs')"
  shows "load from_yaml home (Some path) fs' = Ok c"
  using assms by (auto simp: yaml_inverse_def save_file_def load_def Let_def split: rres.splits)

section \<open>Profiles\<close>

definition profile_ok :: "Profile \<Rightarrow> bool" where
  "profile_ok p \<longleftrightarrow> length (account p) = 32 \<and> length (nickname p) < 64"

definition cfg_ok :: "AppCfg \<Rightarrow> bool" where
  "cfg_ok c \<longleftrightarrow> distinct (map account (user_profiles c)) \<and> list_all profile_ok (user_profiles c)"

lemma Profile_new_ok:
  "address_display to_str \<Longrightarrow> length a = 32 \<Longrightarrow> profile_ok (Profile_new to_str k a)"
  by (auto simp: profile_ok_def Profile_new_def Profile_default_def get_nickname_def)

context address_display
begin

lemma lookup_by_address:
  assumes "cfg_ok c" and "q \<in> set (user_profiles c)"
  shows "\<exists>i < length (user_profiles c). get_profile_idx to_str c (Some (to_str (account q))) = Ok i \<and>
    user_profiles c ! i = q"
proof -
  let ?us = "user_profiles c" and ?P = "\<lambda>e. str_contains (nickname e) (to_str (account q)) \<or>
      str_contains (to_str (account e)) (to_str (account q))"
  obtain i where i: "i < length ?us" "?us ! i = q" using assms(2) by (auto simp: in_set_conv_nth)
  show ?thesis
  proof (cases "length ?us = 1")
    case True
    with i show ?thesis by (auto simp: get_profile_idx_def)
  next
    case False
    have q32: "length (account q) = 32" using assms by (simp add: cfg_ok_def profile_ok_def list_all_iff)
    have "\<not> ?P (?us ! j)" if "j < i" for j
    proof -
      have j: "j < length ?us" using that i(1) by simp
      then have ok: "profile_ok (?us ! j)" using assms(1) by (simp add: cfg_ok_def list_all_length)
      have "account (?us ! j) \<noteq> account q"
        using assms(1) that i j by (auto simp: cfg_ok_def distinct_conv_nth)
      with ok q32 have "\<not> str_contains (to_str (account (?us ! j))) (to_str (account q))"
        by (simp add: to_str_contains profile_ok_def)
      moreover have "\<not> str_contains (nickname (?us ! j)) (to_str (account q))"
        using ok q32 str_contains_length by (fastforce simp: profile_ok_def to_str_length)
      ultimately show ?thesis by blast
    qed
    with i have "find_index ?P ?us = Some i" by (auto simp: find_index_Some)
    with False i show ?thesis by (auto simp: get_profile_idx_def)
  qed
qed

lemma get_profile_by_address:
  "cfg_ok c \<Longrightarrow> q \<in> set (user_profiles c) \<Longrightarrow> get_profile to_str c (Some (to_str (account q))) = Ok q"
  using lookup_by_address[of c q] by (auto simp: get_profile_def profile_slot_def)

end

text \<open>The list of profiles after an addition, and which of them are left alone.\<close>

lemma maybe_add_profile_cases:
  obtains (replaced) i where "i < length (user_profiles c)" "account (user_profiles c ! i) = account p"
      "user_profiles (maybe_add_profile c p) = (user_profiles c)[i := p]"
  | (added) "account p \<notin> account ` set (user_profiles c)"
      "user_profiles (maybe_add_profile c p) = user_profiles c @ [p]"
proof (cases "find_index (\<lambda>e. account e = account p) (user_profiles c)")
  case None
  then have "account p \<notin> account ` set (user_profiles c)" by (force simp: find_index_None)
  with None added show thesis by (auto simp: maybe_add_profile_def)
next
  case (Some i)
  then have i: "i < length (user_profiles c)" "account (user_profiles c ! i) = account p"
    by (auto simp: find_index_Some)
  with Some have "user_profiles (maybe_add_profile c p) = (user_profiles c)[i := p]"
    by (auto simp: maybe_add_profile_def)
  with i show thesis by (rule replaced)
qed

lemma map_update_same: "i < length xs \<Longrightarrow> f (xs ! i) = f y \<Longrightarrow> map f (xs[i := y]) = map f xs"
  by (metis list_update_id map_update)

lemma maybe_add_profile_ok: "cfg_ok c \<Longrightarrow> profile_ok p \<Longrightarrow> cfg_ok (maybe_add_profile c p)"
proof (cases c p rule: maybe_add_profile_cases)
  case (replaced i)
  assume "cfg_ok c" "profile_ok p"
  with replaced show ?thesis
    by (auto simp: cfg_ok_def map_update_same list_all_iff dest: set_update_subset_insert[THEN subsetD])
next
  case added
  assume "cfg_ok c" "profile_ok p"
  with added show ?thesis by (simp add: cfg_ok_def)
qed

lemma maybe_add_profile_members:
  assumes "cfg_ok c"
  shows "set (user_profiles (maybe_add_profile c p)) =
    insert p {q \<in> set (user_profiles c). account q \<noteq> account p}"
proof (cases c p rule: maybe_add_profile_cases)
  case (replaced i)
  have other: "account (user_profiles c ! j) = account p \<longleftrightarrow> j = i" if "j < length (user_profiles c)" for j
    using assms replaced(1,2) that unfolding cfg_ok_def
    by (metis distinct_map inj_on_eq_iff length_map nth_eq_iff_index_eq nth_map nth_mem)
  show ?thesis
    unfolding replaced(3) using replaced(1) other by (auto simp: in_set_conv_nth nth_list_update) metis+
next
  case added
  then have "account q \<noteq> account p" if "q \<in> set (user_profiles c)" for q using that by (metis imageI)
  with added(2) show ?thesis by auto
qed

section \<open>Theorems\<close>

text \<open>
  C40. Adding a profile. The well-formedness of the profile list (distinct 32-byte accounts, short
  nicknames) is kept; the added profile is found under its full address, replacing an older profile
  of that account; and every profile of another account is still found under its own address.
\<close>

theorem added_profile_found:
  assumes "address_display to_str" and "cfg_ok c" and "profile_ok p"
  shows "cfg_ok (maybe_add_profile c p) \<and>
    get_profile to_str (maybe_add_profile c p) (Some (to_str (account p))) = Ok p \<and>
    (\<forall>q \<in> set (user_profiles c). account q \<noteq> account p \<longrightarrow>
       get_profile to_str (maybe_add_profile c p) (Some (to_str (account q))) = Ok q)"
  using maybe_add_profile_ok[OF assms(2,3)] maybe_add_profile_members[OF assms(2), of p]
    address_display.get_profile_by_address[OF assms(1), of "maybe_add_profile c p"]
  by auto

definition sample_gas :: gas_constants where
  "sample_gas = \<lparr>GAS_UNIT_PRICE = 0, MAX_GAS_AMOUNT = 2000000\<rparr>"

definition sample_cfg :: AppCfg where
  "sample_cfg = (AppCfg_default sample_gas [''home''])
     \<lparr>user_profiles := [Profile_new lower_hex (replicate 32 1) (replicate 32 1),
                        Profile_new lower_hex (replicate 32 2) (replicate 32 2)]\<rparr>"

lemma sample_cfg_ok: "cfg_ok sample_cfg"
proof -
  have "profile_ok (Profile_new lower_hex (replicate 32 k) (replicate 32 k))" for k
    by (rule Profile_new_ok[OF hex_display.address_display_axioms]) simp
  moreover have "replicate 32 (1 :: u8) \<noteq> replicate 32 2" by simp
  ultimately show ?thesis by (simp add: cfg_ok_def sample_cfg_def Profile_new_def)
qed

theorem added_profile_found_witness:
  "get_profile lower_hex (maybe_add_profile sample_cfg (Profile_new lower_hex (replicate 32 3) (replicate 32 3)))
     (Some (lower_hex (replicate 32 3))) = Ok (Profile_new lower_hex (replicate 32 3) (replicate 32 3))"
proof -
  let ?p = "Profile_new lower_hex (replicate 32 3) (replicate 32 3)"
  have "profile_ok ?p" by (rule Profile_new_ok[OF hex_display.address_display_axioms]) simp
  from added_profile_found[OF hex_display.address_display_axioms sample_cfg_ok this]
  have "get_profile lower_hex (maybe_add_profile sample_cfg ?p) (Some (lower_hex (account ?p))) = Ok ?p"
    by blast
  then show ?thesis by (simp add: Profile_new_def)
qed

text \<open>
  Removing a profile. Given the full address of one of several profiles, exactly that profile
  goes and the order of the others is kept. With a single profile the name is not looked at: any
  string removes it.
\<close>

theorem remove_profile_cases:
  assumes "address_display to_str" and "cfg_ok c"
  shows "(\<forall>q \<in> set (user_profiles c). \<exists>c'. try_remove_profile to_str c (to_str (account q)) = Ok c' \<and>
      user_profiles c' = filter (\<lambda>p. account p \<noteq> account q) (user_profiles c) \<and> cfg_ok c') \<and>
    (length (user_profiles c) = 1 \<longrightarrow>
      (\<forall>nick. try_remove_profile to_str c nick = Ok (c\<lparr>user_profiles := []\<rparr>)))"
proof (intro conjI ballI impI allI)
  fix q assume q: "q \<in> set (user_profiles c)"
  let ?us = "user_profiles c"
  from address_display.lookup_by_address[OF assms q] obtain i where i: "i < length ?us" "?us ! i = q"
    "get_profile_idx to_str c (Some (to_str (account q))) = Ok i" by blast
  have split: "?us = take i ?us @ q # drop (Suc i) ?us" using i by (metis id_take_nth_drop)
  have "distinct (map account (take i ?us @ q # drop (Suc i) ?us))"
    using assms(2) split unfolding cfg_ok_def by metis
  then have "account q \<notin> account ` set (take i ?us)" "account q \<notin> account ` set (drop (Suc i) ?us)"
    by simp_all
  then have "filter (\<lambda>p. account p \<noteq> account q) (take i ?us) = take i ?us"
    "filter (\<lambda>p. account p \<noteq> account q) (drop (Suc i) ?us) = drop (Suc i) ?us"
    by (auto simp: filter_id_conv image_iff)
  then have rem: "remove_at i ?us = filter (\<lambda>p. account p \<noteq> account q) ?us"
    by (subst (2) split) (simp add: remove_at_def)
  have "cfg_ok (c\<lparr>user_profiles := filter (\<lambda>p. account p \<noteq> account q) ?us\<rparr>)"
    using assms(2) by (auto simp: cfg_ok_def list_all_iff distinct_map_filter)
  with rem i(3) show "\<exists>c'. try_remove_profile to_str c (to_str (account q)) = Ok c' \<and>
      user_profiles c' = filter (\<lambda>p. account p \<noteq> account q) ?us \<and> cfg_ok c'"
    by (simp add: try_remove_profile_def)
next
  fix nick assume "length (user_profiles c) = 1"
  then show "try_remove_profile to_str c nick = Ok (c\<lparr>user_profiles := []\<rparr>)"
    by (auto simp: try_remove_profile_def get_profile_idx_def remove_at_def)
qed

theorem remove_profile_cases_witness:
  "\<exists>c'. try_remove_profile lower_hex sample_cfg (lower_hex (replicate 32 1)) = Ok c' \<and>
     map account (user_profiles c') = [replicate 32 2]"
proof -
  let ?q = "Profile_new lower_hex (replicate 32 1) (replicate 32 1)"
  have q: "?q \<in> set (user_profiles sample_cfg)" by (simp add: sample_cfg_def)
  have ne: "replicate 32 (2 :: u8) \<noteq> replicate 32 1" by simp
  from remove_profile_cases[OF hex_display.address_display_axioms sample_cfg_ok] q
  obtain c' where c': "try_remove_profile lower_hex sample_cfg (lower_hex (account ?q)) = Ok c'"
    "user_profiles c' = filter (\<lambda>p. account p \<noteq> account ?q) (user_profiles sample_cfg)" by blast
  then have "map account (user_profiles c') = [replicate 32 2]"
    by (simp add: sample_cfg_def Profile_new_def ne)
  with c'(1) show ?thesis by (simp add: Profile_new_def)
qed

text \<open>
  Playlists are kept per chain: after adding one, its chain's lookup returns it, the lookup of
  every other chain is what it was, adding it again changes nothing, and a list with one playlist
  per chain stays that way.
\<close>

theorem custom_playlist_upsert:
  "get_network_profile (maybe_add_custom_playlist c np) (Some (chain_name np)) = Ok np \<and>
   (\<forall>k. k \<noteq> chain_name np \<longrightarrow> network_playlist c \<noteq> [] \<longrightarrow>
      get_network_profile (maybe_add_custom_playlist c np) (Some k) = get_network_profile c (Some k)) \<and>
   maybe_add_custom_playlist (maybe_add_custom_playlist c np) np = maybe_add_custom_playlist c np \<and>
   (distinct (map chain_name (network_playlist c)) \<longrightarrow>
      distinct (map chain_name (network_playlist (maybe_add_custom_playlist c np))))"
proof -
  let ?up = "\<lambda>play. if chain_name play = chain_name np then np else play"
  have found: "List.find (\<lambda>e. chain_name e = chain_name np)
      (if list_ex (\<lambda>p. chain_name p = chain_name np) nps then map ?up nps else map ?up nps @ [np]) = Some np" for nps
    by (induction nps) auto
  have other: "List.find (\<lambda>e. chain_name e = k) (map ?up nps) = List.find (\<lambda>e. chain_name e = k) nps"
    "List.find (\<lambda>e. chain_name e = k) (map ?up nps @ [np]) = List.find (\<lambda>e. chain_name e = k) nps"
    if "k \<noteq> chain_name np" for nps k
    using that by (induction nps) auto
  have names: "map chain_name (map ?up nps) = map chain_name nps" for nps by simp
  have up2: "map ?up (map ?up nps) = map ?up nps" for nps by simp
  have ex: "list_ex (\<lambda>p. chain_name p = chain_name np) (map ?up nps) = list_ex (\<lambda>p. chain_name p = chain_name np) nps" for nps
    by (induction nps) auto
  show ?thesis
  proof (intro conjI allI impI)
    show "get_network_profile (maybe_add_custom_playlist c np) (Some (chain_name np)) = Ok np"
      using found[of "network_playlist c"]
      by (cases "network_playlist c") (auto simp: get_network_profile_def maybe_add_custom_playlist_def Let_def)
    show "get_network_profile (maybe_add_custom_playlist c np) (Some k) = get_network_profile c (Some k)"
      if "k \<noteq> chain_name np" "network_playlist c \<noteq> []" for k
      using other[OF that(1), of "network_playlist c"] that(2)
      by (simp add: get_network_profile_def maybe_add_custom_playlist_def Let_def)
    show "maybe_add_custom_playlist (maybe_add_custom_playlist c np) np = maybe_add_custom_playlist c np"
      using up2[of "network_playlist c"] ex[of "network_playlist c"]
      by (simp add: maybe_add_custom_playlist_def Let_def)
    show "distinct (map chain_name (network_playlist (maybe_add_custom_playlist c np)))"
      if "distinct (map chain_name (network_playlist c))"
      using that names[of "network_playlist c"]
      by (auto simp: maybe_add_custom_playlist_def Let_def list_ex_iff o_def if_distrib cong: if_cong)
  qed
qed

theorem custom_playlist_upsert_witness:
  "get_network_profile (maybe_add_custom_playlist sample_cfg sample_playlist) (Some TESTING) = Ok sample_playlist"
  using custom_playlist_upsert[of sample_cfg sample_playlist] by (simp add: sample_playlist_def)

text \<open>
  A new configuration survives the disk: when \<open>init_app_configs\<close> succeeds, loading the file it
  wrote gives the same configuration, which has the given account as its only profile and as what
  the default lookup returns, and the chain of the playlist, or else the requested chain, or else
  mainnet.
\<close>

theorem init_then_load:
  assumes "yaml_inverse to_yaml from_yaml"
    and "init_app_configs g to_str to_yaml home k a path chain np fs = (Ok c, fs')"
  shows "load from_yaml home (Some (node_home (workspace c) @ [CONFIG_FILE_NAME])) fs' = Ok c \<and>
    node_home (workspace c) = (case path of Some p \<Rightarrow> p | None \<Rightarrow> global_config_dir home) \<and>
    user_profiles c = [Profile_new to_str k a] \<and>
    get_profile to_str c None = Ok (Profile_new to_str k a) \<and>
    default_chain_id (workspace c) =
      (case np of Some p \<Rightarrow> chain_name p | None \<Rightarrow> (case chain of Some n \<Rightarrow> n | None \<Rightarrow> MAINNET)) \<and>
    network_playlist c = (case np of Some p \<Rightarrow> [p] | None \<Rightarrow> [])"
proof -
  obtain p where saved: "save_file to_yaml c fs = (Ok p, fs')"
    using assms(2) by (auto simp: init_app_configs_def Let_def split: prod.splits rres.splits)
  then have p: "p = node_home (workspace c) @ [CONFIG_FILE_NAME]"
    by (auto simp: save_file_def Let_def split: rres.splits)
  from load_saved[OF assms(1) saved] p
  have "load from_yaml home (Some (node_home (workspace c) @ [CONFIG_FILE_NAME])) fs' = Ok c" by simp
  moreover have fields: "node_home (workspace c) = (case path of Some p \<Rightarrow> p | None \<Rightarrow> global_config_dir home)"
    "user_profiles c = [Profile_new to_str k a]"
    "default_chain_id (workspace c) =
      (case np of Some p \<Rightarrow> chain_name p | None \<Rightarrow> (case chain of Some n \<Rightarrow> n | None \<Rightarrow> MAINNET))"
    "network_playlist c = (case np of Some p \<Rightarrow> [p] | None \<Rightarrow> [])"
    using assms(2)
    by (auto simp: init_app_configs_def AppCfg_default_def Workspace_default_def Let_def
        split: prod.splits rres.splits option.splits)
  moreover have "get_profile to_str c None = Ok (Profile_new to_str k a)"
    using fields(2) by (simp add: get_profile_def profile_slot_def get_profile_idx_def)
  ultimately show ?thesis by blast
qed

definition sample_new_cfg :: AppCfg where
  "sample_new_cfg = (AppCfg_default sample_gas [''h''])
     \<lparr>workspace := \<lparr>default_profile = Some (nickname (Profile_new lower_hex (replicate 32 1) (replicate 32 1))),
                     default_chain_id = TESTING, node_home = [''d'']\<rparr>,
      user_profiles := [Profile_new lower_hex (replicate 32 1) (replicate 32 1)]\<rparr>"

theorem init_then_load_witness:
  "load (\<lambda>_. Some sample_new_cfg) [''h''] (Some [''d'', CONFIG_FILE_NAME]) [[''d'', CONFIG_FILE_NAME] \<mapsto> ''y''] =
     Ok sample_new_cfg"
proof -
  let ?to = "\<lambda>c. if c = sample_new_cfg then Ok ''y'' else Err ''no''"
  have inv: "yaml_inverse ?to (\<lambda>_. Some sample_new_cfg)" by (simp add: yaml_inverse_def)
  have "init_app_configs sample_gas lower_hex ?to [''h''] (replicate 32 1) (replicate 32 1)
       (Some [''d'']) (Some TESTING) None Map.empty = (Ok sample_new_cfg, [[''d'', CONFIG_FILE_NAME] \<mapsto> ''y''])"
    by (simp add: init_app_configs_def save_file_def sample_new_cfg_def AppCfg_default_def
        Workspace_default_def Let_def)
  from init_then_load[OF inv this] show ?thesis by (simp add: sample_new_cfg_def)
qed

text \<open>
  \<open>refresh_network_profile_and_save\<close> returns a refreshed playlist but stores nothing of it: the
  configuration is unchanged, and the file it writes is that of the unchanged configuration.
\<close>

theorem refresh_is_not_saved:
  assumes "refresh_network_profile_and_save to_yaml arrive client_index c chain fs = (Ok np, c', fs')"
  shows "c' = c \<and> save_file to_yaml c fs = (Ok (node_home (workspace c) @ [CONFIG_FILE_NAME]), fs') \<and>
    (\<exists>old. get_network_profile c' chain = Ok old \<and> np = refresh_sync_status arrive client_index old)"
  using assms
  by (auto simp: refresh_network_profile_and_save_def save_file_def Let_def split: rres.splits prod.splits)

theorem refresh_is_not_saved_witness:
  "\<exists>np fs'. refresh_network_profile_and_save (\<lambda>_. Ok ''y'') (\<lambda>xs. xs) (\<lambda>_. None)
       (maybe_add_custom_playlist sample_cfg sample_playlist) (Some TESTING) Map.empty =
     (Ok np, maybe_add_custom_playlist sample_cfg sample_playlist, fs')"
proof -
  let ?c = "maybe_add_custom_playlist sample_cfg sample_playlist"
  have "get_network_profile ?c (Some TESTING) = Ok sample_playlist"
    by (simp add: get_network_profile_def maybe_add_custom_playlist_def sample_cfg_def AppCfg_default_def
        sample_playlist_def Let_def)
  then obtain np c' fs' where r: "refresh_network_profile_and_save (\<lambda>_. Ok ''y'') (\<lambda>xs. xs) (\<lambda>_. None)
      ?c (Some TESTING) Map.empty = (Ok np, c', fs')"
    by (simp add: refresh_network_profile_and_save_def save_file_def Let_def)
  from refresh_is_not_saved[OF r] r show ?thesis by blast
qed

text \<open>
  Nicknames. The nickname of an account is always the first four digits of its address. The
  branch for founder accounts, whose 16 leading bytes are zero, is never taken, so all of them get
  the nickname \<open>0000\<close>.
\<close>

theorem nickname_is_prefix:
  assumes "address_display to_str" and "length a = 32"
  shows "get_nickname to_str a = take 4 (lower_hex a) \<and>
    (take 16 a = replicate 16 0 \<longrightarrow> get_nickname to_str a = ''0000'')"
proof
  have s: "to_str a = lower_hex a" using address_display.to_str_hex[OF assms] .
  have "take 31 (lower_hex a) \<noteq> replicate 32 (CHR ''0'')"
    by (rule notI, drule arg_cong[where f = length]) simp
  with s show pre: "get_nickname to_str a = take 4 (lower_hex a)" by (simp add: get_nickname_def)
  show "take 16 a = replicate 16 0 \<longrightarrow> get_nickname to_str a = ''0000''"
  proof
    assume z: "take 16 a = replicate 16 0"
    have "a = take 2 (take 16 a) @ drop 2 a" by simp
    with z have "a = 0 # 0 # drop 2 a" by (simp add: numeral_eq_Suc)
    then have "lower_hex a = hex_byte 0 @ hex_byte 0 @ lower_hex (drop 2 a)" by (metis lower_hex_Cons)
    moreover have "hex_byte 0 = ''00''" by code_simp
    ultimately show "get_nickname to_str a = ''0000''" using pre by simp
  qed
qed

theorem nickname_is_prefix_witness:
  "get_nickname lower_hex (replicate 16 0 @ replicate 16 0xAB) = ''0000''"
proof -
  have "length (replicate 16 0 @ replicate 16 (0xAB :: u8)) = 32" by simp
  moreover have "take 16 (replicate 16 0 @ replicate 16 (0xAB :: u8)) = replicate 16 0" by simp
  ultimately show ?thesis using nickname_is_prefix[OF hex_display.address_display_axioms] by blast
qed

text \<open>
  Pledges. A profile never holds two pledges of one id. On mainnet the basic pledge is
  recognised once taken, but the validator pledge never is: \<open>check_has_pledge\<close> compares every pledge
  id with zero, so a user who accepted both is offered the validator pledge for ever.
\<close>

theorem validator_pledge_not_recognised:
  assumes "pledge_digest sha3"
    and "maybe_offer_basic_pledge sha3 MAINNET True (p\<lparr>pledges := None\<rparr>) = Ok q"
    and "maybe_offer_validator_pledge sha3 MAINNET True q = Ok r"
  shows "pledges r = Some [pledge_protect_the_game sha3, pledge_validator sha3] \<and>
    check_has_pledge sha3 MAINNET r 0 = Ok True \<and>
    check_has_pledge sha3 MAINNET r 1 = Ok False \<and>
    maybe_offer_validator_pledge sha3 MAINNET True r = Ok r"
proof -
  have ids: "pl_id (pledge_protect_the_game sha3) = 0" "pl_id (pledge_validator sha3) = 1"
    by (simp_all add: pledge_protect_the_game_def pledge_validator_def pledge_to_hash_def)
  note facts = check_has_pledge_def maybe_offer_basic_pledge_def maybe_offer_validator_pledge_def
    pledge_dialogue_def push_pledge_def check_pledge_hash_def ids
    pledge_digest.pledge_hashes_apart[OF assms(1)]
  from assms(2) have q: "q = p\<lparr>pledges := Some [pledge_protect_the_game sha3]\<rparr>"
    by (simp add: facts)
  with assms(3) have r: "r = p\<lparr>pledges := Some [pledge_protect_the_game sha3, pledge_validator sha3]\<rparr>"
    by (simp add: facts)
  then show ?thesis by (simp add: facts)
qed

theorem validator_pledge_not_recognised_witness:
  "\<exists>r. pledges r = Some [pledge_protect_the_game text_bytes, pledge_validator text_bytes] \<and>
     check_has_pledge text_bytes MAINNET r 1 = Ok False"
proof -
  let ?q = "push_pledge Profile_default (pledge_protect_the_game text_bytes)"
  have none: "Profile_default\<lparr>pledges := None\<rparr> = Profile_default" by (simp add: Profile_default_def)
  have q: "maybe_offer_basic_pledge text_bytes MAINNET True (Profile_default\<lparr>pledges := None\<rparr>) = Ok ?q"
    unfolding none by (simp add: maybe_offer_basic_pledge_def check_has_pledge_def Profile_default_def pledge_dialogue_def)
  have "pl_id (pledge_protect_the_game text_bytes) = 0"
    by (simp add: pledge_protect_the_game_def pledge_to_hash_def)
  moreover have "pledges ?q = Some [pledge_protect_the_game text_bytes]"
    by (simp add: push_pledge_def Profile_default_def)
  ultimately have "maybe_offer_validator_pledge text_bytes MAINNET True ?q =
      Ok (push_pledge ?q (pledge_validator text_bytes))"
    using text_digest.pledge_hashes_apart
    by (simp add: maybe_offer_validator_pledge_def check_has_pledge_def check_pledge_hash_def pledge_dialogue_def)
  from validator_pledge_not_recognised[OF text_digest.pledge_digest_axioms q this] show ?thesis by blast
qed

text \<open>
  The price of every default transaction cost is its multiplier times the larger of the gas
  unit price and one, exactly, so no default is free, and the types are ordered cheap, baseline,
  miner, management, critical.
\<close>

theorem default_costs_exact:
  assumes "b = max (unat (GAS_UNIT_PRICE g)) 1" and "b \<le> 2 ^ 40"
  shows "unat (coin_price_per_unit (get_cost g (TxConfigs_default g) (Some Cheap))) = b \<and>
    unat (coin_price_per_unit (get_cost g (TxConfigs_default g) None)) = 2 * b \<and>
    unat (coin_price_per_unit (get_cost g (TxConfigs_default g) (Some Miner))) = 3 * b \<and>
    unat (coin_price_per_unit (get_cost g (TxConfigs_default g) (Some Mgmt))) = 4 * b \<and>
    unat (coin_price_per_unit (get_cost g (TxConfigs_default g) (Some Critical))) = 5 * b \<and> 0 < b"
proof -
  have m: "unat (max (GAS_UNIT_PRICE g) 1) = b"
    using assms(1) by (simp add: max_def word_le_nat_alt)
  have price: "unat (coin_price_per_unit (TxCost_new g u (real k) None)) = k * b" if "k \<le> 5" for u k
  proof -
    have le: "b * k \<le> 2 ^ 40 * 5" using assms(2) that by (rule mult_le_mono)
    then have "fmul (real b) (real k) = real (b * k)" by (intro fmul_nat) simp
    moreover have "f64_of_u64 (max (GAS_UNIT_PRICE g) 1) = real b"
      using assms(2) by (simp add: f64_of_u64_def m f64_of_nat_exact)
    moreover have "unat (of_nat (b * k) :: u64) = b * k" using le by (simp only: unat_of_nat) simp
    moreover have "f64_to_u64 (real (b * k)) = of_nat (b * k)" using le by (intro f64_to_u64_nat) simp
    ultimately show ?thesis by (simp add: TxCost_new_def mult.commute)
  qed
  show ?thesis
    using price[of 1] price[of 2] price[of 3] price[of 4] price[of 5] assms(1)
    by (simp add: get_cost_def TxConfigs_default_def default_baseline_cost_def default_critical_txs_cost_def
        default_management_txs_cost_def default_miner_txs_cost_def default_cheap_txs_cost_def)
qed

theorem default_costs_exact_witness:
  "unat (coin_price_per_unit (get_cost sample_gas (TxConfigs_default sample_gas) (Some Critical))) = 5"
  using default_costs_exact[of 1 sample_gas] by (simp add: sample_gas_def)

section \<open>Decimals\<close>

lemma f64_million: "f64_of_nat (10 ^ ONCHAIN_DECIMAL_PRECISION) = 10 ^ 6"
  by (simp add: ONCHAIN_DECIMAL_PRECISION_def f64_of_nat_exact)

lemma decimal_249: "cast_decimal_to_coin (cast_coin_to_decimal 249) = 248"
proof -
  have a: "rnd (249 / 1000000) = of_int 4593239274353678 / 2 ^ 64"
    by (rule rnd_eval) (simp_all add: abs_less_iff)
  have b: "rnd (of_int 4593239274353678 / 2 ^ 64 * 1000000) = of_int 8760908650119167 / 2 ^ 45"
    by (rule rnd_eval) (simp_all add: abs_less_iff)
  have "\<lfloor>(8760908650119167 :: real) / 2 ^ 45\<rfloor> = 248" by (simp add: floor_eq_iff)
  then have u: "f64_to_u64 (of_int 8760908650119167 / 2 ^ 45) = 248" by (simp add: f64_to_u64_def)
  have "cast_coin_to_decimal 249 = rnd (249 / 1000000)"
    by (simp add: cast_coin_to_decimal_def f64_million fdiv_def f64_of_u64_def f64_of_nat_exact)
  then have "cast_decimal_to_coin (cast_coin_to_decimal 249) =
      f64_to_u64 (rnd (rnd (249 / 1000000) * 1000000))"
    by (simp only: cast_decimal_to_coin_def f64_million fmul_def) simp
  then show ?thesis by (simp only: a b u)
qed

lemma decimal_error:
  assumes "0 \<le> v" and "v \<le> 2 ^ 51"
  shows "\<bar>rnd (rnd (v / 10 ^ 6) * 10 ^ 6) - v\<bar> < 1"
proof -
  let ?a = "rnd (v / 10 ^ 6) * 10 ^ 6"
  have "\<bar>rnd (v / 10 ^ 6) - v / 10 ^ 6\<bar> \<le> v / 10 ^ 6 / 2 ^ 53"
    using assms(1) by (intro rnd_error) simp
  moreover have "?a - v = (rnd (v / 10 ^ 6) - v / 10 ^ 6) * 10 ^ 6" by (simp add: left_diff_distrib)
  then have "\<bar>?a - v\<bar> = \<bar>rnd (v / 10 ^ 6) - v / 10 ^ 6\<bar> * 10 ^ 6" by (simp only: abs_mult) simp
  ultimately have a: "\<bar>?a - v\<bar> \<le> v / 2 ^ 53" by simp
  have b: "\<bar>rnd ?a - ?a\<bar> \<le> ?a / 2 ^ 53" by (intro rnd_error) simp
  have "v / 2 ^ 53 \<le> 1" using assms(2) by simp
  with abs_le_D1[OF a] assms(2) have "?a \<le> 2 ^ 51 + 1" by linarith
  then have "?a \<le> 2 ^ 52" by simp
  with b have "\<bar>rnd ?a - ?a\<bar> \<le> 1 / 2" by simp
  moreover from a assms have "\<bar>?a - v\<bar> \<le> 1 / 4" by simp
  ultimately show ?thesis by linarith
qed

text \<open>
  Converting coins to decimals and back. For whole coins it is the identity; for any amount up
  to \<open>2 ^ 51\<close> it is off by at most one of the smallest units, and because the last step truncates it
  can lose that unit: 249 units, printed as 0.000249, come back as 248.
\<close>

theorem coin_decimal_roundtrip:
  "(unat v \<le> 2 ^ 51 \<longrightarrow>
      unat (cast_decimal_to_coin (cast_coin_to_decimal v)) \<in> {unat v - 1, unat v}) \<and>
   (10 ^ 6 dvd unat v \<and> unat v < 2 ^ 53 \<longrightarrow> cast_decimal_to_coin (cast_coin_to_decimal v) = v) \<and>
   cast_decimal_to_coin (cast_coin_to_decimal 249) = 248"
proof (intro conjI impI)
  assume v: "unat v \<le> 2 ^ 51"
  let ?r = "rnd (rnd (real (unat v) / 10 ^ 6) * 10 ^ 6)"
  have "real (unat v) \<le> 2 ^ 51" using v by (metis of_nat_le_iff of_nat_numeral of_nat_power)
  from decimal_error[OF of_nat_0_le_iff this] have close: "\<bar>?r - real (unat v)\<bar> < 1" .
  have eq: "cast_decimal_to_coin (cast_coin_to_decimal v) = f64_to_u64 ?r"
    using v by (simp add: cast_decimal_to_coin_def cast_coin_to_decimal_def f64_million fdiv_def fmul_def
        f64_of_u64_def f64_of_nat_exact)
  from close \<open>real (unat v) \<le> 2 ^ 51\<close> have hi: "?r < 2 ^ 64 - 1"
    by (simp add: abs_less_iff)
  have fl: "\<lfloor>?r\<rfloor> \<in> {int (unat v) - 1, int (unat v)}"
    using close by (auto simp: floor_eq_iff)
  have "unat (f64_to_u64 ?r) = nat \<lfloor>?r\<rfloor>"
  proof (cases "?r \<le> 0")
    case True
    then have "?r = 0" using rnd_nonneg by (metis order_antisym)
    then show ?thesis by (simp add: f64_to_u64_def)
  next
    case False
    have "nat \<lfloor>?r\<rfloor> \<le> unat v" using fl by (auto simp: nat_le_iff)
    then have "nat \<lfloor>?r\<rfloor> < 2 ^ 64" using v by simp
    then have "unat (of_nat (nat \<lfloor>?r\<rfloor>) :: u64) = nat \<lfloor>?r\<rfloor>" by (simp only: unat_of_nat) simp
    moreover have "\<not> 2 ^ 64 - 1 \<le> ?r" using hi by (simp only: not_le)
    ultimately show ?thesis using False by (simp only: f64_to_u64_def if_False)
  qed
  moreover have k: "nat (int k - 1) = k - 1" "nat (int k) = k" for k by simp_all
  have "nat \<lfloor>?r\<rfloor> \<in> {unat v - 1, unat v}"
    using fl by (elim insertE emptyE) (simp_all only: k insert_iff simp_thms)
  ultimately show "unat (cast_decimal_to_coin (cast_coin_to_decimal v)) \<in> {unat v - 1, unat v}"
    unfolding eq by simp
next
  assume v: "10 ^ 6 dvd unat v \<and> unat v < 2 ^ 53"
  then obtain n where n: "unat v = 10 ^ 6 * n" by (auto elim: dvdE)
  with v have small: "n \<le> 2 ^ 53" "n * 10 ^ 6 \<le> 2 ^ 53" by simp_all
  have "f64_of_u64 v = real n * 10 ^ 6"
    using v n by (simp add: f64_of_u64_def f64_of_nat_exact)
  then have "cast_coin_to_decimal v = real n"
    by (simp add: cast_coin_to_decimal_def f64_million fdiv_def rnd_nat[OF small(1)])
  moreover have "fmul (real n) (10 ^ 6) = real (unat v)"
    using fmul_nat[OF small(2)] n by (simp add: mult.commute)
  moreover have "f64_to_u64 (real (unat v)) = v" using f64_to_u64_nat[of "unat v"] v by simp
  ultimately show "cast_decimal_to_coin (cast_coin_to_decimal v) = v"
    by (simp add: cast_decimal_to_coin_def f64_million)
qed (rule decimal_249)

theorem coin_decimal_roundtrip_witness:
  "cast_decimal_to_coin (cast_coin_to_decimal 5000000) = 5000000"
  using coin_decimal_roundtrip[of 5000000] by simp

end
