(* ===== verification/Genesis_Compare.thy ===== *)
theory Genesis_Compare
  imports Supply App_Cfg
begin

text \<open>
  The audit of a finished genesis: reading the bootstrapped database
  (\<^verbatim>\<open>src/tools/genesis/src/genesis_reader.rs\<close>, \<^verbatim>\<open>src/types/src/move_resource/coin_info.rs\<close>), comparing it with the
  recovery records (\<^verbatim>\<open>src/tools/genesis/src/compare.rs\<close>) and the audit step of \<open>build\<close>
  (\<^verbatim>\<open>src/tools/genesis/src/genesis_builder.rs\<close>).

  The vendor's database is the record \<open>db_reader\<close>: the latest state view, if there is one, with what its
  getters return per account, the latest version and the values of the state store. Event handles are
  the type variable \<open>'ev\<close>.
\<close>

section \<open>Database\<close>

record 'ev GasCoinStoreResource =
  gcs_coin :: u64
  gcs_deposit_events :: 'ev
  gcs_withdraw_events :: 'ev

record Aggregator =
  ag_handle :: account_address
  ag_key :: account_address
  ag_limit :: u128

record Integer =
  ig_value :: u128
  ig_limit :: u128

record OptionalAggregator =
  oa_aggregator :: "Aggregator option"
  oa_integer :: "Integer option"

record GasCoinInfoResource =
  gci_name :: bytes
  gci_symbol :: bytes
  gci_decimals :: u8
  gci_supply :: "OptionalAggregator option"

text \<open>A state key of the vendor: a table item or a resource path.\<close>

datatype StateKey = TableItem account_address bytes

definition Aggregator_state_key :: "Aggregator \<Rightarrow> StateKey" where
  "Aggregator_state_key self = TableItem (ag_handle self) (ag_key self)"

record 'ev state_view =
  sv_coin_store :: "account_address \<Rightarrow> 'ev GasCoinStoreResource option rres"
  sv_slow_wallet :: "account_address \<Rightarrow> SlowWalletBalance option rres"
  sv_coin_info :: "account_address \<Rightarrow> GasCoinInfoResource option rres"
  sv_validator_set :: "account_address \<Rightarrow> account_address list option rres"

record 'ev db_reader =
  db_latest_view :: "'ev state_view rres"
  db_latest_version :: "u64 rres"
  db_state_value :: "StateKey \<Rightarrow> u64 \<Rightarrow> bytes option rres"

definition total_supply :: "(bytes \<Rightarrow> u128 option) \<Rightarrow> 'ev db_reader \<Rightarrow> u128 option rres" where
  "total_supply bcs_u128 db =
     rbind (unwrap ''called Result::unwrap() on an Err value'' (db_latest_view db)) (\<lambda>view.
     rbind (unwrap ''should have move resource'' (sv_coin_info view core_code_address)) (\<lambda>info.
     rbind (or_panic ''root should have a GasCoinInfoResourcee'' info) (\<lambda>coin_info.
     rbind (unwrap ''called Result::unwrap() on an Err value'' (db_latest_version db)) (\<lambda>version.
     case gci_supply coin_info of
       None \<Rightarrow> Ok None
     | Some ag \<Rightarrow>
         (case oa_aggregator ag of
            Some aggregator \<Rightarrow>
              rbind (unwrap ''aggregator value must exist in data store''
                       (db_state_value db (Aggregator_state_key aggregator) version)) (\<lambda>v.
              rbind (or_panic ''supply value exists'' v) (\<lambda>bytes.
              rbind (or_panic ''called Result::unwrap() on an Err value'' (bcs_u128 bytes)) (\<lambda>x. Ok (Some x))))
          | None \<Rightarrow>
              rbind (or_panic ''called Option::unwrap() on a None value'' (oa_integer ag)) (\<lambda>i.
              Ok (Some (ig_value i))))))))"

definition MAX_REQUEST_LIMIT :: nat where
  "MAX_REQUEST_LIMIT = 10000"

text \<open>\<open>items\<close> is what the prefix iterator of the account yields; \<open>from_kvs\<close> builds the account state.\<close>

definition get_account_state ::
  "(account_address \<Rightarrow> 'kv list \<Rightarrow> 'st option rres) \<Rightarrow> u64 rres \<Rightarrow>
   (account_address \<Rightarrow> u64 \<Rightarrow> 'kv rres list rres) \<Rightarrow> account_address \<Rightarrow> 'st option rres" where
  "get_account_state from_kvs latest_version items acc =
     rbind latest_version (\<lambda>version.
     rbind (items acc version) (\<lambda>iter.
     rbind (rmapM (\<lambda>x. x) (take MAX_REQUEST_LIMIT iter)) (\<lambda>kvs.
     if drop MAX_REQUEST_LIMIT iter \<noteq> [] then Err ''Too many state items under state key prefix''
     else from_kvs acc kvs)))"

text \<open>
  Bootstrapping a database from the genesis transaction. The vendor's part is the record \<open>bootstrapper\<close>: the test database on
  a fresh path, the latest ledger info it has, the waypoint of the transaction on it, and the database after the
  transaction is applied. Every failure of the vendor is unwrapped, so the function returns or panics.
\<close>

record ('tx, 'ev) bootstrapper =
  bo_new_for_test :: "'ev db_reader"
  bo_latest_ledger_info :: "'ev db_reader \<Rightarrow> string option rres"
  bo_generate_waypoint :: "'ev db_reader \<Rightarrow> 'tx \<Rightarrow> string rres"
  bo_maybe_bootstrap :: "'ev db_reader \<Rightarrow> 'tx \<Rightarrow> string \<Rightarrow> 'ev db_reader rres"

definition bootstrap_db_reader_from_gen_tx ::
  "('tx, 'ev) bootstrapper \<Rightarrow> 'tx \<Rightarrow> ('ev db_reader \<times> string) rres" where
  "bootstrap_db_reader_from_gen_tx bo genesis_transaction =
     (let db_rw = bo_new_for_test bo in
      rbind (unwrap ''called Result::unwrap() on an Err value'' (bo_latest_ledger_info bo db_rw)) (\<lambda>info.
      if info \<noteq> None then Panic ''assertion failed''
      else
        rbind (unwrap ''Should not fail.'' (bo_generate_waypoint bo db_rw genesis_transaction)) (\<lambda>waypoint.
        rbind (unwrap ''called Result::unwrap() on an Err value''
                 (bo_maybe_bootstrap bo db_rw genesis_transaction waypoint)) (\<lambda>db_rw.
        Ok (db_rw, waypoint)))))"

section \<open>Comparison\<close>

record CompareError =
  ce_index :: u64
  ce_account :: "account_address option"
  ce_expected :: u64
  ce_migrated :: u64
  ce_message :: string

text \<open>The closure of the comparison on the \<open>i\<close>-th record; the state is the error list and the running
  sum of user balances.\<close>

definition compare_one ::
  "'ev db_reader \<Rightarrow> nat \<Rightarrow> ('vc, 'vo, 'ev) LegacyRecoveryV6 \<Rightarrow> CompareError list \<times> u64 \<Rightarrow>
   (CompareError list \<times> u64) rres" where
  "compare_one db i old st =
     (if r_role old = Drop then Ok st
      else case r_account old of
        None \<Rightarrow>
          Ok (fst st @ [\<lparr>ce_index = of_nat i, ce_account = None, ce_expected = 0, ce_migrated = 0,
                        ce_message = ''account is None''\<rparr>], snd st)
      | Some a \<Rightarrow>
          rbind (unwrap ''called Result::unwrap() on an Err value'' (db_latest_view db)) (\<lambda>view.
          rbind (unwrap ''should have move resource'' (sv_coin_store view a)) (\<lambda>on_chain.
          case on_chain of
            None \<Rightarrow> Ok st
          | Some on_chain_balance \<Rightarrow>
              rbind (or_panic ''should have a balance struct'' (r_balance old)) (\<lambda>old_balance.
              let errs = fst st @
                    (if gcs_coin on_chain_balance \<noteq> bal_coin old_balance
                     then [\<lparr>ce_index = of_nat i, ce_account = Some a, ce_expected = bal_coin old_balance,
                            ce_migrated = gcs_coin on_chain_balance, ce_message = ''unexpected balance''\<rparr>]
                     else []);
                  user_supply = snd st + gcs_coin on_chain_balance
              in case r_slow_wallet old of
                   None \<Rightarrow> Ok (errs, user_supply)
                 | Some old_slow \<Rightarrow>
                     rbind (unwrap ''should have a slow wallet struct'' (sv_slow_wallet view a)) (\<lambda>slow.
                     rbind (or_panic ''called Option::unwrap() on a None value'' slow) (\<lambda>new_slow.
                     let errs = errs @
                           (if unlocked new_slow \<noteq> sw_unlocked old_slow
                            then [\<lparr>ce_index = of_nat i, ce_account = Some a, ce_expected = sw_unlocked old_slow,
                                   ce_migrated = unlocked new_slow,
                                   ce_message = ''unexpected slow wallet unlocked''\<rparr>]
                            else []);
                         errs = errs @
                           (if gcs_coin on_chain_balance < unlocked new_slow
                            then [\<lparr>ce_index = of_nat i, ce_account = Some a, ce_expected = unlocked new_slow,
                                   ce_migrated = gcs_coin on_chain_balance,
                                   ce_message = ''unlocked greater than balance''\<rparr>]
                            else [])
                     in Ok (errs, user_supply)))))))"

fun compare_loop ::
  "'ev db_reader \<Rightarrow> nat \<Rightarrow> ('vc, 'vo, 'ev) LegacyRecoveryV6 list \<Rightarrow> CompareError list \<times> u64 \<Rightarrow>
   (CompareError list \<times> u64) rres" where
  "compare_loop db i [] st = Ok st"
| "compare_loop db i (old # olds) st = rbind (compare_one db i old st) (compare_loop db (Suc i) olds)"

definition compare_recovery_vec_to_genesis_tx ::
  "(account_address \<Rightarrow> string) \<Rightarrow> ('vc, 'vo, 'ev) LegacyRecoveryV6 list \<Rightarrow> 'ev db_reader \<Rightarrow> Supply \<Rightarrow>
   CompareError list rres" where
  "compare_recovery_vec_to_genesis_tx to_str recovery db supply =
     rbind (strip_system_address to_str recovery) (\<lambda>r_as_vec.
     rbind (compare_loop db 0 r_as_vec ([], 0)) (\<lambda>(err_list, user_supply).
     Ok err_list))"

record 'ev JsonDump =
  jd_account :: account_address
  jd_balance :: "'ev GasCoinStoreResource option"
  jd_slow :: "SlowWalletBalance option"

fun dump_loop ::
  "(account_address \<Rightarrow> account_address rres) \<Rightarrow> 'ev db_reader \<Rightarrow> ('vc, 'vo, 'ev) LegacyRecoveryV6 list \<Rightarrow>
   'ev JsonDump list rres" where
  "dump_loop convert db [] = Ok []"
| "dump_loop convert db (old # olds) =
     (case r_account old of
        None \<Rightarrow> dump_loop convert db olds
      | Some a \<Rightarrow>
          rbind (unwrap ''could not convert address types'' (convert a)) (\<lambda>account.
          rbind (unwrap ''called Result::unwrap() on an Err value'' (db_latest_view db)) (\<lambda>view.
          rbind (unwrap ''should have a slow wallet struct'' (sv_slow_wallet view account)) (\<lambda>slow.
          rbind (unwrap ''should have move resource'' (sv_coin_store view account)) (\<lambda>balance.
          rbind (dump_loop convert db olds) (\<lambda>rest.
          Ok (\<lparr>jd_account = account, jd_balance = balance, jd_slow = slow\<rparr> # rest)))))))"

text \<open>\<open>convert\<close> is \<open>from_hex_literal\<close> after \<open>to_hex_literal\<close>; the write panics when it fails.\<close>

definition export_account_balances ::
  "(account_address \<Rightarrow> account_address rres) \<Rightarrow> ('ev JsonDump list \<Rightarrow> string option) \<Rightarrow>
   ('vc, 'vo, 'ev) LegacyRecoveryV6 list \<Rightarrow> 'ev db_reader \<Rightarrow> (string \<Rightarrow> string) \<Rightarrow>
   (string \<rightharpoonup> string) \<Rightarrow> (string \<rightharpoonup> string) rres" where
  "export_account_balances convert to_json recovery db output_join fs =
     rbind (dump_loop convert db recovery) (\<lambda>list.
     rbind (or_panic ''called Result::unwrap() on an Err value'' (to_json list)) (\<lambda>json.
     Ok (fs(output_join ''genesis_balances.json'' \<mapsto> json))))"

definition get_val_set :: "'ev db_reader \<Rightarrow> account_address list rres" where
  "get_val_set db =
     rbind (unwrap ''called Result::unwrap() on an Err value'' (db_latest_view db)) (\<lambda>view.
     rbind (sv_validator_set view core_code_address) (\<lambda>val_set.
     or_err ''db returns None for validator set struct'' val_set))"

text \<open>\<open>get_resource\<close> is \<open>get_move_resource::<T>\<close> of the resource type.\<close>

definition get_struct ::
  "('ev state_view \<Rightarrow> account_address \<Rightarrow> 't option rres) \<Rightarrow> 'ev db_reader \<Rightarrow> account_address option \<Rightarrow> 't rres" where
  "get_struct get_resource db address =
     rbind (unwrap ''called Result::unwrap() on an Err value'' (db_latest_view db)) (\<lambda>view.
     let address = (case address of Some a \<Rightarrow> a | None \<Rightarrow> core_code_address) in
     rbind (get_resource view address) (\<lambda>resource.
     or_err ''db returns None for resource struct'' resource))"

definition check_val_set ::
  "('tx, 'ev) bootstrapper \<Rightarrow> account_address list \<Rightarrow> 'tx \<Rightarrow> unit rres" where
  "check_val_set bo expected_vals genesis_transaction =
     rbind (bootstrap_db_reader_from_gen_tx bo genesis_transaction) (\<lambda>(db, _).
     rbind (get_val_set db) (\<lambda>addrs.
     if length addrs \<noteq> length expected_vals then Panic ''validator set length mismatch''
     else if list_all (\<lambda>v. v \<in> set addrs) expected_vals then Ok ()
     else Panic ''genesis does not contain validator''))"

definition check_supply :: "(bytes \<Rightarrow> u128 option) \<Rightarrow> u64 \<Rightarrow> 'ev db_reader \<Rightarrow> unit rres" where
  "check_supply bcs_u128 expected_supply db =
     rbind (total_supply bcs_u128 db) (\<lambda>s.
     rbind (or_panic ''called Option::unwrap() on a None value'' s) (\<lambda>on_chain_supply.
     if ucast expected_supply = on_chain_supply then Ok () else Panic ''supply mismatch''))"

text \<open>The audit at the end of \<open>build\<close>: the reported lines, and the file system afterwards.\<close>

definition build_audit ::
  "(account_address \<Rightarrow> string) \<Rightarrow> (account_address \<Rightarrow> account_address rres) \<Rightarrow> ('ev JsonDump list \<Rightarrow> string option) \<Rightarrow>
   ('tx, 'ev) bootstrapper \<Rightarrow> 'tx \<Rightarrow> ('vc, 'vo, 'ev) LegacyRecoveryV6 list \<Rightarrow> (string \<Rightarrow> string) \<Rightarrow>
   (string \<rightharpoonup> string) \<Rightarrow> (string list \<times> (string \<rightharpoonup> string)) rres" where
  "build_audit to_str convert to_json bo tx legacy_recovery output_join fs =
     (if legacy_recovery \<noteq> []
      then
        rbind (bootstrap_db_reader_from_gen_tx bo tx) (\<lambda>(db, _).
        rbind (populate_supply_stats_from_legacy legacy_recovery) (\<lambda>s.
        rbind (compare_recovery_vec_to_genesis_tx to_str legacy_recovery db s) (\<lambda>_.
        rbind (export_account_balances convert to_json legacy_recovery db output_join fs) (\<lambda>fs.
        Ok ([''account balances as expected'', ''exported balances to genesis_balances.json'',
             ''final supply as expected'', ''LFG, ready for genesis''], fs)))))
      else Ok ([''LFG, ready for genesis''], fs))"

section \<open>What an empty error list means\<close>

text \<open>The chain agrees with a record: the account has a coin store with the recorded balance and, for a slow wallet, the
  recorded unlocked amount, which the balance covers.\<close>

definition agrees :: "'ev state_view \<Rightarrow> ('vc, 'vo, 'ev) LegacyRecoveryV6 \<Rightarrow> bool" where
  "agrees view old \<longleftrightarrow>
     (case r_account old of
        None \<Rightarrow> False
      | Some a \<Rightarrow>
          (case (sv_coin_store view a, r_balance old) of
             (Ok (Some c), Some b) \<Rightarrow>
               gcs_coin c = bal_coin b \<and>
               (case r_slow_wallet old of
                  None \<Rightarrow> True
                | Some w \<Rightarrow>
                    (case sv_slow_wallet view a of
                       Ok (Some n) \<Rightarrow> unlocked n = sw_unlocked w \<and> unlocked n \<le> gcs_coin c
                     | _ \<Rightarrow> False))
           | _ \<Rightarrow> False))"

text \<open>The records the comparison passes over: dropped ones, and those whose account has no coin store on the chain.\<close>

definition skipped :: "'ev state_view \<Rightarrow> ('vc, 'vo, 'ev) LegacyRecoveryV6 \<Rightarrow> bool" where
  "skipped view old \<longleftrightarrow>
     r_role old = Drop \<or> (\<exists>a. r_account old = Some a \<and> sv_coin_store view a = Ok None)"

text \<open>The records that can be compared without a panic.\<close>

definition readable :: "'ev state_view \<Rightarrow> ('vc, 'vo, 'ev) LegacyRecoveryV6 \<Rightarrow> bool" where
  "readable view old \<longleftrightarrow>
     skipped view old \<or> r_account old = None \<or>
     (\<exists>a c. r_account old = Some a \<and> sv_coin_store view a = Ok (Some c) \<and> r_balance old \<noteq> None \<and>
        (r_slow_wallet old = None \<or> (\<exists>n. sv_slow_wallet view a = Ok (Some n))))"

lemma compare_one_Ok:
  assumes "db_latest_view db = Ok view" and "compare_one db i old st = Ok st'"
  shows "\<exists>es. fst st' = fst st @ es \<and> (es = [] \<longleftrightarrow> skipped view old \<or> agrees view old) \<and>
    list_all (\<lambda>e. ce_index e = of_nat i \<and> ce_account e = r_account old) es"
proof (cases "r_role old = Drop \<or> r_account old = None")
  case True
  then show ?thesis using assms(2)
    by (cases "r_role old = Drop") (auto simp: compare_one_def agrees_def skipped_def)
next
  case False
  then obtain a where a: "r_account old = Some a" and role: "r_role old \<noteq> Drop" by auto
  note defs = compare_one_def agrees_def skipped_def assms(1) a role
  obtain oc where oc: "sv_coin_store view a = Ok oc"
    using assms(2) by (auto simp: compare_one_def assms(1) a role rust_simps)
  show ?thesis
  proof (cases oc)
    case None
    then show ?thesis using assms(2) by (simp add: defs oc)
  next
    case (Some c)
    then obtain b where b: "r_balance old = Some b"
      using assms(2) by (auto simp: compare_one_def assms(1) a role oc rust_simps)
    show ?thesis
    proof (cases "r_slow_wallet old")
      case None
      then show ?thesis using assms(2) by (auto simp: defs oc b \<open>oc = Some c\<close>)
    next
      case (Some w)
      then obtain n where n: "sv_slow_wallet view a = Ok (Some n)"
        using assms(2) by (auto simp: compare_one_def assms(1) a role oc b \<open>oc = Some c\<close> rust_simps Let_def)
      have "fst st' = fst st @
          (if gcs_coin c \<noteq> bal_coin b
           then [\<lparr>ce_index = of_nat i, ce_account = Some a, ce_expected = bal_coin b,
                  ce_migrated = gcs_coin c, ce_message = ''unexpected balance''\<rparr>] else []) @
          (if unlocked n \<noteq> sw_unlocked w
           then [\<lparr>ce_index = of_nat i, ce_account = Some a, ce_expected = sw_unlocked w,
                  ce_migrated = unlocked n, ce_message = ''unexpected slow wallet unlocked''\<rparr>] else []) @
          (if gcs_coin c < unlocked n
           then [\<lparr>ce_index = of_nat i, ce_account = Some a, ce_expected = unlocked n,
                  ce_migrated = gcs_coin c, ce_message = ''unlocked greater than balance''\<rparr>] else [])"
        using assms(2) Some
        by (clarsimp simp add: compare_one_def assms(1) a role oc b n \<open>oc = Some c\<close> Let_def split del: if_split)
      moreover have "skipped view old \<or> agrees view old \<longleftrightarrow>
          gcs_coin c = bal_coin b \<and> unlocked n = sw_unlocked w \<and> unlocked n \<le> gcs_coin c"
        by (simp add: skipped_def agrees_def a role oc b n Some \<open>oc = Some c\<close>)
      ultimately show ?thesis by (auto simp: a not_less)
    qed
  qed
qed

lemma is_ok_rbind: "is_ok (rbind r f) \<longleftrightarrow> (\<exists>x. r = Ok x \<and> is_ok (f x))"
  by (cases r) auto

lemma is_err_rbind: "is_err (rbind r f) \<longleftrightarrow> is_err r \<or> (\<exists>x. r = Ok x \<and> is_err (f x))"
  by (cases r) auto

lemma is_err_unwrap: "\<not> is_err (unwrap m r)"
  by (cases r) auto

lemma compare_one_returns:
  assumes "db_latest_view db = Ok view"
  shows "is_ok (compare_one db i old st) \<longleftrightarrow> readable view old"
proof (cases "r_role old = Drop \<or> r_account old = None")
  case True
  then show ?thesis by (auto simp: compare_one_def readable_def skipped_def split: option.splits)
next
  case False
  then obtain a where a: "r_account old = Some a" and role: "r_role old \<noteq> Drop" by auto
  show ?thesis
    by (cases "sv_coin_store view a"; cases "sv_slow_wallet view a"; cases "r_balance old"; cases "r_slow_wallet old")
      (auto simp: compare_one_def readable_def skipped_def assms a role Let_def is_ok_rbind rust_simps split: option.splits)
qed

lemma compare_loop_Ok:
  assumes "db_latest_view db = Ok view" and "compare_loop db i olds st = Ok st'"
  shows "\<exists>es. fst st' = fst st @ es \<and>
    ce_account ` set es = r_account ` {e \<in> set olds. \<not> skipped view e \<and> \<not> agrees view e}"
  using assms(2)
proof (induction olds arbitrary: i st)
  case (Cons old olds)
  then obtain st1 where st1: "compare_one db i old st = Ok st1" "compare_loop db (Suc i) olds st1 = Ok st'"
    by (auto simp: rust_simps)
  obtain es where es: "fst st1 = fst st @ es" "es = [] \<longleftrightarrow> skipped view old \<or> agrees view old"
    "list_all (\<lambda>e. ce_index e = of_nat i \<and> ce_account e = r_account old) es"
    using compare_one_Ok[OF assms(1) st1(1)] by blast
  have acc: "ce_account ` set es = (if es = [] then {} else {r_account old})"
    using es(3) by (cases es) (auto simp: list_all_iff image_iff)
  obtain fs where fs: "fst st' = fst st1 @ fs"
    "ce_account ` set fs = r_account ` {e \<in> set olds. \<not> skipped view e \<and> \<not> agrees view e}"
    using Cons.IH[OF st1(2)] by blast
  have "{e \<in> set (old # olds). \<not> skipped view e \<and> \<not> agrees view e} =
      (if es = [] then {} else {old}) \<union> {e \<in> set olds. \<not> skipped view e \<and> \<not> agrees view e}"
    using es(2) by auto
  then have "ce_account ` set (es @ fs) = r_account ` {e \<in> set (old # olds). \<not> skipped view e \<and> \<not> agrees view e}"
    by (simp only: set_append image_Un acc fs(2)) simp
  with es(1) fs(1) show ?case by (intro exI[of _ "es @ fs"]) simp
qed simp

lemma compare_loop_returns:
  assumes "db_latest_view db = Ok view"
  shows "is_ok (compare_loop db i olds st) \<longleftrightarrow> list_all (readable view) olds"
proof (induction olds arbitrary: i st)
  case (Cons old olds)
  then show ?case using compare_one_returns[OF assms, of i old st]
    by (cases "compare_one db i old st") auto
qed simp

definition system_account :: "(account_address \<Rightarrow> string) \<Rightarrow> ('vc, 'vo, 'ev) LegacyRecoveryV6 \<Rightarrow> bool" where
  "system_account to_str e \<longleftrightarrow> str_contains (to_str (the (r_account e))) system_zeros"


text \<open>A chain on which the account \<open>1\<dots>1\<close> holds 90 coins, 30 of them unlocked, and no other account has a coin store.\<close>

definition sample_view :: "unit state_view" where
  "sample_view =
     \<lparr>sv_coin_store = (\<lambda>a. Ok (if a = replicate 32 1
        then Some \<lparr>gcs_coin = 90, gcs_deposit_events = (), gcs_withdraw_events = ()\<rparr> else None)),
      sv_slow_wallet = (\<lambda>a. Ok (Some \<lparr>unlocked = 30, total = 90\<rparr>)),
      sv_coin_info = (\<lambda>a. Ok None), sv_validator_set = (\<lambda>a. Ok None)\<rparr>"

definition sample_db :: "unit db_reader" where
  "sample_db = \<lparr>db_latest_view = Ok sample_view, db_latest_version = Ok 0, db_state_value = (\<lambda>_ _. Ok None)\<rparr>"

definition sample_bootstrapper :: "('tx, unit) bootstrapper" where
  "sample_bootstrapper =
     \<lparr>bo_new_for_test = sample_db, bo_latest_ledger_info = (\<lambda>_. Ok None), bo_generate_waypoint = (\<lambda>_ _. Ok ''0:ab''),
      bo_maybe_bootstrap = (\<lambda>db _ _. Ok db)\<rparr>"

lemma sample_bootstraps: "bootstrap_db_reader_from_gen_tx sample_bootstrapper tx = Ok (sample_db, ''0:ab'')"
  by (simp add: bootstrap_db_reader_from_gen_tx_def sample_bootstrapper_def Let_def)

lemma sample_not_system: "\<not> str_contains (lower_hex (replicate 32 1)) system_zeros"
  "\<not> str_contains (lower_hex (replicate 32 2)) system_zeros"
  by code_simp+


text \<open>
  The audit step of \<open>build\<close> ignores the list the comparison returns: as soon as the comparison and the
  export run without a panic, it reports that the balances and the final supply are as
  expected, whatever errors were found and without reading the supply.
\<close>

theorem build_audit_ignores_errors:
  assumes "rs \<noteq> []" and "bootstrap_db_reader_from_gen_tx bo tx = Ok (db, wp)"
    and "compare_recovery_vec_to_genesis_tx to_str rs db (the_ok (populate_supply_stats_from_legacy rs)) = Ok errs"
    and "export_account_balances convert to_json rs db output_join fs = Ok fs'"
  shows "build_audit to_str convert to_json bo tx rs output_join fs =
    Ok ([''account balances as expected'', ''exported balances to genesis_balances.json'',
         ''final supply as expected'', ''LFG, ready for genesis''], fs')"
  using assms by (simp add: build_audit_def populate_supply_stats_from_legacy_def)

lemma sample_compare:
  "\<exists>e. compare_recovery_vec_to_genesis_tx lower_hex [sample_recovery 1 100 30] sample_db s = Ok [e] \<and>
     ce_expected e = 100 \<and> ce_migrated e = 90"
  by (simp add: compare_recovery_vec_to_genesis_tx_def sample_not_system compare_one_def sample_db_def
      sample_view_def Let_def)

theorem build_audit_ignores_errors_witness:
  "build_audit lower_hex Ok (\<lambda>_. Some []) (sample_bootstrapper :: (unit, unit) bootstrapper) () [sample_recovery 1 100 30] (\<lambda>x. x) Map.empty =
     Ok ([''account balances as expected'', ''exported balances to genesis_balances.json'',
          ''final supply as expected'', ''LFG, ready for genesis''], [''genesis_balances.json'' \<mapsto> []])"
proof -
  let ?rs = "[sample_recovery 1 100 30]"
  obtain e where "compare_recovery_vec_to_genesis_tx lower_hex ?rs sample_db
      (the_ok (populate_supply_stats_from_legacy ?rs)) = Ok [e]" using sample_compare by blast
  moreover have "export_account_balances Ok (\<lambda>_. Some []) ?rs sample_db (\<lambda>x. x) Map.empty =
      Ok [''genesis_balances.json'' \<mapsto> []]"
    by (simp add: export_account_balances_def sample_db_def sample_view_def)
  ultimately show ?thesis using sample_bootstraps by (intro build_audit_ignores_errors) simp_all
qed

text \<open>The audit of a file with a record that has no account, or of a genesis that has no waypoint, panics.\<close>

lemma bootstrap_no_err: "\<not> is_err (bootstrap_db_reader_from_gen_tx bo tx)"
  by (simp add: bootstrap_db_reader_from_gen_tx_def Let_def is_err_rbind is_err_unwrap)

lemma build_audit_panics:
  assumes "rs \<noteq> []"
    and "is_err (bo_generate_waypoint bo (bo_new_for_test bo) tx) \<or> (\<exists>e \<in> set rs. r_account e = None)"
  shows "is_panic (build_audit to_str convert to_json bo tx rs output_join fs)"
proof (cases "bootstrap_db_reader_from_gen_tx bo tx")
  case (Ok x)
  then have "\<not> is_err (bo_generate_waypoint bo (bo_new_for_test bo) tx)"
    by (cases "bo_generate_waypoint bo (bo_new_for_test bo) tx")
      (auto simp: bootstrap_db_reader_from_gen_tx_def Let_def rust_simps split: if_splits)
  with assms(2) have "is_panic (strip_system_address to_str rs)"
    by (intro strip_system_address_panics) (auto simp: list_all_iff)
  with assms(1) Ok show ?thesis
    by (cases "strip_system_address to_str rs")
      (auto simp: build_audit_def populate_supply_stats_from_legacy_def compare_recovery_vec_to_genesis_tx_def)
next
  case (Err e)
  then show ?thesis using bootstrap_no_err[of bo tx] by simp
qed (use assms(1) in \<open>simp add: build_audit_def\<close>)

end
