(* ===== verification/Storage_Folders.thy ===== *)
theory Storage_Folders
  imports Rust_Std
begin

text \<open>
  The names of archive folders (\<^verbatim>\<open>src/tools/storage/src/parse_folder_names.rs\<close>) and the choice of the folders that make
  up a restore bundle (\<^verbatim>\<open>download_bundle.rs\<close>). The answer of the GitHub API and the bytes of each file are parameters;
  downloaded files are a map from paths to contents.
\<close>

section \<open>Iterators over keyed lists\<close>

text \<open>\<open>Iterator::max_by_key\<close> keeps the last of the greatest elements, \<open>min_by_key\<close> the first of the least.\<close>

fun max_by_key :: "('a \<Rightarrow> 'k::linorder) \<Rightarrow> 'a list \<Rightarrow> 'a option" where
  "max_by_key f [] = None"
| "max_by_key f (x # xs) =
     (case max_by_key f xs of
        None \<Rightarrow> Some x
      | Some y \<Rightarrow> if f y < f x then Some x else Some y)"

fun min_by_key :: "('a \<Rightarrow> 'k::linorder) \<Rightarrow> 'a list \<Rightarrow> 'a option" where
  "min_by_key f [] = None"
| "min_by_key f (x # xs) =
     (case min_by_key f xs of
        None \<Rightarrow> Some x
      | Some y \<Rightarrow> if f y < f x then Some y else Some x)"

lemma max_by_key_None [simp]: "max_by_key f xs = None \<longleftrightarrow> xs = []"
  by (cases xs) (auto split: option.splits)

lemma max_by_key_Some: "max_by_key f xs = Some x \<Longrightarrow> x \<in> set xs \<and> (\<forall>y \<in> set xs. f y \<le> f x)"
  by (induction xs arbitrary: x) (fastforce split: option.splits if_splits)+

lemma min_by_key_None [simp]: "min_by_key f xs = None \<longleftrightarrow> xs = []"
  by (cases xs) (auto split: option.splits)

lemma min_by_key_Some: "min_by_key f xs = Some x \<Longrightarrow> x \<in> set xs \<and> (\<forall>y \<in> set xs. f x \<le> f y)"
  by (induction xs arbitrary: x) (fastforce split: option.splits if_splits)+

text \<open>\<open>Path::file_name\<close> of a path given as text.\<close>

definition file_name :: "string \<Rightarrow> string option" where
  "file_name p =
     (case filter (\<lambda>c. c \<noteq> [] \<and> c \<noteq> ''.'') (split_by (\<lambda>c. c = CHR ''/'') p) of
        [] \<Rightarrow> None
      | cs \<Rightarrow> if last cs = ''..'' then None else Some (last cs))"

section \<open>Folder names\<close>

definition parse_epoch_ending_number :: "string \<Rightarrow> u64 option" where
  "parse_epoch_ending_number folder_name =
     Option.bind (strip_prefix ''epoch_ending_'' folder_name) (\<lambda>r.
       parse_u64 (hd (split_by (\<lambda>c. c = CHR ''-'' \<or> c = CHR ''.'') r)))"

definition parse_state_epoch_info :: "string \<Rightarrow> (u64 \<times> u64) option" where
  "parse_state_epoch_info folder_name =
     (if \<not> starts_with folder_name ''state_epoch_'' then None
      else let parts = split_by (\<lambda>c. c = CHR ''_'') folder_name in
        if length parts \<noteq> 5 \<or> parts ! 3 \<noteq> ''ver'' then None
        else Option.bind (parse_u64 (parts ! 2)) (\<lambda>epoch.
               Option.bind (parse_u64 (hd (split_by (\<lambda>c. c = CHR ''.'') (parts ! 4)))) (\<lambda>version.
                 Some (epoch, version))))"

definition parse_transaction_number :: "string \<Rightarrow> u64 option" where
  "parse_transaction_number folder_name =
     Option.bind (strip_prefix ''transaction_'' folder_name) (\<lambda>r.
       parse_u64 (hd (split_by (\<lambda>c. c = CHR ''-'' \<or> c = CHR ''.'') r)))"

definition parse_state_epoch_version :: "string \<Rightarrow> u64 rres" where
  "parse_state_epoch_version folder_name =
     (let parts = split_str ''_ver_'' [] folder_name in
      if length parts \<noteq> 2 then Err ''Invalid state epoch folder format''
      else let version_str = hd (split_by (\<lambda>c. c = CHR ''.'') (parts ! 1))
           in or_err ''Failed to parse version'' (parse_u64 version_str))"

section \<open>Choosing the folders of a bundle\<close>

type_synonym folders = "(u64 \<times> string) list"

record TreeItem =
  ti_path :: string
  ti_mode :: string
  ti_item_type :: string
  ti_sha :: string
  ti_url :: "string option"

record TreeResponse =
  tr_tree :: "TreeItem list"
  tr_truncated :: bool

record EpochFolders =
  ef_epoch_ending :: string
  ef_state_epoch :: string
  ef_transaction :: string

definition find_closest_transaction_folder :: "folders \<Rightarrow> u64 \<Rightarrow> string rres" where
  "find_closest_transaction_folder transaction_folders target_version =
     (let version_below = max_by_key fst (filter (\<lambda>(version, _). version \<le> target_version) transaction_folders);
          version_above = min_by_key fst (filter (\<lambda>(version, _). version > target_version) transaction_folders) in
      case (version_below, version_above) of
        (Some (ver_below, _), Some (ver_above, _)) \<Rightarrow>
          if ver_below \<ge> ver_above then Err ''Version ordering error''
          else or_err ''No suitable transaction folder found below target version'' (map_option snd version_below)
      | _ \<Rightarrow> or_err ''No suitable transaction folder found below target version'' (map_option snd version_below))"

definition find_closest_epoch_ending :: "folders \<Rightarrow> u64 \<Rightarrow> string rres" where
  "find_closest_epoch_ending folders target =
     or_err ''No suitable epoch_ending folder found''
       (map_option snd (max_by_key fst (filter (\<lambda>(epoch, _). epoch \<le> target) folders)))"

definition find_matching_state_epoch :: "folders \<Rightarrow> u64 \<Rightarrow> string rres" where
  "find_matching_state_epoch folders target =
     (case map_option snd (find (\<lambda>(epoch, _). epoch = target) folders) of
        Some name \<Rightarrow> Ok name
      | None \<Rightarrow>
          or_err ''No suitable state_epoch folder found''
            (map_option snd (max_by_key fst (filter (\<lambda>(epoch, _). epoch < target) folders))))"

text \<open>One turn of the loop that sorts the items of the tree into the three lists, and the loop.\<close>

definition sort_folder :: "TreeItem \<Rightarrow> folders \<times> folders \<times> folders \<Rightarrow> folders \<times> folders \<times> folders" where
  "sort_folder item acc =
     (case acc of (endings, states, txs) \<Rightarrow>
      if ti_item_type item \<noteq> ''tree'' then acc
      else case file_name (ti_path item) of
             None \<Rightarrow> acc
           | Some folder_name \<Rightarrow>
               (case parse_epoch_ending_number folder_name of
                  Some epoch \<Rightarrow> (endings @ [(epoch, folder_name)], states, txs)
                | None \<Rightarrow>
                    (case parse_state_epoch_info folder_name of
                       Some (epoch, _) \<Rightarrow> (endings, states @ [(epoch, folder_name)], txs)
                     | None \<Rightarrow>
                         (case parse_transaction_number folder_name of
                            Some version \<Rightarrow> (endings, states, txs @ [(version, folder_name)])
                          | None \<Rightarrow> acc))))"

definition find_closest_epoch_folder :: "TreeResponse rres \<Rightarrow> u64 \<Rightarrow> EpochFolders rres" where
  "find_closest_epoch_folder response target_epoch =
     rbind response (\<lambda>tree_response.
     case fold sort_folder (tr_tree tree_response) ([], [], []) of
       (epoch_ending_folders, state_epoch_folders, transaction_folders) \<Rightarrow>
         if epoch_ending_folders = [] \<or> state_epoch_folders = [] \<or> transaction_folders = []
         then Err ''Could not find all required folder types''
         else
           rbind (find_closest_epoch_ending epoch_ending_folders target_epoch) (\<lambda>closest_ending.
           rbind (find_matching_state_epoch state_epoch_folders target_epoch) (\<lambda>closest_state.
           rbind (parse_state_epoch_version closest_state) (\<lambda>state_version.
           rbind (find_closest_transaction_folder transaction_folders state_version) (\<lambda>closest_transaction.
           Ok \<lparr>ef_epoch_ending = closest_ending, ef_state_epoch = closest_state,
               ef_transaction = closest_transaction\<rparr>)))))"

section \<open>Downloading\<close>

text \<open>Paths of the local disk are lists of components; \<open>get_tree\<close> and \<open>get_raw\<close> are requests by URL.\<close>

type_synonym dl_path = "string list"

record github =
  get_tree :: "string \<Rightarrow> TreeResponse rres"
  get_raw :: "string \<Rightarrow> string rres"

definition rel_components :: "string \<Rightarrow> dl_path" where
  "rel_components p = filter (\<lambda>c. c \<noteq> []) (split_by (\<lambda>c. c = CHR ''/'') p)"

fun download_items ::
  "github \<Rightarrow> (string \<Rightarrow> string) \<Rightarrow> dl_path \<Rightarrow> TreeItem list \<Rightarrow> (dl_path \<rightharpoonup> string) \<Rightarrow> unit rres \<times> (dl_path \<rightharpoonup> string)" where
  "download_items g content_url base_dir [] fs = (Ok (), fs)"
| "download_items g content_url base_dir (item # items) fs =
     (if ti_item_type item \<noteq> ''blob'' then download_items g content_url base_dir items fs
      else case get_raw g (content_url (ti_path item)) of
             Err e \<Rightarrow> (Err e, fs)
           | Panic p \<Rightarrow> (Panic p, fs)
           | Ok content \<Rightarrow>
               download_items g content_url base_dir items (fs(base_dir @ rel_components (ti_path item) \<mapsto> content)))"

definition tree_url :: "string \<Rightarrow> string \<Rightarrow> string \<Rightarrow> string \<Rightarrow> string" where
  "tree_url owner repo branch folder_path =
     ''https://api.github.com/repos/'' @ owner @ ''/'' @ repo @ ''/git/trees/'' @ branch @ '':'' @ folder_path"

definition content_url :: "string \<Rightarrow> string \<Rightarrow> string \<Rightarrow> string \<Rightarrow> string \<Rightarrow> string" where
  "content_url owner repo branch folder_path relative_path =
     ''https://raw.githubusercontent.com/'' @ owner @ ''/'' @ repo @ ''/'' @ branch @ ''/'' @ folder_path @ ''/'' @ relative_path"

definition download_github_folder ::
  "github \<Rightarrow> string \<Rightarrow> string \<Rightarrow> string \<Rightarrow> string \<Rightarrow> dl_path \<Rightarrow> (dl_path \<rightharpoonup> string) \<Rightarrow> unit rres \<times> (dl_path \<rightharpoonup> string)" where
  "download_github_folder g owner repo folder_path branch output_dir fs =
     (case get_tree g (tree_url owner repo branch folder_path @ ''?recursive=1'') of
        Err e \<Rightarrow> (Err e, fs)
      | Panic p \<Rightarrow> (Panic p, fs)
      | Ok tree_response \<Rightarrow>
          (let base_dir = output_dir @ (case file_name folder_path of Some n \<Rightarrow> [n] | None \<Rightarrow> [])
           in download_items g (content_url owner repo branch folder_path) base_dir (tr_tree tree_response) fs))"

fun download_folders ::
  "(string \<Rightarrow> (dl_path \<rightharpoonup> string) \<Rightarrow> unit rres \<times> (dl_path \<rightharpoonup> string)) \<Rightarrow> string list \<Rightarrow> (dl_path \<rightharpoonup> string) \<Rightarrow>
   unit rres \<times> (dl_path \<rightharpoonup> string)" where
  "download_folders dl [] fs = (Ok (), fs)"
| "download_folders dl (folder # folders) fs =
     (case dl (''snapshots/'' @ folder) fs of
        (Ok _, fs) \<Rightarrow> download_folders dl folders fs
      | (Err e, fs) \<Rightarrow> (Err e, fs)
      | (Panic p, fs) \<Rightarrow> (Panic p, fs))"

definition download_restore_bundle ::
  "github \<Rightarrow> string \<Rightarrow> string \<Rightarrow> string \<Rightarrow> u64 \<Rightarrow> dl_path \<Rightarrow> (dl_path \<rightharpoonup> string) \<Rightarrow> dl_path rres \<times> (dl_path \<rightharpoonup> string)" where
  "download_restore_bundle g owner repo branch epoch_num destination fs =
     (let bundle_dir = destination @ [''epoch_'' @ dec_str (unat epoch_num) @ ''_restore_bundle''] in
      case find_closest_epoch_folder (get_tree g (tree_url owner repo branch ''snapshots'')) epoch_num of
        Err e \<Rightarrow> (Err e, fs)
      | Panic p \<Rightarrow> (Panic p, fs)
      | Ok folders \<Rightarrow>
          (case download_folders (\<lambda>snapshot_path. download_github_folder g owner repo snapshot_path branch bundle_dir)
                  [ef_epoch_ending folders, ef_state_epoch folders, ef_transaction folders] fs of
             (r, fs) \<Rightarrow> (rbind r (\<lambda>_. Ok bundle_dir), fs)))"

section \<open>Names are read back\<close>

lemma not_digits [simp]: "\<not> is_digit CHR ''-''" "\<not> is_digit CHR ''.''" "\<not> is_digit CHR ''_''"
  by (simp_all add: is_digit_def)

lemma split_digits:
  assumes sep: "P c" and digits: "\<And>d. P d \<Longrightarrow> \<not> is_digit d"
  shows "split_by P (dec_str n @ c # r) = dec_str n # split_by P r"
proof -
  have "list_all (\<lambda>d. \<not> P d) (dec_str n)"
    using dec_str_digits[of n] digits by (auto simp: list_all_iff)
  from split_by_append[of P, OF this sep] show ?thesis .
qed

lemma split_after_digits [simp]:
  "split_by (\<lambda>c. c = CHR ''-'' \<or> c = CHR ''.'') (dec_str n @ CHR ''-'' # r) =
     dec_str n # split_by (\<lambda>c. c = CHR ''-'' \<or> c = CHR ''.'') r"
  "split_by (\<lambda>c. c = CHR ''.'') (dec_str n @ CHR ''.'' # r) = dec_str n # split_by (\<lambda>c. c = CHR ''.'') r"
  "split_by (\<lambda>c. c = CHR ''_'') (dec_str n @ CHR ''_'' # r) = dec_str n # split_by (\<lambda>c. c = CHR ''_'') r"
  by (rule split_digits, simp, fastforce)+

lemma parse_u64_unat [simp]: "parse_u64 (dec_str (unat (w :: u64))) = Some w"
  using unsigned_less[of w, where ?'a = nat] by simp

lemma ending_name: "parse_epoch_ending_number (''epoch_ending_'' @ dec_str (unat n) @ ''-.'' @ h) = Some n"
  by (simp add: parse_epoch_ending_number_def strip_prefix_def starts_with_def)

lemma transaction_name: "parse_transaction_number (''transaction_'' @ dec_str (unat n) @ ''-.'' @ h) = Some n"
  by (simp add: parse_transaction_number_def strip_prefix_def starts_with_def)

lemma state_name:
  assumes "CHR ''_'' \<notin> set h"
  shows "parse_state_epoch_info (''state_epoch_'' @ dec_str (unat n) @ ''_ver_'' @ dec_str (unat v) @ ''.'' @ h) = Some (n, v)"
proof -
  have "list_all (\<lambda>c. c \<noteq> CHR ''_'') (dec_str (unat v) @ ''.'' @ h)"
    using assms dec_str_digits[of "unat v"] by (auto simp: list_all_iff)
  then have "split_by (\<lambda>c. c = CHR ''_'') (dec_str (unat v) @ CHR ''.'' # h) = [dec_str (unat v) @ ''.'' @ h]"
    by (simp add: split_by_none)
  then show ?thesis by (simp add: parse_state_epoch_info_def starts_with_def Let_def)
qed

lemmas folder_parsers = parse_epoch_ending_number_def parse_state_epoch_info_def parse_transaction_number_def

lemma ending_only:
  "parse_epoch_ending_number name = Some e \<Longrightarrow> parse_state_epoch_info name = None \<and> parse_transaction_number name = None"
  by (auto simp: folder_parsers starts_with_iff strip_prefix_def split: if_splits)

lemma state_only:
  "parse_state_epoch_info name = Some e \<Longrightarrow> parse_epoch_ending_number name = None \<and> parse_transaction_number name = None"
  by (auto simp: folder_parsers starts_with_iff strip_prefix_def split: if_splits)

text \<open>
  The three kinds of folder names are recognised by their parsers: the numbers written into a name are read
  back, whatever the hash at its end, and no name belongs to two kinds.
\<close>

theorem folder_names_roundtrip:
  assumes "CHR ''_'' \<notin> set h"
  shows "parse_epoch_ending_number (''epoch_ending_'' @ dec_str (unat n) @ ''-.'' @ h) = Some n \<and>
    parse_transaction_number (''transaction_'' @ dec_str (unat n) @ ''-.'' @ h) = Some n \<and>
    parse_state_epoch_info (''state_epoch_'' @ dec_str (unat n) @ ''_ver_'' @ dec_str (unat v) @ ''.'' @ h) = Some (n, v) \<and>
    (\<forall>name. of_bool (parse_epoch_ending_number name \<noteq> None) + of_bool (parse_state_epoch_info name \<noteq> None) +
       of_bool (parse_transaction_number name \<noteq> None) \<le> (1 :: nat))"
proof -
  have "of_bool (parse_epoch_ending_number name \<noteq> None) + of_bool (parse_state_epoch_info name \<noteq> None) +
       of_bool (parse_transaction_number name \<noteq> None) \<le> (1 :: nat)" for name
    by (cases "parse_epoch_ending_number name"; cases "parse_state_epoch_info name")
      (auto dest: ending_only state_only)
  then show ?thesis using ending_name transaction_name state_name[OF assms] by blast
qed

theorem folder_names_roundtrip_witness:
  "parse_state_epoch_info (''state_epoch_'' @ dec_str (unat (173 :: u64)) @ ''_ver_'' @
     dec_str (unat (58967541 :: u64)) @ ''.'' @ ''df7d'') = Some (173, 58967541)"
  using folder_names_roundtrip[of "''df7d''" 173 58967541] by simp

section \<open>The state folder names its version\<close>

text \<open>A folder that was recognised as a state folder gives its version: the second parser never refuses it.\<close>

lemma state_epoch_version:
  assumes "parse_state_epoch_info name = Some (e, v)"
  shows "parse_state_epoch_version name = Ok v"
proof -
  let ?us = "\<lambda>c. c = CHR ''_''"
  from assms obtain r where name: "name = ''state_epoch_'' @ r"
    by (auto simp: parse_state_epoch_info_def starts_with_iff split: if_splits)
  then have split: "split_by ?us name = ''state'' # ''epoch'' # split_by ?us r" by simp
  with assms have len: "length (split_by ?us r) = 3" and ver: "split_by ?us r ! 1 = ''ver''"
    by (auto simp: parse_state_epoch_info_def Let_def split: if_splits)
  then obtain p2 p4 where parts: "split_by ?us r = [p2, ''ver'', p4]"
    by (auto simp: numeral_3_eq_3 length_Suc_conv)
  with assms split have p2: "parse_u64 p2 = Some e" and p4: "parse_u64 (hd (split_by (\<lambda>c. c = CHR ''.'') p4)) = Some v"
    by (auto simp: parse_state_epoch_info_def Let_def bind_eq_Some_conv split: if_splits)
  from join_split_by[of "CHR ''_''" r] parts have r: "r = p2 @ ''_ver_'' @ p4" by simp
  from split_by_pieces[of _ ?us r] parts have free: "CHR ''_'' \<notin> set p2" "CHR ''_'' \<notin> set p4"
    by (auto simp: list_all_iff)
  have "p2 \<noteq> ''ver''" using p2 by (auto simp: parse_u64_def is_digit_def)
  with free(1) have "take 4 (p2 @ ''_ver_'' @ p4) \<noteq> ''ver_''"
    by (cases p2; cases "tl p2"; cases "tl (tl p2)"; cases "tl (tl (tl p2))") auto
  then have "split_str ''_ver_'' ''state_epoch'' (''_'' @ p2 @ ''_ver_'' @ p4) =
      split_str ''_ver_'' (''state_epoch_'') (p2 @ ''_ver_'' @ p4)"
    by (simp add: starts_with_def eval_nat_numeral)
  moreover have "split_str ''_ver_'' [] name = split_str ''_ver_'' ''state_epoch'' (''_'' @ p2 @ ''_ver_'' @ p4)"
    by (simp add: name r starts_with_def)
  ultimately have "split_str ''_ver_'' [] name = [''state_epoch_'' @ p2, p4]"
    using free by (simp add: split_str_skip split_str_end starts_with_def)
  then show ?thesis using p4 by (simp add: parse_state_epoch_version_def)
qed

section \<open>The chosen folders\<close>

text \<open>The directories of the tree, and those of each kind with their number.\<close>

definition folder_names :: "TreeItem list \<Rightarrow> string list" where
  "folder_names items =
     List.map_filter (\<lambda>i. if ti_item_type i = ''tree'' then file_name (ti_path i) else None) items"

definition keyed :: "(string \<Rightarrow> u64 option) \<Rightarrow> string list \<Rightarrow> folders" where
  "keyed parse names = List.map_filter (\<lambda>n. map_option (\<lambda>e. (e, n)) (parse n)) names"

lemma keyed_simps [simp]:
  "keyed parse [] = []"
  "keyed parse (n # ns) = (case parse n of None \<Rightarrow> keyed parse ns | Some e \<Rightarrow> (e, n) # keyed parse ns)"
  by (simp_all add: keyed_def map_filter_simps split: option.splits)

lemma set_keyed [simp]: "(e, n) \<in> set (keyed parse ns) \<longleftrightarrow> n \<in> set ns \<and> parse n = Some e"
  by (induction ns) (auto split: option.splits)

abbreviation state_epoch :: "string \<Rightarrow> u64 option" where
  "state_epoch n \<equiv> map_option fst (parse_state_epoch_info n)"

lemma sort_folders:
  "fold sort_folder items (a, b, c) =
     (a @ keyed parse_epoch_ending_number (folder_names items), b @ keyed state_epoch (folder_names items),
      c @ keyed parse_transaction_number (folder_names items))"
proof (induction items arbitrary: a b c)
  case (Cons i items)
  show ?case
  proof (cases "if ti_item_type i = ''tree'' then file_name (ti_path i) else None")
    case None
    then have "sort_folder i (a, b, c) = (a, b, c)" by (auto simp: sort_folder_def split: if_splits)
    with None Cons show ?thesis by (simp add: folder_names_def map_filter_simps)
  next
    case (Some n)
    then have i: "ti_item_type i = ''tree''" "file_name (ti_path i) = Some n" by (auto split: if_splits)
    then have names: "folder_names (i # items) = n # folder_names items"
      by (simp add: folder_names_def map_filter_simps)
    from i show ?thesis
      using ending_only[of n] state_only[of n]
      by (cases "parse_epoch_ending_number n"; cases "parse_state_epoch_info n"; cases "parse_transaction_number n")
        (auto simp: names Cons sort_folder_def[of i])
  qed
qed (simp add: folder_names_def map_filter_simps)

text \<open>\<open>name\<close> carries the greatest number \<open>k\<close> that does not exceed the target among the folders of its kind.\<close>

definition closest :: "(string \<Rightarrow> u64 option) \<Rightarrow> string list \<Rightarrow> u64 \<Rightarrow> string \<Rightarrow> u64 \<Rightarrow> bool" where
  "closest parse names target name k \<longleftrightarrow>
     name \<in> set names \<and> parse name = Some k \<and> k \<le> target \<and>
     (\<forall>n \<in> set names. \<forall>k'. parse n = Some k' \<and> k' \<le> target \<longrightarrow> k' \<le> k)"

lemma max_below:
  assumes "max_by_key fst (filter (\<lambda>(k, _). k \<le> target) (keyed parse names)) = Some (k, name)"
  shows "closest parse names target name k"
  using max_by_key_Some[OF assms] by (fastforce simp: closest_def)

lemma epoch_ending_closest:
  "find_closest_epoch_ending (keyed parse names) target = Ok name \<Longrightarrow> \<exists>k. closest parse names target name k"
  by (auto simp: find_closest_epoch_ending_def rust_simps dest: max_below)

lemma state_epoch_closest:
  assumes "find_matching_state_epoch (keyed parse names) target = Ok name"
  shows "\<exists>k. closest parse names target name k"
proof (cases "find (\<lambda>(e, _). e = target) (keyed parse names)")
  case None
  with assms obtain k where
    "max_by_key fst (filter (\<lambda>(e, _). e < target) (keyed parse names)) = Some (k, name)"
    by (auto simp: find_matching_state_epoch_def rust_simps)
  moreover from None have "filter (\<lambda>(e, _). e < target) (keyed parse names) =
      filter (\<lambda>(e, _). e \<le> target) (keyed parse names)"
    by (intro filter_cong) (auto simp: find_None_iff order.order_iff_strict)
  ultimately show ?thesis using max_below by metis
next
  case (Some x)
  with assms have "(target, name) \<in> set (keyed parse names)"
    by (auto simp: find_matching_state_epoch_def find_Some_iff in_set_conv_nth)
  then show ?thesis by (auto simp: closest_def)
qed

lemma transaction_closest:
  assumes "find_closest_transaction_folder (keyed parse names) target = Ok name"
  shows "\<exists>k. closest parse names target name k"
proof -
  from assms obtain k where
    "max_by_key fst (filter (\<lambda>(v, _). v \<le> target) (keyed parse names)) = Some (k, name)"
    by (auto simp: find_closest_transaction_folder_def Let_def rust_simps split: option.splits if_splits)
  from max_below[OF this] show ?thesis by blast
qed

text \<open>The check of the version ordering never fires: a chosen folder is below every folder above the target.\<close>

lemma transaction_found:
  assumes "(k, n) \<in> set fs" and "k \<le> target"
  shows "\<exists>name. find_closest_transaction_folder fs target = Ok name"
proof -
  have "filter (\<lambda>(v, _). v \<le> target) fs \<noteq> []" using assms by (force simp: filter_empty_conv)
  then obtain b bn where b: "max_by_key fst (filter (\<lambda>(v, _). v \<le> target) fs) = Some (b, bn)"
    by (metis max_by_key_None not_None_eq prod.collapse)
  have "b < a" if "min_by_key fst (filter (\<lambda>(v, _). target < v) fs) = Some (a, an)" for a an
    using max_by_key_Some[OF b] min_by_key_Some[OF that] by auto
  with b show ?thesis
    by (auto simp: find_closest_transaction_folder_def Let_def not_le split: option.splits)
qed

lemma epoch_ending_found:
  assumes "(k, n) \<in> set fs" and "k \<le> target"
  shows "\<exists>name. find_closest_epoch_ending fs target = Ok name"
proof -
  have "filter (\<lambda>(v, _). v \<le> target) fs \<noteq> []" using assms by (force simp: filter_empty_conv)
  then show ?thesis
    by (cases "max_by_key fst (filter (\<lambda>(v, _). v \<le> target) fs)") (auto simp: find_closest_epoch_ending_def)
qed

lemma state_epoch_found:
  assumes "(k, n) \<in> set fs" and "k \<le> target"
  shows "\<exists>name. find_matching_state_epoch fs target = Ok name"
proof (cases "find (\<lambda>(e, _). e = target) fs")
  case None
  with assms have "filter (\<lambda>(e, _). e < target) fs \<noteq> []"
    by (force simp: find_None_iff filter_empty_conv order.order_iff_strict)
  then show ?thesis
    by (cases "max_by_key fst (filter (\<lambda>(e, _). e < target) fs)") (auto simp: find_matching_state_epoch_def None)
qed (simp add: find_matching_state_epoch_def)

definition closest_bundle :: "string list \<Rightarrow> u64 \<Rightarrow> EpochFolders \<Rightarrow> bool" where
  "closest_bundle names target f \<longleftrightarrow>
     (\<exists>e s v t. closest parse_epoch_ending_number names target (ef_epoch_ending f) e \<and>
        closest state_epoch names target (ef_state_epoch f) s \<and>
        parse_state_epoch_info (ef_state_epoch f) = Some (s, v) \<and>
        closest parse_transaction_number names v (ef_transaction f) t)"

definition bundle_available :: "string list \<Rightarrow> u64 \<Rightarrow> bool" where
  "bundle_available names target \<longleftrightarrow>
     (\<exists>n \<in> set names. \<exists>e. parse_epoch_ending_number n = Some e \<and> e \<le> target) \<and>
     (\<exists>n \<in> set names. \<exists>e v. parse_state_epoch_info n = Some (e, v) \<and> e \<le> target) \<and>
     (\<exists>n \<in> set names. \<exists>t. parse_transaction_number n = Some t \<and>
        (\<forall>m \<in> set names. \<forall>e v. parse_state_epoch_info m = Some (e, v) \<longrightarrow> t \<le> v))"

lemma find_closest_epoch_folder_Ok:
  assumes "find_closest_epoch_folder (Ok tr) target = Ok f"
  shows "closest_bundle (folder_names (tr_tree tr)) target f"
proof -
  let ?names = "folder_names (tr_tree tr)"
  from assms obtain v where
    ending: "find_closest_epoch_ending (keyed parse_epoch_ending_number ?names) target = Ok (ef_epoch_ending f)"
    and state: "find_matching_state_epoch (keyed state_epoch ?names) target = Ok (ef_state_epoch f)"
    and version: "parse_state_epoch_version (ef_state_epoch f) = Ok v"
    and tx: "find_closest_transaction_folder (keyed parse_transaction_number ?names) v = Ok (ef_transaction f)"
    by (auto simp: find_closest_epoch_folder_def sort_folders rust_simps split: if_splits)
  from state_epoch_closest[OF state] obtain s where s: "closest state_epoch ?names target (ef_state_epoch f) s" ..
  then obtain v' where "parse_state_epoch_info (ef_state_epoch f) = Some (s, v')" by (auto simp: closest_def)
  with version state_epoch_version have "parse_state_epoch_info (ef_state_epoch f) = Some (s, v)" by fastforce
  with s epoch_ending_closest[OF ending] transaction_closest[OF tx] show ?thesis
    unfolding closest_bundle_def by blast
qed

lemma find_closest_epoch_folder_finds:
  assumes "bundle_available (folder_names (tr_tree tr)) target"
  shows "is_ok (find_closest_epoch_folder (Ok tr) target)"
proof -
  let ?names = "folder_names (tr_tree tr)"
  from assms have "\<exists>n \<in> set ?names. \<exists>e. parse_epoch_ending_number n = Some e \<and> e \<le> target"
    unfolding bundle_available_def by (rule conjunct1)
  then obtain n1 e where e: "(e, n1) \<in> set (keyed parse_epoch_ending_number ?names)" "e \<le> target" by auto
  from assms have "\<exists>n \<in> set ?names. \<exists>e v. parse_state_epoch_info n = Some (e, v) \<and> e \<le> target"
    unfolding bundle_available_def by (elim conjE)
  then obtain n2 s where s: "(s, n2) \<in> set (keyed state_epoch ?names)" "s \<le> target" by auto
  from assms have "\<exists>n \<in> set ?names. \<exists>t. parse_transaction_number n = Some t \<and>
      (\<forall>m \<in> set ?names. \<forall>e v. parse_state_epoch_info m = Some (e, v) \<longrightarrow> t \<le> v)"
    unfolding bundle_available_def by (elim conjE)
  then obtain n3 t where t: "(t, n3) \<in> set (keyed parse_transaction_number ?names)"
    and below: "\<forall>m \<in> set ?names. \<forall>e v. parse_state_epoch_info m = Some (e, v) \<longrightarrow> t \<le> v"
    unfolding set_keyed by blast
  from epoch_ending_found[OF e] state_epoch_found[OF s] obtain ending state where
    found: "find_closest_epoch_ending (keyed parse_epoch_ending_number ?names) target = Ok ending"
      "find_matching_state_epoch (keyed state_epoch ?names) target = Ok state" by blast
  from state_epoch_closest[OF found(2)] obtain s' v' where
    "state \<in> set ?names" "parse_state_epoch_info state = Some (s', v')" by (auto simp: closest_def)
  with below state_epoch_version have v': "parse_state_epoch_version state = Ok v'" "t \<le> v'" by auto
  from transaction_found[OF t v'(2)] obtain tx where
    "find_closest_transaction_folder (keyed parse_transaction_number ?names) v' = Ok tx" ..
  moreover have "keyed parse_epoch_ending_number ?names \<noteq> []" "keyed state_epoch ?names \<noteq> []"
    "keyed parse_transaction_number ?names \<noteq> []"
    using e(1) s(1) t by (metis empty_iff empty_set)+
  ultimately show ?thesis
    using found v' by (simp add: find_closest_epoch_folder_def sort_folders)
qed


definition ref_item :: "string \<Rightarrow> TreeItem" where
  "ref_item p = \<lparr>ti_path = p, ti_mode = ''040000'', ti_item_type = ''tree'', ti_sha = [], ti_url = None\<rparr>"

definition ref_tree :: TreeResponse where
  "ref_tree = \<lparr>tr_tree = map ref_item [''epoch_ending_30-.0338'', ''state_epoch_29_ver_64.0f7c'', ''epoch_ending_29-.a'',
      ''transaction_60-.58b4'', ''transaction_65-.58b4''], tr_truncated = False\<rparr>"

lemma ref_names: "folder_names (tr_tree ref_tree) =
   [''epoch_ending_30-.0338'', ''state_epoch_29_ver_64.0f7c'', ''epoch_ending_29-.a'', ''transaction_60-.58b4'',
    ''transaction_65-.58b4'']"
  by (simp add: folder_names_def ref_tree_def ref_item_def map_filter_simps file_name_def)

lemma ref_state: "parse_state_epoch_info ''state_epoch_29_ver_64.0f7c'' = Some (29, 64)"
  by (simp add: parse_state_epoch_info_def starts_with_def Let_def parse_u64_def is_digit_def digits_val_def)

lemma ref_parsers:
  "parse_epoch_ending_number ''epoch_ending_30-.0338'' = Some 30"
  "parse_epoch_ending_number ''state_epoch_29_ver_64.0f7c'' = None"
  "parse_epoch_ending_number ''epoch_ending_29-.a'' = Some 29"
  "parse_epoch_ending_number ''transaction_60-.58b4'' = None"
  "parse_epoch_ending_number ''transaction_65-.58b4'' = None"
  "parse_state_epoch_info ''epoch_ending_30-.0338'' = None"
  "parse_state_epoch_info ''epoch_ending_29-.a'' = None"
  "parse_state_epoch_info ''transaction_60-.58b4'' = None"
  "parse_state_epoch_info ''transaction_65-.58b4'' = None"
  "parse_transaction_number ''epoch_ending_30-.0338'' = None"
  "parse_transaction_number ''state_epoch_29_ver_64.0f7c'' = None"
  "parse_transaction_number ''epoch_ending_29-.a'' = None"
  "parse_transaction_number ''transaction_60-.58b4'' = Some 60"
  "parse_transaction_number ''transaction_65-.58b4'' = Some 65"
  by (simp_all add: folder_parsers strip_prefix_def starts_with_def Let_def parse_u64_def is_digit_def digits_val_def)

definition ref_folders :: EpochFolders where
  "ref_folders = \<lparr>ef_epoch_ending = ''epoch_ending_30-.0338'', ef_state_epoch = ''state_epoch_29_ver_64.0f7c'',
      ef_transaction = ''transaction_60-.58b4''\<rparr>"

lemma ref_found: "find_closest_epoch_folder (Ok ref_tree) 30 = Ok ref_folders"
  using state_epoch_version[OF ref_state]
  by (simp add: find_closest_epoch_folder_def sort_folders ref_names ref_parsers ref_state ref_folders_def
      find_closest_epoch_ending_def find_matching_state_epoch_def find_closest_transaction_folder_def)


section \<open>The downloaded bundle\<close>

definition is_blob :: "TreeItem \<Rightarrow> bool" where
  "is_blob item \<longleftrightarrow> ti_item_type item = ''blob''"

definition blob_paths :: "TreeItem list \<Rightarrow> dl_path list" where
  "blob_paths items = map (\<lambda>i. rel_components (ti_path i)) (filter is_blob items)"

lemma download_items_frame:
  "p \<notin> (@) base_dir ` set (blob_paths items) \<Longrightarrow> snd (download_items g url base_dir items fs) p = fs p"
  by (induction items arbitrary: fs) (auto simp: blob_paths_def is_blob_def split: rres.splits)

lemma download_items_Ok:
  assumes "download_items g url base_dir items fs = (Ok u, fs')" and "distinct (blob_paths items)"
    and "item \<in> set items" and "is_blob item"
  shows "\<exists>content. get_raw g (url (ti_path item)) = Ok content \<and>
    fs' (base_dir @ rel_components (ti_path item)) = Some content"
  using assms
proof (induction items arbitrary: fs)
  case (Cons i items)
  show ?case
  proof (cases "is_blob i")
    case True
    with Cons.prems(1) obtain content where content: "get_raw g (url (ti_path i)) = Ok content"
      "download_items g url base_dir items (fs(base_dir @ rel_components (ti_path i) \<mapsto> content)) = (Ok u, fs')"
      by (auto simp: is_blob_def split: rres.splits)
    from True Cons.prems(2) have new: "rel_components (ti_path i) \<notin> set (blob_paths items)"
      and dist: "distinct (blob_paths items)" by (auto simp: blob_paths_def)
    show ?thesis
    proof (cases "item \<in> set items")
      case True
      with Cons.IH[OF content(2) dist] Cons.prems(4) show ?thesis by simp
    next
      case False
      with Cons.prems(3) have "item = i" by simp
      moreover from new have "base_dir @ rel_components (ti_path i) \<notin> (@) base_dir ` set (blob_paths items)" by auto
      from download_items_frame[OF this] content(2)
      have "fs' (base_dir @ rel_components (ti_path i)) = Some content" by (metis fun_upd_same snd_conv)
      ultimately show ?thesis using content(1) by simp
    qed
  next
    case False
    with Cons show ?thesis by (auto simp: is_blob_def blob_paths_def)
  qed
qed simp

lemma file_name_snapshot: "file_name p = Some n \<Longrightarrow> file_name (''snapshots/'' @ n) = Some n"
proof -
  assume n: "file_name p = Some n"
  then have "n \<in> set (filter (\<lambda>c. c \<noteq> [] \<and> c \<noteq> ''.'') (split_by (\<lambda>c. c = CHR ''/'') p))" and "n \<noteq> ''..''"
    by (auto simp: file_name_def simp del: set_filter split: list.splits if_splits intro: last_in_set)
  then have n: "n \<noteq> []" "n \<noteq> ''.''" "n \<noteq> ''..''" "list_all (\<lambda>c. c \<noteq> CHR ''/'') n"
    using split_by_pieces[of n "\<lambda>c. c = CHR ''/''" p] by auto
  from split_by_none[OF n(4)] n(1-3) show ?thesis by (simp add: file_name_def)
qed

lemma folder_names_file_name: "n \<in> set (folder_names items) \<Longrightarrow> \<exists>p. file_name p = Some n"
  by (induction items) (auto simp: folder_names_def map_filter_simps split: option.splits if_splits)

text \<open>Every blob of the folder lies at its place below the bundle directory.\<close>

definition folder_present ::
  "github \<Rightarrow> string \<Rightarrow> string \<Rightarrow> string \<Rightarrow> dl_path \<Rightarrow> string \<Rightarrow> (dl_path \<rightharpoonup> string) \<Rightarrow> bool" where
  "folder_present g owner repo branch dir f fs \<longleftrightarrow>
     (\<exists>tr. get_tree g (tree_url owner repo branch (''snapshots/'' @ f) @ ''?recursive=1'') = Ok tr \<and>
       (\<forall>item \<in> set (tr_tree tr). is_blob item \<longrightarrow>
         (\<exists>content. get_raw g (content_url owner repo branch (''snapshots/'' @ f) (ti_path item)) = Ok content \<and>
           fs (dir @ f # rel_components (ti_path item)) = Some content)))"

lemma folder_present_cong:
  "(\<And>r. fs (dir @ f # r) = fs' (dir @ f # r)) \<Longrightarrow>
   folder_present g owner repo branch dir f fs = folder_present g owner repo branch dir f fs'"
  by (simp add: folder_present_def)

lemma download_github_folder_Ok:
  assumes "download_github_folder g owner repo (''snapshots/'' @ f) branch dir fs = (Ok u, fs')"
    and "\<And>url tr. get_tree g url = Ok tr \<Longrightarrow> distinct (blob_paths (tr_tree tr))"
    and "file_name (''snapshots/'' @ f) = Some f"
  shows "folder_present g owner repo branch dir f fs' \<and> (\<forall>f' r. f' \<noteq> f \<longrightarrow> fs' (dir @ f' # r) = fs (dir @ f' # r))"
proof -
  from assms(1,3) obtain tr where
    tr: "get_tree g (tree_url owner repo branch (''snapshots/'' @ f) @ ''?recursive=1'') = Ok tr"
    and dl: "download_items g (content_url owner repo branch (''snapshots/'' @ f)) (dir @ [f]) (tr_tree tr) fs = (Ok u, fs')"
    by (auto simp: download_github_folder_def split: rres.splits)
  have "folder_present g owner repo branch dir f fs'"
    using tr download_items_Ok[OF dl assms(2)[OF tr]] by (auto simp: folder_present_def)
  moreover have "fs' (dir @ f' # r) = fs (dir @ f' # r)" if "f' \<noteq> f" for f' r
    using download_items_frame[of "dir @ f' # r" "dir @ [f]" "tr_tree tr" g
        "content_url owner repo branch (''snapshots/'' @ f)" fs] that dl by auto
  ultimately show ?thesis by blast
qed

lemma download_folders_Ok:
  assumes "download_folders (\<lambda>p. download_github_folder g owner repo p branch dir) folders fs = (Ok u, fs')"
    and "\<And>url tr. get_tree g url = Ok tr \<Longrightarrow> distinct (blob_paths (tr_tree tr))"
    and "\<And>f. f \<in> set folders \<Longrightarrow> file_name (''snapshots/'' @ f) = Some f" and "distinct folders"
  shows "(\<forall>f \<in> set folders. folder_present g owner repo branch dir f fs') \<and>
    (\<forall>f' r. f' \<notin> set folders \<longrightarrow> fs' (dir @ f' # r) = fs (dir @ f' # r))"
  using assms(1,3,4)
proof (induction folders arbitrary: fs)
  case (Cons f folders)
  from Cons.prems(1) obtain u' fs1 where
    one: "download_github_folder g owner repo (''snapshots/'' @ f) branch dir fs = (Ok u', fs1)"
    and rest: "download_folders (\<lambda>p. download_github_folder g owner repo p branch dir) folders fs1 = (Ok u, fs')"
    by (auto split: prod.splits rres.splits)
  have f: "file_name (''snapshots/'' @ f) = Some f" using Cons.prems(2) by simp
  note here = download_github_folder_Ok[OF one assms(2) f]
  have IH: "(\<forall>f \<in> set folders. folder_present g owner repo branch dir f fs') \<and>
      (\<forall>f' r. f' \<notin> set folders \<longrightarrow> fs' (dir @ f' # r) = fs1 (dir @ f' # r))"
    using Cons.IH[OF rest] Cons.prems(2,3) by simp
  moreover from IH Cons.prems(3) have "fs' (dir @ f # r) = fs1 (dir @ f # r)" for r by simp
  then have "folder_present g owner repo branch dir f fs' = folder_present g owner repo branch dir f fs1"
    by (rule folder_present_cong)
  with conjunct1[OF here] have "folder_present g owner repo branch dir f fs'" by (rule iffD2[rotated])
  ultimately show ?case using conjunct2[OF here] by simp
qed simp

lemma closest_bundle_distinct:
  assumes "closest_bundle names target f"
  shows "distinct [ef_epoch_ending f, ef_state_epoch f, ef_transaction f] \<and>
    {ef_epoch_ending f, ef_state_epoch f, ef_transaction f} \<subseteq> set names"
proof -
  from assms have "ef_epoch_ending f \<in> set names" "ef_state_epoch f \<in> set names" "ef_transaction f \<in> set names"
    and kinds: "\<exists>e. parse_epoch_ending_number (ef_epoch_ending f) = Some e"
      "\<exists>s. parse_state_epoch_info (ef_state_epoch f) = Some s"
      "\<exists>t. parse_transaction_number (ef_transaction f) = Some t"
    unfolding closest_bundle_def closest_def by blast+
  moreover from kinds have "ef_epoch_ending f \<noteq> ef_state_epoch f" "ef_epoch_ending f \<noteq> ef_transaction f"
    "ef_state_epoch f \<noteq> ef_transaction f" by (auto dest: ending_only state_only)
  ultimately show ?thesis by simp
qed

text \<open>
  When \<open>download_restore_bundle\<close> succeeds, its directory holds the folders closest to the epoch, each
  complete: every file GitHub lists for it is there with the content GitHub gave.
\<close>

theorem download_restore_bundle_complete:
  assumes "download_restore_bundle g owner repo branch epoch_num destination fs = (Ok dir, fs')"
    and "\<And>url tr. get_tree g url = Ok tr \<Longrightarrow> distinct (blob_paths (tr_tree tr))"
  shows "\<exists>tr f. get_tree g (tree_url owner repo branch ''snapshots'') = Ok tr \<and>
    closest_bundle (folder_names (tr_tree tr)) epoch_num f \<and>
    (\<forall>x \<in> {ef_epoch_ending f, ef_state_epoch f, ef_transaction f}. folder_present g owner repo branch dir x fs')"
proof -
  from assms(1) obtain f u where
    found: "find_closest_epoch_folder (get_tree g (tree_url owner repo branch ''snapshots'')) epoch_num = Ok f"
    and dl: "download_folders (\<lambda>p. download_github_folder g owner repo p branch dir)
      [ef_epoch_ending f, ef_state_epoch f, ef_transaction f] fs = (Ok u, fs')"
    by (auto simp: download_restore_bundle_def Let_def rust_simps simp del: download_folders.simps
        split: rres.splits prod.splits)
  from found obtain tr where tr: "get_tree g (tree_url owner repo branch ''snapshots'') = Ok tr"
    by (auto simp: find_closest_epoch_folder_def rust_simps)
  with found have closest: "closest_bundle (folder_names (tr_tree tr)) epoch_num f"
    using find_closest_epoch_folder_Ok by simp
  from closest_bundle_distinct[OF this] have "file_name (''snapshots/'' @ x) = Some x"
    if "x \<in> set [ef_epoch_ending f, ef_state_epoch f, ef_transaction f]" for x
    using that folder_names_file_name[of x "tr_tree tr"] file_name_snapshot[of _ x] by auto
  from download_folders_Ok[OF dl assms(2) this] closest_bundle_distinct[OF closest]
  have "\<forall>x \<in> {ef_epoch_ending f, ef_state_epoch f, ef_transaction f}. folder_present g owner repo branch dir x fs'"
    by simp
  with tr closest show ?thesis by blast
qed

definition ref_github :: github where
  "ref_github =
     \<lparr>get_tree = (\<lambda>url. if url = tree_url ''o'' ''r'' ''b'' ''snapshots'' then Ok ref_tree
        else Ok \<lparr>tr_tree = [(ref_item ''m'')\<lparr>ti_item_type := ''blob''\<rparr>], tr_truncated = False\<rparr>),
      get_raw = (\<lambda>_. Ok ''{}'')\<rparr>"

lemma ref_github_folder:
  "\<exists>fs'. download_github_folder ref_github ''o'' ''r'' (''snapshots/'' @ f) ''b'' dir fs = (Ok (), fs')"
proof -
  have "get_tree ref_github (tree_url ''o'' ''r'' ''b'' (''snapshots/'' @ f) @ ''?recursive=1'') =
      Ok \<lparr>tr_tree = [(ref_item ''m'')\<lparr>ti_item_type := ''blob''\<rparr>], tr_truncated = False\<rparr>"
    by (simp add: ref_github_def tree_url_def)
  then show ?thesis unfolding download_github_folder_def by (simp add: ref_item_def Let_def) (simp add: ref_github_def)
qed

lemma ref_download:
  "\<exists>dir fs'. download_restore_bundle ref_github ''o'' ''r'' ''b'' 30 [''data''] Map.empty = (Ok dir, fs')"
proof -
  define d where "d = [''data'', ''epoch_'' @ dec_str 30 @ ''_restore_bundle'']"
  note dl = ref_github_folder[where dir = d]
  obtain fs1 where 1: "download_github_folder ref_github ''o'' ''r'' (''snapshots/'' @ ef_epoch_ending ref_folders) ''b'' d
      Map.empty = (Ok (), fs1)" using dl by blast
  obtain fs2 where 2: "download_github_folder ref_github ''o'' ''r'' (''snapshots/'' @ ef_state_epoch ref_folders) ''b'' d
      fs1 = (Ok (), fs2)" using dl by blast
  obtain fs3 where 3: "download_github_folder ref_github ''o'' ''r'' (''snapshots/'' @ ef_transaction ref_folders) ''b'' d
      fs2 = (Ok (), fs3)" using dl by blast
  have "get_tree ref_github (tree_url ''o'' ''r'' ''b'' ''snapshots'') = Ok ref_tree" by (simp add: ref_github_def)
  with 1 2 3 have "download_restore_bundle ref_github ''o'' ''r'' ''b'' 30 [''data''] Map.empty = (Ok d, fs3)"
    by (simp add: download_restore_bundle_def ref_found d_def)
  then show ?thesis by blast
qed

theorem download_restore_bundle_complete_witness:
  "\<exists>dir fs'. download_restore_bundle ref_github ''o'' ''r'' ''b'' 30 [''data''] Map.empty = (Ok dir, fs') \<and>
     (\<exists>tr f. get_tree ref_github (tree_url ''o'' ''r'' ''b'' ''snapshots'') = Ok tr \<and>
        closest_bundle (folder_names (tr_tree tr)) 30 f \<and>
        (\<forall>x \<in> {ef_epoch_ending f, ef_state_epoch f, ef_transaction f}.
           folder_present ref_github ''o'' ''r'' ''b'' dir x fs'))"
proof -
  obtain dir fs' where dl: "download_restore_bundle ref_github ''o'' ''r'' ''b'' 30 [''data''] Map.empty = (Ok dir, fs')"
    using ref_download by blast
  moreover have "\<exists>tr f. get_tree ref_github (tree_url ''o'' ''r'' ''b'' ''snapshots'') = Ok tr \<and>
      closest_bundle (folder_names (tr_tree tr)) 30 f \<and>
      (\<forall>x \<in> {ef_epoch_ending f, ef_state_epoch f, ef_transaction f}. folder_present ref_github ''o'' ''r'' ''b'' dir x fs')"
    by (rule download_restore_bundle_complete[OF dl])
      (auto simp: ref_github_def ref_tree_def ref_item_def blob_paths_def is_blob_def split: if_splits)
  ultimately show ?thesis by blast
qed

end
