(* ===== verification/Storage_Restore.thy ===== *)
theory Storage_Restore
  imports Storage_Folders BTree_Map Json
begin

text \<open>
  Restoring a database from a bundle (\<^verbatim>\<open>src/tools/storage/src/restore_bundle.rs\<close>, \<^verbatim>\<open>restore.rs\<close>, \<^verbatim>\<open>dbtool_init.rs\<close> and
  \<^verbatim>\<open>bootstrap.rs\<close>).

  The disk is a record of files in path order and of directories. Third-party code is the record \<open>restore_vendor\<close>: the
  \<open>glob\<close> crate, the JSON codec, the typed readers of the vendor's manifests, gunzip, and the vendor's restore
  controllers, which change the database. What is relied on is the locale \<open>bundle_reader\<close>.
\<close>

section \<open>JSON and manifests\<close>

text \<open>\<open>path_str.ends_with(".gz")\<close> and \<open>strip_suffix(".gz")\<close> on a string value; other values stay.\<close>

fun strip_gz :: "json \<Rightarrow> json" where
  "strip_gz (JString s) = (case strip_suffix ''.gz'' s of Some t \<Rightarrow> JString t | None \<Rightarrow> JString s)"
| "strip_gz j = j"

fun strip_chunk :: "json \<Rightarrow> json" where
  "strip_chunk (JObject kvs) = JObject (map (\<lambda>(k, v). (k, strip_gz v)) kvs)"
| "strip_chunk j = j"

fun strip_chunks :: "json \<Rightarrow> json" where
  "strip_chunks (JArray chunks) = JArray (map strip_chunk chunks)"
| "strip_chunks j = j"

text \<open>The value of one key of an object is replaced.\<close>

definition obj_modify :: "string \<Rightarrow> (json \<Rightarrow> json) \<Rightarrow> (string \<times> json) list \<Rightarrow> (string \<times> json) list" where
  "obj_modify k f kvs = map (\<lambda>(k', v). (k', if k' = k then f v else v)) kvs"

fun update_manifest :: "json \<Rightarrow> json" where
  "update_manifest (JObject obj) = JObject (obj_modify ''proof'' strip_gz (obj_modify ''chunks'' strip_chunks obj))"
| "update_manifest j = j"

record Waypoint =
  wp_version :: u64
  wp_value :: bytes

record EpochEndingBackup =
  ee_first_epoch :: u64
  ee_last_epoch :: u64
  ee_waypoints :: "Waypoint list"

record TransactionBackupV7 =
  t7_first_version :: u64
  t7_last_version :: u64

section \<open>The disk and the third-party code\<close>

record disk =
  dk_files :: "(dl_path \<times> string) list"
  dk_dirs :: "dl_path list"

definition exists_file :: "disk \<Rightarrow> dl_path \<Rightarrow> bool" where
  "exists_file d p \<longleftrightarrow> p \<noteq> [] \<and> bt_get p (dk_files d) \<noteq> None"

definition read_to_string :: "disk \<Rightarrow> dl_path \<Rightarrow> string rres" where
  "read_to_string d p = or_err ''No such file or directory'' (bt_get p (dk_files d))"

definition write_file :: "dl_path \<Rightarrow> string \<Rightarrow> disk \<Rightarrow> disk" where
  "write_file p s d = d\<lparr>dk_files := bt_insert p s (dk_files d)\<rparr>"

definition remove_file :: "dl_path \<Rightarrow> disk \<Rightarrow> disk" where
  "remove_file p d = d\<lparr>dk_files := filter (\<lambda>(q, _). q \<noteq> p) (dk_files d)\<rparr>"

text \<open>\<open>Path::display\<close>.\<close>

definition display :: "dl_path \<Rightarrow> string" where
  "display p = join ''/'' p"

datatype RestoreTypes = Epoch | Snapshot | Transaction

record RestoreBundle =
  rb_restore_bundle_dir :: dl_path
  rb_epoch :: u64
  rb_version :: u64
  rb_waypoint :: "Waypoint option"
  rb_epoch_manifest :: dl_path
  rb_snapshot_manifest :: dl_path
  rb_transaction_manifest :: dl_path

record restore_vendor =
  rv_glob :: "string \<Rightarrow> dl_path list \<Rightarrow> dl_path list rres"
  rv_json :: "string \<Rightarrow> json option"
  rv_pretty :: "json \<Rightarrow> string"
  rv_epoch_manifest :: "string \<Rightarrow> EpochEndingBackup rres"
  rv_transaction_manifest :: "string \<Rightarrow> TransactionBackupV7 rres"
  rv_gunzip :: "string \<Rightarrow> string rres"

section \<open>The restore bundle\<close>

definition RestoreBundle_new :: "dl_path \<Rightarrow> RestoreBundle" where
  "RestoreBundle_new restore_bundle_dir =
     \<lparr>rb_restore_bundle_dir = restore_bundle_dir, rb_epoch = 0, rb_version = 0, rb_waypoint = None,
      rb_epoch_manifest = [], rb_snapshot_manifest = [], rb_transaction_manifest = []\<rparr>"

definition is_loaded :: "RestoreBundle \<Rightarrow> disk \<Rightarrow> bool" where
  "is_loaded b d \<longleftrightarrow>
     rb_epoch b > 0 \<and> rb_version b > 0 \<and> exists_file d (rb_epoch_manifest b) \<and>
     exists_file d (rb_snapshot_manifest b) \<and> exists_file d (rb_transaction_manifest b)"

definition update_manifest_paths :: "restore_vendor \<Rightarrow> string \<Rightarrow> string rres" where
  "update_manifest_paths v manifest_content =
     rbind (or_panic ''called Result::unwrap() on an Err value'' (rv_json v manifest_content)) (\<lambda>manifest.
     Ok (rv_pretty v (update_manifest manifest)))"

definition glob_files :: "restore_vendor \<Rightarrow> string \<Rightarrow> disk \<Rightarrow> dl_path list rres" where
  "glob_files v pattern d = rv_glob v pattern (map fst (dk_files d))"

text \<open>\<open>file_list.flatten().max()\<close> in the order of paths.\<close>

definition max_path :: "dl_path list \<Rightarrow> dl_path option" where
  "max_path ps = max_by_key (\<lambda>p. p) ps"

definition any_epoch_manifest :: "restore_vendor \<Rightarrow> (RestoreBundle \<times> disk) step" where
  "any_epoch_manifest v = (\<lambda>(self, d).
     with_val (glob_files v (display (rb_restore_bundle_dir self) @ ''/epoch_ending*/epoch_ending.manifest'') d)
       (\<lambda>file_list (self, d).
         case max_path file_list of
           None \<Rightarrow> (Ok (), self, d)
         | Some p \<Rightarrow>
             (let self = self\<lparr>rb_epoch_manifest := p\<rparr> in
              with_val (rbind (read_to_string d p) (update_manifest_paths v)) (\<lambda>updated_content (self, d).
                let d = write_file p updated_content d in
                with_val (rv_epoch_manifest v updated_content) (\<lambda>epoch_manifest (self, d).
                  (Ok (),
                   self\<lparr>rb_epoch := ee_first_epoch epoch_manifest,
                        rb_waypoint := (if ee_waypoints epoch_manifest = [] then None
                                        else Some (last (ee_waypoints epoch_manifest)))\<rparr>, d))
                (self, d)) (self, d)))
       (self, d))"

definition specific_epoch_manifest :: "restore_vendor \<Rightarrow> u64 \<Rightarrow> (RestoreBundle \<times> disk) step" where
  "specific_epoch_manifest v epoch = (\<lambda>(self, d).
     with_val (glob_files v (display (rb_restore_bundle_dir self) @ ''/*_'' @ dec_str (unat epoch) @
         ''*/epoch_ending.manifest'') d)
       (\<lambda>file_list (self, d).
         case max_path file_list of
           None \<Rightarrow> (Ok (), self, d)
         | Some p \<Rightarrow> (Ok (), self\<lparr>rb_epoch_manifest := p\<rparr>, d))
       (self, d))"

definition set_version :: "restore_vendor \<Rightarrow> (RestoreBundle \<times> disk) step" where
  "set_version v = (\<lambda>(self, d).
     if \<not> exists_file d (rb_epoch_manifest self) then (Panic ''this epoch manifest file does not exist'', self, d)
     else with_val (rbind (read_to_string d (rb_epoch_manifest self)) (rv_epoch_manifest v)) (\<lambda>epoch_manifest (self, d).
       case ee_waypoints epoch_manifest of
         wp # _ \<Rightarrow> (Ok (), self\<lparr>rb_version := wp_version wp, rb_epoch := ee_first_epoch epoch_manifest\<rparr>, d)
       | [] \<Rightarrow> (Ok (), self, d)) (self, d))"

definition search_snapshot_manifest :: "restore_vendor \<Rightarrow> (RestoreBundle \<times> disk) step" where
  "search_snapshot_manifest v = (\<lambda>(self, d).
     if \<not> exists_file d (rb_epoch_manifest self) then (Panic ''this epoch manifest file does not exist'', self, d)
     else if \<not> rb_version self > 0
     then (Panic ''you haven't yet set the version of the epoch restore'', self, d)
     else with_val (glob_files v (display (rb_restore_bundle_dir self) @ ''/state_epoch*'' @
         dec_str (unat (rb_epoch self)) @ ''*'' @ dec_str (unat (rb_version self)) @ ''*/state.manifest'') d)
       (\<lambda>file_list (self, d).
         case max_path file_list of
           None \<Rightarrow> (Ok (), self, d)
         | Some p \<Rightarrow>
             (let self = self\<lparr>rb_snapshot_manifest := p\<rparr> in
              with_val (rbind (read_to_string d p) (update_manifest_paths v)) (\<lambda>updated_content (self, d).
                (Ok (), self, write_file p updated_content d)) (self, d)))
       (self, d))"

definition verify_valid_transaction_list :: "restore_vendor \<Rightarrow> disk \<Rightarrow> dl_path \<Rightarrow> u64 \<Rightarrow> bool" where
  "verify_valid_transaction_list v d transaction_manifest version =
     (case read_to_string d transaction_manifest of
        Ok s \<Rightarrow>
          (case rv_transaction_manifest v s of
             Ok tm \<Rightarrow>
               if version > t7_last_version tm then False
               else if version < t7_first_version tm then False
               else True
           | _ \<Rightarrow> False)
      | _ \<Rightarrow> False)"

fun transaction_entries :: "restore_vendor \<Rightarrow> dl_path list \<Rightarrow> (RestoreBundle \<times> disk) step" where
  "transaction_entries v [] (self, d) = (Err ''No valid transaction manifest found for version'', self, d)"
| "transaction_entries v (entry # entries) (self, d) =
     with_val (rbind (read_to_string d entry) (update_manifest_paths v)) (\<lambda>updated_content (self, d).
       let d = write_file entry updated_content d in
       if verify_valid_transaction_list v d entry (rb_version self)
       then (Ok (), self\<lparr>rb_transaction_manifest := entry\<rparr>, d)
       else transaction_entries v entries (self, d)) (self, d)"

definition search_transaction_manifest :: "restore_vendor \<Rightarrow> (RestoreBundle \<times> disk) step" where
  "search_transaction_manifest v = (\<lambda>(self, d).
     if \<not> exists_file d (rb_epoch_manifest self) then (Panic ''this epoch manifest file does not exist'', self, d)
     else if \<not> rb_version self > 0
     then (Panic ''you haven't yet set the version of the epoch restore'', self, d)
     else with_val (glob_files v (display (rb_restore_bundle_dir self) @ ''/**/transaction.manifest'') d)
       (\<lambda>file_list. transaction_entries v file_list) (self, d))"

definition bundle_load :: "restore_vendor \<Rightarrow> (RestoreBundle \<times> disk) step" where
  "bundle_load v s =
     seq (any_epoch_manifest v s) (\<lambda>s.
     seq (set_version v s) (\<lambda>s.
     seq (search_snapshot_manifest v s) (search_transaction_manifest v)))"

section \<open>The restore\<close>

text \<open>\<open>Path::with_extension("")\<close>: the file name up to its last dot, unless that is its first character.\<close>

definition drop_extension :: "string \<Rightarrow> string" where
  "drop_extension n =
     (let stem = rev (tl (dropWhile (\<lambda>c. c \<noteq> CHR ''.'') (rev n))) in
      if CHR ''.'' \<notin> set n \<or> stem = [] \<or> n = ''..'' then n else stem)"

definition without_extension :: "dl_path \<Rightarrow> dl_path" where
  "without_extension p = (if p = [] then [] else butlast p @ [drop_extension (last p)])"

text \<open>Opening the output for writing truncates it before the input is read.\<close>

definition decompress_one :: "restore_vendor \<Rightarrow> dl_path \<Rightarrow> disk step" where
  "decompress_one v gz_path d =
     with_val (read_to_string d gz_path) (\<lambda>_ d.
       let output_path = without_extension gz_path;
           d = write_file output_path [] d in
       with_val (rbind (read_to_string d gz_path) (rv_gunzip v)) (\<lambda>bytes d.
         (Ok (), remove_file gz_path (write_file output_path bytes d))) d) d"

definition maybe_decompress_gz_files :: "restore_vendor \<Rightarrow> dl_path \<Rightarrow> disk step" where
  "maybe_decompress_gz_files v bundle_dir d =
     with_val (glob_files v (display bundle_dir @ ''/**/*.gz'') d) (for_each (decompress_one v)) d"

text \<open>\<open>get_global_db_opts\<close> takes the waypoint of the bundle; the vendor controllers are \<open>run\<close>.\<close>

type_synonym 'db controller =
  "RestoreTypes \<Rightarrow> dl_path \<Rightarrow> dl_path \<Rightarrow> u64 \<Rightarrow> Waypoint \<Rightarrow> disk \<Rightarrow> 'db \<Rightarrow> unit rres \<times> 'db"

definition get_global_db_opts :: "RestoreBundle \<Rightarrow> (u64 \<times> Waypoint) rres" where
  "get_global_db_opts bundle =
     rbind (or_panic ''no waypoint'' (rb_waypoint bundle)) (\<lambda>w. Ok (rb_version bundle, w))"

definition run_restore ::
  "'db controller \<Rightarrow> RestoreTypes \<Rightarrow> dl_path \<Rightarrow> RestoreBundle \<Rightarrow> disk \<Rightarrow> 'db step" where
  "run_restore run rtype db_path bundle d =
     with_val (get_global_db_opts bundle) (\<lambda>(target_version, waypoint).
       run rtype db_path
         (case rtype of
            Epoch \<Rightarrow> rb_epoch_manifest bundle
          | Snapshot \<Rightarrow> rb_snapshot_manifest bundle
          | Transaction \<Rightarrow> rb_transaction_manifest bundle)
         target_version waypoint d)"

definition full_restore :: "'db controller \<Rightarrow> dl_path \<Rightarrow> RestoreBundle \<Rightarrow> disk \<Rightarrow> 'db step" where
  "full_restore run db_destination bundle d s =
     (if \<not> is_loaded bundle d then (Panic ''the restore bundle hasn't been checked yet'', s)
      else seq (run_restore run Epoch db_destination bundle d s) (\<lambda>s.
           seq (run_restore run Snapshot db_destination bundle d s) (
           run_restore run Transaction db_destination bundle d)))"

text \<open>\<open>Path::exists\<close>: a file, a directory that was created, or one that holds a file.\<close>

definition path_exists :: "disk \<Rightarrow> dl_path \<Rightarrow> bool" where
  "path_exists d p \<longleftrightarrow>
     p \<in> set (dk_dirs d) \<or> exists_file d p \<or> list_ex (\<lambda>(q, _). length p < length q \<and> take (length p) q = p) (dk_files d)"

text \<open>Paths are canonical already, so \<open>fs::canonicalize\<close> returns them unchanged.\<close>

definition epoch_restore ::
  "restore_vendor \<Rightarrow> 'db controller \<Rightarrow> dl_path \<Rightarrow> dl_path \<Rightarrow> disk \<Rightarrow> 'db \<Rightarrow> dl_path rres \<times> disk \<times> 'db" where
  "epoch_restore v run bundle_path destination_db d s =
     (if \<not> path_exists d bundle_path then (Err ''Bundle directory not found'', d, s)
      else if path_exists d destination_db
      then (Err ''Destination directory already exists and may contain conflicting state'', d, s)
      else
        (let d = d\<lparr>dk_dirs := destination_db # dk_dirs d\<rparr> in
         case maybe_decompress_gz_files v bundle_path d of
           (Err e, d) \<Rightarrow> (Err ''Failed to decompress gz files'', d, s)
         | (Panic p, d) \<Rightarrow> (Panic p, d, s)
         | (Ok _, d) \<Rightarrow>
             (case bundle_load v (RestoreBundle_new bundle_path, d) of
                (Err e, _, d) \<Rightarrow> (Err e, d, s)
              | (Panic p, _, d) \<Rightarrow> (Panic p, d, s)
              | (Ok _, bundle, d) \<Rightarrow>
                  (case full_restore run destination_db bundle d s of
                     (r, s) \<Rightarrow> (rbind r (\<lambda>_. Ok destination_db), d, s)))))"

section \<open>What is relied on\<close>

text \<open>
  The documented behaviour of \<open>glob\<close>: it lists paths that are on the disk, and a pattern whose last component has no
  wildcard lists paths with that file name.
\<close>

definition literal :: "string \<Rightarrow> bool" where
  "literal name \<longleftrightarrow> list_all (\<lambda>c. c \<notin> {CHR ''*'', CHR ''?'', CHR ''['', CHR ''/''}) name"

locale bundle_reader =
  fixes v :: restore_vendor
  assumes glob_sub: "rv_glob v pat ps = Ok qs \<Longrightarrow> set qs \<subseteq> set ps"
    and glob_name: "rv_glob v (pre @ ''/'' @ name) ps = Ok qs \<Longrightarrow> literal name \<Longrightarrow> q \<in> set qs \<Longrightarrow>
      q \<noteq> [] \<and> last q = name"

lemma literal_names [simp]:
  "literal ''epoch_ending.manifest''" "literal ''state.manifest''" "literal ''transaction.manifest''"
  by (simp_all add: literal_def)

section \<open>Facts about the disk\<close>

lemma get_write [simp]: "bt_get q (dk_files (write_file p s d)) = (if q = p then Some s else bt_get q (dk_files d))"
  by (simp add: write_file_def bt.get_ins)

lemma get_remove [simp]: "bt_get q (dk_files (remove_file p d)) = (if q = p then None else bt_get q (dk_files d))"
proof -
  have "map_of (filter (\<lambda>(q, _). q \<noteq> p) fs) q = (if q = p then None else map_of fs q)" for fs :: "(dl_path \<times> string) list"
    by (induction fs) auto
  then show ?thesis by (simp add: remove_file_def bt_get_def)
qed

lemma dirs_write [simp]: "dk_dirs (write_file p s d) = dk_dirs d" "dk_dirs (remove_file p d) = dk_dirs d"
  by (simp_all add: write_file_def remove_file_def)

lemma read_Ok [rust_simps]: "read_to_string d p = Ok s \<longleftrightarrow> bt_get p (dk_files d) = Some s"
  by (simp add: read_to_string_def rust_simps)

lemma exists_write: "exists_file d q \<Longrightarrow> exists_file (write_file p s d) q"
  by (auto simp: exists_file_def)

lemma max_path_in: "max_path ps = Some p \<Longrightarrow> p \<in> set ps"
  by (auto simp: max_path_def dest: max_by_key_Some)

context bundle_reader
begin

lemma glob_files_on_disk:
  assumes "glob_files v pat d = Ok qs" and "q \<in> set qs"
  shows "bt_get q (dk_files d) \<noteq> None"
  using glob_sub[of pat "map fst (dk_files d)" qs] assms
  by (auto simp: glob_files_def bt_get_def map_of_eq_None_iff)

lemma glob_files_name:
  assumes "glob_files v (pre @ ''/'' @ name) d = Ok qs" and "q \<in> set qs" and "literal name"
  shows "exists_file d q \<and> last q = name"
  using glob_name[of pre name "map fst (dk_files d)" qs q] assms glob_files_on_disk[OF assms(1,2)]
  by (auto simp: glob_files_def exists_file_def)

text \<open>The steps of \<open>load\<close>, each for a call that succeeds.\<close>

lemma any_epoch_manifest_Ok:
  assumes "any_epoch_manifest v (b, d) = (Ok u, b', d')" and "rb_epoch_manifest b = []"
  shows "b' = b \<and> d' = d \<or>
    (\<exists>p s m. rb_epoch_manifest b' = p \<and> exists_file d' p \<and> last p = ''epoch_ending.manifest'' \<and>
      d' = write_file p s d \<and> rv_epoch_manifest v s = Ok m \<and>
      b' = b\<lparr>rb_epoch_manifest := p, rb_epoch := ee_first_epoch m,
        rb_waypoint := (if ee_waypoints m = [] then None else Some (last (ee_waypoints m)))\<rparr>)"
proof -
  from assms(1) obtain qs where glob: "glob_files v (display (rb_restore_bundle_dir b) @ ''/epoch_ending*/epoch_ending.manifest'') d = Ok qs"
    by (auto simp: any_epoch_manifest_def rust_simps)
  show ?thesis
  proof (cases "max_path qs")
    case None
    with assms(1) glob show ?thesis by (simp add: any_epoch_manifest_def)
  next
    case (Some p)
    from glob_files_name[of "display (rb_restore_bundle_dir b) @ ''/epoch_ending*''" "''epoch_ending.manifest''" d qs p]
      glob max_path_in[OF Some] have p: "exists_file d p" "last p = ''epoch_ending.manifest''" by simp_all
    from assms(1) glob Some obtain s m where "d' = write_file p s d" "rv_epoch_manifest v s = Ok m"
      "b' = b\<lparr>rb_epoch_manifest := p, rb_epoch := ee_first_epoch m,
        rb_waypoint := (if ee_waypoints m = [] then None else Some (last (ee_waypoints m)))\<rparr>"
      by (auto simp: any_epoch_manifest_def Let_def rust_simps simp del: with_val.simps)
    with p exists_write[OF p(1)] show ?thesis by auto
  qed
qed

lemma set_version_Ok:
  assumes "set_version v (b, d) = (Ok u, b', d')"
  shows "d' = d \<and> exists_file d (rb_epoch_manifest b) \<and>
    (\<exists>s m. bt_get (rb_epoch_manifest b) (dk_files d) = Some s \<and> rv_epoch_manifest v s = Ok m \<and>
      b' = (case ee_waypoints m of [] \<Rightarrow> b | wp # _ \<Rightarrow> b\<lparr>rb_version := wp_version wp, rb_epoch := ee_first_epoch m\<rparr>))"
proof -
  from assms have ex: "exists_file d (rb_epoch_manifest b)" by (auto simp: set_version_def split: if_splits)
  with assms obtain s m where "bt_get (rb_epoch_manifest b) (dk_files d) = Some s" "rv_epoch_manifest v s = Ok m"
    and "(case ee_waypoints m of
        wp # _ \<Rightarrow> (Ok (), b\<lparr>rb_version := wp_version wp, rb_epoch := ee_first_epoch m\<rparr>, d) | [] \<Rightarrow> (Ok (), b, d)) =
      (Ok u, b', d')"
    by (auto simp: set_version_def rust_simps)
  with ex show ?thesis by (cases "ee_waypoints m") auto
qed

lemma search_snapshot_Ok:
  assumes "search_snapshot_manifest v (b, d) = (Ok u, b', d')"
  shows "0 < rb_version b \<and>
    (b' = b \<and> d' = d \<or>
     (\<exists>p s. exists_file d p \<and> last p = ''state.manifest'' \<and> b' = b\<lparr>rb_snapshot_manifest := p\<rparr> \<and> d' = write_file p s d))"
proof -
  let ?pre = "display (rb_restore_bundle_dir b) @ ''/state_epoch*'' @ dec_str (unat (rb_epoch b)) @ ''*'' @
    dec_str (unat (rb_version b)) @ ''*''"
  from assms have version: "0 < rb_version b" by (auto simp: search_snapshot_manifest_def split: if_splits)
  from assms obtain qs where glob: "glob_files v (?pre @ ''/'' @ ''state.manifest'') d = Ok qs"
    by (auto simp: search_snapshot_manifest_def rust_simps split: if_splits)
  show ?thesis
  proof (cases "max_path qs")
    case None
    with assms glob version show ?thesis by (auto simp: search_snapshot_manifest_def split: if_splits)
  next
    case (Some p)
    from glob_files_name[OF glob max_path_in[OF Some]] have "exists_file d p" "last p = ''state.manifest''" by simp_all
    moreover from assms glob Some obtain s where "b' = b\<lparr>rb_snapshot_manifest := p\<rparr>" "d' = write_file p s d"
      by (auto simp: search_snapshot_manifest_def rust_simps split: if_splits)
    ultimately show ?thesis using version by blast
  qed
qed

lemma transaction_entries_Ok:
  assumes "transaction_entries v qs (b, d) = (Ok u, b', d')"
    and "\<And>q. q \<in> set qs \<Longrightarrow> exists_file d q \<and> last q = ''transaction.manifest''"
  shows "\<exists>p. b' = b\<lparr>rb_transaction_manifest := p\<rparr> \<and> exists_file d' p \<and> last p = ''transaction.manifest'' \<and>
    verify_valid_transaction_list v d' p (rb_version b) \<and>
    (\<forall>q. last q \<noteq> ''transaction.manifest'' \<longrightarrow> bt_get q (dk_files d') = bt_get q (dk_files d))"
  using assms
proof (induction qs arbitrary: d)
  case (Cons q qs)
  from Cons.prems(2)[of q] have q: "exists_file d q" "last q = ''transaction.manifest''" by simp_all
  from Cons.prems(1) obtain s where s:
    "(if verify_valid_transaction_list v (write_file q s d) q (rb_version b)
      then (Ok (), b\<lparr>rb_transaction_manifest := q\<rparr>, write_file q s d)
      else transaction_entries v qs (b, write_file q s d)) = (Ok u, b', d')"
    by (auto simp: Let_def rust_simps)
  show ?case
  proof (cases "verify_valid_transaction_list v (write_file q s d) q (rb_version b)")
    case True
    with s q exists_write[OF q(1)] show ?thesis by auto
  next
    case False
    with s have rest: "transaction_entries v qs (b, write_file q s d) = (Ok u, b', d')" by simp
    have "\<And>q'. q' \<in> set qs \<Longrightarrow> exists_file (write_file q s d) q' \<and> last q' = ''transaction.manifest''"
      using Cons.prems(2) exists_write by simp
    from Cons.IH[OF rest this] q(2) show ?thesis by auto
  qed
qed simp

lemma search_transaction_Ok:
  assumes "search_transaction_manifest v (b, d) = (Ok u, b', d')"
  shows "\<exists>p. b' = b\<lparr>rb_transaction_manifest := p\<rparr> \<and> exists_file d' p \<and>
    verify_valid_transaction_list v d' p (rb_version b) \<and>
    (\<forall>q. last q \<noteq> ''transaction.manifest'' \<longrightarrow> bt_get q (dk_files d') = bt_get q (dk_files d))"
proof -
  from assms obtain qs where
    glob: "glob_files v ((display (rb_restore_bundle_dir b) @ ''/**'') @ ''/'' @ ''transaction.manifest'') d = Ok qs"
    and entries: "transaction_entries v qs (b, d) = (Ok u, b', d')"
    by (auto simp: search_transaction_manifest_def rust_simps split: if_splits)
  from transaction_entries_Ok[OF entries] glob_files_name[OF glob] show ?thesis by fastforce
qed

lemma bundle_load_Ok:
  assumes "bundle_load v (RestoreBundle_new dir, d) = (Ok u, b, d')"
  shows "\<exists>s m. bt_get (rb_epoch_manifest b) (dk_files d') = Some s \<and> rb_epoch_manifest b \<noteq> [] \<and>
    rv_epoch_manifest v s = Ok m \<and> ee_waypoints m \<noteq> [] \<and> rb_epoch b = ee_first_epoch m \<and>
    rb_version b = wp_version (hd (ee_waypoints m)) \<and> rb_waypoint b = Some (last (ee_waypoints m)) \<and>
    0 < rb_version b \<and> exists_file d' (rb_transaction_manifest b) \<and>
    verify_valid_transaction_list v d' (rb_transaction_manifest b) (rb_version b) \<and>
    (rb_snapshot_manifest b \<noteq> [] \<longrightarrow> exists_file d' (rb_snapshot_manifest b))"
proof -
  from assms obtain b1 d1 b2 d2 b3 d3 where
    1: "any_epoch_manifest v (RestoreBundle_new dir, d) = (Ok (), b1, d1)" and
    2: "set_version v (b1, d1) = (Ok (), b2, d2)" and
    3: "search_snapshot_manifest v (b2, d2) = (Ok (), b3, d3)" and
    4: "search_transaction_manifest v (b3, d3) = (Ok u, b, d')"
    by (auto simp: bundle_load_def rust_simps)
  note two = set_version_Ok[OF 2] and three = search_snapshot_Ok[OF 3]
  from two have ex1: "exists_file d1 (rb_epoch_manifest b1)" and d2: "d2 = d1" by blast+
  then have "rb_epoch_manifest b1 \<noteq> []" by (simp add: exists_file_def)
  with any_epoch_manifest_Ok[OF 1] obtain p0 s m where p0: "last p0 = ''epoch_ending.manifest''" "d1 = write_file p0 s d"
    "b1 = (RestoreBundle_new dir)\<lparr>rb_epoch_manifest := p0, rb_epoch := ee_first_epoch m,
        rb_waypoint := (if ee_waypoints m = [] then None else Some (last (ee_waypoints m)))\<rparr>"
    and m: "rv_epoch_manifest v s = Ok m"
    by (auto simp: RestoreBundle_new_def)
  then have name: "last (rb_epoch_manifest b1) = ''epoch_ending.manifest''"
    and s: "bt_get (rb_epoch_manifest b1) (dk_files d1) = Some s"
    and b1: "rb_version b1 = 0" "rb_snapshot_manifest b1 = []" "rb_epoch b1 = ee_first_epoch m"
      "rb_waypoint b1 = (if ee_waypoints m = [] then None else Some (last (ee_waypoints m)))"
    by (simp_all add: RestoreBundle_new_def)
  from two s m have b2: "b2 = (case ee_waypoints m of [] \<Rightarrow> b1
      | wp # _ \<Rightarrow> b1\<lparr>rb_version := wp_version wp, rb_epoch := ee_first_epoch m\<rparr>)" by auto
  from three have version: "0 < rb_version b2" by blast
  with b2 b1 have wps: "ee_waypoints m \<noteq> []" by auto
  with b2 obtain wp ws where wp: "ee_waypoints m = wp # ws"
    "b2 = b1\<lparr>rb_version := wp_version wp, rb_epoch := ee_first_epoch m\<rparr>" by (cases "ee_waypoints m") auto
  from three have snap: "b3 = b2 \<and> d3 = d1 \<or> (\<exists>p t. exists_file d1 p \<and> last p = ''state.manifest'' \<and>
      b3 = b2\<lparr>rb_snapshot_manifest := p\<rparr> \<and> d3 = write_file p t d1)" unfolding d2 by blast
  then have s3: "bt_get (rb_epoch_manifest b1) (dk_files d3) = Some s" using s name by auto
  from snap have b3: "rb_epoch_manifest b3 = rb_epoch_manifest b1" "rb_epoch b3 = ee_first_epoch m"
    "rb_version b3 = wp_version wp" "rb_waypoint b3 = rb_waypoint b1"
    "rb_snapshot_manifest b3 \<noteq> [] \<longrightarrow> exists_file d3 (rb_snapshot_manifest b3) \<and> last (rb_snapshot_manifest b3) = ''state.manifest''"
    using wp(2) b1(2) by (auto simp: exists_file_def)
  from search_transaction_Ok[OF 4] obtain p where p: "b = b3\<lparr>rb_transaction_manifest := p\<rparr>" "exists_file d' p"
    "verify_valid_transaction_list v d' p (rb_version b3)"
    and frame: "\<And>q. last q \<noteq> ''transaction.manifest'' \<Longrightarrow> bt_get q (dk_files d') = bt_get q (dk_files d3)" by blast
  from frame[of "rb_epoch_manifest b1"] name s3 have "bt_get (rb_epoch_manifest b) (dk_files d') = Some s"
    using p(1) b3(1) by simp
  moreover from frame[of "rb_snapshot_manifest b3"] b3(5) p(1)
  have "rb_snapshot_manifest b \<noteq> [] \<longrightarrow> exists_file d' (rb_snapshot_manifest b)" by (auto simp: exists_file_def)
  ultimately show ?thesis
    using m wps b3 p version wp b1 \<open>rb_epoch_manifest b1 \<noteq> []\<close> by (intro exI[of _ s] exI[of _ m]) simp
qed

end


section \<open>A reference for the third-party code\<close>

text \<open>Glob patterns by components: \<open>*\<close> within a component, \<open>**\<close> for any number of components.\<close>

fun wild :: "string \<Rightarrow> string \<Rightarrow> bool" where
  "wild [] x \<longleftrightarrow> x = []"
| "wild (c # p) [] \<longleftrightarrow> c = CHR ''*'' \<and> wild p []"
| "wild (c # p) (x # xs) \<longleftrightarrow>
     (if c = CHR ''*'' then wild p (x # xs) \<or> wild (c # p) xs else c = x \<and> wild p xs)"

function glob_match :: "string list \<Rightarrow> dl_path \<Rightarrow> bool" where
  "glob_match [] q \<longleftrightarrow> q = []"
| "glob_match (c # cs) [] \<longleftrightarrow> c = ''**'' \<and> glob_match cs []"
| "glob_match (c # cs) (x # q) \<longleftrightarrow>
     (if c = ''**'' then glob_match cs (x # q) \<or> glob_match (c # cs) q else wild c x \<and> glob_match cs q)"
  by pat_completeness auto
termination
  by (relation "measure (\<lambda>(cs, q). length cs + length q)") auto

lemma wild_literal: "literal p \<Longrightarrow> wild p x \<Longrightarrow> x = p"
  by (induction p x rule: wild.induct) (auto simp: literal_def)

lemma glob_match_last:
  "glob_match (cs @ [name]) q \<Longrightarrow> literal name \<Longrightarrow> q \<noteq> [] \<and> last q = name"
proof (induction "cs @ [name]" q arbitrary: cs rule: glob_match.induct)
  case (2 c cs')
  then show ?case by (cases cs) (auto simp: literal_def)
next
  case (3 c cs' x q)
  show ?case
  proof (cases cs)
    case Nil
    with 3 have "wild name x" "q = []" by (auto simp: literal_def split: if_splits)
    with wild_literal[OF 3(6)] show ?thesis by simp
  next
    case (Cons c' cs'')
    with 3 have cs': "cs' = cs'' @ [name]" "c = c'" by simp_all
    show ?thesis
    proof (cases "c = ''**''")
      case True
      with 3(5) Cons cs' consider "glob_match cs' (x # q)" | "glob_match (c # cs') q" by auto
      then show ?thesis using 3(1)[OF True cs'(1)] 3(2)[OF True, of cs] 3(6) cs' Cons by cases auto
    next
      case False
      with 3(3)[OF False cs'(1)] 3(5,6) Cons cs' show ?thesis by auto
    qed
  qed
qed simp

lemma split_by_snoc:
  "P c \<Longrightarrow> split_by P (pre @ c # r) = split_by P pre @ split_by P r"
  by (induction pre) (auto split: list.splits)

definition ref_vendor :: restore_vendor where
  "ref_vendor =
     \<lparr>rv_glob = (\<lambda>pat ps. Ok (filter (glob_match (split_by (\<lambda>c. c = CHR ''/'') pat)) ps)),
      rv_json = (\<lambda>s. Some (JString s)),
      rv_pretty = (\<lambda>j. case j of JString s \<Rightarrow> s | _ \<Rightarrow> []),
      rv_epoch_manifest = (\<lambda>s. if s = ''E'' then Ok \<lparr>ee_first_epoch = 30, ee_last_epoch = 30,
          ee_waypoints = [\<lparr>wp_version = 64, wp_value = []\<rparr>]\<rparr> else Err ''expected value''),
      rv_transaction_manifest = (\<lambda>s. if s = ''T'' then Ok \<lparr>t7_first_version = 60, t7_last_version = 70\<rparr>
          else Err ''expected value''),
      rv_gunzip = Ok\<rparr>"

interpretation ref_reader: bundle_reader ref_vendor
proof unfold_locales
  fix pat ps qs assume "rv_glob ref_vendor pat ps = Ok qs"
  then show "set qs \<subseteq> set ps" by (auto simp: ref_vendor_def)
next
  fix pre name ps qs q
  assume g: "rv_glob ref_vendor (pre @ ''/'' @ name) ps = Ok qs" and name: "literal name" and q: "q \<in> set qs"
  have "list_all (\<lambda>c. c \<noteq> CHR ''/'') name" using name by (auto simp: literal_def list_all_iff)
  then have "split_by (\<lambda>c. c = CHR ''/'') (pre @ ''/'' @ name) = split_by (\<lambda>c. c = CHR ''/'') pre @ [name]"
    by (simp add: split_by_snoc split_by_none)
  with g q have "glob_match (split_by (\<lambda>c. c = CHR ''/'') pre @ [name]) q" by (auto simp: ref_vendor_def)
  from glob_match_last[OF this name] show "q \<noteq> [] \<and> last q = name" .
qed

text \<open>The bundle of \<open>ref_folders\<close>: its epoch ending is of epoch 30, its state of epoch 29.\<close>

definition ref_disk :: disk where
  "ref_disk =
     \<lparr>dk_files = [([''b'', ef_epoch_ending ref_folders, ''epoch_ending.manifest''], ''E''),
                 ([''b'', ef_state_epoch ref_folders, ''state.manifest''], ''S''),
                 ([''b'', ef_transaction ref_folders, ''transaction.manifest''], ''T'')], dk_dirs = [[''b'']]\<rparr>"

definition ref_bundle :: RestoreBundle where
  "ref_bundle = (RestoreBundle_new [''b''])
     \<lparr>rb_epoch := 30, rb_version := 64, rb_waypoint := Some \<lparr>wp_version = 64, wp_value = []\<rparr>,
      rb_epoch_manifest := [''b'', ef_epoch_ending ref_folders, ''epoch_ending.manifest''],
      rb_transaction_manifest := [''b'', ef_transaction ref_folders, ''transaction.manifest'']\<rparr>"

lemma ref_numbers: "dec_str 30 = ''30''" "dec_str 64 = ''64''"
  by (simp_all add: dec_str.simps digit_char_def char_of_def bit_Suc_0_iff)

lemma ref_globs:
  "glob_files ref_vendor ''b/epoch_ending*/epoch_ending.manifest'' ref_disk =
     Ok [[''b'', ef_epoch_ending ref_folders, ''epoch_ending.manifest'']]"
  "glob_files ref_vendor ''b/state_epoch*30*64*/state.manifest'' ref_disk = Ok []"
  "glob_files ref_vendor ''b/**/transaction.manifest'' ref_disk =
     Ok [[''b'', ef_transaction ref_folders, ''transaction.manifest'']]"
  by (simp_all add: glob_files_def ref_vendor_def ref_disk_def ref_folders_def)

lemma ref_files:
  "read_to_string ref_disk [''b'', ef_epoch_ending ref_folders, ''epoch_ending.manifest''] = Ok ''E''"
  "read_to_string ref_disk [''b'', ef_transaction ref_folders, ''transaction.manifest''] = Ok ''T''"
  "write_file [''b'', ef_epoch_ending ref_folders, ''epoch_ending.manifest''] ''E'' ref_disk = ref_disk"
  "write_file [''b'', ef_transaction ref_folders, ''transaction.manifest''] ''T'' ref_disk = ref_disk"
  "exists_file ref_disk [''b'', ef_epoch_ending ref_folders, ''epoch_ending.manifest'']"
  by (simp_all add: read_to_string_def exists_file_def write_file_def bt_get_def ref_disk_def ref_folders_def)

lemma ref_manifests:
  "rv_epoch_manifest ref_vendor ''E'' =
     Ok \<lparr>ee_first_epoch = 30, ee_last_epoch = 30, ee_waypoints = [\<lparr>wp_version = 64, wp_value = []\<rparr>]\<rparr>"
  "rv_transaction_manifest ref_vendor ''T'' = Ok \<lparr>t7_first_version = 60, t7_last_version = 70\<rparr>"
  "update_manifest_paths ref_vendor t = Ok t"
  by (simp_all add: ref_vendor_def update_manifest_paths_def)

lemma ref_load: "bundle_load ref_vendor (RestoreBundle_new [''b''], ref_disk) = (Ok (), ref_bundle, ref_disk)"
  by (simp add: bundle_load_def any_epoch_manifest_def set_version_def search_snapshot_manifest_def
      search_transaction_manifest_def RestoreBundle_new_def display_def max_path_def verify_valid_transaction_list_def
      Let_def ref_globs ref_files ref_manifests ref_numbers ref_bundle_def)


section \<open>A destination is restored once\<close>

lemma decompress_dirs: "dk_dirs (snd (maybe_decompress_gz_files v dir d)) = dk_dirs d"
proof -
  have "dk_dirs (snd (decompress_one v p d)) = dk_dirs d" for p d
    by (simp add: decompress_one_def Let_def with_val_keeps[where f = dk_dirs])
  then show ?thesis
    by (simp add: maybe_decompress_gz_files_def with_val_keeps[where f = dk_dirs] for_each_keeps[where f = dk_dirs])
qed

lemma bundle_load_dirs: "dk_dirs (snd (snd (bundle_load v s))) = dk_dirs (snd s)"
proof -
  let ?f = "\<lambda>s :: RestoreBundle \<times> disk. dk_dirs (snd s)"
  note keeps = with_val_keeps[where f = ?f] seq_keeps[where f = ?f]
  have 1: "?f (snd (any_epoch_manifest v s)) = ?f s" for s
    by (cases s) (simp add: any_epoch_manifest_def keeps Let_def split: option.splits)
  have 2: "?f (snd (set_version v s)) = ?f s" for s
    by (cases s) (simp add: set_version_def keeps split: list.splits)
  have 3: "?f (snd (search_snapshot_manifest v s)) = ?f s" for s
    by (cases s) (simp add: search_snapshot_manifest_def keeps Let_def split: option.splits)
  have entries: "?f (snd (transaction_entries v qs s)) = ?f s" for qs s
    by (induction v qs s rule: transaction_entries.induct) (simp_all add: keeps Let_def)
  have 4: "?f (snd (search_transaction_manifest v s)) = ?f s" for s
    by (cases s) (simp add: search_transaction_manifest_def keeps entries)
  from 1 2 3 4 show ?thesis by (simp add: bundle_load_def keeps)
qed

lemma epoch_restore_dirs:
  assumes "epoch_restore v run bundle_path destination_db d s = (r, d', s')"
  shows "set (dk_dirs d) \<subseteq> set (dk_dirs d') \<and>
    (path_exists d bundle_path \<longrightarrow> path_exists d destination_db \<or> destination_db \<in> set (dk_dirs d'))"
proof (cases "path_exists d bundle_path \<and> \<not> path_exists d destination_db")
  case True
  let ?d0 = "d\<lparr>dk_dirs := destination_db # dk_dirs d\<rparr>"
  obtain r1 d1 where z: "maybe_decompress_gz_files v bundle_path ?d0 = (r1, d1)" by force
  obtain r2 b d2 where l: "bundle_load v (RestoreBundle_new bundle_path, d1) = (r2, b, d2)" by (metis prod_cases3)
  from z l assms True have "d' = d1 \<or> d' = d2"
    by (auto simp: epoch_restore_def split: rres.splits prod.splits)
  moreover have "dk_dirs d1 = destination_db # dk_dirs d" "dk_dirs d2 = dk_dirs d1"
    using decompress_dirs[of v bundle_path ?d0] bundle_load_dirs[of v "(RestoreBundle_new bundle_path, d1)"] z l by simp_all
  ultimately show ?thesis by auto
qed (use assms in \<open>auto simp: epoch_restore_def split: if_splits\<close>)

lemma run_restore_Ok:
  "run_restore run t db b d s = (Ok u, s') \<longleftrightarrow>
     (\<exists>w. rb_waypoint b = Some w \<and>
       run t db (case t of Epoch \<Rightarrow> rb_epoch_manifest b | Snapshot \<Rightarrow> rb_snapshot_manifest b
                 | Transaction \<Rightarrow> rb_transaction_manifest b) (rb_version b) w d s = (Ok u, s'))"
  by (auto simp: run_restore_def get_global_db_opts_def rust_simps)

lemma epoch_restore_Ok:
  assumes "epoch_restore v run bundle_path destination_db d s = (Ok x, d', s')"
  shows "x = destination_db \<and> (\<exists>b. full_restore run destination_db b d' s = (Ok (), s'))"
proof -
  from assms have go: "path_exists d bundle_path" "\<not> path_exists d destination_db"
    by (auto simp: epoch_restore_def split: if_splits)
  obtain r1 d1 where z: "maybe_decompress_gz_files v bundle_path (d\<lparr>dk_dirs := destination_db # dk_dirs d\<rparr>) = (r1, d1)"
    by force
  obtain r2 b d2 where l: "bundle_load v (RestoreBundle_new bundle_path, d1) = (r2, b, d2)" by (metis prod_cases3)
  obtain r3 s3 where f: "full_restore run destination_db b d2 s = (r3, s3)" by force
  from assms go z l f show ?thesis
    by (cases r1; cases r2; cases r3) (auto simp: epoch_restore_def)
qed

text \<open>
  C31. A successful \<open>epoch_restore\<close> has run the vendor's three controllers on a loaded bundle, in the order
  epochs, snapshot, transactions, each with the version and the waypoint of the bundle. A destination that exists is
  refused with disk and database unchanged; since the first attempt creates it, any further attempt is refused,
  also after one that failed.
\<close>

theorem epoch_restore_once:
  assumes "epoch_restore v run bundle_path destination_db d s = (r, d', s')"
  shows "(r = Ok x \<longrightarrow> x = destination_db \<and>
      (\<exists>b w s1 s2. is_loaded b d' \<and> rb_waypoint b = Some w \<and>
        run Epoch destination_db (rb_epoch_manifest b) (rb_version b) w d' s = (Ok (), s1) \<and>
        run Snapshot destination_db (rb_snapshot_manifest b) (rb_version b) w d' s1 = (Ok (), s2) \<and>
        run Transaction destination_db (rb_transaction_manifest b) (rb_version b) w d' s2 = (Ok (), s'))) \<and>
    (path_exists d destination_db \<longrightarrow> is_err r \<and> d' = d \<and> s' = s) \<and>
    (bundle_path \<in> set (dk_dirs d) \<longrightarrow>
      epoch_restore v run' bundle_path destination_db d' t =
        (Err ''Destination directory already exists and may contain conflicting state'', d', t))"
proof (intro conjI impI)
  assume r: "r = Ok x"
  with assms epoch_restore_Ok obtain b where "full_restore run destination_db b d' s = (Ok (), s')"
    and x: "x = destination_db" by metis
  then have "is_loaded b d'" and
    "seq (run_restore run Epoch destination_db b d' s) (\<lambda>s. seq (run_restore run Snapshot destination_db b d' s)
       (run_restore run Transaction destination_db b d')) = (Ok (), s')"
    by (auto simp: full_restore_def split: if_splits)
  then show "\<exists>b w s1 s2. is_loaded b d' \<and> rb_waypoint b = Some w \<and>
        run Epoch destination_db (rb_epoch_manifest b) (rb_version b) w d' s = (Ok (), s1) \<and>
        run Snapshot destination_db (rb_snapshot_manifest b) (rb_version b) w d' s1 = (Ok (), s2) \<and>
        run Transaction destination_db (rb_transaction_manifest b) (rb_version b) w d' s2 = (Ok (), s')"
    by (auto simp: rust_simps run_restore_Ok)
  show "x = destination_db" by (rule x)
next
  assume "path_exists d destination_db"
  with assms show "is_err r" "d' = d" "s' = s" by (auto simp: epoch_restore_def split: if_splits)
next
  assume "bundle_path \<in> set (dk_dirs d)"
  then have "path_exists d bundle_path" by (simp add: path_exists_def)
  with epoch_restore_dirs[OF assms] \<open>bundle_path \<in> set (dk_dirs d)\<close>
  have "path_exists d' bundle_path" "path_exists d destination_db \<or> path_exists d' destination_db"
    by (auto simp: path_exists_def)
  moreover have "d' = d" if "path_exists d destination_db"
    using that assms by (auto simp: epoch_restore_def split: if_splits)
  ultimately show "epoch_restore v run' bundle_path destination_db d' t =
        (Err ''Destination directory already exists and may contain conflicting state'', d', t)"
    by (auto simp: epoch_restore_def)
qed

theorem epoch_restore_once_witness:
  "\<exists>r d' s'. epoch_restore ref_vendor (\<lambda>_ _ _ _ _ _ s. (Ok (), s)) [''b''] [''db''] ref_disk () = (r, d', s') \<and>
     epoch_restore ref_vendor (\<lambda>_ _ _ _ _ _ s. (Ok (), s)) [''b''] [''db''] d' () =
       (Err ''Destination directory already exists and may contain conflicting state'', d', ())"
proof -
  obtain r d' s' where r: "epoch_restore ref_vendor (\<lambda>_ _ _ _ _ _ s. (Ok (), s)) [''b''] [''db''] ref_disk () = (r, d', s')"
    by (metis prod_cases3)
  have "[''b''] \<in> set (dk_dirs ref_disk)" by (simp add: ref_disk_def)
  with conjunct2[OF conjunct2[OF epoch_restore_once[OF r]]] have
    "epoch_restore ref_vendor (\<lambda>_ _ _ _ _ _ s. (Ok (), s)) [''b''] [''db''] d' () =
       (Err ''Destination directory already exists and may contain conflicting state'', d', ())" by simp
  with r show ?thesis by (intro exI conjI)
qed

section \<open>Decompressed files are where the manifests say\<close>

definition gz_name :: "dl_path \<Rightarrow> bool" where
  "gz_name p \<longleftrightarrow> p \<noteq> [] \<and> ends_with (last p) ''.gz'' \<and> length (last p) > 3"

lemma gz_nameE:
  assumes "gz_name p"
  obtains pre stem where "p = pre @ [stem @ ''.gz'']" "stem \<noteq> []" "without_extension p = pre @ [stem]"
proof -
  from assms have p: "p = butlast p @ [last p]" "ends_with (last p) ''.gz''" "length (last p) > 3"
    by (simp_all add: gz_name_def)
  define stem where "stem = take (length (last p) - 3) (last p)"
  from p(2) have last: "last p = stem @ ''.gz''"
    using append_take_drop_id[of "length (last p) - 3" "last p"] by (simp add: ends_with_def stem_def eval_nat_numeral)
  moreover from p(3) have "stem \<noteq> []" by (auto simp: stem_def)
  moreover from this have "drop_extension (stem @ ''.gz'') = stem"
    by (simp add: drop_extension_def Let_def)
  ultimately have "without_extension p = butlast p @ [stem]"
    using assms by (simp add: without_extension_def gz_name_def)
  with that[of "butlast p" stem] last \<open>stem \<noteq> []\<close> p(1) show thesis by simp
qed

lemma join_snoc: "join sep (ws @ [w @ t]) = join sep (ws @ [w]) @ t"
  by (induction sep ws rule: join.induct) auto

lemma strip_gz_display: "gz_name p \<Longrightarrow> strip_gz (JString (display p)) = JString (display (without_extension p))"
proof (elim gz_nameE)
  fix pre stem assume "p = pre @ [stem @ ''.gz'']" "without_extension p = pre @ [stem]"
  moreover have "strip_suffix ''.gz'' (x @ ''.gz'') = Some x" for x by (simp add: strip_suffix_def ends_with_def)
  ultimately show ?thesis unfolding display_def by (simp add: join_snoc)
qed

lemma without_extension_inj: "gz_name p \<Longrightarrow> gz_name q \<Longrightarrow> without_extension p = without_extension q \<Longrightarrow> p = q"
  by (elim gz_nameE) simp

lemma decompress_one_Ok:
  assumes "decompress_one v p d = (Ok u, d')" and "without_extension p \<noteq> p"
  shows "\<exists>z t. bt_get p (dk_files d) = Some z \<and> rv_gunzip v z = Ok t \<and>
    (\<forall>q. bt_get q (dk_files d') =
      (if q = p then None else if q = without_extension p then Some t else bt_get q (dk_files d)))"
  using assms by (auto simp: decompress_one_def Let_def rust_simps)

lemma decompress_all:
  assumes "for_each (decompress_one v) gs d = (Ok u, d')" and "distinct gs"
    and "\<And>g. g \<in> set gs \<Longrightarrow> gz_name g" and "\<And>g. g \<in> set gs \<Longrightarrow> without_extension g \<notin> set gs"
  shows "(\<forall>g \<in> set gs. bt_get g (dk_files d') = None \<and>
      (\<exists>z t. bt_get g (dk_files d) = Some z \<and> rv_gunzip v z = Ok t \<and> bt_get (without_extension g) (dk_files d') = Some t)) \<and>
    (\<forall>p. p \<notin> set gs \<and> p \<notin> without_extension ` set gs \<longrightarrow> bt_get p (dk_files d') = bt_get p (dk_files d))"
  using assms
proof (induction gs arbitrary: d)
  case (Cons g gs)
  let ?out = "without_extension g"
  have g: "gz_name g" "?out \<noteq> g" "?out \<notin> set gs" using Cons.prems(3,4)[of g] by auto
  from Cons.prems(1) obtain d1 where one: "decompress_one v g d = (Ok (), d1)"
    and rest: "for_each (decompress_one v) gs d1 = (Ok u, d')" by (auto simp: rust_simps)
  from decompress_one_Ok[OF one g(2)] obtain z t where zt: "bt_get g (dk_files d) = Some z" "rv_gunzip v z = Ok t"
    and d1: "\<And>q. bt_get q (dk_files d1) = (if q = g then None else if q = ?out then Some t else bt_get q (dk_files d))"
    by blast
  have IH: "(\<forall>g \<in> set gs. bt_get g (dk_files d') = None \<and>
      (\<exists>z t. bt_get g (dk_files d1) = Some z \<and> rv_gunzip v z = Ok t \<and> bt_get (without_extension g) (dk_files d') = Some t)) \<and>
    (\<forall>p. p \<notin> set gs \<and> p \<notin> without_extension ` set gs \<longrightarrow> bt_get p (dk_files d') = bt_get p (dk_files d1))"
    using Cons.IH[OF rest] Cons.prems(2-4) by simp
  have "?out \<notin> without_extension ` set gs"
    using without_extension_inj[OF g(1)] Cons.prems(2,3) by auto
  moreover have "g \<notin> without_extension ` set gs" using Cons.prems(4) by auto
  ultimately have here: "bt_get ?out (dk_files d') = Some t" "bt_get g (dk_files d') = None"
    using IH d1 g Cons.prems(2) by auto
  have later: "bt_get h (dk_files d1) = bt_get h (dk_files d)" if "h \<in> set gs" for h
    using d1[of h] that g(3) Cons.prems(2) by auto
  show ?case
  proof (intro conjI ballI allI impI)
    fix h assume h: "h \<in> set (g # gs)"
    show "bt_get h (dk_files d') = None" using h IH here by auto
    show "\<exists>z t. bt_get h (dk_files d) = Some z \<and> rv_gunzip v z = Ok t \<and> bt_get (without_extension h) (dk_files d') = Some t"
      using h IH here zt later by (cases "h = g") auto
  next
    fix p assume "p \<notin> set (g # gs) \<and> p \<notin> without_extension ` set (g # gs)"
    with IH d1 show "bt_get p (dk_files d') = bt_get p (dk_files d)" by auto
  qed
qed simp

text \<open>
  After decompression each compressed file is replaced by its contents, under the very path that the update of
  the manifests makes of the compressed path; every other file is as before. Compressed files whose output is itself
  compressed are excluded.
\<close>

theorem decompress_matches_manifest:
  assumes "maybe_decompress_gz_files v dir d = (Ok u, d')" and "glob_files v (display dir @ ''/**/*.gz'') d = Ok gs"
    and "distinct gs" and "list_all (\<lambda>g. gz_name g \<and> without_extension g \<notin> set gs) gs"
  shows "(\<forall>g \<in> set gs. bt_get g (dk_files d') = None \<and>
      (\<exists>z t q. bt_get g (dk_files d) = Some z \<and> rv_gunzip v z = Ok t \<and>
        strip_gz (JString (display g)) = JString (display q) \<and> bt_get q (dk_files d') = Some t)) \<and>
    (\<forall>p. p \<notin> set gs \<and> p \<notin> without_extension ` set gs \<longrightarrow> bt_get p (dk_files d') = bt_get p (dk_files d))"
proof -
  from assms(1,2) have "for_each (decompress_one v) gs d = (Ok u, d')" by (simp add: maybe_decompress_gz_files_def)
  from decompress_all[OF this assms(3)] assms(4) strip_gz_display show ?thesis
    by (simp add: list_all_iff) metis
qed

definition ref_gz_disk :: disk where
  "ref_gz_disk = \<lparr>dk_files = [([''b'', ''s'', ''0-.chunk.gz''], ''C''), ([''b'', ''s'', ''state.manifest''], ''S'')], dk_dirs = []\<rparr>"

theorem decompress_matches_manifest_witness:
  "\<exists>d'. maybe_decompress_gz_files ref_vendor [''b''] ref_gz_disk = (Ok (), d') \<and>
     (\<exists>z t q. bt_get [''b'', ''s'', ''0-.chunk.gz''] (dk_files ref_gz_disk) = Some z \<and> rv_gunzip ref_vendor z = Ok t \<and>
       strip_gz (JString (display [''b'', ''s'', ''0-.chunk.gz''])) = JString (display q) \<and> bt_get q (dk_files d') = Some t)"
proof -
  have glob: "glob_files ref_vendor (display [''b''] @ ''/**/*.gz'') ref_gz_disk = Ok [[''b'', ''s'', ''0-.chunk.gz'']]"
    by (simp add: glob_files_def ref_vendor_def ref_gz_disk_def display_def)
  then obtain d' where d': "maybe_decompress_gz_files ref_vendor [''b''] ref_gz_disk = (Ok (), d')"
    by (simp add: maybe_decompress_gz_files_def decompress_one_def read_to_string_def ref_gz_disk_def Let_def
        write_file_def bt_get_def without_extension_def drop_extension_def) (simp add: ref_vendor_def)
  have "list_all (\<lambda>g. gz_name g \<and> without_extension g \<notin> set [[''b'', ''s'', ''0-.chunk.gz'']]) [[''b'', ''s'', ''0-.chunk.gz'']]"
    by (simp add: gz_name_def ends_with_def without_extension_def drop_extension_def)
  from decompress_matches_manifest[OF d' glob _ this] d' show ?thesis by auto
qed

end
