(* ===== verification/Legacy_Address.thy ===== *)
theory Legacy_Address
  imports Rust_Std
begin

text \<open>
  The 16-byte account addresses of chain versions up to five, \<open>LegacyAddressV5\<close>
  (\<^verbatim>\<open>src/compatibility/src/version_five/legacy_address_v5.rs\<close>), and the event keys built from them
  (\<^verbatim>\<open>event_v5.rs\<close>). The type \<open>[u8; 16]\<close> is the list type with the length as an invariant; the
  theorems show that every constructor keeps it and that each printed form parses back.

  Serde: what a value hands to a serializer is a \<open>ser_value\<close>: a string for human-readable formats,
  a named newtype around bytes otherwise. The formats themselves are third-party code.
\<close>

section \<open>Serde values\<close>

datatype ser_value =
    SerStr string
  | SerNewtype string bytes

section \<open>Addresses\<close>

type_synonym LegacyAddressV5 = bytes

definition LENGTH_ADDR :: nat where
  "LENGTH_ADDR = 16"

definition LEGACY_CORE_CODE_ADDRESS :: LegacyAddressV5 where
  "LEGACY_CORE_CODE_ADDRESS = replicate 15 0 @ [1]"

definition addr_ok :: "LegacyAddressV5 \<Rightarrow> bool" where
  "addr_ok a \<longleftrightarrow> length a = LENGTH_ADDR"

definition ZERO_ADDR :: LegacyAddressV5 where
  "ZERO_ADDR = replicate LENGTH_ADDR 0"

definition addr_short_str_lossless :: "(bytes \<Rightarrow> string) \<Rightarrow> LegacyAddressV5 \<Rightarrow> string" where
  "addr_short_str_lossless hex_encode a =
     (let hex_str = dropWhile (\<lambda>c. c = CHR ''0'') (hex_encode a)
      in if hex_str = [] then ''0'' else hex_str)"

text \<open>\<open><[u8; 16]>::from_hex\<close> and \<open><[u8; 16]>::try_from\<close>: the array length is checked.\<close>

definition addr_parse_error :: string where
  "addr_parse_error = ''unable to parse AccoutAddress''"

definition addr_from_bytes :: "bytes \<Rightarrow> LegacyAddressV5 rres" where
  "addr_from_bytes bs = (if length bs = LENGTH_ADDR then Ok bs else Err addr_parse_error)"

definition addr_from_hex :: "(string \<Rightarrow> bytes option) \<Rightarrow> string \<Rightarrow> LegacyAddressV5 rres" where
  "addr_from_hex hex_decode h =
     (case hex_decode h of
        None \<Rightarrow> Err addr_parse_error
      | Some bs \<Rightarrow> if length bs = LENGTH_ADDR then Ok bs else Err addr_parse_error)"

definition addr_from_hex_literal :: "(string \<Rightarrow> bytes option) \<Rightarrow> string \<Rightarrow> LegacyAddressV5 rres" where
  "addr_from_hex_literal hex_decode literal =
     (if \<not> starts_with literal ''0x'' then Err addr_parse_error
      else
        let hex_len = length literal - 2 in
        if hex_len < LENGTH_ADDR * 2
        then addr_from_hex hex_decode (replicate (LENGTH_ADDR * 2 - hex_len) (CHR ''0'') @ drop 2 literal)
        else addr_from_hex hex_decode (drop 2 literal))"

definition addr_to_hex_literal :: "(bytes \<Rightarrow> string) \<Rightarrow> LegacyAddressV5 \<Rightarrow> string" where
  "addr_to_hex_literal hex_encode a = ''0x'' @ addr_short_str_lossless hex_encode a"

text \<open>The formatting traits; the flag is \<open>Formatter::alternate\<close>.\<close>

definition addr_LowerHex :: "bool \<Rightarrow> LegacyAddressV5 \<Rightarrow> string" where
  "addr_LowerHex alternate a = (if alternate then ''0x'' else []) @ concat (map hex_byte a)"

definition addr_UpperHex :: "bool \<Rightarrow> LegacyAddressV5 \<Rightarrow> string" where
  "addr_UpperHex alternate a = (if alternate then ''0x'' else []) @ concat (map hex_byte_upper a)"

definition addr_Display :: "LegacyAddressV5 \<Rightarrow> string" where
  "addr_Display a = addr_UpperHex False a"

definition addr_Debug :: "LegacyAddressV5 \<Rightarrow> string" where
  "addr_Debug a = addr_UpperHex False a"

definition addr_to_hex :: "LegacyAddressV5 \<Rightarrow> string" where
  "addr_to_hex a = addr_LowerHex False a"

text \<open>The conversions \<open>From<&LegacyAddressV5> for String\<close>, \<open>TryFrom<String>\<close> and \<open>FromStr\<close>.\<close>

definition addr_into_string :: "(bytes \<Rightarrow> string) \<Rightarrow> LegacyAddressV5 \<Rightarrow> string" where
  "addr_into_string hex_encode a = hex_encode a"

definition addr_try_from_string :: "(string \<Rightarrow> bytes option) \<Rightarrow> string \<Rightarrow> LegacyAddressV5 rres" where
  "addr_try_from_string hex_decode s = addr_from_hex hex_decode s"

definition addr_from_str :: "(string \<Rightarrow> bytes option) \<Rightarrow> string \<Rightarrow> LegacyAddressV5 rres" where
  "addr_from_str hex_decode s = addr_from_hex hex_decode s"

definition addr_serialize :: "bool \<Rightarrow> LegacyAddressV5 \<Rightarrow> ser_value" where
  "addr_serialize is_human_readable a =
     (if is_human_readable then SerStr (addr_to_hex a) else SerNewtype ''LegacyAddressV5'' a)"

definition addr_deserialize :: "(string \<Rightarrow> bytes option) \<Rightarrow> bool \<Rightarrow> ser_value \<Rightarrow> LegacyAddressV5 rres" where
  "addr_deserialize hex_decode is_human_readable v =
     (if is_human_readable then
        (case v of SerStr s \<Rightarrow> addr_from_hex hex_decode s | _ \<Rightarrow> Err ''invalid type'')
      else
        (case v of
           SerNewtype n bs \<Rightarrow>
             if n = ''LegacyAddressV5'' \<and> length bs = LENGTH_ADDR then Ok bs else Err ''invalid type''
         | _ \<Rightarrow> Err ''invalid type''))"

section \<open>Event keys\<close>

type_synonym EventKeyV5 = bytes

definition LENGTH_EVENT_KEY :: nat where
  "LENGTH_EVENT_KEY = LENGTH_ADDR + 8"

definition event_key_ok :: "EventKeyV5 \<Rightarrow> bool" where
  "event_key_ok k \<longleftrightarrow> length k = LENGTH_EVENT_KEY"

definition event_key_parse_error :: string where
  "event_key_parse_error = ''unable to parse EventKey''"

definition get_creator_address :: "EventKeyV5 \<Rightarrow> LegacyAddressV5 rres" where
  "get_creator_address k =
     unwrap ''get_creator_address failed'' (addr_from_bytes (drop (LENGTH_EVENT_KEY - LENGTH_ADDR) k))"

definition get_creation_number :: "EventKeyV5 \<Rightarrow> u64" where
  "get_creation_number k = from_le_bytes (take 8 k)"

definition new_from_address :: "LegacyAddressV5 \<Rightarrow> u64 \<Rightarrow> EventKeyV5" where
  "new_from_address addr salt = to_le_bytes salt @ addr"

definition event_key_from_hex :: "(string \<Rightarrow> bytes option) \<Rightarrow> string \<Rightarrow> EventKeyV5 rres" where
  "event_key_from_hex hex_decode h =
     (case hex_decode h of
        None \<Rightarrow> Err event_key_parse_error
      | Some bs \<Rightarrow> if length bs = LENGTH_EVENT_KEY then Ok bs else Err event_key_parse_error)"

definition event_key_from_bytes :: "bytes \<Rightarrow> EventKeyV5 rres" where
  "event_key_from_bytes bs =
     (if length bs = LENGTH_EVENT_KEY then Ok bs else Err event_key_parse_error)"

definition event_key_from_str :: "(string \<Rightarrow> bytes option) \<Rightarrow> string \<Rightarrow> EventKeyV5 rres" where
  "event_key_from_str hex_decode s = event_key_from_hex hex_decode s"

definition event_key_LowerHex :: "bool \<Rightarrow> EventKeyV5 \<Rightarrow> string" where
  "event_key_LowerHex alternate k = (if alternate then ''0x'' else []) @ concat (map hex_byte k)"

definition event_key_Display :: "EventKeyV5 \<Rightarrow> string" where
  "event_key_Display k = event_key_LowerHex False k"

definition event_key_Debug :: "EventKeyV5 \<Rightarrow> string" where
  "event_key_Debug k = ''EventKey('' @ event_key_LowerHex False k @ '')''"

definition event_key_serialize :: "bool \<Rightarrow> EventKeyV5 \<Rightarrow> ser_value" where
  "event_key_serialize is_human_readable k =
     (if is_human_readable then SerStr (event_key_Display k) else SerNewtype ''EventKey'' k)"

definition event_key_deserialize :: "(string \<Rightarrow> bytes option) \<Rightarrow> bool \<Rightarrow> ser_value \<Rightarrow> EventKeyV5 rres" where
  "event_key_deserialize hex_decode is_human_readable v =
     (if is_human_readable then
        (case v of SerStr s \<Rightarrow> event_key_from_hex hex_decode s | _ \<Rightarrow> Err ''invalid type'')
      else
        (case v of
           SerNewtype n bs \<Rightarrow>
             if n = ''EventKey'' then event_key_from_bytes bs else Err ''invalid type''
         | _ \<Rightarrow> Err ''invalid type''))"

record EventHandleV5 =
  eh_count :: u64
  eh_key :: EventKeyV5

definition EventHandleV5_new :: "EventKeyV5 \<Rightarrow> u64 \<Rightarrow> EventHandleV5" where
  "EventHandleV5_new key cnt = \<lparr>eh_count = cnt, eh_key = key\<rparr>"

section \<open>Lemmas\<close>

lemmas addr_fmt_defs =
  addr_LowerHex_def addr_UpperHex_def addr_Display_def addr_Debug_def addr_to_hex_def

lemma addr_to_hex_lower: "addr_to_hex a = lower_hex a" "addr_Display a = upper_hex a"
  by (simp_all add: addr_fmt_defs lower_hex_def upper_hex_def)

lemma event_key_Display_lower: "event_key_Display k = lower_hex k"
  by (simp add: event_key_Display_def event_key_LowerHex_def lower_hex_def)

lemma addr_from_hex_Ok_iff: "addr_from_hex dec s = Ok a \<longleftrightarrow> dec s = Some a \<and> addr_ok a"
  by (auto simp: addr_from_hex_def addr_ok_def split: option.splits)

lemma event_key_from_hex_Ok_iff:
  "event_key_from_hex dec s = Ok k \<longleftrightarrow> dec s = Some k \<and> event_key_ok k"
  by (auto simp: event_key_from_hex_def event_key_ok_def split: option.splits)

lemma pad_dropWhile:
  "replicate (length s - length (dropWhile (\<lambda>c. c = d) s)) d @ dropWhile (\<lambda>c. c = d) s = s"
proof -
  have "takeWhile (\<lambda>c. c = d) s = replicate (length (takeWhile (\<lambda>c. c = d) s)) d"
    by (rule replicate_eqI[symmetric, THEN sym]) (auto dest: set_takeWhileD)
  moreover have "length s - length (dropWhile (\<lambda>c. c = d) s) = length (takeWhile (\<lambda>c. c = d) s)"
    using takeWhile_dropWhile_id[of "\<lambda>c. c = d" s] by (metis add_diff_cancel_right' length_append)
  ultimately show ?thesis
    by (metis takeWhile_dropWhile_id)
qed

text \<open>Padding the shortened form back to the fixed width restores the full hexadecimal form.\<close>

lemma pad_short_str:
  assumes "s \<noteq> []" and "t = (let u = dropWhile (\<lambda>c. c = CHR ''0'') s in if u = [] then ''0'' else u)"
  shows "replicate (length s - length t) (CHR ''0'') @ t = s \<and> length t \<le> length s"
proof (cases "dropWhile (\<lambda>c. c = CHR ''0'') s = []")
  case True
  with pad_dropWhile[where d = "CHR ''0''" and s = s] have s: "s = replicate (length s) (CHR ''0'')"
    by simp
  from assms(1) have "Suc (length s - 1) = length s" by (cases s) auto
  moreover have "replicate (length s - 1) (CHR ''0'') @ ''0'' = replicate (Suc (length s - 1)) (CHR ''0'')"
    by (simp add: replicate_append_same)
  ultimately show ?thesis
    using True s assms by (simp add: Suc_le_eq)
next
  case False
  then have "t = dropWhile (\<lambda>c. c = CHR ''0'') s"
    unfolding assms(2) Let_def by (rule if_not_P)
  with pad_dropWhile[where d = "CHR ''0''" and s = s] show ?thesis
    by (simp add: length_dropWhile_le)
qed

lemma addr_literal_roundtrip:
  assumes hex: "hex_crate hex_encode hex_decode" and a: "addr_ok a"
  shows "addr_from_hex_literal hex_decode (addr_to_hex_literal hex_encode a) = Ok a"
proof -
  let ?s = "lower_hex a" and ?t = "addr_short_str_lossless hex_encode a"
  have len: "length ?s = 32" using a by (simp add: addr_ok_def LENGTH_ADDR_def)
  then have "?s \<noteq> []" by (metis length_0_conv numeral_neq_zero)
  have he: "hex_encode = lower_hex" using hex_crate.encode_lower[OF hex] by blast
  from pad_short_str[OF \<open>?s \<noteq> []\<close> addr_short_str_lossless_def[of hex_encode a, unfolded he]]
  have pad: "replicate (32 - length ?t) (CHR ''0'') @ ?t = ?s" and t: "length ?t \<le> 32"
    unfolding len he by simp_all
  have dec: "addr_from_hex hex_decode ?s = Ok a"
    using a by (simp add: addr_from_hex_Ok_iff hex_crate.decode_lower[OF hex])
  show ?thesis
  proof (cases "length ?t < 32")
    case True
    with dec pad show ?thesis
      by (simp add: addr_from_hex_literal_def addr_to_hex_literal_def starts_with_def LENGTH_ADDR_def)
  next
    case False
    with t pad have "?t = ?s" by simp
    with dec False show ?thesis
      by (simp add: addr_from_hex_literal_def addr_to_hex_literal_def starts_with_def LENGTH_ADDR_def)
  qed
qed

section \<open>Theorems\<close>

text \<open>
  Every textual form of a legacy address parses back to it: the full lower-case and upper-case
  forms through \<open>from_hex\<close>, and the shortened \<open>0x\<close> literal, whose leading zeros are dropped when
  printing and restored when parsing, through \<open>from_hex_literal\<close>.
\<close>

theorem legacy_address_text_roundtrip:
  assumes "hex_crate hex_encode hex_decode" and "addr_ok a"
  shows "addr_from_hex_literal hex_decode (addr_to_hex_literal hex_encode a) = Ok a \<and>
    addr_from_hex hex_decode (addr_to_hex a) = Ok a \<and>
    addr_from_str hex_decode (addr_Display a) = Ok a \<and>
    addr_try_from_string hex_decode (addr_into_string hex_encode a) = Ok a"
proof (intro conjI)
  show "addr_from_hex_literal hex_decode (addr_to_hex_literal hex_encode a) = Ok a"
    by (rule addr_literal_roundtrip[OF assms])
qed (use assms in \<open>simp_all add: addr_to_hex_lower addr_from_str_def addr_try_from_string_def
       addr_into_string_def addr_from_hex_Ok_iff hex_crate.decode_lower hex_crate.decode_upper
       hex_crate.decode_encode\<close>)

theorem legacy_address_text_roundtrip_witness:
  "addr_to_hex_literal lower_hex LEGACY_CORE_CODE_ADDRESS = ''0x1'' \<and>
   addr_from_hex_literal hex_decode_ref (addr_to_hex_literal lower_hex LEGACY_CORE_CODE_ADDRESS)
     = Ok LEGACY_CORE_CODE_ADDRESS"
proof
  show "addr_to_hex_literal lower_hex LEGACY_CORE_CODE_ADDRESS = ''0x1''" by code_simp
  have "addr_ok LEGACY_CORE_CODE_ADDRESS" by code_simp
  from legacy_address_text_roundtrip[OF ref_hex.hex_crate_axioms this]
  show "addr_from_hex_literal hex_decode_ref (addr_to_hex_literal lower_hex LEGACY_CORE_CODE_ADDRESS)
     = Ok LEGACY_CORE_CODE_ADDRESS" by blast
qed

lemma addr_from_hex_total:
  "addr_from_hex dec s = Err addr_parse_error \<or> (\<exists>a. addr_from_hex dec s = Ok a \<and> addr_ok a)"
  by (simp add: addr_from_hex_def addr_ok_def split: option.splits)

lemma addr_from_hex_exact:
  assumes "hex_crate hex_encode hex_decode"
  shows "addr_from_hex hex_decode s = Ok a \<longleftrightarrow> length s = 32 \<and> hex_decode s = Some a"
  using hex_crate.decode_length[OF assms, of s a]
  by (auto simp: addr_from_hex_Ok_iff addr_ok_def LENGTH_ADDR_def)

text \<open>The literal parser pads on the left to 32 digits; a longer literal fails on its length.\<close>

lemma addr_from_hex_literal_pad:
  "addr_from_hex_literal dec s =
     (if starts_with s ''0x''
      then addr_from_hex dec (replicate (32 - length (drop 2 s)) (CHR ''0'') @ drop 2 s)
      else Err addr_parse_error)"
  by (simp add: addr_from_hex_literal_def LENGTH_ADDR_def Let_def)



text \<open>
  Serde round trip of addresses and event keys, for human-readable and for binary formats: what
  \<open>Serialize\<close> writes, \<open>Deserialize\<close> with the same flag reads back.
\<close>

theorem legacy_serde_roundtrip:
  assumes "hex_crate hex_encode hex_decode" and "addr_ok a" and "event_key_ok k"
  shows "addr_deserialize hex_decode human (addr_serialize human a) = Ok a \<and>
    event_key_deserialize hex_decode human (event_key_serialize human k) = Ok k"
  using assms
  by (auto simp: addr_deserialize_def addr_serialize_def event_key_deserialize_def
      event_key_serialize_def addr_to_hex_lower event_key_Display_lower addr_from_hex_Ok_iff
      event_key_from_hex_Ok_iff hex_crate.decode_lower event_key_from_bytes_def addr_ok_def event_key_ok_def)

theorem legacy_serde_roundtrip_witness:
  "addr_deserialize hex_decode_ref True (addr_serialize True ZERO_ADDR) = Ok ZERO_ADDR \<and>
   event_key_deserialize hex_decode_ref True (event_key_serialize True (replicate 24 7)) = Ok (replicate 24 7)"
  by (rule legacy_serde_roundtrip[OF ref_hex.hex_crate_axioms]) code_simp+

text \<open>
  An event key packs the creator's address and the creation number without loss: both are read
  back, so two keys are equal only when both parts are.
\<close>

theorem event_key_fields:
  assumes "addr_ok a" and "addr_ok b"
  shows "event_key_ok (new_from_address a n) \<and>
    get_creator_address (new_from_address a n) = Ok a \<and>
    get_creation_number (new_from_address a n) = n \<and>
    (new_from_address a n = new_from_address b m \<longleftrightarrow> a = b \<and> n = m)"
proof -
  have len: "length (to_le_bytes n) = 8" for n by simp
  have inj: "to_le_bytes n = to_le_bytes m \<Longrightarrow> n = m" for n m
    by (metis from_to_le_bytes)
  show ?thesis
    using assms
    by (auto simp: new_from_address_def event_key_ok_def LENGTH_EVENT_KEY_def addr_ok_def
        get_creator_address_def get_creation_number_def addr_from_bytes_def dest: inj)
qed

theorem event_key_fields_witness:
  "get_creator_address (new_from_address LEGACY_CORE_CODE_ADDRESS 5) = Ok LEGACY_CORE_CODE_ADDRESS \<and>
   get_creation_number (new_from_address LEGACY_CORE_CODE_ADDRESS 5) = 5"
proof -
  have ok: "addr_ok LEGACY_CORE_CODE_ADDRESS" by code_simp
  from event_key_fields[OF ok ok] show ?thesis by blast
qed

end
