(* ===== verification/Language_Storage.thy ===== *)
theory Language_Storage
  imports Legacy_Address
begin

text \<open>
  Version five type tags and storage keys
  (\<^verbatim>\<open>src/compatibility/src/version_five/language_storage_v5.rs\<close>, \<^verbatim>\<open>safe_serialize_v5.rs\<close> and
  \<^verbatim>\<open>move_resource_v5.rs\<close>).

  The nesting guard of \<^verbatim>\<open>safe_serialize_v5.rs\<close> is a thread-local counter that every level of a tag
  raises and lowers again: serialization and deserialization are functions on that counter. What a
  type hands to a serializer is its serde data model tree (\<open>serde_dm\<close>); the step from the tree to bytes
  is the BCS crate, third-party code with the contract \<open>bcs_canonical\<close>: values of one type have
  different encodings. The encoder \<open>bcs_enc\<close> of the published format satisfies the contract.
\<close>

section \<open>Type tags\<close>

datatype TypeTagV5 =
    TagBool
  | TagU8
  | TagU64
  | TagU128
  | TagAddress
  | TagSigner
  | TagVector TypeTagV5
  | TagStruct StructTagV5
and StructTagV5 =
    StructTag (st_address: LegacyAddressV5) (st_module: string) (st_name: string)
      (st_type_params: "TypeTagV5 list")

definition CODE_TAG :: u8 where
  "CODE_TAG = 0"

definition RESOURCE_TAG :: u8 where
  "RESOURCE_TAG = 1"

definition CORE_CODE_ADDRESS :: LegacyAddressV5 where
  "CORE_CODE_ADDRESS = [0, 0, 0, 0, 0, 0, 0, 0, 0, 0, 0, 0, 0, 0, 0, 1]"

record ResourceKeyV5 =
  rk_address :: LegacyAddressV5
  rk_type :: StructTagV5

record ModuleIdV5 =
  mi_address :: LegacyAddressV5
  mi_name :: string

definition StructTag_module_id :: "StructTagV5 \<Rightarrow> ModuleIdV5" where
  "StructTag_module_id s = \<lparr>mi_address = st_address s, mi_name = st_module s\<rparr>"

text \<open>The \<open>Display\<close> instances.\<close>

fun TypeTag_Display :: "(bytes \<Rightarrow> string) \<Rightarrow> TypeTagV5 \<Rightarrow> string"
and StructTag_Display :: "(bytes \<Rightarrow> string) \<Rightarrow> StructTagV5 \<Rightarrow> string"
and TypeTags_Display :: "(bytes \<Rightarrow> string) \<Rightarrow> TypeTagV5 list \<Rightarrow> string" where
  "TypeTag_Display hex_encode (TagStruct s) = StructTag_Display hex_encode s"
| "TypeTag_Display hex_encode (TagVector ty) = ''vector<'' @ TypeTag_Display hex_encode ty @ ''>''"
| "TypeTag_Display hex_encode TagU8 = ''u8''"
| "TypeTag_Display hex_encode TagU64 = ''u64''"
| "TypeTag_Display hex_encode TagU128 = ''u128''"
| "TypeTag_Display hex_encode TagAddress = ''address''"
| "TypeTag_Display hex_encode TagSigner = ''signer''"
| "TypeTag_Display hex_encode TagBool = ''bool''"
| "StructTag_Display hex_encode (StructTag a m n ps) =
     ''0x'' @ addr_short_str_lossless hex_encode a @ ''::'' @ m @ ''::'' @ n @
     (case ps of
        [] \<Rightarrow> []
      | first_ty # rest \<Rightarrow>
          ''<'' @ TypeTag_Display hex_encode first_ty @ TypeTags_Display hex_encode rest @ ''>'')"
| "TypeTags_Display hex_encode [] = []"
| "TypeTags_Display hex_encode (ty # tys) =
     '', '' @ TypeTag_Display hex_encode ty @ TypeTags_Display hex_encode tys"

definition ModuleId_Display :: "ModuleIdV5 \<Rightarrow> string" where
  "ModuleId_Display m = addr_Display (mi_address m) @ ''::'' @ mi_name m"

definition ResourceKey_Display :: "(bytes \<Rightarrow> string) \<Rightarrow> ResourceKeyV5 \<Rightarrow> string" where
  "ResourceKey_Display hex_encode k =
     ''0x'' @ addr_short_str_lossless hex_encode (rk_address k) @ ''/'' @
     StructTag_Display hex_encode (rk_type k)"

section \<open>Serialization with a nesting counter\<close>

datatype serde_dm =
    DmUnitVariant nat
  | DmNewtypeVariant nat serde_dm
  | DmStruct "serde_dm list"
  | DmSeq "serde_dm list"
  | DmStr string
  | DmTuple bytes

text \<open>Computations on the thread-local \<open>TYPE_TAG_DEPTH\<close>.\<close>

type_synonym 'a depth_m = "u8 \<Rightarrow> 'a rres \<times> u8"

definition dret :: "'a \<Rightarrow> 'a depth_m" where
  "dret x = (\<lambda>d. (Ok x, d))"

definition derr :: "string \<Rightarrow> 'a depth_m" where
  "derr e = (\<lambda>d. (Err e, d))"

definition dbind :: "'a depth_m \<Rightarrow> ('a \<Rightarrow> 'b depth_m) \<Rightarrow> 'b depth_m" where
  "dbind m f = (\<lambda>d.
     case m d of
       (Ok x, d') \<Rightarrow> f x d'
     | (Err e, d') \<Rightarrow> (Err e, d')
     | (Panic p, d') \<Rightarrow> (Panic p, d'))"

definition MAX_TYPE_TAG_NESTING :: u8 where
  "MAX_TYPE_TAG_NESTING = 9"

definition type_tag_recursive_serialize :: "'a depth_m \<Rightarrow> 'a depth_m" where
  "type_tag_recursive_serialize serialize r =
     (if r \<ge> MAX_TYPE_TAG_NESTING
      then (Err ''type tag nesting exceeded during serialization'', r)
      else case serialize (r + 1) of (res, r') \<Rightarrow> (res, r' - 1))"

definition type_tag_recursive_deserialize :: "'a depth_m \<Rightarrow> 'a depth_m" where
  "type_tag_recursive_deserialize deserialize r =
     (if r \<ge> MAX_TYPE_TAG_NESTING - 1
      then (Err ''type tag nesting exceeded during deserialization'', r)
      else case deserialize (r + 1) of (res, r') \<Rightarrow> (res, r' - 1))"

text \<open>The derived serializers: variants are numbered in declaration order.\<close>

fun ser_tag :: "TypeTagV5 \<Rightarrow> serde_dm depth_m"
and ser_struct :: "StructTagV5 \<Rightarrow> serde_dm depth_m"
and ser_tags :: "TypeTagV5 list \<Rightarrow> serde_dm list depth_m" where
  "ser_tag TagBool = dret (DmUnitVariant 0)"
| "ser_tag TagU8 = dret (DmUnitVariant 1)"
| "ser_tag TagU64 = dret (DmUnitVariant 2)"
| "ser_tag TagU128 = dret (DmUnitVariant 3)"
| "ser_tag TagAddress = dret (DmUnitVariant 4)"
| "ser_tag TagSigner = dret (DmUnitVariant 5)"
| "ser_tag (TagVector t) =
     dbind (type_tag_recursive_serialize (ser_tag t)) (\<lambda>x. dret (DmNewtypeVariant 6 x))"
| "ser_tag (TagStruct s) =
     dbind (type_tag_recursive_serialize (ser_struct s)) (\<lambda>x. dret (DmNewtypeVariant 7 x))"
| "ser_struct (StructTag a m n ps) =
     dbind (ser_tags ps) (\<lambda>xs. dret (DmStruct [DmTuple a, DmStr m, DmStr n, DmSeq xs]))"
| "ser_tags [] = dret []"
| "ser_tags (t # ts) = dbind (ser_tag t) (\<lambda>x. dbind (ser_tags ts) (\<lambda>xs. dret (x # xs)))"

fun de_tag :: "serde_dm \<Rightarrow> TypeTagV5 depth_m"
and de_struct :: "serde_dm \<Rightarrow> StructTagV5 depth_m"
and de_tags :: "serde_dm list \<Rightarrow> TypeTagV5 list depth_m" where
  "de_tag (DmUnitVariant i) =
     (if i < 6 then dret ([TagBool, TagU8, TagU64, TagU128, TagAddress, TagSigner] ! i)
      else derr ''invalid variant'')"
| "de_tag (DmNewtypeVariant i x) =
     (if i = 6 then dbind (type_tag_recursive_deserialize (de_tag x)) (\<lambda>t. dret (TagVector t))
      else if i = 7 then dbind (type_tag_recursive_deserialize (de_struct x)) (\<lambda>s. dret (TagStruct s))
      else derr ''invalid variant'')"
| "de_tag (DmStruct xs) = derr ''invalid type''"
| "de_tag (DmSeq xs) = derr ''invalid type''"
| "de_tag (DmStr s) = derr ''invalid type''"
| "de_tag (DmTuple bs) = derr ''invalid type''"
| "de_struct (DmStruct [DmTuple a, DmStr m, DmStr n, DmSeq xs]) =
     (if length a = LENGTH_ADDR then dbind (de_tags xs) (\<lambda>ps. dret (StructTag a m n ps))
      else derr ''invalid length'')"
| "de_struct _ = derr ''invalid type''"
| "de_tags [] = dret []"
| "de_tags (x # xs) = dbind (de_tag x) (\<lambda>t. dbind (de_tags xs) (\<lambda>ts. dret (t # ts)))"

text \<open>
  \<open>access_vector\<close>: \<open>bcs::to_bytes\<close> drives the serializer on a fresh counter; an error is a panic in
  \<open>unwrap\<close>. The parameter \<open>bcs\<close> maps data model trees to bytes.
\<close>

definition StructTag_access_vector :: "(serde_dm \<Rightarrow> bytes) \<Rightarrow> StructTagV5 \<Rightarrow> bytes rres" where
  "StructTag_access_vector bcs s =
     rbind (unwrap ''called Result::unwrap() on an Err value'' (fst (ser_struct s 0)))
       (\<lambda>x. Ok (RESOURCE_TAG # bcs x))"

definition ser_module_id :: "ModuleIdV5 \<Rightarrow> serde_dm" where
  "ser_module_id m = DmStruct [DmTuple (mi_address m), DmStr (mi_name m)]"

definition ModuleId_access_vector :: "(serde_dm \<Rightarrow> bytes) \<Rightarrow> ModuleIdV5 \<Rightarrow> bytes" where
  "ModuleId_access_vector bcs m = CODE_TAG # bcs (ser_module_id m)"

text \<open>
  \<open>MoveStructTypeV5\<close>: the constants and the overridable \<open>type_params\<close> of a resource type, and the tag
  its default methods build.
\<close>

record MoveStructTypeV5 =
  mst_ADDRESS :: LegacyAddressV5
  mst_MODULE_NAME :: string
  mst_STRUCT_NAME :: string
  mst_type_params :: "TypeTagV5 list"

definition move_struct_tag :: "MoveStructTypeV5 \<Rightarrow> StructTagV5" where
  "move_struct_tag T =
     StructTag (mst_ADDRESS T) (mst_MODULE_NAME T) (mst_STRUCT_NAME T) (mst_type_params T)"

definition resource_path :: "(serde_dm \<Rightarrow> bytes) \<Rightarrow> MoveStructTypeV5 \<Rightarrow> bytes rres" where
  "resource_path bcs T = StructTag_access_vector bcs (move_struct_tag T)"

section \<open>Specification\<close>

text \<open>How deep a tag nests guarded positions, and its data model tree.\<close>

fun nesting :: "TypeTagV5 \<Rightarrow> nat" and nesting_struct :: "StructTagV5 \<Rightarrow> nat"
and nesting_list :: "TypeTagV5 list \<Rightarrow> nat" where
  "nesting (TagVector t) = Suc (nesting t)"
| "nesting (TagStruct s) = Suc (nesting_struct s)"
| "nesting _ = 0"
| "nesting_struct (StructTag a m n ps) = nesting_list ps"
| "nesting_list [] = 0"
| "nesting_list (t # ts) = max (nesting t) (nesting_list ts)"

fun dm_tag :: "TypeTagV5 \<Rightarrow> serde_dm" and dm_struct :: "StructTagV5 \<Rightarrow> serde_dm"
and dm_tags :: "TypeTagV5 list \<Rightarrow> serde_dm list" where
  "dm_tag TagBool = DmUnitVariant 0"
| "dm_tag TagU8 = DmUnitVariant 1"
| "dm_tag TagU64 = DmUnitVariant 2"
| "dm_tag TagU128 = DmUnitVariant 3"
| "dm_tag TagAddress = DmUnitVariant 4"
| "dm_tag TagSigner = DmUnitVariant 5"
| "dm_tag (TagVector t) = DmNewtypeVariant 6 (dm_tag t)"
| "dm_tag (TagStruct s) = DmNewtypeVariant 7 (dm_struct s)"
| "dm_struct (StructTag a m n ps) = DmStruct [DmTuple a, DmStr m, DmStr n, DmSeq (dm_tags ps)]"
| "dm_tags [] = []"
| "dm_tags (t # ts) = dm_tag t # dm_tags ts"

text \<open>The type invariant: every address in a tag has 16 bytes.\<close>

fun tag_ok :: "TypeTagV5 \<Rightarrow> bool" and struct_ok :: "StructTagV5 \<Rightarrow> bool"
and tags_ok :: "TypeTagV5 list \<Rightarrow> bool" where
  "tag_ok (TagVector t) \<longleftrightarrow> tag_ok t"
| "tag_ok (TagStruct s) \<longleftrightarrow> struct_ok s"
| "tag_ok _ \<longleftrightarrow> True"
| "struct_ok (StructTag a m n ps) \<longleftrightarrow> addr_ok a \<and> tags_ok ps"
| "tags_ok [] \<longleftrightarrow> True"
| "tags_ok (t # ts) \<longleftrightarrow> tag_ok t \<and> tags_ok ts"

section \<open>The counter\<close>

text \<open>
  A computation is guarded by a limit when it leaves the counter as it found it, and returns its
  value exactly when the counter and its own nesting stay within the limit.
\<close>

definition guarded :: "nat \<Rightarrow> string \<Rightarrow> 'a depth_m \<Rightarrow> nat \<Rightarrow> 'a \<Rightarrow> bool" where
  "guarded L e m n x \<longleftrightarrow>
     (\<forall>d. unat d \<le> L \<longrightarrow> m d = (if unat d + n \<le> L then Ok x else Err e, d))"

lemma guarded_dret [intro, simp]: "guarded L e (dret x) 0 x"
  by (simp add: guarded_def dret_def)

lemma guarded_dbind:
  "guarded L e m n x \<Longrightarrow> guarded L e (f x) k y \<Longrightarrow> guarded L e (dbind m f) (max n k) y"
  by (auto simp: guarded_def dbind_def)

lemma guarded_map: "guarded L e m n x \<Longrightarrow> guarded L e (dbind m (\<lambda>x. dret (f x))) n (f x)"
  using guarded_dbind[of L e m n x "\<lambda>x. dret (f x)" 0 "f x"] by simp

lemma unat_succ_small: "unat (d :: u8) < 255 \<Longrightarrow> unat (d + 1) = Suc (unat d)"
  by (simp add: unat_word_ariths)

lemma guarded_serialize:
  assumes "guarded 9 ''type tag nesting exceeded during serialization'' m n x"
  shows "guarded 9 ''type tag nesting exceeded during serialization''
           (type_tag_recursive_serialize m) (Suc n) x"
  using assms unat_succ_small
  by (auto simp: guarded_def type_tag_recursive_serialize_def MAX_TYPE_TAG_NESTING_def
      word_le_nat_alt not_le)

lemma guarded_deserialize:
  assumes "guarded 8 ''type tag nesting exceeded during deserialization'' m n x"
  shows "guarded 8 ''type tag nesting exceeded during deserialization''
           (type_tag_recursive_deserialize m) (Suc n) x"
  using assms unat_succ_small
  by (auto simp: guarded_def type_tag_recursive_deserialize_def MAX_TYPE_TAG_NESTING_def
      word_le_nat_alt not_le)

lemma ser_guarded:
  "guarded 9 ''type tag nesting exceeded during serialization'' (ser_tag t) (nesting t) (dm_tag t)"
  "guarded 9 ''type tag nesting exceeded during serialization'' (ser_struct s) (nesting_struct s) (dm_struct s)"
  "guarded 9 ''type tag nesting exceeded during serialization'' (ser_tags ts) (nesting_list ts) (dm_tags ts)"
proof (induction t and s and ts rule: ser_tag_ser_struct_ser_tags.induct)
  case (11 t ts)
  then show ?case by (auto intro!: guarded_dbind guarded_map)
qed (auto intro!: guarded_map guarded_serialize)

lemma de_guarded:
  "tag_ok t \<Longrightarrow> guarded 8 ''type tag nesting exceeded during deserialization''
     (de_tag (dm_tag t)) (nesting t) t"
  "struct_ok s \<Longrightarrow> guarded 8 ''type tag nesting exceeded during deserialization''
     (de_struct (dm_struct s)) (nesting_struct s) s"
  "tags_ok ts \<Longrightarrow> guarded 8 ''type tag nesting exceeded during deserialization''
     (de_tags (dm_tags ts)) (nesting_list ts) ts"
proof (induction t and s and ts rule: ser_tag_ser_struct_ser_tags.induct)
  case (11 t ts)
  then show ?case by (auto intro!: guarded_dbind guarded_map)
qed (auto simp: addr_ok_def intro!: guarded_map guarded_deserialize)

text \<open>On input that is no serialized tag the counter is restored as well.\<close>

definition restores :: "'a depth_m \<Rightarrow> bool" where
  "restores m \<longleftrightarrow> (\<forall>d. snd (m d) = d)"

lemma restores_intros [intro]:
  "restores (dret x)" "restores (derr e)"
  "restores m \<Longrightarrow> (\<And>x. restores (f x)) \<Longrightarrow> restores (dbind m f)"
  "restores n \<Longrightarrow> restores (type_tag_recursive_deserialize n)"
  by (auto simp: restores_def dret_def derr_def dbind_def type_tag_recursive_deserialize_def
      split: prod.splits rres.splits) (metis prod.inject snd_conv add_diff_cancel_right')+

lemma de_restores: "restores (de_tag x)" "restores (de_struct y)" "restores (de_tags xs)"
  by (induction x and y and xs rule: de_tag_de_struct_de_tags.induct) auto

section \<open>BCS\<close>

text \<open>
  The contract of the encoder: BCS is canonical, so two struct tags (two module ids) with the same
  encoding are equal.
\<close>

locale bcs_canonical =
  fixes bcs :: "serde_dm \<Rightarrow> bytes"
  assumes struct_tag_inj:
      "struct_ok s \<Longrightarrow> struct_ok s' \<Longrightarrow> bcs (dm_struct s) = bcs (dm_struct s') \<Longrightarrow> s = s'"
    and module_id_inj:
      "addr_ok (mi_address m) \<Longrightarrow> addr_ok (mi_address m') \<Longrightarrow>
         bcs (ser_module_id m) = bcs (ser_module_id m') \<Longrightarrow> m = m'"
begin

lemma access_vector_eq:
  "StructTag_access_vector bcs s =
     (if nesting_struct s \<le> 9 then Ok (RESOURCE_TAG # bcs (dm_struct s))
      else Panic ''called Result::unwrap() on an Err value'')"
  using ser_guarded(2)[of s] by (simp add: guarded_def StructTag_access_vector_def)

lemma access_vector_inj:
  assumes "struct_ok s" "struct_ok s'" "StructTag_access_vector bcs s = Ok k"
    "StructTag_access_vector bcs s' = Ok k"
  shows "s = s'"
  using assms by (auto simp: access_vector_eq split: if_splits intro: struct_tag_inj)

text \<open>Code and resource keys live in disjoint ranges.\<close>

lemma access_vector_disjoint: "StructTag_access_vector bcs s \<noteq> Ok (ModuleId_access_vector bcs m)"
  by (simp add: access_vector_eq ModuleId_access_vector_def RESOURCE_TAG_def CODE_TAG_def)

end

text \<open>The published encoding: ULEB128 lengths and variant numbers, fields in order.\<close>

fun uleb :: "nat \<Rightarrow> bytes" where
  "uleb n = (if n < 128 then [of_nat n] else of_nat (n mod 128 + 128) # uleb (n div 128))"

declare uleb.simps [simp del]

definition char_byte :: "char \<Rightarrow> u8" where
  "char_byte c = of_nat (of_char c)"

fun bcs_enc :: "serde_dm \<Rightarrow> bytes" where
  "bcs_enc (DmUnitVariant i) = uleb i"
| "bcs_enc (DmNewtypeVariant i x) = uleb i @ bcs_enc x"
| "bcs_enc (DmStruct xs) = concat (map bcs_enc xs)"
| "bcs_enc (DmSeq xs) = uleb (length xs) @ concat (map bcs_enc xs)"
| "bcs_enc (DmStr s) = uleb (length s) @ map char_byte s"
| "bcs_enc (DmTuple bs) = bs"

lemma unat_small_byte: "n < 256 \<Longrightarrow> unat (of_nat n :: u8) = n"
  by (simp add: unat_of_nat)

lemma char_byte_inj: "map char_byte s = map char_byte s' \<Longrightarrow> s = s'"
proof (rule map_injective)
  show "inj char_byte"
  proof (rule injI)
    fix c d assume "char_byte c = char_byte d"
    then have "(of_char c :: nat) = of_char d"
      unfolding char_byte_def by (metis unat_small_byte nat_of_char_less_256)
    then show "c = d" by simp
  qed
qed

lemma uleb_prefix: "uleb m @ r = uleb n @ s \<Longrightarrow> m = n \<and> r = s"
proof (induction m arbitrary: n rule: uleb.induct)
  case (1 m)
  have small: "k < 128 \<Longrightarrow> unat (of_nat k :: u8) = k"
    "unat (of_nat (k mod 128 + 128) :: u8) = k mod 128 + 128" for k
    using mod_less_divisor[of 128 k] by (simp_all add: unat_small_byte del: of_nat_add)
  show ?case
  proof (cases "m < 128")
    case True
    then have "uleb m = [of_nat m]" by (simp add: uleb.simps)
    with "1.prems" have h: "hd (uleb n @ s) = of_nat m" "tl (uleb n @ s) = r" by (metis append_Cons list.sel append_Nil)+
    show ?thesis
    proof (cases "n < 128")
      case n: True
      then have "uleb n = [of_nat n]" by (simp add: uleb.simps)
      with h small(1)[OF True] small(1)[OF n] show ?thesis by (metis append_Cons append_Nil list.sel)
    next
      case n: False
      then have "uleb n = of_nat (n mod 128 + 128) # uleb (n div 128)" by (subst uleb.simps) simp
      with h have "(of_nat (n mod 128 + 128) :: u8) = of_nat m" by simp
      with small(1)[OF True] small(2)[of n] True show ?thesis by (metis not_add_less2)
    qed
  next
    case False
    then have m: "uleb m = of_nat (m mod 128 + 128) # uleb (m div 128)" by (subst uleb.simps) simp
    show ?thesis
    proof (cases "n < 128")
      case True
      then have "uleb n = [of_nat n]" by (simp add: uleb.simps)
      with "1.prems" m small(1)[OF True] small(2)[of m] True show ?thesis
        by (auto simp del: of_nat_add)
    next
      case n: False
      then have "uleb n = of_nat (n mod 128 + 128) # uleb (n div 128)" by (subst uleb.simps) simp
      with "1.prems" m have "(of_nat (m mod 128 + 128) :: u8) = of_nat (n mod 128 + 128)"
        and rest: "uleb (m div 128) @ r = uleb (n div 128) @ s" by simp_all
      with small(2)[of m] small(2)[of n] have "m mod 128 = n mod 128" by (metis add_right_cancel)
      moreover from "1.IH"[OF False rest] have "m div 128 = n div 128" "r = s" by simp_all
      ultimately show ?thesis by (metis div_mult_mod_eq)
    qed
  qed
qed

lemma enc_str_prefix:
  assumes "bcs_enc (DmStr s) @ r = bcs_enc (DmStr s') @ r'"
  shows "s = s' \<and> r = r'"
proof -
  from assms uleb_prefix[of "length s" "map char_byte s @ r" "length s'" "map char_byte s' @ r'"]
  have "length s = length s'" "map char_byte s @ r = map char_byte s' @ r'" by simp_all
  then have "map char_byte s = map char_byte s'" "r = r'" by simp_all
  then show ?thesis by (simp add: char_byte_inj)
qed

fun tag_index :: "TypeTagV5 \<Rightarrow> nat" where
  "tag_index TagBool = 0"
| "tag_index TagU8 = 1"
| "tag_index TagU64 = 2"
| "tag_index TagU128 = 3"
| "tag_index TagAddress = 4"
| "tag_index TagSigner = 5"
| "tag_index (TagVector t) = 6"
| "tag_index (TagStruct s) = 7"

fun tag_body :: "TypeTagV5 \<Rightarrow> bytes" where
  "tag_body (TagVector t) = bcs_enc (dm_tag t)"
| "tag_body (TagStruct s) = bcs_enc (dm_struct s)"
| "tag_body _ = []"

lemma enc_tag: "bcs_enc (dm_tag t) = uleb (tag_index t) @ tag_body t"
  by (cases t) auto

lemma enc_tag_index:
  "bcs_enc (dm_tag t) @ r = bcs_enc (dm_tag t') @ r' \<Longrightarrow>
     tag_index t = tag_index t' \<and> tag_body t @ r = tag_body t' @ r'"
  using uleb_prefix[of "tag_index t" "tag_body t @ r" "tag_index t'" "tag_body t' @ r'"]
  by (simp add: enc_tag)

lemma simple_tag_prefix:
  assumes "tag_index t < 6" and eq: "bcs_enc (dm_tag t) @ r = bcs_enc (dm_tag t') @ r'"
  shows "t = t' \<and> r = r'"
  using assms(1) enc_tag_index[OF eq] by (cases t; cases t') simp_all

lemma enc_struct:
  "bcs_enc (dm_struct (StructTag a m n ps)) @ r =
     a @ bcs_enc (DmStr m) @ bcs_enc (DmStr n) @ bcs_enc (DmSeq (dm_tags ps)) @ r"
  by simp

lemma length_dm_tags [simp]: "length (dm_tags ts) = length ts"
  by (induction ts) auto

lemma enc_prefix:
  "tag_ok t \<Longrightarrow> tag_ok t' \<Longrightarrow> bcs_enc (dm_tag t) @ r = bcs_enc (dm_tag t') @ r' \<Longrightarrow> t = t' \<and> r = r'"
  "struct_ok s \<Longrightarrow> struct_ok s' \<Longrightarrow> bcs_enc (dm_struct s) @ r = bcs_enc (dm_struct s') @ r' \<Longrightarrow> s = s' \<and> r = r'"
  "tags_ok ts \<Longrightarrow> tags_ok ts' \<Longrightarrow> length ts = length ts' \<Longrightarrow>
     concat (map bcs_enc (dm_tags ts)) @ r = concat (map bcs_enc (dm_tags ts')) @ r' \<Longrightarrow> ts = ts' \<and> r = r'"
proof (induction t and s and ts arbitrary: t' r r' and s' r r' and ts' r r'
    rule: ser_tag_ser_struct_ser_tags.induct)
  case (7 t)
  from enc_tag_index[OF "7.prems"(3)] obtain t2 where t': "t' = TagVector t2"
    and eq: "bcs_enc (dm_tag t) @ r = bcs_enc (dm_tag t2) @ r'" by (cases t') simp_all
  from "7.IH"[OF _ _ eq] "7.prems"(1,2) t' show ?case by simp
next
  case (8 s)
  from enc_tag_index[OF "8.prems"(3)] obtain s2 where t': "t' = TagStruct s2"
    and eq: "bcs_enc (dm_struct s) @ r = bcs_enc (dm_struct s2) @ r'" by (cases t') simp_all
  from "8.IH"[OF _ _ eq] "8.prems"(1,2) t' show ?case by simp
next
  case (9 a m n ps)
  obtain a' m' n' ps' where s': "s' = StructTag a' m' n' ps'" by (cases s')
  from "9.prems" s' have len: "length a = length a'" by (simp add: addr_ok_def)
  note eq = "9.prems"(3)[unfolded s' enc_struct]
  from eq len have a: "a = a'" by (metis append_eq_append_conv)
  from eq a have eq1: "bcs_enc (DmStr m) @ bcs_enc (DmStr n) @ bcs_enc (DmSeq (dm_tags ps)) @ r =
      bcs_enc (DmStr m') @ bcs_enc (DmStr n') @ bcs_enc (DmSeq (dm_tags ps')) @ r'" by simp
  from enc_str_prefix[OF eq1] have m: "m = m'"
    and eq2: "bcs_enc (DmStr n) @ bcs_enc (DmSeq (dm_tags ps)) @ r =
      bcs_enc (DmStr n') @ bcs_enc (DmSeq (dm_tags ps')) @ r'" by blast+
  from enc_str_prefix[OF eq2] have n: "n = n'"
    and eq3: "bcs_enc (DmSeq (dm_tags ps)) @ r = bcs_enc (DmSeq (dm_tags ps')) @ r'" by blast+
  from uleb_prefix[OF eq3[unfolded bcs_enc.simps length_dm_tags append_assoc]]
  have "length ps = length ps'"
    "concat (map bcs_enc (dm_tags ps)) @ r = concat (map bcs_enc (dm_tags ps')) @ r'" by simp_all
  with "9.IH"[of ps' r r'] "9.prems"(1,2) s' have "ps = ps' \<and> r = r'" by simp
  with a m n s' show ?case by simp
next
  case (11 t ts)
  then obtain t2 ts2 where ts': "ts' = t2 # ts2" by (cases ts') auto
  with "11.prems" have "bcs_enc (dm_tag t) @ concat (map bcs_enc (dm_tags ts)) @ r =
      bcs_enc (dm_tag t2) @ concat (map bcs_enc (dm_tags ts2)) @ r'" by simp
  with "11.IH"(1)[of t2] "11.prems"(1,2) ts' have "t = t2"
    "concat (map bcs_enc (dm_tags ts)) @ r = concat (map bcs_enc (dm_tags ts2)) @ r'" by auto
  with "11.IH"(2)[of ts2] "11.prems"(1-3) ts' show ?case by auto
qed ((rule simple_tag_prefix, simp, assumption)+, simp)

interpretation bcs_ref: bcs_canonical bcs_enc
proof
  fix s s' assume "struct_ok s" "struct_ok s'" "bcs_enc (dm_struct s) = bcs_enc (dm_struct s')"
  then show "s = s'" using enc_prefix(2)[of s s' "[]" "[]"] by simp
next
  fix m m' :: ModuleIdV5
  assume ok: "addr_ok (mi_address m)" "addr_ok (mi_address m')"
    and eq: "bcs_enc (ser_module_id m) = bcs_enc (ser_module_id m')"
  then have "mi_address m @ bcs_enc (DmStr (mi_name m)) = mi_address m' @ bcs_enc (DmStr (mi_name m'))"
    by (simp add: ser_module_id_def)
  with ok have "mi_address m = mi_address m'"
    and "bcs_enc (DmStr (mi_name m)) = bcs_enc (DmStr (mi_name m'))"
    by (metis addr_ok_def append_eq_append_conv)+
  then show "m = m'" using enc_str_prefix[of "mi_name m" "[]" "mi_name m'" "[]"] by simp
qed

section \<open>Theorems\<close>

text \<open>
  C38. The nesting guard. Whatever tag is serialized or deserialized, and whether that fails or not,
  the thread-local counter is back at its old value; from a fresh counter serialization succeeds
  exactly up to nesting nine and deserialization up to nesting eight, and within the smaller limit
  the two are inverse.
\<close>

theorem type_tag_nesting_guard:
  "snd (ser_tag t 0) = 0 \<and> snd (de_tag x d) = d \<and>
   (nesting t \<le> 9 \<longrightarrow> is_ok (fst (ser_tag t 0))) \<and>
   (9 < nesting t \<longrightarrow> fst (ser_tag t 0) = Err ''type tag nesting exceeded during serialization'') \<and>
   (tag_ok t \<and> nesting t \<le> 8 \<longrightarrow> fst (dbind (ser_tag t) de_tag 0) = Ok t) \<and>
   (tag_ok t \<and> nesting t = 9 \<longrightarrow>
      fst (dbind (ser_tag t) de_tag 0) = Err ''type tag nesting exceeded during deserialization'')"
proof -
  from ser_guarded(1)[of t] have "ser_tag t 0 =
      (if nesting t \<le> 9 then Ok (dm_tag t) else Err ''type tag nesting exceeded during serialization'', 0)"
    by (simp add: guarded_def)
  moreover have "tag_ok t \<Longrightarrow> de_tag (dm_tag t) 0 =
      (if nesting t \<le> 8 then Ok t else Err ''type tag nesting exceeded during deserialization'', 0)"
    using de_guarded(1)[of t] by (simp add: guarded_def)
  moreover have "snd (de_tag x d) = d" using de_restores(1)[of x] by (simp add: restores_def)
  ultimately show ?thesis by (auto simp: dbind_def)
qed

theorem type_tag_nesting_guard_witness:
  "fst (dbind (ser_tag (TagVector (TagStruct (StructTag LEGACY_CORE_CODE_ADDRESS ''GAS'' ''GAS'' [TagU8]))))
     de_tag 0) = Ok (TagVector (TagStruct (StructTag LEGACY_CORE_CODE_ADDRESS ''GAS'' ''GAS'' [TagU8])))"
proof -
  let ?t = "TagVector (TagStruct (StructTag LEGACY_CORE_CODE_ADDRESS ''GAS'' ''GAS'' [TagU8]))"
  have "tag_ok ?t \<and> nesting ?t \<le> 8"
    by (simp add: addr_ok_def LEGACY_CORE_CODE_ADDRESS_def LENGTH_ADDR_def)
  with type_tag_nesting_guard[of ?t] show ?thesis by blast
qed

text \<open>
  Storage keys. A struct tag within the nesting limit has an access vector, a deeper one makes
  \<open>access_vector\<close> panic; distinct tags have distinct access vectors, and no resource key is a code
  key, because the first byte separates them.
\<close>

theorem access_vectors_distinct:
  assumes "bcs_canonical bcs" and "struct_ok s" and "struct_ok s'"
  shows "(nesting_struct s \<le> 9 \<longrightarrow> is_ok (StructTag_access_vector bcs s)) \<and>
    (9 < nesting_struct s \<longrightarrow> is_panic (StructTag_access_vector bcs s)) \<and>
    (\<forall>k. StructTag_access_vector bcs s = Ok k \<longrightarrow> StructTag_access_vector bcs s' = Ok k \<longrightarrow> s = s') \<and>
    StructTag_access_vector bcs s \<noteq> Ok (ModuleId_access_vector bcs m)"
  using bcs_canonical.access_vector_eq[OF assms(1), of s]
    bcs_canonical.access_vector_inj[OF assms(1-3)]
    bcs_canonical.access_vector_disjoint[OF assms(1), of s m]
  by simp

text \<open>The keys asserted by the unit tests of \<^verbatim>\<open>state_snapshot_v5.rs\<close>, computed.\<close>

theorem access_vectors_distinct_witness:
  "StructTag_access_vector bcs_enc
     (StructTag LEGACY_CORE_CODE_ADDRESS ''DiemAccount'' ''Balance''
        [TagStruct (StructTag LEGACY_CORE_CODE_ADDRESS ''GAS'' ''GAS'' [])]) \<noteq>
   StructTag_access_vector bcs_enc (StructTag LEGACY_CORE_CODE_ADDRESS ''DiemAccount'' ''DiemAccount'' [])"
proof -
  let ?s = "StructTag LEGACY_CORE_CODE_ADDRESS ''DiemAccount'' ''Balance''
        [TagStruct (StructTag LEGACY_CORE_CODE_ADDRESS ''GAS'' ''GAS'' [])]"
  let ?s' = "StructTag LEGACY_CORE_CODE_ADDRESS ''DiemAccount'' ''DiemAccount'' []"
  have "struct_ok ?s" "struct_ok ?s'" "nesting_struct ?s \<le> 9"
    by (simp_all add: addr_ok_def LEGACY_CORE_CODE_ADDRESS_def LENGTH_ADDR_def)
  with access_vectors_distinct[OF bcs_ref.bcs_canonical_axioms, of ?s ?s'] show ?thesis
    by (cases "StructTag_access_vector bcs_enc ?s") auto
qed

lemma balance_access_vector:
  "map_option lower_hex (case StructTag_access_vector bcs_enc
     (StructTag LEGACY_CORE_CODE_ADDRESS ''DiemAccount'' ''Balance''
        [TagStruct (StructTag LEGACY_CORE_CODE_ADDRESS ''GAS'' ''GAS'' [])]) of Ok k \<Rightarrow> Some k | _ \<Rightarrow> None) =
   Some ''01000000000000000000000000000000010b4469656d4163636f756e740742616c616e6365010700000000000000000000000000000001034741530347415300''"
  by code_simp

end
