(* ===== verification/Account_State.thy ===== *)
theory Account_State
  imports Language_Storage
begin

text \<open>
  The account state of version five: resources stored as bytes under the access vector of their
  type (\<^verbatim>\<open>src/compatibility/src/version_five/account_blob_v5.rs\<close>), the resource types the recovery tools
  read (\<^verbatim>\<open>core_account_v5.rs\<close>, \<^verbatim>\<open>diem_account_v5.rs\<close>, \<^verbatim>\<open>balance_v5.rs\<close>, \<^verbatim>\<open>freezing_v5.rs\<close>, \<^verbatim>\<open>new_epoch_v5.rs\<close>,
  \<^verbatim>\<open>ol_*.rs\<close>) and their tags.

  \<open>bcs::from_bytes\<close> at a resource type is a parameter of the lookups. A codec of one type satisfies
  the contract \<open>bcs_value\<close> when reading what was written gives the value back; the balance resource,
  one little-endian integer, is interpreted concretely.
\<close>

section \<open>Resources\<close>

record AccountResourceV5 =
  ar_authentication_key :: bytes
  ar_sequence_number :: u64
  ar_self_address :: LegacyAddressV5

definition AccountResourceV5_new :: "u64 \<Rightarrow> bytes \<Rightarrow> LegacyAddressV5 \<Rightarrow> AccountResourceV5" where
  "AccountResourceV5_new sequence_number authentication_key self_address =
     \<lparr>ar_authentication_key = authentication_key, ar_sequence_number = sequence_number,
      ar_self_address = self_address\<rparr>"

definition rotate_auth_key :: "AccountResourceV5 \<Rightarrow> bytes \<Rightarrow> AccountResourceV5" where
  "rotate_auth_key self new_key = self\<lparr>ar_authentication_key := new_key\<rparr>"

definition core_resource :: "string \<Rightarrow> string \<Rightarrow> MoveStructTypeV5" where
  "core_resource m n =
     \<lparr>mst_ADDRESS = LEGACY_CORE_CODE_ADDRESS, mst_MODULE_NAME = m, mst_STRUCT_NAME = n,
      mst_type_params = []\<rparr>"

definition AccountResourceV5_type :: MoveStructTypeV5 where
  "AccountResourceV5_type = core_resource ''Account'' ''Account''"

record WithdrawCapabilityResource =
  wc_account_address :: LegacyAddressV5

record KeyRotationCapabilityResource =
  kc_account_address :: LegacyAddressV5

record DiemAccountResourceV5 =
  da_authentication_key :: bytes
  da_withdrawal_capability :: "WithdrawCapabilityResource option"
  da_key_rotation_capability :: "KeyRotationCapabilityResource option"
  da_received_events :: EventHandleV5
  da_sent_events :: EventHandleV5
  da_sequence_number :: u64

definition DiemAccountResourceV5_new ::
  "u64 \<Rightarrow> bytes \<Rightarrow> EventHandleV5 \<Rightarrow> EventHandleV5 \<Rightarrow> DiemAccountResourceV5" where
  "DiemAccountResourceV5_new sequence_number authentication_key sent_events received_events =
     \<lparr>da_authentication_key = authentication_key, da_withdrawal_capability = None,
      da_key_rotation_capability = None, da_received_events = received_events,
      da_sent_events = sent_events, da_sequence_number = sequence_number\<rparr>"

definition has_delegated_withdrawal_capability :: "DiemAccountResourceV5 \<Rightarrow> bool" where
  "has_delegated_withdrawal_capability d \<longleftrightarrow> da_withdrawal_capability d = None"

definition has_delegated_key_rotation_capability :: "DiemAccountResourceV5 \<Rightarrow> bool" where
  "has_delegated_key_rotation_capability d \<longleftrightarrow> da_key_rotation_capability d = None"

text \<open>\<open>DiemAccountResourceV5::address\<close> goes through the hexadecimal literal of the event key's creator.\<close>

definition DiemAccount_address ::
  "(bytes \<Rightarrow> string) \<Rightarrow> (string \<Rightarrow> bytes option) \<Rightarrow> DiemAccountResourceV5 \<Rightarrow> LegacyAddressV5 rres" where
  "DiemAccount_address hex_encode hex_decode d =
     rbind (get_creator_address (eh_key (da_sent_events d))) (\<lambda>a.
       unwrap ''cannot decode DiemAccount address''
         (addr_from_hex_literal hex_decode (addr_to_hex_literal hex_encode a)))"

definition DiemAccountResourceV5_type :: MoveStructTypeV5 where
  "DiemAccountResourceV5_type = core_resource ''DiemAccount'' ''DiemAccount''"

definition v5_legacy_struct_tag :: StructTagV5 where
  "v5_legacy_struct_tag = StructTag LEGACY_CORE_CODE_ADDRESS ''DiemAccount'' ''DiemAccount'' []"

definition WithdrawCapability_type :: MoveStructTypeV5 where
  "WithdrawCapability_type = core_resource ''DiemAccount'' ''WithdrawCapability''"

definition KeyRotationCapability_type :: MoveStructTypeV5 where
  "KeyRotationCapability_type = core_resource ''DiemAccount'' ''KeyRotationCapability''"

record BalanceResourceV5 =
  coin :: u64

definition BalanceResourceV5_type :: MoveStructTypeV5 where
  "BalanceResourceV5_type =
     (core_resource ''DiemAccount'' ''Balance'')
       \<lparr>mst_type_params := [TagStruct (StructTag LEGACY_CORE_CODE_ADDRESS ''GAS'' ''GAS'' [])]\<rparr>"

record FreezingBit =
  is_frozen :: bool

definition FreezingBit_type :: MoveStructTypeV5 where
  "FreezingBit_type = core_resource ''AccountFreezing'' ''FreezingBit''"

record NewEpochEventV5 =
  ne_epoch :: u64

definition NewEpochEventV5_type :: MoveStructTypeV5 where
  "NewEpochEventV5_type = core_resource ''DiemConfig'' ''NewEpochEvent''"

record CommunityWalletsResourceLegacyV5 =
  cw_list :: "LegacyAddressV5 list"

definition CommunityWallets_type :: MoveStructTypeV5 where
  "CommunityWallets_type = core_resource ''Wallet'' ''CommunityWalletList''"

definition CommunityWallets_struct_tag :: StructTagV5 where
  "CommunityWallets_struct_tag = StructTag CORE_CODE_ADDRESS ''Wallet'' ''CommunityWalletList'' []"

record SlowWalletResourceV5 =
  sw5_unlocked :: u64
  sw5_transferred :: u64

definition SlowWalletResourceV5_type :: MoveStructTypeV5 where
  "SlowWalletResourceV5_type = core_resource ''DiemAccount'' ''SlowWallet''"

definition SlowWallet_struct_tag :: StructTagV5 where
  "SlowWallet_struct_tag = StructTag CORE_CODE_ADDRESS ''DiemAccount'' ''SlowWallet'' []"

record SlowWalletListResourceV5 =
  swl_list :: "LegacyAddressV5 list"

definition SlowWalletList_type :: MoveStructTypeV5 where
  "SlowWalletList_type = core_resource ''DiemAccount'' ''SlowWalletList''"

definition SlowWalletList_struct_tag :: StructTagV5 where
  "SlowWalletList_struct_tag = StructTag CORE_CODE_ADDRESS ''DiemAccount'' ''SlowWalletList'' []"

record ReceiptsResource =
  rc_destination :: "LegacyAddressV5 list"
  rc_cumulative :: "u64 list"
  rc_last_payment_timestamp :: "u64 list"
  rc_last_payment_value :: "u64 list"

definition ReceiptsResource_type :: MoveStructTypeV5 where
  "ReceiptsResource_type = core_resource ''Receipts'' ''UserReceipts''"

definition Receipts_struct_tag :: StructTagV5 where
  "Receipts_struct_tag = StructTag CORE_CODE_ADDRESS ''Receipts'' ''UserReceipts'' []"

record AncestryResource =
  an_tree :: "LegacyAddressV5 list"

definition AncestryResource_type :: MoveStructTypeV5 where
  "AncestryResource_type = core_resource ''Ancestry'' ''Ancestry''"

definition Ancestry_struct_tag :: StructTagV5 where
  "Ancestry_struct_tag = StructTag CORE_CODE_ADDRESS ''Ancestry'' ''Ancestry'' []"

record CumulativeDepositResource =
  cd_value :: u64
  cd_index :: u64

definition CumulativeDepositResource_type :: MoveStructTypeV5 where
  "CumulativeDepositResource_type = core_resource ''DiemAccount'' ''CumulativeDeposits''"

definition CumulativeDeposit_struct_tag :: StructTagV5 where
  "CumulativeDeposit_struct_tag = StructTag CORE_CODE_ADDRESS ''DiemAccount'' ''CumulativeDeposits'' []"

record TowerStateResource =
  ts_previous_proof_hash :: bytes
  ts_verified_tower_height :: u64
  ts_latest_epoch_mining :: u64
  ts_count_proofs_in_epoch :: u64
  ts_epochs_validating_and_mining :: u64
  ts_contiguous_epochs_validating_and_mining :: u64
  ts_epochs_since_last_account_creation :: u64

definition TowerStateResource_type :: MoveStructTypeV5 where
  "TowerStateResource_type = core_resource ''TowerState'' ''TowerProofHistory''"

definition TowerState_struct_tag :: StructTagV5 where
  "TowerState_struct_tag = StructTag CORE_CODE_ADDRESS ''TowerState'' ''TowerProofHistory'' []"

text \<open>\<open>try_from_bytes\<close> of every resource: \<open>bcs::from_bytes\<close> with its error.\<close>

definition try_from_bytes :: "(bytes \<Rightarrow> 'a option) \<Rightarrow> bytes \<Rightarrow> 'a rres" where
  "try_from_bytes from_bytes bs = or_err ''bcs'' (from_bytes bs)"

section \<open>Account states\<close>

type_synonym AccountStateV5 = "bytes \<rightharpoonup> bytes"

definition get_resource_data ::
  "(serde_dm \<Rightarrow> bytes) \<Rightarrow> AccountStateV5 \<Rightarrow> MoveStructTypeV5 \<Rightarrow> bytes rres" where
  "get_resource_data bcs st T =
     rbind (StructTag_access_vector bcs (move_struct_tag T)) (\<lambda>key.
       or_err (''could not find in btree type ModuleIdV5 { address: '' @
                 addr_Debug (mi_address (StructTag_module_id (move_struct_tag T))) @ '', name: Identifier('' @
                 [CHR 0x22] @ mi_name (StructTag_module_id (move_struct_tag T)) @ [CHR 0x22] @ '') }'')
         (st key))"

definition find_bytes_legacy_struct_tag_v5 ::
  "(serde_dm \<Rightarrow> bytes) \<Rightarrow> AccountStateV5 \<Rightarrow> StructTagV5 \<Rightarrow> bytes rres" where
  "find_bytes_legacy_struct_tag_v5 bcs st tag =
     rbind (StructTag_access_vector bcs tag) (\<lambda>key.
       or_err (''could not find in btree type '' @ st_module tag) (st key))"

definition get_resource ::
  "(serde_dm \<Rightarrow> bytes) \<Rightarrow> (bytes \<Rightarrow> 'a option) \<Rightarrow> AccountStateV5 \<Rightarrow> MoveStructTypeV5 \<Rightarrow> 'a rres" where
  "get_resource bcs from_bytes st T =
     rbind (get_resource_data bcs st T) (\<lambda>bs. or_err ''bcs'' (from_bytes bs))"

definition get_diem_account_resource ::
  "(serde_dm \<Rightarrow> bytes) \<Rightarrow> (bytes \<Rightarrow> DiemAccountResourceV5 option) \<Rightarrow> AccountStateV5 \<Rightarrow>
   DiemAccountResourceV5 rres" where
  "get_diem_account_resource bcs diem_from st = get_resource bcs diem_from st DiemAccountResourceV5_type"

definition get_address ::
  "(bytes \<Rightarrow> string) \<Rightarrow> (string \<Rightarrow> bytes option) \<Rightarrow> (serde_dm \<Rightarrow> bytes) \<Rightarrow>
   (bytes \<Rightarrow> DiemAccountResourceV5 option) \<Rightarrow> AccountStateV5 \<Rightarrow> LegacyAddressV5 rres" where
  "get_address hex_encode hex_decode bcs diem_from st =
     rbind (get_diem_account_resource bcs diem_from st) (DiemAccount_address hex_encode hex_decode)"

definition get_account_resource ::
  "(bytes \<Rightarrow> string) \<Rightarrow> (string \<Rightarrow> bytes option) \<Rightarrow> (serde_dm \<Rightarrow> bytes) \<Rightarrow>
   (bytes \<Rightarrow> AccountResourceV5 option) \<Rightarrow> (bytes \<Rightarrow> DiemAccountResourceV5 option) \<Rightarrow>
   AccountStateV5 \<Rightarrow> AccountResourceV5 rres" where
  "get_account_resource hex_encode hex_decode bcs acc_from diem_from st =
     (case get_resource bcs acc_from st AccountResourceV5_type of
        Ok x \<Rightarrow> Ok x
      | Panic p \<Rightarrow> Panic p
      | Err _ \<Rightarrow>
          (case get_resource bcs diem_from st DiemAccountResourceV5_type of
             Ok diem_ar \<Rightarrow>
               rbind (DiemAccount_address hex_encode hex_decode diem_ar) (\<lambda>a.
                 Ok (AccountResourceV5_new (da_sequence_number diem_ar) (da_authentication_key diem_ar) a))
           | Panic p \<Rightarrow> Panic p
           | Err _ \<Rightarrow> Err ''can't find an AccountResource or DiemAccountResource''))"

text \<open>
  \<open>AccountStateBlob\<close>: the raw bytes and their hash, which is not serialized but recomputed from the
  bytes on construction. \<open>hash_fn\<close> is the seeded SHA-3 hasher of the crypto crate.
\<close>

record AccountStateBlob =
  blob :: bytes
  blob_hash :: bytes

definition AccountStateBlob_new :: "(bytes \<Rightarrow> bytes) \<Rightarrow> bytes \<Rightarrow> AccountStateBlob" where
  "AccountStateBlob_new hash_fn b = \<lparr>blob = b, blob_hash = hash_fn b\<rparr>"

definition AccountStateBlob_serialize :: "AccountStateBlob \<Rightarrow> bytes" where
  "AccountStateBlob_serialize b = blob b"

definition AccountStateBlob_deserialize :: "(bytes \<Rightarrow> bytes) \<Rightarrow> bytes \<Rightarrow> AccountStateBlob" where
  "AccountStateBlob_deserialize hash_fn raw = AccountStateBlob_new hash_fn raw"

definition to_account_state :: "(bytes \<Rightarrow> AccountStateV5 option) \<Rightarrow> AccountStateBlob \<Rightarrow> AccountStateV5 rres" where
  "to_account_state state_from b = or_err ''bcs'' (state_from (blob b))"

section \<open>Codec contract\<close>

locale bcs_value =
  fixes to_b :: "'a \<Rightarrow> bytes" and from_b :: "bytes \<Rightarrow> 'a option"
  assumes from_to: "from_b (to_b x) = Some x"

locale resource_lookup = bcs_canonical bcs + bcs_value to_b from_b
  for bcs :: "serde_dm \<Rightarrow> bytes" and to_b :: "'a \<Rightarrow> bytes" and from_b :: "bytes \<Rightarrow> 'a option"
begin

lemma get_resource_eq:
  assumes "nesting_struct (move_struct_tag T) \<le> 9"
  shows "get_resource bcs from_b st T =
    (case st (RESOURCE_TAG # bcs (dm_struct (move_struct_tag T))) of
       None \<Rightarrow> get_resource bcs from_b Map.empty T
     | Some bs \<Rightarrow> or_err ''bcs'' (from_b bs))"
  using assms
  by (simp add: get_resource_def get_resource_data_def access_vector_eq split: option.splits)

lemma get_resource_stored:
  assumes "StructTag_access_vector bcs (move_struct_tag T) = Ok key"
  shows "get_resource bcs from_b (st(key \<mapsto> to_b x)) T = Ok x"
  using assms by (simp add: get_resource_def get_resource_data_def from_to)

lemma get_resource_other:
  assumes "struct_ok (move_struct_tag T)" "struct_ok (move_struct_tag U)"
    and "move_struct_tag T \<noteq> move_struct_tag U"
    and "StructTag_access_vector bcs (move_struct_tag U) = Ok key"
  shows "get_resource bcs from_b (st(key \<mapsto> v)) T = get_resource bcs from_b st T"
proof (cases "StructTag_access_vector bcs (move_struct_tag T)")
  case (Ok k)
  with assms access_vector_inj[of "move_struct_tag T" "move_struct_tag U"] have "k \<noteq> key" by blast
  with Ok show ?thesis by (simp add: get_resource_def get_resource_data_def)
qed (simp_all add: get_resource_def get_resource_data_def)

end

text \<open>The balance resource: eight little-endian bytes.\<close>

definition balance_to :: "BalanceResourceV5 \<Rightarrow> bytes" where
  "balance_to b = to_le_bytes (coin b)"

definition balance_from :: "bytes \<Rightarrow> BalanceResourceV5 option" where
  "balance_from bs = (if length bs = 8 then Some \<lparr>coin = from_le_bytes bs\<rparr> else None)"

interpretation balance_ref: resource_lookup bcs_enc balance_to balance_from
  by unfold_locales (simp add: balance_from_def balance_to_def)

section \<open>The resource types of version five\<close>

definition v5_resource_types :: "MoveStructTypeV5 list" where
  "v5_resource_types =
     [AccountResourceV5_type, DiemAccountResourceV5_type, WithdrawCapability_type,
      KeyRotationCapability_type, BalanceResourceV5_type, FreezingBit_type, NewEpochEventV5_type,
      CommunityWallets_type, SlowWalletResourceV5_type, SlowWalletList_type, ReceiptsResource_type,
      AncestryResource_type, CumulativeDepositResource_type, TowerStateResource_type]"

lemmas resource_type_defs =
  AccountResourceV5_type_def DiemAccountResourceV5_type_def WithdrawCapability_type_def
  KeyRotationCapability_type_def BalanceResourceV5_type_def FreezingBit_type_def
  NewEpochEventV5_type_def CommunityWallets_type_def SlowWalletResourceV5_type_def
  SlowWalletList_type_def ReceiptsResource_type_def AncestryResource_type_def
  CumulativeDepositResource_type_def TowerStateResource_type_def core_resource_def

lemma core_address_ok [simp]: "addr_ok LEGACY_CORE_CODE_ADDRESS"
  by (simp add: addr_ok_def LEGACY_CORE_CODE_ADDRESS_def LENGTH_ADDR_def)

lemma v5_resource_types_ok:
  "T \<in> set v5_resource_types \<Longrightarrow>
     struct_ok (move_struct_tag T) \<and> nesting_struct (move_struct_tag T) \<le> 9"
  unfolding v5_resource_types_def
  by (auto simp: move_struct_tag_def resource_type_defs)

lemma move_struct_tag_inj: "move_struct_tag T = move_struct_tag U \<Longrightarrow> T = U"
  by (simp add: move_struct_tag_def)

lemma v5_resource_types_distinct: "distinct (map move_struct_tag v5_resource_types)"
  unfolding v5_resource_types_def by (simp add: move_struct_tag_def resource_type_defs)

text \<open>The inherent \<open>struct_tag\<close> functions agree with the trait's.\<close>

lemma inherent_struct_tags:
  "CommunityWallets_struct_tag = move_struct_tag CommunityWallets_type"
  "SlowWallet_struct_tag = move_struct_tag SlowWalletResourceV5_type"
  "SlowWalletList_struct_tag = move_struct_tag SlowWalletList_type"
  "Receipts_struct_tag = move_struct_tag ReceiptsResource_type"
  "Ancestry_struct_tag = move_struct_tag AncestryResource_type"
  "CumulativeDeposit_struct_tag = move_struct_tag CumulativeDepositResource_type"
  "TowerState_struct_tag = move_struct_tag TowerStateResource_type"
  "v5_legacy_struct_tag = move_struct_tag DiemAccountResourceV5_type"
  by (simp_all add: move_struct_tag_def resource_type_defs CommunityWallets_struct_tag_def
      SlowWallet_struct_tag_def SlowWalletList_struct_tag_def Receipts_struct_tag_def
      Ancestry_struct_tag_def CumulativeDeposit_struct_tag_def TowerState_struct_tag_def
      v5_legacy_struct_tag_def CORE_CODE_ADDRESS_def LEGACY_CORE_CODE_ADDRESS_def numeral_eq_Suc)

lemma get_resource_no_panic:
  assumes "bcs_canonical bcs" and "T \<in> set v5_resource_types"
  shows "get_resource bcs f st T \<noteq> Panic p"
proof -
  obtain k where k: "StructTag_access_vector bcs (move_struct_tag T) = Ok k"
    using v5_resource_types_ok[OF assms(2)] by (simp add: bcs_canonical.access_vector_eq[OF assms(1)])
  show ?thesis
  proof (cases "st k")
    case None
    with k show ?thesis by (simp add: get_resource_def get_resource_data_def)
  next
    case (Some bs)
    with k show ?thesis by (cases "f bs") (simp_all add: get_resource_def get_resource_data_def)
  qed
qed

lemma DiemAccount_address_eq:
  assumes "hex_crate hex_encode hex_decode" and "event_key_ok (eh_key (da_sent_events d))"
  shows "DiemAccount_address hex_encode hex_decode d = Ok (drop 8 (eh_key (da_sent_events d)))"
proof -
  let ?k = "eh_key (da_sent_events d)"
  have ok: "addr_ok (drop 8 ?k)"
    using assms(2) by (simp add: event_key_ok_def LENGTH_EVENT_KEY_def addr_ok_def)
  moreover have "get_creator_address ?k = Ok (drop 8 ?k)"
    using ok by (simp add: get_creator_address_def addr_from_bytes_def addr_ok_def
        LENGTH_EVENT_KEY_def LENGTH_ADDR_def)
  ultimately show ?thesis
    using addr_literal_roundtrip[OF assms(1)] by (simp add: DiemAccount_address_def)
qed

section \<open>Theorems\<close>

text \<open>
  Resources do not interfere. For every resource type of version five the access vector exists;
  reading a type right after its value was stored gives that value, and storing any other resource
  type leaves what a type reads as it was.
\<close>

theorem resource_store_laws:
  assumes "resource_lookup bcs to_b from_b"
    and "T \<in> set v5_resource_types" and "U \<in> set v5_resource_types" and "U \<noteq> T"
  shows "\<exists>kT kU. StructTag_access_vector bcs (move_struct_tag T) = Ok kT \<and>
    StructTag_access_vector bcs (move_struct_tag U) = Ok kU \<and>
    get_resource bcs from_b (st(kT \<mapsto> to_b x)) T = Ok x \<and>
    get_resource bcs from_b (st(kT \<mapsto> to_b x, kU \<mapsto> v)) T = Ok x \<and>
    get_resource bcs from_b (st(kU \<mapsto> v)) T = get_resource bcs from_b st T"
proof -
  note bcs = resource_lookup.axioms(1)[OF assms(1)]
  obtain kT kU where k: "StructTag_access_vector bcs (move_struct_tag T) = Ok kT"
    "StructTag_access_vector bcs (move_struct_tag U) = Ok kU"
    using v5_resource_types_ok[OF assms(2)] v5_resource_types_ok[OF assms(3)]
    by (simp add: bcs_canonical.access_vector_eq[OF bcs])
  have "move_struct_tag T \<noteq> move_struct_tag U" using assms(4) move_struct_tag_inj by blast
  with k v5_resource_types_ok[OF assms(2)] v5_resource_types_ok[OF assms(3)]
    resource_lookup.get_resource_stored[OF assms(1) k(1)]
    resource_lookup.get_resource_other[OF assms(1) _ _ _ k(2)]
  show ?thesis by (intro exI[of _ kT] exI[of _ kU]) simp
qed

theorem resource_store_laws_witness:
  "\<exists>kT kU. get_resource bcs_enc balance_from
     (Map.empty(kT \<mapsto> balance_to \<lparr>coin = 1000000\<rparr>, kU \<mapsto> [0])) BalanceResourceV5_type =
     Ok \<lparr>coin = 1000000\<rparr>"
proof -
  have T: "BalanceResourceV5_type \<in> set v5_resource_types" "FreezingBit_type \<in> set v5_resource_types"
    by (simp_all add: v5_resource_types_def)
  have "FreezingBit_type \<noteq> BalanceResourceV5_type" by (simp add: resource_type_defs)
  from resource_store_laws[OF balance_ref.resource_lookup_axioms T this,
      of Map.empty "\<lparr>coin = 1000000\<rparr>" "[0]"]
  show ?thesis by blast
qed

text \<open>
  \<open>get_account_resource\<close> on every branch: a readable \<open>Account\<close> resource wins; otherwise a
  readable \<open>DiemAccount\<close> is converted, keeping its sequence number and authentication key, and its
  address is the creator in its sent-events key, the same that \<open>get_address\<close> reports; with neither,
  it is an error. No branch panics.
\<close>

theorem get_account_resource_cases:
  assumes hex: "hex_crate hex_encode hex_decode" and bcs: "bcs_canonical bcs"
    and keys: "\<forall>d. get_resource bcs diem_from st DiemAccountResourceV5_type = Ok d \<longrightarrow>
      event_key_ok (eh_key (da_sent_events d))"
  shows "get_account_resource hex_encode hex_decode bcs acc_from diem_from st =
    (case get_resource bcs acc_from st AccountResourceV5_type of
       Ok a \<Rightarrow> Ok a
     | _ \<Rightarrow>
       (case get_resource bcs diem_from st DiemAccountResourceV5_type of
          Ok d \<Rightarrow> Ok \<lparr>ar_authentication_key = da_authentication_key d,
                     ar_sequence_number = da_sequence_number d,
                     ar_self_address = drop 8 (eh_key (da_sent_events d))\<rparr>
        | _ \<Rightarrow> Err ''can't find an AccountResource or DiemAccountResource'')) \<and>
    (\<forall>d. get_resource bcs diem_from st DiemAccountResourceV5_type = Ok d \<longrightarrow>
       get_address hex_encode hex_decode bcs diem_from st = Ok (drop 8 (eh_key (da_sent_events d))))"
proof -
  have types: "AccountResourceV5_type \<in> set v5_resource_types"
    "DiemAccountResourceV5_type \<in> set v5_resource_types" by (simp_all add: v5_resource_types_def)
  note np2 = get_resource_no_panic[OF bcs types(1), of acc_from st]
    get_resource_no_panic[OF bcs types(2), of diem_from st]
  show ?thesis
    using np2 keys DiemAccount_address_eq[OF hex]
    by (auto simp: get_account_resource_def get_address_def get_diem_account_resource_def
        AccountResourceV5_new_def split: rres.splits)
qed

definition sample_diem_account :: DiemAccountResourceV5 where
  "sample_diem_account =
     (let h = EventHandleV5_new (new_from_address LEGACY_CORE_CODE_ADDRESS 0) 0
      in DiemAccountResourceV5_new 7 [1, 2] h h)"

theorem get_account_resource_cases_witness:
  "get_account_resource lower_hex hex_decode_ref bcs_enc (\<lambda>_. None) (\<lambda>_. Some sample_diem_account)
     (\<lambda>_. Some []) =
     Ok \<lparr>ar_authentication_key = [1, 2], ar_sequence_number = 7,
         ar_self_address = LEGACY_CORE_CODE_ADDRESS\<rparr>"
proof -
  have acc: "get_resource bcs_enc (\<lambda>_. None :: AccountResourceV5 option) (\<lambda>_. Some []) AccountResourceV5_type
      = Err ''bcs''"
    and diem: "get_resource bcs_enc (\<lambda>_. Some sample_diem_account) (\<lambda>_. Some []) DiemAccountResourceV5_type
      = Ok sample_diem_account"
    using v5_resource_types_ok[of AccountResourceV5_type] v5_resource_types_ok[of DiemAccountResourceV5_type]
    by (simp_all add: get_resource_def get_resource_data_def bcs_ref.access_vector_eq v5_resource_types_def)
  have key: "eh_key (da_sent_events sample_diem_account) = to_le_bytes 0 @ LEGACY_CORE_CODE_ADDRESS"
    by (simp add: sample_diem_account_def Let_def DiemAccountResourceV5_new_def EventHandleV5_new_def
        new_from_address_def)
  then have "\<forall>d. get_resource bcs_enc (\<lambda>_. Some sample_diem_account) (\<lambda>_. Some []) DiemAccountResourceV5_type
      = Ok d \<longrightarrow> event_key_ok (eh_key (da_sent_events d))"
    using core_address_ok by (simp add: diem event_key_ok_def LENGTH_EVENT_KEY_def addr_ok_def)
  from get_account_resource_cases[OF ref_hex.hex_crate_axioms bcs_ref.bcs_canonical_axioms this,
      of "\<lambda>_. None"] acc diem key
  show ?thesis by (simp add: sample_diem_account_def DiemAccountResourceV5_new_def Let_def)
qed

end
