(* ===== verification/Hash_Value.thy ===== *)
theory Hash_Value
  imports Legacy_Address
begin

text \<open>
  Version five hash values, \<open>HashValueV5\<close>
  (\<^verbatim>\<open>src/compatibility/src/version_five/hash_value_v5.rs\<close>): 32 bytes with bit and nibble access, a
  double-ended bit iterator, the construction from bits, and the textual and serde forms.

  The iterator keeps a range of positions. Its specification is the list of bits still to come:
  \<open>next\<close> takes the head and never panics. The back end does not work: \<open>next_back\<close> lowers the end of
  the range before it calls \<open>get_bit\<close>, whose assertion then fails on every call.
\<close>

section \<open>The model\<close>

type_synonym HashValueV5 = bytes

definition HASH_LENGTH :: nat where
  "HASH_LENGTH = 32"

definition LENGTH_IN_BITS :: nat where
  "LENGTH_IN_BITS = HASH_LENGTH * 8"

definition hash_ok :: "HashValueV5 \<Rightarrow> bool" where
  "hash_ok h \<longleftrightarrow> length h = HASH_LENGTH"

definition hash_parse_error :: string where
  "hash_parse_error = ''unable to parse HashValue''"

definition hash_from_slice :: "bytes \<Rightarrow> HashValueV5 rres" where
  "hash_from_slice bs = (if length bs = HASH_LENGTH then Ok bs else Err hash_parse_error)"

definition hash_zero :: HashValueV5 where
  "hash_zero = replicate HASH_LENGTH 0"

definition hash_bit :: "HashValueV5 \<Rightarrow> nat \<Rightarrow> bool rres" where
  "hash_bit h i =
     (if \<not> i < LENGTH_IN_BITS then Panic ''assertion failed''
      else
        let pos = i div 8; b = 7 - i mod 8
        in rbind (index h pos) (\<lambda>byte. Ok (drop_bit b byte AND 1 \<noteq> 0)))"

definition hash_nibble :: "HashValueV5 \<Rightarrow> nat \<Rightarrow> u8 rres" where
  "hash_nibble h i =
     (if \<not> i < HASH_LENGTH * 2 then Panic ''assertion failed''
      else
        let pos = i div 2; shift = (if i mod 2 = 0 then 4 else 0)
        in rbind (index h pos) (\<lambda>byte. Ok (drop_bit shift byte AND 0x0f)))"

text \<open>The bit iterator: the borrowed bytes and the range of positions still to be read.\<close>

record HashValueBitIterator =
  hash_bytes :: bytes
  pos_start :: nat
  pos_end :: nat

definition iter_bits :: "HashValueV5 \<Rightarrow> HashValueBitIterator" where
  "iter_bits h = \<lparr>hash_bytes = h, pos_start = 0, pos_end = LENGTH_IN_BITS\<rparr>"

text \<open>
  \<open>get_bit\<close> is called after the range has moved. Its assertion compares the index with the end of
  the range it is given, which \<open>next_back\<close> has already lowered.
\<close>

definition get_bit :: "HashValueBitIterator \<Rightarrow> nat \<Rightarrow> bool rres" where
  "get_bit it i =
     (if \<not> i < pos_end it then Panic ''assertion failed: index < self.pos.end''
      else if length (hash_bytes it) \<noteq> HASH_LENGTH then Panic ''assertion failed: length''
      else if pos_end it \<noteq> length (hash_bytes it) * 8 then Panic ''assertion failed: pos.end''
      else
        let pos = i div 8; b = 7 - i mod 8
        in rbind (index (hash_bytes it) pos) (\<lambda>byte. Ok (drop_bit b byte AND 1 \<noteq> 0)))"

definition iter_next :: "HashValueBitIterator \<Rightarrow> bool option rres \<times> HashValueBitIterator" where
  "iter_next it =
     (if pos_start it < pos_end it then
        let x = pos_start it; it' = it\<lparr>pos_start := Suc x\<rparr>
        in (rbind (get_bit it' x) (\<lambda>b. Ok (Some b)), it')
      else (Ok None, it))"

definition iter_next_back :: "HashValueBitIterator \<Rightarrow> bool option rres \<times> HashValueBitIterator" where
  "iter_next_back it =
     (if pos_start it < pos_end it then
        let x = pos_end it - 1; it' = it\<lparr>pos_end := x\<rparr>
        in (rbind (get_bit it' x) (\<lambda>b. Ok (Some b)), it')
      else (Ok None, it))"

definition iter_size_hint :: "HashValueBitIterator \<Rightarrow> nat" where
  "iter_size_hint it = pos_end it - pos_start it"

text \<open>\<open>collect\<close>: \<open>next\<close> until it returns \<open>None\<close>.\<close>

function iter_collect :: "HashValueBitIterator \<Rightarrow> bool list rres" where
  "iter_collect it =
     (case iter_next it of
        (Ok None, it') \<Rightarrow> Ok []
      | (Ok (Some b), it') \<Rightarrow> rbind (iter_collect it') (\<lambda>bs. Ok (b # bs))
      | (Err e, it') \<Rightarrow> Err e
      | (Panic p, it') \<Rightarrow> Panic p)"
  by pat_completeness auto
termination
  by (relation "measure iter_size_hint")
    (auto simp: iter_next_def iter_size_hint_def Let_def split: if_splits)

declare iter_collect.simps [simp del]

text \<open>\<open>self.iter_bits().zip(other.iter_bits()).take_while(x == y).count()\<close>.\<close>

function common_prefix_loop :: "HashValueBitIterator \<Rightarrow> HashValueBitIterator \<Rightarrow> nat \<Rightarrow> nat rres" where
  "common_prefix_loop i j n =
     (case iter_next i of
        (Err e, _) \<Rightarrow> Err e
      | (Panic p, _) \<Rightarrow> Panic p
      | (Ok None, _) \<Rightarrow> Ok n
      | (Ok (Some x), i') \<Rightarrow>
          (case iter_next j of
             (Err e, _) \<Rightarrow> Err e
           | (Panic p, _) \<Rightarrow> Panic p
           | (Ok None, _) \<Rightarrow> Ok n
           | (Ok (Some y), j') \<Rightarrow> if x = y then common_prefix_loop i' j' (Suc n) else Ok n))"
  by pat_completeness auto
termination
  by (relation "measure (\<lambda>(i, j, n). iter_size_hint i)")
    (auto simp: iter_next_def iter_size_hint_def Let_def split: if_splits)

declare common_prefix_loop.simps [simp del]

definition common_prefix_bits_len :: "HashValueV5 \<Rightarrow> HashValueV5 \<Rightarrow> nat rres" where
  "common_prefix_bits_len self other = common_prefix_loop (iter_bits self) (iter_bits other) 0"

text \<open>\<open>from_bit_iter\<close>: the loop sets one bit of the buffer for every \<open>true\<close>.\<close>

fun set_bits :: "bytes \<Rightarrow> nat \<Rightarrow> bool list \<Rightarrow> bytes" where
  "set_bits buf i [] = buf"
| "set_bits buf i (b # bs) =
     set_bits
       (if b then buf[i div 8 := buf ! (i div 8) OR push_bit (7 - i mod 8) 1] else buf)
       (Suc i) bs"

definition from_bit_iter :: "bool list \<Rightarrow> HashValueV5 rres" where
  "from_bit_iter bs =
     (if length bs \<noteq> LENGTH_IN_BITS then Err hash_parse_error
      else Ok (set_bits (replicate HASH_LENGTH 0) 0 bs))"

definition hash_LowerHex :: "bool \<Rightarrow> HashValueV5 \<Rightarrow> string" where
  "hash_LowerHex alternate h = (if alternate then ''0x'' else []) @ concat (map hex_byte h)"

definition hash_to_hex :: "HashValueV5 \<Rightarrow> string" where
  "hash_to_hex h = hash_LowerHex False h"

definition hash_to_hex_literal :: "HashValueV5 \<Rightarrow> string" where
  "hash_to_hex_literal h = hash_LowerHex True h"

definition hash_from_hex :: "(string \<Rightarrow> bytes option) \<Rightarrow> string \<Rightarrow> HashValueV5 rres" where
  "hash_from_hex hex_decode s =
     (case hex_decode s of
        None \<Rightarrow> Err hash_parse_error
      | Some bs \<Rightarrow> if length bs = HASH_LENGTH then Ok bs else Err hash_parse_error)"

definition hash_from_str :: "(string \<Rightarrow> bytes option) \<Rightarrow> string \<Rightarrow> HashValueV5 rres" where
  "hash_from_str hex_decode s = hash_from_hex hex_decode s"

text \<open>\<open>{:08b}\<close> of each byte.\<close>

definition hash_Binary :: "HashValueV5 \<Rightarrow> string" where
  "hash_Binary h = concat (map (\<lambda>byte. map (\<lambda>b. if b then CHR ''1'' else CHR ''0'') (bits_msb 8 byte)) h)"

definition hash_Debug :: "bool \<Rightarrow> HashValueV5 \<Rightarrow> string" where
  "hash_Debug alternate h = ''HashValue('' @ hash_LowerHex alternate h @ '')''"

definition hash_Display :: "HashValueV5 \<Rightarrow> string" where
  "hash_Display h = concat (map hex_byte (take 4 h))"

definition hash_serialize :: "bool \<Rightarrow> HashValueV5 \<Rightarrow> ser_value" where
  "hash_serialize is_human_readable h =
     (if is_human_readable then SerStr (hash_to_hex h) else SerNewtype ''HashValue'' h)"

definition hash_deserialize :: "(string \<Rightarrow> bytes option) \<Rightarrow> bool \<Rightarrow> ser_value \<Rightarrow> HashValueV5 rres" where
  "hash_deserialize hex_decode is_human_readable v =
     (if is_human_readable then
        (case v of SerStr s \<Rightarrow> hash_from_hex hex_decode s | _ \<Rightarrow> Err ''invalid type'')
      else
        (case v of
           SerNewtype n bs \<Rightarrow> if n = ''HashValue'' then hash_from_slice bs else Err ''invalid type''
         | _ \<Rightarrow> Err ''invalid type''))"

section \<open>Bits\<close>

lemma shift_and_one: "(drop_bit n w AND 1 \<noteq> 0) = bit (w :: 'a::len word) n"
  by (simp add: and_one_eq bit_iff_odd_drop_bit odd_iff_mod_2_eq_one)

lemma hash_bit_spec: "hash_ok h \<Longrightarrow> i < LENGTH_IN_BITS \<Longrightarrow> hash_bit h i = Ok (byte_bits h ! i)"
  by (auto simp: hash_bit_def hash_ok_def LENGTH_IN_BITS_def HASH_LENGTH_def index_def Let_def
      shift_and_one nth_byte_bits)

lemma bit_single: "n < 8 \<Longrightarrow> bit (2 ^ m :: u8) n \<longleftrightarrow> n = m"
  by (auto simp: bit_exp_iff)

lemma byte_bits_set_bit:
  assumes "i < 8 * length buf" and "k < 8 * length buf"
  shows "byte_bits (buf[i div 8 := buf ! (i div 8) OR push_bit (7 - i mod 8) 1]) ! k \<longleftrightarrow>
         byte_bits buf ! k \<or> k = i"
proof -
  have pos: "k = i" if "k div 8 = i div 8" "7 - k mod 8 = 7 - i mod 8"
  proof -
    have "k mod 8 < 8" "i mod 8 < 8" by simp_all
    with that(2) have "k mod 8 = i mod 8" by arith
    with that(1) show ?thesis by (metis div_mult_mod_eq)
  qed
  have small: "i div 8 < length buf" using assms(1) by auto
  show ?thesis
  proof (cases "k div 8 = i div 8")
    case True
    then have "byte_bits (buf[i div 8 := buf ! (i div 8) OR push_bit (7 - i mod 8) 1]) ! k \<longleftrightarrow>
        bit (buf ! (i div 8)) (7 - k mod 8) \<or> 7 - k mod 8 = 7 - i mod 8"
      using assms(2) small bit_single[of "7 - k mod 8" "7 - i mod 8"]
      by (simp add: nth_byte_bits bit_or_iff)
    with True pos show ?thesis using assms(2) by (auto simp: nth_byte_bits)
  next
    case False
    with assms(2) show ?thesis by (auto simp: nth_byte_bits)
  qed
qed

lemma length_set_bits [simp]: "length (set_bits buf i bs) = length buf"
  by (induction bs arbitrary: buf i) auto

lemma nth_set_bits:
  "i + length bs \<le> 8 * length buf \<Longrightarrow> k < 8 * length buf \<Longrightarrow>
     byte_bits (set_bits buf i bs) ! k \<longleftrightarrow>
     byte_bits buf ! k \<or> (i \<le> k \<and> k < i + length bs \<and> bs ! (k - i))"
proof (induction bs arbitrary: buf i)
  case Nil
  then show ?case by auto
next
  case (Cons b bs)
  let ?buf = "if b then buf[i div 8 := buf ! (i div 8) OR push_bit (7 - i mod 8) 1] else buf"
  have "byte_bits (set_bits buf i (b # bs)) ! k \<longleftrightarrow>
      byte_bits ?buf ! k \<or> (Suc i \<le> k \<and> k < Suc i + length bs \<and> bs ! (k - Suc i))"
    using Cons.IH[of "Suc i" ?buf] Cons.prems by simp
  moreover have "byte_bits ?buf ! k \<longleftrightarrow> byte_bits buf ! k \<or> b \<and> k = i"
    using byte_bits_set_bit[of i buf k] Cons.prems by simp
  moreover have "k \<noteq> i \<Longrightarrow> i \<le> k \<Longrightarrow> k - i = Suc (k - Suc i)" by simp
  ultimately show ?case by (cases "k = i") auto
qed

lemma byte_bits_zero: "byte_bits (replicate n 0) = replicate (8 * n) False"
  by (rule nth_equalityI) (auto simp: nth_byte_bits less_mult_imp_div_less mult.commute)

lemma byte_bits_from_bit_iter:
  "length bs = LENGTH_IN_BITS \<Longrightarrow> byte_bits (set_bits (replicate HASH_LENGTH 0) 0 bs) = bs"
  by (rule nth_equalityI)
    (simp_all add: nth_set_bits byte_bits_zero LENGTH_IN_BITS_def)

section \<open>The iterator\<close>

text \<open>The bits still to come, and the invariant of an iterator that has only been used forwards.\<close>

definition iter_ok :: "HashValueBitIterator \<Rightarrow> bool" where
  "iter_ok it \<longleftrightarrow> hash_ok (hash_bytes it) \<and> pos_end it = LENGTH_IN_BITS \<and> pos_start it \<le> pos_end it"

definition iter_abs :: "HashValueBitIterator \<Rightarrow> bool list" where
  "iter_abs it = drop (pos_start it) (byte_bits (hash_bytes it))"

lemmas iter_defs = iter_ok_def hash_ok_def LENGTH_IN_BITS_def HASH_LENGTH_def

lemma iter_bits_ok: "hash_ok h \<Longrightarrow> iter_ok (iter_bits h) \<and> iter_abs (iter_bits h) = byte_bits h"
  by (simp add: iter_ok_def iter_bits_def iter_abs_def)

lemma get_bit_spec: "iter_ok it \<Longrightarrow> i < LENGTH_IN_BITS \<Longrightarrow> get_bit it i = Ok (byte_bits (hash_bytes it) ! i)"
  by (auto simp: get_bit_def iter_defs index_def Let_def shift_and_one nth_byte_bits)

lemma iter_next_refines:
  assumes "iter_ok it"
  shows "case iter_abs it of
           [] \<Rightarrow> iter_next it = (Ok None, it)
         | b # bs \<Rightarrow> \<exists>it'. iter_next it = (Ok (Some b), it') \<and> iter_ok it' \<and> iter_abs it' = bs"
proof (cases "pos_start it < pos_end it")
  case True
  let ?it' = "it\<lparr>pos_start := Suc (pos_start it)\<rparr>"
  have "pos_start it < length (byte_bits (hash_bytes it))"
    using True assms by (simp add: iter_defs)
  then have "iter_abs it = byte_bits (hash_bytes it) ! pos_start it # iter_abs ?it'"
    by (simp add: iter_abs_def Cons_nth_drop_Suc)
  moreover have ok: "iter_ok ?it'" using True assms by (simp add: iter_defs)
  moreover have "iter_next it = (Ok (Some (byte_bits (hash_bytes it) ! pos_start it)), ?it')"
    using True assms get_bit_spec[OF ok, of "pos_start it"] by (simp add: iter_next_def iter_ok_def Let_def)
  ultimately show ?thesis by simp
next
  case False
  with assms have "iter_abs it = []" by (simp add: iter_abs_def iter_defs)
  with False show ?thesis by (simp add: iter_next_def)
qed

lemma iter_collect_spec: "iter_ok it \<Longrightarrow> iter_collect it = Ok (iter_abs it)"
proof (induction "iter_abs it" arbitrary: it)
  case Nil
  from iter_next_refines[OF Nil.prems] Nil.hyps[symmetric] show ?case
    by (subst iter_collect.simps) simp
next
  case (Cons b bs)
  from iter_next_refines[OF Cons.prems] Cons.hyps(2)[symmetric]
  obtain it' where "iter_next it = (Ok (Some b), it')" "iter_ok it'" "iter_abs it' = bs" by auto
  with Cons.hyps(1)[of it'] Cons.hyps(2) show ?case
    by (subst iter_collect.simps) simp
qed

lemma common_prefix_loop_spec:
  "iter_ok i \<Longrightarrow> iter_ok j \<Longrightarrow>
     common_prefix_loop i j n =
     Ok (n + length (takeWhile (\<lambda>(x, y). x = y) (zip (iter_abs i) (iter_abs j))))"
proof (induction "iter_abs i" arbitrary: i j n)
  case Nil
  from iter_next_refines[OF Nil.prems(1)] Nil.hyps[symmetric] show ?case
    by (subst common_prefix_loop.simps) simp
next
  case (Cons x xs)
  from iter_next_refines[OF Cons.prems(1)] Cons.hyps(2)[symmetric]
  obtain i' where i': "iter_next i = (Ok (Some x), i')" "iter_ok i'" "iter_abs i' = xs" by auto
  show ?case
  proof (cases "iter_abs j")
    case Nil
    with iter_next_refines[OF Cons.prems(2)] i' show ?thesis
      by (subst common_prefix_loop.simps) simp
  next
    case (Cons y ys)
    with iter_next_refines[OF Cons.prems(2)]
    obtain j' where "iter_next j = (Ok (Some y), j')" "iter_ok j'" "iter_abs j' = ys" by auto
    with i' Cons Cons.hyps(1)[of i' j' "Suc n"] Cons.hyps(2)[symmetric] show ?thesis
      by (subst common_prefix_loop.simps) simp
  qed
qed

section \<open>Nibbles\<close>

lemma nth_lower_hex:
  "i < 2 * length h \<Longrightarrow>
     lower_hex h ! i = hex_digit (if i mod 2 = 0 then unat (h ! (i div 2)) div 16 else unat (h ! (i div 2)) mod 16)"
proof (induction h arbitrary: i)
  case Nil
  then show ?case by simp
next
  case (Cons b h)
  consider "i = 0" | "i = 1" | j where "i = Suc (Suc j)"
    by (metis One_nat_def not0_implies_Suc)
  then show ?case
  proof cases
    case 3
    with Cons show ?thesis by (simp add: hex_byte_def)
  qed (simp_all add: hex_byte_def)
qed

lemma nibble_unat:
  "unat (drop_bit 4 b AND 0x0f :: u8) = unat b div 16" "unat (b AND 0x0f :: u8) = unat b mod 16"
proof -
  have m: "(0x0f :: u8) = mask 4" by (simp add: mask_eq_exp_minus_1)
  have "unat (drop_bit 4 b AND 0x0f) = take_bit 4 (unat b div 16)"
    by (simp only: m take_bit_eq_mask[symmetric] unsigned_take_bit_eq)
      (simp add: drop_bit_eq_div unat_div)
  then show "unat (drop_bit 4 b AND 0x0f :: u8) = unat b div 16"
    using nibble_bound[of b] by (simp add: take_bit_nat_eq_self)
  show "unat (b AND 0x0f) = unat b mod 16"
    by (simp only: m take_bit_eq_mask[symmetric] unsigned_take_bit_eq) (simp add: take_bit_eq_mod)
qed

lemma nibble_bits:
  assumes "i < 2 * length h"
  shows "bits_msb 4 (drop_bit (if i mod 2 = 0 then 4 else 0) (h ! (i div 2)) AND 0x0f)
         = take 4 (drop (4 * i) (byte_bits h))"
proof (rule nth_equalityI)
  show "length (bits_msb 4 (drop_bit (if i mod 2 = 0 then 4 else 0) (h ! (i div 2)) AND 0x0f))
      = length (take 4 (drop (4 * i) (byte_bits h)))"
    using assms by simp
  fix j assume "j < length (bits_msb 4 (drop_bit (if i mod 2 = 0 then 4 else 0) (h ! (i div 2)) AND 0x0f))"
  then have j: "j < 4" by simp
  have m: "(0x0f :: u8) = mask 4" by (simp add: mask_eq_exp_minus_1)
  let ?r = "if i mod 2 = 0 then j else 4 + j"
  have eq: "4 * i + j = 8 * (i div 2) + ?r" by (cases "i mod 2 = 0") presburger+
  have "?r < 8" using j by simp
  then have "(4 * i + j) div 8 = i div 2" "(4 * i + j) mod 8 = ?r"
    unfolding eq by simp_all
  moreover have low: "bit (drop_bit s b AND 0x0f :: u8) (3 - j) \<longleftrightarrow> bit b (s + (3 - j))" for s b
    by (simp only: m bit_and_iff bit_mask_iff bit_drop_bit_eq o_def) auto
  ultimately show "bits_msb 4 (drop_bit (if i mod 2 = 0 then 4 else 0) (h ! (i div 2)) AND 0x0f) ! j
      = take 4 (drop (4 * i) (byte_bits h)) ! j"
    using j assms by (simp add: nth_bits_msb nth_byte_bits low del: bit_and_iff)
qed

section \<open>Theorems\<close>

text \<open>
  Bits and bytes are inverse: collecting the forward iterator of a hash value gives its 256
  bits without a panic, \<open>from_bit_iter\<close> rebuilds the value from them, and any 256 bits are the bits
  of the value built from them. A bit sequence of another length is rejected.
\<close>

theorem hash_bits_roundtrip:
  assumes "hash_ok h"
  shows "(\<exists>bs. iter_collect (iter_bits h) = Ok bs \<and> length bs = LENGTH_IN_BITS \<and>
           (\<forall>i < LENGTH_IN_BITS. hash_bit h i = Ok (bs ! i)) \<and> from_bit_iter bs = Ok h) \<and>
    (\<forall>bs. length bs = LENGTH_IN_BITS \<longrightarrow>
       (\<exists>g. from_bit_iter bs = Ok g \<and> hash_ok g \<and> iter_collect (iter_bits g) = Ok bs)) \<and>
    (\<forall>bs. length bs \<noteq> LENGTH_IN_BITS \<longrightarrow> from_bit_iter bs = Err hash_parse_error)"
proof (intro conjI allI impI)
  have len: "length (byte_bits h) = LENGTH_IN_BITS"
    using assms by (simp add: hash_ok_def LENGTH_IN_BITS_def)
  have "from_bit_iter (byte_bits h) = Ok h"
    using len byte_bits_from_bit_iter[OF len] by (auto simp: from_bit_iter_def intro: byte_bits_inj)
  with len assms show "\<exists>bs. iter_collect (iter_bits h) = Ok bs \<and> length bs = LENGTH_IN_BITS \<and>
      (\<forall>i < LENGTH_IN_BITS. hash_bit h i = Ok (bs ! i)) \<and> from_bit_iter bs = Ok h"
    by (simp add: iter_collect_spec iter_bits_ok hash_bit_spec)
next
  fix bs :: "bool list" assume "length bs = LENGTH_IN_BITS"
  then show "\<exists>g. from_bit_iter bs = Ok g \<and> hash_ok g \<and> iter_collect (iter_bits g) = Ok bs"
    by (simp add: from_bit_iter_def hash_ok_def iter_collect_spec iter_bits_ok byte_bits_from_bit_iter)
qed (simp add: from_bit_iter_def)

theorem hash_bits_roundtrip_witness:
  "\<exists>bs. iter_collect (iter_bits (replicate 32 0xA5)) = Ok bs \<and> from_bit_iter bs = Ok (replicate 32 0xA5)"
proof -
  have "hash_ok (replicate 32 0xA5)" by (simp add: hash_ok_def HASH_LENGTH_def)
  from hash_bits_roundtrip[OF this] show ?thesis by blast
qed

text \<open>
  \<open>common_prefix_bits_len\<close> is the length of the longest common bit prefix: the values agree on
  every bit below the result and differ at it, the result is 256 exactly for equal values, and the
  function is symmetric.
\<close>

theorem common_prefix_correct:
  assumes "hash_ok g" and "hash_ok h"
  shows "\<exists>n \<le> LENGTH_IN_BITS. common_prefix_bits_len g h = Ok n \<and> common_prefix_bits_len h g = Ok n \<and>
    (\<forall>i < n. hash_bit g i = hash_bit h i) \<and>
    (n < LENGTH_IN_BITS \<longrightarrow> hash_bit g n \<noteq> hash_bit h n) \<and>
    (n = LENGTH_IN_BITS \<longleftrightarrow> g = h)"
proof -
  let ?P = "\<lambda>(x, y). x = (y :: bool)" and ?z = "zip (byte_bits g) (byte_bits h)"
  let ?n = "length (takeWhile ?P ?z)"
  have len: "length (byte_bits g) = LENGTH_IN_BITS" "length (byte_bits h) = LENGTH_IN_BITS"
    using assms by (simp_all add: hash_ok_def LENGTH_IN_BITS_def)
  have le: "?n \<le> LENGTH_IN_BITS"
    using length_takeWhile_le[of ?P ?z] len by simp
  have swap: "length (takeWhile ?P (zip xs ys)) = length (takeWhile ?P (zip ys xs))" for xs ys
    by (induction xs ys rule: list_induct2') auto
  have below: "byte_bits g ! i = byte_bits h ! i" if "i < ?n" for i
  proof -
    from that nth_length_takeWhile takeWhile_nth[of i ?P ?z] have "?P (?z ! i)"
      by (metis nth_mem set_takeWhileD)
    with that le len show ?thesis by simp
  qed
  have at: "byte_bits g ! ?n \<noteq> byte_bits h ! ?n" if "?n < LENGTH_IN_BITS"
    using nth_length_takeWhile[of ?P ?z] that len by simp
  have eq: "?n = LENGTH_IN_BITS \<longleftrightarrow> g = h"
  proof
    assume "?n = LENGTH_IN_BITS"
    with below len have "byte_bits g = byte_bits h" by (intro nth_equalityI) auto
    then show "g = h" by (rule byte_bits_inj)
  next
    assume "g = h"
    with at le show "?n = LENGTH_IN_BITS" by (metis le_neq_implies_less)
  qed
  have "common_prefix_bits_len g h = Ok ?n" "common_prefix_bits_len h g = Ok ?n"
    using assms swap[of "byte_bits g" "byte_bits h"]
    by (simp_all add: common_prefix_bits_len_def common_prefix_loop_spec iter_bits_ok)
  with le below at eq assms show ?thesis
    by (intro exI[of _ ?n]) (simp add: hash_bit_spec)
qed

theorem common_prefix_correct_witness:
  "\<exists>n. common_prefix_bits_len (replicate 32 0) (replicate 31 0 @ [1]) = Ok n \<and> n < 256"
proof -
  let ?h = "replicate 31 0 @ [1] :: bytes"
  have ok: "hash_ok (replicate 32 0)" "hash_ok ?h" by (simp_all add: hash_ok_def HASH_LENGTH_def)
  have ne: "replicate 32 0 \<noteq> ?h" by code_simp
  from common_prefix_correct[OF ok] ne show ?thesis
    by (auto simp: LENGTH_IN_BITS_def HASH_LENGTH_def order_le_less)
qed

text \<open>
  The back end of the bit iterator is unusable: on every fresh iterator, and after any number
  of forward steps that leaves a bit, \<open>next_back\<close> panics, because the range it has already shortened
  no longer contains the index that \<open>get_bit\<close> asserts to be in it.
\<close>

theorem next_back_panics:
  assumes "iter_ok it" and "iter_abs it \<noteq> []"
  shows "is_panic (fst (iter_next_back it))"
proof -
  from assms have "pos_start it < pos_end it" by (auto simp: iter_abs_def iter_defs)
  then show ?thesis by (simp add: iter_next_back_def get_bit_def)
qed

theorem next_back_panics_witness:
  "is_panic (fst (iter_next_back (iter_bits hash_zero)))"
proof (rule next_back_panics)
  have "hash_ok hash_zero" by (simp add: hash_ok_def hash_zero_def)
  from iter_bits_ok[OF this] show "iter_ok (iter_bits hash_zero)" "iter_abs (iter_bits hash_zero) \<noteq> []"
    by (auto simp: hash_zero_def HASH_LENGTH_def byte_bits_zero)
qed

text \<open>
  The two nibbles of a byte: \<open>nibble\<close> returns the four bits at its position, most significant
  first, is below 16, and the nibbles printed as digits are the hexadecimal form, which parses back.
\<close>

theorem hash_nibble_correct:
  assumes h: "hash_ok h" and i: "i < HASH_LENGTH * 2" and hex: "hex_crate hex_encode hex_decode"
  shows "\<exists>v. hash_nibble h i = Ok v \<and> unat v < 16 \<and>
      bits_msb 4 v = take 4 (drop (4 * i) (byte_bits h)) \<and>
      hash_to_hex h ! i = hex_digit (unat v) \<and>
      hash_from_hex hex_decode (hash_to_hex h) = Ok h"
proof -
  let ?v = "drop_bit (if i mod 2 = 0 then 4 else 0) (h ! (i div 2)) AND 0x0f"
  have small: "i div 2 < length h" "i < 2 * length h" using h i by (auto simp: hash_ok_def)
  with i have "hash_nibble h i = Ok ?v" by (simp add: hash_nibble_def index_def)
  moreover have "hash_to_hex h ! i = hex_digit (unat ?v)"
    using small nibble_unat[of "h ! (i div 2)"]
    by (simp add: hash_to_hex_def hash_LowerHex_def flip: lower_hex_def add: nth_lower_hex)
  moreover have "unat ?v < 16"
    using nibble_bound[of "h ! (i div 2)"] nibble_unat[of "h ! (i div 2)"] by simp
  moreover have "hash_from_hex hex_decode (hash_to_hex h) = Ok h"
    using h hex_crate.decode_lower[OF hex, of h]
    by (simp add: hash_from_hex_def hash_to_hex_def hash_LowerHex_def hash_ok_def flip: lower_hex_def)
  ultimately show ?thesis using nibble_bits[OF small(2)] by blast
qed

theorem hash_nibble_correct_witness:
  "hash_nibble (replicate 32 0xA5) 3 = Ok 5 \<and> hash_nibble (replicate 32 0xA5) 2 = Ok 10 \<and>
   hash_from_hex hex_decode_ref (hash_to_hex (replicate 32 0xA5)) = Ok (replicate 32 0xA5)"
proof -
  have "hash_ok (replicate 32 0xA5)" by code_simp
  moreover have "3 < HASH_LENGTH * 2" by code_simp
  ultimately have "hash_from_hex hex_decode_ref (hash_to_hex (replicate 32 0xA5)) = Ok (replicate 32 0xA5)"
    using hash_nibble_correct[OF _ _ ref_hex.hex_crate_axioms] by blast
  moreover have "hash_nibble (replicate 32 0xA5) 3 = Ok 5" "hash_nibble (replicate 32 0xA5) 2 = Ok 10"
    by code_simp+
  ultimately show ?thesis by blast
qed

end
