(* ===== verification/Archive_V5.thy ===== *)
theory Archive_V5
  imports Account_State Hash_Value
begin

text \<open>
  Version five archives: the payload types of transactions (\<^verbatim>\<open>script_v5.rs\<close>, \<^verbatim>\<open>module_v5.rs\<close>,
  \<^verbatim>\<open>transaction_argument_v5.rs\<close>, \<^verbatim>\<open>transaction_type_v5.rs\<close>), the transaction backup manifest and its
  verification (\<^verbatim>\<open>transaction_manifest_v5.rs\<close>), and the readers of transaction and state snapshot
  chunks (\<^verbatim>\<open>transaction_restore_v5.rs\<close>, \<^verbatim>\<open>state_snapshot_v5.rs\<close>), all under
  \<^verbatim>\<open>src/compatibility/src/version_five/\<close>.

  Keys, signatures and change sets are vendor types and appear as their bytes. A file opened for
  reading is the list of results its record reader returns before the end of the file; BCS and JSON
  decoding are parameters. A path is the list of its components.
\<close>

section \<open>Payloads\<close>

record v5_Module =
  module_code :: bytes

definition Module_new :: "bytes \<Rightarrow> v5_Module" where
  "Module_new code = \<lparr>module_code = code\<rparr>"

definition Module_into_inner :: "v5_Module \<Rightarrow> bytes" where
  "Module_into_inner m = module_code m"

record ModuleBundle =
  codes :: "v5_Module list"

definition ModuleBundle_new :: "bytes list \<Rightarrow> ModuleBundle" where
  "ModuleBundle_new cs = \<lparr>codes = map Module_new cs\<rparr>"

definition ModuleBundle_singleton :: "bytes \<Rightarrow> ModuleBundle" where
  "ModuleBundle_singleton code = \<lparr>codes = [Module_new code]\<rparr>"

definition ModuleBundle_into_inner :: "ModuleBundle \<Rightarrow> bytes list" where
  "ModuleBundle_into_inner b = map Module_into_inner (codes b)"

definition ModuleBundle_from_Module :: "v5_Module \<Rightarrow> ModuleBundle" where
  "ModuleBundle_from_Module m = \<lparr>codes = [m]\<rparr>"

datatype TransactionArgument =
    ArgU8 u8
  | ArgU64 u64
  | ArgU128 u128
  | ArgAddress LegacyAddressV5
  | ArgU8Vector bytes
  | ArgAddressVector "LegacyAddressV5 list"
  | ArgBool bool

fun TransactionArgument_Debug :: "(bytes \<Rightarrow> string) \<Rightarrow> TransactionArgument \<Rightarrow> string" where
  "TransactionArgument_Debug hex_encode (ArgU8 v) = ''{U8: '' @ dec_str (unat v) @ ''}''"
| "TransactionArgument_Debug hex_encode (ArgU64 v) = ''{U64: '' @ dec_str (unat v) @ ''}''"
| "TransactionArgument_Debug hex_encode (ArgU128 v) = ''{U128: '' @ dec_str (unat v) @ ''}''"
| "TransactionArgument_Debug hex_encode (ArgBool b) =
     ''{BOOL: '' @ (if b then ''true'' else ''false'') @ ''}''"
| "TransactionArgument_Debug hex_encode (ArgAddress a) = ''{ADDRESS: '' @ addr_Debug a @ ''}''"
| "TransactionArgument_Debug hex_encode (ArgU8Vector v) = ''{U8Vector: 0x'' @ hex_encode v @ ''}''"
| "TransactionArgument_Debug hex_encode (ArgAddressVector v) =
     ''{AddressVector: ['' @ join '', '' (map addr_Debug v) @ '']}''"

record Script =
  script_code :: bytes
  script_ty_args :: "TypeTagV5 list"
  script_args :: "TransactionArgument list"

definition Script_new :: "bytes \<Rightarrow> TypeTagV5 list \<Rightarrow> TransactionArgument list \<Rightarrow> Script" where
  "Script_new code ty_args args = \<lparr>script_code = code, script_ty_args = ty_args, script_args = args\<rparr>"

definition Script_into_inner :: "Script \<Rightarrow> bytes \<times> TransactionArgument list" where
  "Script_into_inner s = (script_code s, script_args s)"

record ScriptFunction =
  sf_module :: ModuleIdV5
  sf_function :: string
  sf_ty_args :: "TypeTagV5 list"
  sf_args :: "bytes list"

definition ScriptFunction_new ::
  "ModuleIdV5 \<Rightarrow> string \<Rightarrow> TypeTagV5 list \<Rightarrow> bytes list \<Rightarrow> ScriptFunction" where
  "ScriptFunction_new m f ty_args args =
     \<lparr>sf_module = m, sf_function = f, sf_ty_args = ty_args, sf_args = args\<rparr>"

datatype WriteSetPayload =
    WsDirect bytes
  | WsScript LegacyAddressV5 Script

fun WriteSetPayload_should_trigger :: "WriteSetPayload \<Rightarrow> bool" where
  "WriteSetPayload_should_trigger (WsDirect cs) = True"
| "WriteSetPayload_should_trigger (WsScript execute_as script) = False"

datatype TransactionPayload =
    PayloadWriteSet WriteSetPayload
  | PayloadScript Script
  | PayloadModuleBundle ModuleBundle
  | PayloadScriptFunction ScriptFunction

fun TransactionPayload_should_trigger :: "TransactionPayload \<Rightarrow> bool" where
  "TransactionPayload_should_trigger (PayloadWriteSet ws) = WriteSetPayload_should_trigger ws"
| "TransactionPayload_should_trigger (PayloadScript _) = False"
| "TransactionPayload_should_trigger (PayloadScriptFunction _) = False"
| "TransactionPayload_should_trigger (PayloadModuleBundle _) = False"

fun into_script_function :: "TransactionPayload \<Rightarrow> ScriptFunction rres" where
  "into_script_function (PayloadScriptFunction f) = Ok f"
| "into_script_function payload = Panic ''Expected ScriptFunction(_) payload''"

record RawTransaction =
  sender :: LegacyAddressV5
  sequence_number :: u64
  payload :: TransactionPayload
  max_gas_amount :: u64
  gas_unit_price :: u64
  gas_currency_code :: string
  expiration_timestamp_secs :: u64
  chain_id :: u8

datatype TransactionAuthenticator =
    AuthEd25519 bytes bytes
  | AuthMultiEd25519 bytes bytes
  | AuthMultiAgent bytes "LegacyAddressV5 list" "bytes list"

record SignedTransaction =
  raw_txn :: RawTransaction
  authenticator :: TransactionAuthenticator

record BlockMetadata =
  bm_id :: HashValueV5
  bm_round :: u64
  bm_timestamp_usecs :: u64
  bm_previous_block_votes :: "LegacyAddressV5 list"
  bm_proposer :: LegacyAddressV5

datatype TransactionV5 =
    UserTransaction SignedTransaction
  | GenesisTransaction WriteSetPayload
  | BlockMetadataTransaction BlockMetadata

datatype AbortLocation = AbortModule ModuleIdV5 | AbortScript

datatype KeptVMStatus =
    KeptExecuted
  | KeptOutOfGas
  | KeptMoveAbort AbortLocation u64
  | KeptExecutionFailure AbortLocation u16 u16
  | KeptMiscellaneousError

record TransactionInfoV5 =
  ti_transaction_hash :: HashValueV5
  ti_state_root_hash :: HashValueV5
  ti_event_root_hash :: HashValueV5
  ti_gas_used :: u64
  ti_status :: KeptVMStatus

record ContractEventV0 =
  ev_key :: EventKeyV5
  ev_sequence_number :: u64
  ev_type_tag :: TypeTagV5
  ev_event_data :: bytes

datatype ContractEventV5 = EventV0 ContractEventV0

datatype TxRecord = TxRecord TransactionV5 TransactionInfoV5 "ContractEventV5 list"

section \<open>The transaction manifest\<close>

type_synonym path = "string list"

record TransactionChunk =
  tc_first_version :: u64
  tc_last_version :: u64
  tc_transactions :: path
  tc_proof :: path

record TransactionBackup =
  tb_first_version :: u64
  tb_last_version :: u64
  tb_chunks :: "TransactionChunk list"

text \<open>The loop over the chunks; \<open>last_version + 1\<close> wraps at \<open>u64::MAX\<close>.\<close>

fun verify_chunks :: "u64 \<Rightarrow> TransactionChunk list \<Rightarrow> u64 rres" where
  "verify_chunks next_version [] = Ok next_version"
| "verify_chunks next_version (c # cs) =
     (if \<not> tc_first_version c = next_version then Err ''Chunk ranges not continuous.''
      else if \<not> tc_last_version c \<ge> tc_first_version c then Err ''Chunk range invalid.''
      else verify_chunks (tc_last_version c + 1) cs)"

definition TransactionBackup_verify :: "TransactionBackup \<Rightarrow> unit rres" where
  "TransactionBackup_verify b =
     (if \<not> tb_first_version b \<le> tb_last_version b then Err ''Bad version range''
      else if tb_chunks b = [] then Err ''No chunks.''
      else rbind (verify_chunks (tb_first_version b) (tb_chunks b)) (\<lambda>next_version.
        if \<not> next_version - 1 = tb_last_version b then Err ''Last version in chunks does not match''
        else Ok ()))"

section \<open>Reading chunks\<close>

text \<open>\<open>Path::parent\<close> and \<open>Path::join\<close> of a relative handle.\<close>

definition path_parent :: "path \<Rightarrow> path option" where
  "path_parent p = (if p = [] then None else Some (butlast p))"

text \<open>\<open>fs\<close> gives, for an existing file, the results of its record reader up to the end of the file.\<close>

type_synonym record_fs = "path \<rightharpoonup> bytes rres list"

fun read_records :: "(bytes \<Rightarrow> 'a option) \<Rightarrow> string \<Rightarrow> bytes rres list \<Rightarrow> 'a list rres" where
  "read_records from_bytes msg [] = Ok []"
| "read_records from_bytes msg (r # rs) =
     rbind r (\<lambda>record_bytes.
       rbind (or_err msg (from_bytes record_bytes)) (\<lambda>x.
         rbind (read_records from_bytes msg rs) (\<lambda>xs. Ok (x # xs))))"

definition read_chunk ::
  "(bytes \<Rightarrow> 'a option) \<Rightarrow> string \<Rightarrow> record_fs \<Rightarrow> path \<Rightarrow> path \<Rightarrow> 'a list rres" where
  "read_chunk from_bytes msg fs file_handle archive_path =
     rbind (or_panic ''could not read archive path'' (path_parent archive_path)) (\<lambda>parent.
       (case fs (parent @ file_handle) of
          None \<Rightarrow> Panic ''file does not exist''
        | Some records \<Rightarrow> read_records from_bytes msg records))"

definition read_transaction_chunk ::
  "(bytes \<Rightarrow> TxRecord option) \<Rightarrow> record_fs \<Rightarrow> path \<Rightarrow> path \<Rightarrow> TxRecord list rres" where
  "read_transaction_chunk tx_from fs file_handle archive_path =
     read_chunk tx_from ''bcs'' fs file_handle archive_path"

record StateSnapshotChunk =
  ssc_blobs :: path

record StateSnapshotBackupV5 =
  ssb_version :: u64
  ssb_root_hash :: HashValueV5
  ssb_chunks :: "StateSnapshotChunk list"
  ssb_proof :: path

datatype AccountStateBlobRecord = AccountStateBlobRecord HashValueV5 AccountStateBlob

fun record_blob :: "AccountStateBlobRecord \<Rightarrow> AccountStateBlob" where
  "record_blob (AccountStateBlobRecord h b) = b"

definition read_account_state_chunk ::
  "(bytes \<Rightarrow> AccountStateBlobRecord option) \<Rightarrow> record_fs \<Rightarrow> path \<Rightarrow> path \<Rightarrow>
   AccountStateBlobRecord list rres" where
  "read_account_state_chunk rec_from fs file_handle archive_path =
     read_chunk rec_from ''could not deserialize bcs chunk'' fs file_handle archive_path"

text \<open>The outer loop of \<open>v5_accounts_from_snapshot_backup\<close> pushes the blobs of every chunk.\<close>

fun snapshot_chunks ::
  "(bytes \<Rightarrow> AccountStateBlobRecord option) \<Rightarrow> record_fs \<Rightarrow> path \<Rightarrow> AccountStateBlob list \<Rightarrow>
   StateSnapshotChunk list \<Rightarrow> AccountStateBlob list rres" where
  "snapshot_chunks rec_from fs archive_path account_state_blobs [] = Ok account_state_blobs"
| "snapshot_chunks rec_from fs archive_path account_state_blobs (chunk # chunks) =
     rbind (read_account_state_chunk rec_from fs (ssc_blobs chunk) archive_path) (\<lambda>records.
       snapshot_chunks rec_from fs archive_path (account_state_blobs @ map record_blob records) chunks)"

definition v5_accounts_from_snapshot_backup ::
  "(bytes \<Rightarrow> AccountStateBlobRecord option) \<Rightarrow> record_fs \<Rightarrow> StateSnapshotBackupV5 \<Rightarrow> path \<Rightarrow>
   AccountStateBlob list rres" where
  "v5_accounts_from_snapshot_backup rec_from fs manifest archive_path =
     snapshot_chunks rec_from fs archive_path [] (ssb_chunks manifest)"

definition v5_accounts_from_manifest_path ::
  "(bytes \<Rightarrow> AccountStateBlobRecord option) \<Rightarrow> (path \<Rightarrow> StateSnapshotBackupV5 rres) \<Rightarrow> record_fs \<Rightarrow>
   path \<Rightarrow> AccountStateBlob list rres" where
  "v5_accounts_from_manifest_path rec_from read_manifest fs manifest_file =
     rbind (or_err ''could not get archive path from manifest file'' (path_parent manifest_file))
       (\<lambda>archive_path.
         rbind (read_manifest manifest_file) (\<lambda>manifest.
           v5_accounts_from_snapshot_backup rec_from fs manifest archive_path))"

section \<open>The manifest covers its range\<close>

text \<open>
  The specification of a continuous list of chunks: concatenating the ranges gives every version of
  \<open>[first, last]\<close> once, in order.
\<close>

definition chunk_range :: "TransactionChunk \<Rightarrow> nat list" where
  "chunk_range c = [unat (tc_first_version c)..<Suc (unat (tc_last_version c))]"

definition chunk_nonempty :: "TransactionChunk \<Rightarrow> bool" where
  "chunk_nonempty c \<longleftrightarrow> tc_first_version c \<le> tc_last_version c"

lemma unat_succ_64: "(w :: u64) \<noteq> - 1 \<Longrightarrow> unat (w + 1) = Suc (unat w)"
  by (metis unatSuc add.commute add_eq_0_iff)

lemma upt_concat: "i \<le> j \<Longrightarrow> j \<le> k \<Longrightarrow> [i..<j] @ [j..<k] = [i..<k]"
  using upt_add_eq_append[of i j "k - j"] by simp

lemma verify_chunks_ranges:
  assumes "verify_chunks v cs = Ok w" and "cs \<noteq> []"
    and "list_all (\<lambda>c. tc_last_version c \<noteq> - 1) (butlast cs)"
  shows "concat (map chunk_range cs) = [unat v..<Suc (unat (w - 1))] \<and> list_all chunk_nonempty cs \<and>
         w - 1 = tc_last_version (last cs) \<and> v \<le> w - 1"
  using assms
proof (induction cs arbitrary: v)
  case Nil
  then show ?case by simp
next
  case (Cons c cs)
  from Cons.prems(1) have c: "tc_first_version c = v" "v \<le> tc_last_version c"
    and rest: "verify_chunks (tc_last_version c + 1) cs = Ok w" by (auto split: if_splits)
  show ?case
  proof (cases "cs = []")
    case True
    with rest c show ?thesis by (auto simp: chunk_range_def chunk_nonempty_def simp del: upt_Suc)
  next
    case False
    with Cons.prems(3) have nomax: "tc_last_version c \<noteq> - 1"
      and more: "list_all (\<lambda>c. tc_last_version c \<noteq> - 1) (butlast cs)" by simp_all
    from Cons.IH[OF rest False more] have IH: "concat (map chunk_range cs) =
        [unat (tc_last_version c + 1)..<Suc (unat (w - 1))]" "list_all chunk_nonempty cs"
      "w - 1 = tc_last_version (last cs)" "tc_last_version c + 1 \<le> w - 1" by blast+
    from unat_succ_64[OF nomax] have u: "unat (tc_last_version c + 1) = Suc (unat (tc_last_version c))" .
    with IH(4) c(2) have le: "unat v \<le> unat (tc_last_version c)"
      "Suc (unat (tc_last_version c)) \<le> unat (w - 1)"
      by (simp_all add: word_le_nat_alt)
    then have "[unat v..<Suc (unat (tc_last_version c))] @ [Suc (unat (tc_last_version c))..<Suc (unat (w - 1))]
        = [unat v..<Suc (unat (w - 1))]"
      by (intro upt_concat) simp_all
    with IH c u le False show ?thesis
      by (simp add: chunk_range_def[of c] chunk_nonempty_def[of c] word_le_nat_alt del: upt_Suc)
  qed
qed

lemma verify_chunks_complete:
  assumes "cs \<noteq> []" and "list_all chunk_nonempty cs" and "v \<le> l"
    and "concat (map chunk_range cs) = [unat v..<Suc (unat l)]"
  shows "verify_chunks v cs = Ok (l + 1)"
  using assms
proof (induction cs arbitrary: v)
  case Nil
  then show ?case by simp
next
  case (Cons c cs)
  let ?f = "unat (tc_first_version c)" and ?t = "unat (tc_last_version c)"
  from Cons.prems have ne: "?f \<le> ?t" by (simp add: chunk_nonempty_def word_le_nat_alt)
  have vl: "unat v \<le> unat l" using Cons.prems(3) by (simp add: word_le_nat_alt)
  have split: "[?f..<Suc ?t] @ concat (map chunk_range cs) = [unat v..<Suc (unat l)]"
    using Cons.prems(4) by (simp add: chunk_range_def[of c] del: upt_Suc)
  from arg_cong[OF split, of hd] ne vl have f: "?f = unat v"
    by (simp add: hd_append del: upt_Suc)
  have len: "Suc ?t - ?f \<le> Suc (unat l) - unat v"
    using arg_cong[OF split, of length] by (simp del: upt_Suc)
  with f ne vl have tl: "?t \<le> unat l" by simp
  have "[unat v..<Suc ?t] @ [Suc ?t..<Suc (unat l)] = [unat v..<Suc (unat l)]"
    using f ne tl by (intro upt_concat) simp_all
  with split f have rest: "concat (map chunk_range cs) = [Suc ?t..<Suc (unat l)]"
    by (metis same_append_eq)
  show ?case
  proof (cases "cs = []")
    case True
    with rest have "[Suc ?t..<Suc (unat l)] = []" by simp
    with tl have "?t = unat l" unfolding upt_eq_Nil_conv by simp
    with f have "tc_last_version c = l" "tc_first_version c = v" by (simp_all add: word_unat_eq_iff)
    with True Cons.prems show ?thesis by (simp add: chunk_nonempty_def)
  next
    case False
    then obtain d ds where cs: "cs = d # ds" by (cases cs) auto
    with Cons.prems(2) rest have "?t < unat l"
      by (auto simp: chunk_range_def chunk_nonempty_def word_le_nat_alt simp del: upt_Suc
          dest!: arg_cong[of _ _ length])
    then have "tc_last_version c < l" by (simp add: word_less_nat_alt)
    then have "tc_last_version c \<noteq> - 1" by (metis not_less word_n1_ge)
    with unat_succ_64 have u: "unat (tc_last_version c + 1) = Suc ?t" by simp
    with \<open>?t < unat l\<close> have "tc_last_version c + 1 \<le> l" by (simp add: word_le_nat_alt)
    with Cons.IH[of "tc_last_version c + 1"] False Cons.prems(2) rest u have
      "verify_chunks (tc_last_version c + 1) cs = Ok (l + 1)" by simp
    with f ne show ?thesis by (simp add: word_unat_eq_iff word_le_nat_alt)
  qed
qed

section \<open>Records\<close>

lemma read_records_map:
  "read_records from_bytes msg (map Ok rs) =
     (if \<forall>r \<in> set rs. from_bytes r \<noteq> None then Ok (map (\<lambda>r. the (from_bytes r)) rs) else Err msg)"
proof (induction rs)
  case (Cons r rs)
  then show ?case by (cases "from_bytes r") auto
qed simp

lemma bundle_roundtrip: "ModuleBundle_into_inner (ModuleBundle_new cs) = cs"
  by (simp add: ModuleBundle_into_inner_def ModuleBundle_new_def Module_into_inner_def Module_new_def o_def)

section \<open>Theorems\<close>

text \<open>
  C39. \<open>TransactionBackup::verify\<close> accepts a manifest exactly when its chunks, read in order, cover the
  version range \<open>[first, last]\<close> without gap, overlap or empty chunk. The only exception is a chunk
  before the last one that ends at \<open>u64::MAX\<close>, where the successor wraps to version zero.
\<close>

theorem manifest_verify_iff:
  assumes "list_all (\<lambda>c. tc_last_version c \<noteq> - 1) (butlast (tb_chunks b))"
  shows "TransactionBackup_verify b = Ok () \<longleftrightarrow>
    tb_chunks b \<noteq> [] \<and> list_all chunk_nonempty (tb_chunks b) \<and>
    tb_first_version b \<le> tb_last_version b \<and>
    concat (map chunk_range (tb_chunks b)) = [unat (tb_first_version b)..<Suc (unat (tb_last_version b))]"
proof
  assume "TransactionBackup_verify b = Ok ()"
  then obtain w where ok: "verify_chunks (tb_first_version b) (tb_chunks b) = Ok w"
    and b: "tb_chunks b \<noteq> []" "tb_first_version b \<le> tb_last_version b" "w - 1 = tb_last_version b"
    by (auto simp: TransactionBackup_verify_def rust_simps split: if_splits)
  from verify_chunks_ranges[OF ok b(1) assms] b show "tb_chunks b \<noteq> [] \<and>
      list_all chunk_nonempty (tb_chunks b) \<and> tb_first_version b \<le> tb_last_version b \<and>
      concat (map chunk_range (tb_chunks b)) = [unat (tb_first_version b)..<Suc (unat (tb_last_version b))]"
    by simp
next
  assume "tb_chunks b \<noteq> [] \<and> list_all chunk_nonempty (tb_chunks b) \<and>
    tb_first_version b \<le> tb_last_version b \<and>
    concat (map chunk_range (tb_chunks b)) = [unat (tb_first_version b)..<Suc (unat (tb_last_version b))]"
  with verify_chunks_complete[of "tb_chunks b" "tb_first_version b" "tb_last_version b"]
  show "TransactionBackup_verify b = Ok ()" by (simp add: TransactionBackup_verify_def)
qed

definition sample_backup :: TransactionBackup where
  "sample_backup = \<lparr>tb_first_version = 10, tb_last_version = 14, tb_chunks =
     [\<lparr>tc_first_version = 10, tc_last_version = 11, tc_transactions = [''a''], tc_proof = []\<rparr>,
      \<lparr>tc_first_version = 12, tc_last_version = 14, tc_transactions = [''b''], tc_proof = []\<rparr>]\<rparr>"

theorem manifest_verify_iff_witness:
  "TransactionBackup_verify sample_backup = Ok () \<and>
   concat (map chunk_range (tb_chunks sample_backup)) = [10..<15]"
proof -
  have "list_all (\<lambda>c. tc_last_version c \<noteq> - 1) (butlast (tb_chunks sample_backup))"
    and ok: "TransactionBackup_verify sample_backup = Ok ()" by code_simp+
  from manifest_verify_iff[OF this(1)] ok show ?thesis by (simp add: sample_backup_def)
qed

text \<open>
  The exception is real: a manifest that claims versions 5 to 10 passes verification with chunks
  that run from 5 to the largest version and then again from 0 to 10.
\<close>

theorem manifest_verify_wraps:
  "TransactionBackup_verify
     \<lparr>tb_first_version = 5, tb_last_version = 10, tb_chunks =
        [\<lparr>tc_first_version = 5, tc_last_version = - 1, tc_transactions = x, tc_proof = y\<rparr>,
         \<lparr>tc_first_version = 0, tc_last_version = 10, tc_transactions = x, tc_proof = y\<rparr>]\<rparr> = Ok ()"
  by (simp add: TransactionBackup_verify_def)

text \<open>
  Reading a snapshot. When the manifest parses and every chunk file exists and decodes, the
  accounts are the blobs of all records, chunk after chunk in manifest order, none dropped or
  repeated; a chunk that fails to decode makes the whole read fail.
\<close>

theorem snapshot_accounts_in_order:
  assumes "manifest_file \<noteq> []" and "butlast manifest_file \<noteq> []"
    and "read_manifest manifest_file = Ok manifest"
    and "\<forall>c \<in> set (ssb_chunks manifest).
      fs (butlast (butlast manifest_file) @ ssc_blobs c) = Some (map Ok (encoded c))"
  shows "v5_accounts_from_manifest_path rec_from read_manifest fs manifest_file =
    (if \<forall>c \<in> set (ssb_chunks manifest). \<forall>r \<in> set (encoded c). rec_from r \<noteq> None
     then Ok (concat (map (\<lambda>c. map (\<lambda>r. record_blob (the (rec_from r))) (encoded c)) (ssb_chunks manifest)))
     else Err ''could not deserialize bcs chunk'')"
proof -
  have loop: "snapshot_chunks rec_from fs (butlast manifest_file) acc cs =
     (if \<forall>c \<in> set cs. \<forall>r \<in> set (encoded c). rec_from r \<noteq> None
      then Ok (acc @ concat (map (\<lambda>c. map (\<lambda>r. record_blob (the (rec_from r))) (encoded c)) cs))
      else Err ''could not deserialize bcs chunk'')"
    if "set cs \<subseteq> set (ssb_chunks manifest)" for acc cs
    using that
  proof (induction cs arbitrary: acc)
    case (Cons c cs)
    have "read_account_state_chunk rec_from fs (ssc_blobs c) (butlast manifest_file) =
        (if \<forall>r \<in> set (encoded c). rec_from r \<noteq> None then Ok (map (\<lambda>r. the (rec_from r)) (encoded c))
         else Err ''could not deserialize bcs chunk'')"
      using Cons.prems assms(2,4)
      by (simp add: read_account_state_chunk_def read_chunk_def path_parent_def read_records_map)
    with Cons show ?case by (simp add: o_def)
  qed simp
  show ?thesis
    using assms(1-3) loop[of "ssb_chunks manifest" "[]"]
    by (simp add: v5_accounts_from_manifest_path_def v5_accounts_from_snapshot_backup_def path_parent_def)
qed

definition sample_record :: "bytes \<Rightarrow> AccountStateBlobRecord option" where
  "sample_record bs =
     (if bs = [] then None else Some (AccountStateBlobRecord hash_zero \<lparr>blob = bs, blob_hash = []\<rparr>))"

definition sample_manifest :: StateSnapshotBackupV5 where
  "sample_manifest = \<lparr>ssb_version = 1, ssb_root_hash = hash_zero,
     ssb_chunks = [\<lparr>ssc_blobs = [''x'']\<rparr>, \<lparr>ssc_blobs = [''y'']\<rparr>], ssb_proof = []\<rparr>"

theorem snapshot_accounts_in_order_witness:
  "v5_accounts_from_manifest_path sample_record (\<lambda>_. Ok sample_manifest)
     [[''r'', ''x''] \<mapsto> [Ok [1], Ok [2]], [''r'', ''y''] \<mapsto> [Ok [3]]] [''r'', ''s'', ''m''] =
   Ok (map (\<lambda>b. \<lparr>blob = b, blob_hash = []\<rparr>) [[1], [2], [3]])"
proof -
  let ?fs = "[[''r'', ''x''] \<mapsto> [Ok [1], Ok [2]], [''r'', ''y''] \<mapsto> [Ok [3]]] :: record_fs"
  let ?enc = "\<lambda>c. if ssc_blobs c = [''x''] then [[1], [2]] else [[3]] :: bytes list"
  have "\<forall>c \<in> set (ssb_chunks sample_manifest).
      ?fs (butlast (butlast [''r'', ''s'', ''m'']) @ ssc_blobs c) = Some (map Ok (?enc c))"
    by (simp add: sample_manifest_def)
  from snapshot_accounts_in_order[OF _ _ _ this, where rec_from = sample_record and
      read_manifest = "\<lambda>_. Ok sample_manifest"]
  show ?thesis by (simp add: sample_manifest_def sample_record_def fun_upd_def)
qed

end
