(* ===== verification/Storage_Snapshot.thy ===== *)
theory Storage_Snapshot
  imports Archive_V5 Recovery Playlist
begin

text \<open>
  Reading the archives of version seven: state snapshots into account states and recovery records
  (\<^verbatim>\<open>src/tools/storage/src/read_snapshot.rs\<close>), and transaction chunks (\<^verbatim>\<open>read_tx_chunk.rs\<close>).

  State keys and values are vendor types; \<open>access_address\<close> is the address of a key whose inner key is an access path, and
  \<open>from_access_paths\<close> the vendor's assembly of an account state. A \<open>HashMap\<close> is an association list, its iteration
  order the parameter \<open>order\<close> with the law of \<open>completion_order\<close>.
\<close>

section \<open>Snapshots\<close>

text \<open>Opening a missing file is an error here, not a panic.\<close>

definition read_account_state_chunk_v7 ::
  "(bytes \<Rightarrow> ('k \<times> 'v) option) \<Rightarrow> record_fs \<Rightarrow> path \<Rightarrow> path \<Rightarrow> ('k \<times> 'v) list rres" where
  "read_account_state_chunk_v7 from_bytes fs file_handle archive_path =
     rbind (or_panic ''could not read archive path'' (path_parent archive_path)) (\<lambda>parent.
     rbind (or_err ''snapshot chunk'' (fs (parent @ file_handle))) (\<lambda>records.
     read_records from_bytes ''bcs'' records))"

text \<open>\<open>map.entry(k).or_default().extend(vs)\<close>.\<close>

fun hm_extend :: "'a \<Rightarrow> 'b list \<Rightarrow> ('a \<times> 'b list) list \<Rightarrow> ('a \<times> 'b list) list" where
  "hm_extend k vs [] = [(k, vs)]"
| "hm_extend k vs ((j, ws) # m) = (if k = j then (j, ws @ vs) # m else (j, ws) # hm_extend k vs m)"

definition group_chunk ::
  "('k \<Rightarrow> account_address option) \<Rightarrow> ('k \<times> 'v) list \<Rightarrow> (account_address \<times> ('k \<times> 'v) list) list" where
  "group_chunk access_address blobs =
     foldl (\<lambda>acc (key, blob).
       case access_address key of
         Some a \<Rightarrow> hm_extend a [(key, blob)] acc
       | None \<Rightarrow> acc) [] blobs"

fun merge_chunks ::
  "(bytes \<Rightarrow> ('k \<times> 'v) option) \<Rightarrow> ('k \<Rightarrow> account_address option) \<Rightarrow>
   ((account_address \<times> ('k \<times> 'v) list) list \<Rightarrow> (account_address \<times> ('k \<times> 'v) list) list) \<Rightarrow> record_fs \<Rightarrow> path \<Rightarrow>
   path list \<Rightarrow> (account_address \<times> ('k \<times> 'v) list) list \<Rightarrow> (account_address \<times> ('k \<times> 'v) list) list rres" where
  "merge_chunks from_bytes access_address order fs archive_path [] m = Ok m"
| "merge_chunks from_bytes access_address order fs archive_path (chunk # chunks) m =
     rbind (read_account_state_chunk_v7 from_bytes fs chunk archive_path) (\<lambda>blobs.
       merge_chunks from_bytes access_address order fs archive_path chunks
         (fold (\<lambda>(address, bs). hm_extend address bs) (order (group_chunk access_address blobs)) m))"

text \<open>The table of one address: inserting a key again replaces its value.\<close>

definition blobs_hash_table :: "('k \<times> 'v) list \<Rightarrow> 'k \<rightharpoonup> 'v" where
  "blobs_hash_table blobs = foldl (\<lambda>m (k, b). m(k \<mapsto> b)) Map.empty blobs"

fun materialize ::
  "(account_address \<Rightarrow> ('k \<rightharpoonup> 'v) \<Rightarrow> 'st option rres) \<Rightarrow> (account_address \<times> ('k \<times> 'v) list) list \<Rightarrow> 'st list rres" where
  "materialize from_access_paths [] = Ok []"
| "materialize from_access_paths ((address, blobs) # m) =
     rbind (from_access_paths address (blobs_hash_table blobs)) (\<lambda>st.
     rbind (materialize from_access_paths m) (\<lambda>sts.
     Ok (case st of Some a_state \<Rightarrow> a_state # sts | None \<Rightarrow> sts)))"

definition accounts_from_snapshot_backup ::
  "(bytes \<Rightarrow> ('k \<times> 'v) option) \<Rightarrow> ('k \<Rightarrow> account_address option) \<Rightarrow>
   ((account_address \<times> ('k \<times> 'v) list) list \<Rightarrow> (account_address \<times> ('k \<times> 'v) list) list) \<Rightarrow>
   (account_address \<Rightarrow> ('k \<rightharpoonup> 'v) \<Rightarrow> 'st option rres) \<Rightarrow> record_fs \<Rightarrow> path list \<Rightarrow> path \<Rightarrow> 'st list rres" where
  "accounts_from_snapshot_backup from_bytes access_address order from_access_paths fs chunks archive_path =
     rbind (merge_chunks from_bytes access_address order fs archive_path chunks []) (\<lambda>account_states_map.
     materialize from_access_paths (order account_states_map))"

text \<open>The recovery records of a snapshot, as the text that is written and the path it is written to.\<close>

definition manifest_to_json ::
  "(path \<Rightarrow> path list rres) \<Rightarrow> (path list \<Rightarrow> path \<Rightarrow> ('vc, 'vo, 'ev) account_view list rres) \<Rightarrow>
   (string \<Rightarrow> account_address rres) \<Rightarrow> (('vc, 'vo, 'ev) LegacyRecoveryV6 list \<Rightarrow> string) \<Rightarrow> path \<Rightarrow> path option \<Rightarrow>
   (path \<times> string) rres" where
  "manifest_to_json load_snapshot_manifest accounts from_str to_json manifest_path out_path =
     rbind (unwrap ''parse manifest'' (load_snapshot_manifest manifest_path)) (\<lambda>chunks.
     rbind (or_panic ''called Option::unwrap() on a None value'' (path_parent manifest_path)) (\<lambda>archive_path.
     rbind (unwrap ''could not decode snapshot'' (accounts chunks archive_path)) (\<lambda>account_states.
     rbind (unwrap ''could not get legacy recovery'' (rmapM (get_legacy_recovery from_str) account_states))
       (\<lambda>legacy_recovery_vec.
     Ok (case out_path of Some p \<Rightarrow> p | None \<Rightarrow> archive_path @ [''migration.json''], to_json legacy_recovery_vec)))))"

section \<open>Transaction chunks\<close>

record ('tx, 'info, 'ev, 'ws) TransactionArchiveChunk =
  tac_txns :: "'tx list"
  tac_txn_infos :: "'info list"
  tac_event_vecs :: "'ev list list"
  tac_write_sets :: "'ws list"

fun load_records ::
  "(bytes \<Rightarrow> ('tx \<times> 'info \<times> 'ev list \<times> 'ws) option) \<Rightarrow> bytes rres list \<Rightarrow>
   ('tx, 'info, 'ev, 'ws) TransactionArchiveChunk \<Rightarrow> ('tx, 'info, 'ev, 'ws) TransactionArchiveChunk rres" where
  "load_records from_bytes [] c = Ok c"
| "load_records from_bytes (r # rs) c =
     rbind r (\<lambda>record_bytes.
     rbind (or_err ''bcs'' (from_bytes record_bytes)) (\<lambda>(txn, txn_info, events, write_set).
     load_records from_bytes rs
       \<lparr>tac_txns = tac_txns c @ [txn], tac_txn_infos = tac_txn_infos c @ [txn_info],
        tac_event_vecs = tac_event_vecs c @ [events], tac_write_sets = tac_write_sets c @ [write_set]\<rparr>))"

definition load_chunk ::
  "(bytes \<Rightarrow> ('tx \<times> 'info \<times> 'ev list \<times> 'ws) option) \<Rightarrow> record_fs \<Rightarrow> path \<Rightarrow> path \<Rightarrow>
   ('tx, 'info, 'ev, 'ws) TransactionArchiveChunk rres" where
  "load_chunk from_bytes fs archive_path transactions =
     rbind (or_panic ''could not read archive path'' (path_parent archive_path)) (\<lambda>parent.
     case fs (parent @ transactions) of
       None \<Rightarrow> Panic ''file does not exist''
     | Some records \<Rightarrow>
         rbind (load_records from_bytes records
           \<lparr>tac_txns = [], tac_txn_infos = [], tac_event_vecs = [], tac_write_sets = []\<rparr>) (\<lambda>c.
         if length (tac_txns c) = length (tac_txn_infos c) \<and> length (tac_txn_infos c) = length (tac_event_vecs c) \<and>
            length (tac_event_vecs c) = length (tac_write_sets c)
         then Ok c
         else Panic ''transactions chunk have different vector length for txs, events, and writesets''))"

section \<open>Grouping by address\<close>

text \<open>The pairs of one address, in archive order.\<close>

definition blobs_of :: "('k \<Rightarrow> account_address option) \<Rightarrow> account_address \<Rightarrow> ('k \<times> 'v) list \<Rightarrow> ('k \<times> 'v) list" where
  "blobs_of access_address a blobs = filter (\<lambda>(k, _). access_address k = Some a) blobs"

definition addresses :: "('k \<Rightarrow> account_address option) \<Rightarrow> ('k \<times> 'v) list \<Rightarrow> account_address set" where
  "addresses access_address blobs = {a. \<exists>(k, v) \<in> set blobs. access_address k = Some a}"

lemma addresses_iff: "a \<in> addresses access_address blobs \<longleftrightarrow> blobs_of access_address a blobs \<noteq> []"
  by (auto simp: addresses_def blobs_of_def filter_empty_conv)

lemma blobs_of_append [simp]:
  "blobs_of access_address a (xs @ ys) = blobs_of access_address a xs @ blobs_of access_address a ys"
  by (simp add: blobs_of_def)

text \<open>A map that holds, for each address of the pairs, its pairs in order.\<close>

definition groups_ok ::
  "('k \<Rightarrow> account_address option) \<Rightarrow> ('k \<times> 'v) list \<Rightarrow> (account_address \<times> ('k \<times> 'v) list) list \<Rightarrow> bool" where
  "groups_ok access_address blobs m \<longleftrightarrow>
     distinct (map fst m) \<and>
     (\<forall>a. map_of m a =
       (if blobs_of access_address a blobs = [] then None else Some (blobs_of access_address a blobs)))"

lemma groups_ok_Nil [simp]: "groups_ok access_address [] []"
  by (simp add: groups_ok_def blobs_of_def)

lemma keys_hm_extend: "set (map fst (hm_extend k vs m)) = insert k (set (map fst m))"
  by (induction k vs m rule: hm_extend.induct) auto

lemma distinct_hm_extend: "distinct (map fst m) \<Longrightarrow> distinct (map fst (hm_extend k vs m))"
proof (induction k vs m rule: hm_extend.induct)
  case (2 k vs j ws m)
  then show ?case using keys_hm_extend[of k vs m] by auto
qed simp

lemma map_of_hm_extend:
  "map_of (hm_extend k vs m) a =
     (if a = k then Some ((case map_of m k of Some ws \<Rightarrow> ws | None \<Rightarrow> []) @ vs) else map_of m a)"
  by (induction k vs m rule: hm_extend.induct) auto

lemma group_chunk_ok: "groups_ok access_address blobs (group_chunk access_address blobs)"
proof (induction blobs rule: rev_induct)
  case (snoc kv blobs)
  obtain k b where kv: "kv = (k, b)" by force
  show ?case
  proof (cases "access_address k")
    case None
    with snoc kv show ?thesis by (simp add: group_chunk_def groups_ok_def blobs_of_def)
  next
    case (Some a)
    with kv have "group_chunk access_address (blobs @ [kv]) = hm_extend a [(k, b)] (group_chunk access_address blobs)"
      by (simp add: group_chunk_def)
    moreover have "blobs_of access_address a' [kv] = (if a' = a then [(k, b)] else [])" for a'
      using Some kv by (auto simp: blobs_of_def)
    ultimately show ?thesis
      using snoc by (auto simp: groups_ok_def distinct_hm_extend map_of_hm_extend)
  qed
qed (simp add: group_chunk_def)

lemma fold_hm_extend:
  "distinct (map fst g) \<Longrightarrow>
   map_of (fold (\<lambda>(a, bs). hm_extend a bs) g m) a =
     (case map_of g a of
        None \<Rightarrow> map_of m a
      | Some bs \<Rightarrow> Some ((case map_of m a of Some ws \<Rightarrow> ws | None \<Rightarrow> []) @ bs))"
proof (induction g arbitrary: m)
  case (Cons x g)
  obtain k vs where x: "x = (k, vs)" by force
  with Cons.prems have "map_of g k = None" by (auto simp: map_of_eq_None_iff)
  with Cons x show ?case by (auto simp: map_of_hm_extend split: option.splits)
qed simp

lemma distinct_fold_hm_extend:
  "distinct (map fst m) \<Longrightarrow> distinct (map fst (fold (\<lambda>(a, bs). hm_extend a bs) g m))"
  by (induction g arbitrary: m) (auto simp: distinct_hm_extend)

lemma map_of_mset:
  assumes "mset g' = mset g" and "distinct (map fst g)"
  shows "distinct (map fst g') \<and> map_of g' = map_of g"
proof -
  have d: "distinct (map fst g')"
    using assms by (metis mset_eq_imp_distinct_iff mset_map)
  moreover have "set g' = set g" using assms(1) by (metis set_mset_mset)
  ultimately show ?thesis using assms(2) map_of_inject_set by blast
qed

lemma merge_chunk_ok:
  assumes "groups_ok access_address xs m" and "groups_ok access_address ys (g :: (account_address \<times> ('k \<times> 'v) list) list)"
    and "mset g' = mset g"
  shows "groups_ok access_address (xs @ ys) (fold (\<lambda>(a, bs). hm_extend a bs) g' m)"
proof -
  from assms(2,3) have g': "distinct (map fst g')" "map_of g' = map_of g"
    using map_of_mset unfolding groups_ok_def by blast+
  with assms(1,2) show ?thesis
    by (auto simp: groups_ok_def distinct_fold_hm_extend fold_hm_extend)
qed

lemma merge_chunks_ok:
  assumes "\<And>xs. mset (order xs) = mset xs" and "merge_chunks from_bytes access_address order fs archive_path chunks m = Ok m'"
    and "groups_ok access_address xs m"
  shows "\<exists>bs. rmapM (\<lambda>c. read_account_state_chunk_v7 from_bytes fs c archive_path) chunks = Ok bs \<and>
    groups_ok access_address (xs @ concat bs) m'"
  using assms(2,3)
proof (induction chunks arbitrary: m xs)
  case (Cons c chunks)
  then obtain b where b: "read_account_state_chunk_v7 from_bytes fs c archive_path = Ok b"
    and rest: "merge_chunks from_bytes access_address order fs archive_path chunks
      (fold (\<lambda>(a, bs). hm_extend a bs) (order (group_chunk access_address b)) m) = Ok m'"
    by (auto simp: rust_simps)
  from Cons.IH[OF rest merge_chunk_ok[OF Cons.prems(2) group_chunk_ok assms(1)]] b show ?case by auto
qed simp

lemma materialize_Ok:
  "materialize f m = Ok sts \<longleftrightarrow>
     (\<exists>os. rmapM (\<lambda>(a, bs). f a (blobs_hash_table bs)) m = Ok os \<and> sts = List.map_filter (\<lambda>x. x) os)"
proof (induction m arbitrary: sts)
  case (Cons x m)
  obtain a bs where "x = (a, bs)" by force
  with Cons show ?case by (auto simp: rust_simps map_filter_simps split: option.splits)
qed (auto simp: map_filter_simps)

lemma hash_table_map_of: "blobs_hash_table blobs = map_of (rev blobs)"
  by (induction blobs rule: rev_induct) (auto simp: blobs_hash_table_def)

lemma groups_ok_entries:
  assumes "groups_ok access_address blobs m" and "mset m' = mset m"
  shows "m' = map (\<lambda>a. (a, blobs_of access_address a blobs)) (map fst m') \<and> distinct (map fst m') \<and>
    set (map fst m') = addresses access_address blobs"
proof -
  from assms have m': "distinct (map fst m')" and get: "map_of m' = map_of m"
    using map_of_mset[OF assms(2)] by (auto simp: groups_ok_def)
  have "p = (fst p, blobs_of access_address (fst p) blobs)" if "p \<in> set m'" for p
  proof -
    from that map_of_is_SomeI[OF m', of "fst p" "snd p"] have "map_of m (fst p) = Some (snd p)" by (simp add: get)
    with assms(1) have "snd p = blobs_of access_address (fst p) blobs"
      unfolding groups_ok_def by (metis option.distinct(1) option.inject)
    then show ?thesis by (metis prod.collapse)
  qed
  then have "m' = map (\<lambda>p. (fst p, blobs_of access_address (fst p) blobs)) m'" by (simp add: map_idI)
  moreover have "set (map fst m') = addresses access_address blobs"
  proof (rule set_eqI)
    fix a
    have "a \<in> set (map fst m') \<longleftrightarrow> map_of m' a \<noteq> None" by (simp add: map_of_eq_None_iff)
    also have "\<dots> \<longleftrightarrow> a \<in> addresses access_address blobs"
      unfolding get using assms(1) by (simp add: groups_ok_def addresses_iff)
    finally show "a \<in> set (map fst m') \<longleftrightarrow> a \<in> addresses access_address blobs" .
  qed
  ultimately show ?thesis using m' by (simp add: comp_def)
qed

text \<open>
  C30. The accounts of a snapshot, over all its chunks: each address that owns a state key is assembled exactly once,
  from the last value of each of its keys in archive order; no other address is. Only the order of the accounts depends on
  the iteration order of the hash maps.
\<close>

theorem snapshot_accounts_complete:
  assumes "completion_order order"
    and "accounts_from_snapshot_backup from_bytes access_address order from_access_paths fs chunks archive_path = Ok sts"
  shows "\<exists>bs as os. rmapM (\<lambda>c. read_account_state_chunk_v7 from_bytes fs c archive_path) chunks = Ok bs \<and>
    distinct as \<and> set as = addresses access_address (concat bs) \<and>
    rmapM (\<lambda>a. from_access_paths a (map_of (rev (blobs_of access_address a (concat bs))))) as = Ok os \<and>
    sts = List.map_filter (\<lambda>x. x) os"
proof -
  have perm: "mset (order xs) = mset xs" for xs by (rule completion_order.arrive_mset[OF assms(1)])
  from assms(2) obtain m where m: "merge_chunks from_bytes access_address order fs archive_path chunks [] = Ok m"
    and mat: "materialize from_access_paths (order m) = Ok sts"
    by (auto simp: accounts_from_snapshot_backup_def rust_simps)
  from merge_chunks_ok[OF perm m groups_ok_Nil] obtain bs where
    bs: "rmapM (\<lambda>c. read_account_state_chunk_v7 from_bytes fs c archive_path) chunks = Ok bs"
    and ok: "groups_ok access_address (concat bs) m" by auto
  define as where "as = map fst (order m)"
  from groups_ok_entries[OF ok perm] have as: "order m = map (\<lambda>a. (a, blobs_of access_address a (concat bs))) as"
    "distinct as" "set as = addresses access_address (concat bs)" unfolding as_def by blast+
  have mapM: "rmapM f (map g xs) = rmapM (\<lambda>x. f (g x)) xs" for f and g :: "account_address \<Rightarrow> _" and xs
    by (induction xs) simp_all
  from mat as(1) obtain os where
    "rmapM (\<lambda>a. from_access_paths a (map_of (rev (blobs_of access_address a (concat bs))))) as = Ok os"
    "sts = List.map_filter (\<lambda>x. x) os"
    by (auto simp: materialize_Ok mapM hash_table_map_of)
  with bs as show ?thesis by blast
qed

text \<open>Two chunks; address \<open>[1]\<close> has key 10 in both, key 11 has no address.\<close>

definition ref_chunks :: record_fs where
  "ref_chunks p = (if p = [''s'', ''0''] then Some [Ok [1, 10, 5], Ok [0, 11, 6]]
     else if p = [''s'', ''1''] then Some [Ok [1, 10, 7], Ok [2, 12, 8]] else None)"

definition ref_record :: "bytes \<Rightarrow> ((bytes \<times> u8) \<times> u8) option" where
  "ref_record b = (case b of [a, k, v] \<Rightarrow> Some (([a], k), v) | _ \<Rightarrow> None)"

definition ref_address :: "bytes \<times> u8 \<Rightarrow> account_address option" where
  "ref_address k = (if fst k = [0] then None else Some (fst k))"

lemma ref_snapshot:
  "accounts_from_snapshot_backup ref_record ref_address rev (\<lambda>a t. Ok (Some (a, t (a, 10)))) ref_chunks
     [[''0''], [''1'']] [''s'', ''m''] = Ok [([2], None), ([1], Some 7)]"
  by (simp add: accounts_from_snapshot_backup_def read_account_state_chunk_v7_def path_parent_def ref_chunks_def
      ref_record_def group_chunk_def ref_address_def blobs_hash_table_def)

theorem snapshot_accounts_complete_witness:
  "\<exists>bs as os. rmapM (\<lambda>c. read_account_state_chunk_v7 ref_record ref_chunks c [''s'', ''m'']) [[''0''], [''1'']] = Ok bs \<and>
     distinct as \<and> set as = addresses ref_address (concat bs) \<and>
     rmapM (\<lambda>a. Ok (Some (a, map_of (rev (blobs_of ref_address a (concat bs))) (a, 10)))) as = Ok os \<and>
     [([2], None), ([1], Some 7)] = List.map_filter (\<lambda>x. x) os"
  using snapshot_accounts_complete[OF rev_order.completion_order_axioms ref_snapshot] by simp

section \<open>Chunks are tables\<close>

lemma load_records_Ok:
  assumes "load_records from_bytes rs c = Ok c'"
  shows "\<exists>ts. rmapM (\<lambda>r. rbind r (\<lambda>b. or_err ''bcs'' (from_bytes b))) rs = Ok ts \<and>
    c' = \<lparr>tac_txns = tac_txns c @ map fst ts, tac_txn_infos = tac_txn_infos c @ map (fst \<circ> snd) ts,
         tac_event_vecs = tac_event_vecs c @ map (fst \<circ> snd \<circ> snd) ts,
         tac_write_sets = tac_write_sets c @ map (snd \<circ> snd \<circ> snd) ts\<rparr>"
  using assms
proof (induction rs arbitrary: c)
  case (Cons r rs)
  then obtain b txn info evs ws where r: "r = Ok b" "from_bytes b = Some (txn, info, evs, ws)"
    and rest: "load_records from_bytes rs
       \<lparr>tac_txns = tac_txns c @ [txn], tac_txn_infos = tac_txn_infos c @ [info],
        tac_event_vecs = tac_event_vecs c @ [evs], tac_write_sets = tac_write_sets c @ [ws]\<rparr> = Ok c'"
    by (auto simp: rust_simps)
  from Cons.IH[OF rest] r show ?case by auto
qed simp

text \<open>The length check of \<open>load_chunk\<close> never fails: its four columns come from the same records, row by row.\<close>

lemma load_chunk_is_table:
  "load_chunk from_bytes fs archive_path transactions =
     rbind (or_panic ''could not read archive path'' (path_parent archive_path)) (\<lambda>parent.
     case fs (parent @ transactions) of
       None \<Rightarrow> Panic ''file does not exist''
     | Some records \<Rightarrow> load_records from_bytes records
           \<lparr>tac_txns = [], tac_txn_infos = [], tac_event_vecs = [], tac_write_sets = []\<rparr>)"
proof -
  let ?e = "\<lparr>tac_txns = [], tac_txn_infos = [], tac_event_vecs = [], tac_write_sets = []\<rparr>"
  have "rbind (load_records from_bytes rs ?e) (\<lambda>c.
      if length (tac_txns c) = length (tac_txn_infos c) \<and> length (tac_txn_infos c) = length (tac_event_vecs c) \<and>
         length (tac_event_vecs c) = length (tac_write_sets c)
      then Ok c else Panic ''transactions chunk have different vector length for txs, events, and writesets'') =
    load_records from_bytes rs ?e" for rs
    by (cases "load_records from_bytes rs ?e") (auto dest: load_records_Ok)
  then show ?thesis
    by (cases "path_parent archive_path") (simp_all add: load_chunk_def split: option.splits)
qed

end
