(* ===== verification/Bcs_Args.thy ===== *)
theory Bcs_Args
  imports Account_Address
begin

text \<open>
  Transaction payloads and the serialization of their arguments. The BCS crate is the record \<open>bcs\<close> of its
  encoders and decoders, one pair for each argument type the builders use; the locale \<open>bcs_args\<close> states that decoding
  inverts encoding. \<open>ref_bcs\<close> is the BCS format itself: little-endian integers, lengths in ULEB128.
\<close>

record EntryFunction =
  en_address :: account_address
  en_module :: string
  en_function :: string
  en_ty_args :: "string list"
  en_args :: "bytes list"

datatype TxPayload = EntryFn EntryFunction | ScriptTx bytes "string list" "u64 list"

record bcs =
  sr_u8 :: "u8 \<Rightarrow> bytes"
  sr_u64 :: "u64 \<Rightarrow> bytes"
  sr_bool :: "bool \<Rightarrow> bytes"
  sr_addr :: "account_address \<Rightarrow> bytes"
  sr_bytes :: "bytes \<Rightarrow> bytes"
  sr_addrs :: "account_address list \<Rightarrow> bytes"
  sr_bytess :: "bytes list \<Rightarrow> bytes"
  ds_u8 :: "bytes \<Rightarrow> u8 option"
  ds_u64 :: "bytes \<Rightarrow> u64 option"
  ds_bool :: "bytes \<Rightarrow> bool option"
  ds_addr :: "bytes \<Rightarrow> account_address option"
  ds_bytes :: "bytes \<Rightarrow> bytes option"
  ds_addrs :: "bytes \<Rightarrow> account_address list option"
  ds_bytess :: "bytes \<Rightarrow> bytes list option"

abbreviation is_address :: "account_address \<Rightarrow> bool" where
  "is_address a \<equiv> length a = 32"

locale bcs_args =
  fixes b :: bcs
  assumes de_u8 [simp]: "ds_u8 b (sr_u8 b x1) = Some x1"
    and de_u64 [simp]: "ds_u64 b (sr_u64 b x2) = Some x2"
    and de_bool [simp]: "ds_bool b (sr_bool b x3) = Some x3"
    and de_bytes [simp]: "ds_bytes b (sr_bytes b x4) = Some x4"
    and de_bytess [simp]: "ds_bytess b (sr_bytess b x5) = Some x5"
    and de_addr [simp]: "is_address x6 \<Longrightarrow> ds_addr b (sr_addr b x6) = Some x6"
    and de_addrs [simp]: "list_all is_address x7 \<Longrightarrow> ds_addrs b (sr_addrs b x7) = Some x7"

definition entry_function :: "string \<Rightarrow> string \<Rightarrow> bytes list \<Rightarrow> TxPayload" where
  "entry_function m f args =
     EntryFn \<lparr>en_address = core_code_address, en_module = m, en_function = f, en_ty_args = [], en_args = args\<rparr>"

text \<open>\<open>if let TransactionPayload::EntryFunction(script) = payload\<close>.\<close>

fun with_entry :: "TxPayload \<Rightarrow> (EntryFunction \<Rightarrow> 'a option) \<Rightarrow> 'a option" where
  "with_entry (EntryFn script) k = k script"
| "with_entry (ScriptTx _ _ _) k = None"

text \<open>\<open>bcs::from_bytes(script.args().get(i)?).ok()?\<close>.\<close>

definition arg_at :: "EntryFunction \<Rightarrow> nat \<Rightarrow> (bytes \<Rightarrow> 'a option) \<Rightarrow> 'a option" where
  "arg_at script i from = (if i < length (en_args script) then from (en_args script ! i) else None)"

section \<open>The BCS format\<close>

fun uleb :: "nat \<Rightarrow> bytes" where
  "uleb n = (if n < 128 then [of_nat n] else of_nat (128 + n mod 128) # uleb (n div 128))"

declare uleb.simps [simp del]

fun un_uleb :: "bytes \<Rightarrow> (nat \<times> bytes) option" where
  "un_uleb [] = None"
| "un_uleb (x # xs) =
     (if unat x < 128 then Some (unat x, xs)
      else map_option (\<lambda>(n, r). (unat x - 128 + 128 * n, r)) (un_uleb xs))"

lemma unat_byte: "n < 256 \<Longrightarrow> unat (of_nat n :: u8) = n"
  by (simp add: unat_of_nat take_bit_nat_eq_self)

lemma un_uleb_uleb [simp]: "un_uleb (uleb n @ r) = Some (n, r)"
proof (induction n arbitrary: r rule: uleb.induct)
  case (1 n)
  show ?case
  proof (cases "n < 128")
    case True
    then show ?thesis by (subst uleb.simps) (simp add: unat_byte)
  next
    case False
    have "unat (of_nat (128 + n mod 128) :: u8) = 128 + n mod 128" by (rule unat_byte) simp
    with 1 False show ?thesis by (subst uleb.simps) simp
  qed
qed

definition bcs_list :: "('a \<Rightarrow> bytes) \<Rightarrow> 'a list \<Rightarrow> bytes" where
  "bcs_list f xs = uleb (length xs) @ concat (map f xs)"

text \<open>Reading a given number of items, and a list that must use up all input.\<close>

fun un_items :: "(bytes \<Rightarrow> ('a \<times> bytes) option) \<Rightarrow> nat \<Rightarrow> bytes \<Rightarrow> ('a list \<times> bytes) option" where
  "un_items p 0 bs = Some ([], bs)"
| "un_items p (Suc n) bs =
     Option.bind (p bs) (\<lambda>(x, bs). map_option (\<lambda>(xs, bs). (x # xs, bs)) (un_items p n bs))"

definition un_list :: "(bytes \<Rightarrow> ('a \<times> bytes) option) \<Rightarrow> bytes \<Rightarrow> ('a list \<times> bytes) option" where
  "un_list p bs = Option.bind (un_uleb bs) (\<lambda>(n, r). un_items p n r)"

fun all_input :: "('a \<times> bytes) option \<Rightarrow> 'a option" where
  "all_input (Some (x, [])) = Some x"
| "all_input _ = None"

lemma un_items_concat:
  "(\<And>x r. x \<in> set xs \<Longrightarrow> p (f x @ r) = Some (x, r)) \<Longrightarrow>
   un_items p (length xs) (concat (map f xs) @ r) = Some (xs, r)"
  by (induction xs) auto

lemma un_list_bcs_list:
  "(\<And>x r. x \<in> set xs \<Longrightarrow> p (f x @ r) = Some (x, r)) \<Longrightarrow> un_list p (bcs_list f xs @ r) = Some (xs, r)"
  by (simp add: un_list_def bcs_list_def un_items_concat)

definition un_byte :: "bytes \<Rightarrow> (u8 \<times> bytes) option" where
  "un_byte bs = (case bs of [] \<Rightarrow> None | x # xs \<Rightarrow> Some (x, xs))"

definition un_address :: "bytes \<Rightarrow> (account_address \<times> bytes) option" where
  "un_address bs = (if 32 \<le> length bs then Some (take 32 bs, drop 32 bs) else None)"

definition ref_bcs :: bcs where
  "ref_bcs =
     \<lparr>sr_u8 = (\<lambda>x. [x]), sr_u64 = to_le_bytes, sr_bool = (\<lambda>x. [of_bool x]), sr_addr = (\<lambda>a. a),
      sr_bytes = bcs_list (\<lambda>x. [x]), sr_addrs = bcs_list (\<lambda>a. a), sr_bytess = bcs_list (bcs_list (\<lambda>x. [x])),
      ds_u8 = (\<lambda>bs. all_input (un_byte bs)),
      ds_u64 = (\<lambda>bs. if length bs = 8 then Some (from_le_bytes bs) else None),
      ds_bool = (\<lambda>bs. if bs = [0] then Some False else if bs = [1] then Some True else None),
      ds_addr = (\<lambda>bs. all_input (un_address bs)),
      ds_bytes = (\<lambda>bs. all_input (un_list un_byte bs)),
      ds_addrs = (\<lambda>bs. all_input (un_list un_address bs)),
      ds_bytess = (\<lambda>bs. all_input (un_list (un_list un_byte) bs))\<rparr>"

lemma un_byte_Cons [simp]: "un_byte (x # xs) = Some (x, xs)"
  by (simp add: un_byte_def)

lemma un_address_append [simp]: "is_address a \<Longrightarrow> un_address (a @ r) = Some (a, r)"
  by (simp add: un_address_def)

lemma un_bytes [simp]: "un_list un_byte (bcs_list (\<lambda>x. [x]) xs @ r) = Some (xs, r)"
  by (rule un_list_bcs_list) simp

interpretation ref_bcs: bcs_args ref_bcs
proof unfold_locales
  fix x3 show "ds_bool ref_bcs (sr_bool ref_bcs x3) = Some x3" by (cases x3) (simp_all add: ref_bcs_def)
next
  fix x4 show "ds_bytes ref_bcs (sr_bytes ref_bcs x4) = Some x4"
    using un_bytes[of x4 "[]"] by (simp add: ref_bcs_def)
next
  fix x5 show "ds_bytess ref_bcs (sr_bytess ref_bcs x5) = Some x5"
    using un_list_bcs_list[of x5 "un_list un_byte" "bcs_list (\<lambda>x. [x])" "[]"] by (simp add: ref_bcs_def)
next
  fix x6 :: account_address
  assume "is_address x6"
  then show "ds_addr ref_bcs (sr_addr ref_bcs x6) = Some x6"
    using un_address_append[of x6 "[]"] by (simp add: ref_bcs_def)
next
  fix x7 :: "account_address list"
  assume "list_all is_address x7"
  then show "ds_addrs ref_bcs (sr_addrs ref_bcs x7) = Some x7"
    using un_list_bcs_list[of x7 un_address "\<lambda>a. a" "[]"] by (simp add: ref_bcs_def list_all_iff)
qed (simp_all add: ref_bcs_def)

end
