(* ===== verification/Client_Ext.thy ===== *)
theory Client_Ext
  imports Bcs_Args Json
begin

text \<open>
  The extensions of the REST client (\<^verbatim>\<open>src/types/src/type_extensions/client_ext.rs\<close>), function identifiers
  (\<^verbatim>\<open>src/types/src/util.rs\<close>) and the payload of an arbitrary entry function (\<^verbatim>\<open>src/tools/txs/src/generic_tx.rs\<close>).

  The vendor's client is the record \<open>client\<close>: every request is an effect on a state \<open>'w\<close>, which stands for the network
  and may move with each request. The vendor's parsers are the record \<open>move_text\<close>, signing with a local account is the
  parameter \<open>sign\<close> with the contract \<open>local_signer\<close>.
\<close>

section \<open>The vendor's types\<close>

record ViewRequest =
  vr_function :: string
  vr_type_arguments :: "string list"
  vr_arguments :: "json list"

record TransactionBuilder =
  tb_payload :: TxPayload
  tb_expiration :: u64
  tb_chain_id :: u8
  tb_gas_price :: u64
  tb_max_gas :: u64

record SignedTransaction =
  sg_sender :: account_address
  sg_seq :: u64
  sg_body :: TransactionBuilder

record LocalAccount =
  la_address :: account_address
  la_private_key :: bytes
  la_seq :: u64

text \<open>The status of an executed transaction; only success is told apart.\<close>

datatype ExecutionStatus = Success | MiscellaneousError | FailedWith string

record OnChainTx =
  oc_hash :: bytes
  oc_status :: ExecutionStatus

record UserTransaction =
  us_success :: bool
  us_gas_used :: u64

record 'w client =
  cl_view :: "ViewRequest \<Rightarrow> (json list, 'w) io"
  cl_account_resource :: "account_address \<Rightarrow> string \<Rightarrow> (json option, 'w) io"
  cl_authentication_key :: "account_address \<Rightarrow> (auth_key, 'w) io"
  cl_index :: "(u8, 'w) io"
  cl_ledger_information :: "(unit, 'w) io"
  cl_submit :: "SignedTransaction \<Rightarrow> (string, 'w) io"
  cl_wait :: "string \<Rightarrow> (OnChainTx, 'w) io"
  cl_simulate :: "SignedTransaction \<Rightarrow> (UserTransaction list, 'w) io"

record move_text =
  mt_address_str :: "account_address \<Rightarrow> string"
  mt_auth_str :: "auth_key \<Rightarrow> string"
  mt_from_hex_literal :: "string \<Rightarrow> account_address rres"
  mt_identifier :: "string \<Rightarrow> string rres"
  mt_entry_function_id :: "string \<Rightarrow> string rres"
  mt_type_tags :: "string \<Rightarrow> string list rres"
  mt_move_type :: "string \<Rightarrow> string"
  mt_transaction_args :: "string \<Rightarrow> bytes list rres"
  mt_json_address :: "json \<Rightarrow> account_address rres"
  mt_account_sequence_number :: "json \<Rightarrow> u64 rres"

type_synonym signer = "LocalAccount \<Rightarrow> TransactionBuilder \<Rightarrow> SignedTransaction \<times> LocalAccount"

text \<open>A local account signs with its address and sequence number and counts the number up.\<close>

locale local_signer =
  fixes sign :: signer
  assumes sign_tx: "fst (sign a tb) = \<lparr>sg_sender = la_address a, sg_seq = la_seq a, sg_body = tb\<rparr>"
    and sign_account: "snd (sign a tb) = a\<lparr>la_seq := la_seq a + 1\<rparr>"
begin

lemma sign_pair: "sign a tb =
   (\<lparr>sg_sender = la_address a, sg_seq = la_seq a, sg_body = tb\<rparr>, a\<lparr>la_seq := la_seq a + 1\<rparr>)"
  by (metis prod.collapse sign_tx sign_account)

end

definition ref_sign :: signer where
  "ref_sign a tb =
     (\<lparr>sg_sender = la_address a, sg_seq = la_seq a, sg_body = tb\<rparr>, a\<lparr>la_seq := la_seq a + 1\<rparr>)"

interpretation ref_signer: local_signer ref_sign
  by unfold_locales (simp_all add: ref_sign_def)

text \<open>\<open>Result::context\<close> replaces the message of an error.\<close>

fun with_context :: "string \<Rightarrow> 'a rres \<Rightarrow> 'a rres" where
  "with_context m (Ok x) = Ok x"
| "with_context m (Err e) = Err m"
| "with_context m (Panic p) = Panic p"

lemma with_context_eq_Ok [rust_simps]: "with_context m r = Ok x \<longleftrightarrow> r = Ok x"
  by (cases r) auto

section \<open>Function identifiers and payloads\<close>

definition parse_function_id :: "move_text \<Rightarrow> string \<Rightarrow> (account_address \<times> string \<times> string) rres" where
  "parse_function_id mt function_id =
     (let id_parts = map trim (split_str ''::'' [] function_id) in
      if length id_parts \<noteq> 3 then Err (''Invalid function id: '' @ function_id)
      else
        rbind (with_context (''Failed to parse module address: '' @ id_parts ! 0)
                 (mt_from_hex_literal mt (id_parts ! 0))) (\<lambda>module_address.
        rbind (with_context (''Failed to parse module name: '' @ id_parts ! 1)
                 (mt_identifier mt (id_parts ! 1))) (\<lambda>module_name.
        rbind (with_context (''Failed to parse function name: '' @ id_parts ! 2)
                 (mt_identifier mt (id_parts ! 2))) (\<lambda>function_name.
        Ok (module_address, module_name, function_name)))))"

definition parse_type_args :: "move_text \<Rightarrow> string option \<Rightarrow> string list rres" where
  "parse_type_args mt ty_args =
     (case ty_args of
        Some t \<Rightarrow> with_context (''Unable to parse the type argument(s): '' @ t) (mt_type_tags mt t)
      | None \<Rightarrow> Ok [])"

definition parse_args :: "move_text \<Rightarrow> string option \<Rightarrow> bytes list rres" where
  "parse_args mt args =
     (case args of
        Some a \<Rightarrow> with_context (''Unable to parse argument(s): '' @ a) (mt_transaction_args mt a)
      | None \<Rightarrow> Ok [])"

definition build_entry_function :: "move_text \<Rightarrow> string \<Rightarrow> string option \<Rightarrow> string option \<Rightarrow> EntryFunction rres" where
  "build_entry_function mt function_id ty_args args =
     rbind (parse_function_id mt function_id) (\<lambda>(module_address, module_name, function_name).
     rbind (parse_type_args mt ty_args) (\<lambda>tys.
     rbind (parse_args mt args) (\<lambda>as.
       Ok \<lparr>en_address = module_address, en_module = module_name, en_function = function_name,
           en_ty_args = tys, en_args = as\<rparr>)))"

section \<open>Requests\<close>

definition entry_function_id :: "move_text \<Rightarrow> string \<Rightarrow> string \<Rightarrow> string rres" where
  "entry_function_id mt module_name function_name =
     (let s = ''0x1::'' @ module_name @ ''::'' @ function_name
      in with_context (''Invalid function id: '' @ s) (mt_entry_function_id mt s))"

definition lookup_originating_address :: "move_text \<Rightarrow> 'w client \<Rightarrow> auth_key \<Rightarrow> (account_address, 'w) io" where
  "lookup_originating_address mt cl authentication_key =
     io_bind (io_of (entry_function_id mt ''account'' ''get_originating_address'')) (\<lambda>function_id.
     io_bind (cl_view cl \<lparr>vr_function = function_id, vr_type_arguments = [],
                vr_arguments = [JString (mt_auth_str mt authentication_key)]\<rparr>) (\<lambda>res.
     io_bind (io_of (index res 0)) (\<lambda>v.
     io_of (mt_json_address mt v))))"

definition get_sequence_number :: "move_text \<Rightarrow> 'w client \<Rightarrow> account_address \<Rightarrow> (u64, 'w) io" where
  "get_sequence_number mt cl account =
     io_bind (io_match (cl_account_resource cl account ''0x1::account::Account'') (\<lambda>r. io_of (Ok r))
                (\<lambda>e. io_of (Err ''Failed to get account resource''))) (\<lambda>response.
     case response of
       Some data \<Rightarrow> io_of (mt_account_sequence_number mt data)
     | None \<Rightarrow> io_of (Err ''No data returned for the sequence number''))"

record TransactionOptions =
  op_max_gas_amount :: u64
  op_gas_unit_price :: u64
  op_timeout_secs :: u64

text \<open>\<open>now\<close> is the system time in seconds. The account comes back with its new sequence number.\<close>

definition generate_transaction ::
  "move_text \<Rightarrow> signer \<Rightarrow> u64 \<Rightarrow> 'w client \<Rightarrow> LocalAccount \<Rightarrow> string \<Rightarrow> string option \<Rightarrow> string option \<Rightarrow>
   TransactionOptions \<Rightarrow> (SignedTransaction \<times> LocalAccount, 'w) io" where
  "generate_transaction mt sign now cl from_account function_id ty_args args options =
     io_bind (cl_index cl) (\<lambda>chain_id.
     io_bind (io_of (parse_function_id mt function_id)) (\<lambda>(module_address, module_name, function_name).
     io_bind (io_of (parse_type_args mt ty_args)) (\<lambda>tys.
     io_bind (io_of (parse_args mt args)) (\<lambda>as.
     io_of (Ok (sign from_account
       \<lparr>tb_payload = EntryFn \<lparr>en_address = module_address, en_module = module_name, en_function = function_name,
                              en_ty_args = tys, en_args = as\<rparr>,
        tb_expiration = now + op_timeout_secs options, tb_chain_id = chain_id,
        tb_gas_price = op_gas_unit_price options, tb_max_gas = op_max_gas_amount options\<rparr>))))))"

definition view_args :: "string option \<Rightarrow> json list" where
  "view_args args =
     (case args of
        Some a \<Rightarrow> map (\<lambda>arg. JString (trim arg)) (split_by (\<lambda>c. c = CHR '','') a)
      | None \<Rightarrow> [])"

definition view_ext :: "move_text \<Rightarrow> 'w client \<Rightarrow> string \<Rightarrow> string option \<Rightarrow> string option \<Rightarrow> (json, 'w) io" where
  "view_ext mt cl function_id ty_args args =
     io_bind (io_of (with_context (''Invalid function id: '' @ function_id) (mt_entry_function_id mt function_id)))
       (\<lambda>entry_fuction_id.
     io_bind (io_of (parse_type_args mt ty_args)) (\<lambda>tys.
     io_bind (cl_view cl \<lparr>vr_function = entry_fuction_id, vr_type_arguments = map (mt_move_type mt) tys,
                vr_arguments = view_args args\<rparr>) (\<lambda>array.
     io_of (Ok (JArray array)))))"

section \<open>What identifiers and payloads denote\<close>

text \<open>Identifiers are words without a colon and without white space at their ends.\<close>

definition plain :: "string \<Rightarrow> bool" where
  "plain s \<longleftrightarrow> s \<noteq> [] \<and> CHR '':'' \<notin> set s \<and> (\<forall>c \<in> set s. \<not> is_ws c)"

lemma trim_plain: "plain s \<Longrightarrow> trim s = s"
  by (rule trim_id) (auto simp: plain_def)

lemma split_plain: "plain a \<Longrightarrow> split_str ''::'' [] (a @ ''::'' @ s) = a # split_str ''::'' [] s"
  by (simp add: split_str_skip plain_def starts_with_def)

lemma split_three:
  "plain a \<Longrightarrow> plain m \<Longrightarrow> plain f \<Longrightarrow> split_str ''::'' [] (a @ ''::'' @ m @ ''::'' @ f) = [a, m, f]"
  using split_plain[of a "m @ ''::'' @ f"] split_plain[of m f] split_str_end[of "''::''" f "[]"]
  by (simp add: plain_def)

text \<open>A Move identifier: letters, digits and underscores, not starting with a digit, not a lone underscore.\<close>

definition ident_char :: "char \<Rightarrow> bool" where
  "ident_char c \<longleftrightarrow> c \<in> set ''abcdefghijklmnopqrstuvwxyzABCDEFGHIJKLMNOPQRSTUVWXYZ_0123456789''"

definition is_identifier :: "string \<Rightarrow> bool" where
  "is_identifier s \<longleftrightarrow> s \<noteq> [] \<and> s \<noteq> ''_'' \<and> list_all ident_char s \<and> \<not> is_digit (hd s)"

lemma identifier_plain: "is_identifier s \<Longrightarrow> plain s"
  by (fastforce simp: is_identifier_def plain_def ident_char_def is_ws_def list_all_iff)

locale move_names = address_text "mt_address_str mt" "mt_from_hex_literal mt"
  for mt :: move_text +
  assumes identifier_id: "is_identifier s \<Longrightarrow> mt_identifier mt s = Ok s"
begin

lemma parse_function_id_full:
  assumes "is_address a" "is_identifier m" "is_identifier f"
  shows "parse_function_id mt (''0x'' @ lower_hex a @ ''::'' @ m @ ''::'' @ f) = Ok (a, m, f)"
proof -
  have "plain (''0x'' @ lower_hex a)"
    by (auto simp: plain_def is_ws_def dest!: lower_hex_chars)
  note p = this assms(2,3)[THEN identifier_plain]
  have "map trim (split_str ''::'' [] (''0x'' @ lower_hex a @ ''::'' @ m @ ''::'' @ f)) = [''0x'' @ lower_hex a, m, f]"
    using split_three[OF p] p[THEN trim_plain] by (simp only: append_assoc list.map)
  then show ?thesis using literal_full[OF assms(1)] assms(2,3)
    unfolding parse_function_id_def by (simp add: identifier_id)
qed

end

text \<open>A reference instance: hexadecimal addresses, Move identifiers, arguments that are not parsed.\<close>

definition ref_move_text :: move_text where
  "ref_move_text =
     \<lparr>mt_address_str = lower_hex, mt_auth_str = lower_hex, mt_from_hex_literal = from_hex_literal_ref,
      mt_identifier = (\<lambda>s. if is_identifier s then Ok s else Err ''Invalid identifier''),
      mt_entry_function_id = Ok, mt_type_tags = (\<lambda>s. Ok [s]), mt_move_type = (\<lambda>s. s),
      mt_transaction_args = (\<lambda>s. if s = [] then Ok [] else Err ''not a transaction argument''),
      mt_json_address = (\<lambda>j. rbind (json_string j) (\<lambda>s. from_hex_literal_ref (''0x'' @ s))),
      mt_account_sequence_number = (\<lambda>j. rbind (json_string j) parse_u64_or_err)\<rparr>"

lemma ref_move_text_sel [simp]:
  "mt_address_str ref_move_text = lower_hex" "mt_from_hex_literal ref_move_text = from_hex_literal_ref"
  "mt_identifier ref_move_text s = (if is_identifier s then Ok s else Err ''Invalid identifier'')"
  by (simp_all add: ref_move_text_def)

interpretation ref_names: move_names ref_move_text
  by unfold_locales (simp_all add: hex_text.literal_full[simplified])

lemma generate_is_generic:
  "generate_transaction mt sign now cl account function_id tys args options =
     io_bind (cl_index cl) (\<lambda>chain. io_bind (io_of (build_entry_function mt function_id tys args)) (\<lambda>e.
       io_of (Ok (sign account
         \<lparr>tb_payload = EntryFn e, tb_expiration = now + op_timeout_secs options, tb_chain_id = chain,
          tb_gas_price = op_gas_unit_price options, tb_max_gas = op_max_gas_amount options\<rparr>))))"
proof (cases "parse_function_id mt function_id")
  case (Ok p)
  then show ?thesis unfolding generate_transaction_def build_entry_function_def
    by (cases p; cases "parse_type_args mt tys"; cases "parse_args mt args"; simp; simp add: io_of_def)
qed (simp_all add: generate_transaction_def build_entry_function_def)

text \<open>A node that gives one answer to every view and has nothing else.\<close>

definition answering :: "json list \<Rightarrow> 'w client" where
  "answering xs =
     \<lparr>cl_view = (\<lambda>_. io_of (Ok xs)), cl_account_resource = (\<lambda>_ _. io_of (Ok None)),
      cl_authentication_key = (\<lambda>_. io_of (Err ''not found'')), cl_index = io_of (Ok 1),
      cl_ledger_information = io_of (Ok ()), cl_submit = (\<lambda>_. io_of (Err ''rejected'')),
      cl_wait = (\<lambda>_. io_of (Err ''timeout'')), cl_simulate = (\<lambda>_. io_of (Ok []))\<rparr>"

text \<open>
  Two ways to the same call. For a full function identifier and arguments that parse, \<open>build_entry_function\<close> gives
  the entry function the identifier names; and \<open>generate_transaction\<close>, which repeats that code, signs exactly the
  entry function of \<open>build_entry_function\<close>, or fails where it fails.
\<close>

theorem generic_payload:
  assumes "move_names mt" and "is_address a" "is_identifier m" "is_identifier f"
    and "parse_type_args mt tys = Ok ts" and "parse_args mt args = Ok bs"
  shows "build_entry_function mt (''0x'' @ lower_hex a @ ''::'' @ m @ ''::'' @ f) tys args =
       Ok \<lparr>en_address = a, en_module = m, en_function = f, en_ty_args = ts, en_args = bs\<rparr> \<and>
     (\<forall>sign now cl account function_id options.
        generate_transaction mt sign now (cl :: 'w client) account function_id tys args options =
        io_bind (cl_index cl) (\<lambda>chain. io_bind (io_of (build_entry_function mt function_id tys args)) (\<lambda>e.
          io_of (Ok (sign account
            \<lparr>tb_payload = EntryFn e, tb_expiration = now + op_timeout_secs options, tb_chain_id = chain,
             tb_gas_price = op_gas_unit_price options, tb_max_gas = op_max_gas_amount options\<rparr>)))))"
  using move_names.parse_function_id_full[OF assms(1-4)] assms(5,6)
  by (simp add: build_entry_function_def generate_is_generic)

theorem generic_payload_witness:
  "build_entry_function ref_move_text (''0x'' @ lower_hex core_code_address @ ''::'' @ ''coin'' @ ''::'' @ ''transfer'') None None =
     Ok \<lparr>en_address = core_code_address, en_module = ''coin'', en_function = ''transfer'', en_ty_args = [], en_args = []\<rparr>"
  by (rule generic_payload[THEN conjunct1, OF ref_names.move_names_axioms])
    (simp_all add: core_code_address_def is_identifier_def ident_char_def is_digit_def parse_type_args_def parse_args_def)

end
