(* ===== verification/Query.thy ===== *)
theory Query
  imports Client_Ext App_Cfg
begin

text \<open>
  The query tool (\<^verbatim>\<open>src/tools/query/src\<close>): view functions, queries about the chain and about an account, the vouch report,
  and the command that turns a query into JSON. Answers of the node come from the record \<open>client\<close>; requests for typed
  resources, events and transactions are the record \<open>query_vendor\<close>.
\<close>

section \<open>Views and chain queries\<close>

definition get_view :: "move_text \<Rightarrow> 'w client \<Rightarrow> string \<Rightarrow> string option \<Rightarrow> string option \<Rightarrow> (json, 'w) io" where
  "get_view mt cl function_id type_args args = view_ext mt cl function_id type_args args"

text \<open>\<open>value.first().unwrap()\<close> and \<open>value.first().context(\<dots>)?\<close>.\<close>

definition first_or :: "'a rres \<Rightarrow> 'a list \<Rightarrow> 'a rres" where
  "first_or r xs = (case xs of [] \<Rightarrow> r | x # _ \<Rightarrow> Ok x)"

definition get_epoch :: "move_text \<Rightarrow> 'w client \<Rightarrow> (u64, 'w) io" where
  "get_epoch mt cl =
     io_bind (get_view mt cl ''0x1::reconfiguration::get_current_epoch'' None None) (\<lambda>res.
     io_of (rbind (json_vec json_string res) (\<lambda>value.
            rbind (first_or (Panic ''called Option::unwrap() on a None value'') value) parse_u64_or_err)))"

definition get_next_governance_proposal_id :: "move_text \<Rightarrow> 'w client \<Rightarrow> (u64, 'w) io" where
  "get_next_governance_proposal_id mt cl =
     io_bind (get_view mt cl ''0x1::diem_governance::get_next_governance_proposal_id'' None None) (\<lambda>query_res.
     io_of (rbind (json_vec json_string query_res) (\<lambda>value.
            rbind (first_or (Err ''could not get a response from view function get_next_governance_proposal_id'') value)
              parse_u64_or_err)))"

definition can_gov_proposal_resolve :: "move_text \<Rightarrow> 'w client \<Rightarrow> u64 \<Rightarrow> (bool, 'w) io" where
  "can_gov_proposal_resolve mt cl prop_id =
     io_bind (get_view mt cl ''0x1::diem_governance::get_can_resolve'' None (Some (dec_str (unat prop_id)))) (\<lambda>query_res.
     io_of (with_context ''cannot parse api res'' (json_bool query_res)))"

definition is_gov_proposal_resolved :: "move_text \<Rightarrow> 'w client \<Rightarrow> u64 \<Rightarrow> (bool, 'w) io" where
  "is_gov_proposal_resolved mt cl prop_id =
     io_bind (get_view mt cl ''0x1::diem_governance::is_resolved'' None (Some (dec_str (unat prop_id)))) (\<lambda>query_res.
     io_of (rbind (json_vec json_bool query_res)
       (first_or (Err ''could not get a response from view function is_resolved''))))"

text \<open>\<open>from_value::<u128>\<close>: numbers only.\<close>

fun json_u128 :: "json \<Rightarrow> u128 rres" where
  "json_u128 (JNumber i) =
     (if 0 \<le> i \<and> i < 2 ^ 128 then Ok (of_int i) else Err ''invalid value, expected u128'')"
| "json_u128 _ = Err ''invalid type, expected u128''"

definition get_gov_proposal_votes :: "move_text \<Rightarrow> 'w client \<Rightarrow> u64 \<Rightarrow> (u128 list, 'w) io" where
  "get_gov_proposal_votes mt cl prop_id =
     io_bind (get_view mt cl ''0x1::diem_governance::get_votes'' None (Some (dec_str (unat prop_id)))) (\<lambda>query_res.
     io_of (json_vec json_u128 query_res))"

definition get_height :: "move_text \<Rightarrow> 'w client \<Rightarrow> (u64, 'w) io" where
  "get_height mt cl =
     io_bind (get_view mt cl ''0x1::block::get_current_block_height'' None None) (\<lambda>res.
     io_of (rbind (json_vec json_string res) (\<lambda>value.
            rbind (first_or (Panic ''called Option::unwrap() on a None value'') value) parse_u64_or_err)))"

definition epoch_over_can_trigger :: "move_text \<Rightarrow> 'w client \<Rightarrow> (bool, 'w) io" where
  "epoch_over_can_trigger mt cl =
     io_bind (get_view mt cl ''0x1::epoch_boundary::can_trigger'' None None) (\<lambda>res.
     io_of (rbind (json_vec json_bool res) (\<lambda>value. index value 0)))"

section \<open>Account queries\<close>

text \<open>The request all account views share: one address, no type arguments.\<close>

definition view_account :: "move_text \<Rightarrow> 'w client \<Rightarrow> string \<Rightarrow> string \<Rightarrow> account_address \<Rightarrow> (json list, 'w) io" where
  "view_account mt cl module_name function_name acct =
     io_bind (io_of (entry_function_id mt module_name function_name)) (\<lambda>id.
     cl_view cl \<lparr>vr_function = id, vr_type_arguments = [], vr_arguments = [JString (mt_address_str mt acct)]\<rparr>)"

definition get_account_balance_libra :: "move_text \<Rightarrow> 'w client \<Rightarrow> account_address \<Rightarrow> (SlowWalletBalance, 'w) io" where
  "get_account_balance_libra mt cl acct =
     io_bind (view_account mt cl ''ol_account'' ''balance'' acct) (\<lambda>res. io_of (SlowWalletBalance_from_value res))"

definition is_community_wallet_migrated :: "move_text \<Rightarrow> 'w client \<Rightarrow> account_address \<Rightarrow> (json, 'w) io" where
  "is_community_wallet_migrated mt cl acct =
     io_bind (view_account mt cl ''community_wallet'' ''qualifies'' acct) (\<lambda>res. io_of (Ok (JArray res)))"

definition community_wallet_signers :: "move_text \<Rightarrow> 'w client \<Rightarrow> account_address \<Rightarrow> (json, 'w) io" where
  "community_wallet_signers mt cl acct =
     io_bind (view_account mt cl ''multi_action'' ''get_authorities'' acct) (\<lambda>res. io_of (Ok (JArray res)))"

definition multi_auth_ballots :: "'w client \<Rightarrow> account_address \<Rightarrow> (json, 'w) io" where
  "multi_auth_ballots cl multi_auth_account =
     io_bind (cl_account_resource cl multi_auth_account ''0x1::multi_action::Action<0x1::donor_voice_txs::Payment>'')
       (\<lambda>proposal_state. io_of (or_panic ''called Option::unwrap() on a None value'' proposal_state))"

text \<open>A number the node sends as a string or as a number.\<close>

fun json_u64 :: "string \<Rightarrow> string \<Rightarrow> json \<Rightarrow> u64 rres" where
  "json_u64 bad_number bad_type (JString s) = parse_u64_or_err s"
| "json_u64 bad_number bad_type (JNumber i) = or_err bad_number (as_u64 (JNumber i))"
| "json_u64 bad_number bad_type (JFloat x) = or_err bad_number (as_u64 (JFloat x))"
| "json_u64 bad_number bad_type _ = Err bad_type"

definition page_rank_calculate_score :: "move_text \<Rightarrow> 'w client \<Rightarrow> account_address \<Rightarrow> (u64 \<times> u64 \<times> u64, 'w) io" where
  "page_rank_calculate_score mt cl acct =
     io_bind (view_account mt cl ''page_rank_lazy'' ''calculate_score'' acct) (\<lambda>res. io_of (
       if length res \<noteq> 3 then Err (''Expected 3 values from calculate_score, got '' @ dec_str (length res))
       else
         rbind (json_u64 ''Invalid number format for score'' ''Unexpected response type for score'' (res ! 0)) (\<lambda>score.
         rbind (json_u64 ''Invalid number format for max_depth'' ''Unexpected response type for max_depth'' (res ! 1)) (\<lambda>max_depth_reached.
         rbind (json_u64 ''Invalid number format for accounts_processed'' ''Unexpected response type for accounts_processed''
                  (res ! 2)) (\<lambda>accounts_processed.
         Ok (score, max_depth_reached, accounts_processed))))))"

definition page_rank_get_cached_score :: "move_text \<Rightarrow> 'w client \<Rightarrow> account_address \<Rightarrow> (u64, 'w) io" where
  "page_rank_get_cached_score mt cl acct =
     io_bind (view_account mt cl ''page_rank_lazy'' ''get_cached_score'' acct) (\<lambda>res. io_of (
       case res of [] \<Rightarrow> Err ''No values returned from get_cached_score''
       | v # _ \<Rightarrow> json_u64 ''Invalid number format'' ''Unexpected response type for cached score'' v))"

definition vouch_limits_calculate_score_limit :: "move_text \<Rightarrow> 'w client \<Rightarrow> account_address \<Rightarrow> (u64, 'w) io" where
  "vouch_limits_calculate_score_limit mt cl acct =
     io_bind (view_account mt cl ''vouch_limits'' ''calculate_score_limit'' acct) (\<lambda>res. io_of (
       case res of [] \<Rightarrow> Err ''No values returned from calculate_score_limit''
       | v # _ \<Rightarrow> json_u64 ''Invalid number format'' ''Unexpected response type for score limit'' v))"

definition vouch_limits_get_vouch_limit :: "move_text \<Rightarrow> 'w client \<Rightarrow> account_address \<Rightarrow> (u64, 'w) io" where
  "vouch_limits_get_vouch_limit mt cl acct =
     io_bind (view_account mt cl ''vouch_limits'' ''get_vouch_limit'' acct) (\<lambda>res. io_of (
       case res of [] \<Rightarrow> Err ''No values returned from get_vouch_limit''
       | v # _ \<Rightarrow> json_u64 ''Invalid number format'' ''Unexpected response type for vouch limit'' v))"

record AccountVouchReportData =
  vo_account :: string
  vo_cached_score :: "u64 option"
  vo_fresh_score :: "u64 option"
  vo_max_depth_reached :: "u64 option"
  vo_accounts_processed :: "u64 option"
  vo_max_vouches_by_score :: "u64 option"
  vo_remaining_vouches_available :: "u64 option"
  vo_errors :: "string list"

text \<open>\<open>match query { Ok(x) => Some(x), Err(e) => { errors.push(format!("name: {}", e)); None } }\<close>.\<close>

definition try_query :: "string \<Rightarrow> ('a, 'w) io \<Rightarrow> string list \<Rightarrow> ('a option \<times> string list, 'w) io" where
  "try_query name q errors =
     io_match q (\<lambda>x. io_of (Ok (Some x, errors))) (\<lambda>e. io_of (Ok (None, errors @ [name @ '': '' @ e])))"

definition account_vouch_report :: "move_text \<Rightarrow> 'w client \<Rightarrow> account_address \<Rightarrow> (AccountVouchReportData, 'w) io" where
  "account_vouch_report mt cl acct =
     io_bind (try_query ''cached_score'' (page_rank_get_cached_score mt cl acct) []) (\<lambda>(cached_score, errors).
     io_bind (try_query ''fresh_score'' (page_rank_calculate_score mt cl acct) errors) (\<lambda>(fresh, errors).
     io_bind (try_query ''max_vouches_by_score'' (vouch_limits_calculate_score_limit mt cl acct) errors)
       (\<lambda>(max_vouches_by_score, errors).
     io_bind (try_query ''remaining_vouches_available'' (vouch_limits_get_vouch_limit mt cl acct) errors)
       (\<lambda>(remaining_vouches_available, errors).
     io_of (Ok
       \<lparr>vo_account = mt_address_str mt acct, vo_cached_score = cached_score,
        vo_fresh_score = map_option fst fresh, vo_max_depth_reached = map_option (\<lambda>f. fst (snd f)) fresh,
        vo_accounts_processed = map_option (\<lambda>f. snd (snd f)) fresh,
        vo_max_vouches_by_score = max_vouches_by_score,
        vo_remaining_vouches_available = remaining_vouches_available, vo_errors = errors\<rparr>)))))"

text \<open>The printed report: printing is left out, the result stays.\<close>

definition account_vouch_report_console :: "move_text \<Rightarrow> 'w client \<Rightarrow> account_address \<Rightarrow> (unit, 'w) io" where
  "account_vouch_report_console mt cl acct = io_bind (account_vouch_report mt cl acct) (\<lambda>report. io_of (Ok ()))"

section \<open>The query command\<close>

datatype QueryType =
    QBalance account_address
  | QValConfig account_address
  | QEpoch
  | QResource account_address string
  | QView string "string option" "string option"
  | QLookupAddress auth_key
  | QBlockHeight
  | QSyncDelay
  | QEvents account_address bool "u64 option"
  | QTxs account_address "u64 option" "u64 option" "string option"
  | QComWalletMigrated account_address
  | QComWalletSigners account_address
  | QComWalletPendTransactions account_address
  | QAnnotate account_address
  | QVouchReport account_address

record 'w query_vendor =
  qv_val_config :: "account_address \<Rightarrow> (json, 'w) io"
  qv_tx_schedule :: "account_address \<Rightarrow> (unit, 'w) io"
  qv_events :: "account_address \<Rightarrow> string \<Rightarrow> string \<Rightarrow> u64 option \<Rightarrow> (json, 'w) io"
  qv_transactions :: "account_address \<Rightarrow> u64 option \<Rightarrow> u64 option \<Rightarrow> ((u64 \<times> u64 option \<times> bool) list, 'w) io"
  qv_annotate :: "account_address \<Rightarrow> (string option, 'w) io"
  qv_address_json :: "account_address \<Rightarrow> json"
  qv_debug :: "QueryType \<Rightarrow> string"

definition get_events :: "'w query_vendor \<Rightarrow> account_address \<Rightarrow> bool \<Rightarrow> u64 option \<Rightarrow> (json, 'w) io" where
  "get_events qv acct withdrawn_or_deposited seq_start =
     (let direction = (if withdrawn_or_deposited then ''withdraw_events'' else ''deposit_events'')
      in qv_events qv acct ''0x1::coin::CoinStore<0x1::libra_coin::LibraCoin>'' direction seq_start)"

definition json_num :: "u64 \<Rightarrow> json" where
  "json_num n = JNumber (uint n)"

definition json_opt :: "('a \<Rightarrow> json) \<Rightarrow> 'a option \<Rightarrow> json" where
  "json_opt f x = (case x of Some y \<Rightarrow> f y | None \<Rightarrow> JNull)"

definition vouch_report_json :: "AccountVouchReportData \<Rightarrow> json" where
  "vouch_report_json r = JObject
     [(''account'', JString (vo_account r)), (''cached_score'', json_opt json_num (vo_cached_score r)),
      (''fresh_score'', json_opt json_num (vo_fresh_score r)),
      (''max_depth_reached'', json_opt json_num (vo_max_depth_reached r)),
      (''accounts_processed'', json_opt json_num (vo_accounts_processed r)),
      (''max_vouches_by_score'', json_opt json_num (vo_max_vouches_by_score r)),
      (''remaining_vouches_available'', json_opt json_num (vo_remaining_vouches_available r)),
      (''errors'', JArray (map JString (vo_errors r)))]"

text \<open>One transaction of the history: its time, version and whether it is pending.\<close>

definition prune_tx :: "u64 \<times> u64 option \<times> bool \<Rightarrow> json" where
  "prune_tx tx = (case tx of (timestamp, version, is_pending) \<Rightarrow>
     JObject [(''timestamp'', json_num timestamp), (''version'', json_opt json_num version),
              (''is_pending'', JBool is_pending)])"

definition query_to_json :: "move_text \<Rightarrow> 'w query_vendor \<Rightarrow> 'w client \<Rightarrow> QueryType \<Rightarrow> (json, 'w) io" where
  "query_to_json mt qv cl self =
     (case self of
        QBalance acct \<Rightarrow>
          io_bind (get_account_balance_libra mt cl acct) (\<lambda>res.
            let d = SlowWalletBalance_scaled res
            in io_of (Ok (JObject [(''unlocked'', JFloat (unlocked_display d)), (''total'', JFloat (total_display d))])))
      | QView function_id type_args args \<Rightarrow>
          io_bind (get_view mt cl function_id type_args args) (\<lambda>res. io_of (Ok (JObject [(''body'', res)])))
      | QEpoch \<Rightarrow> io_bind (get_epoch mt cl) (\<lambda>num. io_of (Ok (JObject [(''epoch'', json_num num)])))
      | QLookupAddress key \<Rightarrow>
          io_bind (lookup_originating_address mt cl key) (\<lambda>addr.
            io_of (Ok (JObject [(''address'', qv_address_json qv addr)])))
      | QResource acct resource_path_string \<Rightarrow>
          io_bind (cl_account_resource cl acct resource_path_string) (\<lambda>res. io_of (
            or_err (''no resource '' @ resource_path_string @ '', found at address '' @ mt_address_str mt acct) res))
      | QValConfig acct \<Rightarrow> qv_val_config qv acct
      | QBlockHeight \<Rightarrow> io_bind (get_height mt cl) (\<lambda>height. io_of (Ok (JObject [(''BlockHeight'', json_num height)])))
      | QEvents acct withdrawn_or_deposited seq_start \<Rightarrow>
          io_bind (get_events qv acct withdrawn_or_deposited seq_start) (\<lambda>res. io_of (Ok (JObject [(''events'', res)])))
      | QTxs acct txs_height txs_count txs_type \<Rightarrow>
          io_bind (qv_transactions qv acct txs_height txs_count) (\<lambda>res.
            io_of (Ok (JObject [(''transactions'', JArray (map prune_tx res))])))
      | QComWalletMigrated acct \<Rightarrow>
          io_bind (is_community_wallet_migrated mt cl acct) (\<lambda>res. io_of (Ok (JObject [(''migrated'', res)])))
      | QComWalletSigners acct \<Rightarrow>
          io_bind (community_wallet_signers mt cl acct) (\<lambda>res. io_of (Ok (JObject [(''signers'', JString ''None'')])))
      | QComWalletPendTransactions acct \<Rightarrow>
          io_bind (qv_tx_schedule qv acct) (\<lambda>res.
            io_of (Ok (JObject [(''pending_transactions'', JString ''None'')])))
      | QAnnotate acct \<Rightarrow>
          io_bind (qv_annotate qv acct) (\<lambda>blob. case blob of
            None \<Rightarrow> io_of (Err (''cannot find account state at '' @ mt_address_str mt acct))
          | Some text \<Rightarrow> io_of (Ok (JString text)))
      | QVouchReport acct \<Rightarrow>
          io_bind (account_vouch_report mt cl acct) (\<lambda>report_data. io_of (Ok (vouch_report_json report_data)))
      | QSyncDelay \<Rightarrow>
          io_of (Err (''Not implemented for type: '' @ qv_debug qv self @ '' Ground control to Major Tom.'')))"

section \<open>What the queries answer\<close>

text \<open>A view answers an array, which is never read as a boolean.\<close>

lemma view_ext_array: "view_ext mt cl f t a w = (Ok j, w') \<Longrightarrow> \<exists>xs. j = JArray xs"
  by (auto simp: view_ext_def rust_simps)

text \<open>
  \<open>can_gov_proposal_resolve\<close> has no answer: whatever the node says, the call ends in an error or a panic, since the
  array that every view returns is read as a boolean. \<open>is_gov_proposal_resolved\<close>, which reads a list of booleans,
  answers the first value the node sends.
\<close>

theorem can_resolve_has_no_answer:
  "\<not> is_ok (fst (can_gov_proposal_resolve mt cl prop_id w)) \<and>
   (\<forall>t u b bs. mt_entry_function_id mt ''0x1::diem_governance::is_resolved'' = Ok u \<and>
      cl_view cl \<lparr>vr_function = u, vr_type_arguments = [],
        vr_arguments = view_args (Some (dec_str (unat prop_id)))\<rparr> w = (Ok (JBool b # map JBool bs), t) \<longrightarrow>
      is_gov_proposal_resolved mt cl prop_id w = (Ok b, t))"
proof (intro conjI allI impI)
  show "\<not> is_ok (fst (can_gov_proposal_resolve mt cl prop_id w))"
  proof
    assume "is_ok (fst (can_gov_proposal_resolve mt cl prop_id w))"
    then obtain b t where "can_gov_proposal_resolve mt cl prop_id w = (Ok b, t)"
      by (metis is_ok.elims(2) prod.collapse)
    then show False
      by (auto simp: can_gov_proposal_resolve_def get_view_def rust_simps dest!: view_ext_array)
  qed
next
  fix t u b bs
  have "rmapM json_bool (map JBool bs) = Ok bs" by (induction bs) simp_all
  then show "mt_entry_function_id mt ''0x1::diem_governance::is_resolved'' = Ok u \<and>
      cl_view cl \<lparr>vr_function = u, vr_type_arguments = [],
        vr_arguments = view_args (Some (dec_str (unat prop_id)))\<rparr> w = (Ok (JBool b # map JBool bs), t) \<Longrightarrow>
      is_gov_proposal_resolved mt cl prop_id w = (Ok b, t)"
    by (simp add: is_gov_proposal_resolved_def get_view_def view_ext_def parse_type_args_def first_or_def)
qed

theorem can_resolve_has_no_answer_witness:
  "is_gov_proposal_resolved ref_move_text (answering [JBool True]) 7 () = (Ok True, ())"
  using can_resolve_has_no_answer[where w = "()" and mt = ref_move_text and cl = "answering [JBool True]" and prop_id = 7,
      THEN conjunct2, rule_format, of "''0x1::diem_governance::is_resolved''" True "[]" "()"]
  by (simp add: ref_move_text_def answering_def)

fun ok_of :: "'a rres \<Rightarrow> 'a option" where
  "ok_of (Ok x) = Some x"
| "ok_of _ = None"

fun err_of :: "string \<Rightarrow> 'a rres \<Rightarrow> string list" where
  "err_of name (Err e) = [name @ '': '' @ e]"
| "err_of name _ = []"

lemma try_query_run:
  "q w = (r, t) \<Longrightarrow> \<not> is_panic r \<Longrightarrow> try_query name q errors w = (Ok (ok_of r, errors @ err_of name r), t)"
  by (cases r) (simp_all add: try_query_def)

text \<open>
  A vouch report never fails on a node's errors: each figure is present exactly when its query succeeded, the list
  of errors names exactly the queries that failed, in order, and the queries run one after the other.
\<close>

theorem vouch_report_total:
  assumes "page_rank_get_cached_score mt cl acct w = (r1, w1)" "page_rank_calculate_score mt cl acct w1 = (r2, w2)"
    and "vouch_limits_calculate_score_limit mt cl acct w2 = (r3, w3)" "vouch_limits_get_vouch_limit mt cl acct w3 = (r4, w4)"
    and "\<not> is_panic r1" "\<not> is_panic r2" "\<not> is_panic r3" "\<not> is_panic r4"
  shows "\<exists>r. account_vouch_report mt cl acct w = (Ok r, w4) \<and> account_vouch_report_console mt cl acct w = (Ok (), w4) \<and>
     vo_cached_score r = ok_of r1 \<and> vo_fresh_score r = map_option fst (ok_of r2) \<and>
     vo_max_vouches_by_score r = ok_of r3 \<and> vo_remaining_vouches_available r = ok_of r4 \<and>
     vo_errors r = err_of ''cached_score'' r1 @ err_of ''fresh_score'' r2 @ err_of ''max_vouches_by_score'' r3 @
       err_of ''remaining_vouches_available'' r4"
  using assms by (simp add: account_vouch_report_console_def account_vouch_report_def try_query_run)

theorem vouch_report_total_witness:
  "\<exists>r. account_vouch_report ref_move_text (answering [JString ''12'']) zero_address () = (Ok r, ()) \<and>
     vo_cached_score r = Some 12 \<and> vo_fresh_score r = None \<and>
     vo_errors r = [''fresh_score: Expected 3 values from calculate_score, got 1'']"
proof -
  have p: "parse_u64_or_err ''12'' = Ok 12"
    using parse_u64_or_err_dec[of 12] by (simp add: dec_str.simps digit_char_def char_of_def bit_Suc_0_iff)
  let ?cl = "answering [JString ''12''] :: unit client"
  have v: "view_account ref_move_text ?cl m f zero_address () = (Ok [JString ''12''], ())" for m f
    by (simp add: view_account_def entry_function_id_def ref_move_text_def answering_def)
  have "dec_str 1 = ''1''" by (simp add: dec_str.simps digit_char_def char_of_def bit_Suc_0_iff)
  then have q: "page_rank_get_cached_score ref_move_text ?cl zero_address () = (Ok 12, ())"
    "page_rank_calculate_score ref_move_text ?cl zero_address () = (Err ''Expected 3 values from calculate_score, got 1'', ())"
    "vouch_limits_calculate_score_limit ref_move_text ?cl zero_address () = (Ok 12, ())"
    "vouch_limits_get_vouch_limit ref_move_text ?cl zero_address () = (Ok 12, ())"
    by (simp_all add: page_rank_get_cached_score_def page_rank_calculate_score_def
        vouch_limits_calculate_score_limit_def vouch_limits_get_vouch_limit_def v p)
  from vouch_report_total[OF q] show ?thesis by force
qed

end
