(* ===== verification/Sdk_Builder.thy ===== *)
theory Sdk_Builder
  imports Bcs_Args
begin

text \<open>
  The transaction builders of the framework (\<^verbatim>\<open>src/framework/cached-packages/src/libra_framework_sdk_builder.rs\<close>): the
  type of structured calls, one builder for each entry function, encoding, and decoding through the table of decoders.
  Shown: decoding inverts encoding for every call, and what decoding does not look at.
\<close>

section \<open>Calls\<close>

datatype (plugins only: code) EntryFunctionCall =
    AccountOfferRotationCapability bytes u8 bytes account_address
  | AccountRevokeRotationCapability account_address
  | AccountRotateAuthenticationKey u8 bytes u8 bytes bytes bytes
  | AccountRotateAuthenticationKeyWithRotationCapability account_address u8 bytes bytes
  | ActivityMaybeFixMalformed
  | BurnSetSendCommunity bool
  | CodePublishPackageTxn bytes "bytes list"
  | CommunityWalletInitChangeSignerCommunityMultisig account_address account_address bool u64 u64
  | CommunityWalletInitFinalizeAndCage u64
  | CommunityWalletInitInitCommunity "account_address list" u64
  | CommunityWalletInitProposeOffer "account_address list" u64
  | DiemGovernanceOlCreateProposalV2 bytes bytes bytes bool
  | DiemGovernanceOlVote u64 bool
  | DiemGovernanceSmokeTriggerEpoch
  | DiemGovernanceTriggerEpoch
  | DonorVoiceTxsMaybeCloseReauth account_address
  | DonorVoiceTxsProposeLiquidateTx account_address
  | DonorVoiceTxsProposePaymentTx account_address account_address u64 bytes bool
  | DonorVoiceTxsProposeVetoTx account_address u64
  | DonorVoiceTxsVoteLiquidationTx account_address
  | DonorVoiceTxsVoteReauthTx account_address
  | EpochBoundarySmokeEnableTrigger
  | EpochBoundarySmokeTriggerEpoch
  | FiloMigrationMaybeMigrate
  | JailUnjailByVoucher account_address
  | LibraCoinMintToImpl account_address u64
  | MultiActionClaimOffer account_address
  | MultiActionInitGovDeprecated
  | MultisigAccountAddOwner account_address
  | MultisigAccountAddOwners "account_address list"
  | MultisigAccountRemoveOwner account_address
  | MultisigAccountRemoveOwners "account_address list"
  | MultisigAccountUpdateMetadata "bytes list" "bytes list"
  | MultisigAccountUpdateSignaturesRequired u64
  | OlAccountCreateAccount account_address
  | OlAccountTransfer account_address u64
  | PageRankLazyRefreshCache account_address
  | ProofOfFeePofRetractBid
  | ProofOfFeePofUpdateBid u64 u64
  | ProofOfFeePofUpdateBidNetReward u64 u64
  | SlowWalletSmokeTestVmUnlock account_address u64 u64
  | SlowWalletUserSetSlow
  | StakeInitializeValidator bytes bytes bytes bytes
  | StakeUpdateNetworkAndFullnodeAddresses account_address bytes bytes
  | ValidatorUniverseRegisterValidator bytes bytes bytes bytes
  | VouchTxsCleanExpired
  | VouchTxsRevoke account_address
  | VouchTxsVouchFor account_address

section \<open>Payload builders\<close>

definition account_offer_rotation_capability :: "bcs \<Rightarrow> bytes \<Rightarrow> u8 \<Rightarrow> bytes
         \<Rightarrow> account_address \<Rightarrow> TxPayload" where
  "account_offer_rotation_capability b rotation_capability_sig_bytes account_scheme account_public_key_bytes
         recipient_address =
     entry_function ''account'' ''offer_rotation_capability''
       [sr_bytes b rotation_capability_sig_bytes, sr_u8 b account_scheme, sr_bytes b account_public_key_bytes,
         sr_addr b recipient_address]"

definition account_revoke_rotation_capability :: "bcs \<Rightarrow> account_address \<Rightarrow> TxPayload" where
  "account_revoke_rotation_capability b to_be_revoked_address =
     entry_function ''account'' ''revoke_rotation_capability''
       [sr_addr b to_be_revoked_address]"

definition account_rotate_authentication_key :: "bcs \<Rightarrow> u8 \<Rightarrow> bytes \<Rightarrow> u8
         \<Rightarrow> bytes \<Rightarrow> bytes \<Rightarrow> bytes \<Rightarrow> TxPayload" where
  "account_rotate_authentication_key b from_scheme from_public_key_bytes to_scheme to_public_key_bytes
         cap_rotate_key cap_update_table =
     entry_function ''account'' ''rotate_authentication_key''
       [sr_u8 b from_scheme, sr_bytes b from_public_key_bytes, sr_u8 b to_scheme, sr_bytes b to_public_key_bytes,
         sr_bytes b cap_rotate_key, sr_bytes b cap_update_table]"

definition account_rotate_authentication_key_with_rotation_capability :: "bcs \<Rightarrow> account_address
         \<Rightarrow> u8 \<Rightarrow> bytes \<Rightarrow> bytes \<Rightarrow> TxPayload" where
  "account_rotate_authentication_key_with_rotation_capability b rotation_cap_offerer_address new_scheme
         new_public_key_bytes cap_update_table =
     entry_function ''account'' ''rotate_authentication_key_with_rotation_capability''
       [sr_addr b rotation_cap_offerer_address, sr_u8 b new_scheme, sr_bytes b new_public_key_bytes, sr_bytes b
         cap_update_table]"

definition activity_maybe_fix_malformed :: "bcs \<Rightarrow> TxPayload" where
  "activity_maybe_fix_malformed b =
     entry_function ''activity'' ''maybe_fix_malformed''
       []"

definition burn_set_send_community :: "bcs \<Rightarrow> bool \<Rightarrow> TxPayload" where
  "burn_set_send_community b community =
     entry_function ''burn'' ''set_send_community''
       [sr_bool b community]"

definition code_publish_package_txn :: "bcs \<Rightarrow> bytes \<Rightarrow> bytes list \<Rightarrow> TxPayload"
         where
  "code_publish_package_txn b metadata_serialized code =
     entry_function ''code'' ''publish_package_txn''
       [sr_bytes b metadata_serialized, sr_bytess b code]"

definition community_wallet_init_change_signer_community_multisig :: "bcs \<Rightarrow> account_address
         \<Rightarrow> account_address \<Rightarrow> bool \<Rightarrow> u64 \<Rightarrow> u64 \<Rightarrow>
         TxPayload" where
  "community_wallet_init_change_signer_community_multisig b multisig_address new_signer is_add_operation n_of_m
         vote_duration_epochs =
     entry_function ''community_wallet_init'' ''change_signer_community_multisig''
       [sr_addr b multisig_address, sr_addr b new_signer, sr_bool b is_add_operation, sr_u64 b n_of_m, sr_u64 b
         vote_duration_epochs]"

definition community_wallet_init_finalize_and_cage :: "bcs \<Rightarrow> u64 \<Rightarrow> TxPayload" where
  "community_wallet_init_finalize_and_cage b num_signers =
     entry_function ''community_wallet_init'' ''finalize_and_cage''
       [sr_u64 b num_signers]"

definition community_wallet_init_init_community :: "bcs \<Rightarrow> account_address list \<Rightarrow> u64
         \<Rightarrow> TxPayload" where
  "community_wallet_init_init_community b initial_authorities check_threshold =
     entry_function ''community_wallet_init'' ''init_community''
       [sr_addrs b initial_authorities, sr_u64 b check_threshold]"

definition community_wallet_init_propose_offer :: "bcs \<Rightarrow> account_address list \<Rightarrow> u64
         \<Rightarrow> TxPayload" where
  "community_wallet_init_propose_offer b new_signers num_signers =
     entry_function ''community_wallet_init'' ''propose_offer''
       [sr_addrs b new_signers, sr_u64 b num_signers]"

definition diem_governance_ol_create_proposal_v2 :: "bcs \<Rightarrow> bytes \<Rightarrow> bytes \<Rightarrow>
         bytes \<Rightarrow> bool \<Rightarrow> TxPayload" where
  "diem_governance_ol_create_proposal_v2 b execution_hash metadata_location metadata_hash is_multi_step_proposal =
     entry_function ''diem_governance'' ''ol_create_proposal_v2''
       [sr_bytes b execution_hash, sr_bytes b metadata_location, sr_bytes b metadata_hash, sr_bool b
         is_multi_step_proposal]"

definition diem_governance_ol_vote :: "bcs \<Rightarrow> u64 \<Rightarrow> bool \<Rightarrow> TxPayload" where
  "diem_governance_ol_vote b proposal_id should_pass =
     entry_function ''diem_governance'' ''ol_vote''
       [sr_u64 b proposal_id, sr_bool b should_pass]"

definition diem_governance_smoke_trigger_epoch :: "bcs \<Rightarrow> TxPayload" where
  "diem_governance_smoke_trigger_epoch b =
     entry_function ''diem_governance'' ''smoke_trigger_epoch''
       []"

definition diem_governance_trigger_epoch :: "bcs \<Rightarrow> TxPayload" where
  "diem_governance_trigger_epoch b =
     entry_function ''diem_governance'' ''trigger_epoch''
       []"

definition donor_voice_txs_maybe_close_reauth :: "bcs \<Rightarrow> account_address \<Rightarrow> TxPayload" where
  "donor_voice_txs_maybe_close_reauth b multisig_address =
     entry_function ''donor_voice_txs'' ''maybe_close_reauth''
       [sr_addr b multisig_address]"

definition donor_voice_txs_propose_liquidate_tx :: "bcs \<Rightarrow> account_address \<Rightarrow> TxPayload" where
  "donor_voice_txs_propose_liquidate_tx b multisig_address =
     entry_function ''donor_voice_txs'' ''propose_liquidate_tx''
       [sr_addr b multisig_address]"

definition donor_voice_txs_propose_payment_tx :: "bcs \<Rightarrow> account_address \<Rightarrow> account_address
         \<Rightarrow> u64 \<Rightarrow> bytes \<Rightarrow> bool \<Rightarrow> TxPayload" where
  "donor_voice_txs_propose_payment_tx b multisig_address payee value description advance_unlocked =
     entry_function ''donor_voice_txs'' ''propose_payment_tx''
       [sr_addr b multisig_address, sr_addr b payee, sr_u64 b value, sr_bytes b description, sr_bool b
         advance_unlocked]"

definition donor_voice_txs_propose_veto_tx :: "bcs \<Rightarrow> account_address \<Rightarrow> u64 \<Rightarrow>
         TxPayload" where
  "donor_voice_txs_propose_veto_tx b multisig_address tx_id =
     entry_function ''donor_voice_txs'' ''propose_veto_tx''
       [sr_addr b multisig_address, sr_u64 b tx_id]"

definition donor_voice_txs_vote_liquidation_tx :: "bcs \<Rightarrow> account_address \<Rightarrow> TxPayload" where
  "donor_voice_txs_vote_liquidation_tx b multisig_address =
     entry_function ''donor_voice_txs'' ''vote_liquidation_tx''
       [sr_addr b multisig_address]"

definition donor_voice_txs_vote_reauth_tx :: "bcs \<Rightarrow> account_address \<Rightarrow> TxPayload" where
  "donor_voice_txs_vote_reauth_tx b multisig_address =
     entry_function ''donor_voice_txs'' ''vote_reauth_tx''
       [sr_addr b multisig_address]"

definition epoch_boundary_smoke_enable_trigger :: "bcs \<Rightarrow> TxPayload" where
  "epoch_boundary_smoke_enable_trigger b =
     entry_function ''epoch_boundary'' ''smoke_enable_trigger''
       []"

definition epoch_boundary_smoke_trigger_epoch :: "bcs \<Rightarrow> TxPayload" where
  "epoch_boundary_smoke_trigger_epoch b =
     entry_function ''epoch_boundary'' ''smoke_trigger_epoch''
       []"

definition filo_migration_maybe_migrate :: "bcs \<Rightarrow> TxPayload" where
  "filo_migration_maybe_migrate b =
     entry_function ''filo_migration'' ''maybe_migrate''
       []"

definition jail_unjail_by_voucher :: "bcs \<Rightarrow> account_address \<Rightarrow> TxPayload" where
  "jail_unjail_by_voucher b addr =
     entry_function ''jail'' ''unjail_by_voucher''
       [sr_addr b addr]"

definition libra_coin_mint_to_impl :: "bcs \<Rightarrow> account_address \<Rightarrow> u64 \<Rightarrow> TxPayload"
         where
  "libra_coin_mint_to_impl b dst_addr amount =
     entry_function ''libra_coin'' ''mint_to_impl''
       [sr_addr b dst_addr, sr_u64 b amount]"

definition multi_action_claim_offer :: "bcs \<Rightarrow> account_address \<Rightarrow> TxPayload" where
  "multi_action_claim_offer b multisig_address =
     entry_function ''multi_action'' ''claim_offer''
       [sr_addr b multisig_address]"

definition multi_action_init_gov_deprecated :: "bcs \<Rightarrow> TxPayload" where
  "multi_action_init_gov_deprecated b =
     entry_function ''multi_action'' ''init_gov_deprecated''
       []"

definition multisig_account_add_owner :: "bcs \<Rightarrow> account_address \<Rightarrow> TxPayload" where
  "multisig_account_add_owner b new_owner =
     entry_function ''multisig_account'' ''add_owner''
       [sr_addr b new_owner]"

definition multisig_account_add_owners :: "bcs \<Rightarrow> account_address list \<Rightarrow> TxPayload" where
  "multisig_account_add_owners b new_owners =
     entry_function ''multisig_account'' ''add_owners''
       [sr_addrs b new_owners]"

definition multisig_account_remove_owner :: "bcs \<Rightarrow> account_address \<Rightarrow> TxPayload" where
  "multisig_account_remove_owner b owner_to_remove =
     entry_function ''multisig_account'' ''remove_owner''
       [sr_addr b owner_to_remove]"

definition multisig_account_remove_owners :: "bcs \<Rightarrow> account_address list \<Rightarrow> TxPayload" where
  "multisig_account_remove_owners b owners_to_remove =
     entry_function ''multisig_account'' ''remove_owners''
       [sr_addrs b owners_to_remove]"

definition multisig_account_update_metadata :: "bcs \<Rightarrow> bytes list \<Rightarrow> bytes list \<Rightarrow>
         TxPayload" where
  "multisig_account_update_metadata b keys values =
     entry_function ''multisig_account'' ''update_metadata''
       [sr_bytess b keys, sr_bytess b values]"

definition multisig_account_update_signatures_required :: "bcs \<Rightarrow> u64 \<Rightarrow> TxPayload" where
  "multisig_account_update_signatures_required b new_num_signatures_required =
     entry_function ''multisig_account'' ''update_signatures_required''
       [sr_u64 b new_num_signatures_required]"

definition ol_account_create_account :: "bcs \<Rightarrow> account_address \<Rightarrow> TxPayload" where
  "ol_account_create_account b auth_key =
     entry_function ''ol_account'' ''create_account''
       [sr_addr b auth_key]"

definition ol_account_transfer :: "bcs \<Rightarrow> account_address \<Rightarrow> u64 \<Rightarrow> TxPayload" where
  "ol_account_transfer b to_account amount =
     entry_function ''ol_account'' ''transfer''
       [sr_addr b to_account, sr_u64 b amount]"

definition page_rank_lazy_refresh_cache :: "bcs \<Rightarrow> account_address \<Rightarrow> TxPayload" where
  "page_rank_lazy_refresh_cache b user =
     entry_function ''page_rank_lazy'' ''refresh_cache''
       [sr_addr b user]"

definition proof_of_fee_pof_retract_bid :: "bcs \<Rightarrow> TxPayload" where
  "proof_of_fee_pof_retract_bid b =
     entry_function ''proof_of_fee'' ''pof_retract_bid''
       []"

definition proof_of_fee_pof_update_bid :: "bcs \<Rightarrow> u64 \<Rightarrow> u64 \<Rightarrow> TxPayload" where
  "proof_of_fee_pof_update_bid b bid epoch_expiry =
     entry_function ''proof_of_fee'' ''pof_update_bid''
       [sr_u64 b bid, sr_u64 b epoch_expiry]"

definition proof_of_fee_pof_update_bid_net_reward :: "bcs \<Rightarrow> u64 \<Rightarrow> u64 \<Rightarrow>
         TxPayload" where
  "proof_of_fee_pof_update_bid_net_reward b net_reward epoch_expiry =
     entry_function ''proof_of_fee'' ''pof_update_bid_net_reward''
       [sr_u64 b net_reward, sr_u64 b epoch_expiry]"

definition slow_wallet_smoke_test_vm_unlock :: "bcs \<Rightarrow> account_address \<Rightarrow> u64 \<Rightarrow>
         u64 \<Rightarrow> TxPayload" where
  "slow_wallet_smoke_test_vm_unlock b user_addr unlocked transferred =
     entry_function ''slow_wallet'' ''smoke_test_vm_unlock''
       [sr_addr b user_addr, sr_u64 b unlocked, sr_u64 b transferred]"

definition slow_wallet_user_set_slow :: "bcs \<Rightarrow> TxPayload" where
  "slow_wallet_user_set_slow b =
     entry_function ''slow_wallet'' ''user_set_slow''
       []"

definition stake_initialize_validator :: "bcs \<Rightarrow> bytes \<Rightarrow> bytes \<Rightarrow> bytes
         \<Rightarrow> bytes \<Rightarrow> TxPayload" where
  "stake_initialize_validator b consensus_pubkey proof_of_possession network_addresses fullnode_addresses =
     entry_function ''stake'' ''initialize_validator''
       [sr_bytes b consensus_pubkey, sr_bytes b proof_of_possession, sr_bytes b network_addresses, sr_bytes b
         fullnode_addresses]"

definition stake_update_network_and_fullnode_addresses :: "bcs \<Rightarrow> account_address \<Rightarrow> bytes
         \<Rightarrow> bytes \<Rightarrow> TxPayload" where
  "stake_update_network_and_fullnode_addresses b validator_address new_network_addresses new_fullnode_addresses =
     entry_function ''stake'' ''update_network_and_fullnode_addresses''
       [sr_addr b validator_address, sr_bytes b new_network_addresses, sr_bytes b new_fullnode_addresses]"

definition validator_universe_register_validator :: "bcs \<Rightarrow> bytes \<Rightarrow> bytes \<Rightarrow>
         bytes \<Rightarrow> bytes \<Rightarrow> TxPayload" where
  "validator_universe_register_validator b consensus_pubkey proof_of_possession network_addresses fullnode_addresses =
     entry_function ''validator_universe'' ''register_validator''
       [sr_bytes b consensus_pubkey, sr_bytes b proof_of_possession, sr_bytes b network_addresses, sr_bytes b
         fullnode_addresses]"

definition vouch_txs_clean_expired :: "bcs \<Rightarrow> TxPayload" where
  "vouch_txs_clean_expired b =
     entry_function ''vouch_txs'' ''clean_expired''
       []"

definition vouch_txs_revoke :: "bcs \<Rightarrow> account_address \<Rightarrow> TxPayload" where
  "vouch_txs_revoke b friend_account =
     entry_function ''vouch_txs'' ''revoke''
       [sr_addr b friend_account]"

definition vouch_txs_vouch_for :: "bcs \<Rightarrow> account_address \<Rightarrow> TxPayload" where
  "vouch_txs_vouch_for b friend_account =
     entry_function ''vouch_txs'' ''vouch_for''
       [sr_addr b friend_account]"

section \<open>Encoding and decoding\<close>

primrec encode :: "bcs \<Rightarrow> EntryFunctionCall \<Rightarrow> TxPayload" where
  "encode b (AccountOfferRotationCapability rotation_capability_sig_bytes account_scheme account_public_key_bytes
         recipient_address) = account_offer_rotation_capability b rotation_capability_sig_bytes account_scheme
         account_public_key_bytes recipient_address"
| "encode b (AccountRevokeRotationCapability to_be_revoked_address) = account_revoke_rotation_capability b
         to_be_revoked_address"
| "encode b (AccountRotateAuthenticationKey from_scheme from_public_key_bytes to_scheme to_public_key_bytes
         cap_rotate_key cap_update_table) = account_rotate_authentication_key b from_scheme from_public_key_bytes
         to_scheme to_public_key_bytes cap_rotate_key cap_update_table"
| "encode b (AccountRotateAuthenticationKeyWithRotationCapability rotation_cap_offerer_address new_scheme
         new_public_key_bytes cap_update_table) = account_rotate_authentication_key_with_rotation_capability b
         rotation_cap_offerer_address new_scheme new_public_key_bytes cap_update_table"
| "encode b ActivityMaybeFixMalformed = activity_maybe_fix_malformed b"
| "encode b (BurnSetSendCommunity community) = burn_set_send_community b community"
| "encode b (CodePublishPackageTxn metadata_serialized code) = code_publish_package_txn b metadata_serialized code"
| "encode b (CommunityWalletInitChangeSignerCommunityMultisig multisig_address new_signer is_add_operation n_of_m
         vote_duration_epochs) = community_wallet_init_change_signer_community_multisig b multisig_address
         new_signer is_add_operation n_of_m vote_duration_epochs"
| "encode b (CommunityWalletInitFinalizeAndCage num_signers) = community_wallet_init_finalize_and_cage b num_signers"
| "encode b (CommunityWalletInitInitCommunity initial_authorities check_threshold) =
         community_wallet_init_init_community b initial_authorities check_threshold"
| "encode b (CommunityWalletInitProposeOffer new_signers num_signers) = community_wallet_init_propose_offer b
         new_signers num_signers"
| "encode b (DiemGovernanceOlCreateProposalV2 execution_hash metadata_location metadata_hash
         is_multi_step_proposal) = diem_governance_ol_create_proposal_v2 b execution_hash metadata_location
         metadata_hash is_multi_step_proposal"
| "encode b (DiemGovernanceOlVote proposal_id should_pass) = diem_governance_ol_vote b proposal_id should_pass"
| "encode b DiemGovernanceSmokeTriggerEpoch = diem_governance_smoke_trigger_epoch b"
| "encode b DiemGovernanceTriggerEpoch = diem_governance_trigger_epoch b"
| "encode b (DonorVoiceTxsMaybeCloseReauth multisig_address) = donor_voice_txs_maybe_close_reauth b multisig_address"
| "encode b (DonorVoiceTxsProposeLiquidateTx multisig_address) = donor_voice_txs_propose_liquidate_tx b
         multisig_address"
| "encode b (DonorVoiceTxsProposePaymentTx multisig_address payee value description advance_unlocked) =
         donor_voice_txs_propose_payment_tx b multisig_address payee value description advance_unlocked"
| "encode b (DonorVoiceTxsProposeVetoTx multisig_address tx_id) = donor_voice_txs_propose_veto_tx b
         multisig_address tx_id"
| "encode b (DonorVoiceTxsVoteLiquidationTx multisig_address) = donor_voice_txs_vote_liquidation_tx b
         multisig_address"
| "encode b (DonorVoiceTxsVoteReauthTx multisig_address) = donor_voice_txs_vote_reauth_tx b multisig_address"
| "encode b EpochBoundarySmokeEnableTrigger = epoch_boundary_smoke_enable_trigger b"
| "encode b EpochBoundarySmokeTriggerEpoch = epoch_boundary_smoke_trigger_epoch b"
| "encode b FiloMigrationMaybeMigrate = filo_migration_maybe_migrate b"
| "encode b (JailUnjailByVoucher addr) = jail_unjail_by_voucher b addr"
| "encode b (LibraCoinMintToImpl dst_addr amount) = libra_coin_mint_to_impl b dst_addr amount"
| "encode b (MultiActionClaimOffer multisig_address) = multi_action_claim_offer b multisig_address"
| "encode b MultiActionInitGovDeprecated = multi_action_init_gov_deprecated b"
| "encode b (MultisigAccountAddOwner new_owner) = multisig_account_add_owner b new_owner"
| "encode b (MultisigAccountAddOwners new_owners) = multisig_account_add_owners b new_owners"
| "encode b (MultisigAccountRemoveOwner owner_to_remove) = multisig_account_remove_owner b owner_to_remove"
| "encode b (MultisigAccountRemoveOwners owners_to_remove) = multisig_account_remove_owners b owners_to_remove"
| "encode b (MultisigAccountUpdateMetadata keys values) = multisig_account_update_metadata b keys values"
| "encode b (MultisigAccountUpdateSignaturesRequired new_num_signatures_required) =
         multisig_account_update_signatures_required b new_num_signatures_required"
| "encode b (OlAccountCreateAccount auth_key) = ol_account_create_account b auth_key"
| "encode b (OlAccountTransfer to_account amount) = ol_account_transfer b to_account amount"
| "encode b (PageRankLazyRefreshCache user) = page_rank_lazy_refresh_cache b user"
| "encode b ProofOfFeePofRetractBid = proof_of_fee_pof_retract_bid b"
| "encode b (ProofOfFeePofUpdateBid bid epoch_expiry) = proof_of_fee_pof_update_bid b bid epoch_expiry"
| "encode b (ProofOfFeePofUpdateBidNetReward net_reward epoch_expiry) = proof_of_fee_pof_update_bid_net_reward b
         net_reward epoch_expiry"
| "encode b (SlowWalletSmokeTestVmUnlock user_addr unlocked transferred) = slow_wallet_smoke_test_vm_unlock b
         user_addr unlocked transferred"
| "encode b SlowWalletUserSetSlow = slow_wallet_user_set_slow b"
| "encode b (StakeInitializeValidator consensus_pubkey proof_of_possession network_addresses fullnode_addresses) =
         stake_initialize_validator b consensus_pubkey proof_of_possession network_addresses fullnode_addresses"
| "encode b (StakeUpdateNetworkAndFullnodeAddresses validator_address new_network_addresses new_fullnode_addresses)
         = stake_update_network_and_fullnode_addresses b validator_address new_network_addresses
         new_fullnode_addresses"
| "encode b (ValidatorUniverseRegisterValidator consensus_pubkey proof_of_possession network_addresses
         fullnode_addresses) = validator_universe_register_validator b consensus_pubkey proof_of_possession
         network_addresses fullnode_addresses"
| "encode b VouchTxsCleanExpired = vouch_txs_clean_expired b"
| "encode b (VouchTxsRevoke friend_account) = vouch_txs_revoke b friend_account"
| "encode b (VouchTxsVouchFor friend_account) = vouch_txs_vouch_for b friend_account"

definition dec_account_offer_rotation_capability :: "bcs \<Rightarrow> TxPayload \<Rightarrow> EntryFunctionCall
         option" where
  "dec_account_offer_rotation_capability b payload = with_entry payload (\<lambda>script.
     Option.bind (arg_at script 0 (ds_bytes b)) (\<lambda>rotation_capability_sig_bytes.
     Option.bind (arg_at script 1 (ds_u8 b)) (\<lambda>account_scheme.
     Option.bind (arg_at script 2 (ds_bytes b)) (\<lambda>account_public_key_bytes.
     Option.bind (arg_at script 3 (ds_addr b)) (\<lambda>recipient_address.
     Some (AccountOfferRotationCapability rotation_capability_sig_bytes account_scheme account_public_key_bytes
         recipient_address))))))"

definition dec_account_revoke_rotation_capability :: "bcs \<Rightarrow> TxPayload \<Rightarrow> EntryFunctionCall
         option" where
  "dec_account_revoke_rotation_capability b payload = with_entry payload (\<lambda>script.
     Option.bind (arg_at script 0 (ds_addr b)) (\<lambda>to_be_revoked_address.
     Some (AccountRevokeRotationCapability to_be_revoked_address)))"

definition dec_account_rotate_authentication_key :: "bcs \<Rightarrow> TxPayload \<Rightarrow> EntryFunctionCall
         option" where
  "dec_account_rotate_authentication_key b payload = with_entry payload (\<lambda>script.
     Option.bind (arg_at script 0 (ds_u8 b)) (\<lambda>from_scheme.
     Option.bind (arg_at script 1 (ds_bytes b)) (\<lambda>from_public_key_bytes.
     Option.bind (arg_at script 2 (ds_u8 b)) (\<lambda>to_scheme.
     Option.bind (arg_at script 3 (ds_bytes b)) (\<lambda>to_public_key_bytes.
     Option.bind (arg_at script 4 (ds_bytes b)) (\<lambda>cap_rotate_key.
     Option.bind (arg_at script 5 (ds_bytes b)) (\<lambda>cap_update_table.
     Some (AccountRotateAuthenticationKey from_scheme from_public_key_bytes to_scheme to_public_key_bytes
         cap_rotate_key cap_update_table))))))))"

definition dec_account_rotate_authentication_key_with_rotation_capability :: "bcs \<Rightarrow> TxPayload
         \<Rightarrow> EntryFunctionCall option" where
  "dec_account_rotate_authentication_key_with_rotation_capability b payload = with_entry payload (\<lambda>script.
     Option.bind (arg_at script 0 (ds_addr b)) (\<lambda>rotation_cap_offerer_address.
     Option.bind (arg_at script 1 (ds_u8 b)) (\<lambda>new_scheme.
     Option.bind (arg_at script 2 (ds_bytes b)) (\<lambda>new_public_key_bytes.
     Option.bind (arg_at script 3 (ds_bytes b)) (\<lambda>cap_update_table.
     Some (AccountRotateAuthenticationKeyWithRotationCapability rotation_cap_offerer_address new_scheme
         new_public_key_bytes cap_update_table))))))"

definition dec_activity_maybe_fix_malformed :: "bcs \<Rightarrow> TxPayload \<Rightarrow> EntryFunctionCall option"
         where
  "dec_activity_maybe_fix_malformed b payload = with_entry payload (\<lambda>script. Some ActivityMaybeFixMalformed)"

definition dec_burn_set_send_community :: "bcs \<Rightarrow> TxPayload \<Rightarrow> EntryFunctionCall option" where
  "dec_burn_set_send_community b payload = with_entry payload (\<lambda>script.
     Option.bind (arg_at script 0 (ds_bool b)) (\<lambda>community.
     Some (BurnSetSendCommunity community)))"

definition dec_code_publish_package_txn :: "bcs \<Rightarrow> TxPayload \<Rightarrow> EntryFunctionCall option" where
  "dec_code_publish_package_txn b payload = with_entry payload (\<lambda>script.
     Option.bind (arg_at script 0 (ds_bytes b)) (\<lambda>metadata_serialized.
     Option.bind (arg_at script 1 (ds_bytess b)) (\<lambda>code.
     Some (CodePublishPackageTxn metadata_serialized code))))"

definition dec_community_wallet_init_change_signer_community_multisig :: "bcs \<Rightarrow> TxPayload \<Rightarrow>
         EntryFunctionCall option" where
  "dec_community_wallet_init_change_signer_community_multisig b payload = with_entry payload (\<lambda>script.
     Option.bind (arg_at script 0 (ds_addr b)) (\<lambda>multisig_address.
     Option.bind (arg_at script 1 (ds_addr b)) (\<lambda>new_signer.
     Option.bind (arg_at script 2 (ds_bool b)) (\<lambda>is_add_operation.
     Option.bind (arg_at script 3 (ds_u64 b)) (\<lambda>n_of_m.
     Option.bind (arg_at script 4 (ds_u64 b)) (\<lambda>vote_duration_epochs.
     Some (CommunityWalletInitChangeSignerCommunityMultisig multisig_address new_signer is_add_operation n_of_m
         vote_duration_epochs)))))))"

definition dec_community_wallet_init_finalize_and_cage :: "bcs \<Rightarrow> TxPayload \<Rightarrow>
         EntryFunctionCall option" where
  "dec_community_wallet_init_finalize_and_cage b payload = with_entry payload (\<lambda>script.
     Option.bind (arg_at script 0 (ds_u64 b)) (\<lambda>num_signers.
     Some (CommunityWalletInitFinalizeAndCage num_signers)))"

definition dec_community_wallet_init_init_community :: "bcs \<Rightarrow> TxPayload \<Rightarrow> EntryFunctionCall
         option" where
  "dec_community_wallet_init_init_community b payload = with_entry payload (\<lambda>script.
     Option.bind (arg_at script 0 (ds_addrs b)) (\<lambda>initial_authorities.
     Option.bind (arg_at script 1 (ds_u64 b)) (\<lambda>check_threshold.
     Some (CommunityWalletInitInitCommunity initial_authorities check_threshold))))"

definition dec_community_wallet_init_propose_offer :: "bcs \<Rightarrow> TxPayload \<Rightarrow> EntryFunctionCall
         option" where
  "dec_community_wallet_init_propose_offer b payload = with_entry payload (\<lambda>script.
     Option.bind (arg_at script 0 (ds_addrs b)) (\<lambda>new_signers.
     Option.bind (arg_at script 1 (ds_u64 b)) (\<lambda>num_signers.
     Some (CommunityWalletInitProposeOffer new_signers num_signers))))"

definition dec_diem_governance_ol_create_proposal_v2 :: "bcs \<Rightarrow> TxPayload \<Rightarrow>
         EntryFunctionCall option" where
  "dec_diem_governance_ol_create_proposal_v2 b payload = with_entry payload (\<lambda>script.
     Option.bind (arg_at script 0 (ds_bytes b)) (\<lambda>execution_hash.
     Option.bind (arg_at script 1 (ds_bytes b)) (\<lambda>metadata_location.
     Option.bind (arg_at script 2 (ds_bytes b)) (\<lambda>metadata_hash.
     Option.bind (arg_at script 3 (ds_bool b)) (\<lambda>is_multi_step_proposal.
     Some (DiemGovernanceOlCreateProposalV2 execution_hash metadata_location metadata_hash
         is_multi_step_proposal))))))"

definition dec_diem_governance_ol_vote :: "bcs \<Rightarrow> TxPayload \<Rightarrow> EntryFunctionCall option" where
  "dec_diem_governance_ol_vote b payload = with_entry payload (\<lambda>script.
     Option.bind (arg_at script 0 (ds_u64 b)) (\<lambda>proposal_id.
     Option.bind (arg_at script 1 (ds_bool b)) (\<lambda>should_pass.
     Some (DiemGovernanceOlVote proposal_id should_pass))))"

definition dec_diem_governance_smoke_trigger_epoch :: "bcs \<Rightarrow> TxPayload \<Rightarrow> EntryFunctionCall
         option" where
  "dec_diem_governance_smoke_trigger_epoch b payload = with_entry payload (\<lambda>script. Some
         DiemGovernanceSmokeTriggerEpoch)"

definition dec_diem_governance_trigger_epoch :: "bcs \<Rightarrow> TxPayload \<Rightarrow> EntryFunctionCall
         option" where
  "dec_diem_governance_trigger_epoch b payload = with_entry payload (\<lambda>script. Some
         DiemGovernanceTriggerEpoch)"

definition dec_donor_voice_txs_maybe_close_reauth :: "bcs \<Rightarrow> TxPayload \<Rightarrow> EntryFunctionCall
         option" where
  "dec_donor_voice_txs_maybe_close_reauth b payload = with_entry payload (\<lambda>script.
     Option.bind (arg_at script 0 (ds_addr b)) (\<lambda>multisig_address.
     Some (DonorVoiceTxsMaybeCloseReauth multisig_address)))"

definition dec_donor_voice_txs_propose_liquidate_tx :: "bcs \<Rightarrow> TxPayload \<Rightarrow> EntryFunctionCall
         option" where
  "dec_donor_voice_txs_propose_liquidate_tx b payload = with_entry payload (\<lambda>script.
     Option.bind (arg_at script 0 (ds_addr b)) (\<lambda>multisig_address.
     Some (DonorVoiceTxsProposeLiquidateTx multisig_address)))"

definition dec_donor_voice_txs_propose_payment_tx :: "bcs \<Rightarrow> TxPayload \<Rightarrow> EntryFunctionCall
         option" where
  "dec_donor_voice_txs_propose_payment_tx b payload = with_entry payload (\<lambda>script.
     Option.bind (arg_at script 0 (ds_addr b)) (\<lambda>multisig_address.
     Option.bind (arg_at script 1 (ds_addr b)) (\<lambda>payee.
     Option.bind (arg_at script 2 (ds_u64 b)) (\<lambda>value.
     Option.bind (arg_at script 3 (ds_bytes b)) (\<lambda>description.
     Option.bind (arg_at script 4 (ds_bool b)) (\<lambda>advance_unlocked.
     Some (DonorVoiceTxsProposePaymentTx multisig_address payee value description advance_unlocked)))))))"

definition dec_donor_voice_txs_propose_veto_tx :: "bcs \<Rightarrow> TxPayload \<Rightarrow> EntryFunctionCall
         option" where
  "dec_donor_voice_txs_propose_veto_tx b payload = with_entry payload (\<lambda>script.
     Option.bind (arg_at script 0 (ds_addr b)) (\<lambda>multisig_address.
     Option.bind (arg_at script 1 (ds_u64 b)) (\<lambda>tx_id.
     Some (DonorVoiceTxsProposeVetoTx multisig_address tx_id))))"

definition dec_donor_voice_txs_vote_liquidation_tx :: "bcs \<Rightarrow> TxPayload \<Rightarrow> EntryFunctionCall
         option" where
  "dec_donor_voice_txs_vote_liquidation_tx b payload = with_entry payload (\<lambda>script.
     Option.bind (arg_at script 0 (ds_addr b)) (\<lambda>multisig_address.
     Some (DonorVoiceTxsVoteLiquidationTx multisig_address)))"

definition dec_donor_voice_txs_vote_reauth_tx :: "bcs \<Rightarrow> TxPayload \<Rightarrow> EntryFunctionCall
         option" where
  "dec_donor_voice_txs_vote_reauth_tx b payload = with_entry payload (\<lambda>script.
     Option.bind (arg_at script 0 (ds_addr b)) (\<lambda>multisig_address.
     Some (DonorVoiceTxsVoteReauthTx multisig_address)))"

definition dec_epoch_boundary_smoke_enable_trigger :: "bcs \<Rightarrow> TxPayload \<Rightarrow> EntryFunctionCall
         option" where
  "dec_epoch_boundary_smoke_enable_trigger b payload = with_entry payload (\<lambda>script. Some
         EpochBoundarySmokeEnableTrigger)"

definition dec_epoch_boundary_smoke_trigger_epoch :: "bcs \<Rightarrow> TxPayload \<Rightarrow> EntryFunctionCall
         option" where
  "dec_epoch_boundary_smoke_trigger_epoch b payload = with_entry payload (\<lambda>script. Some
         EpochBoundarySmokeTriggerEpoch)"

definition dec_filo_migration_maybe_migrate :: "bcs \<Rightarrow> TxPayload \<Rightarrow> EntryFunctionCall option"
         where
  "dec_filo_migration_maybe_migrate b payload = with_entry payload (\<lambda>script. Some FiloMigrationMaybeMigrate)"

definition dec_jail_unjail_by_voucher :: "bcs \<Rightarrow> TxPayload \<Rightarrow> EntryFunctionCall option" where
  "dec_jail_unjail_by_voucher b payload = with_entry payload (\<lambda>script.
     Option.bind (arg_at script 0 (ds_addr b)) (\<lambda>addr.
     Some (JailUnjailByVoucher addr)))"

definition dec_libra_coin_mint_to_impl :: "bcs \<Rightarrow> TxPayload \<Rightarrow> EntryFunctionCall option" where
  "dec_libra_coin_mint_to_impl b payload = with_entry payload (\<lambda>script.
     Option.bind (arg_at script 0 (ds_addr b)) (\<lambda>dst_addr.
     Option.bind (arg_at script 1 (ds_u64 b)) (\<lambda>amount.
     Some (LibraCoinMintToImpl dst_addr amount))))"

definition dec_multi_action_claim_offer :: "bcs \<Rightarrow> TxPayload \<Rightarrow> EntryFunctionCall option" where
  "dec_multi_action_claim_offer b payload = with_entry payload (\<lambda>script.
     Option.bind (arg_at script 0 (ds_addr b)) (\<lambda>multisig_address.
     Some (MultiActionClaimOffer multisig_address)))"

definition dec_multi_action_init_gov_deprecated :: "bcs \<Rightarrow> TxPayload \<Rightarrow> EntryFunctionCall
         option" where
  "dec_multi_action_init_gov_deprecated b payload = with_entry payload (\<lambda>script. Some
         MultiActionInitGovDeprecated)"

definition dec_multisig_account_add_owner :: "bcs \<Rightarrow> TxPayload \<Rightarrow> EntryFunctionCall option"
         where
  "dec_multisig_account_add_owner b payload = with_entry payload (\<lambda>script.
     Option.bind (arg_at script 0 (ds_addr b)) (\<lambda>new_owner.
     Some (MultisigAccountAddOwner new_owner)))"

definition dec_multisig_account_add_owners :: "bcs \<Rightarrow> TxPayload \<Rightarrow> EntryFunctionCall option"
         where
  "dec_multisig_account_add_owners b payload = with_entry payload (\<lambda>script.
     Option.bind (arg_at script 0 (ds_addrs b)) (\<lambda>new_owners.
     Some (MultisigAccountAddOwners new_owners)))"

definition dec_multisig_account_remove_owner :: "bcs \<Rightarrow> TxPayload \<Rightarrow> EntryFunctionCall
         option" where
  "dec_multisig_account_remove_owner b payload = with_entry payload (\<lambda>script.
     Option.bind (arg_at script 0 (ds_addr b)) (\<lambda>owner_to_remove.
     Some (MultisigAccountRemoveOwner owner_to_remove)))"

definition dec_multisig_account_remove_owners :: "bcs \<Rightarrow> TxPayload \<Rightarrow> EntryFunctionCall
         option" where
  "dec_multisig_account_remove_owners b payload = with_entry payload (\<lambda>script.
     Option.bind (arg_at script 0 (ds_addrs b)) (\<lambda>owners_to_remove.
     Some (MultisigAccountRemoveOwners owners_to_remove)))"

definition dec_multisig_account_update_metadata :: "bcs \<Rightarrow> TxPayload \<Rightarrow> EntryFunctionCall
         option" where
  "dec_multisig_account_update_metadata b payload = with_entry payload (\<lambda>script.
     Option.bind (arg_at script 0 (ds_bytess b)) (\<lambda>keys.
     Option.bind (arg_at script 1 (ds_bytess b)) (\<lambda>values.
     Some (MultisigAccountUpdateMetadata keys values))))"

definition dec_multisig_account_update_signatures_required :: "bcs \<Rightarrow> TxPayload \<Rightarrow>
         EntryFunctionCall option" where
  "dec_multisig_account_update_signatures_required b payload = with_entry payload (\<lambda>script.
     Option.bind (arg_at script 0 (ds_u64 b)) (\<lambda>new_num_signatures_required.
     Some (MultisigAccountUpdateSignaturesRequired new_num_signatures_required)))"

definition dec_ol_account_create_account :: "bcs \<Rightarrow> TxPayload \<Rightarrow> EntryFunctionCall option" where
  "dec_ol_account_create_account b payload = with_entry payload (\<lambda>script.
     Option.bind (arg_at script 0 (ds_addr b)) (\<lambda>auth_key.
     Some (OlAccountCreateAccount auth_key)))"

definition dec_ol_account_transfer :: "bcs \<Rightarrow> TxPayload \<Rightarrow> EntryFunctionCall option" where
  "dec_ol_account_transfer b payload = with_entry payload (\<lambda>script.
     Option.bind (arg_at script 0 (ds_addr b)) (\<lambda>to_account.
     Option.bind (arg_at script 1 (ds_u64 b)) (\<lambda>amount.
     Some (OlAccountTransfer to_account amount))))"

definition dec_page_rank_lazy_refresh_cache :: "bcs \<Rightarrow> TxPayload \<Rightarrow> EntryFunctionCall option"
         where
  "dec_page_rank_lazy_refresh_cache b payload = with_entry payload (\<lambda>script.
     Option.bind (arg_at script 0 (ds_addr b)) (\<lambda>user.
     Some (PageRankLazyRefreshCache user)))"

definition dec_proof_of_fee_pof_retract_bid :: "bcs \<Rightarrow> TxPayload \<Rightarrow> EntryFunctionCall option"
         where
  "dec_proof_of_fee_pof_retract_bid b payload = with_entry payload (\<lambda>script. Some ProofOfFeePofRetractBid)"

definition dec_proof_of_fee_pof_update_bid :: "bcs \<Rightarrow> TxPayload \<Rightarrow> EntryFunctionCall option"
         where
  "dec_proof_of_fee_pof_update_bid b payload = with_entry payload (\<lambda>script.
     Option.bind (arg_at script 0 (ds_u64 b)) (\<lambda>bid.
     Option.bind (arg_at script 1 (ds_u64 b)) (\<lambda>epoch_expiry.
     Some (ProofOfFeePofUpdateBid bid epoch_expiry))))"

definition dec_proof_of_fee_pof_update_bid_net_reward :: "bcs \<Rightarrow> TxPayload \<Rightarrow>
         EntryFunctionCall option" where
  "dec_proof_of_fee_pof_update_bid_net_reward b payload = with_entry payload (\<lambda>script.
     Option.bind (arg_at script 0 (ds_u64 b)) (\<lambda>net_reward.
     Option.bind (arg_at script 1 (ds_u64 b)) (\<lambda>epoch_expiry.
     Some (ProofOfFeePofUpdateBidNetReward net_reward epoch_expiry))))"

definition dec_slow_wallet_smoke_test_vm_unlock :: "bcs \<Rightarrow> TxPayload \<Rightarrow> EntryFunctionCall
         option" where
  "dec_slow_wallet_smoke_test_vm_unlock b payload = with_entry payload (\<lambda>script.
     Option.bind (arg_at script 0 (ds_addr b)) (\<lambda>user_addr.
     Option.bind (arg_at script 1 (ds_u64 b)) (\<lambda>unlocked.
     Option.bind (arg_at script 2 (ds_u64 b)) (\<lambda>transferred.
     Some (SlowWalletSmokeTestVmUnlock user_addr unlocked transferred)))))"

definition dec_slow_wallet_user_set_slow :: "bcs \<Rightarrow> TxPayload \<Rightarrow> EntryFunctionCall option" where
  "dec_slow_wallet_user_set_slow b payload = with_entry payload (\<lambda>script. Some SlowWalletUserSetSlow)"

definition dec_stake_initialize_validator :: "bcs \<Rightarrow> TxPayload \<Rightarrow> EntryFunctionCall option"
         where
  "dec_stake_initialize_validator b payload = with_entry payload (\<lambda>script.
     Option.bind (arg_at script 0 (ds_bytes b)) (\<lambda>consensus_pubkey.
     Option.bind (arg_at script 1 (ds_bytes b)) (\<lambda>proof_of_possession.
     Option.bind (arg_at script 2 (ds_bytes b)) (\<lambda>network_addresses.
     Option.bind (arg_at script 3 (ds_bytes b)) (\<lambda>fullnode_addresses.
     Some (StakeInitializeValidator consensus_pubkey proof_of_possession network_addresses fullnode_addresses))))))"

definition dec_stake_update_network_and_fullnode_addresses :: "bcs \<Rightarrow> TxPayload \<Rightarrow>
         EntryFunctionCall option" where
  "dec_stake_update_network_and_fullnode_addresses b payload = with_entry payload (\<lambda>script.
     Option.bind (arg_at script 0 (ds_addr b)) (\<lambda>validator_address.
     Option.bind (arg_at script 1 (ds_bytes b)) (\<lambda>new_network_addresses.
     Option.bind (arg_at script 2 (ds_bytes b)) (\<lambda>new_fullnode_addresses.
     Some (StakeUpdateNetworkAndFullnodeAddresses validator_address new_network_addresses new_fullnode_addresses)))))"

definition dec_validator_universe_register_validator :: "bcs \<Rightarrow> TxPayload \<Rightarrow>
         EntryFunctionCall option" where
  "dec_validator_universe_register_validator b payload = with_entry payload (\<lambda>script.
     Option.bind (arg_at script 0 (ds_bytes b)) (\<lambda>consensus_pubkey.
     Option.bind (arg_at script 1 (ds_bytes b)) (\<lambda>proof_of_possession.
     Option.bind (arg_at script 2 (ds_bytes b)) (\<lambda>network_addresses.
     Option.bind (arg_at script 3 (ds_bytes b)) (\<lambda>fullnode_addresses.
     Some (ValidatorUniverseRegisterValidator consensus_pubkey proof_of_possession network_addresses
         fullnode_addresses))))))"

definition dec_vouch_txs_clean_expired :: "bcs \<Rightarrow> TxPayload \<Rightarrow> EntryFunctionCall option" where
  "dec_vouch_txs_clean_expired b payload = with_entry payload (\<lambda>script. Some VouchTxsCleanExpired)"

definition dec_vouch_txs_revoke :: "bcs \<Rightarrow> TxPayload \<Rightarrow> EntryFunctionCall option" where
  "dec_vouch_txs_revoke b payload = with_entry payload (\<lambda>script.
     Option.bind (arg_at script 0 (ds_addr b)) (\<lambda>friend_account.
     Some (VouchTxsRevoke friend_account)))"

definition dec_vouch_txs_vouch_for :: "bcs \<Rightarrow> TxPayload \<Rightarrow> EntryFunctionCall option" where
  "dec_vouch_txs_vouch_for b payload = with_entry payload (\<lambda>script.
     Option.bind (arg_at script 0 (ds_addr b)) (\<lambda>friend_account.
     Some (VouchTxsVouchFor friend_account)))"

definition SCRIPT_FUNCTION_DECODER_MAP :: "(string \<times> (bcs \<Rightarrow> TxPayload \<Rightarrow>
         EntryFunctionCall option)) list" where
  "SCRIPT_FUNCTION_DECODER_MAP =
     [(''account_offer_rotation_capability'', dec_account_offer_rotation_capability),
      (''account_revoke_rotation_capability'', dec_account_revoke_rotation_capability),
      (''account_rotate_authentication_key'', dec_account_rotate_authentication_key),
      (''account_rotate_authentication_key_with_rotation_capability'',
         dec_account_rotate_authentication_key_with_rotation_capability),
      (''activity_maybe_fix_malformed'', dec_activity_maybe_fix_malformed),
      (''burn_set_send_community'', dec_burn_set_send_community),
      (''code_publish_package_txn'', dec_code_publish_package_txn),
      (''community_wallet_init_change_signer_community_multisig'',
         dec_community_wallet_init_change_signer_community_multisig),
      (''community_wallet_init_finalize_and_cage'', dec_community_wallet_init_finalize_and_cage),
      (''community_wallet_init_init_community'', dec_community_wallet_init_init_community),
      (''community_wallet_init_propose_offer'', dec_community_wallet_init_propose_offer),
      (''diem_governance_ol_create_proposal_v2'', dec_diem_governance_ol_create_proposal_v2),
      (''diem_governance_ol_vote'', dec_diem_governance_ol_vote),
      (''diem_governance_smoke_trigger_epoch'', dec_diem_governance_smoke_trigger_epoch),
      (''diem_governance_trigger_epoch'', dec_diem_governance_trigger_epoch),
      (''donor_voice_txs_maybe_close_reauth'', dec_donor_voice_txs_maybe_close_reauth),
      (''donor_voice_txs_propose_liquidate_tx'', dec_donor_voice_txs_propose_liquidate_tx),
      (''donor_voice_txs_propose_payment_tx'', dec_donor_voice_txs_propose_payment_tx),
      (''donor_voice_txs_propose_veto_tx'', dec_donor_voice_txs_propose_veto_tx),
      (''donor_voice_txs_vote_liquidation_tx'', dec_donor_voice_txs_vote_liquidation_tx),
      (''donor_voice_txs_vote_reauth_tx'', dec_donor_voice_txs_vote_reauth_tx),
      (''epoch_boundary_smoke_enable_trigger'', dec_epoch_boundary_smoke_enable_trigger),
      (''epoch_boundary_smoke_trigger_epoch'', dec_epoch_boundary_smoke_trigger_epoch),
      (''filo_migration_maybe_migrate'', dec_filo_migration_maybe_migrate),
      (''jail_unjail_by_voucher'', dec_jail_unjail_by_voucher),
      (''libra_coin_mint_to_impl'', dec_libra_coin_mint_to_impl),
      (''multi_action_claim_offer'', dec_multi_action_claim_offer),
      (''multi_action_init_gov_deprecated'', dec_multi_action_init_gov_deprecated),
      (''multisig_account_add_owner'', dec_multisig_account_add_owner),
      (''multisig_account_add_owners'', dec_multisig_account_add_owners),
      (''multisig_account_remove_owner'', dec_multisig_account_remove_owner),
      (''multisig_account_remove_owners'', dec_multisig_account_remove_owners),
      (''multisig_account_update_metadata'', dec_multisig_account_update_metadata),
      (''multisig_account_update_signatures_required'', dec_multisig_account_update_signatures_required),
      (''ol_account_create_account'', dec_ol_account_create_account),
      (''ol_account_transfer'', dec_ol_account_transfer),
      (''page_rank_lazy_refresh_cache'', dec_page_rank_lazy_refresh_cache),
      (''proof_of_fee_pof_retract_bid'', dec_proof_of_fee_pof_retract_bid),
      (''proof_of_fee_pof_update_bid'', dec_proof_of_fee_pof_update_bid),
      (''proof_of_fee_pof_update_bid_net_reward'', dec_proof_of_fee_pof_update_bid_net_reward),
      (''slow_wallet_smoke_test_vm_unlock'', dec_slow_wallet_smoke_test_vm_unlock),
      (''slow_wallet_user_set_slow'', dec_slow_wallet_user_set_slow),
      (''stake_initialize_validator'', dec_stake_initialize_validator),
      (''stake_update_network_and_fullnode_addresses'', dec_stake_update_network_and_fullnode_addresses),
      (''validator_universe_register_validator'', dec_validator_universe_register_validator),
      (''vouch_txs_clean_expired'', dec_vouch_txs_clean_expired),
      (''vouch_txs_revoke'', dec_vouch_txs_revoke),
      (''vouch_txs_vouch_for'', dec_vouch_txs_vouch_for)]"

definition decode :: "bcs \<Rightarrow> TxPayload \<Rightarrow> EntryFunctionCall option" where
  "decode b payload =
     with_entry payload (\<lambda>script.
       case map_of SCRIPT_FUNCTION_DECODER_MAP (en_module script @ ''_'' @ en_function script) of
         Some decoder \<Rightarrow> decoder b payload
       | None \<Rightarrow> None)"

text \<open>The addresses a call carries.\<close>

primrec call_addresses :: "EntryFunctionCall \<Rightarrow> account_address list" where
    "call_addresses (AccountOfferRotationCapability rotation_capability_sig_bytes account_scheme
         account_public_key_bytes recipient_address) = [recipient_address]"
  | "call_addresses (AccountRevokeRotationCapability to_be_revoked_address) = [to_be_revoked_address]"
  | "call_addresses (AccountRotateAuthenticationKey from_scheme from_public_key_bytes to_scheme to_public_key_bytes
         cap_rotate_key cap_update_table) = []"
  | "call_addresses (AccountRotateAuthenticationKeyWithRotationCapability rotation_cap_offerer_address new_scheme
         new_public_key_bytes cap_update_table) = [rotation_cap_offerer_address]"
  | "call_addresses ActivityMaybeFixMalformed = []"
  | "call_addresses (BurnSetSendCommunity community) = []"
  | "call_addresses (CodePublishPackageTxn metadata_serialized code) = []"
  | "call_addresses (CommunityWalletInitChangeSignerCommunityMultisig multisig_address new_signer is_add_operation
         n_of_m vote_duration_epochs) = [multisig_address] @ [new_signer]"
  | "call_addresses (CommunityWalletInitFinalizeAndCage num_signers) = []"
  | "call_addresses (CommunityWalletInitInitCommunity initial_authorities check_threshold) = initial_authorities"
  | "call_addresses (CommunityWalletInitProposeOffer new_signers num_signers) = new_signers"
  | "call_addresses (DiemGovernanceOlCreateProposalV2 execution_hash metadata_location metadata_hash
         is_multi_step_proposal) = []"
  | "call_addresses (DiemGovernanceOlVote proposal_id should_pass) = []"
  | "call_addresses DiemGovernanceSmokeTriggerEpoch = []"
  | "call_addresses DiemGovernanceTriggerEpoch = []"
  | "call_addresses (DonorVoiceTxsMaybeCloseReauth multisig_address) = [multisig_address]"
  | "call_addresses (DonorVoiceTxsProposeLiquidateTx multisig_address) = [multisig_address]"
  | "call_addresses (DonorVoiceTxsProposePaymentTx multisig_address payee value description advance_unlocked) =
         [multisig_address] @ [payee]"
  | "call_addresses (DonorVoiceTxsProposeVetoTx multisig_address tx_id) = [multisig_address]"
  | "call_addresses (DonorVoiceTxsVoteLiquidationTx multisig_address) = [multisig_address]"
  | "call_addresses (DonorVoiceTxsVoteReauthTx multisig_address) = [multisig_address]"
  | "call_addresses EpochBoundarySmokeEnableTrigger = []"
  | "call_addresses EpochBoundarySmokeTriggerEpoch = []"
  | "call_addresses FiloMigrationMaybeMigrate = []"
  | "call_addresses (JailUnjailByVoucher addr) = [addr]"
  | "call_addresses (LibraCoinMintToImpl dst_addr amount) = [dst_addr]"
  | "call_addresses (MultiActionClaimOffer multisig_address) = [multisig_address]"
  | "call_addresses MultiActionInitGovDeprecated = []"
  | "call_addresses (MultisigAccountAddOwner new_owner) = [new_owner]"
  | "call_addresses (MultisigAccountAddOwners new_owners) = new_owners"
  | "call_addresses (MultisigAccountRemoveOwner owner_to_remove) = [owner_to_remove]"
  | "call_addresses (MultisigAccountRemoveOwners owners_to_remove) = owners_to_remove"
  | "call_addresses (MultisigAccountUpdateMetadata keys values) = []"
  | "call_addresses (MultisigAccountUpdateSignaturesRequired new_num_signatures_required) = []"
  | "call_addresses (OlAccountCreateAccount auth_key) = [auth_key]"
  | "call_addresses (OlAccountTransfer to_account amount) = [to_account]"
  | "call_addresses (PageRankLazyRefreshCache user) = [user]"
  | "call_addresses ProofOfFeePofRetractBid = []"
  | "call_addresses (ProofOfFeePofUpdateBid bid epoch_expiry) = []"
  | "call_addresses (ProofOfFeePofUpdateBidNetReward net_reward epoch_expiry) = []"
  | "call_addresses (SlowWalletSmokeTestVmUnlock user_addr unlocked transferred) = [user_addr]"
  | "call_addresses SlowWalletUserSetSlow = []"
  | "call_addresses (StakeInitializeValidator consensus_pubkey proof_of_possession network_addresses
         fullnode_addresses) = []"
  | "call_addresses (StakeUpdateNetworkAndFullnodeAddresses validator_address new_network_addresses
         new_fullnode_addresses) = [validator_address]"
  | "call_addresses (ValidatorUniverseRegisterValidator consensus_pubkey proof_of_possession network_addresses
         fullnode_addresses) = []"
  | "call_addresses VouchTxsCleanExpired = []"
  | "call_addresses (VouchTxsRevoke friend_account) = [friend_account]"
  | "call_addresses (VouchTxsVouchFor friend_account) = [friend_account]"

lemma keys_distinct: "distinct (map fst SCRIPT_FUNCTION_DECODER_MAP)"
  by code_simp

lemma decoder_lookup:
  "map_of SCRIPT_FUNCTION_DECODER_MAP ''account_offer_rotation_capability'' = Some
         dec_account_offer_rotation_capability"
  "map_of SCRIPT_FUNCTION_DECODER_MAP ''account_revoke_rotation_capability'' = Some
         dec_account_revoke_rotation_capability"
  "map_of SCRIPT_FUNCTION_DECODER_MAP ''account_rotate_authentication_key'' = Some
         dec_account_rotate_authentication_key"
  "map_of SCRIPT_FUNCTION_DECODER_MAP ''account_rotate_authentication_key_with_rotation_capability'' = Some
         dec_account_rotate_authentication_key_with_rotation_capability"
  "map_of SCRIPT_FUNCTION_DECODER_MAP ''activity_maybe_fix_malformed'' = Some dec_activity_maybe_fix_malformed"
  "map_of SCRIPT_FUNCTION_DECODER_MAP ''burn_set_send_community'' = Some dec_burn_set_send_community"
  "map_of SCRIPT_FUNCTION_DECODER_MAP ''code_publish_package_txn'' = Some dec_code_publish_package_txn"
  "map_of SCRIPT_FUNCTION_DECODER_MAP ''community_wallet_init_change_signer_community_multisig'' = Some
         dec_community_wallet_init_change_signer_community_multisig"
  "map_of SCRIPT_FUNCTION_DECODER_MAP ''community_wallet_init_finalize_and_cage'' = Some
         dec_community_wallet_init_finalize_and_cage"
  "map_of SCRIPT_FUNCTION_DECODER_MAP ''community_wallet_init_init_community'' = Some
         dec_community_wallet_init_init_community"
  "map_of SCRIPT_FUNCTION_DECODER_MAP ''community_wallet_init_propose_offer'' = Some
         dec_community_wallet_init_propose_offer"
  "map_of SCRIPT_FUNCTION_DECODER_MAP ''diem_governance_ol_create_proposal_v2'' = Some
         dec_diem_governance_ol_create_proposal_v2"
  "map_of SCRIPT_FUNCTION_DECODER_MAP ''diem_governance_ol_vote'' = Some dec_diem_governance_ol_vote"
  "map_of SCRIPT_FUNCTION_DECODER_MAP ''diem_governance_smoke_trigger_epoch'' = Some
         dec_diem_governance_smoke_trigger_epoch"
  "map_of SCRIPT_FUNCTION_DECODER_MAP ''diem_governance_trigger_epoch'' = Some dec_diem_governance_trigger_epoch"
  "map_of SCRIPT_FUNCTION_DECODER_MAP ''donor_voice_txs_maybe_close_reauth'' = Some
         dec_donor_voice_txs_maybe_close_reauth"
  "map_of SCRIPT_FUNCTION_DECODER_MAP ''donor_voice_txs_propose_liquidate_tx'' = Some
         dec_donor_voice_txs_propose_liquidate_tx"
  "map_of SCRIPT_FUNCTION_DECODER_MAP ''donor_voice_txs_propose_payment_tx'' = Some
         dec_donor_voice_txs_propose_payment_tx"
  "map_of SCRIPT_FUNCTION_DECODER_MAP ''donor_voice_txs_propose_veto_tx'' = Some dec_donor_voice_txs_propose_veto_tx"
  "map_of SCRIPT_FUNCTION_DECODER_MAP ''donor_voice_txs_vote_liquidation_tx'' = Some
         dec_donor_voice_txs_vote_liquidation_tx"
  "map_of SCRIPT_FUNCTION_DECODER_MAP ''donor_voice_txs_vote_reauth_tx'' = Some dec_donor_voice_txs_vote_reauth_tx"
  "map_of SCRIPT_FUNCTION_DECODER_MAP ''epoch_boundary_smoke_enable_trigger'' = Some
         dec_epoch_boundary_smoke_enable_trigger"
  "map_of SCRIPT_FUNCTION_DECODER_MAP ''epoch_boundary_smoke_trigger_epoch'' = Some
         dec_epoch_boundary_smoke_trigger_epoch"
  "map_of SCRIPT_FUNCTION_DECODER_MAP ''filo_migration_maybe_migrate'' = Some dec_filo_migration_maybe_migrate"
  "map_of SCRIPT_FUNCTION_DECODER_MAP ''jail_unjail_by_voucher'' = Some dec_jail_unjail_by_voucher"
  "map_of SCRIPT_FUNCTION_DECODER_MAP ''libra_coin_mint_to_impl'' = Some dec_libra_coin_mint_to_impl"
  "map_of SCRIPT_FUNCTION_DECODER_MAP ''multi_action_claim_offer'' = Some dec_multi_action_claim_offer"
  "map_of SCRIPT_FUNCTION_DECODER_MAP ''multi_action_init_gov_deprecated'' = Some
         dec_multi_action_init_gov_deprecated"
  "map_of SCRIPT_FUNCTION_DECODER_MAP ''multisig_account_add_owner'' = Some dec_multisig_account_add_owner"
  "map_of SCRIPT_FUNCTION_DECODER_MAP ''multisig_account_add_owners'' = Some dec_multisig_account_add_owners"
  "map_of SCRIPT_FUNCTION_DECODER_MAP ''multisig_account_remove_owner'' = Some dec_multisig_account_remove_owner"
  "map_of SCRIPT_FUNCTION_DECODER_MAP ''multisig_account_remove_owners'' = Some dec_multisig_account_remove_owners"
  "map_of SCRIPT_FUNCTION_DECODER_MAP ''multisig_account_update_metadata'' = Some
         dec_multisig_account_update_metadata"
  "map_of SCRIPT_FUNCTION_DECODER_MAP ''multisig_account_update_signatures_required'' = Some
         dec_multisig_account_update_signatures_required"
  "map_of SCRIPT_FUNCTION_DECODER_MAP ''ol_account_create_account'' = Some dec_ol_account_create_account"
  "map_of SCRIPT_FUNCTION_DECODER_MAP ''ol_account_transfer'' = Some dec_ol_account_transfer"
  "map_of SCRIPT_FUNCTION_DECODER_MAP ''page_rank_lazy_refresh_cache'' = Some dec_page_rank_lazy_refresh_cache"
  "map_of SCRIPT_FUNCTION_DECODER_MAP ''proof_of_fee_pof_retract_bid'' = Some dec_proof_of_fee_pof_retract_bid"
  "map_of SCRIPT_FUNCTION_DECODER_MAP ''proof_of_fee_pof_update_bid'' = Some dec_proof_of_fee_pof_update_bid"
  "map_of SCRIPT_FUNCTION_DECODER_MAP ''proof_of_fee_pof_update_bid_net_reward'' = Some
         dec_proof_of_fee_pof_update_bid_net_reward"
  "map_of SCRIPT_FUNCTION_DECODER_MAP ''slow_wallet_smoke_test_vm_unlock'' = Some
         dec_slow_wallet_smoke_test_vm_unlock"
  "map_of SCRIPT_FUNCTION_DECODER_MAP ''slow_wallet_user_set_slow'' = Some dec_slow_wallet_user_set_slow"
  "map_of SCRIPT_FUNCTION_DECODER_MAP ''stake_initialize_validator'' = Some dec_stake_initialize_validator"
  "map_of SCRIPT_FUNCTION_DECODER_MAP ''stake_update_network_and_fullnode_addresses'' = Some
         dec_stake_update_network_and_fullnode_addresses"
  "map_of SCRIPT_FUNCTION_DECODER_MAP ''validator_universe_register_validator'' = Some
         dec_validator_universe_register_validator"
  "map_of SCRIPT_FUNCTION_DECODER_MAP ''vouch_txs_clean_expired'' = Some dec_vouch_txs_clean_expired"
  "map_of SCRIPT_FUNCTION_DECODER_MAP ''vouch_txs_revoke'' = Some dec_vouch_txs_revoke"
  "map_of SCRIPT_FUNCTION_DECODER_MAP ''vouch_txs_vouch_for'' = Some dec_vouch_txs_vouch_for"
  by (rule map_of_is_SomeI[OF keys_distinct];
      subst SCRIPT_FUNCTION_DECODER_MAP_def; (rule list.set_intros)+)+

lemmas sdk_builders =
  account_offer_rotation_capability_def account_revoke_rotation_capability_def
         account_rotate_authentication_key_def account_rotate_authentication_key_with_rotation_capability_def
         activity_maybe_fix_malformed_def burn_set_send_community_def code_publish_package_txn_def
         community_wallet_init_change_signer_community_multisig_def community_wallet_init_finalize_and_cage_def
         community_wallet_init_init_community_def community_wallet_init_propose_offer_def
         diem_governance_ol_create_proposal_v2_def diem_governance_ol_vote_def
         diem_governance_smoke_trigger_epoch_def diem_governance_trigger_epoch_def
         donor_voice_txs_maybe_close_reauth_def donor_voice_txs_propose_liquidate_tx_def
         donor_voice_txs_propose_payment_tx_def donor_voice_txs_propose_veto_tx_def
         donor_voice_txs_vote_liquidation_tx_def donor_voice_txs_vote_reauth_tx_def
         epoch_boundary_smoke_enable_trigger_def epoch_boundary_smoke_trigger_epoch_def
         filo_migration_maybe_migrate_def jail_unjail_by_voucher_def libra_coin_mint_to_impl_def
         multi_action_claim_offer_def multi_action_init_gov_deprecated_def multisig_account_add_owner_def
         multisig_account_add_owners_def multisig_account_remove_owner_def multisig_account_remove_owners_def
         multisig_account_update_metadata_def multisig_account_update_signatures_required_def
         ol_account_create_account_def ol_account_transfer_def page_rank_lazy_refresh_cache_def
         proof_of_fee_pof_retract_bid_def proof_of_fee_pof_update_bid_def
         proof_of_fee_pof_update_bid_net_reward_def slow_wallet_smoke_test_vm_unlock_def
         slow_wallet_user_set_slow_def stake_initialize_validator_def
         stake_update_network_and_fullnode_addresses_def validator_universe_register_validator_def
         vouch_txs_clean_expired_def vouch_txs_revoke_def vouch_txs_vouch_for_def

lemmas sdk_decoders =
  dec_account_offer_rotation_capability_def dec_account_revoke_rotation_capability_def
         dec_account_rotate_authentication_key_def
         dec_account_rotate_authentication_key_with_rotation_capability_def dec_activity_maybe_fix_malformed_def
         dec_burn_set_send_community_def dec_code_publish_package_txn_def
         dec_community_wallet_init_change_signer_community_multisig_def
         dec_community_wallet_init_finalize_and_cage_def dec_community_wallet_init_init_community_def
         dec_community_wallet_init_propose_offer_def dec_diem_governance_ol_create_proposal_v2_def
         dec_diem_governance_ol_vote_def dec_diem_governance_smoke_trigger_epoch_def
         dec_diem_governance_trigger_epoch_def dec_donor_voice_txs_maybe_close_reauth_def
         dec_donor_voice_txs_propose_liquidate_tx_def dec_donor_voice_txs_propose_payment_tx_def
         dec_donor_voice_txs_propose_veto_tx_def dec_donor_voice_txs_vote_liquidation_tx_def
         dec_donor_voice_txs_vote_reauth_tx_def dec_epoch_boundary_smoke_enable_trigger_def
         dec_epoch_boundary_smoke_trigger_epoch_def dec_filo_migration_maybe_migrate_def
         dec_jail_unjail_by_voucher_def dec_libra_coin_mint_to_impl_def dec_multi_action_claim_offer_def
         dec_multi_action_init_gov_deprecated_def dec_multisig_account_add_owner_def
         dec_multisig_account_add_owners_def dec_multisig_account_remove_owner_def
         dec_multisig_account_remove_owners_def dec_multisig_account_update_metadata_def
         dec_multisig_account_update_signatures_required_def dec_ol_account_create_account_def
         dec_ol_account_transfer_def dec_page_rank_lazy_refresh_cache_def dec_proof_of_fee_pof_retract_bid_def
         dec_proof_of_fee_pof_update_bid_def dec_proof_of_fee_pof_update_bid_net_reward_def
         dec_slow_wallet_smoke_test_vm_unlock_def dec_slow_wallet_user_set_slow_def
         dec_stake_initialize_validator_def dec_stake_update_network_and_fullnode_addresses_def
         dec_validator_universe_register_validator_def dec_vouch_txs_clean_expired_def dec_vouch_txs_revoke_def
         dec_vouch_txs_vouch_for_def

section \<open>Round trip\<close>

context bcs_args
begin

lemma decode_encode:
  assumes "list_all is_address (call_addresses call)"
  shows "decode b (encode b call) = Some call"
  using assms
  by (cases call) (simp_all add: decode_def sdk_builders entry_function_def decoder_lookup sdk_decoders arg_at_def)

end

text \<open>
  C32. Structured calls survive serialization: with BCS codecs that invert each other, decoding the payload of any of the
  calls (with addresses of 32 bytes) gives the call back.
\<close>

theorem sdk_roundtrip:
  assumes "bcs_args b" and "list_all is_address (call_addresses call)"
  shows "decode b (encode b call) = Some call"
  using assms by (rule bcs_args.decode_encode)

theorem sdk_roundtrip_witness:
  "decode ref_bcs (encode ref_bcs (OlAccountTransfer (replicate 32 7) 1000000)) =
     Some (OlAccountTransfer (replicate 32 7) 1000000)"
  by (rule sdk_roundtrip[OF ref_bcs.bcs_args_axioms]) simp

section \<open>What decoding does not look at\<close>

definition same_call :: "account_address \<Rightarrow> string list \<Rightarrow> bytes list \<Rightarrow> EntryFunction \<Rightarrow> EntryFunction" where
  "same_call a ts extra script = script\<lparr>en_address := a, en_ty_args := ts, en_args := en_args script @ extra\<rparr>"

lemma same_call_sel [simp]:
  "en_module (same_call a ts extra script) = en_module script"
  "en_function (same_call a ts extra script) = en_function script"
  by (simp_all add: same_call_def)

lemma arg_at_same_call [simp]:
  "arg_at script i f = Some x \<Longrightarrow> arg_at (same_call a ts extra script) i f = Some x"
  by (simp add: arg_at_def same_call_def nth_append split: if_splits)

definition loose :: "(bcs \<Rightarrow> TxPayload \<Rightarrow> EntryFunctionCall option) \<Rightarrow> bool" where
  "loose d \<longleftrightarrow> (\<forall>b a ts extra script c. d b (EntryFn script) = Some c \<longrightarrow> d b (EntryFn (same_call a ts extra script)) = Some c)"

lemma decoders_loose: "list_all (\<lambda>(k, d). loose d) SCRIPT_FUNCTION_DECODER_MAP"
  unfolding SCRIPT_FUNCTION_DECODER_MAP_def list.pred_inject prod.case
  by (intro conjI TrueI; simp add: loose_def sdk_decoders bind_eq_Some_conv; blast intro: arg_at_same_call)

text \<open>
  Decoding looks neither at the address of the module nor at type arguments nor at arguments past the expected
  ones: a payload for a module of the same name published by any other account decodes to the same framework call.
\<close>

theorem decode_ignores_module_address:
  assumes "decode b (EntryFn script) = Some call"
  shows "decode b (EntryFn (same_call a ts extra script)) = Some call"
proof -
  let ?k = "en_module script @ ''_'' @ en_function script"
  obtain d where d: "map_of SCRIPT_FUNCTION_DECODER_MAP ?k = Some d" and c: "d b (EntryFn script) = Some call"
    using assms by (auto simp: decode_def split: option.splits)
  have "loose d" using decoders_loose map_of_SomeD[OF d] by (auto simp: list_all_iff)
  with c d show ?thesis by (simp add: decode_def loose_def)
qed

theorem decode_ignores_module_address_witness:
  "decode ref_bcs (EntryFn (same_call (replicate 32 9) [''T''] [[1]]
     \<lparr>en_address = core_code_address, en_module = ''slow_wallet'', en_function = ''user_set_slow'', en_ty_args = [],
      en_args = []\<rparr>)) = Some SlowWalletUserSetSlow"
  by (rule decode_ignores_module_address) (simp add: decode_def decoder_lookup(42) dec_slow_wallet_user_set_slow_def)

end
