(* ===== verification/Wordlist.thy ===== *)
theory Wordlist
  imports Rust_Std
begin

text \<open>
  The static table \<open>WORDS\<close> of \<^verbatim>\<open>src/tools/wallet/src/core/mnemonic.rs\<close>: the 2048 English words of
  BIP39, in the order of the source, cut into blocks of source lines. The lemmas at the end are
  what the mnemonic codec needs of the table: its length, that it is strictly sorted (so binary
  search finds every word), and that no word holds a space.
\<close>

definition WORDS_01 :: "string list" where
  "WORDS_01 =
    [''abandon'', ''ability'', ''able'', ''about'', ''above'', ''absent'', ''absorb'',
     ''abstract'', ''absurd'', ''abuse'', ''access'', ''accident'', ''account'', ''accuse'',
     ''achieve'', ''acid'', ''acoustic'', ''acquire'', ''across'', ''act'', ''action'',
     ''actor'', ''actress'', ''actual'', ''adapt'', ''add'', ''addict'', ''address'',
     ''adjust'', ''admit'', ''adult'', ''advance'', ''advice'', ''aerobic'', ''affair'',
     ''afford'', ''afraid'', ''again'', ''age'', ''agent'', ''agree'', ''ahead'', ''aim'',
     ''air'', ''airport'', ''aisle'', ''alarm'', ''album'', ''alcohol'', ''alert'', ''alien'',
     ''all'', ''alley'', ''allow'', ''almost'', ''alone'', ''alpha'', ''already'', ''also'',
     ''alter'', ''always'', ''amateur'', ''amazing'', ''among'', ''amount'', ''amused'',
     ''analyst'', ''anchor'', ''ancient'', ''anger'', ''angle'', ''angry'', ''animal'',
     ''ankle'', ''announce'', ''annual'', ''another'', ''answer'', ''antenna'', ''antique'',
     ''anxiety'', ''any'', ''apart'', ''apology'', ''appear'', ''apple'', ''approve'',
     ''april'', ''arch'', ''arctic'', ''area'', ''arena'', ''argue'', ''arm'', ''armed'',
     ''armor'', ''army'', ''around'', ''arrange'', ''arrest'', ''arrive'', ''arrow'', ''art'',
     ''artefact'', ''artist'', ''artwork'', ''ask'', ''aspect'', ''assault'', ''asset'',
     ''assist'', ''assume'', ''asthma'', ''athlete'', ''atom'', ''attack'', ''attend'',
     ''attitude'', ''attract'', ''auction'', ''audit'', ''august'', ''aunt'', ''author'',
     ''auto'', ''autumn'', ''average'', ''avocado'', ''avoid'', ''awake'', ''aware'', ''away'',
     ''awesome'', ''awful'', ''awkward'', ''axis'', ''baby'', ''bachelor'', ''bacon'',
     ''badge'', ''bag'', ''balance'', ''balcony'', ''ball'', ''bamboo'', ''banana'', ''banner'',
     ''bar'', ''barely'', ''bargain'', ''barrel'', ''base'', ''basic'']"

definition WORDS_02 :: "string list" where
  "WORDS_02 =
    [''basket'', ''battle'', ''beach'', ''bean'', ''beauty'', ''because'', ''become'', ''beef'',
     ''before'', ''begin'', ''behave'', ''behind'', ''believe'', ''below'', ''belt'', ''bench'',
     ''benefit'', ''best'', ''betray'', ''better'', ''between'', ''beyond'', ''bicycle'',
     ''bid'', ''bike'', ''bind'', ''biology'', ''bird'', ''birth'', ''bitter'', ''black'',
     ''blade'', ''blame'', ''blanket'', ''blast'', ''bleak'', ''bless'', ''blind'', ''blood'',
     ''blossom'', ''blouse'', ''blue'', ''blur'', ''blush'', ''board'', ''boat'', ''body'',
     ''boil'', ''bomb'', ''bone'', ''bonus'', ''book'', ''boost'', ''border'', ''boring'',
     ''borrow'', ''boss'', ''bottom'', ''bounce'', ''box'', ''boy'', ''bracket'', ''brain'',
     ''brand'', ''brass'', ''brave'', ''bread'', ''breeze'', ''brick'', ''bridge'', ''brief'',
     ''bright'', ''bring'', ''brisk'', ''broccoli'', ''broken'', ''bronze'', ''broom'',
     ''brother'', ''brown'', ''brush'', ''bubble'', ''buddy'', ''budget'', ''buffalo'',
     ''build'', ''bulb'', ''bulk'', ''bullet'', ''bundle'', ''bunker'', ''burden'', ''burger'',
     ''burst'', ''bus'', ''business'', ''busy'', ''butter'', ''buyer'', ''buzz'', ''cabbage'',
     ''cabin'', ''cable'', ''cactus'', ''cage'', ''cake'', ''call'', ''calm'', ''camera'',
     ''camp'', ''can'', ''canal'', ''cancel'', ''candy'', ''cannon'', ''canoe'', ''canvas'',
     ''canyon'', ''capable'', ''capital'', ''captain'', ''car'', ''carbon'', ''card'',
     ''cargo'', ''carpet'', ''carry'', ''cart'', ''case'', ''cash'', ''casino'', ''castle'',
     ''casual'', ''cat'', ''catalog'', ''catch'', ''category'', ''cattle'', ''caught'',
     ''cause'', ''caution'', ''cave'', ''ceiling'', ''celery'', ''cement'', ''census'',
     ''century'', ''cereal'', ''certain'', ''chair'', ''chalk'', ''champion'', ''change'',
     ''chaos'', ''chapter'', ''charge'', ''chase'']"

definition WORDS_03 :: "string list" where
  "WORDS_03 =
    [''chat'', ''cheap'', ''check'', ''cheese'', ''chef'', ''cherry'', ''chest'', ''chicken'',
     ''chief'', ''child'', ''chimney'', ''choice'', ''choose'', ''chronic'', ''chuckle'',
     ''chunk'', ''churn'', ''cigar'', ''cinnamon'', ''circle'', ''citizen'', ''city'',
     ''civil'', ''claim'', ''clap'', ''clarify'', ''claw'', ''clay'', ''clean'', ''clerk'',
     ''clever'', ''click'', ''client'', ''cliff'', ''climb'', ''clinic'', ''clip'', ''clock'',
     ''clog'', ''close'', ''cloth'', ''cloud'', ''clown'', ''club'', ''clump'', ''cluster'',
     ''clutch'', ''coach'', ''coast'', ''coconut'', ''code'', ''coffee'', ''coil'', ''coin'',
     ''collect'', ''color'', ''column'', ''combine'', ''come'', ''comfort'', ''comic'',
     ''common'', ''company'', ''concert'', ''conduct'', ''confirm'', ''congress'', ''connect'',
     ''consider'', ''control'', ''convince'', ''cook'', ''cool'', ''copper'', ''copy'',
     ''coral'', ''core'', ''corn'', ''correct'', ''cost'', ''cotton'', ''couch'', ''country'',
     ''couple'', ''course'', ''cousin'', ''cover'', ''coyote'', ''crack'', ''cradle'',
     ''craft'', ''cram'', ''crane'', ''crash'', ''crater'', ''crawl'', ''crazy'', ''cream'',
     ''credit'', ''creek'', ''crew'', ''cricket'', ''crime'', ''crisp'', ''critic'', ''crop'',
     ''cross'', ''crouch'', ''crowd'', ''crucial'', ''cruel'', ''cruise'', ''crumble'',
     ''crunch'', ''crush'', ''cry'', ''crystal'', ''cube'', ''culture'', ''cup'', ''cupboard'',
     ''curious'', ''current'', ''curtain'', ''curve'', ''cushion'', ''custom'', ''cute'',
     ''cycle'', ''dad'', ''damage'', ''damp'', ''dance'', ''danger'', ''daring'', ''dash'',
     ''daughter'', ''dawn'', ''day'', ''deal'', ''debate'', ''debris'', ''decade'',
     ''december'', ''decide'', ''decline'', ''decorate'', ''decrease'', ''deer'', ''defense'',
     ''define'', ''defy'', ''degree'', ''delay'']"

definition WORDS_04 :: "string list" where
  "WORDS_04 =
    [''deliver'', ''demand'', ''demise'', ''denial'', ''dentist'', ''deny'', ''depart'',
     ''depend'', ''deposit'', ''depth'', ''deputy'', ''derive'', ''describe'', ''desert'',
     ''design'', ''desk'', ''despair'', ''destroy'', ''detail'', ''detect'', ''develop'',
     ''device'', ''devote'', ''diagram'', ''dial'', ''diamond'', ''diary'', ''dice'',
     ''diesel'', ''diet'', ''differ'', ''digital'', ''dignity'', ''dilemma'', ''dinner'',
     ''dinosaur'', ''direct'', ''dirt'', ''disagree'', ''discover'', ''disease'', ''dish'',
     ''dismiss'', ''disorder'', ''display'', ''distance'', ''divert'', ''divide'', ''divorce'',
     ''dizzy'', ''doctor'', ''document'', ''dog'', ''doll'', ''dolphin'', ''domain'',
     ''donate'', ''donkey'', ''donor'', ''door'', ''dose'', ''double'', ''dove'', ''draft'',
     ''dragon'', ''drama'', ''drastic'', ''draw'', ''dream'', ''dress'', ''drift'', ''drill'',
     ''drink'', ''drip'', ''drive'', ''drop'', ''drum'', ''dry'', ''duck'', ''dumb'', ''dune'',
     ''during'', ''dust'', ''dutch'', ''duty'', ''dwarf'', ''dynamic'', ''eager'', ''eagle'',
     ''early'', ''earn'', ''earth'', ''easily'', ''east'', ''easy'', ''echo'', ''ecology'',
     ''economy'', ''edge'', ''edit'', ''educate'', ''effort'', ''egg'', ''eight'', ''either'',
     ''elbow'', ''elder'', ''electric'', ''elegant'', ''element'', ''elephant'', ''elevator'',
     ''elite'', ''else'', ''embark'', ''embody'', ''embrace'', ''emerge'', ''emotion'',
     ''employ'', ''empower'', ''empty'', ''enable'', ''enact'', ''end'', ''endless'',
     ''endorse'', ''enemy'', ''energy'', ''enforce'', ''engage'', ''engine'', ''enhance'',
     ''enjoy'', ''enlist'', ''enough'', ''enrich'', ''enroll'', ''ensure'', ''enter'',
     ''entire'', ''entry'', ''envelope'', ''episode'', ''equal'', ''equip'', ''era'', ''erase'',
     ''erode'', ''erosion'', ''error'']"

definition WORDS_05 :: "string list" where
  "WORDS_05 =
    [''erupt'', ''escape'', ''essay'', ''essence'', ''estate'', ''eternal'', ''ethics'',
     ''evidence'', ''evil'', ''evoke'', ''evolve'', ''exact'', ''example'', ''excess'',
     ''exchange'', ''excite'', ''exclude'', ''excuse'', ''execute'', ''exercise'', ''exhaust'',
     ''exhibit'', ''exile'', ''exist'', ''exit'', ''exotic'', ''expand'', ''expect'',
     ''expire'', ''explain'', ''expose'', ''express'', ''extend'', ''extra'', ''eye'',
     ''eyebrow'', ''fabric'', ''face'', ''faculty'', ''fade'', ''faint'', ''faith'', ''fall'',
     ''false'', ''fame'', ''family'', ''famous'', ''fan'', ''fancy'', ''fantasy'', ''farm'',
     ''fashion'', ''fat'', ''fatal'', ''father'', ''fatigue'', ''fault'', ''favorite'',
     ''feature'', ''february'', ''federal'', ''fee'', ''feed'', ''feel'', ''female'', ''fence'',
     ''festival'', ''fetch'', ''fever'', ''few'', ''fiber'', ''fiction'', ''field'', ''figure'',
     ''file'', ''film'', ''filter'', ''final'', ''find'', ''fine'', ''finger'', ''finish'',
     ''fire'', ''firm'', ''first'', ''fiscal'', ''fish'', ''fit'', ''fitness'', ''fix'',
     ''flag'', ''flame'', ''flash'', ''flat'', ''flavor'', ''flee'', ''flight'', ''flip'',
     ''float'', ''flock'', ''floor'', ''flower'', ''fluid'', ''flush'', ''fly'', ''foam'',
     ''focus'', ''fog'', ''foil'', ''fold'', ''follow'', ''food'', ''foot'', ''force'',
     ''forest'', ''forget'', ''fork'', ''fortune'', ''forum'', ''forward'', ''fossil'',
     ''foster'', ''found'', ''fox'', ''fragile'', ''frame'', ''frequent'', ''fresh'',
     ''friend'', ''fringe'', ''frog'', ''front'', ''frost'', ''frown'', ''frozen'', ''fruit'',
     ''fuel'', ''fun'', ''funny'', ''furnace'', ''fury'', ''future'', ''gadget'', ''gain'',
     ''galaxy'', ''gallery'', ''game'', ''gap'', ''garage'', ''garbage'', ''garden'',
     ''garlic'', ''garment'', ''gas'', ''gasp'', ''gate'']"

definition WORDS_06 :: "string list" where
  "WORDS_06 =
    [''gather'', ''gauge'', ''gaze'', ''general'', ''genius'', ''genre'', ''gentle'',
     ''genuine'', ''gesture'', ''ghost'', ''giant'', ''gift'', ''giggle'', ''ginger'',
     ''giraffe'', ''girl'', ''give'', ''glad'', ''glance'', ''glare'', ''glass'', ''glide'',
     ''glimpse'', ''globe'', ''gloom'', ''glory'', ''glove'', ''glow'', ''glue'', ''goat'',
     ''goddess'', ''gold'', ''good'', ''goose'', ''gorilla'', ''gospel'', ''gossip'',
     ''govern'', ''gown'', ''grab'', ''grace'', ''grain'', ''grant'', ''grape'', ''grass'',
     ''gravity'', ''great'', ''green'', ''grid'', ''grief'', ''grit'', ''grocery'', ''group'',
     ''grow'', ''grunt'', ''guard'', ''guess'', ''guide'', ''guilt'', ''guitar'', ''gun'',
     ''gym'', ''habit'', ''hair'', ''half'', ''hammer'', ''hamster'', ''hand'', ''happy'',
     ''harbor'', ''hard'', ''harsh'', ''harvest'', ''hat'', ''have'', ''hawk'', ''hazard'',
     ''head'', ''health'', ''heart'', ''heavy'', ''hedgehog'', ''height'', ''hello'',
     ''helmet'', ''help'', ''hen'', ''hero'', ''hidden'', ''high'', ''hill'', ''hint'', ''hip'',
     ''hire'', ''history'', ''hobby'', ''hockey'', ''hold'', ''hole'', ''holiday'', ''hollow'',
     ''home'', ''honey'', ''hood'', ''hope'', ''horn'', ''horror'', ''horse'', ''hospital'',
     ''host'', ''hotel'', ''hour'', ''hover'', ''hub'', ''huge'', ''human'', ''humble'',
     ''humor'', ''hundred'', ''hungry'', ''hunt'', ''hurdle'', ''hurry'', ''hurt'', ''husband'',
     ''hybrid'', ''ice'', ''icon'', ''idea'', ''identify'', ''idle'', ''ignore'', ''ill'',
     ''illegal'', ''illness'', ''image'', ''imitate'', ''immense'', ''immune'', ''impact'',
     ''impose'', ''improve'', ''impulse'', ''inch'', ''include'', ''income'', ''increase'',
     ''index'', ''indicate'', ''indoor'', ''industry'', ''infant'', ''inflict'', ''inform'',
     ''inhale'', ''inherit'']"

definition WORDS_07 :: "string list" where
  "WORDS_07 =
    [''initial'', ''inject'', ''injury'', ''inmate'', ''inner'', ''innocent'', ''input'',
     ''inquiry'', ''insane'', ''insect'', ''inside'', ''inspire'', ''install'', ''intact'',
     ''interest'', ''into'', ''invest'', ''invite'', ''involve'', ''iron'', ''island'',
     ''isolate'', ''issue'', ''item'', ''ivory'', ''jacket'', ''jaguar'', ''jar'', ''jazz'',
     ''jealous'', ''jeans'', ''jelly'', ''jewel'', ''job'', ''join'', ''joke'', ''journey'',
     ''joy'', ''judge'', ''juice'', ''jump'', ''jungle'', ''junior'', ''junk'', ''just'',
     ''kangaroo'', ''keen'', ''keep'', ''ketchup'', ''key'', ''kick'', ''kid'', ''kidney'',
     ''kind'', ''kingdom'', ''kiss'', ''kit'', ''kitchen'', ''kite'', ''kitten'', ''kiwi'',
     ''knee'', ''knife'', ''knock'', ''know'', ''lab'', ''label'', ''labor'', ''ladder'',
     ''lady'', ''lake'', ''lamp'', ''language'', ''laptop'', ''large'', ''later'', ''latin'',
     ''laugh'', ''laundry'', ''lava'', ''law'', ''lawn'', ''lawsuit'', ''layer'', ''lazy'',
     ''leader'', ''leaf'', ''learn'', ''leave'', ''lecture'', ''left'', ''leg'', ''legal'',
     ''legend'', ''leisure'', ''lemon'', ''lend'', ''length'', ''lens'', ''leopard'',
     ''lesson'', ''letter'', ''level'', ''liar'', ''liberty'', ''library'', ''license'',
     ''life'', ''lift'', ''light'', ''like'', ''limb'', ''limit'', ''link'', ''lion'',
     ''liquid'', ''list'', ''little'', ''live'', ''lizard'', ''load'', ''loan'', ''lobster'',
     ''local'', ''lock'', ''logic'', ''lonely'', ''long'', ''loop'', ''lottery'', ''loud'',
     ''lounge'', ''love'', ''loyal'', ''lucky'', ''luggage'', ''lumber'', ''lunar'', ''lunch'',
     ''luxury'', ''lyrics'', ''machine'', ''mad'', ''magic'', ''magnet'', ''maid'', ''mail'',
     ''main'', ''major'', ''make'', ''mammal'', ''man'', ''manage'', ''mandate'', ''mango'',
     ''mansion'', ''manual'', ''maple'', ''marble'', ''march'', ''margin'', ''marine'']"

definition WORDS_08 :: "string list" where
  "WORDS_08 =
    [''market'', ''marriage'', ''mask'', ''mass'', ''master'', ''match'', ''material'',
     ''math'', ''matrix'', ''matter'', ''maximum'', ''maze'', ''meadow'', ''mean'', ''measure'',
     ''meat'', ''mechanic'', ''medal'', ''media'', ''melody'', ''melt'', ''member'', ''memory'',
     ''mention'', ''menu'', ''mercy'', ''merge'', ''merit'', ''merry'', ''mesh'', ''message'',
     ''metal'', ''method'', ''middle'', ''midnight'', ''milk'', ''million'', ''mimic'',
     ''mind'', ''minimum'', ''minor'', ''minute'', ''miracle'', ''mirror'', ''misery'',
     ''miss'', ''mistake'', ''mix'', ''mixed'', ''mixture'', ''mobile'', ''model'', ''modify'',
     ''mom'', ''moment'', ''monitor'', ''monkey'', ''monster'', ''month'', ''moon'', ''moral'',
     ''more'', ''morning'', ''mosquito'', ''mother'', ''motion'', ''motor'', ''mountain'',
     ''mouse'', ''move'', ''movie'', ''much'', ''muffin'', ''mule'', ''multiply'', ''muscle'',
     ''museum'', ''mushroom'', ''music'', ''must'', ''mutual'', ''myself'', ''mystery'',
     ''myth'', ''naive'', ''name'', ''napkin'', ''narrow'', ''nasty'', ''nation'', ''nature'',
     ''near'', ''neck'', ''need'', ''negative'', ''neglect'', ''neither'', ''nephew'',
     ''nerve'', ''nest'', ''net'', ''network'', ''neutral'', ''never'', ''news'', ''next'',
     ''nice'', ''night'', ''noble'', ''noise'', ''nominee'', ''noodle'', ''normal'', ''north'',
     ''nose'', ''notable'', ''note'', ''nothing'', ''notice'', ''novel'', ''now'', ''nuclear'',
     ''number'', ''nurse'', ''nut'', ''oak'', ''obey'', ''object'', ''oblige'', ''obscure'',
     ''observe'', ''obtain'', ''obvious'', ''occur'', ''ocean'', ''october'', ''odor'', ''off'',
     ''offer'', ''office'', ''often'', ''oil'', ''okay'', ''old'', ''olive'', ''olympic'',
     ''omit'', ''once'', ''one'', ''onion'', ''online'', ''only'', ''open'', ''opera'',
     ''opinion'', ''oppose'']"

definition WORDS_09 :: "string list" where
  "WORDS_09 =
    [''option'', ''orange'', ''orbit'', ''orchard'', ''order'', ''ordinary'', ''organ'',
     ''orient'', ''original'', ''orphan'', ''ostrich'', ''other'', ''outdoor'', ''outer'',
     ''output'', ''outside'', ''oval'', ''oven'', ''over'', ''own'', ''owner'', ''oxygen'',
     ''oyster'', ''ozone'', ''pact'', ''paddle'', ''page'', ''pair'', ''palace'', ''palm'',
     ''panda'', ''panel'', ''panic'', ''panther'', ''paper'', ''parade'', ''parent'', ''park'',
     ''parrot'', ''party'', ''pass'', ''patch'', ''path'', ''patient'', ''patrol'', ''pattern'',
     ''pause'', ''pave'', ''payment'', ''peace'', ''peanut'', ''pear'', ''peasant'',
     ''pelican'', ''pen'', ''penalty'', ''pencil'', ''people'', ''pepper'', ''perfect'',
     ''permit'', ''person'', ''pet'', ''phone'', ''photo'', ''phrase'', ''physical'', ''piano'',
     ''picnic'', ''picture'', ''piece'', ''pig'', ''pigeon'', ''pill'', ''pilot'', ''pink'',
     ''pioneer'', ''pipe'', ''pistol'', ''pitch'', ''pizza'', ''place'', ''planet'',
     ''plastic'', ''plate'', ''play'', ''please'', ''pledge'', ''pluck'', ''plug'', ''plunge'',
     ''poem'', ''poet'', ''point'', ''polar'', ''pole'', ''police'', ''pond'', ''pony'',
     ''pool'', ''popular'', ''portion'', ''position'', ''possible'', ''post'', ''potato'',
     ''pottery'', ''poverty'', ''powder'', ''power'', ''practice'', ''praise'', ''predict'',
     ''prefer'', ''prepare'', ''present'', ''pretty'', ''prevent'', ''price'', ''pride'',
     ''primary'', ''print'', ''priority'', ''prison'', ''private'', ''prize'', ''problem'',
     ''process'', ''produce'', ''profit'', ''program'', ''project'', ''promote'', ''proof'',
     ''property'', ''prosper'', ''protect'', ''proud'', ''provide'', ''public'', ''pudding'',
     ''pull'', ''pulp'', ''pulse'', ''pumpkin'', ''punch'', ''pupil'', ''puppy'', ''purchase'',
     ''purity'', ''purpose'']"

definition WORDS_10 :: "string list" where
  "WORDS_10 =
    [''purse'', ''push'', ''put'', ''puzzle'', ''pyramid'', ''quality'', ''quantum'',
     ''quarter'', ''question'', ''quick'', ''quit'', ''quiz'', ''quote'', ''rabbit'',
     ''raccoon'', ''race'', ''rack'', ''radar'', ''radio'', ''rail'', ''rain'', ''raise'',
     ''rally'', ''ramp'', ''ranch'', ''random'', ''range'', ''rapid'', ''rare'', ''rate'',
     ''rather'', ''raven'', ''raw'', ''razor'', ''ready'', ''real'', ''reason'', ''rebel'',
     ''rebuild'', ''recall'', ''receive'', ''recipe'', ''record'', ''recycle'', ''reduce'',
     ''reflect'', ''reform'', ''refuse'', ''region'', ''regret'', ''regular'', ''reject'',
     ''relax'', ''release'', ''relief'', ''rely'', ''remain'', ''remember'', ''remind'',
     ''remove'', ''render'', ''renew'', ''rent'', ''reopen'', ''repair'', ''repeat'',
     ''replace'', ''report'', ''require'', ''rescue'', ''resemble'', ''resist'', ''resource'',
     ''response'', ''result'', ''retire'', ''retreat'', ''return'', ''reunion'', ''reveal'',
     ''review'', ''reward'', ''rhythm'', ''rib'', ''ribbon'', ''rice'', ''rich'', ''ride'',
     ''ridge'', ''rifle'', ''right'', ''rigid'', ''ring'', ''riot'', ''ripple'', ''risk'',
     ''ritual'', ''rival'', ''river'', ''road'', ''roast'', ''robot'', ''robust'', ''rocket'',
     ''romance'', ''roof'', ''rookie'', ''room'', ''rose'', ''rotate'', ''rough'', ''round'',
     ''route'', ''royal'', ''rubber'', ''rude'', ''rug'', ''rule'', ''run'', ''runway'',
     ''rural'', ''sad'', ''saddle'', ''sadness'', ''safe'', ''sail'', ''salad'', ''salmon'',
     ''salon'', ''salt'', ''salute'', ''same'', ''sample'', ''sand'', ''satisfy'', ''satoshi'',
     ''sauce'', ''sausage'', ''save'', ''say'', ''scale'', ''scan'', ''scare'', ''scatter'',
     ''scene'', ''scheme'', ''school'', ''science'', ''scissors'', ''scorpion'', ''scout'',
     ''scrap'', ''screen'', ''script'', ''scrub'']"

definition WORDS_11 :: "string list" where
  "WORDS_11 =
    [''sea'', ''search'', ''season'', ''seat'', ''second'', ''secret'', ''section'',
     ''security'', ''seed'', ''seek'', ''segment'', ''select'', ''sell'', ''seminar'',
     ''senior'', ''sense'', ''sentence'', ''series'', ''service'', ''session'', ''settle'',
     ''setup'', ''seven'', ''shadow'', ''shaft'', ''shallow'', ''share'', ''shed'', ''shell'',
     ''sheriff'', ''shield'', ''shift'', ''shine'', ''ship'', ''shiver'', ''shock'', ''shoe'',
     ''shoot'', ''shop'', ''short'', ''shoulder'', ''shove'', ''shrimp'', ''shrug'',
     ''shuffle'', ''shy'', ''sibling'', ''sick'', ''side'', ''siege'', ''sight'', ''sign'',
     ''silent'', ''silk'', ''silly'', ''silver'', ''similar'', ''simple'', ''since'', ''sing'',
     ''siren'', ''sister'', ''situate'', ''six'', ''size'', ''skate'', ''sketch'', ''ski'',
     ''skill'', ''skin'', ''skirt'', ''skull'', ''slab'', ''slam'', ''sleep'', ''slender'',
     ''slice'', ''slide'', ''slight'', ''slim'', ''slogan'', ''slot'', ''slow'', ''slush'',
     ''small'', ''smart'', ''smile'', ''smoke'', ''smooth'', ''snack'', ''snake'', ''snap'',
     ''sniff'', ''snow'', ''soap'', ''soccer'', ''social'', ''sock'', ''soda'', ''soft'',
     ''solar'', ''soldier'', ''solid'', ''solution'', ''solve'', ''someone'', ''song'',
     ''soon'', ''sorry'', ''sort'', ''soul'', ''sound'', ''soup'', ''source'', ''south'',
     ''space'', ''spare'', ''spatial'', ''spawn'', ''speak'', ''special'', ''speed'', ''spell'',
     ''spend'', ''sphere'', ''spice'', ''spider'', ''spike'', ''spin'', ''spirit'', ''split'',
     ''spoil'', ''sponsor'', ''spoon'', ''sport'', ''spot'', ''spray'', ''spread'', ''spring'',
     ''spy'', ''square'', ''squeeze'', ''squirrel'', ''stable'', ''stadium'', ''staff'',
     ''stage'', ''stairs'', ''stamp'', ''stand'', ''start'', ''state'', ''stay'', ''steak'',
     ''steel'', ''stem'', ''step'', ''stereo'', ''stick'', ''still'']"

definition WORDS_12 :: "string list" where
  "WORDS_12 =
    [''sting'', ''stock'', ''stomach'', ''stone'', ''stool'', ''story'', ''stove'',
     ''strategy'', ''street'', ''strike'', ''strong'', ''struggle'', ''student'', ''stuff'',
     ''stumble'', ''style'', ''subject'', ''submit'', ''subway'', ''success'', ''such'',
     ''sudden'', ''suffer'', ''sugar'', ''suggest'', ''suit'', ''summer'', ''sun'', ''sunny'',
     ''sunset'', ''super'', ''supply'', ''supreme'', ''sure'', ''surface'', ''surge'',
     ''surprise'', ''surround'', ''survey'', ''suspect'', ''sustain'', ''swallow'', ''swamp'',
     ''swap'', ''swarm'', ''swear'', ''sweet'', ''swift'', ''swim'', ''swing'', ''switch'',
     ''sword'', ''symbol'', ''symptom'', ''syrup'', ''system'', ''table'', ''tackle'', ''tag'',
     ''tail'', ''talent'', ''talk'', ''tank'', ''tape'', ''target'', ''task'', ''taste'',
     ''tattoo'', ''taxi'', ''teach'', ''team'', ''tell'', ''ten'', ''tenant'', ''tennis'',
     ''tent'', ''term'', ''test'', ''text'', ''thank'', ''that'', ''theme'', ''then'',
     ''theory'', ''there'', ''they'', ''thing'', ''this'', ''thought'', ''three'', ''thrive'',
     ''throw'', ''thumb'', ''thunder'', ''ticket'', ''tide'', ''tiger'', ''tilt'', ''timber'',
     ''time'', ''tiny'', ''tip'', ''tired'', ''tissue'', ''title'', ''toast'', ''tobacco'',
     ''today'', ''toddler'', ''toe'', ''together'', ''toilet'', ''token'', ''tomato'',
     ''tomorrow'', ''tone'', ''tongue'', ''tonight'', ''tool'', ''tooth'', ''top'', ''topic'',
     ''topple'', ''torch'', ''tornado'', ''tortoise'', ''toss'', ''total'', ''tourist'',
     ''toward'', ''tower'', ''town'', ''toy'', ''track'', ''trade'', ''traffic'', ''tragic'',
     ''train'', ''transfer'', ''trap'', ''trash'', ''travel'', ''tray'', ''treat'', ''tree'',
     ''trend'', ''trial'', ''tribe'', ''trick'', ''trigger'', ''trim'', ''trip'', ''trophy'',
     ''trouble'', ''truck'', ''true'', ''truly'']"

definition WORDS_13 :: "string list" where
  "WORDS_13 =
    [''trumpet'', ''trust'', ''truth'', ''try'', ''tube'', ''tuition'', ''tumble'', ''tuna'',
     ''tunnel'', ''turkey'', ''turn'', ''turtle'', ''twelve'', ''twenty'', ''twice'', ''twin'',
     ''twist'', ''two'', ''type'', ''typical'', ''ugly'', ''umbrella'', ''unable'', ''unaware'',
     ''uncle'', ''uncover'', ''under'', ''undo'', ''unfair'', ''unfold'', ''unhappy'',
     ''uniform'', ''unique'', ''unit'', ''universe'', ''unknown'', ''unlock'', ''until'',
     ''unusual'', ''unveil'', ''update'', ''upgrade'', ''uphold'', ''upon'', ''upper'',
     ''upset'', ''urban'', ''urge'', ''usage'', ''use'', ''used'', ''useful'', ''useless'',
     ''usual'', ''utility'', ''vacant'', ''vacuum'', ''vague'', ''valid'', ''valley'',
     ''valve'', ''van'', ''vanish'', ''vapor'', ''various'', ''vast'', ''vault'', ''vehicle'',
     ''velvet'', ''vendor'', ''venture'', ''venue'', ''verb'', ''verify'', ''version'',
     ''very'', ''vessel'', ''veteran'', ''viable'', ''vibrant'', ''vicious'', ''victory'',
     ''video'', ''view'', ''village'', ''vintage'', ''violin'', ''virtual'', ''virus'',
     ''visa'', ''visit'', ''visual'', ''vital'', ''vivid'', ''vocal'', ''voice'', ''void'',
     ''volcano'', ''volume'', ''vote'', ''voyage'', ''wage'', ''wagon'', ''wait'', ''walk'',
     ''wall'', ''walnut'', ''want'', ''warfare'', ''warm'', ''warrior'', ''wash'', ''wasp'',
     ''waste'', ''water'', ''wave'', ''way'', ''wealth'', ''weapon'', ''wear'', ''weasel'',
     ''weather'', ''web'', ''wedding'', ''weekend'', ''weird'', ''welcome'', ''west'', ''wet'',
     ''whale'', ''what'', ''wheat'', ''wheel'', ''when'', ''where'', ''whip'', ''whisper'',
     ''wide'', ''width'', ''wife'', ''wild'', ''will'', ''win'', ''window'', ''wine'', ''wing'',
     ''wink'', ''winner'', ''winter'', ''wire'', ''wisdom'', ''wise'', ''wish'', ''witness'',
     ''wolf'', ''woman'', ''wonder'']"

definition WORDS_14 :: "string list" where
  "WORDS_14 =
    [''wood'', ''wool'', ''word'', ''work'', ''world'', ''worry'', ''worth'', ''wrap'',
     ''wreck'', ''wrestle'', ''wrist'', ''write'', ''wrong'', ''yard'', ''year'', ''yellow'',
     ''you'', ''young'', ''youth'', ''zebra'', ''zero'', ''zone'', ''zoo'']"

definition WORDS :: "string list" where
  "WORDS =
     WORDS_01 @ WORDS_02 @ WORDS_03 @ WORDS_04 @ WORDS_05 @ WORDS_06 @ WORDS_07 @
     WORDS_08 @ WORDS_09 @ WORDS_10 @ WORDS_11 @ WORDS_12 @ WORDS_13 @ WORDS_14"

text \<open>A block of the table: its length, its first and last word, its order, and no spaces.\<close>

definition word_block :: "nat \<Rightarrow> string \<Rightarrow> string \<Rightarrow> string list \<Rightarrow> bool" where
  "word_block n lo hi ws \<longleftrightarrow>
     length ws = n \<and> ws \<noteq> [] \<and> hd ws = lo \<and> last ws = hi \<and> successively (<) ws \<and>
     list_all (list_all (\<lambda>c. c \<noteq> CHR '' '')) ws"

lemma word_block_append:
  assumes "word_block m lo mid xs" and "word_block n mid' hi ys" and "mid < mid'"
  shows "word_block (m + n) lo hi (xs @ ys)"
  using assms by (simp add: word_block_def successively_append_iff)

lemma WORDS_01_block: "word_block 153 ''abandon'' ''basic'' WORDS_01"
  by code_simp

lemma WORDS_02_block: "word_block 157 ''basket'' ''chase'' WORDS_02"
  by code_simp

lemma WORDS_03_block: "word_block 154 ''chat'' ''delay'' WORDS_03"
  by code_simp

lemma WORDS_04_block: "word_block 151 ''deliver'' ''error'' WORDS_04"
  by code_simp

lemma WORDS_05_block: "word_block 156 ''erupt'' ''gate'' WORDS_05"
  by code_simp

lemma WORDS_06_block: "word_block 156 ''gather'' ''inherit'' WORDS_06"
  by code_simp

lemma WORDS_07_block: "word_block 162 ''initial'' ''marine'' WORDS_07"
  by code_simp

lemma WORDS_08_block: "word_block 156 ''market'' ''oppose'' WORDS_08"
  by code_simp

lemma WORDS_09_block: "word_block 151 ''option'' ''purpose'' WORDS_09"
  by code_simp

lemma WORDS_10_block: "word_block 155 ''purse'' ''scrub'' WORDS_10"
  by code_simp

lemma WORDS_11_block: "word_block 160 ''sea'' ''still'' WORDS_11"
  by code_simp

lemma WORDS_12_block: "word_block 157 ''sting'' ''truly'' WORDS_12"
  by code_simp

lemma WORDS_13_block: "word_block 157 ''trumpet'' ''wonder'' WORDS_13"
  by code_simp

lemma WORDS_14_block: "word_block 23 ''wood'' ''zoo'' WORDS_14"
  by code_simp

lemma WORDS_block: "word_block 2048 ''abandon'' ''zoo'' WORDS"
proof -
  have b13: "word_block 180 ''trumpet'' ''zoo'' (WORDS_13 @ WORDS_14)"
    using word_block_append[OF WORDS_13_block WORDS_14_block] by (simp add: less_char_def)
  have b12: "word_block 337 ''sting'' ''zoo'' (WORDS_12 @ WORDS_13 @ WORDS_14)"
    using word_block_append[OF WORDS_12_block b13] by (simp add: less_char_def)
  have b11: "word_block 497 ''sea'' ''zoo'' (WORDS_11 @ WORDS_12 @ WORDS_13 @ WORDS_14)"
    using word_block_append[OF WORDS_11_block b12] by (simp add: less_char_def)
  have b10: "word_block 652 ''purse'' ''zoo'' (WORDS_10 @ WORDS_11 @ WORDS_12 @ WORDS_13 @ WORDS_14)"
    using word_block_append[OF WORDS_10_block b11] by (simp add: less_char_def)
  have b9: "word_block 803 ''option'' ''zoo'' (WORDS_09 @ WORDS_10 @ WORDS_11 @ WORDS_12 @ WORDS_13 @ WORDS_14)"
    using word_block_append[OF WORDS_09_block b10] by (simp add: less_char_def)
  have b8: "word_block 959 ''market'' ''zoo'' (WORDS_08 @ WORDS_09 @ WORDS_10 @ WORDS_11 @ WORDS_12 @ WORDS_13 @ WORDS_14)"
    using word_block_append[OF WORDS_08_block b9] by (simp add: less_char_def)
  have b7: "word_block 1121 ''initial'' ''zoo'' (WORDS_07 @ WORDS_08 @ WORDS_09 @ WORDS_10 @ WORDS_11 @ WORDS_12 @ WORDS_13 @ WORDS_14)"
    using word_block_append[OF WORDS_07_block b8] by (simp add: less_char_def)
  have b6: "word_block 1277 ''gather'' ''zoo'' (WORDS_06 @ WORDS_07 @ WORDS_08 @ WORDS_09 @ WORDS_10 @ WORDS_11 @ WORDS_12 @ WORDS_13 @ WORDS_14)"
    using word_block_append[OF WORDS_06_block b7] by (simp add: less_char_def)
  have b5: "word_block 1433 ''erupt'' ''zoo'' (WORDS_05 @ WORDS_06 @ WORDS_07 @ WORDS_08 @ WORDS_09 @ WORDS_10 @ WORDS_11 @ WORDS_12 @ WORDS_13 @ WORDS_14)"
    using word_block_append[OF WORDS_05_block b6] by (simp add: less_char_def)
  have b4: "word_block 1584 ''deliver'' ''zoo'' (WORDS_04 @ WORDS_05 @ WORDS_06 @ WORDS_07 @ WORDS_08 @ WORDS_09 @ WORDS_10 @ WORDS_11 @ WORDS_12 @ WORDS_13 @ WORDS_14)"
    using word_block_append[OF WORDS_04_block b5] by (simp add: less_char_def)
  have b3: "word_block 1738 ''chat'' ''zoo'' (WORDS_03 @ WORDS_04 @ WORDS_05 @ WORDS_06 @ WORDS_07 @ WORDS_08 @ WORDS_09 @ WORDS_10 @ WORDS_11 @ WORDS_12 @ WORDS_13 @ WORDS_14)"
    using word_block_append[OF WORDS_03_block b4] by (simp add: less_char_def)
  have b2: "word_block 1895 ''basket'' ''zoo'' (WORDS_02 @ WORDS_03 @ WORDS_04 @ WORDS_05 @ WORDS_06 @ WORDS_07 @ WORDS_08 @ WORDS_09 @ WORDS_10 @ WORDS_11 @ WORDS_12 @ WORDS_13 @ WORDS_14)"
    using word_block_append[OF WORDS_02_block b3] by (simp add: less_char_def)
  have b1: "word_block 2048 ''abandon'' ''zoo'' (WORDS_01 @ WORDS_02 @ WORDS_03 @ WORDS_04 @ WORDS_05 @ WORDS_06 @ WORDS_07 @ WORDS_08 @ WORDS_09 @ WORDS_10 @ WORDS_11 @ WORDS_12 @ WORDS_13 @ WORDS_14)"
    using word_block_append[OF WORDS_01_block b2] by (simp add: less_char_def)
  show ?thesis using b1 by (simp add: WORDS_def)
qed

lemma WORDS_length [simp]: "length WORDS = 2048"
  using WORDS_block by (simp add: word_block_def)

lemma WORDS_sorted: "sorted_wrt (<) WORDS"
proof -
  have "successively (<) WORDS" using WORDS_block by (simp add: word_block_def)
  then show ?thesis by (simp add: successively_conv_sorted_wrt)
qed

lemma WORDS_no_space: "w \<in> set WORDS \<Longrightarrow> list_all (\<lambda>c. c \<noteq> CHR '' '') w"
  using WORDS_block by (auto simp: word_block_def list_all_iff)

lemma binary_search_WORDS: "i < 2048 \<Longrightarrow> binary_search WORDS (WORDS ! i) = Some i"
  by (rule binary_search_nth) (simp_all add: WORDS_sorted)

end
