(* ===== verification/Mnemonic.thy ===== *)
theory Mnemonic
  imports Wordlist Sha256
begin

text \<open>
  BIP39 mnemonics: \<^verbatim>\<open>src/tools/wallet/src/core/mnemonic.rs\<close>. \<open>Mnemonic::new\<close> reads an entropy
  string and its checksum eleven bits at a time (\<open>U11BitReader\<close>), \<open>Mnemonic::from\<close> parses a phrase
  and writes the word numbers back into bytes (\<open>U11BitWriter\<close>), checking the checksum.

  SHA-256 is third-party code: it is the parameter \<open>sha256\<close> of the definitions, and what they rely
  on is that a digest has 32 bytes (locale \<open>sha256_digest\<close>). Both bit machines are related to one
  specification over bit lists; the round-trip and canonicity theorems follow from it.
\<close>

section \<open>The model\<close>

type_synonym mnemonic = "string list"

text \<open>\<open>impl Display for Mnemonic\<close>.\<close>

definition Mnemonic_to_string :: "mnemonic \<Rightarrow> string" where
  "Mnemonic_to_string m = join '' '' m"

record U11BitReader =
  rd_bytes :: bytes
  position :: nat

definition U11BitReader_new :: "bytes \<Rightarrow> U11BitReader" where
  "U11BitReader_new bs = \<lparr>rd_bytes = bs, position = 0\<rparr>"

fun read_bits :: "bytes \<Rightarrow> nat list \<Rightarrow> u16 \<Rightarrow> u16 rres" where
  "read_bits bs [] value = Ok value"
| "read_bits bs (i # is) value =
     rbind (index bs (i div 8)) (\<lambda>byte.
       let shift = 7 - i mod 8;
           b = (ucast (drop_bit shift byte) AND 1 :: u16)
       in read_bits bs is (push_bit 1 value OR b))"

definition read_u11 :: "U11BitReader \<Rightarrow> (u16 \<times> U11BitReader) rres" where
  "read_u11 r =
     (let start_position = position r; end_position = start_position + 11
      in rbind (read_bits (rd_bytes r) [start_position..<end_position] 0) (\<lambda>value.
           Ok (value, r\<lparr>position := end_position\<rparr>)))"

record U11BitWriter =
  wr_bytes :: bytes
  unused :: nat
  buffer :: u16

definition U11BitWriter_new :: U11BitWriter where
  "U11BitWriter_new = \<lparr>wr_bytes = [], unused = 8, buffer = 0\<rparr>"

definition MASKS :: "u16 list" where
  "MASKS = [0, 1, 3, 7, 15, 31, 63, 127]"

fun write_full_bytes :: "nat \<Rightarrow> u16 \<Rightarrow> bytes \<Rightarrow> nat \<times> bytes" where
  "write_full_bytes nbits_remaining value bs =
     (if nbits_remaining \<ge> 8
      then write_full_bytes (nbits_remaining - 8) value
             (bs @ [ucast (drop_bit (nbits_remaining - 8) value)])
      else (nbits_remaining, bs))"

definition write_u11 :: "U11BitWriter \<Rightarrow> u16 \<Rightarrow> U11BitWriter" where
  "write_u11 w value =
     (let (nbits_remaining, w1) =
        (if 11 \<ge> unused w \<and> unused w < 8 then
           let excess_bits = 11 - unused w;
               buf = push_bit (unused w) (buffer w) OR (drop_bit excess_bits value AND MASKS ! unused w)
           in (excess_bits, \<lparr>wr_bytes = wr_bytes w @ [ucast buf], unused = 8, buffer = 0\<rparr>)
         else (11, w));
        (nbits, bs) = write_full_bytes nbits_remaining value (wr_bytes w1);
        w2 = w1\<lparr>wr_bytes := bs\<rparr>
      in if nbits > 0 then
           w2\<lparr>buffer := push_bit nbits (buffer w2) OR (value AND MASKS ! nbits),
              unused := unused w2 - nbits\<rparr>
         else w2)"

definition write_buffer :: "U11BitWriter \<Rightarrow> U11BitWriter" where
  "write_buffer w =
     (if unused w \<noteq> 8 then w\<lparr>wr_bytes := wr_bytes w @ [ucast (buffer w)]\<rparr> else w)"

fun read_words :: "nat \<Rightarrow> U11BitReader \<Rightarrow> mnemonic rres" where
  "read_words 0 r = Ok []"
| "read_words (Suc n) r =
     rbind (read_u11 r) (\<lambda>(v, r').
       rbind (index WORDS (unat v)) (\<lambda>w.
         rbind (read_words n r') (\<lambda>ws. Ok (w # ws))))"

definition Mnemonic_new :: "(bytes \<Rightarrow> bytes) \<Rightarrow> bytes \<Rightarrow> mnemonic rres" where
  "Mnemonic_new sha256 entropy =
     (let len = length entropy in
      if \<not> (16 \<le> len \<and> len \<le> 32) \<or> len mod 4 \<noteq> 0
      then Err ''Entropy data for mnemonic must have one of the following byte lengths: 32, 28, 24, 20, 16''
      else rbind (index (sha256 entropy) 0) (\<lambda>checksum.
             let mnemonic_len = len * 3 div 4
             in read_words mnemonic_len (U11BitReader_new (entropy @ [checksum]))))"

fun write_words :: "string list \<Rightarrow> mnemonic \<Rightarrow> U11BitWriter \<Rightarrow> (mnemonic \<times> U11BitWriter) rres" where
  "write_words [] m w = Ok (m, w)"
| "write_words (word # ws) m w =
     (case binary_search WORDS word of
        Some idx \<Rightarrow> rbind (index WORDS idx) (\<lambda>x. write_words ws (m @ [x]) (write_u11 w (of_nat idx)))
      | None \<Rightarrow> Err ''Mnemonic contains an unknown word'')"

definition Mnemonic_from :: "(bytes \<Rightarrow> bytes) \<Rightarrow> string \<Rightarrow> mnemonic rres" where
  "Mnemonic_from sha256 s =
     (let words = split_by (\<lambda>c. c = CHR '' '') s; len = length words in
      if \<not> (12 \<le> len \<and> len \<le> 24) \<or> len mod 3 \<noteq> 0
      then Err ''Mnemonic must have a word count of the following lengths: 24, 21, 18, 15, 12''
      else rbind (write_words words [] U11BitWriter_new) (\<lambda>(mnemonic, w).
        let bs = wr_bytes (write_buffer w) in
        if bs = [] then Panic ''internal error: entered unreachable code''
        else let checksum = last bs; entropy = butlast bs in
          rbind (index (sha256 entropy) 0) (\<lambda>d.
            if checksum \<noteq> drop_bit (8 - len div 3) d then Err ''Mnemonic checksum failed''
            else Ok mnemonic)))"

text \<open>The documented behaviour of SHA-256 the codec relies on.\<close>

locale sha256_digest =
  fixes sha256 :: "bytes \<Rightarrow> bytes"
  assumes digest_length: "length (sha256 bs) = 32"
begin

lemma digest_first: "index (sha256 bs) 0 = Ok (sha256 bs ! 0)"
  by (simp add: index_def digest_length)

end

interpretation fips: sha256_digest fips_sha256
  by unfold_locales simp

section \<open>Reading eleven bits at a time\<close>

lemma read_bits_spec:
  assumes "\<forall>i \<in> set is. i < 8 * length bs"
  shows "read_bits bs is v = Ok (foldl (\<lambda>v b. push_bit 1 v OR of_bool b) v (map (\<lambda>i. byte_bits bs ! i) is))"
  using assms
proof (induction "is" arbitrary: v)
  case Nil
  then show ?case by simp
next
  case (Cons i "is")
  then have i: "i < 8 * length bs" by simp
  have "(ucast (drop_bit (7 - i mod 8) (bs ! (i div 8))) AND 1 :: u16)
      = of_bool (bit (bs ! (i div 8)) (7 - i mod 8))"
  proof (rule bit_word_eqI)
    fix n assume "n < LENGTH(16)"
    show "bit (ucast (drop_bit (7 - i mod 8) (bs ! (i div 8))) AND 1 :: u16) n
        = bit (of_bool (bit (bs ! (i div 8)) (7 - i mod 8)) :: u16) n"
      by (cases n) (auto simp: bit_and_iff bit_1_iff bit_unsigned_iff bit_drop_bit_eq of_bool_def)
  qed
  with Cons i show ?case
    by (simp add: index_def nth_byte_bits Let_def)
qed

lemma read_u11_spec:
  assumes "position r + 11 \<le> 8 * length (rd_bytes r)"
  shows "read_u11 r = Ok (of_bits (take 11 (drop (position r) (byte_bits (rd_bytes r)))),
                          r\<lparr>position := position r + 11\<rparr>)"
proof -
  let ?bits = "byte_bits (rd_bytes r)"
  have "map (\<lambda>i. ?bits ! i) [position r..<position r + 11] = take 11 (drop (position r) ?bits)"
    using assms by (intro nth_equalityI) auto
  then show ?thesis
    using assms by (simp add: read_u11_def Let_def read_bits_spec of_bits_def)
qed

text \<open>The word selected by eleven bits, and the phrase selected by a bit list.\<close>

definition word_of :: "bool list \<Rightarrow> string" where
  "word_of bs = WORDS ! unat (of_bits bs :: u16)"

definition phrase_of :: "nat \<Rightarrow> bool list \<Rightarrow> mnemonic" where
  "phrase_of n bs = map (\<lambda>k. word_of (take 11 (drop (11 * k) bs))) [0..<n]"

lemma unat_of_bits_11: "length bs = 11 \<Longrightarrow> unat (of_bits bs :: u16) < 2048"
  using of_bits_bound[of bs, where 'a = 16] by simp

lemma phrase_of_Suc: "phrase_of (Suc n) bs = word_of (take 11 bs) # phrase_of n (drop 11 bs)"
  by (simp add: phrase_of_def upt_conv_Cons map_Suc_upt[symmetric] comp_def algebra_simps
      del: upt_Suc)

lemma read_words_spec:
  "position r + 11 * n \<le> 8 * length (rd_bytes r) \<Longrightarrow>
     read_words n r = Ok (phrase_of n (drop (position r) (byte_bits (rd_bytes r))))"
proof (induction n arbitrary: r)
  case 0
  then show ?case by (simp add: phrase_of_def)
next
  case (Suc n)
  let ?v = "take 11 (drop (position r) (byte_bits (rd_bytes r)))"
  have v: "unat (of_bits ?v :: u16) < 2048"
    using Suc.prems by (intro unat_of_bits_11) simp
  have "read_u11 r = Ok (of_bits ?v, r\<lparr>position := position r + 11\<rparr>)"
    using Suc.prems by (intro read_u11_spec) simp
  moreover have "read_words n (r\<lparr>position := position r + 11\<rparr>)
      = Ok (phrase_of n (drop (position r + 11) (byte_bits (rd_bytes r))))"
    using Suc.prems Suc.IH[of "r\<lparr>position := position r + 11\<rparr>"] by simp
  ultimately show ?case
    using v by (simp add: index_def phrase_of_Suc word_of_def add.commute)
qed

section \<open>Writing eleven bits at a time\<close>

text \<open>The bits a writer holds, and its invariant: the comment \<open>self.unused <= 8\<close> of the source, made inductive.\<close>

definition writer_bits :: "U11BitWriter \<Rightarrow> bool list" where
  "writer_bits w = byte_bits (wr_bytes w) @ bits_msb (8 - unused w) (buffer w)"

definition writer_inv :: "U11BitWriter \<Rightarrow> bool" where
  "writer_inv w \<longleftrightarrow> 1 \<le> unused w \<and> unused w \<le> 8 \<and> unat (buffer w) < 2 ^ (8 - unused w)"

lemma MASKS_mask: "n < 8 \<Longrightarrow> MASKS ! n = mask n"
proof -
  assume "n < 8"
  then have "n \<in> {0, 1, 2, 3, 4, 5, 6, 7}" by auto
  then show ?thesis by (auto simp: MASKS_def mask_eq_exp_minus_1)
qed

lemma writer_inv_new [simp]: "writer_inv U11BitWriter_new" "writer_bits U11BitWriter_new = []"
  by (simp_all add: writer_inv_def writer_bits_def U11BitWriter_new_def)

lemma write_full_bytes_spec:
  assumes "n \<le> 11"
  shows "write_full_bytes n v bs =
    (if n \<ge> 8 then (n - 8, bs @ [ucast (drop_bit (n - 8) v)]) else (n, bs))"
  using assms by (subst write_full_bytes.simps, subst write_full_bytes.simps) auto

text \<open>Writing the low \<open>n\<close> bits of a value into an empty buffer.\<close>

definition write_tail :: "nat \<Rightarrow> u16 \<Rightarrow> U11BitWriter \<Rightarrow> U11BitWriter" where
  "write_tail n value w =
     (let (nbits, bs) = write_full_bytes n value (wr_bytes w); w2 = w\<lparr>wr_bytes := bs\<rparr>
      in if nbits > 0 then
           w2\<lparr>buffer := push_bit nbits (buffer w2) OR (value AND MASKS ! nbits),
              unused := unused w2 - nbits\<rparr>
         else w2)"

lemma unat_and_mask: "n < 16 \<Longrightarrow> unat ((v :: u16) AND mask n) < 2 ^ n"
proof -
  assume "n < 16"
  have "unat (v AND mask n) = take_bit n (unat v)"
    by (simp add: unsigned_take_bit_eq flip: take_bit_eq_mask)
  then show ?thesis by simp
qed

lemma write_tail_spec:
  assumes "unused w = 8" "buffer w = 0" "n \<le> 11"
  shows "writer_bits (write_tail n v w) = byte_bits (wr_bytes w) @ bits_msb n v"
    and "writer_inv (write_tail n v w)"
proof -
  have low: "bits_msb k (v AND mask k) = bits_msb k v" if "k < 8" for k
    using that by (auto simp: bits_msb_def bit_and_iff bit_mask_iff)
  have full: "bits_msb 8 (ucast (drop_bit (n - 8) v) :: u8) @ bits_msb (n - 8) v = bits_msb n v"
    if "8 \<le> n"
    using that bits_msb_append[of 8 "n - 8" v] by (simp add: bits_msb_ucast)
  show "writer_bits (write_tail n v w) = byte_bits (wr_bytes w) @ bits_msb n v"
    using assms low[of n] low[of "n - 8"] full
    by (auto simp: write_tail_def writer_bits_def write_full_bytes_spec MASKS_mask Let_def)
  show "writer_inv (write_tail n v w)"
    using assms unat_and_mask[of n v] unat_and_mask[of "n - 8" v]
    by (auto simp: write_tail_def writer_inv_def write_full_bytes_spec MASKS_mask Let_def)
qed

lemma write_u11_alt:
  "writer_inv w \<Longrightarrow> write_u11 w v =
     (if unused w < 8 then
        write_tail (11 - unused w) v
          \<lparr>wr_bytes = wr_bytes w @
             [ucast (push_bit (unused w) (buffer w) OR (drop_bit (11 - unused w) v AND mask (unused w)))],
           unused = 8, buffer = 0\<rparr>
      else write_tail 11 v w)"
  by (auto simp: write_u11_def write_tail_def writer_inv_def Let_def MASKS_mask split: prod.splits)

lemma write_u11_spec:
  assumes "writer_inv w"
  shows "writer_bits (write_u11 w v) = writer_bits w @ bits_msb 11 v"
    and "writer_inv (write_u11 w v)"
proof -
  let ?u = "unused w"
  let ?b = "push_bit ?u (buffer w) OR (drop_bit (11 - ?u) v AND mask ?u)"
  have u: "1 \<le> ?u" "?u \<le> 8" using assms by (auto simp: writer_inv_def)
  have empty: "buffer w = 0" if "?u = 8"
    using that assms by (simp add: writer_inv_def unat_eq_zero)
  show "writer_inv (write_u11 w v)"
    using u by (cases "?u < 8") (auto simp: write_u11_alt[OF assms] empty intro!: write_tail_spec(2))
  show "writer_bits (write_u11 w v) = writer_bits w @ bits_msb 11 v"
  proof (cases "?u < 8")
    case True
    have "bits_msb 8 ?b = bits_msb (8 - ?u) (buffer w) @ bits_msb ?u (drop_bit (11 - ?u) v)"
      using bits_msb_combine[of "8 - ?u" ?u "buffer w"] u by simp
    then have "bits_msb 8 (ucast ?b :: u8) @ bits_msb (11 - ?u) v
        = bits_msb (8 - ?u) (buffer w) @ bits_msb 11 v"
      using bits_msb_append[of ?u "11 - ?u" v] u by (simp add: bits_msb_ucast)
    then show ?thesis
      using True assms by (simp add: write_u11_alt write_tail_spec(1) writer_bits_def[of w])
  next
    case False
    with u empty have "?u = 8" "buffer w = 0"
      by auto
    with assms show ?thesis
      by (simp add: write_u11_alt write_tail_spec(1) writer_bits_def[of w])
  qed
qed

text \<open>The bits of a list of word numbers.\<close>

definition index_bits :: "nat list \<Rightarrow> bool list" where
  "index_bits is = concat (map (\<lambda>i. bits_msb 11 (of_nat i :: u16)) is)"

lemma length_index_bits [simp]: "length (index_bits is) = 11 * length is"
  by (induction "is") (auto simp: index_bits_def)

lemma write_words_spec:
  assumes "\<forall>i \<in> set is. i < 2048" "writer_inv w"
  shows "\<exists>w'. write_words (map ((!) WORDS) is) m w = Ok (m @ map ((!) WORDS) is, w') \<and>
           writer_inv w' \<and> writer_bits w' = writer_bits w @ index_bits is"
  using assms
proof (induction "is" arbitrary: m w)
  case Nil
  then show ?case by (simp add: index_bits_def)
next
  case (Cons i "is")
  then show ?case
    using Cons.IH[of "write_u11 w (of_nat i)" "m @ [WORDS ! i]"]
    by (auto simp: binary_search_WORDS index_def write_u11_spec index_bits_def)
qed

lemma write_words_Ok:
  "write_words ws m w = Ok (m', w') \<Longrightarrow>
     \<exists>is. (\<forall>i \<in> set is. i < 2048) \<and> ws = map ((!) WORDS) is \<and> m' = m @ ws"
proof (induction ws arbitrary: m w)
  case Nil
  then show ?case by simp
next
  case (Cons x ws)
  then obtain i where i: "binary_search WORDS x = Some i"
    by (auto split: option.splits)
  then have x: "i < 2048" "WORDS ! i = x" using binary_search_Some[OF i] by auto
  with Cons i obtain js where "\<forall>i \<in> set js. i < 2048" "ws = map ((!) WORDS) js" "m' = (m @ [x]) @ ws"
    using Cons.IH[of "m @ [x]" "write_u11 w (of_nat i)"] by (auto simp: index_def)
  with x show ?case by (intro exI[of _ "i # js"]) auto
qed

text \<open>Flushing the writer: entropy bytes followed by the checksum bits as one byte.\<close>

lemma split_mod8: "8 * a + x = 8 * b + k \<Longrightarrow> x < 8 \<Longrightarrow> k < 8 \<Longrightarrow> a = b \<and> x = (k :: nat)"
  by presburger

lemma write_buffer_bytes:
  assumes "writer_inv w" "writer_bits w = byte_bits e @ cs" "0 < length cs" "length cs \<le> 8"
  shows "wr_bytes (write_buffer w) = e @ [of_bits cs]"
proof -
  let ?k = "length cs"
  have len: "8 * length (wr_bytes w) + (8 - unused w) = 8 * length e + ?k"
    using arg_cong[OF assms(2), of length] by (simp add: writer_bits_def)
  have u: "1 \<le> unused w" "unused w \<le> 8" using assms(1) by (auto simp: writer_inv_def)
  show ?thesis
  proof (cases "?k = 8")
    case True
    then have "unused w = 8"
      using len u split_mod8[of "length (wr_bytes w)" "8 - unused w" "Suc (length e)" 0] by simp
    moreover have "byte_bits (e @ [of_bits cs]) = byte_bits e @ cs"
      using True by (simp add: bits_msb_of_bits)
    ultimately have "byte_bits (wr_bytes w) = byte_bits (e @ [of_bits cs])"
      using assms(2) by (simp add: writer_bits_def)
    then have "wr_bytes w = e @ [of_bits cs]" by (rule byte_bits_inj)
    then show ?thesis using \<open>unused w = 8\<close> by (simp add: write_buffer_def)
  next
    case False
    then have k: "8 - unused w = ?k" "length (wr_bytes w) = length e"
      using len u assms(3,4) split_mod8[of "length (wr_bytes w)" "8 - unused w" "length e" ?k] by simp_all
    then have "byte_bits (wr_bytes w) = byte_bits e" and cs: "bits_msb ?k (buffer w) = cs"
      using assms(2) by (simp_all add: writer_bits_def)
    from this(1) have e: "wr_bytes w = e" by (rule byte_bits_inj)
    have "buffer w = of_bits cs"
      using cs assms(1) k False assms(4) of_bits_bound[of cs, where 'a = 16]
      by (intro bits_msb_inj[of ?k]) (auto simp: bits_msb_of_bits writer_inv_def)
    then have "ucast (buffer w) = (of_bits cs :: u8)"
      using assms(4) by (intro bit_word_eqI) (auto simp: bit_of_bits bit_unsigned_iff)
    moreover have "unused w \<noteq> 8" using k False assms(3) by auto
    ultimately show ?thesis using e by (simp add: write_buffer_def)
  qed
qed

section \<open>Phrases and word numbers\<close>

definition indices_of :: "nat \<Rightarrow> bool list \<Rightarrow> nat list" where
  "indices_of n bs = map (\<lambda>k. unat (of_bits (take 11 (drop (11 * k) bs)) :: u16)) [0..<n]"

lemma length_indices_of [simp]: "length (indices_of n bs) = n"
  by (simp add: indices_of_def)

lemma indices_of_Suc:
  "indices_of (Suc n) bs = unat (of_bits (take 11 bs) :: u16) # indices_of n (drop 11 bs)"
  by (simp add: indices_of_def upt_conv_Cons map_Suc_upt[symmetric] comp_def algebra_simps
      del: upt_Suc)

lemma phrase_of_indices: "phrase_of n bs = map ((!) WORDS) (indices_of n bs)"
  by (simp add: phrase_of_def indices_of_def word_of_def)

lemma indices_of_bound: "11 * n \<le> length bs \<Longrightarrow> \<forall>i \<in> set (indices_of n bs). i < 2048"
  by (auto simp: indices_of_def intro!: unat_of_bits_11)

lemma index_bits_indices_of: "11 * n \<le> length bs \<Longrightarrow> index_bits (indices_of n bs) = take (11 * n) bs"
proof (induction n arbitrary: bs)
  case 0
  then show ?case by (simp add: index_bits_def indices_of_def)
next
  case (Suc n)
  have "take (11 * Suc n) bs = take 11 bs @ take (11 * n) (drop 11 bs)"
    by (simp add: take_add)
  moreover have "bits_msb 11 (of_bits (take 11 bs) :: u16) = take 11 bs"
    using Suc.prems by (intro bits_msb_of_bits) auto
  ultimately show ?case
    using Suc by (simp add: indices_of_Suc index_bits_def)
qed

lemma of_bits_bits_msb_11: "i < 2048 \<Longrightarrow> unat (of_bits (bits_msb 11 (of_nat i :: u16)) :: u16) = i"
proof -
  assume i: "i < 2048"
  then have u: "unat (of_nat i :: u16) = i" by (simp add: unat_of_nat)
  have "(of_bits (bits_msb 11 (of_nat i :: u16)) :: u16) = of_nat i"
    using i u of_bits_bound[of "bits_msb 11 (of_nat i :: u16)", where 'a = 16]
    by (intro bits_msb_inj[of 11]) (simp_all add: bits_msb_of_bits)
  then show ?thesis using u by simp
qed

lemma indices_of_index_bits:
  "\<forall>i \<in> set is. i < 2048 \<Longrightarrow> indices_of (length is) (index_bits is @ r) = is"
proof (induction "is")
  case Nil
  then show ?case by (simp add: indices_of_def)
next
  case (Cons i "is")
  then show ?case
    by (simp add: indices_of_Suc index_bits_def of_bits_bits_msb_11)
qed

lemma map_WORDS_inj:
  assumes "\<forall>i \<in> set is. i < 2048" "\<forall>j \<in> set js. j < 2048" "map ((!) WORDS) is = map ((!) WORDS) js"
  shows "is = js"
  using assms
proof (induction "is" arbitrary: js)
  case Nil
  then show ?case by simp
next
  case (Cons i "is")
  then obtain j ks where "js = j # ks" by (cases js) auto
  moreover from this Cons.prems have "Some i = Some j"
    using binary_search_WORDS[of i] binary_search_WORDS[of j] by (metis list.set_intros(1) list.inject list.simps(9))
  moreover have "is = ks" using calculation(1) Cons.prems by (intro Cons.IH) simp_all
  ultimately show ?case by simp
qed

lemma of_bits_checksum: "k \<le> 8 \<Longrightarrow> of_bits (take k (bits_msb 8 c)) = drop_bit (8 - k) (c :: u8)"
proof (rule bit_word_eqI)
  fix n assume k: "k \<le> 8"
  have off: "\<not> bit c (8 - k + n)" if "\<not> n < k" using that k by (intro impossible_bit) simp
  have "8 - 1 - (k - 1 - n) = 8 - k + n" if "n < k" using that k by simp
  then show "bit (of_bits (take k (bits_msb 8 c)) :: u8) n = bit (drop_bit (8 - k) c) n"
    using k off by (cases "n < k") (simp_all add: bit_of_bits nth_bits_msb bit_drop_bit_eq min_def)
qed

section \<open>Both directions over bit lists\<close>

lemma Mnemonic_new_spec:
  assumes "sha256_digest sha" "4 \<le> k" "k \<le> 8" "length e = 4 * k"
  shows "Mnemonic_new sha e = Ok (phrase_of (3 * k) (byte_bits e @ bits_msb 8 (sha e ! 0)))"
  using assms
  by (simp add: Mnemonic_new_def sha256_digest.digest_first Let_def read_words_spec U11BitReader_new_def)

lemma Mnemonic_new_Ok:
  assumes "Mnemonic_new sha e = Ok m"
  obtains k where "4 \<le> k" "k \<le> 8" "length e = 4 * k"
proof
  let ?k = "length e div 4"
  have "16 \<le> length e" "length e \<le> 32" "length e mod 4 = 0"
    using assms by (auto simp: Mnemonic_new_def Let_def split: if_splits)
  then show "4 \<le> ?k" "?k \<le> 8" "length e = 4 * ?k" by auto
qed

lemma words_no_space: "\<forall>i \<in> set is. i < 2048 \<Longrightarrow> list_all (list_all (\<lambda>c. c \<noteq> CHR '' '')) (map ((!) WORDS) is)"
  using WORDS_no_space[OF nth_mem] by (auto simp: list_all_iff)

lemma Mnemonic_from_spec:
  assumes sha: "sha256_digest sha" and k: "4 \<le> k" "k \<le> 8"
    and "is": "length is = 3 * k" "\<forall>i \<in> set is. i < 2048"
    and bits: "index_bits is = byte_bits e @ cs" "length cs = k"
  shows "Mnemonic_from sha (Mnemonic_to_string (map ((!) WORDS) is)) =
    (if of_bits cs \<noteq> drop_bit (8 - k) (sha e ! 0) then Err ''Mnemonic checksum failed''
     else Ok (map ((!) WORDS) is))"
proof -
  let ?ws = "map ((!) WORDS) is"
  have split: "split_by (\<lambda>c. c = CHR '' '') (Mnemonic_to_string ?ws) = ?ws"
    unfolding Mnemonic_to_string_def
    using "is" k words_no_space[OF "is"(2)] by (intro split_by_join) auto
  obtain w where w: "write_words ?ws [] U11BitWriter_new = Ok (?ws, w)"
      "writer_inv w" "writer_bits w = index_bits is"
    using write_words_spec[OF "is"(2), of U11BitWriter_new "[]"] by auto
  then have "wr_bytes (write_buffer w) = e @ [of_bits cs]"
    using bits k by (intro write_buffer_bytes) auto
  moreover have "(3 * k) div 3 = k" by simp
  ultimately show ?thesis
    using w(1) "is"(1) k
    by (simp add: Mnemonic_from_def split Let_def sha256_digest.digest_first[OF sha])
qed

text \<open>Any phrase with a legal number of known words splits into entropy and checksum bits.\<close>

lemma byte_bits_of_bits: "8 dvd length bs \<Longrightarrow> \<exists>e. byte_bits e = bs \<and> 8 * length e = length bs"
proof (induction "length bs" arbitrary: bs rule: less_induct)
  case less
  show ?case
  proof (cases "bs = []")
    case True
    then show ?thesis by (intro exI[of _ "[]"]) simp
  next
    case False
    with less.prems have len: "8 \<le> length bs" by (auto dest: dvd_imp_le)
    then have "8 dvd length (drop 8 bs)" using less.prems by (simp add: dvd_diff_nat)
    then obtain e where e: "byte_bits e = drop 8 bs" "8 * length e = length (drop 8 bs)"
      using less.hyps[of "drop 8 bs"] len False by (metis diff_less length_drop length_greater_0_conv zero_less_numeral)
    have "byte_bits (of_bits (take 8 bs) # e) = bs"
      using e len by (simp add: bits_msb_of_bits)
    then show ?thesis using e len by (intro exI[of _ "of_bits (take 8 bs) # e"]) auto
  qed
qed

lemma index_bits_split:
  assumes "length is = 3 * k"
  obtains e cs where "index_bits is = byte_bits e @ cs" "length e = 4 * k" "length cs = k"
proof -
  let ?b = "index_bits is"
  have len: "length (take (32 * k) ?b) = 32 * k" using assms by simp
  then have "8 dvd length (take (32 * k) ?b)" by simp
  from byte_bits_of_bits[OF this] obtain e where "byte_bits e = take (32 * k) ?b" "8 * length e = 32 * k"
    unfolding len by blast
  then have "?b = byte_bits e @ drop (32 * k) ?b" "length e = 4 * k" by auto
  with assms show thesis by (intro that) auto
qed

lemma Mnemonic_from_Ok:
  assumes "Mnemonic_from sha s = Ok m"
  obtains k "is" where "4 \<le> k" "k \<le> 8" "length is = 3 * k" "\<forall>i \<in> set is. i < 2048"
    "m = map ((!) WORDS) is" "Mnemonic_to_string m = s"
proof -
  let ?ws = "split_by (\<lambda>c. c = CHR '' '') s"
  have n: "12 \<le> length ?ws" "length ?ws \<le> 24" "length ?ws mod 3 = 0"
    using assms by (auto simp: Mnemonic_from_def Let_def split: if_splits)
  obtain w where "write_words ?ws [] U11BitWriter_new = Ok (m, w)"
    using assms by (auto simp: Mnemonic_from_def Let_def rust_simps split: if_splits)
  then obtain "is" where "is": "\<forall>i \<in> set is. i < 2048" "?ws = map ((!) WORDS) is" "m = ?ws"
    using write_words_Ok[of ?ws "[]" U11BitWriter_new m w] by (metis append_Nil)
  have len: "length is = length ?ws" using "is"(2) by (metis length_map)
  have str: "Mnemonic_to_string m = s"
    using "is"(3) by (simp add: Mnemonic_to_string_def join_split_by)
  show thesis
  proof (rule that)
    show "4 \<le> length ?ws div 3" "length ?ws div 3 \<le> 8" "length is = 3 * (length ?ws div 3)"
      using n len by auto
    show "m = map ((!) WORDS) is" using "is"(2,3) by (rule trans[rotated])
  qed (fact "is"(1) str)+
qed

lemma Mnemonic_new_indices:
  assumes "sha256_digest sha" and "Mnemonic_new sha e = Ok m"
  obtains k "is" cs where "4 \<le> k" "k \<le> 8" "length e = 4 * k" "length is = 3 * k" "\<forall>i \<in> set is. i < 2048"
    "m = map ((!) WORDS) is" "index_bits is = byte_bits e @ cs" "length cs = k"
    "of_bits cs = drop_bit (8 - k) (sha e ! 0)"
proof -
  from assms(2) obtain k where k: "4 \<le> k" "k \<le> 8" "length e = 4 * k"
    by (rule Mnemonic_new_Ok)
  let ?b = "byte_bits e @ bits_msb 8 (sha e ! 0)"
  let ?is = "indices_of (3 * k) ?b"
  have long: "11 * (3 * k) \<le> length ?b" using k by simp
  show thesis
  proof (rule that[OF k])
    show "m = map ((!) WORDS) ?is" using assms k by (simp add: Mnemonic_new_spec phrase_of_indices)
    show "index_bits ?is = byte_bits e @ take k (bits_msb 8 (sha e ! 0))"
      using index_bits_indices_of[OF long] k by simp
    show "\<forall>i \<in> set ?is. i < 2048" by (rule indices_of_bound[OF long])
  qed (use k in \<open>simp_all add: of_bits_checksum\<close>)
qed

lemma write_words_no_panic: "\<not> is_panic (write_words ws m w)"
proof (induction ws arbitrary: m w)
  case (Cons x ws)
  then show ?case
    by (auto simp: index_def dest: binary_search_Some split: option.splits)
qed simp

lemma mnemonic_new_cases:
  assumes "sha256_digest sha"
  shows "is_ok (Mnemonic_new sha e) \<or> is_err (Mnemonic_new sha e)"
proof (cases "(16 \<le> length e \<and> length e \<le> 32) \<and> length e mod 4 = 0")
  case True
  then have "4 \<le> length e div 4" "length e div 4 \<le> 8" "length e = 4 * (length e div 4)" by auto
  from Mnemonic_new_spec[OF assms this] show ?thesis by simp
next
  case False
  then show ?thesis by (auto simp: Mnemonic_new_def Let_def)
qed

lemma Mnemonic_from_no_panic:
  assumes "sha256_digest sha"
  shows "\<not> is_panic (Mnemonic_from sha s)"
proof -
  let ?ws = "split_by (\<lambda>c. c = CHR '' '') s"
  consider "\<not> (12 \<le> length ?ws \<and> length ?ws \<le> 24) \<or> length ?ws mod 3 \<noteq> 0"
    | e where "write_words ?ws [] U11BitWriter_new = Err e" "12 \<le> length ?ws" "length ?ws \<le> 24" "length ?ws mod 3 = 0"
    | m w where "write_words ?ws [] U11BitWriter_new = Ok (m, w)" "12 \<le> length ?ws" "length ?ws \<le> 24" "length ?ws mod 3 = 0"
    using write_words_no_panic[of ?ws "[]" U11BitWriter_new]
    by (cases "write_words ?ws [] U11BitWriter_new") auto
  then show ?thesis
  proof cases
    case 1
    then show ?thesis by (auto simp: Mnemonic_from_def Let_def)
  next
    case 2
    then show ?thesis by (simp add: Mnemonic_from_def Let_def)
  next
    case (3 m w)
    obtain "is" where "is": "\<forall>i \<in> set is. i < 2048" "?ws = map ((!) WORDS) is"
      using write_words_Ok[OF 3(1)] by blast
    let ?k = "length ?ws div 3"
    have k: "4 \<le> ?k" "?k \<le> 8" "length is = 3 * ?k"
      using 3 arg_cong[OF "is"(2), of length] by auto
    from k(3) obtain e cs where "index_bits is = byte_bits e @ cs" "length cs = ?k" by (rule index_bits_split)
    with Mnemonic_from_spec[OF assms k "is"(1)]
    have "\<not> is_panic (Mnemonic_from sha (Mnemonic_to_string (map ((!) WORDS) is)))" by simp
    moreover have "Mnemonic_to_string ?ws = s" by (simp add: Mnemonic_to_string_def join_split_by)
    ultimately show ?thesis by (metis "is"(2))
  qed
qed

section \<open>Properties\<close>

context sha256_digest
begin

lemma generated_parses:
  assumes "Mnemonic_new sha256 e = Ok m"
  shows "Mnemonic_from sha256 (Mnemonic_to_string m) = Ok m"
proof -
  note sha = sha256_digest_axioms
  from sha assms obtain k "is" cs where "4 \<le> k" "k \<le> 8" "length is = 3 * k" "\<forall>i \<in> set is. i < 2048"
    and m: "m = map ((!) WORDS) is" and "index_bits is = byte_bits e @ cs" "length cs = k"
    and "of_bits cs = drop_bit (8 - k) (sha256 e ! 0)" by (rule Mnemonic_new_indices)
  then show ?thesis using Mnemonic_from_spec[OF sha] by (simp add: m)
qed

end

text \<open>
  C1. Round trip: a mnemonic generated from entropy prints to a phrase that parses back to the
  same mnemonic, its checksum included.
\<close>

theorem mnemonic_roundtrip:
  assumes "sha256_digest sha" and "Mnemonic_new sha e = Ok m"
  shows "Mnemonic_from sha (Mnemonic_to_string m) = Ok m"
  by (rule sha256_digest.generated_parses[OF assms])

theorem mnemonic_roundtrip_witness:
  "\<exists>m. Mnemonic_new fips_sha256 (replicate 16 0) = Ok m \<and>
       Mnemonic_from fips_sha256 (Mnemonic_to_string m) = Ok m"
proof -
  note sha = fips.sha256_digest_axioms
  from Mnemonic_new_spec[OF sha, of 4 "replicate 16 0"] obtain m
    where m: "Mnemonic_new fips_sha256 (replicate 16 0) = Ok m" by simp
  with mnemonic_roundtrip[OF sha m] show ?thesis by blast
qed

text \<open>
  Canonicity: a phrase that parses is exactly the printed form of its mnemonic, and it was
  generated from some entropy, so the parser accepts nothing that generation could not have made.
\<close>

theorem mnemonic_canonical:
  assumes "sha256_digest sha" and "Mnemonic_from sha s = Ok m"
  shows "Mnemonic_to_string m = s \<and> (\<exists>e. Mnemonic_new sha e = Ok m)"
proof -
  from assms(2) obtain k "is" where k: "4 \<le> k" "k \<le> 8" "length is = 3 * k" "\<forall>i \<in> set is. i < 2048"
    and m: "m = map ((!) WORDS) is" "Mnemonic_to_string m = s" by (rule Mnemonic_from_Ok)
  from k(3) obtain e cs where bits: "index_bits is = byte_bits e @ cs" "length e = 4 * k" "length cs = k"
    by (rule index_bits_split)
  let ?d = "bits_msb 8 (sha e ! 0)"
  have "Mnemonic_from sha (Mnemonic_to_string m) = Ok m" using assms(2) m(2) by simp
  then have "of_bits cs = drop_bit (8 - k) (sha e ! 0)"
    using Mnemonic_from_spec[OF assms(1) k(1-4) bits(1,3)] m(1) by (auto split: if_splits)
  then have "of_bits cs = (of_bits (take k ?d) :: u8)" using k by (simp add: of_bits_checksum)
  then have "bits_msb k (of_bits cs :: u8) = bits_msb k (of_bits (take k ?d) :: u8)" by simp
  then have cs: "cs = take k ?d" using bits(3) k by (simp add: bits_msb_of_bits)
  have "byte_bits e @ ?d = index_bits is @ drop k ?d"
    using bits(1) cs by simp
  then have "indices_of (3 * k) (byte_bits e @ ?d) = is"
    using indices_of_index_bits[OF k(4), of "drop k ?d"] k(3) by simp
  then have "Mnemonic_new sha e = Ok m"
    using Mnemonic_new_spec[OF assms(1) k(1,2) bits(2)] m(1) by (simp add: phrase_of_indices)
  with m(2) show ?thesis by blast
qed

theorem mnemonic_canonical_witness:
  "\<exists>s m. Mnemonic_from (\<lambda>_. replicate 32 0) s = Ok m \<and> Mnemonic_to_string m = s \<and>
         (\<exists>e. Mnemonic_new (\<lambda>_. replicate 32 0) e = Ok m)"
proof -
  let ?is = "replicate 12 (0 :: nat)"
  let ?s = "Mnemonic_to_string (map ((!) WORDS) ?is)"
  have sha: "sha256_digest (\<lambda>_. replicate 32 0)" by unfold_locales simp
  have "index_bits ?is = byte_bits (replicate 16 0) @ replicate 4 False"
    by (simp add: index_bits_def byte_bits_def bits_msb_def numeral_eq_Suc)
  then have m: "Mnemonic_from (\<lambda>_. replicate 32 0) ?s = Ok (map ((!) WORDS) ?is)"
    using Mnemonic_from_spec[OF sha, of 4 ?is "replicate 16 0" "replicate 4 False"]
    by (simp add: of_bits_def numeral_eq_Suc)
  from mnemonic_canonical[OF sha m] m show ?thesis by blast
qed

text \<open>Distinct entropy gives distinct mnemonics: the phrase determines the entropy.\<close>

theorem mnemonic_entropy_injective:
  assumes "sha256_digest sha" and "Mnemonic_new sha e1 = Ok m" and "Mnemonic_new sha e2 = Ok m"
  shows "e1 = e2"
proof -
  from assms(1,2) obtain k1 is1 cs1 where 1: "length e1 = 4 * k1" "length is1 = 3 * k1"
      "\<forall>i \<in> set is1. i < 2048" "m = map ((!) WORDS) is1" "index_bits is1 = byte_bits e1 @ cs1"
    by (rule Mnemonic_new_indices)
  from assms(1,3) obtain k2 is2 cs2 where 2: "length e2 = 4 * k2" "length is2 = 3 * k2"
      "\<forall>i \<in> set is2. i < 2048" "m = map ((!) WORDS) is2" "index_bits is2 = byte_bits e2 @ cs2"
    by (rule Mnemonic_new_indices)
  have "is1 = is2" using 1(3,4) 2(3,4) by (intro map_WORDS_inj) simp_all
  then have "byte_bits e1 @ cs1 = byte_bits e2 @ cs2" "length e1 = length e2"
    using 1 2 by auto
  then have "byte_bits e1 = byte_bits e2" by simp
  then show ?thesis by (rule byte_bits_inj)
qed

theorem mnemonic_entropy_injective_witness:
  "\<exists>m. Mnemonic_new fips_sha256 (replicate 20 7) = Ok m \<and>
       (\<forall>e. Mnemonic_new fips_sha256 e = Ok m \<longrightarrow> e = replicate 20 7)"
proof -
  note sha = fips.sha256_digest_axioms
  from Mnemonic_new_spec[OF sha, of 5 "replicate 20 7"] obtain m
    where m: "Mnemonic_new fips_sha256 (replicate 20 7) = Ok m" by simp
  with mnemonic_entropy_injective[OF sha _ m] show ?thesis by blast
qed

text \<open>
  Generation succeeds on exactly the five documented entropy sizes, with three words per four
  bytes, all from the table; on every other input it returns the length error.
\<close>

theorem mnemonic_new_total:
  assumes "sha256_digest sha"
  shows "if length e \<in> {16, 20, 24, 28, 32}
         then \<exists>m. Mnemonic_new sha e = Ok m \<and> 4 * length m = 3 * length e \<and> set m \<subseteq> set WORDS
         else is_err (Mnemonic_new sha e)"
proof (cases "length e \<in> {16, 20, 24, 28, 32}")
  case True
  then have k: "4 \<le> length e div 4" "length e div 4 \<le> 8" "length e = 4 * (length e div 4)" by auto
  let ?b = "byte_bits e @ bits_msb 8 (sha e ! 0)"
  have "11 * (3 * (length e div 4)) \<le> length ?b" using k by simp
  from indices_of_bound[OF this] have "set (phrase_of (3 * (length e div 4)) ?b) \<subseteq> set WORDS"
    by (auto simp: phrase_of_indices)
  then show ?thesis
    using True Mnemonic_new_spec[OF assms k] k(3) by (simp add: phrase_of_indices)
next
  case False
  then have "\<not> (16 \<le> length e \<and> length e \<le> 32) \<or> length e mod 4 \<noteq> 0" by auto presburger
  with False show ?thesis by (simp add: Mnemonic_new_def Let_def)
qed

theorem mnemonic_new_total_witness:
  "(\<exists>m. Mnemonic_new fips_sha256 (replicate 32 1) = Ok m \<and> length m = 24) \<and>
   is_err (Mnemonic_new fips_sha256 (replicate 18 0))"
proof -
  note sha = fips.sha256_digest_axioms
  show ?thesis
    using mnemonic_new_total[OF sha, of "replicate 32 1"] mnemonic_new_total[OF sha, of "replicate 18 0"]
    by auto
qed

text \<open>
  Neither direction panics: word numbers stay inside the table, and the \<open>unreachable!\<close> of the
  parser is indeed unreachable.
\<close>

theorem mnemonic_no_panic:
  assumes "sha256_digest sha"
  shows "\<not> is_panic (Mnemonic_new sha e) \<and> \<not> is_panic (Mnemonic_from sha s)"
proof
  show "\<not> is_panic (Mnemonic_new sha e)"
    using mnemonic_new_cases[OF assms, of e] by (cases "Mnemonic_new sha e") auto
  show "\<not> is_panic (Mnemonic_from sha s)"
    by (rule Mnemonic_from_no_panic[OF assms])
qed

theorem mnemonic_no_panic_witness:
  "\<not> is_panic (Mnemonic_new fips_sha256 []) \<and>
   \<not> is_panic (Mnemonic_from fips_sha256 ''zoo zoo'')"
proof -
  note sha = fips.sha256_digest_axioms
  show ?thesis by (rule mnemonic_no_panic[OF sha])
qed

end
