(* ===== verification/Wallet.thy ===== *)
theory Wallet
  imports Mnemonic Account_Address
begin

text \<open>
  Keys and wallets (\<^verbatim>\<open>src/tools/wallet/src/core/key_factory.rs\<close>, \<^verbatim>\<open>core/wallet_library.rs\<close>, \<^verbatim>\<open>core/legacy_scheme.rs\<close>,
  \<^verbatim>\<open>account_keys.rs\<close>, \<^verbatim>\<open>load_keys.rs\<close>, the file forms of \<^verbatim>\<open>core/mnemonic.rs\<close>).

  The cryptographic primitives are the fields of the record \<open>crypto\<close>: PBKDF2, HKDF, the conversion of bytes
  into an Ed25519 private key, the authentication key of a private key and the address of an authentication
  key. A private key is the bytes \<open>to_bytes\<close> returns. The contract \<open>key_crypto\<close> is that HKDF yields the
  requested number of bytes and that every 32 bytes are a private key.

  \<open>generate_addresses\<close> loops until the next child number is the requested depth; the loop is a partial function
  whose value is \<open>None\<close> when it does not return.
\<close>

section \<open>Key derivation\<close>

record crypto =
  c_sha256 :: "bytes \<Rightarrow> bytes"
  c_pbkdf2 :: "bytes \<Rightarrow> bytes \<Rightarrow> nat \<Rightarrow> nat \<Rightarrow> bytes"
  c_extract :: "bytes \<Rightarrow> bytes \<Rightarrow> bytes rres"
  c_expand :: "bytes \<Rightarrow> bytes \<Rightarrow> nat \<Rightarrow> bytes rres"
  c_private_key :: "bytes \<Rightarrow> bytes rres"
  c_auth_key :: "bytes \<Rightarrow> auth_key"
  c_derived_address :: "auth_key \<Rightarrow> account_address"

definition as_bytes :: "string \<Rightarrow> bytes" where
  "as_bytes s = map of_char s"

definition Main_from :: "bytes \<Rightarrow> bytes rres" where
  "Main_from data = (if length data = 32 then Ok data else Panic ''assertion failed'')"

record ExtendedPrivKey =
  xk_child_number :: u64
  xk_private_key :: bytes

definition xk_get_authentication_key :: "crypto \<Rightarrow> ExtendedPrivKey \<Rightarrow> auth_key" where
  "xk_get_authentication_key c k = c_auth_key c (xk_private_key k)"

definition xk_get_address :: "crypto \<Rightarrow> ExtendedPrivKey \<Rightarrow> account_address" where
  "xk_get_address c k = c_derived_address c (c_auth_key c (xk_private_key k))"

record KeyFactory =
  kf_main :: bytes

definition MNEMONIC_SALT_PREFIX :: bytes where
  "MNEMONIC_SALT_PREFIX =
     as_bytes ''0L WALLET: UNREST, FIRES, AND VIOLENCE AS PROTESTS RAGE ACROSS US: mnemonic salt prefix$''"

definition MAIN_KEY_SALT :: bytes where
  "MAIN_KEY_SALT =
     as_bytes ''0L WALLET: 30 MILLION AMERICANS HAVE FILED INITIAL UNEMPLOYMENT CLAIMS: master key salt$''"

definition INFO_PREFIX :: bytes where
  "INFO_PREFIX = as_bytes ''0L WALLET: US DEATHS NEAR 100,000, AN INCALCULABLE LOSS: derived key$''"

definition Seed_new :: "crypto \<Rightarrow> mnemonic \<Rightarrow> string \<Rightarrow> bytes" where
  "Seed_new c mnemonic salt =
     c_pbkdf2 c (as_bytes (Mnemonic_to_string mnemonic)) (MNEMONIC_SALT_PREFIX @ as_bytes salt) 2048 32"

text \<open>The slice \<open>[..32]\<close> of a shorter extract would panic.\<close>

definition KeyFactory_new :: "crypto \<Rightarrow> bytes \<Rightarrow> KeyFactory rres" where
  "KeyFactory_new c seed =
     rbind (c_extract c MAIN_KEY_SALT seed) (\<lambda>hkdf_extract.
     if length hkdf_extract < 32 then Panic ''range end index 32 out of range''
     else rbind (Main_from (take 32 hkdf_extract)) (\<lambda>m. Ok \<lparr>kf_main = m\<rparr>))"

definition private_child :: "crypto \<Rightarrow> KeyFactory \<Rightarrow> u64 \<Rightarrow> ExtendedPrivKey rres" where
  "private_child c self child =
     rbind (c_expand c (kf_main self) (INFO_PREFIX @ to_le_bytes child) 32) (\<lambda>hkdf_expand.
     case c_private_key c hkdf_expand of
       Ok sk \<Rightarrow> Ok \<lparr>xk_child_number = child, xk_private_key = sk\<rparr>
     | Err e \<Rightarrow> Err (''Unable to convert hkdf output into private key, met Error:'' @ e)
     | Panic p \<Rightarrow> Panic p)"

section \<open>Wallets\<close>

text \<open>The hash map from addresses to child numbers is the list of its entries. The order of entries
  is not observable: by the invariant below child numbers are distinct.\<close>

record WalletLibrary =
  wl_mnemonic :: mnemonic
  wl_key_factory :: KeyFactory
  wl_addr_map :: "(account_address \<times> u64) list"
  wl_key_leaf :: u64

definition WalletLibrary_new_from_mnemonic :: "crypto \<Rightarrow> mnemonic \<Rightarrow> WalletLibrary rres" where
  "WalletLibrary_new_from_mnemonic c mnemonic =
     rbind (unwrap ''called Result::unwrap() on an Err value'' (KeyFactory_new c (Seed_new c mnemonic ''0L''))) (\<lambda>kf.
     Ok \<lparr>wl_mnemonic = mnemonic, wl_key_factory = kf, wl_addr_map = [], wl_key_leaf = 0\<rparr>)"

text \<open>\<open>data\<close> is what the random generator of the operating system returns.\<close>

definition WalletLibrary_new :: "crypto \<Rightarrow> bytes \<Rightarrow> WalletLibrary rres" where
  "WalletLibrary_new c data =
     rbind (unwrap ''called Result::unwrap() on an Err value'' (Mnemonic_new (c_sha256 c) data))
       (WalletLibrary_new_from_mnemonic c)"

definition wallet_mnemonic :: "WalletLibrary \<Rightarrow> string" where
  "wallet_mnemonic self = Mnemonic_to_string (wl_mnemonic self)"

fun hm_insert :: "'k \<Rightarrow> 'v \<Rightarrow> ('k \<times> 'v) list \<Rightarrow> ('k \<times> 'v) list" where
  "hm_insert k v [] = [(k, v)]"
| "hm_insert k v ((j, w) # m) = (if k = j then (j, v) # m else (j, w) # hm_insert k v m)"

definition new_address :: "crypto \<Rightarrow> WalletLibrary \<Rightarrow> (auth_key \<times> u64) rres \<times> WalletLibrary" where
  "new_address c self =
     (case private_child c (wl_key_factory self) (wl_key_leaf self) of
        Err e \<Rightarrow> (Err e, self)
      | Panic p \<Rightarrow> (Panic p, self)
      | Ok child \<Rightarrow>
          (let authentication_key = xk_get_authentication_key c child;
               old_key_leaf = wl_key_leaf self;
               self = self\<lparr>wl_key_leaf := wl_key_leaf self + 1\<rparr>;
               addr = c_derived_address c authentication_key;
               old = map_of (wl_addr_map self) addr;
               self = self\<lparr>wl_addr_map := hm_insert addr old_key_leaf (wl_addr_map self)\<rparr>
           in if old = None then (Ok (authentication_key, old_key_leaf), self)
              else (Err ''This address is already in your wallet'', self)))"

definition new_address_at_child_number :: "crypto \<Rightarrow> WalletLibrary \<Rightarrow> u64 \<Rightarrow> account_address rres" where
  "new_address_at_child_number c self child_number =
     rbind (private_child c (wl_key_factory self) child_number) (\<lambda>child. Ok (xk_get_address c child))"

text \<open>The loop drops the result of \<open>new_address\<close>.\<close>

partial_function (option) generate_loop :: "crypto \<Rightarrow> u64 \<Rightarrow> WalletLibrary \<Rightarrow> WalletLibrary option" where
  "generate_loop c depth self =
     (if wl_key_leaf self = depth then Some self
      else generate_loop c depth (snd (new_address c self)))"

definition generate_addresses ::
  "crypto \<Rightarrow> u64 \<Rightarrow> WalletLibrary \<Rightarrow> (unit rres \<times> WalletLibrary) option" where
  "generate_addresses c depth self =
     (if depth < wl_key_leaf self
      then Some (Err ''Addresses already generated up to the supplied depth'', self)
      else case generate_loop c depth self of Some w \<Rightarrow> Some (Ok (), w) | None \<Rightarrow> None)"

definition get_addresses :: "WalletLibrary \<Rightarrow> account_address list rres" where
  "get_addresses self =
     (let rev_map = map_of (rev (map (\<lambda>(k, v). (v, k)) (wl_addr_map self)))
      in rmapM (\<lambda>i. or_err ''This address is already in your wallet'' (rev_map (of_nat i)))
           [0..<length (wl_addr_map self)])"

definition wallet_get_private_key :: "crypto \<Rightarrow> WalletLibrary \<Rightarrow> account_address \<Rightarrow> bytes rres" where
  "wallet_get_private_key c self address =
     (case map_of (wl_addr_map self) address of
        Some child \<Rightarrow> rbind (private_child c (wl_key_factory self) child) (\<lambda>k. Ok (xk_private_key k))
      | None \<Rightarrow> Err ''missing address'')"

definition wallet_get_authentication_key :: "crypto \<Rightarrow> WalletLibrary \<Rightarrow> account_address \<Rightarrow> auth_key rres" where
  "wallet_get_authentication_key c self address =
     (case map_of (wl_addr_map self) address of
        Some child \<Rightarrow> rbind (private_child c (wl_key_factory self) child) (\<lambda>k. Ok (xk_get_authentication_key c k))
      | None \<Rightarrow> Err ''missing address'')"

section \<open>The key chain\<close>

record LegacyKeyScheme =
  ks_child_0_owner :: ExtendedPrivKey
  ks_child_1_operator :: ExtendedPrivKey
  ks_child_2_val_network :: ExtendedPrivKey
  ks_child_3_fullnode_network :: ExtendedPrivKey
  ks_child_4_consensus :: ExtendedPrivKey
  ks_child_5_executor :: ExtendedPrivKey

definition LegacyKeyScheme_new :: "crypto \<Rightarrow> WalletLibrary \<Rightarrow> LegacyKeyScheme rres" where
  "LegacyKeyScheme_new c wallet =
     (let kf = wl_key_factory wallet;
          child = (\<lambda>n. unwrap ''called Result::unwrap() on an Err value'' (private_child c kf n))
      in rbind (child 0) (\<lambda>k0. rbind (child 1) (\<lambda>k1. rbind (child 2) (\<lambda>k2.
         rbind (child 3) (\<lambda>k3. rbind (child 4) (\<lambda>k4. rbind (child 5) (\<lambda>k5.
         Ok \<lparr>ks_child_0_owner = k0, ks_child_1_operator = k1, ks_child_2_val_network = k2,
             ks_child_3_fullnode_network = k3, ks_child_4_consensus = k4, ks_child_5_executor = k5\<rparr>)))))))"

definition LegacyKeyScheme_new_from_mnemonic :: "crypto \<Rightarrow> string \<Rightarrow> LegacyKeyScheme rres" where
  "LegacyKeyScheme_new_from_mnemonic c mnemonic =
     rbind (unwrap ''called Result::unwrap() on an Err value'' (Mnemonic_from (c_sha256 c) mnemonic)) (\<lambda>m.
     rbind (WalletLibrary_new_from_mnemonic c m) (LegacyKeyScheme_new c))"

record AccountKeys =
  ak_account :: account_address
  ak_auth_key :: auth_key
  ak_pri_key :: bytes

record KeyChain =
  kc_mnemonic :: string
  kc_seed :: bytes
  kc_child_0_owner :: AccountKeys
  kc_child_1_operator :: AccountKeys
  kc_child_2_val_network :: AccountKeys
  kc_child_3_fullnode_network :: AccountKeys
  kc_child_4_consensus :: AccountKeys
  kc_child_5_executor :: AccountKeys

text \<open>The textual conversions of addresses and keys between vendor types: parse after print.\<close>

record address_conv =
  v_from_hex_literal :: "string \<Rightarrow> account_address rres"
  v_to_hex_literal :: "account_address \<Rightarrow> string"
  v_auth_to_string :: "auth_key \<Rightarrow> string"
  v_auth_from_str :: "string \<Rightarrow> auth_key rres"

definition get_ol_legacy_address :: "address_conv \<Rightarrow> account_address \<Rightarrow> account_address rres" where
  "get_ol_legacy_address v addr =
     (if length addr < 16 then Panic ''range start index 16 out of range''
      else v_from_hex_literal v (''0x0000000000000000'' @ lower_hex (drop 16 addr)))"

definition get_account_from_private :: "crypto \<Rightarrow> bytes \<Rightarrow> AccountKeys" where
  "get_account_from_private c pri_key =
     (let auth_key = c_auth_key c pri_key
      in \<lparr>ak_account = c_derived_address c auth_key, ak_auth_key = auth_key, ak_pri_key = pri_key\<rparr>)"

definition get_account_from_nth :: "crypto \<Rightarrow> address_conv \<Rightarrow> WalletLibrary \<Rightarrow> u8 \<Rightarrow> AccountKeys rres" where
  "get_account_from_nth c v w n =
     rbind (LegacyKeyScheme_new c w) (\<lambda>pri_keys.
     rbind (if n = 0 then Ok (ks_child_0_owner pri_keys)
            else if n = 1 then Ok (ks_child_1_operator pri_keys)
            else if n = 2 then Ok (ks_child_2_val_network pri_keys)
            else if n = 3 then Ok (ks_child_3_fullnode_network pri_keys)
            else if n = 4 then Ok (ks_child_4_consensus pri_keys)
            else if n = 5 then Ok (ks_child_5_executor pri_keys)
            else Panic ''Invalid key index'') (\<lambda>key.
     let auth_key = xk_get_authentication_key c key; account = xk_get_address c key in
     rbind (v_from_hex_literal v (v_to_hex_literal v account)) (\<lambda>account.
     rbind (v_auth_from_str v (v_auth_to_string v auth_key)) (\<lambda>auth_key.
     rbind (c_private_key c (xk_private_key key)) (\<lambda>pri_key.
     Ok \<lparr>ak_account = account, ak_auth_key = auth_key, ak_pri_key = pri_key\<rparr>)))))"

definition KeyChain_new :: "crypto \<Rightarrow> address_conv \<Rightarrow> WalletLibrary \<Rightarrow> KeyChain rres" where
  "KeyChain_new c v w =
     rbind (get_account_from_nth c v w 0) (\<lambda>k0. rbind (get_account_from_nth c v w 1) (\<lambda>k1.
     rbind (get_account_from_nth c v w 2) (\<lambda>k2. rbind (get_account_from_nth c v w 3) (\<lambda>k3.
     rbind (get_account_from_nth c v w 4) (\<lambda>k4. rbind (get_account_from_nth c v w 5) (\<lambda>k5.
     Ok \<lparr>kc_mnemonic = wallet_mnemonic w, kc_seed = kf_main (wl_key_factory w), kc_child_0_owner = k0,
         kc_child_1_operator = k1, kc_child_2_val_network = k2, kc_child_3_fullnode_network = k3,
         kc_child_4_consensus = k4, kc_child_5_executor = k5\<rparr>))))))"

definition get_account_from_mnem ::
  "crypto \<Rightarrow> string \<Rightarrow> (auth_key \<times> account_address \<times> WalletLibrary) rres" where
  "get_account_from_mnem c mnemonic_string =
     rbind (Mnemonic_from (c_sha256 c) (trim mnemonic_string)) (\<lambda>m.
     rbind (WalletLibrary_new_from_mnemonic c m) (\<lambda>wallet.
     let (r, wallet) = new_address c wallet in
     rbind r (\<lambda>(auth_key, _). Ok (auth_key, c_derived_address c auth_key, wallet))))"

definition get_account_from_wallet ::
  "crypto \<Rightarrow> WalletLibrary \<Rightarrow> (auth_key \<times> account_address \<times> WalletLibrary) rres" where
  "get_account_from_wallet c wallet = get_account_from_mnem c (wallet_mnemonic wallet)"

definition get_keys_from_mnem :: "crypto \<Rightarrow> address_conv \<Rightarrow> string \<Rightarrow> KeyChain rres" where
  "get_keys_from_mnem c v mnem =
     rbind (get_account_from_mnem c mnem) (\<lambda>(_, _, wallet). KeyChain_new c v wallet)"

text \<open>\<open>keygen\<close> with the random data, and \<open>legacy_keygen\<close>, whose printing is left out.\<close>

definition keygen :: "crypto \<Rightarrow> bytes \<Rightarrow> (auth_key \<times> account_address \<times> WalletLibrary \<times> string) rres" where
  "keygen c data =
     rbind (WalletLibrary_new c data) (\<lambda>wallet.
     let mnemonic_string = wallet_mnemonic wallet; (r, wallet) = new_address c wallet in
     rbind (unwrap ''Could not generate address'' r) (\<lambda>(auth_key, _).
     Ok (auth_key, c_derived_address c auth_key, wallet, mnemonic_string)))"

definition legacy_keygen :: "crypto \<Rightarrow> address_conv \<Rightarrow> bytes \<Rightarrow> KeyChain rres" where
  "legacy_keygen c v data = rbind (keygen c data) (\<lambda>(auth_key, account, wallet, mnem). KeyChain_new c v wallet)"

section \<open>Mnemonic files\<close>

datatype fs_node = File string | Directory

definition Mnemonic_write :: "mnemonic \<Rightarrow> string \<Rightarrow> (string \<rightharpoonup> fs_node) \<Rightarrow> (string \<rightharpoonup> fs_node) rres" where
  "Mnemonic_write self p fs =
     (if fs p = Some Directory then Err ''Output file for mnemonic backup is reserved''
      else Ok (fs(p \<mapsto> File (Mnemonic_to_string self))))"

definition Mnemonic_read :: "(bytes \<Rightarrow> bytes) \<Rightarrow> string \<Rightarrow> (string \<rightharpoonup> fs_node) \<Rightarrow> mnemonic rres" where
  "Mnemonic_read sha256 p fs =
     (case fs p of
        Some (File mnemonic_string) \<Rightarrow> Mnemonic_from sha256 mnemonic_string
      | _ \<Rightarrow> Err ''Input file for mnemonic backup does not exist'')"

section \<open>Contracts of the vendor code\<close>

definition child_key :: "crypto \<Rightarrow> KeyFactory \<Rightarrow> u64 \<Rightarrow> bytes" where
  "child_key c kf n = the_ok (c_expand c (kf_main kf) (INFO_PREFIX @ to_le_bytes n) 32)"

definition child_auth :: "crypto \<Rightarrow> KeyFactory \<Rightarrow> u64 \<Rightarrow> auth_key" where
  "child_auth c kf n = c_auth_key c (child_key c kf n)"

definition child_addr :: "crypto \<Rightarrow> KeyFactory \<Rightarrow> u64 \<Rightarrow> account_address" where
  "child_addr c kf n = c_derived_address c (child_auth c kf n)"

locale key_crypto =
  fixes c :: crypto
  assumes extract_ok: "\<exists>k. c_extract c salt ikm = Ok k \<and> 32 \<le> length k"
    and expand_ok: "length prk = 32 \<Longrightarrow> \<exists>k. c_expand c prk info 32 = Ok k \<and> length k = 32"
    and private_key_ok: "length k = 32 \<Longrightarrow> c_private_key c k = Ok k"
    and auth_key_length: "length k = 32 \<Longrightarrow> length (c_auth_key c k) = 32"
    and address_length: "length a = 32 \<Longrightarrow> length (c_derived_address c a) = 32"
begin

lemma child_key_length: "length (kf_main kf) = 32 \<Longrightarrow> length (child_key c kf n) = 32"
  using expand_ok[of "kf_main kf" "INFO_PREFIX @ to_le_bytes n"] by (auto simp: child_key_def)

lemma private_child_Ok:
  assumes "length (kf_main kf) = 32"
  shows "private_child c kf n = Ok \<lparr>xk_child_number = n, xk_private_key = child_key c kf n\<rparr>"
proof -
  obtain k where "c_expand c (kf_main kf) (INFO_PREFIX @ to_le_bytes n) 32 = Ok k" "length k = 32"
    using expand_ok[OF assms] by blast
  then show ?thesis by (simp add: private_child_def private_key_ok child_key_def)
qed

lemma KeyFactory_new_Ok: "\<exists>kf. KeyFactory_new c seed = Ok kf \<and> length (kf_main kf) = 32"
  using extract_ok[of MAIN_KEY_SALT seed] by (auto simp: KeyFactory_new_def Main_from_def)

lemma wallet_from_mnemonic_Ok:
  "\<exists>kf. length (kf_main kf) = 32 \<and> WalletLibrary_new_from_mnemonic c m =
     Ok \<lparr>wl_mnemonic = m, wl_key_factory = kf, wl_addr_map = [], wl_key_leaf = 0\<rparr>"
  using KeyFactory_new_Ok[of "Seed_new c m ''0L''"] by (auto simp: WalletLibrary_new_from_mnemonic_def)

end

locale address_roundtrip =
  fixes v :: address_conv
  assumes hex_literal: "length a = 32 \<Longrightarrow> v_from_hex_literal v (v_to_hex_literal v a) = Ok a"
    and auth_string: "length k = 32 \<Longrightarrow> v_auth_from_str v (v_auth_to_string v k) = Ok k"
    and padded: "length b \<le> 32 \<Longrightarrow>
      v_from_hex_literal v (''0x'' @ lower_hex b) = Ok (replicate (32 - length b) 0 @ b)"
begin

lemma ol_legacy_address:
  assumes "length a = 32"
  shows "get_ol_legacy_address v a = Ok (replicate 16 0 @ drop 16 a)"
proof -
  have "lower_hex (replicate 8 0) = ''0000000000000000''" by code_simp
  then have "''0x0000000000000000'' @ lower_hex (drop 16 a) = ''0x'' @ lower_hex (replicate 8 0 @ drop 16 a)"
    by simp
  then show ?thesis using assms padded[of "replicate 8 0 @ drop 16 a"]
    by (simp add: get_ol_legacy_address_def replicate_add[symmetric] flip: append_assoc)
qed

end

text \<open>A reference instance built from SHA-256 and the hexadecimal codec.\<close>

definition ref_crypto :: crypto where
  "ref_crypto =
     \<lparr>c_sha256 = fips_sha256, c_pbkdf2 = (\<lambda>p s r n. take n (fips_sha256 (p @ s))),
      c_extract = (\<lambda>s i. Ok (fips_sha256 (s @ i))), c_expand = (\<lambda>k i n. Ok (take n (fips_sha256 (k @ i)))),
      c_private_key = (\<lambda>k. if length k = 32 then Ok k else Err ''WrongLengthError''),
      c_auth_key = fips_sha256, c_derived_address = (\<lambda>a. a)\<rparr>"

interpretation ref_keys: key_crypto ref_crypto
  by unfold_locales (simp_all add: ref_crypto_def)

definition ref_conv :: address_conv where
  "ref_conv =
     \<lparr>v_from_hex_literal = from_hex_literal_ref, v_to_hex_literal = (\<lambda>a. ''0x'' @ lower_hex a),
      v_auth_to_string = lower_hex,
      v_auth_from_str = (\<lambda>s. or_err ''parse error'' (hex_decode_ref s))\<rparr>"

lemma lower_hex_zeros: "lower_hex (replicate n 0) = replicate (2 * n) CHR ''0''"
proof (induction n)
  case (Suc n)
  have "hex_byte 0 = ''00''" by code_simp
  with Suc show ?case by simp
qed simp

lemma from_hex_literal_ref_padded:
  assumes "length b \<le> 32"
  shows "from_hex_literal_ref (''0x'' @ lower_hex b) = Ok (replicate (32 - length b) 0 @ b)"
proof -
  have "2 * (32 - length b) = 64 - length (lower_hex b)" by simp
  then have eq: "replicate (64 - length (lower_hex b)) CHR ''0'' @ lower_hex b = lower_hex (replicate (32 - length b) 0 @ b)"
    by (simp add: lower_hex_zeros)
  have pre: "strip_prefix ''0x'' (''0x'' @ lower_hex b) = Some (lower_hex b)" by (rule strip_prefix_append)
  show ?thesis unfolding from_hex_literal_ref_def pre option.case eq ref_hex.decode_encode using assms by simp
qed

interpretation ref_text: address_roundtrip ref_conv
proof unfold_locales
  fix a k b :: bytes
  show "v_from_hex_literal ref_conv (v_to_hex_literal ref_conv a) = Ok a" if "length a = 32"
    using from_hex_literal_ref_padded[of a] that by (simp add: ref_conv_def)
  show "v_auth_from_str ref_conv (v_auth_to_string ref_conv k) = Ok k"
    by (simp add: ref_conv_def ref_hex.decode_encode)
  show "v_from_hex_literal ref_conv (''0x'' @ lower_hex b) = Ok (replicate (32 - length b) 0 @ b)"
    if "length b \<le> 32"
    using from_hex_literal_ref_padded[OF that] by (simp add: ref_conv_def)
qed

section \<open>Generating addresses\<close>

context key_crypto
begin

lemma new_address_step:
  assumes "length (kf_main (wl_key_factory w)) = 32"
  shows "snd (new_address c w) =
    w\<lparr>wl_key_leaf := wl_key_leaf w + 1,
      wl_addr_map := hm_insert (child_addr c (wl_key_factory w) (wl_key_leaf w)) (wl_key_leaf w) (wl_addr_map w)\<rparr>"
  using private_child_Ok[OF assms]
  by (simp add: new_address_def xk_get_authentication_key_def child_addr_def child_auth_def Let_def)

lemma generate_loop_Some:
  assumes "length (kf_main (wl_key_factory w)) = 32" and "wl_key_leaf w \<le> depth"
  shows "\<exists>m. generate_loop c depth w = Some (w\<lparr>wl_key_leaf := depth, wl_addr_map := m\<rparr>)"
  using assms
proof (induction "unat depth - unat (wl_key_leaf w)" arbitrary: w)
  case 0
  then have "wl_key_leaf w = depth" by (simp add: word_le_nat_alt word_unat_eq_iff)
  then show ?case by (subst generate_loop.simps) (auto intro: exI[of _ "wl_addr_map w"])
next
  case (Suc k)
  let ?w = "snd (new_address c w)"
  note step = new_address_step[OF Suc.prems(1)]
  have less: "wl_key_leaf w < depth" using Suc.hyps(2) by (simp add: word_less_nat_alt)
  then have inc: "unat (wl_key_leaf w + 1) = unat (wl_key_leaf w) + 1"
    by (rule unat_plus_one)
  have "\<exists>m. generate_loop c depth ?w = Some (?w\<lparr>wl_key_leaf := depth, wl_addr_map := m\<rparr>)"
    using Suc.hyps(2) Suc.prems less inc by (intro Suc.hyps(1)) (simp_all add: step word_le_nat_alt)
  then show ?case using less by (subst generate_loop.simps) (auto simp: step)
qed

end

text \<open>When the derivation fails, the loop does not return.\<close>

lemma generate_loop_stuck:
  assumes "generate_loop c depth w = Some w'"
  shows "wl_key_leaf w = depth \<or> (\<forall>e. private_child c (wl_key_factory w) (wl_key_leaf w) \<noteq> Err e)"
proof (rule generate_loop.raw_induct[OF _ assms])
  fix loop c depth w w'
  assume IH: "\<And>c depth w w'. loop c depth w = Some w' \<Longrightarrow>
      wl_key_leaf w = depth \<or> (\<forall>e. private_child c (wl_key_factory w) (wl_key_leaf w) \<noteq> Err e)"
    and body: "(if wl_key_leaf w = depth then Some w else loop c depth (snd (new_address c w))) = Some w'"
  show "wl_key_leaf w = depth \<or> (\<forall>e. private_child c (wl_key_factory w) (wl_key_leaf w) \<noteq> Err e)"
  proof (rule ccontr)
    assume stuck: "\<not> (wl_key_leaf w = depth \<or> (\<forall>e. private_child c (wl_key_factory w) (wl_key_leaf w) \<noteq> Err e))"
    then have "snd (new_address c w) = w" by (auto simp: new_address_def)
    with body stuck have "loop c depth w = Some w'" by simp
    with IH stuck show False by blast
  qed
qed

text \<open>The entries of a wallet that holds the first \<open>n\<close> children.\<close>

definition first_entries :: "crypto \<Rightarrow> KeyFactory \<Rightarrow> nat \<Rightarrow> (account_address \<times> u64) list" where
  "first_entries c kf n = map (\<lambda>i. (child_addr c kf (of_nat i), of_nat i)) [0..<n]"

definition distinct_children :: "crypto \<Rightarrow> KeyFactory \<Rightarrow> nat \<Rightarrow> bool" where
  "distinct_children c kf n \<longleftrightarrow> distinct (map (\<lambda>i. child_addr c kf (of_nat i)) [0..<n])"

lemma hm_insert_fresh: "k \<notin> fst ` set m \<Longrightarrow> hm_insert k v m = m @ [(k, v)]"
  by (induction k v m rule: hm_insert.induct) auto

lemma first_entries_Suc:
  assumes "distinct_children c kf (Suc n)"
  shows "hm_insert (child_addr c kf (of_nat n)) (of_nat n) (first_entries c kf n) = first_entries c kf (Suc n)"
  using assms by (subst hm_insert_fresh) (auto simp: first_entries_def distinct_children_def image_iff)

lemma distinct_children_le: "distinct_children c kf n \<Longrightarrow> m \<le> n \<Longrightarrow> distinct_children c kf m"
  by (auto simp: distinct_children_def distinct_map inj_on_def)

lemma of_nat_u64_eq: "i < 2 ^ 64 \<Longrightarrow> j < 2 ^ 64 \<Longrightarrow> (of_nat i :: u64) = of_nat j \<longleftrightarrow> i = j"
  by (simp add: word_unat_eq_iff unat_of_nat take_bit_nat_eq_self)

lemma first_entries_lookup:
  assumes "distinct_children c kf n" and "n < 2 ^ 64" and "i < n"
  shows "map_of (first_entries c kf n) (child_addr c kf (of_nat i)) = Some (of_nat i)"
    and "map_of (rev (map (\<lambda>(k, v). (v, k)) (first_entries c kf n))) (of_nat i) = Some (child_addr c kf (of_nat i))"
proof -
  have mem: "(child_addr c kf (of_nat i), of_nat i) \<in> set (first_entries c kf n)"
    using assms(3) by (auto simp: first_entries_def)
  have "distinct (map fst (first_entries c kf n))"
    using assms(1) by (simp add: first_entries_def distinct_children_def comp_def)
  with mem show "map_of (first_entries c kf n) (child_addr c kf (of_nat i)) = Some (of_nat i)"
    by simp
  have "distinct (map (\<lambda>i. of_nat i :: u64) [0..<n])"
    using assms(2) by (auto simp: distinct_map inj_on_def of_nat_u64_eq)
  then have "distinct (map fst (rev (map (\<lambda>(k, v). (v, k)) (first_entries c kf n))))"
    by (simp add: first_entries_def comp_def rev_map[symmetric])
  with mem show "map_of (rev (map (\<lambda>(k, v). (v, k)) (first_entries c kf n))) (of_nat i) = Some (child_addr c kf (of_nat i))"
    by (intro map_of_is_SomeI) force+
qed

context key_crypto
begin

lemma generate_loop_entries:
  assumes "length (kf_main kf) = 32" and "distinct_children c kf n" and "n < 2 ^ 64" and "k \<le> n"
    and "wl_key_factory w = kf" "wl_addr_map w = first_entries c kf k" "wl_key_leaf w = of_nat k"
  shows "generate_loop c (of_nat n) w = Some (w\<lparr>wl_key_leaf := of_nat n, wl_addr_map := first_entries c kf n\<rparr>)"
  using assms(4-)
proof (induction "n - k" arbitrary: k w)
  case 0
  then have "k = n" by simp
  with 0 show ?case by (subst generate_loop.simps) (simp add: WalletLibrary.equality)
next
  case (Suc d)
  then have k: "k < n" by simp
  then have "distinct_children c kf (Suc k)" using distinct_children_le[OF assms(2)] by simp
  then have step: "snd (new_address c w) =
      w\<lparr>wl_key_leaf := of_nat (Suc k), wl_addr_map := first_entries c kf (Suc k)\<rparr>"
    using Suc.prems assms(1) by (subst new_address_step) (simp_all add: first_entries_Suc add.commute)
  have "wl_key_leaf w \<noteq> of_nat n" using Suc.prems(4) k assms(3) by (simp add: of_nat_u64_eq)
  then have "generate_loop c (of_nat n) w = generate_loop c (of_nat n) (snd (new_address c w))"
    by (subst generate_loop.simps) simp
  also have "\<dots> = Some (snd (new_address c w)\<lparr>wl_key_leaf := of_nat n, wl_addr_map := first_entries c kf n\<rparr>)"
    using Suc.hyps(2) Suc.prems k by (intro Suc.hyps(1)[of "Suc k"]) (simp_all add: step)
  finally show ?case by (simp add: step)
qed

lemma first_wallet_queries:
  assumes "length (kf_main kf) = 32" and "distinct_children c kf n" and "n < 2 ^ 64"
    and w: "wl_key_factory w = kf" "wl_addr_map w = first_entries c kf n"
  shows "get_addresses w = Ok (map (\<lambda>i. child_addr c kf (of_nat i)) [0..<n])"
    and "i < n \<Longrightarrow> wallet_get_private_key c w (child_addr c kf (of_nat i)) = Ok (child_key c kf (of_nat i))"
    and "i < n \<Longrightarrow> wallet_get_authentication_key c w (child_addr c kf (of_nat i)) = Ok (child_auth c kf (of_nat i))"
proof -
  note look = first_entries_lookup[OF assms(2,3)]
  have "length (first_entries c kf n) = n" by (simp add: first_entries_def)
  then show "get_addresses w = Ok (map (\<lambda>i. child_addr c kf (of_nat i)) [0..<n])"
    unfolding get_addresses_def Let_def w by (simp only:) (rule rmapM_Ok, simp add: look(2))
  show "i < n \<Longrightarrow> wallet_get_private_key c w (child_addr c kf (of_nat i)) = Ok (child_key c kf (of_nat i))"
    by (simp add: wallet_get_private_key_def w look(1) private_child_Ok[OF assms(1)])
  show "i < n \<Longrightarrow> wallet_get_authentication_key c w (child_addr c kf (of_nat i)) = Ok (child_auth c kf (of_nat i))"
    by (simp add: wallet_get_authentication_key_def w look(1) private_child_Ok[OF assms(1)]
        xk_get_authentication_key_def child_auth_def)
qed

end

text \<open>
  C35. \<open>generate_addresses\<close> returns whenever key derivation works: it refuses a depth below the next child
  number and otherwise advances to exactly that depth without touching the keys. When the derivation of the
  next child fails, the loop neither advances nor reports the error: it runs forever.
\<close>

theorem generate_addresses_returns:
  assumes "key_crypto c" and "length (kf_main (wl_key_factory w)) = 32"
  shows "(depth < wl_key_leaf w \<longrightarrow>
      generate_addresses c depth w = Some (Err ''Addresses already generated up to the supplied depth'', w)) \<and>
    (wl_key_leaf w \<le> depth \<longrightarrow>
      (\<exists>m. generate_addresses c depth w = Some (Ok (), w\<lparr>wl_key_leaf := depth, wl_addr_map := m\<rparr>))) \<and>
    (\<forall>c' e. wl_key_leaf w < depth \<and> private_child c' (wl_key_factory w) (wl_key_leaf w) = Err e \<longrightarrow>
      generate_addresses c' depth w = None)"
proof (intro conjI allI impI)
  show "generate_addresses c depth w = Some (Err ''Addresses already generated up to the supplied depth'', w)"
    if "depth < wl_key_leaf w" using that by (simp add: generate_addresses_def)
  show "\<exists>m. generate_addresses c depth w = Some (Ok (), w\<lparr>wl_key_leaf := depth, wl_addr_map := m\<rparr>)"
    if "wl_key_leaf w \<le> depth"
    using key_crypto.generate_loop_Some[OF assms that] that by (auto simp: generate_addresses_def)
next
  fix c' e
  assume "wl_key_leaf w < depth \<and> private_child c' (wl_key_factory w) (wl_key_leaf w) = Err e"
  then have "generate_loop c' depth w = None"
    using generate_loop_stuck[of c' depth w] by (cases "generate_loop c' depth w") auto
  then show "generate_addresses c' depth w = None"
    using \<open>wl_key_leaf w < depth \<and> _\<close> by (simp add: generate_addresses_def not_less_iff_gr_or_eq)
qed

definition sample_factory :: KeyFactory where
  "sample_factory = \<lparr>kf_main = replicate 32 7\<rparr>"

definition sample_wl :: WalletLibrary where
  "sample_wl = \<lparr>wl_mnemonic = [], wl_key_factory = sample_factory, wl_addr_map = [], wl_key_leaf = 0\<rparr>"

theorem generate_addresses_returns_witness:
  "(\<exists>m. generate_addresses ref_crypto 5 sample_wl = Some (Ok (), sample_wl\<lparr>wl_key_leaf := 5, wl_addr_map := m\<rparr>)) \<and>
   generate_addresses (ref_crypto\<lparr>c_expand := (\<lambda>_ _ _. Err ''hkdf'')\<rparr>) 5 sample_wl = None"
proof -
  have "length (kf_main (wl_key_factory sample_wl)) = 32" by (simp add: sample_wl_def sample_factory_def)
  note r = generate_addresses_returns[OF ref_keys.key_crypto_axioms this, of 5]
  have "wl_key_leaf sample_wl < 5" by (simp add: sample_wl_def)
  moreover have "private_child (ref_crypto\<lparr>c_expand := (\<lambda>_ _ _. Err ''hkdf'')\<rparr>) (wl_key_factory sample_wl)
      (wl_key_leaf sample_wl) = Err ''hkdf''" by (simp add: private_child_def)
  ultimately show ?thesis using r by (metis order_less_imp_le)
qed

context key_crypto
begin

lemma generated_contents:
  assumes "WalletLibrary_new_from_mnemonic c m = Ok w" and "n < 2 ^ 64"
    and "distinct_children c (wl_key_factory w) n"
  shows "\<exists>w'. generate_addresses c (of_nat n) w = Some (Ok (), w') \<and>
    get_addresses w' = Ok (map (\<lambda>i. child_addr c (wl_key_factory w) (of_nat i)) [0..<n]) \<and>
    (\<forall>i < n. wallet_get_private_key c w' (child_addr c (wl_key_factory w) (of_nat i)) =
        Ok (child_key c (wl_key_factory w) (of_nat i)) \<and>
      wallet_get_authentication_key c w' (child_addr c (wl_key_factory w) (of_nat i)) =
        Ok (child_auth c (wl_key_factory w) (of_nat i)))"
proof -
  obtain kf where kf: "length (kf_main kf) = 32"
    and w: "w = \<lparr>wl_mnemonic = m, wl_key_factory = kf, wl_addr_map = [], wl_key_leaf = 0\<rparr>"
    using wallet_from_mnemonic_Ok[of m] assms(1) by auto
  let ?w = "w\<lparr>wl_key_leaf := of_nat n, wl_addr_map := first_entries c kf n\<rparr>"
  have d: "distinct_children c kf n" using assms(3) by (simp add: w)
  have "generate_loop c (of_nat n) w = Some ?w"
    using generate_loop_entries[OF kf d assms(2), of 0 w] by (simp add: w first_entries_def)
  then have run: "generate_addresses c (of_nat n) w = Some (Ok (), ?w)" by (simp add: generate_addresses_def w)
  have "wl_key_factory ?w = kf" "wl_addr_map ?w = first_entries c kf n" by (simp_all add: w)
  note q = first_wallet_queries[OF kf d assms(2) this]
  have "wl_key_factory w = kf" by (simp add: w)
  with run q show ?thesis by blast
qed

end

text \<open>
  A fresh wallet that generates \<open>n\<close> addresses lists exactly the addresses of the children \<open>0, \<dots>, n - 1\<close> in
  order, and returns for each of them the private key and the authentication key of that child, as long as these
  addresses differ.
\<close>

theorem generated_wallet_contents:
  assumes "key_crypto c" and "WalletLibrary_new_from_mnemonic c m = Ok w" and "n < 2 ^ 64"
    and "distinct_children c (wl_key_factory w) n"
  shows "\<exists>w'. generate_addresses c (of_nat n) w = Some (Ok (), w') \<and>
    get_addresses w' = Ok (map (\<lambda>i. child_addr c (wl_key_factory w) (of_nat i)) [0..<n]) \<and>
    (\<forall>i < n. wallet_get_private_key c w' (child_addr c (wl_key_factory w) (of_nat i)) =
        Ok (child_key c (wl_key_factory w) (of_nat i)) \<and>
      wallet_get_authentication_key c w' (child_addr c (wl_key_factory w) (of_nat i)) =
        Ok (child_auth c (wl_key_factory w) (of_nat i)))"
  by (rule key_crypto.generated_contents[OF assms])

theorem generated_wallet_contents_witness:
  "\<exists>w w'. WalletLibrary_new_from_mnemonic ref_crypto [] = Ok w \<and>
     generate_addresses ref_crypto 1 w = Some (Ok (), w') \<and>
     get_addresses w' = Ok [child_addr ref_crypto (wl_key_factory w) 0]"
proof -
  obtain w where w: "WalletLibrary_new_from_mnemonic ref_crypto [] = Ok w"
    using ref_keys.wallet_from_mnemonic_Ok[of "[]"] by blast
  have "distinct_children ref_crypto (wl_key_factory w) 1" by (simp add: distinct_children_def)
  from generated_wallet_contents[OF ref_keys.key_crypto_axioms w _ this] w show ?thesis by auto
qed

section \<open>Key chains\<close>

definition account_keys_at :: "crypto \<Rightarrow> KeyFactory \<Rightarrow> u64 \<Rightarrow> AccountKeys" where
  "account_keys_at c kf n =
     \<lparr>ak_account = child_addr c kf n, ak_auth_key = child_auth c kf n, ak_pri_key = child_key c kf n\<rparr>"

definition key_chain_of :: "crypto \<Rightarrow> mnemonic \<Rightarrow> KeyFactory \<Rightarrow> KeyChain" where
  "key_chain_of c m kf =
     \<lparr>kc_mnemonic = Mnemonic_to_string m, kc_seed = kf_main kf, kc_child_0_owner = account_keys_at c kf 0,
      kc_child_1_operator = account_keys_at c kf 1, kc_child_2_val_network = account_keys_at c kf 2,
      kc_child_3_fullnode_network = account_keys_at c kf 3, kc_child_4_consensus = account_keys_at c kf 4,
      kc_child_5_executor = account_keys_at c kf 5\<rparr>"

context key_crypto
begin

lemma child_lengths:
  assumes "length (kf_main kf) = 32"
  shows "length (child_auth c kf n) = 32" "length (child_addr c kf n) = 32"
  using child_key_length[OF assms] by (simp_all add: child_auth_def child_addr_def auth_key_length address_length)

lemma LegacyKeyScheme_new_Ok:
  assumes "length (kf_main (wl_key_factory w)) = 32"
  defines "k n \<equiv> \<lparr>xk_child_number = n, xk_private_key = child_key c (wl_key_factory w) n\<rparr>"
  shows "LegacyKeyScheme_new c w = Ok \<lparr>ks_child_0_owner = k 0, ks_child_1_operator = k 1,
      ks_child_2_val_network = k 2, ks_child_3_fullnode_network = k 3, ks_child_4_consensus = k 4,
      ks_child_5_executor = k 5\<rparr>"
  by (simp add: LegacyKeyScheme_new_def private_child_Ok[OF assms(1)] k_def Let_def)

lemma get_account_from_nth_Ok:
  assumes "address_roundtrip v" and "length (kf_main (wl_key_factory w)) = 32" and "n \<in> {0, 1, 2, 3, 4, 5}"
  shows "get_account_from_nth c v w n = Ok (account_keys_at c (wl_key_factory w) (ucast n))"
proof -
  note rt = address_roundtrip.hex_literal[OF assms(1)] address_roundtrip.auth_string[OF assms(1)]
  note len = child_lengths[OF assms(2)] child_key_length[OF assms(2)]
  show ?thesis using assms(3)
    by (auto simp: get_account_from_nth_def LegacyKeyScheme_new_Ok[OF assms(2)] account_keys_at_def
        xk_get_authentication_key_def xk_get_address_def rt len private_key_ok
        simp flip: child_auth_def child_addr_def)
qed

lemma KeyChain_new_Ok:
  assumes "address_roundtrip v" and "length (kf_main (wl_key_factory w)) = 32"
  shows "KeyChain_new c v w = Ok (key_chain_of c (wl_mnemonic w) (wl_key_factory w))"
  by (simp add: KeyChain_new_def get_account_from_nth_Ok[OF assms] key_chain_of_def wallet_mnemonic_def)

lemma first_address:
  assumes "length (kf_main kf) = 32"
  shows "new_address c \<lparr>wl_mnemonic = m, wl_key_factory = kf, wl_addr_map = [], wl_key_leaf = 0\<rparr> =
    (Ok (child_auth c kf 0, 0),
     \<lparr>wl_mnemonic = m, wl_key_factory = kf, wl_addr_map = [(child_addr c kf 0, 0)], wl_key_leaf = 1\<rparr>)"
  by (simp add: new_address_def private_child_Ok[OF assms] xk_get_authentication_key_def child_auth_def
      child_addr_def Let_def)

text \<open>Loading an account from a phrase and building its key chain.\<close>

lemma account_from_mnem_Ok:
  assumes "Mnemonic_from (c_sha256 c) (trim s) = Ok m"
  shows "\<exists>kf. length (kf_main kf) = 32 \<and> KeyFactory_new c (Seed_new c m ''0L'') = Ok kf \<and>
    get_account_from_mnem c s = Ok (child_auth c kf 0, child_addr c kf 0,
      \<lparr>wl_mnemonic = m, wl_key_factory = kf, wl_addr_map = [(child_addr c kf 0, 0)], wl_key_leaf = 1\<rparr>)"
proof -
  obtain kf where kf: "length (kf_main kf) = 32" "KeyFactory_new c (Seed_new c m ''0L'') = Ok kf"
    using KeyFactory_new_Ok by blast
  then show ?thesis
    by (auto simp: get_account_from_mnem_def assms WalletLibrary_new_from_mnemonic_def first_address
        child_addr_def)
qed

lemma keys_from_mnem_Ok:
  assumes "address_roundtrip v" and "Mnemonic_from (c_sha256 c) (trim s) = Ok m"
    and "KeyFactory_new c (Seed_new c m ''0L'') = Ok kf"
  shows "get_keys_from_mnem c v s = Ok (key_chain_of c m kf)"
proof -
  from account_from_mnem_Ok[OF assms(2)] assms(3) have len: "length (kf_main kf) = 32"
    and acc: "get_account_from_mnem c s = Ok (child_auth c kf 0, child_addr c kf 0,
      \<lparr>wl_mnemonic = m, wl_key_factory = kf, wl_addr_map = [(child_addr c kf 0, 0)], wl_key_leaf = 1\<rparr>)" by auto
  show ?thesis unfolding get_keys_from_mnem_def acc by (simp add: KeyChain_new_Ok[OF assms(1)] len)
qed

lemma legacy_keygen_Ok:
  assumes "address_roundtrip v" and "Mnemonic_new (c_sha256 c) data = Ok m"
  shows "\<exists>kf. KeyFactory_new c (Seed_new c m ''0L'') = Ok kf \<and>
    legacy_keygen c v data = Ok (key_chain_of c m kf)"
proof -
  obtain kf where kf: "length (kf_main kf) = 32" "KeyFactory_new c (Seed_new c m ''0L'') = Ok kf"
    using KeyFactory_new_Ok by blast
  then have "keygen c data = Ok (child_auth c kf 0, child_addr c kf 0,
      \<lparr>wl_mnemonic = m, wl_key_factory = kf, wl_addr_map = [(child_addr c kf 0, 0)], wl_key_leaf = 1\<rparr>,
      Mnemonic_to_string m)"
    by (simp add: keygen_def WalletLibrary_new_def assms(2) WalletLibrary_new_from_mnemonic_def first_address
        child_addr_def wallet_mnemonic_def)
  then show ?thesis using kf by (simp add: legacy_keygen_def KeyChain_new_Ok[OF assms(1)])
qed

end

text \<open>
  C34. New keys are recoverable: key generation succeeds on 32 random bytes and the phrase it prints, typed back
  with any surrounding white space, gives the same key chain. The owner entry is the account that loading
  the phrase returns, and its keys are those computed from its private key.
\<close>

theorem keygen_recoverable:
  assumes "key_crypto c" and "address_roundtrip v" and "sha256_digest (c_sha256 c)" and "length data = 32"
  shows "\<exists>kc. legacy_keygen c v data = Ok kc \<and>
    (\<forall>s. trim s = kc_mnemonic kc \<longrightarrow> get_keys_from_mnem c v s = Ok kc \<and>
      (\<exists>w. get_account_from_mnem c s = Ok (ak_auth_key (kc_child_0_owner kc), ak_account (kc_child_0_owner kc), w))) \<and>
    get_account_from_private c (ak_pri_key (kc_child_0_owner kc)) = kc_child_0_owner kc"
proof -
  obtain m where m: "Mnemonic_new (c_sha256 c) data = Ok m"
    using Mnemonic_new_spec[OF assms(3), of 8 data] assms(4) by auto
  obtain kf where kf: "KeyFactory_new c (Seed_new c m ''0L'') = Ok kf"
    "legacy_keygen c v data = Ok (key_chain_of c m kf)"
    using key_crypto.legacy_keygen_Ok[OF assms(1,2) m] by blast
  have "get_keys_from_mnem c v s = Ok (key_chain_of c m kf) \<and>
      (\<exists>w. get_account_from_mnem c s = Ok (child_auth c kf 0, child_addr c kf 0, w))"
    if "trim s = Mnemonic_to_string m" for s
  proof -
    have "Mnemonic_from (c_sha256 c) (trim s) = Ok m"
      unfolding that by (rule sha256_digest.generated_parses[OF assms(3) m])
    from key_crypto.keys_from_mnem_Ok[OF assms(1,2) this kf(1)]
      key_crypto.account_from_mnem_Ok[OF assms(1) this] kf(1) show ?thesis by auto
  qed
  moreover have "get_account_from_private c (child_key c kf 0) = account_keys_at c kf 0"
    by (simp add: get_account_from_private_def account_keys_at_def child_addr_def child_auth_def Let_def)
  ultimately show ?thesis using kf(2) by (auto simp: key_chain_of_def account_keys_at_def)
qed

lemma ref_digest: "sha256_digest (c_sha256 ref_crypto)"
  using fips.sha256_digest_axioms by (simp add: ref_crypto_def)

theorem keygen_recoverable_witness:
  "\<exists>kc. legacy_keygen ref_crypto ref_conv (replicate 32 5) = Ok kc \<and>
     get_account_from_private ref_crypto (ak_pri_key (kc_child_0_owner kc)) = kc_child_0_owner kc"
  using keygen_recoverable[OF ref_keys.key_crypto_axioms ref_text.address_roundtrip_axioms ref_digest,
      of "replicate 32 5"] by auto

text \<open>A mnemonic that was generated survives being written to a file.\<close>

lemma mnemonic_file_roundtrip:
  assumes "sha256_digest sha" and "Mnemonic_new sha e = Ok m" and "Mnemonic_write m p fs = Ok fs'"
  shows "Mnemonic_read sha p fs' = Ok m"
  using assms(3) sha256_digest.generated_parses[OF assms(1,2)]
  by (auto simp: Mnemonic_write_def Mnemonic_read_def split: if_splits)

end
