(* ===== verification/Txs_Sender.thy ===== *)
theory Txs_Sender
  imports Query Sdk_Builder Wallet
begin

text \<open>
  Sending transactions (\<^verbatim>\<open>src/tools/txs/src/submit_transaction.rs\<close>, \<^verbatim>\<open>transfer.rs\<close>, \<^verbatim>\<open>generic_tx.rs\<close>, the address
  conversion of \<^verbatim>\<open>txs_cli.rs\<close> and the client constructors of \<^verbatim>\<open>client_ext.rs\<close>).

  A method on \<open>&mut Sender\<close> is an effect on the state \<open>net\<close>: the sender, the network its client talks to, and the log of
  the transactions handed to the API so far, which the code does not keep and the statements are about. The record
  \<open>env\<close> holds the vendor code: signing, the system time, parsers and BCS.
\<close>

section \<open>State\<close>

record 'w Sender =
  sd_account :: LocalAccount
  sd_tx_cost :: TxCost
  sd_client :: "'w client"
  sd_chain_id :: u8
  sd_response :: "OnChainTx option"

record 'w net =
  nt_sender :: "'w Sender"
  nt_world :: 'w
  nt_sent :: "SignedTransaction list"

record 'w env =
  ev_sign :: signer
  ev_now :: "'w \<Rightarrow> u64"
  ev_text :: move_text
  ev_bcs :: bcs
  ev_auth_key :: "bytes \<Rightarrow> auth_key"
  ev_gas :: gas_constants
  ev_connect :: "url \<Rightarrow> 'w client"

text \<open>A request of the sender's client.\<close>

definition ask :: "('w client \<Rightarrow> ('a, 'w) io) \<Rightarrow> ('a, 'w net) io" where
  "ask q = (\<lambda>n. case q (sd_client (nt_sender n)) (nt_world n) of (r, w) \<Rightarrow> (r, n\<lparr>nt_world := w\<rparr>))"

section \<open>Constructing a sender\<close>

definition from_libra_config :: "'w env \<Rightarrow> AppCfg \<Rightarrow> NamedChain option \<Rightarrow> ('w client \<times> u8, 'w) io" where
  "from_libra_config ev app_cfg chain_id_opt =
     io_bind (io_of (pick_url app_cfg chain_id_opt)) (\<lambda>url.
     let cl = ev_connect ev url in
     io_bind (cl_index cl) (\<lambda>chain_id. io_of (Ok (cl, chain_id))))"

text \<open>\<open>Client::default\<close>; \<open>load_cfg\<close> is \<open>AppCfg::load\<close> on the files of the machine.\<close>

definition client_default :: "'w env \<Rightarrow> (fpath option \<Rightarrow> AppCfg rres) \<Rightarrow> ('w client, 'w) io" where
  "client_default ev load_cfg =
     io_bind (io_of (load_cfg None)) (\<lambda>app_cfg.
     io_bind (from_libra_config ev app_cfg None) (\<lambda>(cl, _). io_of (Ok cl)))"

definition to_legacy_address :: "move_text \<Rightarrow> account_address \<Rightarrow> account_address rres" where
  "to_legacy_address mt address =
     (let address_str = mt_address_str mt address;
          address_str = (if 32 \<le> length address_str then replicate 32 CHR ''0'' @ drop 32 address_str else address_str)
      in mt_from_hex_literal mt (''0x'' @ address_str))"

definition Sender_new ::
  "'w env \<Rightarrow> (fpath option \<Rightarrow> AppCfg rres) \<Rightarrow> bytes \<Rightarrow> u8 \<Rightarrow> 'w client option \<Rightarrow> bool \<Rightarrow> ('w Sender, 'w) io" where
  "Sender_new ev load_cfg account_key chain_id client_opt use_legacy_address =
     io_bind (case client_opt of Some c \<Rightarrow> io_of (Ok c) | None \<Rightarrow> client_default ev load_cfg) (\<lambda>cl.
     io_bind (cl_ledger_information cl) (\<lambda>_.
     io_bind (lookup_originating_address (ev_text ev) cl (ev_auth_key ev account_key)) (\<lambda>address.
     io_bind (io_of (if \<not> use_legacy_address then Ok address else to_legacy_address (ev_text ev) address)) (\<lambda>address.
     io_bind (get_sequence_number (ev_text ev) cl address) (\<lambda>seq.
     io_of (Ok
       \<lparr>sd_account = \<lparr>la_address = address, la_private_key = account_key, la_seq = seq\<rparr>,
        sd_tx_cost = default_baseline_cost (ev_gas ev), sd_client = cl, sd_chain_id = chain_id,
        sd_response = None\<rparr>))))))"

definition set_tx_cost :: "TxCost \<Rightarrow> 'w Sender \<Rightarrow> 'w Sender" where
  "set_tx_cost cost s = s\<lparr>sd_tx_cost := cost\<rparr>"

text \<open>\<open>prompt\<close> is the key the user enters when the profile has none.\<close>

definition from_app_cfg :: "'w env \<Rightarrow> bytes rres \<Rightarrow> AppCfg \<Rightarrow> string option \<Rightarrow> ('w Sender, 'w) io" where
  "from_app_cfg ev prompt app_cfg profile =
     io_bind (io_of (get_profile (mt_address_str (ev_text ev)) app_cfg profile)) (\<lambda>profile.
     io_bind (io_of (case borrow_private_key profile of Ok k \<Rightarrow> Ok k | _ \<Rightarrow> prompt)) (\<lambda>key.
     let auth_key = ev_auth_key ev key in
     io_bind (io_of (pick_url app_cfg None)) (\<lambda>url.
     let cl = ev_connect ev url in
     io_bind (io_match (lookup_originating_address (ev_text ev) cl auth_key) (\<lambda>a. io_of (Ok a))
                (\<lambda>e. io_of (Ok (account profile)))) (\<lambda>address.
     io_match (cl_index cl)
       (\<lambda>chain_id.
          io_bind (io_match (get_sequence_number (ev_text ev) cl address) (\<lambda>s. io_of (Ok s))
                     (\<lambda>e. io_of (Err ''failed to get sequence number''))) (\<lambda>seq_num.
          io_of (Ok
            \<lparr>sd_account = \<lparr>la_address = address, la_private_key = key, la_seq = seq_num\<rparr>,
             sd_tx_cost = get_cost (ev_gas ev) (tx_configs app_cfg) None, sd_client = cl, sd_chain_id = chain_id,
             sd_response = None\<rparr>)))
       (\<lambda>e. io_of (Err (''cannot connect to client at '' @ url)))))))"

text \<open>The vendor's profile: account, URL and network.\<close>

record ProfileConfig =
  pc_account :: "account_address option"
  pc_rest_url :: "string option"
  pc_network :: "u8 option"

text \<open>\<open>load_profile\<close> is \<open>CliConfig::load_profile_ext\<close>, \<open>parse_url\<close> the parser of URLs.\<close>

definition from_vendor_profile ::
  "'w env \<Rightarrow> (string option \<Rightarrow> string option \<Rightarrow> ProfileConfig option rres) \<Rightarrow> (string \<Rightarrow> url rres) \<Rightarrow> bytes rres \<Rightarrow>
   string option \<Rightarrow> string option \<Rightarrow> bytes option \<Rightarrow> ('w Sender, 'w) io" where
  "from_vendor_profile ev load_profile parse_url prompt profile_name workspace_dir pri_key =
     io_bind (io_of (load_profile None None)) (\<lambda>cfg.
     case cfg of
       None \<Rightarrow> io_of (Err ''could not read profile'')
     | Some c \<Rightarrow>
         io_bind (io_of (or_err ''no profile found'' (pc_account c))) (\<lambda>address.
         io_bind (io_of (case pri_key of Some p \<Rightarrow> Ok p | None \<Rightarrow> prompt)) (\<lambda>key.
         io_bind (io_of (rbind (or_err ''could not find rest_url in profile'' (pc_rest_url c)) parse_url)) (\<lambda>url.
         let cl = ev_connect ev url in
         io_bind (io_match (cl_index cl) (\<lambda>_. get_sequence_number (ev_text ev) cl address)
                    (\<lambda>e. io_of (Err (''cannot connect to client at '' @ url)))) (\<lambda>seq_num.
         io_bind (io_of (or_err ''cannot get which network id to connect to'' (pc_network c))) (\<lambda>chain_id.
         io_of (Ok
           \<lparr>sd_account = \<lparr>la_address = address, la_private_key = key, la_seq = seq_num\<rparr>,
            sd_tx_cost = default_baseline_cost (ev_gas ev), sd_client = cl, sd_chain_id = chain_id,
            sd_response = None\<rparr>)))))))"

section \<open>Signing and submitting\<close>

definition DEFAULT_TIMEOUT_SECS :: u64 where
  "DEFAULT_TIMEOUT_SECS = 10"

definition sign_payload :: "'w env \<Rightarrow> TxPayload \<Rightarrow> (SignedTransaction, 'w net) io" where
  "sign_payload ev payload = (\<lambda>n.
     let s = nt_sender n;
         time = ev_now ev (nt_world n) + DEFAULT_TIMEOUT_SECS * 10;
         tb = \<lparr>tb_payload = payload, tb_expiration = time, tb_chain_id = sd_chain_id s,
               tb_gas_price = coin_price_per_unit (sd_tx_cost s), tb_max_gas = max_gas_unit_for_tx (sd_tx_cost s)\<rparr>
     in case ev_sign ev (sd_account s) tb of (signed_tx, acct) \<Rightarrow>
       (Ok signed_tx, n\<lparr>nt_sender := s\<lparr>sd_account := acct\<rparr>\<rparr>))"

definition submit :: "SignedTransaction \<Rightarrow> (OnChainTx, 'w net) io" where
  "submit signed_trans = (\<lambda>n.
     io_bind (ask (\<lambda>cl. cl_submit cl signed_trans)) (\<lambda>pending_trans. ask (\<lambda>cl. cl_wait cl pending_trans))
       (n\<lparr>nt_sent := nt_sent n @ [signed_trans]\<rparr>))"

definition sign_submit_wait :: "'w env \<Rightarrow> TxPayload \<Rightarrow> (OnChainTx, 'w net) io" where
  "sign_submit_wait ev payload =
     io_bind (sign_payload ev payload) (\<lambda>signed.
     io_bind (submit signed) (\<lambda>r n.
       (Ok r, n\<lparr>nt_sender := (nt_sender n)\<lparr>sd_response := Some r\<rparr>\<rparr>)))"

text \<open>\<open>Inr\<close> is the status of success, \<open>Inl\<close> that of a failure.\<close>

definition eval_response :: "'w Sender \<Rightarrow> ExecutionStatus + ExecutionStatus" where
  "eval_response s =
     (case sd_response s of
        None \<Rightarrow> Inl MiscellaneousError
      | Some r \<Rightarrow> if oc_status r = Success then Inr (oc_status r) else Inl (oc_status r))"

definition estimate :: "'w env \<Rightarrow> TxPayload \<Rightarrow> (UserTransaction list, 'w net) io" where
  "estimate ev payload = io_bind (sign_payload ev payload) (\<lambda>signed. ask (\<lambda>cl. cl_simulate cl signed))"

definition tx_hash :: "'w Sender \<Rightarrow> bytes option" where
  "tx_hash s = map_option oc_hash (sd_response s)"

definition transfer :: "'w env \<Rightarrow> account_address \<Rightarrow> f64 \<Rightarrow> bool \<Rightarrow> (OnChainTx option, 'w net) io" where
  "transfer ev to_addr amount estimate_it =
     (let payload = encode (ev_bcs ev) (OlAccountTransfer to_addr (cast_decimal_to_coin amount)) in
      if estimate_it then
        io_bind (estimate ev payload) (\<lambda>res. io_bind (io_of (index res 0)) (\<lambda>_. io_of (Ok None)))
      else
        io_match (sign_submit_wait ev payload) (\<lambda>tx. io_of (Ok (Some tx)))
          (\<lambda>e. io_of (Err (''ERROR: transaction could not complete, message: '' @ e))))"

definition generic :: "'w env \<Rightarrow> string \<Rightarrow> string option \<Rightarrow> string option \<Rightarrow> (unit, 'w net) io" where
  "generic ev function_id ty_args args =
     io_bind (io_of (build_entry_function (ev_text ev) function_id ty_args args)) (\<lambda>e.
     io_bind (sign_submit_wait ev (EntryFn e)) (\<lambda>_. io_of (Ok ())))"

section \<open>Requests do not touch the sender\<close>

lemma ask_keeps [io_keeps_intros]: "io_keeps nt_sender (ask q)" "io_keeps nt_sent (ask q)"
  by (simp_all add: io_keeps_def ask_def split_beta)

lemma ask_sel [simp]: "nt_sender (snd (ask q n)) = nt_sender n" "nt_sent (snd (ask q n)) = nt_sent n"
  by (simp_all add: ask_keeps[THEN io_keepsD])

text \<open>The transaction the sender signs next, and the account after it.\<close>

definition next_tx :: "'w env \<Rightarrow> TxPayload \<Rightarrow> 'w net \<Rightarrow> SignedTransaction" where
  "next_tx ev payload n =
     (let s = nt_sender n in
      \<lparr>sg_sender = la_address (sd_account s), sg_seq = la_seq (sd_account s),
       sg_body = \<lparr>tb_payload = payload, tb_expiration = ev_now ev (nt_world n) + 100, tb_chain_id = sd_chain_id s,
         tb_gas_price = coin_price_per_unit (sd_tx_cost s), tb_max_gas = max_gas_unit_for_tx (sd_tx_cost s)\<rparr>\<rparr>)"

definition counted :: "'w Sender \<Rightarrow> 'w Sender" where
  "counted s = s\<lparr>sd_account := (sd_account s)\<lparr>la_seq := la_seq (sd_account s) + 1\<rparr>\<rparr>"

lemma sign_payload_run:
  assumes "local_signer (ev_sign ev)"
  shows "sign_payload ev payload n = (Ok (next_tx ev payload n), n\<lparr>nt_sender := counted (nt_sender n)\<rparr>)"
  using local_signer.sign_pair[OF assms]
  by (simp add: sign_payload_def next_tx_def counted_def Let_def DEFAULT_TIMEOUT_SECS_def)

lemma submit_keeps:
  "nt_sender (snd (submit tx n)) = nt_sender n" "nt_sent (snd (submit tx n)) = nt_sent n @ [tx]"
proof -
  let ?m = "io_bind (ask (\<lambda>cl. cl_submit cl tx)) (\<lambda>pending_trans. ask (\<lambda>cl. cl_wait cl pending_trans)) :: (OnChainTx, 'a net) io"
  have "io_keeps nt_sender ?m" "io_keeps nt_sent ?m" by (intro io_keeps_intros)+
  from this[THEN io_keepsD] show "nt_sender (snd (submit tx n)) = nt_sender n" "nt_sent (snd (submit tx n)) = nt_sent n @ [tx]"
    by (simp_all add: submit_def)
qed

lemma sign_submit_wait_run:
  assumes "local_signer (ev_sign ev)" and "sign_submit_wait ev payload n = (r, n')"
  shows "nt_sent n' = nt_sent n @ [next_tx ev payload n] \<and>
     nt_sender n' = (case r of Ok t \<Rightarrow> (counted (nt_sender n))\<lparr>sd_response := Some t\<rparr> | _ \<Rightarrow> counted (nt_sender n))"
proof -
  let ?n = "n\<lparr>nt_sender := counted (nt_sender n)\<rparr>" and ?tx = "next_tx ev payload n"
  obtain q t where qt: "submit ?tx ?n = (q, t)" by force
  with submit_keeps[of ?tx ?n] have k: "nt_sender t = counted (nt_sender n)" "nt_sent t = nt_sent n @ [?tx]" by simp_all
  have "sign_submit_wait ev payload n = io_bind (submit ?tx) (\<lambda>r n.
       (Ok r, n\<lparr>nt_sender := (nt_sender n)\<lparr>sd_response := Some r\<rparr>\<rparr>)) ?n"
    using sign_payload_run[OF assms(1)] by (simp add: sign_submit_wait_def)
  with qt k assms(2) show ?thesis by (cases q) auto
qed

text \<open>
  C23. Every call of \<open>sign_submit_wait\<close>, successful or not, hands exactly one transaction to the API, signed with the
  sender's address and its next sequence number, the chosen gas limits and an expiry of 100 seconds, and uses up that
  sequence number. The stored response is that of the last \<^emph>\<open>successful\<close> call: after a failed call \<open>eval_response\<close> still
  reports the transaction before it.
\<close>

theorem sign_submit_wait_effect:
  assumes "local_signer (ev_sign ev)" and "sign_submit_wait ev payload n = (r, n')"
  shows "nt_sent n' = nt_sent n @ [next_tx ev payload n] \<and>
     la_seq (sd_account (nt_sender n')) = la_seq (sd_account (nt_sender n)) + 1 \<and>
     la_address (sd_account (nt_sender n')) = la_address (sd_account (nt_sender n)) \<and>
     sd_tx_cost (nt_sender n') = sd_tx_cost (nt_sender n) \<and>
     (\<forall>t. r = Ok t \<longrightarrow> sd_response (nt_sender n') = Some t) \<and>
     (\<forall>e. r = Err e \<longrightarrow> eval_response (nt_sender n') = eval_response (nt_sender n))"
  using sign_submit_wait_run[OF assms] by (cases r) (auto simp: counted_def eval_response_def)

section \<open>A reference network\<close>

text \<open>
  A node that knows the next sequence number of one account, accepts a transaction with exactly that number and executes
  it. Requests of older or newer numbers are rejected.
\<close>

record chain =
  ch_next :: u64
  ch_executed :: "TxPayload list"

definition chain_node :: "chain client" where
  "chain_node =
     (answering [])\<lparr>cl_view := (\<lambda>_. io_of (Ok [JString (lower_hex zero_address)])),
      cl_account_resource := (\<lambda>_ _ c. (Ok (Some (JString (dec_str (unat (ch_next c))))), c)),
      cl_submit := (\<lambda>tx c. if sg_seq tx = ch_next c
        then (Ok ''hash'', c\<lparr>ch_next := ch_next c + 1, ch_executed := ch_executed c @ [tb_payload (sg_body tx)]\<rparr>)
        else (Err ''invalid sequence number'', c)),
      cl_wait := (\<lambda>_. io_of (Ok \<lparr>oc_hash = [1], oc_status = Success\<rparr>)),
      cl_simulate := (\<lambda>_. io_of (Ok [\<lparr>us_success = True, us_gas_used = 7\<rparr>]))\<rparr>"

definition ref_env :: "chain env" where
  "ref_env =
     \<lparr>ev_sign = ref_sign, ev_now = (\<lambda>_. 1000), ev_text = ref_move_text, ev_bcs = ref_bcs, ev_auth_key = (\<lambda>k. k),
      ev_gas = \<lparr>GAS_UNIT_PRICE = 100, MAX_GAS_AMOUNT = 2000000\<rparr>, ev_connect = (\<lambda>_. chain_node)\<rparr>"

definition ref_sender :: "u64 \<Rightarrow> chain Sender" where
  "ref_sender own_seq =
     \<lparr>sd_account = \<lparr>la_address = zero_address, la_private_key = [], la_seq = own_seq\<rparr>,
      sd_tx_cost = \<lparr>max_gas_unit_for_tx = 10, coin_price_per_unit = 3, user_tx_timeout = 5\<rparr>, sd_client = chain_node,
      sd_chain_id = 1, sd_response = None\<rparr>"

definition ref_net :: "u64 \<Rightarrow> u64 \<Rightarrow> chain net" where
  "ref_net own_seq chain_seq =
     \<lparr>nt_sender = ref_sender own_seq, nt_world = \<lparr>ch_next = chain_seq, ch_executed = []\<rparr>, nt_sent = []\<rparr>"

lemma ref_env_sel [simp]:
  "ev_sign ref_env = ref_sign" "ev_now ref_env w = 1000" "ev_text ref_env = ref_move_text" "ev_bcs ref_env = ref_bcs"
  by (simp_all add: ref_env_def)

lemma chain_node_sel [simp]:
  "cl_submit chain_node tx c = (if sg_seq tx = ch_next c
     then (Ok ''hash'', c\<lparr>ch_next := ch_next c + 1, ch_executed := ch_executed c @ [tb_payload (sg_body tx)]\<rparr>)
     else (Err ''invalid sequence number'', c))"
  "cl_wait chain_node h c = (Ok \<lparr>oc_hash = [1], oc_status = Success\<rparr>, c)"
  "cl_simulate chain_node tx c = (Ok [\<lparr>us_success = True, us_gas_used = 7\<rparr>], c)"
  by (simp_all add: chain_node_def answering_def)

theorem sign_submit_wait_effect_witness:
  "la_seq (sd_account (nt_sender (snd (sign_submit_wait ref_env (ScriptTx [] [] []) (ref_net 4 9))))) = 5 \<and>
   is_err (fst (sign_submit_wait ref_env (ScriptTx [] [] []) (ref_net 4 9)))"
proof -
  have "fst (sign_submit_wait ref_env (ScriptTx [] [] []) (ref_net 4 9)) = Err ''invalid sequence number''"
    by (simp add: sign_submit_wait_def sign_payload_run[OF ref_signer.local_signer_axioms[folded ref_env_sel(1)]]
        submit_def ask_def ref_net_def ref_sender_def next_tx_def counted_def io_bind_def io_match_def)
  moreover have "la_seq (sd_account (nt_sender (snd (sign_submit_wait ref_env (ScriptTx [] [] []) (ref_net 4 9))))) = 4 + 1"
    using sign_submit_wait_effect[of ref_env "ScriptTx [] [] []" "ref_net 4 9"] ref_signer.local_signer_axioms
    by (cases "sign_submit_wait ref_env (ScriptTx [] [] []) (ref_net 4 9)") (simp add: ref_net_def ref_sender_def)
  ultimately show ?thesis by simp
qed

section \<open>Transfers\<close>

lemma estimate_run:
  assumes "local_signer (ev_sign ev)"
  shows "nt_sent (snd (estimate ev payload n)) = nt_sent n"
    "nt_sender (snd (estimate ev payload n)) = counted (nt_sender n)"
proof -
  have "estimate ev payload n =
      ask (\<lambda>cl. cl_simulate cl (next_tx ev payload n)) (n\<lparr>nt_sender := counted (nt_sender n)\<rparr>)"
    using sign_payload_run[OF assms] by (simp add: estimate_def)
  then show "nt_sent (snd (estimate ev payload n)) = nt_sent n"
    "nt_sender (snd (estimate ev payload n)) = counted (nt_sender n)" by simp_all
qed

lemma transfer_estimate_run:
  assumes "local_signer (ev_sign ev)"
  shows "nt_sent (snd (transfer ev dest amount True n)) = nt_sent n"
    "nt_sender (snd (transfer ev dest amount True n)) = counted (nt_sender n)"
proof -
  let ?p = "encode (ev_bcs ev) (OlAccountTransfer dest (cast_decimal_to_coin amount))"
  obtain q t where qt: "estimate ev ?p n = (q, t)" by force
  have "snd (transfer ev dest amount True n) = t"
  proof (cases q)
    case (Ok xs)
    with qt show ?thesis by (cases "index xs 0") (simp_all add: transfer_def io_bind_def io_match_def)
  qed (use qt in \<open>simp_all add: transfer_def\<close>)
  with estimate_run[OF assms, of ?p n] qt show "nt_sent (snd (transfer ev dest amount True n)) = nt_sent n"
    "nt_sender (snd (transfer ev dest amount True n)) = counted (nt_sender n)" by simp_all
qed

text \<open>
  A transfer hands one \<open>ol_account::transfer\<close> of the scaled amount to the API. With \<open>estimate\<close> it submits nothing, yet
  the sender's sequence number is used up: the next transaction of the same sender leaves a gap.
\<close>

theorem transfer_effect:
  assumes "local_signer (ev_sign ev)"
  shows "nt_sent (snd (transfer ev dest amount False n)) =
      nt_sent n @ [next_tx ev (ol_account_transfer (ev_bcs ev) dest (cast_decimal_to_coin amount)) n] \<and>
    nt_sent (snd (transfer ev dest amount True n)) = nt_sent n \<and>
    nt_sender (snd (transfer ev dest amount True n)) = counted (nt_sender n)"
proof (intro conjI)
  let ?p = "encode (ev_bcs ev) (OlAccountTransfer dest (cast_decimal_to_coin amount))"
  obtain r n' where "sign_submit_wait ev ?p n = (r, n')" by force
  with sign_submit_wait_run[OF assms this] show "nt_sent (snd (transfer ev dest amount False n)) =
      nt_sent n @ [next_tx ev (ol_account_transfer (ev_bcs ev) dest (cast_decimal_to_coin amount)) n]"
    by (cases r) (simp_all add: transfer_def)
qed (simp_all add: transfer_estimate_run[OF assms])

theorem transfer_effect_witness:
  "nt_sent (snd (transfer ref_env zero_address 2 True (ref_net 4 4))) = [] \<and>
   la_seq (sd_account (nt_sender (snd (transfer ref_env zero_address 2 True (ref_net 4 4))))) = 5"
  using transfer_effect[of ref_env zero_address 2 "ref_net 4 4"] ref_signer.local_signer_axioms
  by (simp add: ref_net_def ref_sender_def counted_def)

section \<open>Legacy addresses\<close>

lemma drop_lower_hex: "n \<le> length a \<Longrightarrow> drop (2 * n) (lower_hex a) = lower_hex (drop n a)"
proof -
  assume "n \<le> length a"
  moreover have "lower_hex a = lower_hex (take n a) @ lower_hex (drop n a)"
    using lower_hex_append[of "take n a" "drop n a"] by simp
  ultimately show ?thesis by simp
qed

lemma zero_hex: "lower_hex (replicate n 0) = replicate (2 * n) CHR ''0''"
proof -
  have "hex_byte 0 = ''00''" by code_simp
  then show ?thesis by (induction n) simp_all
qed

text \<open>
  The two conversions to legacy addresses agree: \<open>to_legacy_address\<close> of the transaction tool, which cuts the printed
  address, and \<open>get_ol_legacy_address\<close> of the wallet, which cuts its bytes, both clear the first 16 bytes of an address.
\<close>

theorem legacy_addresses_agree:
  assumes "address_text (mt_address_str mt) (mt_from_hex_literal mt)" and "address_roundtrip v" and "is_address a"
  shows "to_legacy_address mt a = Ok (replicate 16 0 @ drop 16 a) \<and> get_ol_legacy_address v a = to_legacy_address mt a"
proof -
  let ?l = "replicate 16 0 @ drop 16 a :: account_address"
  have "mt_address_str mt a = lower_hex a"
    using address_display.to_str_hex[OF address_text.axioms(1)[OF assms(1)] assms(3)] .
  moreover have "replicate 32 CHR ''0'' @ drop 32 (lower_hex a) = lower_hex ?l"
    using drop_lower_hex[of 16 a] zero_hex[of 16] assms(3) by simp
  moreover have "mt_from_hex_literal mt (''0x'' @ lower_hex ?l) = Ok ?l"
    using address_text.literal_full[OF assms(1), of ?l] assms(3) by simp
  ultimately have "to_legacy_address mt a = Ok ?l"
    using assms(3) by (simp add: to_legacy_address_def)
  then show ?thesis using address_roundtrip.ol_legacy_address[OF assms(2,3)] by simp
qed

theorem legacy_addresses_agree_witness:
  "to_legacy_address ref_move_text (replicate 32 7) = Ok (replicate 16 0 @ replicate 16 7) \<and>
   get_ol_legacy_address ref_conv (replicate 32 7) = to_legacy_address ref_move_text (replicate 32 7)"
  using legacy_addresses_agree[of ref_move_text ref_conv "replicate 32 7"] hex_text.address_text_axioms
    ref_text.address_roundtrip_axioms by simp

end
