(* ===== verification/Wallet_Files.thy ===== *)
theory Wallet_Files
  imports Wallet
begin

text \<open>
  The key files of a user and of a validator (\<^verbatim>\<open>src/tools/wallet/src/keys.rs\<close>, \<^verbatim>\<open>key_gen.rs\<close>, \<^verbatim>\<open>utils.rs\<close>) and the
  operator and owner configuration (\<^verbatim>\<open>validator_files.rs\<close>).

  The vendor's identity structs are records. Further primitives are the fields of \<open>node_crypto\<close>: BLS and X25519 keys
  made from bytes, their public parts and the proof of possession. The file system is a map from paths
  to contents; \<open>overwrite\<close> says whether an existing file may be replaced, by the \<open>LIBRA_CI\<close> variable or by the
  user's answer, and is \<open>None\<close> when the prompt fails, which the code unwraps. \<open>yaml\<close> is the printer of each struct.
\<close>

section \<open>Identities\<close>

record node_crypto =
  n_ed_public :: "bytes \<Rightarrow> bytes"
  n_bls_key_gen :: "bytes \<Rightarrow> bytes rres"
  n_bls_private :: "bytes \<Rightarrow> bytes rres"
  n_bls_public :: "bytes \<Rightarrow> bytes"
  n_bls_possession :: "bytes \<Rightarrow> bytes"
  n_x25519_private :: "bytes \<Rightarrow> bytes rres"
  n_x25519_public :: "bytes \<Rightarrow> bytes"
  n_network_address :: "bytes \<Rightarrow> account_address rres"

record IdentityBlob =
  ib_account_address :: "account_address option"
  ib_account_private_key :: "bytes option"
  ib_consensus_private_key :: "bytes option"
  ib_network_private_key :: bytes

record PrivateIdentity =
  pi_account_address :: account_address
  pi_account_private_key :: bytes
  pi_consensus_private_key :: bytes
  pi_full_node_network_private_key :: bytes
  pi_validator_network_private_key :: bytes

record PublicIdentity =
  pb_account_address :: account_address
  pb_account_public_key :: bytes
  pb_consensus_public_key :: "bytes option"
  pb_consensus_proof_of_possession :: "bytes option"
  pb_full_node_network_public_key :: "bytes option"
  pb_validator_network_public_key :: "bytes option"

definition bls_generate_key :: "node_crypto \<Rightarrow> bytes \<Rightarrow> bytes rres" where
  "bls_generate_key nc ikm = rbind (n_bls_key_gen nc ikm) (n_bls_private nc)"

definition network_keys_x25519_from_ed25519 :: "node_crypto \<Rightarrow> bytes \<Rightarrow> bytes rres" where
  "network_keys_x25519_from_ed25519 nc pri_key = n_x25519_private nc pri_key"

definition generate_key_objects_from_legacy ::
  "node_crypto \<Rightarrow> KeyChain \<Rightarrow> (IdentityBlob \<times> IdentityBlob \<times> PrivateIdentity \<times> PublicIdentity) rres" where
  "generate_key_objects_from_legacy nc keys =
     (let account_key = ak_pri_key (kc_child_0_owner keys) in
      rbind (bls_generate_key nc (kc_seed keys)) (\<lambda>consensus_key.
      rbind (network_keys_x25519_from_ed25519 nc (ak_pri_key (kc_child_2_val_network keys))) (\<lambda>vnk.
      rbind (network_keys_x25519_from_ed25519 nc (ak_pri_key (kc_child_3_fullnode_network keys))) (\<lambda>fnk.
      let account_address = ak_account (kc_child_0_owner keys);
          validator_blob = \<lparr>ib_account_address = Some account_address, ib_account_private_key = Some account_key,
                            ib_consensus_private_key = Some consensus_key, ib_network_private_key = vnk\<rparr> in
      rbind (n_network_address nc (n_x25519_public nc fnk)) (\<lambda>vfn_address.
      let vfn_blob = \<lparr>ib_account_address = Some vfn_address, ib_account_private_key = None,
                      ib_consensus_private_key = None, ib_network_private_key = fnk\<rparr>;
          private_identity = \<lparr>pi_account_address = account_address, pi_account_private_key = account_key,
                              pi_consensus_private_key = consensus_key,
                              pi_full_node_network_private_key = fnk, pi_validator_network_private_key = vnk\<rparr>;
          public_identity = \<lparr>pb_account_address = account_address, pb_account_public_key = n_ed_public nc account_key,
                             pb_consensus_public_key = Some (n_bls_public nc consensus_key),
                             pb_consensus_proof_of_possession = Some (n_bls_possession nc consensus_key),
                             pb_full_node_network_public_key = Some (n_x25519_public nc fnk),
                             pb_validator_network_public_key = Some (n_x25519_public nc vnk)\<rparr>
      in Ok (validator_blob, vfn_blob, private_identity, public_identity))))))"

section \<open>Writing files\<close>

type_synonym files = "string \<rightharpoonup> string"

definition PRIVATE_KEYS_FILE :: string where "PRIVATE_KEYS_FILE = ''private-keys.yaml''"

definition PUBLIC_KEYS_FILE :: string where "PUBLIC_KEYS_FILE = ''public-keys.yaml''"

definition VALIDATOR_FILE :: string where "VALIDATOR_FILE = ''validator-identity.yaml''"

definition VFN_FILE :: string where "VFN_FILE = ''validator-full-node-identity.yaml''"

definition USER_FILE :: string where "USER_FILE = ''danger-user-private-keys.yaml''"

definition check_if_file_exists :: "(string \<Rightarrow> bool option) \<Rightarrow> files \<Rightarrow> string \<Rightarrow> unit rres" where
  "check_if_file_exists overwrite fs file =
     (if fs file \<noteq> None
      then rbind (or_panic ''called Result::unwrap() on an Err value'' (overwrite file)) (\<lambda>yes.
           if yes then Ok () else Err ''Aborted by user'')
      else Ok ())"

text \<open>\<open>write_key_file\<close> at one struct type: result and file system.\<close>

definition write_key_file ::
  "(string \<Rightarrow> bool option) \<Rightarrow> (string \<Rightarrow> string) \<Rightarrow> ('t \<Rightarrow> string rres) \<Rightarrow> string \<Rightarrow> 't \<Rightarrow> files \<Rightarrow> unit rres \<times> files" where
  "write_key_file overwrite output_join to_yaml filename data fs =
     (let file = output_join filename in
      case check_if_file_exists overwrite fs file of
        Ok _ \<Rightarrow>
          (case to_yaml data of
             Ok y \<Rightarrow> (Ok (), fs(file \<mapsto> y))
           | Err e \<Rightarrow> (Err e, fs)
           | Panic p \<Rightarrow> (Panic p, fs))
      | Err e \<Rightarrow> (Err e, fs)
      | Panic p \<Rightarrow> (Panic p, fs))"

definition create_non_signing_key :: "crypto \<Rightarrow> bytes rres" where
  "create_non_signing_key c = unwrap ''called Result::unwrap() on an Err value'' (c_private_key c (replicate 32 0))"

record yaml_printers =
  y_private :: "PrivateIdentity \<Rightarrow> string rres"
  y_public :: "PublicIdentity \<Rightarrow> string rres"
  y_blob :: "IdentityBlob \<Rightarrow> string rres"
  y_keychain :: "KeyChain \<Rightarrow> string rres"

text \<open>The structs after the call, which changes them in place, with the result and the files.\<close>

definition save_val_files ::
  "crypto \<Rightarrow> yaml_printers \<Rightarrow> (string \<Rightarrow> bool option) \<Rightarrow> (string \<Rightarrow> string) \<Rightarrow>
   IdentityBlob \<times> IdentityBlob \<times> PrivateIdentity \<times> PublicIdentity \<Rightarrow> files \<Rightarrow>
   (IdentityBlob \<times> IdentityBlob \<times> PrivateIdentity \<times> PublicIdentity) rres \<times> files" where
  "save_val_files c y overwrite output_join objs fs =
     (case objs of (validator_blob, vfn_blob, private_identity, public_identity) \<Rightarrow>
      (case create_non_signing_key c of
         Err e \<Rightarrow> (Err e, fs)
       | Panic p \<Rightarrow> (Panic p, fs)
       | Ok decoy \<Rightarrow>
           (let private_identity = private_identity\<lparr>pi_account_private_key := decoy\<rparr>;
                validator_blob = validator_blob\<lparr>ib_account_private_key := None\<rparr>;
                vfn_blob = vfn_blob\<lparr>ib_account_private_key := None\<rparr>;
                (r, fs) =
                  seq (write_key_file overwrite output_join (y_private y) PRIVATE_KEYS_FILE private_identity fs) (\<lambda>fs.
                  seq (write_key_file overwrite output_join (y_public y) PUBLIC_KEYS_FILE public_identity fs) (\<lambda>fs.
                  seq (write_key_file overwrite output_join (y_blob y) VALIDATOR_FILE validator_blob fs) (\<lambda>fs.
                  write_key_file overwrite output_join (y_blob y) VFN_FILE vfn_blob fs)))
            in (rbind r (\<lambda>_. Ok (validator_blob, vfn_blob, private_identity, public_identity)), fs))))"

definition validator_keygen ::
  "crypto \<Rightarrow> address_conv \<Rightarrow> node_crypto \<Rightarrow> yaml_printers \<Rightarrow> (string \<Rightarrow> bool option) \<Rightarrow> (string \<Rightarrow> string) \<Rightarrow> bytes \<Rightarrow> files \<Rightarrow>
   (IdentityBlob \<times> IdentityBlob \<times> PrivateIdentity \<times> PublicIdentity) rres \<times> files" where
  "validator_keygen c v nc y overwrite output_join random fs =
     (case rbind (legacy_keygen c v random) (generate_key_objects_from_legacy nc) of
        Ok objs \<Rightarrow> save_val_files c y overwrite output_join objs fs
      | Err e \<Rightarrow> (Err e, fs)
      | Panic p \<Rightarrow> (Panic p, fs))"

text \<open>\<open>make_validator_keys\<close> with the phrase given, or typed at the prompt.\<close>

definition make_validator_keys ::
  "crypto \<Rightarrow> address_conv \<Rightarrow> node_crypto \<Rightarrow> string \<Rightarrow> bool \<Rightarrow>
   ((IdentityBlob \<times> IdentityBlob \<times> PrivateIdentity \<times> PublicIdentity) \<times> KeyChain) rres" where
  "make_validator_keys c v nc mnem keep_legacy_addr =
     rbind (get_keys_from_mnem c v mnem) (\<lambda>legacy_keys.
     rbind (if keep_legacy_addr
            then rbind (get_ol_legacy_address v (ak_account (kc_child_0_owner legacy_keys))) (\<lambda>legacy_format.
                 Ok (legacy_keys\<lparr>kc_child_0_owner := (kc_child_0_owner legacy_keys)\<lparr>ak_account := legacy_format\<rparr>\<rparr>))
            else Ok legacy_keys) (\<lambda>legacy_keys.
     rbind (generate_key_objects_from_legacy nc legacy_keys) (\<lambda>objs.
     Ok (objs, legacy_keys))))"

definition refresh_validator_files ::
  "crypto \<Rightarrow> address_conv \<Rightarrow> node_crypto \<Rightarrow> yaml_printers \<Rightarrow> (string \<Rightarrow> bool option) \<Rightarrow> (string \<Rightarrow> string) \<Rightarrow> string \<Rightarrow>
   bool \<Rightarrow> files \<Rightarrow> (account_address \<times> auth_key \<times> PublicIdentity) rres \<times> files" where
  "refresh_validator_files c v nc y overwrite output_join mnem keep_legacy_addr fs =
     (case make_validator_keys c v nc mnem keep_legacy_addr of
        Ok (objs, legacy_keys) \<Rightarrow>
          (case save_val_files c y overwrite output_join objs fs of
             (r, fs) \<Rightarrow>
               (rbind r (\<lambda>(_, _, _, public_identity).
                Ok (pb_account_address public_identity, ak_auth_key (kc_child_0_owner legacy_keys), public_identity)), fs))
      | Err e \<Rightarrow> (Err e, fs)
      | Panic p \<Rightarrow> (Panic p, fs))"

text \<open>\<open>confirm\<close> is the answer to the warning about saving keys.\<close>

definition user_keygen ::
  "crypto \<Rightarrow> address_conv \<Rightarrow> yaml_printers \<Rightarrow> (string \<Rightarrow> bool option) \<Rightarrow> bool \<Rightarrow> (string \<Rightarrow> string) option \<Rightarrow> bytes \<Rightarrow> files \<Rightarrow>
   unit rres \<times> files" where
  "user_keygen c v y overwrite confirm output_opt random fs =
     (case legacy_keygen c v random of
        Ok user_keys \<Rightarrow>
          (case output_opt of
             Some output_join \<Rightarrow>
               if confirm then write_key_file overwrite output_join (y_keychain y) USER_FILE user_keys fs
               else (Ok (), fs)
           | None \<Rightarrow> (Ok (), fs))
      | Err e \<Rightarrow> (Err e, fs)
      | Panic p \<Rightarrow> (Panic p, fs))"

text \<open>The private key \<open>run\<close> of the key generator reports; the report prints it with the public key, the
  authentication key and the address computed from it.\<close>

definition run_private_key ::
  "crypto \<Rightarrow> address_conv \<Rightarrow> node_crypto \<Rightarrow> yaml_printers \<Rightarrow> (string \<Rightarrow> bool option) \<Rightarrow> (string \<Rightarrow> string) \<Rightarrow> bytes \<Rightarrow>
   string option \<Rightarrow> files \<Rightarrow> bytes rres \<times> files" where
  "run_private_key c v nc y overwrite output_join random mnemonic fs =
     (case mnemonic of
        Some mnemonic \<Rightarrow>
          (case get_account_from_mnem c mnemonic of
             Ok (_, account_address, wallet_lib) \<Rightarrow>
               (case refresh_validator_files c v nc y overwrite output_join mnemonic False fs of
                  (r, fs) \<Rightarrow>
                    (rbind r (\<lambda>_. rbind (wallet_get_private_key c wallet_lib account_address) (c_private_key c)), fs))
           | Err e \<Rightarrow> (Err e, fs)
           | Panic p \<Rightarrow> (Panic p, fs))
      | None \<Rightarrow>
          (case validator_keygen c v nc y overwrite output_join random fs of
             (r, fs) \<Rightarrow> (rbind r (\<lambda>(_, _, private_identity, _). Ok (pi_account_private_key private_identity)), fs)))"

definition run_report ::
  "crypto \<Rightarrow> node_crypto \<Rightarrow> address_conv \<Rightarrow> bytes \<Rightarrow> string \<times> bytes \<times> auth_key \<times> string" where
  "run_report c nc v private_key =
     (lower_hex private_key, n_ed_public nc private_key, c_auth_key c private_key,
      v_to_hex_literal v (c_derived_address c (c_auth_key c private_key)))"

definition key_gen_run ::
  "crypto \<Rightarrow> address_conv \<Rightarrow> node_crypto \<Rightarrow> yaml_printers \<Rightarrow> (string \<Rightarrow> bool option) \<Rightarrow> (string \<Rightarrow> string) \<Rightarrow> bytes \<Rightarrow>
   string option \<Rightarrow> files \<Rightarrow> (string \<times> bytes \<times> auth_key \<times> string) rres \<times> files" where
  "key_gen_run c v nc y overwrite output_join random mnemonic fs =
     (case run_private_key c v nc y overwrite output_join random mnemonic fs of
        (r, fs) \<Rightarrow> (rbind r (\<lambda>k. Ok (run_report c nc v k)), fs))"

section \<open>Operator and owner configuration\<close>

record HostAndPort =
  hp_host :: string
  hp_port :: u16

record OperatorConfiguration =
  op_operator_account_address :: account_address
  op_operator_account_public_key :: bytes
  op_consensus_public_key :: bytes
  op_consensus_proof_of_possession :: bytes
  op_validator_network_public_key :: bytes
  op_validator_host :: HostAndPort
  op_full_node_network_public_key :: "bytes option"
  op_full_node_host :: "HostAndPort option"

record OwnerConfiguration =
  ow_owner_account_address :: account_address
  ow_owner_account_public_key :: bytes
  ow_voter_account_address :: account_address
  ow_voter_account_public_key :: bytes
  ow_operator_account_address :: account_address
  ow_operator_account_public_key :: bytes
  ow_stake_amount :: u64
  ow_commission_percentage :: u64
  ow_join_during_genesis :: bool

record SetValidatorConfiguration =
  sv_username :: string
  sv_validator_host :: HostAndPort
  sv_full_node_host :: "HostAndPort option"
  sv_home_dir :: "string option"

definition OPERATOR_FILE :: string where "OPERATOR_FILE = ''operator.yaml''"

definition OWNER_FILE :: string where "OWNER_FILE = ''owner.yaml''"

record config_yaml =
  cy_public_from :: "string \<Rightarrow> PublicIdentity rres"
  cy_operator_to :: "OperatorConfiguration \<Rightarrow> string rres"
  cy_operator_from :: "string \<Rightarrow> OperatorConfiguration rres"
  cy_owner_to :: "OwnerConfiguration \<Rightarrow> string rres"
  cy_owner_from :: "string \<Rightarrow> OwnerConfiguration rres"

definition read_public_identity_file :: "config_yaml \<Rightarrow> files \<Rightarrow> string \<Rightarrow> PublicIdentity rres" where
  "read_public_identity_file y fs file = rbind (or_err ''No such file or directory'' (fs file)) (cy_public_from y)"

definition operator_config_of :: "SetValidatorConfiguration \<Rightarrow> PublicIdentity \<Rightarrow> OperatorConfiguration rres" where
  "operator_config_of self identity =
     rbind (or_err ''Failed to read consensus public key from public identity file''
              (pb_consensus_public_key identity)) (\<lambda>consensus_public_key.
     rbind (or_err ''Failed to read validator network public key from public identity file''
              (pb_validator_network_public_key identity)) (\<lambda>validator_network_public_key.
     rbind (or_err ''Failed to read consensus proof of possession from public identity file''
              (pb_consensus_proof_of_possession identity)) (\<lambda>consensus_proof_of_possession.
     let fullnode_host = (case sv_full_node_host self of
           Some h \<Rightarrow> h | None \<Rightarrow> (sv_validator_host self)\<lparr>hp_port := 6182\<rparr>)
     in Ok \<lparr>op_operator_account_address = pb_account_address identity,
            op_operator_account_public_key = pb_account_public_key identity,
            op_consensus_public_key = consensus_public_key,
            op_consensus_proof_of_possession = consensus_proof_of_possession,
            op_validator_network_public_key = validator_network_public_key,
            op_validator_host = sv_validator_host self,
            op_full_node_network_public_key = pb_full_node_network_public_key identity,
            op_full_node_host = Some fullnode_host\<rparr>)))"

definition owner_config_of :: "PublicIdentity \<Rightarrow> OwnerConfiguration" where
  "owner_config_of identity =
     \<lparr>ow_owner_account_address = pb_account_address identity,
      ow_owner_account_public_key = pb_account_public_key identity,
      ow_voter_account_address = pb_account_address identity,
      ow_voter_account_public_key = pb_account_public_key identity,
      ow_operator_account_address = pb_account_address identity,
      ow_operator_account_public_key = pb_account_public_key identity,
      ow_stake_amount = 100000000000000, ow_commission_percentage = 0, ow_join_during_genesis = True\<rparr>"

text \<open>\<open>home\<close> is the global configuration directory, \<open>path_join\<close> joins a directory and a file name.\<close>

definition set_config_files ::
  "config_yaml \<Rightarrow> string \<Rightarrow> (string \<Rightarrow> string \<Rightarrow> string) \<Rightarrow> SetValidatorConfiguration \<Rightarrow> files \<Rightarrow>
   (OperatorConfiguration \<times> OwnerConfiguration) rres \<times> files" where
  "set_config_files y home path_join self fs =
     (let home_dir = (case sv_home_dir self of Some d \<Rightarrow> d | None \<Rightarrow> home) in
      case rbind (read_public_identity_file y fs (path_join home_dir PUBLIC_KEYS_FILE)) (\<lambda>identity.
           rbind (operator_config_of self identity) (\<lambda>operator_config.
           Ok (operator_config, owner_config_of identity))) of
        Err e \<Rightarrow> (Err e, fs)
      | Panic p \<Rightarrow> (Panic p, fs)
      | Ok (operator_config, owner_config) \<Rightarrow>
          (case cy_operator_to y operator_config of
             Err e \<Rightarrow> (Err e, fs)
           | Panic p \<Rightarrow> (Panic p, fs)
           | Ok a \<Rightarrow>
               (let fs = fs(path_join home_dir OPERATOR_FILE \<mapsto> a) in
                case cy_owner_to y owner_config of
                  Err e \<Rightarrow> (Err e, fs)
                | Panic p \<Rightarrow> (Panic p, fs)
                | Ok b \<Rightarrow>
                    (Ok (operator_config, owner_config), fs(path_join home_dir OWNER_FILE \<mapsto> b)))))"

definition read_configs_from_file ::
  "config_yaml \<Rightarrow> string \<Rightarrow> (string \<Rightarrow> string \<Rightarrow> string) \<Rightarrow> string option \<Rightarrow> files \<Rightarrow>
   (OperatorConfiguration \<times> OwnerConfiguration) rres" where
  "read_configs_from_file y home path_join home_path fs =
     (let dir = (case home_path of Some d \<Rightarrow> d | None \<Rightarrow> home) in
      rbind (or_panic ''called Result::unwrap() on an Err value'' (fs (path_join dir OPERATOR_FILE))) (\<lambda>a.
      rbind (unwrap ''called Result::unwrap() on an Err value'' (cy_operator_from y a)) (\<lambda>operator_config.
      rbind (or_panic ''called Result::unwrap() on an Err value'' (fs (path_join dir OWNER_FILE))) (\<lambda>b.
      rbind (unwrap ''called Result::unwrap() on an Err value'' (cy_owner_from y b)) (\<lambda>owner_config.
      Ok (operator_config, owner_config))))))"

section \<open>What the files hold\<close>

lemma write_key_file_Ok:
  "write_key_file overwrite output_join to_yaml f d fs = (Ok u, fs') \<longleftrightarrow>
     (\<exists>t. (fs (output_join f) = None \<or> overwrite (output_join f) = Some True) \<and> to_yaml d = Ok t \<and>
        fs' = fs(output_join f \<mapsto> t))"
  by (auto simp: write_key_file_def check_if_file_exists_def Let_def rust_simps split: rres.splits if_splits)

lemma overwriting: "check_if_file_exists (\<lambda>_. Some True) fs f = Ok ()"
  by (simp add: check_if_file_exists_def)

text \<open>A key file outside the written name is left alone, whatever the result.\<close>

lemma write_key_file_frame:
  "p \<noteq> output_join f \<Longrightarrow> snd (write_key_file overwrite output_join to_yaml f d fs) p = fs p"
  by (simp add: write_key_file_def Let_def split: rres.splits)

context key_crypto
begin

lemma decoy: "create_non_signing_key c = Ok (replicate 32 0)"
  by (simp add: create_non_signing_key_def private_key_ok)

lemma save_val_files_result:
  assumes "save_val_files c y overwrite output_join (vb, fb, pi, pb) fs = (Ok objs, fs')"
  shows "objs = (vb\<lparr>ib_account_private_key := None\<rparr>, fb\<lparr>ib_account_private_key := None\<rparr>,
    pi\<lparr>pi_account_private_key := replicate 32 0\<rparr>, pb)"
  using assms by (auto simp: save_val_files_def decoy Let_def rust_simps split: prod.splits)

end

definition key_files :: "(string \<Rightarrow> string) \<Rightarrow> string set" where
  "key_files output_join =
     output_join ` {PRIVATE_KEYS_FILE, PUBLIC_KEYS_FILE, VALIDATOR_FILE, VFN_FILE}"

lemma snd_map_result: "snd (case x of (r, fs) \<Rightarrow> (f r, fs)) = snd x"
  by (simp split: prod.splits)

lemma save_val_files_frame:
  assumes "p \<notin> key_files output_join"
  shows "snd (save_val_files c y overwrite output_join objs fs) p = fs p"
proof -
  have "p \<noteq> output_join PRIVATE_KEYS_FILE" "p \<noteq> output_join PUBLIC_KEYS_FILE"
    "p \<noteq> output_join VALIDATOR_FILE" "p \<noteq> output_join VFN_FILE" using assms by (auto simp: key_files_def)
  then show ?thesis
    by (cases objs; cases "create_non_signing_key c")
      (simp_all add: save_val_files_def Let_def snd_map_result seq_keeps[where f = "\<lambda>fs. fs p"] write_key_file_frame)
qed

text \<open>
  C36. Saving validator files never writes the account's private key: all four files, the result and the structs
  handed back are the same whatever account key the identities hold, also when saving fails half way. Files
  other than the four are untouched.
\<close>

theorem save_val_files_hides_key:
  "save_val_files c y overwrite output_join
     (vb\<lparr>ib_account_private_key := k1\<rparr>, fb\<lparr>ib_account_private_key := k2\<rparr>, pi\<lparr>pi_account_private_key := k3\<rparr>, pb) fs =
   save_val_files c y overwrite output_join (vb, fb, pi, pb) fs \<and>
   (\<forall>p. p \<in> key_files output_join \<or>
      snd (save_val_files c y overwrite output_join (vb, fb, pi, pb) fs) p = fs p)"
proof (intro conjI allI)
  show "save_val_files c y overwrite output_join
     (vb\<lparr>ib_account_private_key := k1\<rparr>, fb\<lparr>ib_account_private_key := k2\<rparr>, pi\<lparr>pi_account_private_key := k3\<rparr>, pb) fs =
   save_val_files c y overwrite output_join (vb, fb, pi, pb) fs"
    by (cases "create_non_signing_key c") (simp_all add: save_val_files_def Let_def)
qed (use save_val_files_frame in blast)

text \<open>
  \<open>run\<close> of the key generator with a phrase reports the key of the account that the phrase names.
  Without a phrase, for freshly generated keys, it reports the decoy that replaced the key before saving: the all-zero
  private key, with the authentication key and address that belong to it, the same for every user.
\<close>

theorem key_gen_run_reports:
  assumes "key_crypto c"
  shows "(\<forall>r fs'. key_gen_run c v nc y overwrite output_join random None fs = (Ok r, fs') \<longrightarrow>
      r = run_report c nc v (replicate 32 0)) \<and>
    (\<forall>s r fs'. key_gen_run c v nc y overwrite output_join random (Some s) fs = (Ok r, fs') \<longrightarrow>
      (\<exists>auth acc w k. get_account_from_mnem c s = Ok (auth, acc, w) \<and> wallet_get_private_key c w acc = Ok k \<and>
        (length k = 32 \<longrightarrow> r = run_report c nc v k)))"
proof (intro conjI allI impI)
  fix r fs'
  assume "key_gen_run c v nc y overwrite output_join random None fs = (Ok r, fs')"
  then obtain vb fb pi pb where gen: "validator_keygen c v nc y overwrite output_join random fs = (Ok (vb, fb, pi, pb), fs')"
    and r: "r = run_report c nc v (pi_account_private_key pi)"
    by (auto simp: key_gen_run_def run_private_key_def rust_simps split: prod.splits)
  from gen obtain vb0 fb0 pi0 pb0 where
    "save_val_files c y overwrite output_join (vb0, fb0, pi0, pb0) fs = (Ok (vb, fb, pi, pb), fs')"
    by (auto simp: validator_keygen_def split: rres.splits)
  from key_crypto.save_val_files_result[OF assms this] have "pi_account_private_key pi = replicate 32 0" by auto
  with r show "r = run_report c nc v (replicate 32 0)" by simp
next
  fix s r fs'
  assume run: "key_gen_run c v nc y overwrite output_join random (Some s) fs = (Ok r, fs')"
  then obtain auth acc w k k' where "get_account_from_mnem c s = Ok (auth, acc, w)"
    "wallet_get_private_key c w acc = Ok k" "c_private_key c k = Ok k'" "r = run_report c nc v k'"
    by (auto simp: key_gen_run_def run_private_key_def rust_simps split: prod.splits rres.splits)
  with key_crypto.private_key_ok[OF assms] show "\<exists>auth acc w k. get_account_from_mnem c s = Ok (auth, acc, w) \<and>
      wallet_get_private_key c w acc = Ok k \<and> (length k = 32 \<longrightarrow> r = run_report c nc v k)" by fastforce
qed

definition ref_node :: node_crypto where
  "ref_node =
     \<lparr>n_ed_public = fips_sha256, n_bls_key_gen = (\<lambda>b. Ok (fips_sha256 b)), n_bls_private = Ok,
      n_bls_public = fips_sha256, n_bls_possession = fips_sha256, n_x25519_private = Ok,
      n_x25519_public = fips_sha256, n_network_address = Ok\<rparr>"

definition ref_yaml :: yaml_printers where
  "ref_yaml = \<lparr>y_private = (\<lambda>_. Ok []), y_public = (\<lambda>_. Ok []), y_blob = (\<lambda>_. Ok []), y_keychain = (\<lambda>_. Ok [])\<rparr>"

theorem key_gen_run_reports_witness:
  "\<exists>fs'. key_gen_run ref_crypto ref_conv ref_node ref_yaml (\<lambda>_. Some True) (\<lambda>f. f) (replicate 32 5) None Map.empty =
     (Ok (run_report ref_crypto ref_node ref_conv (replicate 32 0)), fs')"
proof -
  obtain m where m: "Mnemonic_new (c_sha256 ref_crypto) (replicate 32 5) = Ok m"
    using Mnemonic_new_spec[OF ref_digest, of 8 "replicate 32 5"] by auto
  obtain kc where kc: "legacy_keygen ref_crypto ref_conv (replicate 32 5) = Ok kc"
    using ref_keys.legacy_keygen_Ok[OF ref_text.address_roundtrip_axioms m] by blast
  obtain objs where "generate_key_objects_from_legacy ref_node kc = Ok objs"
    by (simp add: generate_key_objects_from_legacy_def bls_generate_key_def network_keys_x25519_from_ed25519_def
        ref_node_def Let_def)
  moreover obtain r fs' where "save_val_files ref_crypto ref_yaml (\<lambda>_. Some True) (\<lambda>f. f) objs Map.empty = (Ok r, fs')"
    by (cases objs) (simp add: save_val_files_def ref_keys.decoy Let_def write_key_file_def
        overwriting ref_yaml_def)
  ultimately obtain r fs' where
    "key_gen_run ref_crypto ref_conv ref_node ref_yaml (\<lambda>_. Some True) (\<lambda>f. f) (replicate 32 5) None Map.empty = (Ok r, fs')"
    by (cases r) (simp add: key_gen_run_def run_private_key_def validator_keygen_def kc)
  with key_gen_run_reports[OF ref_keys.key_crypto_axioms, of ref_conv ref_node ref_yaml "\<lambda>_. Some True" "\<lambda>f. f"
      "replicate 32 5" Map.empty] show ?thesis by blast
qed

text \<open>What is written as YAML is read back.\<close>

lemma set_config_files_Ok:
  assumes "sv_home_dir self = Some d" and "set_config_files y home path_join self fs = (Ok (op, ow), fs')"
  shows "\<exists>identity a b. read_public_identity_file y fs (path_join d PUBLIC_KEYS_FILE) = Ok identity \<and>
    operator_config_of self identity = Ok op \<and> ow = owner_config_of identity \<and>
    cy_operator_to y op = Ok a \<and> cy_owner_to y ow = Ok b \<and>
    fs' = fs(path_join d OPERATOR_FILE \<mapsto> a, path_join d OWNER_FILE \<mapsto> b)"
  using assms by (auto simp: set_config_files_def Let_def rust_simps split: rres.splits prod.splits)

definition config_yaml_ok :: "config_yaml \<Rightarrow> bool" where
  "config_yaml_ok y \<longleftrightarrow>
     (\<forall>a t. cy_operator_to y a = Ok t \<longrightarrow> cy_operator_from y t = Ok a) \<and>
     (\<forall>b t. cy_owner_to y b = Ok t \<longrightarrow> cy_owner_from y t = Ok b)"

text \<open>
  The operator and owner configurations that \<open>set_config_files\<close> writes are read back by
  \<open>read_configs_from_file\<close>; both name the account of the public identity, and without an explicit full node the
  validator's host is used on port 6182.
\<close>

theorem config_files_roundtrip:
  assumes "config_yaml_ok y" and "path_join d OPERATOR_FILE \<noteq> path_join d OWNER_FILE"
    and "sv_home_dir self = Some d" and "set_config_files y home path_join self fs = (Ok (op, ow), fs')"
  shows "read_configs_from_file y home path_join (Some d) fs' = Ok (op, ow) \<and>
    op_operator_account_address op = ow_owner_account_address ow \<and>
    op_full_node_host op =
      Some (case sv_full_node_host self of Some h \<Rightarrow> h | None \<Rightarrow> (sv_validator_host self)\<lparr>hp_port := 6182\<rparr>)"
proof -
  from set_config_files_Ok[OF assms(3,4)] obtain identity a b where
    identity: "operator_config_of self identity = Ok op" "ow = owner_config_of identity"
    and yaml: "cy_operator_to y op = Ok a" "cy_owner_to y ow = Ok b"
    and fs': "fs' = fs(path_join d OPERATOR_FILE \<mapsto> a, path_join d OWNER_FILE \<mapsto> b)" by blast
  from yaml fs' assms(1,2) have "read_configs_from_file y home path_join (Some d) fs' = Ok (op, ow)"
    by (simp add: read_configs_from_file_def config_yaml_ok_def rust_simps)
  with identity show ?thesis
    by (auto simp: operator_config_of_def owner_config_of_def Let_def rust_simps)
qed

text \<open>A printer that is injective on the two configurations below, and its reader.\<close>

definition ref_identity :: PublicIdentity where
  "ref_identity =
     \<lparr>pb_account_address = replicate 32 7, pb_account_public_key = [1], pb_consensus_public_key = Some [2],
      pb_consensus_proof_of_possession = Some [3], pb_full_node_network_public_key = None,
      pb_validator_network_public_key = Some [4]\<rparr>"

definition ref_set :: SetValidatorConfiguration where
  "ref_set =
     \<lparr>sv_username = ''alice'', sv_validator_host = \<lparr>hp_host = ''10.0.0.1'', hp_port = 6180\<rparr>,
      sv_full_node_host = None, sv_home_dir = Some ''.libra''\<rparr>"

definition ref_operator :: OperatorConfiguration where
  "ref_operator =
     \<lparr>op_operator_account_address = replicate 32 7, op_operator_account_public_key = [1],
      op_consensus_public_key = [2], op_consensus_proof_of_possession = [3], op_validator_network_public_key = [4],
      op_validator_host = \<lparr>hp_host = ''10.0.0.1'', hp_port = 6180\<rparr>, op_full_node_network_public_key = None,
      op_full_node_host = Some \<lparr>hp_host = ''10.0.0.1'', hp_port = 6182\<rparr>\<rparr>"

definition ref_config_yaml :: config_yaml where
  "ref_config_yaml =
     \<lparr>cy_public_from = (\<lambda>_. Ok ref_identity),
      cy_operator_to = (\<lambda>a. if a = ref_operator then Ok ''operator'' else Err ''unprintable''),
      cy_operator_from = (\<lambda>t. if t = ''operator'' then Ok ref_operator else Err ''invalid type''),
      cy_owner_to = (\<lambda>b. if b = owner_config_of ref_identity then Ok ''owner'' else Err ''unprintable''),
      cy_owner_from = (\<lambda>t. if t = ''owner'' then Ok (owner_config_of ref_identity) else Err ''invalid type'')\<rparr>"

theorem config_files_roundtrip_witness:
  "read_configs_from_file ref_config_yaml ''home'' (\<lambda>d f. d @ ''/'' @ f) (Some ''.libra'')
     (snd (set_config_files ref_config_yaml ''home'' (\<lambda>d f. d @ ''/'' @ f) ref_set
        [''.libra/public-keys.yaml'' \<mapsto> ''identity''])) =
   Ok (ref_operator, owner_config_of ref_identity)"
proof -
  have "config_yaml_ok ref_config_yaml"
    by (simp add: config_yaml_ok_def ref_config_yaml_def)
  moreover have "set_config_files ref_config_yaml ''home'' (\<lambda>d f. d @ ''/'' @ f) ref_set
      [''.libra/public-keys.yaml'' \<mapsto> ''identity''] =
    (Ok (ref_operator, owner_config_of ref_identity),
     [''.libra/public-keys.yaml'' \<mapsto> ''identity'', ''.libra/operator.yaml'' \<mapsto> ''operator'',
      ''.libra/owner.yaml'' \<mapsto> ''owner''])"
    by (simp add: set_config_files_def ref_config_yaml_def ref_set_def ref_operator_def ref_identity_def
        read_public_identity_file_def operator_config_of_def PUBLIC_KEYS_FILE_def OPERATOR_FILE_def OWNER_FILE_def
        rust_simps)
  ultimately show ?thesis
    using config_files_roundtrip[of ref_config_yaml "\<lambda>d f. d @ ''/'' @ f" "''.libra''" ref_set]
    by (simp add: OPERATOR_FILE_def OWNER_FILE_def ref_set_def)
qed

end
