(* ===== verification/Txs_Commands.thy ===== *)
theory Txs_Commands
  imports Txs_Sender Wallet_Files
begin

text \<open>
  The commands for users, validators and governance (\<^verbatim>\<open>src/tools/txs/src/txs_cli_user.rs\<close>, \<^verbatim>\<open>txs_cli_vals.rs\<close>,
  \<^verbatim>\<open>txs_cli_governance.rs\<close>, with \<^verbatim>\<open>src/tools/config/src/validator_registration.rs\<close>). Signatures, the BCS form of the two
  challenges and the text form of keys are the record \<open>rotation_ops\<close>; confirmations and prompts are arguments.
\<close>

section \<open>Rotation of keys\<close>

record RotationProofChallenge =
  rc_account_address :: account_address
  rc_module_name :: string
  rc_struct_name :: string
  rc_sequence_number :: u64
  rc_originator :: account_address
  rc_current_auth_key :: account_address
  rc_new_public_key :: bytes

record RotationCapabilityOfferProofChallengeV2 =
  ro_account_address :: account_address
  ro_module_name :: string
  ro_struct_name :: string
  ro_chain_id :: u8
  ro_sequence_number :: u64
  ro_source_address :: account_address
  ro_recipient_address :: account_address

record rotation_ops =
  rx_public :: "bytes \<Rightarrow> bytes"
  rx_sign :: "bytes \<Rightarrow> bytes \<Rightarrow> bytes"
  rx_challenge_bytes :: "RotationProofChallenge \<Rightarrow> bytes rres"
  rx_offer_bytes :: "RotationCapabilityOfferProofChallengeV2 \<Rightarrow> bytes rres"
  rx_address_from_bytes :: "bytes \<Rightarrow> account_address rres"
  rx_key_from_string :: "string \<Rightarrow> bytes rres"

definition rotate_key ::
  "bcs \<Rightarrow> rotation_ops \<Rightarrow> account_address \<Rightarrow> bytes \<Rightarrow> auth_key \<Rightarrow> u64 \<Rightarrow> bytes \<Rightarrow> TxPayload rres" where
  "rotate_key b rx sender_address current_private_key auth_key sequence_number new_private_key =
     rbind (rx_address_from_bytes rx auth_key) (\<lambda>current_auth_key.
     let rotation_proof =
       \<lparr>rc_account_address = core_code_address, rc_module_name = ''account'', rc_struct_name = ''RotationProofChallenge'',
        rc_sequence_number = sequence_number, rc_originator = sender_address, rc_current_auth_key = current_auth_key,
        rc_new_public_key = rx_public rx new_private_key\<rparr> in
     rbind (rx_challenge_bytes rx rotation_proof) (\<lambda>rotation_msg.
     Ok (account_rotate_authentication_key b 0 (rx_public rx current_private_key) 0 (rx_public rx new_private_key)
           (rx_sign rx current_private_key rotation_msg) (rx_sign rx new_private_key rotation_msg))))"

definition rotate_key_delegated ::
  "bcs \<Rightarrow> rotation_ops \<Rightarrow> u64 \<Rightarrow> account_address \<Rightarrow> auth_key \<Rightarrow> bytes \<Rightarrow> TxPayload rres" where
  "rotate_key_delegated b rx sequence_number target_account_address target_auth_key new_private_key =
     (let new_public_key = rx_public rx new_private_key in
      rbind (rx_address_from_bytes rx target_auth_key) (\<lambda>current_auth_key.
      let rotation_proof =
        \<lparr>rc_account_address = core_code_address, rc_module_name = ''account'', rc_struct_name = ''RotationProofChallenge'',
         rc_sequence_number = sequence_number, rc_originator = target_account_address,
         rc_current_auth_key = current_auth_key, rc_new_public_key = new_public_key\<rparr> in
      rbind (rx_challenge_bytes rx rotation_proof) (\<lambda>rotation_msg.
      Ok (account_rotate_authentication_key_with_rotation_capability b target_account_address 0 new_public_key
            (rx_sign rx new_private_key rotation_msg)))))"

definition offer_rotation_capability_v2 ::
  "bcs \<Rightarrow> rotation_ops \<Rightarrow> LocalAccount \<Rightarrow> account_address \<Rightarrow> u8 \<Rightarrow> u64 \<Rightarrow> TxPayload rres" where
  "offer_rotation_capability_v2 b rx offerer_account delegate_account chain_id sequence_number =
     (let proof =
        \<lparr>ro_account_address = core_code_address, ro_module_name = ''account'',
         ro_struct_name = ''RotationCapabilityOfferProofChallengeV2'', ro_chain_id = chain_id,
         ro_sequence_number = sequence_number, ro_source_address = la_address offerer_account,
         ro_recipient_address = delegate_account\<rparr> in
      rbind (unwrap ''called Result::unwrap() on an Err value'' (rx_offer_bytes rx proof)) (\<lambda>msg.
      Ok (account_offer_rotation_capability b (rx_sign rx (la_private_key offerer_account) msg) 0
            (rx_public rx (la_private_key offerer_account)) delegate_account)))"

definition revoke_rotation_capability :: "bcs \<Rightarrow> account_address \<Rightarrow> TxPayload rres" where
  "revoke_rotation_capability b delegate_account = Ok (account_revoke_rotation_capability b delegate_account)"

section \<open>User commands\<close>

definition my_account :: "'w net \<Rightarrow> LocalAccount" where
  "my_account n = sd_account (nt_sender n)"

definition SetSlowTx_run :: "'w env \<Rightarrow> (unit, 'w net) io" where
  "SetSlowTx_run ev =
     io_bind (sign_submit_wait ev (slow_wallet_user_set_slow (ev_bcs ev))) (\<lambda>_. io_of (Ok ()))"

record RotateKeyTx =
  rk_new_private_key :: "string option"
  rk_claim_address :: "account_address option"

text \<open>
  \<open>first\<close> and \<open>second\<close> are the answers to the two confirmations, \<open>prompt\<close> the key entered when none is given. The
  authentication key of the local account is that of its private key.
\<close>

definition RotateKeyTx_run ::
  "'w env \<Rightarrow> rotation_ops \<Rightarrow> bool rres \<Rightarrow> bytes rres \<Rightarrow> bool rres \<Rightarrow> RotateKeyTx \<Rightarrow> bool \<Rightarrow> (unit, 'w net) io" where
  "RotateKeyTx_run ev rx first prompt second self confirm = (\<lambda>n.
     let sender_account = la_address (my_account n) in
     io_bind (io_of (if \<not> confirm then Ok () else
       rbind (unwrap ''called Result::unwrap() on an Err value'' first) (\<lambda>yes.
         if yes then Ok () else Err ''better safe than sorry, exiting.''))) (\<lambda>_.
     io_bind (io_of (case rk_new_private_key self of
         Some pk \<Rightarrow> rx_key_from_string rx pk
       | None \<Rightarrow> prompt)) (\<lambda>new_private_key.
     io_bind (ask (\<lambda>cl. get_sequence_number (ev_text ev) cl sender_account)) (\<lambda>seq_num.
     io_bind (case rk_claim_address self of
         Some target_account_address \<Rightarrow>
           io_bind (ask (\<lambda>cl. cl_authentication_key cl target_account_address)) (\<lambda>target_auth_key.
           io_of (rotate_key_delegated (ev_bcs ev) rx seq_num target_account_address target_auth_key new_private_key))
       | None \<Rightarrow>
           io_of (rotate_key (ev_bcs ev) rx sender_account (la_private_key (my_account n))
             (ev_auth_key ev (la_private_key (my_account n))) seq_num new_private_key)) (\<lambda>payload.
     io_bind (io_of (if \<not> confirm then Ok () else
       rbind (unwrap ''called Result::unwrap() on an Err value'' second) (\<lambda>yes.
         if yes then Ok () else Err ''better safe than sorry, exiting.''))) (\<lambda>_.
     io_bind (sign_submit_wait ev payload) (\<lambda>_. io_of (Ok ()))))))) n)"

record RotationCapabilityTx =
  rt_revoke :: bool
  rt_delegate_address :: account_address

definition RotationCapabilityTx_run :: "'w env \<Rightarrow> rotation_ops \<Rightarrow> RotationCapabilityTx \<Rightarrow> (unit, 'w net) io" where
  "RotationCapabilityTx_run ev rx self = (\<lambda>n.
     let user_account = la_address (my_account n) in
     io_bind (ask cl_index) (\<lambda>chain_id.
     io_bind (ask (\<lambda>cl. get_sequence_number (ev_text ev) cl user_account)) (\<lambda>seq_num.
     io_bind (io_of (if rt_revoke self then revoke_rotation_capability (ev_bcs ev) (rt_delegate_address self)
       else offer_rotation_capability_v2 (ev_bcs ev) rx (my_account n) (rt_delegate_address self) chain_id seq_num))
       (\<lambda>payload.
     io_bind (sign_submit_wait ev payload) (\<lambda>_. io_of (Ok ()))))) n)"

record VouchTx =
  vt_vouch_for :: account_address
  vt_revoke :: bool

text \<open>\<open>if let Err(e) = account_vouch_report_console(..) { println! }\<close>.\<close>

definition show_report :: "'w env \<Rightarrow> account_address \<Rightarrow> (unit, 'w net) io" where
  "show_report ev acct =
     io_match (ask (\<lambda>cl. account_vouch_report_console (ev_text ev) cl acct)) (\<lambda>_. io_of (Ok ())) (\<lambda>e. io_of (Ok ()))"

definition VouchTx_run :: "'w env \<Rightarrow> VouchTx \<Rightarrow> (unit, 'w net) io" where
  "VouchTx_run ev self = (\<lambda>n.
     let sender_address = la_address (my_account n);
         payload = (if vt_revoke self then vouch_txs_revoke (ev_bcs ev) (vt_vouch_for self)
                    else vouch_txs_vouch_for (ev_bcs ev) (vt_vouch_for self)) in
     io_bind (show_report ev sender_address) (\<lambda>_.
     io_bind (show_report ev (vt_vouch_for self)) (\<lambda>_.
     io_bind (sign_submit_wait ev payload) (\<lambda>_.
     io_bind (show_report ev sender_address) (\<lambda>_. show_report ev (vt_vouch_for self))))) n)"

datatype UserTxs = SetSlow | RotationCapability RotationCapabilityTx | RotateKey RotateKeyTx | ReJoin | Vouch VouchTx

text \<open>An error that is printed and not returned.\<close>

definition print_error :: "(unit, 's) io \<Rightarrow> (unit, 's) io" where
  "print_error m = io_match m (\<lambda>_. io_of (Ok ())) (\<lambda>e. io_of (Ok ()))"

definition UserTxs_run ::
  "'w env \<Rightarrow> rotation_ops \<Rightarrow> bool rres \<Rightarrow> bytes rres \<Rightarrow> bool rres \<Rightarrow> UserTxs \<Rightarrow> (unit, 'w net) io" where
  "UserTxs_run ev rx first prompt second self =
     (case self of
        RotateKey rot_tx \<Rightarrow> print_error (RotateKeyTx_run ev rx first prompt second rot_tx True)
      | SetSlow \<Rightarrow> print_error (SetSlowTx_run ev)
      | RotationCapability offer \<Rightarrow> print_error (RotationCapabilityTx_run ev rx offer)
      | ReJoin \<Rightarrow> io_bind (sign_submit_wait ev (filo_migration_maybe_migrate (ev_bcs ev))) (\<lambda>_. io_of (Ok ()))
      | Vouch vouch_tx \<Rightarrow> VouchTx_run ev vouch_tx)"

section \<open>Validator commands\<close>

record ValCredentials =
  vc_account :: account_address
  vc_consensus_pubkey :: bytes
  vc_proof_of_possession :: bytes
  vc_network_addresses :: bytes
  vc_fullnode_addresses :: bytes

text \<open>
  \<open>net_addr host key\<close> is the network address of a host, \<open>addr_bytes\<close> the BCS form of the list with one address; files and
  the operator's YAML as in \<open>Wallet_Files\<close>.
\<close>

record 'a host_ops =
  ho_net_addr :: "HostAndPort \<Rightarrow> bytes \<Rightarrow> 'a rres"
  ho_addr_bytes :: "'a list \<Rightarrow> bytes rres"
  ho_yaml :: config_yaml
  ho_home :: string
  ho_join :: "string \<Rightarrow> string \<Rightarrow> string"

definition read_operator :: "'a host_ops \<Rightarrow> string option \<Rightarrow> files \<Rightarrow> OperatorConfiguration rres" where
  "read_operator ho operator_file fs =
     (let file = (case operator_file of Some f \<Rightarrow> f | None \<Rightarrow> ho_join ho (ho_home ho) OPERATOR_FILE) in
      rbind (or_err ''No such file or directory'' (fs file)) (cy_operator_from (ho_yaml ho)))"

definition operator_net_addresses :: "'a host_ops \<Rightarrow> string \<Rightarrow> OperatorConfiguration \<Rightarrow> ('a \<times> 'a) rres" where
  "operator_net_addresses ho no_key oc =
     rbind (ho_net_addr ho (op_validator_host oc) (op_validator_network_public_key oc)) (\<lambda>val_net_protocol.
     rbind (or_err ''cannot find fullnode host in operator config file'' (op_full_node_host oc)) (\<lambda>fullnode_host.
     rbind (or_err no_key (op_full_node_network_public_key oc)) (\<lambda>key.
     rbind (ho_net_addr ho fullnode_host key) (\<lambda>vfn_fullnode_protocol.
     Ok (val_net_protocol, vfn_fullnode_protocol)))))"

definition registration_from_operator_yaml :: "'a host_ops \<Rightarrow> string option \<Rightarrow> files \<Rightarrow> ValCredentials rres" where
  "registration_from_operator_yaml ho operator_keyfile fs =
     rbind (read_operator ho operator_keyfile fs) (\<lambda>oc.
     rbind (operator_net_addresses ho ''cannot find fullnode network public key in operator config file'' oc)
       (\<lambda>(val_net_protocol, vfn_fullnode_protocol).
     rbind (ho_addr_bytes ho [val_net_protocol]) (\<lambda>network_addresses.
     rbind (ho_addr_bytes ho [vfn_fullnode_protocol]) (\<lambda>fullnode_addresses.
     Ok \<lparr>vc_account = op_operator_account_address oc, vc_consensus_pubkey = op_consensus_public_key oc,
         vc_proof_of_possession = op_consensus_proof_of_possession oc, vc_network_addresses = network_addresses,
         vc_fullnode_addresses = fullnode_addresses\<rparr>))))"

datatype ValidatorTxs =
    Pof "f64 option" u64 bool "u64 option"
  | Jail account_address
  | Register "string option"
  | Update "string option"

text \<open>\<open>f64::round\<close> of a non-negative number: halves go up.\<close>

definition f64_round :: "f64 \<Rightarrow> f64" where
  "f64_round x = of_int \<lfloor>x + 1 / 2\<rfloor>"

definition make_payload :: "'a host_ops \<Rightarrow> files \<Rightarrow> ValidatorTxs \<Rightarrow> EntryFunctionCall rres" where
  "make_payload ho fs self =
     (case self of
        Pof bid_pct epoch_expiry retract net_reward \<Rightarrow>
          if retract then Ok ProofOfFeePofRetractBid
          else (case bid_pct of
              Some b \<Rightarrow>
                let scaled_bid = f64_to_u64 (f64_round (fmul b 1000)) in
                if 1100 < scaled_bid then Err ''a bid amount at 110.0% or above the epoch's reward, will be rejected''
                else Ok (ProofOfFeePofUpdateBid scaled_bid epoch_expiry)
            | None \<Rightarrow>
                (case net_reward of
                   Some r \<Rightarrow> Ok (ProofOfFeePofUpdateBidNetReward r epoch_expiry)
                 | None \<Rightarrow> Err ''either bid_pct or net_reward must be provided''))
      | Jail unjail_acct \<Rightarrow> Ok (JailUnjailByVoucher unjail_acct)
      | Register operator_file \<Rightarrow>
          rbind (registration_from_operator_yaml ho operator_file fs) (\<lambda>reg.
          Ok (ValidatorUniverseRegisterValidator (vc_consensus_pubkey reg) (vc_proof_of_possession reg)
                (vc_network_addresses reg) (vc_fullnode_addresses reg)))
      | Update operator_file \<Rightarrow>
          rbind (read_operator ho operator_file fs) (\<lambda>oc.
          rbind (operator_net_addresses ho ''cannot find fullnode network public key operator config file'' oc)
            (\<lambda>(val_net_protocol, vfn_fullnode_protocol).
          rbind (ho_addr_bytes ho [val_net_protocol]) (\<lambda>new_network_addresses.
          rbind (ho_addr_bytes ho [vfn_fullnode_protocol]) (\<lambda>new_fullnode_addresses.
          Ok (StakeUpdateNetworkAndFullnodeAddresses (op_operator_account_address oc) new_network_addresses
                new_fullnode_addresses))))))"

definition ValidatorTxs_run :: "'w env \<Rightarrow> 'a host_ops \<Rightarrow> files \<Rightarrow> ValidatorTxs \<Rightarrow> (unit, 'w net) io" where
  "ValidatorTxs_run ev ho fs self =
     io_bind (io_of (make_payload ho fs self)) (\<lambda>payload.
     io_bind (sign_submit_wait ev (encode (ev_bcs ev) payload)) (\<lambda>_. io_of (Ok ())))"

section \<open>Governance commands\<close>

datatype GovernanceTxs =
    Propose string string
  | Vote u64 bool
  | Resolve u64 string
  | EpochBoundary

text \<open>
  \<open>dirs\<close> are the existing directories, \<open>text_files\<close> and \<open>binary_files\<close> the files; \<open>hex\<close> is the decoder of the \<open>hex\<close> crate and
  \<open>utf8\<close> the bytes of a string.
\<close>

record gov_files =
  gf_dirs :: "string \<Rightarrow> bool"
  gf_text :: files
  gf_binary :: "string \<rightharpoonup> bytes"
  gf_join :: "string \<Rightarrow> string \<Rightarrow> string"
  gf_hex :: "string \<Rightarrow> bytes rres"

definition utf8 :: "string \<Rightarrow> bytes" where
  "utf8 s = map of_char s"

definition gov_payload :: "'w env \<Rightarrow> gov_files \<Rightarrow> GovernanceTxs \<Rightarrow> (TxPayload, 'w net) io" where
  "gov_payload ev gf self =
     (case self of
        Propose proposal_script_dir metadata_url \<Rightarrow>
          let hash_path = gf_join gf proposal_script_dir ''script_sha3'' in
          if \<not> gf_dirs gf proposal_script_dir \<or> gf_text gf hash_path = None
          then io_of (Err (''cannot find upgrade script package at '' @ proposal_script_dir))
          else
            io_bind (io_of (or_err ''No such file or directory'' (gf_text gf hash_path))) (\<lambda>hash.
            io_bind (ask (get_next_governance_proposal_id (ev_text ev))) (\<lambda>num.
            io_bind (io_of (gf_hex gf hash)) (\<lambda>execution_hash.
            io_of (Ok (diem_governance_ol_create_proposal_v2 (ev_bcs ev) execution_hash (utf8 metadata_url)
                         (utf8 ''metadata struct'') True)))))
      | Vote proposal_id should_fail \<Rightarrow> io_of (Ok (diem_governance_ol_vote (ev_bcs ev) proposal_id (\<not> should_fail)))
      | Resolve proposal_id proposal_script_dir \<Rightarrow>
          io_bind (io_match (ask (\<lambda>cl. is_gov_proposal_resolved (ev_text ev) cl proposal_id)) (\<lambda>b. io_of (Ok b))
                     (\<lambda>e. io_of (Err ''cannot get status of proposal''))) (\<lambda>resolved.
          if resolved then io_of (Err (''proposal '' @ dec_str (unat proposal_id) @ '' has already been resolved''))
          else if \<not> gf_dirs gf proposal_script_dir then io_of (Panic ''proposal script cannot be found'')
          else
            io_bind (io_of (or_panic ''called Result::unwrap() on an Err value''
                              (gf_binary gf (gf_join gf proposal_script_dir ''script.mv'')))) (\<lambda>proposal_bytes.
            io_of (Ok (ScriptTx proposal_bytes [] [proposal_id]))))
      | EpochBoundary \<Rightarrow> io_of (Ok (diem_governance_trigger_epoch (ev_bcs ev))))"

definition GovernanceTxs_run :: "'w env \<Rightarrow> gov_files \<Rightarrow> GovernanceTxs \<Rightarrow> (unit, 'w net) io" where
  "GovernanceTxs_run ev gf self =
     io_bind (gov_payload ev gf self) (\<lambda>payload.
     io_bind (sign_submit_wait ev payload) (\<lambda>_. io_of (Ok ())))"

section \<open>One transaction for each command\<close>

text \<open>
  An effect of a command that at most hands one transaction to the API, signed with the next sequence number: \<open>sends_one\<close>.
  Requests before and after it do not matter.
\<close>

definition sends_one :: "'w env \<Rightarrow> ('a, 'w net) io \<Rightarrow> bool" where
  "sends_one ev m \<longleftrightarrow> (\<forall>n.
     (nt_sent (snd (m n)) = nt_sent n \<and> nt_sender (snd (m n)) = nt_sender n) \<or>
     (\<exists>payload w. nt_sent (snd (m n)) = nt_sent n @ [next_tx ev payload (n\<lparr>nt_world := w\<rparr>)] \<and>
        sd_account (nt_sender (snd (m n))) = sd_account (counted (nt_sender n))))"

definition requests :: "('a, 'w net) io \<Rightarrow> bool" where
  "requests m \<longleftrightarrow> io_keeps nt_sender m \<and> io_keeps nt_sent m"

named_theorems request_intros \<open>effects that only ask the node\<close>
named_theorems sends_intros \<open>effects that send at most one transaction\<close>

lemma requests_ask [request_intros]: "requests (ask q)"
  unfolding requests_def by (intro conjI io_keeps_intros)

lemma requests_of [request_intros]: "requests (io_of r)"
  unfolding requests_def by (intro conjI io_keeps_intros)

lemma requests_match [request_intros]:
  "requests m \<Longrightarrow> (\<And>x. requests (k x)) \<Longrightarrow> (\<And>e. requests (h e)) \<Longrightarrow> requests (io_match m k h)"
  unfolding requests_def by (auto intro: io_keeps_intros)

lemma requests_bind [request_intros]:
  "requests m \<Longrightarrow> (\<And>x. requests (k x)) \<Longrightarrow> requests (io_bind m k)"
  unfolding requests_def by (auto intro: io_keeps_intros)

lemma requests_option [request_intros]:
  "requests m \<Longrightarrow> (\<And>x. requests (k x)) \<Longrightarrow> requests (case z of None \<Rightarrow> m | Some x \<Rightarrow> k x)"
  by (cases z) auto

lemma requests_if [request_intros]: "requests m \<Longrightarrow> requests k \<Longrightarrow> requests (if c then m else k)"
  by simp

lemma requests_report [request_intros]: "requests (show_report ev acct)"
  unfolding show_report_def by (intro request_intros)

lemma requests_gov_payload [request_intros]: "requests (gov_payload ev gf tx)"
  unfolding gov_payload_def Let_def by (cases tx) (simp_all add: request_intros)

lemma next_tx_world: "nt_sender m = nt_sender n \<Longrightarrow> next_tx ev p (m\<lparr>nt_world := w\<rparr>) = next_tx ev p (n\<lparr>nt_world := w\<rparr>)"
  by (simp add: next_tx_def)

lemma sends_one_requests: "requests m \<Longrightarrow> sends_one ev m"
  by (simp add: sends_one_def requests_def io_keepsD)

lemma sends_one_match:
  assumes "requests m" and "\<And>x. sends_one ev (ok x)" and "\<And>e. sends_one ev (err e)"
  shows "sends_one ev (io_match m ok err)"
  unfolding sends_one_def
proof
  fix n
  obtain r t where rt: "m n = (r, t)" by force
  with assms(1) have k: "nt_sender t = nt_sender n" "nt_sent t = nt_sent n"
    by (auto simp: requests_def dest: io_keepsD2)
  obtain q where q: "io_match m ok err n = q t" "sends_one ev q"
  proof (cases r)
    case (Panic p)
    with rt have "io_match m ok err n = io_of (Panic p) t" by simp
    moreover have "sends_one ev (io_of (Panic p))" by (intro sends_one_requests request_intros)
    ultimately show ?thesis using that by blast
  qed (use rt assms that in auto)
  from q(2) show "(nt_sent (snd (io_match m ok err n)) = nt_sent n \<and> nt_sender (snd (io_match m ok err n)) = nt_sender n) \<or>
     (\<exists>payload w. nt_sent (snd (io_match m ok err n)) = nt_sent n @ [next_tx ev payload (n\<lparr>nt_world := w\<rparr>)] \<and>
        sd_account (nt_sender (snd (io_match m ok err n))) = sd_account (counted (nt_sender n)))"
    unfolding sends_one_def q(1) using k next_tx_world[OF k(1), of ev] by metis
qed

lemma sends_one_bind:
  "requests m \<Longrightarrow> (\<And>x. sends_one ev (k x)) \<Longrightarrow> sends_one ev (io_bind m k)"
  unfolding io_bind_def by (rule sends_one_match) (simp_all add: sends_one_requests request_intros)

lemmas sends_one_binds [sends_intros] =
  sends_one_bind[OF requests_ask] sends_one_bind[OF requests_of] sends_one_bind[OF requests_match]
  sends_one_bind[OF requests_option] sends_one_bind[OF requests_report] sends_one_bind[OF requests_gov_payload]

lemma sends_one_submit [sends_intros]:
  assumes signer: "local_signer (ev_sign ev)" and k: "\<And>x. requests (k x)"
  shows "sends_one ev (io_bind (sign_submit_wait ev payload) k)"
  unfolding sends_one_def
proof (intro allI disjI2)
  fix n
  obtain r t where rt: "sign_submit_wait ev payload n = (r, t)" by force
  note run = sign_submit_wait_run[OF signer rt]
  have "nt_sender (snd (io_bind (sign_submit_wait ev payload) k n)) = nt_sender t \<and>
      nt_sent (snd (io_bind (sign_submit_wait ev payload) k n)) = nt_sent t"
    using rt k by (cases r) (auto simp: requests_def io_keepsD)
  moreover have "sd_account (nt_sender t) = sd_account (counted (nt_sender n))" using run by (cases r) simp_all
  moreover have "nt_sent t = nt_sent n @ [next_tx ev payload (n\<lparr>nt_world := nt_world n\<rparr>)]" using run by simp
  ultimately show "\<exists>payload' w. nt_sent (snd (io_bind (sign_submit_wait ev payload) k n)) =
        nt_sent n @ [next_tx ev payload' (n\<lparr>nt_world := w\<rparr>)] \<and>
        sd_account (nt_sender (snd (io_bind (sign_submit_wait ev payload) k n))) = sd_account (counted (nt_sender n))"
    by metis
qed

lemma snd_print_error: "snd (print_error m n) = snd (m n)"
proof (cases "m n")
  case (Pair r t)
  then show ?thesis by (cases r) (simp_all add: print_error_def)
qed

lemma sends_one_print [sends_intros]: "sends_one ev m \<Longrightarrow> sends_one ev (print_error m)"
  by (simp add: sends_one_def snd_print_error)

lemma sends_one_state: "(\<And>n. sends_one ev (m n)) \<Longrightarrow> sends_one ev (\<lambda>n. m n n)"
  by (simp add: sends_one_def)

lemma rotate_sends_one: "local_signer (ev_sign ev) \<Longrightarrow> sends_one ev (RotateKeyTx_run ev rx first prompt second self confirm)"
  unfolding RotateKeyTx_run_def Let_def by (rule sends_one_state, intro sends_intros request_intros)

lemma capability_sends_one: "local_signer (ev_sign ev) \<Longrightarrow> sends_one ev (RotationCapabilityTx_run ev rx self)"
  unfolding RotationCapabilityTx_run_def Let_def by (rule sends_one_state, intro sends_intros request_intros)

lemma vouch_sends_one: "local_signer (ev_sign ev) \<Longrightarrow> sends_one ev (VouchTx_run ev self)"
  unfolding VouchTx_run_def Let_def by (rule sends_one_state, intro sends_intros request_intros)

lemma user_sends_one:
  assumes "local_signer (ev_sign ev)"
  shows "sends_one ev (UserTxs_run ev rx first prompt second tx)"
  using rotate_sends_one[OF assms] capability_sends_one[OF assms] vouch_sends_one[OF assms]
  by (cases tx) (simp_all add: UserTxs_run_def SetSlowTx_run_def sends_intros request_intros assms)

text \<open>
  C24. Every command for users, validators and governance hands at most one transaction to the API, from the sender's own
  address and with its next sequence number, whatever the node answers and whatever the user confirms.
\<close>

theorem commands_send_one:
  assumes "local_signer (ev_sign ev)"
  shows "sends_one ev (UserTxs_run ev rx first prompt second user_tx) \<and>
     sends_one ev (ValidatorTxs_run ev ho fs val_tx) \<and> sends_one ev (GovernanceTxs_run ev gf gov_tx)"
  unfolding ValidatorTxs_run_def GovernanceTxs_run_def
  by (intro conjI user_sends_one sends_intros request_intros assms)

definition ref_rotation :: rotation_ops where
  "ref_rotation =
     \<lparr>rx_public = (\<lambda>k. k), rx_sign = (\<lambda>k m. k @ m),
      rx_challenge_bytes = (\<lambda>c. Ok (rc_account_address c @ utf8 (rc_module_name c) @ utf8 (rc_struct_name c) @
        to_le_bytes (rc_sequence_number c) @ rc_originator c @ rc_current_auth_key c @ rc_new_public_key c)),
      rx_offer_bytes = (\<lambda>c. Ok (ro_source_address c @ ro_recipient_address c)),
      rx_address_from_bytes = Ok, rx_key_from_string = (\<lambda>s. Ok (utf8 s))\<rparr>"

theorem commands_send_one_witness:
  "sends_one ref_env (UserTxs_run ref_env ref_rotation (Ok True) (Ok []) (Ok True) ReJoin)"
  by (rule commands_send_one[THEN conjunct1]) (simp add: ref_signer.local_signer_axioms)

section \<open>Runs of transactions\<close>

text \<open>What the transactions sent between two states say: their payloads, and a run of sequence numbers.\<close>

definition sent_between :: "'w net \<Rightarrow> 'w net \<Rightarrow> SignedTransaction list \<Rightarrow> bool" where
  "sent_between n n' txs \<longleftrightarrow>
     nt_sent n' = nt_sent n @ txs \<and>
     map sg_seq txs = map (\<lambda>i. la_seq (my_account n) + of_nat i) [0..<length txs] \<and>
     (\<forall>tx \<in> set txs. sg_sender tx = la_address (my_account n)) \<and>
     la_seq (my_account n') = la_seq (my_account n) + of_nat (length txs) \<and>
     la_address (my_account n') = la_address (my_account n)"

lemma sent_between_trans:
  assumes "sent_between n n1 xs" and "sent_between n1 n2 ys"
  shows "sent_between n n2 (xs @ ys)"
proof -
  have "map (\<lambda>i. la_seq (my_account n) + of_nat i) [length xs..<length xs + length ys] =
      map (\<lambda>i. la_seq (my_account n) + of_nat (length xs) + of_nat i) [0..<length ys]"
    by (rule nth_equalityI) simp_all
  then show ?thesis using assms
    by (auto simp: sent_between_def upt_add_eq_append[of 0 "length xs" "length ys", simplified] add.assoc)
qed

abbreviation payloads :: "SignedTransaction list \<Rightarrow> TxPayload list" where
  "payloads txs \<equiv> map (\<lambda>tx. tb_payload (sg_body tx)) txs"

lemma sent_between_none: "nt_sent n' = nt_sent n \<Longrightarrow> nt_sender n' = nt_sender n \<Longrightarrow> sent_between n n' []"
  by (simp add: sent_between_def my_account_def)

section \<open>Errors of user commands\<close>

lemma print_error_no_err: "\<not> is_err (fst (print_error m n))"
proof (cases "m n")
  case (Pair r t)
  then show ?thesis by (cases r) (simp_all add: print_error_def)
qed

text \<open>
  Three of the user commands never report a failure to their caller: setting a slow wallet, rotating a key and offering
  a rotation capability print the error and return \<open>Ok\<close>, so the process ends with success. Re-joining and vouching return
  the error of their transaction.
\<close>

theorem user_errors_swallowed:
  "(\<forall>r c. \<not> is_err (fst (UserTxs_run ev rx first prompt second SetSlow n)) \<and>
      \<not> is_err (fst (UserTxs_run ev rx first prompt second (RotateKey r) n)) \<and>
      \<not> is_err (fst (UserTxs_run ev rx first prompt second (RotationCapability c) n))) \<and>
   (\<forall>e t. sign_submit_wait ev (filo_migration_maybe_migrate (ev_bcs ev)) n = (Err e, t) \<longrightarrow>
      UserTxs_run ev rx first prompt second ReJoin n = (Err e, t))"
  by (simp add: UserTxs_run_def print_error_no_err)

lemma ref_rejected:
  "\<exists>t. sign_submit_wait ref_env payload (ref_net 4 9) = (Err ''invalid sequence number'', t)"
  by (simp add: sign_submit_wait_def sign_payload_run[OF ref_signer.local_signer_axioms[folded ref_env_sel(1)]]
        submit_def ask_def ref_net_def ref_sender_def next_tx_def counted_def io_bind_def io_match_def)

theorem user_errors_swallowed_witness:
  "\<exists>t. UserTxs_run ref_env ref_rotation (Ok True) (Ok []) (Ok True) ReJoin (ref_net 4 9) = (Err ''invalid sequence number'', t)"
  using user_errors_swallowed[of ref_env ref_rotation "Ok True" "Ok []" "Ok True" "ref_net 4 9", THEN conjunct2]
    ref_rejected[of "filo_migration_maybe_migrate (ev_bcs ref_env)"] by blast

section \<open>Proofs of a key rotation\<close>

definition challenge :: "u64 \<Rightarrow> account_address \<Rightarrow> account_address \<Rightarrow> bytes \<Rightarrow> RotationProofChallenge" where
  "challenge seq_num originator current_auth_key new_public_key =
     \<lparr>rc_account_address = core_code_address, rc_module_name = ''account'', rc_struct_name = ''RotationProofChallenge'',
      rc_sequence_number = seq_num, rc_originator = originator, rc_current_auth_key = current_auth_key,
      rc_new_public_key = new_public_key\<rparr>"

text \<open>
  C25. A key rotation carries valid proofs: given a signature scheme that verifies its own signatures, the payload of a
  rotation names the current and the new public key and holds a signature of each over the challenge that binds the
  account, its current key, the sequence number and the new key; a delegated rotation binds the claimed account and is
  signed by the new key.
\<close>

theorem rotation_proofs_verify:
  assumes "\<forall>k m. verify (rx_public rx k) m (rx_sign rx k m)"
    and "rx_address_from_bytes rx auth = Ok current"
    and "rx_challenge_bytes rx (challenge seq_num originator current (rx_public rx new_key)) = Ok msg"
  shows "(\<exists>s1 s2. rotate_key b rx originator key auth seq_num new_key =
        Ok (encode b (AccountRotateAuthenticationKey 0 (rx_public rx key) 0 (rx_public rx new_key) s1 s2)) \<and>
        verify (rx_public rx key) msg s1 \<and> verify (rx_public rx new_key) msg s2) \<and>
     (\<exists>s. rotate_key_delegated b rx seq_num originator auth new_key =
        Ok (encode b (AccountRotateAuthenticationKeyWithRotationCapability originator 0 (rx_public rx new_key) s)) \<and>
        verify (rx_public rx new_key) msg s)"
proof -
  have "rotate_key b rx originator key auth seq_num new_key = Ok (encode b (AccountRotateAuthenticationKey 0
      (rx_public rx key) 0 (rx_public rx new_key) (rx_sign rx key msg) (rx_sign rx new_key msg)))"
    "rotate_key_delegated b rx seq_num originator auth new_key = Ok (encode b
      (AccountRotateAuthenticationKeyWithRotationCapability originator 0 (rx_public rx new_key) (rx_sign rx new_key msg)))"
    using assms(2,3) by (simp_all add: rotate_key_def rotate_key_delegated_def challenge_def Let_def)
  with assms(1) show ?thesis by blast
qed

theorem rotation_proofs_verify_witness:
  "\<exists>s1 s2 msg. rotate_key ref_bcs ref_rotation zero_address [1] zero_address 3 [2] =
        Ok (encode ref_bcs (AccountRotateAuthenticationKey 0 [1] 0 [2] s1 s2)) \<and> s1 = [1] @ msg \<and> s2 = [2] @ msg"
proof -
  have "\<forall>k m. (\<lambda>p m s. s = p @ m) (rx_public ref_rotation k) m (rx_sign ref_rotation k m)"
    "rx_address_from_bytes ref_rotation zero_address = Ok zero_address"
    "\<exists>msg. rx_challenge_bytes ref_rotation (challenge 3 zero_address zero_address (rx_public ref_rotation [2])) = Ok msg"
    by (simp_all add: ref_rotation_def)
  then obtain msg where "rx_challenge_bytes ref_rotation (challenge 3 zero_address zero_address (rx_public ref_rotation [2])) = Ok msg"
    by blast
  from rotation_proofs_verify[OF \<open>\<forall>k m. _ k m\<close> _ this, THEN conjunct1, of zero_address ref_bcs "[1]"]
  show ?thesis unfolding ref_rotation_def by fastforce
qed

section \<open>Bids\<close>

lemma milli_error:
  assumes "0 \<le> v" and "v \<le> 2 ^ 50"
  shows "\<bar>rnd (rnd (v / 1000) * 1000) - v\<bar> < 1 / 2"
proof -
  let ?a = "rnd (v / 1000) * 1000"
  have "\<bar>rnd (v / 1000) - v / 1000\<bar> \<le> v / 1000 / 2 ^ 53"
    using assms(1) by (intro rnd_error) simp
  moreover have "?a - v = (rnd (v / 1000) - v / 1000) * 1000" by (simp add: left_diff_distrib)
  then have "\<bar>?a - v\<bar> = \<bar>rnd (v / 1000) - v / 1000\<bar> * 1000" by (simp only: abs_mult abs_numeral)
  ultimately have a: "\<bar>?a - v\<bar> \<le> v / 2 ^ 53" by simp
  with assms(2) have small: "\<bar>?a - v\<bar> \<le> 1 / 8" by simp
  moreover have "(2 :: real) ^ 50 + 1 \<le> 2 ^ 51" by simp
  ultimately have "?a \<le> 2 ^ 51" using assms(2) by linarith
  moreover have "\<bar>rnd ?a - ?a\<bar> \<le> ?a / 2 ^ 53" by (intro rnd_error) simp
  ultimately have "\<bar>rnd ?a - ?a\<bar> \<le> 1 / 4" by simp
  with small show ?thesis by linarith
qed

lemma scaled_bid:
  assumes "k \<le> 2 ^ 50"
  shows "f64_to_u64 (f64_round (fmul (rnd (real k / 1000)) 1000)) = of_nat k"
proof -
  let ?x = "rnd (rnd (real k / 1000) * 1000)"
  have "real k \<le> 2 ^ 50" using assms by (metis of_nat_le_iff of_nat_numeral of_nat_power)
  then have "\<bar>?x - real k\<bar> < 1 / 2" by (intro milli_error) simp_all
  then have "\<lfloor>?x + 1 / 2\<rfloor> = int k" unfolding floor_eq_iff by (simp only: of_int_of_nat_eq) linarith
  then have "f64_round (fmul (rnd (real k / 1000)) 1000) = real k" by (simp add: f64_round_def fmul_def)
  moreover have "\<not> 2 ^ 64 - 1 \<le> real k" using \<open>real k \<le> 2 ^ 50\<close> by simp
  ultimately show ?thesis by (auto simp: f64_to_u64_def)
qed

text \<open>
  C27. A bid written with three decimals reaches the chain exactly: \<open>k / 1000\<close> becomes the bid \<open>k\<close>, despite the rounding of the
  decimal and of the product. Bids up to 110.0 percent, that one included, are accepted, larger ones are refused.
\<close>

theorem bid_exact:
  assumes "k \<le> 2 ^ 50"
  shows "make_payload ho fs (Pof (Some (rnd (real k / 1000))) expiry False net_reward) =
     (if k \<le> 1100 then Ok (ProofOfFeePofUpdateBid (of_nat k) expiry)
      else Err ''a bid amount at 110.0% or above the epoch's reward, will be rejected'')"
proof -
  have "k < 2 ^ 64" using assms by simp
  then have "unat (of_nat k :: u64) = k" by (simp add: unat_of_nat take_bit_nat_eq_self)
  then have "(1100 :: u64) < of_nat k \<longleftrightarrow> 1100 < k" by (simp add: word_less_nat_alt)
  then show ?thesis using scaled_bid[OF assms] by (simp add: make_payload_def Let_def)
qed

definition ref_hosts :: "string host_ops" where
  "ref_hosts =
     \<lparr>ho_net_addr = (\<lambda>h k. Ok (hp_host h)), ho_addr_bytes = (\<lambda>as. Ok (utf8 (concat as))),
      ho_yaml = ref_config_yaml,
      ho_home = ''/root/.libra'', ho_join = (\<lambda>d f. d @ ''/'' @ f)\<rparr>"

theorem bid_exact_witness:
  "make_payload ref_hosts Map.empty (Pof (Some (rnd (real 1100 / 1000))) 7 False None) = Ok (ProofOfFeePofUpdateBid 1100 7)"
  using bid_exact[of 1100] by simp

section \<open>Resolving proposals\<close>

lemma resolve_payload:
  assumes "gov_payload ev gf (Resolve prop_id dir) n = (Ok payload, n')"
  shows "\<exists>bytes. fst (is_gov_proposal_resolved (ev_text ev) (sd_client (nt_sender n)) prop_id (nt_world n)) = Ok False \<and>
     gf_binary gf (gf_join gf dir ''script.mv'') = Some bytes \<and> payload = ScriptTx bytes [] [prop_id]"
  using assms
  by (auto simp: gov_payload_def io_match_def ask_def rust_simps split: prod.splits rres.splits if_splits)

text \<open>
  C26. Resolving a proposal sends a transaction only after the node has answered that the proposal is not resolved, and then
  exactly the compiled script of the given directory with the number of the proposal as its only argument.
\<close>

theorem resolve_checked:
  assumes "local_signer (ev_sign ev)" and "GovernanceTxs_run ev gf (Resolve prop_id dir) n = (r, n')"
    and "nt_sent n' \<noteq> nt_sent n"
  shows "\<exists>bytes w. fst (is_gov_proposal_resolved (ev_text ev) (sd_client (nt_sender n)) prop_id (nt_world n)) = Ok False \<and>
     gf_binary gf (gf_join gf dir ''script.mv'') = Some bytes \<and>
     nt_sent n' = nt_sent n @ [next_tx ev (ScriptTx bytes [] [prop_id]) (n\<lparr>nt_world := w\<rparr>)]"
proof -
  obtain q t where qt: "gov_payload ev gf (Resolve prop_id dir) n = (q, t)" by force
  have k: "nt_sender t = nt_sender n" "nt_sent t = nt_sent n"
    using requests_gov_payload[of ev gf "Resolve prop_id dir"] qt by (auto simp: requests_def dest: io_keepsD2)
  show ?thesis
  proof (cases q)
    case (Ok payload)
    obtain p u where pu: "sign_submit_wait ev payload t = (p, u)" by force
    have "nt_sent n' = nt_sent u" using assms(2) qt Ok pu by (cases p) (auto simp: GovernanceTxs_run_def)
    with sign_submit_wait_run[OF assms(1) pu] k have "nt_sent n' = nt_sent n @ [next_tx ev payload t]" by simp
    moreover have "next_tx ev payload t = next_tx ev payload (n\<lparr>nt_world := nt_world t\<rparr>)"
      using k(1) by (simp add: next_tx_def)
    ultimately show ?thesis using resolve_payload[of ev gf prop_id dir n payload t] qt Ok by metis
  qed (use assms qt k in \<open>auto simp: GovernanceTxs_run_def\<close>)
qed

definition ref_gov :: gov_files where
  "ref_gov =
     \<lparr>gf_dirs = (\<lambda>_. True), gf_text = Map.empty, gf_binary = [''p/script.mv'' \<mapsto> [7]], gf_join = (\<lambda>d f. d @ ''/'' @ f),
      gf_hex = (\<lambda>s. Err ''hex'')\<rparr>"

definition ref_gov_net :: "chain net" where
  "ref_gov_net = (ref_net 4 4)\<lparr>nt_sender := (ref_sender 4)\<lparr>sd_client := chain_node\<lparr>cl_view := (\<lambda>_. io_of (Ok [JBool False]))\<rparr>\<rparr>\<rparr>"

theorem resolve_checked_witness:
  "\<exists>bytes w. gf_binary ref_gov ''p/script.mv'' = Some bytes \<and>
     nt_sent (snd (GovernanceTxs_run ref_env ref_gov (Resolve 3 ''p'') ref_gov_net)) =
       [next_tx ref_env (ScriptTx bytes [] [3]) (ref_gov_net\<lparr>nt_world := w\<rparr>)]"
proof -
  have s: "local_signer (ev_sign ref_env)" by (simp add: ref_signer.local_signer_axioms)
  obtain r n' where rn: "GovernanceTxs_run ref_env ref_gov (Resolve 3 ''p'') ref_gov_net = (r, n')" by force
  have "is_gov_proposal_resolved ref_move_text (sd_client (nt_sender ref_gov_net)) 3 w = (Ok False, w)" for w
    by (simp add: is_gov_proposal_resolved_def get_view_def view_ext_def parse_type_args_def first_or_def
        ref_gov_net_def ref_net_def ref_move_text_def)
  then have g: "gov_payload ref_env ref_gov (Resolve 3 ''p'') ref_gov_net = (Ok (ScriptTx [7] [] [3]), ref_gov_net)"
    by (simp add: gov_payload_def ask_def ref_gov_def io_match_def io_bind_def)
  obtain p u where pu: "sign_submit_wait ref_env (ScriptTx [7] [] [3]) ref_gov_net = (p, u)" by force
  have "nt_sent n' = nt_sent u" using rn g pu by (cases p) (auto simp: GovernanceTxs_run_def)
  with sign_submit_wait_run[OF s pu] have "nt_sent n' \<noteq> nt_sent ref_gov_net" by simp
  from resolve_checked[OF s rn this] rn show ?thesis by (auto simp: ref_gov_def ref_gov_net_def ref_net_def)
qed

end
