(* ===== verification/Txs_Community.thy ===== *)
theory Txs_Community
  imports Txs_Commands "HOL-Library.Sublist"
begin

text \<open>
  Commands for community wallets (\<^verbatim>\<open>src/tools/txs/src/txs_cli_community.rs\<close>): governance of the multi-signature account,
  single payments, batches of payments read from a JSON file, vetoes and reauthorization votes. A command acts on the
  sender's state and on the files; parsing of addresses and the JSON form of payments are the record \<open>comm_ops\<close>.
\<close>

section \<open>State and third-party code\<close>

record ProposePay =
  py_recipient :: string
  py_parsed :: "account_address option"
  py_amount :: u64
  py_description :: string
  py_is_advance :: bool
  py_is_slow :: "bool option"
  py_proposed :: "bool option"
  py_approved :: "bool option"
  py_voters :: "account_address list option"
  py_error :: "string option"
  py_note :: "string option"

record comm_ops =
  cm_parse_address :: "string \<Rightarrow> account_address rres"
  cm_canonical :: "account_address \<Rightarrow> string"
  cm_from_json :: "string \<Rightarrow> ProposePay list rres"
  cm_to_json :: "ProposePay list \<Rightarrow> string rres"

type_synonym 'w desk = "'w net \<times> files"

definition on_net :: "('a, 'w net) io \<Rightarrow> ('a, 'w desk) io" where
  "on_net m = (\<lambda>(n, fs). case m n of (r, n') \<Rightarrow> (r, n', fs))"

definition send_it :: "'w env \<Rightarrow> TxPayload \<Rightarrow> (unit, 'w net) io" where
  "send_it ev payload = io_bind (sign_submit_wait ev payload) (\<lambda>_. io_of (Ok ()))"

section \<open>Single transactions\<close>

record InitTx =
  in_admins :: "account_address list"
  in_num_signers :: u64

definition InitTx_run :: "'w env \<Rightarrow> InitTx \<Rightarrow> (unit, 'w net) io" where
  "InitTx_run ev self =
     send_it ev (community_wallet_init_init_community (ev_bcs ev) (in_admins self) (in_num_signers self))"

record OfferTx =
  of_admins :: "account_address list"
  of_num_signers :: u64

definition OfferTx_run :: "'w env \<Rightarrow> OfferTx \<Rightarrow> (unit, 'w net) io" where
  "OfferTx_run ev self =
     send_it ev (community_wallet_init_propose_offer (ev_bcs ev) (of_admins self) (of_num_signers self))"

definition ClaimTx_run :: "'w env \<Rightarrow> account_address \<Rightarrow> (unit, 'w net) io" where
  "ClaimTx_run ev community_wallet = send_it ev (multi_action_claim_offer (ev_bcs ev) community_wallet)"

definition CageTx_run :: "'w env \<Rightarrow> u64 \<Rightarrow> (unit, 'w net) io" where
  "CageTx_run ev num_signers = send_it ev (community_wallet_init_finalize_and_cage (ev_bcs ev) num_signers)"

record AdminTx =
  ad_community_wallet :: account_address
  ad_admin :: account_address
  ad_drop :: "bool option"
  ad_n :: u64
  ad_epochs :: "u64 option"

definition AdminTx_run :: "'w env \<Rightarrow> AdminTx \<Rightarrow> (unit, 'w net) io" where
  "AdminTx_run ev self =
     (let is_add_operation = (case ad_drop self of Some d \<Rightarrow> d | None \<Rightarrow> True) in
      send_it ev (community_wallet_init_change_signer_community_multisig (ev_bcs ev) (ad_community_wallet self)
        (ad_admin self) is_add_operation (ad_n self) (case ad_epochs self of Some e \<Rightarrow> e | None \<Rightarrow> 10)))"

record ProposeTx =
  pr_community_wallet :: account_address
  pr_recipient :: account_address
  pr_amount :: u64
  pr_description :: string
  pr_unlocked_advance :: bool

definition ProposeTx_run :: "'w env \<Rightarrow> ProposeTx \<Rightarrow> (unit, 'w net) io" where
  "ProposeTx_run ev self =
     send_it ev (donor_voice_txs_propose_payment_tx (ev_bcs ev) (pr_community_wallet self) (pr_recipient self)
       (cast_decimal_to_coin (f64_of_u64 (pr_amount self))) (utf8 (pr_description self)) (pr_unlocked_advance self))"

definition VetoTx_run :: "'w env \<Rightarrow> account_address \<Rightarrow> u64 \<Rightarrow> (unit, 'w net) io" where
  "VetoTx_run ev community_wallet proposal_id =
     send_it ev (donor_voice_txs_propose_veto_tx (ev_bcs ev) community_wallet proposal_id)"

section \<open>Reauthorization\<close>

definition first_pending :: "json \<Rightarrow> u64 option" where
  "first_pending reauth_ballots =
     Option.bind (as_array reauth_ballots) (\<lambda>ballot_array.
     Option.bind (case ballot_array of [] \<Rightarrow> None | v # _ \<Rightarrow> as_array v) (\<lambda>pending_ballots.
     case pending_ballots of [] \<Rightarrow> None | v # _ \<Rightarrow> Option.bind (as_str v) parse_u64))"

definition fetch_pending_reauth_ballots ::
  "move_text \<Rightarrow> comm_ops \<Rightarrow> account_address \<Rightarrow> 'w client \<Rightarrow> (u64 option, 'w) io" where
  "fetch_pending_reauth_ballots mt co community_wallet cl =
     io_bind (get_view mt cl ''0x1::donor_voice_governance::get_reauth_ballots'' None
                (Some (cm_canonical co community_wallet))) (\<lambda>reauth_ballots.
     io_of (Ok (first_pending reauth_ballots)))"

definition ReauthVoteTx_run :: "'w env \<Rightarrow> comm_ops \<Rightarrow> account_address \<Rightarrow> (unit, 'w net) io" where
  "ReauthVoteTx_run ev co community_wallet =
     io_bind (sign_submit_wait ev (donor_voice_txs_vote_reauth_tx (ev_bcs ev) community_wallet)) (\<lambda>_.
     io_bind (ask (fetch_pending_reauth_ballots (ev_text ev) co community_wallet)) (\<lambda>ballot_id.
     case ballot_id of
       None \<Rightarrow> io_of (Ok ())
     | Some i \<Rightarrow>
         io_bind (ask (\<lambda>cl. get_view (ev_text ev) cl ''0x1::donor_voice_governance::get_reauth_tally'' None
                    (Some (cm_canonical co community_wallet @ '', '' @ dec_str (unat i))))) (\<lambda>res. io_of (Ok ()))))"

section \<open>Batches\<close>

text \<open>The ballots of the wallet that are pending, followed by the approved ones.\<close>

definition ballot_list :: "json \<Rightarrow> json list" where
  "ballot_list ballots =
     (case obj_get ''vote'' ballots of
        Some (JObject v) \<Rightarrow>
          (let field = (\<lambda>k. case Option.bind (map_of v k) as_array of Some xs \<Rightarrow> xs | None \<Rightarrow> [])
           in field ''ballots_pending'' @ field ''ballots_approved'')
      | _ \<Rightarrow> [])"

definition ballot_voters :: "comm_ops \<Rightarrow> json \<Rightarrow> account_address list" where
  "ballot_voters co prop =
     (case Option.bind (obj_get ''votes'' prop) as_array of
        Some votes \<Rightarrow> List.map_filter (\<lambda>e. Option.bind (as_str e) (\<lambda>s. ok_of (cm_parse_address co s))) votes
      | None \<Rightarrow> [])"

definition parse_ballot :: "comm_ops \<Rightarrow> json \<Rightarrow> (account_address \<times> ProposePay) option" where
  "parse_ballot co ballot =
     Option.bind (obj_get ''tally_type'' ballot) (\<lambda>prop.
     Option.bind (obj_get ''proposal_data'' prop) (\<lambda>data.
     Option.bind (Option.bind (obj_get ''payee'' data) as_str) (\<lambda>recipient_str.
     Option.bind (Option.bind (obj_get ''value'' data) as_str) (\<lambda>amount_str.
     Option.bind (ok_of (cm_parse_address co recipient_str)) (\<lambda>recipient.
     Option.bind (parse_u64 amount_str) (\<lambda>amount.
     Some (recipient,
       \<lparr>py_recipient = cm_canonical co recipient, py_parsed = Some recipient, py_amount = amount,
        py_description = ''debugging'', py_is_advance = False, py_is_slow = None, py_proposed = None,
        py_approved = Some (case Option.bind (obj_get ''approved'' prop) as_bool of Some b \<Rightarrow> b | None \<Rightarrow> False),
        py_voters = Some (ballot_voters co prop), py_error = None, py_note = None\<rparr>)))))))"

text \<open>The \<open>HashMap\<close> of ballots by recipient: a later ballot replaces an earlier one.\<close>

definition pending_or_approved :: "comm_ops \<Rightarrow> json \<Rightarrow> account_address \<rightharpoonup> ProposePay" where
  "pending_or_approved co ballots = foldl (\<lambda>m (k, v). m(k \<mapsto> v)) Map.empty (List.map_filter (parse_ballot co) (ballot_list ballots))"

definition propose_one_in_batch :: "'w env \<Rightarrow> account_address \<Rightarrow> ProposePay \<Rightarrow> (unit, 'w net) io" where
  "propose_one_in_batch ev multisig instruction =
     io_bind (io_of (or_panic ''called Option::unwrap() on a None value'' (py_parsed instruction))) (\<lambda>payee.
     send_it ev (donor_voice_txs_propose_payment_tx (ev_bcs ev) multisig payee
       (cast_decimal_to_coin (f64_of_u64 (py_amount instruction))) (utf8 (py_description instruction)) False))"

text \<open>One instruction that has been matched with the ballots.\<close>

definition mark_pending :: "(account_address \<rightharpoonup> ProposePay) \<Rightarrow> account_address \<Rightarrow> ProposePay \<Rightarrow> ProposePay" where
  "mark_pending pending addr inst =
     (let inst = inst\<lparr>py_parsed := Some addr\<rparr> in
      case pending addr of
        Some pp \<Rightarrow>
          if py_amount pp = cast_decimal_to_coin (f64_of_u64 (py_amount inst))
          then inst\<lparr>py_proposed := Some True, py_voters := py_voters pp, py_approved := py_approved pp\<rparr>
          else inst
      | None \<Rightarrow> inst)"

definition slow_answer :: "json \<Rightarrow> bool" where
  "slow_answer j =
     (case Option.bind (as_array j) (\<lambda>arr. case arr of [] \<Rightarrow> None | v # _ \<Rightarrow> as_bool v) of Some b \<Rightarrow> b | None \<Rightarrow> False)"

definition batch_one ::
  "'w env \<Rightarrow> comm_ops \<Rightarrow> account_address \<Rightarrow> bool \<Rightarrow> (account_address \<rightharpoonup> ProposePay) \<Rightarrow> ProposePay \<Rightarrow>
   (ProposePay, 'w net) io" where
  "batch_one ev co community_wallet check pending inst =
     (case cm_parse_address co (py_recipient inst) of
        Err e \<Rightarrow> io_of (Ok inst)
      | Panic p \<Rightarrow> io_of (Panic p)
      | Ok addr \<Rightarrow>
          let inst = mark_pending pending addr inst in
          io_bind (ask (\<lambda>cl. get_view (ev_text ev) cl ''0x1::slow_wallet::is_slow'' None (Some (py_recipient inst)))) (\<lambda>v n.
          let inst = inst\<lparr>py_is_slow := Some (slow_answer v)\<rparr> in
          if \<not> slow_answer v then (Ok inst, n)
          else if (case py_voters inst of Some voters \<Rightarrow> la_address (my_account n) \<in> set voters | None \<Rightarrow> False)
          then (Ok inst, n)
          else if check then (Ok inst, n)
          else io_match (propose_one_in_batch ev community_wallet inst)
                 (\<lambda>_. io_of (Ok (inst\<lparr>py_proposed := Some True\<rparr>)))
                 (\<lambda>e. io_of (Ok (inst\<lparr>py_proposed := Some False, py_error := Some e\<rparr>))) n))"

fun batch_loop :: "(ProposePay \<Rightarrow> (ProposePay, 's) io) \<Rightarrow> ProposePay list \<Rightarrow> (ProposePay list, 's) io" where
  "batch_loop f [] = io_of (Ok [])"
| "batch_loop f (inst # insts) =
     io_bind (f inst) (\<lambda>inst'. io_bind (batch_loop f insts) (\<lambda>insts'. io_of (Ok (inst' # insts'))))"

record BatchTx =
  bx_community_wallet :: account_address
  bx_file :: string
  bx_out :: "string option"
  bx_check :: bool

definition BatchTx_run :: "'w env \<Rightarrow> comm_ops \<Rightarrow> BatchTx \<Rightarrow> (unit, 'w desk) io" where
  "BatchTx_run ev co self = (\<lambda>s.
     io_bind (io_of (or_err ''No such file or directory'' (snd s (bx_file self)))) (\<lambda>data.
     io_bind (io_of (cm_from_json co data)) (\<lambda>insts.
     io_bind (on_net (ask (\<lambda>cl. multi_auth_ballots cl (bx_community_wallet self)))) (\<lambda>ballots.
     io_bind (on_net (batch_loop (batch_one ev co (bx_community_wallet self) (bx_check self)
                        (pending_or_approved co ballots)) insts)) (\<lambda>insts.
     io_bind (io_of (cm_to_json co insts)) (\<lambda>json (n, fs).
       (Ok (), n, fs((case bx_out self of Some out \<Rightarrow> out | None \<Rightarrow> bx_file self) \<mapsto> json))))))) s)"

datatype CommunityTxs =
    GovInit InitTx
  | GovOffer OfferTx
  | GovClaim account_address
  | GovCage u64
  | GovAdmin AdminTx
  | ProposePayment ProposeTx
  | Batch BatchTx
  | Veto account_address u64
  | Reauthorize account_address

definition community_result :: "'w env \<Rightarrow> comm_ops \<Rightarrow> CommunityTxs \<Rightarrow> (unit, 'w desk) io" where
  "community_result ev co self =
     (case self of
        GovInit tx \<Rightarrow> on_net (InitTx_run ev tx)
      | GovOffer tx \<Rightarrow> on_net (OfferTx_run ev tx)
      | GovClaim cw \<Rightarrow> on_net (ClaimTx_run ev cw)
      | GovCage num_signers \<Rightarrow> on_net (CageTx_run ev num_signers)
      | GovAdmin tx \<Rightarrow> on_net (AdminTx_run ev tx)
      | ProposePayment tx \<Rightarrow> on_net (ProposeTx_run ev tx)
      | Batch tx \<Rightarrow> BatchTx_run ev co tx
      | Veto cw proposal_id \<Rightarrow> on_net (VetoTx_run ev cw proposal_id)
      | Reauthorize cw \<Rightarrow> on_net (ReauthVoteTx_run ev co cw))"

definition CommunityTxs_run :: "'w env \<Rightarrow> comm_ops \<Rightarrow> CommunityTxs \<Rightarrow> (unit, 'w desk) io" where
  "CommunityTxs_run ev co self = print_error (community_result ev co self)"

section \<open>What a batch sends\<close>

text \<open>The payment an instruction of the file stands for.\<close>

definition payment_of :: "'w env \<Rightarrow> comm_ops \<Rightarrow> account_address \<Rightarrow> ProposePay \<Rightarrow> TxPayload option" where
  "payment_of ev co cw inst =
     map_option (\<lambda>payee. donor_voice_txs_propose_payment_tx (ev_bcs ev) cw payee
       (cast_decimal_to_coin (f64_of_u64 (py_amount inst))) (utf8 (py_description inst)) False)
     (ok_of (cm_parse_address co (py_recipient inst)))"

lemma mark_pending_sel [simp]:
  "py_parsed (mark_pending m a i) = Some a" "py_amount (mark_pending m a i) = py_amount i"
  "py_description (mark_pending m a i) = py_description i" "py_recipient (mark_pending m a i) = py_recipient i"
  by (simp_all add: mark_pending_def Let_def split: option.splits)

lemma propose_run:
  assumes "local_signer (ev_sign ev)" and "py_parsed inst = Some payee" and "propose_one_in_batch ev cw inst n = (r, n')"
  shows "\<exists>tx. sent_between n n' [tx] \<and> tb_payload (sg_body tx) = donor_voice_txs_propose_payment_tx (ev_bcs ev) cw payee
       (cast_decimal_to_coin (f64_of_u64 (py_amount inst))) (utf8 (py_description inst)) False"
proof -
  let ?p = "donor_voice_txs_propose_payment_tx (ev_bcs ev) cw payee
       (cast_decimal_to_coin (f64_of_u64 (py_amount inst))) (utf8 (py_description inst)) False"
  obtain q t where qt: "sign_submit_wait ev ?p n = (q, t)" by force
  have "n' = t" using assms(2,3) qt by (cases q) (auto simp: propose_one_in_batch_def send_it_def)
  with sign_submit_wait_run[OF assms(1) qt] have "sent_between n n' [next_tx ev ?p n]"
    by (cases q) (simp_all add: sent_between_def my_account_def counted_def next_tx_def Let_def)
  moreover have "tb_payload (sg_body (next_tx ev ?p n)) = ?p" by (simp add: next_tx_def Let_def)
  ultimately show ?thesis by blast
qed

lemma batch_one_run:
  assumes signer: "local_signer (ev_sign ev)" and run: "batch_one ev co cw check pending inst n = (r, n')"
  shows "\<exists>txs. sent_between n n' txs \<and> (check \<longrightarrow> txs = []) \<and>
     (txs = [] \<or> (\<exists>p. payment_of ev co cw inst = Some p \<and> payloads txs = [p]))"
proof (cases "cm_parse_address co (py_recipient inst)")
  case (Ok addr)
  let ?i = "mark_pending pending addr inst"
  obtain q t where qt: "ask (\<lambda>cl. get_view (ev_text ev) cl ''0x1::slow_wallet::is_slow'' None (Some (py_recipient inst))) n = (q, t)"
    by force
  have k: "nt_sender t = nt_sender n" "nt_sent t = nt_sent n" using ask_sel[of _ n] qt by (metis snd_conv)+
  have none: "sent_between n t []" using k by (simp add: sent_between_none)
  show ?thesis
  proof (cases q)
    case v: (Ok v)
    let ?j = "?i\<lparr>py_is_slow := Some (slow_answer v)\<rparr>"
    let ?m = "io_match (propose_one_in_batch ev cw ?j) (\<lambda>_. io_of (Ok (?j\<lparr>py_proposed := Some True\<rparr>)))
                 (\<lambda>e. io_of (Ok (?j\<lparr>py_proposed := Some False, py_error := Some e\<rparr>)))"
    obtain x u where xu: "propose_one_in_batch ev cw ?j t = (x, u)" by force
    have "n' = t \<or> \<not> check \<and> (r, n') = ?m t"
      using run Ok qt v by (auto simp: batch_one_def Let_def split: if_splits)
    moreover have "snd (?m t) = u" using xu by (cases x) simp_all
    ultimately consider "n' = t" | "\<not> check" "n' = u" by (metis snd_conv)
    then show ?thesis
    proof cases
      case 2
      from propose_run[OF signer _ xu, of addr] obtain tx where tx: "sent_between t u [tx]"
        "tb_payload (sg_body tx) = donor_voice_txs_propose_payment_tx (ev_bcs ev) cw addr
          (cast_decimal_to_coin (f64_of_u64 (py_amount inst))) (utf8 (py_description inst)) False" by auto
      from sent_between_trans[OF none tx(1)] tx(2) 2 Ok show ?thesis by (auto simp: payment_of_def)
    qed (use none in auto)
  qed (use run Ok qt none in \<open>auto simp: batch_one_def Let_def\<close>)
qed (use run sent_between_none[of n n] in \<open>auto simp: batch_one_def\<close>)

lemma batch_loop_run:
  assumes "local_signer (ev_sign ev)" and "batch_loop (batch_one ev co cw check pending) insts n = (r, n')"
  shows "\<exists>txs. sent_between n n' txs \<and> (check \<longrightarrow> txs = []) \<and>
     subseq (payloads txs) (List.map_filter (payment_of ev co cw) insts)"
  using assms(2)
proof (induction insts arbitrary: n r n')
  case Nil
  then show ?case using sent_between_none[of n n] by (auto simp: map_filter_simps)
next
  case (Cons inst insts)
  let ?f = "batch_one ev co cw check pending"
  obtain q t where qt: "?f inst n = (q, t)" by force
  from batch_one_run[OF assms(1) qt] obtain xs where xs: "sent_between n t xs" "check \<longrightarrow> xs = []"
    "xs = [] \<or> (\<exists>p. payment_of ev co cw inst = Some p \<and> payloads xs = [p])" by (elim exE conjE)
  from xs(3) have sub: "subseq (payloads xs @ ys) (List.map_filter (payment_of ev co cw) (inst # insts))"
    if "subseq ys (List.map_filter (payment_of ev co cw) insts)" for ys
    using that by (auto simp: map_filter_simps split: option.splits)
  show ?case
  proof (cases q)
    case (Ok i)
    obtain p u where pu: "batch_loop ?f insts t = (p, u)" by force
    from Cons.IH[OF pu] obtain ys where ys: "sent_between t u ys" "check \<longrightarrow> ys = []"
      "subseq (payloads ys) (List.map_filter (payment_of ev co cw) insts)" by (elim exE conjE)
    have "n' = u" using Cons.prems qt Ok pu by (cases p) auto
    with sent_between_trans[OF xs(1) ys(1)] xs(2) ys sub[OF ys(3)] show ?thesis by (intro exI[of _ "xs @ ys"]) auto
  qed (use Cons.prems qt xs sub[of "[]"] in \<open>auto intro!: exI[of _ xs]\<close>)
qed

lemma on_net_app: "on_net m (n, fs) = (fst (m n), snd (m n), fs)"
  by (simp add: on_net_def split_beta)

text \<open>The stages of a batch: reading, the ballots, the loop, writing.\<close>

lemma batch_stages:
  assumes "BatchTx_run ev co self (n, fs) = (r, n', fs')"
  shows "(n' = n \<and> fs' = fs \<and> \<not> is_ok r) \<or>
    (\<exists>data insts q t. fs (bx_file self) = Some data \<and> cm_from_json co data = Ok insts \<and>
       ask (\<lambda>cl. multi_auth_ballots cl (bx_community_wallet self)) n = (q, t) \<and>
       (n' = t \<and> fs' = fs \<and> \<not> is_ok r \<or>
        (\<exists>ballots p. q = Ok ballots \<and>
           batch_loop (batch_one ev co (bx_community_wallet self) (bx_check self) (pending_or_approved co ballots)) insts t = (p, n') \<and>
           (fs' = fs \<and> \<not> is_ok r \<or>
            (\<exists>insts' json. p = Ok insts' \<and> cm_to_json co insts' = Ok json \<and> r = Ok () \<and>
               fs' = fs((case bx_out self of Some out \<Rightarrow> out | None \<Rightarrow> bx_file self) \<mapsto> json))))))"
proof (cases "fs (bx_file self)")
  case None
  then show ?thesis using assms by (auto simp: BatchTx_run_def)
next
  case (Some data)
  show ?thesis
  proof (cases "cm_from_json co data")
    case (Ok insts)
    obtain q t where qt: "ask (\<lambda>cl. multi_auth_ballots cl (bx_community_wallet self)) n = (q, t)" by force
    show ?thesis
    proof (cases q)
      case ballots: (Ok ballots)
      let ?l = "batch_loop (batch_one ev co (bx_community_wallet self) (bx_check self) (pending_or_approved co ballots)) insts"
      obtain p u where pu: "?l t = (p, u)" by force
      have eq: "BatchTx_run ev co self (n, fs) =
          io_bind (on_net ?l) (\<lambda>insts. io_bind (io_of (cm_to_json co insts)) (\<lambda>json (n, fs).
            (Ok (), n, fs((case bx_out self of Some out \<Rightarrow> out | None \<Rightarrow> bx_file self) \<mapsto> json)))) (t, fs)"
        using Some Ok qt ballots by (simp add: BatchTx_run_def on_net_app)
      have l: "on_net ?l (t, fs) = (p, u, fs)" using pu by (simp add: on_net_app)
      show ?thesis
      proof (cases p)
        case list: (Ok insts')
        with eq l assms Some Ok qt ballots pu show ?thesis by (cases "cm_to_json co insts'") auto
      qed (use eq l assms Some Ok qt ballots pu in auto)
    qed (use assms Some Ok qt in \<open>auto simp: BatchTx_run_def on_net_app\<close>)
  qed (use assms Some in \<open>auto simp: BatchTx_run_def\<close>)
qed

text \<open>
  C17. A batch sends only what its file says: the transactions of a run are payments of instructions of the file, in
  their order, each at most once, from the wallet, with the scaled amount, the description and no advance; they carry
  consecutive sequence numbers of the sender, also where one of them failed. With \<open>--check\<close> nothing is sent.
\<close>

theorem batch_sends_file:
  assumes "local_signer (ev_sign ev)" and "BatchTx_run ev co self (n, fs) = (r, n', fs')"
    and "fs (bx_file self) = Some data" and "cm_from_json co data = Ok insts"
  shows "\<exists>txs. sent_between n n' txs \<and> (bx_check self \<longrightarrow> txs = []) \<and>
     subseq (payloads txs) (List.map_filter (payment_of ev co (bx_community_wallet self)) insts)"
proof -
  have none: ?thesis if "n' = n \<or> ask q n = (x, n')" for q :: "_ \<Rightarrow> (json, _) io" and x
  proof -
    have "sent_between n n' []" using that ask_sel[of q n] by (metis sent_between_none snd_conv)
    then show ?thesis by (intro exI[of _ "[]"]) simp
  qed
  have loop: ?thesis if "ask q n = (x, t)" and l: "batch_loop (batch_one ev co (bx_community_wallet self) (bx_check self) m) insts t = (p, n')"
    for q :: "_ \<Rightarrow> (json, _) io" and x t m p
  proof -
    have "sent_between n t []" using that(1) ask_sel[of q n] by (metis sent_between_none snd_conv)
    from batch_loop_run[OF assms(1) l] sent_between_trans[OF this] show ?thesis by auto
  qed
  from batch_stages[OF assms(2)] show ?thesis
    by (elim disjE exE conjE) (use none loop assms(3,4) in \<open>auto dest: loop\<close>)
qed

text \<open>A node for the examples: the recipient is slow, and after the first execution views no longer answer.\<close>

definition tired_node :: "chain client" where
  "tired_node = chain_node\<lparr>
     cl_view := (\<lambda>_ c. if ch_executed c = [] then (Ok [JBool True], c) else (Err ''timeout'', c)),
     cl_account_resource := (\<lambda>_ _. io_of (Ok (Some JNull)))\<rparr>"

definition ref_batch_net :: "chain net" where
  "ref_batch_net = (ref_net 4 4)\<lparr>nt_sender := (ref_sender 4)\<lparr>sd_client := tired_node\<rparr>\<rparr>"

definition ref_pay :: "u64 \<Rightarrow> ProposePay" where
  "ref_pay amount =
     \<lparr>py_recipient = ''0x'' @ lower_hex zero_address, py_parsed = None, py_amount = amount, py_description = ''work'',
      py_is_advance = False, py_is_slow = None, py_proposed = None, py_approved = None, py_voters = None,
      py_error = None, py_note = None\<rparr>"

definition ref_comm :: comm_ops where
  "ref_comm =
     \<lparr>cm_parse_address = (\<lambda>s. if s = ''0x'' @ lower_hex zero_address then Ok zero_address else Err ''address''),
      cm_canonical = lower_hex,
      cm_from_json = (\<lambda>s. Ok [ref_pay 1, ref_pay 2]), cm_to_json = (\<lambda>l. Ok ''done'')\<rparr>"

definition ref_batch :: BatchTx where
  "ref_batch = \<lparr>bx_community_wallet = core_code_address, bx_file = ''pay.json'', bx_out = None, bx_check = False\<rparr>"

definition ref_batch_files :: files where
  "ref_batch_files = [''pay.json'' \<mapsto> ''two payments'']"

text \<open>The first payment goes out, then the run ends with the error of the second view.\<close>

lemma ref_batch_view:
  "ask (\<lambda>cl. get_view ref_move_text cl f None (Some a)) n =
     (if ch_executed (nt_world n) = [] then (Ok (JArray [JBool True]), n) else (Err ''timeout'', n))"
  if "sd_client (nt_sender n) = tired_node"
  using that by (simp add: ask_def get_view_def view_ext_def parse_type_args_def tired_node_def ref_move_text_def)

lemma ref_batch_submit:
  assumes "sd_client (nt_sender n) = tired_node" and "la_seq (sd_account (nt_sender n)) = ch_next (nt_world n)"
  shows "\<exists>n'. sign_submit_wait ref_env p n = (Ok \<lparr>oc_hash = [1], oc_status = Success\<rparr>, n') \<and>
     sd_client (nt_sender n') = tired_node \<and> ch_executed (nt_world n') \<noteq> [] \<and> nt_sent n' \<noteq> []"
  using assms
  by (simp add: sign_submit_wait_def sign_payload_run[OF ref_signer.local_signer_axioms[folded ref_env_sel(1)]]
      submit_def ask_def next_tx_def Let_def counted_def io_bind_def io_match_def tired_node_def)

lemma ref_batch_first:
  "\<exists>i n'. batch_one ref_env ref_comm core_code_address False Map.empty (ref_pay 1) ref_batch_net = (Ok i, n') \<and>
     sd_client (nt_sender n') = tired_node \<and> ch_executed (nt_world n') \<noteq> [] \<and> nt_sent n' \<noteq> []"
proof -
  have c: "sd_client (nt_sender ref_batch_net) = tired_node" "ch_executed (nt_world ref_batch_net) = []"
    "la_seq (sd_account (nt_sender ref_batch_net)) = ch_next (nt_world ref_batch_net)"
    by (simp_all add: ref_batch_net_def ref_net_def ref_sender_def)
  have v: "slow_answer (JArray [JBool True])" by (simp add: slow_answer_def)
  have voters: "py_voters (mark_pending Map.empty a (ref_pay x)) = None" for a x
    by (simp add: mark_pending_def ref_pay_def)
  let ?p = "donor_voice_txs_propose_payment_tx ref_bcs core_code_address zero_address
       (cast_decimal_to_coin (f64_of_u64 (py_amount (ref_pay 1)))) (utf8 (py_description (ref_pay 1))) False"
  obtain n' where n': "sign_submit_wait ref_env ?p ref_batch_net = (Ok \<lparr>oc_hash = [1], oc_status = Success\<rparr>, n')"
    "sd_client (nt_sender n') = tired_node" "ch_executed (nt_world n') \<noteq> []" "nt_sent n' \<noteq> []"
    using ref_batch_submit[OF c(1,3), of ?p] by blast
  have "cm_parse_address ref_comm (py_recipient (ref_pay 1)) = Ok zero_address" by (simp add: ref_comm_def ref_pay_def)
  then show ?thesis using n' c ref_batch_view[OF c(1)] v voters
    by (simp add: batch_one_def Let_def propose_one_in_batch_def send_it_def)
qed

lemma ref_batch_second:
  assumes "sd_client (nt_sender n) = tired_node" and "ch_executed (nt_world n) \<noteq> []"
  shows "batch_one ref_env ref_comm core_code_address False Map.empty (ref_pay 2) n = (Err ''timeout'', n)"
proof -
  have "cm_parse_address ref_comm (py_recipient (ref_pay 2)) = Ok zero_address" by (simp add: ref_comm_def ref_pay_def)
  then show ?thesis using ref_batch_view[OF assms(1)] assms(2) by (simp add: batch_one_def Let_def)
qed

lemma ref_batch_run: "\<exists>n'. BatchTx_run ref_env ref_comm ref_batch (ref_batch_net, ref_batch_files) =
    (Err ''timeout'', n', ref_batch_files) \<and> nt_sent n' \<noteq> []"
proof -
  let ?f = "batch_one ref_env ref_comm core_code_address False Map.empty"
  obtain i t where t: "?f (ref_pay 1) ref_batch_net = (Ok i, t)" "sd_client (nt_sender t) = tired_node"
    "ch_executed (nt_world t) \<noteq> []" "nt_sent t \<noteq> []" using ref_batch_first by blast
  then have loop: "batch_loop ?f [ref_pay 1, ref_pay 2] ref_batch_net = (Err ''timeout'', t)"
    using ref_batch_second[OF t(2,3)] by simp
  have ballots: "ask (\<lambda>cl. multi_auth_ballots cl core_code_address) ref_batch_net = (Ok JNull, ref_batch_net)"
    by (simp add: ask_def multi_auth_ballots_def ref_batch_net_def tired_node_def)
  have none: "pending_or_approved ref_comm JNull = Map.empty"
    by (simp add: pending_or_approved_def ballot_list_def)
  have "BatchTx_run ref_env ref_comm ref_batch (ref_batch_net, ref_batch_files) = (Err ''timeout'', t, ref_batch_files)"
    using loop ballots none
    by (simp add: BatchTx_run_def ref_batch_def ref_batch_files_def on_net_app ref_comm_def[THEN arg_cong[where f = cm_from_json]]
        del: batch_loop.simps)
  with t(4) show ?thesis by blast
qed

theorem batch_sends_file_witness:
  "\<exists>n' txs. sent_between ref_batch_net n' txs \<and>
     subseq (payloads txs) (List.map_filter (payment_of ref_env ref_comm core_code_address) [ref_pay 1, ref_pay 2])"
proof -
  obtain r n' fs' where run: "BatchTx_run ref_env ref_comm ref_batch (ref_batch_net, ref_batch_files) = (r, n', fs')"
    by (metis prod_cases3)
  have "local_signer (ev_sign ref_env)" by (simp add: ref_signer.local_signer_axioms)
  from batch_sends_file[OF this run, of "''two payments''" "[ref_pay 1, ref_pay 2]"] show ?thesis
    by (auto simp: ref_batch_def ref_batch_files_def ref_comm_def[THEN arg_cong[where f = cm_from_json]])
qed

text \<open>
  The results of a batch can be lost. When a run ends in an error the file keeps its old content, whatever was
  already sent, so a second run does not know of the first; and the command reports every such error as success. A run
  that succeeds writes the updated list to the output file only.
\<close>

theorem batch_error_loses_results:
  assumes "BatchTx_run ev co self (n, fs) = (r, n', fs')"
  shows "(\<not> is_ok r \<longrightarrow> fs' = fs) \<and> (is_ok r \<longrightarrow> (\<exists>json. fs' = fs((case bx_out self of Some out \<Rightarrow> out | None \<Rightarrow> bx_file self) \<mapsto> json))) \<and>
     \<not> is_err (fst (CommunityTxs_run ev co (Batch self) (n, fs))) \<and>
     snd (CommunityTxs_run ev co (Batch self) (n, fs)) = (n', fs')"
proof -
  have "snd (CommunityTxs_run ev co (Batch self) (n, fs)) = (n', fs')"
    using assms by (simp add: CommunityTxs_run_def community_result_def snd_print_error)
  moreover have "\<not> is_err (fst (CommunityTxs_run ev co (Batch self) (n, fs)))"
    by (simp add: CommunityTxs_run_def print_error_no_err)
  moreover have "(\<not> is_ok r \<longrightarrow> fs' = fs) \<and>
      (is_ok r \<longrightarrow> (\<exists>json. fs' = fs((case bx_out self of Some out \<Rightarrow> out | None \<Rightarrow> bx_file self) \<mapsto> json)))"
    using batch_stages[OF assms] by (elim disjE exE conjE) auto
  ultimately show ?thesis by blast
qed

theorem batch_error_loses_results_witness:
  "\<exists>n'. CommunityTxs_run ref_env ref_comm (Batch ref_batch) (ref_batch_net, ref_batch_files) = (Ok (), n', ref_batch_files) \<and>
     nt_sent n' \<noteq> []"
proof -
  obtain n' where n': "BatchTx_run ref_env ref_comm ref_batch (ref_batch_net, ref_batch_files) = (Err ''timeout'', n', ref_batch_files)"
    "nt_sent n' \<noteq> []" using ref_batch_run by blast
  from batch_error_loses_results[OF n'(1)] have "snd (CommunityTxs_run ref_env ref_comm (Batch ref_batch)
      (ref_batch_net, ref_batch_files)) = (n', ref_batch_files)" by simp
  moreover have "fst (CommunityTxs_run ref_env ref_comm (Batch ref_batch) (ref_batch_net, ref_batch_files)) = Ok ()"
    using n'(1) by (simp add: CommunityTxs_run_def community_result_def print_error_def)
  ultimately show ?thesis using n'(2) by (metis prod.collapse)
qed

section \<open>Changing administrators\<close>

text \<open>
  The \<open>--drop\<close> flag of the administrator command is inverted: with \<open>--drop true\<close> the proposal \<^emph>\<open>adds\<close> the
  administrator, exactly as without the flag, and \<open>--drop false\<close> removes it.
\<close>

theorem admin_drop_inverted:
  "AdminTx_run ev (tx\<lparr>ad_drop := Some True\<rparr>) = AdminTx_run ev (tx\<lparr>ad_drop := None\<rparr>) \<and>
   AdminTx_run ev (tx\<lparr>ad_drop := Some drop_flag\<rparr>) =
     send_it ev (encode (ev_bcs ev) (CommunityWalletInitChangeSignerCommunityMultisig (ad_community_wallet tx) (ad_admin tx)
       drop_flag (ad_n tx) (case ad_epochs tx of Some e \<Rightarrow> e | None \<Rightarrow> 10)))"
  by (simp add: AdminTx_run_def)

end
