(* ===== verification/Txs_Stream.thy ===== *)
theory Txs_Stream
  imports Txs_Commands
begin

text \<open>
  The streaming service (\<^verbatim>\<open>src/tools/txs/src/txs_cli_stream.rs\<close> and \<^verbatim>\<open>stream/epoch_tickle_poll.rs\<close>): one thread asks the node
  whether the epoch can end and puts a transaction into a channel, another takes transactions out and submits them. The
  two threads are a step relation on their common state; a step is one request, so the poller may act while the
  listener waits for its transaction.
\<close>

section \<open>The two threads\<close>

datatype StreamTxs = EpochTickle "u64 option" | PofBid

text \<open>
  The listener has left its loop when \<open>Stopped\<close>, and either way of ending drops its side of the channel. A send on a
  channel without receiver fails and the \<open>unwrap\<close> of the poller panics.
\<close>

datatype listener = Idle | Awaiting string | Stopped | ListenerPanicked
datatype poller = Polling | PollerPanicked

record 'w stream =
  sm_queue :: "TxPayload list"
  sm_listener :: listener
  sm_poller :: poller
  sm_net :: "'w net"

definition receiver_dropped :: "'w stream \<Rightarrow> bool" where
  "receiver_dropped s \<longleftrightarrow> sm_listener s = Stopped \<or> sm_listener s = ListenerPanicked"

text \<open>\<open>start\<close>: the threads of the service, or none where the process exits.\<close>

definition StreamTxs_start :: "StreamTxs \<Rightarrow> 'w net \<Rightarrow> 'w stream option" where
  "StreamTxs_start self n =
     (case self of
        EpochTickle delay \<Rightarrow> Some \<lparr>sm_queue = [], sm_listener = Idle, sm_poller = Polling, sm_net = n\<rparr>
      | PofBid \<Rightarrow> None)"

definition can_trigger :: "'w env \<Rightarrow> (bool, 'w net) io" where
  "can_trigger ev = ask (epoch_over_can_trigger (ev_text ev))"

text \<open>One pass of the poller's loop: what it answers decides what becomes of queue and poller.\<close>

definition poll_pass :: "'w env \<Rightarrow> bool rres \<Rightarrow> 'w net \<Rightarrow> 'w stream \<Rightarrow> 'w stream" where
  "poll_pass ev res n s =
     (case res of
        Ok b \<Rightarrow>
          if b then
            (if receiver_dropped s then s\<lparr>sm_poller := PollerPanicked, sm_net := n\<rparr>
             else s\<lparr>sm_queue := sm_queue s @ [diem_governance_trigger_epoch (ev_bcs ev)], sm_net := n\<rparr>)
          else s\<lparr>sm_net := n\<rparr>
      | Err e \<Rightarrow> s\<lparr>sm_net := n\<rparr>
      | Panic p \<Rightarrow> s\<lparr>sm_poller := PollerPanicked, sm_net := n\<rparr>)"

text \<open>The listener signs and submits the next payload, and later waits for it.\<close>

definition take_payload :: "'w env \<Rightarrow> TxPayload \<Rightarrow> (string, 'w net) io" where
  "take_payload ev payload =
     io_bind (sign_payload ev payload) (\<lambda>signed_tx n.
       ask (\<lambda>cl. cl_submit cl signed_tx) (n\<lparr>nt_sent := nt_sent n @ [signed_tx]\<rparr>))"

definition await_tx :: "string \<Rightarrow> (OnChainTx, 'w net) io" where
  "await_tx pending = io_bind (ask (\<lambda>cl. cl_wait cl pending)) (\<lambda>r n.
     (Ok r, n\<lparr>nt_sender := (nt_sender n)\<lparr>sd_response := Some r\<rparr>\<rparr>))"

fun after_take :: "string rres \<Rightarrow> listener" where
  "after_take (Ok pending) = Awaiting pending"
| "after_take (Err e) = Stopped"
| "after_take (Panic p) = ListenerPanicked"

fun after_wait :: "OnChainTx rres \<Rightarrow> listener" where
  "after_wait (Ok r) = Idle"
| "after_wait (Err e) = Stopped"
| "after_wait (Panic p) = ListenerPanicked"

inductive stream_step :: "'w env \<Rightarrow> 'w stream \<Rightarrow> 'w stream \<Rightarrow> bool" for ev where
  Poll: "sm_poller s = Polling \<Longrightarrow> can_trigger ev (sm_net s) = (res, n) \<Longrightarrow> stream_step ev s (poll_pass ev res n s)"
| Take: "sm_listener s = Idle \<Longrightarrow> sm_queue s = payload # q \<Longrightarrow> take_payload ev payload (sm_net s) = (r, n) \<Longrightarrow>
    stream_step ev s (s\<lparr>sm_queue := q, sm_listener := after_take r, sm_net := n\<rparr>)"
| Wait: "sm_listener s = Awaiting pending \<Longrightarrow> await_tx pending (sm_net s) = (r, n) \<Longrightarrow>
    stream_step ev s (s\<lparr>sm_listener := after_wait r, sm_net := n\<rparr>)"
| Closed: "sm_listener s = Idle \<Longrightarrow> sm_queue s = [] \<Longrightarrow> sm_poller s = PollerPanicked \<Longrightarrow>
    stream_step ev s (s\<lparr>sm_listener := Stopped\<rparr>)"

inductive_cases stream_stepE: "stream_step ev s t"

abbreviation stream_run :: "'w env \<Rightarrow> 'w stream \<Rightarrow> 'w stream \<Rightarrow> bool" where
  "stream_run ev \<equiv> (stream_step ev)\<^sup>*\<^sup>*"

text \<open>
  A panic ends the thread it happens in where panics unwind, as in the development profile. The release profile of the workspace
  aborts the process on a panic: there the steps are those of states in which no thread has panicked, and every run of
  the service is a run of \<open>stream_step\<close>.
\<close>

definition panicked :: "'w stream \<Rightarrow> bool" where
  "panicked s \<longleftrightarrow> sm_poller s = PollerPanicked \<or> sm_listener s = ListenerPanicked"

definition release_step :: "'w env \<Rightarrow> 'w stream \<Rightarrow> 'w stream \<Rightarrow> bool" where
  "release_step ev s t \<longleftrightarrow> \<not> panicked s \<and> stream_step ev s t"

abbreviation release_run :: "'w env \<Rightarrow> 'w stream \<Rightarrow> 'w stream \<Rightarrow> bool" where
  "release_run ev \<equiv> (release_step ev)\<^sup>*\<^sup>*"

lemma release_run_stream: "release_run ev s t \<Longrightarrow> stream_run ev s t"
  by (induction rule: rtranclp_induct) (auto simp: release_step_def intro: rtranclp.rtrancl_into_rtrancl)

text \<open>Taking and waiting without a break is \<open>sync_sign_submit_wait\<close>.\<close>

lemma take_then_wait: "io_bind (take_payload ev payload) await_tx = sign_submit_wait ev payload"
  unfolding take_payload_def await_tx_def sign_submit_wait_def submit_def
  by (simp add: io_bind_assoc) (simp add: io_bind_def io_match_def fun_eq_iff split: prod.split rres.split)

section \<open>Invariants\<close>

text \<open>Only triggers of the epoch are queued and sent, with consecutive sequence numbers.\<close>

definition stream_inv :: "'w env \<Rightarrow> 'w net \<Rightarrow> 'w stream \<Rightarrow> bool" where
  "stream_inv ev n0 s \<longleftrightarrow>
     (\<forall>p \<in> set (sm_queue s). p = diem_governance_trigger_epoch (ev_bcs ev)) \<and>
     (\<exists>txs. sent_between n0 (sm_net s) txs \<and> (\<forall>p \<in> set (payloads txs). p = diem_governance_trigger_epoch (ev_bcs ev)))"

lemma can_trigger_keeps:
  assumes "can_trigger ev n = (r, n')"
  shows "nt_sender n' = nt_sender n" "nt_sent n' = nt_sent n"
  using assms by (metis ask_sel can_trigger_def snd_conv)+

lemma take_run:
  assumes "local_signer (ev_sign ev)" and "take_payload ev payload n = (r, n')"
  shows "nt_sent n' = nt_sent n @ [next_tx ev payload n]" "nt_sender n' = counted (nt_sender n)"
proof -
  let ?n = "n\<lparr>nt_sender := counted (nt_sender n), nt_sent := nt_sent n @ [next_tx ev payload n]\<rparr>"
  have "take_payload ev payload n = ask (\<lambda>cl. cl_submit cl (next_tx ev payload n)) ?n"
    using sign_payload_run[OF assms(1)] by (simp add: take_payload_def)
  with assms(2) ask_sel[of "\<lambda>cl. cl_submit cl (next_tx ev payload n)" ?n]
  show "nt_sent n' = nt_sent n @ [next_tx ev payload n]" "nt_sender n' = counted (nt_sender n)" by simp_all
qed

lemma await_run:
  assumes "await_tx pending n = (r, n')"
  shows "nt_sent n' = nt_sent n" "sd_account (nt_sender n') = sd_account (nt_sender n)"
proof -
  obtain q t where qt: "ask (\<lambda>cl. cl_wait cl pending) n = (q, t)" by force
  with ask_sel[of "\<lambda>cl. cl_wait cl pending" n] have "nt_sender t = nt_sender n" "nt_sent t = nt_sent n" by simp_all
  with qt assms show "nt_sent n' = nt_sent n" "sd_account (nt_sender n') = sd_account (nt_sender n)"
    by (cases q; auto simp: await_tx_def)+
qed

lemma poll_pass_sel [simp]:
  "sm_listener (poll_pass ev res n s) = sm_listener s" "sm_net (poll_pass ev res n s) = n"
  by (simp_all add: poll_pass_def split: rres.splits)

lemma poll_pass_queue: "set (sm_queue (poll_pass ev res n s)) \<subseteq> insert (diem_governance_trigger_epoch (ev_bcs ev)) (set (sm_queue s))"
  by (auto simp: poll_pass_def split: rres.splits if_splits)

lemma sent_between_one:
  assumes "nt_sent n' = nt_sent n @ [next_tx ev payload n]" and "nt_sender n' = counted (nt_sender n)"
  shows "sent_between n n' [next_tx ev payload n]"
  using assms by (simp add: sent_between_def my_account_def counted_def next_tx_def Let_def)

lemma stream_step_inv:
  assumes signer: "local_signer (ev_sign ev)" and step: "stream_step ev s t" and inv: "stream_inv ev n0 s"
  shows "stream_inv ev n0 t"
proof -
  let ?p = "diem_governance_trigger_epoch (ev_bcs ev)"
  from inv have q: "\<forall>p \<in> set (sm_queue s). p = ?p" by (simp add: stream_inv_def)
  from inv obtain txs where txs: "sent_between n0 (sm_net s) txs" "\<forall>p \<in> set (payloads txs). p = ?p"
    by (auto simp: stream_inv_def)
  from step show ?thesis
  proof cases
    case (Poll res n)
    then have "sent_between (sm_net s) n []" using can_trigger_keeps by (metis sent_between_none)
    from sent_between_trans[OF txs(1) this] have sb: "sent_between n0 (sm_net t) txs" using Poll(1) by simp
    have "set (sm_queue t) \<subseteq> insert ?p (set (sm_queue s))" using poll_pass_queue[of ev res n s] Poll(1) by simp
    with q have "\<forall>p \<in> set (sm_queue t). p = ?p" by (metis insertE subsetD)
    with sb txs(2) show ?thesis unfolding stream_inv_def by (intro conjI exI[of _ txs])
  next
    case (Take payload qs r n)
    with q have "payload = ?p" by simp
    let ?tx = "next_tx ev payload (sm_net s)"
    from take_run[OF signer Take(4)] have "sent_between (sm_net s) n [?tx]" by (rule sent_between_one)
    from sent_between_trans[OF txs(1) this] have sb: "sent_between n0 (sm_net t) (txs @ [?tx])" using Take(1) by simp
    have "tb_payload (sg_body ?tx) = ?p" using \<open>payload = ?p\<close> by (simp add: next_tx_def Let_def)
    with txs(2) have "\<forall>p \<in> set (payloads (txs @ [?tx])). p = ?p" by simp
    moreover have "\<forall>p \<in> set (sm_queue t). p = ?p" using q Take(1,3) by simp
    ultimately show ?thesis using sb unfolding stream_inv_def by (intro conjI exI[of _ "txs @ [?tx]"])
  next
    case (Wait pending r n)
    from await_run[OF Wait(3)] have "sent_between (sm_net s) n []" by (simp add: sent_between_def my_account_def)
    from sent_between_trans[OF txs(1) this] have "sent_between n0 (sm_net t) txs" using Wait(1) by simp
    with txs(2) q Wait(1) show ?thesis unfolding stream_inv_def by (intro conjI exI[of _ txs]) simp_all
  next
    case Closed
    with txs q show ?thesis unfolding stream_inv_def by (intro conjI exI[of _ txs]) simp_all
  qed
qed

text \<open>
  C18. In every state the service can reach, whatever the node answers, however the two threads interleave and whether a panic ends its
  thread or the process, all queued and all sent transactions are triggers of the epoch, from the sender's address, and they carry consecutive
  sequence numbers.
\<close>

theorem stream_sends_triggers:
  assumes "local_signer (ev_sign ev)" and "StreamTxs_start self n = Some s" and "stream_run ev s t \<or> release_run ev s t"
  shows "(\<forall>p \<in> set (sm_queue t). p = diem_governance_trigger_epoch (ev_bcs ev)) \<and>
     (\<exists>txs. sent_between n (sm_net t) txs \<and> (\<forall>p \<in> set (payloads txs). p = diem_governance_trigger_epoch (ev_bcs ev)))"
proof -
  have start: "stream_inv ev n s"
    using assms(2) sent_between_none[of n n] by (cases self) (auto simp: StreamTxs_start_def stream_inv_def)
  have "stream_run ev s t" using assms(3) release_run_stream by blast
  then have "stream_inv ev n t"
    by (induction rule: rtranclp_induct) (auto intro: start stream_step_inv[OF assms(1)])
  then show ?thesis by (simp add: stream_inv_def)
qed

definition ref_start :: "chain stream" where
  "ref_start = \<lparr>sm_queue = [], sm_listener = Idle, sm_poller = Polling, sm_net = ref_net 4 4\<rparr>"

text \<open>A node on which the epoch can end and that accepts transactions: the poller queues a trigger and the listener sends it.\<close>

definition ref_live :: "chain stream" where
  "ref_live = ref_start\<lparr>sm_net := (ref_net 4 4)\<lparr>nt_sender := (ref_sender 4)\<lparr>sd_client :=
     chain_node\<lparr>cl_view := (\<lambda>_. io_of (Ok [JBool True])), cl_submit := (\<lambda>_. io_of (Ok ''h''))\<rparr>\<rparr>\<rparr>\<rparr>"

lemma ref_live_polls: "can_trigger ref_env (sm_net ref_live) = (Ok True, sm_net ref_live)"
  by (simp add: can_trigger_def ask_def epoch_over_can_trigger_def get_view_def view_ext_def parse_type_args_def
      ref_live_def ref_start_def ref_move_text_def index_def)

theorem stream_sends_triggers_witness:
  "\<exists>t txs. stream_run ref_env ref_live t \<and> sm_listener t = Awaiting ''h'' \<and>
     sent_between (sm_net ref_live) (sm_net t) txs \<and> payloads txs = [diem_governance_trigger_epoch ref_bcs]"
proof -
  let ?p = "diem_governance_trigger_epoch (ev_bcs ref_env)"
  let ?s = "ref_live\<lparr>sm_queue := [?p]\<rparr>"
  have signer: "local_signer (ev_sign ref_env)" by (simp add: ref_signer.local_signer_axioms)
  have live: "sm_poller ref_live = Polling" "sm_listener ref_live = Idle" "sm_queue ref_live = []" "nt_sent (sm_net ref_live) = []"
    "cl_submit (sd_client (nt_sender (sm_net ref_live))) = (\<lambda>_. io_of (Ok ''h''))"
    by (simp_all add: ref_live_def ref_start_def ref_net_def)
  have "poll_pass ref_env (Ok True) (sm_net ref_live) ref_live = ?s"
    by (simp add: poll_pass_def receiver_dropped_def live)
  with stream_step.Poll[OF live(1) ref_live_polls] have poll: "stream_step ref_env ref_live ?s" by simp
  obtain n where n: "take_payload ref_env ?p (sm_net ?s) = (Ok ''h'', n)"
    using sign_payload_run[OF signer, of ?p "sm_net ref_live"]
    by (simp add: take_payload_def ask_def counted_def live)
  let ?t = "?s\<lparr>sm_queue := [], sm_listener := Awaiting ''h'', sm_net := n\<rparr>"
  have "sm_listener ?s = Idle" "sm_queue ?s = ?p # []" by (simp_all add: live)
  from stream_step.Take[OF this n] have "stream_step ref_env ?s ?t" by simp
  with poll have run: "stream_run ref_env ref_live ?t"
    by (meson converse_rtranclp_into_rtranclp rtranclp.rtrancl_refl)
  have start: "StreamTxs_start (EpochTickle None) (sm_net ref_live) = Some ref_live"
    by (simp add: StreamTxs_start_def ref_live_def ref_start_def)
  from stream_sends_triggers[OF signer start disjI1[OF run]] obtain txs where
    txs: "sent_between (sm_net ref_live) n txs" "\<forall>p \<in> set (payloads txs). p = ?p" by auto
  from take_run(1)[OF signer n] have "nt_sent n = [next_tx ref_env ?p (sm_net ref_live)]" by (simp add: live)
  moreover have "nt_sent n = txs" using txs(1) live(4) by (simp add: sent_between_def)
  ultimately have "length txs = 1" by (metis length_Cons list.size(3) One_nat_def)
  with txs(2) have "payloads txs = [?p]" by (cases txs) auto
  with run txs(1) show ?thesis by (intro exI[of _ ?t] exI[of _ txs]) simp
qed

section \<open>The end of the service\<close>

lemma stopped_step:
  assumes "stream_step ev s t" and "receiver_dropped s"
  shows "receiver_dropped t \<and> nt_sent (sm_net t) = nt_sent (sm_net s) \<and> sm_queue t = sm_queue s"
  using assms(1)
proof cases
  case (Poll res n)
  with can_trigger_keeps(2)[OF Poll(3)] assms(2) show ?thesis
    by (auto simp: receiver_dropped_def poll_pass_def split: rres.splits)
qed (use assms(2) in \<open>auto simp: receiver_dropped_def\<close>)

text \<open>
  The first transaction that fails ends the service: once the listener has left its loop no transaction is sent any
  more, in whatever follows, and the next time the node says that the epoch can end the poller panics.
\<close>

theorem failed_tx_ends_stream:
  assumes "receiver_dropped s" and "stream_run ev s t"
  shows "receiver_dropped t \<and> nt_sent (sm_net t) = nt_sent (sm_net s) \<and>
     (\<forall>n. sm_poller t = Polling \<and> can_trigger ev (sm_net t) = (Ok True, n) \<longrightarrow>
        stream_step ev t (t\<lparr>sm_poller := PollerPanicked, sm_net := n\<rparr>))"
proof -
  from assms(2) have k: "receiver_dropped t \<and> nt_sent (sm_net t) = nt_sent (sm_net s)"
    by (induction rule: rtranclp_induct) (use assms(1) in \<open>auto dest: stopped_step\<close>)
  moreover have "stream_step ev t (t\<lparr>sm_poller := PollerPanicked, sm_net := n\<rparr>)"
    if "sm_poller t = Polling" "can_trigger ev (sm_net t) = (Ok True, n)" for n
    using stream_step.Poll[OF that] k by (simp add: poll_pass_def)
  ultimately show ?thesis by blast
qed

definition ref_stopped :: "chain stream" where
  "ref_stopped = ref_start\<lparr>sm_listener := Stopped, sm_net := (ref_net 4 4)\<lparr>nt_sender := (ref_sender 4)\<lparr>sd_client :=
     chain_node\<lparr>cl_view := (\<lambda>_. io_of (Ok [JBool True]))\<rparr>\<rparr>\<rparr>\<rparr>"

theorem failed_tx_ends_stream_witness:
  "stream_step ref_env ref_stopped (ref_stopped\<lparr>sm_poller := PollerPanicked, sm_net := sm_net ref_stopped\<rparr>)"
proof -
  have "receiver_dropped ref_stopped" "sm_poller ref_stopped = Polling"
    by (simp_all add: receiver_dropped_def ref_stopped_def ref_start_def)
  moreover have "can_trigger ref_env (sm_net ref_stopped) = (Ok True, sm_net ref_stopped)"
    by (simp add: can_trigger_def ask_def epoch_over_can_trigger_def get_view_def view_ext_def parse_type_args_def
        ref_stopped_def ref_move_text_def index_def)
  ultimately show ?thesis using failed_tx_ends_stream[of ref_stopped ref_env ref_stopped] by blast
qed

section \<open>Progress\<close>

definition accepting :: "'w client \<Rightarrow> bool" where
  "accepting cl \<longleftrightarrow> (\<forall>tx w. \<exists>h w'. cl_submit cl tx w = (Ok h, w')) \<and> (\<forall>h w. \<exists>r w'. cl_wait cl h w = (Ok r, w'))"

lemma take_accepted:
  assumes "local_signer (ev_sign ev)" and "accepting (sd_client (nt_sender n))"
  obtains h n' where "take_payload ev payload n = (Ok h, n')"
proof -
  let ?tx = "next_tx ev payload n"
  obtain h w where "cl_submit (sd_client (nt_sender n)) ?tx (nt_world n) = (Ok h, w)"
    using assms(2) unfolding accepting_def by blast
  then have "fst (take_payload ev payload n) = Ok h"
    using sign_payload_run[OF assms(1)] by (simp add: take_payload_def ask_def counted_def)
  then show ?thesis using that by (metis prod.collapse)
qed

lemma await_accepted:
  assumes "accepting (sd_client (nt_sender n))"
  obtains r n' where "await_tx pending n = (Ok r, n')" "sd_client (nt_sender n') = sd_client (nt_sender n)"
proof -
  obtain r w where "cl_wait (sd_client (nt_sender n)) pending (nt_world n) = (Ok r, w)"
    using assms unfolding accepting_def by blast
  then show ?thesis using that by (simp add: await_tx_def ask_def)
qed

lemma drain:
  assumes "local_signer (ev_sign ev)"
  shows "sm_queue s = q \<Longrightarrow> sm_listener s = Idle \<Longrightarrow> accepting (sd_client (nt_sender (sm_net s))) \<Longrightarrow>
    \<exists>t txs. stream_run ev s t \<and> (\<not> panicked s \<longrightarrow> release_run ev s t) \<and> sm_listener t = Idle \<and> sm_queue t = [] \<and>
      sent_between (sm_net s) (sm_net t) txs \<and> payloads txs = q"
proof (induction q arbitrary: s)
  case Nil
  then show ?case using sent_between_none[of "sm_net s" "sm_net s"] by (intro exI[of _ s] exI[of _ "[]"]) simp
next
  case (Cons payload q)
  obtain h n where n: "take_payload ev payload (sm_net s) = (Ok h, n)" using take_accepted[OF assms Cons.prems(3)] .
  note run = take_run[OF assms n]
  have "sd_client (nt_sender n) = sd_client (nt_sender (sm_net s))" by (simp add: run(2) counted_def)
  with Cons.prems(3) have acc: "accepting (sd_client (nt_sender n))" by simp
  obtain r n' where n': "await_tx h n = (Ok r, n')" "sd_client (nt_sender n') = sd_client (nt_sender n)"
    using await_accepted[OF acc] .
  let ?s1 = "s\<lparr>sm_queue := q, sm_listener := Awaiting h, sm_net := n\<rparr>"
  let ?s2 = "?s1\<lparr>sm_listener := Idle, sm_net := n'\<rparr>"
  have step1: "stream_step ev s ?s1" using stream_step.Take[OF Cons.prems(2,1) n] by simp
  have step2: "stream_step ev ?s1 ?s2" using stream_step.Wait[of ?s1 h "Ok r" n' ev] n' by simp
  have s2: "stream_run ev s ?s2" using step1 step2 by (meson converse_rtranclp_into_rtranclp rtranclp.rtrancl_refl)
  have ok: "panicked ?s1 \<longleftrightarrow> panicked s" "panicked ?s2 \<longleftrightarrow> panicked s" using Cons.prems(2) by (simp_all add: panicked_def)
  have r2: "release_run ev s ?s2" if "\<not> panicked s"
    using step1 step2 that ok(1) by (meson converse_rtranclp_into_rtranclp release_step_def rtranclp.rtrancl_refl)
  let ?tx = "next_tx ev payload (sm_net s)"
  have "sent_between n n' []" using await_run[OF n'(1)] by (simp add: sent_between_def my_account_def)
  from sent_between_trans[OF sent_between_one[OF run] this] have one: "sent_between (sm_net s) (sm_net ?s2) [?tx]" by simp
  have "accepting (sd_client (nt_sender (sm_net ?s2)))" using n'(2) acc by simp
  from Cons.IH[OF _ _ this] obtain t txs where rel: "\<not> panicked ?s2 \<longrightarrow> release_run ev ?s2 t"
    and t: "stream_run ev ?s2 t" "sm_listener t = Idle" "sm_queue t = []"
    "sent_between (sm_net ?s2) (sm_net t) txs" "payloads txs = q" by auto
  have rel: "\<not> panicked s \<longrightarrow> release_run ev s t" using rel r2 ok(2) by (blast intro: rtranclp_trans)
  from s2 t(1) have "stream_run ev s t" by (rule rtranclp_trans)
  moreover have "payloads (?tx # txs) = payload # q" using t(5) by (simp add: next_tx_def Let_def)
  ultimately show ?case using rel t(2,3) sent_between_trans[OF one t(4)] by (intro exI[of _ t] exI[of _ "?tx # txs"]) simp
qed

text \<open>
  C19. A node that accepts transactions works off the queue: from every reachable state with an idle listener the listener
  alone reaches a state in which the queue is empty, the listener is idle again, and exactly the queued transactions have
  been sent, in their order. Where a panic aborts the process, this holds of every state in which no thread has panicked.
\<close>

theorem stream_progress:
  assumes "local_signer (ev_sign ev)" and "sm_listener s = Idle" and "accepting (sd_client (nt_sender (sm_net s)))"
  shows "(\<exists>t txs. stream_run ev s t \<and> (\<not> panicked s \<longrightarrow> release_run ev s t) \<and> sm_listener t = Idle \<and> sm_queue t = [] \<and>
      sent_between (sm_net s) (sm_net t) txs \<and> payloads txs = sm_queue s)"
  using drain[OF assms(1) refl assms(2,3)] .

definition ref_stream :: "chain stream" where
  "ref_stream =
     \<lparr>sm_queue = [diem_governance_trigger_epoch ref_bcs], sm_listener = Idle, sm_poller = Polling,
      sm_net = (ref_net 4 4)\<lparr>nt_sender := (ref_sender 4)\<lparr>sd_client :=
        chain_node\<lparr>cl_submit := (\<lambda>_. io_of (Ok ''h''))\<rparr>\<rparr>\<rparr>\<rparr>"

theorem stream_progress_witness:
  "\<exists>t txs. stream_run ref_env ref_stream t \<and> sm_queue t = [] \<and> payloads txs = [diem_governance_trigger_epoch ref_bcs] \<and>
     nt_sent (sm_net t) = txs"
proof -
  have "local_signer (ev_sign ref_env)" by (simp add: ref_signer.local_signer_axioms)
  moreover have "sm_listener ref_stream = Idle" by (simp add: ref_stream_def)
  moreover have "accepting (sd_client (nt_sender (sm_net ref_stream)))"
    by (simp add: accepting_def ref_stream_def)
  ultimately obtain t txs where "stream_run ref_env ref_stream t" "sm_queue t = []"
    "sent_between (sm_net ref_stream) (sm_net t) txs" "payloads txs = sm_queue ref_stream"
    using stream_progress[of ref_env ref_stream] by blast
  then show ?thesis by (intro exI[of _ t] exI[of _ txs]) (simp add: sent_between_def ref_stream_def ref_net_def)
qed

end
