(* ===== verification/Txs_Cli.thy ===== *)
theory Txs_Cli
  imports Txs_Community Txs_Stream
begin

text \<open>
  The transaction command (\<^verbatim>\<open>src/tools/txs/src/txs_cli.rs\<close> and \<^verbatim>\<open>publish.rs\<close>): choosing the key, the chain, the node and the
  cost of a transaction from options and configuration, building the sender, and running the subcommand.
\<close>

section \<open>Options\<close>

datatype TxsSub =
    User UserTxs
  | Validator ValidatorTxs
  | Governance GovernanceTxs
  | Community CommunityTxs
  | Transfer account_address f64
  | Stream StreamTxs
  | Publish string
  | GenerateTransaction string "string option" "string option"

record TxsCli =
  tc_subcommand :: "TxsSub option"
  tc_config_path :: "fpath option"
  tc_mnemonic :: "string option"
  tc_test_private_key :: "string option"
  tc_tx_profile :: "TxType option"
  tc_tx_cost :: "TxCost option"
  tc_chain_name :: "NamedChain option"
  tc_url :: "url option"
  tc_estimate_only :: bool
  tc_legacy_address :: bool

text \<open>
  The rest of the vendor code: the text form of keys and the signatures, the wallet's cryptography, the answers of the
  user, the numbers of named chains, hosts and files, and the compiler of Move packages.
\<close>

record 'a cli_ops =
  co_rotation :: rotation_ops
  co_crypto :: crypto
  co_conv :: address_conv
  co_prompt_key :: "bytes rres"
  co_confirm_first :: "bool rres"
  co_confirm_second :: "bool rres"
  co_chain_number :: "NamedChain \<Rightarrow> u8"
  co_hosts :: "'a host_ops"
  co_gov_files :: gov_files
  co_comm :: comm_ops
  co_load_cfg :: "fpath option \<Rightarrow> AppCfg rres"
  co_build_package :: "string \<Rightarrow> (bytes \<times> bytes list) rres"
  co_payload_size :: "TxPayload \<Rightarrow> nat rres"
  co_max_package_size :: nat

definition encode_publish_payload :: "bcs \<Rightarrow> 'a cli_ops \<Rightarrow> string \<Rightarrow> TxPayload rres" where
  "encode_publish_payload b co package_path =
     rbind (co_build_package co package_path) (\<lambda>(metadata, compiled_units).
     let payload = code_publish_package_txn b metadata compiled_units in
     rbind (co_payload_size co payload) (\<lambda>size.
     if co_max_package_size co < size then Err ''The package is larger than the allowed number of bytes!''
     else Ok payload))"

section \<open>From options to a sender\<close>

definition choose_key :: "'a cli_ops \<Rightarrow> TxsCli \<Rightarrow> Profile \<Rightarrow> bytes rres" where
  "choose_key co self profile =
     (case tc_test_private_key self of
        Some pk \<Rightarrow> rx_key_from_string (co_rotation co) pk
      | None \<Rightarrow>
          (case tc_mnemonic self of
             Some m \<Rightarrow>
               rbind (get_keys_from_mnem (co_crypto co) (co_conv co) m) (\<lambda>legacy. Ok (ak_pri_key (kc_child_0_owner legacy)))
           | None \<Rightarrow>
               (case borrow_private_key profile of
                  Ok p \<Rightarrow> Ok p
                | _ \<Rightarrow> co_prompt_key co)))"

text \<open>Giving both options prints an error; the explicit cost is then used.\<close>

definition choose_cost :: "gas_constants \<Rightarrow> TxsCli \<Rightarrow> AppCfg \<Rightarrow> TxCost" where
  "choose_cost g self app_cfg =
     (case tc_tx_cost self of
        Some c \<Rightarrow> c
      | None \<Rightarrow> get_cost g (tx_configs app_cfg) (tc_tx_profile self))"

definition cli_sender :: "'w env \<Rightarrow> 'a cli_ops \<Rightarrow> TxsCli \<Rightarrow> ('w Sender, 'w) io" where
  "cli_sender ev co self =
     io_bind (io_of (co_load_cfg co (tc_config_path self))) (\<lambda>app_cfg.
     io_bind (io_of (get_profile (mt_address_str (ev_text ev)) app_cfg None)) (\<lambda>profile.
     io_bind (io_of (choose_key co self profile)) (\<lambda>pri_key.
     let chain = (case tc_chain_name self of Some c \<Rightarrow> c | None \<Rightarrow> default_chain_id (workspace app_cfg)) in
     io_bind (io_of (case tc_url self of Some u \<Rightarrow> Ok u | None \<Rightarrow> pick_url app_cfg (Some chain))) (\<lambda>url.
     io_bind (Sender_new ev (co_load_cfg co) pri_key (co_chain_number co chain) (Some (ev_connect ev url))
                (tc_legacy_address self)) (\<lambda>send.
     io_of (Ok (set_tx_cost (choose_cost (ev_gas ev) self app_cfg) send)))))))"

section \<open>Running a subcommand\<close>

text \<open>A command ends with a result, or it becomes the streaming service, or the process exits.\<close>

datatype 'w outcome = Finished "unit rres" "'w desk" | Streaming "'w stream" | ExitsWith int

definition drop_result :: "('a, 's) io \<Rightarrow> (unit, 's) io" where
  "drop_result m = io_bind m (\<lambda>_. io_of (Ok ()))"

definition run_desk :: "(unit, 'w desk) io \<Rightarrow> 'w desk \<Rightarrow> 'w outcome" where
  "run_desk m s = (case m s of (r, s') \<Rightarrow> Finished r s')"

definition dispatch :: "'w env \<Rightarrow> 'a cli_ops \<Rightarrow> TxsCli \<Rightarrow> 'w desk \<Rightarrow> 'w outcome" where
  "dispatch ev co self s =
     (case tc_subcommand self of
        Some (Transfer to_account amount) \<Rightarrow>
          run_desk (on_net (drop_result (transfer ev to_account amount (tc_estimate_only self)))) s
      | Some (Publish move_opts) \<Rightarrow>
          run_desk (on_net (io_bind (io_of (encode_publish_payload (ev_bcs ev) co move_opts)) (send_it ev))) s
      | Some (GenerateTransaction function_id ty_args args) \<Rightarrow> run_desk (on_net (generic ev function_id ty_args args)) s
      | Some (Validator val_txs) \<Rightarrow> run_desk (on_net (ValidatorTxs_run ev (co_hosts co) (snd s) val_txs)) s
      | Some (Governance upgrade_txs) \<Rightarrow> run_desk (on_net (GovernanceTxs_run ev (co_gov_files co) upgrade_txs)) s
      | Some (User user_txs) \<Rightarrow>
          run_desk (on_net (UserTxs_run ev (co_rotation co) (co_confirm_first co) (co_prompt_key co)
            (co_confirm_second co) user_txs)) s
      | Some (Community comm_txs) \<Rightarrow> run_desk (CommunityTxs_run ev (co_comm co) comm_txs) s
      | Some (Stream stream_txs) \<Rightarrow>
          (case StreamTxs_start stream_txs (fst s) of
             Some threads \<Rightarrow> Streaming threads
           | None \<Rightarrow> ExitsWith 1)
      | None \<Rightarrow> Finished (Ok ()) s)"

text \<open>The state before a sender exists has no log; a failure to build the sender ends the command.\<close>

definition TxsCli_run :: "'w env \<Rightarrow> 'a cli_ops \<Rightarrow> TxsCli \<Rightarrow> 'w \<Rightarrow> files \<Rightarrow> 'w outcome + string rres" where
  "TxsCli_run ev co self w fs =
     (case cli_sender ev co self w of
        (Ok send, w') \<Rightarrow> Inl (dispatch ev co self (\<lparr>nt_sender = send, nt_world = w', nt_sent = []\<rparr>, fs))
      | (Err e, w') \<Rightarrow> Inr (Err e)
      | (Panic p, w') \<Rightarrow> Inr (Panic p))"

section \<open>What the options do\<close>

lemma choose_estimate [simp]:
  "choose_key co (self\<lparr>tc_estimate_only := b\<rparr>) = choose_key co self"
  "choose_cost g (self\<lparr>tc_estimate_only := b\<rparr>) = choose_cost g self"
  by (simp_all add: choose_key_def choose_cost_def fun_eq_iff split: option.split)

lemma cli_sender_estimate [simp]: "cli_sender ev co (self\<lparr>tc_estimate_only := b\<rparr>) = cli_sender ev co self"
  by (simp add: cli_sender_def)

fun is_transfer :: "TxsSub option \<Rightarrow> bool" where
  "is_transfer (Some (Transfer to_account amount)) = True"
| "is_transfer _ = False"

lemma dispatch_estimate:
  "\<not> is_transfer (tc_subcommand self) \<Longrightarrow> dispatch ev co (self\<lparr>tc_estimate_only := b\<rparr>) s = dispatch ev co self s"
  by (cases "tc_subcommand self"; cases "the (tc_subcommand self)") (simp_all add: dispatch_def)

text \<open>
  The option \<open>--estimate-only\<close> is honoured by transfers alone: a transfer with it sends nothing, while for every other
  subcommand a run with the option is the same as a run without it, so its transaction is submitted.
\<close>

theorem estimate_only_for_transfers:
  assumes "local_signer (ev_sign ev)"
  shows "(\<not> is_transfer (tc_subcommand self) \<longrightarrow>
      TxsCli_run ev co (self\<lparr>tc_estimate_only := True\<rparr>) w fs = TxsCli_run ev co (self\<lparr>tc_estimate_only := False\<rparr>) w fs) \<and>
    (\<forall>dest amount s. \<exists>r n. nt_sent n = nt_sent (fst s) \<and>
      dispatch ev co (self\<lparr>tc_subcommand := Some (Transfer dest amount), tc_estimate_only := True\<rparr>) s = Finished r (n, snd s))"
proof (intro conjI impI allI)
  assume "\<not> is_transfer (tc_subcommand self)"
  then show "TxsCli_run ev co (self\<lparr>tc_estimate_only := True\<rparr>) w fs = TxsCli_run ev co (self\<lparr>tc_estimate_only := False\<rparr>) w fs"
    by (simp add: TxsCli_run_def dispatch_estimate split: prod.split rres.split)
next
  fix dest :: account_address and amount :: f64 and s :: "'a desk"
  obtain n f where s: "s = (n, f)" by (cases s)
  obtain q t where qt: "transfer ev dest amount True n = (q, t)" by force
  with transfer_estimate_run(1)[OF assms, of dest amount n] have sent: "nt_sent t = nt_sent n" by simp
  show "\<exists>r n. nt_sent n = nt_sent (fst s) \<and>
      dispatch ev co (self\<lparr>tc_subcommand := Some (Transfer dest amount), tc_estimate_only := True\<rparr>) s = Finished r (n, snd s)"
    using s qt sent by (cases q) (auto simp: dispatch_def run_desk_def on_net_app drop_result_def)
qed

definition ref_cli_ops :: "string cli_ops" where
  "ref_cli_ops =
     \<lparr>co_rotation = ref_rotation, co_crypto = ref_crypto, co_conv = ref_conv, co_prompt_key = Ok [], co_confirm_first = Ok True,
      co_confirm_second = Ok True, co_chain_number = (\<lambda>_. 1), co_hosts = ref_hosts, co_gov_files = ref_gov,
      co_comm = ref_comm, co_load_cfg = (\<lambda>_. Err ''no file''), co_build_package = (\<lambda>_. Err ''no package''),
      co_payload_size = (\<lambda>_. Ok 0), co_max_package_size = 60000\<rparr>"

definition ref_cli :: TxsCli where
  "ref_cli =
     \<lparr>tc_subcommand = None, tc_config_path = None, tc_mnemonic = None, tc_test_private_key = None, tc_tx_profile = None,
      tc_tx_cost = None, tc_chain_name = None, tc_url = None, tc_estimate_only = False, tc_legacy_address = False\<rparr>"

theorem estimate_only_for_transfers_witness:
  "\<exists>r n. nt_sent n = [] \<and>
     dispatch ref_env ref_cli_ops (ref_cli\<lparr>tc_subcommand := Some (Transfer zero_address 2), tc_estimate_only := True\<rparr>)
       (ref_net 4 4, Map.empty) = Finished r (n, Map.empty)"
proof -
  have "local_signer (ev_sign ref_env)" by (simp add: ref_signer.local_signer_axioms)
  from estimate_only_for_transfers[OF this, THEN conjunct2, rule_format, where co = ref_cli_ops and self = ref_cli and s = "(ref_net 4 4, Map.empty)" and dest = zero_address and amount = 2]
  show ?thesis by (simp add: ref_net_def)
qed

end
