(* ===== verification/Cli_Config.thy ===== *)
theory Cli_Config
  imports App_Cfg BTree_Map "HOL-Library.Char_ord" "HOL-Library.List_Lexorder"
begin

text \<open>
  The vendor's profile file as the libra tools keep it: where it is looked for, loading and saving
  (\<^verbatim>\<open>src/types/src/type_extensions/cli_config_ext.rs\<close>), and the dialogue that makes a profile
  (\<^verbatim>\<open>src/tools/config/src/make_profile.rs\<close>).

  Paths are lists of components and files a map, as in \<open>App_Cfg\<close>; \<open>is_dir\<close> tells directories. Parameters are the YAML codec, URL
  and key parsers, the address of a key, the lookup of an address on chain and the vendor's default configuration. Profiles are
  a \<open>BTreeMap\<close>. What the user types are the arguments \<open>network_line\<close>, \<open>rest_line\<close> and \<open>rotated_line\<close>, errors of reading included.
\<close>

definition GLOBAL_CONFIG_DIRECTORY_0L :: string where
  "GLOBAL_CONFIG_DIRECTORY_0L = ''.libra''"

definition CONFIG_FILE :: string where "CONFIG_FILE = ''config.yaml''"

definition LEGACY_CONFIG_FILE :: string where "LEGACY_CONFIG_FILE = ''config.yml''"

datatype ConfigSearchMode = CurrentDir | CurrentDirAndParents

text \<open>\<open>pop\<close> fails at the root; the two pops of the loop drop the directory just tried and the last component.\<close>

function search_up :: "(fpath \<Rightarrow> bool) \<Rightarrow> fpath \<Rightarrow> fpath \<Rightarrow> fpath" where
  "search_up is_dir starting_path current_path =
     (if is_dir (current_path @ [GLOBAL_CONFIG_DIRECTORY_0L]) then current_path @ [GLOBAL_CONFIG_DIRECTORY_0L]
      else if current_path = [] then starting_path @ [GLOBAL_CONFIG_DIRECTORY_0L]
      else search_up is_dir starting_path (butlast current_path))"
  by pat_completeness auto

termination search_up
  by (relation "measure (\<lambda>(_, _, p). length p)") auto

declare search_up.simps [simp del]

definition find_workspace_config :: "(fpath \<Rightarrow> bool) \<Rightarrow> fpath \<Rightarrow> ConfigSearchMode \<Rightarrow> fpath" where
  "find_workspace_config is_dir starting_path mode =
     (case mode of
        CurrentDir \<Rightarrow> starting_path @ [GLOBAL_CONFIG_DIRECTORY_0L]
      | CurrentDirAndParents \<Rightarrow> search_up is_dir starting_path starting_path)"

definition libra_folder :: "(fpath \<Rightarrow> bool) \<Rightarrow> fpath \<Rightarrow> fpath option \<Rightarrow> ConfigSearchMode \<Rightarrow> fpath" where
  "libra_folder is_dir home workspace_dir mode =
     (case workspace_dir of
        Some p \<Rightarrow> find_workspace_config is_dir p mode
      | None \<Rightarrow> global_config_dir home)"

record ProfileConfig =
  pc_private_key :: "bytes option"
  pc_public_key :: "bytes option"
  pc_account :: "account_address option"
  pc_rest_url :: "string option"
  pc_faucet_url :: "string option"

definition ProfileConfig_default :: ProfileConfig where
  "ProfileConfig_default =
     \<lparr>pc_private_key = None, pc_public_key = None, pc_account = None, pc_rest_url = None, pc_faucet_url = None\<rparr>"

record CliConfig =
  cc_profiles :: "(string \<times> ProfileConfig) list option"

text \<open>\<open>CliConfig::remove_profile\<close> of the vendor: \<open>BTreeMap::remove\<close> if there are profiles.\<close>

definition cc_remove_profile :: "string \<Rightarrow> CliConfig \<Rightarrow> ProfileConfig option \<times> CliConfig" where
  "cc_remove_profile name c =
     (case cc_profiles c of
        None \<Rightarrow> (None, c)
      | Some m \<Rightarrow> (bt_get name m, c\<lparr>cc_profiles := Some (filter (\<lambda>e. fst e \<noteq> name) m)\<rparr>))"

definition DEFAULT_PROFILE :: string where "DEFAULT_PROFILE = ''default''"

record cli_ops =
  co_is_dir :: "fpath \<Rightarrow> bool"
  co_home :: fpath
  co_to_yaml :: "CliConfig \<Rightarrow> string rres"
  co_from_yaml :: "string \<Rightarrow> CliConfig rres"
  co_url :: "string \<Rightarrow> string rres"
  co_public_key :: "string \<Rightarrow> bytes rres"
  co_network :: "string \<Rightarrow> string rres"
  co_key_address :: "bytes \<Rightarrow> account_address"
  co_lookup :: "string \<Rightarrow> account_address \<Rightarrow> account_address rres"
  co_current_dir :: "fpath option"
  co_default :: CliConfig

definition config_exists_ext :: "cli_ops \<Rightarrow> fpath option \<Rightarrow> ConfigSearchMode \<Rightarrow> file_system \<Rightarrow> bool" where
  "config_exists_ext co workspace_dir mode fs \<longleftrightarrow>
     fs (libra_folder (co_is_dir co) (co_home co) workspace_dir mode @ [CONFIG_FILE]) \<noteq> None"

text \<open>\<open>CliError\<close>: that the file is missing is told apart from other errors.\<close>

datatype cli_load = Loaded CliConfig | ConfigNotFoundError | OtherError string

definition load_ext :: "cli_ops \<Rightarrow> fpath option \<Rightarrow> ConfigSearchMode \<Rightarrow> file_system \<Rightarrow> cli_load" where
  "load_ext co workspace_dir mode fs =
     (case fs (libra_folder (co_is_dir co) (co_home co) workspace_dir mode @ [CONFIG_FILE]) of
        Some s \<Rightarrow> (case co_from_yaml co s of Ok c \<Rightarrow> Loaded c | Err e \<Rightarrow> OtherError e | Panic p \<Rightarrow> OtherError p)
      | None \<Rightarrow> ConfigNotFoundError)"

definition load_profile_ext ::
  "cli_ops \<Rightarrow> string option \<Rightarrow> fpath option \<Rightarrow> ConfigSearchMode \<Rightarrow> file_system \<Rightarrow> ProfileConfig option rres" where
  "load_profile_ext co profile workspace_dir mode fs =
     (case load_ext co workspace_dir mode fs of
        ConfigNotFoundError \<Rightarrow> Err ''Unable to find config, have you run `libra-config vendor-init`?''
      | OtherError e \<Rightarrow> Err e
      | Loaded config \<Rightarrow>
          (case profile of
             Some name \<Rightarrow>
               (case fst (cc_remove_profile name config) of
                  Some account_profile \<Rightarrow> Ok (Some account_profile)
                | None \<Rightarrow> Err (''Profile '' @ name @ '' not found''))
           | None \<Rightarrow> Ok (fst (cc_remove_profile DEFAULT_PROFILE config))))"

definition save_ext :: "cli_ops \<Rightarrow> CliConfig \<Rightarrow> fpath option \<Rightarrow> file_system \<Rightarrow> fpath rres \<times> file_system" where
  "save_ext co self workspace_dir fs =
     (let folder = libra_folder (co_is_dir co) (co_home co) workspace_dir CurrentDir;
          config_file = folder @ [CONFIG_FILE]
      in case co_to_yaml co self of
           Ok config_bytes \<Rightarrow>
             (let fs = fs(config_file \<mapsto> config_bytes);
                  legacy_config_file = folder @ [LEGACY_CONFIG_FILE]
              in (Ok config_file, if fs legacy_config_file \<noteq> None then fs(legacy_config_file := None) else fs))
         | Err e \<Rightarrow> (Err e, fs)
         | Panic p \<Rightarrow> (Panic p, fs))"

section \<open>Making a profile\<close>

definition custom_network :: "cli_ops \<Rightarrow> string rres \<Rightarrow> ProfileConfig \<Rightarrow> ProfileConfig rres" where
  "custom_network co rest_line profile_config =
     rbind rest_line (\<lambda>line. let input = trim line in
     rbind (if input = [] then or_err ''AbortedError'' (pc_rest_url profile_config)
            else co_url co input) (\<lambda>rest_url.
     Ok (profile_config\<lparr>pc_rest_url := Some rest_url, pc_faucet_url := None\<rparr>)))"

definition check_network :: "cli_ops \<Rightarrow> ProfileConfig \<Rightarrow> string rres" where
  "check_network co cfg =
     rbind (or_panic ''Must have rest client as created above'' (pc_rest_url cfg)) (co_url co)"

text \<open>\<open>co_network\<close> parses the name of a network to its variant; only two are accepted.\<close>

definition choose_network :: "cli_ops \<Rightarrow> string rres \<Rightarrow> string rres \<Rightarrow> ProfileConfig \<Rightarrow> ProfileConfig rres" where
  "choose_network co network_line rest_line profile_config =
     rbind network_line (\<lambda>line. let input = trim line in
     rbind (if input = [] then Ok ''Local'' else co_network co input) (\<lambda>network.
     if network = ''Local'' then
       Ok (profile_config\<lparr>pc_rest_url := Some ''http://localhost:8080'', pc_faucet_url := None\<rparr>)
     else if network = ''Custom'' then custom_network co rest_line profile_config
     else Err ''0L only supports Local and Custom networks (for now)''))"

definition profile_address :: "cli_ops \<Rightarrow> string rres \<Rightarrow> bytes \<Rightarrow> ProfileConfig \<Rightarrow> account_address rres" where
  "profile_address co rotated_line public_key profile_config =
     (let address = co_key_address co public_key in
      rbind rotated_line (\<lambda>line.
      if CHR ''y'' \<in> set (trim line) then
        (case check_network co profile_config of
           Ok client \<Rightarrow> (case co_lookup co client address of Ok a \<Rightarrow> Ok a | Err _ \<Rightarrow> Ok address | Panic p \<Rightarrow> Panic p)
         | Err _ \<Rightarrow> Ok address
         | Panic p \<Rightarrow> Panic p)
      else Ok address))"

definition make_profile_run ::
  "cli_ops \<Rightarrow> bool rres \<Rightarrow> string rres \<Rightarrow> string rres \<Rightarrow> string rres \<Rightarrow> string \<Rightarrow> string option \<Rightarrow> bool \<Rightarrow>
   file_system \<Rightarrow> unit rres \<times> file_system" where
  "make_profile_run co overwrite network_line rest_line rotated_line key_text profile in_workspace fs =
     (let profile_name = (case profile of Some p \<Rightarrow> p | None \<Rightarrow> DEFAULT_PROFILE);
          (existing, config) = cc_remove_profile profile_name (co_default co);
          made =
            rbind (co_public_key co key_text) (\<lambda>public_key.
            rbind (case existing of
                     Some profile_config \<Rightarrow>
                       rbind overwrite (\<lambda>yes. if yes then Ok profile_config else Err ''AbortedError'')
                   | None \<Rightarrow> Ok ProfileConfig_default) (\<lambda>profile_config.
            rbind (choose_network co network_line rest_line profile_config) (\<lambda>profile_config.
            rbind (profile_address co rotated_line public_key profile_config) (\<lambda>address.
            Ok (profile_config\<lparr>pc_private_key := None, pc_public_key := Some public_key, pc_account := Some address\<rparr>)))))
      in case made of
           Ok profile_config \<Rightarrow>
             (let profiles = (case cc_profiles config of Some m \<Rightarrow> m | None \<Rightarrow> []);
                  config = config\<lparr>cc_profiles := Some (bt_insert profile_name profile_config profiles)\<rparr>;
                  config_location = (if in_workspace then co_current_dir co else None)
              in case save_ext co config config_location fs of
                   (r, fs) \<Rightarrow> (rbind r (\<lambda>_. Ok ()), fs))
         | Err e \<Rightarrow> (Err e, fs)
         | Panic p \<Rightarrow> (Panic p, fs))"

section \<open>Theorems\<close>

lemma search_up_spec:
  "search_up is_dir start p =
     (case List.find (\<lambda>n. is_dir (take n p @ [GLOBAL_CONFIG_DIRECTORY_0L])) (rev [0..<Suc (length p)]) of
        Some n \<Rightarrow> take n p @ [GLOBAL_CONFIG_DIRECTORY_0L]
      | None \<Rightarrow> start @ [GLOBAL_CONFIG_DIRECTORY_0L])"
proof (induction p rule: rev_induct)
  case Nil
  show ?case by (subst search_up.simps) simp
next
  case (snoc x p)
  have same: "List.find (\<lambda>n. is_dir (take n (p @ [x]) @ [GLOBAL_CONFIG_DIRECTORY_0L])) (rev [0..<Suc (length p)]) =
      List.find (\<lambda>n. is_dir (take n p @ [GLOBAL_CONFIG_DIRECTORY_0L])) (rev [0..<Suc (length p)])"
    by (rule find_cong) auto
  have bound: "n \<le> length p" if "List.find Q (rev [0..<Suc (length p)]) = Some n" for Q n
  proof -
    from that have "n \<in> set (rev [0..<Suc (length p)])" unfolding find_Some_iff by (metis nth_mem)
    then show ?thesis by auto
  qed
  have step: "rev [0..<Suc (length (p @ [x]))] = length (p @ [x]) # rev [0..<Suc (length p)]" by simp
  show ?case
    unfolding search_up.simps[of is_dir start "p @ [x]"] step find.simps same
    by (auto simp: snoc.IH dest: bound split: option.splits simp del: upt_Suc)
qed

lemma find_first:
  assumes "find_index P xs = Some i"
  shows "List.find P xs = Some (xs ! i)"
  using assms by (auto simp: find_index_Some find_Some_iff)

text \<open>
  C22. The search for a workspace. It goes through the starting directory and its parents and returns the configuration
  directory of the nearest one that has it; if none has it, the one to be created in the starting directory. It
  returns for every path, the root included.
\<close>

theorem workspace_found_nearest:
  "(\<forall>n \<le> length p. is_dir (take n p @ [GLOBAL_CONFIG_DIRECTORY_0L]) \<longrightarrow>
      (\<forall>m. n < m \<and> m \<le> length p \<longrightarrow> \<not> is_dir (take m p @ [GLOBAL_CONFIG_DIRECTORY_0L])) \<longrightarrow>
      find_workspace_config is_dir p CurrentDirAndParents = take n p @ [GLOBAL_CONFIG_DIRECTORY_0L]) \<and>
   ((\<forall>n \<le> length p. \<not> is_dir (take n p @ [GLOBAL_CONFIG_DIRECTORY_0L])) \<longrightarrow>
      find_workspace_config is_dir p CurrentDirAndParents = p @ [GLOBAL_CONFIG_DIRECTORY_0L])"
proof (intro conjI allI impI)
  let ?P = "\<lambda>n. is_dir (take n p @ [GLOBAL_CONFIG_DIRECTORY_0L])" and ?ns = "rev [0..<Suc (length p)]"
  fix n assume n: "n \<le> length p" "?P n" and far: "\<forall>m. n < m \<and> m \<le> length p \<longrightarrow> \<not> ?P m"
  have nth: "?ns ! j = length p - j" if "j < Suc (length p)" for j
    using that by (simp add: rev_nth del: upt_Suc)
  have "find_index ?P ?ns = Some (length p - n)"
    unfolding find_index_Some
  proof (intro conjI allI impI)
    show "length p - n < length ?ns" by (simp del: upt_Suc)
    show "?P (?ns ! (length p - n))" using n nth[of "length p - n"] by simp
    fix j assume "j < length p - n"
    with far nth[of j] show "\<not> ?P (?ns ! j)" by auto
  qed
  from find_first[OF this] nth[of "length p - n"] n
  show "find_workspace_config is_dir p CurrentDirAndParents = take n p @ [GLOBAL_CONFIG_DIRECTORY_0L]"
    by (simp add: find_workspace_config_def search_up_spec del: upt_Suc)
next
  let ?P = "\<lambda>n. is_dir (take n p @ [GLOBAL_CONFIG_DIRECTORY_0L])" and ?ns = "rev [0..<Suc (length p)]"
  assume "\<forall>n \<le> length p. \<not> ?P n"
  then have "List.find ?P ?ns = None" unfolding find_None_iff by auto
  then show "find_workspace_config is_dir p CurrentDirAndParents = p @ [GLOBAL_CONFIG_DIRECTORY_0L]"
    by (simp add: find_workspace_config_def search_up_spec del: upt_Suc)
qed

theorem workspace_found_nearest_witness:
  "find_workspace_config (\<lambda>d. d \<in> {[''a'', ''.libra''], [''.libra'']}) [''a'', ''b''] CurrentDirAndParents = [''a'', ''.libra'']"
proof -
  let ?D = "\<lambda>d. d \<in> {[''a'', ''.libra''], [''.libra'']}" and ?p = "[''a'', ''b'']"
  have a: "\<forall>m. 1 < m \<and> m \<le> length ?p \<longrightarrow> \<not> ?D (take m ?p @ [GLOBAL_CONFIG_DIRECTORY_0L])"
  proof (intro allI impI)
    fix m :: nat assume "1 < m \<and> m \<le> length ?p"
    then have "m = 2" by simp
    then show "\<not> ?D (take m ?p @ [GLOBAL_CONFIG_DIRECTORY_0L])" by (simp add: GLOBAL_CONFIG_DIRECTORY_0L_def)
  qed
  have "1 \<le> length ?p" "?D (take 1 ?p @ [GLOBAL_CONFIG_DIRECTORY_0L])"
    by (simp_all add: GLOBAL_CONFIG_DIRECTORY_0L_def)
  with workspace_found_nearest[of ?p ?D] a
  have "find_workspace_config ?D ?p CurrentDirAndParents = take 1 ?p @ [GLOBAL_CONFIG_DIRECTORY_0L]" by blast
  then show ?thesis by (simp add: GLOBAL_CONFIG_DIRECTORY_0L_def)
qed

text \<open>
  Making a profile forgets every other one. The dialogue starts from the vendor's default configuration, which has no
  profiles, and never reads the file it overwrites. So it never asks whether to overwrite, and after a successful run
  the file holds the new profile alone, without a private key, whatever profiles it held before.
\<close>

lemma set_profiles: "c\<lparr>cc_profiles := x\<rparr> = \<lparr>cc_profiles = x\<rparr>"
  by (cases c) simp

theorem make_profile_forgets:
  assumes "cc_profiles (co_default co) \<in> {None, Some []}"
    and "\<forall>c y. co_to_yaml co c = Ok y \<longrightarrow> co_from_yaml co y = Ok c"
    and "make_profile_run co overwrite net rest rot key profile ws fs = (Ok (), fs')"
  shows "make_profile_run co other net rest rot key profile ws fs = (Ok (), fs') \<and>
    (\<exists>pc. load_ext co (if ws then co_current_dir co else None) CurrentDir fs' =
        Loaded \<lparr>cc_profiles = Some [(case profile of Some p \<Rightarrow> p | None \<Rightarrow> DEFAULT_PROFILE, pc)]\<rparr> \<and>
      pc_private_key pc = None)"
proof -
  let ?name = "case profile of Some p \<Rightarrow> p | None \<Rightarrow> DEFAULT_PROFILE"
  obtain config where d: "cc_remove_profile ?name (co_default co) = (None, config)"
    and e: "cc_profiles config \<in> {None, Some []}"
    using assms(1) by (cases "cc_profiles (co_default co)") (auto simp: cc_remove_profile_def bt_get_def)
  then obtain pc q where s: "save_ext co \<lparr>cc_profiles = Some [(?name, pc)]\<rparr>
        (if ws then co_current_dir co else None) fs = (Ok q, fs')"
      and pc: "pc_private_key pc = None"
    using assms(3)
    by (auto simp: make_profile_run_def d Let_def rust_simps set_profiles split: rres.splits option.splits prod.splits)
  have "CONFIG_FILE \<noteq> LEGACY_CONFIG_FILE" by (simp add: CONFIG_FILE_def LEGACY_CONFIG_FILE_def)
  with s assms(2) have "load_ext co (if ws then co_current_dir co else None) CurrentDir fs' =
      Loaded \<lparr>cc_profiles = Some [(?name, pc)]\<rparr>"
    by (auto simp: save_ext_def load_ext_def Let_def split: rres.splits if_splits)
  moreover have "make_profile_run co other net rest rot key profile ws fs = (Ok (), fs')"
    using assms(3) by (simp add: make_profile_run_def d)
  ultimately show ?thesis using pc by blast
qed

definition ref_cli :: cli_ops where
  "ref_cli =
     \<lparr>co_is_dir = (\<lambda>_. False), co_home = [''home''],
      co_to_yaml = (\<lambda>c. if c = \<lparr>cc_profiles = Some [(''default'', ProfileConfig_default
          \<lparr>pc_public_key := Some [1], pc_account := Some [2], pc_rest_url := Some ''http://localhost:8080''\<rparr>)]\<rparr>
        then Ok ''one'' else Err ''no''),
      co_from_yaml = (\<lambda>_. Ok \<lparr>cc_profiles = Some [(''default'', ProfileConfig_default
          \<lparr>pc_public_key := Some [1], pc_account := Some [2], pc_rest_url := Some ''http://localhost:8080''\<rparr>)]\<rparr>),
      co_url = Ok, co_public_key = (\<lambda>_. Ok [1]), co_network = Ok, co_key_address = (\<lambda>_. [2]), co_lookup = (\<lambda>_ a. Ok a),
      co_current_dir = None, co_default = \<lparr>cc_profiles = Some []\<rparr>\<rparr>"

theorem make_profile_forgets_witness:
  "\<exists>pc. load_ext ref_cli None CurrentDir [[''home'', ''.libra'', CONFIG_FILE] \<mapsto> ''one''] =
     Loaded \<lparr>cc_profiles = Some [(DEFAULT_PROFILE, pc)]\<rparr>"
proof -
  have t: "trim [] = []" by code_simp
  have r: "make_profile_run ref_cli (Ok True) (Ok []) (Ok []) (Ok []) ''k'' None False
      [[''home'', ''.libra'', CONFIG_FILE] \<mapsto> ''three''] = (Ok (), [[''home'', ''.libra'', CONFIG_FILE] \<mapsto> ''one''])"
    by (simp add: make_profile_run_def ref_cli_def cc_remove_profile_def bt_get_def choose_network_def profile_address_def t
        save_ext_def libra_folder_def global_config_dir_def DEFAULT_PROFILE_def ProfileConfig_default_def CONFIG_FILE_def
        LEGACY_CONFIG_FILE_def Let_def)
  have "\<forall>c y. co_to_yaml ref_cli c = Ok y \<longrightarrow> co_from_yaml ref_cli y = Ok c" by (simp add: ref_cli_def)
  moreover have "cc_profiles (co_default ref_cli) \<in> {None, Some []}" by (simp add: ref_cli_def)
  ultimately show ?thesis using make_profile_forgets[OF _ _ r, of "Ok False"] by auto
qed

end
