(* ===== verification/Genesis_Registration.thy ===== *)
theory Genesis_Registration
  imports Wallet_Files Json
begin

text \<open>
  Registration of validators for a genesis ceremony: publishing the configuration files in a GitHub repository
  (\<^verbatim>\<open>src/tools/genesis/src/genesis_registration.rs\<close>), the GitHub requests (\<^verbatim>\<open>github_extensions.rs\<close>), and reading all registrations
  back with their checks (\<^verbatim>\<open>genesis_builder.rs\<close>).

  GitHub is a state \<open>'h\<close> behind the vendor's client, \<open>hub_api\<close>. \<open>registry\<close> collects the codecs: base64, UTF-8, the YAML readers,
  addresses with checks, and one decoder of encoded strings per kind of key. Error texts keep their fixed parts.
\<close>

section \<open>Configurations\<close>

record StringOwnerConfiguration =
  so_owner_account_address :: "string option"
  so_owner_account_public_key :: "string option"
  so_voter_account_address :: "string option"
  so_voter_account_public_key :: "string option"
  so_operator_account_address :: "string option"
  so_operator_account_public_key :: "string option"
  so_stake_amount :: "string option"
  so_commission_percentage :: "string option"
  so_join_during_genesis :: "string option"

record StringOperatorConfiguration =
  sc_operator_account_address :: "string option"
  sc_operator_account_public_key :: "string option"
  sc_consensus_public_key :: "string option"
  sc_consensus_proof_of_possession :: "string option"
  sc_validator_network_public_key :: "string option"
  sc_validator_host :: HostAndPort
  sc_full_node_network_public_key :: "string option"
  sc_full_node_host :: "HostAndPort option"

record ValidatorConfiguration =
  va_owner_account_address :: account_address
  va_owner_account_public_key :: bytes
  va_operator_account_address :: account_address
  va_operator_account_public_key :: bytes
  va_voter_account_address :: account_address
  va_voter_account_public_key :: bytes
  va_consensus_public_key :: "bytes option"
  va_proof_of_possession :: "bytes option"
  va_validator_network_public_key :: "bytes option"
  va_validator_host :: "HostAndPort option"
  va_full_node_network_public_key :: "bytes option"
  va_full_node_host :: "HostAndPort option"
  va_stake_amount :: u64
  va_commission_percentage :: u64
  va_join_during_genesis :: bool

record git_client =
  gt_owner :: string
  gt_repository :: string
  gt_branch :: string
  gt_token :: string

datatype http_method = Get | Post

record 'h hub_api =
  hb_get_file :: "git_client \<Rightarrow> string \<Rightarrow> (string, 'h) io"
  hb_put :: "git_client \<Rightarrow> string \<Rightarrow> string \<Rightarrow> (unit, 'h) io"
  hb_get_branches :: "git_client \<Rightarrow> (unit, 'h) io"
  hb_request :: "git_client \<Rightarrow> http_method \<Rightarrow> string \<Rightarrow> json \<Rightarrow> 'h \<Rightarrow> (nat \<times> json) \<times> 'h"
  hb_error :: "nat \<times> json \<Rightarrow> string"

record registry =
  gk_encode :: "string \<Rightarrow> string"
  gk_decode :: "string \<Rightarrow> string rres"
  gk_utf8 :: "string \<Rightarrow> string rres"
  gk_layout_from :: "string \<Rightarrow> string list rres"
  gk_owner_from :: "string \<Rightarrow> StringOwnerConfiguration rres"
  gk_operator_from :: "string \<Rightarrow> StringOperatorConfiguration rres"
  gk_address :: "string \<Rightarrow> account_address rres"
  gk_ed25519 :: "string \<Rightarrow> bytes rres"
  gk_bls :: "string \<Rightarrow> bytes rres"
  gk_possession :: "string \<Rightarrow> bytes rres"
  gk_x25519 :: "string \<Rightarrow> bytes rres"
  gk_yaml :: config_yaml
  gk_home :: string
  gk_join :: "string \<Rightarrow> string \<Rightarrow> string"

section \<open>Publishing\<close>

definition register ::
  "'h hub_api \<Rightarrow> registry \<Rightarrow> string \<Rightarrow> string \<Rightarrow> string \<Rightarrow> string \<Rightarrow> string \<Rightarrow> files \<Rightarrow> (unit, 'h) io" where
  "register hub k genesis_username github_owner github_repository github_token home_path fs =
     (let operator_file = gk_join k genesis_username OPERATOR_FILE;
          owner_file = gk_join k genesis_username OWNER_FILE in
      io_bind (io_of (read_configs_from_file (gk_yaml k) (gk_home k) (gk_join k) (Some home_path) fs))
        (\<lambda>(operator_config, owner_config).
      let git_client = \<lparr>gt_owner = github_owner, gt_repository = github_repository, gt_branch = ''main'',
                        gt_token = github_token\<rparr> in
      io_bind (io_of (cy_operator_to (gk_yaml k) operator_config)) (\<lambda>operator_yaml.
      io_bind (hb_put hub git_client operator_file (gk_encode k operator_yaml)) (\<lambda>_.
      io_bind (io_of (cy_owner_to (gk_yaml k) owner_config)) (\<lambda>owner_yaml.
      hb_put hub git_client owner_file (gk_encode k owner_yaml))))))"

section \<open>GitHub requests\<close>

text \<open>A request that succeeds with one of the given status codes.\<close>

definition hub_call ::
  "'h hub_api \<Rightarrow> git_client \<Rightarrow> http_method \<Rightarrow> string \<Rightarrow> json \<Rightarrow> nat list \<Rightarrow> (json, 'h) io" where
  "hub_call hub self m api_path body codes = (\<lambda>h.
     case hb_request hub self m api_path body h of
       ((status, reply), h') \<Rightarrow> (if status \<in> set codes then Ok reply else Err (hb_error hub (status, reply)), h'))"

definition make_genesis_pull_request ::
  "'h hub_api \<Rightarrow> git_client \<Rightarrow> string \<Rightarrow> string \<Rightarrow> string \<Rightarrow> string option \<Rightarrow> (unit, 'h) io" where
  "make_genesis_pull_request hub self genesis_repo_owner genesis_repo_name pull_username branch =
     (let branch = (case branch of Some b \<Rightarrow> b | None \<Rightarrow> ''main'');
          head = pull_username @ '':'' @ branch;
          body = JObject [(''head'', JString head), (''base'', JString branch), (''title'', JString pull_username)];
          api_path = ''https://api.github.com/repos/'' @ genesis_repo_owner @ ''/'' @ genesis_repo_name @ ''/pulls'' in
      io_bind (hub_call hub self Post api_path body [200, 201]) (\<lambda>_. io_of (Ok ())))"

definition fork_genesis_repo :: "'h hub_api \<Rightarrow> git_client \<Rightarrow> string \<Rightarrow> string \<Rightarrow> (unit, 'h) io" where
  "fork_genesis_repo hub self genesis_repo_owner genesis_repo_name =
     (let api_path = ''https://api.github.com/repos/'' @ genesis_repo_owner @ ''/'' @ genesis_repo_name @ ''/forks'' in
      io_bind (hub_call hub self Post api_path (JObject []) [200, 201, 202]) (\<lambda>_. io_of (Ok ())))"

definition get_authenticated_user :: "'h hub_api \<Rightarrow> git_client \<Rightarrow> (string, 'h) io" where
  "get_authenticated_user hub self =
     io_bind (hub_call hub self Get ''https://api.github.com/user'' JNull [200]) (\<lambda>reply.
     io_of (or_panic ''called Result::unwrap() on an Err value'' (Option.bind (obj_get ''login'' reply) as_str)))"

section \<open>Reading registrations\<close>

definition is_ascii_hexdigit :: "char \<Rightarrow> bool" where
  "is_ascii_hexdigit c \<longleftrightarrow> c \<in> set ''0123456789abcdefABCDEF''"

definition parse_key :: "nat \<Rightarrow> (string \<Rightarrow> 'k rres) \<Rightarrow> string \<Rightarrow> 'k rres" where
  "parse_key num_bytes from_encoded_string str =
     (let num_chars = num_bytes * 2;
          working = trim str;
          working = (if starts_with working ''0x'' then drop 2 working else working) in
      if length working < num_chars then Err (''Key '' @ str @ '' is too short'')
      else if length working > num_chars then Err (''Key '' @ str @ '' is too long'')
      else if \<not> list_all is_ascii_hexdigit working then Err (''Key '' @ str @ '' contains a non-hex character'')
      else from_encoded_string (trim str))"

definition field_error :: "string \<Rightarrow> string \<Rightarrow> 'a rres \<Rightarrow> 'a rres" where
  "field_error file field_name r =
     (case r of Err err \<Rightarrow> Err (''Field '' @ field_name @ '' is invalid in file '' @ file @ ''.  Err: '' @ err) | _ \<Rightarrow> r)"

definition parse_required_option :: "string option \<Rightarrow> string \<Rightarrow> string \<Rightarrow> (string \<Rightarrow> 'a rres) \<Rightarrow> 'a rres" where
  "parse_required_option opt file field_name parse =
     (case opt of
        Some field \<Rightarrow> field_error file field_name (parse field)
      | None \<Rightarrow> Err (''File '' @ file @ '' is missing '' @ field_name))"

definition parse_optional_option :: "string option \<Rightarrow> string \<Rightarrow> string \<Rightarrow> (string \<Rightarrow> 'a rres) \<Rightarrow> 'a option rres" where
  "parse_optional_option opt file field_name parse =
     (case opt of
        Some field \<Rightarrow> rbind (field_error file field_name (parse field)) (\<lambda>x. Ok (Some x))
      | None \<Rightarrow> Ok None)"

text \<open>\<open>u64::from_str\<close> and \<open>bool::from_str\<close> with the text of their errors.\<close>

definition u64_from_str :: "string \<Rightarrow> u64 rres" where
  "u64_from_str s = or_err ''invalid digit found in string'' (parse_u64 s)"

definition bool_from_str :: "string \<Rightarrow> bool rres" where
  "bool_from_str s =
     (if s = ''true'' then Ok True else if s = ''false'' then Ok False
      else Err ''provided string was not `true` or `false`'')"

text \<open>\<open>ED25519_PUBLIC_KEY_LENGTH\<close> and the lengths of BLS public keys and proofs.\<close>

definition ed_key :: "registry \<Rightarrow> string \<Rightarrow> bytes rres" where
  "ed_key k = parse_key 32 (gk_ed25519 k)"

definition x_key :: "registry \<Rightarrow> string \<Rightarrow> bytes rres" where
  "x_key k = parse_key 32 (gk_x25519 k)"

record owner_fields =
  of_owner_account_address :: account_address
  of_owner_account_public_key :: bytes
  of_operator_account_address :: account_address
  of_operator_account_public_key :: bytes
  of_voter_account_address :: account_address
  of_voter_account_public_key :: bytes
  of_stake_amount :: u64
  of_commission_percentage :: u64
  of_join_during_genesis :: bool

definition owner_fields_of :: "registry \<Rightarrow> string \<Rightarrow> StringOwnerConfiguration \<Rightarrow> owner_fields rres" where
  "owner_fields_of k owner_file c =
     rbind (parse_required_option (so_owner_account_address c) owner_file ''owner_account_address'' (gk_address k)) (\<lambda>owner.
     rbind (parse_required_option (so_owner_account_public_key c) owner_file ''owner_account_public_key'' (ed_key k)) (\<lambda>owner_key.
     rbind (parse_required_option (so_operator_account_address c) owner_file ''operator_account_address'' (gk_address k)) (\<lambda>operator.
     rbind (parse_required_option (so_operator_account_public_key c) owner_file ''operator_account_public_key'' (ed_key k)) (\<lambda>operator_key.
     rbind (parse_required_option (so_voter_account_address c) owner_file ''voter_account_address'' (gk_address k)) (\<lambda>voter.
     rbind (parse_required_option (so_voter_account_public_key c) owner_file ''voter_account_public_key'' (ed_key k)) (\<lambda>voter_key.
     rbind (parse_required_option (so_stake_amount c) owner_file ''stake_amount'' u64_from_str) (\<lambda>stake.
     rbind (parse_optional_option (so_commission_percentage c) owner_file ''commission_percentage'' u64_from_str) (\<lambda>commission.
     rbind (parse_optional_option (so_join_during_genesis c) owner_file ''join_during_genesis'' bool_from_str) (\<lambda>join.
     Ok \<lparr>of_owner_account_address = owner, of_owner_account_public_key = owner_key,
         of_operator_account_address = operator, of_operator_account_public_key = operator_key,
         of_voter_account_address = voter, of_voter_account_public_key = voter_key, of_stake_amount = stake,
         of_commission_percentage = (case commission of Some x \<Rightarrow> x | None \<Rightarrow> 0),
         of_join_during_genesis = (case join of Some x \<Rightarrow> x | None \<Rightarrow> True)\<rparr>)))))))))"

record operator_fields =
  pf_operator_account_address :: account_address
  pf_operator_account_public_key :: bytes
  pf_consensus_public_key :: bytes
  pf_consensus_proof_of_possession :: bytes
  pf_validator_network_public_key :: bytes
  pf_full_node_network_public_key :: "bytes option"

definition operator_fields_of :: "registry \<Rightarrow> string \<Rightarrow> StringOperatorConfiguration \<Rightarrow> operator_fields rres" where
  "operator_fields_of k operator_file c =
     rbind (parse_required_option (sc_operator_account_address c) operator_file ''operator_account_address'' (gk_address k)) (\<lambda>operator.
     rbind (parse_required_option (sc_operator_account_public_key c) operator_file ''operator_account_public_key'' (ed_key k)) (\<lambda>operator_key.
     rbind (parse_required_option (sc_consensus_public_key c) operator_file ''consensus_public_key'' (parse_key 48 (gk_bls k))) (\<lambda>consensus.
     rbind (parse_required_option (sc_consensus_proof_of_possession c) operator_file ''consensus_proof_of_possession''
              (parse_key 96 (gk_possession k))) (\<lambda>possession.
     rbind (parse_required_option (sc_validator_network_public_key c) operator_file ''validator_network_public_key'' (x_key k)) (\<lambda>network.
     rbind (parse_optional_option (sc_full_node_network_public_key c) operator_file ''full_node_network_public_key'' (x_key k)) (\<lambda>full_node.
     Ok \<lparr>pf_operator_account_address = operator, pf_operator_account_public_key = operator_key,
         pf_consensus_public_key = consensus, pf_consensus_proof_of_possession = possession,
         pf_validator_network_public_key = network, pf_full_node_network_public_key = full_node\<rparr>))))))"

definition fetch_yaml :: "'h hub_api \<Rightarrow> registry \<Rightarrow> git_client \<Rightarrow> string \<Rightarrow> (string \<Rightarrow> 'c rres) \<Rightarrow> ('c, 'h) io" where
  "fetch_yaml hub k client file from_yaml =
     io_bind (hb_get_file hub client file) (\<lambda>contents.
     io_of (rbind (gk_decode k contents) (\<lambda>b. rbind (gk_utf8 k b) from_yaml)))"

definition validator_of :: "owner_fields \<Rightarrow> operator_fields \<Rightarrow> StringOperatorConfiguration \<Rightarrow> ValidatorConfiguration" where
  "validator_of ow p c =
     \<lparr>va_owner_account_address = of_owner_account_address ow, va_owner_account_public_key = of_owner_account_public_key ow,
      va_operator_account_address = of_operator_account_address ow,
      va_operator_account_public_key = of_operator_account_public_key ow,
      va_voter_account_address = of_voter_account_address ow, va_voter_account_public_key = of_voter_account_public_key ow,
      va_consensus_public_key = Some (pf_consensus_public_key p),
      va_proof_of_possession = Some (pf_consensus_proof_of_possession p),
      va_validator_network_public_key = Some (pf_validator_network_public_key p),
      va_validator_host = Some (sc_validator_host c),
      va_full_node_network_public_key = pf_full_node_network_public_key p, va_full_node_host = sc_full_node_host c,
      va_stake_amount = of_stake_amount ow, va_commission_percentage = of_commission_percentage ow,
      va_join_during_genesis = of_join_during_genesis ow\<rparr>"

definition get_config :: "'h hub_api \<Rightarrow> registry \<Rightarrow> git_client \<Rightarrow> string \<Rightarrow> (ValidatorConfiguration, 'h) io" where
  "get_config hub k client user =
     (let owner_file = gk_join k user OWNER_FILE; operator_file = gk_join k user OPERATOR_FILE in
      io_bind (fetch_yaml hub k client owner_file (gk_owner_from k)) (\<lambda>owner_config.
      io_bind (io_of (owner_fields_of k owner_file owner_config)) (\<lambda>ow.
      io_bind (fetch_yaml hub k client operator_file (gk_operator_from k)) (\<lambda>operator_config.
      io_bind (io_of (operator_fields_of k operator_file operator_config)) (\<lambda>p.
      if of_operator_account_address ow \<noteq> pf_operator_account_address p
      then io_of (Err ''Operator account in owner file does not match operator account in operator file'')
      else if of_operator_account_public_key ow \<noteq> pf_operator_account_public_key p
      then io_of (Err ''Operator public key in owner file does not match operator public key in operator file'')
      else io_of (Ok (validator_of ow p operator_config)))))))"

text \<open>The loop over the users: every user is read, failures are collected.\<close>

fun collect_configs ::
  "'h hub_api \<Rightarrow> registry \<Rightarrow> git_client \<Rightarrow> string list \<Rightarrow> ValidatorConfiguration list \<Rightarrow> string list \<Rightarrow>
   (ValidatorConfiguration list \<times> string list, 'h) io" where
  "collect_configs hub k client [] validators errors = io_of (Ok (validators, errors))"
| "collect_configs hub k client (user # users) validators errors =
     io_match (get_config hub k client user)
       (\<lambda>validator. collect_configs hub k client users (validators @ [validator]) errors)
       (\<lambda>failure. collect_configs hub k client users validators (errors @ [user @ '': '' @ failure]))"

definition get_validator_configs ::
  "'h hub_api \<Rightarrow> registry \<Rightarrow> git_client \<Rightarrow> string list \<Rightarrow> (ValidatorConfiguration list, 'h) io" where
  "get_validator_configs hub k client users =
     io_bind (collect_configs hub k client users [] []) (\<lambda>(validators, errors).
     io_of (if errors = [] then Ok validators else Err (concat errors)))"

definition LAYOUT_FILE :: string where "LAYOUT_FILE = ''layout.yaml''"

text \<open>The part of \<open>fetch_genesis_info\<close> that reads the layout and the registrations.\<close>

definition fetch_validators :: "'h hub_api \<Rightarrow> registry \<Rightarrow> git_client \<Rightarrow> (ValidatorConfiguration list, 'h) io" where
  "fetch_validators hub k client =
     io_bind (fetch_yaml hub k client LAYOUT_FILE (gk_layout_from k)) (\<lambda>users.
     get_validator_configs hub k client users)"

definition generate_validator_registration_config ::
  "crypto \<Rightarrow> address_conv \<Rightarrow> node_crypto \<Rightarrow> string \<Rightarrow> HostAndPort \<Rightarrow> ValidatorConfiguration rres" where
  "generate_validator_registration_config c v nc mnem host =
     rbind (get_keys_from_mnem c v mnem) (\<lambda>key_chain.
     rbind (generate_key_objects_from_legacy nc key_chain) (\<lambda>(_, _, _, public_identity).
     Ok \<lparr>va_owner_account_address = pb_account_address public_identity,
         va_owner_account_public_key = pb_account_public_key public_identity,
         va_operator_account_address = pb_account_address public_identity,
         va_operator_account_public_key = pb_account_public_key public_identity,
         va_voter_account_address = pb_account_address public_identity,
         va_voter_account_public_key = pb_account_public_key public_identity,
         va_consensus_public_key = pb_consensus_public_key public_identity,
         va_proof_of_possession = pb_consensus_proof_of_possession public_identity,
         va_validator_network_public_key = pb_validator_network_public_key public_identity,
         va_validator_host = Some host,
         va_full_node_network_public_key = pb_full_node_network_public_key public_identity,
         va_full_node_host = Some host, va_stake_amount = 1, va_commission_percentage = 1,
         va_join_during_genesis = True\<rparr>))"

section \<open>Keys as text\<close>

lemma x_no_hexdigit: "\<not> is_ascii_hexdigit (CHR ''x'')"
  by (simp add: is_ascii_hexdigit_def)

text \<open>
  A key field is decoded exactly when its trimmed text is twice as many hexadecimal digits as the key has bytes, with
  or without a leading \<open>0x\<close>, and the decoder of the key type accepts it; every other text is an error that names the field's text.
\<close>

theorem parse_key_iff:
  "parse_key n f s = Ok x \<longleftrightarrow>
     (\<exists>digits. trim s \<in> {digits, ''0x'' @ digits} \<and> length digits = 2 * n \<and>
        list_all is_ascii_hexdigit digits \<and> f (trim s) = Ok x)" (is "?l \<longleftrightarrow> ?r")
proof
  let ?w = "if starts_with (trim s) ''0x'' then drop 2 (trim s) else trim s"
  assume ?l
  then have "length ?w = 2 * n" "list_all is_ascii_hexdigit ?w" "f (trim s) = Ok x"
    by (auto simp: parse_key_def Let_def split: if_splits)
  moreover have "trim s \<in> {?w, ''0x'' @ ?w}"
    by (auto simp: starts_with_iff)
  ultimately show ?r by blast
next
  assume ?r
  then obtain digits where d: "trim s \<in> {digits, ''0x'' @ digits}" "length digits = 2 * n"
    "list_all is_ascii_hexdigit digits" "f (trim s) = Ok x" by blast
  have "\<not> starts_with digits ''0x''"
    using d(3) by (auto simp: starts_with_iff x_no_hexdigit)
  with d show ?l by (auto simp: parse_key_def Let_def starts_with_def)
qed

text \<open>The encoded string of a key.\<close>

definition enc_key :: "bytes \<Rightarrow> string" where
  "enc_key b = ''0x'' @ lower_hex b"

lemma hex_chars_ok: "c \<in> set (lower_hex b) \<Longrightarrow> is_ascii_hexdigit c \<and> \<not> is_ws c"
  using lower_hex_chars[of c b] by (auto simp: is_ascii_hexdigit_def is_ws_def)

lemma trim_enc_key: "trim (enc_key b) = enc_key b"
proof (rule trim_id)
  have "last (enc_key b) \<in> set (lower_hex b) \<or> last (enc_key b) = CHR ''x''"
    by (cases "lower_hex b = []") (simp_all add: enc_key_def)
  then show "\<not> is_ws (last (enc_key b))"
    using hex_chars_ok by (auto simp: is_ws_def)
qed (simp_all add: enc_key_def is_ws_def)

lemma parse_key_enc: "length b = n \<Longrightarrow> f (enc_key b) = Ok x \<Longrightarrow> parse_key n f (enc_key b) = Ok x"
  unfolding parse_key_iff trim_enc_key
  by (rule exI[of _ "lower_hex b"]) (auto simp: enc_key_def list_all_iff hex_chars_ok)

section \<open>All registrations or none\<close>

lemma get_config_reads:
  assumes "\<And>c p h. snd (hb_get_file hub c p h) = h"
  shows "snd (get_config hub k client user h) = h"
proof -
  have get: "io_keeps (\<lambda>h. h) (hb_get_file hub client p)" for p
    using assms by (simp add: io_keeps_def)
  have "io_keeps (\<lambda>h. h) (get_config hub k client user)"
    unfolding get_config_def Let_def fetch_yaml_def by (intro io_keeps_intros get) (simp add: io_keeps_of)
  then show ?thesis by (simp add: io_keeps_def)
qed

lemma collect_Ok:
  assumes "\<And>c p h. snd (hb_get_file hub c p h) = h"
  shows "collect_configs hub k client users vs es h = (Ok (vs', es'), h') \<longleftrightarrow> h' = h \<and>
    (\<forall>u \<in> set users. \<not> is_panic (fst (get_config hub k client u h))) \<and>
    vs' = vs @ concat (map (\<lambda>u. case fst (get_config hub k client u h) of Ok v \<Rightarrow> [v] | _ \<Rightarrow> []) users) \<and>
    es' = es @ concat (map (\<lambda>u. case fst (get_config hub k client u h) of Err e \<Rightarrow> [u @ '': '' @ e] | _ \<Rightarrow> []) users)"
proof (induction users arbitrary: vs es)
  case Nil
  then show ?case by (auto simp: rust_simps)
next
  case (Cons u users)
  note keeps = get_config_reads[OF assms, of k client u h]
  show ?case
  proof (cases "fst (get_config hub k client u h)")
    case (Ok v)
    then have "get_config hub k client u h = (Ok v, h)" using keeps by (simp add: prod_eq_iff)
    then show ?thesis by (auto simp: Cons.IH)
  next
    case (Err e)
    then have "get_config hub k client u h = (Err e, h)" using keeps by (simp add: prod_eq_iff)
    then show ?thesis by (auto simp: Cons.IH)
  next
    case (Panic q)
    then have "get_config hub k client u h = (Panic q, h)" using keeps by (simp add: prod_eq_iff)
    then show ?thesis by auto
  qed
qed

lemma only_Ok:
  assumes "\<forall>u \<in> set us. \<not> is_panic (f u)"
    and "concat (map (\<lambda>u. case f u of Err e \<Rightarrow> [g u e] | _ \<Rightarrow> []) us) = []"
  shows "map f us = map Ok (concat (map (\<lambda>u. case f u of Ok v \<Rightarrow> [v] | _ \<Rightarrow> []) us))"
  using assms by (induction us) (auto split: rres.splits)

lemma map_Ok_facts:
  assumes "map f us = map Ok vs"
  shows "concat (map (\<lambda>u. case f u of Ok v \<Rightarrow> [v] | _ \<Rightarrow> []) us) = vs"
    and "concat (map (\<lambda>u. case f u of Err e \<Rightarrow> [g u e] | _ \<Rightarrow> []) us) = []"
    and "\<forall>u \<in> set us. \<not> is_panic (f u)"
  using assms by (induction us arbitrary: vs) auto

text \<open>
  C13. If reading a file does not change the repository, the validators of a genesis are the registrations of all users of the
  layout, one for each and in its order: \<open>get_validator_configs\<close> returns a list exactly when every user's registration can be
  read, and one bad registration makes the whole genesis fail.
\<close>

theorem registrations_all_or_none:
  assumes "\<forall>c p h. snd (hb_get_file hub c p h) = h"
  shows "get_validator_configs hub k client users h = (Ok vs, h') \<longleftrightarrow>
    h' = h \<and> map (\<lambda>u. fst (get_config hub k client u h)) users = map Ok vs"
proof -
  let ?f = "\<lambda>u. fst (get_config hub k client u h)"
  have reads: "snd (hb_get_file hub c p h) = h" for c p h using assms by blast
  show ?thesis
  proof
    assume "get_validator_configs hub k client users h = (Ok vs, h')"
    then show "h' = h \<and> map ?f users = map Ok vs"
      unfolding get_validator_configs_def
      by (auto simp: io_bind_eq_Ok io_of_eq collect_Ok[OF reads] split: if_splits
          intro!: only_Ok[where g = "\<lambda>u e. u @ '': '' @ e"])
  next
    assume "h' = h \<and> map ?f users = map Ok vs"
    with map_Ok_facts[of ?f users vs] show "get_validator_configs hub k client users h = (Ok vs, h')"
      unfolding get_validator_configs_def io_bind_eq_Ok collect_Ok[OF reads]
      by (intro exI[of _ "(vs, [])"] exI[of _ h]) (simp add: io_of_eq collect_Ok[OF reads])
  qed
qed

section \<open>What is registered is what genesis reads\<close>

text \<open>How the YAML of a typed configuration looks to the reader of text fields.\<close>

definition owner_strings :: "(account_address \<Rightarrow> string) \<Rightarrow> OwnerConfiguration \<Rightarrow> StringOwnerConfiguration" where
  "owner_strings addr ow =
     \<lparr>so_owner_account_address = Some (addr (ow_owner_account_address ow)),
      so_owner_account_public_key = Some (enc_key (ow_owner_account_public_key ow)),
      so_voter_account_address = Some (addr (ow_voter_account_address ow)),
      so_voter_account_public_key = Some (enc_key (ow_voter_account_public_key ow)),
      so_operator_account_address = Some (addr (ow_operator_account_address ow)),
      so_operator_account_public_key = Some (enc_key (ow_operator_account_public_key ow)),
      so_stake_amount = Some (dec_str (unat (ow_stake_amount ow))),
      so_commission_percentage = Some (dec_str (unat (ow_commission_percentage ow))),
      so_join_during_genesis = Some (if ow_join_during_genesis ow then ''true'' else ''false'')\<rparr>"

definition operator_strings :: "(account_address \<Rightarrow> string) \<Rightarrow> OperatorConfiguration \<Rightarrow> StringOperatorConfiguration" where
  "operator_strings addr op =
     \<lparr>sc_operator_account_address = Some (addr (op_operator_account_address op)),
      sc_operator_account_public_key = Some (enc_key (op_operator_account_public_key op)),
      sc_consensus_public_key = Some (enc_key (op_consensus_public_key op)),
      sc_consensus_proof_of_possession = Some (enc_key (op_consensus_proof_of_possession op)),
      sc_validator_network_public_key = Some (enc_key (op_validator_network_public_key op)),
      sc_validator_host = op_validator_host op,
      sc_full_node_network_public_key = map_option enc_key (op_full_node_network_public_key op),
      sc_full_node_host = op_full_node_host op\<rparr>"

lemma operator_strings_hosts:
  "sc_validator_host (operator_strings addr op) = op_validator_host op"
  "sc_full_node_host (operator_strings addr op) = op_full_node_host op"
  by (simp_all add: operator_strings_def)

text \<open>The keys of a configuration have their length and the decoder of their kind accepts them.\<close>

definition good_key :: "nat \<Rightarrow> (string \<Rightarrow> bytes rres) \<Rightarrow> bytes \<Rightarrow> bool" where
  "good_key n f b \<longleftrightarrow> length b = n \<and> f (enc_key b) = Ok b"

definition good_owner_keys :: "registry \<Rightarrow> OwnerConfiguration \<Rightarrow> bool" where
  "good_owner_keys k ow \<longleftrightarrow> good_key 32 (gk_ed25519 k) (ow_owner_account_public_key ow) \<and>
     good_key 32 (gk_ed25519 k) (ow_operator_account_public_key ow) \<and> good_key 32 (gk_ed25519 k) (ow_voter_account_public_key ow)"

definition good_operator_keys :: "registry \<Rightarrow> OperatorConfiguration \<Rightarrow> bool" where
  "good_operator_keys k op \<longleftrightarrow> good_key 32 (gk_ed25519 k) (op_operator_account_public_key op) \<and>
     good_key 48 (gk_bls k) (op_consensus_public_key op) \<and> good_key 96 (gk_possession k) (op_consensus_proof_of_possession op) \<and>
     good_key 32 (gk_x25519 k) (op_validator_network_public_key op) \<and>
     pred_option (good_key 32 (gk_x25519 k)) (op_full_node_network_public_key op)"

lemma u64_text: "u64_from_str (dec_str (unat x)) = Ok x"
proof -
  have "unat x < 2 ^ LENGTH(64)" by (rule unsigned_less)
  then show ?thesis by (simp add: u64_from_str_def)
qed

locale registration_service =
  fixes hub :: "'h hub_api" and k :: registry and addr :: "account_address \<Rightarrow> string"
  assumes base64: "gk_decode k (gk_encode k s) = Ok s"
    and owner_yaml: "cy_owner_to (gk_yaml k) ow = Ok t \<Longrightarrow> rbind (gk_utf8 k t) (gk_owner_from k) = Ok (owner_strings addr ow)"
    and operator_yaml: "cy_operator_to (gk_yaml k) op = Ok t \<Longrightarrow> rbind (gk_utf8 k t) (gk_operator_from k) = Ok (operator_strings addr op)"
    and address: "gk_address k (addr a) = Ok a"
    and get_put: "hb_put hub c p s h = (Ok (), h') \<Longrightarrow> hb_get_file hub c p h' = (Ok s, h')"
    and get_other: "hb_put hub c p s h = (Ok (), h') \<Longrightarrow> q \<noteq> p \<Longrightarrow> hb_get_file hub c q h = (Ok x, h) \<Longrightarrow>
      hb_get_file hub c q h' = (Ok x, h')"
    and two_files: "gk_join k u OPERATOR_FILE \<noteq> gk_join k u OWNER_FILE"
begin

lemma owner_read:
  assumes "good_owner_keys k ow"
  shows "owner_fields_of k f (owner_strings addr ow) =
    Ok \<lparr>of_owner_account_address = ow_owner_account_address ow, of_owner_account_public_key = ow_owner_account_public_key ow,
        of_operator_account_address = ow_operator_account_address ow,
        of_operator_account_public_key = ow_operator_account_public_key ow,
        of_voter_account_address = ow_voter_account_address ow, of_voter_account_public_key = ow_voter_account_public_key ow,
        of_stake_amount = ow_stake_amount ow, of_commission_percentage = ow_commission_percentage ow,
        of_join_during_genesis = ow_join_during_genesis ow\<rparr>"
  using assms
  by (simp add: owner_fields_of_def owner_strings_def parse_required_option_def parse_optional_option_def field_error_def
      good_owner_keys_def good_key_def ed_key_def parse_key_enc address u64_text bool_from_str_def)

lemma operator_read:
  assumes "good_operator_keys k op"
  shows "operator_fields_of k f (operator_strings addr op) =
    Ok \<lparr>pf_operator_account_address = op_operator_account_address op,
        pf_operator_account_public_key = op_operator_account_public_key op,
        pf_consensus_public_key = op_consensus_public_key op,
        pf_consensus_proof_of_possession = op_consensus_proof_of_possession op,
        pf_validator_network_public_key = op_validator_network_public_key op,
        pf_full_node_network_public_key = op_full_node_network_public_key op\<rparr>"
  using assms
  by (cases "op_full_node_network_public_key op")
    (simp_all add: operator_fields_of_def operator_strings_def parse_required_option_def parse_optional_option_def field_error_def
      good_operator_keys_def good_key_def ed_key_def x_key_def parse_key_enc address)

lemma fetched:
  assumes "hb_get_file hub c p h = (Ok (gk_encode k t), h)" and "rbind (gk_utf8 k t) from_yaml = Ok x"
  shows "fetch_yaml hub k c p from_yaml h = (Ok x, h)"
  using assms by (simp add: fetch_yaml_def base64)

lemma register_files:
  assumes configs: "read_configs_from_file (gk_yaml k) (gk_home k) (gk_join k) (Some home) fs = Ok (op, ow)"
    and run: "register hub k user owner repo token home fs h = (Ok (), h')"
  obtains op_yaml ow_yaml where "cy_operator_to (gk_yaml k) op = Ok op_yaml" and "cy_owner_to (gk_yaml k) ow = Ok ow_yaml"
    and "hb_get_file hub \<lparr>gt_owner = owner, gt_repository = repo, gt_branch = ''main'', gt_token = token\<rparr>
           (gk_join k user OPERATOR_FILE) h' = (Ok (gk_encode k op_yaml), h')"
    and "hb_get_file hub \<lparr>gt_owner = owner, gt_repository = repo, gt_branch = ''main'', gt_token = token\<rparr>
           (gk_join k user OWNER_FILE) h' = (Ok (gk_encode k ow_yaml), h')"
proof -
  let ?c = "\<lparr>gt_owner = owner, gt_repository = repo, gt_branch = ''main'', gt_token = token\<rparr>"
  obtain op_yaml ow_yaml h1 where y: "cy_operator_to (gk_yaml k) op = Ok op_yaml" "cy_owner_to (gk_yaml k) ow = Ok ow_yaml"
    and put: "hb_put hub ?c (gk_join k user OPERATOR_FILE) (gk_encode k op_yaml) h = (Ok (), h1)"
      "hb_put hub ?c (gk_join k user OWNER_FILE) (gk_encode k ow_yaml) h1 = (Ok (), h')"
    using run by (auto simp: register_def configs Let_def io_bind_eq_Ok io_of_eq)
  have "hb_get_file hub ?c (gk_join k user OPERATOR_FILE) h' = (Ok (gk_encode k op_yaml), h')"
    using get_other[OF put(2) two_files get_put[OF put(1)]] .
  with that[OF y] get_put[OF put(2)] show ?thesis by blast
qed

end

text \<open>The validator a registration stands for.\<close>

definition registered :: "OperatorConfiguration \<Rightarrow> OwnerConfiguration \<Rightarrow> ValidatorConfiguration" where
  "registered op ow =
     \<lparr>va_owner_account_address = ow_owner_account_address ow, va_owner_account_public_key = ow_owner_account_public_key ow,
      va_operator_account_address = op_operator_account_address op,
      va_operator_account_public_key = op_operator_account_public_key op,
      va_voter_account_address = ow_voter_account_address ow, va_voter_account_public_key = ow_voter_account_public_key ow,
      va_consensus_public_key = Some (op_consensus_public_key op),
      va_proof_of_possession = Some (op_consensus_proof_of_possession op),
      va_validator_network_public_key = Some (op_validator_network_public_key op),
      va_validator_host = Some (op_validator_host op),
      va_full_node_network_public_key = op_full_node_network_public_key op, va_full_node_host = op_full_node_host op,
      va_stake_amount = ow_stake_amount ow, va_commission_percentage = ow_commission_percentage ow,
      va_join_during_genesis = ow_join_during_genesis ow\<rparr>"

text \<open>
  C12. After a successful registration, reading that user's configuration from the repository succeeds exactly when
  the owner's and the operator's files name the same operator account and key, and then returns the values of
  the two files; otherwise it is an error. The repository returns what was put, and keys have their length.
\<close>

theorem registration_roundtrip:
  assumes "registration_service hub k addr"
    and "read_configs_from_file (gk_yaml k) (gk_home k) (gk_join k) (Some home) fs = Ok (op, ow)"
    and "good_owner_keys k ow" and "good_operator_keys k op"
    and "register hub k user owner repo token home fs h = (Ok (), h')"
  shows "\<exists>e. get_config hub k \<lparr>gt_owner = owner, gt_repository = repo, gt_branch = ''main'', gt_token = token\<rparr> user h' =
    (if ow_operator_account_address ow = op_operator_account_address op \<and>
        ow_operator_account_public_key ow = op_operator_account_public_key op
     then Ok (registered op ow) else Err e, h')"
proof -
  obtain op_yaml ow_yaml where y: "cy_operator_to (gk_yaml k) op = Ok op_yaml" "cy_owner_to (gk_yaml k) ow = Ok ow_yaml"
    and get: "hb_get_file hub \<lparr>gt_owner = owner, gt_repository = repo, gt_branch = ''main'', gt_token = token\<rparr>
        (gk_join k user OPERATOR_FILE) h' = (Ok (gk_encode k op_yaml), h')"
      "hb_get_file hub \<lparr>gt_owner = owner, gt_repository = repo, gt_branch = ''main'', gt_token = token\<rparr>
        (gk_join k user OWNER_FILE) h' = (Ok (gk_encode k ow_yaml), h')"
    by (rule registration_service.register_files[OF assms(1,2,5)])
  note [simp] =
    registration_service.fetched[OF assms(1) get(1), of "gk_operator_from k", OF registration_service.operator_yaml[OF assms(1) y(1)]]
    registration_service.fetched[OF assms(1) get(2), of "gk_owner_from k", OF registration_service.owner_yaml[OF assms(1) y(2)]]
    registration_service.owner_read[OF assms(1,3)] registration_service.operator_read[OF assms(1,4)]
  show ?thesis
    by (auto simp: get_config_def Let_def validator_of_def registered_def operator_strings_hosts)
qed

section \<open>A concrete repository\<close>

text \<open>The repository maps client and path to contents; the codecs know one configuration of each kind.\<close>

type_synonym ref_hub = "git_client \<times> string \<rightharpoonup> string"

definition ref_hub_api :: "ref_hub hub_api" where
  "ref_hub_api = \<lparr>hb_get_file = (\<lambda>c p h. (or_err ''404'' (h (c, p)), h)), hb_put = (\<lambda>c p s h. (Ok (), h((c, p) \<mapsto> s))),
     hb_get_branches = (\<lambda>c h. (Ok (), h)), hb_request = (\<lambda>c m u j h. ((200, JObject [(''login'', JString ''alice'')]), h)),
     hb_error = (\<lambda>_. ''failed'')\<rparr>"

definition reg_operator :: OperatorConfiguration where
  "reg_operator = \<lparr>op_operator_account_address = [7], op_operator_account_public_key = replicate 32 1,
     op_consensus_public_key = replicate 48 2, op_consensus_proof_of_possession = replicate 96 3,
     op_validator_network_public_key = replicate 32 4, op_validator_host = \<lparr>hp_host = ''10.0.0.1'', hp_port = 6180\<rparr>,
     op_full_node_network_public_key = Some (replicate 32 4), op_full_node_host = None\<rparr>"

definition reg_owner :: OwnerConfiguration where
  "reg_owner = \<lparr>ow_owner_account_address = [7], ow_owner_account_public_key = replicate 32 1,
     ow_voter_account_address = [7], ow_voter_account_public_key = replicate 32 1,
     ow_operator_account_address = [7], ow_operator_account_public_key = replicate 32 1,
     ow_stake_amount = 1, ow_commission_percentage = 1, ow_join_during_genesis = True\<rparr>"

definition ref_chars :: "account_address \<Rightarrow> string" where
  "ref_chars a = map (\<lambda>b. char_of (unat b)) a"

definition ref_unhex :: "nat \<Rightarrow> u8 list \<Rightarrow> string \<Rightarrow> bytes rres" where
  "ref_unhex n known s =
     (case find (\<lambda>b. s = enc_key (replicate n b)) known of Some b \<Rightarrow> Ok (replicate n b) | None \<Rightarrow> Err ''bad key'')"

definition ref_registry :: registry where
  "ref_registry = \<lparr>gk_encode = (\<lambda>s. s), gk_decode = Ok, gk_utf8 = Ok, gk_layout_from = (\<lambda>s. Ok [s]),
     gk_owner_from = (\<lambda>_. Ok (owner_strings ref_chars reg_owner)),
     gk_operator_from = (\<lambda>_. Ok (operator_strings ref_chars reg_operator)),
     gk_address = (\<lambda>s. Ok (map (\<lambda>c. of_nat (of_char c)) s)), gk_ed25519 = ref_unhex 32 [1], gk_bls = ref_unhex 48 [2],
     gk_possession = ref_unhex 96 [3], gk_x25519 = ref_unhex 32 [4],
     gk_yaml = \<lparr>cy_public_from = (\<lambda>_. Err ''none''),
       cy_operator_to = (\<lambda>c. if c = reg_operator then Ok ''operator'' else Err ''unknown''),
       cy_operator_from = (\<lambda>_. Ok reg_operator),
       cy_owner_to = (\<lambda>c. if c = reg_owner then Ok ''owner'' else Err ''unknown''), cy_owner_from = (\<lambda>_. Ok reg_owner)\<rparr>,
     gk_home = ''/root/.libra'', gk_join = (\<lambda>d f. d @ ''/'' @ f)\<rparr>"

lemma ref_chars_back: "map (\<lambda>c. of_nat (of_char c)) (ref_chars a) = a"
proof -
  have "of_nat (of_char (char_of (unat b) :: char)) = b" for b :: u8
  proof -
    have "unat b < 2 ^ LENGTH(8)" by (rule unsigned_less)
    then show ?thesis by simp
  qed
  then show ?thesis by (simp add: ref_chars_def map_idI)
qed

interpretation ref_service: registration_service ref_hub_api ref_registry ref_chars
  by unfold_locales
    (auto simp: ref_hub_api_def ref_registry_def OPERATOR_FILE_def OWNER_FILE_def ref_chars_back split: if_splits)

lemma ref_register: "register ref_hub_api ref_registry ''u'' ''alice'' ''genesis'' ''t'' ''h'' ([''h/operator.yaml'' \<mapsto> ''a'', ''h/owner.yaml'' \<mapsto> ''b'']) Map.empty =
   (Ok (), [(\<lparr>gt_owner = ''alice'', gt_repository = ''genesis'', gt_branch = ''main'', gt_token = ''t''\<rparr>, ''u/operator.yaml'') \<mapsto> ''operator'',
     (\<lparr>gt_owner = ''alice'', gt_repository = ''genesis'', gt_branch = ''main'', gt_token = ''t''\<rparr>, ''u/owner.yaml'') \<mapsto> ''owner''])"
  by (simp add: register_def Let_def ref_registry_def ref_hub_api_def read_configs_from_file_def OPERATOR_FILE_def OWNER_FILE_def)

theorem registration_roundtrip_witness:
  "\<exists>h'. get_config ref_hub_api ref_registry \<lparr>gt_owner = ''alice'', gt_repository = ''genesis'', gt_branch = ''main'', gt_token = ''t''\<rparr> ''u'' h' =
     (Ok (registered reg_operator reg_owner), h')"
proof -
  have configs: "read_configs_from_file (gk_yaml ref_registry) (gk_home ref_registry) (gk_join ref_registry) (Some ''h'')
      ([''h/operator.yaml'' \<mapsto> ''a'', ''h/owner.yaml'' \<mapsto> ''b'']) = Ok (reg_operator, reg_owner)"
    by (simp add: ref_registry_def read_configs_from_file_def OPERATOR_FILE_def OWNER_FILE_def)
  have "good_owner_keys ref_registry reg_owner" "good_operator_keys ref_registry reg_operator"
    by (simp_all add: good_owner_keys_def good_operator_keys_def good_key_def ref_registry_def reg_owner_def reg_operator_def ref_unhex_def)
  from registration_roundtrip[OF ref_service.registration_service_axioms configs this ref_register] show ?thesis
    by (auto simp: reg_owner_def reg_operator_def)
qed

lemma ref_reads: "\<forall>c p h. snd (hb_get_file ref_hub_api c p h) = h"
  by (simp add: ref_hub_api_def)

theorem registrations_all_or_none_witness:
  "get_validator_configs ref_hub_api ref_registry \<lparr>gt_owner = ''alice'', gt_repository = ''genesis'', gt_branch = ''main'', gt_token = ''t''\<rparr>
     [''u''] Map.empty \<noteq> (Ok [registered reg_operator reg_owner], Map.empty)"
  unfolding registrations_all_or_none[OF ref_reads]
  by (simp add: get_config_def fetch_yaml_def ref_hub_api_def Let_def)

end
