(* ===== verification/Rescue_Session.thy ===== *)
theory Rescue_Session
  imports Genesis_Migrate Txs_Commands
begin

text \<open>
  Offline VM sessions of the rescue tool (\<^verbatim>\<open>src/tools/rescue/src/session_tools.rs\<close>): the Move calls that replace validators,
  publish a framework and make the resulting write set acceptable to a node.

  A session is a state \<open>'s\<close> of the vendor's VM, and \<open>move_vm\<close> collects the vendor's functions: parsing of a function tag, execution of a Move function on
  values (serialization included), decoding of a return value, reading and publishing of a release bundle, a session on the latest
  version of a database, and the change set of a session. A \<open>PathBuf\<close> is a string.
\<close>

section \<open>Sessions\<close>

type_synonym fn_tag = "account_address \<times> string \<times> string \<times> string list"
type_synonym move_return = "bytes \<times> string"

record VMChangeSet =
  vm_write_set :: bytes
  vm_delta_change_set :: bytes
  vm_events :: "bytes list"

record ChangeSet =
  cs_write_set :: bytes
  cs_events :: "bytes list"

record ('s, 'm, 'db) move_vm =
  mv_parse_tag :: "string \<Rightarrow> fn_tag rres"
  mv_execute :: "fn_tag \<Rightarrow> MoveValue list \<Rightarrow> 's \<Rightarrow> move_return list rres \<times> 's"
  mv_deserialize :: "move_return \<Rightarrow> MoveValue rres"
  mv_read_bundle :: "string \<Rightarrow> files \<Rightarrow> 'm rres"
  mv_publish :: "'m \<Rightarrow> account_address \<Rightarrow> 's \<Rightarrow> unit rres \<times> 's"
  mv_open :: "'db \<Rightarrow> 's rres"
  mv_finish :: "'s \<Rightarrow> VMChangeSet rres"

text \<open>\<open>Result::expect\<close> on the result of an effect.\<close>

definition io_expect :: "string \<Rightarrow> ('a, 's) io \<Rightarrow> ('a, 's) io" where
  "io_expect msg m = (\<lambda>s. case m s of (r, t) \<Rightarrow> (unwrap msg r, t))"

lemma io_expect_eq_Ok [rust_simps]: "io_expect msg m s = (Ok x, t) \<longleftrightarrow> m s = (Ok x, t)"
  by (auto simp: io_expect_def rust_simps split: prod.splits)

definition libra_execute_session_function ::
  "('s, 'm, 'db) move_vm \<Rightarrow> string \<Rightarrow> MoveValue list \<Rightarrow> (move_return list, 's) io" where
  "libra_execute_session_function vm function_str args =
     io_bind (io_of (mv_parse_tag vm function_str)) (\<lambda>function_tag. mv_execute vm function_tag args)"

text \<open>A call whose return values are dropped: \<open>libra_execute_session_function(..)?;\<close>.\<close>

definition session_call :: "('s, 'm, 'db) move_vm \<Rightarrow> string \<Rightarrow> MoveValue list \<Rightarrow> (unit, 's) io" where
  "session_call vm function_str args = io_bind (libra_execute_session_function vm function_str args) (\<lambda>_. io_of (Ok ()))"

definition create_account_call :: "ValCredentials \<Rightarrow> string \<times> MoveValue list" where
  "create_account_call cred = (''0x1::ol_account::create_impl'', [MSigner core_code_address, MSigner (vc_account cred)])"

definition register_one :: "('s, 'm, 'db) move_vm \<Rightarrow> ValCredentials \<Rightarrow> (unit, 's) io" where
  "register_one vm cred =
     (let signer = MSigner (vc_account cred);
          amount = MU64 (1000 * 1000000);
          args = [signer, vector_u8 (vc_consensus_pubkey cred), vector_u8 (vc_proof_of_possession cred),
                  vector_u8 (vc_network_addresses cred), vector_u8 (vc_fullnode_addresses cred)] in
      io_bind (session_call vm ''0x1::stake::configure_allowed_validators''
                 [MSigner core_code_address, vector_address [vc_account cred]]) (\<lambda>_.
      io_match (libra_execute_session_function vm (fst (create_account_call cred)) (snd (create_account_call cred)))
        (\<lambda>_. io_bind (session_call vm ''0x1::libra_coin::mint_to_impl'' [MSigner core_code_address, signer, amount]) (\<lambda>_.
             session_call vm ''0x1::validator_universe::register_validator'' args))
        (\<lambda>_. io_of (Ok ()))))"

definition session_register_validators ::
  "('s, 'm, 'db) move_vm \<Rightarrow> ValCredentials list \<Rightarrow> (unit, 's) io" where
  "session_register_validators vm creds =
     io_bind (session_call vm ''0x1::stake::bulk_set_next_validators'' [MSigner core_code_address, vector_address []]) (\<lambda>_.
     io_bind (for_each (register_one vm) creds) (\<lambda>_.
     session_call vm ''0x1::diem_governance::set_validators''
       [MSigner core_code_address, vector_address (map vc_account creds)]))"

definition upgrade_framework_from_mrb_file ::
  "('s, 'm, 'db) move_vm \<Rightarrow> files \<Rightarrow> string \<Rightarrow> (unit, 's) io" where
  "upgrade_framework_from_mrb_file vm fs upgrade_mrb =
     io_bind (io_of (mv_read_bundle vm upgrade_mrb fs)) (\<lambda>new_modules. mv_publish vm new_modules core_code_address)"

definition change_chain_id :: "('s, 'm, 'db) move_vm \<Rightarrow> u8 \<Rightarrow> (unit, 's) io" where
  "change_chain_id vm chain_id =
     io_bind (session_call vm ''0x1::chain_id::set_impl'' [MSigner core_code_address, MU8 chain_id]) (\<lambda>_.
     session_call vm ''0x1::block::update_epoch_interval_microsecs''
       [MSigner core_code_address, MU64 (5 * 60 * 1000000)])"

definition remove_gov_mode_flag :: "('s, 'm, 'db) move_vm \<Rightarrow> (unit, 's) io" where
  "remove_gov_mode_flag vm =
     session_call vm ''0x1::features::change_feature_flags'' [MSigner core_code_address, MVector [], MVector [MU64 25]]"

section \<open>Time and events\<close>

text \<open>The greatest \<open>u64\<close> among the return values.\<close>

fun latest_u64 :: "('s, 'm, 'db) move_vm \<Rightarrow> move_return list \<Rightarrow> u64 \<Rightarrow> u64 rres" where
  "latest_u64 vm [] last_ms = Ok last_ms"
| "latest_u64 vm (v # vs) last_ms =
     rbind (unwrap ''to parse timestamp::now_microseconds'' (mv_deserialize vm v)) (\<lambda>secs.
     latest_u64 vm vs (case secs of MU64 t \<Rightarrow> if t > last_ms then t else last_ms | _ \<Rightarrow> last_ms))"

definition voodoo_time_travel :: "('s, 'm, 'db) move_vm \<Rightarrow> (unit, 's) io" where
  "voodoo_time_travel vm =
     io_bind (libra_execute_session_function vm ''0x1::timestamp::now_microseconds'' []) (\<lambda>return_values.
     io_bind (io_of (latest_u64 vm return_values 0)) (\<lambda>last_timestamp_in_db_ms.
     session_call vm ''0x1::timestamp::update_global_time''
       [MSigner zero_address, MAddress core_code_address, MU64 (last_timestamp_in_db_ms + 7)]))"

definition writeset_voodoo_events :: "('s, 'm, 'db) move_vm \<Rightarrow> (unit, 's) io" where
  "writeset_voodoo_events vm =
     io_bind (session_call vm ''0x1::stake::on_new_epoch'' []) (\<lambda>_.
     io_bind (session_call vm ''0x1::block::emit_writeset_block_event''
                [MSigner zero_address, MAddress core_code_address]) (\<lambda>_.
     session_call vm ''0x1::reconfiguration::reconfigure'' []))"

section \<open>Running a session on a database\<close>

definition prefix_err :: "string \<Rightarrow> ('a, 's) io \<Rightarrow> ('a, 's) io" where
  "prefix_err msg m = io_match m (\<lambda>x. io_of (Ok x)) (\<lambda>e. io_of (Err (msg @ e)))"

definition session_body ::
  "('s, 'm, 'db) move_vm \<Rightarrow> (unit, 's) io \<Rightarrow> account_address list option \<Rightarrow> u64 option \<Rightarrow> (unit, 's) io" where
  "session_body vm f debug_vals debug_epoch_interval_microsecs =
     io_bind (voodoo_time_travel vm) (\<lambda>_.
     io_bind (prefix_err ''Unexpected VM Error Running Rescue VM Session: '' f) (\<lambda>_.
     io_bind (case debug_vals of
                None \<Rightarrow> io_of (Ok ())
              | Some vals \<Rightarrow> session_call vm ''0x1::diem_governance::set_validators''
                              [MSigner core_code_address, vector_address vals]) (\<lambda>_.
     case debug_epoch_interval_microsecs of
       None \<Rightarrow> io_of (Ok ())
     | Some ms \<Rightarrow>
         io_bind (io_expect ''set epoch interval seconds''
                    (session_call vm ''0x1::block::update_epoch_interval_microsecs'' [MSigner core_code_address, MU64 ms]))
           (\<lambda>_. session_call vm ''0x1::reconfiguration::reconfigure'' []))))"

text \<open>\<open>db\<close> is the database of the directory \<open>dir\<close>, opened for reading; nothing is written to it.\<close>

definition libra_run_session ::
  "('s, 'm, 'db) move_vm \<Rightarrow> 'db rres \<Rightarrow> (unit, 's) io \<Rightarrow> account_address list option \<Rightarrow> u64 option \<Rightarrow> VMChangeSet rres" where
  "libra_run_session vm db f debug_vals debug_epoch_interval_microsecs =
     rbind db (\<lambda>d.
     rbind (mv_open vm d) (\<lambda>v.
     case session_body vm f debug_vals debug_epoch_interval_microsecs v of
       (r, session) \<Rightarrow> rbind r (\<lambda>_. mv_finish vm session)))"

definition unpack_to_changeset :: "VMChangeSet \<Rightarrow> ChangeSet" where
  "unpack_to_changeset vmc = \<lparr>cs_write_set = vm_write_set vmc, cs_events = vm_events vmc\<rparr>"

definition upgrade_session :: "('s, 'm, 'db) move_vm \<Rightarrow> files \<Rightarrow> string \<Rightarrow> (unit, 's) io" where
  "upgrade_session vm fs upgrade_mrb =
     io_bind (io_expect ''should publish framework'' (upgrade_framework_from_mrb_file vm fs upgrade_mrb)) (\<lambda>_.
     io_expect ''should voodoo, who do?'' (writeset_voodoo_events vm))"

definition upgrade_framework_changeset ::
  "('s, 'm, 'db) move_vm \<Rightarrow> files \<Rightarrow> 'db rres \<Rightarrow> account_address list option \<Rightarrow> string \<Rightarrow> ChangeSet rres" where
  "upgrade_framework_changeset vm fs db debug_vals upgrade_mrb =
     rbind (libra_run_session vm db (upgrade_session vm fs upgrade_mrb) debug_vals None) (\<lambda>vmc.
     Ok (unpack_to_changeset vmc))"

definition replace_session ::
  "('s, 'm, 'db) move_vm \<Rightarrow> files \<Rightarrow> ValCredentials list \<Rightarrow> string option \<Rightarrow> u8 option \<Rightarrow> (unit, 's) io" where
  "replace_session vm fs replacement_vals upgrade_mrb chain_id =
     io_bind (case upgrade_mrb of
                None \<Rightarrow> io_of (Ok ())
              | Some p \<Rightarrow> io_expect ''could not upgrade framework'' (upgrade_framework_from_mrb_file vm fs p)) (\<lambda>_.
     io_bind (io_expect ''could not register validators'' (session_register_validators vm replacement_vals)) (\<lambda>_.
     io_bind (io_expect ''could not change chain id''
                (change_chain_id vm (case chain_id of Some c \<Rightarrow> c | None \<Rightarrow> 2))) (\<lambda>_.
     io_bind (io_expect ''could not remove governance mode'' (remove_gov_mode_flag vm)) (\<lambda>_.
     io_expect ''should voodoo, who do?'' (writeset_voodoo_events vm)))))"

definition register_and_replace_validators_changeset ::
  "('s, 'm, 'db) move_vm \<Rightarrow> files \<Rightarrow> 'db rres \<Rightarrow> ValCredentials list \<Rightarrow> string option \<Rightarrow> u8 option \<Rightarrow> ChangeSet rres" where
  "register_and_replace_validators_changeset vm fs db replacement_vals upgrade_mrb chain_id =
     rbind (libra_run_session vm db (replace_session vm fs replacement_vals upgrade_mrb chain_id) None None) (\<lambda>vmc.
     Ok (unpack_to_changeset vmc))"

section \<open>What a session does\<close>

text \<open>
  A session as a list of calls on the VM: a call that is accepted, whatever it returns, one that returns given values, one that
  is refused with an error, and the publication of the bundle in a file. \<open>replays\<close> performs them on a state of the VM, as long as
  each of them has that outcome.
\<close>

datatype session_event =
    Called string "MoveValue list"
  | Returned string "MoveValue list" "move_return list"
  | Refused string "MoveValue list"
  | Published string account_address

fun replay :: "('s, 'm, 'db) move_vm \<Rightarrow> files \<Rightarrow> session_event \<Rightarrow> 's \<Rightarrow> 's option" where
  "replay vm fs (Called f args) s =
     (case libra_execute_session_function vm f args s of (Ok _, t) \<Rightarrow> Some t | _ \<Rightarrow> None)"
| "replay vm fs (Returned f args rets) s =
     (case libra_execute_session_function vm f args s of (Ok rs, t) \<Rightarrow> if rs = rets then Some t else None | _ \<Rightarrow> None)"
| "replay vm fs (Refused f args) s =
     (case libra_execute_session_function vm f args s of (Err _, t) \<Rightarrow> Some t | _ \<Rightarrow> None)"
| "replay vm fs (Published p a) s =
     (case mv_read_bundle vm p fs of
        Ok ms \<Rightarrow> (case mv_publish vm ms a s of (Ok _, t) \<Rightarrow> Some t | _ \<Rightarrow> None)
      | _ \<Rightarrow> None)"

fun replays :: "('s, 'm, 'db) move_vm \<Rightarrow> files \<Rightarrow> session_event list \<Rightarrow> 's \<Rightarrow> 's option" where
  "replays vm fs [] s = Some s"
| "replays vm fs (e # es) s = Option.bind (replay vm fs e s) (replays vm fs es)"

lemma replays_append: "replays vm fs (es @ ds) s = Option.bind (replays vm fs es s) (replays vm fs ds)"
  by (induction es arbitrary: s) (auto split: bind_split)

lemma replay_iff:
  "replay vm fs (Called f args) s = Some t \<longleftrightarrow> (\<exists>rs. libra_execute_session_function vm f args s = (Ok rs, t))"
  "replay vm fs (Returned f args rets) s = Some t \<longleftrightarrow> libra_execute_session_function vm f args s = (Ok rets, t)"
  "replay vm fs (Refused f args) s = Some t \<longleftrightarrow> (\<exists>e. libra_execute_session_function vm f args s = (Err e, t))"
  "replay vm fs (Published p a) s = Some t \<longleftrightarrow> (\<exists>ms. mv_read_bundle vm p fs = Ok ms \<and> mv_publish vm ms a s = (Ok (), t))"
  by (auto split: prod.splits rres.splits)

text \<open>An effect that succeeds from one state to another exactly when one of the lists of events leads there.\<close>

definition does :: "('s, 'm, 'db) move_vm \<Rightarrow> files \<Rightarrow> (unit, 's) io \<Rightarrow> session_event list set \<Rightarrow> bool" where
  "does vm fs m L \<longleftrightarrow> (\<forall>s t. m s = (Ok (), t) \<longleftrightarrow> (\<exists>es \<in> L. replays vm fs es s = Some t))"

lemma doesD: "does vm fs m L \<Longrightarrow> m s = (Ok (), t) \<longleftrightarrow> (\<exists>es \<in> L. replays vm fs es s = Some t)"
  by (simp add: does_def)

lemma session_call_Ok:
  "session_call vm f args s = (Ok u, t) \<longleftrightarrow> (\<exists>rs. libra_execute_session_function vm f args s = (Ok rs, t))"
  by (auto simp: session_call_def rust_simps)

lemma does_call: "does vm fs (session_call vm f args) {[Called f args]}"
  by (simp add: does_def session_call_Ok bind_eq_Some_conv replay_iff del: replay.simps)

lemma does_skip: "does vm fs (io_of (Ok ())) {[]}"
  by (auto simp: does_def rust_simps)

lemma does_expect: "does vm fs m L \<Longrightarrow> does vm fs (io_expect msg m) L"
  by (simp add: does_def rust_simps)

lemma prefix_err_Ok: "prefix_err msg m s = (Ok x, t) \<longleftrightarrow> m s = (Ok x, t)"
  by (auto simp: prefix_err_def io_match_def rust_simps split: prod.splits rres.splits)

lemma does_prefix_err: "does vm fs m L \<Longrightarrow> does vm fs (prefix_err msg m) L"
  by (simp add: does_def prefix_err_Ok)

lemma does_bind:
  assumes "does vm fs m L" and "does vm fs k K"
  shows "does vm fs (io_bind m (\<lambda>_. k)) {a @ b |a b. a \<in> L \<and> b \<in> K}"
  unfolding does_def
proof (intro allI)
  fix s t
  have "io_bind m (\<lambda>_. k) s = (Ok (), t) \<longleftrightarrow> (\<exists>u. m s = (Ok (), u) \<and> k u = (Ok (), t))"
    by (auto simp: rust_simps)
  also have "\<dots> \<longleftrightarrow> (\<exists>u. (\<exists>a \<in> L. replays vm fs a s = Some u) \<and> (\<exists>b \<in> K. replays vm fs b u = Some t))"
    by (simp add: doesD[OF assms(1)] doesD[OF assms(2)])
  also have "\<dots> \<longleftrightarrow> (\<exists>a \<in> L. \<exists>b \<in> K. replays vm fs (a @ b) s = Some t)"
    unfolding replays_append bind_eq_Some_conv by blast
  also have "\<dots> \<longleftrightarrow> (\<exists>es \<in> {a @ b |a b. a \<in> L \<and> b \<in> K}. replays vm fs es s = Some t)" by blast
  finally show "io_bind m (\<lambda>_. k) s = (Ok (), t) \<longleftrightarrow> \<dots>" .
qed

lemma does_eq: "does vm fs m L \<Longrightarrow> L = K \<Longrightarrow> does vm fs m K"
  by simp

text \<open>
  The calls the tool stands for: a credential is always allowed, and creating its account is always tried; only when that is
  accepted it is funded and registered. The validator set is the list of all credentials either way.
\<close>

definition candidate_events :: "ValCredentials \<Rightarrow> bool \<Rightarrow> session_event list" where
  "candidate_events cred created =
     Called ''0x1::stake::configure_allowed_validators'' [MSigner core_code_address, vector_address [vc_account cred]] #
     (if created then
        [Called ''0x1::ol_account::create_impl'' [MSigner core_code_address, MSigner (vc_account cred)],
         Called ''0x1::libra_coin::mint_to_impl''
           [MSigner core_code_address, MSigner (vc_account cred), MU64 1000000000],
         Called ''0x1::validator_universe::register_validator''
           [MSigner (vc_account cred), vector_u8 (vc_consensus_pubkey cred), vector_u8 (vc_proof_of_possession cred),
            vector_u8 (vc_network_addresses cred), vector_u8 (vc_fullnode_addresses cred)]]
      else [Refused ''0x1::ol_account::create_impl'' [MSigner core_code_address, MSigner (vc_account cred)]])"

definition time_events :: "move_return list \<Rightarrow> u64 \<Rightarrow> session_event list" where
  "time_events rets now =
     [Returned ''0x1::timestamp::now_microseconds'' [] rets,
      Called ''0x1::timestamp::update_global_time''
        [MSigner zero_address, MAddress core_code_address, MU64 (now + 7)]]"

definition register_events :: "(ValCredentials \<times> bool) list \<Rightarrow> session_event list" where
  "register_events cs =
     [Called ''0x1::stake::bulk_set_next_validators'' [MSigner core_code_address, vector_address []]] @
     concat (map (\<lambda>(c, b). candidate_events c b) cs) @
     [Called ''0x1::diem_governance::set_validators''
        [MSigner core_code_address, vector_address (map (\<lambda>(c, _). vc_account c) cs)]]"

definition closing_events :: "session_event list" where
  "closing_events =
     [Called ''0x1::stake::on_new_epoch'' [],
      Called ''0x1::block::emit_writeset_block_event'' [MSigner zero_address, MAddress core_code_address],
      Called ''0x1::reconfiguration::reconfigure'' []]"

definition chain_events :: "u8 \<Rightarrow> session_event list" where
  "chain_events chain_id =
     [Called ''0x1::chain_id::set_impl'' [MSigner core_code_address, MU8 chain_id],
      Called ''0x1::block::update_epoch_interval_microsecs'' [MSigner core_code_address, MU64 300000000],
      Called ''0x1::features::change_feature_flags'' [MSigner core_code_address, MVector [], MVector [MU64 25]]]"

definition publish_events :: "string option \<Rightarrow> session_event list" where
  "publish_events upgrade_mrb = (case upgrade_mrb of None \<Rightarrow> [] | Some p \<Rightarrow> [Published p core_code_address])"

definition replace_events ::
  "move_return list \<Rightarrow> u64 \<Rightarrow> (ValCredentials \<times> bool) list \<Rightarrow> string option \<Rightarrow> u8 option \<Rightarrow> session_event list" where
  "replace_events rets now cs upgrade_mrb chain_id =
     time_events rets now @ publish_events upgrade_mrb @ register_events cs @
     chain_events (case chain_id of Some c \<Rightarrow> c | None \<Rightarrow> 2) @ closing_events"

text \<open>The time read is the greatest \<open>u64\<close> among the decoded values, or zero.\<close>

definition latest_time :: "MoveValue list \<Rightarrow> u64" where
  "latest_time vals = Max (insert 0 {t. MU64 t \<in> set vals})"

lemma finite_times: "finite {t. MU64 t \<in> set vals}"
proof -
  have "{t. MU64 t \<in> set vals} = MU64 -` set vals" by auto
  then show ?thesis by (simp add: finite_vimageI inj_def)
qed

lemma latest_u64_Ok:
  "latest_u64 vm rets l = Ok now \<longleftrightarrow>
     (\<exists>vals. rmapM (mv_deserialize vm) rets = Ok vals \<and> now = Max (insert l {t. MU64 t \<in> set vals}))"
proof (induction vm rets l rule: latest_u64.induct)
  case (2 vm v vs l)
  show ?case
  proof (cases "mv_deserialize vm v")
    case (Ok x)
    let ?l = "case x of MU64 t \<Rightarrow> if t > l then t else l | _ \<Rightarrow> l"
    have "Max (insert ?l {t. MU64 t \<in> set vals}) = Max (insert l {t. MU64 t \<in> set (x # vals)})" for vals
    proof (cases x)
      case (MU64 t)
      have "{u. MU64 u \<in> set (x # vals)} = insert t {u. MU64 u \<in> set vals}" by (auto simp: MU64)
      moreover have "Max (insert (max l t) A) = Max (insert l (insert t A))" if "finite A" for A
        using that by (cases "A = {}") (simp_all add: max.assoc max.commute max.left_commute)
      moreover have "?l = max l t" by (simp add: MU64)
      ultimately show ?thesis by (simp only: finite_times)
    qed simp_all
    with 2 Ok show ?thesis by (auto simp: rust_simps)
  qed simp_all
qed auto

lemma does_time:
  "does vm fs (voodoo_time_travel vm) {time_events rets (latest_time vals) |rets vals. rmapM (mv_deserialize vm) rets = Ok vals}"
proof -
  have "voodoo_time_travel vm s = (Ok (), t) \<longleftrightarrow>
      (\<exists>rets vals. rmapM (mv_deserialize vm) rets = Ok vals \<and> replays vm fs (time_events rets (latest_time vals)) s = Some t)" for s t
    unfolding voodoo_time_travel_def io_bind_eq_Ok io_of_eq latest_u64_Ok session_call_Ok time_events_def latest_time_def
    by (auto simp: bind_eq_Some_conv replay_iff simp del: replay.simps)
  then show ?thesis by (auto simp: does_def)
qed

lemma does_candidate: "does vm fs (register_one vm cred) (range (candidate_events cred))"
proof -
  let ?create = "libra_execute_session_function vm (fst (create_account_call cred)) (snd (create_account_call cred))"
  have "register_one vm cred s = (Ok (), t) \<longleftrightarrow>
      replays vm fs (candidate_events cred True) s = Some t \<or> replays vm fs (candidate_events cred False) s = Some t" for s t
  proof -
    have create: "io_match ?create (\<lambda>_. m) (\<lambda>_. io_of (Ok ())) u = (Ok (), t) \<longleftrightarrow>
        (\<exists>rs v. ?create u = (Ok rs, v) \<and> m v = (Ok (), t)) \<or> (\<exists>e. ?create u = (Err e, t))" for m u
      by (cases "?create u"; cases "fst (?create u)") (auto simp: io_match_def rust_simps)
    show ?thesis
      unfolding register_one_def Let_def create io_bind_eq_Ok session_call_Ok candidate_events_def
      by (auto simp: bind_eq_Some_conv replay_iff create_account_call_def simp del: replay.simps)
  qed
  then show ?thesis by (auto simp: does_def UNIV_bool)
qed

lemma does_candidates:
  "does vm fs (for_each (register_one vm) creds)
     {concat (map (\<lambda>(c, b). candidate_events c b) (zip creds bs)) |bs. length bs = length creds}"
proof (induction creds)
  case Nil
  then show ?case using does_skip[of vm fs] by (simp add: io_of_def)
next
  case (Cons c creds)
  have "for_each (register_one vm) (c # creds) = io_bind (register_one vm c) (\<lambda>_. for_each (register_one vm) creds)"
  proof (rule ext)
    fix s
    show "for_each (register_one vm) (c # creds) s = io_bind (register_one vm c) (\<lambda>_. for_each (register_one vm) creds) s"
      by (cases "register_one vm c s"; cases "fst (register_one vm c s)") auto
  qed
  moreover have "{a @ b |a b. a \<in> range (candidate_events c) \<and>
        b \<in> {concat (map (\<lambda>(c, b). candidate_events c b) (zip creds bs)) |bs. length bs = length creds}} =
      {concat (map (\<lambda>(c, b). candidate_events c b) (zip (c # creds) bs)) |bs. length bs = length (c # creds)}" (is "?L = ?R")
  proof
    show "?L \<subseteq> ?R"
    proof clarify
      fix b and bs :: "bool list" assume "length bs = length creds"
      then show "\<exists>cs. candidate_events c b @ concat (map (\<lambda>(c, b). candidate_events c b) (zip creds bs)) =
          concat (map (\<lambda>(c, b). candidate_events c b) (zip (c # creds) cs)) \<and> length cs = length (c # creds)"
        by (intro exI[of _ "b # bs"]) simp
    qed
    show "?R \<subseteq> ?L" by (force simp: length_Suc_conv)
  qed
  ultimately show ?case using does_bind[OF does_candidate[of vm fs c] Cons.IH] by simp
qed

lemma does_register:
  "does vm fs (session_register_validators vm creds) {register_events (zip creds bs) |bs. length bs = length creds}"
proof -
  let ?c = "\<lambda>bs. concat (map (\<lambda>(c, b). candidate_events c b) (zip creds bs))"
  let ?x = "[Called ''0x1::stake::bulk_set_next_validators'' [MSigner core_code_address, vector_address []]]"
    and ?y = "[Called ''0x1::diem_governance::set_validators'' [MSigner core_code_address, vector_address (map vc_account creds)]]"
  have "register_events (zip creds bs) = ?x @ ?c bs @ ?y" if "length bs = length creds" for bs :: "bool list"
  proof -
    have "map (\<lambda>(c, _). vc_account c) (zip creds bs) = map vc_account creds"
      using that by (induction bs creds rule: list_induct2) simp_all
    then show ?thesis by (simp add: register_events_def)
  qed
  then have "{register_events (zip creds bs) |bs. length bs = length creds} = {?x @ ?c bs @ ?y |bs. length bs = length creds}"
    by (intro Collect_cong) metis
  moreover have "{a @ b |a b. a \<in> {?x} \<and> b \<in> {a @ b |a b. a \<in> {?c bs |bs. length bs = length creds} \<and> b \<in> {?y}}} =
      {?x @ ?c bs @ ?y |bs. length bs = length creds}" by blast
  ultimately show ?thesis
    unfolding session_register_validators_def
    by (intro does_eq[OF does_bind[OF does_call does_bind[OF does_candidates does_call]]]) (simp only:)
qed

lemma does_publish: "does vm fs (upgrade_framework_from_mrb_file vm fs p) {[Published p core_code_address]}"
  by (simp add: does_def upgrade_framework_from_mrb_file_def rust_simps bind_eq_Some_conv replay_iff del: replay.simps)

lemma does_closing: "does vm fs (writeset_voodoo_events vm) {closing_events}"
  unfolding writeset_voodoo_events_def
  by (rule does_eq[OF does_bind[OF does_call does_bind[OF does_call does_call]]]) (simp add: closing_events_def)

lemma does_chain: "does vm fs (io_bind (io_expect m1 (change_chain_id vm c)) (\<lambda>_.
    io_bind (io_expect m2 (remove_gov_mode_flag vm)) (\<lambda>_. io_expect m3 (writeset_voodoo_events vm))))
  {chain_events c @ closing_events}"
  unfolding change_chain_id_def remove_gov_mode_flag_def
  by (rule does_eq[OF does_bind[OF does_expect[OF does_bind[OF does_call does_call]]
        does_bind[OF does_expect[OF does_call] does_expect[OF does_closing]]]]) (simp add: chain_events_def)

lemma does_replace:
  "does vm fs (replace_session vm fs creds mrb chain_id)
     {publish_events mrb @ register_events (zip creds bs) @
      chain_events (case chain_id of Some c \<Rightarrow> c | None \<Rightarrow> 2) @ closing_events |bs. length bs = length creds}"
proof -
  have publish: "does vm fs (case mrb of None \<Rightarrow> io_of (Ok ())
      | Some p \<Rightarrow> io_expect ''could not upgrade framework'' (upgrade_framework_from_mrb_file vm fs p)) {publish_events mrb}"
    by (auto simp: publish_events_def intro: does_skip does_expect does_publish split: option.split)
  show ?thesis
    unfolding replace_session_def
    by (rule does_eq[OF does_bind[OF publish does_bind[OF does_expect[OF does_register] does_chain]]]) auto
qed

lemma does_session:
  "does vm fs (session_body vm (replace_session vm fs creds mrb chain_id) None None)
     {replace_events rets (latest_time vals) (zip creds bs) mrb chain_id |rets vals bs.
        rmapM (mv_deserialize vm) rets = Ok vals \<and> length bs = length creds}"
  unfolding session_body_def option.case
  by (rule does_eq[OF does_bind[OF does_time does_bind[OF does_prefix_err[OF does_replace] does_bind[OF does_skip does_skip]]]])
    (auto simp: replace_events_def; blast)

text \<open>
  C8. When the tool produces a change set that replaces the validators. It does so exactly when this list of calls runs on the VM opened on
  the database, each with the outcome given: the clock is read, and set to seven microseconds after the greatest
  time among the values returned (the sum wraps, as in a release build); the new framework is published when one is given; the pending
  validators are cleared; each credential is allowed and its account is created, and if that is accepted it is funded with 1000 coins and
  registered, while one whose creation is refused is passed over; all credentials become the validator set; the chain id becomes the given one or
  2 with an epoch of five minutes; governance mode ends; and the epoch, block and reconfiguration events are emitted, in
  this order and nothing else. The change set is what the VM makes of the session after the last call, without its deltas.
\<close>

theorem replace_changeset_calls:
  "register_and_replace_validators_changeset vm fs db creds mrb chain_id = Ok cs \<longleftrightarrow>
   (\<exists>d v rets vals created session vmc.
     db = Ok d \<and> mv_open vm d = Ok v \<and>
     rmapM (mv_deserialize vm) rets = Ok vals \<and> length created = length creds \<and>
     replays vm fs (replace_events rets (Max (insert 0 {t. MU64 t \<in> set vals})) (zip creds created) mrb chain_id) v = Some session \<and>
     mv_finish vm session = Ok vmc \<and> cs = \<lparr>cs_write_set = vm_write_set vmc, cs_events = vm_events vmc\<rparr>)"
proof -
  let ?body = "session_body vm (replace_session vm fs creds mrb chain_id) None None"
  have run: "(case ?body v of (r, session) \<Rightarrow> rbind r (\<lambda>_. mv_finish vm session)) = Ok vmc \<longleftrightarrow>
      (\<exists>session. ?body v = (Ok (), session) \<and> mv_finish vm session = Ok vmc)" for v vmc
    by (cases "?body v"; cases "fst (?body v)") auto
  have body: "?body v = (Ok (), session) \<longleftrightarrow> (\<exists>rets vals created. rmapM (mv_deserialize vm) rets = Ok vals \<and>
      length created = length creds \<and>
      replays vm fs (replace_events rets (Max (insert 0 {t. MU64 t \<in> set vals})) (zip creds created) mrb chain_id) v = Some session)"
    for v session
    unfolding doesD[OF does_session] latest_time_def by blast
  show ?thesis
    unfolding register_and_replace_validators_changeset_def libra_run_session_def rbind_eq_Ok run body unpack_to_changeset_def
    unfolding rres.inject by blast
qed

text \<open>
  A VM whose state is the list of accounts that exist, and the clock: it refuses to create an account twice.
\<close>

record ref_chain =
  rc_accounts :: "account_address list"
  rc_clock :: u64

fun ref_execute :: "fn_tag \<Rightarrow> MoveValue list \<Rightarrow> ref_chain \<Rightarrow> move_return list rres \<times> ref_chain" where
  "ref_execute (a, m, f, ts) args s =
     (if f = ''create_impl'' then
        (case args of
           [_, MSigner x] \<Rightarrow> if x \<in> set (rc_accounts s) then (Err ''EACCOUNT_EXISTS'', s) else (Ok [], s\<lparr>rc_accounts := x # rc_accounts s\<rparr>)
         | _ \<Rightarrow> (Err ''NUMBER_OF_ARGUMENTS_MISMATCH'', s))
      else if f = ''now_microseconds'' then (Ok [([ucast (rc_clock s)], ''u64'')], s)
      else (Ok [], s))"

definition ref_last_name :: "string \<Rightarrow> string" where
  "ref_last_name s = rev (takeWhile (\<lambda>c. c \<noteq> CHR '':'') (rev s))"

definition ref_move_vm :: "(ref_chain, unit, ref_chain) move_vm" where
  "ref_move_vm = \<lparr>mv_parse_tag = (\<lambda>s. Ok (core_code_address, [], ref_last_name s, [])), mv_execute = ref_execute,
     mv_deserialize = (\<lambda>(bs, _). case bs of [b] \<Rightarrow> Ok (MU64 (ucast b)) | _ \<Rightarrow> Err ''deserialization''),
     mv_read_bundle = (\<lambda>p fs. map_rres (\<lambda>_. ()) (or_err ''No such file or directory'' (fs p))),
     mv_publish = (\<lambda>_ _ s. (Ok (), s)), mv_open = Ok,
     mv_finish = (\<lambda>s. Ok \<lparr>vm_write_set = concat (rc_accounts s), vm_delta_change_set = [], vm_events = []\<rparr>)\<rparr>"

definition ref_credential :: "u8 \<Rightarrow> ValCredentials" where
  "ref_credential n = \<lparr>vc_account = [n], vc_consensus_pubkey = [n, 1], vc_proof_of_possession = [n, 2],
     vc_network_addresses = [n, 3], vc_fullnode_addresses = [n, 4]\<rparr>"

lemma ref_replace:
  "register_and_replace_validators_changeset ref_move_vm Map.empty (Ok \<lparr>rc_accounts = [[7]], rc_clock = 20\<rparr>)
     [ref_credential 7, ref_credential 8] None None = Ok \<lparr>cs_write_set = [8, 7], cs_events = []\<rparr>"
  by code_simp

text \<open>The account of the first credential exists already; the second one is created, funded and registered.\<close>

theorem replace_changeset_calls_witness:
  "replays ref_move_vm Map.empty
     (replace_events [([20], ''u64'')] 20 (zip [ref_credential 7, ref_credential 8] [False, True]) None None)
     \<lparr>rc_accounts = [[7]], rc_clock = 20\<rparr> = Some \<lparr>rc_accounts = [[8], [7]], rc_clock = 20\<rparr> \<and>
   register_and_replace_validators_changeset ref_move_vm Map.empty (Ok \<lparr>rc_accounts = [[7]], rc_clock = 20\<rparr>)
     [ref_credential 7, ref_credential 8] None None = Ok \<lparr>cs_write_set = [8, 7], cs_events = []\<rparr>"
proof
  let ?es = "\<lambda>now. replace_events [([20], ''u64'')] now (zip [ref_credential 7, ref_credential 8] [False, True]) None None"
  let ?v = "\<lparr>rc_accounts = [[7]], rc_clock = 20\<rparr>" and ?t = "\<lparr>rc_accounts = [[8], [7]], rc_clock = 20\<rparr>"
  let ?vmc = "\<lparr>vm_write_set = [8, 7], vm_delta_change_set = [], vm_events = []\<rparr>"
  show run: "replays ref_move_vm Map.empty (?es 20) ?v = Some ?t" by code_simp
  have vals: "rmapM (mv_deserialize ref_move_vm) [([20], ''u64'')] = Ok [MU64 20]" by (simp add: ref_move_vm_def)
  have now: "Max (insert 0 {t. MU64 t \<in> set [MU64 20]}) = 20" by simp
  show "register_and_replace_validators_changeset ref_move_vm Map.empty (Ok ?v) [ref_credential 7, ref_credential 8] None None =
      Ok \<lparr>cs_write_set = [8, 7], cs_events = []\<rparr>"
    unfolding replace_changeset_calls
  proof (intro exI conjI)
    show "rmapM (mv_deserialize ref_move_vm) [([20], ''u64'')] = Ok [MU64 20]" by (rule vals)
    show "replays ref_move_vm Map.empty (?es (Max (insert 0 {t. MU64 t \<in> set [MU64 20]}))) ?v = Some ?t"
      unfolding now by (rule run)
    show "mv_open ref_move_vm ?v = Ok ?v" by (simp add: ref_move_vm_def)
    show "mv_finish ref_move_vm ?t = Ok ?vmc" by (simp add: ref_move_vm_def)
  qed simp_all
qed

end
