(* ===== verification/Rescue.thy ===== *)
theory Rescue
  imports Rescue_Session Storage_Restore
begin

text \<open>
  The rescue tool (\<^verbatim>\<open>src/tools/rescue/src\<close>): writing a rescue transaction (\<^verbatim>\<open>transaction_factory.rs\<close>), applying it
  to a database at rest (\<^verbatim>\<open>cli_bootstrapper.rs\<close>), adapting the node's configuration (\<^verbatim>\<open>node_config.rs\<close>), the command line
  (\<^verbatim>\<open>cli_main.rs\<close>), and the twin of a network made with them (\<^verbatim>\<open>src/tools/testnet/src\<close>).

  The world holds files, directories and databases by path. \<open>rescue_env\<close> collects third-party code: opening a
  database (for reading only or not, an absent one may be created), the number of its transactions, the computation of a genesis transaction on
  it with its waypoint and its commit, the codecs, the Move compiler and file patterns. Printing and sleeping are left out.
\<close>

section \<open>The world\<close>

datatype WriteSetPayload = Direct ChangeSet | ScriptPayload account_address bytes

datatype Transaction = GenesisTransaction WriteSetPayload | OtherTransaction bytes

datatype SecureBackend = OnDiskStorage string | OtherBackend string

datatype WaypointConfig = FromConfig Waypoint | OtherWaypoint string

datatype InitialSafetyRulesConfig = FromFile string WaypointConfig | NoSafetyRules

record node_settings =
  ns_base_waypoint :: WaypointConfig
  ns_base_data_dir :: string
  ns_backend :: SecureBackend
  ns_initial_safety_rules :: InitialSafetyRulesConfig
  ns_genesis :: "Transaction option"
  ns_genesis_file_location :: string
  ns_rest :: string

record 'db world =
  wo_files :: files
  wo_dirs :: "string list"
  wo_dbs :: "string \<rightharpoonup> 'db"

record 'db committer =
  cm_waypoint :: Waypoint
  cm_commit :: "'db \<Rightarrow> unit rres \<times> 'db"

record ('s, 'm, 'db, 'a) rescue_env =
  re_vm :: "('s, 'm, 'db) move_vm"
  re_open :: "bool \<Rightarrow> 'db option \<Rightarrow> 'db rres"
  re_num_transactions :: "'db \<Rightarrow> u64 rres"
  re_calculate_genesis :: "'db \<Rightarrow> Transaction \<Rightarrow> 'db committer rres"
  re_copy :: "'db \<Rightarrow> 'db option \<Rightarrow> 'db rres"
  re_txn_from :: "string \<Rightarrow> Transaction rres"
  re_txn_to :: "Transaction \<Rightarrow> string rres"
  re_node_from :: "string \<Rightarrow> node_settings rres"
  re_node_to :: "node_settings \<Rightarrow> string rres"
  re_set_data_dir :: "string \<Rightarrow> string \<Rightarrow> string"
  re_build :: "string \<Rightarrow> files \<Rightarrow> bytes list rres"
  re_sha3_hex :: "bytes \<Rightarrow> string"
  re_glob :: "string \<Rightarrow> files \<Rightarrow> string rres list rres"
  re_hosts :: "'a host_ops"

abbreviation re_join :: "('s, 'm, 'db, 'a) rescue_env \<Rightarrow> string \<Rightarrow> string \<Rightarrow> string" where
  "re_join ev \<equiv> ho_join (re_hosts ev)"

definition read_world :: "(files \<Rightarrow> 'r rres) \<Rightarrow> ('r, 'db world) io" where
  "read_world f = (\<lambda>w. (f (wo_files w), w))"

definition write_world :: "string \<Rightarrow> string \<Rightarrow> (unit, 'db world) io" where
  "write_world p contents = (\<lambda>w. (Ok (), w\<lparr>wo_files := (wo_files w)(p \<mapsto> contents)\<rparr>))"

definition file_text :: "string \<Rightarrow> files \<Rightarrow> string rres" where
  "file_text p fs = or_err ''No such file or directory'' (fs p)"

section \<open>Rescue transactions\<close>

definition save_rescue_blob :: "('s, 'm, 'db, 'a) rescue_env \<Rightarrow> Transaction \<Rightarrow> string \<Rightarrow> (string, 'db world) io" where
  "save_rescue_blob ev tx out_file =
     io_bind (io_of (re_txn_to ev tx)) (\<lambda>bytes.
     io_bind (write_world out_file bytes) (\<lambda>_. io_of (Ok out_file)))"

text \<open>\<open>b\<close> are the compiled bytes, written as they are.\<close>

definition save_build :: "('s, 'm, 'db, 'a) rescue_env \<Rightarrow> string \<Rightarrow> bytes \<Rightarrow> (unit, 'db world) io" where
  "save_build ev script_package_dir b =
     io_bind (write_world (re_join ev script_package_dir ''script.mv'') (map (\<lambda>x. char_of (unat x)) b)) (\<lambda>_.
     write_world (re_join ev script_package_dir ''script_sha3'') (re_sha3_hex ev b))"

definition libra_compile_script :: "('s, 'm, 'db, 'a) rescue_env \<Rightarrow> string \<Rightarrow> (bytes, 'db world) io" where
  "libra_compile_script ev script_package_dir =
     io_bind (read_world (re_build ev script_package_dir)) (\<lambda>code.
     io_bind (io_of (if code = [] then Err ''could not find any code in BuiltPackage'' else Ok (last code))) (\<lambda>bytes.
     io_bind (save_build ev script_package_dir bytes) (\<lambda>_. io_of (Ok bytes))))"

definition run_script_tx :: "('s, 'm, 'db, 'a) rescue_env \<Rightarrow> string \<Rightarrow> (Transaction, 'db world) io" where
  "run_script_tx ev script_path =
     io_bind (libra_compile_script ev script_path) (\<lambda>code.
     io_of (Ok (GenesisTransaction (ScriptPayload core_code_address code))))"

definition read_db :: "('s, 'm, 'db, 'a) rescue_env \<Rightarrow> string \<Rightarrow> 'db world \<Rightarrow> 'db rres" where
  "read_db ev dir w = (case re_open ev True (wo_dbs w dir) of Err e \<Rightarrow> Err (''failed to open db: '' @ e) | r \<Rightarrow> r)"

definition upgrade_tx ::
  "('s, 'm, 'db, 'a) rescue_env \<Rightarrow> string \<Rightarrow> string \<Rightarrow> account_address list option \<Rightarrow> (Transaction, 'db world) io" where
  "upgrade_tx ev db_path upgrade_mrb validator_set = (\<lambda>w.
     (rbind (upgrade_framework_changeset (re_vm ev) (wo_files w) (read_db ev db_path w) validator_set upgrade_mrb)
        (\<lambda>cs. Ok (GenesisTransaction (Direct cs))), w))"

definition register_vals ::
  "('s, 'm, 'db, 'a) rescue_env \<Rightarrow> string \<Rightarrow> string list \<Rightarrow> string option \<Rightarrow> u8 option \<Rightarrow> (Transaction, 'db world) io" where
  "register_vals ev db_path reg_files upgrade_mrb chain_id = (\<lambda>w.
     (rbind (rmapM (\<lambda>el. unwrap ''could parse operator.yaml''
                     (registration_from_operator_yaml (re_hosts ev) (Some el) (wo_files w))) reg_files) (\<lambda>registrations.
      rbind (register_and_replace_validators_changeset (re_vm ev) (wo_files w) (read_db ev db_path w) registrations
               upgrade_mrb chain_id) (\<lambda>cs.
      Ok (GenesisTransaction (Direct cs)))), w))"

section \<open>The node's configuration\<close>

definition make_initial_safety_rules ::
  "('s, 'm, 'db, 'a) rescue_env \<Rightarrow> node_settings \<Rightarrow> Waypoint \<Rightarrow> files \<Rightarrow> node_settings rres" where
  "make_initial_safety_rules ev node_config waypoint fs =
     (let data_path = ns_base_data_dir node_config;
          node_config = (case ns_backend node_config of
              OnDiskStorage c \<Rightarrow> node_config\<lparr>ns_backend := OnDiskStorage (re_set_data_dir ev data_path c)\<rparr>
            | OtherBackend _ \<Rightarrow> node_config);
          validator_identity_file = re_join ev data_path ''validator-identity.yaml'' in
      if fs validator_identity_file = None then Panic ''validator-identity.yaml not found''
      else Ok (node_config\<lparr>ns_initial_safety_rules := FromFile validator_identity_file (FromConfig waypoint)\<rparr>))"

definition post_rescue_node_file_updates ::
  "('s, 'm, 'db, 'a) rescue_env \<Rightarrow> string \<Rightarrow> Waypoint \<Rightarrow> string \<Rightarrow> (node_settings, 'db world) io" where
  "post_rescue_node_file_updates ev config_path waypoint restore_blob =
     io_bind (read_world (\<lambda>fs. rbind (file_text config_path fs) (re_node_from ev))) (\<lambda>node_config.
     io_bind (read_world (make_initial_safety_rules ev (node_config\<lparr>ns_base_waypoint := FromConfig waypoint\<rparr>) waypoint))
       (\<lambda>node_config.
     let node_config = node_config\<lparr>ns_genesis := None, ns_genesis_file_location := restore_blob\<rparr> in
     io_bind (io_of (re_node_to ev node_config)) (\<lambda>yaml.
     io_bind (write_world config_path yaml) (\<lambda>_. io_of (Ok node_config)))))"

section \<open>Applying a transaction to a database\<close>

record BootstrapOpts =
  bo_db_dir :: string
  bo_genesis_txn_file :: string
  bo_waypoint_to_verify :: "Waypoint option"
  bo_commit :: bool
  bo_update_node_config :: "string option"
  bo_info :: bool

definition load_genesis_txn :: "('s, 'm, 'db, 'a) rescue_env \<Rightarrow> string \<Rightarrow> files \<Rightarrow> Transaction rres" where
  "load_genesis_txn ev p fs = rbind (file_text p fs) (re_txn_from ev)"

fun is_genesis :: "Transaction \<Rightarrow> bool" where
  "is_genesis (GenesisTransaction _) = True"
| "is_genesis (OtherTransaction _) = False"

definition open_db :: "('s, 'm, 'db, 'a) rescue_env \<Rightarrow> string \<Rightarrow> ('db, 'db world) io" where
  "open_db ev dir = (\<lambda>w. case re_open ev False (wo_dbs w dir) of
       Ok db \<Rightarrow> (Ok db, w\<lparr>wo_dbs := (wo_dbs w)(dir \<mapsto> db)\<rparr>)
     | r \<Rightarrow> (r, w))"

definition commit_db :: "string \<Rightarrow> 'db committer \<Rightarrow> 'db \<Rightarrow> (unit, 'db world) io" where
  "commit_db dir committer db = (\<lambda>w. case cm_commit committer db of
       (r, db') \<Rightarrow> (r, w\<lparr>wo_dbs := (wo_dbs w)(dir \<mapsto> db')\<rparr>))"

definition ensure :: "bool \<Rightarrow> string \<Rightarrow> unit rres" where
  "ensure b msg = (if b then Ok () else Err msg)"

definition BootstrapOpts_run ::
  "('s, 'm, 'db, 'a) rescue_env \<Rightarrow> BootstrapOpts \<Rightarrow> (Waypoint option, 'db world) io" where
  "BootstrapOpts_run ev self =
     io_bind (read_world (load_genesis_txn ev (bo_genesis_txn_file self))) (\<lambda>genesis_txn.
     if \<not> is_genesis genesis_txn then io_of (Panic ''Not a GenesisTransaction'') else
     io_bind (io_expect ''Failed to open DB.'' (open_db ev (bo_db_dir self))) (\<lambda>db.
     io_bind (io_of (re_num_transactions ev db)) (\<lambda>num_transactions.
     if bo_info self then io_of (Ok None) else
     io_bind (io_of (case bo_waypoint_to_verify self of
                       None \<Rightarrow> Ok ()
                     | Some waypoint \<Rightarrow> ensure (wp_version waypoint = num_transactions) ''Trying to generate waypoint'')) (\<lambda>_.
     io_bind (io_of (re_calculate_genesis ev db genesis_txn)) (\<lambda>committer.
     let output_waypoint = cm_waypoint committer in
     io_bind (io_of (case bo_waypoint_to_verify self of
                       None \<Rightarrow> Ok ()
                     | Some waypoint \<Rightarrow> ensure (waypoint = output_waypoint) ''Waypoint verification failed.'')) (\<lambda>_.
     if \<not> bo_commit self then io_of (Ok (Some output_waypoint)) else
     io_bind (commit_db (bo_db_dir self) committer db) (\<lambda>_.
     case bo_update_node_config self of
       None \<Rightarrow> io_of (Ok (Some output_waypoint))
     | Some p \<Rightarrow> io_bind (post_rescue_node_file_updates ev p output_waypoint (bo_genesis_txn_file self)) (\<lambda>_.
                 io_of (Ok (Some output_waypoint))))))))))"

definition check_rescue_bootstraps :: "('s, 'm, 'db, 'a) rescue_env \<Rightarrow> string \<Rightarrow> string \<Rightarrow> (unit, 'db world) io" where
  "check_rescue_bootstraps ev db_path blob_path =
     io_bind (BootstrapOpts_run ev \<lparr>bo_db_dir = db_path, bo_genesis_txn_file = blob_path, bo_waypoint_to_verify = None,
                bo_commit = False, bo_update_node_config = None, bo_info = False\<rparr>) (\<lambda>_.
     io_of (Ok ()))"

definition one_step_apply_rescue_on_db ::
  "('s, 'm, 'db, 'a) rescue_env \<Rightarrow> string \<Rightarrow> string \<Rightarrow> (Waypoint, 'db world) io" where
  "one_step_apply_rescue_on_db ev db_to_change_path rescue_blob =
     io_bind (BootstrapOpts_run ev \<lparr>bo_db_dir = db_to_change_path, bo_genesis_txn_file = rescue_blob,
                bo_waypoint_to_verify = None, bo_commit = False, bo_update_node_config = None, bo_info = False\<rparr>) (\<lambda>wp.
     io_bind (io_of (or_panic ''could not get waypoint'' wp)) (\<lambda>waypoint_to_check.
     io_bind (BootstrapOpts_run ev \<lparr>bo_db_dir = db_to_change_path, bo_genesis_txn_file = rescue_blob,
                bo_waypoint_to_verify = Some waypoint_to_check, bo_commit = True, bo_update_node_config = None,
                bo_info = False\<rparr>) (\<lambda>wp.
     io_bind (io_of (or_panic ''could not get waypoint'' wp)) (\<lambda>waypoint_post.
     if waypoint_to_check \<noteq> waypoint_post then io_of (Panic ''waypoints are not equal'')
     else io_of (Ok waypoint_to_check)))))"

section \<open>The command line\<close>

definition REPLACE_VALIDATORS_BLOB :: string where "REPLACE_VALIDATORS_BLOB = ''replace_validators_rescue.blob''"
definition UPGRADE_FRAMEWORK_BLOB :: string where "UPGRADE_FRAMEWORK_BLOB = ''upgrade_framework_rescue.blob''"
definition RUN_SCRIPT_BLOB :: string where "RUN_SCRIPT_BLOB = ''run_script_rescue.blob''"

datatype Sub =
    Bootstrap BootstrapOpts
  | PatchSafetyRules string string Waypoint
  | RegisterVals "string list" "string option" "u8 option"
  | UpgradeFramework string "account_address list option"
  | RunScript "string option"

record RescueCli =
  rl_db_path :: string
  rl_blob_path :: "string option"
  rl_command :: Sub

definition save_and_check ::
  "('s, 'm, 'db, 'a) rescue_env \<Rightarrow> RescueCli \<Rightarrow> Transaction \<Rightarrow> string \<Rightarrow> (unit, 'db world) io" where
  "save_and_check ev self tx name =
     io_bind (save_rescue_blob ev tx
                (re_join ev (case rl_blob_path self of Some p \<Rightarrow> p | None \<Rightarrow> rl_db_path self) name)) (\<lambda>p.
     check_rescue_bootstraps ev (rl_db_path self) p)"

definition RescueCli_run :: "('s, 'm, 'db, 'a) rescue_env \<Rightarrow> RescueCli \<Rightarrow> (unit, 'db world) io" where
  "RescueCli_run ev self =
     (case rl_command self of
        Bootstrap bootstrap \<Rightarrow> io_bind (BootstrapOpts_run ev bootstrap) (\<lambda>_. io_of (Ok ()))
      | RegisterVals operator_yaml upgrade_mrb chain_id \<Rightarrow>
          io_bind (register_vals ev (rl_db_path self) operator_yaml upgrade_mrb chain_id) (\<lambda>tx.
          save_and_check ev self tx REPLACE_VALIDATORS_BLOB)
      | UpgradeFramework upgrade_mrb set_validators \<Rightarrow>
          io_bind (upgrade_tx ev (rl_db_path self) upgrade_mrb set_validators) (\<lambda>tx.
          save_and_check ev self tx UPGRADE_FRAMEWORK_BLOB)
      | RunScript script_path \<Rightarrow>
          io_bind (io_of (or_panic ''called `Option::unwrap()` on a `None` value'' script_path)) (\<lambda>p.
          io_bind (run_script_tx ev p) (\<lambda>tx.
          save_and_check ev self tx RUN_SCRIPT_BLOB))
      | PatchSafetyRules config_path blob_path waypoint \<Rightarrow>
          io_bind (post_rescue_node_file_updates ev config_path waypoint blob_path) (\<lambda>_. io_of (Ok ())))"

section \<open>Twin networks\<close>

fun parse_operators :: "'a host_ops \<Rightarrow> files \<Rightarrow> string rres list \<Rightarrow> ValCredentials list rres" where
  "parse_operators ho fs [] = Ok []"
| "parse_operators ho fs (Ok p # ps) =
     (case registration_from_operator_yaml ho (Some p) fs of
        Ok cred \<Rightarrow> rbind (parse_operators ho fs ps) (\<lambda>creds. Ok (cred # creds))
      | Err _ \<Rightarrow> parse_operators ho fs ps
      | Panic m \<Rightarrow> Panic m)"
| "parse_operators ho fs (Err _ # ps) = parse_operators ho fs ps"
| "parse_operators ho fs (Panic m # ps) = Panic m"

definition find_operator_configs ::
  "('s, 'm, 'db, 'a) rescue_env \<Rightarrow> string \<Rightarrow> (ValCredentials list, 'db world) io" where
  "find_operator_configs ev start_path = (\<lambda>w.
     if start_path \<notin> set (wo_dirs w) then (Panic ''start_path dir should exist'', w) else
     (rbind (unwrap ''Failed to read glob pattern'' (re_glob ev (start_path @ ''/**/operator*.yaml'') (wo_files w))) (\<lambda>entries.
      rbind (parse_operators (re_hosts ev) (wo_files w) entries) (\<lambda>val_credentials.
      if val_credentials = [] then Err ''No valid credentials could be parsed from operator files''
      else Ok val_credentials)), w))"

definition replace_validators_blob ::
  "('s, 'm, 'db, 'a) rescue_env \<Rightarrow> string \<Rightarrow> ValCredentials list \<Rightarrow> string \<Rightarrow> string option \<Rightarrow> (string, 'db world) io" where
  "replace_validators_blob ev db_path creds output_dir upgrade_mrb_path =
     io_bind (\<lambda>w. (register_and_replace_validators_changeset (re_vm ev) (wo_files w) (read_db ev db_path w) creds
                      upgrade_mrb_path None, w)) (\<lambda>cs.
     let out = re_join ev output_dir REPLACE_VALIDATORS_BLOB in
     io_bind (save_rescue_blob ev (GenesisTransaction (Direct cs)) out) (\<lambda>_. io_of (Ok out)))"

definition require_dir :: "string \<Rightarrow> string \<Rightarrow> (unit, 'db world) io" where
  "require_dir p msg = (\<lambda>w. (if p \<in> set (wo_dirs w) then Ok () else Panic msg, w))"

definition create_dir_all :: "string \<Rightarrow> (unit, 'db world) io" where
  "create_dir_all p = (\<lambda>w. (Ok (), w\<lparr>wo_dirs := List.insert p (wo_dirs w)\<rparr>))"

definition copy_db :: "('s, 'm, 'db, 'a) rescue_env \<Rightarrow> string \<Rightarrow> string \<Rightarrow> (unit, 'db world) io" where
  "copy_db ev from_dir to_dir = (\<lambda>w.
     case rbind (or_err ''Path does not exist'' (wo_dbs w from_dir)) (\<lambda>d. re_copy ev d (wo_dbs w to_dir)) of
       Ok d \<Rightarrow> (Ok (), w\<lparr>wo_dbs := (wo_dbs w)(to_dir \<mapsto> d)\<rparr>)
     | Err e \<Rightarrow> (Err e, w)
     | Panic p \<Rightarrow> (Panic p, w))"

definition configure_twin ::
  "('s, 'm, 'db, 'a) rescue_env \<Rightarrow> string \<Rightarrow> string \<Rightarrow> string option \<Rightarrow> (unit, 'db world) io" where
  "configure_twin ev home_path reference_db upgrade_mrb_path =
     io_bind (require_dir home_path ''home data path should exist'') (\<lambda>_.
     let destination_db = re_join ev home_path ''data/db'' in
     io_bind (create_dir_all destination_db) (\<lambda>_.
     io_bind (copy_db ev reference_db destination_db) (\<lambda>_.
     io_bind (require_dir destination_db ''destination db should exist'') (\<lambda>_.
     io_bind (find_operator_configs ev home_path) (\<lambda>val_credentials.
     io_bind (replace_validators_blob ev reference_db val_credentials home_path upgrade_mrb_path) (\<lambda>rescue_blob_path.
     io_bind (one_step_apply_rescue_on_db ev reference_db rescue_blob_path) (\<lambda>wp.
     io_bind (post_rescue_node_file_updates ev (re_join ev home_path ''validator.yaml'') wp rescue_blob_path) (\<lambda>_.
     io_of (Ok ())))))))))"

section \<open>Frames\<close>

lemma bind_value: "io_bind (io_of r) k w = (case r of Ok x \<Rightarrow> k x w | Err e \<Rightarrow> (Err e, w) | Panic p \<Rightarrow> (Panic p, w))"
  by (cases r) simp_all

lemma bind_read:
  "io_bind (read_world f) k w = (case f (wo_files w) of Ok x \<Rightarrow> k x w | Err e \<Rightarrow> (Err e, w) | Panic p \<Rightarrow> (Panic p, w))"
  by (cases "f (wo_files w)") (simp_all add: read_world_def)

lemma preserves_value [io_preserves_intros]: "io_preserves I (\<lambda>w. (f w, w))"
  by (simp add: io_preserves_def)

lemma preserves_read [io_preserves_intros]: "io_preserves I (read_world f)"
  by (simp add: io_preserves_def read_world_def)

lemma snd_expect: "snd (io_expect msg m s) = snd (m s)"
  by (simp add: io_expect_def split: prod.split)

lemma preserves_expect [io_preserves_intros]: "io_preserves I m \<Longrightarrow> io_preserves I (io_expect msg m)"
  by (simp add: io_preserves_def snd_expect)

text \<open>A property of the databases alone is preserved by every operation on files.\<close>

lemma write_keeps_dbs [io_preserves_intros]: "io_preserves (\<lambda>w. P (wo_dbs w)) (write_world p c)"
  by (simp add: io_preserves_def write_world_def)

lemma save_keeps_dbs [io_preserves_intros]: "io_preserves (\<lambda>w. P (wo_dbs w)) (save_rescue_blob ev tx p)"
  unfolding save_rescue_blob_def by (intro io_preserves_intros)

lemma compile_keeps_dbs [io_preserves_intros]: "io_preserves (\<lambda>w. P (wo_dbs w)) (run_script_tx ev p)"
  unfolding run_script_tx_def libra_compile_script_def save_build_def by (intro io_preserves_intros)

lemma node_file_keeps_dbs [io_preserves_intros]: "io_preserves (\<lambda>w. P (wo_dbs w)) (post_rescue_node_file_updates ev p wp b)"
  unfolding post_rescue_node_file_updates_def Let_def by (intro io_preserves_intros)

lemma upgrade_keeps_dbs [io_preserves_intros]: "io_preserves (\<lambda>w. P (wo_dbs w)) (upgrade_tx ev p m v)"
  unfolding upgrade_tx_def by (intro io_preserves_intros)

lemma register_keeps_dbs [io_preserves_intros]: "io_preserves (\<lambda>w. P (wo_dbs w)) (register_vals ev p fs m c)"
  unfolding register_vals_def by (intro io_preserves_intros)

lemma commit_db_app: "commit_db dir c d w = (fst (cm_commit c d), w\<lparr>wo_dbs := (wo_dbs w)(dir \<mapsto> snd (cm_commit c d))\<rparr>)"
  by (simp add: commit_db_def split: prod.split)

lemma commit_then:
  assumes run: "io_bind (commit_db dir c d) k w = (r, w')"
    and keeps: "\<And>u P. io_preserves (\<lambda>w. P (wo_dbs w)) (k u)"
  shows "wo_dbs w' = (wo_dbs w)(dir \<mapsto> snd (cm_commit c d))"
proof (cases "fst (cm_commit c d)")
  case (Ok u)
  with run have "k u (w\<lparr>wo_dbs := (wo_dbs w)(dir \<mapsto> snd (cm_commit c d))\<rparr>) = (r, w')"
    by (simp add: commit_db_app io_bind_def io_match_def)
  from io_preservesD[OF keeps[where P = "\<lambda>m. m = (wo_dbs w)(dir \<mapsto> snd (cm_commit c d))"] _ this] show ?thesis
    by simp
qed (use run in \<open>auto simp: commit_db_app io_bind_def io_match_def\<close>)

section \<open>Databases\<close>

text \<open>Opening a database that exists returns it as it is.\<close>

locale rescue_database =
  fixes ev :: "('s, 'm, 'db, 'a) rescue_env"
  assumes open_existing: "re_open ev ro (Some d) = Ok d' \<Longrightarrow> d' = d"
begin

lemma open_db_app: "wo_dbs w dir = Some d \<Longrightarrow> open_db ev dir w = (re_open ev False (Some d), w)"
  by (cases "re_open ev False (Some d)")
    (auto simp: open_db_def fun_upd_idem dest: open_existing)

lemma open_keeps: "io_preserves (\<lambda>w. wo_dbs w p = Some d) (open_db ev dir)"
  by (auto simp: io_preserves_def open_db_def dest: open_existing split: rres.split)

lemma bind_open:
  assumes "wo_dbs w dir = Some d"
  shows "io_bind (io_expect msg (open_db ev dir)) k w =
    (case re_open ev False (Some d) of Ok _ \<Rightarrow> k d w | Err e \<Rightarrow> (Panic msg, w) | Panic p \<Rightarrow> (Panic p, w))"
  using open_db_app[OF assms] open_existing[of False d]
  by (cases "re_open ev False (Some d)") (simp_all add: io_bind_def io_match_def io_expect_def)

lemma bootstrap_keeps:
  assumes "\<not> bo_commit self"
  shows "io_preserves (\<lambda>w. wo_dbs w p = Some d) (BootstrapOpts_run ev self)"
  unfolding BootstrapOpts_run_def Let_def using assms
  by (intro io_preserves_intros open_keeps) simp_all

lemma check_keeps: "io_preserves (\<lambda>w. wo_dbs w p = Some d) (save_and_check ev self tx name)"
  unfolding save_and_check_def check_rescue_bootstraps_def
  by (intro io_preserves_intros save_keeps_dbs[where P = "\<lambda>m. m p = Some d"] bootstrap_keeps) simp

lemma cli_keeps:
  assumes "\<And>opts. rl_command self = Bootstrap opts \<Longrightarrow> \<not> bo_commit opts"
  shows "io_preserves (\<lambda>w. wo_dbs w p = Some d) (RescueCli_run ev self)"
  using assms unfolding RescueCli_run_def
  by (cases "rl_command self")
    (auto intro!: io_preserves_intros bootstrap_keeps check_keeps
       register_keeps_dbs[where P = "\<lambda>m. m p = Some d"] upgrade_keeps_dbs[where P = "\<lambda>m. m p = Some d"]
       compile_keeps_dbs[where P = "\<lambda>m. m p = Some d"] node_file_keeps_dbs[where P = "\<lambda>m. m p = Some d"])

lemma bootstrap_dbs:
  assumes d: "wo_dbs w (bo_db_dir self) = Some d"
    and run: "BootstrapOpts_run ev self w = (r, w')" and changed: "wo_dbs w' \<noteq> wo_dbs w"
  obtains txn c n where "bo_commit self" and "\<not> bo_info self"
    and "load_genesis_txn ev (bo_genesis_txn_file self) (wo_files w) = Ok txn" and "is_genesis txn"
    and "re_num_transactions ev d = Ok n" and "re_calculate_genesis ev d txn = Ok c"
    and "\<And>wp. bo_waypoint_to_verify self = Some wp \<Longrightarrow> wp = cm_waypoint c \<and> wp_version wp = n"
    and "wo_dbs w' = (wo_dbs w)(bo_db_dir self \<mapsto> snd (cm_commit c d))"
proof -
  let ?load = "load_genesis_txn ev (bo_genesis_txn_file self) (wo_files w)"
  let ?check = "\<lambda>P msg. case bo_waypoint_to_verify self of None \<Rightarrow> Ok () | Some wp \<Rightarrow> ensure (P wp) msg"
  note eqs = BootstrapOpts_run_def bind_read bind_value bind_open[OF d] Let_def
  obtain txn where txn: "?load = Ok txn" "is_genesis txn" and ok: "re_open ev False (Some d) = Ok d"
    using run changed by (auto simp: eqs dest: open_existing split: rres.splits if_splits)
  obtain n where n: "re_num_transactions ev d = Ok n" "\<not> bo_info self"
    "?check (\<lambda>wp. wp_version wp = n) ''Trying to generate waypoint'' = Ok ()"
    using run changed txn ok by (auto simp: eqs split: rres.splits if_splits)
  obtain c where c: "re_calculate_genesis ev d txn = Ok c"
    "?check (\<lambda>wp. wp = cm_waypoint c) ''Waypoint verification failed.'' = Ok ()" "bo_commit self"
    using run changed txn ok n by (auto simp: eqs split: rres.splits if_splits)
  let ?rest = "\<lambda>_. case bo_update_node_config self of None \<Rightarrow> io_of (Ok (Some (cm_waypoint c)))
     | Some p \<Rightarrow> io_bind (post_rescue_node_file_updates ev p (cm_waypoint c) (bo_genesis_txn_file self))
         (\<lambda>_. io_of (Ok (Some (cm_waypoint c))))"
  have "io_bind (commit_db (bo_db_dir self) c d) ?rest w = (r, w')"
    using run txn ok n c by (simp add: eqs)
  then have "wo_dbs w' = (wo_dbs w)(bo_db_dir self \<mapsto> snd (cm_commit c d))"
    by (rule commit_then) (intro io_preserves_intros)
  with that txn n c show ?thesis
    by (auto simp: ensure_def split: option.splits if_splits)
qed


lemma bootstrap_Ok:
  assumes d: "wo_dbs w (bo_db_dir self) = Some d" and opts: "\<not> bo_info self" "bo_update_node_config self = None"
  shows "BootstrapOpts_run ev self w = (Ok wp, w') \<longleftrightarrow>
    (\<exists>txn n c. load_genesis_txn ev (bo_genesis_txn_file self) (wo_files w) = Ok txn \<and> is_genesis txn \<and>
       re_open ev False (Some d) = Ok d \<and> re_num_transactions ev d = Ok n \<and> re_calculate_genesis ev d txn = Ok c \<and>
       bo_waypoint_to_verify self \<in> {None, Some (cm_waypoint c)} \<and>
       (bo_waypoint_to_verify self \<noteq> None \<longrightarrow> wp_version (cm_waypoint c) = n) \<and> wp = Some (cm_waypoint c) \<and>
       (if bo_commit self then \<exists>d'. cm_commit c d = (Ok (), d') \<and> w' = w\<lparr>wo_dbs := (wo_dbs w)(bo_db_dir self \<mapsto> d')\<rparr>
        else w' = w))" (is "?run \<longleftrightarrow> ?ok")
proof
  note eqs = BootstrapOpts_run_def bind_read bind_value bind_open[OF d] Let_def ensure_def
  assume run: ?run
  then obtain txn n c where facts: "load_genesis_txn ev (bo_genesis_txn_file self) (wo_files w) = Ok txn" "is_genesis txn"
      "re_open ev False (Some d) = Ok d" "re_num_transactions ev d = Ok n" "re_calculate_genesis ev d txn = Ok c"
      "bo_waypoint_to_verify self \<in> {None, Some (cm_waypoint c)}"
      "bo_waypoint_to_verify self \<noteq> None \<longrightarrow> wp_version (cm_waypoint c) = n"
    using opts by (auto simp: eqs dest: open_existing split: rres.splits if_splits option.splits)
  with run opts show ?ok
    by (cases "cm_commit c d") (auto simp: eqs commit_db_app rust_simps split: if_splits option.splits)
next
  note eqs = BootstrapOpts_run_def bind_read bind_value bind_open[OF d] Let_def ensure_def
  assume ?ok
  with opts show ?run
    by (auto simp: eqs commit_db_app rust_simps split: if_splits option.splits)
qed

lemma one_step_Ok:
  assumes d: "wo_dbs w dir = Some d"
  shows "one_step_apply_rescue_on_db ev dir blob w = (Ok wp, w') \<longleftrightarrow>
    (\<exists>txn c d'. load_genesis_txn ev blob (wo_files w) = Ok txn \<and> is_genesis txn \<and>
       re_open ev False (Some d) = Ok d \<and> re_num_transactions ev d = Ok (wp_version wp) \<and>
       re_calculate_genesis ev d txn = Ok c \<and> wp = cm_waypoint c \<and> cm_commit c d = (Ok (), d') \<and>
       w' = w\<lparr>wo_dbs := (wo_dbs w)(dir \<mapsto> d')\<rparr>)"
  unfolding one_step_apply_rescue_on_db_def
  by (auto simp: io_bind_eq_Ok io_of_eq or_panic_eq_Ok bootstrap_Ok d)

end

section \<open>Guarantees\<close>

text \<open>
  C9. If opening an existing database returns it unchanged, every rescue command except a bootstrap with \<open>--commit\<close> leaves every
  database that exists as it is, also when it fails: rescue transactions are computed and tried on the reference database, never applied.
\<close>

theorem rescue_keeps_databases:
  assumes "\<forall>ro d d'. re_open ev ro (Some d) = Ok d' \<longrightarrow> d' = d"
    and "\<forall>opts. rl_command self = Bootstrap opts \<longrightarrow> \<not> bo_commit opts" and "wo_dbs w p = Some d"
  shows "wo_dbs (snd (RescueCli_run ev self w)) p = Some d"
proof -
  have "rescue_database ev" using assms(1) by (simp add: rescue_database_def)
  from rescue_database.cli_keeps[OF this] assms(2,3) show ?thesis by (simp add: io_preserves_def)
qed

text \<open>
  C10. A bootstrap changes a database only by committing the transaction of its file, with \<open>--commit\<close> and without \<open>--info\<close>, and when
  a waypoint is given only if it is the computed one and its version is the number of transactions in the database.
\<close>

theorem bootstrap_commits_verified:
  assumes "\<forall>ro d d'. re_open ev ro (Some d) = Ok d' \<longrightarrow> d' = d"
    and "wo_dbs w (bo_db_dir self) = Some d" and "BootstrapOpts_run ev self w = (r, w')" and "wo_dbs w' \<noteq> wo_dbs w"
  shows "bo_commit self \<and> \<not> bo_info self \<and>
    (\<exists>txn c n. load_genesis_txn ev (bo_genesis_txn_file self) (wo_files w) = Ok txn \<and> is_genesis txn \<and>
       re_num_transactions ev d = Ok n \<and> re_calculate_genesis ev d txn = Ok c \<and>
       bo_waypoint_to_verify self \<in> {None, Some (cm_waypoint c)} \<and>
       (bo_waypoint_to_verify self = None \<or> wp_version (cm_waypoint c) = n) \<and>
       wo_dbs w' = (wo_dbs w)(bo_db_dir self \<mapsto> snd (cm_commit c d)))"
proof -
  have db: "rescue_database ev" using assms(1) by (simp add: rescue_database_def)
  show ?thesis
    by (rule rescue_database.bootstrap_dbs[OF db assms(2-4)]) (cases "bo_waypoint_to_verify self"; auto)
qed

text \<open>
  C11. Applying a rescue blob in one step succeeds if and only if the blob is a genesis transaction, its waypoint is at the
  number of transactions of the database and its commit succeeds; then the commit was done once, on that database, and the
  waypoint of that very computation is returned.
\<close>

theorem one_step_applies_once:
  assumes "\<forall>ro d d'. re_open ev ro (Some d) = Ok d' \<longrightarrow> d' = d" and "wo_dbs w dir = Some d"
  shows "one_step_apply_rescue_on_db ev dir blob w = (Ok wp, w') \<longleftrightarrow>
    (\<exists>txn c d'. load_genesis_txn ev blob (wo_files w) = Ok txn \<and> is_genesis txn \<and>
       re_open ev False (Some d) = Ok d \<and> re_num_transactions ev d = Ok (wp_version wp) \<and>
       re_calculate_genesis ev d txn = Ok c \<and> wp = cm_waypoint c \<and> cm_commit c d = (Ok (), d') \<and>
       w' = w\<lparr>wo_dbs := (wo_dbs w)(dir \<mapsto> d')\<rparr>)"
  by (rule rescue_database.one_step_Ok) (use assms in \<open>simp_all add: rescue_database_def\<close>)

lemma node_file_Ok:
  assumes "post_rescue_node_file_updates ev config_path wp blob w = (Ok ns, w')"
  obtains old yaml where "rbind (file_text config_path (wo_files w)) (re_node_from ev) = Ok old"
    and "ns_base_waypoint ns = FromConfig wp"
    and "ns_initial_safety_rules ns =
           FromFile (re_join ev (ns_base_data_dir old) ''validator-identity.yaml'') (FromConfig wp)"
    and "ns_genesis ns = None" and "ns_genesis_file_location ns = blob"
    and "ns_base_data_dir ns = ns_base_data_dir old" and "ns_rest ns = ns_rest old"
    and "re_node_to ev ns = Ok yaml" and "w' = w\<lparr>wo_files := (wo_files w)(config_path \<mapsto> yaml)\<rparr>"
proof -
  obtain old ns1 yaml where old: "rbind (file_text config_path (wo_files w)) (re_node_from ev) = Ok old"
    and ns1: "make_initial_safety_rules ev (old\<lparr>ns_base_waypoint := FromConfig wp\<rparr>) wp (wo_files w) = Ok ns1"
    and ns: "ns = ns1\<lparr>ns_genesis := None, ns_genesis_file_location := blob\<rparr>" and yaml: "re_node_to ev ns = Ok yaml"
    and w': "w' = w\<lparr>wo_files := (wo_files w)(config_path \<mapsto> yaml)\<rparr>"
    using assms by (auto simp: post_rescue_node_file_updates_def Let_def io_bind_eq_Ok io_of_eq read_world_def write_world_def)
  have "ns_base_waypoint ns1 = FromConfig wp" "ns_base_data_dir ns1 = ns_base_data_dir old" "ns_rest ns1 = ns_rest old"
    "ns_initial_safety_rules ns1 =
       FromFile (re_join ev (ns_base_data_dir old) ''validator-identity.yaml'') (FromConfig wp)"
    using ns1 by (auto simp: make_initial_safety_rules_def Let_def split: if_splits SecureBackend.splits)
  with that[OF old _ _ _ _ _ _ yaml w'] ns show ?thesis by simp
qed

text \<open>
  A successful update of the node's configuration after a rescue sets both the base waypoint and the waypoint of the
  initial safety rules to the given one, takes the consensus keys from the identity file in the data directory, which
  exists, replaces the embedded genesis by the path of the blob, keeps the rest, and writes that file alone.
\<close>

theorem node_file_points_to_rescue:
  assumes "post_rescue_node_file_updates ev config_path wp blob w = (Ok ns, w')"
  shows "\<exists>old yaml. rbind (file_text config_path (wo_files w)) (re_node_from ev) = Ok old \<and>
    ns_base_waypoint ns = FromConfig wp \<and>
    ns_initial_safety_rules ns =
      FromFile (re_join ev (ns_base_data_dir old) ''validator-identity.yaml'') (FromConfig wp) \<and>
    ns_genesis ns = None \<and> ns_genesis_file_location ns = blob \<and> ns_rest ns = ns_rest old \<and>
    re_node_to ev ns = Ok yaml \<and> w' = w\<lparr>wo_files := (wo_files w)(config_path \<mapsto> yaml)\<rparr>"
  by (rule node_file_Ok[OF assms]) blast

section \<open>The twin\<close>

lemma find_operators_id: "snd (find_operator_configs ev p w) = w"
  by (simp add: find_operator_configs_def)

lemma replace_blob_dbs [io_preserves_intros]: "io_preserves (\<lambda>w. P (wo_dbs w)) (replace_validators_blob ev p cs q m)"
  unfolding replace_validators_blob_def Let_def by (intro io_preserves_intros)

text \<open>
  C16. When a twin network has been configured, its own database is still the plain copy of the reference database: the rescue
  transaction was computed on and committed to the reference database instead, while the validator's configuration
  already points to the waypoint of that transaction.
\<close>

theorem twin_patches_reference:
  assumes "\<forall>ro d d'. re_open ev ro (Some d) = Ok d' \<longrightarrow> d' = d"
    and copy: "\<forall>d d'. re_copy ev d None = Ok d' \<longrightarrow> d' = d"
    and d: "wo_dbs w reference_db = Some d" and dest: "wo_dbs w (re_join ev home_path ''data/db'') = None"
    and run: "configure_twin ev home_path reference_db mrb w = (Ok (), w')"
  shows "wo_dbs w' (re_join ev home_path ''data/db'') = Some d \<and>
    (\<exists>txn c ns yaml. re_calculate_genesis ev d txn = Ok c \<and> wo_dbs w' reference_db = Some (snd (cm_commit c d)) \<and>
       ns_base_waypoint ns = FromConfig (cm_waypoint c) \<and> re_node_to ev ns = Ok yaml \<and>
       wo_files w' (re_join ev home_path ''validator.yaml'') = Some yaml)"
proof -
  let ?dest = "re_join ev home_path ''data/db''" and ?home = "re_join ev home_path ''validator.yaml''"
  have other: "?dest \<noteq> reference_db" using d dest by auto
  have db: "rescue_database ev" using assms(1) by (simp add: rescue_database_def)
  obtain w1 creds w2 blob w3 wp w4 ns where copied: "copy_db ev reference_db ?dest (snd (create_dir_all ?dest w)) = (Ok (), w1)"
    and creds: "find_operator_configs ev home_path w1 = (Ok creds, w2)"
    and blob: "replace_validators_blob ev reference_db creds home_path mrb w2 = (Ok blob, w3)"
    and step: "one_step_apply_rescue_on_db ev reference_db blob w3 = (Ok wp, w4)"
    and node: "post_rescue_node_file_updates ev ?home wp blob w4 = (Ok ns, w')"
    using run by (auto simp: configure_twin_def Let_def io_bind_eq_Ok io_of_eq require_dir_def create_dir_all_def)
  have w1: "wo_dbs w1 = (wo_dbs w)(?dest \<mapsto> d)"
    using copied d dest copy by (auto simp: copy_db_def create_dir_all_def split: rres.splits)
  have "w2 = w1" using creds find_operators_id[of ev home_path w1] by simp
  with io_preservesD[OF replace_blob_dbs[where P = "\<lambda>m. m = wo_dbs w1"] _ blob] have w3: "wo_dbs w3 = wo_dbs w1" by simp
  then have "wo_dbs w3 reference_db = Some d" using w1 d other by simp
  from rescue_database.one_step_Ok[OF db this] step obtain txn c d' where
    c: "re_calculate_genesis ev d txn = Ok c" "wp = cm_waypoint c" "cm_commit c d = (Ok (), d')"
      "w4 = w3\<lparr>wo_dbs := (wo_dbs w3)(reference_db \<mapsto> d')\<rparr>"
    by auto
  from node obtain yaml where ns: "ns_base_waypoint ns = FromConfig wp" "re_node_to ev ns = Ok yaml"
    "w' = w4\<lparr>wo_files := (wo_files w4)(?home \<mapsto> yaml)\<rparr>"
    by (rule node_file_Ok)
  have "wo_dbs w' ?dest = Some d" "wo_dbs w' reference_db = Some (snd (cm_commit c d))" "wo_files w' ?home = Some yaml"
    using ns(3) c(3,4) w3 w1 other by auto
  with c(1,2) ns(1,2) show ?thesis by auto
qed

text \<open>
  The twin's configuration is expected as \<^verbatim>\<open>validator.yaml\<close> in the home directory: where it is missing, no twin is ever configured.
\<close>

lemma files_other:
  "p \<noteq> q \<Longrightarrow> io_preserves (\<lambda>w. wo_files w q = x) (write_world p c)"
  by (simp add: io_preserves_def write_world_def)

lemma bootstrap_keeps_files:
  "bo_update_node_config self = None \<Longrightarrow> io_preserves (\<lambda>w. wo_files w q = x) (BootstrapOpts_run ev self)"
  unfolding BootstrapOpts_run_def Let_def
  by (intro io_preserves_intros) (auto simp: io_preserves_def open_db_def commit_db_app split: rres.split)

lemma twin_needs_home_config:
  assumes "wo_files w (re_join ev home_path ''validator.yaml'') = None"
    and "re_join ev home_path REPLACE_VALIDATORS_BLOB \<noteq> re_join ev home_path ''validator.yaml''"
  shows "fst (configure_twin ev home_path reference_db mrb w) \<noteq> Ok ()"
proof
  let ?I = "\<lambda>w. wo_files w (re_join ev home_path ''validator.yaml'') = None"
  assume "fst (configure_twin ev home_path reference_db mrb w) = Ok ()"
  then obtain w' where run: "configure_twin ev home_path reference_db mrb w = (Ok (), w')"
    by (cases "configure_twin ev home_path reference_db mrb w") simp
  obtain w1 w2 w3 blob w4 wp ns creds where copied:
      "copy_db ev reference_db (re_join ev home_path ''data/db'') (snd (create_dir_all (re_join ev home_path ''data/db'') w)) = (Ok (), w1)"
    and creds: "find_operator_configs ev home_path w1 = (Ok creds, w2)"
    and blob: "replace_validators_blob ev reference_db creds home_path mrb w2 = (Ok blob, w3)"
    and step: "one_step_apply_rescue_on_db ev reference_db blob w3 = (Ok wp, w4)"
    and node: "post_rescue_node_file_updates ev (re_join ev home_path ''validator.yaml'') wp blob w4 = (Ok ns, w')"
    using run by (auto simp: configure_twin_def Let_def io_bind_eq_Ok io_of_eq require_dir_def create_dir_all_def)
  have "?I w1" using copied assms(1) by (auto simp: copy_db_def create_dir_all_def split: rres.splits)
  moreover have "w2 = w1" using creds find_operators_id[of ev home_path w1] by simp
  ultimately have w2: "?I w2" by simp
  have "io_preserves ?I (replace_validators_blob ev reference_db creds home_path mrb)"
    unfolding replace_validators_blob_def save_rescue_blob_def Let_def using assms(2) by (intro io_preserves_intros files_other)
  from io_preservesD[OF this w2 blob] have w3: "?I w3" .
  have "io_preserves ?I (one_step_apply_rescue_on_db ev reference_db blob)"
    unfolding one_step_apply_rescue_on_db_def by (intro io_preserves_intros bootstrap_keeps_files) simp_all
  from io_preservesD[OF this w3 step] have "?I w4" .
  with node show False by (auto elim!: node_file_Ok simp: file_text_def)
qed

section \<open>A concrete installation\<close>

text \<open>
  The databases are the chains of the reference VM, whose clock counts transactions; a genesis transaction advances it.
\<close>

definition ref_settings :: node_settings where
  "ref_settings = \<lparr>ns_base_waypoint = OtherWaypoint ''old'', ns_base_data_dir = ''h'', ns_backend = OnDiskStorage ''secure'',
     ns_initial_safety_rules = NoSafetyRules, ns_genesis = None, ns_genesis_file_location = ''genesis.blob'', ns_rest = []\<rparr>"

definition ref_committer :: "ref_chain \<Rightarrow> ref_chain committer" where
  "ref_committer d = \<lparr>cm_waypoint = \<lparr>wp_version = rc_clock d, wp_value = concat (rc_accounts d)\<rparr>,
     cm_commit = (\<lambda>d. (Ok (), d\<lparr>rc_clock := rc_clock d + 1\<rparr>))\<rparr>"

definition ref_rescue_hosts :: "string host_ops" where
  "ref_rescue_hosts = ref_hosts\<lparr>ho_yaml := ref_config_yaml\<lparr>cy_operator_from := (\<lambda>_.
     Ok (ref_operator\<lparr>op_full_node_network_public_key := Some [5]\<rparr>))\<rparr>\<rparr>"

definition ref_rescue_env :: "(ref_chain, unit, ref_chain, string) rescue_env" where
  "ref_rescue_env = \<lparr>re_vm = ref_move_vm,
     re_open = (\<lambda>ro d. case d of Some d \<Rightarrow> Ok d
       | None \<Rightarrow> if ro then Err ''no database'' else Ok \<lparr>rc_accounts = [], rc_clock = 0\<rparr>),
     re_num_transactions = (\<lambda>d. Ok (rc_clock d)), re_calculate_genesis = (\<lambda>d _. Ok (ref_committer d)),
     re_copy = (\<lambda>d _. Ok d),
     re_txn_from = (\<lambda>s. if s = ''G'' then Ok (GenesisTransaction (ScriptPayload core_code_address [])) else Err ''bcs''),
     re_txn_to = (\<lambda>t. if is_genesis t then Ok ''G'' else Err ''bcs''),
     re_node_from = (\<lambda>s. if s = ''old'' then Ok ref_settings else Err ''yaml''), re_node_to = (\<lambda>_. Ok ''new''),
     re_set_data_dir = (\<lambda>d c. d @ ''/'' @ c), re_build = (\<lambda>_ _. Ok [[1, 2]]), re_sha3_hex = (\<lambda>_. ''00''),
     re_glob = (\<lambda>_ _. Ok [Ok ''h/operator.yaml'']), re_hosts = ref_rescue_hosts\<rparr>"

interpretation ref_db: rescue_database ref_rescue_env
  by unfold_locales (simp add: ref_rescue_env_def)

lemma ref_open: "\<forall>ro d d'. re_open ref_rescue_env ro (Some d) = Ok d' \<longrightarrow> d' = d"
  by (simp add: ref_db.open_existing)

definition ref_world :: "ref_chain world" where
  "ref_world = \<lparr>wo_files = [''h/operator.yaml'' \<mapsto> ''operator'', ''h/validator.yaml'' \<mapsto> ''old'', ''blob'' \<mapsto> ''G'',
       ''h/validator-identity.yaml'' \<mapsto> ''keys''],
     wo_dirs = [''h''], wo_dbs = [''ref'' \<mapsto> \<lparr>rc_accounts = [[7]], rc_clock = 5\<rparr>]\<rparr>"

definition ref_script_cli :: RescueCli where
  "ref_script_cli = \<lparr>rl_db_path = ''ref'', rl_blob_path = Some ''out'', rl_command = RunScript (Some ''s'')\<rparr>"

definition ref_bootstrap :: BootstrapOpts where
  "ref_bootstrap = \<lparr>bo_db_dir = ''ref'', bo_genesis_txn_file = ''blob'', bo_waypoint_to_verify = Some \<lparr>wp_version = 5, wp_value = [7]\<rparr>,
     bo_commit = True, bo_update_node_config = None, bo_info = False\<rparr>"

lemma ref_ref: "wo_dbs ref_world ''ref'' = Some \<lparr>rc_accounts = [[7]], rc_clock = 5\<rparr>"
  by (simp add: ref_world_def)

lemma ref_script_runs: "fst (RescueCli_run ref_rescue_env ref_script_cli ref_world) = Ok ()"
  by code_simp

theorem rescue_keeps_databases_witness:
  "fst (RescueCli_run ref_rescue_env ref_script_cli ref_world) = Ok () \<and>
   wo_dbs (snd (RescueCli_run ref_rescue_env ref_script_cli ref_world)) ''ref'' = Some \<lparr>rc_accounts = [[7]], rc_clock = 5\<rparr>"
proof -
  have "\<forall>opts. rl_command ref_script_cli = Bootstrap opts \<longrightarrow> \<not> bo_commit opts"
    by (simp add: ref_script_cli_def)
  from ref_script_runs rescue_keeps_databases[OF ref_open this ref_ref] show ?thesis by blast
qed

lemma ref_bootstrap_changes: "wo_dbs (snd (BootstrapOpts_run ref_rescue_env ref_bootstrap ref_world)) ''ref'' =
    Some \<lparr>rc_accounts = [[7]], rc_clock = 6\<rparr>"
  by code_simp

theorem bootstrap_commits_verified_witness:
  "\<exists>c :: ref_chain committer. bo_waypoint_to_verify ref_bootstrap = Some (cm_waypoint c) \<and>
     snd (cm_commit c \<lparr>rc_accounts = [[7]], rc_clock = 5\<rparr>) = \<lparr>rc_accounts = [[7]], rc_clock = 6\<rparr>"
proof -
  let ?run = "BootstrapOpts_run ref_rescue_env ref_bootstrap ref_world"
  have dir: "wo_dbs ref_world (bo_db_dir ref_bootstrap) = Some \<lparr>rc_accounts = [[7]], rc_clock = 5\<rparr>"
    using ref_ref by (simp add: ref_bootstrap_def)
  have "wo_dbs (snd ?run) \<noteq> wo_dbs ref_world" using ref_bootstrap_changes ref_ref by auto
  from bootstrap_commits_verified[OF ref_open dir prod.collapse[symmetric] this]
  obtain c :: "ref_chain committer" where c: "bo_waypoint_to_verify ref_bootstrap \<in> {None, Some (cm_waypoint c)}"
    "wo_dbs (snd ?run) =
       (wo_dbs ref_world)(bo_db_dir ref_bootstrap \<mapsto> snd (cm_commit c \<lparr>rc_accounts = [[7]], rc_clock = 5\<rparr>))"
    by auto
  from c(2) ref_bootstrap_changes have "snd (cm_commit c \<lparr>rc_accounts = [[7]], rc_clock = 5\<rparr>) = \<lparr>rc_accounts = [[7]], rc_clock = 6\<rparr>"
    by (simp add: ref_bootstrap_def)
  with c(1) show ?thesis by (intro exI[of _ c]) (simp add: ref_bootstrap_def)
qed

theorem one_step_applies_once_witness:
  "\<exists>w'. one_step_apply_rescue_on_db ref_rescue_env ''ref'' ''blob'' ref_world = (Ok \<lparr>wp_version = 5, wp_value = [7]\<rparr>, w') \<and>
     wo_dbs w' ''ref'' = Some \<lparr>rc_accounts = [[7]], rc_clock = 6\<rparr>"
proof -
  let ?w' = "ref_world\<lparr>wo_dbs := (wo_dbs ref_world)(''ref'' \<mapsto> \<lparr>rc_accounts = [[7]], rc_clock = 6\<rparr>)\<rparr>"
  have "one_step_apply_rescue_on_db ref_rescue_env ''ref'' ''blob'' ref_world = (Ok \<lparr>wp_version = 5, wp_value = [7]\<rparr>, ?w')"
    by (subst one_step_applies_once[OF ref_open ref_ref])
      (simp add: ref_rescue_env_def ref_world_def load_genesis_txn_def file_text_def ref_committer_def)
  then show ?thesis by (intro exI[of _ ?w']) simp
qed

definition ref_patch :: "node_settings rres \<times> ref_chain world" where
  "ref_patch = post_rescue_node_file_updates ref_rescue_env ''h/validator.yaml'' \<lparr>wp_version = 5, wp_value = [7]\<rparr> ''blob'' ref_world"

lemma ref_patch_runs: "is_ok (fst ref_patch)"
  by code_simp

theorem node_file_points_to_rescue_witness:
  "\<exists>ns. fst ref_patch = Ok ns \<and> ns_base_waypoint ns = FromConfig \<lparr>wp_version = 5, wp_value = [7]\<rparr> \<and>
     ns_genesis_file_location ns = ''blob''"
proof -
  obtain ns where "fst ref_patch = Ok ns"
    using ref_patch_runs by (cases "fst ref_patch") auto
  then have run: "ref_patch = (Ok ns, snd ref_patch)" by (simp add: prod_eq_iff)
  from node_file_points_to_rescue[OF run[unfolded ref_patch_def]] show ?thesis
    using run by (metis fst_conv)
qed

lemma ref_twin_runs: "fst (configure_twin ref_rescue_env ''h'' ''ref'' None ref_world) = Ok ()"
  by code_simp

theorem twin_patches_reference_witness:
  "\<exists>w'. configure_twin ref_rescue_env ''h'' ''ref'' None ref_world = (Ok (), w') \<and>
     wo_dbs w' ''h/data/db'' = Some \<lparr>rc_accounts = [[7]], rc_clock = 5\<rparr>"
proof -
  have home: "re_join ref_rescue_env ''h'' ''data/db'' = ''h/data/db''"
    by (simp add: ref_rescue_env_def ref_rescue_hosts_def ref_hosts_def)
  obtain w' where run: "configure_twin ref_rescue_env ''h'' ''ref'' None ref_world = (Ok (), w')"
    using ref_twin_runs by (cases "configure_twin ref_rescue_env ''h'' ''ref'' None ref_world") auto
  have copy: "\<forall>d d'. re_copy ref_rescue_env d None = Ok d' \<longrightarrow> d' = d"
    by (simp add: ref_rescue_env_def)
  have fresh: "wo_dbs ref_world (re_join ref_rescue_env ''h'' ''data/db'') = None"
    by (simp add: home ref_world_def)
  from twin_patches_reference[OF ref_open copy ref_ref fresh run] run show ?thesis
    unfolding home by blast
qed

end
