(* ===== verification/Config_Edit.thy ===== *)
theory Config_Edit
  imports Client_Ext App_Cfg Wallet
begin

text \<open>
  Editing an existing configuration: \<^verbatim>\<open>libra config fix\<close> with its menus (\<^verbatim>\<open>src/tools/config/src/interactive\<close>).

  A session is a \<open>desk\<close>: the configuration the functions borrow mutably, the files, the network behind the REST client, and
  what the user is going to do, a list of answers. A prompt takes the next answer; a list that is used up, or an answer of another
  kind, is an interaction that fails (\<open>interact()?\<close>). A menu only returns the index of one of its items. Ending the
  process from inside a function is a panic.
\<close>

section \<open>Prompts\<close>

datatype answer = Picked nat | Confirmed bool | Typed string

record 'w desk =
  dk_cfg :: AppCfg
  dk_files :: file_system
  dk_answers :: "answer list"
  dk_net :: 'w

text \<open>
  What the session takes from elsewhere: printed addresses and literals, the crypto of the wallet, URLs, playlists, the nodes, the
  codec of the configuration file and the environment of the process.
\<close>

record 'w desk_env =
  de_to_str :: "account_address \<Rightarrow> string"
  de_conv :: address_conv
  de_crypto :: crypto
  de_url :: "string \<Rightarrow> url rres"
  de_fetch :: "url \<Rightarrow> NetworkPlaylist rres"
  de_arrive :: "HostProfile list \<Rightarrow> HostProfile list"
  de_index :: "url \<Rightarrow> u64 option"
  de_move :: move_text
  de_client :: "url \<Rightarrow> 'w client"
  de_mode :: NamedChain
  de_mnem :: "string option"
  de_home :: fpath
  de_to_yaml :: "AppCfg \<Rightarrow> string rres"
  de_from_yaml :: "string \<Rightarrow> AppCfg option"

abbreviation to_lit :: "'w desk_env \<Rightarrow> account_address \<Rightarrow> string" where
  "to_lit ev \<equiv> v_to_hex_literal (de_conv ev)"

definition next_answer :: "(answer \<Rightarrow> 'a option) \<Rightarrow> ('a, 'w desk) io" where
  "next_answer f = (\<lambda>d.
     case dk_answers d of
       [] \<Rightarrow> (Err ''IO error'', d)
     | a # as \<Rightarrow> (or_err ''IO error'' (f a), d\<lparr>dk_answers := as\<rparr>))"

definition select :: "nat \<Rightarrow> (nat, 'w desk) io" where
  "select n = next_answer (\<lambda>a. case a of Picked i \<Rightarrow> if i < n then Some i else None | _ \<Rightarrow> None)"

definition confirm :: "(bool, 'w desk) io" where
  "confirm = next_answer (\<lambda>a. case a of Confirmed b \<Rightarrow> Some b | _ \<Rightarrow> None)"

definition type_in :: "(string, 'w desk) io" where
  "type_in = next_answer (\<lambda>a. case a of Typed s \<Rightarrow> Some s | _ \<Rightarrow> None)"

definition with_cfg :: "(AppCfg \<Rightarrow> 'a rres) \<Rightarrow> ('a, 'w desk) io" where
  "with_cfg f = (\<lambda>d. (f (dk_cfg d), d))"

definition update_cfg :: "(AppCfg \<Rightarrow> AppCfg) \<Rightarrow> (unit, 'w desk) io" where
  "update_cfg f = (\<lambda>d. (Ok (), d\<lparr>dk_cfg := f (dk_cfg d)\<rparr>))"

definition on_net :: "('a, 'w) io \<Rightarrow> ('a, 'w desk) io" where
  "on_net m = (\<lambda>d. case m (dk_net d) of (r, w) \<Rightarrow> (r, d\<lparr>dk_net := w\<rparr>))"

section \<open>Accounts\<close>

definition get_account_from_prompt :: "'w desk_env \<Rightarrow> (auth_key \<times> account_address \<times> WalletLibrary, 'w desk) io" where
  "get_account_from_prompt ev =
     io_bind (if de_mode ev = TESTING \<and> de_mnem ev \<noteq> None then io_of (Ok (trim (the (de_mnem ev))))
              else io_match type_in (\<lambda>s. io_of (Ok (trim s))) (\<lambda>e. io_of (Panic ''exit 1''))) (\<lambda>mnem.
     io_match (io_of (get_account_from_mnem (de_crypto ev) mnem)) (\<lambda>a. io_of (Ok a)) (\<lambda>e. io_of (Panic ''exit 1'')))"

definition get_keys_from_prompt :: "'w desk_env \<Rightarrow> (KeyChain, 'w desk) io" where
  "get_keys_from_prompt ev =
     io_bind (get_account_from_prompt ev) (\<lambda>(_, _, wallet). io_of (KeyChain_new (de_crypto ev) (de_conv ev) wallet))"

definition prompt_for_account :: "'w desk_env \<Rightarrow> (AccountKeys, 'w desk) io" where
  "prompt_for_account ev =
     io_bind (get_keys_from_prompt ev) (\<lambda>kc. let account_keys = kc_child_0_owner kc in
     io_bind confirm (\<lambda>legacy.
     if legacy then
       io_bind (io_of (get_ol_legacy_address (de_conv ev) (ak_account account_keys))) (\<lambda>a.
       io_of (Ok (account_keys\<lparr>ak_account := a\<rparr>)))
     else io_of (Ok account_keys)))"

definition zero_authkey :: auth_key where
  "zero_authkey = replicate 32 0"

definition interactive_account_selection :: "'w desk_env \<Rightarrow> (auth_key \<times> account_address, 'w desk) io" where
  "interactive_account_selection ev =
     io_bind confirm (\<lambda>real_account.
     if real_account then
       io_bind confirm (\<lambda>use_existing.
       if use_existing then
         io_bind type_in (\<lambda>address_input.
         io_bind (io_of (with_context ''Invalid account address format''
                    (v_from_hex_literal (de_conv ev) address_input))) (\<lambda>address.
         io_of (Ok (zero_authkey, address))))
       else
         io_bind (prompt_for_account ev) (\<lambda>account_keys.
         io_of (Ok (ak_auth_key account_keys, ak_account account_keys))))
     else io_of (Ok (zero_authkey, zero_address)))"

section \<open>Profiles\<close>

definition set_default :: "string \<Rightarrow> AppCfg \<Rightarrow> AppCfg" where
  "set_default p c = c\<lparr>workspace := Workspace_set_default (workspace c) p\<rparr>"

text \<open>The address an account key was created with, when a node is reached and knows it.\<close>

definition originating_or ::
  "'w desk_env \<Rightarrow> url \<Rightarrow> auth_key \<Rightarrow> account_address \<Rightarrow> (account_address, 'w desk) io" where
  "originating_or ev u authkey address =
     io_match (on_net (lookup_originating_address (de_move ev) (de_client ev u) authkey))
       (\<lambda>a. io_of (Ok a)) (\<lambda>e. io_of (Ok address))"

definition reset_address_profile :: "'w desk_env \<Rightarrow> NamedChain option \<Rightarrow> (nat, 'w desk) io" where
  "reset_address_profile ev chain =
     io_bind (interactive_account_selection ev) (\<lambda>(authkey, address).
     io_bind (with_cfg (\<lambda>cfg. pick_url cfg chain)) (\<lambda>u.
     io_bind (if de_index ev u \<noteq> None \<and> authkey \<noteq> zero_authkey then originating_or ev u authkey address
              else io_of (Ok address)) (\<lambda>account_address.
     let profile = Profile_new (de_to_str ev) authkey account_address in
     io_bind (update_cfg (\<lambda>cfg. maybe_add_profile cfg profile)) (\<lambda>_.
     io_bind confirm (\<lambda>as_default.
     io_bind (if as_default then update_cfg (set_default (to_lit ev account_address)) else io_of (Ok ())) (\<lambda>_.
     with_cfg (\<lambda>cfg. get_profile_mut (de_to_str ev) cfg (Some (to_lit ev account_address)))))))))"

definition names_profile :: "'w desk_env \<Rightarrow> string \<Rightarrow> Profile \<Rightarrow> bool" where
  "names_profile ev identifier p \<longleftrightarrow>
     to_lit ev (account p) = identifier \<or> de_to_str ev (account p) = identifier \<or> nickname p = identifier"

definition reset_default_profile_after_removal :: "'w desk_env \<Rightarrow> AppCfg \<Rightarrow> AppCfg" where
  "reset_default_profile_after_removal ev cfg =
     (case user_profiles cfg of
        [] \<Rightarrow> cfg\<lparr>workspace := (workspace cfg)\<lparr>default_profile := None\<rparr>\<rparr>
      | p # _ \<Rightarrow> set_default (to_lit ev (account p)) cfg)"

definition is_default_profile :: "'w desk_env \<Rightarrow> AppCfg \<Rightarrow> string \<Rightarrow> bool" where
  "is_default_profile ev cfg identifier =
     (case List.find (names_profile ev identifier) (user_profiles cfg) of
        None \<Rightarrow> False
      | Some profile \<Rightarrow>
          (case default_profile (workspace cfg) of
             None \<Rightarrow> False
           | Some dflt \<Rightarrow> dflt = to_lit ev (account profile) \<or> dflt = nickname profile))"

definition remove_profile :: "'w desk_env \<Rightarrow> string \<Rightarrow> AppCfg \<Rightarrow> AppCfg" where
  "remove_profile ev identifier cfg =
     (let reset = (\<lambda>c. if is_default_profile ev cfg identifier then reset_default_profile_after_removal ev c else c)
      in case try_remove_profile (de_to_str ev) cfg identifier of
           Ok cfg' \<Rightarrow> reset cfg'
         | _ \<Rightarrow> (case find_index (names_profile ev identifier) (user_profiles cfg) of
                  Some i \<Rightarrow> reset (cfg\<lparr>user_profiles := remove_at i (user_profiles cfg)\<rparr>)
                | None \<Rightarrow> cfg))"

definition change_default_profile :: "'w desk_env \<Rightarrow> (unit, 'w desk) io" where
  "change_default_profile ev =
     io_bind (with_cfg (\<lambda>cfg. Ok (user_profiles cfg))) (\<lambda>profiles.
     if profiles = [] then io_of (Err ''No profiles available'')
     else
       io_bind (select (length profiles)) (\<lambda>selection.
       io_bind (io_of (index profiles selection)) (\<lambda>selected.
       update_cfg (set_default (to_lit ev (account selected))))))"

definition interactive_remove_profile :: "'w desk_env \<Rightarrow> (unit, 'w desk) io" where
  "interactive_remove_profile ev =
     io_bind (with_cfg (\<lambda>cfg. Ok (user_profiles cfg))) (\<lambda>profiles.
     io_bind (select (length profiles)) (\<lambda>selection.
     io_bind (io_of (index profiles selection)) (\<lambda>profile_to_remove.
     let profile_id = to_lit ev (account profile_to_remove) in
     io_bind confirm (\<lambda>sure.
     if sure then update_cfg (remove_profile ev profile_id) else io_of (Ok ())))))"

definition add_new_profile :: "'w desk_env \<Rightarrow> NamedChain option \<Rightarrow> (unit, 'w desk) io" where
  "add_new_profile ev chain = io_bind (reset_address_profile ev chain) (\<lambda>_. io_of (Ok ()))"

definition changed :: "('a, 'w desk) io \<Rightarrow> (bool, 'w desk) io" where
  "changed m = io_bind m (\<lambda>_. io_of (Ok True))"

definition interactive_edit_single_profile :: "'w desk_env \<Rightarrow> NamedChain option \<Rightarrow> (bool, 'w desk) io" where
  "interactive_edit_single_profile ev chain =
     io_bind (with_cfg (\<lambda>cfg. index (user_profiles cfg) 0)) (\<lambda>current_profile.
     io_bind (select 3) (\<lambda>selection.
     if selection = 0 then changed (reset_address_profile ev chain)
     else if selection = 1 then changed (add_new_profile ev chain)
     else io_of (Ok False)))"

definition rename_profile :: "nat \<Rightarrow> string \<Rightarrow> AppCfg \<Rightarrow> AppCfg" where
  "rename_profile i n cfg =
     cfg\<lparr>user_profiles := (user_profiles cfg)[i := (user_profiles cfg ! i)\<lparr>nickname := n\<rparr>]\<rparr>"

definition edit_profile :: "'w desk_env \<Rightarrow> NamedChain option \<Rightarrow> (bool, 'w desk) io" where
  "edit_profile ev chain =
     io_bind (with_cfg (\<lambda>cfg. Ok (user_profiles cfg))) (\<lambda>profiles.
     if profiles = [] then io_of (Ok False)
     else
       io_bind (select (length profiles)) (\<lambda>selection.
       io_bind (io_of (index profiles selection)) (\<lambda>selected.
       io_bind (select 3) (\<lambda>edit_selection.
       if edit_selection = 0 then
         io_bind (update_cfg (remove_profile ev (to_lit ev (account selected)))) (\<lambda>_.
         changed (reset_address_profile ev chain))
       else if edit_selection = 1 then
         io_bind type_in (\<lambda>new_nickname.
         io_bind (with_cfg (\<lambda>cfg. Ok (length (user_profiles cfg)))) (\<lambda>len.
         if selection < len then changed (update_cfg (rename_profile selection new_nickname))
         else io_of (Err ''Profile not found'')))
       else io_of (Ok False)))))"

definition interactive_profile_management :: "'w desk_env \<Rightarrow> NamedChain option \<Rightarrow> (bool, 'w desk) io" where
  "interactive_profile_management ev chain =
     io_bind (select 5) (\<lambda>selection.
     if selection = 0 then changed (add_new_profile ev chain)
     else if selection = 1 then changed (change_default_profile ev)
     else if selection = 2 then edit_profile ev chain
     else if selection = 3 then changed (interactive_remove_profile ev)
     else io_of (Ok False))"

definition interactive_manage_profiles :: "'w desk_env \<Rightarrow> NamedChain option \<Rightarrow> (bool, 'w desk) io" where
  "interactive_manage_profiles ev chain =
     io_bind (with_cfg (\<lambda>cfg. Ok (length (user_profiles cfg)))) (\<lambda>n.
     if n = 1 then interactive_edit_single_profile ev chain
     else if 1 < n then interactive_profile_management ev chain
     else
       io_bind (select 2) (\<lambda>selection.
       if selection = 0 then changed (add_new_profile ev chain) else io_of (Ok False)))"

section \<open>Defaults\<close>

definition change_default_chain :: "(unit, 'w desk) io" where
  "change_default_chain =
     io_bind (with_cfg (\<lambda>cfg. Ok (map chain_name (network_playlist cfg)))) (\<lambda>configured_chains.
     if configured_chains = [] then io_of (Err ''No networks configured. Please configure a network first.'')
     else
       io_bind (select (length configured_chains)) (\<lambda>selection.
       io_bind (io_of (index configured_chains selection)) (\<lambda>selected_chain.
       update_cfg (\<lambda>cfg. set_chain_id cfg selected_chain))))"

definition interactive_change_defaults :: "'w desk_env \<Rightarrow> (bool, 'w desk) io" where
  "interactive_change_defaults ev =
     io_bind (select 3) (\<lambda>selection.
     if selection = 0 then
       io_bind (with_cfg (\<lambda>cfg. Ok (length (user_profiles cfg)))) (\<lambda>n.
       if 1 < n then changed (change_default_profile ev) else io_of (Ok False))
     else if selection = 1 then changed change_default_chain
     else io_of (Ok False))"

section \<open>Networks\<close>

definition edit_playlist :: "nat \<Rightarrow> (NetworkPlaylist \<Rightarrow> NetworkPlaylist) \<Rightarrow> AppCfg \<Rightarrow> AppCfg" where
  "edit_playlist i f cfg = cfg\<lparr>network_playlist := (network_playlist cfg)[i := f (network_playlist cfg ! i)]\<rparr>"

definition force_url_overwrite :: "url \<Rightarrow> NamedChain option \<Rightarrow> (unit, 'w desk) io" where
  "force_url_overwrite u chain =
     io_bind (with_cfg (\<lambda>cfg. get_network_profile_mut cfg chain)) (\<lambda>i.
     update_cfg (edit_playlist i (\<lambda>np. add_url (np\<lparr>nodes := []\<rparr>) u)))"

definition add_fullnode_url :: "'w desk_env \<Rightarrow> NamedChain option \<Rightarrow> (unit, 'w desk) io" where
  "add_fullnode_url ev chain =
     io_bind type_in (\<lambda>url_input.
     io_bind (io_of (with_context ''Invalid URL format'' (de_url ev url_input))) (\<lambda>u.
     io_bind (with_cfg (\<lambda>cfg. get_network_profile_mut cfg chain)) (\<lambda>i.
     update_cfg (edit_playlist i (\<lambda>np. add_url np u)))))"

definition remove_all_fullnodes :: "NamedChain option \<Rightarrow> (bool, 'w desk) io" where
  "remove_all_fullnodes chain =
     io_bind confirm (\<lambda>sure.
     if sure then
       io_bind (with_cfg (\<lambda>cfg. get_network_profile_mut cfg chain)) (\<lambda>i.
       changed (update_cfg (edit_playlist i (\<lambda>np. np\<lparr>nodes := []\<rparr>))))
     else io_of (Ok False))"

definition refreshed :: "'w desk_env \<Rightarrow> NetworkPlaylist \<Rightarrow> NetworkPlaylist" where
  "refreshed ev np = refresh_sync_status (de_arrive ev) (de_index ev) np"

definition refresh_from_default_playlist :: "'w desk_env \<Rightarrow> NamedChain option \<Rightarrow> (bool, 'w desk) io" where
  "refresh_from_default_playlist ev chain =
     io_bind (io_of (default_for_network (de_fetch ev) chain)) (\<lambda>np.
     io_bind confirm (\<lambda>replace.
     if replace then changed (update_cfg (\<lambda>cfg. maybe_add_custom_playlist cfg (refreshed ev np)))
     else io_of (Ok False)))"

definition refresh_from_custom_playlist :: "'w desk_env \<Rightarrow> NamedChain option \<Rightarrow> (bool, 'w desk) io" where
  "refresh_from_custom_playlist ev chain =
     io_bind type_in (\<lambda>playlist_url_input.
     io_bind (io_of (with_context ''Invalid playlist URL format'' (de_url ev playlist_url_input))) (\<lambda>playlist_url.
     io_bind (io_of (from_playlist_url (de_fetch ev) playlist_url chain)) (\<lambda>np.
     io_bind confirm (\<lambda>replace.
     if replace then changed (update_cfg (\<lambda>cfg. maybe_add_custom_playlist cfg (refreshed ev np)))
     else io_of (Ok False)))))"

definition interactive_update_url :: "'w desk_env \<Rightarrow> NamedChain option \<Rightarrow> (bool, 'w desk) io" where
  "interactive_update_url ev chain =
     io_bind (select 5) (\<lambda>selection.
     if selection = 0 then changed (add_fullnode_url ev chain)
     else if selection = 1 then remove_all_fullnodes chain
     else if selection = 2 then refresh_from_default_playlist ev chain
     else if selection = 3 then refresh_from_custom_playlist ev chain
     else io_of (Ok False))"

definition select_and_edit_network :: "'w desk_env \<Rightarrow> (bool, 'w desk) io" where
  "select_and_edit_network ev =
     io_bind (with_cfg (\<lambda>cfg. Ok (network_playlist cfg))) (\<lambda>nps.
     if nps = [] then io_of (Ok False)
     else
       io_bind (select (length nps)) (\<lambda>selection.
       io_bind (io_of (index nps selection)) (\<lambda>np.
       interactive_update_url ev (Some (chain_name np)))))"

definition get_available_chains_not_configured :: "NamedChain list \<Rightarrow> NamedChain list" where
  "get_available_chains_not_configured configured_chains =
     filter (\<lambda>chain. chain \<notin> set configured_chains) [MAINNET, TESTING]"

text \<open>The loop that reads URLs. Every round takes an answer, so it ends with the answers at the latest.\<close>

fun custom_urls :: "(string \<Rightarrow> url rres) \<Rightarrow> NetworkPlaylist \<Rightarrow> answer list \<Rightarrow> NetworkPlaylist rres \<times> answer list" where
  "custom_urls parse np (Typed s # as) =
     (if trim s = [] then (Ok np, as)
      else case parse s of
             Ok u \<Rightarrow>
               (case as of
                  Confirmed another # bs \<Rightarrow>
                    if another then custom_urls parse (add_url np u) bs else (Ok (add_url np u), bs)
                | _ \<Rightarrow> (Err ''IO error'', tl as))
           | Err _ \<Rightarrow> custom_urls parse np as
           | Panic p \<Rightarrow> (Panic p, as))"
| "custom_urls parse np as = (Err ''IO error'', tl as)"

definition read_custom_urls :: "'w desk_env \<Rightarrow> NetworkPlaylist \<Rightarrow> (NetworkPlaylist, 'w desk) io" where
  "read_custom_urls ev np = (\<lambda>d.
     case custom_urls (de_url ev) np (dk_answers d) of (r, as) \<Rightarrow> (r, d\<lparr>dk_answers := as\<rparr>))"

definition add_new_network :: "'w desk_env \<Rightarrow> (bool, 'w desk) io" where
  "add_new_network ev =
     io_bind (with_cfg (\<lambda>cfg. Ok (map chain_name (network_playlist cfg)))) (\<lambda>configured_chains.
     let available_chains = get_available_chains_not_configured configured_chains in
     if available_chains = [] then io_of (Ok False)
     else
       io_bind (select (length available_chains)) (\<lambda>selection.
       io_bind (io_of (index available_chains selection)) (\<lambda>selected_chain.
       io_bind (select 4) (\<lambda>config_selection.
       if config_selection = 0 then
         io_bind (io_of (default_for_network (de_fetch ev) (Some selected_chain))) (\<lambda>np.
         changed (update_cfg (\<lambda>cfg. maybe_add_custom_playlist cfg (refreshed ev np))))
       else if config_selection = 1 then
         io_bind (read_custom_urls ev (NetworkPlaylist_new None (Some selected_chain))) (\<lambda>np.
         if nodes np = [] then io_of (Ok False)
         else changed (update_cfg (\<lambda>cfg. maybe_add_custom_playlist cfg np)))
       else if config_selection = 2 then
         io_bind type_in (\<lambda>playlist_url_input.
         io_bind (io_of (with_context ''Invalid playlist URL format'' (de_url ev playlist_url_input))) (\<lambda>playlist_url.
         io_bind (io_of (from_playlist_url (de_fetch ev) playlist_url (Some selected_chain))) (\<lambda>np.
         changed (update_cfg (\<lambda>cfg. maybe_add_custom_playlist cfg (refreshed ev np))))))
       else io_of (Ok False)))))"

definition network_options :: "AppCfg \<Rightarrow> string list" where
  "network_options cfg =
     (if network_playlist cfg \<noteq> [] then [''Edit fullnode URLs for a specific network''] else []) @
     (if get_available_chains_not_configured (map chain_name (network_playlist cfg)) \<noteq> []
      then [''Add a new network (chain)''] else []) @ [''Cancel'']"

definition interactive_manage_networks :: "'w desk_env \<Rightarrow> (bool, 'w desk) io" where
  "interactive_manage_networks ev =
     io_bind (with_cfg Ok) (\<lambda>cfg. let options = network_options cfg in
     io_bind (select (length options)) (\<lambda>selection.
     if selection = 0 \<and> network_playlist cfg \<noteq> [] then select_and_edit_network ev
     else
       io_bind (io_of (index options selection)) (\<lambda>option.
       if option = ''Add a new network (chain)'' then add_new_network ev else io_of (Ok False))))"

section \<open>The fix command\<close>

definition interactive_fix_setup :: "'w desk_env \<Rightarrow> NamedChain option \<Rightarrow> (bool, 'w desk) io" where
  "interactive_fix_setup ev chain =
     io_bind (select 4) (\<lambda>selection.
     if selection = 0 then interactive_manage_profiles ev chain
     else if selection = 1 then interactive_manage_networks ev
     else if selection = 2 then interactive_change_defaults ev
     else io_of (Ok False))"

record FixOptions =
  fo_reset_address :: bool
  fo_remove_profile :: "string option"
  fo_fullnode_url :: "url option"
  fo_config_path :: "fpath option"
  fo_chain_name :: "NamedChain option"

definition args_count :: "FixOptions \<Rightarrow> nat" where
  "args_count opts = length (filter (\<lambda>x. x) [fo_reset_address opts, fo_remove_profile opts \<noteq> None, fo_fullnode_url opts \<noteq> None])"

definition load_cfg :: "'w desk_env \<Rightarrow> fpath option \<Rightarrow> (unit, 'w desk) io" where
  "load_cfg ev file = (\<lambda>d.
     case load (de_from_yaml ev) (de_home ev) file (dk_files d) of
       Ok cfg \<Rightarrow> (Ok (), d\<lparr>dk_cfg := cfg\<rparr>)
     | Err e \<Rightarrow> (Err (''no config file found for libra tools, '' @ e), d)
     | Panic p \<Rightarrow> (Panic p, d))"

definition save_cfg :: "'w desk_env \<Rightarrow> (fpath, 'w desk) io" where
  "save_cfg ev = (\<lambda>d. case save_file (de_to_yaml ev) (dk_cfg d) (dk_files d) of (r, fs) \<Rightarrow> (r, d\<lparr>dk_files := fs\<rparr>))"

definition apply_fix :: "'w desk_env \<Rightarrow> FixOptions \<Rightarrow> (bool, 'w desk) io" where
  "apply_fix ev opts =
     (if args_count opts = 0 then interactive_fix_setup ev (fo_chain_name opts)
      else if 1 < args_count opts then io_of (Err ''Only one argument can be provided to 'fix' command'')
      else
        io_bind (if fo_reset_address opts then changed (reset_address_profile ev (fo_chain_name opts)) else io_of (Ok False))
          (\<lambda>changes_made.
        io_bind (case fo_remove_profile opts of
                   Some profile_name \<Rightarrow> changed (update_cfg (remove_profile ev profile_name))
                 | None \<Rightarrow> io_of (Ok changes_made)) (\<lambda>changes_made.
        case fo_fullnode_url opts of
          Some u \<Rightarrow> changed (force_url_overwrite u (fo_chain_name opts))
        | None \<Rightarrow> io_of (Ok changes_made))))"

definition fix_config :: "'w desk_env \<Rightarrow> FixOptions \<Rightarrow> (unit, 'w desk) io" where
  "fix_config ev opts =
     io_bind (load_cfg ev (fo_config_path opts)) (\<lambda>_.
     io_bind (apply_fix ev opts) (\<lambda>changes_made.
     if changes_made then io_bind (save_cfg ev) (\<lambda>_. io_of (Ok ())) else io_of (Ok ())))"

section \<open>What a session may change\<close>

text \<open>
  Accounts and chains are keys: no two profiles share an account and no two playlists a chain. \<open>keeps_keys\<close> is the contract of
  an edit: it preserves that and leaves alone the directory the configuration is saved in.
\<close>

definition distinct_keys :: "AppCfg \<Rightarrow> bool" where
  "distinct_keys c \<longleftrightarrow> distinct (map account (user_profiles c)) \<and> distinct (map chain_name (network_playlist c))"

definition keeps_keys :: "(AppCfg \<Rightarrow> AppCfg) \<Rightarrow> bool" where
  "keeps_keys f \<longleftrightarrow>
     (\<forall>c. distinct_keys c \<longrightarrow> distinct_keys (f c) \<and> node_home (workspace (f c)) = node_home (workspace c))"

lemma distinct_remove_at: "distinct xs \<Longrightarrow> distinct (remove_at i xs)"
  using set_take_disj_set_drop_if_distinct[of xs i "Suc i"] by (simp add: remove_at_def)

lemma map_remove_at: "map f (remove_at i xs) = remove_at i (map f xs)"
  by (simp add: remove_at_def take_map drop_map)

lemma keeps_set_default: "keeps_keys (set_default p)"
  by (simp add: keeps_keys_def distinct_keys_def set_default_def Workspace_set_default_def)

lemma keeps_set_chain_id: "keeps_keys (\<lambda>c. set_chain_id c ch)"
  by (simp add: keeps_keys_def distinct_keys_def set_chain_id_def)

lemma keeps_reset_default: "keeps_keys (reset_default_profile_after_removal ev)"
  using keeps_set_default
  by (auto simp: keeps_keys_def reset_default_profile_after_removal_def distinct_keys_def split: list.splits)

lemma keeps_remove_at: "keeps_keys (\<lambda>c. c\<lparr>user_profiles := remove_at i (user_profiles c)\<rparr>)"
  by (simp add: keeps_keys_def distinct_keys_def map_remove_at distinct_remove_at)

lemma remove_profile_shape:
  "remove_profile ev identifier c = c \<or>
   (\<exists>i. let c' = c\<lparr>user_profiles := remove_at i (user_profiles c)\<rparr> in
      remove_profile ev identifier c \<in> {c', reset_default_profile_after_removal ev c'})"
  by (auto simp: remove_profile_def try_remove_profile_def Let_def rust_simps split: rres.splits option.splits)

lemma keeps_remove_profile: "keeps_keys (remove_profile ev identifier)"
  unfolding keeps_keys_def
proof (intro allI impI)
  fix c assume c: "distinct_keys c"
  note k = keeps_remove_at[unfolded keeps_keys_def, rule_format]
    keeps_reset_default[unfolded keeps_keys_def, rule_format, of _ ev]
  from remove_profile_shape[of ev "identifier" c] c k(1)[OF c] k(2)[OF k(1)[OF c, THEN conjunct1]]
  show "distinct_keys (remove_profile ev identifier c) \<and>
    node_home (workspace (remove_profile ev identifier c)) = node_home (workspace c)"
    by (auto simp: Let_def)
qed

lemma keeps_maybe_add_profile: "keeps_keys (\<lambda>c. maybe_add_profile c p)"
  unfolding keeps_keys_def
proof (intro allI impI)
  fix c assume c: "distinct_keys c"
  have w: "workspace (maybe_add_profile c p) = workspace c" "network_playlist (maybe_add_profile c p) = network_playlist c"
    by (simp_all add: maybe_add_profile_def split: option.splits)
  have "distinct (map account (user_profiles (maybe_add_profile c p)))"
    using c by (cases c p rule: maybe_add_profile_cases) (auto simp: distinct_keys_def map_update_same)
  with c w show "distinct_keys (maybe_add_profile c p) \<and>
      node_home (workspace (maybe_add_profile c p)) = node_home (workspace c)"
    by (simp add: distinct_keys_def)
qed

lemma map_replace_same:
  "map chain_name (map (\<lambda>play. if chain_name play = chain_name np then np else play) nps) = map chain_name nps"
  by (induction nps) simp_all

lemma keeps_maybe_add_custom_playlist: "keeps_keys (\<lambda>c. maybe_add_custom_playlist c np)"
  using map_replace_same[of np]
  by (auto simp: keeps_keys_def distinct_keys_def maybe_add_custom_playlist_def Let_def list_ex_iff image_iff
      simp del: map_map)

lemma keeps_edit_playlist: "(\<And>np. chain_name (f np) = chain_name np) \<Longrightarrow> keeps_keys (edit_playlist i f)"
proof -
  assume f: "\<And>np. chain_name (f np) = chain_name np"
  have "map chain_name (network_playlist (edit_playlist i f c)) = map chain_name (network_playlist c)" for c
    by (cases "i < length (network_playlist c)") (simp_all add: edit_playlist_def map_update_same f list_update_beyond)
  then show ?thesis by (simp add: keeps_keys_def distinct_keys_def edit_playlist_def)
qed

lemma keeps_rename_profile: "keeps_keys (rename_profile i n)"
proof -
  have "map account (user_profiles (rename_profile i n c)) = map account (user_profiles c)" for c
    by (cases "i < length (user_profiles c)") (simp_all add: rename_profile_def map_update_same list_update_beyond)
  then show ?thesis by (simp add: keeps_keys_def distinct_keys_def rename_profile_def)
qed

text \<open>The invariant of a session until it saves: keys stay distinct, files and the target directory stay as they are.\<close>

definition tidy :: "fpath \<Rightarrow> file_system \<Rightarrow> 'w desk \<Rightarrow> bool" where
  "tidy h fs d \<longleftrightarrow> distinct_keys (dk_cfg d) \<and> node_home (workspace (dk_cfg d)) = h \<and> dk_files d = fs"

lemma tidy_next [io_preserves_intros]: "io_preserves (tidy h fs) (next_answer f)"
  by (simp add: io_preserves_def next_answer_def tidy_def split: list.split)

lemma tidy_with_cfg [io_preserves_intros]: "io_preserves (tidy h fs) (with_cfg f)"
  by (simp add: io_preserves_def with_cfg_def)

lemma tidy_on_net [io_preserves_intros]: "io_preserves (tidy h fs) (on_net m)"
  by (simp add: io_preserves_def on_net_def tidy_def split: prod.split)

lemma tidy_update: "keeps_keys f \<Longrightarrow> io_preserves (tidy h fs) (update_cfg f)"
  by (simp add: io_preserves_def update_cfg_def tidy_def keeps_keys_def)

lemma tidy_custom_urls [io_preserves_intros]: "io_preserves (tidy h fs) (read_custom_urls ev np)"
  by (simp add: io_preserves_def read_custom_urls_def tidy_def split: prod.split)

lemma io_preserves_pair: "(\<And>a b. io_preserves I (f a b)) \<Longrightarrow> io_preserves I (case p of (a, b) \<Rightarrow> f a b)"
  by (simp add: split_beta)

lemmas tidy_updates = tidy_update[OF keeps_set_default] tidy_update[OF keeps_set_chain_id]
  tidy_update[OF keeps_remove_profile] tidy_update[OF keeps_maybe_add_profile]
  tidy_update[OF keeps_maybe_add_custom_playlist] tidy_update[OF keeps_rename_profile]

lemmas tidy_intros = io_preserves_intros tidy_updates io_preserves_pair

lemmas prompts = select_def confirm_def type_in_def changed_def Let_def

lemma tidy_account_selection: "io_preserves (tidy h fs) (interactive_account_selection ev)"
  unfolding interactive_account_selection_def prompt_for_account_def get_keys_from_prompt_def
    get_account_from_prompt_def prompts
  by (intro tidy_intros)

lemma tidy_reset_address: "io_preserves (tidy h fs) (reset_address_profile ev chain)"
  unfolding reset_address_profile_def originating_or_def prompts
  by (intro tidy_intros tidy_account_selection)

lemma tidy_change_default: "io_preserves (tidy h fs) (change_default_profile ev)"
  unfolding change_default_profile_def prompts by (intro tidy_intros)

lemma tidy_manage_profiles: "io_preserves (tidy h fs) (interactive_manage_profiles ev chain)"
  unfolding interactive_manage_profiles_def interactive_profile_management_def interactive_edit_single_profile_def
    edit_profile_def interactive_remove_profile_def add_new_profile_def prompts
  by (intro tidy_intros tidy_reset_address tidy_change_default)

lemma tidy_change_defaults: "io_preserves (tidy h fs) (interactive_change_defaults ev)"
  unfolding interactive_change_defaults_def change_default_chain_def prompts
  by (intro tidy_intros tidy_change_default)

lemma tidy_edit_playlist:
  "(\<And>np. chain_name (f np) = chain_name np) \<Longrightarrow> io_preserves (tidy h fs) (update_cfg (edit_playlist i f))"
  by (rule tidy_update[OF keeps_edit_playlist])

lemma tidy_edits:
  "io_preserves (tidy h fs) (update_cfg (edit_playlist i (\<lambda>np. add_url np u)))"
  "io_preserves (tidy h fs) (update_cfg (edit_playlist i (\<lambda>np. add_url (np\<lparr>nodes := []\<rparr>) u)))"
  "io_preserves (tidy h fs) (update_cfg (edit_playlist i (\<lambda>np. np\<lparr>nodes := []\<rparr>)))"
  by (rule tidy_edit_playlist, simp add: add_url_def)+

lemma tidy_force_url: "io_preserves (tidy h fs) (force_url_overwrite u chain)"
  unfolding force_url_overwrite_def by (intro tidy_intros tidy_edits)

lemma tidy_manage_networks: "io_preserves (tidy h fs) (interactive_manage_networks ev)"
  unfolding interactive_manage_networks_def select_and_edit_network_def interactive_update_url_def add_new_network_def
    add_fullnode_url_def remove_all_fullnodes_def refresh_from_default_playlist_def refresh_from_custom_playlist_def prompts
  by (intro tidy_intros tidy_edits)

lemma tidy_apply_fix: "io_preserves (tidy h fs) (apply_fix ev opts)"
  unfolding apply_fix_def interactive_fix_setup_def prompts
  by (intro tidy_intros tidy_manage_profiles tidy_manage_networks tidy_change_defaults tidy_reset_address tidy_force_url)


section \<open>Theorems\<close>

text \<open>
  C20. A session of \<^verbatim>\<open>libra config fix\<close>. If the loaded configuration has distinct accounts and chains, then whatever the user
  answers, either no file is touched, or the session ended well and wrote exactly one file: the configuration
  file in the directory the loaded configuration names, holding a configuration with distinct accounts and chains. In
  particular no session that ends in an error writes anything.
\<close>

theorem fix_writes_once:
  assumes "load (de_from_yaml ev) (de_home ev) (fo_config_path opts) (dk_files d) = Ok c" and "distinct_keys c"
    and "fix_config ev opts d = (r, d')"
  shows "dk_files d' = dk_files d \<or>
    r = Ok () \<and> distinct_keys (dk_cfg d') \<and>
    (\<exists>y. de_to_yaml ev (dk_cfg d') = Ok y \<and>
       dk_files d' = (dk_files d)(node_home (workspace c) @ [CONFIG_FILE_NAME] \<mapsto> y))"
proof -
  let ?d = "d\<lparr>dk_cfg := c\<rparr>" and ?t = "tidy (node_home (workspace c)) (dk_files d)"
  obtain q d1 where a: "apply_fix ev opts ?d = (q, d1)" by fastforce
  have "?t ?d" using assms(2) by (simp add: tidy_def)
  from io_preservesD[OF tidy_apply_fix this a] have t: "?t d1" .
  have l: "load_cfg ev (fo_config_path opts) d = (Ok (), ?d)" using assms(1) by (simp add: load_cfg_def)
  show ?thesis
  proof (cases "q = Ok True")
    case False
    then have "dk_files d' = dk_files d1" using assms(3) a l by (cases q) (auto simp: fix_config_def)
    with t show ?thesis by (simp add: tidy_def)
  next
    case True
    with assms(3) a l have s: "io_bind (save_cfg ev) (\<lambda>_. io_of (Ok ())) d1 = (r, d')" by (simp add: fix_config_def)
    show ?thesis
    proof (cases "de_to_yaml ev (dk_cfg d1)")
      case (Ok y)
      with s t have "r = Ok ()" "d' = d1\<lparr>dk_files := (dk_files d)(node_home (workspace c) @ [CONFIG_FILE_NAME] \<mapsto> y)\<rparr>"
        by (auto simp: save_cfg_def save_file_def tidy_def io_bind_def io_match_def Let_def)
      with Ok t show ?thesis by (simp add: tidy_def)
    qed (use s t in \<open>auto simp: save_cfg_def save_file_def tidy_def io_bind_def io_match_def\<close>)
  qed
qed

definition ref_desk_env :: "unit desk_env" where
  "ref_desk_env =
     \<lparr>de_to_str = lower_hex, de_conv = ref_conv\<lparr>v_to_hex_literal := to_hex_literal_ref\<rparr>, de_crypto = ref_crypto,
      de_url = Ok, de_fetch = (\<lambda>_. Err ''offline''), de_arrive = (\<lambda>xs. xs), de_index = (\<lambda>_. None),
      de_move = ref_move_text, de_client = (\<lambda>_. answering []), de_mode = TESTING, de_mnem = None, de_home = [''home''],
      de_to_yaml = (\<lambda>_. Ok ''y''), de_from_yaml = (\<lambda>_. Some sample_cfg)\<rparr>"

definition ref_desk :: "answer list \<Rightarrow> unit desk" where
  "ref_desk as =
     \<lparr>dk_cfg = sample_cfg, dk_files = [default_file_path [''home''] \<mapsto> ''x''], dk_answers = as, dk_net = ()\<rparr>"

lemma ref_literal: "address_literal (de_to_str ref_desk_env) (to_lit ref_desk_env)"
  using hex_literal.address_literal_axioms by (simp add: ref_desk_env_def)

lemma sample_profiles:
  "user_profiles sample_cfg = [Profile_new lower_hex (replicate 32 1) (replicate 32 1),
                               Profile_new lower_hex (replicate 32 2) (replicate 32 2)]"
  "length (user_profiles sample_cfg) = 2"
  by (simp_all add: sample_cfg_def)

definition no_options :: FixOptions where
  "no_options = \<lparr>fo_reset_address = False, fo_remove_profile = None, fo_fullnode_url = None, fo_config_path = None,
     fo_chain_name = None\<rparr>"

lemma ref_desk_load: "load (de_from_yaml ref_desk_env) (de_home ref_desk_env) (fo_config_path no_options) (dk_files (ref_desk as)) =
  Ok sample_cfg"
  by (simp add: load_def ref_desk_env_def ref_desk_def no_options_def Let_def)

theorem fix_writes_once_witness:
  "\<exists>d'. fix_config ref_desk_env no_options (ref_desk [Picked 2, Picked 0, Picked 1]) = (Ok (), d') \<and>
     distinct_keys (dk_cfg d') \<and> dk_files d' = (dk_files (ref_desk []))(default_file_path [''home''] \<mapsto> ''y'')"
proof -
  let ?d = "ref_desk [Picked 2, Picked 0, Picked 1]"
  obtain r d' where f: "fix_config ref_desk_env no_options ?d = (r, d')" by fastforce
  have k: "distinct_keys sample_cfg"
    using sample_cfg_ok by (simp add: distinct_keys_def cfg_ok_def sample_cfg_def AppCfg_default_def)
  note simps = fix_config_def apply_fix_def args_count_def no_options_def interactive_fix_setup_def select_def
    next_answer_def interactive_change_defaults_def change_default_profile_def changed_def with_cfg_def update_cfg_def
    sample_profiles index_def save_cfg_def save_file_def
  have l: "load_cfg ref_desk_env None ?d = (Ok (), ?d)"
    using ref_desk_load[of "[Picked 2, Picked 0, Picked 1]"] by (simp add: load_cfg_def ref_desk_def no_options_def)
  have h: "node_home (workspace sample_cfg) @ [CONFIG_FILE_NAME] = default_file_path [''home'']"
    by (simp add: sample_cfg_def AppCfg_default_def Workspace_default_def default_file_path_def)
  have r: "r = Ok () \<and> dk_files d' (default_file_path [''home'']) = Some ''y''"
    using f l h by (simp add: simps ref_desk_def ref_desk_env_def set_default_def Workspace_set_default_def Let_def)
      (auto simp: simps ref_desk_def ref_desk_env_def set_default_def Workspace_set_default_def Let_def)
  from fix_writes_once[OF ref_desk_load k f] r h show ?thesis
    using f by (auto simp: ref_desk_def ref_desk_env_def)
qed

lemma contains_prefix: "str_contains s (a @ b) \<Longrightarrow> str_contains s a"
  by (auto simp: str_contains_iff)

definition plain_names :: "AppCfg \<Rightarrow> bool" where
  "plain_names c \<longleftrightarrow> list_all (\<lambda>p. \<not> str_contains (nickname p) ''0x'') (user_profiles c)"

lemma plain_no_literal:
  assumes "address_literal (de_to_str ev) (to_lit ev)" and "length a = 32"
    and "plain_names c" and "p \<in> set (user_profiles c)"
  shows "\<not> str_contains (nickname p) (to_lit ev a)"
  unfolding address_literal.to_lit_short[OF assms(1,2)]
  using assms(3,4) by (auto simp del: append.simps simp: plain_names_def list_all_iff dest: contains_prefix)

lemma literal_not_found:
  assumes "address_literal (de_to_str ev) (to_lit ev)" and "cfg_ok c" and "plain_names c"
    and "length a = 32" and "2 \<le> length (user_profiles c)"
  shows "get_profile_idx (de_to_str ev) c (Some (to_lit ev a)) = Err ''could not find a profile''"
proof -
  have none: "\<not> (str_contains (nickname e) (to_lit ev a) \<or> str_contains (de_to_str ev (account e)) (to_lit ev a))"
    if e: "e \<in> set (user_profiles c)" for e
  proof -
    have "length (account e) = 32" using assms(2) e by (simp add: cfg_ok_def profile_ok_def list_all_iff)
    then show ?thesis using plain_no_literal[OF assms(1,4,3) e] address_literal.to_str_no_literal[OF assms(1) _ assms(4)] by blast
  qed
  then have "find_index (\<lambda>e. str_contains (nickname e) (to_lit ev a) \<or>
      str_contains (de_to_str ev (account e)) (to_lit ev a)) (user_profiles c) = None"
    by (subst find_index_None) blast
  then show ?thesis using assms(5) by (auto simp: get_profile_idx_def)
qed

text \<open>
  Changing the default profile has no effect on which profile the tools use. The choice is recorded as a literal
  with \<open>0x\<close>, but profiles are looked up by a fragment of the printed address, which has no such prefix; the failed lookup
  falls back to the first profile. So after the user picks profile \<open>i\<close> of two or more, every lookup of the default
  still returns profile 0, as long as no nickname contains \<open>0x\<close>.
\<close>

theorem default_choice_ignored:
  assumes "address_literal (de_to_str ev) (to_lit ev)" and "cfg_ok (dk_cfg d)" and "plain_names (dk_cfg d)"
    and "2 \<le> length (user_profiles (dk_cfg d))" and "change_default_profile ev d = (Ok (), d')"
  shows "\<exists>i < length (user_profiles (dk_cfg d)).
    dk_answers d = Picked i # dk_answers d' \<and>
    default_profile (workspace (dk_cfg d')) = Some (to_lit ev (account (user_profiles (dk_cfg d) ! i))) \<and>
    get_profile (de_to_str ev) (dk_cfg d') None = Ok (user_profiles (dk_cfg d) ! 0)"
proof -
  let ?ps = "user_profiles (dk_cfg d)"
  obtain i as where i: "i < length ?ps" "dk_answers d = Picked i # as"
    and d': "d' = d\<lparr>dk_answers := as, dk_cfg := set_default (to_lit ev (account (?ps ! i))) (dk_cfg d)\<rparr>"
    using assms(5)
    by (auto simp: change_default_profile_def with_cfg_def select_def next_answer_def update_cfg_def index_def rust_simps
        io_bind_def io_match_def split: if_splits list.splits answer.splits prod.splits rres.splits option.splits)
  let ?c = "dk_cfg d'"
  have c: "user_profiles ?c = ?ps" "default_profile (workspace ?c) = Some (to_lit ev (account (?ps ! i)))"
    by (simp_all add: d' set_default_def Workspace_set_default_def)
  then have "cfg_ok ?c" "plain_names ?c" using assms(2,3) by (simp_all add: cfg_ok_def plain_names_def)
  moreover have "length (account (?ps ! i)) = 32" using assms(2) i(1) by (simp add: cfg_ok_def profile_ok_def list_all_length)
  ultimately have "get_profile_idx (de_to_str ev) ?c (Some (to_lit ev (account (?ps ! i)))) = Err ''could not find a profile''"
    using assms(4) c by (intro literal_not_found[OF assms(1)]) simp_all
  then have "get_profile_idx (de_to_str ev) ?c None = Err ''could not find a profile''"
    using c by (simp add: get_profile_idx_def split: if_splits)
  then have "get_profile (de_to_str ev) ?c None = Ok (?ps ! 0)"
    using c assms(4) by (auto simp: get_profile_def profile_slot_def)
  with i c(2) d' show ?thesis by auto
qed

lemma sample_plain_names: "plain_names sample_cfg"
proof -
  have "\<not> str_contains (nickname (Profile_new lower_hex (replicate 32 k) (replicate 32 k))) ''0x''" for k
  proof
    assume "str_contains (nickname (Profile_new lower_hex (replicate 32 k) (replicate 32 k))) ''0x''"
    then have "CHR ''x'' \<in> set (get_nickname lower_hex (replicate 32 k))"
      by (auto simp: str_contains_iff Profile_new_def)
    then have "CHR ''x'' \<in> set (lower_hex (replicate 32 k))"
      by (auto simp: get_nickname_def split: if_splits dest: in_set_takeD in_set_dropD)
    moreover have "CHR ''x'' \<notin> set ''0123456789abcdef''" by simp
    ultimately show False using lower_hex_chars by blast
  qed
  then show ?thesis by (simp add: plain_names_def sample_profiles)
qed

theorem default_choice_ignored_witness:
  "\<exists>d'. change_default_profile ref_desk_env (ref_desk [Picked 1]) = (Ok (), d') \<and>
     get_profile lower_hex (dk_cfg d') None = Ok (Profile_new lower_hex (replicate 32 1) (replicate 32 1))"
proof -
  have "\<exists>d'. change_default_profile ref_desk_env (ref_desk [Picked 1]) = (Ok (), d')"
    by (simp add: change_default_profile_def with_cfg_def select_def next_answer_def update_cfg_def index_def ref_desk_def
        sample_profiles)
  then obtain d' where d: "change_default_profile ref_desk_env (ref_desk [Picked 1]) = (Ok (), d')" by blast
  have "dk_cfg (ref_desk [Picked 1]) = sample_cfg" by (simp add: ref_desk_def)
  with default_choice_ignored[OF ref_literal _ _ _ d] sample_cfg_ok sample_plain_names d show ?thesis
    by (auto simp: sample_profiles ref_desk_env_def)
qed

lemma remove_at_filter:
  assumes "distinct (map f xs)" and "i < length xs"
  shows "remove_at i xs = filter (\<lambda>x. f x \<noteq> f (xs ! i)) xs"
proof -
  from id_take_nth_drop[OF assms(2)] have xs: "xs = take i xs @ xs ! i # drop (Suc i) xs" .
  from assms(1) have "distinct (map f (take i xs @ xs ! i # drop (Suc i) xs))" using xs by simp
  then have others: "\<forall>y \<in> set (take i xs) \<union> set (drop (Suc i) xs). f y \<noteq> f (xs ! i)" by (auto simp: image_iff)
  then have "filter (\<lambda>x. f x \<noteq> f (xs ! i)) (take i xs @ xs ! i # drop (Suc i) xs) = take i xs @ drop (Suc i) xs"
    by (auto simp: filter_id_conv)
  with xs show ?thesis by (simp add: remove_at_def)
qed

lemma find_of_index: "List.find P xs = map_option (\<lambda>i. xs ! i) (find_index P xs)"
  by (induction xs) (auto simp: option.map_comp o_def)

text \<open>
  Removing a profile by its literal, as every menu does. With two or more profiles exactly the profile of that account goes
  and the order of the others stays. If it was the default, by its literal or its nickname, the first remaining
  profile becomes the default; otherwise the default stays.
\<close>

theorem remove_profile_exact:
  assumes "address_literal (de_to_str ev) (to_lit ev)" and "cfg_ok c" and "plain_names c"
    and "2 \<le> length (user_profiles c)" and "q \<in> set (user_profiles c)"
  defines "c' \<equiv> remove_profile ev (to_lit ev (account q)) c"
  shows "user_profiles c' = filter (\<lambda>p. account p \<noteq> account q) (user_profiles c) \<and>
    network_playlist c' = network_playlist c \<and>
    default_profile (workspace c') =
      (if default_profile (workspace c) \<in> {Some (to_lit ev (account q)), Some (nickname q)}
       then Some (to_lit ev (account (hd (user_profiles c')))) else default_profile (workspace c))"
proof -
  let ?ps = "user_profiles c" and ?id = "to_lit ev (account q)"
  have a32: "length (account p) = 32" if "p \<in> set ?ps" for p
    using assms(2) that by (simp add: cfg_ok_def profile_ok_def list_all_iff)
  have dist: "distinct (map account ?ps)" using assms(2) by (simp add: cfg_ok_def)
  have nick: "nickname p \<noteq> ?id" if "p \<in> set ?ps" for p
    using plain_no_literal[OF assms(1) a32[OF assms(5)] assms(3) that] by auto
  have named: "names_profile ev ?id p \<longleftrightarrow> p = q" if "p \<in> set ?ps" for p
    using address_literal.to_lit_inj[OF assms(1) a32[OF that] a32[OF assms(5)]]
      address_literal.to_str_not_literal[OF assms(1) a32[OF that] a32[OF assms(5)]] nick[OF that] dist that assms(5)
    by (auto simp: names_profile_def distinct_map dest: inj_onD)
  obtain i where i: "i < length ?ps" "?ps ! i = q" using assms(5) by (auto simp: in_set_conv_nth)
  have "find_index (names_profile ev ?id) ?ps = Some i"
    using i named dist unfolding find_index_Some
    by (metis distinct_map nth_eq_iff_index_eq nth_mem order.strict_trans less_irrefl)
  moreover from this i(2) have "List.find (names_profile ev ?id) ?ps = Some q" by (simp add: find_of_index)
  moreover have "try_remove_profile (de_to_str ev) c ?id = Err ''could not find a profile''"
    using literal_not_found[OF assms(1-3) a32[OF assms(5)] assms(4)] by (simp add: try_remove_profile_def)
  ultimately have c': "c' = (let c1 = c\<lparr>user_profiles := remove_at i ?ps\<rparr> in
      if default_profile (workspace c) \<in> {Some ?id, Some (nickname q)} then reset_default_profile_after_removal ev c1 else c1)"
    by (auto simp: c'_def remove_profile_def is_default_profile_def Let_def split: option.splits)
  have r: "remove_at i ?ps = filter (\<lambda>p. account p \<noteq> account q) ?ps" using remove_at_filter[OF dist i(1)] i(2) by simp
  have "length (remove_at i ?ps) = length ?ps - 1" by (rule length_remove_at[OF i(1)])
  then have "remove_at i ?ps \<noteq> []" using assms(4) by (intro notI) simp
  then show ?thesis unfolding c' r[symmetric]
    by (auto simp: Let_def reset_default_profile_after_removal_def set_default_def Workspace_set_default_def neq_Nil_conv)
qed

theorem remove_profile_exact_witness:
  "user_profiles (remove_profile ref_desk_env (to_hex_literal_ref (replicate 32 1)) sample_cfg) =
     [Profile_new lower_hex (replicate 32 2) (replicate 32 2)]"
proof -
  let ?q = "Profile_new lower_hex (replicate 32 1) (replicate 32 1)"
  have "?q \<in> set (user_profiles sample_cfg)" by (simp add: sample_profiles)
  from remove_profile_exact[OF ref_literal sample_cfg_ok sample_plain_names _ this]
  show ?thesis by (simp add: sample_profiles ref_desk_env_def Profile_new_def)
qed

text \<open>
  With a single profile any name removes it. \<open>try_remove_profile\<close> does not look at the name then, so
  \<^verbatim>\<open>libra config fix --remove-profile\<close> with a misspelt name deletes the only profile and leaves the default pointing at it.
\<close>

theorem sole_profile_removed_by_any_name:
  "user_profiles (remove_profile ev name (c\<lparr>user_profiles := [p]\<rparr>)) = [] \<and>
   (\<not> names_profile ev name p \<longrightarrow> workspace (remove_profile ev name (c\<lparr>user_profiles := [p]\<rparr>)) = workspace c)"
  by (auto simp: remove_profile_def try_remove_profile_def get_profile_idx_def remove_at_def Let_def is_default_profile_def
      reset_default_profile_after_removal_def split: option.splits)

theorem sole_profile_removed_by_any_name_witness:
  "workspace (remove_profile ref_desk_env ''typo'' (sample_cfg\<lparr>user_profiles := [Profile_default]\<rparr>)) = workspace sample_cfg"
proof -
  have "to_hex_literal_ref (replicate 32 0) \<noteq> ''typo''" by (simp add: to_hex_literal_ref_def)
  moreover have "length (lower_hex (replicate 32 0)) = 64" by simp
  then have "lower_hex (replicate 32 0) \<noteq> ''typo''" by (intro notI) simp
  ultimately have "\<not> names_profile ref_desk_env ''typo'' Profile_default"
    by (simp add: names_profile_def ref_desk_env_def Profile_default_def)
  with sole_profile_removed_by_any_name show ?thesis by blast
qed

text \<open>
  Adding a network with one's own URLs. The new playlist starts with the default node \<^verbatim>\<open>http://localhost:8080\<close>, so it is
  never empty: the check for an empty list never cancels, a network is configured even when no URL is entered, and the
  node the tools talk to is the local one, whatever URLs follow.
\<close>

lemma custom_urls_nodes:
  "custom_urls parse np as = (Ok np', bs) \<Longrightarrow> \<exists>us. np' = np\<lparr>nodes := nodes np @ map HostProfile_new us\<rparr>"
proof (induction parse np as arbitrary: np' bs rule: custom_urls.induct)
  case (1 parse np s as)
  consider "trim s = []" | u another cs where "trim s \<noteq> []" "parse s = Ok u" "as = Confirmed another # cs"
    | e where "trim s \<noteq> []" "parse s = Err e"
    using 1(3) by (auto split: if_splits rres.splits list.splits answer.splits)
  then show ?case
  proof cases
    case 1
    with \<open>custom_urls _ _ _ = _\<close> show ?thesis by (auto intro: exI[of _ "[]"])
  next
    case 2
    show ?thesis
    proof (cases another)
      case True
      with 2 "1.IH"(1)[of u "Confirmed another" cs another np' bs] \<open>custom_urls _ _ _ = _\<close>
      obtain us where "np' = (add_url np u)\<lparr>nodes := nodes (add_url np u) @ map HostProfile_new us\<rparr>" by auto
      then show ?thesis by (intro exI[of _ "u # us"]) (simp add: add_url_def)
    next
      case False
      with 2 \<open>custom_urls _ _ _ = _\<close> show ?thesis by (auto intro!: exI[of _ "[u]"] simp: add_url_def)
    qed
  next
    case 3
    with "1.IH"(2) \<open>custom_urls _ _ _ = _\<close> show ?thesis by auto
  qed
qed simp_all

lemma picks_localhost:
  "nodes np = HostProfile_default # map HostProfile_new us \<Longrightarrow> pick_one np = Ok ''http://localhost:8080''"
  by (simp add: pick_one_def the_best_one_def the_good_ones_eq all_urls_def Let_def good_def HostProfile_default_def
      HostProfile_new_def filter_False)

lemma find_appended: "\<forall>x \<in> set xs. \<not> P x \<Longrightarrow> P y \<Longrightarrow> List.find P (xs @ [y]) = Some y"
  by (induction xs) simp_all

lemma new_chain_found:
  assumes "chain_name np \<notin> chain_name ` set (network_playlist c)"
  shows "get_network_profile (maybe_add_custom_playlist c np) (Some (chain_name np)) = Ok np"
proof -
  have "map (\<lambda>play. if chain_name play = chain_name np then np else play) (network_playlist c) = network_playlist c"
    using assms by (intro map_idI) (auto simp: image_iff)
  moreover have "\<not> list_ex (\<lambda>play. chain_name play = chain_name np) (network_playlist c)"
    using assms by (auto simp: list_ex_iff image_iff)
  moreover have "List.find (\<lambda>play. chain_name play = chain_name np) (network_playlist c @ [np]) = Some np"
    using assms by (intro find_appended) (auto simp: image_iff)
  ultimately show ?thesis by (simp add: get_network_profile_def maybe_add_custom_playlist_def Let_def)
qed

lemma available_not_configured:
  "ch \<in> set (get_available_chains_not_configured configured) \<Longrightarrow> ch \<notin> set configured"
  by (auto simp: get_available_chains_not_configured_def split: if_splits)

lemma new_playlist_nodes: "NetworkPlaylist_new None (Some ch) = \<lparr>chain_name = ch, nodes = [HostProfile_default]\<rparr>"
  by (simp add: NetworkPlaylist_new_def NetworkPlaylist_default_def)

theorem custom_network_is_local:
  assumes "add_new_network ev d = (Ok b, d')" and "dk_answers d = Picked i # Picked 1 # as"
    and "get_available_chains_not_configured (map chain_name (network_playlist (dk_cfg d))) \<noteq> []"
  shows "b \<and> (\<exists>ch. ch \<notin> chain_name ` set (network_playlist (dk_cfg d)) \<and>
    pick_url (dk_cfg d') (Some ch) = Ok ''http://localhost:8080'')"
proof -
  let ?av = "get_available_chains_not_configured (map chain_name (network_playlist (dk_cfg d)))"
  let ?d = "d\<lparr>dk_answers := as\<rparr>"
  have i: "i < length ?av" using assms
    by (auto simp: add_new_network_def with_cfg_def select_def next_answer_def rust_simps Let_def split: if_splits)
  let ?ch = "?av ! i"
  have new: "?ch \<notin> chain_name ` set (network_playlist (dk_cfg d))"
    using available_not_configured[OF nth_mem[OF i]] by simp
  let ?fill = "read_custom_urls ev (NetworkPlaylist_new None (Some ?ch))"
  have run: "add_new_network ev d = io_bind ?fill (\<lambda>np.
      if nodes np = [] then io_of (Ok False)
      else changed (update_cfg (\<lambda>cfg. maybe_add_custom_playlist cfg np))) ?d"
    using assms(2,3) i by (simp add: add_new_network_def with_cfg_def select_def next_answer_def index_def Let_def)
  with assms(1) obtain np bs where r: "?fill ?d = (Ok np, d\<lparr>dk_answers := bs\<rparr>)"
    and u: "custom_urls (de_url ev) (NetworkPlaylist_new None (Some ?ch)) as = (Ok np, bs)"
    by (auto simp: rust_simps read_custom_urls_def split: prod.splits)
  from custom_urls_nodes[OF u] obtain us
    where np: "nodes np = HostProfile_default # map HostProfile_new us" "chain_name np = ?ch"
    by (auto simp: new_playlist_nodes)
  with run r assms(1) have "b" "dk_cfg d' = maybe_add_custom_playlist (dk_cfg d) np"
    by (auto simp: changed_def update_cfg_def)
  moreover have "get_network_profile (maybe_add_custom_playlist (dk_cfg d) np) (Some ?ch) = Ok np"
    using new_chain_found[of np "dk_cfg d"] new np(2) by simp
  ultimately show ?thesis using new picks_localhost[OF np(1)] by (auto simp: pick_url_def)
qed

theorem custom_network_is_local_witness:
  "\<exists>b d'. add_new_network ref_desk_env (ref_desk [Picked 0, Picked 1, Typed ''http://node'', Confirmed False]) = (Ok b, d') \<and>
     (\<exists>ch. pick_url (dk_cfg d') (Some ch) = Ok ''http://localhost:8080'')"
proof -
  let ?d = "ref_desk [Picked 0, Picked 1, Typed ''http://node'', Confirmed False]"
  have t: "trim ''http://node'' \<noteq> []" by code_simp
  have e: "network_playlist sample_cfg = []" by (simp add: sample_cfg_def AppCfg_default_def)
  have "\<exists>d'. add_new_network ref_desk_env ?d = (Ok True, d')"
    by (simp add: add_new_network_def with_cfg_def select_def next_answer_def index_def Let_def ref_desk_def e
        get_available_chains_not_configured_def read_custom_urls_def t ref_desk_env_def new_playlist_nodes add_url_def
        changed_def update_cfg_def)
  then obtain d' where r: "add_new_network ref_desk_env ?d = (Ok True, d')" by blast
  have "get_available_chains_not_configured (map chain_name (network_playlist (dk_cfg ?d))) \<noteq> []"
    by (simp add: ref_desk_def e get_available_chains_not_configured_def)
  from custom_network_is_local[OF r _ this] r show ?thesis by (auto simp: ref_desk_def)
qed

end
