(* ===== verification/Config_Init.thy ===== *)
theory Config_Init
  imports Config_Edit Txs_Commands
begin

text \<open>
  Creating configurations: the \<^verbatim>\<open>libra config\<close> command with its wizard, the download of genesis files, the YAML files of
  validators, their full nodes and public full nodes, and registration files (\<^verbatim>\<open>src/tools/config/src\<close>).

  The workshop is a \<open>desk\<close> together with the other files, named by strings: \<open>sp_join\<close> joins paths, \<open>sp_path\<close> splits one into
  components for the configuration file. Of the directories only \<^verbatim>\<open>genesis\<close>, which one command creates and another needs, is
  kept (\<open>sh_dirs\<close>); all other writes find their directory and succeed. Downloads are functions of the URL. A \<open>Waypoint\<close> is its printed form. The configuration of a
  node is a vendor type; its list of networks is modelled, the rest is opaque.
\<close>

section \<open>The workshop\<close>

record 'w shop =
  sh_desk :: "'w desk"
  sh_files :: files
  sh_dirs :: "string list"

record GithubContent =
  gh_name :: string
  gh_path :: string
  gh_content_type :: string
  gh_download_url :: "string option"

datatype NetworkId = Validator | Public | PrivateNetwork string

type_synonym seed_peers = "(account_address \<times> string list) list"

record NetworkConfig =
  nw_network_id :: NetworkId
  nw_seed_addrs :: seed_peers
  nw_rest :: string

record NodeConfig =
  nd_full_node_networks :: "NetworkConfig list"
  nd_rest :: string

record ('w, 'a) shop_env =
  sp_desk :: "'w desk_env"
  sp_listing :: "string \<Rightarrow> GithubContent list rres"
  sp_get :: "string \<Rightarrow> string rres"
  sp_waypoint :: "string \<Rightarrow> string rres"
  sp_seeds :: "string \<Rightarrow> seed_peers rres"
  sp_node_from :: "string \<Rightarrow> NodeConfig rres"
  sp_node_to :: "NodeConfig \<Rightarrow> string rres"
  sp_host_from :: "string \<Rightarrow> HostAndPort rres"
  sp_key_str :: "bytes \<Rightarrow> string"
  sp_private_key :: "string \<Rightarrow> bytes rres"
  sp_hosts :: "'a host_ops"
  sp_node_crypto :: node_crypto
  sp_printers :: yaml_printers
  sp_overwrite :: "string \<Rightarrow> bool option"
  sp_cwd :: string
  sp_mnem :: string
  sp_sha3 :: "string \<Rightarrow> bytes"
  sp_gas :: gas_constants
  sp_path :: "string \<Rightarrow> fpath"
  sp_basic_yes :: bool
  sp_validator_yes :: bool

abbreviation sp_home :: "('w, 'a) shop_env \<Rightarrow> string" where
  "sp_home ev \<equiv> ho_home (sp_hosts ev)"

abbreviation sp_join :: "('w, 'a) shop_env \<Rightarrow> string \<Rightarrow> string \<Rightarrow> string" where
  "sp_join ev \<equiv> ho_join (sp_hosts ev)"

definition at_desk :: "('r, 'w desk) io \<Rightarrow> ('r, 'w shop) io" where
  "at_desk m = (\<lambda>s. case m (sh_desk s) of (r, d) \<Rightarrow> (r, s\<lparr>sh_desk := d\<rparr>))"

definition with_files :: "(files \<Rightarrow> 'r rres \<times> files) \<Rightarrow> ('r, 'w shop) io" where
  "with_files f = (\<lambda>s. case f (sh_files s) of (r, fs) \<Rightarrow> (r, s\<lparr>sh_files := fs\<rparr>))"

definition write_file :: "string \<Rightarrow> string \<Rightarrow> (unit, 'w shop) io" where
  "write_file file contents = with_files (\<lambda>fs. (Ok (), fs(file \<mapsto> contents)))"

definition read_file :: "string \<Rightarrow> (string, 'w shop) io" where
  "read_file file = with_files (\<lambda>fs. (or_err ''No such file or directory'' (fs file), fs))"

text \<open>\<open>create_dir_all\<close>, and a write into a directory that may be missing.\<close>

definition create_dir :: "string \<Rightarrow> (unit, 'w shop) io" where
  "create_dir dir = (\<lambda>s. (Ok (), s\<lparr>sh_dirs := List.insert dir (sh_dirs s)\<rparr>))"

definition write_in :: "string \<Rightarrow> string \<Rightarrow> string \<Rightarrow> (unit, 'w shop) io" where
  "write_in dir file contents =
     (\<lambda>s. if dir \<in> set (sh_dirs s) then write_file file contents s else (Err ''No such file or directory'', s))"

definition home_or :: "('w, 'a) shop_env \<Rightarrow> string option \<Rightarrow> string" where
  "home_or ev home_dir = (case home_dir of Some d \<Rightarrow> d | None \<Rightarrow> sp_home ev)"

section \<open>Genesis files\<close>

definition GENESIS_FILES_VERSION :: string where "GENESIS_FILES_VERSION = ''7.0.0''"

definition version_of :: "GithubContent \<Rightarrow> string option" where
  "version_of entry =
     (let parts = split_str ''v'' [] (gh_name entry) in if 1 < length parts then Some (parts ! 1) else None)"

text \<open>\<open>Iterator::max_by\<close> keeps the last of several maxima; strings are compared character by character.\<close>

definition latest_version :: "GithubContent list \<Rightarrow> string option" where
  "latest_version resp =
     fold (\<lambda>v acc. case acc of None \<Rightarrow> Some v | Some w \<Rightarrow> if w \<le> v then Some v else Some w)
       (List.map_filter version_of resp) None"

definition base_url :: string where
  "base_url = ''https://api.github.com/repos/0LNetworkCommunity/epoch-archive-mainnet/contents/upgrades''"

definition raw_url :: string where
  "raw_url = ''https://raw.githubusercontent.com/0LNetworkCommunity/epoch-archive-mainnet/main/upgrades''"

definition latest_path :: "GithubContent list \<Rightarrow> string \<Rightarrow> string" where
  "latest_path resp file =
     raw_url @ ''/v'' @ (case latest_version resp of Some v \<Rightarrow> v | None \<Rightarrow> GENESIS_FILES_VERSION) @ ''/'' @ file"

definition download_genesis :: "('w, 'a) shop_env \<Rightarrow> string option \<Rightarrow> (string, 'w shop) io" where
  "download_genesis ev home_dir =
     io_bind (io_of (sp_listing ev base_url)) (\<lambda>resp.
     io_bind (io_of (sp_get ev (latest_path resp ''genesis.blob''))) (\<lambda>blob_bytes.
     let genesis_dir = sp_join ev (home_or ev home_dir) ''genesis/''; p = sp_join ev genesis_dir ''genesis.blob'' in
     io_bind (create_dir genesis_dir) (\<lambda>_.
     io_bind (write_in genesis_dir p blob_bytes) (\<lambda>_. io_of (Ok p)))))"

definition get_genesis_waypoint :: "('w, 'a) shop_env \<Rightarrow> string option \<Rightarrow> (string, 'w shop) io" where
  "get_genesis_waypoint ev home_dir =
     io_bind (io_of (sp_listing ev base_url)) (\<lambda>resp.
     io_bind (io_of (sp_get ev (latest_path resp ''waypoint.txt''))) (\<lambda>wp_string.
     let genesis_dir = sp_join ev (home_or ev home_dir) ''genesis/''; p = sp_join ev genesis_dir ''waypoint.txt'' in
     io_bind (write_in genesis_dir p wp_string) (\<lambda>_. io_of (sp_waypoint ev (trim wp_string)))))"

section \<open>Node configurations\<close>

definition FN_FILENAME :: string where "FN_FILENAME = ''fullnode.yaml''"

definition VFN_FILENAME :: string where "VFN_FILENAME = ''vfn.yaml''"

definition NODE_YAML_FILE :: string where "NODE_YAML_FILE = ''validator.yaml''"

text \<open>A template is a list of lines; \<open>sq\<close> puts a text in single quotes.\<close>

definition lines :: "string list \<Rightarrow> string" where
  "lines ls = concat (map (\<lambda>l. l @ [CHR 0x0A]) ls)"

definition sq :: "string \<Rightarrow> string" where
  "sq s = CHR 0x27 # s @ [CHR 0x27]"

definition pruner_lines :: "string list" where
  "pruner_lines =
     [''storage:'', ''  storage_pruner_config:'', ''    ledger_pruner_config:'', ''      enable: false'',
      ''    state_merkle_pruner_config:'', ''      enable: false'', ''    epoch_snapshot_pruner_config:'', ''      enable: false'']"

definition execution_lines :: "string \<Rightarrow> string list" where
  "execution_lines p = [''execution:'', ''  genesis_file_location: '' @ sq (p @ ''/genesis/genesis.blob''), []]"

definition sync_lines :: "string \<Rightarrow> string list" where
  "sync_lines mode =
     [''state_sync:'', ''     state_sync_driver:'', ''        bootstrapping_mode: '' @ mode,
      ''        continuous_syncing_mode: ApplyTransactionOutputs'']"

definition public_network_lines :: "string list" where
  "public_network_lines =
     [''full_node_networks:'', ''- network_id: '' @ sq ''public'', ''  listen_address: '' @ sq ''/ip4/0.0.0.0/tcp/6182'',
      ''  max_outbound_connections: 10'']"

definition api_lines :: "string \<Rightarrow> string list" where
  "api_lines addr = [''api:'', ''  enabled: true'', ''  address: '' @ sq addr]"

definition fullnode_base_lines :: "string \<Rightarrow> string \<Rightarrow> string list" where
  "fullnode_base_lines p waypoint =
     [[], ''base:'', ''  role: '' @ sq ''full_node'', ''  data_dir: '' @ sq (p @ ''/data''), ''  waypoint:'',
      ''    from_config: '' @ sq waypoint, []]"

definition make_fullnode_fast_sync_yaml :: "('w, 'a) shop_env \<Rightarrow> string option \<Rightarrow> string \<Rightarrow> string" where
  "make_fullnode_fast_sync_yaml ev home_dir waypoint =
     (let p = home_or ev home_dir
      in lines (fullnode_base_lines p waypoint @ execution_lines p @ sync_lines ''DownloadLatestStates'' @ [[]] @
           public_network_lines @ [[], []] @ api_lines ''0.0.0.0:8080''))"

definition make_fullnode_archive_yaml :: "('w, 'a) shop_env \<Rightarrow> string option \<Rightarrow> string \<Rightarrow> string" where
  "make_fullnode_archive_yaml ev home_dir waypoint =
     (let p = home_or ev home_dir
      in lines (fullnode_base_lines p waypoint @ execution_lines p @ sync_lines ''ExecuteOrApplyFromGenesis'' @
           pruner_lines @ [[]] @ public_network_lines @ [[]] @ api_lines ''0.0.0.0:8080''))"

definition identity_lines :: "string \<Rightarrow> string \<Rightarrow> string list" where
  "identity_lines p file = [''  identity:'', ''    type: '' @ sq ''from_file'', ''    path: '' @ p @ ''/'' @ file]"

definition vfn_template :: "string \<Rightarrow> string \<Rightarrow> string \<Rightarrow> string" where
  "vfn_template p val_net_pubkey val_host_addr =
     lines ([[], ''base:'', ''  role: '' @ sq ''full_node'', ''  data_dir: '' @ sq (p @ ''/data''), ''  waypoint:'',
        ''    from_file: '' @ sq (p @ ''/genesis/waypoint.txt''), []] @
       execution_lines p @ sync_lines ''ApplyTransactionOutputsFromGenesis'' @ [[]] @ pruner_lines @ [[]] @
       public_network_lines @ identity_lines p VFN_FILE @ [[]] @
       [''- network_id:'', ''    private: '' @ sq ''vfn'', ''  listen_address: '' @ sq ''/ip4/0.0.0.0/tcp/6181''] @
       identity_lines p VFN_FILE @
       [''  seeds:'', ''    '' @ val_net_pubkey @ '':'', ''      addresses:'',
        ''      - '' @ sq (''/ip4/'' @ val_host_addr @ ''/tcp/6181/noise-ik/0x'' @ val_net_pubkey @ ''/handshake/0''),
        ''      role: '' @ sq ''Validator'', []] @
       api_lines ''0.0.0.0:8080'' @ [[], ''mempool:'', ''  default_failovers: 3''])"

definition make_private_vfn_yaml :: "('w, 'a) shop_env \<Rightarrow> string \<Rightarrow> bytes \<Rightarrow> string \<Rightarrow> (string, 'w shop) io" where
  "make_private_vfn_yaml ev home_dir val_net_pubkey val_host_addr =
     (let template = vfn_template home_dir (sp_key_str ev val_net_pubkey) val_host_addr
      in io_bind (write_file (sp_join ev home_dir VFN_FILENAME) template) (\<lambda>_. io_of (Ok template)))"

definition validator_template :: "string \<Rightarrow> string" where
  "validator_template p =
     lines ([[], ''base:'', ''  role: '' @ sq ''validator'', ''  data_dir: '' @ sq (p @ ''/data''), ''  waypoint:'',
        ''    from_file: '' @ sq (p @ ''/genesis/waypoint.txt''), []] @
       [''consensus:'', ''  safety_rules:'', ''    service:'', ''      type: '' @ sq ''local'', ''    backend:'',
        ''      type: '' @ sq ''on_disk_storage'', ''      path: secure-data.json'', ''      namespace: ~'',
        ''    initial_safety_rules_config:'', ''      from_file:'', ''        waypoint:'',
        ''          from_file: '' @ p @ ''/genesis/waypoint.txt'',
        ''        identity_blob_path: '' @ p @ ''/validator-identity.yaml'', []] @
       execution_lines p @
       [''validator_network:'', ''  discovery_method: '' @ sq ''onchain'', ''  mutual_authentication: true''] @
       identity_lines p VALIDATOR_FILE @ [[]] @
       [''state_sync:'', ''  state_sync_driver:'', ''    bootstrapping_mode: ExecuteOrApplyFromGenesis'',
        ''    continuous_syncing_mode: ApplyTransactionOutputs'', []] @
       pruner_lines @ [[]] @
       [''full_node_networks:'', ''- network_id:'', ''    private: '' @ sq ''vfn'', ''  #mutual_authentication: true'',
        ''  listen_address: '' @ sq ''/ip4/0.0.0.0/tcp/6181''] @ identity_lines p VALIDATOR_FILE @
       [''- network_id: '' @ sq ''public'', ''  listen_address: '' @ sq ''/ip4/0.0.0.0/tcp/6182'', []] @
       api_lines ''127.0.0.1:8080'')"

text \<open>Seed peers of the public networks.\<close>

definition fetch_seed_addresses :: "('w, 'a) shop_env \<Rightarrow> string option \<Rightarrow> seed_peers rres" where
  "fetch_seed_addresses ev u =
     rbind (sp_get ev (case u of Some u \<Rightarrow> u
       | None \<Rightarrow> ''https://raw.githubusercontent.com/0LNetworkCommunity/seed-peers/main/seed_peers.yaml'')) (sp_seeds ev)"

definition set_public_seeds :: "seed_peers \<Rightarrow> NodeConfig \<Rightarrow> NodeConfig" where
  "set_public_seeds peers parsed =
     parsed\<lparr>nd_full_node_networks :=
       map (\<lambda>e. if nw_network_id e = Public then e\<lparr>nw_seed_addrs := peers\<rparr> else e) (nd_full_node_networks parsed)\<rparr>"

definition add_peers_to_yaml :: "('w, 'a) shop_env \<Rightarrow> string \<Rightarrow> seed_peers \<Rightarrow> (unit, 'w shop) io" where
  "add_peers_to_yaml ev file peers =
     io_bind (read_file file) (\<lambda>s.
     io_bind (io_of (sp_node_from ev s)) (\<lambda>parsed.
     io_bind (io_of (sp_node_to ev (set_public_seeds peers parsed))) (\<lambda>ser. write_file file ser)))"

definition init_fullnode_yaml :: "('w, 'a) shop_env \<Rightarrow> string option \<Rightarrow> bool \<Rightarrow> bool \<Rightarrow> (string, 'w shop) io" where
  "init_fullnode_yaml ev home_dir overwrite_peers archive_mode =
     io_bind (get_genesis_waypoint ev home_dir) (\<lambda>waypoint.
     let yaml = (if archive_mode then make_fullnode_archive_yaml ev home_dir waypoint
                 else make_fullnode_fast_sync_yaml ev home_dir waypoint);
         p = sp_join ev (home_or ev home_dir) FN_FILENAME in
     io_bind (write_file p yaml) (\<lambda>_.
     io_bind (if overwrite_peers then
                io_bind (io_of (fetch_seed_addresses ev None)) (\<lambda>peers. add_peers_to_yaml ev p peers)
              else io_of (Ok ())) (\<lambda>_. io_of (Ok p))))"

definition save_validator_yaml :: "('w, 'a) shop_env \<Rightarrow> string option \<Rightarrow> (string, 'w shop) io" where
  "save_validator_yaml ev home_dir =
     (let home_dir = home_or ev home_dir; output_file = sp_join ev home_dir NODE_YAML_FILE in
      io_bind (write_file output_file (validator_template home_dir)) (\<lambda>_.
      io_bind (io_of (fetch_seed_addresses ev None)) (\<lambda>peers.
      io_bind (add_peers_to_yaml ev output_file peers) (\<lambda>_. io_of (Ok output_file)))))"

section \<open>Validators\<close>

definition save_app_cfg :: "('w, 'a) shop_env \<Rightarrow> (fpath, 'w shop) io" where
  "save_app_cfg ev = at_desk (io_match (save_cfg (sp_desk ev)) (\<lambda>p. io_of (Ok p))
     (\<lambda>e. io_of (Err ''could not initialize configs'')))"

definition init_app_cfg ::
  "('w, 'a) shop_env \<Rightarrow> auth_key \<Rightarrow> account_address \<Rightarrow> string option \<Rightarrow> NamedChain option \<Rightarrow> NetworkPlaylist option \<Rightarrow>
   (unit, 'w shop) io" where
  "init_app_cfg ev authkey address home_path chain playlist = at_desk (\<lambda>d.
     case init_app_configs (sp_gas ev) (de_to_str (sp_desk ev)) (de_to_yaml (sp_desk ev)) (de_home (sp_desk ev)) authkey address
            (map_option (sp_path ev) home_path) chain playlist (dk_files d) of
       (Ok cfg, fs) \<Rightarrow> (Ok (), d\<lparr>dk_cfg := cfg, dk_files := fs\<rparr>)
     | (Err e, fs) \<Rightarrow> (Err e, d\<lparr>dk_files := fs\<rparr>)
     | (Panic p, fs) \<Rightarrow> (Panic p, d\<lparr>dk_files := fs\<rparr>))"

text \<open>A change of the profile that \<open>get_profile_mut(None)\<close> borrows.\<close>

definition update_profile :: "('w, 'a) shop_env \<Rightarrow> (Profile \<Rightarrow> Profile rres) \<Rightarrow> (unit, 'w shop) io" where
  "update_profile ev f =
     at_desk (io_bind (with_cfg (\<lambda>cfg. get_profile_mut (de_to_str (sp_desk ev)) cfg None)) (\<lambda>i.
       io_bind (with_cfg (\<lambda>cfg. f (user_profiles cfg ! i))) (\<lambda>p.
       update_cfg (\<lambda>cfg. cfg\<lparr>user_profiles := (user_profiles cfg)[i := p]\<rparr>))))"

definition offer_basic :: "('w, 'a) shop_env \<Rightarrow> Profile \<Rightarrow> Profile rres" where
  "offer_basic ev = maybe_offer_basic_pledge (sp_sha3 ev) (de_mode (sp_desk ev)) (sp_basic_yes ev)"

definition offer_validator :: "('w, 'a) shop_env \<Rightarrow> Profile \<Rightarrow> Profile rres" where
  "offer_validator ev = maybe_offer_validator_pledge (sp_sha3 ev) (de_mode (sp_desk ev)) (sp_validator_yes ev)"

definition keys_dir :: "('w, 'a) shop_env \<Rightarrow> string option \<Rightarrow> string" where
  "keys_dir ev home_path = (case home_path of Some d \<Rightarrow> d | None \<Rightarrow> sp_cwd ev)"

definition initialize_validator_files ::
  "('w, 'a) shop_env \<Rightarrow> string option \<Rightarrow> string option \<Rightarrow> HostAndPort \<Rightarrow> string option \<Rightarrow> bool \<Rightarrow> NamedChain option \<Rightarrow>
   (PublicIdentity, 'w shop) io" where
  "initialize_validator_files ev home_path username host mnem keep_legacy_address chain =
     io_bind (with_files (refresh_validator_files (de_crypto (sp_desk ev)) (de_conv (sp_desk ev)) (sp_node_crypto ev)
                (sp_printers ev) (sp_overwrite ev) (sp_join ev (keys_dir ev home_path))
                (case mnem of Some m \<Rightarrow> m | None \<Rightarrow> sp_mnem ev) keep_legacy_address))
       (\<lambda>(address, authkey, pub_id).
     io_bind (with_files (set_config_files (ho_yaml (sp_hosts ev)) (sp_home ev) (sp_join ev)
                \<lparr>sv_username = (case username of Some u \<Rightarrow> u | None \<Rightarrow> ''default_username''), sv_validator_host = host,
                 sv_full_node_host = None, sv_home_dir = home_path\<rparr>)) (\<lambda>_.
     io_bind (save_validator_yaml ev home_path) (\<lambda>_.
     io_bind (init_app_cfg ev authkey address home_path chain (Some (NetworkPlaylist_localhost chain))) (\<lambda>_.
     io_bind (update_profile ev (\<lambda>p. rbind (offer_basic ev p) (offer_validator ev))) (\<lambda>_.
     io_bind (save_app_cfg ev) (\<lambda>_. io_of (Ok pub_id)))))))"

definition get_ip :: "('w, 'a) shop_env \<Rightarrow> HostAndPort rres" where
  "get_ip ev = rbind (sp_get ev ''https://ipinfo.io/ip'') (\<lambda>ip_str. sp_host_from ev (ip_str @ '':6180''))"

definition unwrapped :: "string \<Rightarrow> ('r, 's) io \<Rightarrow> ('r, 's) io" where
  "unwrapped msg m = io_match m (\<lambda>x. io_of (Ok x)) (\<lambda>e. io_of (Panic msg))"

definition ask_host :: "('w, 'a) shop_env \<Rightarrow> (HostAndPort, 'w shop) io" where
  "ask_host ev =
     io_bind (unwrapped ''called Result::unwrap() on an Err value'' (at_desk type_in)) (\<lambda>input.
     unwrapped ''Could not parse IP or DNS address'' (io_of (sp_host_from ev input)))"

definition what_host :: "('w, 'a) shop_env \<Rightarrow> (HostAndPort, 'w shop) io" where
  "what_host ev =
     io_match (io_of (get_ip ev))
       (\<lambda>h. io_bind (unwrapped ''called Result::unwrap() on an Err value'' (at_desk confirm)) (\<lambda>use_it.
            if use_it then io_of (Ok h) else ask_host ev))
       (\<lambda>e. ask_host ev)"

definition get_local_vfn_id :: "('w, 'a) shop_env \<Rightarrow> string \<Rightarrow> (bytes, 'w shop) io" where
  "get_local_vfn_id ev home =
     io_bind (with_files (\<lambda>fs. (read_public_identity_file (ho_yaml (sp_hosts ev)) fs (sp_join ev home ''public-keys.yaml''), fs)))
       (\<lambda>identity. io_of (or_err ''no validator public key found in public-keys.yaml''
          (pb_validator_network_public_key identity)))"

definition vfn_dialogue :: "('w, 'a) shop_env \<Rightarrow> string \<Rightarrow> string option \<Rightarrow> bytes option \<Rightarrow> (unit, 'w shop) io" where
  "vfn_dialogue ev home host net_pubkey =
     io_bind (case host of Some d \<Rightarrow> io_of (Ok d) | None \<Rightarrow> io_bind (what_host ev) (\<lambda>h. io_of (Ok (hp_host h)))) (\<lambda>dns.
     io_bind (case net_pubkey of
                Some r \<Rightarrow> io_of (Ok r)
              | None \<Rightarrow> io_match (get_local_vfn_id ev home) (\<lambda>k. io_of (Ok k)) (\<lambda>e. io_of (Err (
                  ''ERROR: cannot make vfn.yaml, make sure you have the public-keys.yaml on this host before starting, message: ''
                  @ e)))) (\<lambda>pk.
     io_bind (make_private_vfn_yaml ev home pk dns) (\<lambda>_. io_of (Ok ()))))"

definition validator_dialogue :: "('w, 'a) shop_env \<Rightarrow> string \<Rightarrow> string option \<Rightarrow> NamedChain option \<Rightarrow> (unit, 'w shop) io" where
  "validator_dialogue ev data_path github_username chain =
     io_bind (at_desk confirm) (\<lambda>to_init.
     if to_init then
       io_bind (what_host ev) (\<lambda>host.
       io_bind (at_desk confirm) (\<lambda>keep_legacy_address.
       io_bind (initialize_validator_files ev (Some data_path) github_username host None keep_legacy_address chain) (\<lambda>pub_id.
       vfn_dialogue ev data_path (Some (hp_host host)) (pb_validator_network_public_key pub_id))))
     else io_of (Ok ()))"

section \<open>Registration files\<close>

definition registration_to_file :: "(ValCredentials \<Rightarrow> string rres) \<Rightarrow> ValCredentials \<Rightarrow> string \<Rightarrow> (unit, 'w shop) io" where
  "registration_to_file to_yaml reg out =
     io_bind (io_of (to_yaml reg)) (\<lambda>yaml_str. write_file out yaml_str)"

definition parse_pub_files_to_vec :: "(string \<Rightarrow> ValCredentials rres) \<Rightarrow> string list \<Rightarrow> files \<Rightarrow> ValCredentials list rres" where
  "parse_pub_files_to_vec from_yaml paths fs =
     rmapM (\<lambda>p. rbind (or_panic ''could not read registration file'' (fs p)) (\<lambda>s.
       unwrap ''could not parse file'' (from_yaml s))) paths"

section \<open>The wizard\<close>

definition wizard_account ::
  "('w, 'a) shop_env \<Rightarrow> auth_key option \<Rightarrow> account_address option \<Rightarrow> string option \<Rightarrow>
   (auth_key \<times> account_address, 'w shop) io" where
  "wizard_account ev force_authkey force_address key_text =
     (case (force_authkey, force_address, key_text) of
        (Some k, Some a, _) \<Rightarrow> io_of (Ok (k, a))
      | (_, _, Some pk_string) \<Rightarrow>
          io_bind (io_of (sp_private_key ev pk_string)) (\<lambda>pk.
          let account_keys = get_account_from_private (de_crypto (sp_desk ev)) pk in
          io_of (Ok (ak_auth_key account_keys, ak_account account_keys)))
      | _ \<Rightarrow> at_desk (interactive_account_selection (sp_desk ev)))"

definition wizard_playlist ::
  "('w, 'a) shop_env \<Rightarrow> NamedChain option \<Rightarrow> url option \<Rightarrow> NetworkPlaylist option \<Rightarrow> NetworkPlaylist rres" where
  "wizard_playlist ev chain playlist_url playlist =
     (case playlist of
        Some a \<Rightarrow> Ok a
      | None \<Rightarrow>
          (case playlist_url of
             Some u \<Rightarrow> from_playlist_url (de_fetch (sp_desk ev)) u chain
           | None \<Rightarrow> default_for_network (de_fetch (sp_desk ev)) chain))"

definition wizard ::
  "('w, 'a) shop_env \<Rightarrow> auth_key option \<Rightarrow> account_address option \<Rightarrow> string option \<Rightarrow> NamedChain option \<Rightarrow> string option \<Rightarrow>
   url option \<Rightarrow> NetworkPlaylist option \<Rightarrow> (unit, 'w shop) io" where
  "wizard ev force_authkey force_address config_dir chain key_text playlist_url playlist =
     io_bind (wizard_account ev force_authkey force_address key_text) (\<lambda>(authkey, address).
     io_bind (io_of (wizard_playlist ev chain playlist_url playlist)) (\<lambda>np.
     let np = refreshed (sp_desk ev) np in
     io_bind (io_of (pick_one np)) (\<lambda>u.
     io_bind (if de_index (sp_desk ev) u \<noteq> None then at_desk (originating_or (sp_desk ev) u authkey address)
              else io_of (Ok address)) (\<lambda>address.
     io_bind (init_app_cfg ev authkey address config_dir chain (Some np)) (\<lambda>_.
     io_bind (update_profile ev (offer_basic ev)) (\<lambda>_.
     io_bind (save_app_cfg ev) (\<lambda>_. io_of (Ok ()))))))))"

section \<open>The command\<close>

datatype ConfigSub =
    Init "account_address option" "auth_key option" "string option" "url option" "url option"
  | Fix bool "string option" "url option"
  | View
  | ValidatorInit bool
  | FullnodeInit "string option" "bool option"

record ConfigCli =
  cf_subcommand :: "ConfigSub option"
  cf_path :: "string option"
  cf_chain_name :: "NamedChain option"
  cf_profile :: "string option"

definition view_operator :: "('w, 'a) shop_env \<Rightarrow> string \<Rightarrow> files \<Rightarrow> ('a \<times> 'a option) rres" where
  "view_operator ev home fs =
     rbind (read_operator (sp_hosts ev) (Some (sp_join ev home OPERATOR_FILE)) fs) (\<lambda>public_identity.
     rbind (ho_net_addr (sp_hosts ev) (op_validator_host public_identity) (op_validator_network_public_key public_identity))
       (\<lambda>net_addr.
     case op_full_node_host public_identity of
       Some fn_host \<Rightarrow>
         rbind (or_err ''expected a full_node_network_public_key in operator.yaml''
                  (op_full_node_network_public_key public_identity)) (\<lambda>key.
         rbind (ho_net_addr (sp_hosts ev) fn_host key) (\<lambda>net_addr_fn. Ok (net_addr, Some net_addr_fn)))
     | None \<Rightarrow> Ok (net_addr, None)))"

definition ConfigCli_run :: "('w, 'a) shop_env \<Rightarrow> ConfigCli \<Rightarrow> (unit, 'w shop) io" where
  "ConfigCli_run ev self =
     (case cf_subcommand self of
        Some (Fix reset_address rm_profile force_url) \<Rightarrow>
          at_desk (fix_config (sp_desk ev)
            \<lparr>fo_reset_address = reset_address, fo_remove_profile = rm_profile, fo_fullnode_url = force_url,
             fo_config_path = map_option (sp_path ev) (cf_path self), fo_chain_name = cf_chain_name self\<rparr>)
      | Some (Init force_address force_authkey private_key u playlist_url) \<Rightarrow>
          io_bind (case u of
                     Some _ \<Rightarrow>
                       if playlist_url \<noteq> None then io_of (Err ''cannot use both --force-url and --playlist-url'')
                       else if cf_chain_name self = None then io_of (Err ''--force-url requires --chain-name'')
                       else io_of (Ok (Some (NetworkPlaylist_new u (cf_chain_name self))))
                   | None \<Rightarrow> io_of (Ok None)) (\<lambda>playlist.
          wizard ev force_authkey force_address (cf_path self) (cf_chain_name self) private_key playlist_url playlist)
      | Some (ValidatorInit vfn) \<Rightarrow>
          let home_dir = home_or ev (cf_path self) in
          if vfn then vfn_dialogue ev home_dir None None
          else
            (let data_path = sp_home ev in
             io_bind (download_genesis ev (Some data_path)) (\<lambda>_.
             io_bind (get_genesis_waypoint ev (Some data_path)) (\<lambda>_.
             validator_dialogue ev data_path None (cf_chain_name self))))
      | Some View \<Rightarrow>
          io_bind (with_files (\<lambda>fs. (view_operator ev (home_or ev (cf_path self)) fs, fs))) (\<lambda>_. io_of (Ok ()))
      | Some (FullnodeInit home_path archive_mode) \<Rightarrow>
          io_bind (case archive_mode of
                     Some a \<Rightarrow> io_of (Ok a)
                   | None \<Rightarrow> io_bind (unwrapped ''user did not select sync mode'' (at_desk (select 2)))
                               (\<lambda>selection. io_of (Ok (selection \<noteq> 0)))) (\<lambda>archive.
          io_bind (download_genesis ev home_path) (\<lambda>_.
          io_bind (init_fullnode_yaml ev home_path True archive) (\<lambda>_. io_of (Ok ()))))
      | None \<Rightarrow> io_of (Ok ()))"

section \<open>Theorems\<close>

definition later :: "string \<Rightarrow> string option \<Rightarrow> string option" where
  "later v acc = (case acc of None \<Rightarrow> Some v | Some w \<Rightarrow> if w \<le> v then Some v else Some w)"

lemma fold_later:
  "\<exists>v. fold later vs (Some w) = Some v \<and> v \<in> insert w (set vs) \<and> (\<forall>u \<in> insert w (set vs). u \<le> v)"
proof (induction vs arbitrary: w)
  case (Cons x vs)
  from Cons.IH[of x] Cons.IH[of w] show ?case
    by (cases "w \<le> x") (auto simp: later_def intro: order_trans dest: le_cases)
qed simp

lemma latest_version_later: "latest_version resp = fold later (List.map_filter version_of resp) None"
  by (simp add: latest_version_def later_def[abs_def])

text \<open>
  Which release the genesis files come from. The version taken is the greatest as text, not as a version number: when
  release ten follows release nine, the files of release nine are downloaded.
\<close>

theorem genesis_version_is_text_max:
  "(case latest_version resp of
      None \<Rightarrow> List.map_filter version_of resp = []
    | Some v \<Rightarrow> v \<in> set (List.map_filter version_of resp) \<and> (\<forall>w \<in> set (List.map_filter version_of resp). w \<le> v)) \<and>
   latest_version [\<lparr>gh_name = ''v9.0.0'', gh_path = [], gh_content_type = [], gh_download_url = None\<rparr>,
                   \<lparr>gh_name = ''v10.0.0'', gh_path = [], gh_content_type = [], gh_download_url = None\<rparr>] = Some ''9.0.0''"
proof
  show "case latest_version resp of
      None \<Rightarrow> List.map_filter version_of resp = []
    | Some v \<Rightarrow> v \<in> set (List.map_filter version_of resp) \<and> (\<forall>w \<in> set (List.map_filter version_of resp). w \<le> v)"
  proof (cases "List.map_filter version_of resp")
    case (Cons v vs)
    with fold_later[of vs v] show ?thesis by (auto simp: latest_version_later later_def)
  qed (simp add: latest_version_later)
qed (simp add: latest_version_def version_of_def map_filter_simps starts_with_def less_char_def Let_def)

theorem genesis_version_is_text_max_witness:
  "latest_version [\<lparr>gh_name = ''v7.0.3'', gh_path = [], gh_content_type = [], gh_download_url = None\<rparr>] = Some ''7.0.3''"
proof -
  let ?r = "[\<lparr>gh_name = ''v7.0.3'', gh_path = [], gh_content_type = [], gh_download_url = None\<rparr>]"
  have v: "List.map_filter version_of ?r = [''7.0.3'']"
    by (simp add: version_of_def map_filter_simps starts_with_def Let_def)
  from genesis_version_is_text_max[of ?r] show ?thesis unfolding v by (cases "latest_version ?r") simp_all
qed

lemma set_public_seeds_nth:
  assumes "i < length (nd_full_node_networks c)"
  defines "e \<equiv> nd_full_node_networks c ! i"
  shows "nd_full_node_networks (set_public_seeds peers c) ! i =
    e\<lparr>nw_seed_addrs := if nw_network_id e = Public then peers else nw_seed_addrs e\<rparr>"
  using assms by (simp add: set_public_seeds_def)

lemmas file_effects = with_files_def write_file_def read_file_def

lemma set_public_seeds_networks:
  "nd_rest (set_public_seeds peers c) = nd_rest c"
  "list_all2 (\<lambda>new old. nw_network_id new = nw_network_id old \<and> nw_rest new = nw_rest old \<and>
      nw_seed_addrs new = (if nw_network_id old = Public then peers else nw_seed_addrs old))
    (nd_full_node_networks (set_public_seeds peers c)) (nd_full_node_networks c)"
  by (simp_all add: set_public_seeds_def list_all2_conv_all_nth)

abbreviation genesis_dir :: "('w, 'a) shop_env \<Rightarrow> string option \<Rightarrow> string" where
  "genesis_dir ev home \<equiv> sp_join ev (home_or ev home) ''genesis/''"

lemma get_genesis_waypoint_Ok:
  assumes "get_genesis_waypoint ev home s = (Ok waypoint, s1)"
  shows "\<exists>resp t. sp_listing ev base_url = Ok resp \<and> sp_get ev (latest_path resp ''waypoint.txt'') = Ok t \<and>
    sp_waypoint ev (trim t) = Ok waypoint \<and> genesis_dir ev home \<in> set (sh_dirs s) \<and>
    s1 = s\<lparr>sh_files := (sh_files s)(sp_join ev (genesis_dir ev home) ''waypoint.txt'' \<mapsto> t)\<rparr>"
  using assms
  by (auto simp: get_genesis_waypoint_def rust_simps write_in_def file_effects Let_def split: if_splits)

text \<open>The template of the chosen mode.\<close>

definition fullnode_template :: "('w, 'a) shop_env \<Rightarrow> string option \<Rightarrow> bool \<Rightarrow> string \<Rightarrow> string" where
  "fullnode_template ev home archive waypoint =
     (if archive then make_fullnode_archive_yaml ev home waypoint else make_fullnode_fast_sync_yaml ev home waypoint)"

lemma init_fullnode_Ok:
  assumes "init_fullnode_yaml ev home overwrite_peers archive s = (Ok p, s')"
  obtains waypoint s1 where "get_genesis_waypoint ev home s = (Ok waypoint, s1)"
    and "p = sp_join ev (home_or ev home) FN_FILENAME"
    and "\<not> overwrite_peers \<longrightarrow> s' = s1\<lparr>sh_files := (sh_files s1)(p \<mapsto> fullnode_template ev home archive waypoint)\<rparr>"
    and "overwrite_peers \<longrightarrow> (\<exists>peers parsed y. fetch_seed_addresses ev None = Ok peers \<and>
      sp_node_from ev (fullnode_template ev home archive waypoint) = Ok parsed \<and>
      sp_node_to ev (set_public_seeds peers parsed) = Ok y \<and>
      s' = s1\<lparr>sh_files := (sh_files s1)(p \<mapsto> y)\<rparr>)"
proof -
  from assms obtain waypoint s1 where w: "get_genesis_waypoint ev home s = (Ok waypoint, s1)"
    and rest: "(let p = sp_join ev (home_or ev home) FN_FILENAME in
        io_bind (write_file p (fullnode_template ev home archive waypoint)) (\<lambda>_.
        io_bind (if overwrite_peers then io_bind (io_of (fetch_seed_addresses ev None))
          (\<lambda>peers. add_peers_to_yaml ev p peers) else io_of (Ok ())) (\<lambda>_. io_of (Ok p)))) s1 = (Ok p, s')"
    unfolding init_fullnode_yaml_def Let_def io_bind_eq_Ok fullnode_template_def by blast
  show thesis
  proof (rule that[OF w])
    show "p = sp_join ev (home_or ev home) FN_FILENAME" using rest by (auto simp: Let_def rust_simps)
    show "\<not> overwrite_peers \<longrightarrow> s' = s1\<lparr>sh_files := (sh_files s1)(p \<mapsto> fullnode_template ev home archive waypoint)\<rparr>"
      using rest by (auto simp: Let_def rust_simps file_effects)
    show "overwrite_peers \<longrightarrow> (\<exists>peers parsed y. fetch_seed_addresses ev None = Ok peers \<and>
      sp_node_from ev (fullnode_template ev home archive waypoint) = Ok parsed \<and>
      sp_node_to ev (set_public_seeds peers parsed) = Ok y \<and> s' = s1\<lparr>sh_files := (sh_files s1)(p \<mapsto> y)\<rparr>)"
      using rest by (auto simp: Let_def rust_simps file_effects add_peers_to_yaml_def)
  qed
qed

text \<open>
  C21. A public full node. When \<open>init_fullnode_yaml\<close> succeeds, the directory \<^verbatim>\<open>genesis\<close> was there, and the waypoint is the trimmed text
  of the file of the latest release, which is saved in that directory as it was downloaded. The file it returns
  is made from the template of the chosen mode with that waypoint. Without the option to overwrite peers it is the
  template. With it, it reads as the template's configuration in which every public network has the seed peers
  downloaded from the community's list, while the seeds of all other networks, the other settings of the
  networks and of the node are those of the template. No other file is touched. Without the directory the command fails and
  changes nothing.
\<close>

theorem fullnode_yaml_seeds:
  fixes s :: "'w shop" and ev :: "('w, 'a) shop_env"
  assumes "\<forall>c y. sp_node_to ev c = Ok y \<longrightarrow> sp_node_from ev y = Ok c"
  shows "(\<forall>p s'. init_fullnode_yaml ev home overwrite_peers archive s = (Ok p, s') \<longrightarrow>
    (\<exists>resp t waypoint.
      sp_listing ev base_url = Ok resp \<and> sp_get ev (latest_path resp ''waypoint.txt'') = Ok t \<and>
      sp_waypoint ev (trim t) = Ok waypoint \<and> genesis_dir ev home \<in> set (sh_dirs s) \<and>
      p = sp_join ev (home_or ev home) FN_FILENAME \<and>
      (p \<noteq> sp_join ev (genesis_dir ev home) ''waypoint.txt'' \<longrightarrow> sh_files s' (sp_join ev (genesis_dir ev home) ''waypoint.txt'') = Some t) \<and>
      (\<forall>f. f \<notin> {p, sp_join ev (genesis_dir ev home) ''waypoint.txt''} \<longrightarrow> sh_files s' f = sh_files s f) \<and>
      (if overwrite_peers then
         (\<exists>list peers parsed y c.
           sp_get ev ''https://raw.githubusercontent.com/0LNetworkCommunity/seed-peers/main/seed_peers.yaml'' = Ok list \<and>
           sp_seeds ev list = Ok peers \<and> sp_node_from ev (fullnode_template ev home archive waypoint) = Ok parsed \<and>
           sh_files s' p = Some y \<and> sp_node_from ev y = Ok c \<and> nd_rest c = nd_rest parsed \<and>
           list_all2 (\<lambda>new old. nw_network_id new = nw_network_id old \<and> nw_rest new = nw_rest old \<and>
               nw_seed_addrs new = (if nw_network_id old = Public then peers else nw_seed_addrs old))
             (nd_full_node_networks c) (nd_full_node_networks parsed))
       else sh_files s' p = Some (fullnode_template ev home archive waypoint)))) \<and>
    (genesis_dir ev home \<notin> set (sh_dirs s) \<longrightarrow>
      \<not> is_ok (fst (init_fullnode_yaml ev home overwrite_peers archive s)) \<and>
      snd (init_fullnode_yaml ev home overwrite_peers archive s) = s)"
proof (intro conjI allI impI)
  fix p and s' :: "'w shop"
  assume "init_fullnode_yaml ev home overwrite_peers archive s = (Ok p, s')"
  then obtain waypoint s1 where w: "get_genesis_waypoint ev home s = (Ok waypoint, s1)"
    and p: "p = sp_join ev (home_or ev home) FN_FILENAME"
    and plain: "\<not> overwrite_peers \<longrightarrow> s' = s1\<lparr>sh_files := (sh_files s1)(p \<mapsto> fullnode_template ev home archive waypoint)\<rparr>"
    and seeded: "overwrite_peers \<longrightarrow> (\<exists>peers parsed y. fetch_seed_addresses ev None = Ok peers \<and>
      sp_node_from ev (fullnode_template ev home archive waypoint) = Ok parsed \<and>
      sp_node_to ev (set_public_seeds peers parsed) = Ok y \<and> s' = s1\<lparr>sh_files := (sh_files s1)(p \<mapsto> y)\<rparr>)"
    by (rule init_fullnode_Ok)
  obtain resp t where rt: "sp_listing ev base_url = Ok resp" "sp_get ev (latest_path resp ''waypoint.txt'') = Ok t"
    "sp_waypoint ev (trim t) = Ok waypoint" "genesis_dir ev home \<in> set (sh_dirs s)"
    and s1: "s1 = s\<lparr>sh_files := (sh_files s)(sp_join ev (genesis_dir ev home) ''waypoint.txt'' \<mapsto> t)\<rparr>"
    using get_genesis_waypoint_Ok[OF w] by blast
  obtain y where y: "s' = s1\<lparr>sh_files := (sh_files s1)(p \<mapsto> y)\<rparr>" using plain seeded by blast
  have waypoint: "p \<noteq> sp_join ev (genesis_dir ev home) ''waypoint.txt'' \<longrightarrow> sh_files s' (sp_join ev (genesis_dir ev home) ''waypoint.txt'') = Some t"
    by (simp add: y s1)
  have others: "\<forall>f. f \<notin> {p, sp_join ev (genesis_dir ev home) ''waypoint.txt''} \<longrightarrow> sh_files s' f = sh_files s f"
    by (simp add: y s1)
  have yaml: "if overwrite_peers then
         (\<exists>list peers parsed y c.
           sp_get ev ''https://raw.githubusercontent.com/0LNetworkCommunity/seed-peers/main/seed_peers.yaml'' = Ok list \<and>
           sp_seeds ev list = Ok peers \<and> sp_node_from ev (fullnode_template ev home archive waypoint) = Ok parsed \<and>
           sh_files s' p = Some y \<and> sp_node_from ev y = Ok c \<and> nd_rest c = nd_rest parsed \<and>
           list_all2 (\<lambda>new old. nw_network_id new = nw_network_id old \<and> nw_rest new = nw_rest old \<and>
               nw_seed_addrs new = (if nw_network_id old = Public then peers else nw_seed_addrs old))
             (nd_full_node_networks c) (nd_full_node_networks parsed))
       else sh_files s' p = Some (fullnode_template ev home archive waypoint)"
  proof (cases overwrite_peers)
    case True
    with seeded obtain peers parsed z where z: "fetch_seed_addresses ev None = Ok peers"
      "sp_node_from ev (fullnode_template ev home archive waypoint) = Ok parsed"
      "sp_node_to ev (set_public_seeds peers parsed) = Ok z" "sh_files s' p = Some z" by auto
    moreover have "sp_node_from ev z = Ok (set_public_seeds peers parsed)" using assms(1) z(3) by blast
    moreover obtain list where
      "sp_get ev ''https://raw.githubusercontent.com/0LNetworkCommunity/seed-peers/main/seed_peers.yaml'' = Ok list"
      "sp_seeds ev list = Ok peers"
      using z(1) unfolding fetch_seed_addresses_def option.case by (rule rbind_OkE)
    ultimately show ?thesis
      unfolding if_P[OF True] using set_public_seeds_networks[of peers parsed] by blast
  qed (use plain in simp)
  show "\<exists>resp t waypoint.
      sp_listing ev base_url = Ok resp \<and> sp_get ev (latest_path resp ''waypoint.txt'') = Ok t \<and>
      sp_waypoint ev (trim t) = Ok waypoint \<and> genesis_dir ev home \<in> set (sh_dirs s) \<and>
      p = sp_join ev (home_or ev home) FN_FILENAME \<and>
      (p \<noteq> sp_join ev (genesis_dir ev home) ''waypoint.txt'' \<longrightarrow> sh_files s' (sp_join ev (genesis_dir ev home) ''waypoint.txt'') = Some t) \<and>
      (\<forall>f. f \<notin> {p, sp_join ev (genesis_dir ev home) ''waypoint.txt''} \<longrightarrow> sh_files s' f = sh_files s f) \<and>
      (if overwrite_peers then
         (\<exists>list peers parsed y c.
           sp_get ev ''https://raw.githubusercontent.com/0LNetworkCommunity/seed-peers/main/seed_peers.yaml'' = Ok list \<and>
           sp_seeds ev list = Ok peers \<and> sp_node_from ev (fullnode_template ev home archive waypoint) = Ok parsed \<and>
           sh_files s' p = Some y \<and> sp_node_from ev y = Ok c \<and> nd_rest c = nd_rest parsed \<and>
           list_all2 (\<lambda>new old. nw_network_id new = nw_network_id old \<and> nw_rest new = nw_rest old \<and>
               nw_seed_addrs new = (if nw_network_id old = Public then peers else nw_seed_addrs old))
             (nd_full_node_networks c) (nd_full_node_networks parsed))
       else sh_files s' p = Some (fullnode_template ev home archive waypoint))"
    by (rule exI[of _ resp], rule exI[of _ t], rule exI[of _ waypoint]) (intro conjI rt p waypoint others yaml)
next
  assume no: "genesis_dir ev home \<notin> set (sh_dirs s)"
  have "\<not> is_ok (fst (get_genesis_waypoint ev home s)) \<and> snd (get_genesis_waypoint ev home s) = s"
    using no unfolding get_genesis_waypoint_def Let_def
    by (cases "sp_listing ev base_url"; cases "sp_get ev (latest_path (the_ok (sp_listing ev base_url)) ''waypoint.txt'')")
      (simp_all add: write_in_def)
  then show "\<not> is_ok (fst (init_fullnode_yaml ev home overwrite_peers archive s))"
    and "snd (init_fullnode_yaml ev home overwrite_peers archive s) = s"
    unfolding init_fullnode_yaml_def
    by (cases "get_genesis_waypoint ev home s"; cases "fst (get_genesis_waypoint ev home s)"; simp add: io_bind_def)+
qed

text \<open>A node with a public and a private network, and a codec that prints it with seeds.\<close>

definition ref_node_cfg :: "seed_peers \<Rightarrow> NodeConfig" where
  "ref_node_cfg peers = \<lparr>nd_full_node_networks =
     [\<lparr>nw_network_id = Public, nw_seed_addrs = peers, nw_rest = []\<rparr>,
      \<lparr>nw_network_id = PrivateNetwork ''vfn'', nw_seed_addrs = [], nw_rest = []\<rparr>], nd_rest = []\<rparr>"

definition ref_shop_env :: "(unit, string) shop_env" where
  "ref_shop_env =
     \<lparr>sp_desk = ref_desk_env, sp_listing = (\<lambda>_. Ok []), sp_get = Ok, sp_waypoint = Ok, sp_seeds = (\<lambda>_. Ok [([1], [''a''])]),
      sp_node_from = (\<lambda>s. Ok (ref_node_cfg (if s = ''seeded'' then [([1], [''a''])] else []))),
      sp_node_to = (\<lambda>c. if c = ref_node_cfg [([1], [''a''])] then Ok ''seeded'' else Err ''unprintable''),
      sp_host_from = (\<lambda>s. Ok \<lparr>hp_host = s, hp_port = 6180\<rparr>), sp_key_str = lower_hex, sp_private_key = (\<lambda>_. Err ''key''),
      sp_hosts = ref_hosts, sp_node_crypto = ref_node, sp_printers = ref_yaml, sp_overwrite = (\<lambda>_. Some True), sp_cwd = ''.'',
      sp_mnem = [], sp_sha3 = text_bytes, sp_gas = sample_gas, sp_path = (\<lambda>d. [d]), sp_basic_yes = True,
      sp_validator_yes = True\<rparr>"

definition ref_shop :: "answer list \<Rightarrow> unit shop" where
  "ref_shop as = \<lparr>sh_desk = ref_desk as, sh_files = Map.empty, sh_dirs = [''/d/genesis/'']\<rparr>"

lemma ref_fullnode_runs:
  "\<exists>p s'. init_fullnode_yaml ref_shop_env (Some ''/d'') True False (ref_shop []) = (Ok p, s')"
proof -
  have "make_fullnode_fast_sync_yaml ref_shop_env (Some ''/d'') w \<noteq> ''seeded''" for w
    by (simp add: make_fullnode_fast_sync_yaml_def lines_def fullnode_base_lines_def Let_def)
  then show ?thesis
    by (simp add: init_fullnode_yaml_def get_genesis_waypoint_def write_in_def file_effects add_peers_to_yaml_def
        fetch_seed_addresses_def set_public_seeds_def ref_shop_env_def ref_node_cfg_def ref_shop_def ref_hosts_def home_or_def Let_def)
qed

theorem fullnode_yaml_seeds_witness:
  "\<exists>p s' y. init_fullnode_yaml ref_shop_env (Some ''/d'') True False (ref_shop []) = (Ok p, s') \<and>
     p = ''/d/fullnode.yaml'' \<and> sh_files s' p = Some y \<and>
     sp_node_from ref_shop_env y = Ok (ref_node_cfg [([1], [''a''])])"
proof -
  let ?s = "ref_shop []"
  obtain p s' where r: "init_fullnode_yaml ref_shop_env (Some ''/d'') True False ?s = (Ok p, s')"
    using ref_fullnode_runs by blast
  have inv: "\<forall>c y. sp_node_to ref_shop_env c = Ok y \<longrightarrow> sp_node_from ref_shop_env y = Ok c" by (simp add: ref_shop_env_def)
  have env: "sp_seeds ref_shop_env u = Ok [([1], [''a''])]" "sp_join ref_shop_env a b = a @ ''/'' @ b" for u a b
    by (simp_all add: ref_shop_env_def ref_hosts_def)
  note seeds = fullnode_yaml_seeds[OF inv, of "Some ''/d''" True False ?s, THEN conjunct1, rule_format, OF r]
  from seeds have p: "p = ''/d/fullnode.yaml''" by (auto simp: env home_or_def FN_FILENAME_def)
  from seeds[unfolded if_True] obtain list peers x parsed y c where y: "sp_seeds ref_shop_env list = Ok peers"
    "sp_node_from ref_shop_env x = Ok parsed" "sh_files s' p = Some y" "sp_node_from ref_shop_env y = Ok c"
    "list_all2 (\<lambda>new old. nw_network_id new = nw_network_id old \<and> nw_rest new = nw_rest old \<and>
        nw_seed_addrs new = (if nw_network_id old = Public then peers else nw_seed_addrs old))
      (nd_full_node_networks c) (nd_full_node_networks parsed)"
    by blast
  obtain q r where c: "c = ref_node_cfg q" "parsed = ref_node_cfg r"
    using y(2,4) by (auto simp: ref_shop_env_def)
  have "peers = [([1], [''a''])]" using y(1) env(1)[of list] by simp
  with y(5) have "c = ref_node_cfg [([1], [''a''])]" unfolding c by (simp add: ref_node_cfg_def)
  with r p y(3,4) show ?thesis by blast
qed

definition shop_files :: "'w shop \<Rightarrow> file_system" where
  "shop_files s = dk_files (sh_desk s)"

lemma keeps_at_desk: "io_keeps (\<lambda>d. g (dk_files d)) m \<Longrightarrow> io_keeps (\<lambda>s. g (shop_files s)) (at_desk m)"
  by (simp add: io_keeps_def at_desk_def shop_files_def split: prod.split) (metis snd_conv)

lemma files_next [io_keeps_intros]: "io_keeps dk_files (next_answer f)"
  by (simp add: io_keeps_def next_answer_def split: list.split)

lemma files_with_cfg [io_keeps_intros]: "io_keeps dk_files (with_cfg f)"
  by (simp add: io_keeps_def with_cfg_def)

lemma files_on_net [io_keeps_intros]: "io_keeps dk_files (on_net m)"
  by (simp add: io_keeps_def on_net_def split: prod.split)

lemma files_update [io_keeps_intros]: "io_keeps dk_files (update_cfg f)"
  by (simp add: io_keeps_def update_cfg_def)

lemma io_keeps_if: "io_keeps f m \<Longrightarrow> io_keeps f n \<Longrightarrow> io_keeps f (if b then m else n)"
  by simp

lemma io_keeps_pair: "(\<And>a b. io_keeps f (g a b)) \<Longrightarrow> io_keeps f (case p of (a, b) \<Rightarrow> g a b)"
  by (simp add: split_beta)

lemma files_account_selection: "io_keeps dk_files (interactive_account_selection ev)"
  unfolding interactive_account_selection_def prompt_for_account_def get_keys_from_prompt_def
    get_account_from_prompt_def prompts
  by (intro io_keeps_intros io_keeps_if io_keeps_pair)

lemma files_originating: "io_keeps dk_files (originating_or ev u k a)"
  unfolding originating_or_def by (intro io_keeps_intros)

lemma files_wizard_account: "io_keeps shop_files (wizard_account ev k a t)"
  using keeps_at_desk[of "\<lambda>x. x", OF files_account_selection]
  by (auto simp: wizard_account_def Let_def split: option.split intro!: io_keeps_intros)

lemma init_app_cfg_Ok:
  assumes "init_app_cfg ev k a (Some p) chain np s = (Ok u, s')"
  shows "node_home (workspace (dk_cfg (sh_desk s'))) = sp_path ev p \<and>
    user_profiles (dk_cfg (sh_desk s')) = [Profile_new (de_to_str (sp_desk ev)) k a] \<and>
    network_playlist (dk_cfg (sh_desk s')) = (case np of Some n \<Rightarrow> [n] | None \<Rightarrow> []) \<and>
    (\<forall>n. np = Some n \<longrightarrow> default_chain_id (workspace (dk_cfg (sh_desk s'))) = chain_name n) \<and>
    (\<forall>f. f \<noteq> sp_path ev p @ [CONFIG_FILE_NAME] \<longrightarrow> shop_files s' f = shop_files s f) \<and> sh_files s' = sh_files s"
  using assms
  by (auto simp: init_app_cfg_def at_desk_def init_app_configs_def save_file_def AppCfg_default_def shop_files_def Let_def
      split: prod.splits rres.splits option.splits)

lemma update_profile_Ok:
  assumes "update_profile ev f s = (Ok u, s')"
  shows "workspace (dk_cfg (sh_desk s')) = workspace (dk_cfg (sh_desk s)) \<and>
    network_playlist (dk_cfg (sh_desk s')) = network_playlist (dk_cfg (sh_desk s)) \<and>
    shop_files s' = shop_files s \<and> sh_files s' = sh_files s \<and>
    (\<forall>p. user_profiles (dk_cfg (sh_desk s)) = [p] \<longrightarrow> (\<exists>q. f p = Ok q \<and> user_profiles (dk_cfg (sh_desk s')) = [q]))"
  using assms
  by (auto simp: update_profile_def at_desk_def with_cfg_def update_cfg_def shop_files_def rust_simps get_profile_mut_def
      profile_slot_def get_profile_idx_def split: prod.splits)

lemma save_app_cfg_Ok:
  assumes "save_app_cfg ev s = (Ok u, s')"
  shows "dk_cfg (sh_desk s') = dk_cfg (sh_desk s) \<and> sh_files s' = sh_files s \<and>
    (\<exists>y. de_to_yaml (sp_desk ev) (dk_cfg (sh_desk s)) = Ok y \<and>
      shop_files s' = (shop_files s)(node_home (workspace (dk_cfg (sh_desk s))) @ [CONFIG_FILE_NAME] \<mapsto> y))"
  using assms
  by (auto simp: save_app_cfg_def at_desk_def save_cfg_def save_file_def io_match_def shop_files_def Let_def
      split: prod.splits rres.splits)

lemma wizard_Ok:
  assumes "wizard ev k a (Some p) chain t pu np s = (Ok u, s')"
  shows "\<exists>y. node_home (workspace (dk_cfg (sh_desk s'))) = sp_path ev p \<and>
    de_to_yaml (sp_desk ev) (dk_cfg (sh_desk s')) = Ok y \<and>
    shop_files s' (sp_path ev p @ [CONFIG_FILE_NAME]) = Some y \<and>
    (\<forall>f. f \<noteq> sp_path ev p @ [CONFIG_FILE_NAME] \<longrightarrow> shop_files s' f = shop_files s f)"
proof -
  from assms obtain k' a' s1 n v a2 s2 u1 s3 u2 s4 q where
    1: "wizard_account ev k a t s = (Ok (k', a'), s1)"
    and 2: "(if de_index (sp_desk ev) v \<noteq> None then at_desk (originating_or (sp_desk ev) v k' a') else io_of (Ok a')) s1 =
      (Ok a2, s2)"
    and 3: "init_app_cfg ev k' a2 (Some p) chain (Some n) s2 = (Ok u1, s3)"
    and 4: "update_profile ev (offer_basic ev) s3 = (Ok u2, s4)" and 5: "save_app_cfg ev s4 = (Ok q, s')"
    unfolding wizard_def by (auto simp: rust_simps Let_def)
  have "io_keeps shop_files (if de_index (sp_desk ev) v \<noteq> None then at_desk (originating_or (sp_desk ev) v k' a') else io_of (Ok a'))"
    using keeps_at_desk[of "\<lambda>x. x", OF files_originating] by (intro io_keeps_if io_keeps_intros)
  from io_keepsD2[OF files_wizard_account 1] io_keepsD2[OF this 2] have "shop_files s2 = shop_files s" by simp
  with init_app_cfg_Ok[OF 3] update_profile_Ok[OF 4] save_app_cfg_Ok[OF 5] show ?thesis by auto
qed

text \<open>
  The option \<^verbatim>\<open>--path\<close> means a directory to \<^verbatim>\<open>config init\<close> and a file to \<^verbatim>\<open>config fix\<close>. After a
  successful \<^verbatim>\<open>init\<close> with a path, which is not itself a file, the saved configuration loads from the file inside that
  directory, but \<^verbatim>\<open>fix\<close> with the same path always fails and changes nothing.
\<close>

theorem fix_misses_init_path:
  fixes cli :: ConfigCli and s s' :: "'w shop"
  assumes "yaml_inverse (de_to_yaml (sp_desk ev)) (de_from_yaml (sp_desk ev))"
    and "cf_subcommand cli = Some (Init a k t u pu)" and "cf_path cli = Some p"
    and "ConfigCli_run ev cli s = (Ok (), s')" and "dk_files (sh_desk s) (sp_path ev p) = None"
  shows "load (de_from_yaml (sp_desk ev)) (de_home (sp_desk ev)) (Some (sp_path ev p @ [CONFIG_FILE_NAME]))
      (dk_files (sh_desk s')) = Ok (dk_cfg (sh_desk s')) \<and>
    (\<exists>e. ConfigCli_run ev (cli\<lparr>cf_subcommand := Some (Fix r rm fu)\<rparr>) s' = (Err e, s'))"
proof -
  from assms(2-4) obtain np where w: "wizard ev k a (Some p) (cf_chain_name cli) t pu np s = (Ok (), s')"
    by (auto simp: ConfigCli_run_def rust_simps split: option.splits if_splits)
  from wizard_Ok[OF w] assms(1,5)
  have "load (de_from_yaml (sp_desk ev)) (de_home (sp_desk ev)) (Some (sp_path ev p @ [CONFIG_FILE_NAME]))
      (dk_files (sh_desk s')) = Ok (dk_cfg (sh_desk s'))" and none: "dk_files (sh_desk s') (sp_path ev p) = None"
    by (auto simp: load_def yaml_inverse_def shop_files_def Let_def)
  moreover from none have "\<exists>e. ConfigCli_run ev (cli\<lparr>cf_subcommand := Some (Fix r rm fu)\<rparr>) s' = (Err e, s')"
    using assms(3) by (simp add: ConfigCli_run_def at_desk_def fix_config_def load_cfg_def load_def io_bind_def io_match_def)
  ultimately show ?thesis by blast
qed

definition ref_init :: ConfigCli where
  "ref_init =
     \<lparr>cf_subcommand = Some (Init (Some (replicate 32 1)) (Some (replicate 32 1)) None (Some ''http://n'') None),
      cf_path = Some ''d'', cf_chain_name = Some TESTING, cf_profile = None\<rparr>"

text \<open>The configuration that this command makes, and a codec that prints and reads it.\<close>

definition ref_profile :: Profile where
  "ref_profile = Profile_new lower_hex (replicate 32 1) (replicate 32 1)"

definition ref_network :: NetworkPlaylist where
  "ref_network = refreshed ref_desk_env (NetworkPlaylist_new (Some ''http://n'') (Some TESTING))"

definition ref_made :: AppCfg where
  "ref_made = (AppCfg_default sample_gas [''home''])
     \<lparr>workspace := \<lparr>default_profile = Some (nickname ref_profile), default_chain_id = TESTING, node_home = [''d'']\<rparr>,
      user_profiles := [ref_profile], network_playlist := [ref_network]\<rparr>"

definition ref_made_env :: "(unit, string) shop_env" where
  "ref_made_env = ref_shop_env\<lparr>sp_desk := ref_desk_env
     \<lparr>de_to_yaml := (\<lambda>c. if c = ref_made then Ok ''y'' else Err ''unprintable''), de_from_yaml := (\<lambda>_. Some ref_made)\<rparr>\<rparr>"

lemma ref_network_facts: "pick_one ref_network = Ok ''http://n''" "chain_name ref_network = TESTING"
proof -
  obtain h where n: "nodes ref_network = [h]" "hp_url h = ''http://n''" "\<not> hp_is_api h"
    by (simp add: ref_network_def refreshed_def refresh_nodes polled_def NetworkPlaylist_new_def replace_all_urls_def
        NetworkPlaylist_default_def ref_desk_env_def check_sync_def HostProfile_new_def)
  then show "pick_one ref_network = Ok ''http://n''"
    by (simp add: pick_one_def the_best_one_def the_good_ones_eq all_urls_def good_def Let_def)
  show "chain_name ref_network = TESTING"
    by (simp add: ref_network_def refreshed_def refresh_sync_status_def NetworkPlaylist_new_def Let_def)
qed

lemma ref_made_refreshed: "refreshed (sp_desk ref_made_env) np = refreshed ref_desk_env np"
  by (simp add: refreshed_def ref_made_env_def ref_shop_env_def)

lemma ref_init_runs:
  "\<exists>s'. ConfigCli_run ref_made_env ref_init (ref_shop []) = (Ok (), s') \<and> dk_cfg (sh_desk s') = ref_made"
proof -
  let ?s = "ref_shop []" and ?a = "replicate 32 1"
  let ?s1 = "?s\<lparr>sh_desk := (sh_desk ?s)\<lparr>dk_cfg := ref_made, dk_files := (dk_files (sh_desk ?s))([''d'', CONFIG_FILE_NAME] \<mapsto> ''y'')\<rparr>\<rparr>"
  have init: "init_app_cfg ref_made_env ?a ?a (Some ''d'') (Some TESTING) (Some ref_network) ?s = (Ok (), ?s1)"
    by (simp add: init_app_cfg_def at_desk_def init_app_configs_def save_file_def AppCfg_default_def Workspace_default_def
        ref_made_env_def ref_shop_env_def ref_desk_env_def ref_network_facts ref_made_def ref_profile_def Let_def)
  have upd: "update_profile ref_made_env (offer_basic ref_made_env) ?s1 = (Ok (), ?s1)"
    by (simp add: update_profile_def at_desk_def with_cfg_def update_cfg_def get_profile_mut_def profile_slot_def
        get_profile_idx_def offer_basic_def maybe_offer_basic_pledge_def check_has_pledge_def ref_made_env_def ref_shop_env_def
        ref_desk_env_def ref_made_def)
  have save: "\<exists>q t. save_app_cfg ref_made_env ?s1 = (Ok q, t) \<and> dk_cfg (sh_desk t) = ref_made"
    by (simp add: save_app_cfg_def at_desk_def save_cfg_def save_file_def ref_made_env_def ref_shop_env_def ref_desk_env_def
        io_match_def Let_def)
  then obtain q t where t: "save_app_cfg ref_made_env ?s1 = (Ok q, t)" "dk_cfg (sh_desk t) = ref_made" by blast
  have idx: "de_index (sp_desk ref_made_env) u = None" for u
    by (simp add: ref_made_env_def ref_shop_env_def ref_desk_env_def)
  have "ConfigCli_run ref_made_env ref_init ?s = (Ok (), t)"
    by (simp add: ConfigCli_run_def ref_init_def wizard_def wizard_account_def wizard_playlist_def ref_made_refreshed
        flip: ref_network_def) (simp add: ref_network_facts idx init upd t)
  with t(2) show ?thesis by blast
qed

theorem fix_misses_init_path_witness:
  "\<exists>s' e. ConfigCli_run ref_made_env ref_init (ref_shop []) = (Ok (), s') \<and>
     ConfigCli_run ref_made_env (ref_init\<lparr>cf_subcommand := Some (Fix False (Some ''0101'') None)\<rparr>) s' = (Err e, s')"
proof -
  obtain s' where r: "ConfigCli_run ref_made_env ref_init (ref_shop []) = (Ok (), s')" using ref_init_runs by blast
  have inv: "yaml_inverse (de_to_yaml (sp_desk ref_made_env)) (de_from_yaml (sp_desk ref_made_env))"
    by (simp add: yaml_inverse_def ref_made_env_def)
  have none: "dk_files (sh_desk (ref_shop [])) (sp_path ref_made_env ''d'') = None"
    by (simp add: ref_shop_def ref_desk_def ref_made_env_def ref_shop_env_def default_file_path_def global_config_dir_def)
  have sub: "cf_subcommand ref_init = Some (Init (Some (replicate 32 1)) (Some (replicate 32 1)) None (Some ''http://n'') None)"
    "cf_path ref_init = Some ''d''" by (simp_all add: ref_init_def)
  from fix_misses_init_path[OF inv sub r none] r show ?thesis by blast
qed

text \<open>
  What a validator's files say. When \<open>initialize_validator_files\<close> succeeds in a directory, the operator file there names the
  account and the network key of the public identity it returns and the host it was given, and the configuration
  saved in the same directory has one profile, of that account, and talks to the local node.
\<close>

lemma refresh_validator_files_Ok:
  assumes "inj pj" and "refresh_validator_files c v nc y ow pj mnem keep fs = (Ok (a, k, pub), fs')"
  shows "a = pb_account_address pub \<and> (\<exists>t. y_public y pub = Ok t \<and> fs' (pj PUBLIC_KEYS_FILE) = Some t)"
proof -
  have names: "pj PUBLIC_KEYS_FILE \<noteq> pj VALIDATOR_FILE" "pj PUBLIC_KEYS_FILE \<noteq> pj VFN_FILE"
    using assms(1) by (simp_all add: inj_eq PUBLIC_KEYS_FILE_def VALIDATOR_FILE_def VFN_FILE_def)
  from assms(2) show ?thesis
    by (auto simp: refresh_validator_files_def save_val_files_def rust_simps write_key_file_Ok Let_def names
        split: rres.splits prod.splits)
qed

lemma save_validator_yaml_frame:
  assumes "save_validator_yaml ev (Some d) s = (Ok p, s')" and "f \<noteq> sp_join ev d NODE_YAML_FILE"
  shows "sh_files s' f = sh_files s f \<and> sh_desk s' = sh_desk s"
  using assms
  by (auto simp: save_validator_yaml_def home_or_def rust_simps file_effects add_peers_to_yaml_def Let_def split: rres.splits)

lemma offers_keep_account:
  "offer_basic ev p = Ok q \<Longrightarrow> account q = account p" "offer_validator ev p = Ok q \<Longrightarrow> account q = account p"
  by (auto simp: offer_basic_def offer_validator_def maybe_offer_basic_pledge_def maybe_offer_validator_pledge_def rust_simps
      push_pledge_def split: if_splits option.splits)

lemma validator_cfg:
  assumes "init_app_cfg ev k a (Some d) chain (Some (NetworkPlaylist_localhost chain)) s3 = (Ok u4, s4)"
    and "update_profile ev (\<lambda>p. rbind (offer_basic ev p) (offer_validator ev)) s4 = (Ok u5, s5)"
    and "save_app_cfg ev s5 = (Ok q, s')"
    and "yaml_inverse (de_to_yaml (sp_desk ev)) (de_from_yaml (sp_desk ev))"
  shows "\<exists>c. load (de_from_yaml (sp_desk ev)) (de_home (sp_desk ev)) (Some (sp_path ev d @ [CONFIG_FILE_NAME]))
      (dk_files (sh_desk s')) = Ok c \<and>
    map account (user_profiles c) = [a] \<and> pick_url c None = Ok ''http://localhost:8080''"
proof -
  let ?c = "dk_cfg (sh_desk s')"
  note 1 = init_app_cfg_Ok[OF assms(1)] and 2 = update_profile_Ok[OF assms(2)] and 3 = save_app_cfg_Ok[OF assms(3)]
  from 1 2 3 have ws: "network_playlist ?c = [NetworkPlaylist_localhost chain]"
      "default_chain_id (workspace ?c) = chain_name (NetworkPlaylist_localhost chain)" by simp_all
  from 1 2 3 obtain p where "rbind (offer_basic ev (Profile_new (de_to_str (sp_desk ev)) k a)) (offer_validator ev) = Ok p"
    "user_profiles ?c = [p]" by auto
  then have accounts: "map account (user_profiles ?c) = [a]" by (auto simp: rust_simps Profile_new_def dest!: offers_keep_account)
  from ws have picked: "pick_url ?c None = Ok ''http://localhost:8080''"
    by (simp add: pick_url_def get_network_profile_def Let_def pick_one_def the_best_one_def the_good_ones_eq good_def
        NetworkPlaylist_localhost_def)
  from 1 2 3 assms(4)
  have loaded: "load (de_from_yaml (sp_desk ev)) (de_home (sp_desk ev)) (Some (sp_path ev d @ [CONFIG_FILE_NAME]))
      (dk_files (sh_desk s')) = Ok ?c"
    by (auto simp: load_def yaml_inverse_def shop_files_def Let_def)
  show ?thesis by (intro exI[of _ ?c] conjI loaded accounts picked)
qed

lemma validator_files_agree:
  assumes "\<forall>i t. y_public (sp_printers ev) i = Ok t \<longrightarrow> cy_public_from (ho_yaml (sp_hosts ev)) t = Ok i"
    and "config_yaml_ok (ho_yaml (sp_hosts ev))"
    and "yaml_inverse (de_to_yaml (sp_desk ev)) (de_from_yaml (sp_desk ev))"
    and "inj (sp_join ev d)"
    and "initialize_validator_files ev (Some d) username host mnem keep chain s = (Ok pub_id, s')"
  shows "(\<exists>oc. read_operator (sp_hosts ev) (Some (sp_join ev d OPERATOR_FILE)) (sh_files s') = Ok oc \<and>
      op_operator_account_address oc = pb_account_address pub_id \<and>
      Some (op_validator_network_public_key oc) = pb_validator_network_public_key pub_id \<and> op_validator_host oc = host) \<and>
    (\<exists>c. load (de_from_yaml (sp_desk ev)) (de_home (sp_desk ev)) (Some (sp_path ev d @ [CONFIG_FILE_NAME]))
        (dk_files (sh_desk s')) = Ok c \<and>
      map account (user_profiles c) = [pb_account_address pub_id] \<and> pick_url c None = Ok ''http://localhost:8080'')"
proof -
  let ?Y = "ho_yaml (sp_hosts ev)" and ?j = "sp_join ev d" and ?lo = "NetworkPlaylist_localhost chain"
  let ?set = "\<lparr>sv_username = (case username of Some u \<Rightarrow> u | None \<Rightarrow> ''default_username''), sv_validator_host = host,
      sv_full_node_host = None, sv_home_dir = Some d\<rparr>"
  from assms(5) obtain a k fs1 op ow fs2 p s3 u4 s4 u5 s5 q where
    1: "refresh_validator_files (de_crypto (sp_desk ev)) (de_conv (sp_desk ev)) (sp_node_crypto ev) (sp_printers ev)
      (sp_overwrite ev) ?j (case mnem of Some m \<Rightarrow> m | None \<Rightarrow> sp_mnem ev) keep (sh_files s) = (Ok (a, k, pub_id), fs1)"
    and 2: "set_config_files ?Y (sp_home ev) (sp_join ev) ?set fs1 = (Ok (op, ow), fs2)"
    and 3: "save_validator_yaml ev (Some d) (s\<lparr>sh_files := fs2\<rparr>) = (Ok p, s3)"
    and 4: "init_app_cfg ev k a (Some d) chain (Some ?lo) s3 = (Ok u4, s4)"
    and 5: "update_profile ev (\<lambda>p. rbind (offer_basic ev p) (offer_validator ev)) s4 = (Ok u5, s5)"
    and 6: "save_app_cfg ev s5 = (Ok q, s')"
    by (auto simp: initialize_validator_files_def keys_dir_def rust_simps with_files_def split: prod.splits)
  obtain t where a: "a = pb_account_address pub_id" and t: "y_public (sp_printers ev) pub_id = Ok t" "fs1 (?j PUBLIC_KEYS_FILE) = Some t"
    using refresh_validator_files_Ok[OF assms(4) 1] by blast
  obtain identity b c where i: "read_public_identity_file ?Y fs1 (?j PUBLIC_KEYS_FILE) = Ok identity"
      "operator_config_of ?set identity = Ok op" "cy_operator_to ?Y op = Ok b"
    and fs2: "fs2 = fs1(?j OPERATOR_FILE \<mapsto> b, ?j OWNER_FILE \<mapsto> c)"
    using set_config_files_Ok[OF _ 2] by auto
  from i(1) t assms(1) have id: "identity = pub_id" by (simp add: read_public_identity_file_def)
  have names: "?j OPERATOR_FILE \<noteq> ?j OWNER_FILE" "?j OPERATOR_FILE \<noteq> ?j NODE_YAML_FILE"
    using assms(4) by (simp_all add: inj_eq OPERATOR_FILE_def OWNER_FILE_def NODE_YAML_FILE_def)
  have "sh_files s' = sh_files s3"
    using init_app_cfg_Ok[OF 4] update_profile_Ok[OF 5] save_app_cfg_Ok[OF 6] by simp
  then have "sh_files s' (?j OPERATOR_FILE) = Some b"
    using save_validator_yaml_frame[OF 3 names(2)] fs2 names(1) by simp
  with i(3) assms(2) have r: "read_operator (sp_hosts ev) (Some (?j OPERATOR_FILE)) (sh_files s') = Ok op"
    by (simp add: read_operator_def config_yaml_ok_def)
  from i(2) id have o: "op_operator_account_address op = pb_account_address pub_id"
    "Some (op_validator_network_public_key op) = pb_validator_network_public_key pub_id" "op_validator_host op = host"
    by (auto simp: operator_config_of_def rust_simps Let_def)
  show ?thesis
    by (rule conjI[OF exI[of _ op]]) (intro conjI r o, rule validator_cfg[OF 4 5 6 assms(3), unfolded a])
qed

end
