(* ===== verification/Genesis_Build.thy ===== *)
theory Genesis_Build
  imports Genesis_Migrate Genesis_Compare Genesis_Registration Rescue Config_Init
begin

text \<open>
  Building the genesis block (\<^verbatim>\<open>src/tools/genesis/src/genesis_builder.rs\<close>, \<^verbatim>\<open>genesis.rs\<close>, \<^verbatim>\<open>vm.rs\<close>), the wizard of the ceremony
  (\<^verbatim>\<open>wizard.rs\<close>), its command line (\<^verbatim>\<open>cli.rs\<close>) and the genesis of a test network (\<^verbatim>\<open>src/tools/testnet/src/config_virgin.rs\<close>,
  \<^verbatim>\<open>src/types/src/core_types/fixtures.rs\<close>).

  The studio is a workshop of \<open>Config_Init\<close>, for files and answers, together with GitHub. \<open>genesis_vm\<close> collects the vendor's genesis VM,
  \<open>build_env\<close> the rest of the vendor code. Directories, progress bars and waiting are left out.
\<close>

section \<open>Encoding the genesis transaction\<close>

record ('s, 'm, 'v) genesis_vm =
  gm_validate_config :: "GenesisConfiguration \<Rightarrow> unit rres"
  gm_session :: "'m \<Rightarrow> 's"
  gm_exec :: "'s exec"
  gm_vendor :: "u8 \<Rightarrow> GenesisConfiguration \<Rightarrow> 'v list \<Rightarrow> 's genesis_vendor"
  gm_empty_session :: 's
  gm_publish_framework :: "'m \<Rightarrow> 's step"
  gm_finish :: "'s \<Rightarrow> VMChangeSet rres"
  gm_squash :: "VMChangeSet \<Rightarrow> VMChangeSet \<Rightarrow> VMChangeSet rres"
  gm_has_deletion :: "bytes \<Rightarrow> bool"
  gm_verify_genesis_write_set :: "bytes list \<Rightarrow> unit rres"

text \<open>A session that is run to its end.\<close>

definition finish_session :: "('s, 'm, 'v) genesis_vm \<Rightarrow> unit rres \<times> 's \<Rightarrow> VMChangeSet rres" where
  "finish_session gm p = rbind (fst p) (\<lambda>_. unwrap ''called Result::unwrap() on an Err value'' (gm_finish gm (snd p)))"

definition encode_genesis_change_set ::
  "(account_address \<Rightarrow> string) \<Rightarrow> (string \<Rightarrow> account_address rres) \<Rightarrow> ('s, 'm, 'v) genesis_vm \<Rightarrow> 'v list \<Rightarrow>
   ('vc, 'vo, 'ev) LegacyRecoveryV6 list \<Rightarrow> 'm \<Rightarrow> u8 \<Rightarrow> GenesisConfiguration \<Rightarrow> ChangeSet rres" where
  "encode_genesis_change_set to_str from_hex_literal gm validators recovery framework chain_id genesis_config =
     rbind (gm_validate_config gm genesis_config) (\<lambda>_.
     rbind (finish_session gm (genesis_session to_str from_hex_literal (gm_exec gm)
              (gm_vendor gm chain_id genesis_config validators) recovery (gm_session gm framework))) (\<lambda>cs1.
     rbind (finish_session gm (gm_publish_framework gm framework (gm_empty_session gm))) (\<lambda>cs2.
     rbind (unwrap ''called Result::unwrap() on an Err value'' (gm_squash gm cs1 cs2)) (\<lambda>change_set.
     if vm_delta_change_set change_set \<noteq> [] then Panic ''non-empty delta change set in genesis''
     else if gm_has_deletion gm (vm_write_set change_set) then Panic ''assertion failed''
     else
       rbind (gm_verify_genesis_write_set gm (vm_events change_set)) (\<lambda>_.
       Ok \<lparr>cs_write_set = vm_write_set change_set, cs_events = vm_events change_set\<rparr>)))))"

definition make_recovery_genesis ::
  "(account_address \<Rightarrow> string) \<Rightarrow> (string \<Rightarrow> account_address rres) \<Rightarrow> ('s, 'm, 'v) genesis_vm \<Rightarrow>
   ('vc, 'vo, 'ev) LegacyRecoveryV6 list \<Rightarrow> 'v list \<Rightarrow> 'm \<Rightarrow> u8 \<Rightarrow> GenesisConfiguration \<Rightarrow> Transaction rres" where
  "make_recovery_genesis to_str from_hex_literal gm recovery genesis_vals framework_release chain_id genesis_config =
     rbind (encode_genesis_change_set to_str from_hex_literal gm genesis_vals recovery framework_release chain_id genesis_config)
       (\<lambda>recovery_changeset. Ok (GenesisTransaction (Direct recovery_changeset)))"

section \<open>The studio\<close>

record ('w, 'h) studio =
  sd_shop :: "'w shop"
  sd_hub :: 'h

definition in_shop :: "('r, 'w shop) io \<Rightarrow> ('r, ('w, 'h) studio) io" where
  "in_shop m = (\<lambda>s. case m (sd_shop s) of (r, t) \<Rightarrow> (r, s\<lparr>sd_shop := t\<rparr>))"

definition on_hub :: "('r, 'h) io \<Rightarrow> ('r, ('w, 'h) studio) io" where
  "on_hub m = (\<lambda>s. case m (sd_hub s) of (r, t) \<Rightarrow> (r, s\<lparr>sd_hub := t\<rparr>))"

abbreviation sd_files :: "('w, 'h) studio \<Rightarrow> files" where
  "sd_files s \<equiv> sh_files (sd_shop s)"

definition read_files :: "(files \<Rightarrow> 'r rres) \<Rightarrow> ('r, ('w, 'h) studio) io" where
  "read_files f = (\<lambda>s. (f (sd_files s), s))"

section \<open>The builder\<close>

record BuilderConfiguration =
  bc_allow_new_validators :: bool
  bc_epoch_duration_secs :: u64
  bc_is_test :: bool
  bc_min_stake :: u64
  bc_min_voting_threshold :: u128
  bc_max_stake :: u64
  bc_recurring_lockup_duration_secs :: u64
  bc_required_proposer_stake :: u64
  bc_rewards_apy_percentage :: u64
  bc_voting_duration_secs :: u64
  bc_voting_power_increase_limit :: u64
  bc_employee_vesting_start :: "u64 option"
  bc_employee_vesting_period_duration :: "u64 option"

text \<open>The vendor's default consensus, execution and gas configurations, which follow these fields, are left out.\<close>

definition silly_config :: "GenesisConfiguration \<Rightarrow> BuilderConfiguration" where
  "silly_config cfg =
     \<lparr>bc_allow_new_validators = gc_allow_new_validators cfg, bc_epoch_duration_secs = gc_epoch_duration_secs cfg,
      bc_is_test = gc_is_test cfg, bc_min_stake = gc_min_stake cfg, bc_min_voting_threshold = gc_min_voting_threshold cfg,
      bc_max_stake = gc_max_stake cfg, bc_recurring_lockup_duration_secs = gc_recurring_lockup_duration_secs cfg,
      bc_required_proposer_stake = gc_required_proposer_stake cfg, bc_rewards_apy_percentage = gc_rewards_apy_percentage cfg,
      bc_voting_duration_secs = gc_voting_duration_secs cfg,
      bc_voting_power_increase_limit = gc_voting_power_increase_limit cfg,
      bc_employee_vesting_start = None, bc_employee_vesting_period_duration = None\<rparr>"

record ('m, 'v) GenesisInfo =
  gi_chain_id :: u8
  gi_validators :: "'v list"
  gi_framework :: 'm

record ('s, 'm, 'v, 'vc, 'vo, 'ev) build_env =
  be_vm :: "('s, 'm, 'v) genesis_vm"
  be_to_str :: "account_address \<Rightarrow> string"
  be_from_hex_literal :: "string \<Rightarrow> account_address rres"
  be_convert :: "account_address \<Rightarrow> account_address rres"
  be_chain_id :: "NamedChain \<Rightarrow> u8"
  be_root_key :: "bytes rres"
  be_info :: "u8 \<Rightarrow> bytes \<Rightarrow> ValidatorConfiguration list \<Rightarrow> 'm \<Rightarrow> BuilderConfiguration \<Rightarrow> ('m, 'v) GenesisInfo rres"
  be_load_bundle :: "string \<Rightarrow> files \<Rightarrow> 'm rres"
  be_bundle_from :: "string \<Rightarrow> 'm rres"
  be_txn_to :: "Transaction \<Rightarrow> string rres"
  be_waypoint :: "Transaction \<Rightarrow> string rres"
  be_overwrite :: "string \<Rightarrow> bool option"
  be_bootstrap :: "(Transaction, 'ev) bootstrapper"
  be_dump_json :: "'ev JsonDump list \<Rightarrow> string option"
  be_recovery_from :: "string \<Rightarrow> ('vc, 'vo, 'ev) LegacyRecoveryV6 list option"
  be_recovery_to :: "('vc, 'vo, 'ev) LegacyRecoveryV6 list \<Rightarrow> string rres"
  be_drop_list_from :: "string \<Rightarrow> DropList list option"
  be_registry :: registry

abbreviation be_join :: "('s, 'm, 'v, 'vc, 'vo, 'ev) build_env \<Rightarrow> string \<Rightarrow> string \<Rightarrow> string" where
  "be_join be \<equiv> gk_join (be_registry be)"

definition GENESIS_FILE :: string where "GENESIS_FILE = ''genesis.blob''"
definition WAYPOINT_FILE :: string where "WAYPOINT_FILE = ''waypoint.txt''"
definition FRAMEWORK_NAME :: string where "FRAMEWORK_NAME = ''framework.mrb''"
definition DEFAULT_GIT_BRANCH :: string where "DEFAULT_GIT_BRANCH = ''main''"

definition genesis_info ::
  "('s, 'm, 'v, 'vc, 'vo, 'ev) build_env \<Rightarrow> NamedChain \<Rightarrow> GenesisConfiguration \<Rightarrow> ValidatorConfiguration list \<Rightarrow> 'm \<Rightarrow>
   ('m, 'v) GenesisInfo rres" where
  "genesis_info be chain genesis_config validators framework =
     rbind (unwrap ''could not parse dummy root'' (be_root_key be)) (\<lambda>dummy_root.
     be_info be (be_chain_id be chain) dummy_root validators framework (silly_config genesis_config))"

definition fetch_genesis_info ::
  "('s, 'm, 'v, 'vc, 'vo, 'ev) build_env \<Rightarrow> 'h hub_api \<Rightarrow> string \<Rightarrow> string \<Rightarrow> string \<Rightarrow> string option \<Rightarrow> GenesisConfiguration \<Rightarrow>
   NamedChain \<Rightarrow> (('m, 'v) GenesisInfo, ('w, 'h) studio) io" where
  "fetch_genesis_info be hub github_owner github_repository github_token framework_mrb_path genesis_config chain_id =
     (let client = \<lparr>gt_owner = github_owner, gt_repository = github_repository, gt_branch = DEFAULT_GIT_BRANCH,
                    gt_token = github_token\<rparr> in
      io_bind (on_hub (fetch_validators hub (be_registry be) client)) (\<lambda>validators.
      io_bind (case framework_mrb_path of
                 Some p \<Rightarrow> read_files (be_load_bundle be p)
               | None \<Rightarrow> on_hub (io_bind (hb_get_file hub client FRAMEWORK_NAME) (\<lambda>contents.
                          io_of (rbind (gk_decode (be_registry be) contents) (be_bundle_from be))))) (\<lambda>framework.
      io_of (genesis_info be chain_id genesis_config validators framework))))"

definition save_output :: "string \<Rightarrow> string rres \<Rightarrow> (unit, ('w, 'h) studio) io" where
  "save_output p contents = io_bind (io_of contents) (\<lambda>c. in_shop (write_file p c))"

definition audit ::
  "('s, 'm, 'v, 'vc, 'vo, 'ev) build_env \<Rightarrow> Transaction \<Rightarrow> ('vc, 'vo, 'ev) LegacyRecoveryV6 list \<Rightarrow> string \<Rightarrow>
   (unit, ('w, 'h) studio) io" where
  "audit be tx legacy_recovery output_dir = in_shop (with_files (\<lambda>fs.
     case build_audit (be_to_str be) (be_convert be) (be_dump_json be) (be_bootstrap be) tx legacy_recovery
            (be_join be output_dir) fs of
       Ok (_, fs') \<Rightarrow> (Ok (), fs')
     | Err e \<Rightarrow> (Err e, fs)
     | Panic p \<Rightarrow> (Panic p, fs)))"

definition build ::
  "('s, 'm, 'v, 'vc, 'vo, 'ev) build_env \<Rightarrow> 'h hub_api \<Rightarrow> string \<Rightarrow> string \<Rightarrow> string \<Rightarrow> string \<Rightarrow> string option \<Rightarrow>
   ('vc, 'vo, 'ev) LegacyRecoveryV6 list \<Rightarrow> NamedChain \<Rightarrow> ValidatorConfiguration list option \<Rightarrow>
   (string list, ('w, 'h) studio) io" where
  "build be hub github_owner github_repository github_token home_path framework_mrb_path legacy_recovery chain testnet_vals =
     (let output_dir = be_join be home_path ''genesis'';
          genesis_file = be_join be output_dir GENESIS_FILE;
          waypoint_file = be_join be output_dir WAYPOINT_FILE;
          genesis_config = libra_genesis_default chain in
      io_bind (read_files (\<lambda>fs.
                 if testnet_vals = None then
                   rbind (check_if_file_exists (be_overwrite be) fs genesis_file) (\<lambda>_.
                   check_if_file_exists (be_overwrite be) fs waypoint_file)
                 else Ok ())) (\<lambda>_.
      io_bind (case testnet_vals of
                 Some vals \<Rightarrow>
                   io_bind (case framework_mrb_path of
                              Some p \<Rightarrow> read_files (be_load_bundle be p)
                            | None \<Rightarrow> io_of (Err ''we need to know the exact framework .mrb file'')) (\<lambda>framework.
                   io_of (genesis_info be chain genesis_config vals framework))
               | None \<Rightarrow> fetch_genesis_info be hub github_owner github_repository github_token framework_mrb_path
                           genesis_config chain) (\<lambda>gen_info.
      io_bind (io_of (make_recovery_genesis (be_to_str be) (be_from_hex_literal be) (be_vm be) legacy_recovery
                 (gi_validators gen_info) (gi_framework gen_info) (gi_chain_id gen_info) genesis_config)) (\<lambda>tx.
      io_bind (save_output genesis_file (be_txn_to be tx)) (\<lambda>_.
      io_bind (save_output waypoint_file (be_waypoint be tx)) (\<lambda>_.
      io_bind (audit be tx legacy_recovery output_dir) (\<lambda>_.
      io_of (Ok [genesis_file, waypoint_file]))))))))"

section \<open>The wizard\<close>

definition GITHUB_TOKEN_FILENAME :: string where "GITHUB_TOKEN_FILENAME = ''github_token.txt''"

record GenesisWizard =
  gw_validator_address :: string
  gw_genesis_repo_org :: string
  gw_repo_name :: string
  gw_github_username :: string
  gw_github_token :: string
  gw_data_path :: string
  gw_epoch :: "u64 option"
  gw_chain :: NamedChain

definition GenesisWizard_new :: "('w, 'a) shop_env \<Rightarrow> string \<Rightarrow> string \<Rightarrow> string option \<Rightarrow> NamedChain \<Rightarrow> GenesisWizard" where
  "GenesisWizard_new ev genesis_repo_org repo_name data_path chain =
     \<lparr>gw_validator_address = ''tbd'', gw_genesis_repo_org = genesis_repo_org, gw_repo_name = repo_name,
      gw_github_username = [], gw_github_token = [],
      gw_data_path = (case data_path of Some p \<Rightarrow> p | None \<Rightarrow> sp_home ev), gw_epoch = None, gw_chain = chain\<rparr>"

definition find_github_token :: "('w, 'a) shop_env \<Rightarrow> GenesisWizard \<Rightarrow> string option \<Rightarrow> files \<Rightarrow> string rres" where
  "find_github_token ev self git_token_path_opt fs =
     (let p = (case git_token_path_opt of Some p \<Rightarrow> p | None \<Rightarrow> sp_join ev (gw_data_path self) GITHUB_TOKEN_FILENAME);
          p = (if fs p = None then sp_join ev (sp_cwd ev) GITHUB_TOKEN_FILENAME else p) in
      if fs p \<noteq> None then Ok p else Err ''ERROR: could not find any github token'')"

definition git_token_check ::
  "('w, 'a) shop_env \<Rightarrow> 'h hub_api \<Rightarrow> GenesisWizard \<Rightarrow> string option \<Rightarrow> (GenesisWizard, ('w, 'h) studio) io" where
  "git_token_check ev hub self git_token_path_opt =
     io_bind (io_match (read_files (find_github_token ev self git_token_path_opt))
                (\<lambda>p. read_files (\<lambda>fs. rbind (file_text p fs) (\<lambda>t. Ok (trim t))))
                (\<lambda>_. in_shop (at_desk type_in))) (\<lambda>token.
     let self = self\<lparr>gw_github_token := token\<rparr> in
     io_bind (in_shop (write_file (sp_join ev (gw_data_path self) GITHUB_TOKEN_FILENAME) token)) (\<lambda>_.
     io_bind (on_hub (get_authenticated_user hub \<lparr>gt_owner = gw_genesis_repo_org self, gt_repository = gw_repo_name self,
                gt_branch = DEFAULT_GIT_BRANCH, gt_token = token\<rparr>)) (\<lambda>user.
     let self = self\<lparr>gw_github_username := user\<rparr> in
     io_bind (in_shop (at_desk confirm)) (\<lambda>is_user.
     if \<not> is_user then io_of (Ok self) else io_of (Ok self)))))"

definition git_setup :: "'h hub_api \<Rightarrow> GenesisWizard \<Rightarrow> (unit, ('w, 'h) studio) io" where
  "git_setup hub self =
     (let gh_client = \<lparr>gt_owner = gw_genesis_repo_org self, gt_repository = gw_repo_name self,
                       gt_branch = DEFAULT_GIT_BRANCH, gt_token = gw_github_token self\<rparr>;
          user_gh_client = gh_client\<lparr>gt_owner := gw_github_username self\<rparr> in
      io_match (on_hub (hb_get_branches hub user_gh_client))
        (\<lambda>_. io_of (Ok ()))
        (\<lambda>_. io_match (in_shop (at_desk confirm))
               (\<lambda>yes. if yes then
                        io_match (on_hub (fork_genesis_repo hub gh_client (gw_genesis_repo_org self) (gw_repo_name self)))
                          (\<lambda>_. io_of (Ok ()))
                          (\<lambda>e. io_of (Err (''Failed to fork repo. '' @ e)))
                      else io_of (Err ''no forked repo on your account, we need it to continue''))
               (\<lambda>_. io_of (Err ''no forked repo on your account, we need it to continue''))))"

definition genesis_registration_github ::
  "('s, 'm, 'v, 'vc, 'vo, 'ev) build_env \<Rightarrow> 'h hub_api \<Rightarrow> GenesisWizard \<Rightarrow> (unit, ('w, 'h) studio) io" where
  "genesis_registration_github be hub self = (\<lambda>s.
     on_hub (register hub (be_registry be) (gw_validator_address self) (gw_github_username self) (gw_repo_name self)
       (gw_github_token self) (gw_data_path self) (sd_files s)) s)"

definition make_pull_request :: "('w, 'a) shop_env \<Rightarrow> 'h hub_api \<Rightarrow> GenesisWizard \<Rightarrow> (unit, ('w, 'h) studio) io" where
  "make_pull_request ev hub self =
     io_bind (read_files (file_text (sp_join ev (gw_data_path self) GITHUB_TOKEN_FILENAME))) (\<lambda>api_token.
     io_match (on_hub (make_genesis_pull_request hub \<lparr>gt_owner = gw_genesis_repo_org self, gt_repository = gw_repo_name self,
                 gt_branch = DEFAULT_GIT_BRANCH, gt_token = api_token\<rparr> (gw_genesis_repo_org self) (gw_repo_name self)
                 (gw_github_username self) None))
       (\<lambda>_. io_of (Ok ()))
       (\<lambda>e. if str_contains e ''A pull request already exists'' then io_of (Ok ())
            else if str_contains e ''No commits between main and main'' then io_of (Ok ())
            else io_of (Err (''failed to create pull, message: '' @ e))))"

text \<open>Registration: the identity of the validator, the fork, the files and the pull request. \<open>identity_from\<close> is the YAML reader.\<close>

definition wizard_register ::
  "('w, 'a) shop_env \<Rightarrow> ('s, 'm, 'v, 'vc, 'vo, 'ev) build_env \<Rightarrow> 'h hub_api \<Rightarrow> (string \<Rightarrow> IdentityBlob rres) \<Rightarrow>
   (account_address \<Rightarrow> string) \<Rightarrow> GenesisWizard \<Rightarrow> (unit, ('w, 'h) studio) io" where
  "wizard_register ev be hub identity_from to_hex_literal self =
     io_bind (read_files (\<lambda>fs. rbind (file_text (sp_join ev (gw_data_path self) ''validator-identity.yaml'') fs) identity_from)) (\<lambda>blob.
     io_bind (io_of (or_err ''cannot find an account address'' (ib_account_address blob))) (\<lambda>address.
     let self = self\<lparr>gw_validator_address := to_hex_literal address\<rparr> in
     io_bind (git_setup hub self) (\<lambda>_.
     io_bind (genesis_registration_github be hub self) (\<lambda>_.
     make_pull_request ev hub self))))"

definition start_wizard ::
  "('w, 'a) shop_env \<Rightarrow> ('s, 'm, 'v, 'vc, 'vo, 'ev) build_env \<Rightarrow> 'h hub_api \<Rightarrow> (string \<Rightarrow> IdentityBlob rres) \<Rightarrow>
   (account_address \<Rightarrow> string) \<Rightarrow> GenesisWizard \<Rightarrow> string option \<Rightarrow> string option \<Rightarrow> string option \<Rightarrow> bool \<Rightarrow>
   (unit, ('w, 'h) studio) io" where
  "start_wizard ev be hub identity_from to_hex_literal self framework_mrb_path legacy_recovery_path github_token_path_opt do_genesis =
     io_bind (git_token_check ev hub self github_token_path_opt) (\<lambda>self.
     io_bind (io_match (in_shop (validator_dialogue ev (gw_data_path self) (Some (gw_github_username self)) (Some (gw_chain self))))
                (\<lambda>_. io_of (Ok ())) (\<lambda>_. io_of (Ok ()))) (\<lambda>_.
     io_bind (io_expect ''called Result::unwrap() on an Err value'' (in_shop (at_desk confirm))) (\<lambda>to_register.
     io_bind (if to_register then wizard_register ev be hub identity_from to_hex_literal self else io_of (Ok ())) (\<lambda>_.
     io_bind (if do_genesis then io_expect ''called Result::unwrap() on an Err value'' (in_shop (at_desk confirm))
              else io_of (Ok False)) (\<lambda>ready.
     if ready then
       io_bind (case legacy_recovery_path of
                  Some p \<Rightarrow> read_files (\<lambda>fs. recovery_file_parse (be_recovery_from be) fs p)
                | None \<Rightarrow> io_of (Ok [])) (\<lambda>legacy_recovery.
       io_bind (build be hub (gw_genesis_repo_org self) (gw_repo_name self) (gw_github_token self) (gw_data_path self)
                  framework_mrb_path legacy_recovery (gw_chain self) None) (\<lambda>_. io_of (Ok ())))
     else io_of (Ok ()))))))"

section \<open>The command line\<close>

record GithubArgs =
  ga_token_github_file :: "string option"
  ga_org_github :: string
  ga_name_github :: string
  ga_local_framework :: "string option"
  ga_json_legacy :: "string option"

datatype GenesisSub = BuildGenesis GithubArgs "(string \<times> string) option" | RegisterGenesis GithubArgs

record GenesisCli =
  gl_command :: "GenesisSub option"
  gl_chain :: "NamedChain option"
  gl_home_dir :: "string option"

definition drop_step ::
  "('s, 'm, 'v, 'vc, 'vo, 'ev) build_env \<Rightarrow> ('vc, 'vo, 'ev) LegacyRecoveryV6 list \<Rightarrow> string \<times> string \<Rightarrow>
   (('vc, 'vo, 'ev) LegacyRecoveryV6 list, ('w, 'h) studio) io" where
  "drop_step be recovery dp = in_shop (with_files (\<lambda>fs.
     case drop_accounts (be_drop_list_from be) (be_recovery_to be) (be_join be) recovery dp fs of
       Ok (r, fs') \<Rightarrow> (Ok r, fs')
     | Err e \<Rightarrow> (Err e, fs)
     | Panic p \<Rightarrow> (Panic p, fs)))"

definition GenesisCli_run ::
  "('w, 'a) shop_env \<Rightarrow> ('s, 'm, 'v, 'vc, 'vo, 'ev) build_env \<Rightarrow> 'h hub_api \<Rightarrow> (string \<Rightarrow> IdentityBlob rres) \<Rightarrow>
   (account_address \<Rightarrow> string) \<Rightarrow> GenesisCli \<Rightarrow> (unit, ('w, 'h) studio) io" where
  "GenesisCli_run ev be hub identity_from to_hex_literal self =
     (let data_path = (case gl_home_dir self of Some d \<Rightarrow> d | None \<Rightarrow> sp_home ev);
          chain = (case gl_chain self of Some c \<Rightarrow> c | None \<Rightarrow> TESTNET) in
      case gl_command self of
        Some (BuildGenesis github drop_list) \<Rightarrow>
          io_bind (case ga_json_legacy github of
                     Some p \<Rightarrow> read_files (\<lambda>fs. recovery_file_parse (be_recovery_from be) fs p)
                   | None \<Rightarrow> io_of (Ok [])) (\<lambda>recovery.
          io_bind (case drop_list of Some dp \<Rightarrow> drop_step be recovery dp | None \<Rightarrow> io_of (Ok recovery)) (\<lambda>recovery.
          io_bind (read_files (file_text (sp_join ev data_path GITHUB_TOKEN_FILENAME))) (\<lambda>github_token.
          io_bind (build be hub (ga_org_github github) (ga_name_github github) github_token data_path
                     (ga_local_framework github) recovery chain None) (\<lambda>_. io_of (Ok ())))))
      | Some (RegisterGenesis github) \<Rightarrow>
          start_wizard ev be hub identity_from to_hex_literal
            (GenesisWizard_new ev (ga_org_github github) (ga_name_github github) (Some data_path) chain)
            (ga_local_framework github) (ga_json_legacy github) (ga_token_github_file github) False
      | None \<Rightarrow> io_of (Ok ()))"

section \<open>What a build leaves behind\<close>

lemma bind_read_files:
  "io_bind (read_files f) k s = (case f (sd_files s) of Ok x \<Rightarrow> k x s | Err e \<Rightarrow> (Err e, s) | Panic p \<Rightarrow> (Panic p, s))"
  by (cases "f (sd_files s)") (simp_all add: read_files_def)

definition at_files :: "(files \<Rightarrow> files) \<Rightarrow> ('w, 'h) studio \<Rightarrow> ('w, 'h) studio" where
  "at_files f s = s\<lparr>sd_shop := (sd_shop s)\<lparr>sh_files := f (sd_files s)\<rparr>\<rparr>"

lemma sd_files_at [simp]: "sd_files (at_files f s) = f (sd_files s)" "sd_hub (at_files f s) = sd_hub s"
  by (simp_all add: at_files_def)

lemma at_files_twice [simp]: "at_files g (at_files f s) = at_files (\<lambda>fs. g (f fs)) s"
  by (simp add: at_files_def)

lemma save_output_app:
  "save_output p c s = (case c of Ok t \<Rightarrow> (Ok (), at_files (\<lambda>fs. fs(p \<mapsto> t)) s) | Err e \<Rightarrow> (Err e, s) | Panic q \<Rightarrow> (Panic q, s))"
  by (cases c) (simp_all add: save_output_def in_shop_def write_file_def with_files_def at_files_def)

lemma save_output_Ok: "save_output p c s = (Ok u, s') \<longleftrightarrow> (\<exists>t. c = Ok t \<and> s' = at_files (\<lambda>fs. fs(p \<mapsto> t)) s)"
  by (cases c) (auto simp: save_output_app)

lemma audit_app:
  "audit be tx rs dir s =
     (case build_audit (be_to_str be) (be_convert be) (be_dump_json be) (be_bootstrap be) tx rs (be_join be dir) (sd_files s) of
        Ok (_, fs) \<Rightarrow> (Ok (), at_files (\<lambda>_. fs) s) | Err e \<Rightarrow> (Err e, at_files (\<lambda>fs. fs) s) | Panic p \<Rightarrow> (Panic p, at_files (\<lambda>fs. fs) s))"
  by (simp add: audit_def in_shop_def with_files_def at_files_def split: rres.split prod.split)

lemma at_files_id [simp]: "at_files (\<lambda>fs. fs) s = s"
  by (simp add: at_files_def)

lemma on_hub_keeps_shop [io_keeps_intros]: "io_keeps sd_shop (on_hub m)"
  by (simp add: io_keeps_def on_hub_def split: prod.split)

lemma read_files_keeps [io_keeps_intros]: "io_keeps f (read_files g)"
  by (simp add: io_keeps_def read_files_def)

lemma fetch_info_keeps_shop: "io_keeps sd_shop (fetch_genesis_info be hub owner repo token mrb cfg chain)"
  unfolding fetch_genesis_info_def Let_def
  by (cases mrb) (auto intro!: io_keeps_intros)

text \<open>The information a build starts from.\<close>

definition build_info ::
  "('s, 'm, 'v, 'vc, 'vo, 'ev) build_env \<Rightarrow> 'h hub_api \<Rightarrow> string \<Rightarrow> string \<Rightarrow> string \<Rightarrow> string option \<Rightarrow> NamedChain \<Rightarrow>
   ValidatorConfiguration list option \<Rightarrow> (('m, 'v) GenesisInfo, ('w, 'h) studio) io" where
  "build_info be hub owner repo token mrb chain testnet_vals =
     (case testnet_vals of
        Some vals \<Rightarrow>
          io_bind (case mrb of Some p \<Rightarrow> read_files (be_load_bundle be p)
                   | None \<Rightarrow> io_of (Err ''we need to know the exact framework .mrb file'')) (\<lambda>framework.
          io_of (genesis_info be chain (libra_genesis_default chain) vals framework))
      | None \<Rightarrow> fetch_genesis_info be hub owner repo token mrb (libra_genesis_default chain) chain)"

lemma build_info_keeps_shop: "io_keeps sd_shop (build_info be hub owner repo token mrb chain vals)"
  unfolding build_info_def
  by (cases vals; cases mrb) (auto intro!: io_keeps_intros fetch_info_keeps_shop)

text \<open>The transaction a build encodes.\<close>

definition build_tx ::
  "('s, 'm, 'v, 'vc, 'vo, 'ev) build_env \<Rightarrow> ('vc, 'vo, 'ev) LegacyRecoveryV6 list \<Rightarrow> NamedChain \<Rightarrow> ('m, 'v) GenesisInfo \<Rightarrow>
   Transaction rres" where
  "build_tx be rs chain info =
     make_recovery_genesis (be_to_str be) (be_from_hex_literal be) (be_vm be) rs (gi_validators info) (gi_framework info)
       (gi_chain_id info) (libra_genesis_default chain)"

lemma build_steps:
  assumes info: "build_info be hub owner repo token mrb chain vals s = (Ok info, s1)"
    and free: "vals \<noteq> None \<or> (\<forall>f \<in> {GENESIS_FILE, WAYPOINT_FILE}.
      let p = be_join be (be_join be home ''genesis'') f in sd_files s p = None \<or> be_overwrite be p = Some True)"
    and tx: "build_tx be rs chain info = Ok tx" "be_txn_to be tx = Ok blob" "be_waypoint be tx = Ok wp"
  shows "build be hub owner repo token home mrb rs chain vals s =
    (let dir = be_join be home ''genesis'';
         saved = at_files (\<lambda>fs. fs(be_join be dir GENESIS_FILE \<mapsto> blob, be_join be dir WAYPOINT_FILE \<mapsto> wp)) s1 in
     io_bind (audit be tx rs dir) (\<lambda>_. io_of (Ok [be_join be dir GENESIS_FILE, be_join be dir WAYPOINT_FILE])) saved)"
proof -
  have check: "(if vals = None then
        rbind (check_if_file_exists (be_overwrite be) (sd_files s) (be_join be (be_join be home ''genesis'') GENESIS_FILE)) (\<lambda>_.
        check_if_file_exists (be_overwrite be) (sd_files s) (be_join be (be_join be home ''genesis'') WAYPOINT_FILE))
      else Ok ()) = Ok ()"
    using free by (cases "vals = None") (auto simp: check_if_file_exists_def Let_def)
  show ?thesis
    unfolding build_def Let_def bind_read_files check build_info_def[symmetric]
    using info tx by (simp add: build_tx_def save_output_app)
qed

text \<open>
  An existing genesis or waypoint file is never replaced without consent: unless the validators of a test network are given, a build
  that meets one the user does not want to overwrite ends with an error before anything is read or written.
\<close>

theorem build_keeps_existing:
  assumes "f \<in> {GENESIS_FILE, WAYPOINT_FILE}" and "sd_files s (be_join be (be_join be home ''genesis'') f) \<noteq> None"
    and "be_overwrite be (be_join be (be_join be home ''genesis'') f) = Some False" and "\<forall>p. be_overwrite be p \<noteq> None"
  shows "build be hub owner repo token home mrb rs chain None s = (Err ''Aborted by user'', s)"
proof -
  have check: "check_if_file_exists (be_overwrite be) fs p =
      (if fs p \<noteq> None \<and> be_overwrite be p = Some False then Err ''Aborted by user'' else Ok ())" for fs p
    using assms(4)[rule_format, of p] by (cases "be_overwrite be p") (simp_all add: check_if_file_exists_def)
  show ?thesis using assms(1-3) by (auto simp: build_def Let_def bind_read_files check)
qed

lemma audit_Ok:
  assumes "audit be tx rs dir s = (Ok (), s')"
  obtains "rs = []" and "s' = s"
  | json where "rs \<noteq> []" and "s' = at_files (\<lambda>fs. fs(be_join be dir ''genesis_balances.json'' \<mapsto> json)) s"
proof (cases "rs = []")
  case True
  then have "s' = at_files (\<lambda>_. sd_files s) s" using assms by (simp add: audit_app build_audit_def)
  then have "s' = s" by (simp add: at_files_def)
  with True that show ?thesis by blast
next
  case False
  then obtain json where "s' = at_files (\<lambda>_. (sd_files s)(be_join be dir ''genesis_balances.json'' \<mapsto> json)) s"
    using assms by (auto simp: audit_app build_audit_def export_account_balances_def rust_simps split: rres.splits prod.splits)
  then have "s' = at_files (\<lambda>fs. fs(be_join be dir ''genesis_balances.json'' \<mapsto> json)) s" by (simp add: at_files_def)
  with False that show ?thesis by blast
qed

lemma build_Ok:
  assumes "build be hub owner repo token home mrb rs chain vals s = (Ok paths, s')"
  obtains info s1 tx blob wp where "build_info be hub owner repo token mrb chain vals s = (Ok info, s1)"
    and "build_tx be rs chain info = Ok tx" and "be_txn_to be tx = Ok blob" and "be_waypoint be tx = Ok wp"
    and "vals \<noteq> None \<or> (\<forall>f \<in> {GENESIS_FILE, WAYPOINT_FILE}.
      let p = be_join be (be_join be home ''genesis'') f in sd_files s p = None \<or> be_overwrite be p = Some True)"
proof -
  let ?dir = "be_join be home ''genesis''"
  let ?check = "if vals = None then rbind (check_if_file_exists (be_overwrite be) (sd_files s) (be_join be ?dir GENESIS_FILE)) (\<lambda>_.
      check_if_file_exists (be_overwrite be) (sd_files s) (be_join be ?dir WAYPOINT_FILE)) else Ok ()"
  have check: "?check = Ok ()"
    using assms unfolding build_def Let_def bind_read_files by (cases ?check) auto
  then have free: "vals \<noteq> None \<or> (\<forall>f \<in> {GENESIS_FILE, WAYPOINT_FILE}.
      let p = be_join be ?dir f in sd_files s p = None \<or> be_overwrite be p = Some True)"
    by (auto simp: check_if_file_exists_def Let_def rust_simps split: if_splits)
  obtain info s1 where "build_info be hub owner repo token mrb chain vals s = (Ok info, s1)"
    and rest: "io_bind (io_of (build_tx be rs chain info)) (\<lambda>tx.
      io_bind (save_output (be_join be ?dir GENESIS_FILE) (be_txn_to be tx)) (\<lambda>_.
      io_bind (save_output (be_join be ?dir WAYPOINT_FILE) (be_waypoint be tx)) (\<lambda>_.
      io_bind (audit be tx rs ?dir) (\<lambda>_. io_of (Ok [be_join be ?dir GENESIS_FILE, be_join be ?dir WAYPOINT_FILE])))))
      s1 = (Ok paths, s')"
    using assms unfolding build_def Let_def bind_read_files check build_info_def[symmetric] build_tx_def
    by (auto simp: io_bind_eq_Ok)
  moreover obtain tx blob wp where "build_tx be rs chain info = Ok tx" "be_txn_to be tx = Ok blob" "be_waypoint be tx = Ok wp"
    using rest by (auto simp: io_bind_eq_Ok io_of_eq save_output_Ok)
  ultimately show ?thesis using that free by blast
qed

text \<open>
  C14. A successful build names the genesis and waypoint files, which hold the encoded migration of the recovery records for the
  given or fetched validators and the waypoint of that very transaction; besides them only the dump of balances is written, and
  only when there are recovery records.
\<close>

theorem genesis_build_files:
  assumes "build be hub owner repo token home mrb rs chain vals s = (Ok paths, s')"
  shows "\<exists>info s1 tx blob wp. build_info be hub owner repo token mrb chain vals s = (Ok info, s1) \<and>
    build_tx be rs chain info = Ok tx \<and> be_txn_to be tx = Ok blob \<and> be_waypoint be tx = Ok wp \<and>
    (let dir = be_join be home ''genesis''; gf = be_join be dir GENESIS_FILE; wf = be_join be dir WAYPOINT_FILE;
         saved = (sd_files s)(gf \<mapsto> blob, wf \<mapsto> wp) in
     paths = [gf, wf] \<and> sd_hub s' = sd_hub s1 \<and>
     (if rs = [] then sd_files s' = saved
      else \<exists>json. sd_files s' = saved(be_join be dir ''genesis_balances.json'' \<mapsto> json)))"
proof -
  obtain info s1 tx blob wp where info: "build_info be hub owner repo token mrb chain vals s = (Ok info, s1)"
    and tx: "build_tx be rs chain info = Ok tx" "be_txn_to be tx = Ok blob" "be_waypoint be tx = Ok wp"
    and free: "vals \<noteq> None \<or> (\<forall>f \<in> {GENESIS_FILE, WAYPOINT_FILE}.
      let p = be_join be (be_join be home ''genesis'') f in sd_files s p = None \<or> be_overwrite be p = Some True)"
    by (rule build_Ok[OF assms])
  have same: "sd_files s1 = sd_files s"
    using io_keepsD2[OF build_info_keeps_shop info] by simp
  let ?dir = "be_join be home ''genesis''"
  let ?saved = "at_files (\<lambda>fs. fs(be_join be ?dir GENESIS_FILE \<mapsto> blob, be_join be ?dir WAYPOINT_FILE \<mapsto> wp)) s1"
  have aud: "audit be tx rs ?dir ?saved = (Ok (), s')"
    and paths: "paths = [be_join be ?dir GENESIS_FILE, be_join be ?dir WAYPOINT_FILE]"
    using assms unfolding build_steps[OF info free tx] by (auto simp: Let_def io_bind_eq_Ok io_of_eq)
  from aud have "sd_hub s' = sd_hub s1 \<and> (if rs = [] then sd_files s' = sd_files ?saved
      else \<exists>json. sd_files s' = (sd_files ?saved)(be_join be ?dir ''genesis_balances.json'' \<mapsto> json))"
  proof (rule audit_Ok)
    fix json assume "rs \<noteq> []" and s': "s' = at_files (\<lambda>fs. fs(be_join be ?dir ''genesis_balances.json'' \<mapsto> json)) ?saved"
    moreover have "sd_files s' = (sd_files ?saved)(be_join be ?dir ''genesis_balances.json'' \<mapsto> json)"
      unfolding s' by (rule sd_files_at)
    ultimately show ?thesis by (simp only: if_False sd_files_at) (rule conjI[OF refl exI], rule refl)
  qed simp
  then have "sd_hub s' = sd_hub s1 \<and>
      (let saved = (sd_files s)(be_join be ?dir GENESIS_FILE \<mapsto> blob, be_join be ?dir WAYPOINT_FILE \<mapsto> wp) in
       if rs = [] then sd_files s' = saved
       else \<exists>json. sd_files s' = saved(be_join be ?dir ''genesis_balances.json'' \<mapsto> json))"
    unfolding sd_files_at same Let_def .
  with info tx paths show ?thesis
    unfolding Let_def by blast
qed


section \<open>What the wizard does with an answer\<close>

text \<open>
  The question whether the token belongs to the user has no effect: whatever the answer, the wizard goes on with that token and the
  account GitHub reports for it.
\<close>

theorem token_denial_ignored:
  assumes "find_github_token ev self opt (sd_files s) = Ok p" and "file_text p (sd_files s) = Ok t"
    and "dk_answers (sh_desk (sd_shop s)) = Confirmed is_user # answers"
    and "get_authenticated_user hub \<lparr>gt_owner = gw_genesis_repo_org self, gt_repository = gw_repo_name self,
           gt_branch = DEFAULT_GIT_BRANCH, gt_token = trim t\<rparr> (sd_hub s) = (Ok user, h')"
  shows "fst (git_token_check ev hub self opt s) = Ok (self\<lparr>gw_github_token := trim t, gw_github_username := user\<rparr>)"
proof -
  let ?token = "io_match (read_files (find_github_token ev self opt))
      (\<lambda>p. read_files (\<lambda>fs. rbind (file_text p fs) (\<lambda>t. Ok (trim t)))) (\<lambda>_. in_shop (at_desk type_in))"
  have token: "?token s = (Ok (trim t), s)"
    using assms(1,2) by (simp add: io_match_def read_files_def)
  show ?thesis
    unfolding git_token_check_def io_bind_app(1)[of ?token s, OF token] using assms(3,4)
    by (simp add: Let_def in_shop_def write_file_def with_files_def on_hub_def
        at_desk_def confirm_def next_answer_def)
qed

section \<open>A concrete ceremony\<close>

definition ref_vendor :: "unit genesis_vendor" where
  "ref_vendor = \<lparr>gv_initialize = (\<lambda>s. (Ok (), s)), gv_initialize_features = (\<lambda>s. (Ok (), s)),
     gv_initialize_diem_coin = (\<lambda>s. (Ok (), s)), gv_initialize_on_chain_governance = (\<lambda>s. (Ok (), s)),
     gv_create_and_initialize_validators = (\<lambda>s. (Ok (), s)), gv_set_genesis_end = (\<lambda>s. (Ok (), s)),
     gv_emit_new_block_and_epoch_event = (\<lambda>s. (Ok (), s))\<rparr>"

definition ref_genesis_vm :: "(unit, unit, ValidatorConfiguration) genesis_vm" where
  "ref_genesis_vm = \<lparr>gm_validate_config = (\<lambda>_. Ok ()), gm_session = (\<lambda>_. ()), gm_exec = (\<lambda>_ _ _. Some),
     gm_vendor = (\<lambda>_ _ _. ref_vendor), gm_empty_session = (), gm_publish_framework = (\<lambda>_ s. (Ok (), s)),
     gm_finish = (\<lambda>_. Ok \<lparr>vm_write_set = [1], vm_delta_change_set = [], vm_events = []\<rparr>), gm_squash = (\<lambda>a b. Ok a),
     gm_has_deletion = (\<lambda>_. False), gm_verify_genesis_write_set = (\<lambda>_. Ok ())\<rparr>"

definition ref_build_env :: "(unit, unit, ValidatorConfiguration, unit, unit, unit) build_env" where
  "ref_build_env = \<lparr>be_vm = ref_genesis_vm, be_to_str = lower_hex, be_from_hex_literal = (\<lambda>_. Ok []), be_convert = Ok,
     be_chain_id = (\<lambda>_. 2), be_root_key = Ok [], be_info = (\<lambda>c _ vs m _. Ok \<lparr>gi_chain_id = c, gi_validators = vs, gi_framework = m\<rparr>),
     be_load_bundle = (\<lambda>_ _. Ok ()), be_bundle_from = (\<lambda>_. Ok ()), be_txn_to = (\<lambda>_. Ok ''blob''), be_waypoint = (\<lambda>_. Ok ''0:ab''),
     be_overwrite = (\<lambda>_. Some False), be_bootstrap = sample_bootstrapper, be_dump_json = (\<lambda>_. Some []),
     be_recovery_from = (\<lambda>_. None), be_recovery_to = (\<lambda>_. Ok []), be_drop_list_from = (\<lambda>_. None), be_registry = ref_registry\<rparr>"

definition ref_studio :: "files \<Rightarrow> answer list \<Rightarrow> (unit, ref_hub) studio" where
  "ref_studio fs as = \<lparr>sd_shop = \<lparr>sh_desk = ref_desk as, sh_files = fs, sh_dirs = []\<rparr>, sd_hub = Map.empty\<rparr>"

theorem build_keeps_existing_witness:
  "build ref_build_env ref_hub_api ''o'' ''r'' ''t'' ''h'' None [] TESTNET None (ref_studio [''h/genesis/genesis.blob'' \<mapsto> ''old''] []) =
     (Err ''Aborted by user'', ref_studio [''h/genesis/genesis.blob'' \<mapsto> ''old''] [])"
  by (rule build_keeps_existing[of GENESIS_FILE])
    (simp_all add: ref_build_env_def ref_registry_def ref_studio_def GENESIS_FILE_def)

lemma ref_info:
  "build_info ref_build_env ref_hub_api ''o'' ''r'' ''t'' (Some ''m'') TESTNET (Some []) (ref_studio Map.empty []) =
     (Ok \<lparr>gi_chain_id = 2, gi_validators = [], gi_framework = ()\<rparr>, ref_studio Map.empty [])"
  by (simp add: build_info_def genesis_info_def ref_build_env_def read_files_def)

lemma ref_tx_empty: "build_tx ref_build_env [] TESTNET \<lparr>gi_chain_id = 2, gi_validators = [], gi_framework = ()\<rparr> =
    Ok (GenesisTransaction (Direct \<lparr>cs_write_set = [1], cs_events = []\<rparr>))"
  by (simp add: build_tx_def make_recovery_genesis_def encode_genesis_change_set_def finish_session_def genesis_session_def
      migration_block_def set_final_supply_def exec_function_def ref_build_env_def ref_genesis_vm_def ref_vendor_def)

lemma ref_build_runs: "is_ok (fst (build ref_build_env ref_hub_api ''o'' ''r'' ''t'' ''h'' (Some ''m'') [] TESTNET (Some []) (ref_studio Map.empty [])))"
proof -
  have enc: "be_txn_to ref_build_env tx = Ok ''blob''" "be_waypoint ref_build_env tx = Ok ''0:ab''" for tx
    by (simp_all add: ref_build_env_def)
  show ?thesis
    by (subst build_steps[OF ref_info disjI1 ref_tx_empty enc]) (simp_all add: Let_def audit_app build_audit_def)
qed

theorem genesis_build_files_witness:
  "\<exists>paths s' blob wp. build ref_build_env ref_hub_api ''o'' ''r'' ''t'' ''h'' (Some ''m'') [] TESTNET (Some []) (ref_studio Map.empty []) = (Ok paths, s') \<and>
     paths = [''h/genesis/genesis.blob'', ''h/genesis/waypoint.txt''] \<and>
     sd_files s' = [''h/genesis/genesis.blob'' \<mapsto> blob, ''h/genesis/waypoint.txt'' \<mapsto> wp]"
proof -
  let ?run = "build ref_build_env ref_hub_api ''o'' ''r'' ''t'' ''h'' (Some ''m'') [] TESTNET (Some []) (ref_studio Map.empty [])"
  obtain paths where "fst ?run = Ok paths" using ref_build_runs by (cases "fst ?run") auto
  then have run: "?run = (Ok paths, snd ?run)" by (simp add: prod_eq_iff)
  have join: "be_join ref_build_env a b = a @ ''/'' @ b" for a b by (simp add: ref_build_env_def ref_registry_def)
  from genesis_build_files[OF run] run show ?thesis
    by (auto simp: Let_def join GENESIS_FILE_def WAYPOINT_FILE_def ref_studio_def)
qed

lemma ref_tx_record: "build_tx ref_build_env [LegacyRecoveryV6_default] TESTNET \<lparr>gi_chain_id = 2, gi_validators = [], gi_framework = ()\<rparr> =
    Ok (GenesisTransaction (Direct \<lparr>cs_write_set = [1], cs_events = []\<rparr>))"
  by code_simp


theorem token_denial_ignored_witness:
  "\<exists>w. fst (git_token_check ref_shop_env ref_hub_api (GenesisWizard_new ref_shop_env ''org'' ''repo'' (Some ''h'') TESTNET) None
     (ref_studio [''h/github_token.txt'' \<mapsto> ''secret''] [Confirmed False])) = Ok w \<and> gw_github_username w = ''alice''"
proof -
  let ?s = "ref_studio [''h/github_token.txt'' \<mapsto> ''secret''] [Confirmed False]"
  let ?w = "GenesisWizard_new ref_shop_env ''org'' ''repo'' (Some ''h'') TESTNET"
  have find: "find_github_token ref_shop_env ?w None (sd_files ?s) = Ok ''h/github_token.txt''"
    by (simp add: find_github_token_def GenesisWizard_new_def ref_shop_env_def ref_hosts_def ref_studio_def GITHUB_TOKEN_FILENAME_def)
  have secret: "file_text ''h/github_token.txt'' (sd_files ?s) = Ok ''secret''"
    by (simp add: file_text_def ref_studio_def)
  have answers: "dk_answers (sh_desk (sd_shop ?s)) = Confirmed False # []"
    by (simp add: ref_studio_def ref_desk_def)
  have user: "get_authenticated_user ref_hub_api c h = (Ok ''alice'', h)" for c h
    by (simp add: get_authenticated_user_def hub_call_def ref_hub_api_def)
  from token_denial_ignored[OF find secret answers user] show ?thesis by simp
qed

end
