(* ===== verification/Testnet.thy ===== *)
theory Testnet
  imports Genesis_Build
begin

text \<open>
  The genesis of a test network with the fixed personas (\<^verbatim>\<open>src/tools/testnet/src/config_virgin.rs\<close>, \<^verbatim>\<open>cli_output.rs\<close>,
  \<^verbatim>\<open>src/types/src/core_types/fixtures.rs\<close>).

  Every persona gets its own directory of validator files; the registrations are made from the same mnemonics and go straight into
  the genesis. State and vendor code are those of \<open>Genesis_Build\<close>.
\<close>

section \<open>Personas\<close>

datatype TestPersona = Alice | Bob | Carol | Dave

definition persona_from_str :: "string \<Rightarrow> TestPersona rres" where
  "persona_from_str s =
     (let l = to_ascii_lowercase s in
      if l = ''alice'' then Ok Alice else if l = ''bob'' then Ok Bob
      else if l = ''carol'' then Ok Carol else if l = ''dave'' then Ok Dave
      else Err ''not found'')"

fun persona_to_string :: "TestPersona \<Rightarrow> string" where
  "persona_to_string Alice = ''alice''"
| "persona_to_string Bob = ''bob''"
| "persona_to_string Carol = ''carol''"
| "persona_to_string Dave = ''dave''"

definition persona_from :: "nat \<Rightarrow> TestPersona rres" where
  "persona_from i =
     (if i = 0 then Ok Alice else if i = 1 then Ok Bob else if i = 2 then Ok Carol else if i = 3 then Ok Dave
      else Err ''no default persona at this index'')"

fun persona_idx :: "TestPersona \<Rightarrow> nat" where
  "persona_idx Alice = 0"
| "persona_idx Bob = 1"
| "persona_idx Carol = 2"
| "persona_idx Dave = 3"

fun get_persona_mnem :: "TestPersona \<Rightarrow> string" where
  "get_persona_mnem Alice =
     ''talent sunset lizard pill fame nuclear spy noodle basket okay critic grow sleep legend hurry pitch blanket clerk impose rough degree sock insane purse''"
| "get_persona_mnem Bob =
     ''ring pumpkin cake build jungle cloth bronze aerobic mechanic baby love melt below sight cotton trophy inquiry sugar exhibit sure first match ten clarify''"
| "get_persona_mnem Carol =
     ''giraffe tower toward rapid flower obey piano circle better announce castle when enlist inquiry arrive segment leave develop confirm avoid meat loud fit parent''"
| "get_persona_mnem Dave =
     ''recall october regret kite undo choice outside season business wall quit arrest vacant arrow giggle vote ghost winter hawk soft cheap decide exhaust spare''"

lemma persona_idx_roundtrip: "persona_from (persona_idx p) = Ok p" "persona_from i = Ok p \<Longrightarrow> persona_idx p = i"
  by (cases p) (auto simp: persona_from_def split: if_splits)

lemma persona_text_roundtrip: "persona_from_str (persona_to_string p) = Ok p"
proof -
  have "persona_from_str ''alice'' = Ok Alice" "persona_from_str ''bob'' = Ok Bob"
    "persona_from_str ''carol'' = Ok Carol" "persona_from_str ''dave'' = Ok Dave" by code_simp+
  then show ?thesis by (cases p) simp_all
qed

section \<open>The state of a test network\<close>

definition testnet_pledge :: PledgeAccountResource where
  "testnet_pledge =
     \<lparr>pa_address_of_beneficiary = core_code_address, pa_amount = 100000000 * 10 ^ 6, pa_pledge = 100000000 * 10 ^ 6,
      pa_epoch_of_last_deposit = 0, pa_lifetime_pledged = 100000000 * 10 ^ 6, pa_lifetime_withdrawn = 0\<rparr>"

text \<open>\<open>ed25519_auth_key\<close> is \<open>AuthenticationKey::ed25519\<close>.\<close>

definition generate_testnet_state_for_vals ::
  "(bytes \<Rightarrow> auth_key) \<Rightarrow> ValidatorConfiguration list \<Rightarrow> ('vc, 'vo, 'ev) LegacyRecoveryV6 list" where
  "generate_testnet_state_for_vals ed25519_auth_key vals =
     map (\<lambda>v. LegacyRecoveryV6_default
        \<lparr>r_account := Some (va_owner_account_address v), r_auth_key := Some (ed25519_auth_key (va_owner_account_public_key v)),
         r_balance := Some \<lparr>bal_coin = 10000000 * 10 ^ 6\<rparr>, r_my_pledge := Some \<lparr>mp_list = [testnet_pledge]\<rparr>\<rparr>) vals"

section \<open>Setup\<close>

record TestInfo =
  ti_validator_address :: account_address
  ti_val_set_index :: nat
  ti_data_dir :: string
  ti_api_endpoint :: HostAndPort
  ti_app_cfg_path :: fpath

text \<open>
  One host: validator files, the private key in the configuration in memory, the registration and the information for the user.
\<close>

definition setup_one ::
  "('w, 'a) shop_env \<Rightarrow> NamedChain \<Rightarrow> string \<Rightarrow> nat \<Rightarrow> HostAndPort \<Rightarrow>
   (ValidatorConfiguration \<times> TestInfo, ('w, 'h) studio) io" where
  "setup_one ev chain operator_files_path i host =
     (let c = de_crypto (sp_desk ev); v = de_conv (sp_desk ev); to_str = de_to_str (sp_desk ev) in
      io_bind (io_of (persona_from i)) (\<lambda>p.
      let mnem = get_persona_mnem p; data_dir = sp_join ev operator_files_path (persona_to_string p) in
      io_bind (in_shop (initialize_validator_files ev (Some data_dir) (Some (persona_to_string p)) host (Some mnem) False
                 (Some chain))) (\<lambda>_.
      io_bind (io_of (get_keys_from_mnem c v mnem)) (\<lambda>w.
      io_bind (io_expect ''called Result::unwrap() on an Err value'' (in_shop (update_profile ev
                 (\<lambda>profile. Ok (set_private_key profile (ak_pri_key (kc_child_0_owner w))))))) (\<lambda>_.
      io_bind (io_of (generate_validator_registration_config c v (sp_node_crypto ev) mnem host)) (\<lambda>v_reg.
      io_bind (io_expect ''called Result::unwrap() on an Err value'' (in_shop (at_desk (with_cfg (\<lambda>cfg.
                 get_profile to_str cfg None))))) (\<lambda>profile.
      io_bind (in_shop (at_desk (with_cfg (\<lambda>cfg. Ok (node_home (workspace cfg)))))) (\<lambda>node_home.
      io_of (Ok (v_reg,
        \<lparr>ti_validator_address = account profile, ti_val_set_index = i, ti_data_dir = data_dir, ti_api_endpoint = host,
         ti_app_cfg_path = node_home @ [CONFIG_FILE_NAME]\<rparr>))))))))))"

fun setup_hosts ::
  "('w, 'a) shop_env \<Rightarrow> NamedChain \<Rightarrow> string \<Rightarrow> nat \<Rightarrow> HostAndPort list \<Rightarrow>
   (ValidatorConfiguration list \<times> TestInfo list, ('w, 'h) studio) io" where
  "setup_hosts ev chain dir i [] = io_of (Ok ([], []))"
| "setup_hosts ev chain dir i (host # hosts) =
     io_bind (setup_one ev chain dir i host) (\<lambda>(v_reg, info).
     io_bind (setup_hosts ev chain dir (Suc i) hosts) (\<lambda>(val_cfg, test_info).
     io_of (Ok (v_reg # val_cfg, info # test_info))))"

definition setup_testnet ::
  "('w, 'a) shop_env \<Rightarrow> ('s, 'm, 'v, 'vc, 'vo, 'ev) build_env \<Rightarrow> 'h hub_api \<Rightarrow> (bytes \<Rightarrow> auth_key) \<Rightarrow> HostAndPort list \<Rightarrow>
   NamedChain \<Rightarrow> string \<Rightarrow> string option \<Rightarrow> string option \<Rightarrow> (TestInfo list, ('w, 'h) studio) io" where
  "setup_testnet ev be hub ed25519_auth_key host_list chain data_dir legacy_data_path framework_mrb_path =
     (if length host_list < 3 then io_of (Err ''cannot start a testnet with less than 3 nodes'')
      else if length host_list > 4 then io_of (Err ''too many hosts provided'')
      else
        io_bind (setup_hosts ev chain (sp_join ev data_dir ''operator_files'') 0 host_list) (\<lambda>(val_cfg, test_info).
        io_bind (case legacy_data_path of
                   Some p \<Rightarrow> read_files (\<lambda>fs. recovery_file_parse (be_recovery_from be) fs p)
                 | None \<Rightarrow> io_of (Ok (generate_testnet_state_for_vals ed25519_auth_key val_cfg))) (\<lambda>recovery.
        io_bind (build be hub ''none'' ''none'' ''none'' data_dir framework_mrb_path recovery chain (Some val_cfg)) (\<lambda>_.
        io_of (Ok test_info)))))"

section \<open>What a test network starts with\<close>

text \<open>The registration of the persona at a place in the list of hosts.\<close>

definition persona_registration :: "('w, 'a) shop_env \<Rightarrow> nat \<Rightarrow> HostAndPort \<Rightarrow> ValidatorConfiguration rres" where
  "persona_registration ev i host =
     rbind (persona_from i) (\<lambda>p. generate_validator_registration_config (de_crypto (sp_desk ev)) (de_conv (sp_desk ev))
       (sp_node_crypto ev) (get_persona_mnem p) host)"

lemma setup_one_Ok:
  assumes "setup_one ev chain dir i host s = (Ok (v, info), s')"
  shows "persona_registration ev i host = Ok v" and "ti_api_endpoint info = host" and "ti_val_set_index info = i"
  using assms by (auto simp: setup_one_def persona_registration_def Let_def io_bind_eq_Ok io_of_eq)

lemma setup_hosts_Ok:
  assumes "setup_hosts ev chain dir i hosts s = (Ok (vals, infos), s')"
  shows "map ti_api_endpoint infos = hosts \<and> map ti_val_set_index infos = [i..<i + length hosts] \<and>
    map Ok vals = map2 (persona_registration ev) [i..<i + length hosts] hosts"
  using assms
proof (induction hosts arbitrary: i s vals infos)
  case Nil
  then show ?case by (simp add: rust_simps)
next
  case (Cons host hosts)
  then obtain v info s1 vals' infos' where one: "setup_one ev chain dir i host s = (Ok (v, info), s1)"
    and rest: "setup_hosts ev chain dir (Suc i) hosts s1 = (Ok (vals', infos'), s')"
    and eq: "vals = v # vals'" "infos = info # infos'"
    by (auto simp: io_bind_eq_Ok io_of_eq)
  have "[i..<i + length (host # hosts)] = i # [Suc i..<Suc i + length hosts]"
    using upt_conv_Cons[of i "i + length (host # hosts)"] by simp
  with Cons.IH[OF rest] setup_one_Ok[OF one] eq show ?case by simp
qed

text \<open>
  A successful setup was given three or four hosts. It reports them in their order, the validators of the genesis are the
  registrations of the personas at these hosts in the same order, and without a migration file its accounts are theirs.
\<close>

theorem testnet_genesis:
  assumes "setup_testnet ev be hub auth hosts chain dir None mrb s = (Ok infos, s')"
  shows "length hosts \<in> {3, 4} \<and> map ti_api_endpoint infos = hosts \<and> map ti_val_set_index infos = [0..<length hosts] \<and>
    (\<exists>vals s1 paths. map Ok vals = map2 (persona_registration ev) [0..<length hosts] hosts \<and>
       build be hub ''none'' ''none'' ''none'' dir mrb (generate_testnet_state_for_vals auth vals) chain (Some vals) s1 =
         (Ok paths, s'))"
proof -
  have n: "\<not> length hosts < 3" "\<not> length hosts > 4"
    using assms by (auto simp: setup_testnet_def rust_simps split: if_splits)
  with assms obtain vals s1 paths where
    hosts: "setup_hosts ev chain (sp_join ev dir ''operator_files'') 0 hosts s = (Ok (vals, infos), s1)"
    and build: "build be hub ''none'' ''none'' ''none'' dir mrb (generate_testnet_state_for_vals auth vals) chain (Some vals) s1 =
      (Ok paths, s')"
    by (auto simp: setup_testnet_def io_bind_eq_Ok io_of_eq)
  from n have "length hosts \<in> {3, 4}" by auto
  with setup_hosts_Ok[OF hosts] build show ?thesis by auto
qed

text \<open>The generated records are complete: each is migrated with its balance and its pledge.\<close>

lemma testnet_state_complete:
  "list_all complete (generate_testnet_state_for_vals auth vals)"
  "map r_account (generate_testnet_state_for_vals auth vals) = map (\<lambda>v. Some (va_owner_account_address v)) vals"
  by (simp_all add: generate_testnet_state_for_vals_def list_all_iff complete_def)

end
