(* ===== verification/Sdk_V7.thy ===== *)
theory Sdk_V7
  imports Sdk_Builder
begin

text \<open>
  The transaction builders of version seven (\<^verbatim>\<open>src/compatibility/src/sdk/v7_libra_framework_sdk_builder.rs\<close>), kept so
  that transactions of older epochs of the chain can be read: the type of calls, one builder for each entry
  function, encoding, and decoding through the table of decoders. Payloads and argument codecs are those of
  \<open>Bcs_Args\<close>. Shown: decoding inverts encoding, and what the decoder of the current release makes of a payload of
  version seven.
\<close>

text \<open>An entry function with type arguments, and \<open>script.ty_args().get(i)?.clone()\<close>; a type tag is its text.\<close>

definition generic_entry_function :: "string \<Rightarrow> string \<Rightarrow> string list \<Rightarrow> bytes list \<Rightarrow> TxPayload" where
  "generic_entry_function m f tys args =
     EntryFn \<lparr>en_address = core_code_address, en_module = m, en_function = f, en_ty_args = tys, en_args = args\<rparr>"

definition ty_arg_at :: "EntryFunction \<Rightarrow> nat \<Rightarrow> string option" where
  "ty_arg_at script i = (if i < length (en_ty_args script) then Some (en_ty_args script ! i) else None)"

section \<open>Calls\<close>

datatype (plugins only: code) EntryFunctionCallV7 =
    V7_AccountOfferRotationCapability bytes u8 bytes account_address
  | V7_AccountOfferSignerCapability bytes u8 bytes account_address
  | V7_AccountRevokeAnyRotationCapability
  | V7_AccountRevokeAnySignerCapability
  | V7_AccountRevokeRotationCapability account_address
  | V7_AccountRevokeSignerCapability account_address
  | V7_AccountRotateAuthenticationKey u8 bytes u8 bytes bytes bytes
  | V7_AccountRotateAuthenticationKeyWithRotationCapability account_address u8 bytes bytes
  | V7_BurnSetSendCommunity bool
  | V7_CodePublishPackageTxn bytes "bytes list"
  | V7_CoinTransfer string account_address u64
  | V7_CommunityWalletInitChangeSignerCommunityMultisig account_address account_address bool u64 u64
  | V7_CommunityWalletInitFinalizeAndCage u64
  | V7_CommunityWalletInitInitCommunity "account_address list" u64
  | V7_CommunityWalletInitProposeOffer "account_address list" u64
  | V7_DiemGovernanceAddApprovedScriptHashScript u64
  | V7_DiemGovernanceAssertCanResolve u64
  | V7_DiemGovernanceCreateProposalV2 bytes bytes bytes bool
  | V7_DiemGovernanceOlCreateProposalV2 bytes bytes bytes bool
  | V7_DiemGovernanceOlVote u64 bool
  | V7_DiemGovernanceSmokeTriggerEpoch
  | V7_DiemGovernanceTriggerEpoch
  | V7_DiemGovernanceVote u64 bool
  | V7_DonorVoiceTxsProposeLiquidateTx account_address
  | V7_DonorVoiceTxsProposePaymentTx account_address account_address u64 bytes
  | V7_DonorVoiceTxsProposeVetoTx account_address u64
  | V7_DonorVoiceTxsVoteLiquidationTx account_address
  | V7_DonorVoiceTxsVoteVetoTx account_address u64
  | V7_EpochBoundarySmokeTriggerEpoch
  | V7_JailUnjailByVoucher account_address
  | V7_LibraCoinClaimMintCapability
  | V7_LibraCoinDelegateMintCapability account_address
  | V7_LibraCoinMintToImpl account_address u64
  | V7_MultiActionClaimOffer account_address
  | V7_MultiActionInitGovDeprecated
  | V7_MultiActionMigrationMigrateOffer account_address
  | V7_MultisigAccountAddOwner account_address
  | V7_MultisigAccountAddOwners "account_address list"
  | V7_MultisigAccountApproveTransaction account_address u64
  | V7_MultisigAccountCreate u64 "bytes list" "bytes list"
  | V7_MultisigAccountCreateTransaction account_address bytes
  | V7_MultisigAccountCreateTransactionWithHash account_address bytes
  | V7_MultisigAccountCreateWithExistingAccount account_address "account_address list" u64 u8 bytes bytes "bytes
         list" "bytes list"
  | V7_MultisigAccountCreateWithOwners "account_address list" u64 "bytes list" "bytes list"
  | V7_MultisigAccountExecuteRejectedTransaction account_address
  | V7_MultisigAccountMigrateWithOwners "account_address list" u64 "bytes list" "bytes list"
  | V7_MultisigAccountRejectTransaction account_address u64
  | V7_MultisigAccountRemoveOwner account_address
  | V7_MultisigAccountRemoveOwners "account_address list"
  | V7_MultisigAccountUpdateMetadata "bytes list" "bytes list"
  | V7_MultisigAccountUpdateSignaturesRequired u64
  | V7_MultisigAccountVoteTransanction account_address u64 bool
  | V7_ObjectTransferCall account_address account_address
  | V7_OlAccountCreateAccount account_address
  | V7_OlAccountSetAllowDirectCoinTransfers bool
  | V7_OlAccountTransfer account_address u64
  | V7_ProofOfFeeInitBidding
  | V7_ProofOfFeePofRetractBid
  | V7_ProofOfFeePofUpdateBid u64 u64
  | V7_SafeInitPaymentMultisig "account_address list"
  | V7_SlowWalletSmokeTestVmUnlock account_address u64 u64
  | V7_SlowWalletUserSetSlow
  | V7_StakeInitializeValidator bytes bytes bytes bytes
  | V7_StakeRotateConsensusKey account_address bytes bytes
  | V7_StakeUpdateNetworkAndFullnodeAddresses account_address bytes bytes
  | V7_ValidatorUniverseRegisterValidator bytes bytes bytes bytes
  | V7_VersionSetVersion u64
  | V7_VouchInsistVouchFor account_address
  | V7_VouchRevoke account_address
  | V7_VouchVouchFor account_address

section \<open>Payload builders\<close>

definition v7_account_offer_rotation_capability :: "bcs \<Rightarrow> bytes \<Rightarrow> u8 \<Rightarrow> bytes
         \<Rightarrow> account_address \<Rightarrow> TxPayload" where
  "v7_account_offer_rotation_capability b rotation_capability_sig_bytes account_scheme account_public_key_bytes
         recipient_address =
     entry_function ''account'' ''offer_rotation_capability''
       [sr_bytes b rotation_capability_sig_bytes, sr_u8 b account_scheme, sr_bytes b account_public_key_bytes,
         sr_addr b recipient_address]"

definition v7_account_offer_signer_capability :: "bcs \<Rightarrow> bytes \<Rightarrow> u8 \<Rightarrow> bytes
         \<Rightarrow> account_address \<Rightarrow> TxPayload" where
  "v7_account_offer_signer_capability b signer_capability_sig_bytes account_scheme account_public_key_bytes
         recipient_address =
     entry_function ''account'' ''offer_signer_capability''
       [sr_bytes b signer_capability_sig_bytes, sr_u8 b account_scheme, sr_bytes b account_public_key_bytes,
         sr_addr b recipient_address]"

definition v7_account_revoke_any_rotation_capability :: "bcs \<Rightarrow> TxPayload" where
  "v7_account_revoke_any_rotation_capability b =
     entry_function ''account'' ''revoke_any_rotation_capability''
       []"

definition v7_account_revoke_any_signer_capability :: "bcs \<Rightarrow> TxPayload" where
  "v7_account_revoke_any_signer_capability b =
     entry_function ''account'' ''revoke_any_signer_capability''
       []"

definition v7_account_revoke_rotation_capability :: "bcs \<Rightarrow> account_address \<Rightarrow> TxPayload" where
  "v7_account_revoke_rotation_capability b to_be_revoked_address =
     entry_function ''account'' ''revoke_rotation_capability''
       [sr_addr b to_be_revoked_address]"

definition v7_account_revoke_signer_capability :: "bcs \<Rightarrow> account_address \<Rightarrow> TxPayload" where
  "v7_account_revoke_signer_capability b to_be_revoked_address =
     entry_function ''account'' ''revoke_signer_capability''
       [sr_addr b to_be_revoked_address]"

definition v7_account_rotate_authentication_key :: "bcs \<Rightarrow> u8 \<Rightarrow> bytes \<Rightarrow> u8
         \<Rightarrow> bytes \<Rightarrow> bytes \<Rightarrow> bytes \<Rightarrow> TxPayload" where
  "v7_account_rotate_authentication_key b from_scheme from_public_key_bytes to_scheme to_public_key_bytes
         cap_rotate_key cap_update_table =
     entry_function ''account'' ''rotate_authentication_key''
       [sr_u8 b from_scheme, sr_bytes b from_public_key_bytes, sr_u8 b to_scheme, sr_bytes b to_public_key_bytes,
         sr_bytes b cap_rotate_key, sr_bytes b cap_update_table]"

definition v7_account_rotate_authentication_key_with_rotation_capability :: "bcs \<Rightarrow> account_address
         \<Rightarrow> u8 \<Rightarrow> bytes \<Rightarrow> bytes \<Rightarrow> TxPayload" where
  "v7_account_rotate_authentication_key_with_rotation_capability b rotation_cap_offerer_address new_scheme
         new_public_key_bytes cap_update_table =
     entry_function ''account'' ''rotate_authentication_key_with_rotation_capability''
       [sr_addr b rotation_cap_offerer_address, sr_u8 b new_scheme, sr_bytes b new_public_key_bytes, sr_bytes b
         cap_update_table]"

definition v7_burn_set_send_community :: "bcs \<Rightarrow> bool \<Rightarrow> TxPayload" where
  "v7_burn_set_send_community b community =
     entry_function ''burn'' ''set_send_community''
       [sr_bool b community]"

definition v7_code_publish_package_txn :: "bcs \<Rightarrow> bytes \<Rightarrow> bytes list \<Rightarrow>
         TxPayload" where
  "v7_code_publish_package_txn b metadata_serialized code =
     entry_function ''code'' ''publish_package_txn''
       [sr_bytes b metadata_serialized, sr_bytess b code]"

definition v7_coin_transfer :: "bcs \<Rightarrow> string \<Rightarrow> account_address \<Rightarrow> u64
         \<Rightarrow> TxPayload" where
  "v7_coin_transfer b coin_type to_account amount =
     generic_entry_function ''coin'' ''transfer'' [coin_type]
       [sr_addr b to_account, sr_u64 b amount]"

definition v7_community_wallet_init_change_signer_community_multisig :: "bcs \<Rightarrow> account_address
         \<Rightarrow> account_address \<Rightarrow> bool \<Rightarrow> u64 \<Rightarrow> u64 \<Rightarrow>
         TxPayload" where
  "v7_community_wallet_init_change_signer_community_multisig b multisig_address new_signer is_add_operation n_of_m
         vote_duration_epochs =
     entry_function ''community_wallet_init'' ''change_signer_community_multisig''
       [sr_addr b multisig_address, sr_addr b new_signer, sr_bool b is_add_operation, sr_u64 b n_of_m, sr_u64 b
         vote_duration_epochs]"

definition v7_community_wallet_init_finalize_and_cage :: "bcs \<Rightarrow> u64 \<Rightarrow> TxPayload" where
  "v7_community_wallet_init_finalize_and_cage b num_signers =
     entry_function ''community_wallet_init'' ''finalize_and_cage''
       [sr_u64 b num_signers]"

definition v7_community_wallet_init_init_community :: "bcs \<Rightarrow> account_address list \<Rightarrow> u64
         \<Rightarrow> TxPayload" where
  "v7_community_wallet_init_init_community b initial_authorities check_threshold =
     entry_function ''community_wallet_init'' ''init_community''
       [sr_addrs b initial_authorities, sr_u64 b check_threshold]"

definition v7_community_wallet_init_propose_offer :: "bcs \<Rightarrow> account_address list \<Rightarrow> u64
         \<Rightarrow> TxPayload" where
  "v7_community_wallet_init_propose_offer b new_signers num_signers =
     entry_function ''community_wallet_init'' ''propose_offer''
       [sr_addrs b new_signers, sr_u64 b num_signers]"

definition v7_diem_governance_add_approved_script_hash_script :: "bcs \<Rightarrow> u64 \<Rightarrow> TxPayload" where
  "v7_diem_governance_add_approved_script_hash_script b proposal_id =
     entry_function ''diem_governance'' ''add_approved_script_hash_script''
       [sr_u64 b proposal_id]"

definition v7_diem_governance_assert_can_resolve :: "bcs \<Rightarrow> u64 \<Rightarrow> TxPayload" where
  "v7_diem_governance_assert_can_resolve b proposal_id =
     entry_function ''diem_governance'' ''assert_can_resolve''
       [sr_u64 b proposal_id]"

definition v7_diem_governance_create_proposal_v2 :: "bcs \<Rightarrow> bytes \<Rightarrow> bytes \<Rightarrow>
         bytes \<Rightarrow> bool \<Rightarrow> TxPayload" where
  "v7_diem_governance_create_proposal_v2 b execution_hash metadata_location metadata_hash is_multi_step_proposal =
     entry_function ''diem_governance'' ''create_proposal_v2''
       [sr_bytes b execution_hash, sr_bytes b metadata_location, sr_bytes b metadata_hash, sr_bool b
         is_multi_step_proposal]"

definition v7_diem_governance_ol_create_proposal_v2 :: "bcs \<Rightarrow> bytes \<Rightarrow> bytes \<Rightarrow>
         bytes \<Rightarrow> bool \<Rightarrow> TxPayload" where
  "v7_diem_governance_ol_create_proposal_v2 b execution_hash metadata_location metadata_hash is_multi_step_proposal =
     entry_function ''diem_governance'' ''ol_create_proposal_v2''
       [sr_bytes b execution_hash, sr_bytes b metadata_location, sr_bytes b metadata_hash, sr_bool b
         is_multi_step_proposal]"

definition v7_diem_governance_ol_vote :: "bcs \<Rightarrow> u64 \<Rightarrow> bool \<Rightarrow> TxPayload" where
  "v7_diem_governance_ol_vote b proposal_id should_pass =
     entry_function ''diem_governance'' ''ol_vote''
       [sr_u64 b proposal_id, sr_bool b should_pass]"

definition v7_diem_governance_smoke_trigger_epoch :: "bcs \<Rightarrow> TxPayload" where
  "v7_diem_governance_smoke_trigger_epoch b =
     entry_function ''diem_governance'' ''smoke_trigger_epoch''
       []"

definition v7_diem_governance_trigger_epoch :: "bcs \<Rightarrow> TxPayload" where
  "v7_diem_governance_trigger_epoch b =
     entry_function ''diem_governance'' ''trigger_epoch''
       []"

definition v7_diem_governance_vote :: "bcs \<Rightarrow> u64 \<Rightarrow> bool \<Rightarrow> TxPayload" where
  "v7_diem_governance_vote b proposal_id should_pass =
     entry_function ''diem_governance'' ''vote''
       [sr_u64 b proposal_id, sr_bool b should_pass]"

definition v7_donor_voice_txs_propose_liquidate_tx :: "bcs \<Rightarrow> account_address \<Rightarrow> TxPayload"
         where
  "v7_donor_voice_txs_propose_liquidate_tx b multisig_address =
     entry_function ''donor_voice_txs'' ''propose_liquidate_tx''
       [sr_addr b multisig_address]"

definition v7_donor_voice_txs_propose_payment_tx :: "bcs \<Rightarrow> account_address \<Rightarrow>
         account_address \<Rightarrow> u64 \<Rightarrow> bytes \<Rightarrow> TxPayload" where
  "v7_donor_voice_txs_propose_payment_tx b multisig_address payee value description =
     entry_function ''donor_voice_txs'' ''propose_payment_tx''
       [sr_addr b multisig_address, sr_addr b payee, sr_u64 b value, sr_bytes b description]"

definition v7_donor_voice_txs_propose_veto_tx :: "bcs \<Rightarrow> account_address \<Rightarrow> u64 \<Rightarrow>
         TxPayload" where
  "v7_donor_voice_txs_propose_veto_tx b multisig_address tx_id =
     entry_function ''donor_voice_txs'' ''propose_veto_tx''
       [sr_addr b multisig_address, sr_u64 b tx_id]"

definition v7_donor_voice_txs_vote_liquidation_tx :: "bcs \<Rightarrow> account_address \<Rightarrow> TxPayload" where
  "v7_donor_voice_txs_vote_liquidation_tx b multisig_address =
     entry_function ''donor_voice_txs'' ''vote_liquidation_tx''
       [sr_addr b multisig_address]"

definition v7_donor_voice_txs_vote_veto_tx :: "bcs \<Rightarrow> account_address \<Rightarrow> u64 \<Rightarrow>
         TxPayload" where
  "v7_donor_voice_txs_vote_veto_tx b multisig_address tx_id =
     entry_function ''donor_voice_txs'' ''vote_veto_tx''
       [sr_addr b multisig_address, sr_u64 b tx_id]"

definition v7_epoch_boundary_smoke_trigger_epoch :: "bcs \<Rightarrow> TxPayload" where
  "v7_epoch_boundary_smoke_trigger_epoch b =
     entry_function ''epoch_boundary'' ''smoke_trigger_epoch''
       []"

definition v7_jail_unjail_by_voucher :: "bcs \<Rightarrow> account_address \<Rightarrow> TxPayload" where
  "v7_jail_unjail_by_voucher b addr =
     entry_function ''jail'' ''unjail_by_voucher''
       [sr_addr b addr]"

definition v7_libra_coin_claim_mint_capability :: "bcs \<Rightarrow> TxPayload" where
  "v7_libra_coin_claim_mint_capability b =
     entry_function ''libra_coin'' ''claim_mint_capability''
       []"

definition v7_libra_coin_delegate_mint_capability :: "bcs \<Rightarrow> account_address \<Rightarrow> TxPayload" where
  "v7_libra_coin_delegate_mint_capability b to_account =
     entry_function ''libra_coin'' ''delegate_mint_capability''
       [sr_addr b to_account]"

definition v7_libra_coin_mint_to_impl :: "bcs \<Rightarrow> account_address \<Rightarrow> u64 \<Rightarrow>
         TxPayload" where
  "v7_libra_coin_mint_to_impl b dst_addr amount =
     entry_function ''libra_coin'' ''mint_to_impl''
       [sr_addr b dst_addr, sr_u64 b amount]"

definition v7_multi_action_claim_offer :: "bcs \<Rightarrow> account_address \<Rightarrow> TxPayload" where
  "v7_multi_action_claim_offer b multisig_address =
     entry_function ''multi_action'' ''claim_offer''
       [sr_addr b multisig_address]"

definition v7_multi_action_init_gov_deprecated :: "bcs \<Rightarrow> TxPayload" where
  "v7_multi_action_init_gov_deprecated b =
     entry_function ''multi_action'' ''init_gov_deprecated''
       []"

definition v7_multi_action_migration_migrate_offer :: "bcs \<Rightarrow> account_address \<Rightarrow> TxPayload"
         where
  "v7_multi_action_migration_migrate_offer b multisig_address =
     entry_function ''multi_action_migration'' ''migrate_offer''
       [sr_addr b multisig_address]"

definition v7_multisig_account_add_owner :: "bcs \<Rightarrow> account_address \<Rightarrow> TxPayload" where
  "v7_multisig_account_add_owner b new_owner =
     entry_function ''multisig_account'' ''add_owner''
       [sr_addr b new_owner]"

definition v7_multisig_account_add_owners :: "bcs \<Rightarrow> account_address list \<Rightarrow> TxPayload" where
  "v7_multisig_account_add_owners b new_owners =
     entry_function ''multisig_account'' ''add_owners''
       [sr_addrs b new_owners]"

definition v7_multisig_account_approve_transaction :: "bcs \<Rightarrow> account_address \<Rightarrow> u64
         \<Rightarrow> TxPayload" where
  "v7_multisig_account_approve_transaction b multisig_account sequence_number =
     entry_function ''multisig_account'' ''approve_transaction''
       [sr_addr b multisig_account, sr_u64 b sequence_number]"

definition v7_multisig_account_create :: "bcs \<Rightarrow> u64 \<Rightarrow> bytes list \<Rightarrow> bytes list
         \<Rightarrow> TxPayload" where
  "v7_multisig_account_create b num_signatures_required metadata_keys metadata_values =
     entry_function ''multisig_account'' ''create''
       [sr_u64 b num_signatures_required, sr_bytess b metadata_keys, sr_bytess b metadata_values]"

definition v7_multisig_account_create_transaction :: "bcs \<Rightarrow> account_address \<Rightarrow> bytes
         \<Rightarrow> TxPayload" where
  "v7_multisig_account_create_transaction b multisig_account payload =
     entry_function ''multisig_account'' ''create_transaction''
       [sr_addr b multisig_account, sr_bytes b payload]"

definition v7_multisig_account_create_transaction_with_hash :: "bcs \<Rightarrow> account_address \<Rightarrow>
         bytes \<Rightarrow> TxPayload" where
  "v7_multisig_account_create_transaction_with_hash b multisig_account payload_hash =
     entry_function ''multisig_account'' ''create_transaction_with_hash''
       [sr_addr b multisig_account, sr_bytes b payload_hash]"

definition v7_multisig_account_create_with_existing_account :: "bcs \<Rightarrow> account_address \<Rightarrow>
         account_address list \<Rightarrow> u64 \<Rightarrow> u8 \<Rightarrow> bytes \<Rightarrow> bytes
         \<Rightarrow> bytes list \<Rightarrow> bytes list \<Rightarrow> TxPayload" where
  "v7_multisig_account_create_with_existing_account b multisig_address owners num_signatures_required
         account_scheme account_public_key create_multisig_account_signed_message metadata_keys metadata_values =
     entry_function ''multisig_account'' ''create_with_existing_account''
       [sr_addr b multisig_address, sr_addrs b owners, sr_u64 b num_signatures_required, sr_u8 b account_scheme,
         sr_bytes b account_public_key, sr_bytes b create_multisig_account_signed_message, sr_bytess b
         metadata_keys, sr_bytess b metadata_values]"

definition v7_multisig_account_create_with_owners :: "bcs \<Rightarrow> account_address list \<Rightarrow> u64
         \<Rightarrow> bytes list \<Rightarrow> bytes list \<Rightarrow> TxPayload" where
  "v7_multisig_account_create_with_owners b additional_owners num_signatures_required metadata_keys metadata_values =
     entry_function ''multisig_account'' ''create_with_owners''
       [sr_addrs b additional_owners, sr_u64 b num_signatures_required, sr_bytess b metadata_keys, sr_bytess b
         metadata_values]"

definition v7_multisig_account_execute_rejected_transaction :: "bcs \<Rightarrow> account_address \<Rightarrow>
         TxPayload" where
  "v7_multisig_account_execute_rejected_transaction b multisig_account =
     entry_function ''multisig_account'' ''execute_rejected_transaction''
       [sr_addr b multisig_account]"

definition v7_multisig_account_migrate_with_owners :: "bcs \<Rightarrow> account_address list \<Rightarrow> u64
         \<Rightarrow> bytes list \<Rightarrow> bytes list \<Rightarrow> TxPayload" where
  "v7_multisig_account_migrate_with_owners b additional_owners num_signatures_required metadata_keys metadata_values =
     entry_function ''multisig_account'' ''migrate_with_owners''
       [sr_addrs b additional_owners, sr_u64 b num_signatures_required, sr_bytess b metadata_keys, sr_bytess b
         metadata_values]"

definition v7_multisig_account_reject_transaction :: "bcs \<Rightarrow> account_address \<Rightarrow> u64
         \<Rightarrow> TxPayload" where
  "v7_multisig_account_reject_transaction b multisig_account sequence_number =
     entry_function ''multisig_account'' ''reject_transaction''
       [sr_addr b multisig_account, sr_u64 b sequence_number]"

definition v7_multisig_account_remove_owner :: "bcs \<Rightarrow> account_address \<Rightarrow> TxPayload" where
  "v7_multisig_account_remove_owner b owner_to_remove =
     entry_function ''multisig_account'' ''remove_owner''
       [sr_addr b owner_to_remove]"

definition v7_multisig_account_remove_owners :: "bcs \<Rightarrow> account_address list \<Rightarrow> TxPayload" where
  "v7_multisig_account_remove_owners b owners_to_remove =
     entry_function ''multisig_account'' ''remove_owners''
       [sr_addrs b owners_to_remove]"

definition v7_multisig_account_update_metadata :: "bcs \<Rightarrow> bytes list \<Rightarrow> bytes list
         \<Rightarrow> TxPayload" where
  "v7_multisig_account_update_metadata b keys values =
     entry_function ''multisig_account'' ''update_metadata''
       [sr_bytess b keys, sr_bytess b values]"

definition v7_multisig_account_update_signatures_required :: "bcs \<Rightarrow> u64 \<Rightarrow> TxPayload" where
  "v7_multisig_account_update_signatures_required b new_num_signatures_required =
     entry_function ''multisig_account'' ''update_signatures_required''
       [sr_u64 b new_num_signatures_required]"

definition v7_multisig_account_vote_transanction :: "bcs \<Rightarrow> account_address \<Rightarrow> u64
         \<Rightarrow> bool \<Rightarrow> TxPayload" where
  "v7_multisig_account_vote_transanction b multisig_account sequence_number approved =
     entry_function ''multisig_account'' ''vote_transanction''
       [sr_addr b multisig_account, sr_u64 b sequence_number, sr_bool b approved]"

definition v7_object_transfer_call :: "bcs \<Rightarrow> account_address \<Rightarrow> account_address
         \<Rightarrow> TxPayload" where
  "v7_object_transfer_call b object to_account =
     entry_function ''object'' ''transfer_call''
       [sr_addr b object, sr_addr b to_account]"

definition v7_ol_account_create_account :: "bcs \<Rightarrow> account_address \<Rightarrow> TxPayload" where
  "v7_ol_account_create_account b auth_key =
     entry_function ''ol_account'' ''create_account''
       [sr_addr b auth_key]"

definition v7_ol_account_set_allow_direct_coin_transfers :: "bcs \<Rightarrow> bool \<Rightarrow> TxPayload" where
  "v7_ol_account_set_allow_direct_coin_transfers b allow =
     entry_function ''ol_account'' ''set_allow_direct_coin_transfers''
       [sr_bool b allow]"

definition v7_ol_account_transfer :: "bcs \<Rightarrow> account_address \<Rightarrow> u64 \<Rightarrow> TxPayload"
         where
  "v7_ol_account_transfer b to_account amount =
     entry_function ''ol_account'' ''transfer''
       [sr_addr b to_account, sr_u64 b amount]"

definition v7_proof_of_fee_init_bidding :: "bcs \<Rightarrow> TxPayload" where
  "v7_proof_of_fee_init_bidding b =
     entry_function ''proof_of_fee'' ''init_bidding''
       []"

definition v7_proof_of_fee_pof_retract_bid :: "bcs \<Rightarrow> TxPayload" where
  "v7_proof_of_fee_pof_retract_bid b =
     entry_function ''proof_of_fee'' ''pof_retract_bid''
       []"

definition v7_proof_of_fee_pof_update_bid :: "bcs \<Rightarrow> u64 \<Rightarrow> u64 \<Rightarrow> TxPayload" where
  "v7_proof_of_fee_pof_update_bid b bid epoch_expiry =
     entry_function ''proof_of_fee'' ''pof_update_bid''
       [sr_u64 b bid, sr_u64 b epoch_expiry]"

definition v7_safe_init_payment_multisig :: "bcs \<Rightarrow> account_address list \<Rightarrow> TxPayload" where
  "v7_safe_init_payment_multisig b authorities =
     entry_function ''safe'' ''init_payment_multisig''
       [sr_addrs b authorities]"

definition v7_slow_wallet_smoke_test_vm_unlock :: "bcs \<Rightarrow> account_address \<Rightarrow> u64
         \<Rightarrow> u64 \<Rightarrow> TxPayload" where
  "v7_slow_wallet_smoke_test_vm_unlock b user_addr unlocked transferred =
     entry_function ''slow_wallet'' ''smoke_test_vm_unlock''
       [sr_addr b user_addr, sr_u64 b unlocked, sr_u64 b transferred]"

definition v7_slow_wallet_user_set_slow :: "bcs \<Rightarrow> TxPayload" where
  "v7_slow_wallet_user_set_slow b =
     entry_function ''slow_wallet'' ''user_set_slow''
       []"

definition v7_stake_initialize_validator :: "bcs \<Rightarrow> bytes \<Rightarrow> bytes \<Rightarrow> bytes
         \<Rightarrow> bytes \<Rightarrow> TxPayload" where
  "v7_stake_initialize_validator b consensus_pubkey proof_of_possession network_addresses fullnode_addresses =
     entry_function ''stake'' ''initialize_validator''
       [sr_bytes b consensus_pubkey, sr_bytes b proof_of_possession, sr_bytes b network_addresses, sr_bytes b
         fullnode_addresses]"

definition v7_stake_rotate_consensus_key :: "bcs \<Rightarrow> account_address \<Rightarrow> bytes \<Rightarrow>
         bytes \<Rightarrow> TxPayload" where
  "v7_stake_rotate_consensus_key b validator_address new_consensus_pubkey proof_of_possession =
     entry_function ''stake'' ''rotate_consensus_key''
       [sr_addr b validator_address, sr_bytes b new_consensus_pubkey, sr_bytes b proof_of_possession]"

definition v7_stake_update_network_and_fullnode_addresses :: "bcs \<Rightarrow> account_address \<Rightarrow> bytes
         \<Rightarrow> bytes \<Rightarrow> TxPayload" where
  "v7_stake_update_network_and_fullnode_addresses b validator_address new_network_addresses new_fullnode_addresses =
     entry_function ''stake'' ''update_network_and_fullnode_addresses''
       [sr_addr b validator_address, sr_bytes b new_network_addresses, sr_bytes b new_fullnode_addresses]"

definition v7_validator_universe_register_validator :: "bcs \<Rightarrow> bytes \<Rightarrow> bytes \<Rightarrow>
         bytes \<Rightarrow> bytes \<Rightarrow> TxPayload" where
  "v7_validator_universe_register_validator b consensus_pubkey proof_of_possession network_addresses
         fullnode_addresses =
     entry_function ''validator_universe'' ''register_validator''
       [sr_bytes b consensus_pubkey, sr_bytes b proof_of_possession, sr_bytes b network_addresses, sr_bytes b
         fullnode_addresses]"

definition v7_version_set_version :: "bcs \<Rightarrow> u64 \<Rightarrow> TxPayload" where
  "v7_version_set_version b major =
     entry_function ''version'' ''set_version''
       [sr_u64 b major]"

definition v7_vouch_insist_vouch_for :: "bcs \<Rightarrow> account_address \<Rightarrow> TxPayload" where
  "v7_vouch_insist_vouch_for b friend_account =
     entry_function ''vouch'' ''insist_vouch_for''
       [sr_addr b friend_account]"

definition v7_vouch_revoke :: "bcs \<Rightarrow> account_address \<Rightarrow> TxPayload" where
  "v7_vouch_revoke b friend_account =
     entry_function ''vouch'' ''revoke''
       [sr_addr b friend_account]"

definition v7_vouch_vouch_for :: "bcs \<Rightarrow> account_address \<Rightarrow> TxPayload" where
  "v7_vouch_vouch_for b friend_account =
     entry_function ''vouch'' ''vouch_for''
       [sr_addr b friend_account]"

section \<open>Encoding and decoding\<close>

primrec v7_encode :: "bcs \<Rightarrow> EntryFunctionCallV7 \<Rightarrow> TxPayload" where
  "v7_encode b (V7_AccountOfferRotationCapability rotation_capability_sig_bytes account_scheme
         account_public_key_bytes recipient_address) = v7_account_offer_rotation_capability b
         rotation_capability_sig_bytes account_scheme account_public_key_bytes recipient_address"
| "v7_encode b (V7_AccountOfferSignerCapability signer_capability_sig_bytes account_scheme account_public_key_bytes
         recipient_address) = v7_account_offer_signer_capability b signer_capability_sig_bytes account_scheme
         account_public_key_bytes recipient_address"
| "v7_encode b V7_AccountRevokeAnyRotationCapability = v7_account_revoke_any_rotation_capability b"
| "v7_encode b V7_AccountRevokeAnySignerCapability = v7_account_revoke_any_signer_capability b"
| "v7_encode b (V7_AccountRevokeRotationCapability to_be_revoked_address) = v7_account_revoke_rotation_capability b
         to_be_revoked_address"
| "v7_encode b (V7_AccountRevokeSignerCapability to_be_revoked_address) = v7_account_revoke_signer_capability b
         to_be_revoked_address"
| "v7_encode b (V7_AccountRotateAuthenticationKey from_scheme from_public_key_bytes to_scheme to_public_key_bytes
         cap_rotate_key cap_update_table) = v7_account_rotate_authentication_key b from_scheme
         from_public_key_bytes to_scheme to_public_key_bytes cap_rotate_key cap_update_table"
| "v7_encode b (V7_AccountRotateAuthenticationKeyWithRotationCapability rotation_cap_offerer_address new_scheme
         new_public_key_bytes cap_update_table) = v7_account_rotate_authentication_key_with_rotation_capability b
         rotation_cap_offerer_address new_scheme new_public_key_bytes cap_update_table"
| "v7_encode b (V7_BurnSetSendCommunity community) = v7_burn_set_send_community b community"
| "v7_encode b (V7_CodePublishPackageTxn metadata_serialized code) = v7_code_publish_package_txn b
         metadata_serialized code"
| "v7_encode b (V7_CoinTransfer coin_type to_account amount) = v7_coin_transfer b coin_type to_account amount"
| "v7_encode b (V7_CommunityWalletInitChangeSignerCommunityMultisig multisig_address new_signer is_add_operation
         n_of_m vote_duration_epochs) = v7_community_wallet_init_change_signer_community_multisig b
         multisig_address new_signer is_add_operation n_of_m vote_duration_epochs"
| "v7_encode b (V7_CommunityWalletInitFinalizeAndCage num_signers) = v7_community_wallet_init_finalize_and_cage b
         num_signers"
| "v7_encode b (V7_CommunityWalletInitInitCommunity initial_authorities check_threshold) =
         v7_community_wallet_init_init_community b initial_authorities check_threshold"
| "v7_encode b (V7_CommunityWalletInitProposeOffer new_signers num_signers) =
         v7_community_wallet_init_propose_offer b new_signers num_signers"
| "v7_encode b (V7_DiemGovernanceAddApprovedScriptHashScript proposal_id) =
         v7_diem_governance_add_approved_script_hash_script b proposal_id"
| "v7_encode b (V7_DiemGovernanceAssertCanResolve proposal_id) = v7_diem_governance_assert_can_resolve b proposal_id"
| "v7_encode b (V7_DiemGovernanceCreateProposalV2 execution_hash metadata_location metadata_hash
         is_multi_step_proposal) = v7_diem_governance_create_proposal_v2 b execution_hash metadata_location
         metadata_hash is_multi_step_proposal"
| "v7_encode b (V7_DiemGovernanceOlCreateProposalV2 execution_hash metadata_location metadata_hash
         is_multi_step_proposal) = v7_diem_governance_ol_create_proposal_v2 b execution_hash metadata_location
         metadata_hash is_multi_step_proposal"
| "v7_encode b (V7_DiemGovernanceOlVote proposal_id should_pass) = v7_diem_governance_ol_vote b proposal_id
         should_pass"
| "v7_encode b V7_DiemGovernanceSmokeTriggerEpoch = v7_diem_governance_smoke_trigger_epoch b"
| "v7_encode b V7_DiemGovernanceTriggerEpoch = v7_diem_governance_trigger_epoch b"
| "v7_encode b (V7_DiemGovernanceVote proposal_id should_pass) = v7_diem_governance_vote b proposal_id should_pass"
| "v7_encode b (V7_DonorVoiceTxsProposeLiquidateTx multisig_address) = v7_donor_voice_txs_propose_liquidate_tx b
         multisig_address"
| "v7_encode b (V7_DonorVoiceTxsProposePaymentTx multisig_address payee value description) =
         v7_donor_voice_txs_propose_payment_tx b multisig_address payee value description"
| "v7_encode b (V7_DonorVoiceTxsProposeVetoTx multisig_address tx_id) = v7_donor_voice_txs_propose_veto_tx b
         multisig_address tx_id"
| "v7_encode b (V7_DonorVoiceTxsVoteLiquidationTx multisig_address) = v7_donor_voice_txs_vote_liquidation_tx b
         multisig_address"
| "v7_encode b (V7_DonorVoiceTxsVoteVetoTx multisig_address tx_id) = v7_donor_voice_txs_vote_veto_tx b
         multisig_address tx_id"
| "v7_encode b V7_EpochBoundarySmokeTriggerEpoch = v7_epoch_boundary_smoke_trigger_epoch b"
| "v7_encode b (V7_JailUnjailByVoucher addr) = v7_jail_unjail_by_voucher b addr"
| "v7_encode b V7_LibraCoinClaimMintCapability = v7_libra_coin_claim_mint_capability b"
| "v7_encode b (V7_LibraCoinDelegateMintCapability to_account) = v7_libra_coin_delegate_mint_capability b to_account"
| "v7_encode b (V7_LibraCoinMintToImpl dst_addr amount) = v7_libra_coin_mint_to_impl b dst_addr amount"
| "v7_encode b (V7_MultiActionClaimOffer multisig_address) = v7_multi_action_claim_offer b multisig_address"
| "v7_encode b V7_MultiActionInitGovDeprecated = v7_multi_action_init_gov_deprecated b"
| "v7_encode b (V7_MultiActionMigrationMigrateOffer multisig_address) = v7_multi_action_migration_migrate_offer b
         multisig_address"
| "v7_encode b (V7_MultisigAccountAddOwner new_owner) = v7_multisig_account_add_owner b new_owner"
| "v7_encode b (V7_MultisigAccountAddOwners new_owners) = v7_multisig_account_add_owners b new_owners"
| "v7_encode b (V7_MultisigAccountApproveTransaction multisig_account sequence_number) =
         v7_multisig_account_approve_transaction b multisig_account sequence_number"
| "v7_encode b (V7_MultisigAccountCreate num_signatures_required metadata_keys metadata_values) =
         v7_multisig_account_create b num_signatures_required metadata_keys metadata_values"
| "v7_encode b (V7_MultisigAccountCreateTransaction multisig_account payload) =
         v7_multisig_account_create_transaction b multisig_account payload"
| "v7_encode b (V7_MultisigAccountCreateTransactionWithHash multisig_account payload_hash) =
         v7_multisig_account_create_transaction_with_hash b multisig_account payload_hash"
| "v7_encode b (V7_MultisigAccountCreateWithExistingAccount multisig_address owners num_signatures_required
         account_scheme account_public_key create_multisig_account_signed_message metadata_keys metadata_values) =
         v7_multisig_account_create_with_existing_account b multisig_address owners num_signatures_required
         account_scheme account_public_key create_multisig_account_signed_message metadata_keys metadata_values"
| "v7_encode b (V7_MultisigAccountCreateWithOwners additional_owners num_signatures_required metadata_keys
         metadata_values) = v7_multisig_account_create_with_owners b additional_owners num_signatures_required
         metadata_keys metadata_values"
| "v7_encode b (V7_MultisigAccountExecuteRejectedTransaction multisig_account) =
         v7_multisig_account_execute_rejected_transaction b multisig_account"
| "v7_encode b (V7_MultisigAccountMigrateWithOwners additional_owners num_signatures_required metadata_keys
         metadata_values) = v7_multisig_account_migrate_with_owners b additional_owners num_signatures_required
         metadata_keys metadata_values"
| "v7_encode b (V7_MultisigAccountRejectTransaction multisig_account sequence_number) =
         v7_multisig_account_reject_transaction b multisig_account sequence_number"
| "v7_encode b (V7_MultisigAccountRemoveOwner owner_to_remove) = v7_multisig_account_remove_owner b owner_to_remove"
| "v7_encode b (V7_MultisigAccountRemoveOwners owners_to_remove) = v7_multisig_account_remove_owners b
         owners_to_remove"
| "v7_encode b (V7_MultisigAccountUpdateMetadata keys values) = v7_multisig_account_update_metadata b keys values"
| "v7_encode b (V7_MultisigAccountUpdateSignaturesRequired new_num_signatures_required) =
         v7_multisig_account_update_signatures_required b new_num_signatures_required"
| "v7_encode b (V7_MultisigAccountVoteTransanction multisig_account sequence_number approved) =
         v7_multisig_account_vote_transanction b multisig_account sequence_number approved"
| "v7_encode b (V7_ObjectTransferCall object to_account) = v7_object_transfer_call b object to_account"
| "v7_encode b (V7_OlAccountCreateAccount auth_key) = v7_ol_account_create_account b auth_key"
| "v7_encode b (V7_OlAccountSetAllowDirectCoinTransfers allow) = v7_ol_account_set_allow_direct_coin_transfers b
         allow"
| "v7_encode b (V7_OlAccountTransfer to_account amount) = v7_ol_account_transfer b to_account amount"
| "v7_encode b V7_ProofOfFeeInitBidding = v7_proof_of_fee_init_bidding b"
| "v7_encode b V7_ProofOfFeePofRetractBid = v7_proof_of_fee_pof_retract_bid b"
| "v7_encode b (V7_ProofOfFeePofUpdateBid bid epoch_expiry) = v7_proof_of_fee_pof_update_bid b bid epoch_expiry"
| "v7_encode b (V7_SafeInitPaymentMultisig authorities) = v7_safe_init_payment_multisig b authorities"
| "v7_encode b (V7_SlowWalletSmokeTestVmUnlock user_addr unlocked transferred) =
         v7_slow_wallet_smoke_test_vm_unlock b user_addr unlocked transferred"
| "v7_encode b V7_SlowWalletUserSetSlow = v7_slow_wallet_user_set_slow b"
| "v7_encode b (V7_StakeInitializeValidator consensus_pubkey proof_of_possession network_addresses
         fullnode_addresses) = v7_stake_initialize_validator b consensus_pubkey proof_of_possession
         network_addresses fullnode_addresses"
| "v7_encode b (V7_StakeRotateConsensusKey validator_address new_consensus_pubkey proof_of_possession) =
         v7_stake_rotate_consensus_key b validator_address new_consensus_pubkey proof_of_possession"
| "v7_encode b (V7_StakeUpdateNetworkAndFullnodeAddresses validator_address new_network_addresses
         new_fullnode_addresses) = v7_stake_update_network_and_fullnode_addresses b validator_address
         new_network_addresses new_fullnode_addresses"
| "v7_encode b (V7_ValidatorUniverseRegisterValidator consensus_pubkey proof_of_possession network_addresses
         fullnode_addresses) = v7_validator_universe_register_validator b consensus_pubkey proof_of_possession
         network_addresses fullnode_addresses"
| "v7_encode b (V7_VersionSetVersion major) = v7_version_set_version b major"
| "v7_encode b (V7_VouchInsistVouchFor friend_account) = v7_vouch_insist_vouch_for b friend_account"
| "v7_encode b (V7_VouchRevoke friend_account) = v7_vouch_revoke b friend_account"
| "v7_encode b (V7_VouchVouchFor friend_account) = v7_vouch_vouch_for b friend_account"

definition v7_dec_account_offer_rotation_capability :: "bcs \<Rightarrow> TxPayload \<Rightarrow>
         EntryFunctionCallV7 option" where
  "v7_dec_account_offer_rotation_capability b payload = with_entry payload (\<lambda>script.
     Option.bind (arg_at script 0 (ds_bytes b)) (\<lambda>rotation_capability_sig_bytes.
     Option.bind (arg_at script 1 (ds_u8 b)) (\<lambda>account_scheme.
     Option.bind (arg_at script 2 (ds_bytes b)) (\<lambda>account_public_key_bytes.
     Option.bind (arg_at script 3 (ds_addr b)) (\<lambda>recipient_address.
     Some (V7_AccountOfferRotationCapability rotation_capability_sig_bytes account_scheme account_public_key_bytes
         recipient_address))))))"

definition v7_dec_account_offer_signer_capability :: "bcs \<Rightarrow> TxPayload \<Rightarrow> EntryFunctionCallV7
         option" where
  "v7_dec_account_offer_signer_capability b payload = with_entry payload (\<lambda>script.
     Option.bind (arg_at script 0 (ds_bytes b)) (\<lambda>signer_capability_sig_bytes.
     Option.bind (arg_at script 1 (ds_u8 b)) (\<lambda>account_scheme.
     Option.bind (arg_at script 2 (ds_bytes b)) (\<lambda>account_public_key_bytes.
     Option.bind (arg_at script 3 (ds_addr b)) (\<lambda>recipient_address.
     Some (V7_AccountOfferSignerCapability signer_capability_sig_bytes account_scheme account_public_key_bytes
         recipient_address))))))"

definition v7_dec_account_revoke_any_rotation_capability :: "bcs \<Rightarrow> TxPayload \<Rightarrow>
         EntryFunctionCallV7 option" where
  "v7_dec_account_revoke_any_rotation_capability b payload = with_entry payload (\<lambda>script. Some
         V7_AccountRevokeAnyRotationCapability)"

definition v7_dec_account_revoke_any_signer_capability :: "bcs \<Rightarrow> TxPayload \<Rightarrow>
         EntryFunctionCallV7 option" where
  "v7_dec_account_revoke_any_signer_capability b payload = with_entry payload (\<lambda>script. Some
         V7_AccountRevokeAnySignerCapability)"

definition v7_dec_account_revoke_rotation_capability :: "bcs \<Rightarrow> TxPayload \<Rightarrow>
         EntryFunctionCallV7 option" where
  "v7_dec_account_revoke_rotation_capability b payload = with_entry payload (\<lambda>script.
     Option.bind (arg_at script 0 (ds_addr b)) (\<lambda>to_be_revoked_address.
     Some (V7_AccountRevokeRotationCapability to_be_revoked_address)))"

definition v7_dec_account_revoke_signer_capability :: "bcs \<Rightarrow> TxPayload \<Rightarrow>
         EntryFunctionCallV7 option" where
  "v7_dec_account_revoke_signer_capability b payload = with_entry payload (\<lambda>script.
     Option.bind (arg_at script 0 (ds_addr b)) (\<lambda>to_be_revoked_address.
     Some (V7_AccountRevokeSignerCapability to_be_revoked_address)))"

definition v7_dec_account_rotate_authentication_key :: "bcs \<Rightarrow> TxPayload \<Rightarrow>
         EntryFunctionCallV7 option" where
  "v7_dec_account_rotate_authentication_key b payload = with_entry payload (\<lambda>script.
     Option.bind (arg_at script 0 (ds_u8 b)) (\<lambda>from_scheme.
     Option.bind (arg_at script 1 (ds_bytes b)) (\<lambda>from_public_key_bytes.
     Option.bind (arg_at script 2 (ds_u8 b)) (\<lambda>to_scheme.
     Option.bind (arg_at script 3 (ds_bytes b)) (\<lambda>to_public_key_bytes.
     Option.bind (arg_at script 4 (ds_bytes b)) (\<lambda>cap_rotate_key.
     Option.bind (arg_at script 5 (ds_bytes b)) (\<lambda>cap_update_table.
     Some (V7_AccountRotateAuthenticationKey from_scheme from_public_key_bytes to_scheme to_public_key_bytes
         cap_rotate_key cap_update_table))))))))"

definition v7_dec_account_rotate_authentication_key_with_rotation_capability :: "bcs \<Rightarrow> TxPayload
         \<Rightarrow> EntryFunctionCallV7 option" where
  "v7_dec_account_rotate_authentication_key_with_rotation_capability b payload = with_entry payload (\<lambda>script.
     Option.bind (arg_at script 0 (ds_addr b)) (\<lambda>rotation_cap_offerer_address.
     Option.bind (arg_at script 1 (ds_u8 b)) (\<lambda>new_scheme.
     Option.bind (arg_at script 2 (ds_bytes b)) (\<lambda>new_public_key_bytes.
     Option.bind (arg_at script 3 (ds_bytes b)) (\<lambda>cap_update_table.
     Some (V7_AccountRotateAuthenticationKeyWithRotationCapability rotation_cap_offerer_address new_scheme
         new_public_key_bytes cap_update_table))))))"

definition v7_dec_burn_set_send_community :: "bcs \<Rightarrow> TxPayload \<Rightarrow> EntryFunctionCallV7 option"
         where
  "v7_dec_burn_set_send_community b payload = with_entry payload (\<lambda>script.
     Option.bind (arg_at script 0 (ds_bool b)) (\<lambda>community.
     Some (V7_BurnSetSendCommunity community)))"

definition v7_dec_code_publish_package_txn :: "bcs \<Rightarrow> TxPayload \<Rightarrow> EntryFunctionCallV7
         option" where
  "v7_dec_code_publish_package_txn b payload = with_entry payload (\<lambda>script.
     Option.bind (arg_at script 0 (ds_bytes b)) (\<lambda>metadata_serialized.
     Option.bind (arg_at script 1 (ds_bytess b)) (\<lambda>code.
     Some (V7_CodePublishPackageTxn metadata_serialized code))))"

definition v7_dec_coin_transfer :: "bcs \<Rightarrow> TxPayload \<Rightarrow> EntryFunctionCallV7 option" where
  "v7_dec_coin_transfer b payload = with_entry payload (\<lambda>script.
     Option.bind (ty_arg_at script 0) (\<lambda>coin_type.
     Option.bind (arg_at script 0 (ds_addr b)) (\<lambda>to_account.
     Option.bind (arg_at script 1 (ds_u64 b)) (\<lambda>amount.
     Some (V7_CoinTransfer coin_type to_account amount)))))"

definition v7_dec_community_wallet_init_change_signer_community_multisig :: "bcs \<Rightarrow> TxPayload
         \<Rightarrow> EntryFunctionCallV7 option" where
  "v7_dec_community_wallet_init_change_signer_community_multisig b payload = with_entry payload (\<lambda>script.
     Option.bind (arg_at script 0 (ds_addr b)) (\<lambda>multisig_address.
     Option.bind (arg_at script 1 (ds_addr b)) (\<lambda>new_signer.
     Option.bind (arg_at script 2 (ds_bool b)) (\<lambda>is_add_operation.
     Option.bind (arg_at script 3 (ds_u64 b)) (\<lambda>n_of_m.
     Option.bind (arg_at script 4 (ds_u64 b)) (\<lambda>vote_duration_epochs.
     Some (V7_CommunityWalletInitChangeSignerCommunityMultisig multisig_address new_signer is_add_operation n_of_m
         vote_duration_epochs)))))))"

definition v7_dec_community_wallet_init_finalize_and_cage :: "bcs \<Rightarrow> TxPayload \<Rightarrow>
         EntryFunctionCallV7 option" where
  "v7_dec_community_wallet_init_finalize_and_cage b payload = with_entry payload (\<lambda>script.
     Option.bind (arg_at script 0 (ds_u64 b)) (\<lambda>num_signers.
     Some (V7_CommunityWalletInitFinalizeAndCage num_signers)))"

definition v7_dec_community_wallet_init_init_community :: "bcs \<Rightarrow> TxPayload \<Rightarrow>
         EntryFunctionCallV7 option" where
  "v7_dec_community_wallet_init_init_community b payload = with_entry payload (\<lambda>script.
     Option.bind (arg_at script 0 (ds_addrs b)) (\<lambda>initial_authorities.
     Option.bind (arg_at script 1 (ds_u64 b)) (\<lambda>check_threshold.
     Some (V7_CommunityWalletInitInitCommunity initial_authorities check_threshold))))"

definition v7_dec_community_wallet_init_propose_offer :: "bcs \<Rightarrow> TxPayload \<Rightarrow>
         EntryFunctionCallV7 option" where
  "v7_dec_community_wallet_init_propose_offer b payload = with_entry payload (\<lambda>script.
     Option.bind (arg_at script 0 (ds_addrs b)) (\<lambda>new_signers.
     Option.bind (arg_at script 1 (ds_u64 b)) (\<lambda>num_signers.
     Some (V7_CommunityWalletInitProposeOffer new_signers num_signers))))"

definition v7_dec_diem_governance_add_approved_script_hash_script :: "bcs \<Rightarrow> TxPayload \<Rightarrow>
         EntryFunctionCallV7 option" where
  "v7_dec_diem_governance_add_approved_script_hash_script b payload = with_entry payload (\<lambda>script.
     Option.bind (arg_at script 0 (ds_u64 b)) (\<lambda>proposal_id.
     Some (V7_DiemGovernanceAddApprovedScriptHashScript proposal_id)))"

definition v7_dec_diem_governance_assert_can_resolve :: "bcs \<Rightarrow> TxPayload \<Rightarrow>
         EntryFunctionCallV7 option" where
  "v7_dec_diem_governance_assert_can_resolve b payload = with_entry payload (\<lambda>script.
     Option.bind (arg_at script 0 (ds_u64 b)) (\<lambda>proposal_id.
     Some (V7_DiemGovernanceAssertCanResolve proposal_id)))"

definition v7_dec_diem_governance_create_proposal_v2 :: "bcs \<Rightarrow> TxPayload \<Rightarrow>
         EntryFunctionCallV7 option" where
  "v7_dec_diem_governance_create_proposal_v2 b payload = with_entry payload (\<lambda>script.
     Option.bind (arg_at script 0 (ds_bytes b)) (\<lambda>execution_hash.
     Option.bind (arg_at script 1 (ds_bytes b)) (\<lambda>metadata_location.
     Option.bind (arg_at script 2 (ds_bytes b)) (\<lambda>metadata_hash.
     Option.bind (arg_at script 3 (ds_bool b)) (\<lambda>is_multi_step_proposal.
     Some (V7_DiemGovernanceCreateProposalV2 execution_hash metadata_location metadata_hash
         is_multi_step_proposal))))))"

definition v7_dec_diem_governance_ol_create_proposal_v2 :: "bcs \<Rightarrow> TxPayload \<Rightarrow>
         EntryFunctionCallV7 option" where
  "v7_dec_diem_governance_ol_create_proposal_v2 b payload = with_entry payload (\<lambda>script.
     Option.bind (arg_at script 0 (ds_bytes b)) (\<lambda>execution_hash.
     Option.bind (arg_at script 1 (ds_bytes b)) (\<lambda>metadata_location.
     Option.bind (arg_at script 2 (ds_bytes b)) (\<lambda>metadata_hash.
     Option.bind (arg_at script 3 (ds_bool b)) (\<lambda>is_multi_step_proposal.
     Some (V7_DiemGovernanceOlCreateProposalV2 execution_hash metadata_location metadata_hash
         is_multi_step_proposal))))))"

definition v7_dec_diem_governance_ol_vote :: "bcs \<Rightarrow> TxPayload \<Rightarrow> EntryFunctionCallV7 option"
         where
  "v7_dec_diem_governance_ol_vote b payload = with_entry payload (\<lambda>script.
     Option.bind (arg_at script 0 (ds_u64 b)) (\<lambda>proposal_id.
     Option.bind (arg_at script 1 (ds_bool b)) (\<lambda>should_pass.
     Some (V7_DiemGovernanceOlVote proposal_id should_pass))))"

definition v7_dec_diem_governance_smoke_trigger_epoch :: "bcs \<Rightarrow> TxPayload \<Rightarrow>
         EntryFunctionCallV7 option" where
  "v7_dec_diem_governance_smoke_trigger_epoch b payload = with_entry payload (\<lambda>script. Some
         V7_DiemGovernanceSmokeTriggerEpoch)"

definition v7_dec_diem_governance_trigger_epoch :: "bcs \<Rightarrow> TxPayload \<Rightarrow> EntryFunctionCallV7
         option" where
  "v7_dec_diem_governance_trigger_epoch b payload = with_entry payload (\<lambda>script. Some
         V7_DiemGovernanceTriggerEpoch)"

definition v7_dec_diem_governance_vote :: "bcs \<Rightarrow> TxPayload \<Rightarrow> EntryFunctionCallV7 option" where
  "v7_dec_diem_governance_vote b payload = with_entry payload (\<lambda>script.
     Option.bind (arg_at script 0 (ds_u64 b)) (\<lambda>proposal_id.
     Option.bind (arg_at script 1 (ds_bool b)) (\<lambda>should_pass.
     Some (V7_DiemGovernanceVote proposal_id should_pass))))"

definition v7_dec_donor_voice_txs_propose_liquidate_tx :: "bcs \<Rightarrow> TxPayload \<Rightarrow>
         EntryFunctionCallV7 option" where
  "v7_dec_donor_voice_txs_propose_liquidate_tx b payload = with_entry payload (\<lambda>script.
     Option.bind (arg_at script 0 (ds_addr b)) (\<lambda>multisig_address.
     Some (V7_DonorVoiceTxsProposeLiquidateTx multisig_address)))"

definition v7_dec_donor_voice_txs_propose_payment_tx :: "bcs \<Rightarrow> TxPayload \<Rightarrow>
         EntryFunctionCallV7 option" where
  "v7_dec_donor_voice_txs_propose_payment_tx b payload = with_entry payload (\<lambda>script.
     Option.bind (arg_at script 0 (ds_addr b)) (\<lambda>multisig_address.
     Option.bind (arg_at script 1 (ds_addr b)) (\<lambda>payee.
     Option.bind (arg_at script 2 (ds_u64 b)) (\<lambda>value.
     Option.bind (arg_at script 3 (ds_bytes b)) (\<lambda>description.
     Some (V7_DonorVoiceTxsProposePaymentTx multisig_address payee value description))))))"

definition v7_dec_donor_voice_txs_propose_veto_tx :: "bcs \<Rightarrow> TxPayload \<Rightarrow> EntryFunctionCallV7
         option" where
  "v7_dec_donor_voice_txs_propose_veto_tx b payload = with_entry payload (\<lambda>script.
     Option.bind (arg_at script 0 (ds_addr b)) (\<lambda>multisig_address.
     Option.bind (arg_at script 1 (ds_u64 b)) (\<lambda>tx_id.
     Some (V7_DonorVoiceTxsProposeVetoTx multisig_address tx_id))))"

definition v7_dec_donor_voice_txs_vote_liquidation_tx :: "bcs \<Rightarrow> TxPayload \<Rightarrow>
         EntryFunctionCallV7 option" where
  "v7_dec_donor_voice_txs_vote_liquidation_tx b payload = with_entry payload (\<lambda>script.
     Option.bind (arg_at script 0 (ds_addr b)) (\<lambda>multisig_address.
     Some (V7_DonorVoiceTxsVoteLiquidationTx multisig_address)))"

definition v7_dec_donor_voice_txs_vote_veto_tx :: "bcs \<Rightarrow> TxPayload \<Rightarrow> EntryFunctionCallV7
         option" where
  "v7_dec_donor_voice_txs_vote_veto_tx b payload = with_entry payload (\<lambda>script.
     Option.bind (arg_at script 0 (ds_addr b)) (\<lambda>multisig_address.
     Option.bind (arg_at script 1 (ds_u64 b)) (\<lambda>tx_id.
     Some (V7_DonorVoiceTxsVoteVetoTx multisig_address tx_id))))"

definition v7_dec_epoch_boundary_smoke_trigger_epoch :: "bcs \<Rightarrow> TxPayload \<Rightarrow>
         EntryFunctionCallV7 option" where
  "v7_dec_epoch_boundary_smoke_trigger_epoch b payload = with_entry payload (\<lambda>script. Some
         V7_EpochBoundarySmokeTriggerEpoch)"

definition v7_dec_jail_unjail_by_voucher :: "bcs \<Rightarrow> TxPayload \<Rightarrow> EntryFunctionCallV7 option"
         where
  "v7_dec_jail_unjail_by_voucher b payload = with_entry payload (\<lambda>script.
     Option.bind (arg_at script 0 (ds_addr b)) (\<lambda>addr.
     Some (V7_JailUnjailByVoucher addr)))"

definition v7_dec_libra_coin_claim_mint_capability :: "bcs \<Rightarrow> TxPayload \<Rightarrow>
         EntryFunctionCallV7 option" where
  "v7_dec_libra_coin_claim_mint_capability b payload = with_entry payload (\<lambda>script. Some
         V7_LibraCoinClaimMintCapability)"

definition v7_dec_libra_coin_delegate_mint_capability :: "bcs \<Rightarrow> TxPayload \<Rightarrow>
         EntryFunctionCallV7 option" where
  "v7_dec_libra_coin_delegate_mint_capability b payload = with_entry payload (\<lambda>script.
     Option.bind (arg_at script 0 (ds_addr b)) (\<lambda>to_account.
     Some (V7_LibraCoinDelegateMintCapability to_account)))"

definition v7_dec_libra_coin_mint_to_impl :: "bcs \<Rightarrow> TxPayload \<Rightarrow> EntryFunctionCallV7 option"
         where
  "v7_dec_libra_coin_mint_to_impl b payload = with_entry payload (\<lambda>script.
     Option.bind (arg_at script 0 (ds_addr b)) (\<lambda>dst_addr.
     Option.bind (arg_at script 1 (ds_u64 b)) (\<lambda>amount.
     Some (V7_LibraCoinMintToImpl dst_addr amount))))"

definition v7_dec_multi_action_claim_offer :: "bcs \<Rightarrow> TxPayload \<Rightarrow> EntryFunctionCallV7
         option" where
  "v7_dec_multi_action_claim_offer b payload = with_entry payload (\<lambda>script.
     Option.bind (arg_at script 0 (ds_addr b)) (\<lambda>multisig_address.
     Some (V7_MultiActionClaimOffer multisig_address)))"

definition v7_dec_multi_action_init_gov_deprecated :: "bcs \<Rightarrow> TxPayload \<Rightarrow>
         EntryFunctionCallV7 option" where
  "v7_dec_multi_action_init_gov_deprecated b payload = with_entry payload (\<lambda>script. Some
         V7_MultiActionInitGovDeprecated)"

definition v7_dec_multi_action_migration_migrate_offer :: "bcs \<Rightarrow> TxPayload \<Rightarrow>
         EntryFunctionCallV7 option" where
  "v7_dec_multi_action_migration_migrate_offer b payload = with_entry payload (\<lambda>script.
     Option.bind (arg_at script 0 (ds_addr b)) (\<lambda>multisig_address.
     Some (V7_MultiActionMigrationMigrateOffer multisig_address)))"

definition v7_dec_multisig_account_add_owner :: "bcs \<Rightarrow> TxPayload \<Rightarrow> EntryFunctionCallV7
         option" where
  "v7_dec_multisig_account_add_owner b payload = with_entry payload (\<lambda>script.
     Option.bind (arg_at script 0 (ds_addr b)) (\<lambda>new_owner.
     Some (V7_MultisigAccountAddOwner new_owner)))"

definition v7_dec_multisig_account_add_owners :: "bcs \<Rightarrow> TxPayload \<Rightarrow> EntryFunctionCallV7
         option" where
  "v7_dec_multisig_account_add_owners b payload = with_entry payload (\<lambda>script.
     Option.bind (arg_at script 0 (ds_addrs b)) (\<lambda>new_owners.
     Some (V7_MultisigAccountAddOwners new_owners)))"

definition v7_dec_multisig_account_approve_transaction :: "bcs \<Rightarrow> TxPayload \<Rightarrow>
         EntryFunctionCallV7 option" where
  "v7_dec_multisig_account_approve_transaction b payload = with_entry payload (\<lambda>script.
     Option.bind (arg_at script 0 (ds_addr b)) (\<lambda>multisig_account.
     Option.bind (arg_at script 1 (ds_u64 b)) (\<lambda>sequence_number.
     Some (V7_MultisigAccountApproveTransaction multisig_account sequence_number))))"

definition v7_dec_multisig_account_create :: "bcs \<Rightarrow> TxPayload \<Rightarrow> EntryFunctionCallV7 option"
         where
  "v7_dec_multisig_account_create b payload = with_entry payload (\<lambda>script.
     Option.bind (arg_at script 0 (ds_u64 b)) (\<lambda>num_signatures_required.
     Option.bind (arg_at script 1 (ds_bytess b)) (\<lambda>metadata_keys.
     Option.bind (arg_at script 2 (ds_bytess b)) (\<lambda>metadata_values.
     Some (V7_MultisigAccountCreate num_signatures_required metadata_keys metadata_values)))))"

definition v7_dec_multisig_account_create_transaction :: "bcs \<Rightarrow> TxPayload \<Rightarrow>
         EntryFunctionCallV7 option" where
  "v7_dec_multisig_account_create_transaction b payload = with_entry payload (\<lambda>script.
     Option.bind (arg_at script 0 (ds_addr b)) (\<lambda>multisig_account.
     Option.bind (arg_at script 1 (ds_bytes b)) (\<lambda>payload.
     Some (V7_MultisigAccountCreateTransaction multisig_account payload))))"

definition v7_dec_multisig_account_create_transaction_with_hash :: "bcs \<Rightarrow> TxPayload \<Rightarrow>
         EntryFunctionCallV7 option" where
  "v7_dec_multisig_account_create_transaction_with_hash b payload = with_entry payload (\<lambda>script.
     Option.bind (arg_at script 0 (ds_addr b)) (\<lambda>multisig_account.
     Option.bind (arg_at script 1 (ds_bytes b)) (\<lambda>payload_hash.
     Some (V7_MultisigAccountCreateTransactionWithHash multisig_account payload_hash))))"

definition v7_dec_multisig_account_create_with_existing_account :: "bcs \<Rightarrow> TxPayload \<Rightarrow>
         EntryFunctionCallV7 option" where
  "v7_dec_multisig_account_create_with_existing_account b payload = with_entry payload (\<lambda>script.
     Option.bind (arg_at script 0 (ds_addr b)) (\<lambda>multisig_address.
     Option.bind (arg_at script 1 (ds_addrs b)) (\<lambda>owners.
     Option.bind (arg_at script 2 (ds_u64 b)) (\<lambda>num_signatures_required.
     Option.bind (arg_at script 3 (ds_u8 b)) (\<lambda>account_scheme.
     Option.bind (arg_at script 4 (ds_bytes b)) (\<lambda>account_public_key.
     Option.bind (arg_at script 5 (ds_bytes b)) (\<lambda>create_multisig_account_signed_message.
     Option.bind (arg_at script 6 (ds_bytess b)) (\<lambda>metadata_keys.
     Option.bind (arg_at script 7 (ds_bytess b)) (\<lambda>metadata_values.
     Some (V7_MultisigAccountCreateWithExistingAccount multisig_address owners num_signatures_required
         account_scheme account_public_key create_multisig_account_signed_message metadata_keys
         metadata_values))))))))))"

definition v7_dec_multisig_account_create_with_owners :: "bcs \<Rightarrow> TxPayload \<Rightarrow>
         EntryFunctionCallV7 option" where
  "v7_dec_multisig_account_create_with_owners b payload = with_entry payload (\<lambda>script.
     Option.bind (arg_at script 0 (ds_addrs b)) (\<lambda>additional_owners.
     Option.bind (arg_at script 1 (ds_u64 b)) (\<lambda>num_signatures_required.
     Option.bind (arg_at script 2 (ds_bytess b)) (\<lambda>metadata_keys.
     Option.bind (arg_at script 3 (ds_bytess b)) (\<lambda>metadata_values.
     Some (V7_MultisigAccountCreateWithOwners additional_owners num_signatures_required metadata_keys
         metadata_values))))))"

definition v7_dec_multisig_account_execute_rejected_transaction :: "bcs \<Rightarrow> TxPayload \<Rightarrow>
         EntryFunctionCallV7 option" where
  "v7_dec_multisig_account_execute_rejected_transaction b payload = with_entry payload (\<lambda>script.
     Option.bind (arg_at script 0 (ds_addr b)) (\<lambda>multisig_account.
     Some (V7_MultisigAccountExecuteRejectedTransaction multisig_account)))"

definition v7_dec_multisig_account_migrate_with_owners :: "bcs \<Rightarrow> TxPayload \<Rightarrow>
         EntryFunctionCallV7 option" where
  "v7_dec_multisig_account_migrate_with_owners b payload = with_entry payload (\<lambda>script.
     Option.bind (arg_at script 0 (ds_addrs b)) (\<lambda>additional_owners.
     Option.bind (arg_at script 1 (ds_u64 b)) (\<lambda>num_signatures_required.
     Option.bind (arg_at script 2 (ds_bytess b)) (\<lambda>metadata_keys.
     Option.bind (arg_at script 3 (ds_bytess b)) (\<lambda>metadata_values.
     Some (V7_MultisigAccountMigrateWithOwners additional_owners num_signatures_required metadata_keys
         metadata_values))))))"

definition v7_dec_multisig_account_reject_transaction :: "bcs \<Rightarrow> TxPayload \<Rightarrow>
         EntryFunctionCallV7 option" where
  "v7_dec_multisig_account_reject_transaction b payload = with_entry payload (\<lambda>script.
     Option.bind (arg_at script 0 (ds_addr b)) (\<lambda>multisig_account.
     Option.bind (arg_at script 1 (ds_u64 b)) (\<lambda>sequence_number.
     Some (V7_MultisigAccountRejectTransaction multisig_account sequence_number))))"

definition v7_dec_multisig_account_remove_owner :: "bcs \<Rightarrow> TxPayload \<Rightarrow> EntryFunctionCallV7
         option" where
  "v7_dec_multisig_account_remove_owner b payload = with_entry payload (\<lambda>script.
     Option.bind (arg_at script 0 (ds_addr b)) (\<lambda>owner_to_remove.
     Some (V7_MultisigAccountRemoveOwner owner_to_remove)))"

definition v7_dec_multisig_account_remove_owners :: "bcs \<Rightarrow> TxPayload \<Rightarrow> EntryFunctionCallV7
         option" where
  "v7_dec_multisig_account_remove_owners b payload = with_entry payload (\<lambda>script.
     Option.bind (arg_at script 0 (ds_addrs b)) (\<lambda>owners_to_remove.
     Some (V7_MultisigAccountRemoveOwners owners_to_remove)))"

definition v7_dec_multisig_account_update_metadata :: "bcs \<Rightarrow> TxPayload \<Rightarrow>
         EntryFunctionCallV7 option" where
  "v7_dec_multisig_account_update_metadata b payload = with_entry payload (\<lambda>script.
     Option.bind (arg_at script 0 (ds_bytess b)) (\<lambda>keys.
     Option.bind (arg_at script 1 (ds_bytess b)) (\<lambda>values.
     Some (V7_MultisigAccountUpdateMetadata keys values))))"

definition v7_dec_multisig_account_update_signatures_required :: "bcs \<Rightarrow> TxPayload \<Rightarrow>
         EntryFunctionCallV7 option" where
  "v7_dec_multisig_account_update_signatures_required b payload = with_entry payload (\<lambda>script.
     Option.bind (arg_at script 0 (ds_u64 b)) (\<lambda>new_num_signatures_required.
     Some (V7_MultisigAccountUpdateSignaturesRequired new_num_signatures_required)))"

definition v7_dec_multisig_account_vote_transanction :: "bcs \<Rightarrow> TxPayload \<Rightarrow>
         EntryFunctionCallV7 option" where
  "v7_dec_multisig_account_vote_transanction b payload = with_entry payload (\<lambda>script.
     Option.bind (arg_at script 0 (ds_addr b)) (\<lambda>multisig_account.
     Option.bind (arg_at script 1 (ds_u64 b)) (\<lambda>sequence_number.
     Option.bind (arg_at script 2 (ds_bool b)) (\<lambda>approved.
     Some (V7_MultisigAccountVoteTransanction multisig_account sequence_number approved)))))"

definition v7_dec_object_transfer_call :: "bcs \<Rightarrow> TxPayload \<Rightarrow> EntryFunctionCallV7 option" where
  "v7_dec_object_transfer_call b payload = with_entry payload (\<lambda>script.
     Option.bind (arg_at script 0 (ds_addr b)) (\<lambda>object.
     Option.bind (arg_at script 1 (ds_addr b)) (\<lambda>to_account.
     Some (V7_ObjectTransferCall object to_account))))"

definition v7_dec_ol_account_create_account :: "bcs \<Rightarrow> TxPayload \<Rightarrow> EntryFunctionCallV7
         option" where
  "v7_dec_ol_account_create_account b payload = with_entry payload (\<lambda>script.
     Option.bind (arg_at script 0 (ds_addr b)) (\<lambda>auth_key.
     Some (V7_OlAccountCreateAccount auth_key)))"

definition v7_dec_ol_account_set_allow_direct_coin_transfers :: "bcs \<Rightarrow> TxPayload \<Rightarrow>
         EntryFunctionCallV7 option" where
  "v7_dec_ol_account_set_allow_direct_coin_transfers b payload = with_entry payload (\<lambda>script.
     Option.bind (arg_at script 0 (ds_bool b)) (\<lambda>allow.
     Some (V7_OlAccountSetAllowDirectCoinTransfers allow)))"

definition v7_dec_ol_account_transfer :: "bcs \<Rightarrow> TxPayload \<Rightarrow> EntryFunctionCallV7 option" where
  "v7_dec_ol_account_transfer b payload = with_entry payload (\<lambda>script.
     Option.bind (arg_at script 0 (ds_addr b)) (\<lambda>to_account.
     Option.bind (arg_at script 1 (ds_u64 b)) (\<lambda>amount.
     Some (V7_OlAccountTransfer to_account amount))))"

definition v7_dec_proof_of_fee_init_bidding :: "bcs \<Rightarrow> TxPayload \<Rightarrow> EntryFunctionCallV7
         option" where
  "v7_dec_proof_of_fee_init_bidding b payload = with_entry payload (\<lambda>script. Some V7_ProofOfFeeInitBidding)"

definition v7_dec_proof_of_fee_pof_retract_bid :: "bcs \<Rightarrow> TxPayload \<Rightarrow> EntryFunctionCallV7
         option" where
  "v7_dec_proof_of_fee_pof_retract_bid b payload = with_entry payload (\<lambda>script. Some
         V7_ProofOfFeePofRetractBid)"

definition v7_dec_proof_of_fee_pof_update_bid :: "bcs \<Rightarrow> TxPayload \<Rightarrow> EntryFunctionCallV7
         option" where
  "v7_dec_proof_of_fee_pof_update_bid b payload = with_entry payload (\<lambda>script.
     Option.bind (arg_at script 0 (ds_u64 b)) (\<lambda>bid.
     Option.bind (arg_at script 1 (ds_u64 b)) (\<lambda>epoch_expiry.
     Some (V7_ProofOfFeePofUpdateBid bid epoch_expiry))))"

definition v7_dec_safe_init_payment_multisig :: "bcs \<Rightarrow> TxPayload \<Rightarrow> EntryFunctionCallV7
         option" where
  "v7_dec_safe_init_payment_multisig b payload = with_entry payload (\<lambda>script.
     Option.bind (arg_at script 0 (ds_addrs b)) (\<lambda>authorities.
     Some (V7_SafeInitPaymentMultisig authorities)))"

definition v7_dec_slow_wallet_smoke_test_vm_unlock :: "bcs \<Rightarrow> TxPayload \<Rightarrow>
         EntryFunctionCallV7 option" where
  "v7_dec_slow_wallet_smoke_test_vm_unlock b payload = with_entry payload (\<lambda>script.
     Option.bind (arg_at script 0 (ds_addr b)) (\<lambda>user_addr.
     Option.bind (arg_at script 1 (ds_u64 b)) (\<lambda>unlocked.
     Option.bind (arg_at script 2 (ds_u64 b)) (\<lambda>transferred.
     Some (V7_SlowWalletSmokeTestVmUnlock user_addr unlocked transferred)))))"

definition v7_dec_slow_wallet_user_set_slow :: "bcs \<Rightarrow> TxPayload \<Rightarrow> EntryFunctionCallV7
         option" where
  "v7_dec_slow_wallet_user_set_slow b payload = with_entry payload (\<lambda>script. Some V7_SlowWalletUserSetSlow)"

definition v7_dec_stake_initialize_validator :: "bcs \<Rightarrow> TxPayload \<Rightarrow> EntryFunctionCallV7
         option" where
  "v7_dec_stake_initialize_validator b payload = with_entry payload (\<lambda>script.
     Option.bind (arg_at script 0 (ds_bytes b)) (\<lambda>consensus_pubkey.
     Option.bind (arg_at script 1 (ds_bytes b)) (\<lambda>proof_of_possession.
     Option.bind (arg_at script 2 (ds_bytes b)) (\<lambda>network_addresses.
     Option.bind (arg_at script 3 (ds_bytes b)) (\<lambda>fullnode_addresses.
     Some (V7_StakeInitializeValidator consensus_pubkey proof_of_possession network_addresses
         fullnode_addresses))))))"

definition v7_dec_stake_rotate_consensus_key :: "bcs \<Rightarrow> TxPayload \<Rightarrow> EntryFunctionCallV7
         option" where
  "v7_dec_stake_rotate_consensus_key b payload = with_entry payload (\<lambda>script.
     Option.bind (arg_at script 0 (ds_addr b)) (\<lambda>validator_address.
     Option.bind (arg_at script 1 (ds_bytes b)) (\<lambda>new_consensus_pubkey.
     Option.bind (arg_at script 2 (ds_bytes b)) (\<lambda>proof_of_possession.
     Some (V7_StakeRotateConsensusKey validator_address new_consensus_pubkey proof_of_possession)))))"

definition v7_dec_stake_update_network_and_fullnode_addresses :: "bcs \<Rightarrow> TxPayload \<Rightarrow>
         EntryFunctionCallV7 option" where
  "v7_dec_stake_update_network_and_fullnode_addresses b payload = with_entry payload (\<lambda>script.
     Option.bind (arg_at script 0 (ds_addr b)) (\<lambda>validator_address.
     Option.bind (arg_at script 1 (ds_bytes b)) (\<lambda>new_network_addresses.
     Option.bind (arg_at script 2 (ds_bytes b)) (\<lambda>new_fullnode_addresses.
     Some (V7_StakeUpdateNetworkAndFullnodeAddresses validator_address new_network_addresses
         new_fullnode_addresses)))))"

definition v7_dec_validator_universe_register_validator :: "bcs \<Rightarrow> TxPayload \<Rightarrow>
         EntryFunctionCallV7 option" where
  "v7_dec_validator_universe_register_validator b payload = with_entry payload (\<lambda>script.
     Option.bind (arg_at script 0 (ds_bytes b)) (\<lambda>consensus_pubkey.
     Option.bind (arg_at script 1 (ds_bytes b)) (\<lambda>proof_of_possession.
     Option.bind (arg_at script 2 (ds_bytes b)) (\<lambda>network_addresses.
     Option.bind (arg_at script 3 (ds_bytes b)) (\<lambda>fullnode_addresses.
     Some (V7_ValidatorUniverseRegisterValidator consensus_pubkey proof_of_possession network_addresses
         fullnode_addresses))))))"

definition v7_dec_version_set_version :: "bcs \<Rightarrow> TxPayload \<Rightarrow> EntryFunctionCallV7 option" where
  "v7_dec_version_set_version b payload = with_entry payload (\<lambda>script.
     Option.bind (arg_at script 0 (ds_u64 b)) (\<lambda>major.
     Some (V7_VersionSetVersion major)))"

definition v7_dec_vouch_insist_vouch_for :: "bcs \<Rightarrow> TxPayload \<Rightarrow> EntryFunctionCallV7 option"
         where
  "v7_dec_vouch_insist_vouch_for b payload = with_entry payload (\<lambda>script.
     Option.bind (arg_at script 0 (ds_addr b)) (\<lambda>friend_account.
     Some (V7_VouchInsistVouchFor friend_account)))"

definition v7_dec_vouch_revoke :: "bcs \<Rightarrow> TxPayload \<Rightarrow> EntryFunctionCallV7 option" where
  "v7_dec_vouch_revoke b payload = with_entry payload (\<lambda>script.
     Option.bind (arg_at script 0 (ds_addr b)) (\<lambda>friend_account.
     Some (V7_VouchRevoke friend_account)))"

definition v7_dec_vouch_vouch_for :: "bcs \<Rightarrow> TxPayload \<Rightarrow> EntryFunctionCallV7 option" where
  "v7_dec_vouch_vouch_for b payload = with_entry payload (\<lambda>script.
     Option.bind (arg_at script 0 (ds_addr b)) (\<lambda>friend_account.
     Some (V7_VouchVouchFor friend_account)))"

definition V7_SCRIPT_FUNCTION_DECODER_MAP :: "(string \<times> (bcs \<Rightarrow> TxPayload \<Rightarrow>
         EntryFunctionCallV7 option)) list" where
  "V7_SCRIPT_FUNCTION_DECODER_MAP =
     [(''account_offer_rotation_capability'', v7_dec_account_offer_rotation_capability),
      (''account_offer_signer_capability'', v7_dec_account_offer_signer_capability),
      (''account_revoke_any_rotation_capability'', v7_dec_account_revoke_any_rotation_capability),
      (''account_revoke_any_signer_capability'', v7_dec_account_revoke_any_signer_capability),
      (''account_revoke_rotation_capability'', v7_dec_account_revoke_rotation_capability),
      (''account_revoke_signer_capability'', v7_dec_account_revoke_signer_capability),
      (''account_rotate_authentication_key'', v7_dec_account_rotate_authentication_key),
      (''account_rotate_authentication_key_with_rotation_capability'',
         v7_dec_account_rotate_authentication_key_with_rotation_capability),
      (''burn_set_send_community'', v7_dec_burn_set_send_community),
      (''code_publish_package_txn'', v7_dec_code_publish_package_txn),
      (''coin_transfer'', v7_dec_coin_transfer),
      (''community_wallet_init_change_signer_community_multisig'',
         v7_dec_community_wallet_init_change_signer_community_multisig),
      (''community_wallet_init_finalize_and_cage'', v7_dec_community_wallet_init_finalize_and_cage),
      (''community_wallet_init_init_community'', v7_dec_community_wallet_init_init_community),
      (''community_wallet_init_propose_offer'', v7_dec_community_wallet_init_propose_offer),
      (''diem_governance_add_approved_script_hash_script'', v7_dec_diem_governance_add_approved_script_hash_script),
      (''diem_governance_assert_can_resolve'', v7_dec_diem_governance_assert_can_resolve),
      (''diem_governance_create_proposal_v2'', v7_dec_diem_governance_create_proposal_v2),
      (''diem_governance_ol_create_proposal_v2'', v7_dec_diem_governance_ol_create_proposal_v2),
      (''diem_governance_ol_vote'', v7_dec_diem_governance_ol_vote),
      (''diem_governance_smoke_trigger_epoch'', v7_dec_diem_governance_smoke_trigger_epoch),
      (''diem_governance_trigger_epoch'', v7_dec_diem_governance_trigger_epoch),
      (''diem_governance_vote'', v7_dec_diem_governance_vote),
      (''donor_voice_txs_propose_liquidate_tx'', v7_dec_donor_voice_txs_propose_liquidate_tx),
      (''donor_voice_txs_propose_payment_tx'', v7_dec_donor_voice_txs_propose_payment_tx),
      (''donor_voice_txs_propose_veto_tx'', v7_dec_donor_voice_txs_propose_veto_tx),
      (''donor_voice_txs_vote_liquidation_tx'', v7_dec_donor_voice_txs_vote_liquidation_tx),
      (''donor_voice_txs_vote_veto_tx'', v7_dec_donor_voice_txs_vote_veto_tx),
      (''epoch_boundary_smoke_trigger_epoch'', v7_dec_epoch_boundary_smoke_trigger_epoch),
      (''jail_unjail_by_voucher'', v7_dec_jail_unjail_by_voucher),
      (''libra_coin_claim_mint_capability'', v7_dec_libra_coin_claim_mint_capability),
      (''libra_coin_delegate_mint_capability'', v7_dec_libra_coin_delegate_mint_capability),
      (''libra_coin_mint_to_impl'', v7_dec_libra_coin_mint_to_impl),
      (''multi_action_claim_offer'', v7_dec_multi_action_claim_offer),
      (''multi_action_init_gov_deprecated'', v7_dec_multi_action_init_gov_deprecated),
      (''multi_action_migration_migrate_offer'', v7_dec_multi_action_migration_migrate_offer),
      (''multisig_account_add_owner'', v7_dec_multisig_account_add_owner),
      (''multisig_account_add_owners'', v7_dec_multisig_account_add_owners),
      (''multisig_account_approve_transaction'', v7_dec_multisig_account_approve_transaction),
      (''multisig_account_create'', v7_dec_multisig_account_create),
      (''multisig_account_create_transaction'', v7_dec_multisig_account_create_transaction),
      (''multisig_account_create_transaction_with_hash'', v7_dec_multisig_account_create_transaction_with_hash),
      (''multisig_account_create_with_existing_account'', v7_dec_multisig_account_create_with_existing_account),
      (''multisig_account_create_with_owners'', v7_dec_multisig_account_create_with_owners),
      (''multisig_account_execute_rejected_transaction'', v7_dec_multisig_account_execute_rejected_transaction),
      (''multisig_account_migrate_with_owners'', v7_dec_multisig_account_migrate_with_owners),
      (''multisig_account_reject_transaction'', v7_dec_multisig_account_reject_transaction),
      (''multisig_account_remove_owner'', v7_dec_multisig_account_remove_owner),
      (''multisig_account_remove_owners'', v7_dec_multisig_account_remove_owners),
      (''multisig_account_update_metadata'', v7_dec_multisig_account_update_metadata),
      (''multisig_account_update_signatures_required'', v7_dec_multisig_account_update_signatures_required),
      (''multisig_account_vote_transanction'', v7_dec_multisig_account_vote_transanction),
      (''object_transfer_call'', v7_dec_object_transfer_call),
      (''ol_account_create_account'', v7_dec_ol_account_create_account),
      (''ol_account_set_allow_direct_coin_transfers'', v7_dec_ol_account_set_allow_direct_coin_transfers),
      (''ol_account_transfer'', v7_dec_ol_account_transfer),
      (''proof_of_fee_init_bidding'', v7_dec_proof_of_fee_init_bidding),
      (''proof_of_fee_pof_retract_bid'', v7_dec_proof_of_fee_pof_retract_bid),
      (''proof_of_fee_pof_update_bid'', v7_dec_proof_of_fee_pof_update_bid),
      (''safe_init_payment_multisig'', v7_dec_safe_init_payment_multisig),
      (''slow_wallet_smoke_test_vm_unlock'', v7_dec_slow_wallet_smoke_test_vm_unlock),
      (''slow_wallet_user_set_slow'', v7_dec_slow_wallet_user_set_slow),
      (''stake_initialize_validator'', v7_dec_stake_initialize_validator),
      (''stake_rotate_consensus_key'', v7_dec_stake_rotate_consensus_key),
      (''stake_update_network_and_fullnode_addresses'', v7_dec_stake_update_network_and_fullnode_addresses),
      (''validator_universe_register_validator'', v7_dec_validator_universe_register_validator),
      (''version_set_version'', v7_dec_version_set_version),
      (''vouch_insist_vouch_for'', v7_dec_vouch_insist_vouch_for),
      (''vouch_revoke'', v7_dec_vouch_revoke),
      (''vouch_vouch_for'', v7_dec_vouch_vouch_for)]"

definition v7_decode :: "bcs \<Rightarrow> TxPayload \<Rightarrow> EntryFunctionCallV7 option" where
  "v7_decode b payload =
     with_entry payload (\<lambda>script.
       case map_of V7_SCRIPT_FUNCTION_DECODER_MAP (en_module script @ ''_'' @ en_function script) of
         Some decoder \<Rightarrow> decoder b payload
       | None \<Rightarrow> None)"

text \<open>The addresses a call carries.\<close>

primrec v7_call_addresses :: "EntryFunctionCallV7 \<Rightarrow> account_address list" where
    "v7_call_addresses (V7_AccountOfferRotationCapability rotation_capability_sig_bytes account_scheme
         account_public_key_bytes recipient_address) = [recipient_address]"
  | "v7_call_addresses (V7_AccountOfferSignerCapability signer_capability_sig_bytes account_scheme
         account_public_key_bytes recipient_address) = [recipient_address]"
  | "v7_call_addresses V7_AccountRevokeAnyRotationCapability = []"
  | "v7_call_addresses V7_AccountRevokeAnySignerCapability = []"
  | "v7_call_addresses (V7_AccountRevokeRotationCapability to_be_revoked_address) = [to_be_revoked_address]"
  | "v7_call_addresses (V7_AccountRevokeSignerCapability to_be_revoked_address) = [to_be_revoked_address]"
  | "v7_call_addresses (V7_AccountRotateAuthenticationKey from_scheme from_public_key_bytes to_scheme
         to_public_key_bytes cap_rotate_key cap_update_table) = []"
  | "v7_call_addresses (V7_AccountRotateAuthenticationKeyWithRotationCapability rotation_cap_offerer_address
         new_scheme new_public_key_bytes cap_update_table) = [rotation_cap_offerer_address]"
  | "v7_call_addresses (V7_BurnSetSendCommunity community) = []"
  | "v7_call_addresses (V7_CodePublishPackageTxn metadata_serialized code) = []"
  | "v7_call_addresses (V7_CoinTransfer coin_type to_account amount) = [to_account]"
  | "v7_call_addresses (V7_CommunityWalletInitChangeSignerCommunityMultisig multisig_address new_signer
         is_add_operation n_of_m vote_duration_epochs) = [multisig_address] @ [new_signer]"
  | "v7_call_addresses (V7_CommunityWalletInitFinalizeAndCage num_signers) = []"
  | "v7_call_addresses (V7_CommunityWalletInitInitCommunity initial_authorities check_threshold) =
         initial_authorities"
  | "v7_call_addresses (V7_CommunityWalletInitProposeOffer new_signers num_signers) = new_signers"
  | "v7_call_addresses (V7_DiemGovernanceAddApprovedScriptHashScript proposal_id) = []"
  | "v7_call_addresses (V7_DiemGovernanceAssertCanResolve proposal_id) = []"
  | "v7_call_addresses (V7_DiemGovernanceCreateProposalV2 execution_hash metadata_location metadata_hash
         is_multi_step_proposal) = []"
  | "v7_call_addresses (V7_DiemGovernanceOlCreateProposalV2 execution_hash metadata_location metadata_hash
         is_multi_step_proposal) = []"
  | "v7_call_addresses (V7_DiemGovernanceOlVote proposal_id should_pass) = []"
  | "v7_call_addresses V7_DiemGovernanceSmokeTriggerEpoch = []"
  | "v7_call_addresses V7_DiemGovernanceTriggerEpoch = []"
  | "v7_call_addresses (V7_DiemGovernanceVote proposal_id should_pass) = []"
  | "v7_call_addresses (V7_DonorVoiceTxsProposeLiquidateTx multisig_address) = [multisig_address]"
  | "v7_call_addresses (V7_DonorVoiceTxsProposePaymentTx multisig_address payee value description) =
         [multisig_address] @ [payee]"
  | "v7_call_addresses (V7_DonorVoiceTxsProposeVetoTx multisig_address tx_id) = [multisig_address]"
  | "v7_call_addresses (V7_DonorVoiceTxsVoteLiquidationTx multisig_address) = [multisig_address]"
  | "v7_call_addresses (V7_DonorVoiceTxsVoteVetoTx multisig_address tx_id) = [multisig_address]"
  | "v7_call_addresses V7_EpochBoundarySmokeTriggerEpoch = []"
  | "v7_call_addresses (V7_JailUnjailByVoucher addr) = [addr]"
  | "v7_call_addresses V7_LibraCoinClaimMintCapability = []"
  | "v7_call_addresses (V7_LibraCoinDelegateMintCapability to_account) = [to_account]"
  | "v7_call_addresses (V7_LibraCoinMintToImpl dst_addr amount) = [dst_addr]"
  | "v7_call_addresses (V7_MultiActionClaimOffer multisig_address) = [multisig_address]"
  | "v7_call_addresses V7_MultiActionInitGovDeprecated = []"
  | "v7_call_addresses (V7_MultiActionMigrationMigrateOffer multisig_address) = [multisig_address]"
  | "v7_call_addresses (V7_MultisigAccountAddOwner new_owner) = [new_owner]"
  | "v7_call_addresses (V7_MultisigAccountAddOwners new_owners) = new_owners"
  | "v7_call_addresses (V7_MultisigAccountApproveTransaction multisig_account sequence_number) = [multisig_account]"
  | "v7_call_addresses (V7_MultisigAccountCreate num_signatures_required metadata_keys metadata_values) = []"
  | "v7_call_addresses (V7_MultisigAccountCreateTransaction multisig_account payload) = [multisig_account]"
  | "v7_call_addresses (V7_MultisigAccountCreateTransactionWithHash multisig_account payload_hash) =
         [multisig_account]"
  | "v7_call_addresses (V7_MultisigAccountCreateWithExistingAccount multisig_address owners num_signatures_required
         account_scheme account_public_key create_multisig_account_signed_message metadata_keys metadata_values) =
         [multisig_address] @ owners"
  | "v7_call_addresses (V7_MultisigAccountCreateWithOwners additional_owners num_signatures_required metadata_keys
         metadata_values) = additional_owners"
  | "v7_call_addresses (V7_MultisigAccountExecuteRejectedTransaction multisig_account) = [multisig_account]"
  | "v7_call_addresses (V7_MultisigAccountMigrateWithOwners additional_owners num_signatures_required metadata_keys
         metadata_values) = additional_owners"
  | "v7_call_addresses (V7_MultisigAccountRejectTransaction multisig_account sequence_number) = [multisig_account]"
  | "v7_call_addresses (V7_MultisigAccountRemoveOwner owner_to_remove) = [owner_to_remove]"
  | "v7_call_addresses (V7_MultisigAccountRemoveOwners owners_to_remove) = owners_to_remove"
  | "v7_call_addresses (V7_MultisigAccountUpdateMetadata keys values) = []"
  | "v7_call_addresses (V7_MultisigAccountUpdateSignaturesRequired new_num_signatures_required) = []"
  | "v7_call_addresses (V7_MultisigAccountVoteTransanction multisig_account sequence_number approved) =
         [multisig_account]"
  | "v7_call_addresses (V7_ObjectTransferCall object to_account) = [object] @ [to_account]"
  | "v7_call_addresses (V7_OlAccountCreateAccount auth_key) = [auth_key]"
  | "v7_call_addresses (V7_OlAccountSetAllowDirectCoinTransfers allow) = []"
  | "v7_call_addresses (V7_OlAccountTransfer to_account amount) = [to_account]"
  | "v7_call_addresses V7_ProofOfFeeInitBidding = []"
  | "v7_call_addresses V7_ProofOfFeePofRetractBid = []"
  | "v7_call_addresses (V7_ProofOfFeePofUpdateBid bid epoch_expiry) = []"
  | "v7_call_addresses (V7_SafeInitPaymentMultisig authorities) = authorities"
  | "v7_call_addresses (V7_SlowWalletSmokeTestVmUnlock user_addr unlocked transferred) = [user_addr]"
  | "v7_call_addresses V7_SlowWalletUserSetSlow = []"
  | "v7_call_addresses (V7_StakeInitializeValidator consensus_pubkey proof_of_possession network_addresses
         fullnode_addresses) = []"
  | "v7_call_addresses (V7_StakeRotateConsensusKey validator_address new_consensus_pubkey proof_of_possession) =
         [validator_address]"
  | "v7_call_addresses (V7_StakeUpdateNetworkAndFullnodeAddresses validator_address new_network_addresses
         new_fullnode_addresses) = [validator_address]"
  | "v7_call_addresses (V7_ValidatorUniverseRegisterValidator consensus_pubkey proof_of_possession
         network_addresses fullnode_addresses) = []"
  | "v7_call_addresses (V7_VersionSetVersion major) = []"
  | "v7_call_addresses (V7_VouchInsistVouchFor friend_account) = [friend_account]"
  | "v7_call_addresses (V7_VouchRevoke friend_account) = [friend_account]"
  | "v7_call_addresses (V7_VouchVouchFor friend_account) = [friend_account]"

text \<open>The call of the current release that a call of version seven is, if there is one.\<close>

primrec v7_upgrade :: "EntryFunctionCallV7 \<Rightarrow> EntryFunctionCall option" where
    "v7_upgrade (V7_AccountOfferRotationCapability rotation_capability_sig_bytes account_scheme
         account_public_key_bytes recipient_address) = Some (AccountOfferRotationCapability
         rotation_capability_sig_bytes account_scheme account_public_key_bytes recipient_address)"
  | "v7_upgrade (V7_AccountOfferSignerCapability _ _ _ _) = None"
  | "v7_upgrade V7_AccountRevokeAnyRotationCapability = None"
  | "v7_upgrade V7_AccountRevokeAnySignerCapability = None"
  | "v7_upgrade (V7_AccountRevokeRotationCapability to_be_revoked_address) = Some (AccountRevokeRotationCapability
         to_be_revoked_address)"
  | "v7_upgrade (V7_AccountRevokeSignerCapability _) = None"
  | "v7_upgrade (V7_AccountRotateAuthenticationKey from_scheme from_public_key_bytes to_scheme to_public_key_bytes
         cap_rotate_key cap_update_table) = Some (AccountRotateAuthenticationKey from_scheme from_public_key_bytes
         to_scheme to_public_key_bytes cap_rotate_key cap_update_table)"
  | "v7_upgrade (V7_AccountRotateAuthenticationKeyWithRotationCapability rotation_cap_offerer_address new_scheme
         new_public_key_bytes cap_update_table) = Some (AccountRotateAuthenticationKeyWithRotationCapability
         rotation_cap_offerer_address new_scheme new_public_key_bytes cap_update_table)"
  | "v7_upgrade (V7_BurnSetSendCommunity community) = Some (BurnSetSendCommunity community)"
  | "v7_upgrade (V7_CodePublishPackageTxn metadata_serialized code) = Some (CodePublishPackageTxn
         metadata_serialized code)"
  | "v7_upgrade (V7_CoinTransfer _ _ _) = None"
  | "v7_upgrade (V7_CommunityWalletInitChangeSignerCommunityMultisig multisig_address new_signer is_add_operation
         n_of_m vote_duration_epochs) = Some (CommunityWalletInitChangeSignerCommunityMultisig multisig_address
         new_signer is_add_operation n_of_m vote_duration_epochs)"
  | "v7_upgrade (V7_CommunityWalletInitFinalizeAndCage num_signers) = Some (CommunityWalletInitFinalizeAndCage
         num_signers)"
  | "v7_upgrade (V7_CommunityWalletInitInitCommunity initial_authorities check_threshold) = Some
         (CommunityWalletInitInitCommunity initial_authorities check_threshold)"
  | "v7_upgrade (V7_CommunityWalletInitProposeOffer new_signers num_signers) = Some
         (CommunityWalletInitProposeOffer new_signers num_signers)"
  | "v7_upgrade (V7_DiemGovernanceAddApprovedScriptHashScript _) = None"
  | "v7_upgrade (V7_DiemGovernanceAssertCanResolve _) = None"
  | "v7_upgrade (V7_DiemGovernanceCreateProposalV2 _ _ _ _) = None"
  | "v7_upgrade (V7_DiemGovernanceOlCreateProposalV2 execution_hash metadata_location metadata_hash
         is_multi_step_proposal) = Some (DiemGovernanceOlCreateProposalV2 execution_hash metadata_location
         metadata_hash is_multi_step_proposal)"
  | "v7_upgrade (V7_DiemGovernanceOlVote proposal_id should_pass) = Some (DiemGovernanceOlVote proposal_id
         should_pass)"
  | "v7_upgrade V7_DiemGovernanceSmokeTriggerEpoch = Some DiemGovernanceSmokeTriggerEpoch"
  | "v7_upgrade V7_DiemGovernanceTriggerEpoch = Some DiemGovernanceTriggerEpoch"
  | "v7_upgrade (V7_DiemGovernanceVote _ _) = None"
  | "v7_upgrade (V7_DonorVoiceTxsProposeLiquidateTx multisig_address) = Some (DonorVoiceTxsProposeLiquidateTx
         multisig_address)"
  | "v7_upgrade (V7_DonorVoiceTxsProposePaymentTx _ _ _ _) = None"
  | "v7_upgrade (V7_DonorVoiceTxsProposeVetoTx multisig_address tx_id) = Some (DonorVoiceTxsProposeVetoTx
         multisig_address tx_id)"
  | "v7_upgrade (V7_DonorVoiceTxsVoteLiquidationTx multisig_address) = Some (DonorVoiceTxsVoteLiquidationTx
         multisig_address)"
  | "v7_upgrade (V7_DonorVoiceTxsVoteVetoTx _ _) = None"
  | "v7_upgrade V7_EpochBoundarySmokeTriggerEpoch = Some EpochBoundarySmokeTriggerEpoch"
  | "v7_upgrade (V7_JailUnjailByVoucher addr) = Some (JailUnjailByVoucher addr)"
  | "v7_upgrade V7_LibraCoinClaimMintCapability = None"
  | "v7_upgrade (V7_LibraCoinDelegateMintCapability _) = None"
  | "v7_upgrade (V7_LibraCoinMintToImpl dst_addr amount) = Some (LibraCoinMintToImpl dst_addr amount)"
  | "v7_upgrade (V7_MultiActionClaimOffer multisig_address) = Some (MultiActionClaimOffer multisig_address)"
  | "v7_upgrade V7_MultiActionInitGovDeprecated = Some MultiActionInitGovDeprecated"
  | "v7_upgrade (V7_MultiActionMigrationMigrateOffer _) = None"
  | "v7_upgrade (V7_MultisigAccountAddOwner new_owner) = Some (MultisigAccountAddOwner new_owner)"
  | "v7_upgrade (V7_MultisigAccountAddOwners new_owners) = Some (MultisigAccountAddOwners new_owners)"
  | "v7_upgrade (V7_MultisigAccountApproveTransaction _ _) = None"
  | "v7_upgrade (V7_MultisigAccountCreate _ _ _) = None"
  | "v7_upgrade (V7_MultisigAccountCreateTransaction _ _) = None"
  | "v7_upgrade (V7_MultisigAccountCreateTransactionWithHash _ _) = None"
  | "v7_upgrade (V7_MultisigAccountCreateWithExistingAccount _ _ _ _ _ _ _ _) = None"
  | "v7_upgrade (V7_MultisigAccountCreateWithOwners _ _ _ _) = None"
  | "v7_upgrade (V7_MultisigAccountExecuteRejectedTransaction _) = None"
  | "v7_upgrade (V7_MultisigAccountMigrateWithOwners _ _ _ _) = None"
  | "v7_upgrade (V7_MultisigAccountRejectTransaction _ _) = None"
  | "v7_upgrade (V7_MultisigAccountRemoveOwner owner_to_remove) = Some (MultisigAccountRemoveOwner owner_to_remove)"
  | "v7_upgrade (V7_MultisigAccountRemoveOwners owners_to_remove) = Some (MultisigAccountRemoveOwners
         owners_to_remove)"
  | "v7_upgrade (V7_MultisigAccountUpdateMetadata keys values) = Some (MultisigAccountUpdateMetadata keys values)"
  | "v7_upgrade (V7_MultisigAccountUpdateSignaturesRequired new_num_signatures_required) = Some
         (MultisigAccountUpdateSignaturesRequired new_num_signatures_required)"
  | "v7_upgrade (V7_MultisigAccountVoteTransanction _ _ _) = None"
  | "v7_upgrade (V7_ObjectTransferCall _ _) = None"
  | "v7_upgrade (V7_OlAccountCreateAccount auth_key) = Some (OlAccountCreateAccount auth_key)"
  | "v7_upgrade (V7_OlAccountSetAllowDirectCoinTransfers _) = None"
  | "v7_upgrade (V7_OlAccountTransfer to_account amount) = Some (OlAccountTransfer to_account amount)"
  | "v7_upgrade V7_ProofOfFeeInitBidding = None"
  | "v7_upgrade V7_ProofOfFeePofRetractBid = Some ProofOfFeePofRetractBid"
  | "v7_upgrade (V7_ProofOfFeePofUpdateBid bid epoch_expiry) = Some (ProofOfFeePofUpdateBid bid epoch_expiry)"
  | "v7_upgrade (V7_SafeInitPaymentMultisig _) = None"
  | "v7_upgrade (V7_SlowWalletSmokeTestVmUnlock user_addr unlocked transferred) = Some (SlowWalletSmokeTestVmUnlock
         user_addr unlocked transferred)"
  | "v7_upgrade V7_SlowWalletUserSetSlow = Some SlowWalletUserSetSlow"
  | "v7_upgrade (V7_StakeInitializeValidator consensus_pubkey proof_of_possession network_addresses
         fullnode_addresses) = Some (StakeInitializeValidator consensus_pubkey proof_of_possession
         network_addresses fullnode_addresses)"
  | "v7_upgrade (V7_StakeRotateConsensusKey _ _ _) = None"
  | "v7_upgrade (V7_StakeUpdateNetworkAndFullnodeAddresses validator_address new_network_addresses
         new_fullnode_addresses) = Some (StakeUpdateNetworkAndFullnodeAddresses validator_address
         new_network_addresses new_fullnode_addresses)"
  | "v7_upgrade (V7_ValidatorUniverseRegisterValidator consensus_pubkey proof_of_possession network_addresses
         fullnode_addresses) = Some (ValidatorUniverseRegisterValidator consensus_pubkey proof_of_possession
         network_addresses fullnode_addresses)"
  | "v7_upgrade (V7_VersionSetVersion _) = None"
  | "v7_upgrade (V7_VouchInsistVouchFor _) = None"
  | "v7_upgrade (V7_VouchRevoke _) = None"
  | "v7_upgrade (V7_VouchVouchFor _) = None"

lemma v7_keys_distinct: "distinct (map fst V7_SCRIPT_FUNCTION_DECODER_MAP)"
  by code_simp

lemma v7_decoder_lookup:
  "map_of V7_SCRIPT_FUNCTION_DECODER_MAP ''account_offer_rotation_capability'' = Some
         v7_dec_account_offer_rotation_capability"
  "map_of V7_SCRIPT_FUNCTION_DECODER_MAP ''account_offer_signer_capability'' = Some
         v7_dec_account_offer_signer_capability"
  "map_of V7_SCRIPT_FUNCTION_DECODER_MAP ''account_revoke_any_rotation_capability'' = Some
         v7_dec_account_revoke_any_rotation_capability"
  "map_of V7_SCRIPT_FUNCTION_DECODER_MAP ''account_revoke_any_signer_capability'' = Some
         v7_dec_account_revoke_any_signer_capability"
  "map_of V7_SCRIPT_FUNCTION_DECODER_MAP ''account_revoke_rotation_capability'' = Some
         v7_dec_account_revoke_rotation_capability"
  "map_of V7_SCRIPT_FUNCTION_DECODER_MAP ''account_revoke_signer_capability'' = Some
         v7_dec_account_revoke_signer_capability"
  "map_of V7_SCRIPT_FUNCTION_DECODER_MAP ''account_rotate_authentication_key'' = Some
         v7_dec_account_rotate_authentication_key"
  "map_of V7_SCRIPT_FUNCTION_DECODER_MAP ''account_rotate_authentication_key_with_rotation_capability'' = Some
         v7_dec_account_rotate_authentication_key_with_rotation_capability"
  "map_of V7_SCRIPT_FUNCTION_DECODER_MAP ''burn_set_send_community'' = Some v7_dec_burn_set_send_community"
  "map_of V7_SCRIPT_FUNCTION_DECODER_MAP ''code_publish_package_txn'' = Some v7_dec_code_publish_package_txn"
  "map_of V7_SCRIPT_FUNCTION_DECODER_MAP ''coin_transfer'' = Some v7_dec_coin_transfer"
  "map_of V7_SCRIPT_FUNCTION_DECODER_MAP ''community_wallet_init_change_signer_community_multisig'' = Some
         v7_dec_community_wallet_init_change_signer_community_multisig"
  "map_of V7_SCRIPT_FUNCTION_DECODER_MAP ''community_wallet_init_finalize_and_cage'' = Some
         v7_dec_community_wallet_init_finalize_and_cage"
  "map_of V7_SCRIPT_FUNCTION_DECODER_MAP ''community_wallet_init_init_community'' = Some
         v7_dec_community_wallet_init_init_community"
  "map_of V7_SCRIPT_FUNCTION_DECODER_MAP ''community_wallet_init_propose_offer'' = Some
         v7_dec_community_wallet_init_propose_offer"
  "map_of V7_SCRIPT_FUNCTION_DECODER_MAP ''diem_governance_add_approved_script_hash_script'' = Some
         v7_dec_diem_governance_add_approved_script_hash_script"
  "map_of V7_SCRIPT_FUNCTION_DECODER_MAP ''diem_governance_assert_can_resolve'' = Some
         v7_dec_diem_governance_assert_can_resolve"
  "map_of V7_SCRIPT_FUNCTION_DECODER_MAP ''diem_governance_create_proposal_v2'' = Some
         v7_dec_diem_governance_create_proposal_v2"
  "map_of V7_SCRIPT_FUNCTION_DECODER_MAP ''diem_governance_ol_create_proposal_v2'' = Some
         v7_dec_diem_governance_ol_create_proposal_v2"
  "map_of V7_SCRIPT_FUNCTION_DECODER_MAP ''diem_governance_ol_vote'' = Some v7_dec_diem_governance_ol_vote"
  "map_of V7_SCRIPT_FUNCTION_DECODER_MAP ''diem_governance_smoke_trigger_epoch'' = Some
         v7_dec_diem_governance_smoke_trigger_epoch"
  "map_of V7_SCRIPT_FUNCTION_DECODER_MAP ''diem_governance_trigger_epoch'' = Some
         v7_dec_diem_governance_trigger_epoch"
  "map_of V7_SCRIPT_FUNCTION_DECODER_MAP ''diem_governance_vote'' = Some v7_dec_diem_governance_vote"
  "map_of V7_SCRIPT_FUNCTION_DECODER_MAP ''donor_voice_txs_propose_liquidate_tx'' = Some
         v7_dec_donor_voice_txs_propose_liquidate_tx"
  "map_of V7_SCRIPT_FUNCTION_DECODER_MAP ''donor_voice_txs_propose_payment_tx'' = Some
         v7_dec_donor_voice_txs_propose_payment_tx"
  "map_of V7_SCRIPT_FUNCTION_DECODER_MAP ''donor_voice_txs_propose_veto_tx'' = Some
         v7_dec_donor_voice_txs_propose_veto_tx"
  "map_of V7_SCRIPT_FUNCTION_DECODER_MAP ''donor_voice_txs_vote_liquidation_tx'' = Some
         v7_dec_donor_voice_txs_vote_liquidation_tx"
  "map_of V7_SCRIPT_FUNCTION_DECODER_MAP ''donor_voice_txs_vote_veto_tx'' = Some v7_dec_donor_voice_txs_vote_veto_tx"
  "map_of V7_SCRIPT_FUNCTION_DECODER_MAP ''epoch_boundary_smoke_trigger_epoch'' = Some
         v7_dec_epoch_boundary_smoke_trigger_epoch"
  "map_of V7_SCRIPT_FUNCTION_DECODER_MAP ''jail_unjail_by_voucher'' = Some v7_dec_jail_unjail_by_voucher"
  "map_of V7_SCRIPT_FUNCTION_DECODER_MAP ''libra_coin_claim_mint_capability'' = Some
         v7_dec_libra_coin_claim_mint_capability"
  "map_of V7_SCRIPT_FUNCTION_DECODER_MAP ''libra_coin_delegate_mint_capability'' = Some
         v7_dec_libra_coin_delegate_mint_capability"
  "map_of V7_SCRIPT_FUNCTION_DECODER_MAP ''libra_coin_mint_to_impl'' = Some v7_dec_libra_coin_mint_to_impl"
  "map_of V7_SCRIPT_FUNCTION_DECODER_MAP ''multi_action_claim_offer'' = Some v7_dec_multi_action_claim_offer"
  "map_of V7_SCRIPT_FUNCTION_DECODER_MAP ''multi_action_init_gov_deprecated'' = Some
         v7_dec_multi_action_init_gov_deprecated"
  "map_of V7_SCRIPT_FUNCTION_DECODER_MAP ''multi_action_migration_migrate_offer'' = Some
         v7_dec_multi_action_migration_migrate_offer"
  "map_of V7_SCRIPT_FUNCTION_DECODER_MAP ''multisig_account_add_owner'' = Some v7_dec_multisig_account_add_owner"
  "map_of V7_SCRIPT_FUNCTION_DECODER_MAP ''multisig_account_add_owners'' = Some v7_dec_multisig_account_add_owners"
  "map_of V7_SCRIPT_FUNCTION_DECODER_MAP ''multisig_account_approve_transaction'' = Some
         v7_dec_multisig_account_approve_transaction"
  "map_of V7_SCRIPT_FUNCTION_DECODER_MAP ''multisig_account_create'' = Some v7_dec_multisig_account_create"
  "map_of V7_SCRIPT_FUNCTION_DECODER_MAP ''multisig_account_create_transaction'' = Some
         v7_dec_multisig_account_create_transaction"
  "map_of V7_SCRIPT_FUNCTION_DECODER_MAP ''multisig_account_create_transaction_with_hash'' = Some
         v7_dec_multisig_account_create_transaction_with_hash"
  "map_of V7_SCRIPT_FUNCTION_DECODER_MAP ''multisig_account_create_with_existing_account'' = Some
         v7_dec_multisig_account_create_with_existing_account"
  "map_of V7_SCRIPT_FUNCTION_DECODER_MAP ''multisig_account_create_with_owners'' = Some
         v7_dec_multisig_account_create_with_owners"
  "map_of V7_SCRIPT_FUNCTION_DECODER_MAP ''multisig_account_execute_rejected_transaction'' = Some
         v7_dec_multisig_account_execute_rejected_transaction"
  "map_of V7_SCRIPT_FUNCTION_DECODER_MAP ''multisig_account_migrate_with_owners'' = Some
         v7_dec_multisig_account_migrate_with_owners"
  "map_of V7_SCRIPT_FUNCTION_DECODER_MAP ''multisig_account_reject_transaction'' = Some
         v7_dec_multisig_account_reject_transaction"
  "map_of V7_SCRIPT_FUNCTION_DECODER_MAP ''multisig_account_remove_owner'' = Some
         v7_dec_multisig_account_remove_owner"
  "map_of V7_SCRIPT_FUNCTION_DECODER_MAP ''multisig_account_remove_owners'' = Some
         v7_dec_multisig_account_remove_owners"
  "map_of V7_SCRIPT_FUNCTION_DECODER_MAP ''multisig_account_update_metadata'' = Some
         v7_dec_multisig_account_update_metadata"
  "map_of V7_SCRIPT_FUNCTION_DECODER_MAP ''multisig_account_update_signatures_required'' = Some
         v7_dec_multisig_account_update_signatures_required"
  "map_of V7_SCRIPT_FUNCTION_DECODER_MAP ''multisig_account_vote_transanction'' = Some
         v7_dec_multisig_account_vote_transanction"
  "map_of V7_SCRIPT_FUNCTION_DECODER_MAP ''object_transfer_call'' = Some v7_dec_object_transfer_call"
  "map_of V7_SCRIPT_FUNCTION_DECODER_MAP ''ol_account_create_account'' = Some v7_dec_ol_account_create_account"
  "map_of V7_SCRIPT_FUNCTION_DECODER_MAP ''ol_account_set_allow_direct_coin_transfers'' = Some
         v7_dec_ol_account_set_allow_direct_coin_transfers"
  "map_of V7_SCRIPT_FUNCTION_DECODER_MAP ''ol_account_transfer'' = Some v7_dec_ol_account_transfer"
  "map_of V7_SCRIPT_FUNCTION_DECODER_MAP ''proof_of_fee_init_bidding'' = Some v7_dec_proof_of_fee_init_bidding"
  "map_of V7_SCRIPT_FUNCTION_DECODER_MAP ''proof_of_fee_pof_retract_bid'' = Some v7_dec_proof_of_fee_pof_retract_bid"
  "map_of V7_SCRIPT_FUNCTION_DECODER_MAP ''proof_of_fee_pof_update_bid'' = Some v7_dec_proof_of_fee_pof_update_bid"
  "map_of V7_SCRIPT_FUNCTION_DECODER_MAP ''safe_init_payment_multisig'' = Some v7_dec_safe_init_payment_multisig"
  "map_of V7_SCRIPT_FUNCTION_DECODER_MAP ''slow_wallet_smoke_test_vm_unlock'' = Some
         v7_dec_slow_wallet_smoke_test_vm_unlock"
  "map_of V7_SCRIPT_FUNCTION_DECODER_MAP ''slow_wallet_user_set_slow'' = Some v7_dec_slow_wallet_user_set_slow"
  "map_of V7_SCRIPT_FUNCTION_DECODER_MAP ''stake_initialize_validator'' = Some v7_dec_stake_initialize_validator"
  "map_of V7_SCRIPT_FUNCTION_DECODER_MAP ''stake_rotate_consensus_key'' = Some v7_dec_stake_rotate_consensus_key"
  "map_of V7_SCRIPT_FUNCTION_DECODER_MAP ''stake_update_network_and_fullnode_addresses'' = Some
         v7_dec_stake_update_network_and_fullnode_addresses"
  "map_of V7_SCRIPT_FUNCTION_DECODER_MAP ''validator_universe_register_validator'' = Some
         v7_dec_validator_universe_register_validator"
  "map_of V7_SCRIPT_FUNCTION_DECODER_MAP ''version_set_version'' = Some v7_dec_version_set_version"
  "map_of V7_SCRIPT_FUNCTION_DECODER_MAP ''vouch_insist_vouch_for'' = Some v7_dec_vouch_insist_vouch_for"
  "map_of V7_SCRIPT_FUNCTION_DECODER_MAP ''vouch_revoke'' = Some v7_dec_vouch_revoke"
  "map_of V7_SCRIPT_FUNCTION_DECODER_MAP ''vouch_vouch_for'' = Some v7_dec_vouch_vouch_for"
  by (rule map_of_is_SomeI[OF v7_keys_distinct];
      subst V7_SCRIPT_FUNCTION_DECODER_MAP_def; (rule list.set_intros)+)+

text \<open>The entry functions of version seven that the current release has no decoder for.\<close>

definition retired_keys :: "string list" where
  "retired_keys =
     [''account_offer_signer_capability'', ''account_revoke_any_rotation_capability'',
      ''account_revoke_any_signer_capability'', ''account_revoke_signer_capability'', ''coin_transfer'',
      ''diem_governance_add_approved_script_hash_script'', ''diem_governance_assert_can_resolve'',
      ''diem_governance_create_proposal_v2'', ''diem_governance_vote'', ''donor_voice_txs_vote_veto_tx'',
      ''libra_coin_claim_mint_capability'', ''libra_coin_delegate_mint_capability'',
      ''multi_action_migration_migrate_offer'', ''multisig_account_approve_transaction'',
      ''multisig_account_create'', ''multisig_account_create_transaction'',
      ''multisig_account_create_transaction_with_hash'',
      ''multisig_account_create_with_existing_account'', ''multisig_account_create_with_owners'',
      ''multisig_account_execute_rejected_transaction'', ''multisig_account_migrate_with_owners'',
      ''multisig_account_reject_transaction'', ''multisig_account_vote_transanction'',
      ''object_transfer_call'', ''ol_account_set_allow_direct_coin_transfers'',
      ''proof_of_fee_init_bidding'', ''safe_init_payment_multisig'', ''stake_rotate_consensus_key'',
      ''version_set_version'', ''vouch_insist_vouch_for'', ''vouch_revoke'', ''vouch_vouch_for'']"

lemma retired_keys_gone: "list_all (\<lambda>k. k \<notin> set (map fst SCRIPT_FUNCTION_DECODER_MAP)) retired_keys"
  by code_simp

lemma retired_None: "k \<in> set retired_keys \<Longrightarrow> map_of SCRIPT_FUNCTION_DECODER_MAP k = None"
  using retired_keys_gone by (simp add: list_all_iff map_of_eq_None_iff)

lemma retired_lookup:
  "map_of SCRIPT_FUNCTION_DECODER_MAP ''account_offer_signer_capability'' = None"
  "map_of SCRIPT_FUNCTION_DECODER_MAP ''account_revoke_any_rotation_capability'' = None"
  "map_of SCRIPT_FUNCTION_DECODER_MAP ''account_revoke_any_signer_capability'' = None"
  "map_of SCRIPT_FUNCTION_DECODER_MAP ''account_revoke_signer_capability'' = None"
  "map_of SCRIPT_FUNCTION_DECODER_MAP ''coin_transfer'' = None"
  "map_of SCRIPT_FUNCTION_DECODER_MAP ''diem_governance_add_approved_script_hash_script'' = None"
  "map_of SCRIPT_FUNCTION_DECODER_MAP ''diem_governance_assert_can_resolve'' = None"
  "map_of SCRIPT_FUNCTION_DECODER_MAP ''diem_governance_create_proposal_v2'' = None"
  "map_of SCRIPT_FUNCTION_DECODER_MAP ''diem_governance_vote'' = None"
  "map_of SCRIPT_FUNCTION_DECODER_MAP ''donor_voice_txs_vote_veto_tx'' = None"
  "map_of SCRIPT_FUNCTION_DECODER_MAP ''libra_coin_claim_mint_capability'' = None"
  "map_of SCRIPT_FUNCTION_DECODER_MAP ''libra_coin_delegate_mint_capability'' = None"
  "map_of SCRIPT_FUNCTION_DECODER_MAP ''multi_action_migration_migrate_offer'' = None"
  "map_of SCRIPT_FUNCTION_DECODER_MAP ''multisig_account_approve_transaction'' = None"
  "map_of SCRIPT_FUNCTION_DECODER_MAP ''multisig_account_create'' = None"
  "map_of SCRIPT_FUNCTION_DECODER_MAP ''multisig_account_create_transaction'' = None"
  "map_of SCRIPT_FUNCTION_DECODER_MAP ''multisig_account_create_transaction_with_hash'' = None"
  "map_of SCRIPT_FUNCTION_DECODER_MAP ''multisig_account_create_with_existing_account'' = None"
  "map_of SCRIPT_FUNCTION_DECODER_MAP ''multisig_account_create_with_owners'' = None"
  "map_of SCRIPT_FUNCTION_DECODER_MAP ''multisig_account_execute_rejected_transaction'' = None"
  "map_of SCRIPT_FUNCTION_DECODER_MAP ''multisig_account_migrate_with_owners'' = None"
  "map_of SCRIPT_FUNCTION_DECODER_MAP ''multisig_account_reject_transaction'' = None"
  "map_of SCRIPT_FUNCTION_DECODER_MAP ''multisig_account_vote_transanction'' = None"
  "map_of SCRIPT_FUNCTION_DECODER_MAP ''object_transfer_call'' = None"
  "map_of SCRIPT_FUNCTION_DECODER_MAP ''ol_account_set_allow_direct_coin_transfers'' = None"
  "map_of SCRIPT_FUNCTION_DECODER_MAP ''proof_of_fee_init_bidding'' = None"
  "map_of SCRIPT_FUNCTION_DECODER_MAP ''safe_init_payment_multisig'' = None"
  "map_of SCRIPT_FUNCTION_DECODER_MAP ''stake_rotate_consensus_key'' = None"
  "map_of SCRIPT_FUNCTION_DECODER_MAP ''version_set_version'' = None"
  "map_of SCRIPT_FUNCTION_DECODER_MAP ''vouch_insist_vouch_for'' = None"
  "map_of SCRIPT_FUNCTION_DECODER_MAP ''vouch_revoke'' = None"
  "map_of SCRIPT_FUNCTION_DECODER_MAP ''vouch_vouch_for'' = None"
  by (rule retired_None; subst retired_keys_def; (rule list.set_intros)+)+

lemmas v7_builders =
  v7_account_offer_rotation_capability_def v7_account_offer_signer_capability_def
         v7_account_revoke_any_rotation_capability_def v7_account_revoke_any_signer_capability_def
         v7_account_revoke_rotation_capability_def v7_account_revoke_signer_capability_def
         v7_account_rotate_authentication_key_def v7_account_rotate_authentication_key_with_rotation_capability_def
         v7_burn_set_send_community_def v7_code_publish_package_txn_def v7_coin_transfer_def
         v7_community_wallet_init_change_signer_community_multisig_def
         v7_community_wallet_init_finalize_and_cage_def v7_community_wallet_init_init_community_def
         v7_community_wallet_init_propose_offer_def v7_diem_governance_add_approved_script_hash_script_def
         v7_diem_governance_assert_can_resolve_def v7_diem_governance_create_proposal_v2_def
         v7_diem_governance_ol_create_proposal_v2_def v7_diem_governance_ol_vote_def
         v7_diem_governance_smoke_trigger_epoch_def v7_diem_governance_trigger_epoch_def
         v7_diem_governance_vote_def v7_donor_voice_txs_propose_liquidate_tx_def
         v7_donor_voice_txs_propose_payment_tx_def v7_donor_voice_txs_propose_veto_tx_def
         v7_donor_voice_txs_vote_liquidation_tx_def v7_donor_voice_txs_vote_veto_tx_def
         v7_epoch_boundary_smoke_trigger_epoch_def v7_jail_unjail_by_voucher_def
         v7_libra_coin_claim_mint_capability_def v7_libra_coin_delegate_mint_capability_def
         v7_libra_coin_mint_to_impl_def v7_multi_action_claim_offer_def v7_multi_action_init_gov_deprecated_def
         v7_multi_action_migration_migrate_offer_def v7_multisig_account_add_owner_def
         v7_multisig_account_add_owners_def v7_multisig_account_approve_transaction_def
         v7_multisig_account_create_def v7_multisig_account_create_transaction_def
         v7_multisig_account_create_transaction_with_hash_def v7_multisig_account_create_with_existing_account_def
         v7_multisig_account_create_with_owners_def v7_multisig_account_execute_rejected_transaction_def
         v7_multisig_account_migrate_with_owners_def v7_multisig_account_reject_transaction_def
         v7_multisig_account_remove_owner_def v7_multisig_account_remove_owners_def
         v7_multisig_account_update_metadata_def v7_multisig_account_update_signatures_required_def
         v7_multisig_account_vote_transanction_def v7_object_transfer_call_def v7_ol_account_create_account_def
         v7_ol_account_set_allow_direct_coin_transfers_def v7_ol_account_transfer_def
         v7_proof_of_fee_init_bidding_def v7_proof_of_fee_pof_retract_bid_def v7_proof_of_fee_pof_update_bid_def
         v7_safe_init_payment_multisig_def v7_slow_wallet_smoke_test_vm_unlock_def v7_slow_wallet_user_set_slow_def
         v7_stake_initialize_validator_def v7_stake_rotate_consensus_key_def
         v7_stake_update_network_and_fullnode_addresses_def v7_validator_universe_register_validator_def
         v7_version_set_version_def v7_vouch_insist_vouch_for_def v7_vouch_revoke_def v7_vouch_vouch_for_def

lemmas v7_decoders =
  v7_dec_account_offer_rotation_capability_def v7_dec_account_offer_signer_capability_def
         v7_dec_account_revoke_any_rotation_capability_def v7_dec_account_revoke_any_signer_capability_def
         v7_dec_account_revoke_rotation_capability_def v7_dec_account_revoke_signer_capability_def
         v7_dec_account_rotate_authentication_key_def
         v7_dec_account_rotate_authentication_key_with_rotation_capability_def v7_dec_burn_set_send_community_def
         v7_dec_code_publish_package_txn_def v7_dec_coin_transfer_def
         v7_dec_community_wallet_init_change_signer_community_multisig_def
         v7_dec_community_wallet_init_finalize_and_cage_def v7_dec_community_wallet_init_init_community_def
         v7_dec_community_wallet_init_propose_offer_def v7_dec_diem_governance_add_approved_script_hash_script_def
         v7_dec_diem_governance_assert_can_resolve_def v7_dec_diem_governance_create_proposal_v2_def
         v7_dec_diem_governance_ol_create_proposal_v2_def v7_dec_diem_governance_ol_vote_def
         v7_dec_diem_governance_smoke_trigger_epoch_def v7_dec_diem_governance_trigger_epoch_def
         v7_dec_diem_governance_vote_def v7_dec_donor_voice_txs_propose_liquidate_tx_def
         v7_dec_donor_voice_txs_propose_payment_tx_def v7_dec_donor_voice_txs_propose_veto_tx_def
         v7_dec_donor_voice_txs_vote_liquidation_tx_def v7_dec_donor_voice_txs_vote_veto_tx_def
         v7_dec_epoch_boundary_smoke_trigger_epoch_def v7_dec_jail_unjail_by_voucher_def
         v7_dec_libra_coin_claim_mint_capability_def v7_dec_libra_coin_delegate_mint_capability_def
         v7_dec_libra_coin_mint_to_impl_def v7_dec_multi_action_claim_offer_def
         v7_dec_multi_action_init_gov_deprecated_def v7_dec_multi_action_migration_migrate_offer_def
         v7_dec_multisig_account_add_owner_def v7_dec_multisig_account_add_owners_def
         v7_dec_multisig_account_approve_transaction_def v7_dec_multisig_account_create_def
         v7_dec_multisig_account_create_transaction_def v7_dec_multisig_account_create_transaction_with_hash_def
         v7_dec_multisig_account_create_with_existing_account_def v7_dec_multisig_account_create_with_owners_def
         v7_dec_multisig_account_execute_rejected_transaction_def v7_dec_multisig_account_migrate_with_owners_def
         v7_dec_multisig_account_reject_transaction_def v7_dec_multisig_account_remove_owner_def
         v7_dec_multisig_account_remove_owners_def v7_dec_multisig_account_update_metadata_def
         v7_dec_multisig_account_update_signatures_required_def v7_dec_multisig_account_vote_transanction_def
         v7_dec_object_transfer_call_def v7_dec_ol_account_create_account_def
         v7_dec_ol_account_set_allow_direct_coin_transfers_def v7_dec_ol_account_transfer_def
         v7_dec_proof_of_fee_init_bidding_def v7_dec_proof_of_fee_pof_retract_bid_def
         v7_dec_proof_of_fee_pof_update_bid_def v7_dec_safe_init_payment_multisig_def
         v7_dec_slow_wallet_smoke_test_vm_unlock_def v7_dec_slow_wallet_user_set_slow_def
         v7_dec_stake_initialize_validator_def v7_dec_stake_rotate_consensus_key_def
         v7_dec_stake_update_network_and_fullnode_addresses_def v7_dec_validator_universe_register_validator_def
         v7_dec_version_set_version_def v7_dec_vouch_insist_vouch_for_def v7_dec_vouch_revoke_def
         v7_dec_vouch_vouch_for_def

section \<open>Round trip and the current release\<close>

context bcs_args
begin

lemmas v7_eval = v7_builders entry_function_def generic_entry_function_def arg_at_def ty_arg_at_def

lemma v7_decode_encode:
  assumes "list_all is_address (v7_call_addresses call)"
  shows "v7_decode b (v7_encode b call) = Some call"
  using assms by (cases call) (simp_all add: v7_decode_def v7_decoder_lookup v7_decoders v7_eval)

lemma decode_v7_encode:
  assumes "list_all is_address (v7_call_addresses call)"
  shows "decode b (v7_encode b call) = v7_upgrade call"
  using assms
  by (cases call) (simp_all add: decode_def decoder_lookup retired_lookup sdk_decoders v7_eval)

end

text \<open>
  Decoding inverts encoding for version seven too: with BCS codecs that invert each other, the payload of any of its
  calls (with addresses of 32 bytes) decodes to that call.
\<close>

theorem v7_roundtrip:
  assumes "bcs_args b" and "list_all is_address (v7_call_addresses call)"
  shows "v7_decode b (v7_encode b call) = Some call"
  using assms by (rule bcs_args.v7_decode_encode)

theorem v7_roundtrip_witness:
  "v7_decode ref_bcs (v7_encode ref_bcs (V7_CoinTransfer ''0x1::libra_coin::LibraCoin'' (replicate 32 7) 5)) =
     Some (V7_CoinTransfer ''0x1::libra_coin::LibraCoin'' (replicate 32 7) 5)"
  by (rule v7_roundtrip[OF ref_bcs.bcs_args_axioms]) simp

text \<open>
  C33. What the decoder of the current release makes of a transaction of version seven: a call that both releases have
  with the same arguments is read as that call with those arguments, and every other one (an entry function that was
  retired, or a donor payment proposal, which then had no argument \<open>advance_unlocked\<close>) is refused; no payload is read
  as a different call.
\<close>

theorem current_decoder_on_v7:
  assumes "bcs_args b" and "list_all is_address (v7_call_addresses call)"
  shows "decode b (v7_encode b call) = v7_upgrade call"
  using assms by (rule bcs_args.decode_v7_encode)

theorem current_decoder_on_v7_witness:
  "decode ref_bcs (v7_encode ref_bcs (V7_OlAccountTransfer (replicate 32 7) 5)) =
     Some (OlAccountTransfer (replicate 32 7) 5) \<and>
   decode ref_bcs (v7_encode ref_bcs (V7_DonorVoiceTxsProposePaymentTx (replicate 32 7) (replicate 32 8) 5 [])) = None"
  using current_decoder_on_v7[OF ref_bcs.bcs_args_axioms, of "V7_OlAccountTransfer (replicate 32 7) 5"]
    current_decoder_on_v7[OF ref_bcs.bcs_args_axioms,
      of "V7_DonorVoiceTxsProposePaymentTx (replicate 32 7) (replicate 32 8) 5 []"]
  by simp

end
