(* ===== verification/Sdk_V6.thy ===== *)
theory Sdk_V6
  imports Sdk_V7
begin

text \<open>
  The transaction builders of version six (\<^verbatim>\<open>src/compatibility/src/sdk/v6_libra_framework_sdk_builder.rs\<close>), laid out as
  those of version seven. Shown: decoding inverts encoding; what the decoder of version seven makes of a payload of
  version six; and a payload of version six that version seven reads with its arguments shifted by one.
\<close>

section \<open>Calls\<close>

datatype (plugins only: code) EntryFunctionCallV6 =
    V6_AccountOfferRotationCapability bytes u8 bytes account_address
  | V6_AccountOfferSignerCapability bytes u8 bytes account_address
  | V6_AccountRevokeAnyRotationCapability
  | V6_AccountRevokeAnySignerCapability
  | V6_AccountRevokeRotationCapability account_address
  | V6_AccountRevokeSignerCapability account_address
  | V6_AccountRotateAuthenticationKey u8 bytes u8 bytes bytes bytes
  | V6_AccountRotateAuthenticationKeyWithRotationCapability account_address u8 bytes bytes
  | V6_BurnSetSendCommunity bool
  | V6_CodePublishPackageTxn bytes "bytes list"
  | V6_CoinTransfer string account_address u64
  | V6_CommunityWalletInitChangeSignerCommunityMultisig account_address account_address bool u64 u64
  | V6_CommunityWalletInitFinalizeAndCage "account_address list" u64
  | V6_CommunityWalletInitInitCommunity "account_address list" u64
  | V6_DiemGovernanceAddApprovedScriptHashScript u64
  | V6_DiemGovernanceAssertCanResolve u64
  | V6_DiemGovernanceCreateProposal account_address bytes bytes bytes
  | V6_DiemGovernanceCreateProposalV2 account_address bytes bytes bytes bool
  | V6_DiemGovernanceOlCreateProposalV2 bytes bytes bytes bool
  | V6_DiemGovernanceOlVote u64 bool
  | V6_DiemGovernanceSmokeTriggerEpoch
  | V6_DiemGovernanceTriggerEpoch
  | V6_DiemGovernanceVote u64 bool
  | V6_DonorVoiceTxsProposeLiquidateTx account_address
  | V6_DonorVoiceTxsProposePaymentTx account_address account_address u64 bytes
  | V6_DonorVoiceTxsProposeVetoTx account_address u64
  | V6_DonorVoiceTxsVoteLiquidationTx account_address
  | V6_DonorVoiceTxsVoteVetoTx account_address u64
  | V6_EpochBoundarySmokeTriggerEpoch
  | V6_JailUnjailByVoucher account_address
  | V6_LibraCoinClaimMintCapability
  | V6_LibraCoinDelegateMintCapability account_address
  | V6_LibraCoinMintToImpl account_address u64
  | V6_MultiActionFinalizeAndCage "account_address list" u64
  | V6_MultisigAccountAddOwner account_address
  | V6_MultisigAccountAddOwners "account_address list"
  | V6_MultisigAccountApproveTransaction account_address u64
  | V6_MultisigAccountCreate u64 "bytes list" "bytes list"
  | V6_MultisigAccountCreateTransaction account_address bytes
  | V6_MultisigAccountCreateTransactionWithHash account_address bytes
  | V6_MultisigAccountCreateWithExistingAccount account_address "account_address list" u64 u8 bytes bytes "bytes
         list" "bytes list"
  | V6_MultisigAccountCreateWithOwners "account_address list" u64 "bytes list" "bytes list"
  | V6_MultisigAccountExecuteRejectedTransaction account_address
  | V6_MultisigAccountMigrateWithOwners "account_address list" u64 "bytes list" "bytes list"
  | V6_MultisigAccountRejectTransaction account_address u64
  | V6_MultisigAccountRemoveOwner account_address
  | V6_MultisigAccountRemoveOwners "account_address list"
  | V6_MultisigAccountUpdateMetadata "bytes list" "bytes list"
  | V6_MultisigAccountUpdateSignaturesRequired u64
  | V6_MultisigAccountVoteTransanction account_address u64 bool
  | V6_ObjectTransferCall account_address account_address
  | V6_OlAccountCreateAccount account_address
  | V6_OlAccountSetAllowDirectCoinTransfers bool
  | V6_OlAccountTransfer account_address u64
  | V6_OracleInitProvider
  | V6_ProofOfFeeInitBidding
  | V6_ProofOfFeePofRetractBid
  | V6_ProofOfFeePofUpdateBid u64 u64
  | V6_SafeInitPaymentMultisig
  | V6_SlowWalletSmokeTestVmUnlock account_address u64 u64
  | V6_SlowWalletUserSetSlow
  | V6_StakeInitializeStakeOwner u64 account_address account_address
  | V6_StakeInitializeValidator bytes bytes bytes bytes
  | V6_StakeRotateConsensusKey account_address bytes bytes
  | V6_StakeSetOperator account_address
  | V6_StakeUpdateNetworkAndFullnodeAddresses account_address bytes bytes
  | V6_TowerStateMinerstateCommit bytes bytes u64 u64
  | V6_ValidatorUniverseRegisterValidator bytes bytes bytes bytes
  | V6_VersionSetVersion u64
  | V6_VouchInsistVouchFor account_address
  | V6_VouchRevoke account_address
  | V6_VouchVouchFor account_address

section \<open>Payload builders\<close>

definition v6_account_offer_rotation_capability :: "bcs \<Rightarrow> bytes \<Rightarrow> u8 \<Rightarrow> bytes
         \<Rightarrow> account_address \<Rightarrow> TxPayload" where
  "v6_account_offer_rotation_capability b rotation_capability_sig_bytes account_scheme account_public_key_bytes
         recipient_address =
     entry_function ''account'' ''offer_rotation_capability''
       [sr_bytes b rotation_capability_sig_bytes, sr_u8 b account_scheme, sr_bytes b account_public_key_bytes,
         sr_addr b recipient_address]"

definition v6_account_offer_signer_capability :: "bcs \<Rightarrow> bytes \<Rightarrow> u8 \<Rightarrow> bytes
         \<Rightarrow> account_address \<Rightarrow> TxPayload" where
  "v6_account_offer_signer_capability b signer_capability_sig_bytes account_scheme account_public_key_bytes
         recipient_address =
     entry_function ''account'' ''offer_signer_capability''
       [sr_bytes b signer_capability_sig_bytes, sr_u8 b account_scheme, sr_bytes b account_public_key_bytes,
         sr_addr b recipient_address]"

definition v6_account_revoke_any_rotation_capability :: "bcs \<Rightarrow> TxPayload" where
  "v6_account_revoke_any_rotation_capability b =
     entry_function ''account'' ''revoke_any_rotation_capability''
       []"

definition v6_account_revoke_any_signer_capability :: "bcs \<Rightarrow> TxPayload" where
  "v6_account_revoke_any_signer_capability b =
     entry_function ''account'' ''revoke_any_signer_capability''
       []"

definition v6_account_revoke_rotation_capability :: "bcs \<Rightarrow> account_address \<Rightarrow> TxPayload" where
  "v6_account_revoke_rotation_capability b to_be_revoked_address =
     entry_function ''account'' ''revoke_rotation_capability''
       [sr_addr b to_be_revoked_address]"

definition v6_account_revoke_signer_capability :: "bcs \<Rightarrow> account_address \<Rightarrow> TxPayload" where
  "v6_account_revoke_signer_capability b to_be_revoked_address =
     entry_function ''account'' ''revoke_signer_capability''
       [sr_addr b to_be_revoked_address]"

definition v6_account_rotate_authentication_key :: "bcs \<Rightarrow> u8 \<Rightarrow> bytes \<Rightarrow> u8
         \<Rightarrow> bytes \<Rightarrow> bytes \<Rightarrow> bytes \<Rightarrow> TxPayload" where
  "v6_account_rotate_authentication_key b from_scheme from_public_key_bytes to_scheme to_public_key_bytes
         cap_rotate_key cap_update_table =
     entry_function ''account'' ''rotate_authentication_key''
       [sr_u8 b from_scheme, sr_bytes b from_public_key_bytes, sr_u8 b to_scheme, sr_bytes b to_public_key_bytes,
         sr_bytes b cap_rotate_key, sr_bytes b cap_update_table]"

definition v6_account_rotate_authentication_key_with_rotation_capability :: "bcs \<Rightarrow> account_address
         \<Rightarrow> u8 \<Rightarrow> bytes \<Rightarrow> bytes \<Rightarrow> TxPayload" where
  "v6_account_rotate_authentication_key_with_rotation_capability b rotation_cap_offerer_address new_scheme
         new_public_key_bytes cap_update_table =
     entry_function ''account'' ''rotate_authentication_key_with_rotation_capability''
       [sr_addr b rotation_cap_offerer_address, sr_u8 b new_scheme, sr_bytes b new_public_key_bytes, sr_bytes b
         cap_update_table]"

definition v6_burn_set_send_community :: "bcs \<Rightarrow> bool \<Rightarrow> TxPayload" where
  "v6_burn_set_send_community b community =
     entry_function ''burn'' ''set_send_community''
       [sr_bool b community]"

definition v6_code_publish_package_txn :: "bcs \<Rightarrow> bytes \<Rightarrow> bytes list \<Rightarrow>
         TxPayload" where
  "v6_code_publish_package_txn b metadata_serialized code =
     entry_function ''code'' ''publish_package_txn''
       [sr_bytes b metadata_serialized, sr_bytess b code]"

definition v6_coin_transfer :: "bcs \<Rightarrow> string \<Rightarrow> account_address \<Rightarrow> u64
         \<Rightarrow> TxPayload" where
  "v6_coin_transfer b coin_type to_account amount =
     generic_entry_function ''coin'' ''transfer'' [coin_type]
       [sr_addr b to_account, sr_u64 b amount]"

definition v6_community_wallet_init_change_signer_community_multisig :: "bcs \<Rightarrow> account_address
         \<Rightarrow> account_address \<Rightarrow> bool \<Rightarrow> u64 \<Rightarrow> u64 \<Rightarrow>
         TxPayload" where
  "v6_community_wallet_init_change_signer_community_multisig b multisig_address new_signer is_add_operation n_of_m
         vote_duration_epochs =
     entry_function ''community_wallet_init'' ''change_signer_community_multisig''
       [sr_addr b multisig_address, sr_addr b new_signer, sr_bool b is_add_operation, sr_u64 b n_of_m, sr_u64 b
         vote_duration_epochs]"

definition v6_community_wallet_init_finalize_and_cage :: "bcs \<Rightarrow> account_address list \<Rightarrow> u64
         \<Rightarrow> TxPayload" where
  "v6_community_wallet_init_finalize_and_cage b initial_authorities num_signers =
     entry_function ''community_wallet_init'' ''finalize_and_cage''
       [sr_addrs b initial_authorities, sr_u64 b num_signers]"

definition v6_community_wallet_init_init_community :: "bcs \<Rightarrow> account_address list \<Rightarrow> u64
         \<Rightarrow> TxPayload" where
  "v6_community_wallet_init_init_community b check_addresses check_threshold =
     entry_function ''community_wallet_init'' ''init_community''
       [sr_addrs b check_addresses, sr_u64 b check_threshold]"

definition v6_diem_governance_add_approved_script_hash_script :: "bcs \<Rightarrow> u64 \<Rightarrow> TxPayload" where
  "v6_diem_governance_add_approved_script_hash_script b proposal_id =
     entry_function ''diem_governance'' ''add_approved_script_hash_script''
       [sr_u64 b proposal_id]"

definition v6_diem_governance_assert_can_resolve :: "bcs \<Rightarrow> u64 \<Rightarrow> TxPayload" where
  "v6_diem_governance_assert_can_resolve b proposal_id =
     entry_function ''diem_governance'' ''assert_can_resolve''
       [sr_u64 b proposal_id]"

definition v6_diem_governance_create_proposal :: "bcs \<Rightarrow> account_address \<Rightarrow> bytes
         \<Rightarrow> bytes \<Rightarrow> bytes \<Rightarrow> TxPayload" where
  "v6_diem_governance_create_proposal b stake_pool execution_hash metadata_location metadata_hash =
     entry_function ''diem_governance'' ''create_proposal''
       [sr_addr b stake_pool, sr_bytes b execution_hash, sr_bytes b metadata_location, sr_bytes b metadata_hash]"

definition v6_diem_governance_create_proposal_v2 :: "bcs \<Rightarrow> account_address \<Rightarrow> bytes
         \<Rightarrow> bytes \<Rightarrow> bytes \<Rightarrow> bool \<Rightarrow> TxPayload" where
  "v6_diem_governance_create_proposal_v2 b stake_pool execution_hash metadata_location metadata_hash
         is_multi_step_proposal =
     entry_function ''diem_governance'' ''create_proposal_v2''
       [sr_addr b stake_pool, sr_bytes b execution_hash, sr_bytes b metadata_location, sr_bytes b metadata_hash,
         sr_bool b is_multi_step_proposal]"

definition v6_diem_governance_ol_create_proposal_v2 :: "bcs \<Rightarrow> bytes \<Rightarrow> bytes \<Rightarrow>
         bytes \<Rightarrow> bool \<Rightarrow> TxPayload" where
  "v6_diem_governance_ol_create_proposal_v2 b execution_hash metadata_location metadata_hash is_multi_step_proposal =
     entry_function ''diem_governance'' ''ol_create_proposal_v2''
       [sr_bytes b execution_hash, sr_bytes b metadata_location, sr_bytes b metadata_hash, sr_bool b
         is_multi_step_proposal]"

definition v6_diem_governance_ol_vote :: "bcs \<Rightarrow> u64 \<Rightarrow> bool \<Rightarrow> TxPayload" where
  "v6_diem_governance_ol_vote b proposal_id should_pass =
     entry_function ''diem_governance'' ''ol_vote''
       [sr_u64 b proposal_id, sr_bool b should_pass]"

definition v6_diem_governance_smoke_trigger_epoch :: "bcs \<Rightarrow> TxPayload" where
  "v6_diem_governance_smoke_trigger_epoch b =
     entry_function ''diem_governance'' ''smoke_trigger_epoch''
       []"

definition v6_diem_governance_trigger_epoch :: "bcs \<Rightarrow> TxPayload" where
  "v6_diem_governance_trigger_epoch b =
     entry_function ''diem_governance'' ''trigger_epoch''
       []"

definition v6_diem_governance_vote :: "bcs \<Rightarrow> u64 \<Rightarrow> bool \<Rightarrow> TxPayload" where
  "v6_diem_governance_vote b proposal_id should_pass =
     entry_function ''diem_governance'' ''vote''
       [sr_u64 b proposal_id, sr_bool b should_pass]"

definition v6_donor_voice_txs_propose_liquidate_tx :: "bcs \<Rightarrow> account_address \<Rightarrow> TxPayload"
         where
  "v6_donor_voice_txs_propose_liquidate_tx b multisig_address =
     entry_function ''donor_voice_txs'' ''propose_liquidate_tx''
       [sr_addr b multisig_address]"

definition v6_donor_voice_txs_propose_payment_tx :: "bcs \<Rightarrow> account_address \<Rightarrow>
         account_address \<Rightarrow> u64 \<Rightarrow> bytes \<Rightarrow> TxPayload" where
  "v6_donor_voice_txs_propose_payment_tx b multisig_address payee value description =
     entry_function ''donor_voice_txs'' ''propose_payment_tx''
       [sr_addr b multisig_address, sr_addr b payee, sr_u64 b value, sr_bytes b description]"

definition v6_donor_voice_txs_propose_veto_tx :: "bcs \<Rightarrow> account_address \<Rightarrow> u64 \<Rightarrow>
         TxPayload" where
  "v6_donor_voice_txs_propose_veto_tx b multisig_address tx_id =
     entry_function ''donor_voice_txs'' ''propose_veto_tx''
       [sr_addr b multisig_address, sr_u64 b tx_id]"

definition v6_donor_voice_txs_vote_liquidation_tx :: "bcs \<Rightarrow> account_address \<Rightarrow> TxPayload" where
  "v6_donor_voice_txs_vote_liquidation_tx b multisig_address =
     entry_function ''donor_voice_txs'' ''vote_liquidation_tx''
       [sr_addr b multisig_address]"

definition v6_donor_voice_txs_vote_veto_tx :: "bcs \<Rightarrow> account_address \<Rightarrow> u64 \<Rightarrow>
         TxPayload" where
  "v6_donor_voice_txs_vote_veto_tx b multisig_address tx_id =
     entry_function ''donor_voice_txs'' ''vote_veto_tx''
       [sr_addr b multisig_address, sr_u64 b tx_id]"

definition v6_epoch_boundary_smoke_trigger_epoch :: "bcs \<Rightarrow> TxPayload" where
  "v6_epoch_boundary_smoke_trigger_epoch b =
     entry_function ''epoch_boundary'' ''smoke_trigger_epoch''
       []"

definition v6_jail_unjail_by_voucher :: "bcs \<Rightarrow> account_address \<Rightarrow> TxPayload" where
  "v6_jail_unjail_by_voucher b addr =
     entry_function ''jail'' ''unjail_by_voucher''
       [sr_addr b addr]"

definition v6_libra_coin_claim_mint_capability :: "bcs \<Rightarrow> TxPayload" where
  "v6_libra_coin_claim_mint_capability b =
     entry_function ''libra_coin'' ''claim_mint_capability''
       []"

definition v6_libra_coin_delegate_mint_capability :: "bcs \<Rightarrow> account_address \<Rightarrow> TxPayload" where
  "v6_libra_coin_delegate_mint_capability b to_account =
     entry_function ''libra_coin'' ''delegate_mint_capability''
       [sr_addr b to_account]"

definition v6_libra_coin_mint_to_impl :: "bcs \<Rightarrow> account_address \<Rightarrow> u64 \<Rightarrow>
         TxPayload" where
  "v6_libra_coin_mint_to_impl b dst_addr amount =
     entry_function ''libra_coin'' ''mint_to_impl''
       [sr_addr b dst_addr, sr_u64 b amount]"

definition v6_multi_action_finalize_and_cage :: "bcs \<Rightarrow> account_address list \<Rightarrow> u64
         \<Rightarrow> TxPayload" where
  "v6_multi_action_finalize_and_cage b initial_authorities num_signers =
     entry_function ''multi_action'' ''finalize_and_cage''
       [sr_addrs b initial_authorities, sr_u64 b num_signers]"

definition v6_multisig_account_add_owner :: "bcs \<Rightarrow> account_address \<Rightarrow> TxPayload" where
  "v6_multisig_account_add_owner b new_owner =
     entry_function ''multisig_account'' ''add_owner''
       [sr_addr b new_owner]"

definition v6_multisig_account_add_owners :: "bcs \<Rightarrow> account_address list \<Rightarrow> TxPayload" where
  "v6_multisig_account_add_owners b new_owners =
     entry_function ''multisig_account'' ''add_owners''
       [sr_addrs b new_owners]"

definition v6_multisig_account_approve_transaction :: "bcs \<Rightarrow> account_address \<Rightarrow> u64
         \<Rightarrow> TxPayload" where
  "v6_multisig_account_approve_transaction b multisig_account sequence_number =
     entry_function ''multisig_account'' ''approve_transaction''
       [sr_addr b multisig_account, sr_u64 b sequence_number]"

definition v6_multisig_account_create :: "bcs \<Rightarrow> u64 \<Rightarrow> bytes list \<Rightarrow> bytes list
         \<Rightarrow> TxPayload" where
  "v6_multisig_account_create b num_signatures_required metadata_keys metadata_values =
     entry_function ''multisig_account'' ''create''
       [sr_u64 b num_signatures_required, sr_bytess b metadata_keys, sr_bytess b metadata_values]"

definition v6_multisig_account_create_transaction :: "bcs \<Rightarrow> account_address \<Rightarrow> bytes
         \<Rightarrow> TxPayload" where
  "v6_multisig_account_create_transaction b multisig_account payload =
     entry_function ''multisig_account'' ''create_transaction''
       [sr_addr b multisig_account, sr_bytes b payload]"

definition v6_multisig_account_create_transaction_with_hash :: "bcs \<Rightarrow> account_address \<Rightarrow>
         bytes \<Rightarrow> TxPayload" where
  "v6_multisig_account_create_transaction_with_hash b multisig_account payload_hash =
     entry_function ''multisig_account'' ''create_transaction_with_hash''
       [sr_addr b multisig_account, sr_bytes b payload_hash]"

definition v6_multisig_account_create_with_existing_account :: "bcs \<Rightarrow> account_address \<Rightarrow>
         account_address list \<Rightarrow> u64 \<Rightarrow> u8 \<Rightarrow> bytes \<Rightarrow> bytes
         \<Rightarrow> bytes list \<Rightarrow> bytes list \<Rightarrow> TxPayload" where
  "v6_multisig_account_create_with_existing_account b multisig_address owners num_signatures_required
         account_scheme account_public_key create_multisig_account_signed_message metadata_keys metadata_values =
     entry_function ''multisig_account'' ''create_with_existing_account''
       [sr_addr b multisig_address, sr_addrs b owners, sr_u64 b num_signatures_required, sr_u8 b account_scheme,
         sr_bytes b account_public_key, sr_bytes b create_multisig_account_signed_message, sr_bytess b
         metadata_keys, sr_bytess b metadata_values]"

definition v6_multisig_account_create_with_owners :: "bcs \<Rightarrow> account_address list \<Rightarrow> u64
         \<Rightarrow> bytes list \<Rightarrow> bytes list \<Rightarrow> TxPayload" where
  "v6_multisig_account_create_with_owners b additional_owners num_signatures_required metadata_keys metadata_values =
     entry_function ''multisig_account'' ''create_with_owners''
       [sr_addrs b additional_owners, sr_u64 b num_signatures_required, sr_bytess b metadata_keys, sr_bytess b
         metadata_values]"

definition v6_multisig_account_execute_rejected_transaction :: "bcs \<Rightarrow> account_address \<Rightarrow>
         TxPayload" where
  "v6_multisig_account_execute_rejected_transaction b multisig_account =
     entry_function ''multisig_account'' ''execute_rejected_transaction''
       [sr_addr b multisig_account]"

definition v6_multisig_account_migrate_with_owners :: "bcs \<Rightarrow> account_address list \<Rightarrow> u64
         \<Rightarrow> bytes list \<Rightarrow> bytes list \<Rightarrow> TxPayload" where
  "v6_multisig_account_migrate_with_owners b additional_owners num_signatures_required metadata_keys metadata_values =
     entry_function ''multisig_account'' ''migrate_with_owners''
       [sr_addrs b additional_owners, sr_u64 b num_signatures_required, sr_bytess b metadata_keys, sr_bytess b
         metadata_values]"

definition v6_multisig_account_reject_transaction :: "bcs \<Rightarrow> account_address \<Rightarrow> u64
         \<Rightarrow> TxPayload" where
  "v6_multisig_account_reject_transaction b multisig_account sequence_number =
     entry_function ''multisig_account'' ''reject_transaction''
       [sr_addr b multisig_account, sr_u64 b sequence_number]"

definition v6_multisig_account_remove_owner :: "bcs \<Rightarrow> account_address \<Rightarrow> TxPayload" where
  "v6_multisig_account_remove_owner b owner_to_remove =
     entry_function ''multisig_account'' ''remove_owner''
       [sr_addr b owner_to_remove]"

definition v6_multisig_account_remove_owners :: "bcs \<Rightarrow> account_address list \<Rightarrow> TxPayload" where
  "v6_multisig_account_remove_owners b owners_to_remove =
     entry_function ''multisig_account'' ''remove_owners''
       [sr_addrs b owners_to_remove]"

definition v6_multisig_account_update_metadata :: "bcs \<Rightarrow> bytes list \<Rightarrow> bytes list
         \<Rightarrow> TxPayload" where
  "v6_multisig_account_update_metadata b keys values =
     entry_function ''multisig_account'' ''update_metadata''
       [sr_bytess b keys, sr_bytess b values]"

definition v6_multisig_account_update_signatures_required :: "bcs \<Rightarrow> u64 \<Rightarrow> TxPayload" where
  "v6_multisig_account_update_signatures_required b new_num_signatures_required =
     entry_function ''multisig_account'' ''update_signatures_required''
       [sr_u64 b new_num_signatures_required]"

definition v6_multisig_account_vote_transanction :: "bcs \<Rightarrow> account_address \<Rightarrow> u64
         \<Rightarrow> bool \<Rightarrow> TxPayload" where
  "v6_multisig_account_vote_transanction b multisig_account sequence_number approved =
     entry_function ''multisig_account'' ''vote_transanction''
       [sr_addr b multisig_account, sr_u64 b sequence_number, sr_bool b approved]"

definition v6_object_transfer_call :: "bcs \<Rightarrow> account_address \<Rightarrow> account_address
         \<Rightarrow> TxPayload" where
  "v6_object_transfer_call b object to_account =
     entry_function ''object'' ''transfer_call''
       [sr_addr b object, sr_addr b to_account]"

definition v6_ol_account_create_account :: "bcs \<Rightarrow> account_address \<Rightarrow> TxPayload" where
  "v6_ol_account_create_account b auth_key =
     entry_function ''ol_account'' ''create_account''
       [sr_addr b auth_key]"

definition v6_ol_account_set_allow_direct_coin_transfers :: "bcs \<Rightarrow> bool \<Rightarrow> TxPayload" where
  "v6_ol_account_set_allow_direct_coin_transfers b allow =
     entry_function ''ol_account'' ''set_allow_direct_coin_transfers''
       [sr_bool b allow]"

definition v6_ol_account_transfer :: "bcs \<Rightarrow> account_address \<Rightarrow> u64 \<Rightarrow> TxPayload"
         where
  "v6_ol_account_transfer b to_account amount =
     entry_function ''ol_account'' ''transfer''
       [sr_addr b to_account, sr_u64 b amount]"

definition v6_oracle_init_provider :: "bcs \<Rightarrow> TxPayload" where
  "v6_oracle_init_provider b =
     entry_function ''oracle'' ''init_provider''
       []"

definition v6_proof_of_fee_init_bidding :: "bcs \<Rightarrow> TxPayload" where
  "v6_proof_of_fee_init_bidding b =
     entry_function ''proof_of_fee'' ''init_bidding''
       []"

definition v6_proof_of_fee_pof_retract_bid :: "bcs \<Rightarrow> TxPayload" where
  "v6_proof_of_fee_pof_retract_bid b =
     entry_function ''proof_of_fee'' ''pof_retract_bid''
       []"

definition v6_proof_of_fee_pof_update_bid :: "bcs \<Rightarrow> u64 \<Rightarrow> u64 \<Rightarrow> TxPayload" where
  "v6_proof_of_fee_pof_update_bid b bid epoch_expiry =
     entry_function ''proof_of_fee'' ''pof_update_bid''
       [sr_u64 b bid, sr_u64 b epoch_expiry]"

definition v6_safe_init_payment_multisig :: "bcs \<Rightarrow> TxPayload" where
  "v6_safe_init_payment_multisig b =
     entry_function ''safe'' ''init_payment_multisig''
       []"

definition v6_slow_wallet_smoke_test_vm_unlock :: "bcs \<Rightarrow> account_address \<Rightarrow> u64
         \<Rightarrow> u64 \<Rightarrow> TxPayload" where
  "v6_slow_wallet_smoke_test_vm_unlock b user_addr unlocked transferred =
     entry_function ''slow_wallet'' ''smoke_test_vm_unlock''
       [sr_addr b user_addr, sr_u64 b unlocked, sr_u64 b transferred]"

definition v6_slow_wallet_user_set_slow :: "bcs \<Rightarrow> TxPayload" where
  "v6_slow_wallet_user_set_slow b =
     entry_function ''slow_wallet'' ''user_set_slow''
       []"

definition v6_stake_initialize_stake_owner :: "bcs \<Rightarrow> u64 \<Rightarrow> account_address \<Rightarrow>
         account_address \<Rightarrow> TxPayload" where
  "v6_stake_initialize_stake_owner b initial_stake_amount operator voter =
     entry_function ''stake'' ''initialize_stake_owner''
       [sr_u64 b initial_stake_amount, sr_addr b operator, sr_addr b voter]"

definition v6_stake_initialize_validator :: "bcs \<Rightarrow> bytes \<Rightarrow> bytes \<Rightarrow> bytes
         \<Rightarrow> bytes \<Rightarrow> TxPayload" where
  "v6_stake_initialize_validator b consensus_pubkey proof_of_possession network_addresses fullnode_addresses =
     entry_function ''stake'' ''initialize_validator''
       [sr_bytes b consensus_pubkey, sr_bytes b proof_of_possession, sr_bytes b network_addresses, sr_bytes b
         fullnode_addresses]"

definition v6_stake_rotate_consensus_key :: "bcs \<Rightarrow> account_address \<Rightarrow> bytes \<Rightarrow>
         bytes \<Rightarrow> TxPayload" where
  "v6_stake_rotate_consensus_key b validator_address new_consensus_pubkey proof_of_possession =
     entry_function ''stake'' ''rotate_consensus_key''
       [sr_addr b validator_address, sr_bytes b new_consensus_pubkey, sr_bytes b proof_of_possession]"

definition v6_stake_set_operator :: "bcs \<Rightarrow> account_address \<Rightarrow> TxPayload" where
  "v6_stake_set_operator b new_operator =
     entry_function ''stake'' ''set_operator''
       [sr_addr b new_operator]"

definition v6_stake_update_network_and_fullnode_addresses :: "bcs \<Rightarrow> account_address \<Rightarrow> bytes
         \<Rightarrow> bytes \<Rightarrow> TxPayload" where
  "v6_stake_update_network_and_fullnode_addresses b validator_address new_network_addresses new_fullnode_addresses =
     entry_function ''stake'' ''update_network_and_fullnode_addresses''
       [sr_addr b validator_address, sr_bytes b new_network_addresses, sr_bytes b new_fullnode_addresses]"

definition v6_tower_state_minerstate_commit :: "bcs \<Rightarrow> bytes \<Rightarrow> bytes \<Rightarrow> u64
         \<Rightarrow> u64 \<Rightarrow> TxPayload" where
  "v6_tower_state_minerstate_commit b challenge solution difficulty security =
     entry_function ''tower_state'' ''minerstate_commit''
       [sr_bytes b challenge, sr_bytes b solution, sr_u64 b difficulty, sr_u64 b security]"

definition v6_validator_universe_register_validator :: "bcs \<Rightarrow> bytes \<Rightarrow> bytes \<Rightarrow>
         bytes \<Rightarrow> bytes \<Rightarrow> TxPayload" where
  "v6_validator_universe_register_validator b consensus_pubkey proof_of_possession network_addresses
         fullnode_addresses =
     entry_function ''validator_universe'' ''register_validator''
       [sr_bytes b consensus_pubkey, sr_bytes b proof_of_possession, sr_bytes b network_addresses, sr_bytes b
         fullnode_addresses]"

definition v6_version_set_version :: "bcs \<Rightarrow> u64 \<Rightarrow> TxPayload" where
  "v6_version_set_version b major =
     entry_function ''version'' ''set_version''
       [sr_u64 b major]"

definition v6_vouch_insist_vouch_for :: "bcs \<Rightarrow> account_address \<Rightarrow> TxPayload" where
  "v6_vouch_insist_vouch_for b wanna_be_my_friend =
     entry_function ''vouch'' ''insist_vouch_for''
       [sr_addr b wanna_be_my_friend]"

definition v6_vouch_revoke :: "bcs \<Rightarrow> account_address \<Rightarrow> TxPayload" where
  "v6_vouch_revoke b its_not_me_its_you =
     entry_function ''vouch'' ''revoke''
       [sr_addr b its_not_me_its_you]"

definition v6_vouch_vouch_for :: "bcs \<Rightarrow> account_address \<Rightarrow> TxPayload" where
  "v6_vouch_vouch_for b wanna_be_my_friend =
     entry_function ''vouch'' ''vouch_for''
       [sr_addr b wanna_be_my_friend]"

section \<open>Encoding and decoding\<close>

primrec v6_encode :: "bcs \<Rightarrow> EntryFunctionCallV6 \<Rightarrow> TxPayload" where
  "v6_encode b (V6_AccountOfferRotationCapability rotation_capability_sig_bytes account_scheme
         account_public_key_bytes recipient_address) = v6_account_offer_rotation_capability b
         rotation_capability_sig_bytes account_scheme account_public_key_bytes recipient_address"
| "v6_encode b (V6_AccountOfferSignerCapability signer_capability_sig_bytes account_scheme account_public_key_bytes
         recipient_address) = v6_account_offer_signer_capability b signer_capability_sig_bytes account_scheme
         account_public_key_bytes recipient_address"
| "v6_encode b V6_AccountRevokeAnyRotationCapability = v6_account_revoke_any_rotation_capability b"
| "v6_encode b V6_AccountRevokeAnySignerCapability = v6_account_revoke_any_signer_capability b"
| "v6_encode b (V6_AccountRevokeRotationCapability to_be_revoked_address) = v6_account_revoke_rotation_capability b
         to_be_revoked_address"
| "v6_encode b (V6_AccountRevokeSignerCapability to_be_revoked_address) = v6_account_revoke_signer_capability b
         to_be_revoked_address"
| "v6_encode b (V6_AccountRotateAuthenticationKey from_scheme from_public_key_bytes to_scheme to_public_key_bytes
         cap_rotate_key cap_update_table) = v6_account_rotate_authentication_key b from_scheme
         from_public_key_bytes to_scheme to_public_key_bytes cap_rotate_key cap_update_table"
| "v6_encode b (V6_AccountRotateAuthenticationKeyWithRotationCapability rotation_cap_offerer_address new_scheme
         new_public_key_bytes cap_update_table) = v6_account_rotate_authentication_key_with_rotation_capability b
         rotation_cap_offerer_address new_scheme new_public_key_bytes cap_update_table"
| "v6_encode b (V6_BurnSetSendCommunity community) = v6_burn_set_send_community b community"
| "v6_encode b (V6_CodePublishPackageTxn metadata_serialized code) = v6_code_publish_package_txn b
         metadata_serialized code"
| "v6_encode b (V6_CoinTransfer coin_type to_account amount) = v6_coin_transfer b coin_type to_account amount"
| "v6_encode b (V6_CommunityWalletInitChangeSignerCommunityMultisig multisig_address new_signer is_add_operation
         n_of_m vote_duration_epochs) = v6_community_wallet_init_change_signer_community_multisig b
         multisig_address new_signer is_add_operation n_of_m vote_duration_epochs"
| "v6_encode b (V6_CommunityWalletInitFinalizeAndCage initial_authorities num_signers) =
         v6_community_wallet_init_finalize_and_cage b initial_authorities num_signers"
| "v6_encode b (V6_CommunityWalletInitInitCommunity check_addresses check_threshold) =
         v6_community_wallet_init_init_community b check_addresses check_threshold"
| "v6_encode b (V6_DiemGovernanceAddApprovedScriptHashScript proposal_id) =
         v6_diem_governance_add_approved_script_hash_script b proposal_id"
| "v6_encode b (V6_DiemGovernanceAssertCanResolve proposal_id) = v6_diem_governance_assert_can_resolve b proposal_id"
| "v6_encode b (V6_DiemGovernanceCreateProposal stake_pool execution_hash metadata_location metadata_hash) =
         v6_diem_governance_create_proposal b stake_pool execution_hash metadata_location metadata_hash"
| "v6_encode b (V6_DiemGovernanceCreateProposalV2 stake_pool execution_hash metadata_location metadata_hash
         is_multi_step_proposal) = v6_diem_governance_create_proposal_v2 b stake_pool execution_hash
         metadata_location metadata_hash is_multi_step_proposal"
| "v6_encode b (V6_DiemGovernanceOlCreateProposalV2 execution_hash metadata_location metadata_hash
         is_multi_step_proposal) = v6_diem_governance_ol_create_proposal_v2 b execution_hash metadata_location
         metadata_hash is_multi_step_proposal"
| "v6_encode b (V6_DiemGovernanceOlVote proposal_id should_pass) = v6_diem_governance_ol_vote b proposal_id
         should_pass"
| "v6_encode b V6_DiemGovernanceSmokeTriggerEpoch = v6_diem_governance_smoke_trigger_epoch b"
| "v6_encode b V6_DiemGovernanceTriggerEpoch = v6_diem_governance_trigger_epoch b"
| "v6_encode b (V6_DiemGovernanceVote proposal_id should_pass) = v6_diem_governance_vote b proposal_id should_pass"
| "v6_encode b (V6_DonorVoiceTxsProposeLiquidateTx multisig_address) = v6_donor_voice_txs_propose_liquidate_tx b
         multisig_address"
| "v6_encode b (V6_DonorVoiceTxsProposePaymentTx multisig_address payee value description) =
         v6_donor_voice_txs_propose_payment_tx b multisig_address payee value description"
| "v6_encode b (V6_DonorVoiceTxsProposeVetoTx multisig_address tx_id) = v6_donor_voice_txs_propose_veto_tx b
         multisig_address tx_id"
| "v6_encode b (V6_DonorVoiceTxsVoteLiquidationTx multisig_address) = v6_donor_voice_txs_vote_liquidation_tx b
         multisig_address"
| "v6_encode b (V6_DonorVoiceTxsVoteVetoTx multisig_address tx_id) = v6_donor_voice_txs_vote_veto_tx b
         multisig_address tx_id"
| "v6_encode b V6_EpochBoundarySmokeTriggerEpoch = v6_epoch_boundary_smoke_trigger_epoch b"
| "v6_encode b (V6_JailUnjailByVoucher addr) = v6_jail_unjail_by_voucher b addr"
| "v6_encode b V6_LibraCoinClaimMintCapability = v6_libra_coin_claim_mint_capability b"
| "v6_encode b (V6_LibraCoinDelegateMintCapability to_account) = v6_libra_coin_delegate_mint_capability b to_account"
| "v6_encode b (V6_LibraCoinMintToImpl dst_addr amount) = v6_libra_coin_mint_to_impl b dst_addr amount"
| "v6_encode b (V6_MultiActionFinalizeAndCage initial_authorities num_signers) = v6_multi_action_finalize_and_cage
         b initial_authorities num_signers"
| "v6_encode b (V6_MultisigAccountAddOwner new_owner) = v6_multisig_account_add_owner b new_owner"
| "v6_encode b (V6_MultisigAccountAddOwners new_owners) = v6_multisig_account_add_owners b new_owners"
| "v6_encode b (V6_MultisigAccountApproveTransaction multisig_account sequence_number) =
         v6_multisig_account_approve_transaction b multisig_account sequence_number"
| "v6_encode b (V6_MultisigAccountCreate num_signatures_required metadata_keys metadata_values) =
         v6_multisig_account_create b num_signatures_required metadata_keys metadata_values"
| "v6_encode b (V6_MultisigAccountCreateTransaction multisig_account payload) =
         v6_multisig_account_create_transaction b multisig_account payload"
| "v6_encode b (V6_MultisigAccountCreateTransactionWithHash multisig_account payload_hash) =
         v6_multisig_account_create_transaction_with_hash b multisig_account payload_hash"
| "v6_encode b (V6_MultisigAccountCreateWithExistingAccount multisig_address owners num_signatures_required
         account_scheme account_public_key create_multisig_account_signed_message metadata_keys metadata_values) =
         v6_multisig_account_create_with_existing_account b multisig_address owners num_signatures_required
         account_scheme account_public_key create_multisig_account_signed_message metadata_keys metadata_values"
| "v6_encode b (V6_MultisigAccountCreateWithOwners additional_owners num_signatures_required metadata_keys
         metadata_values) = v6_multisig_account_create_with_owners b additional_owners num_signatures_required
         metadata_keys metadata_values"
| "v6_encode b (V6_MultisigAccountExecuteRejectedTransaction multisig_account) =
         v6_multisig_account_execute_rejected_transaction b multisig_account"
| "v6_encode b (V6_MultisigAccountMigrateWithOwners additional_owners num_signatures_required metadata_keys
         metadata_values) = v6_multisig_account_migrate_with_owners b additional_owners num_signatures_required
         metadata_keys metadata_values"
| "v6_encode b (V6_MultisigAccountRejectTransaction multisig_account sequence_number) =
         v6_multisig_account_reject_transaction b multisig_account sequence_number"
| "v6_encode b (V6_MultisigAccountRemoveOwner owner_to_remove) = v6_multisig_account_remove_owner b owner_to_remove"
| "v6_encode b (V6_MultisigAccountRemoveOwners owners_to_remove) = v6_multisig_account_remove_owners b
         owners_to_remove"
| "v6_encode b (V6_MultisigAccountUpdateMetadata keys values) = v6_multisig_account_update_metadata b keys values"
| "v6_encode b (V6_MultisigAccountUpdateSignaturesRequired new_num_signatures_required) =
         v6_multisig_account_update_signatures_required b new_num_signatures_required"
| "v6_encode b (V6_MultisigAccountVoteTransanction multisig_account sequence_number approved) =
         v6_multisig_account_vote_transanction b multisig_account sequence_number approved"
| "v6_encode b (V6_ObjectTransferCall object to_account) = v6_object_transfer_call b object to_account"
| "v6_encode b (V6_OlAccountCreateAccount auth_key) = v6_ol_account_create_account b auth_key"
| "v6_encode b (V6_OlAccountSetAllowDirectCoinTransfers allow) = v6_ol_account_set_allow_direct_coin_transfers b
         allow"
| "v6_encode b (V6_OlAccountTransfer to_account amount) = v6_ol_account_transfer b to_account amount"
| "v6_encode b V6_OracleInitProvider = v6_oracle_init_provider b"
| "v6_encode b V6_ProofOfFeeInitBidding = v6_proof_of_fee_init_bidding b"
| "v6_encode b V6_ProofOfFeePofRetractBid = v6_proof_of_fee_pof_retract_bid b"
| "v6_encode b (V6_ProofOfFeePofUpdateBid bid epoch_expiry) = v6_proof_of_fee_pof_update_bid b bid epoch_expiry"
| "v6_encode b V6_SafeInitPaymentMultisig = v6_safe_init_payment_multisig b"
| "v6_encode b (V6_SlowWalletSmokeTestVmUnlock user_addr unlocked transferred) =
         v6_slow_wallet_smoke_test_vm_unlock b user_addr unlocked transferred"
| "v6_encode b V6_SlowWalletUserSetSlow = v6_slow_wallet_user_set_slow b"
| "v6_encode b (V6_StakeInitializeStakeOwner initial_stake_amount operator voter) =
         v6_stake_initialize_stake_owner b initial_stake_amount operator voter"
| "v6_encode b (V6_StakeInitializeValidator consensus_pubkey proof_of_possession network_addresses
         fullnode_addresses) = v6_stake_initialize_validator b consensus_pubkey proof_of_possession
         network_addresses fullnode_addresses"
| "v6_encode b (V6_StakeRotateConsensusKey validator_address new_consensus_pubkey proof_of_possession) =
         v6_stake_rotate_consensus_key b validator_address new_consensus_pubkey proof_of_possession"
| "v6_encode b (V6_StakeSetOperator new_operator) = v6_stake_set_operator b new_operator"
| "v6_encode b (V6_StakeUpdateNetworkAndFullnodeAddresses validator_address new_network_addresses
         new_fullnode_addresses) = v6_stake_update_network_and_fullnode_addresses b validator_address
         new_network_addresses new_fullnode_addresses"
| "v6_encode b (V6_TowerStateMinerstateCommit challenge solution difficulty security) =
         v6_tower_state_minerstate_commit b challenge solution difficulty security"
| "v6_encode b (V6_ValidatorUniverseRegisterValidator consensus_pubkey proof_of_possession network_addresses
         fullnode_addresses) = v6_validator_universe_register_validator b consensus_pubkey proof_of_possession
         network_addresses fullnode_addresses"
| "v6_encode b (V6_VersionSetVersion major) = v6_version_set_version b major"
| "v6_encode b (V6_VouchInsistVouchFor wanna_be_my_friend) = v6_vouch_insist_vouch_for b wanna_be_my_friend"
| "v6_encode b (V6_VouchRevoke its_not_me_its_you) = v6_vouch_revoke b its_not_me_its_you"
| "v6_encode b (V6_VouchVouchFor wanna_be_my_friend) = v6_vouch_vouch_for b wanna_be_my_friend"

definition v6_dec_account_offer_rotation_capability :: "bcs \<Rightarrow> TxPayload \<Rightarrow>
         EntryFunctionCallV6 option" where
  "v6_dec_account_offer_rotation_capability b payload = with_entry payload (\<lambda>script.
     Option.bind (arg_at script 0 (ds_bytes b)) (\<lambda>rotation_capability_sig_bytes.
     Option.bind (arg_at script 1 (ds_u8 b)) (\<lambda>account_scheme.
     Option.bind (arg_at script 2 (ds_bytes b)) (\<lambda>account_public_key_bytes.
     Option.bind (arg_at script 3 (ds_addr b)) (\<lambda>recipient_address.
     Some (V6_AccountOfferRotationCapability rotation_capability_sig_bytes account_scheme account_public_key_bytes
         recipient_address))))))"

definition v6_dec_account_offer_signer_capability :: "bcs \<Rightarrow> TxPayload \<Rightarrow> EntryFunctionCallV6
         option" where
  "v6_dec_account_offer_signer_capability b payload = with_entry payload (\<lambda>script.
     Option.bind (arg_at script 0 (ds_bytes b)) (\<lambda>signer_capability_sig_bytes.
     Option.bind (arg_at script 1 (ds_u8 b)) (\<lambda>account_scheme.
     Option.bind (arg_at script 2 (ds_bytes b)) (\<lambda>account_public_key_bytes.
     Option.bind (arg_at script 3 (ds_addr b)) (\<lambda>recipient_address.
     Some (V6_AccountOfferSignerCapability signer_capability_sig_bytes account_scheme account_public_key_bytes
         recipient_address))))))"

definition v6_dec_account_revoke_any_rotation_capability :: "bcs \<Rightarrow> TxPayload \<Rightarrow>
         EntryFunctionCallV6 option" where
  "v6_dec_account_revoke_any_rotation_capability b payload = with_entry payload (\<lambda>script. Some
         V6_AccountRevokeAnyRotationCapability)"

definition v6_dec_account_revoke_any_signer_capability :: "bcs \<Rightarrow> TxPayload \<Rightarrow>
         EntryFunctionCallV6 option" where
  "v6_dec_account_revoke_any_signer_capability b payload = with_entry payload (\<lambda>script. Some
         V6_AccountRevokeAnySignerCapability)"

definition v6_dec_account_revoke_rotation_capability :: "bcs \<Rightarrow> TxPayload \<Rightarrow>
         EntryFunctionCallV6 option" where
  "v6_dec_account_revoke_rotation_capability b payload = with_entry payload (\<lambda>script.
     Option.bind (arg_at script 0 (ds_addr b)) (\<lambda>to_be_revoked_address.
     Some (V6_AccountRevokeRotationCapability to_be_revoked_address)))"

definition v6_dec_account_revoke_signer_capability :: "bcs \<Rightarrow> TxPayload \<Rightarrow>
         EntryFunctionCallV6 option" where
  "v6_dec_account_revoke_signer_capability b payload = with_entry payload (\<lambda>script.
     Option.bind (arg_at script 0 (ds_addr b)) (\<lambda>to_be_revoked_address.
     Some (V6_AccountRevokeSignerCapability to_be_revoked_address)))"

definition v6_dec_account_rotate_authentication_key :: "bcs \<Rightarrow> TxPayload \<Rightarrow>
         EntryFunctionCallV6 option" where
  "v6_dec_account_rotate_authentication_key b payload = with_entry payload (\<lambda>script.
     Option.bind (arg_at script 0 (ds_u8 b)) (\<lambda>from_scheme.
     Option.bind (arg_at script 1 (ds_bytes b)) (\<lambda>from_public_key_bytes.
     Option.bind (arg_at script 2 (ds_u8 b)) (\<lambda>to_scheme.
     Option.bind (arg_at script 3 (ds_bytes b)) (\<lambda>to_public_key_bytes.
     Option.bind (arg_at script 4 (ds_bytes b)) (\<lambda>cap_rotate_key.
     Option.bind (arg_at script 5 (ds_bytes b)) (\<lambda>cap_update_table.
     Some (V6_AccountRotateAuthenticationKey from_scheme from_public_key_bytes to_scheme to_public_key_bytes
         cap_rotate_key cap_update_table))))))))"

definition v6_dec_account_rotate_authentication_key_with_rotation_capability :: "bcs \<Rightarrow> TxPayload
         \<Rightarrow> EntryFunctionCallV6 option" where
  "v6_dec_account_rotate_authentication_key_with_rotation_capability b payload = with_entry payload (\<lambda>script.
     Option.bind (arg_at script 0 (ds_addr b)) (\<lambda>rotation_cap_offerer_address.
     Option.bind (arg_at script 1 (ds_u8 b)) (\<lambda>new_scheme.
     Option.bind (arg_at script 2 (ds_bytes b)) (\<lambda>new_public_key_bytes.
     Option.bind (arg_at script 3 (ds_bytes b)) (\<lambda>cap_update_table.
     Some (V6_AccountRotateAuthenticationKeyWithRotationCapability rotation_cap_offerer_address new_scheme
         new_public_key_bytes cap_update_table))))))"

definition v6_dec_burn_set_send_community :: "bcs \<Rightarrow> TxPayload \<Rightarrow> EntryFunctionCallV6 option"
         where
  "v6_dec_burn_set_send_community b payload = with_entry payload (\<lambda>script.
     Option.bind (arg_at script 0 (ds_bool b)) (\<lambda>community.
     Some (V6_BurnSetSendCommunity community)))"

definition v6_dec_code_publish_package_txn :: "bcs \<Rightarrow> TxPayload \<Rightarrow> EntryFunctionCallV6
         option" where
  "v6_dec_code_publish_package_txn b payload = with_entry payload (\<lambda>script.
     Option.bind (arg_at script 0 (ds_bytes b)) (\<lambda>metadata_serialized.
     Option.bind (arg_at script 1 (ds_bytess b)) (\<lambda>code.
     Some (V6_CodePublishPackageTxn metadata_serialized code))))"

definition v6_dec_coin_transfer :: "bcs \<Rightarrow> TxPayload \<Rightarrow> EntryFunctionCallV6 option" where
  "v6_dec_coin_transfer b payload = with_entry payload (\<lambda>script.
     Option.bind (ty_arg_at script 0) (\<lambda>coin_type.
     Option.bind (arg_at script 0 (ds_addr b)) (\<lambda>to_account.
     Option.bind (arg_at script 1 (ds_u64 b)) (\<lambda>amount.
     Some (V6_CoinTransfer coin_type to_account amount)))))"

definition v6_dec_community_wallet_init_change_signer_community_multisig :: "bcs \<Rightarrow> TxPayload
         \<Rightarrow> EntryFunctionCallV6 option" where
  "v6_dec_community_wallet_init_change_signer_community_multisig b payload = with_entry payload (\<lambda>script.
     Option.bind (arg_at script 0 (ds_addr b)) (\<lambda>multisig_address.
     Option.bind (arg_at script 1 (ds_addr b)) (\<lambda>new_signer.
     Option.bind (arg_at script 2 (ds_bool b)) (\<lambda>is_add_operation.
     Option.bind (arg_at script 3 (ds_u64 b)) (\<lambda>n_of_m.
     Option.bind (arg_at script 4 (ds_u64 b)) (\<lambda>vote_duration_epochs.
     Some (V6_CommunityWalletInitChangeSignerCommunityMultisig multisig_address new_signer is_add_operation n_of_m
         vote_duration_epochs)))))))"

definition v6_dec_community_wallet_init_finalize_and_cage :: "bcs \<Rightarrow> TxPayload \<Rightarrow>
         EntryFunctionCallV6 option" where
  "v6_dec_community_wallet_init_finalize_and_cage b payload = with_entry payload (\<lambda>script.
     Option.bind (arg_at script 0 (ds_addrs b)) (\<lambda>initial_authorities.
     Option.bind (arg_at script 1 (ds_u64 b)) (\<lambda>num_signers.
     Some (V6_CommunityWalletInitFinalizeAndCage initial_authorities num_signers))))"

definition v6_dec_community_wallet_init_init_community :: "bcs \<Rightarrow> TxPayload \<Rightarrow>
         EntryFunctionCallV6 option" where
  "v6_dec_community_wallet_init_init_community b payload = with_entry payload (\<lambda>script.
     Option.bind (arg_at script 0 (ds_addrs b)) (\<lambda>check_addresses.
     Option.bind (arg_at script 1 (ds_u64 b)) (\<lambda>check_threshold.
     Some (V6_CommunityWalletInitInitCommunity check_addresses check_threshold))))"

definition v6_dec_diem_governance_add_approved_script_hash_script :: "bcs \<Rightarrow> TxPayload \<Rightarrow>
         EntryFunctionCallV6 option" where
  "v6_dec_diem_governance_add_approved_script_hash_script b payload = with_entry payload (\<lambda>script.
     Option.bind (arg_at script 0 (ds_u64 b)) (\<lambda>proposal_id.
     Some (V6_DiemGovernanceAddApprovedScriptHashScript proposal_id)))"

definition v6_dec_diem_governance_assert_can_resolve :: "bcs \<Rightarrow> TxPayload \<Rightarrow>
         EntryFunctionCallV6 option" where
  "v6_dec_diem_governance_assert_can_resolve b payload = with_entry payload (\<lambda>script.
     Option.bind (arg_at script 0 (ds_u64 b)) (\<lambda>proposal_id.
     Some (V6_DiemGovernanceAssertCanResolve proposal_id)))"

definition v6_dec_diem_governance_create_proposal :: "bcs \<Rightarrow> TxPayload \<Rightarrow> EntryFunctionCallV6
         option" where
  "v6_dec_diem_governance_create_proposal b payload = with_entry payload (\<lambda>script.
     Option.bind (arg_at script 0 (ds_addr b)) (\<lambda>stake_pool.
     Option.bind (arg_at script 1 (ds_bytes b)) (\<lambda>execution_hash.
     Option.bind (arg_at script 2 (ds_bytes b)) (\<lambda>metadata_location.
     Option.bind (arg_at script 3 (ds_bytes b)) (\<lambda>metadata_hash.
     Some (V6_DiemGovernanceCreateProposal stake_pool execution_hash metadata_location metadata_hash))))))"

definition v6_dec_diem_governance_create_proposal_v2 :: "bcs \<Rightarrow> TxPayload \<Rightarrow>
         EntryFunctionCallV6 option" where
  "v6_dec_diem_governance_create_proposal_v2 b payload = with_entry payload (\<lambda>script.
     Option.bind (arg_at script 0 (ds_addr b)) (\<lambda>stake_pool.
     Option.bind (arg_at script 1 (ds_bytes b)) (\<lambda>execution_hash.
     Option.bind (arg_at script 2 (ds_bytes b)) (\<lambda>metadata_location.
     Option.bind (arg_at script 3 (ds_bytes b)) (\<lambda>metadata_hash.
     Option.bind (arg_at script 4 (ds_bool b)) (\<lambda>is_multi_step_proposal.
     Some (V6_DiemGovernanceCreateProposalV2 stake_pool execution_hash metadata_location metadata_hash
         is_multi_step_proposal)))))))"

definition v6_dec_diem_governance_ol_create_proposal_v2 :: "bcs \<Rightarrow> TxPayload \<Rightarrow>
         EntryFunctionCallV6 option" where
  "v6_dec_diem_governance_ol_create_proposal_v2 b payload = with_entry payload (\<lambda>script.
     Option.bind (arg_at script 0 (ds_bytes b)) (\<lambda>execution_hash.
     Option.bind (arg_at script 1 (ds_bytes b)) (\<lambda>metadata_location.
     Option.bind (arg_at script 2 (ds_bytes b)) (\<lambda>metadata_hash.
     Option.bind (arg_at script 3 (ds_bool b)) (\<lambda>is_multi_step_proposal.
     Some (V6_DiemGovernanceOlCreateProposalV2 execution_hash metadata_location metadata_hash
         is_multi_step_proposal))))))"

definition v6_dec_diem_governance_ol_vote :: "bcs \<Rightarrow> TxPayload \<Rightarrow> EntryFunctionCallV6 option"
         where
  "v6_dec_diem_governance_ol_vote b payload = with_entry payload (\<lambda>script.
     Option.bind (arg_at script 0 (ds_u64 b)) (\<lambda>proposal_id.
     Option.bind (arg_at script 1 (ds_bool b)) (\<lambda>should_pass.
     Some (V6_DiemGovernanceOlVote proposal_id should_pass))))"

definition v6_dec_diem_governance_smoke_trigger_epoch :: "bcs \<Rightarrow> TxPayload \<Rightarrow>
         EntryFunctionCallV6 option" where
  "v6_dec_diem_governance_smoke_trigger_epoch b payload = with_entry payload (\<lambda>script. Some
         V6_DiemGovernanceSmokeTriggerEpoch)"

definition v6_dec_diem_governance_trigger_epoch :: "bcs \<Rightarrow> TxPayload \<Rightarrow> EntryFunctionCallV6
         option" where
  "v6_dec_diem_governance_trigger_epoch b payload = with_entry payload (\<lambda>script. Some
         V6_DiemGovernanceTriggerEpoch)"

definition v6_dec_diem_governance_vote :: "bcs \<Rightarrow> TxPayload \<Rightarrow> EntryFunctionCallV6 option" where
  "v6_dec_diem_governance_vote b payload = with_entry payload (\<lambda>script.
     Option.bind (arg_at script 0 (ds_u64 b)) (\<lambda>proposal_id.
     Option.bind (arg_at script 1 (ds_bool b)) (\<lambda>should_pass.
     Some (V6_DiemGovernanceVote proposal_id should_pass))))"

definition v6_dec_donor_voice_txs_propose_liquidate_tx :: "bcs \<Rightarrow> TxPayload \<Rightarrow>
         EntryFunctionCallV6 option" where
  "v6_dec_donor_voice_txs_propose_liquidate_tx b payload = with_entry payload (\<lambda>script.
     Option.bind (arg_at script 0 (ds_addr b)) (\<lambda>multisig_address.
     Some (V6_DonorVoiceTxsProposeLiquidateTx multisig_address)))"

definition v6_dec_donor_voice_txs_propose_payment_tx :: "bcs \<Rightarrow> TxPayload \<Rightarrow>
         EntryFunctionCallV6 option" where
  "v6_dec_donor_voice_txs_propose_payment_tx b payload = with_entry payload (\<lambda>script.
     Option.bind (arg_at script 0 (ds_addr b)) (\<lambda>multisig_address.
     Option.bind (arg_at script 1 (ds_addr b)) (\<lambda>payee.
     Option.bind (arg_at script 2 (ds_u64 b)) (\<lambda>value.
     Option.bind (arg_at script 3 (ds_bytes b)) (\<lambda>description.
     Some (V6_DonorVoiceTxsProposePaymentTx multisig_address payee value description))))))"

definition v6_dec_donor_voice_txs_propose_veto_tx :: "bcs \<Rightarrow> TxPayload \<Rightarrow> EntryFunctionCallV6
         option" where
  "v6_dec_donor_voice_txs_propose_veto_tx b payload = with_entry payload (\<lambda>script.
     Option.bind (arg_at script 0 (ds_addr b)) (\<lambda>multisig_address.
     Option.bind (arg_at script 1 (ds_u64 b)) (\<lambda>tx_id.
     Some (V6_DonorVoiceTxsProposeVetoTx multisig_address tx_id))))"

definition v6_dec_donor_voice_txs_vote_liquidation_tx :: "bcs \<Rightarrow> TxPayload \<Rightarrow>
         EntryFunctionCallV6 option" where
  "v6_dec_donor_voice_txs_vote_liquidation_tx b payload = with_entry payload (\<lambda>script.
     Option.bind (arg_at script 0 (ds_addr b)) (\<lambda>multisig_address.
     Some (V6_DonorVoiceTxsVoteLiquidationTx multisig_address)))"

definition v6_dec_donor_voice_txs_vote_veto_tx :: "bcs \<Rightarrow> TxPayload \<Rightarrow> EntryFunctionCallV6
         option" where
  "v6_dec_donor_voice_txs_vote_veto_tx b payload = with_entry payload (\<lambda>script.
     Option.bind (arg_at script 0 (ds_addr b)) (\<lambda>multisig_address.
     Option.bind (arg_at script 1 (ds_u64 b)) (\<lambda>tx_id.
     Some (V6_DonorVoiceTxsVoteVetoTx multisig_address tx_id))))"

definition v6_dec_epoch_boundary_smoke_trigger_epoch :: "bcs \<Rightarrow> TxPayload \<Rightarrow>
         EntryFunctionCallV6 option" where
  "v6_dec_epoch_boundary_smoke_trigger_epoch b payload = with_entry payload (\<lambda>script. Some
         V6_EpochBoundarySmokeTriggerEpoch)"

definition v6_dec_jail_unjail_by_voucher :: "bcs \<Rightarrow> TxPayload \<Rightarrow> EntryFunctionCallV6 option"
         where
  "v6_dec_jail_unjail_by_voucher b payload = with_entry payload (\<lambda>script.
     Option.bind (arg_at script 0 (ds_addr b)) (\<lambda>addr.
     Some (V6_JailUnjailByVoucher addr)))"

definition v6_dec_libra_coin_claim_mint_capability :: "bcs \<Rightarrow> TxPayload \<Rightarrow>
         EntryFunctionCallV6 option" where
  "v6_dec_libra_coin_claim_mint_capability b payload = with_entry payload (\<lambda>script. Some
         V6_LibraCoinClaimMintCapability)"

definition v6_dec_libra_coin_delegate_mint_capability :: "bcs \<Rightarrow> TxPayload \<Rightarrow>
         EntryFunctionCallV6 option" where
  "v6_dec_libra_coin_delegate_mint_capability b payload = with_entry payload (\<lambda>script.
     Option.bind (arg_at script 0 (ds_addr b)) (\<lambda>to_account.
     Some (V6_LibraCoinDelegateMintCapability to_account)))"

definition v6_dec_libra_coin_mint_to_impl :: "bcs \<Rightarrow> TxPayload \<Rightarrow> EntryFunctionCallV6 option"
         where
  "v6_dec_libra_coin_mint_to_impl b payload = with_entry payload (\<lambda>script.
     Option.bind (arg_at script 0 (ds_addr b)) (\<lambda>dst_addr.
     Option.bind (arg_at script 1 (ds_u64 b)) (\<lambda>amount.
     Some (V6_LibraCoinMintToImpl dst_addr amount))))"

definition v6_dec_multi_action_finalize_and_cage :: "bcs \<Rightarrow> TxPayload \<Rightarrow> EntryFunctionCallV6
         option" where
  "v6_dec_multi_action_finalize_and_cage b payload = with_entry payload (\<lambda>script.
     Option.bind (arg_at script 0 (ds_addrs b)) (\<lambda>initial_authorities.
     Option.bind (arg_at script 1 (ds_u64 b)) (\<lambda>num_signers.
     Some (V6_MultiActionFinalizeAndCage initial_authorities num_signers))))"

definition v6_dec_multisig_account_add_owner :: "bcs \<Rightarrow> TxPayload \<Rightarrow> EntryFunctionCallV6
         option" where
  "v6_dec_multisig_account_add_owner b payload = with_entry payload (\<lambda>script.
     Option.bind (arg_at script 0 (ds_addr b)) (\<lambda>new_owner.
     Some (V6_MultisigAccountAddOwner new_owner)))"

definition v6_dec_multisig_account_add_owners :: "bcs \<Rightarrow> TxPayload \<Rightarrow> EntryFunctionCallV6
         option" where
  "v6_dec_multisig_account_add_owners b payload = with_entry payload (\<lambda>script.
     Option.bind (arg_at script 0 (ds_addrs b)) (\<lambda>new_owners.
     Some (V6_MultisigAccountAddOwners new_owners)))"

definition v6_dec_multisig_account_approve_transaction :: "bcs \<Rightarrow> TxPayload \<Rightarrow>
         EntryFunctionCallV6 option" where
  "v6_dec_multisig_account_approve_transaction b payload = with_entry payload (\<lambda>script.
     Option.bind (arg_at script 0 (ds_addr b)) (\<lambda>multisig_account.
     Option.bind (arg_at script 1 (ds_u64 b)) (\<lambda>sequence_number.
     Some (V6_MultisigAccountApproveTransaction multisig_account sequence_number))))"

definition v6_dec_multisig_account_create :: "bcs \<Rightarrow> TxPayload \<Rightarrow> EntryFunctionCallV6 option"
         where
  "v6_dec_multisig_account_create b payload = with_entry payload (\<lambda>script.
     Option.bind (arg_at script 0 (ds_u64 b)) (\<lambda>num_signatures_required.
     Option.bind (arg_at script 1 (ds_bytess b)) (\<lambda>metadata_keys.
     Option.bind (arg_at script 2 (ds_bytess b)) (\<lambda>metadata_values.
     Some (V6_MultisigAccountCreate num_signatures_required metadata_keys metadata_values)))))"

definition v6_dec_multisig_account_create_transaction :: "bcs \<Rightarrow> TxPayload \<Rightarrow>
         EntryFunctionCallV6 option" where
  "v6_dec_multisig_account_create_transaction b payload = with_entry payload (\<lambda>script.
     Option.bind (arg_at script 0 (ds_addr b)) (\<lambda>multisig_account.
     Option.bind (arg_at script 1 (ds_bytes b)) (\<lambda>payload.
     Some (V6_MultisigAccountCreateTransaction multisig_account payload))))"

definition v6_dec_multisig_account_create_transaction_with_hash :: "bcs \<Rightarrow> TxPayload \<Rightarrow>
         EntryFunctionCallV6 option" where
  "v6_dec_multisig_account_create_transaction_with_hash b payload = with_entry payload (\<lambda>script.
     Option.bind (arg_at script 0 (ds_addr b)) (\<lambda>multisig_account.
     Option.bind (arg_at script 1 (ds_bytes b)) (\<lambda>payload_hash.
     Some (V6_MultisigAccountCreateTransactionWithHash multisig_account payload_hash))))"

definition v6_dec_multisig_account_create_with_existing_account :: "bcs \<Rightarrow> TxPayload \<Rightarrow>
         EntryFunctionCallV6 option" where
  "v6_dec_multisig_account_create_with_existing_account b payload = with_entry payload (\<lambda>script.
     Option.bind (arg_at script 0 (ds_addr b)) (\<lambda>multisig_address.
     Option.bind (arg_at script 1 (ds_addrs b)) (\<lambda>owners.
     Option.bind (arg_at script 2 (ds_u64 b)) (\<lambda>num_signatures_required.
     Option.bind (arg_at script 3 (ds_u8 b)) (\<lambda>account_scheme.
     Option.bind (arg_at script 4 (ds_bytes b)) (\<lambda>account_public_key.
     Option.bind (arg_at script 5 (ds_bytes b)) (\<lambda>create_multisig_account_signed_message.
     Option.bind (arg_at script 6 (ds_bytess b)) (\<lambda>metadata_keys.
     Option.bind (arg_at script 7 (ds_bytess b)) (\<lambda>metadata_values.
     Some (V6_MultisigAccountCreateWithExistingAccount multisig_address owners num_signatures_required
         account_scheme account_public_key create_multisig_account_signed_message metadata_keys
         metadata_values))))))))))"

definition v6_dec_multisig_account_create_with_owners :: "bcs \<Rightarrow> TxPayload \<Rightarrow>
         EntryFunctionCallV6 option" where
  "v6_dec_multisig_account_create_with_owners b payload = with_entry payload (\<lambda>script.
     Option.bind (arg_at script 0 (ds_addrs b)) (\<lambda>additional_owners.
     Option.bind (arg_at script 1 (ds_u64 b)) (\<lambda>num_signatures_required.
     Option.bind (arg_at script 2 (ds_bytess b)) (\<lambda>metadata_keys.
     Option.bind (arg_at script 3 (ds_bytess b)) (\<lambda>metadata_values.
     Some (V6_MultisigAccountCreateWithOwners additional_owners num_signatures_required metadata_keys
         metadata_values))))))"

definition v6_dec_multisig_account_execute_rejected_transaction :: "bcs \<Rightarrow> TxPayload \<Rightarrow>
         EntryFunctionCallV6 option" where
  "v6_dec_multisig_account_execute_rejected_transaction b payload = with_entry payload (\<lambda>script.
     Option.bind (arg_at script 0 (ds_addr b)) (\<lambda>multisig_account.
     Some (V6_MultisigAccountExecuteRejectedTransaction multisig_account)))"

definition v6_dec_multisig_account_migrate_with_owners :: "bcs \<Rightarrow> TxPayload \<Rightarrow>
         EntryFunctionCallV6 option" where
  "v6_dec_multisig_account_migrate_with_owners b payload = with_entry payload (\<lambda>script.
     Option.bind (arg_at script 0 (ds_addrs b)) (\<lambda>additional_owners.
     Option.bind (arg_at script 1 (ds_u64 b)) (\<lambda>num_signatures_required.
     Option.bind (arg_at script 2 (ds_bytess b)) (\<lambda>metadata_keys.
     Option.bind (arg_at script 3 (ds_bytess b)) (\<lambda>metadata_values.
     Some (V6_MultisigAccountMigrateWithOwners additional_owners num_signatures_required metadata_keys
         metadata_values))))))"

definition v6_dec_multisig_account_reject_transaction :: "bcs \<Rightarrow> TxPayload \<Rightarrow>
         EntryFunctionCallV6 option" where
  "v6_dec_multisig_account_reject_transaction b payload = with_entry payload (\<lambda>script.
     Option.bind (arg_at script 0 (ds_addr b)) (\<lambda>multisig_account.
     Option.bind (arg_at script 1 (ds_u64 b)) (\<lambda>sequence_number.
     Some (V6_MultisigAccountRejectTransaction multisig_account sequence_number))))"

definition v6_dec_multisig_account_remove_owner :: "bcs \<Rightarrow> TxPayload \<Rightarrow> EntryFunctionCallV6
         option" where
  "v6_dec_multisig_account_remove_owner b payload = with_entry payload (\<lambda>script.
     Option.bind (arg_at script 0 (ds_addr b)) (\<lambda>owner_to_remove.
     Some (V6_MultisigAccountRemoveOwner owner_to_remove)))"

definition v6_dec_multisig_account_remove_owners :: "bcs \<Rightarrow> TxPayload \<Rightarrow> EntryFunctionCallV6
         option" where
  "v6_dec_multisig_account_remove_owners b payload = with_entry payload (\<lambda>script.
     Option.bind (arg_at script 0 (ds_addrs b)) (\<lambda>owners_to_remove.
     Some (V6_MultisigAccountRemoveOwners owners_to_remove)))"

definition v6_dec_multisig_account_update_metadata :: "bcs \<Rightarrow> TxPayload \<Rightarrow>
         EntryFunctionCallV6 option" where
  "v6_dec_multisig_account_update_metadata b payload = with_entry payload (\<lambda>script.
     Option.bind (arg_at script 0 (ds_bytess b)) (\<lambda>keys.
     Option.bind (arg_at script 1 (ds_bytess b)) (\<lambda>values.
     Some (V6_MultisigAccountUpdateMetadata keys values))))"

definition v6_dec_multisig_account_update_signatures_required :: "bcs \<Rightarrow> TxPayload \<Rightarrow>
         EntryFunctionCallV6 option" where
  "v6_dec_multisig_account_update_signatures_required b payload = with_entry payload (\<lambda>script.
     Option.bind (arg_at script 0 (ds_u64 b)) (\<lambda>new_num_signatures_required.
     Some (V6_MultisigAccountUpdateSignaturesRequired new_num_signatures_required)))"

definition v6_dec_multisig_account_vote_transanction :: "bcs \<Rightarrow> TxPayload \<Rightarrow>
         EntryFunctionCallV6 option" where
  "v6_dec_multisig_account_vote_transanction b payload = with_entry payload (\<lambda>script.
     Option.bind (arg_at script 0 (ds_addr b)) (\<lambda>multisig_account.
     Option.bind (arg_at script 1 (ds_u64 b)) (\<lambda>sequence_number.
     Option.bind (arg_at script 2 (ds_bool b)) (\<lambda>approved.
     Some (V6_MultisigAccountVoteTransanction multisig_account sequence_number approved)))))"

definition v6_dec_object_transfer_call :: "bcs \<Rightarrow> TxPayload \<Rightarrow> EntryFunctionCallV6 option" where
  "v6_dec_object_transfer_call b payload = with_entry payload (\<lambda>script.
     Option.bind (arg_at script 0 (ds_addr b)) (\<lambda>object.
     Option.bind (arg_at script 1 (ds_addr b)) (\<lambda>to_account.
     Some (V6_ObjectTransferCall object to_account))))"

definition v6_dec_ol_account_create_account :: "bcs \<Rightarrow> TxPayload \<Rightarrow> EntryFunctionCallV6
         option" where
  "v6_dec_ol_account_create_account b payload = with_entry payload (\<lambda>script.
     Option.bind (arg_at script 0 (ds_addr b)) (\<lambda>auth_key.
     Some (V6_OlAccountCreateAccount auth_key)))"

definition v6_dec_ol_account_set_allow_direct_coin_transfers :: "bcs \<Rightarrow> TxPayload \<Rightarrow>
         EntryFunctionCallV6 option" where
  "v6_dec_ol_account_set_allow_direct_coin_transfers b payload = with_entry payload (\<lambda>script.
     Option.bind (arg_at script 0 (ds_bool b)) (\<lambda>allow.
     Some (V6_OlAccountSetAllowDirectCoinTransfers allow)))"

definition v6_dec_ol_account_transfer :: "bcs \<Rightarrow> TxPayload \<Rightarrow> EntryFunctionCallV6 option" where
  "v6_dec_ol_account_transfer b payload = with_entry payload (\<lambda>script.
     Option.bind (arg_at script 0 (ds_addr b)) (\<lambda>to_account.
     Option.bind (arg_at script 1 (ds_u64 b)) (\<lambda>amount.
     Some (V6_OlAccountTransfer to_account amount))))"

definition v6_dec_oracle_init_provider :: "bcs \<Rightarrow> TxPayload \<Rightarrow> EntryFunctionCallV6 option" where
  "v6_dec_oracle_init_provider b payload = with_entry payload (\<lambda>script. Some V6_OracleInitProvider)"

definition v6_dec_proof_of_fee_init_bidding :: "bcs \<Rightarrow> TxPayload \<Rightarrow> EntryFunctionCallV6
         option" where
  "v6_dec_proof_of_fee_init_bidding b payload = with_entry payload (\<lambda>script. Some V6_ProofOfFeeInitBidding)"

definition v6_dec_proof_of_fee_pof_retract_bid :: "bcs \<Rightarrow> TxPayload \<Rightarrow> EntryFunctionCallV6
         option" where
  "v6_dec_proof_of_fee_pof_retract_bid b payload = with_entry payload (\<lambda>script. Some
         V6_ProofOfFeePofRetractBid)"

definition v6_dec_proof_of_fee_pof_update_bid :: "bcs \<Rightarrow> TxPayload \<Rightarrow> EntryFunctionCallV6
         option" where
  "v6_dec_proof_of_fee_pof_update_bid b payload = with_entry payload (\<lambda>script.
     Option.bind (arg_at script 0 (ds_u64 b)) (\<lambda>bid.
     Option.bind (arg_at script 1 (ds_u64 b)) (\<lambda>epoch_expiry.
     Some (V6_ProofOfFeePofUpdateBid bid epoch_expiry))))"

definition v6_dec_safe_init_payment_multisig :: "bcs \<Rightarrow> TxPayload \<Rightarrow> EntryFunctionCallV6
         option" where
  "v6_dec_safe_init_payment_multisig b payload = with_entry payload (\<lambda>script. Some
         V6_SafeInitPaymentMultisig)"

definition v6_dec_slow_wallet_smoke_test_vm_unlock :: "bcs \<Rightarrow> TxPayload \<Rightarrow>
         EntryFunctionCallV6 option" where
  "v6_dec_slow_wallet_smoke_test_vm_unlock b payload = with_entry payload (\<lambda>script.
     Option.bind (arg_at script 0 (ds_addr b)) (\<lambda>user_addr.
     Option.bind (arg_at script 1 (ds_u64 b)) (\<lambda>unlocked.
     Option.bind (arg_at script 2 (ds_u64 b)) (\<lambda>transferred.
     Some (V6_SlowWalletSmokeTestVmUnlock user_addr unlocked transferred)))))"

definition v6_dec_slow_wallet_user_set_slow :: "bcs \<Rightarrow> TxPayload \<Rightarrow> EntryFunctionCallV6
         option" where
  "v6_dec_slow_wallet_user_set_slow b payload = with_entry payload (\<lambda>script. Some V6_SlowWalletUserSetSlow)"

definition v6_dec_stake_initialize_stake_owner :: "bcs \<Rightarrow> TxPayload \<Rightarrow> EntryFunctionCallV6
         option" where
  "v6_dec_stake_initialize_stake_owner b payload = with_entry payload (\<lambda>script.
     Option.bind (arg_at script 0 (ds_u64 b)) (\<lambda>initial_stake_amount.
     Option.bind (arg_at script 1 (ds_addr b)) (\<lambda>operator.
     Option.bind (arg_at script 2 (ds_addr b)) (\<lambda>voter.
     Some (V6_StakeInitializeStakeOwner initial_stake_amount operator voter)))))"

definition v6_dec_stake_initialize_validator :: "bcs \<Rightarrow> TxPayload \<Rightarrow> EntryFunctionCallV6
         option" where
  "v6_dec_stake_initialize_validator b payload = with_entry payload (\<lambda>script.
     Option.bind (arg_at script 0 (ds_bytes b)) (\<lambda>consensus_pubkey.
     Option.bind (arg_at script 1 (ds_bytes b)) (\<lambda>proof_of_possession.
     Option.bind (arg_at script 2 (ds_bytes b)) (\<lambda>network_addresses.
     Option.bind (arg_at script 3 (ds_bytes b)) (\<lambda>fullnode_addresses.
     Some (V6_StakeInitializeValidator consensus_pubkey proof_of_possession network_addresses
         fullnode_addresses))))))"

definition v6_dec_stake_rotate_consensus_key :: "bcs \<Rightarrow> TxPayload \<Rightarrow> EntryFunctionCallV6
         option" where
  "v6_dec_stake_rotate_consensus_key b payload = with_entry payload (\<lambda>script.
     Option.bind (arg_at script 0 (ds_addr b)) (\<lambda>validator_address.
     Option.bind (arg_at script 1 (ds_bytes b)) (\<lambda>new_consensus_pubkey.
     Option.bind (arg_at script 2 (ds_bytes b)) (\<lambda>proof_of_possession.
     Some (V6_StakeRotateConsensusKey validator_address new_consensus_pubkey proof_of_possession)))))"

definition v6_dec_stake_set_operator :: "bcs \<Rightarrow> TxPayload \<Rightarrow> EntryFunctionCallV6 option" where
  "v6_dec_stake_set_operator b payload = with_entry payload (\<lambda>script.
     Option.bind (arg_at script 0 (ds_addr b)) (\<lambda>new_operator.
     Some (V6_StakeSetOperator new_operator)))"

definition v6_dec_stake_update_network_and_fullnode_addresses :: "bcs \<Rightarrow> TxPayload \<Rightarrow>
         EntryFunctionCallV6 option" where
  "v6_dec_stake_update_network_and_fullnode_addresses b payload = with_entry payload (\<lambda>script.
     Option.bind (arg_at script 0 (ds_addr b)) (\<lambda>validator_address.
     Option.bind (arg_at script 1 (ds_bytes b)) (\<lambda>new_network_addresses.
     Option.bind (arg_at script 2 (ds_bytes b)) (\<lambda>new_fullnode_addresses.
     Some (V6_StakeUpdateNetworkAndFullnodeAddresses validator_address new_network_addresses
         new_fullnode_addresses)))))"

definition v6_dec_tower_state_minerstate_commit :: "bcs \<Rightarrow> TxPayload \<Rightarrow> EntryFunctionCallV6
         option" where
  "v6_dec_tower_state_minerstate_commit b payload = with_entry payload (\<lambda>script.
     Option.bind (arg_at script 0 (ds_bytes b)) (\<lambda>challenge.
     Option.bind (arg_at script 1 (ds_bytes b)) (\<lambda>solution.
     Option.bind (arg_at script 2 (ds_u64 b)) (\<lambda>difficulty.
     Option.bind (arg_at script 3 (ds_u64 b)) (\<lambda>security.
     Some (V6_TowerStateMinerstateCommit challenge solution difficulty security))))))"

definition v6_dec_validator_universe_register_validator :: "bcs \<Rightarrow> TxPayload \<Rightarrow>
         EntryFunctionCallV6 option" where
  "v6_dec_validator_universe_register_validator b payload = with_entry payload (\<lambda>script.
     Option.bind (arg_at script 0 (ds_bytes b)) (\<lambda>consensus_pubkey.
     Option.bind (arg_at script 1 (ds_bytes b)) (\<lambda>proof_of_possession.
     Option.bind (arg_at script 2 (ds_bytes b)) (\<lambda>network_addresses.
     Option.bind (arg_at script 3 (ds_bytes b)) (\<lambda>fullnode_addresses.
     Some (V6_ValidatorUniverseRegisterValidator consensus_pubkey proof_of_possession network_addresses
         fullnode_addresses))))))"

definition v6_dec_version_set_version :: "bcs \<Rightarrow> TxPayload \<Rightarrow> EntryFunctionCallV6 option" where
  "v6_dec_version_set_version b payload = with_entry payload (\<lambda>script.
     Option.bind (arg_at script 0 (ds_u64 b)) (\<lambda>major.
     Some (V6_VersionSetVersion major)))"

definition v6_dec_vouch_insist_vouch_for :: "bcs \<Rightarrow> TxPayload \<Rightarrow> EntryFunctionCallV6 option"
         where
  "v6_dec_vouch_insist_vouch_for b payload = with_entry payload (\<lambda>script.
     Option.bind (arg_at script 0 (ds_addr b)) (\<lambda>wanna_be_my_friend.
     Some (V6_VouchInsistVouchFor wanna_be_my_friend)))"

definition v6_dec_vouch_revoke :: "bcs \<Rightarrow> TxPayload \<Rightarrow> EntryFunctionCallV6 option" where
  "v6_dec_vouch_revoke b payload = with_entry payload (\<lambda>script.
     Option.bind (arg_at script 0 (ds_addr b)) (\<lambda>its_not_me_its_you.
     Some (V6_VouchRevoke its_not_me_its_you)))"

definition v6_dec_vouch_vouch_for :: "bcs \<Rightarrow> TxPayload \<Rightarrow> EntryFunctionCallV6 option" where
  "v6_dec_vouch_vouch_for b payload = with_entry payload (\<lambda>script.
     Option.bind (arg_at script 0 (ds_addr b)) (\<lambda>wanna_be_my_friend.
     Some (V6_VouchVouchFor wanna_be_my_friend)))"

definition V6_SCRIPT_FUNCTION_DECODER_MAP :: "(string \<times> (bcs \<Rightarrow> TxPayload \<Rightarrow>
         EntryFunctionCallV6 option)) list" where
  "V6_SCRIPT_FUNCTION_DECODER_MAP =
     [(''account_offer_rotation_capability'', v6_dec_account_offer_rotation_capability),
      (''account_offer_signer_capability'', v6_dec_account_offer_signer_capability),
      (''account_revoke_any_rotation_capability'', v6_dec_account_revoke_any_rotation_capability),
      (''account_revoke_any_signer_capability'', v6_dec_account_revoke_any_signer_capability),
      (''account_revoke_rotation_capability'', v6_dec_account_revoke_rotation_capability),
      (''account_revoke_signer_capability'', v6_dec_account_revoke_signer_capability),
      (''account_rotate_authentication_key'', v6_dec_account_rotate_authentication_key),
      (''account_rotate_authentication_key_with_rotation_capability'',
         v6_dec_account_rotate_authentication_key_with_rotation_capability),
      (''burn_set_send_community'', v6_dec_burn_set_send_community),
      (''code_publish_package_txn'', v6_dec_code_publish_package_txn),
      (''coin_transfer'', v6_dec_coin_transfer),
      (''community_wallet_init_change_signer_community_multisig'',
         v6_dec_community_wallet_init_change_signer_community_multisig),
      (''community_wallet_init_finalize_and_cage'', v6_dec_community_wallet_init_finalize_and_cage),
      (''community_wallet_init_init_community'', v6_dec_community_wallet_init_init_community),
      (''diem_governance_add_approved_script_hash_script'', v6_dec_diem_governance_add_approved_script_hash_script),
      (''diem_governance_assert_can_resolve'', v6_dec_diem_governance_assert_can_resolve),
      (''diem_governance_create_proposal'', v6_dec_diem_governance_create_proposal),
      (''diem_governance_create_proposal_v2'', v6_dec_diem_governance_create_proposal_v2),
      (''diem_governance_ol_create_proposal_v2'', v6_dec_diem_governance_ol_create_proposal_v2),
      (''diem_governance_ol_vote'', v6_dec_diem_governance_ol_vote),
      (''diem_governance_smoke_trigger_epoch'', v6_dec_diem_governance_smoke_trigger_epoch),
      (''diem_governance_trigger_epoch'', v6_dec_diem_governance_trigger_epoch),
      (''diem_governance_vote'', v6_dec_diem_governance_vote),
      (''donor_voice_txs_propose_liquidate_tx'', v6_dec_donor_voice_txs_propose_liquidate_tx),
      (''donor_voice_txs_propose_payment_tx'', v6_dec_donor_voice_txs_propose_payment_tx),
      (''donor_voice_txs_propose_veto_tx'', v6_dec_donor_voice_txs_propose_veto_tx),
      (''donor_voice_txs_vote_liquidation_tx'', v6_dec_donor_voice_txs_vote_liquidation_tx),
      (''donor_voice_txs_vote_veto_tx'', v6_dec_donor_voice_txs_vote_veto_tx),
      (''epoch_boundary_smoke_trigger_epoch'', v6_dec_epoch_boundary_smoke_trigger_epoch),
      (''jail_unjail_by_voucher'', v6_dec_jail_unjail_by_voucher),
      (''libra_coin_claim_mint_capability'', v6_dec_libra_coin_claim_mint_capability),
      (''libra_coin_delegate_mint_capability'', v6_dec_libra_coin_delegate_mint_capability),
      (''libra_coin_mint_to_impl'', v6_dec_libra_coin_mint_to_impl),
      (''multi_action_finalize_and_cage'', v6_dec_multi_action_finalize_and_cage),
      (''multisig_account_add_owner'', v6_dec_multisig_account_add_owner),
      (''multisig_account_add_owners'', v6_dec_multisig_account_add_owners),
      (''multisig_account_approve_transaction'', v6_dec_multisig_account_approve_transaction),
      (''multisig_account_create'', v6_dec_multisig_account_create),
      (''multisig_account_create_transaction'', v6_dec_multisig_account_create_transaction),
      (''multisig_account_create_transaction_with_hash'', v6_dec_multisig_account_create_transaction_with_hash),
      (''multisig_account_create_with_existing_account'', v6_dec_multisig_account_create_with_existing_account),
      (''multisig_account_create_with_owners'', v6_dec_multisig_account_create_with_owners),
      (''multisig_account_execute_rejected_transaction'', v6_dec_multisig_account_execute_rejected_transaction),
      (''multisig_account_migrate_with_owners'', v6_dec_multisig_account_migrate_with_owners),
      (''multisig_account_reject_transaction'', v6_dec_multisig_account_reject_transaction),
      (''multisig_account_remove_owner'', v6_dec_multisig_account_remove_owner),
      (''multisig_account_remove_owners'', v6_dec_multisig_account_remove_owners),
      (''multisig_account_update_metadata'', v6_dec_multisig_account_update_metadata),
      (''multisig_account_update_signatures_required'', v6_dec_multisig_account_update_signatures_required),
      (''multisig_account_vote_transanction'', v6_dec_multisig_account_vote_transanction),
      (''object_transfer_call'', v6_dec_object_transfer_call),
      (''ol_account_create_account'', v6_dec_ol_account_create_account),
      (''ol_account_set_allow_direct_coin_transfers'', v6_dec_ol_account_set_allow_direct_coin_transfers),
      (''ol_account_transfer'', v6_dec_ol_account_transfer),
      (''oracle_init_provider'', v6_dec_oracle_init_provider),
      (''proof_of_fee_init_bidding'', v6_dec_proof_of_fee_init_bidding),
      (''proof_of_fee_pof_retract_bid'', v6_dec_proof_of_fee_pof_retract_bid),
      (''proof_of_fee_pof_update_bid'', v6_dec_proof_of_fee_pof_update_bid),
      (''safe_init_payment_multisig'', v6_dec_safe_init_payment_multisig),
      (''slow_wallet_smoke_test_vm_unlock'', v6_dec_slow_wallet_smoke_test_vm_unlock),
      (''slow_wallet_user_set_slow'', v6_dec_slow_wallet_user_set_slow),
      (''stake_initialize_stake_owner'', v6_dec_stake_initialize_stake_owner),
      (''stake_initialize_validator'', v6_dec_stake_initialize_validator),
      (''stake_rotate_consensus_key'', v6_dec_stake_rotate_consensus_key),
      (''stake_set_operator'', v6_dec_stake_set_operator),
      (''stake_update_network_and_fullnode_addresses'', v6_dec_stake_update_network_and_fullnode_addresses),
      (''tower_state_minerstate_commit'', v6_dec_tower_state_minerstate_commit),
      (''validator_universe_register_validator'', v6_dec_validator_universe_register_validator),
      (''version_set_version'', v6_dec_version_set_version),
      (''vouch_insist_vouch_for'', v6_dec_vouch_insist_vouch_for),
      (''vouch_revoke'', v6_dec_vouch_revoke),
      (''vouch_vouch_for'', v6_dec_vouch_vouch_for)]"

definition v6_decode :: "bcs \<Rightarrow> TxPayload \<Rightarrow> EntryFunctionCallV6 option" where
  "v6_decode b payload =
     with_entry payload (\<lambda>script.
       case map_of V6_SCRIPT_FUNCTION_DECODER_MAP (en_module script @ ''_'' @ en_function script) of
         Some decoder \<Rightarrow> decoder b payload
       | None \<Rightarrow> None)"

text \<open>The addresses a call carries.\<close>

primrec v6_call_addresses :: "EntryFunctionCallV6 \<Rightarrow> account_address list" where
    "v6_call_addresses (V6_AccountOfferRotationCapability rotation_capability_sig_bytes account_scheme
         account_public_key_bytes recipient_address) = [recipient_address]"
  | "v6_call_addresses (V6_AccountOfferSignerCapability signer_capability_sig_bytes account_scheme
         account_public_key_bytes recipient_address) = [recipient_address]"
  | "v6_call_addresses V6_AccountRevokeAnyRotationCapability = []"
  | "v6_call_addresses V6_AccountRevokeAnySignerCapability = []"
  | "v6_call_addresses (V6_AccountRevokeRotationCapability to_be_revoked_address) = [to_be_revoked_address]"
  | "v6_call_addresses (V6_AccountRevokeSignerCapability to_be_revoked_address) = [to_be_revoked_address]"
  | "v6_call_addresses (V6_AccountRotateAuthenticationKey from_scheme from_public_key_bytes to_scheme
         to_public_key_bytes cap_rotate_key cap_update_table) = []"
  | "v6_call_addresses (V6_AccountRotateAuthenticationKeyWithRotationCapability rotation_cap_offerer_address
         new_scheme new_public_key_bytes cap_update_table) = [rotation_cap_offerer_address]"
  | "v6_call_addresses (V6_BurnSetSendCommunity community) = []"
  | "v6_call_addresses (V6_CodePublishPackageTxn metadata_serialized code) = []"
  | "v6_call_addresses (V6_CoinTransfer coin_type to_account amount) = [to_account]"
  | "v6_call_addresses (V6_CommunityWalletInitChangeSignerCommunityMultisig multisig_address new_signer
         is_add_operation n_of_m vote_duration_epochs) = [multisig_address] @ [new_signer]"
  | "v6_call_addresses (V6_CommunityWalletInitFinalizeAndCage initial_authorities num_signers) = initial_authorities"
  | "v6_call_addresses (V6_CommunityWalletInitInitCommunity check_addresses check_threshold) = check_addresses"
  | "v6_call_addresses (V6_DiemGovernanceAddApprovedScriptHashScript proposal_id) = []"
  | "v6_call_addresses (V6_DiemGovernanceAssertCanResolve proposal_id) = []"
  | "v6_call_addresses (V6_DiemGovernanceCreateProposal stake_pool execution_hash metadata_location metadata_hash)
         = [stake_pool]"
  | "v6_call_addresses (V6_DiemGovernanceCreateProposalV2 stake_pool execution_hash metadata_location metadata_hash
         is_multi_step_proposal) = [stake_pool]"
  | "v6_call_addresses (V6_DiemGovernanceOlCreateProposalV2 execution_hash metadata_location metadata_hash
         is_multi_step_proposal) = []"
  | "v6_call_addresses (V6_DiemGovernanceOlVote proposal_id should_pass) = []"
  | "v6_call_addresses V6_DiemGovernanceSmokeTriggerEpoch = []"
  | "v6_call_addresses V6_DiemGovernanceTriggerEpoch = []"
  | "v6_call_addresses (V6_DiemGovernanceVote proposal_id should_pass) = []"
  | "v6_call_addresses (V6_DonorVoiceTxsProposeLiquidateTx multisig_address) = [multisig_address]"
  | "v6_call_addresses (V6_DonorVoiceTxsProposePaymentTx multisig_address payee value description) =
         [multisig_address] @ [payee]"
  | "v6_call_addresses (V6_DonorVoiceTxsProposeVetoTx multisig_address tx_id) = [multisig_address]"
  | "v6_call_addresses (V6_DonorVoiceTxsVoteLiquidationTx multisig_address) = [multisig_address]"
  | "v6_call_addresses (V6_DonorVoiceTxsVoteVetoTx multisig_address tx_id) = [multisig_address]"
  | "v6_call_addresses V6_EpochBoundarySmokeTriggerEpoch = []"
  | "v6_call_addresses (V6_JailUnjailByVoucher addr) = [addr]"
  | "v6_call_addresses V6_LibraCoinClaimMintCapability = []"
  | "v6_call_addresses (V6_LibraCoinDelegateMintCapability to_account) = [to_account]"
  | "v6_call_addresses (V6_LibraCoinMintToImpl dst_addr amount) = [dst_addr]"
  | "v6_call_addresses (V6_MultiActionFinalizeAndCage initial_authorities num_signers) = initial_authorities"
  | "v6_call_addresses (V6_MultisigAccountAddOwner new_owner) = [new_owner]"
  | "v6_call_addresses (V6_MultisigAccountAddOwners new_owners) = new_owners"
  | "v6_call_addresses (V6_MultisigAccountApproveTransaction multisig_account sequence_number) = [multisig_account]"
  | "v6_call_addresses (V6_MultisigAccountCreate num_signatures_required metadata_keys metadata_values) = []"
  | "v6_call_addresses (V6_MultisigAccountCreateTransaction multisig_account payload) = [multisig_account]"
  | "v6_call_addresses (V6_MultisigAccountCreateTransactionWithHash multisig_account payload_hash) =
         [multisig_account]"
  | "v6_call_addresses (V6_MultisigAccountCreateWithExistingAccount multisig_address owners num_signatures_required
         account_scheme account_public_key create_multisig_account_signed_message metadata_keys metadata_values) =
         [multisig_address] @ owners"
  | "v6_call_addresses (V6_MultisigAccountCreateWithOwners additional_owners num_signatures_required metadata_keys
         metadata_values) = additional_owners"
  | "v6_call_addresses (V6_MultisigAccountExecuteRejectedTransaction multisig_account) = [multisig_account]"
  | "v6_call_addresses (V6_MultisigAccountMigrateWithOwners additional_owners num_signatures_required metadata_keys
         metadata_values) = additional_owners"
  | "v6_call_addresses (V6_MultisigAccountRejectTransaction multisig_account sequence_number) = [multisig_account]"
  | "v6_call_addresses (V6_MultisigAccountRemoveOwner owner_to_remove) = [owner_to_remove]"
  | "v6_call_addresses (V6_MultisigAccountRemoveOwners owners_to_remove) = owners_to_remove"
  | "v6_call_addresses (V6_MultisigAccountUpdateMetadata keys values) = []"
  | "v6_call_addresses (V6_MultisigAccountUpdateSignaturesRequired new_num_signatures_required) = []"
  | "v6_call_addresses (V6_MultisigAccountVoteTransanction multisig_account sequence_number approved) =
         [multisig_account]"
  | "v6_call_addresses (V6_ObjectTransferCall object to_account) = [object] @ [to_account]"
  | "v6_call_addresses (V6_OlAccountCreateAccount auth_key) = [auth_key]"
  | "v6_call_addresses (V6_OlAccountSetAllowDirectCoinTransfers allow) = []"
  | "v6_call_addresses (V6_OlAccountTransfer to_account amount) = [to_account]"
  | "v6_call_addresses V6_OracleInitProvider = []"
  | "v6_call_addresses V6_ProofOfFeeInitBidding = []"
  | "v6_call_addresses V6_ProofOfFeePofRetractBid = []"
  | "v6_call_addresses (V6_ProofOfFeePofUpdateBid bid epoch_expiry) = []"
  | "v6_call_addresses V6_SafeInitPaymentMultisig = []"
  | "v6_call_addresses (V6_SlowWalletSmokeTestVmUnlock user_addr unlocked transferred) = [user_addr]"
  | "v6_call_addresses V6_SlowWalletUserSetSlow = []"
  | "v6_call_addresses (V6_StakeInitializeStakeOwner initial_stake_amount operator voter) = [operator] @ [voter]"
  | "v6_call_addresses (V6_StakeInitializeValidator consensus_pubkey proof_of_possession network_addresses
         fullnode_addresses) = []"
  | "v6_call_addresses (V6_StakeRotateConsensusKey validator_address new_consensus_pubkey proof_of_possession) =
         [validator_address]"
  | "v6_call_addresses (V6_StakeSetOperator new_operator) = [new_operator]"
  | "v6_call_addresses (V6_StakeUpdateNetworkAndFullnodeAddresses validator_address new_network_addresses
         new_fullnode_addresses) = [validator_address]"
  | "v6_call_addresses (V6_TowerStateMinerstateCommit challenge solution difficulty security) = []"
  | "v6_call_addresses (V6_ValidatorUniverseRegisterValidator consensus_pubkey proof_of_possession
         network_addresses fullnode_addresses) = []"
  | "v6_call_addresses (V6_VersionSetVersion major) = []"
  | "v6_call_addresses (V6_VouchInsistVouchFor wanna_be_my_friend) = [wanna_be_my_friend]"
  | "v6_call_addresses (V6_VouchRevoke its_not_me_its_you) = [its_not_me_its_you]"
  | "v6_call_addresses (V6_VouchVouchFor wanna_be_my_friend) = [wanna_be_my_friend]"

text \<open>The call of version seven that a call of version six is, if there is one.\<close>

primrec v6_upgrade :: "EntryFunctionCallV6 \<Rightarrow> EntryFunctionCallV7 option" where
    "v6_upgrade (V6_AccountOfferRotationCapability rotation_capability_sig_bytes account_scheme
         account_public_key_bytes recipient_address) = Some (V7_AccountOfferRotationCapability
         rotation_capability_sig_bytes account_scheme account_public_key_bytes recipient_address)"
  | "v6_upgrade (V6_AccountOfferSignerCapability signer_capability_sig_bytes account_scheme
         account_public_key_bytes recipient_address) = Some (V7_AccountOfferSignerCapability
         signer_capability_sig_bytes account_scheme account_public_key_bytes recipient_address)"
  | "v6_upgrade V6_AccountRevokeAnyRotationCapability = Some V7_AccountRevokeAnyRotationCapability"
  | "v6_upgrade V6_AccountRevokeAnySignerCapability = Some V7_AccountRevokeAnySignerCapability"
  | "v6_upgrade (V6_AccountRevokeRotationCapability to_be_revoked_address) = Some
         (V7_AccountRevokeRotationCapability to_be_revoked_address)"
  | "v6_upgrade (V6_AccountRevokeSignerCapability to_be_revoked_address) = Some (V7_AccountRevokeSignerCapability
         to_be_revoked_address)"
  | "v6_upgrade (V6_AccountRotateAuthenticationKey from_scheme from_public_key_bytes to_scheme to_public_key_bytes
         cap_rotate_key cap_update_table) = Some (V7_AccountRotateAuthenticationKey from_scheme
         from_public_key_bytes to_scheme to_public_key_bytes cap_rotate_key cap_update_table)"
  | "v6_upgrade (V6_AccountRotateAuthenticationKeyWithRotationCapability rotation_cap_offerer_address new_scheme
         new_public_key_bytes cap_update_table) = Some (V7_AccountRotateAuthenticationKeyWithRotationCapability
         rotation_cap_offerer_address new_scheme new_public_key_bytes cap_update_table)"
  | "v6_upgrade (V6_BurnSetSendCommunity community) = Some (V7_BurnSetSendCommunity community)"
  | "v6_upgrade (V6_CodePublishPackageTxn metadata_serialized code) = Some (V7_CodePublishPackageTxn
         metadata_serialized code)"
  | "v6_upgrade (V6_CoinTransfer coin_type to_account amount) = Some (V7_CoinTransfer coin_type to_account amount)"
  | "v6_upgrade (V6_CommunityWalletInitChangeSignerCommunityMultisig multisig_address new_signer is_add_operation
         n_of_m vote_duration_epochs) = Some (V7_CommunityWalletInitChangeSignerCommunityMultisig multisig_address
         new_signer is_add_operation n_of_m vote_duration_epochs)"
  | "v6_upgrade (V6_CommunityWalletInitFinalizeAndCage _ _) = None"
  | "v6_upgrade (V6_CommunityWalletInitInitCommunity check_addresses check_threshold) = Some
         (V7_CommunityWalletInitInitCommunity check_addresses check_threshold)"
  | "v6_upgrade (V6_DiemGovernanceAddApprovedScriptHashScript proposal_id) = Some
         (V7_DiemGovernanceAddApprovedScriptHashScript proposal_id)"
  | "v6_upgrade (V6_DiemGovernanceAssertCanResolve proposal_id) = Some (V7_DiemGovernanceAssertCanResolve
         proposal_id)"
  | "v6_upgrade (V6_DiemGovernanceCreateProposal _ _ _ _) = None"
  | "v6_upgrade (V6_DiemGovernanceCreateProposalV2 _ _ _ _ _) = None"
  | "v6_upgrade (V6_DiemGovernanceOlCreateProposalV2 execution_hash metadata_location metadata_hash
         is_multi_step_proposal) = Some (V7_DiemGovernanceOlCreateProposalV2 execution_hash metadata_location
         metadata_hash is_multi_step_proposal)"
  | "v6_upgrade (V6_DiemGovernanceOlVote proposal_id should_pass) = Some (V7_DiemGovernanceOlVote proposal_id
         should_pass)"
  | "v6_upgrade V6_DiemGovernanceSmokeTriggerEpoch = Some V7_DiemGovernanceSmokeTriggerEpoch"
  | "v6_upgrade V6_DiemGovernanceTriggerEpoch = Some V7_DiemGovernanceTriggerEpoch"
  | "v6_upgrade (V6_DiemGovernanceVote proposal_id should_pass) = Some (V7_DiemGovernanceVote proposal_id
         should_pass)"
  | "v6_upgrade (V6_DonorVoiceTxsProposeLiquidateTx multisig_address) = Some (V7_DonorVoiceTxsProposeLiquidateTx
         multisig_address)"
  | "v6_upgrade (V6_DonorVoiceTxsProposePaymentTx multisig_address payee value description) = Some
         (V7_DonorVoiceTxsProposePaymentTx multisig_address payee value description)"
  | "v6_upgrade (V6_DonorVoiceTxsProposeVetoTx multisig_address tx_id) = Some (V7_DonorVoiceTxsProposeVetoTx
         multisig_address tx_id)"
  | "v6_upgrade (V6_DonorVoiceTxsVoteLiquidationTx multisig_address) = Some (V7_DonorVoiceTxsVoteLiquidationTx
         multisig_address)"
  | "v6_upgrade (V6_DonorVoiceTxsVoteVetoTx multisig_address tx_id) = Some (V7_DonorVoiceTxsVoteVetoTx
         multisig_address tx_id)"
  | "v6_upgrade V6_EpochBoundarySmokeTriggerEpoch = Some V7_EpochBoundarySmokeTriggerEpoch"
  | "v6_upgrade (V6_JailUnjailByVoucher addr) = Some (V7_JailUnjailByVoucher addr)"
  | "v6_upgrade V6_LibraCoinClaimMintCapability = Some V7_LibraCoinClaimMintCapability"
  | "v6_upgrade (V6_LibraCoinDelegateMintCapability to_account) = Some (V7_LibraCoinDelegateMintCapability
         to_account)"
  | "v6_upgrade (V6_LibraCoinMintToImpl dst_addr amount) = Some (V7_LibraCoinMintToImpl dst_addr amount)"
  | "v6_upgrade (V6_MultiActionFinalizeAndCage _ _) = None"
  | "v6_upgrade (V6_MultisigAccountAddOwner new_owner) = Some (V7_MultisigAccountAddOwner new_owner)"
  | "v6_upgrade (V6_MultisigAccountAddOwners new_owners) = Some (V7_MultisigAccountAddOwners new_owners)"
  | "v6_upgrade (V6_MultisigAccountApproveTransaction multisig_account sequence_number) = Some
         (V7_MultisigAccountApproveTransaction multisig_account sequence_number)"
  | "v6_upgrade (V6_MultisigAccountCreate num_signatures_required metadata_keys metadata_values) = Some
         (V7_MultisigAccountCreate num_signatures_required metadata_keys metadata_values)"
  | "v6_upgrade (V6_MultisigAccountCreateTransaction multisig_account payload) = Some
         (V7_MultisigAccountCreateTransaction multisig_account payload)"
  | "v6_upgrade (V6_MultisigAccountCreateTransactionWithHash multisig_account payload_hash) = Some
         (V7_MultisigAccountCreateTransactionWithHash multisig_account payload_hash)"
  | "v6_upgrade (V6_MultisigAccountCreateWithExistingAccount multisig_address owners num_signatures_required
         account_scheme account_public_key create_multisig_account_signed_message metadata_keys metadata_values) =
         Some (V7_MultisigAccountCreateWithExistingAccount multisig_address owners num_signatures_required
         account_scheme account_public_key create_multisig_account_signed_message metadata_keys metadata_values)"
  | "v6_upgrade (V6_MultisigAccountCreateWithOwners additional_owners num_signatures_required metadata_keys
         metadata_values) = Some (V7_MultisigAccountCreateWithOwners additional_owners num_signatures_required
         metadata_keys metadata_values)"
  | "v6_upgrade (V6_MultisigAccountExecuteRejectedTransaction multisig_account) = Some
         (V7_MultisigAccountExecuteRejectedTransaction multisig_account)"
  | "v6_upgrade (V6_MultisigAccountMigrateWithOwners additional_owners num_signatures_required metadata_keys
         metadata_values) = Some (V7_MultisigAccountMigrateWithOwners additional_owners num_signatures_required
         metadata_keys metadata_values)"
  | "v6_upgrade (V6_MultisigAccountRejectTransaction multisig_account sequence_number) = Some
         (V7_MultisigAccountRejectTransaction multisig_account sequence_number)"
  | "v6_upgrade (V6_MultisigAccountRemoveOwner owner_to_remove) = Some (V7_MultisigAccountRemoveOwner
         owner_to_remove)"
  | "v6_upgrade (V6_MultisigAccountRemoveOwners owners_to_remove) = Some (V7_MultisigAccountRemoveOwners
         owners_to_remove)"
  | "v6_upgrade (V6_MultisigAccountUpdateMetadata keys values) = Some (V7_MultisigAccountUpdateMetadata keys values)"
  | "v6_upgrade (V6_MultisigAccountUpdateSignaturesRequired new_num_signatures_required) = Some
         (V7_MultisigAccountUpdateSignaturesRequired new_num_signatures_required)"
  | "v6_upgrade (V6_MultisigAccountVoteTransanction multisig_account sequence_number approved) = Some
         (V7_MultisigAccountVoteTransanction multisig_account sequence_number approved)"
  | "v6_upgrade (V6_ObjectTransferCall object to_account) = Some (V7_ObjectTransferCall object to_account)"
  | "v6_upgrade (V6_OlAccountCreateAccount auth_key) = Some (V7_OlAccountCreateAccount auth_key)"
  | "v6_upgrade (V6_OlAccountSetAllowDirectCoinTransfers allow) = Some (V7_OlAccountSetAllowDirectCoinTransfers
         allow)"
  | "v6_upgrade (V6_OlAccountTransfer to_account amount) = Some (V7_OlAccountTransfer to_account amount)"
  | "v6_upgrade V6_OracleInitProvider = None"
  | "v6_upgrade V6_ProofOfFeeInitBidding = Some V7_ProofOfFeeInitBidding"
  | "v6_upgrade V6_ProofOfFeePofRetractBid = Some V7_ProofOfFeePofRetractBid"
  | "v6_upgrade (V6_ProofOfFeePofUpdateBid bid epoch_expiry) = Some (V7_ProofOfFeePofUpdateBid bid epoch_expiry)"
  | "v6_upgrade V6_SafeInitPaymentMultisig = None"
  | "v6_upgrade (V6_SlowWalletSmokeTestVmUnlock user_addr unlocked transferred) = Some
         (V7_SlowWalletSmokeTestVmUnlock user_addr unlocked transferred)"
  | "v6_upgrade V6_SlowWalletUserSetSlow = Some V7_SlowWalletUserSetSlow"
  | "v6_upgrade (V6_StakeInitializeStakeOwner _ _ _) = None"
  | "v6_upgrade (V6_StakeInitializeValidator consensus_pubkey proof_of_possession network_addresses
         fullnode_addresses) = Some (V7_StakeInitializeValidator consensus_pubkey proof_of_possession
         network_addresses fullnode_addresses)"
  | "v6_upgrade (V6_StakeRotateConsensusKey validator_address new_consensus_pubkey proof_of_possession) = Some
         (V7_StakeRotateConsensusKey validator_address new_consensus_pubkey proof_of_possession)"
  | "v6_upgrade (V6_StakeSetOperator _) = None"
  | "v6_upgrade (V6_StakeUpdateNetworkAndFullnodeAddresses validator_address new_network_addresses
         new_fullnode_addresses) = Some (V7_StakeUpdateNetworkAndFullnodeAddresses validator_address
         new_network_addresses new_fullnode_addresses)"
  | "v6_upgrade (V6_TowerStateMinerstateCommit _ _ _ _) = None"
  | "v6_upgrade (V6_ValidatorUniverseRegisterValidator consensus_pubkey proof_of_possession network_addresses
         fullnode_addresses) = Some (V7_ValidatorUniverseRegisterValidator consensus_pubkey proof_of_possession
         network_addresses fullnode_addresses)"
  | "v6_upgrade (V6_VersionSetVersion major) = Some (V7_VersionSetVersion major)"
  | "v6_upgrade (V6_VouchInsistVouchFor wanna_be_my_friend) = Some (V7_VouchInsistVouchFor wanna_be_my_friend)"
  | "v6_upgrade (V6_VouchRevoke its_not_me_its_you) = Some (V7_VouchRevoke its_not_me_its_you)"
  | "v6_upgrade (V6_VouchVouchFor wanna_be_my_friend) = Some (V7_VouchVouchFor wanna_be_my_friend)"

lemma v6_keys_distinct: "distinct (map fst V6_SCRIPT_FUNCTION_DECODER_MAP)"
  by code_simp

lemma v6_decoder_lookup:
  "map_of V6_SCRIPT_FUNCTION_DECODER_MAP ''account_offer_rotation_capability'' = Some
         v6_dec_account_offer_rotation_capability"
  "map_of V6_SCRIPT_FUNCTION_DECODER_MAP ''account_offer_signer_capability'' = Some
         v6_dec_account_offer_signer_capability"
  "map_of V6_SCRIPT_FUNCTION_DECODER_MAP ''account_revoke_any_rotation_capability'' = Some
         v6_dec_account_revoke_any_rotation_capability"
  "map_of V6_SCRIPT_FUNCTION_DECODER_MAP ''account_revoke_any_signer_capability'' = Some
         v6_dec_account_revoke_any_signer_capability"
  "map_of V6_SCRIPT_FUNCTION_DECODER_MAP ''account_revoke_rotation_capability'' = Some
         v6_dec_account_revoke_rotation_capability"
  "map_of V6_SCRIPT_FUNCTION_DECODER_MAP ''account_revoke_signer_capability'' = Some
         v6_dec_account_revoke_signer_capability"
  "map_of V6_SCRIPT_FUNCTION_DECODER_MAP ''account_rotate_authentication_key'' = Some
         v6_dec_account_rotate_authentication_key"
  "map_of V6_SCRIPT_FUNCTION_DECODER_MAP ''account_rotate_authentication_key_with_rotation_capability'' = Some
         v6_dec_account_rotate_authentication_key_with_rotation_capability"
  "map_of V6_SCRIPT_FUNCTION_DECODER_MAP ''burn_set_send_community'' = Some v6_dec_burn_set_send_community"
  "map_of V6_SCRIPT_FUNCTION_DECODER_MAP ''code_publish_package_txn'' = Some v6_dec_code_publish_package_txn"
  "map_of V6_SCRIPT_FUNCTION_DECODER_MAP ''coin_transfer'' = Some v6_dec_coin_transfer"
  "map_of V6_SCRIPT_FUNCTION_DECODER_MAP ''community_wallet_init_change_signer_community_multisig'' = Some
         v6_dec_community_wallet_init_change_signer_community_multisig"
  "map_of V6_SCRIPT_FUNCTION_DECODER_MAP ''community_wallet_init_finalize_and_cage'' = Some
         v6_dec_community_wallet_init_finalize_and_cage"
  "map_of V6_SCRIPT_FUNCTION_DECODER_MAP ''community_wallet_init_init_community'' = Some
         v6_dec_community_wallet_init_init_community"
  "map_of V6_SCRIPT_FUNCTION_DECODER_MAP ''diem_governance_add_approved_script_hash_script'' = Some
         v6_dec_diem_governance_add_approved_script_hash_script"
  "map_of V6_SCRIPT_FUNCTION_DECODER_MAP ''diem_governance_assert_can_resolve'' = Some
         v6_dec_diem_governance_assert_can_resolve"
  "map_of V6_SCRIPT_FUNCTION_DECODER_MAP ''diem_governance_create_proposal'' = Some
         v6_dec_diem_governance_create_proposal"
  "map_of V6_SCRIPT_FUNCTION_DECODER_MAP ''diem_governance_create_proposal_v2'' = Some
         v6_dec_diem_governance_create_proposal_v2"
  "map_of V6_SCRIPT_FUNCTION_DECODER_MAP ''diem_governance_ol_create_proposal_v2'' = Some
         v6_dec_diem_governance_ol_create_proposal_v2"
  "map_of V6_SCRIPT_FUNCTION_DECODER_MAP ''diem_governance_ol_vote'' = Some v6_dec_diem_governance_ol_vote"
  "map_of V6_SCRIPT_FUNCTION_DECODER_MAP ''diem_governance_smoke_trigger_epoch'' = Some
         v6_dec_diem_governance_smoke_trigger_epoch"
  "map_of V6_SCRIPT_FUNCTION_DECODER_MAP ''diem_governance_trigger_epoch'' = Some
         v6_dec_diem_governance_trigger_epoch"
  "map_of V6_SCRIPT_FUNCTION_DECODER_MAP ''diem_governance_vote'' = Some v6_dec_diem_governance_vote"
  "map_of V6_SCRIPT_FUNCTION_DECODER_MAP ''donor_voice_txs_propose_liquidate_tx'' = Some
         v6_dec_donor_voice_txs_propose_liquidate_tx"
  "map_of V6_SCRIPT_FUNCTION_DECODER_MAP ''donor_voice_txs_propose_payment_tx'' = Some
         v6_dec_donor_voice_txs_propose_payment_tx"
  "map_of V6_SCRIPT_FUNCTION_DECODER_MAP ''donor_voice_txs_propose_veto_tx'' = Some
         v6_dec_donor_voice_txs_propose_veto_tx"
  "map_of V6_SCRIPT_FUNCTION_DECODER_MAP ''donor_voice_txs_vote_liquidation_tx'' = Some
         v6_dec_donor_voice_txs_vote_liquidation_tx"
  "map_of V6_SCRIPT_FUNCTION_DECODER_MAP ''donor_voice_txs_vote_veto_tx'' = Some v6_dec_donor_voice_txs_vote_veto_tx"
  "map_of V6_SCRIPT_FUNCTION_DECODER_MAP ''epoch_boundary_smoke_trigger_epoch'' = Some
         v6_dec_epoch_boundary_smoke_trigger_epoch"
  "map_of V6_SCRIPT_FUNCTION_DECODER_MAP ''jail_unjail_by_voucher'' = Some v6_dec_jail_unjail_by_voucher"
  "map_of V6_SCRIPT_FUNCTION_DECODER_MAP ''libra_coin_claim_mint_capability'' = Some
         v6_dec_libra_coin_claim_mint_capability"
  "map_of V6_SCRIPT_FUNCTION_DECODER_MAP ''libra_coin_delegate_mint_capability'' = Some
         v6_dec_libra_coin_delegate_mint_capability"
  "map_of V6_SCRIPT_FUNCTION_DECODER_MAP ''libra_coin_mint_to_impl'' = Some v6_dec_libra_coin_mint_to_impl"
  "map_of V6_SCRIPT_FUNCTION_DECODER_MAP ''multi_action_finalize_and_cage'' = Some
         v6_dec_multi_action_finalize_and_cage"
  "map_of V6_SCRIPT_FUNCTION_DECODER_MAP ''multisig_account_add_owner'' = Some v6_dec_multisig_account_add_owner"
  "map_of V6_SCRIPT_FUNCTION_DECODER_MAP ''multisig_account_add_owners'' = Some v6_dec_multisig_account_add_owners"
  "map_of V6_SCRIPT_FUNCTION_DECODER_MAP ''multisig_account_approve_transaction'' = Some
         v6_dec_multisig_account_approve_transaction"
  "map_of V6_SCRIPT_FUNCTION_DECODER_MAP ''multisig_account_create'' = Some v6_dec_multisig_account_create"
  "map_of V6_SCRIPT_FUNCTION_DECODER_MAP ''multisig_account_create_transaction'' = Some
         v6_dec_multisig_account_create_transaction"
  "map_of V6_SCRIPT_FUNCTION_DECODER_MAP ''multisig_account_create_transaction_with_hash'' = Some
         v6_dec_multisig_account_create_transaction_with_hash"
  "map_of V6_SCRIPT_FUNCTION_DECODER_MAP ''multisig_account_create_with_existing_account'' = Some
         v6_dec_multisig_account_create_with_existing_account"
  "map_of V6_SCRIPT_FUNCTION_DECODER_MAP ''multisig_account_create_with_owners'' = Some
         v6_dec_multisig_account_create_with_owners"
  "map_of V6_SCRIPT_FUNCTION_DECODER_MAP ''multisig_account_execute_rejected_transaction'' = Some
         v6_dec_multisig_account_execute_rejected_transaction"
  "map_of V6_SCRIPT_FUNCTION_DECODER_MAP ''multisig_account_migrate_with_owners'' = Some
         v6_dec_multisig_account_migrate_with_owners"
  "map_of V6_SCRIPT_FUNCTION_DECODER_MAP ''multisig_account_reject_transaction'' = Some
         v6_dec_multisig_account_reject_transaction"
  "map_of V6_SCRIPT_FUNCTION_DECODER_MAP ''multisig_account_remove_owner'' = Some
         v6_dec_multisig_account_remove_owner"
  "map_of V6_SCRIPT_FUNCTION_DECODER_MAP ''multisig_account_remove_owners'' = Some
         v6_dec_multisig_account_remove_owners"
  "map_of V6_SCRIPT_FUNCTION_DECODER_MAP ''multisig_account_update_metadata'' = Some
         v6_dec_multisig_account_update_metadata"
  "map_of V6_SCRIPT_FUNCTION_DECODER_MAP ''multisig_account_update_signatures_required'' = Some
         v6_dec_multisig_account_update_signatures_required"
  "map_of V6_SCRIPT_FUNCTION_DECODER_MAP ''multisig_account_vote_transanction'' = Some
         v6_dec_multisig_account_vote_transanction"
  "map_of V6_SCRIPT_FUNCTION_DECODER_MAP ''object_transfer_call'' = Some v6_dec_object_transfer_call"
  "map_of V6_SCRIPT_FUNCTION_DECODER_MAP ''ol_account_create_account'' = Some v6_dec_ol_account_create_account"
  "map_of V6_SCRIPT_FUNCTION_DECODER_MAP ''ol_account_set_allow_direct_coin_transfers'' = Some
         v6_dec_ol_account_set_allow_direct_coin_transfers"
  "map_of V6_SCRIPT_FUNCTION_DECODER_MAP ''ol_account_transfer'' = Some v6_dec_ol_account_transfer"
  "map_of V6_SCRIPT_FUNCTION_DECODER_MAP ''oracle_init_provider'' = Some v6_dec_oracle_init_provider"
  "map_of V6_SCRIPT_FUNCTION_DECODER_MAP ''proof_of_fee_init_bidding'' = Some v6_dec_proof_of_fee_init_bidding"
  "map_of V6_SCRIPT_FUNCTION_DECODER_MAP ''proof_of_fee_pof_retract_bid'' = Some v6_dec_proof_of_fee_pof_retract_bid"
  "map_of V6_SCRIPT_FUNCTION_DECODER_MAP ''proof_of_fee_pof_update_bid'' = Some v6_dec_proof_of_fee_pof_update_bid"
  "map_of V6_SCRIPT_FUNCTION_DECODER_MAP ''safe_init_payment_multisig'' = Some v6_dec_safe_init_payment_multisig"
  "map_of V6_SCRIPT_FUNCTION_DECODER_MAP ''slow_wallet_smoke_test_vm_unlock'' = Some
         v6_dec_slow_wallet_smoke_test_vm_unlock"
  "map_of V6_SCRIPT_FUNCTION_DECODER_MAP ''slow_wallet_user_set_slow'' = Some v6_dec_slow_wallet_user_set_slow"
  "map_of V6_SCRIPT_FUNCTION_DECODER_MAP ''stake_initialize_stake_owner'' = Some v6_dec_stake_initialize_stake_owner"
  "map_of V6_SCRIPT_FUNCTION_DECODER_MAP ''stake_initialize_validator'' = Some v6_dec_stake_initialize_validator"
  "map_of V6_SCRIPT_FUNCTION_DECODER_MAP ''stake_rotate_consensus_key'' = Some v6_dec_stake_rotate_consensus_key"
  "map_of V6_SCRIPT_FUNCTION_DECODER_MAP ''stake_set_operator'' = Some v6_dec_stake_set_operator"
  "map_of V6_SCRIPT_FUNCTION_DECODER_MAP ''stake_update_network_and_fullnode_addresses'' = Some
         v6_dec_stake_update_network_and_fullnode_addresses"
  "map_of V6_SCRIPT_FUNCTION_DECODER_MAP ''tower_state_minerstate_commit'' = Some
         v6_dec_tower_state_minerstate_commit"
  "map_of V6_SCRIPT_FUNCTION_DECODER_MAP ''validator_universe_register_validator'' = Some
         v6_dec_validator_universe_register_validator"
  "map_of V6_SCRIPT_FUNCTION_DECODER_MAP ''version_set_version'' = Some v6_dec_version_set_version"
  "map_of V6_SCRIPT_FUNCTION_DECODER_MAP ''vouch_insist_vouch_for'' = Some v6_dec_vouch_insist_vouch_for"
  "map_of V6_SCRIPT_FUNCTION_DECODER_MAP ''vouch_revoke'' = Some v6_dec_vouch_revoke"
  "map_of V6_SCRIPT_FUNCTION_DECODER_MAP ''vouch_vouch_for'' = Some v6_dec_vouch_vouch_for"
  by (rule map_of_is_SomeI[OF v6_keys_distinct];
      subst V6_SCRIPT_FUNCTION_DECODER_MAP_def; (rule list.set_intros)+)+

text \<open>The entry functions of version six that version seven has no decoder for.\<close>

definition v7_retired_keys :: "string list" where
  "v7_retired_keys =
     [''diem_governance_create_proposal'', ''multi_action_finalize_and_cage'', ''oracle_init_provider'',
      ''stake_initialize_stake_owner'', ''stake_set_operator'', ''tower_state_minerstate_commit'']"

lemma v7_retired_keys_gone: "list_all (\<lambda>k. k \<notin> set (map fst V7_SCRIPT_FUNCTION_DECODER_MAP)) v7_retired_keys"
  by code_simp

lemma v7_retired_None: "k \<in> set v7_retired_keys \<Longrightarrow> map_of V7_SCRIPT_FUNCTION_DECODER_MAP k = None"
  using v7_retired_keys_gone by (simp add: list_all_iff map_of_eq_None_iff)

lemma v7_retired_lookup:
  "map_of V7_SCRIPT_FUNCTION_DECODER_MAP ''diem_governance_create_proposal'' = None"
  "map_of V7_SCRIPT_FUNCTION_DECODER_MAP ''multi_action_finalize_and_cage'' = None"
  "map_of V7_SCRIPT_FUNCTION_DECODER_MAP ''oracle_init_provider'' = None"
  "map_of V7_SCRIPT_FUNCTION_DECODER_MAP ''stake_initialize_stake_owner'' = None"
  "map_of V7_SCRIPT_FUNCTION_DECODER_MAP ''stake_set_operator'' = None"
  "map_of V7_SCRIPT_FUNCTION_DECODER_MAP ''tower_state_minerstate_commit'' = None"
  by (rule v7_retired_None; subst v7_retired_keys_def; (rule list.set_intros)+)+

lemmas v6_builders =
  v6_account_offer_rotation_capability_def v6_account_offer_signer_capability_def
         v6_account_revoke_any_rotation_capability_def v6_account_revoke_any_signer_capability_def
         v6_account_revoke_rotation_capability_def v6_account_revoke_signer_capability_def
         v6_account_rotate_authentication_key_def v6_account_rotate_authentication_key_with_rotation_capability_def
         v6_burn_set_send_community_def v6_code_publish_package_txn_def v6_coin_transfer_def
         v6_community_wallet_init_change_signer_community_multisig_def
         v6_community_wallet_init_finalize_and_cage_def v6_community_wallet_init_init_community_def
         v6_diem_governance_add_approved_script_hash_script_def v6_diem_governance_assert_can_resolve_def
         v6_diem_governance_create_proposal_def v6_diem_governance_create_proposal_v2_def
         v6_diem_governance_ol_create_proposal_v2_def v6_diem_governance_ol_vote_def
         v6_diem_governance_smoke_trigger_epoch_def v6_diem_governance_trigger_epoch_def
         v6_diem_governance_vote_def v6_donor_voice_txs_propose_liquidate_tx_def
         v6_donor_voice_txs_propose_payment_tx_def v6_donor_voice_txs_propose_veto_tx_def
         v6_donor_voice_txs_vote_liquidation_tx_def v6_donor_voice_txs_vote_veto_tx_def
         v6_epoch_boundary_smoke_trigger_epoch_def v6_jail_unjail_by_voucher_def
         v6_libra_coin_claim_mint_capability_def v6_libra_coin_delegate_mint_capability_def
         v6_libra_coin_mint_to_impl_def v6_multi_action_finalize_and_cage_def v6_multisig_account_add_owner_def
         v6_multisig_account_add_owners_def v6_multisig_account_approve_transaction_def
         v6_multisig_account_create_def v6_multisig_account_create_transaction_def
         v6_multisig_account_create_transaction_with_hash_def v6_multisig_account_create_with_existing_account_def
         v6_multisig_account_create_with_owners_def v6_multisig_account_execute_rejected_transaction_def
         v6_multisig_account_migrate_with_owners_def v6_multisig_account_reject_transaction_def
         v6_multisig_account_remove_owner_def v6_multisig_account_remove_owners_def
         v6_multisig_account_update_metadata_def v6_multisig_account_update_signatures_required_def
         v6_multisig_account_vote_transanction_def v6_object_transfer_call_def v6_ol_account_create_account_def
         v6_ol_account_set_allow_direct_coin_transfers_def v6_ol_account_transfer_def v6_oracle_init_provider_def
         v6_proof_of_fee_init_bidding_def v6_proof_of_fee_pof_retract_bid_def v6_proof_of_fee_pof_update_bid_def
         v6_safe_init_payment_multisig_def v6_slow_wallet_smoke_test_vm_unlock_def v6_slow_wallet_user_set_slow_def
         v6_stake_initialize_stake_owner_def v6_stake_initialize_validator_def v6_stake_rotate_consensus_key_def
         v6_stake_set_operator_def v6_stake_update_network_and_fullnode_addresses_def
         v6_tower_state_minerstate_commit_def v6_validator_universe_register_validator_def
         v6_version_set_version_def v6_vouch_insist_vouch_for_def v6_vouch_revoke_def v6_vouch_vouch_for_def

lemmas v6_decoders =
  v6_dec_account_offer_rotation_capability_def v6_dec_account_offer_signer_capability_def
         v6_dec_account_revoke_any_rotation_capability_def v6_dec_account_revoke_any_signer_capability_def
         v6_dec_account_revoke_rotation_capability_def v6_dec_account_revoke_signer_capability_def
         v6_dec_account_rotate_authentication_key_def
         v6_dec_account_rotate_authentication_key_with_rotation_capability_def v6_dec_burn_set_send_community_def
         v6_dec_code_publish_package_txn_def v6_dec_coin_transfer_def
         v6_dec_community_wallet_init_change_signer_community_multisig_def
         v6_dec_community_wallet_init_finalize_and_cage_def v6_dec_community_wallet_init_init_community_def
         v6_dec_diem_governance_add_approved_script_hash_script_def v6_dec_diem_governance_assert_can_resolve_def
         v6_dec_diem_governance_create_proposal_def v6_dec_diem_governance_create_proposal_v2_def
         v6_dec_diem_governance_ol_create_proposal_v2_def v6_dec_diem_governance_ol_vote_def
         v6_dec_diem_governance_smoke_trigger_epoch_def v6_dec_diem_governance_trigger_epoch_def
         v6_dec_diem_governance_vote_def v6_dec_donor_voice_txs_propose_liquidate_tx_def
         v6_dec_donor_voice_txs_propose_payment_tx_def v6_dec_donor_voice_txs_propose_veto_tx_def
         v6_dec_donor_voice_txs_vote_liquidation_tx_def v6_dec_donor_voice_txs_vote_veto_tx_def
         v6_dec_epoch_boundary_smoke_trigger_epoch_def v6_dec_jail_unjail_by_voucher_def
         v6_dec_libra_coin_claim_mint_capability_def v6_dec_libra_coin_delegate_mint_capability_def
         v6_dec_libra_coin_mint_to_impl_def v6_dec_multi_action_finalize_and_cage_def
         v6_dec_multisig_account_add_owner_def v6_dec_multisig_account_add_owners_def
         v6_dec_multisig_account_approve_transaction_def v6_dec_multisig_account_create_def
         v6_dec_multisig_account_create_transaction_def v6_dec_multisig_account_create_transaction_with_hash_def
         v6_dec_multisig_account_create_with_existing_account_def v6_dec_multisig_account_create_with_owners_def
         v6_dec_multisig_account_execute_rejected_transaction_def v6_dec_multisig_account_migrate_with_owners_def
         v6_dec_multisig_account_reject_transaction_def v6_dec_multisig_account_remove_owner_def
         v6_dec_multisig_account_remove_owners_def v6_dec_multisig_account_update_metadata_def
         v6_dec_multisig_account_update_signatures_required_def v6_dec_multisig_account_vote_transanction_def
         v6_dec_object_transfer_call_def v6_dec_ol_account_create_account_def
         v6_dec_ol_account_set_allow_direct_coin_transfers_def v6_dec_ol_account_transfer_def
         v6_dec_oracle_init_provider_def v6_dec_proof_of_fee_init_bidding_def
         v6_dec_proof_of_fee_pof_retract_bid_def v6_dec_proof_of_fee_pof_update_bid_def
         v6_dec_safe_init_payment_multisig_def v6_dec_slow_wallet_smoke_test_vm_unlock_def
         v6_dec_slow_wallet_user_set_slow_def v6_dec_stake_initialize_stake_owner_def
         v6_dec_stake_initialize_validator_def v6_dec_stake_rotate_consensus_key_def v6_dec_stake_set_operator_def
         v6_dec_stake_update_network_and_fullnode_addresses_def v6_dec_tower_state_minerstate_commit_def
         v6_dec_validator_universe_register_validator_def v6_dec_version_set_version_def
         v6_dec_vouch_insist_vouch_for_def v6_dec_vouch_revoke_def v6_dec_vouch_vouch_for_def

section \<open>Round trip and version seven\<close>

text \<open>
  Two entry functions kept their name and lost their first argument: the decoder of version seven then reads the
  arguments of these calls at the wrong types.
\<close>

definition reshaped :: "EntryFunctionCallV6 \<Rightarrow> bool" where
  "reshaped call =
     (case call of
        V6_CommunityWalletInitFinalizeAndCage initial_authorities num_signers \<Rightarrow> True
      | V6_DiemGovernanceCreateProposalV2 stake_pool execution_hash metadata_location metadata_hash multi_step \<Rightarrow> True
      | _ \<Rightarrow> False)"

context bcs_args
begin

lemmas v6_eval = v6_builders entry_function_def generic_entry_function_def arg_at_def ty_arg_at_def

lemma v6_decode_encode:
  assumes "list_all is_address (v6_call_addresses call)"
  shows "v6_decode b (v6_encode b call) = Some call"
  using assms by (cases call) (simp_all add: v6_decode_def v6_decoder_lookup v6_decoders v6_eval)

lemma v7_decode_v6_encode:
  assumes "list_all is_address (v6_call_addresses call)" and "\<not> reshaped call"
  shows "v7_decode b (v6_encode b call) = v6_upgrade call"
  using assms
  by (cases call) (simp_all add: v7_decode_def v7_decoder_lookup v7_retired_lookup v7_decoders v6_eval reshaped_def)

end

text \<open>
  Decoding inverts encoding for version six too: with BCS codecs that invert each other, the payload of any of its
  calls (with addresses of 32 bytes) decodes to that call.
\<close>

theorem v6_roundtrip:
  assumes "bcs_args b" and "list_all is_address (v6_call_addresses call)"
  shows "v6_decode b (v6_encode b call) = Some call"
  using assms by (rule bcs_args.v6_decode_encode)

theorem v6_roundtrip_witness:
  "v6_decode ref_bcs (v6_encode ref_bcs (V6_OlAccountTransfer (replicate 32 7) 5)) =
     Some (V6_OlAccountTransfer (replicate 32 7) 5)"
  by (rule v6_roundtrip[OF ref_bcs.bcs_args_axioms]) simp

text \<open>
  What version seven makes of a transaction of version six: except for the two entry functions that lost their first
  argument, a call that both have with the same arguments is read as that call, and every other one is refused.
\<close>

theorem v7_decoder_on_v6:
  assumes "bcs_args b" and "list_all is_address (v6_call_addresses call)" and "\<not> reshaped call"
  shows "v7_decode b (v6_encode b call) = v6_upgrade call"
  using assms by (rule bcs_args.v7_decode_v6_encode)

theorem v7_decoder_on_v6_witness:
  "v7_decode ref_bcs (v6_encode ref_bcs (V6_OlAccountTransfer (replicate 32 7) 5)) =
     Some (V7_OlAccountTransfer (replicate 32 7) 5)"
  using v7_decoder_on_v6[OF ref_bcs.bcs_args_axioms, of "V6_OlAccountTransfer (replicate 32 7) 5"]
  by (simp add: reshaped_def)

text \<open>
  The exception is real. A governance proposal of version six from a stake pool whose address starts with the byte 31,
  with an empty metadata hash, is a payload that the decoder of version seven accepts, as another proposal: the rest of
  the address is taken for the execution hash, the execution hash for the metadata location, the location for the
  metadata hash, and the empty hash for the flag of a proposal of one step.
\<close>

theorem v6_proposal_misread:
  assumes "length rest = 31"
  shows "v7_decode ref_bcs (v6_encode ref_bcs
       (V6_DiemGovernanceCreateProposalV2 (31 # rest) execution_hash metadata_location [] multi_step)) =
     Some (V7_DiemGovernanceCreateProposalV2 rest execution_hash metadata_location False)"
proof -
  have "sr_bytes ref_bcs rest = sr_addr ref_bcs (31 # rest)"
    using assms by (simp add: ref_bcs_def bcs_list_def uleb.simps)
  with ref_bcs.de_bytes[of rest] have address: "ds_bytes ref_bcs (sr_addr ref_bcs (31 # rest)) = Some rest" by simp
  have flag: "ds_bool ref_bcs (sr_bytes ref_bcs []) = Some False"
    by (simp add: ref_bcs_def bcs_list_def uleb.simps)
  show ?thesis
    by (simp add: v7_decode_def v7_decoder_lookup v6_diem_governance_create_proposal_v2_def entry_function_def
        v7_dec_diem_governance_create_proposal_v2_def arg_at_def address flag)
qed

end
