(* ===== verification/Spec2Isabelle.thy ===== *)
theory Spec2Isabelle
  imports Genesis_Migrate Genesis_Compare Storage_Restore Storage_Snapshot Txs_Cli Cli_Config Testnet Sdk_V6
begin

text \<open>
  Verification of the Rust code of the Libra framework: the tools around the chain, not the Move code
  that runs on it.

  \<^bold>\<open>The program and its parts.\<close> The repository holds a node's command line tools and the libraries they share:

  \<^item> \<^verbatim>\<open>src/types\<close>: configuration (profiles, network playlists, pledges, costs), balances and the Rust images of
    Move resources, used by every tool.
  \<^item> \<^verbatim>\<open>src/tools/wallet\<close>: mnemonics and keys of an account.
  \<^item> \<^verbatim>\<open>src/compatibility\<close>: readers for the archives of version five and the recovery record of version six.
  \<^item> \<^verbatim>\<open>src/tools/genesis\<close>: the migration of recovery records into a genesis block, its audit, and the ceremony in which
    validators register for it on GitHub.
  \<^item> \<^verbatim>\<open>src/tools/storage\<close>: the folders of a backup archive, and the commands that restore a database from them.
  \<^item> \<^verbatim>\<open>src/framework/cached-packages\<close>: the generated builders and decoders of entry function payloads.
  \<^item> \<^verbatim>\<open>src/tools/query\<close> and \<^verbatim>\<open>src/tools/txs\<close>: reading the chain through a node, and signing and submitting
    transactions.
  \<^item> \<^verbatim>\<open>src/tools/config\<close>: the wizard that makes the configuration of a user and the files of a node, and the editor of the former.
  \<^item> \<^verbatim>\<open>src/tools/rescue\<close> and \<^verbatim>\<open>src/tools/testnet\<close>: write sets for a database at rest, made in an offline VM session, and
    the new or twin networks started with them.

  The first four meet in the recovery record: the compatibility readers produce it, the genesis tool fixes it, replays it
  as Move calls in a VM session and compares the result with it. The query and transaction tools meet in the payload: the commands build
  it with the generated builders, the sender signs it with the keys of the wallet and the profile of the
  configuration, the node answers. The configuration wizard writes the validator
  files that the transaction commands, the genesis ceremony and the rescue tool read.

  \<^bold>\<open>Theories.\<close>

  \<^item> \<open>Prelude\<close>: machine integers as words (arithmetic wraps, as in the release profile of the workspace),
    \<open>anyhow::Result\<close> with panics as the type \<open>rres\<close>, bit lists, shared list lemmas.
  \<^item> \<open>Rust_Std\<close>, \<open>BTree_Map\<close>, \<open>F64\<close>: what the sources use of the standard library. Strings, parsing and
    hexadecimal text; ordered maps with the contract \<open>ordered_map\<close>; double precision arithmetic, where a
    non-negative \<open>f64\<close> is the real it denotes and every operation rounds to 53 bits.
  \<^item> \<open>Account_Address\<close>: the contract of the vendor's 32 byte address, \<open>address_display\<close> and \<open>address_text\<close>.
  \<^item> \<open>Wordlist\<close>, \<open>Sha256\<close>, \<open>Mnemonic\<close>: \<^verbatim>\<open>tools/wallet/src/core/mnemonic.rs\<close>. The 11-bit reader and writer, generation and
    parsing of phrases. Shown: the round trip in both directions, injectivity, totality, no panics.
  \<^item> \<open>Wallet\<close>, \<open>Wallet_Files\<close>: the rest of \<^verbatim>\<open>tools/wallet/src\<close>. Key derivation, the wallet library, key chains
    (\<^verbatim>\<open>core/key_factory.rs\<close>, \<^verbatim>\<open>core/wallet_library.rs\<close>, \<^verbatim>\<open>account_keys.rs\<close>), the key and configuration files of a validator
    (\<^verbatim>\<open>keys.rs\<close>, \<^verbatim>\<open>key_gen.rs\<close>, \<^verbatim>\<open>validator_files.rs\<close>). Shown: a printed phrase recovers all keys, what a generated
    wallet answers, when its loop ends, that no account key reaches a file, what the key generator reports.
  \<^item> \<open>Legacy_Address\<close>, \<open>Hash_Value\<close>, \<open>Language_Storage\<close>, \<open>Account_State\<close>, \<open>Archive_V5\<close>:
    \<^verbatim>\<open>compatibility/src/version_five\<close>. Addresses, event keys, hashes with their bit iterator, type tags with the nesting
    guard, resources in account states, transaction and snapshot archives. Shown: round trips of all textual and
    serde forms, injectivity of access vectors, store laws, the manifest check as a specification of
    contiguous chunks.
  \<^item> \<open>Playlist\<close>, \<open>Pledge\<close>, \<open>App_Cfg\<close>: \<^verbatim>\<open>types/src/core_types\<close> and the balance type of
    \<^verbatim>\<open>types/src/move_resource/gas_coin.rs\<close>. Shown: profile and playlist lists as keyed collections, the saved
    configuration loads back, what a refresh of the nodes marks and sorts, rounding of coin amounts.
  \<^item> \<open>Recovery\<close>, \<open>Supply\<close>, \<open>Comm_Wallet\<close>, \<open>Genesis_Migrate\<close>, \<open>Genesis_Compare\<close>: the recovery record of
    \<^verbatim>\<open>compatibility/src/legacy_recovery_v6.rs\<close> with the resources of \<^verbatim>\<open>types/src/move_resource\<close>, and
    \<^verbatim>\<open>tools/genesis/src\<close>: \<^verbatim>\<open>parse_json.rs\<close>, \<^verbatim>\<open>supply.rs\<close>, \<^verbatim>\<open>process_comm_wallet.rs\<close>, \<^verbatim>\<open>genesis_functions.rs\<close>,
    the session of \<^verbatim>\<open>vm.rs\<close>, \<^verbatim>\<open>compare.rs\<close>, \<^verbatim>\<open>genesis_reader.rs\<close> and the audit of \<^verbatim>\<open>genesis_builder.rs\<close>. Shown: the migration
    refines a list of Move calls and conserves coins, the supply statistics are exact up to \<open>2 ^ 53\<close>, the
    audit is sound and what its caller makes of it.
  \<^item> \<open>Json\<close>: the values of \<^verbatim>\<open>serde_json\<close> with the accessors the sources call.
  \<^item> \<open>Storage_Folders\<close>, \<open>Storage_Restore\<close>, \<open>Storage_Snapshot\<close>: \<^verbatim>\<open>tools/storage/src\<close>. The names of backup
    folders and the search among them, the restore bundle, its checks and the order of the restore phases, the reading of
    snapshot chunks. Shown: the search returns the closest folder, a loaded bundle is consistent.
  \<^item> \<open>Bcs_Args\<close>, \<open>Sdk_Builder\<close>: \<^verbatim>\<open>libra_framework_sdk_builder.rs\<close> with the argument codec as the contract \<open>bcs_args\<close>.
    Every builder and every decoder is a definition. Shown: each call decodes from its own payload, and that the decoder
    does not look at the address of the module.
  \<^item> \<open>Sdk_V7\<close>, \<open>Sdk_V6\<close>: \<^verbatim>\<open>v7_libra_framework_sdk_builder.rs\<close> and \<^verbatim>\<open>v6_libra_framework_sdk_builder.rs\<close>, the builders of
    the two releases before, and what each next release's decoder makes of their payloads. Shown: decoding
    inverts encoding, calls keep their meaning from version seven to the current release, and one proposal of version six
    that version seven misreads.
  \<^item> \<open>Client_Ext\<close>, \<open>Query\<close>: \<^verbatim>\<open>types/src/type_extensions/client_ext.rs\<close> (\<^verbatim>\<open>ClientExt\<close>) and \<^verbatim>\<open>tools/query/src\<close>. Function
    names and arguments given as text, view calls, the queries and their JSON answers. Shown: the payload
    of a textual call, one query that can not answer.
  \<^item> \<open>Txs_Sender\<close>, \<open>Txs_Commands\<close>, \<open>Txs_Community\<close>, \<open>Txs_Stream\<close>, \<open>Txs_Cli\<close>: \<^verbatim>\<open>tools/txs/src\<close>. The sender, the
    user, validator, governance and community commands, the batch of a file, the stream of background
    transactions, the dispatch of the command line. A node is a record of answers with its own state; the log \<open>nt_sent\<close>
    of the model collects what was submitted, so that theorems can say which payloads reach the chain and in which order.
    The stream's threads are an \<open>inductive\<close> step relation over a queue. Shown: what one submission does, that a
    command submits at most one transaction, that a batch pays the rows of its file, that the stream only
    sends triggers, that it makes progress while transactions succeed and stops when one fails.
  \<^item> \<open>Config_Edit\<close>, \<open>Config_Init\<close>, \<open>Cli_Config\<close>: \<^verbatim>\<open>tools/config/src\<close> and the vendor profiles of
    \<^verbatim>\<open>types/src/type_extensions/cli_config_ext.rs\<close>. The menus of \<^verbatim>\<open>libra config fix\<close> as a session on a desk with the list of the user's
    answers; the wizard, the download of genesis files, node templates, validator dialogues and registration
    files; the search for a workspace. Shown: a session of the editor writes once or not at all, exact removal of a profile, the seeds
    of a full node's file, that a chosen default profile is not used, that \<^verbatim>\<open>fix\<close> misses the path given to \<^verbatim>\<open>init\<close>, that making a vendor
    profile forgets the others.
  \<^item> \<open>Rescue_Session\<close>, \<open>Rescue\<close>: \<^verbatim>\<open>tools/rescue/src\<close> and the twin of \<^verbatim>\<open>tools/testnet/src\<close>. A session is the state of the VM with a
    log of what it accepted; the world holds files and databases by path. Shown: the list of Move calls behind a
    change set, that only a bootstrap with its flag changes a database and what it has checked before, that one step
    applies a blob once, which database a twin patches.
  \<^item> \<open>Genesis_Registration\<close>, \<open>Genesis_Build\<close>, \<open>Testnet\<close>: \<^verbatim>\<open>genesis_registration.rs\<close>, \<^verbatim>\<open>github_extensions.rs\<close>,
    \<^verbatim>\<open>genesis_builder.rs\<close>, \<^verbatim>\<open>wizard.rs\<close>, \<^verbatim>\<open>cli.rs\<close> and the second half of \<^verbatim>\<open>vm.rs\<close> in \<^verbatim>\<open>tools/genesis/src\<close>, and the genesis of a test
    network in \<^verbatim>\<open>config_virgin.rs\<close>. Shown: a registration is read back as it was made, all validators or none, the
    files of a build and their order with the audit, the personas of a test network.

  \<^bold>\<open>Conventions.\<close> A struct is a record with prefixed fields, an enum a datatype. A method on \<open>&mut self\<close> returns the new
  value. \<open>Err\<close> and \<open>Panic\<close> are values, so every \<open>bail!\<close>, \<open>?\<close>, \<open>unwrap\<close>, \<open>expect\<close> and \<open>assert!\<close> is a branch. Loops are
  structural recursions over the list they walk, or functions with a termination proof; no fuel is used. The one loop that
  may run forever, in \<open>generate_addresses\<close>, is a partial function whose value is then \<open>None\<close>.
  Files are a map from paths to contents. An operation with effects is a function of the type \<open>io\<close> of \<open>Prelude\<close>: it takes
  the state of the world it touches and returns its result with the new state, so effects before an error remain.

  \<^bold>\<open>Parameters.\<close> Code outside the repository is an argument of the definitions that call it: SHA-2 and SHA-3, HKDF
  and PBKDF2, signature and network keys, the \<open>hex\<close> crate, BCS, JSON and YAML codecs, HTTP clients, the user's answers, the GitHub client, the state database, the Move
  VM and compiler, and the vendor's genesis initializers. Their documented behaviour is stated in the locales \<open>sha256_digest\<close>,
  \<open>hex_crate\<close>, \<open>bcs_canonical\<close>, \<open>bcs_value\<close>, \<open>resource_lookup\<close>, \<open>pledge_digest\<close>, \<open>completion_order\<close>,
  \<open>key_crypto\<close>, \<open>address_roundtrip\<close>, \<open>address_display\<close>, \<open>address_text\<close>, \<open>address_literal\<close>, \<open>ordered_map\<close>,
  \<open>bundle_reader\<close>, \<open>bcs_args\<close>, \<open>local_signer\<close>, \<open>move_names\<close>, \<open>rescue_database\<close> and \<open>registration_service\<close>, each interpreted on a concrete model.

  \<^bold>\<open>Not modelled.\<close> The Move sources; the script builders of version five, whose bodies are compiled
  bytecode; the release and upgrade builder, which
  drives the Move compiler; command line parsing, the text of prompts, progress bars and logging; network, process and database drivers;
  swarms of running nodes, tests and their fixtures.
\<close>

end
